(* ===== verification/Gb_Prelude.thy ===== *)
theory Gb_Prelude
  imports Main "HOL-Library.Word"
begin

text \<open>
  Shared vocabulary of the development.

  \<^item> Rust's integer types as \<open>word\<close>s (\<open>+\<close> and \<open>-\<close> wrap, as \<open>wrapping_add\<close> and
    \<open>wrapping_sub\<close> do, and as the plain operators do in the release profile);
    \<open>usize\<close> is \<open>nat\<close>, since it only measures buffers that fit in memory.
  \<^item> A panic (\<open>expect\<close>, \<open>unreachable!\<close>, \<open>assert!\<close>, an index out of range) is a
    value of \<open>rust_panic\<close>, and a fallible computation has the type \<open>'a res\<close>.
  \<^item> A \<open>&mut self\<close> method that may panic is a state transformer with a result,
    \<open>('s, 'a) sm\<close>; \<open>wp\<close> is its weakest precondition, which excludes panics.
  \<^item> Little- and big-endian splitting of 16-bit values, slices with \<open>get\<close>.
\<close>

unbundle bit_operations_syntax

type_synonym u8 = "8 word"
type_synonym u16 = "16 word"
type_synonym u32 = "32 word"
type_synonym u64 = "64 word"

datatype rust_panic =
    ExpectFailed
  | Unreachable
  | AssertFailed
  | IndexOutOfBounds
  | ExplicitPanic
  | CounterOverflow

type_synonym 'a res = "rust_panic + 'a"

named_theorems wp_simps \<open>weakest preconditions of the state transformers\<close>
named_theorems byte_simps \<open>splitting and joining bytes\<close>

subsection \<open>Results\<close>

definition res_bind :: "'a res \<Rightarrow> ('a \<Rightarrow> 'b res) \<Rightarrow> 'b res" where
  "res_bind m f = (case m of Inl e \<Rightarrow> Inl e | Inr x \<Rightarrow> f x)"

definition res_map :: "('a \<Rightarrow> 'b) \<Rightarrow> 'a res \<Rightarrow> 'b res" where
  "res_map f m = (case m of Inl e \<Rightarrow> Inl e | Inr x \<Rightarrow> Inr (f x))"

lemma res_bind_simps [simp]:
  "res_bind (Inl e) f = Inl e"
  "res_bind (Inr x) f = f x"
  by (simp_all add: res_bind_def)

lemma res_map_simps [simp]:
  "res_map f (Inl e) = Inl e"
  "res_map f (Inr x) = Inr (f x)"
  by (simp_all add: res_map_def)

lemma res_bind_eq_Inr:
  "res_bind m f = Inr y \<longleftrightarrow> (\<exists>x. m = Inr x \<and> f x = Inr y)"
  by (cases m) simp_all

subsection \<open>State transformers that may panic\<close>

type_synonym ('s, 'a) sm = "'s \<Rightarrow> ('a \<times> 's) res"

definition sm_return :: "'a \<Rightarrow> ('s, 'a) sm" where
  "sm_return x = (\<lambda>s. Inr (x, s))"

definition sm_bind :: "('s, 'a) sm \<Rightarrow> ('a \<Rightarrow> ('s, 'b) sm) \<Rightarrow> ('s, 'b) sm" where
  "sm_bind m f = (\<lambda>s. case m s of Inl e \<Rightarrow> Inl e | Inr (x, s') \<Rightarrow> f x s')"

definition sm_then :: "('s, 'a) sm \<Rightarrow> ('s, 'b) sm \<Rightarrow> ('s, 'b) sm" where
  "sm_then m k = sm_bind m (\<lambda>_. k)"

definition sm_gets :: "('s \<Rightarrow> 'a) \<Rightarrow> ('s, 'a) sm" where
  "sm_gets f = (\<lambda>s. Inr (f s, s))"

definition sm_modify :: "('s \<Rightarrow> 's) \<Rightarrow> ('s, unit) sm" where
  "sm_modify f = (\<lambda>s. Inr ((), f s))"

definition sm_panic :: "rust_panic \<Rightarrow> ('s, 'a) sm" where
  "sm_panic e = (\<lambda>_. Inl e)"

definition sm_lift :: "'a res \<Rightarrow> ('s, 'a) sm" where
  "sm_lift m = (\<lambda>s. case m of Inl e \<Rightarrow> Inl e | Inr x \<Rightarrow> Inr (x, s))"

definition wp :: "('s, 'a) sm \<Rightarrow> ('a \<Rightarrow> 's \<Rightarrow> bool) \<Rightarrow> 's \<Rightarrow> bool" where
  "wp m Q s = (case m s of Inl _ \<Rightarrow> False | Inr (x, s') \<Rightarrow> Q x s')"

lemmas sm_defs =
  sm_return_def sm_bind_def sm_then_def sm_gets_def sm_modify_def sm_panic_def sm_lift_def

lemma sm_run_simps:
  "sm_return x s = Inr (x, s)"
  "sm_gets f s = Inr (f s, s)"
  "sm_modify g s = Inr ((), g s)"
  "sm_panic e s = Inl e"
  by (simp_all add: sm_defs)

lemma wp_return [wp_simps]: "wp (sm_return x) Q s \<longleftrightarrow> Q x s"
  by (simp add: wp_def sm_defs)

lemma wp_bind [wp_simps]: "wp (sm_bind m f) Q s \<longleftrightarrow> wp m (\<lambda>x. wp (f x) Q) s"
  by (auto simp: wp_def sm_defs split: sum.splits)

lemma wp_then [wp_simps]: "wp (sm_then m k) Q s \<longleftrightarrow> wp m (\<lambda>_. wp k Q) s"
  by (simp add: sm_then_def wp_bind)

lemma wp_gets [wp_simps]: "wp (sm_gets f) Q s \<longleftrightarrow> Q (f s) s"
  by (simp add: wp_def sm_defs)

lemma wp_modify [wp_simps]: "wp (sm_modify f) Q s \<longleftrightarrow> Q () (f s)"
  by (simp add: wp_def sm_defs)

lemma wp_panic [wp_simps]: "\<not> wp (sm_panic e) Q s"
  by (simp add: wp_def sm_defs)

lemma wp_lift_Inr [wp_simps]: "wp (sm_lift (Inr x)) Q s \<longleftrightarrow> Q x s"
  by (simp add: wp_def sm_defs)

lemma wp_lift_Inl [wp_simps]: "\<not> wp (sm_lift (Inl e)) Q s"
  by (simp add: wp_def sm_defs)

lemma wp_if [wp_simps]:
  "wp (if b then m else k) Q s \<longleftrightarrow> (if b then wp m Q s else wp k Q s)"
  by simp

lemma wp_mono: "wp m P s \<Longrightarrow> (\<And>x s'. P x s' \<Longrightarrow> Q x s') \<Longrightarrow> wp m Q s"
  by (auto simp: wp_def split: sum.splits)

lemma wp_conj: "wp m P s \<Longrightarrow> wp m Q s \<Longrightarrow> wp m (\<lambda>x s'. P x s' \<and> Q x s') s"
  by (auto simp: wp_def split: sum.splits)

lemma wp_iff_run: "wp m Q s \<longleftrightarrow> (\<exists>x s'. m s = Inr (x, s') \<and> Q x s')"
  by (auto simp: wp_def split: sum.splits)

lemma wpE:
  assumes "wp m Q s"
  obtains x s' where "m s = Inr (x, s')" and "Q x s'"
  using assms by (auto simp: wp_iff_run)

subsection \<open>Bytes and slices\<close>

definition u16_from_u8 :: "u8 \<Rightarrow> u16" where
  "u16_from_u8 b = ucast b"

definition lo_byte :: "u16 \<Rightarrow> u8" where
  "lo_byte w = ucast w"

definition hi_byte :: "u16 \<Rightarrow> u8" where
  "hi_byte w = ucast (drop_bit 8 w)"

definition from_be_bytes :: "u8 \<Rightarrow> u8 \<Rightarrow> u16" where
  "from_be_bytes hi lo = push_bit 8 (ucast hi) OR ucast lo"

definition u8_of_bool :: "bool \<Rightarrow> u8" where
  "u8_of_bool b = (if b then 1 else 0)"

lemma bit_u8_of_bool: "bit (u8_of_bool b) n = (b \<and> n = 0)"
  by (simp add: u8_of_bool_def bit_1_iff)

definition slice_get :: "'a list \<Rightarrow> nat \<Rightarrow> 'a option" where
  "slice_get xs i = (if i < length xs then Some (xs ! i) else None)"

definition index_get :: "'a list \<Rightarrow> nat \<Rightarrow> 'a res" where
  "index_get xs i = (if i < length xs then Inr (xs ! i) else Inl IndexOutOfBounds)"

definition index_set :: "'a list \<Rightarrow> nat \<Rightarrow> 'a \<Rightarrow> 'a list res" where
  "index_set xs i v = (if i < length xs then Inr (xs[i := v]) else Inl IndexOutOfBounds)"

lemma lo_byte_from_be [simp]: "lo_byte (from_be_bytes hi lo) = lo"
  by (rule bit_word_eqI)
    (auto simp: lo_byte_def from_be_bytes_def bit_simps)

lemma hi_byte_from_be [simp]: "hi_byte (from_be_bytes hi lo) = hi"
  by (rule bit_word_eqI)
    (auto simp: hi_byte_def from_be_bytes_def bit_simps dest: bit_imp_le_length)

lemma from_be_hi_lo [simp]: "from_be_bytes (hi_byte w) (lo_byte w) = w"
  by (rule bit_word_eqI)
    (auto simp: hi_byte_def lo_byte_def from_be_bytes_def bit_simps dest: bit_imp_le_length)

subsection \<open>Facts about words\<close>

text \<open>
  A property of all bytes is a finite conjunction; the simplifier evaluates it
  byte by byte (\<open>upt_rec\<close>), inside the kernel.
\<close>

lemma u8_exhaust: "(\<forall>x::u8. P x) \<longleftrightarrow> list_all (\<lambda>n. P (of_nat n)) [0..<256]"
proof -
  have "P x" if "\<forall>n<256. P (of_nat n)" for x :: u8
    using that [rule_format, of "unat x"] unsigned_less [of x] by simp
  then show ?thesis by (auto simp: list_all_iff)
qed

lemma u8_all_cases:
  assumes "list_all (\<lambda>n. P (of_nat n)) [0..<256]"
  shows "P (x::u8)"
  using assms u8_exhaust [of P] by simp

lemmas bitwise_iffs = bit_and_iff bit_or_iff bit_xor_iff bit_not_iff

lemma word_bits_eq_iff: "(a :: 'a::len word) = b \<longleftrightarrow> (\<forall>n<LENGTH('a). bit a n = bit b n)"
  by (auto intro: bit_word_eqI)

text \<open>The same with the bytes written out, which the simplifier evaluates fastest.\<close>

lemma u8_byte_cases:
  assumes "list_all P [
    0, 1, 2, 3, 4, 5, 6, 7, 8, 9, 10, 11, 12, 13, 14, 15, 16, 17, 18, 19, 20, 21, 22, 23,
    24, 25, 26, 27, 28, 29, 30, 31, 32, 33, 34, 35, 36, 37, 38, 39, 40, 41, 42, 43, 44, 45,
    46, 47, 48, 49, 50, 51, 52, 53, 54, 55, 56, 57, 58, 59, 60, 61, 62, 63, 64, 65, 66, 67,
    68, 69, 70, 71, 72, 73, 74, 75, 76, 77, 78, 79, 80, 81, 82, 83, 84, 85, 86, 87, 88, 89,
    90, 91, 92, 93, 94, 95, 96, 97, 98, 99, 100, 101, 102, 103, 104, 105, 106, 107, 108,
    109, 110, 111, 112, 113, 114, 115, 116, 117, 118, 119, 120, 121, 122, 123, 124, 125,
    126, 127, 128, 129, 130, 131, 132, 133, 134, 135, 136, 137, 138, 139, 140, 141, 142,
    143, 144, 145, 146, 147, 148, 149, 150, 151, 152, 153, 154, 155, 156, 157, 158, 159,
    160, 161, 162, 163, 164, 165, 166, 167, 168, 169, 170, 171, 172, 173, 174, 175, 176,
    177, 178, 179, 180, 181, 182, 183, 184, 185, 186, 187, 188, 189, 190, 191, 192, 193,
    194, 195, 196, 197, 198, 199, 200, 201, 202, 203, 204, 205, 206, 207, 208, 209, 210,
    211, 212, 213, 214, 215, 216, 217, 218, 219, 220, 221, 222, 223, 224, 225, 226, 227,
    228, 229, 230, 231, 232, 233, 234, 235, 236, 237, 238, 239, 240, 241, 242, 243, 244,
    245, 246, 247, 248, 249, 250, 251, 252, 253, 254, 255]"
  shows "P (x::u8)"
proof (rule u8_all_cases)
  have "map of_nat [0..<256] = ([
    0, 1, 2, 3, 4, 5, 6, 7, 8, 9, 10, 11, 12, 13, 14, 15, 16, 17, 18, 19, 20, 21, 22, 23,
    24, 25, 26, 27, 28, 29, 30, 31, 32, 33, 34, 35, 36, 37, 38, 39, 40, 41, 42, 43, 44, 45,
    46, 47, 48, 49, 50, 51, 52, 53, 54, 55, 56, 57, 58, 59, 60, 61, 62, 63, 64, 65, 66, 67,
    68, 69, 70, 71, 72, 73, 74, 75, 76, 77, 78, 79, 80, 81, 82, 83, 84, 85, 86, 87, 88, 89,
    90, 91, 92, 93, 94, 95, 96, 97, 98, 99, 100, 101, 102, 103, 104, 105, 106, 107, 108,
    109, 110, 111, 112, 113, 114, 115, 116, 117, 118, 119, 120, 121, 122, 123, 124, 125,
    126, 127, 128, 129, 130, 131, 132, 133, 134, 135, 136, 137, 138, 139, 140, 141, 142,
    143, 144, 145, 146, 147, 148, 149, 150, 151, 152, 153, 154, 155, 156, 157, 158, 159,
    160, 161, 162, 163, 164, 165, 166, 167, 168, 169, 170, 171, 172, 173, 174, 175, 176,
    177, 178, 179, 180, 181, 182, 183, 184, 185, 186, 187, 188, 189, 190, 191, 192, 193,
    194, 195, 196, 197, 198, 199, 200, 201, 202, 203, 204, 205, 206, 207, 208, 209, 210,
    211, 212, 213, 214, 215, 216, 217, 218, 219, 220, 221, 222, 223, 224, 225, 226, 227,
    228, 229, 230, 231, 232, 233, 234, 235, 236, 237, 238, 239, 240, 241, 242, 243, 244,
    245, 246, 247, 248, 249, 250, 251, 252, 253, 254, 255] :: u8 list)"
    by (simp add: upt_rec)
  with assms show "list_all (\<lambda>n. P (of_nat n)) [0..<256]"
    by (metis (no_types, lifting) list.pred_map comp_def list.pred_cong)
qed

lemma u16_neq_Suc [simp]: "(w::u16) + 1 \<noteq> w" "w \<noteq> w + 1" "w - 1 \<noteq> w" "w \<noteq> w - 1"
  by simp_all

lemma and_fixed_iff: "(x::'a::len word) AND m = x \<longleftrightarrow> x AND NOT m = 0"
proof
  assume h: "x AND m = x"
  have "x AND NOT m = (x AND m) AND NOT m" using h by simp
  also have "\<dots> = 0" by (simp add: and.assoc)
  finally show "x AND NOT m = 0" .
next
  assume h: "x AND NOT m = 0"
  have "x = (x AND m) OR (x AND NOT m)"
    by (rule bit_word_eqI) (auto simp: bit_simps)
  with h show "x AND m = x" by simp
qed

lemma unat_and_low_bits: "unat (a AND Bit_Operations.mask n) = unat (a::'a::len word) mod 2 ^ n"
  by (simp only: take_bit_eq_mask [symmetric] unsigned_take_bit_eq) (simp only: take_bit_eq_mod)

subsection \<open>Edges of counter bits\<close>

text \<open>
  Several components watch one bit of a free-running 16-bit counter and act when it falls:
  bit \<open>b\<close> falls exactly when the counter passes a multiple of \<open>2 * 2^b\<close>.
\<close>

lemma odd_div_iff_mod:
  assumes "0 < (q::nat)"
  shows "odd (x div q) \<longleftrightarrow> q \<le> x mod (2 * q)"
proof -
  have "x mod (2 * q) = q * (x div q mod 2) + x mod q"
    by (metis mod_mult2_eq mult.commute)
  moreover have "x mod q < q" using assms by simp
  ultimately show ?thesis by (cases "odd (x div q)") (auto simp: odd_iff_mod_2_eq_one)
qed

lemma unat_suc_mod:
  assumes "b < 16"
  shows "unat ((w::u16) + 1) mod (2 * 2 ^ b)
    = (if Suc (unat w mod (2 * 2 ^ b)) = 2 * 2 ^ b then 0 else Suc (unat w mod (2 * 2 ^ b)))"
proof -
  have "(2::nat) ^ Suc b dvd 2 ^ 16" using assms by (intro le_imp_power_dvd) simp
  then have "(2::nat) * 2 ^ b dvd 65536" by simp
  moreover have "unat (w + 1) = Suc (unat w) mod 65536"
    by (simp add: unat_word_ariths)
  ultimately have "unat (w + 1) mod (2 * 2 ^ b) = Suc (unat w) mod (2 * 2 ^ b)"
    by (simp add: mod_mod_cancel)
  then show ?thesis by (simp only: mod_Suc)
qed

lemma bit_u16_iff: "bit (w::u16) b \<longleftrightarrow> 2 ^ b \<le> unat w mod (2 * 2 ^ b)"
proof -
  have "bit w b \<longleftrightarrow> bit (unat w) b" by (auto simp: bit_unsigned_iff dest: bit_imp_le_length)
  also have "\<dots> \<longleftrightarrow> 2 ^ b \<le> unat w mod (2 * 2 ^ b)"
    by (simp only: bit_iff_odd) (rule odd_div_iff_mod, simp)
  finally show ?thesis .
qed

lemma falling_edge_iff:
  assumes "b < 16"
  shows "bit (w::u16) b \<and> \<not> bit (w + 1) b \<longleftrightarrow> Suc (unat w mod (2 * 2 ^ b)) = 2 * 2 ^ b"
  using assms by (auto simp: bit_u16_iff unat_suc_mod)

definition u64_saturating_add :: "u64 \<Rightarrow> u64 \<Rightarrow> u64" where
  "u64_saturating_add a b = (if a + b < a then - 1 else a + b)"

definition u8_saturating_add :: "u8 \<Rightarrow> u8 \<Rightarrow> u8" where
  "u8_saturating_add a b = (if a + b < a then - 1 else a + b)"

end
