(* ===== verification/Cart_Header.thy ===== *)
theory Cart_Header
  imports Gb_Prelude
begin

text \<open>
  The parts of a parsed cartridge header (\<open>cartridge.rs\<close>) that the other components
  read: the CGB and SGB flags, the size fields and the header record itself.
\<close>

datatype cgb_flag =
    CgbNone
  | CgbSupported
  | CgbOnly
  | CgbSupportedNonCanonical u8
  | CgbUnknown u8

definition enables_cgb_native_mode :: "cgb_flag \<Rightarrow> bool" where
  "enables_cgb_native_mode flag =
     (case flag of
        CgbSupported \<Rightarrow> True
      | CgbOnly \<Rightarrow> True
      | CgbSupportedNonCanonical _ \<Rightarrow> True
      | _ \<Rightarrow> False)"

definition is_cgb_only :: "cgb_flag \<Rightarrow> bool" where
  "is_cgb_only flag = (case flag of CgbOnly \<Rightarrow> True | _ \<Rightarrow> False)"

definition requests_cgb_dmg_ext_mode :: "cgb_flag \<Rightarrow> bool" where
  "requests_cgb_dmg_ext_mode flag =
     (case flag of CgbSupportedNonCanonical v \<Rightarrow> v AND 0x08 \<noteq> 0 | _ \<Rightarrow> False)"

definition requests_cgb_dmg_compatibility_mode :: "cgb_flag \<Rightarrow> bool" where
  "requests_cgb_dmg_compatibility_mode flag =
     (case flag of CgbSupportedNonCanonical v \<Rightarrow> v AND 0x04 \<noteq> 0 | _ \<Rightarrow> False)"

datatype sgb_flag = SgbNone | SgbSupported | SgbUnknown u8

record rom_size_info =
  rom_raw_code :: u8
  rom_decoded_bytes :: "nat option"
  rom_bank_count :: "nat option"

record ram_size_info =
  ram_raw_code :: u8
  ram_decoded_bytes :: "nat option"
  ram_bank_count :: "nat option"

record cartridge_header =
  hdr_entry_point :: "u8 list"
  hdr_nintendo_logo :: "u8 list"
  hdr_title_bytes :: "u8 list"
  hdr_raw_title_suffix :: "u8 list"
  hdr_title :: "u8 list"
  hdr_cgb_flag :: cgb_flag
  hdr_sgb_flag :: sgb_flag
  hdr_cartridge_type :: u8
  hdr_rom_size :: rom_size_info
  hdr_ram_size :: ram_size_info
  hdr_new_licensee_code :: "u8 list"
  hdr_destination_code :: u8
  hdr_old_licensee_code :: u8
  hdr_header_checksum :: u8

end
