(* ===== verification/Gb_Model.thy ===== *)
theory Gb_Model
  imports Cart_Header
begin

text \<open>
  The model axes of \<open>model.rs\<close>: console model, hardware revision, operating mode, host
  platform and SGB profile, the capability set derived from them, the compatibility
  policy, and the configuration record with its builder methods.
  \<open>BootRomAssets\<close> only travels through the configuration, so its type is a parameter.
\<close>

datatype console_family = FamilyDmg | FamilyCgb

datatype console_model =
  GameBoy | GameBoyPocket | GameBoyLight | GameBoyColor | GameBoyAdvance

datatype operating_mode = ModeDmg | ModeCgb | ModeGbCompatible | ModeCgbDmgExt

datatype hardware_revision =
    DmgCpu0 | DmgCpuA | DmgCpuB | DmgCpuC | CpuMgb
  | CpuCgb0 | CpuCgbA | CpuCgbB | CpuCgbC | CpuCgbD | CpuCgbE
  | CpuAgb0 | CpuAgbA

datatype host_platform = Handheld | Sgb | Sgb2

datatype sgb_video_standard = Ntsc | Pal

datatype sgb_host_profile = SgbNtsc | SgbPal | Sgb2Ntsc

datatype startup_mode = SkipBoot | CustomBoot | RealBoot

datatype execution_mode = ExecStrict | ExecPermissive | ExecExperimental

datatype validation_policy = ValidateStrict | ValidateWarn | ValidateIgnore

datatype heuristic_policy = HeuristicDisabled | AllowExperimental

datatype diagnostic_policy = DiagQuiet | DiagStandard | DiagVerbose

subsection \<open>Console models and operating modes\<close>

fun family :: "console_model \<Rightarrow> console_family" where
  "family GameBoyColor = FamilyCgb"
| "family GameBoyAdvance = FamilyCgb"
| "family GameBoy = FamilyDmg"
| "family GameBoyPocket = FamilyDmg"
| "family GameBoyLight = FamilyDmg"

definition is_dmg_family :: "console_model \<Rightarrow> bool" where
  "is_dmg_family m = (family m = FamilyDmg)"

definition is_cgb_family :: "console_model \<Rightarrow> bool" where
  "is_cgb_family m = (family m = FamilyCgb)"

definition has_cgb_infrared_port :: "console_model \<Rightarrow> bool" where
  "has_cgb_infrared_port m = (m = GameBoyColor)"

definition default_operating_mode :: "console_model \<Rightarrow> operating_mode" where
  "default_operating_mode m = (case family m of FamilyDmg \<Rightarrow> ModeDmg | FamilyCgb \<Rightarrow> ModeCgb)"

fun default_revision :: "console_model \<Rightarrow> hardware_revision" where
  "default_revision GameBoy = DmgCpuC"
| "default_revision GameBoyPocket = CpuMgb"
| "default_revision GameBoyLight = CpuMgb"
| "default_revision GameBoyColor = CpuCgbD"
| "default_revision GameBoyAdvance = CpuAgbA"

fun active_revisions :: "console_model \<Rightarrow> hardware_revision list" where
  "active_revisions GameBoy = [DmgCpu0, DmgCpuC]"
| "active_revisions GameBoyPocket = [CpuMgb]"
| "active_revisions GameBoyLight = [CpuMgb]"
| "active_revisions GameBoyColor = [CpuCgb0, CpuCgbC, CpuCgbD, CpuCgbE]"
| "active_revisions GameBoyAdvance = [CpuAgb0, CpuAgbA]"

definition active_revisions_on_host ::
    "console_model \<Rightarrow> host_platform \<Rightarrow> hardware_revision list" where
  "active_revisions_on_host m host =
     (if m = GameBoy \<and> (host = Sgb \<or> host = Sgb2) then [DmgCpuC] else active_revisions m)"

fun supports_revision :: "console_model \<Rightarrow> hardware_revision \<Rightarrow> bool" where
  "supports_revision GameBoy r = (r = DmgCpu0 \<or> r = DmgCpuC)"
| "supports_revision GameBoyPocket r = (r = CpuMgb)"
| "supports_revision GameBoyLight r = (r = CpuMgb)"
| "supports_revision GameBoyColor r = (r = CpuCgb0 \<or> r = CpuCgbC \<or> r = CpuCgbD \<or> r = CpuCgbE)"
| "supports_revision GameBoyAdvance r = (r = CpuAgb0 \<or> r = CpuAgbA)"

definition supports_revision_on_host ::
    "console_model \<Rightarrow> host_platform \<Rightarrow> hardware_revision \<Rightarrow> bool" where
  "supports_revision_on_host m host r =
     (if m = GameBoy \<and> (host = Sgb \<or> host = Sgb2) then r = DmgCpuC
      else supports_revision m r)"

definition supports_operating_mode :: "console_model \<Rightarrow> operating_mode \<Rightarrow> bool" where
  "supports_operating_mode m mode =
     (case family m of
        FamilyDmg \<Rightarrow> mode = ModeDmg
      | FamilyCgb \<Rightarrow> mode = ModeCgb \<or> mode = ModeGbCompatible \<or> mode = ModeCgbDmgExt)"

definition direct_boot_operating_mode_for_cgb_flag ::
    "console_model \<Rightarrow> cgb_flag \<Rightarrow> operating_mode" where
  "direct_boot_operating_mode_for_cgb_flag m flag =
     (case family m of
        FamilyDmg \<Rightarrow> ModeDmg
      | FamilyCgb \<Rightarrow> if enables_cgb_native_mode flag then ModeCgb else ModeGbCompatible)"

definition direct_boot_operating_mode_for_cgb_flag_with_heuristic ::
    "console_model \<Rightarrow> cgb_flag \<Rightarrow> heuristic_policy \<Rightarrow> operating_mode" where
  "direct_boot_operating_mode_for_cgb_flag_with_heuristic m flag pol =
     (case family m of
        FamilyDmg \<Rightarrow> ModeDmg
      | FamilyCgb \<Rightarrow>
          if pol = AllowExperimental \<and> requests_cgb_dmg_ext_mode flag then ModeCgbDmgExt
          else if pol = AllowExperimental \<and> requests_cgb_dmg_compatibility_mode flag
          then ModeGbCompatible
          else direct_boot_operating_mode_for_cgb_flag m flag)"

definition uses_cgb_boot_rom :: "hardware_revision \<Rightarrow> bool" where
  "uses_cgb_boot_rom r =
     (r = CpuCgb0 \<or> r = CpuCgbA \<or> r = CpuCgbB \<or> r = CpuCgbC \<or> r = CpuCgbD \<or> r = CpuCgbE
      \<or> r = CpuAgb0 \<or> r = CpuAgbA)"

definition uses_dmg_software_contract :: "operating_mode \<Rightarrow> bool" where
  "uses_dmg_software_contract mode =
     (mode = ModeDmg \<or> mode = ModeGbCompatible \<or> mode = ModeCgbDmgExt)"

definition enables_cgb_extensions :: "operating_mode \<Rightarrow> bool" where
  "enables_cgb_extensions mode = (mode = ModeCgb)"

definition enables_cgb_speed_switch :: "operating_mode \<Rightarrow> bool" where
  "enables_cgb_speed_switch mode = (mode = ModeCgb \<or> mode = ModeCgbDmgExt)"

definition enables_cgb_high_speed_serial :: "operating_mode \<Rightarrow> bool" where
  "enables_cgb_high_speed_serial mode = (mode = ModeCgb \<or> mode = ModeCgbDmgExt)"

definition enables_cgb_infrared_register :: "operating_mode \<Rightarrow> bool" where
  "enables_cgb_infrared_register mode = (mode = ModeCgb \<or> mode = ModeCgbDmgExt)"

definition is_sgb :: "host_platform \<Rightarrow> bool" where
  "is_sgb host = (host = Sgb \<or> host = Sgb2)"

subsection \<open>SGB profiles\<close>

fun default_for_host_platform :: "host_platform \<Rightarrow> sgb_host_profile option" where
  "default_for_host_platform Handheld = None"
| "default_for_host_platform Sgb = Some SgbNtsc"
| "default_for_host_platform Sgb2 = Some Sgb2Ntsc"

fun profile_host_platform :: "sgb_host_profile \<Rightarrow> host_platform" where
  "profile_host_platform SgbNtsc = Sgb"
| "profile_host_platform SgbPal = Sgb"
| "profile_host_platform Sgb2Ntsc = Sgb2"

fun profile_video_standard :: "sgb_host_profile \<Rightarrow> sgb_video_standard" where
  "profile_video_standard SgbNtsc = Ntsc"
| "profile_video_standard Sgb2Ntsc = Ntsc"
| "profile_video_standard SgbPal = Pal"

definition game_link_supported :: "sgb_host_profile \<Rightarrow> bool" where
  "game_link_supported p = (p = Sgb2Ntsc)"

definition corrected_clock :: "sgb_host_profile \<Rightarrow> bool" where
  "corrected_clock p = (p = Sgb2Ntsc)"

record sgb_clock_rate =
  numerator_hz :: u64
  denominator :: u32

definition clock_rate_from_hz :: "u32 \<Rightarrow> sgb_clock_rate" where
  "clock_rate_from_hz hz = \<lparr>numerator_hz = ucast hz, denominator = 1\<rparr>"

definition clock_rate_divided_by :: "sgb_clock_rate \<Rightarrow> u32 \<Rightarrow> sgb_clock_rate" where
  "clock_rate_divided_by r divisor = r\<lparr>denominator := denominator r * divisor\<rparr>"

definition clock_rate_rounded_hz :: "sgb_clock_rate \<Rightarrow> u32" where
  "clock_rate_rounded_hz r =
     ucast ((numerator_hz r + ucast (denominator r div 2)) div ucast (denominator r) :: u64)"

record sgb_profile_timing =
  timing_source_master_clock_hz :: sgb_clock_rate
  timing_gb_master_clock_hz :: sgb_clock_rate
  timing_gb_clock_divisor :: u32
  timing_video_standard :: sgb_video_standard
  timing_corrected_clock :: bool

definition DMG_MASTER_CLOCK_HZ :: u32 where "DMG_MASTER_CLOCK_HZ = 4194304"
definition SGB_ICD2_CLOCK_DIVISOR :: u32 where "SGB_ICD2_CLOCK_DIVISOR = 5"

definition profile_source_hz :: "sgb_host_profile \<Rightarrow> u32" where
  "profile_source_hz p =
     (case p of
        SgbNtsc \<Rightarrow> 21477272
      | SgbPal \<Rightarrow> 21281370
      | Sgb2Ntsc \<Rightarrow> DMG_MASTER_CLOCK_HZ * SGB_ICD2_CLOCK_DIVISOR)"

definition profile_timing :: "sgb_host_profile \<Rightarrow> sgb_profile_timing" where
  "profile_timing p =
     (let source = clock_rate_from_hz (profile_source_hz p)
      in \<lparr>timing_source_master_clock_hz = source,
          timing_gb_master_clock_hz = clock_rate_divided_by source SGB_ICD2_CLOCK_DIVISOR,
          timing_gb_clock_divisor = SGB_ICD2_CLOCK_DIVISOR,
          timing_video_standard = profile_video_standard p,
          timing_corrected_clock = corrected_clock p\<rparr>)"

subsection \<open>Capabilities\<close>

record capability_set =
  cap_console_model :: console_model
  cap_console_family :: console_family
  cap_operating_mode :: operating_mode
  cap_host_platform :: host_platform
  cap_dmg_software_contract :: bool
  cap_cgb_extensions_enabled :: bool
  cap_dmg_family_quirks_enabled :: bool
  cap_sgb_enhancements_enabled :: bool

definition from_model_axes ::
    "console_model \<Rightarrow> operating_mode \<Rightarrow> host_platform \<Rightarrow> capability_set" where
  "from_model_axes m mode host =
     \<lparr>cap_console_model = m,
      cap_console_family = family m,
      cap_operating_mode = mode,
      cap_host_platform = host,
      cap_dmg_software_contract = uses_dmg_software_contract mode,
      cap_cgb_extensions_enabled = (is_cgb_family m \<and> enables_cgb_extensions mode),
      cap_dmg_family_quirks_enabled = is_dmg_family m,
      cap_sgb_enhancements_enabled = is_sgb host\<rparr>"

subsection \<open>Policies and the machine configuration\<close>

definition requires_boot_rom :: "startup_mode \<Rightarrow> bool" where
  "requires_boot_rom m = (m = RealBoot)"

definition uses_direct_boot_state :: "startup_mode \<Rightarrow> bool" where
  "uses_direct_boot_state m = (m = SkipBoot \<or> m = CustomBoot)"

record override_policy =
  forced_console_model :: "console_model option"
  forced_operating_mode :: "operating_mode option"
  forced_host_platform :: "host_platform option"
  forced_startup_mode :: "startup_mode option"

definition no_overrides :: override_policy where
  "no_overrides =
     \<lparr>forced_console_model = None, forced_operating_mode = None,
      forced_host_platform = None, forced_startup_mode = None\<rparr>"

definition has_overrides :: "override_policy \<Rightarrow> bool" where
  "has_overrides p =
     (forced_console_model p \<noteq> None \<or> forced_operating_mode p \<noteq> None
      \<or> forced_host_platform p \<noteq> None \<or> forced_startup_mode p \<noteq> None)"

record compatibility_policy =
  pol_execution_mode :: execution_mode
  pol_validation_policy :: validation_policy
  pol_heuristic_policy :: heuristic_policy
  pol_override_policy :: override_policy
  pol_diagnostic_policy :: diagnostic_policy

definition policy_strict :: compatibility_policy where
  "policy_strict =
     \<lparr>pol_execution_mode = ExecStrict, pol_validation_policy = ValidateStrict,
      pol_heuristic_policy = HeuristicDisabled, pol_override_policy = no_overrides,
      pol_diagnostic_policy = DiagStandard\<rparr>"

definition policy_permissive :: compatibility_policy where
  "policy_permissive =
     \<lparr>pol_execution_mode = ExecPermissive, pol_validation_policy = ValidateWarn,
      pol_heuristic_policy = HeuristicDisabled, pol_override_policy = no_overrides,
      pol_diagnostic_policy = DiagStandard\<rparr>"

definition policy_experimental :: compatibility_policy where
  "policy_experimental =
     \<lparr>pol_execution_mode = ExecExperimental, pol_validation_policy = ValidateWarn,
      pol_heuristic_policy = AllowExperimental, pol_override_policy = no_overrides,
      pol_diagnostic_policy = DiagVerbose\<rparr>"

record 'b machine_config =
  cfg_console_model :: console_model
  cfg_operating_mode :: operating_mode
  cfg_revision :: hardware_revision
  cfg_host_platform :: host_platform
  cfg_sgb_profile :: "sgb_host_profile option"
  cfg_startup_mode :: startup_mode
  cfg_boot_rom_assets :: 'b
  cfg_compatibility :: compatibility_policy

definition config_default :: "'b \<Rightarrow> 'b machine_config" where
  "config_default no_assets =
     \<lparr>cfg_console_model = GameBoy,
      cfg_operating_mode = default_operating_mode GameBoy,
      cfg_revision = default_revision GameBoy,
      cfg_host_platform = Handheld,
      cfg_sgb_profile = None,
      cfg_startup_mode = SkipBoot,
      cfg_boot_rom_assets = no_assets,
      cfg_compatibility = policy_strict\<rparr>"

definition config_new :: "'b \<Rightarrow> console_model \<Rightarrow> 'b machine_config" where
  "config_new no_assets m =
     (config_default no_assets)
       \<lparr>cfg_console_model := m,
        cfg_operating_mode := default_operating_mode m,
        cfg_revision := default_revision m\<rparr>"

definition with_console_model :: "console_model \<Rightarrow> 'b machine_config \<Rightarrow> 'b machine_config" where
  "with_console_model m c0 =
     (let c1 = c0\<lparr>cfg_console_model := m\<rparr>;
          c2 = (if \<not> supports_operating_mode m (cfg_operating_mode c1)
                then c1\<lparr>cfg_operating_mode := default_operating_mode m\<rparr> else c1)
      in if \<not> supports_revision_on_host m (cfg_host_platform c2) (cfg_revision c2)
         then c2\<lparr>cfg_revision := default_revision m\<rparr> else c2)"

definition with_operating_mode :: "operating_mode \<Rightarrow> 'b machine_config \<Rightarrow> 'b machine_config" where
  "with_operating_mode mode c = c\<lparr>cfg_operating_mode := mode\<rparr>"

definition with_revision :: "hardware_revision \<Rightarrow> 'b machine_config \<Rightarrow> 'b machine_config" where
  "with_revision r c = c\<lparr>cfg_revision := r\<rparr>"

definition normalize_revision_for_profile :: "'b machine_config \<Rightarrow> 'b machine_config" where
  "normalize_revision_for_profile c =
     (if \<not> supports_revision_on_host (cfg_console_model c) (cfg_host_platform c) (cfg_revision c)
      then c\<lparr>cfg_revision := default_revision (cfg_console_model c)\<rparr> else c)"

definition with_host_platform :: "host_platform \<Rightarrow> 'b machine_config \<Rightarrow> 'b machine_config" where
  "with_host_platform host c =
     normalize_revision_for_profile
       (c\<lparr>cfg_host_platform := host, cfg_sgb_profile := default_for_host_platform host\<rparr>)"

definition with_sgb_profile :: "sgb_host_profile \<Rightarrow> 'b machine_config \<Rightarrow> 'b machine_config" where
  "with_sgb_profile p c =
     normalize_revision_for_profile
       (c\<lparr>cfg_host_platform := profile_host_platform p, cfg_sgb_profile := Some p\<rparr>)"

definition with_startup_mode :: "startup_mode \<Rightarrow> 'b machine_config \<Rightarrow> 'b machine_config" where
  "with_startup_mode m c = c\<lparr>cfg_startup_mode := m\<rparr>"

definition with_boot_rom_assets :: "'b \<Rightarrow> 'b machine_config \<Rightarrow> 'b machine_config" where
  "with_boot_rom_assets assets c = c\<lparr>cfg_boot_rom_assets := assets\<rparr>"

definition with_compatibility ::
    "compatibility_policy \<Rightarrow> 'b machine_config \<Rightarrow> 'b machine_config" where
  "with_compatibility p c = c\<lparr>cfg_compatibility := p\<rparr>"

definition with_execution_mode :: "execution_mode \<Rightarrow> 'b machine_config \<Rightarrow> 'b machine_config" where
  "with_execution_mode m c =
     c\<lparr>cfg_compatibility := (cfg_compatibility c)\<lparr>pol_execution_mode := m\<rparr>\<rparr>"

definition config_capability_set :: "'b machine_config \<Rightarrow> capability_set" where
  "config_capability_set c =
     from_model_axes (cfg_console_model c) (cfg_operating_mode c) (cfg_host_platform c)"

definition uses_handheld_dmg0_revision :: "'b machine_config \<Rightarrow> bool" where
  "uses_handheld_dmg0_revision c =
     (cfg_console_model c = GameBoy \<and> cfg_revision c = DmgCpu0
      \<and> cfg_host_platform c = Handheld \<and> cfg_sgb_profile c = None)"

definition apply_direct_boot_cartridge_header ::
    "cartridge_header option \<Rightarrow> 'b machine_config \<Rightarrow> 'b machine_config" where
  "apply_direct_boot_cartridge_header header c =
     (if \<not> uses_direct_boot_state (cfg_startup_mode c) then c
      else
        let flag = (case header of None \<Rightarrow> CgbNone | Some h \<Rightarrow> hdr_cgb_flag h)
        in c\<lparr>cfg_operating_mode :=
              (case forced_operating_mode (pol_override_policy (cfg_compatibility c)) of
                 Some mode \<Rightarrow> mode
               | None \<Rightarrow>
                   direct_boot_operating_mode_for_cgb_flag_with_heuristic
                     (cfg_console_model c) flag (pol_heuristic_policy (cfg_compatibility c)))\<rparr>)"

fun sgb_profile_matches :: "host_platform \<Rightarrow> sgb_host_profile option \<Rightarrow> bool" where
  "sgb_profile_matches Handheld None = True"
| "sgb_profile_matches Handheld (Some _) = False"
| "sgb_profile_matches Sgb (Some p) = (profile_host_platform p = Sgb)"
| "sgb_profile_matches Sgb2 (Some p) = (profile_host_platform p = Sgb2)"
| "sgb_profile_matches _ None = False"

definition sgb_profile_matches_host_platform :: "'b machine_config \<Rightarrow> bool" where
  "sgb_profile_matches_host_platform c =
     sgb_profile_matches (cfg_host_platform c) (cfg_sgb_profile c)"

definition model_axes_are_coherent :: "'b machine_config \<Rightarrow> bool" where
  "model_axes_are_coherent c =
     (supports_operating_mode (cfg_console_model c) (cfg_operating_mode c)
      \<and> supports_revision_on_host (cfg_console_model c) (cfg_host_platform c) (cfg_revision c)
      \<and> sgb_profile_matches_host_platform c)"

subsection \<open>Coherence of the model axes\<close>

named_theorems axes_simps \<open>the model-axis predicates, case by case\<close>

lemmas axes_defs [axes_simps] =
  is_dmg_family_def is_cgb_family_def default_operating_mode_def supports_operating_mode_def
  supports_revision_on_host_def sgb_profile_matches_host_platform_def

lemma default_revision_supported [axes_simps]:
  "supports_revision m (default_revision m)"
  by (cases m) simp_all

lemma default_revision_supported_on_host [axes_simps]:
  "supports_revision_on_host m host (default_revision m)"
  by (cases m) (simp_all add: supports_revision_on_host_def)

lemma default_operating_mode_supported:
  "supports_operating_mode m (default_operating_mode m)"
  by (cases "family m") (simp_all add: axes_simps)

lemma direct_boot_mode_supported:
  "supports_operating_mode m (direct_boot_operating_mode_for_cgb_flag_with_heuristic m flag pol)"
  by (cases "family m")
    (simp_all add: axes_simps direct_boot_operating_mode_for_cgb_flag_with_heuristic_def
      direct_boot_operating_mode_for_cgb_flag_def)

lemma config_new_coherent: "model_axes_are_coherent (config_new a m)"
  using default_operating_mode_supported default_revision_supported_on_host
  by (simp add: model_axes_are_coherent_def config_new_def config_default_def
      sgb_profile_matches_host_platform_def)

lemma with_console_model_coherent:
  assumes "sgb_profile_matches_host_platform c"
  shows "model_axes_are_coherent (with_console_model m c)"
  using assms default_operating_mode_supported default_revision_supported_on_host
  by (simp add: model_axes_are_coherent_def with_console_model_def Let_def
      sgb_profile_matches_host_platform_def)

lemma normalize_revision_for_profile_coherent:
  assumes "supports_operating_mode (cfg_console_model c) (cfg_operating_mode c)"
    and "sgb_profile_matches_host_platform c"
  shows "model_axes_are_coherent (normalize_revision_for_profile c)"
  using assms default_revision_supported_on_host
  by (simp add: model_axes_are_coherent_def normalize_revision_for_profile_def
      sgb_profile_matches_host_platform_def)

lemma with_host_platform_coherent:
  assumes "model_axes_are_coherent c"
  shows "model_axes_are_coherent (with_host_platform host c)"
  unfolding with_host_platform_def
  by (rule normalize_revision_for_profile_coherent)
    (use assms in \<open>cases host; simp add: model_axes_are_coherent_def
      sgb_profile_matches_host_platform_def\<close>)+

lemma with_sgb_profile_coherent:
  assumes "model_axes_are_coherent c"
  shows "model_axes_are_coherent (with_sgb_profile p c)"
  unfolding with_sgb_profile_def
  by (rule normalize_revision_for_profile_coherent)
    (use assms in \<open>cases p; simp add: model_axes_are_coherent_def
      sgb_profile_matches_host_platform_def\<close>)+

text \<open>Every operation that changes a configuration: the builder calls, and the header the boot
  path applies.\<close>

datatype 'b config_step =
    ConsoleStep console_model
  | ModeStep operating_mode
  | RevisionStep hardware_revision
  | HostStep host_platform
  | ProfileStep sgb_host_profile
  | StartupStep startup_mode
  | AssetsStep 'b
  | CompatibilityStep compatibility_policy
  | ExecutionStep execution_mode
  | HeaderStep "cartridge_header option"

fun config_apply :: "'b config_step \<Rightarrow> 'b machine_config \<Rightarrow> 'b machine_config" where
  "config_apply (ConsoleStep m) c = with_console_model m c"
| "config_apply (ModeStep mode) c = with_operating_mode mode c"
| "config_apply (RevisionStep r) c = with_revision r c"
| "config_apply (HostStep h) c = with_host_platform h c"
| "config_apply (ProfileStep p) c = with_sgb_profile p c"
| "config_apply (StartupStep s) c = with_startup_mode s c"
| "config_apply (AssetsStep b) c = with_boot_rom_assets b c"
| "config_apply (CompatibilityStep p) c = with_compatibility p c"
| "config_apply (ExecutionStep m) c = with_execution_mode m c"
| "config_apply (HeaderStep h) c = apply_direct_boot_cartridge_header h c"

text \<open>What a step asks for exists on the console: a mode or revision that is set outright, or a
  mode the policy forces on a direct boot.\<close>

fun step_fits :: "'b config_step \<Rightarrow> 'b machine_config \<Rightarrow> bool" where
  "step_fits (ModeStep mode) c = supports_operating_mode (cfg_console_model c) mode"
| "step_fits (RevisionStep r) c =
     supports_revision_on_host (cfg_console_model c) (cfg_host_platform c) r"
| "step_fits (HeaderStep h) c =
     (\<not> uses_direct_boot_state (cfg_startup_mode c)
      \<or> (case forced_operating_mode (pol_override_policy (cfg_compatibility c)) of
           None \<Rightarrow> True
         | Some mode \<Rightarrow> supports_operating_mode (cfg_console_model c) mode))"
| "step_fits _ c = True"

fun steps_fit :: "'b config_step list \<Rightarrow> 'b machine_config \<Rightarrow> bool" where
  "steps_fit [] c = True"
| "steps_fit (st # sts) c = (step_fits st c \<and> steps_fit sts (config_apply st c))"

lemmas config_step_defs =
  with_operating_mode_def with_revision_def with_startup_mode_def with_boot_rom_assets_def
  with_compatibility_def with_execution_mode_def

lemma config_profile_kept:
  assumes "sgb_profile_matches_host_platform c"
  shows "sgb_profile_matches_host_platform (config_apply st c)"
proof (cases st)
  case (HostStep h)
  then show ?thesis
    by (cases h) (simp_all add: with_host_platform_def normalize_revision_for_profile_def
        sgb_profile_matches_host_platform_def)
next
  case (ProfileStep p)
  then show ?thesis
    by (cases p) (simp_all add: with_sgb_profile_def normalize_revision_for_profile_def
        sgb_profile_matches_host_platform_def)
qed (use assms in \<open>simp_all add: sgb_profile_matches_host_platform_def config_step_defs
  with_console_model_def apply_direct_boot_cartridge_header_def Let_def\<close>)

lemma config_profile_always:
  assumes "sgb_profile_matches_host_platform c"
  shows "sgb_profile_matches_host_platform (fold config_apply steps c)"
  using assms by (induction steps arbitrary: c) (simp_all add: config_profile_kept)

lemma apply_header_coherent_iff:
  assumes "model_axes_are_coherent c"
  shows "model_axes_are_coherent (apply_direct_boot_cartridge_header h c)
    \<longleftrightarrow> step_fits (HeaderStep h) c"
  using assms direct_boot_mode_supported
  by (auto simp: model_axes_are_coherent_def apply_direct_boot_cartridge_header_def Let_def
      sgb_profile_matches_host_platform_def split: option.split)

lemma config_apply_coherent:
  assumes "model_axes_are_coherent c"
  shows "model_axes_are_coherent (config_apply st c) \<longleftrightarrow> step_fits st c"
proof (cases st)
  case (ConsoleStep m)
  moreover have "sgb_profile_matches_host_platform c"
    using assms by (simp add: model_axes_are_coherent_def)
  ultimately show ?thesis by (simp add: with_console_model_coherent)
next
  case (HeaderStep h)
  then show ?thesis using apply_header_coherent_iff [OF assms, of h] by simp
next
  case (HostStep h)
  then show ?thesis using with_host_platform_coherent [OF assms] by simp
next
  case (ProfileStep p)
  then show ?thesis using with_sgb_profile_coherent [OF assms] by simp
qed (use assms in \<open>simp_all add: model_axes_are_coherent_def config_step_defs
  sgb_profile_matches_host_platform_def\<close>)

lemma config_apply_all_coherent:
  assumes "model_axes_are_coherent c" and "steps_fit steps c"
  shows "model_axes_are_coherent (fold config_apply steps c)"
  using assms by (induction steps arbitrary: c) (simp_all add: config_apply_coherent)

text \<open>C14. Coherence of configurations, for every sequence of the operations that change one (the
  ten builder calls and the cartridge header) after any console was chosen. The SGB profile fits
  the host after any sequence. The configuration is coherent (operating mode, revision and
  profile fit console and host) as long as every step fits: the explicit builders of mode and
  revision, and a mode forced by the policy on a direct boot, must name what the console has, all
  other steps always fit. A coherent configuration stays coherent in exactly these cases, and
  setting a console makes any reached configuration coherent again.\<close>

theorem built_configurations_are_coherent:
  "sgb_profile_matches_host_platform (fold config_apply steps (config_new a m))
   \<and> (steps_fit steps (config_new a m)
        \<longrightarrow> model_axes_are_coherent (fold config_apply steps (config_new a m)))
   \<and> (model_axes_are_coherent (fold config_apply steps (config_new a m))
        \<longrightarrow> (model_axes_are_coherent (fold config_apply (steps @ [st]) (config_new a m))
             \<longleftrightarrow> step_fits st (fold config_apply steps (config_new a m))))
   \<and> model_axes_are_coherent (fold config_apply (steps @ [ConsoleStep n]) (config_new a m))"
proof -
  have new: "model_axes_are_coherent (config_new a m)" by (rule config_new_coherent)
  let ?c = "fold config_apply steps (config_new a m)"
  have profile: "sgb_profile_matches_host_platform ?c"
    using new by (intro config_profile_always) (simp add: model_axes_are_coherent_def)
  then have "model_axes_are_coherent (config_apply (ConsoleStep n) ?c)"
    by (simp add: with_console_model_coherent)
  then show ?thesis
    using profile config_apply_all_coherent [OF new, of steps] config_apply_coherent [of ?c st]
    by (simp del: config_apply.simps)
qed

lemma new_configuration_fields:
  "cfg_console_model (config_new a m) = m" "cfg_host_platform (config_new a m) = Handheld"
  "cfg_startup_mode (config_new a m) = SkipBoot"
  "forced_operating_mode (pol_override_policy (cfg_compatibility (config_new a m))) = None"
  by (simp_all add: config_new_def config_default_def policy_strict_def no_overrides_def)

theorem built_configurations_are_coherent_witness:
  "model_axes_are_coherent
     (fold config_apply [ModeStep ModeGbCompatible, ProfileStep SgbPal, HeaderStep None]
        (config_new () GameBoyColor))"
proof -
  have "steps_fit [ModeStep ModeGbCompatible, ProfileStep SgbPal, HeaderStep None]
      (config_new () GameBoyColor)"
    by (simp add: new_configuration_fields with_sgb_profile_def normalize_revision_for_profile_def
        with_operating_mode_def axes_simps)
  then show ?thesis
    by (rule built_configurations_are_coherent [THEN conjunct2, THEN conjunct1, THEN mp])
qed

text \<open>The revision predicates are the membership tests of the revision tables, on a
  handheld and on every host.\<close>

theorem supported_revisions_are_the_active_ones:
  "(supports_revision m r \<longleftrightarrow> r \<in> set (active_revisions m))
   \<and> (supports_revision_on_host m h r \<longleftrightarrow> r \<in> set (active_revisions_on_host m h))"
  by (cases m; cases h; auto simp: supports_revision_on_host_def active_revisions_on_host_def)

end
