(* ===== verification/Gb_Scheduler.thy ===== *)
theory Gb_Scheduler
  imports Gb_Prelude
begin

text \<open>
  The scheduler of \<open>scheduler.rs\<close>: the T-cycle counter, the nine phases in their order,
  the fixed-capacity record buffers, the per-cycle context and \<open>GlobalScheduler::step\<close>.
  A buffer \<open>CycleRecordBuffer<T, N>\<close> is its backing array (a list of length \<open>N\<close>) and a
  length; \<open>cycle_queue\<close> states what its client relies on and is interpreted here.
\<close>

subsection \<open>T-cycles and phases\<close>

definition t_cycle_next :: "u64 \<Rightarrow> u64 res" where
  "t_cycle_next t = (if t = - 1 then Inl ExpectFailed else Inr (t + 1))"

datatype scheduler_phase =
    ExternalEventIngress
  | MasterClockTick
  | DerivedEdgeResolution
  | AutonomousPeripheralTicks
  | BusArbitration
  | CpuMicroOperation
  | MmioSideEffectCommit
  | InterruptAggregation
  | CpuWakeInterruptEvaluation

definition phase_order :: "scheduler_phase list" where
  "phase_order =
     [ExternalEventIngress, MasterClockTick, DerivedEdgeResolution,
      AutonomousPeripheralTicks, BusArbitration, CpuMicroOperation,
      MmioSideEffectCommit, InterruptAggregation, CpuWakeInterruptEvaluation]"

datatype external_event = HostInputChanged | ExternalSerialClock | DebugCommand

datatype derived_edge = DividerTick | TimerInputFallingEdge | ApuFrameSequencerEdge

datatype bus_owner =
  OwnerCpu | OwnerDma | OwnerPpu | OwnerApu | OwnerSerial | OwnerCartridge | OwnerBoot

datatype scheduler_side_effect =
  CommitMmioWrite | BootRomUnmap | StartOamDma | LcdPowerTransition

datatype interrupt_source = VBlank | LcdStat | TimerIrq | SerialIrq | JoypadIrq

subsection \<open>Fixed-capacity buffers\<close>

record 'a cycle_buffer =
  buf_items :: "'a list"
  buf_len :: nat

definition buf_new :: "nat \<Rightarrow> 'a \<Rightarrow> 'a cycle_buffer" where
  "buf_new n filler = \<lparr>buf_items = replicate n filler, buf_len = 0\<rparr>"

definition buf_clear :: "'a cycle_buffer \<Rightarrow> 'a cycle_buffer" where
  "buf_clear b = b\<lparr>buf_len := 0\<rparr>"

definition buf_push :: "'a cycle_buffer \<Rightarrow> 'a \<Rightarrow> 'a cycle_buffer res" where
  "buf_push b x =
     (if \<not> buf_len b < length (buf_items b) then Inl AssertFailed
      else res_map (\<lambda>xs. b\<lparr>buf_items := xs, buf_len := buf_len b + 1\<rparr>)
             (index_set (buf_items b) (buf_len b) x))"

definition buf_as_slice :: "'a cycle_buffer \<Rightarrow> 'a list" where
  "buf_as_slice b = take (buf_len b) (buf_items b)"

text \<open>\<open>iter().position(..)\<close>, and the loop \<open>for next_index in index + 1..self.len\<close>.\<close>

fun position :: "('a \<Rightarrow> bool) \<Rightarrow> 'a list \<Rightarrow> nat option" where
  "position p [] = None"
| "position p (x # xs) = (if p x then Some 0 else map_option Suc (position p xs))"

fun shift_down :: "'a list \<Rightarrow> nat \<Rightarrow> nat \<Rightarrow> 'a list" where
  "shift_down items next 0 = items"
| "shift_down items next (Suc n) =
     shift_down (items[next - 1 := items ! next]) (Suc next) n"

definition buf_remove_first :: "'a cycle_buffer \<Rightarrow> 'a \<Rightarrow> bool \<times> 'a cycle_buffer" where
  "buf_remove_first b item =
     (case position (\<lambda>candidate. candidate = item) (buf_as_slice b) of
        None \<Rightarrow> (False, b)
      | Some index \<Rightarrow>
          (True,
           b\<lparr>buf_items := shift_down (buf_items b) (index + 1) (buf_len b - (index + 1)),
             buf_len := buf_len b - 1\<rparr>))"

subsection \<open>The per-cycle context\<close>

definition MAX_EXTERNAL_EVENTS_PER_CYCLE :: nat where "MAX_EXTERNAL_EVENTS_PER_CYCLE = 16"
definition MAX_DERIVED_EDGES_PER_CYCLE :: nat where "MAX_DERIVED_EDGES_PER_CYCLE = 16"
definition MAX_SIDE_EFFECTS_PER_CYCLE :: nat where "MAX_SIDE_EFFECTS_PER_CYCLE = 16"
definition MAX_INTERRUPT_REQUESTS_PER_CYCLE :: nat where "MAX_INTERRUPT_REQUESTS_PER_CYCLE = 16"

record cycle_context =
  ctx_t_cycle :: u64
  ctx_phase :: scheduler_phase
  ctx_external_events :: "external_event cycle_buffer"
  ctx_derived_edges :: "derived_edge cycle_buffer"
  ctx_bus_owner :: "bus_owner option"
  ctx_queued_side_effects :: "scheduler_side_effect cycle_buffer"
  ctx_interrupt_requests :: "interrupt_source cycle_buffer"

definition context_for_cycle :: "u64 \<Rightarrow> cycle_context" where
  "context_for_cycle t =
     \<lparr>ctx_t_cycle = t,
      ctx_phase = ExternalEventIngress,
      ctx_external_events = buf_new MAX_EXTERNAL_EVENTS_PER_CYCLE HostInputChanged,
      ctx_derived_edges = buf_new MAX_DERIVED_EDGES_PER_CYCLE DividerTick,
      ctx_bus_owner = None,
      ctx_queued_side_effects = buf_new MAX_SIDE_EFFECTS_PER_CYCLE CommitMmioWrite,
      ctx_interrupt_requests = buf_new MAX_INTERRUPT_REQUESTS_PER_CYCLE VBlank\<rparr>"

definition reset_for_cycle :: "u64 \<Rightarrow> cycle_context \<Rightarrow> cycle_context" where
  "reset_for_cycle t c =
     c\<lparr>ctx_t_cycle := t,
       ctx_phase := ExternalEventIngress,
       ctx_external_events := buf_clear (ctx_external_events c),
       ctx_derived_edges := buf_clear (ctx_derived_edges c),
       ctx_bus_owner := None,
       ctx_queued_side_effects := buf_clear (ctx_queued_side_effects c),
       ctx_interrupt_requests := buf_clear (ctx_interrupt_requests c)\<rparr>"

definition enter_phase :: "scheduler_phase \<Rightarrow> cycle_context \<Rightarrow> cycle_context" where
  "enter_phase p c = c\<lparr>ctx_phase := p\<rparr>"

definition push_external_event :: "external_event \<Rightarrow> cycle_context \<Rightarrow> cycle_context res" where
  "push_external_event e c =
     res_map (\<lambda>b. c\<lparr>ctx_external_events := b\<rparr>) (buf_push (ctx_external_events c) e)"

definition push_derived_edge :: "derived_edge \<Rightarrow> cycle_context \<Rightarrow> cycle_context res" where
  "push_derived_edge e c =
     res_map (\<lambda>b. c\<lparr>ctx_derived_edges := b\<rparr>) (buf_push (ctx_derived_edges c) e)"

definition set_bus_owner :: "bus_owner \<Rightarrow> cycle_context \<Rightarrow> cycle_context" where
  "set_bus_owner owner c = c\<lparr>ctx_bus_owner := Some owner\<rparr>"

definition clear_bus_owner :: "cycle_context \<Rightarrow> cycle_context" where
  "clear_bus_owner c = c\<lparr>ctx_bus_owner := None\<rparr>"

definition queue_side_effect ::
    "scheduler_side_effect \<Rightarrow> cycle_context \<Rightarrow> cycle_context res" where
  "queue_side_effect e c =
     res_map (\<lambda>b. c\<lparr>ctx_queued_side_effects := b\<rparr>) (buf_push (ctx_queued_side_effects c) e)"

definition queue_interrupt_request ::
    "interrupt_source \<Rightarrow> cycle_context \<Rightarrow> cycle_context res" where
  "queue_interrupt_request i c =
     res_map (\<lambda>b. c\<lparr>ctx_interrupt_requests := b\<rparr>) (buf_push (ctx_interrupt_requests c) i)"

definition take_interrupt_request ::
    "interrupt_source \<Rightarrow> cycle_context \<Rightarrow> bool \<times> cycle_context" where
  "take_interrupt_request i c =
     (case buf_remove_first (ctx_interrupt_requests c) i of
        (found, b) \<Rightarrow> (found, c\<lparr>ctx_interrupt_requests := b\<rparr>))"

definition external_events :: "cycle_context \<Rightarrow> external_event list" where
  "external_events c = buf_as_slice (ctx_external_events c)"

definition derived_edges :: "cycle_context \<Rightarrow> derived_edge list" where
  "derived_edges c = buf_as_slice (ctx_derived_edges c)"

definition queued_side_effects :: "cycle_context \<Rightarrow> scheduler_side_effect list" where
  "queued_side_effects c = buf_as_slice (ctx_queued_side_effects c)"

definition interrupt_requests :: "cycle_context \<Rightarrow> interrupt_source list" where
  "interrupt_requests c = buf_as_slice (ctx_interrupt_requests c)"

subsection \<open>The global scheduler\<close>

record global_scheduler =
  next_t_cycle :: u64

definition scheduler_new :: global_scheduler where
  "scheduler_new = \<lparr>next_t_cycle = 0\<rparr>"

definition prepare_cycle_context :: "global_scheduler \<Rightarrow> cycle_context" where
  "prepare_cycle_context g = context_for_cycle (next_t_cycle g)"

definition scheduler_reset :: "global_scheduler \<Rightarrow> global_scheduler" where
  "scheduler_reset g = g\<lparr>next_t_cycle := 0\<rparr>"

definition set_next_t_cycle :: "u64 \<Rightarrow> global_scheduler \<Rightarrow> global_scheduler" where
  "set_next_t_cycle t g = g\<lparr>next_t_cycle := t\<rparr>"

text \<open>
  \<open>visit_phase\<close> is the caller's closure; \<open>'m\<close> is the state it captures. It may panic.
\<close>

type_synonym 'm phase_visitor = "cycle_context \<Rightarrow> 'm \<Rightarrow> (cycle_context \<times> 'm) res"

fun visit_phases ::
    "scheduler_phase list \<Rightarrow> 'm phase_visitor \<Rightarrow> cycle_context \<Rightarrow> 'm \<Rightarrow> (cycle_context \<times> 'm) res"
where
  "visit_phases [] visit c m = Inr (c, m)"
| "visit_phases (p # ps) visit c m =
     res_bind (visit (enter_phase p c) m) (\<lambda>(c', m'). visit_phases ps visit c' m')"

definition scheduler_step ::
    "'m phase_visitor \<Rightarrow> global_scheduler \<Rightarrow> 'm \<Rightarrow> (cycle_context \<times> global_scheduler \<times> 'm) res"
where
  "scheduler_step visit g m =
     res_bind (visit_phases phase_order visit (prepare_cycle_context g) m) (\<lambda>(c, m').
     res_bind (t_cycle_next (next_t_cycle g)) (\<lambda>t.
       Inr (c, g\<lparr>next_t_cycle := t\<rparr>, m')))"

subsection \<open>The buffers as queues\<close>

definition buf_wf :: "'a cycle_buffer \<Rightarrow> bool" where
  "buf_wf b = (buf_len b \<le> length (buf_items b))"

lemma position_None: "position p xs = None \<longleftrightarrow> (\<forall>x\<in>set xs. \<not> p x)"
  by (induction xs) auto

lemma position_Some_split:
  assumes "position (\<lambda>c. c = x) xs = Some i"
  shows "i < length xs \<and> remove1 x xs = take i xs @ drop (Suc i) xs \<and> x \<in> set xs"
  using assms
proof (induction xs arbitrary: i)
  case (Cons y ys)
  then show ?case by (cases "y = x") auto
qed simp

lemma length_shift_down [simp]: "length (shift_down items k n) = length items"
  by (induction items k n rule: shift_down.induct) simp_all

lemma shift_down_eq:
  assumes "0 < k" and "k + n \<le> length items"
  shows "shift_down items k n
    = take (k - 1) items @ take n (drop k items) @ drop (k - 1 + n) items"
  using assms
proof (induction n arbitrary: items k)
  case 0
  then show ?case by simp
next
  case (Suc n)
  let ?it = "items[k - 1 := items ! k]"
  have k: "k < length items" using Suc.prems by simp
  have "shift_down items k (Suc n) = shift_down ?it (Suc k) n" by simp
  also have "\<dots> = take k ?it @ take n (drop (Suc k) ?it) @ drop (k + n) ?it"
    using Suc.IH [of "Suc k" ?it] Suc.prems by simp
  also have "take k ?it = take (k - 1) items @ [items ! k]"
    using Suc.prems by (cases k) (simp_all add: take_Suc_conv_app_nth list_update_append)
  also have "drop (Suc k) ?it = drop (Suc k) items"
    using Suc.prems by (simp add: drop_update_cancel)
  also have "drop (k + n) ?it = drop (k + n) items"
    using Suc.prems by (simp add: drop_update_cancel)
  finally show ?case
    using Suc.prems k by (simp add: Cons_nth_drop_Suc [symmetric])
qed

locale cycle_queue =
  fixes push :: "'q \<Rightarrow> 'a \<Rightarrow> 'q res"
    and remove_first :: "'q \<Rightarrow> 'a \<Rightarrow> bool \<times> 'q"
    and clear :: "'q \<Rightarrow> 'q"
    and contents :: "'q \<Rightarrow> 'a list"
    and capacity :: "'q \<Rightarrow> nat"
    and wf :: "'q \<Rightarrow> bool"
  assumes push_ok: "wf q \<Longrightarrow> length (contents q) < capacity q \<Longrightarrow>
      \<exists>q'. push q x = Inr q' \<and> wf q' \<and> contents q' = contents q @ [x] \<and> capacity q' = capacity q"
    and push_full: "wf q \<Longrightarrow> length (contents q) = capacity q \<Longrightarrow> push q x = Inl AssertFailed"
    and remove_contents: "wf q \<Longrightarrow> contents (snd (remove_first q x)) = remove1 x (contents q)"
    and remove_found: "wf q \<Longrightarrow> fst (remove_first q x) \<longleftrightarrow> x \<in> set (contents q)"
    and remove_wf: "wf q \<Longrightarrow> wf (snd (remove_first q x))"
    and clear_contents: "wf q \<Longrightarrow> contents (clear q) = [] \<and> wf (clear q) \<and> capacity (clear q) = capacity q"
begin

fun push_all :: "'q \<Rightarrow> 'a list \<Rightarrow> 'q res" where
  "push_all q [] = Inr q"
| "push_all q (x # xs) = res_bind (push q x) (\<lambda>q'. push_all q' xs)"

lemma push_all_ok:
  "wf q \<Longrightarrow> length (contents q) + length xs \<le> capacity q \<Longrightarrow>
   \<exists>q'. push_all q xs = Inr q' \<and> wf q' \<and> contents q' = contents q @ xs
        \<and> capacity q' = capacity q"
proof (induction xs arbitrary: q)
  case (Cons x xs)
  then obtain q1 where "push q x = Inr q1" "wf q1" "contents q1 = contents q @ [x]"
    "capacity q1 = capacity q"
    using push_ok [of q x] by auto
  with Cons show ?case by fastforce
qed simp

lemma push_then_remove:
  assumes "wf q" and "x \<notin> set (contents q)" and "push q x = Inr q'" and "wf q'"
    and "contents q' = contents q @ [x]"
  shows "contents (snd (remove_first q' x)) = contents q"
  using assms by (simp add: remove_contents remove1_append)

end

lemma buf_push_ok:
  assumes "buf_wf b" and "buf_len b < length (buf_items b)"
  shows "\<exists>b'. buf_push b x = Inr b' \<and> buf_wf b' \<and> buf_as_slice b' = buf_as_slice b @ [x]
    \<and> length (buf_items b') = length (buf_items b)"
  using assms
  by (simp add: buf_push_def index_set_def buf_wf_def buf_as_slice_def take_Suc_conv_app_nth
      take_update_cancel)

lemma length_buf_as_slice: "buf_wf b \<Longrightarrow> length (buf_as_slice b) = buf_len b"
  by (simp add: buf_wf_def buf_as_slice_def)

lemma buf_remove_first_ok:
  assumes "buf_wf b"
  shows "buf_as_slice (snd (buf_remove_first b x)) = remove1 x (buf_as_slice b)
    \<and> (fst (buf_remove_first b x) \<longleftrightarrow> x \<in> set (buf_as_slice b))
    \<and> buf_wf (snd (buf_remove_first b x))
    \<and> length (buf_items (snd (buf_remove_first b x))) = length (buf_items b)"
proof (cases "position (\<lambda>c. c = x) (buf_as_slice b)")
  case None
  then have "x \<notin> set (buf_as_slice b)" by (auto simp: position_None)
  with assms None show ?thesis
    by (simp add: buf_remove_first_def remove1_idem)
next
  case (Some i)
  note i = position_Some_split [OF Some]
  with length_buf_as_slice [OF assms] have il: "i < buf_len b" by simp
  then obtain m where m: "buf_len b = Suc i + m" using less_iff_Suc_add by auto
  with assms have "take (buf_len b - 1)
      (shift_down (buf_items b) (i + 1) (buf_len b - (i + 1)))
    = take i (buf_items b) @ take (buf_len b - (i + 1)) (drop (i + 1) (buf_items b))"
    by (simp add: shift_down_eq buf_wf_def)
  also have "\<dots> = take i (buf_as_slice b) @ drop (Suc i) (buf_as_slice b)"
    using il by (simp add: buf_as_slice_def min_def drop_take)
  finally show ?thesis
    using i il assms Some by (simp add: buf_remove_first_def buf_as_slice_def buf_wf_def)
qed

interpretation cq: cycle_queue buf_push buf_remove_first buf_clear buf_as_slice
  "\<lambda>b. length (buf_items b)" buf_wf
proof unfold_locales
  fix q :: "'a cycle_buffer" and x
  assume wf: "buf_wf q"
  note len = length_buf_as_slice [OF wf]
  show "\<exists>q'. buf_push q x = Inr q' \<and> buf_wf q' \<and> buf_as_slice q' = buf_as_slice q @ [x]
      \<and> length (buf_items q') = length (buf_items q)"
    if "length (buf_as_slice q) < length (buf_items q)"
    using buf_push_ok [OF wf] that len by simp
  show "buf_push q x = Inl AssertFailed" if "length (buf_as_slice q) = length (buf_items q)"
    using that len by (simp add: buf_push_def)
  show "buf_as_slice (snd (buf_remove_first q x)) = remove1 x (buf_as_slice q)"
    "fst (buf_remove_first q x) \<longleftrightarrow> x \<in> set (buf_as_slice q)"
    "buf_wf (snd (buf_remove_first q x))"
    using buf_remove_first_ok [OF wf] by blast+
  show "buf_as_slice (buf_clear q) = [] \<and> buf_wf (buf_clear q)
      \<and> length (buf_items (buf_clear q)) = length (buf_items q)"
    by (simp add: buf_clear_def buf_as_slice_def buf_wf_def)
qed

subsection \<open>Room in the context\<close>

text \<open>
  \<open>ctx_room c d i\<close>: the context can still take \<open>d\<close> derived edges and \<open>i\<close> interrupt requests.
  A push into a context with room does not panic, appends its record and changes nothing else.
\<close>

definition ctx_room :: "cycle_context \<Rightarrow> nat \<Rightarrow> nat \<Rightarrow> bool" where
  "ctx_room c d i =
     (buf_wf (ctx_derived_edges c)
      \<and> buf_len (ctx_derived_edges c) + d \<le> length (buf_items (ctx_derived_edges c))
      \<and> buf_wf (ctx_interrupt_requests c)
      \<and> buf_len (ctx_interrupt_requests c) + i \<le> length (buf_items (ctx_interrupt_requests c)))"

lemma buf_push_len: "buf_push b x = Inr b' \<Longrightarrow> buf_len b' = Suc (buf_len b)"
  by (auto simp: buf_push_def index_set_def split: if_splits)

lemma push_derived_edge_ok:
  assumes "ctx_room c (Suc d) i"
  shows "\<exists>c'. push_derived_edge e c = Inr c' \<and> ctx_room c' d i
    \<and> derived_edges c' = derived_edges c @ [e] \<and> interrupt_requests c' = interrupt_requests c"
proof -
  from assms have "buf_wf (ctx_derived_edges c)"
    "buf_len (ctx_derived_edges c) < length (buf_items (ctx_derived_edges c))"
    by (auto simp: ctx_room_def)
  from buf_push_ok [OF this, of e] obtain b where b: "buf_push (ctx_derived_edges c) e = Inr b"
    "buf_wf b" "buf_as_slice b = buf_as_slice (ctx_derived_edges c) @ [e]"
    "length (buf_items b) = length (buf_items (ctx_derived_edges c))"
    by blast
  with assms buf_push_len [OF b(1)] show ?thesis
    by (auto simp: push_derived_edge_def derived_edges_def interrupt_requests_def ctx_room_def)
qed

lemma queue_interrupt_request_ok:
  assumes "ctx_room c d (Suc i)"
  shows "\<exists>c'. queue_interrupt_request r c = Inr c' \<and> ctx_room c' d i
    \<and> derived_edges c' = derived_edges c \<and> interrupt_requests c' = interrupt_requests c @ [r]"
proof -
  from assms have "buf_wf (ctx_interrupt_requests c)"
    "buf_len (ctx_interrupt_requests c) < length (buf_items (ctx_interrupt_requests c))"
    by (auto simp: ctx_room_def)
  from buf_push_ok [OF this, of r] obtain b where b: "buf_push (ctx_interrupt_requests c) r = Inr b"
    "buf_wf b" "buf_as_slice b = buf_as_slice (ctx_interrupt_requests c) @ [r]"
    "length (buf_items b) = length (buf_items (ctx_interrupt_requests c))"
    by blast
  with assms buf_push_len [OF b(1)] show ?thesis
    by (auto simp: queue_interrupt_request_def derived_edges_def interrupt_requests_def
        ctx_room_def)
qed

lemma ctx_room_fresh [simp]:
  "ctx_room (context_for_cycle n) d i \<longleftrightarrow>
    d \<le> MAX_DERIVED_EDGES_PER_CYCLE \<and> i \<le> MAX_INTERRUPT_REQUESTS_PER_CYCLE"
  by (simp add: ctx_room_def context_for_cycle_def buf_new_def buf_wf_def)

lemma fresh_records [simp]:
  "derived_edges (context_for_cycle n) = []"
  "interrupt_requests (context_for_cycle n) = []"
  by (simp_all add: derived_edges_def interrupt_requests_def context_for_cycle_def buf_new_def
      buf_as_slice_def)

lemma ctx_room_mono: "ctx_room c d i \<Longrightarrow> d' \<le> d \<Longrightarrow> i' \<le> i \<Longrightarrow> ctx_room c d' i'"
  by (auto simp: ctx_room_def)

lemma push_derived_edge_if_ok:
  assumes "ctx_room c (Suc d) i"
  shows "\<exists>c'. (if b then push_derived_edge e c else Inr c) = Inr c' \<and> ctx_room c' d i
    \<and> derived_edges c' = derived_edges c @ (if b then [e] else [])
    \<and> interrupt_requests c' = interrupt_requests c"
proof (cases b)
  case True
  with push_derived_edge_ok [OF assms] show ?thesis by simp
next
  case False
  with ctx_room_mono [OF assms, of d i] show ?thesis by simp
qed

subsection \<open>Properties\<close>

text \<open>A visitor with a log of the cycle and phase it was called in.\<close>

definition logging :: "'m phase_visitor \<Rightarrow> ('m \<times> (u64 \<times> scheduler_phase) list) phase_visitor" where
  "logging visit c ml =
     res_map (\<lambda>(c', m'). (c', m', snd ml @ [(ctx_t_cycle c, ctx_phase c)])) (visit c (fst ml))"

lemma visit_phases_logging:
  assumes "\<And>c m. \<exists>c' m'. visit c m = Inr (c', m') \<and> ctx_t_cycle c' = ctx_t_cycle c"
  shows "\<exists>c' m'. visit_phases ps (logging visit) c (m, l)
      = Inr (c', m', l @ map (Pair (ctx_t_cycle c)) ps)
    \<and> visit_phases ps visit c m = Inr (c', m') \<and> ctx_t_cycle c' = ctx_t_cycle c"
proof (induction ps arbitrary: c m l)
  case (Cons p ps)
  obtain c1 m1 where v: "visit (enter_phase p c) m = Inr (c1, m1)" "ctx_t_cycle c1 = ctx_t_cycle c"
    using assms [of "enter_phase p c" m] by (auto simp: enter_phase_def)
  from Cons.IH [of c1 m1 "l @ [(ctx_t_cycle c, p)]"] v show ?case
    by (auto simp: logging_def enter_phase_def)
qed simp

lemma t_cycle_next_ok: "t \<noteq> - 1 \<Longrightarrow> t_cycle_next t = Inr (t + 1)"
  by (simp add: t_cycle_next_def)

text \<open>A scheduler step calls its visitor exactly once in each of the nine phases, in their
  order and all under the same T-cycle number, then advances the counter by one; the context it
  starts from is empty.\<close>

theorem scheduler_step_visits_every_phase:
  assumes "\<And>c m. \<exists>c' m'. visit c m = Inr (c', m') \<and> ctx_t_cycle c' = ctx_t_cycle c"
    and "next_t_cycle g \<noteq> - 1"
  shows "\<exists>c m'. scheduler_step (logging visit) g (m, [])
      = Inr (c, g\<lparr>next_t_cycle := next_t_cycle g + 1\<rparr>, m', map (Pair (next_t_cycle g)) phase_order)
    \<and> scheduler_step visit g m = Inr (c, g\<lparr>next_t_cycle := next_t_cycle g + 1\<rparr>, m')
    \<and> distinct phase_order \<and> (\<forall>p. p \<in> set phase_order)
    \<and> external_events (prepare_cycle_context g) = [] \<and> derived_edges (prepare_cycle_context g) = []
    \<and> queued_side_effects (prepare_cycle_context g) = []
    \<and> interrupt_requests (prepare_cycle_context g) = []"
proof -
  have all: "p \<in> set phase_order" for p
    by (cases p) (simp_all add: phase_order_def)
  have t: "ctx_t_cycle (prepare_cycle_context g) = next_t_cycle g"
    by (simp add: prepare_cycle_context_def context_for_cycle_def)
  have fresh: "external_events (prepare_cycle_context g) = []"
    "queued_side_effects (prepare_cycle_context g) = []"
    by (simp_all add: prepare_cycle_context_def external_events_def queued_side_effects_def
        context_for_cycle_def buf_as_slice_def buf_new_def)
  from visit_phases_logging [where visit = visit and ps = phase_order and m = m and l = "[]"
      and c = "prepare_cycle_context g", OF assms(1)]
  obtain c m' where r: "visit_phases phase_order (logging visit) (prepare_cycle_context g) (m, [])
      = Inr (c, m', map (Pair (next_t_cycle g)) phase_order)"
    "visit_phases phase_order visit (prepare_cycle_context g) m = Inr (c, m')"
    using t by auto
  have "distinct phase_order" by (simp add: phase_order_def)
  with r all fresh show ?thesis
    by (auto simp: scheduler_step_def t_cycle_next_ok [OF assms(2)] prepare_cycle_context_def)
qed

theorem scheduler_step_visits_every_phase_witness:
  "\<exists>c. scheduler_step (\<lambda>c n. Inr (c, n + 1)) scheduler_new (0::nat)
     = Inr (c, \<lparr>next_t_cycle = 1\<rparr>, 9)"
proof -
  have v: "\<exists>c' m'. Inr (c, m + 1) = Inr (c', m') \<and> ctx_t_cycle c' = ctx_t_cycle c"
    for c :: cycle_context and m :: nat by blast
  have "next_t_cycle scheduler_new \<noteq> - 1" by (simp add: scheduler_new_def)
  from scheduler_step_visits_every_phase [where visit = "\<lambda>c n. Inr (c, n + 1)" and m = "0::nat", OF v this]
  show ?thesis
    by (auto simp: scheduler_new_def scheduler_step_def t_cycle_next_def phase_order_def enter_phase_def)
qed

text \<open>C12. The record buffers are bounded queues: pushing a list that fits into a fresh buffer
  keeps it in order, a push into a full buffer panics, and taking a record out removes its
  first occurrence and keeps the order of the others, reporting whether there was one.\<close>

theorem cycle_buffer_is_a_bounded_queue:
  assumes "length xs \<le> n"
  shows "\<exists>b. cq.push_all (buf_new n filler) xs = Inr b \<and> buf_as_slice b = xs
     \<and> (length xs = n \<longrightarrow> buf_push b x = Inl AssertFailed)
     \<and> buf_as_slice (snd (buf_remove_first b x)) = remove1 x xs
     \<and> (fst (buf_remove_first b x) \<longleftrightarrow> x \<in> set xs)"
proof -
  have new: "buf_wf (buf_new n filler)" "buf_as_slice (buf_new n filler) = []"
    "length (buf_items (buf_new n filler)) = n"
    by (simp_all add: buf_new_def buf_wf_def buf_as_slice_def)
  then obtain b where b: "cq.push_all (buf_new n filler) xs = Inr b" "buf_wf b" "buf_as_slice b = xs"
    "length (buf_items b) = n"
    using cq.push_all_ok [OF new(1), of xs] assms by auto
  then show ?thesis
    using cq.push_full [OF b(2)] cq.remove_contents [OF b(2)] cq.remove_found [OF b(2)] by simp
qed

theorem cycle_buffer_is_a_bounded_queue_witness:
  "\<exists>b. cq.push_all (buf_new 2 VBlank) [TimerIrq, SerialIrq] = Inr b
     \<and> buf_push b JoypadIrq = Inl AssertFailed"
  using cycle_buffer_is_a_bounded_queue [of "[TimerIrq, SerialIrq]" 2 VBlank JoypadIrq] by auto

end
