(* ===== verification/Gb_Interrupts.thy ===== *)
theory Gb_Interrupts
  imports Gb_Model Gb_Scheduler
begin

text \<open>
  The interrupt controller of \<open>interrupts.rs\<close>: the IF and IE registers, their masks, the
  request and acknowledge operations and the priority encoder.
\<close>

definition INTERRUPT_REQUEST_MASK :: u8 where "INTERRUPT_REQUEST_MASK = 0x1F"
definition INTERRUPT_FLAG_FORCED_HIGH_BITS :: u8 where "INTERRUPT_FLAG_FORCED_HIGH_BITS = 0xE0"

datatype interrupt_controller_status = InterruptsReady

record interrupt_startup_state =
  int_startup_flags :: u8
  int_startup_enable :: u8

record interrupt_controller =
  int_console_model :: console_model
  int_status :: interrupt_controller_status
  int_flags :: u8
  int_enable :: u8

record interrupt_save_state =
  int_saved_console_model :: console_model
  int_saved_status :: interrupt_controller_status
  int_saved_flags :: u8
  int_saved_enable :: u8

fun source_mask :: "interrupt_source \<Rightarrow> u8" where
  "source_mask VBlank = 0x01"
| "source_mask LcdStat = 0x02"
| "source_mask TimerIrq = 0x04"
| "source_mask SerialIrq = 0x08"
| "source_mask JoypadIrq = 0x10"

fun source_vector :: "interrupt_source \<Rightarrow> u16" where
  "source_vector VBlank = 0x0040"
| "source_vector LcdStat = 0x0048"
| "source_vector TimerIrq = 0x0050"
| "source_vector SerialIrq = 0x0058"
| "source_vector JoypadIrq = 0x0060"

definition highest_priority_from_mask :: "u8 \<Rightarrow> interrupt_source option" where
  "highest_priority_from_mask m =
     (if m AND source_mask VBlank \<noteq> 0 then Some VBlank
      else if m AND source_mask LcdStat \<noteq> 0 then Some LcdStat
      else if m AND source_mask TimerIrq \<noteq> 0 then Some TimerIrq
      else if m AND source_mask SerialIrq \<noteq> 0 then Some SerialIrq
      else if m AND source_mask JoypadIrq \<noteq> 0 then Some JoypadIrq
      else None)"

definition interrupts_new :: "console_model \<Rightarrow> interrupt_controller" where
  "interrupts_new m =
     \<lparr>int_console_model = m, int_status = InterruptsReady, int_flags = 0, int_enable = 0\<rparr>"

definition interrupts_capture_save_state :: "interrupt_controller \<Rightarrow> interrupt_save_state" where
  "interrupts_capture_save_state c =
     \<lparr>int_saved_console_model = int_console_model c, int_saved_status = int_status c,
      int_saved_flags = int_flags c, int_saved_enable = int_enable c\<rparr>"

definition interrupts_restore_save_state ::
    "interrupt_save_state \<Rightarrow> interrupt_controller \<Rightarrow> interrupt_controller" where
  "interrupts_restore_save_state s c =
     c\<lparr>int_console_model := int_saved_console_model s, int_status := int_saved_status s,
       int_flags := int_saved_flags s, int_enable := int_saved_enable s\<rparr>"

definition read_if :: "interrupt_controller \<Rightarrow> u8" where
  "read_if c = INTERRUPT_FLAG_FORCED_HIGH_BITS OR int_flags c"

definition read_if_with_pending_requests :: "u8 \<Rightarrow> interrupt_controller \<Rightarrow> u8" where
  "read_if_with_pending_requests pending c =
     INTERRUPT_FLAG_FORCED_HIGH_BITS OR (int_flags c OR (pending AND INTERRUPT_REQUEST_MASK))"

definition write_if :: "u8 \<Rightarrow> interrupt_controller \<Rightarrow> interrupt_controller" where
  "write_if v c = c\<lparr>int_flags := v AND INTERRUPT_REQUEST_MASK\<rparr>"

definition read_ie :: "interrupt_controller \<Rightarrow> u8" where
  "read_ie c = int_enable c"

definition write_ie :: "u8 \<Rightarrow> interrupt_controller \<Rightarrow> interrupt_controller" where
  "write_ie v c = c\<lparr>int_enable := v\<rparr>"

definition request_interrupt ::
    "interrupt_source \<Rightarrow> interrupt_controller \<Rightarrow> interrupt_controller" where
  "request_interrupt src c = c\<lparr>int_flags := int_flags c OR source_mask src\<rparr>"

definition clear_interrupt ::
    "interrupt_source \<Rightarrow> interrupt_controller \<Rightarrow> interrupt_controller" where
  "clear_interrupt src c = c\<lparr>int_flags := int_flags c AND NOT (source_mask src)\<rparr>"

definition pending_mask :: "interrupt_controller \<Rightarrow> u8" where
  "pending_mask c = int_enable c AND int_flags c"

definition highest_pending :: "interrupt_controller \<Rightarrow> interrupt_source option" where
  "highest_pending c = highest_priority_from_mask (pending_mask c)"

definition interrupts_apply_startup_state ::
    "interrupt_startup_state \<Rightarrow> interrupt_controller \<Rightarrow> interrupt_controller" where
  "interrupts_apply_startup_state s c =
     c\<lparr>int_flags := int_startup_flags s AND INTERRUPT_REQUEST_MASK,
       int_enable := int_startup_enable s\<rparr>"

subsection \<open>Sources as bits\<close>

fun source_bit :: "interrupt_source \<Rightarrow> nat" where
  "source_bit VBlank = 0"
| "source_bit LcdStat = 1"
| "source_bit TimerIrq = 2"
| "source_bit SerialIrq = 3"
| "source_bit JoypadIrq = 4"

instantiation interrupt_source :: linorder
begin

definition less_eq_interrupt_source :: "interrupt_source \<Rightarrow> interrupt_source \<Rightarrow> bool" where
  "less_eq_interrupt_source a b = (source_bit a \<le> source_bit b)"

definition less_interrupt_source :: "interrupt_source \<Rightarrow> interrupt_source \<Rightarrow> bool" where
  "less_interrupt_source a b = (source_bit a < source_bit b)"

instance
proof
  fix a b c :: interrupt_source
  show "a \<le> b \<Longrightarrow> b \<le> a \<Longrightarrow> a = b"
    by (cases a; cases b) (simp_all add: less_eq_interrupt_source_def)
qed (auto simp: less_eq_interrupt_source_def less_interrupt_source_def)

end

named_theorems irq_simps \<open>interrupt sources, masks and register operations\<close>

lemmas irq_defs [irq_simps] =
  INTERRUPT_FLAG_FORCED_HIGH_BITS_def read_if_def write_if_def
  read_ie_def write_ie_def request_interrupt_def clear_interrupt_def pending_mask_def

lemma source_mask_bit: "source_mask s = push_bit (source_bit s) 1"
  by (cases s) (simp_all add: push_bit_of_1)

lemma bit_source_mask [irq_simps]: "bit (source_mask s) n \<longleftrightarrow> n = source_bit s"
proof -
  have "source_bit s < 8" by (cases s) simp_all
  then show ?thesis by (auto simp: source_mask_bit bit_push_bit_iff bit_1_iff simp del: push_bit_of_1)
qed

lemma source_bit_less [irq_simps]: "source_bit s < 5"
  by (cases s) simp_all

lemma source_bit_inject [irq_simps]: "source_bit a = source_bit b \<longleftrightarrow> a = b"
  by (cases a; cases b) simp_all

lemma and_source_mask [irq_simps]: "(m AND source_mask s \<noteq> 0) = bit m (source_bit s)"
proof -
  have "source_bit s < 8" using source_bit_less [of s] by simp
  then show ?thesis
    by (simp add: source_mask_bit bit_iff_and_push_bit_not_eq_0)
qed

lemma bit_request_mask [irq_simps]: "bit INTERRUPT_REQUEST_MASK n \<longleftrightarrow> n < 5"
proof -
  have eq: "INTERRUPT_REQUEST_MASK = mask 5"
    by (simp add: mask_eq_exp_minus_1 INTERRUPT_REQUEST_MASK_def)
  show ?thesis unfolding eq bit_mask_iff by auto
qed

lemma highest_priority_bits:
  "highest_priority_from_mask m =
     (if bit m 0 then Some VBlank else if bit m 1 then Some LcdStat
      else if bit m 2 then Some TimerIrq else if bit m 3 then Some SerialIrq
      else if bit m 4 then Some JoypadIrq else None)"
  by (simp only: highest_priority_from_mask_def and_source_mask source_bit.simps)

lemma highest_priority_Some:
  "highest_priority_from_mask m = Some s \<longleftrightarrow>
   bit m (source_bit s) \<and> (\<forall>s' < s. \<not> bit m (source_bit s'))"
proof -
  have all: "(\<forall>s'. P s') \<longleftrightarrow> P VBlank \<and> P LcdStat \<and> P TimerIrq \<and> P SerialIrq \<and> P JoypadIrq" for P
    by (metis interrupt_source.exhaust)
  show ?thesis
    by (cases s) (simp_all add: highest_priority_bits all less_interrupt_source_def)
qed

lemma highest_priority_None:
  "highest_priority_from_mask m = None \<longleftrightarrow> m AND INTERRUPT_REQUEST_MASK = 0"
proof -
  have "m AND INTERRUPT_REQUEST_MASK = 0 \<longleftrightarrow> (\<forall>n<5. \<not> bit m n)"
    unfolding word_bits_eq_iff bitwise_iffs bit_request_mask
    using bit_imp_le_length [of m] by auto
  also have "\<dots> \<longleftrightarrow> \<not> bit m 0 \<and> \<not> bit m 1 \<and> \<not> bit m 2 \<and> \<not> bit m 3 \<and> \<not> bit m 4"
    by (auto simp: numeral_eq_Suc All_less_Suc)
  finally show ?thesis by (simp add: highest_priority_bits)
qed

subsection \<open>The flags keep to their five bits\<close>

definition interrupts_wf :: "interrupt_controller \<Rightarrow> bool" where
  "interrupts_wf c = (int_flags c AND NOT INTERRUPT_REQUEST_MASK = 0)"

lemma interrupts_wf_bits: "interrupts_wf c \<longleftrightarrow> (\<forall>n. bit (int_flags c) n \<longrightarrow> n < 5)"
proof -
  have "interrupts_wf c \<longleftrightarrow> (\<forall>n<8. bit (int_flags c) n \<longrightarrow> n < 5)"
    by (auto simp: interrupts_wf_def word_bits_eq_iff bitwise_iffs irq_simps)
  also have "\<dots> \<longleftrightarrow> (\<forall>n. bit (int_flags c) n \<longrightarrow> n < 5)"
    using bit_imp_le_length [of "int_flags c"] by auto
  finally show ?thesis .
qed

lemma interrupts_new_wf [simp]: "interrupts_wf (interrupts_new m)"
  by (simp add: interrupts_wf_def interrupts_new_def)

lemma write_if_wf [simp]: "interrupts_wf (write_if v c)"
  by (simp add: interrupts_wf_bits bitwise_iffs irq_simps)

lemma write_ie_wf [simp]: "interrupts_wf (write_ie v c) = interrupts_wf c"
  by (simp add: interrupts_wf_def irq_simps)

lemma request_wf [simp]: "interrupts_wf c \<Longrightarrow> interrupts_wf (request_interrupt s c)"
  by (auto simp: interrupts_wf_bits bitwise_iffs irq_simps)

lemma clear_wf [simp]: "interrupts_wf c \<Longrightarrow> interrupts_wf (clear_interrupt s c)"
  by (auto simp: interrupts_wf_bits bitwise_iffs irq_simps)

lemma startup_wf [simp]: "interrupts_wf (interrupts_apply_startup_state s c)"
  by (simp add: interrupts_wf_bits bitwise_iffs irq_simps interrupts_apply_startup_state_def)

lemma interrupts_save_restore [simp]:
  "interrupts_restore_save_state (interrupts_capture_save_state c) c' = c"
  by (simp add: interrupts_restore_save_state_def interrupts_capture_save_state_def)

lemma bit_flags_request:
  "bit (int_flags (request_interrupt s c)) n \<longleftrightarrow> bit (int_flags c) n \<or> n = source_bit s"
  by (auto simp: bitwise_iffs irq_simps)

lemma bit_flags_clear:
  "bit (int_flags (clear_interrupt s c)) n \<longleftrightarrow> bit (int_flags c) n \<and> n \<noteq> source_bit s"
  by (auto simp: bitwise_iffs irq_simps dest: bit_imp_le_length)

lemma highest_pending_Some:
  "highest_pending c = Some s \<longleftrightarrow>
   bit (pending_mask c) (source_bit s) \<and> (\<forall>s' < s. \<not> bit (pending_mask c) (source_bit s'))"
  by (simp add: highest_pending_def highest_priority_Some)

text \<open>
  An acknowledged source is no longer pending, and every other source keeps its flag: what
  the CPU relies on when it services one source at a time.
\<close>

lemma clear_then_pending:
  "bit (pending_mask (clear_interrupt s c)) (source_bit s')
   \<longleftrightarrow> s' \<noteq> s \<and> bit (pending_mask c) (source_bit s')"
  using bit_imp_le_length [of "int_enable c" "source_bit s'"]
  by (auto simp: bitwise_iffs irq_simps)

subsection \<open>Properties\<close>

text \<open>The controller offers the CPU the enabled, requested source of highest priority
  (VBlank first, joypad last), whatever unused IE bits are set, and none exactly when no
  source is both enabled and requested; acknowledging it leaves every other source as it was.\<close>

theorem highest_pending_is_least_source:
  assumes "interrupts_wf c"
  shows "(highest_pending c = Some s \<longleftrightarrow>
           bit (int_enable c AND int_flags c) (source_bit s)
           \<and> (\<forall>s' < s. \<not> bit (int_enable c AND int_flags c) (source_bit s')))
    \<and> (highest_pending c = None \<longleftrightarrow> pending_mask c = 0)
    \<and> (\<forall>s'. bit (pending_mask (clear_interrupt s c)) (source_bit s')
              \<longleftrightarrow> s' \<noteq> s \<and> bit (pending_mask c) (source_bit s'))"
proof -
  have "highest_pending c = None \<longleftrightarrow> pending_mask c = 0"
  proof -
    have "pending_mask c AND INTERRUPT_REQUEST_MASK = pending_mask c"
      using assms by (auto simp: interrupts_wf_bits word_bits_eq_iff bitwise_iffs bit_request_mask
          pending_mask_def)
    then show ?thesis by (simp add: highest_pending_def highest_priority_None)
  qed
  with highest_pending_Some [of c s] clear_then_pending [of s c] show ?thesis
    by (simp add: pending_mask_def)
qed

theorem highest_pending_is_least_source_witness:
  "highest_pending (request_interrupt JoypadIrq (write_if 0xFC (write_ie 0xFF (interrupts_new GameBoy))))
   = Some TimerIrq"
proof -
  let ?c = "request_interrupt JoypadIrq (write_if 0xFC (write_ie 0xFF (interrupts_new GameBoy)))"
  have "interrupts_wf ?c" by simp
  moreover have e: "int_enable ?c AND int_flags ?c = 0x1C"
    by (simp add: interrupts_new_def INTERRUPT_REQUEST_MASK_def irq_defs)
  moreover have "\<not> bit (0x1C :: u8) (source_bit s')" if "s' < TimerIrq" for s'
    using that by (cases s') (simp_all add: less_interrupt_source_def)
  ultimately show ?thesis
    using highest_pending_is_least_source [of ?c TimerIrq] by (simp only: e) simp
qed

text \<open>IF reads back its five flags under forced-high upper bits, pending requests of the
  current T-cycle being visible early; IE is a plain byte.\<close>

theorem interrupt_registers_read_back:
  "read_if (write_if v c) = 0xE0 OR v
   \<and> read_if_with_pending_requests p (write_if v c) = 0xE0 OR (v OR p)
   \<and> read_ie (write_ie v c) = v \<and> read_if (write_ie v c) = read_if c
   \<and> read_if_with_pending_requests 0 c = read_if c"
proof -
  have mask: "bit (0xE0 :: u8) n \<or> n < 5" if "n < LENGTH(8)" for n
  proof -
    have "(0xE0 :: u8) = NOT INTERRUPT_REQUEST_MASK" by (simp add: INTERRUPT_REQUEST_MASK_def)
    then show ?thesis using that by (simp only: bit_not_iff bit_request_mask) simp
  qed
  have absorb: "0xE0 OR (x AND INTERRUPT_REQUEST_MASK) = 0xE0 OR x" for x :: u8
    unfolding word_bits_eq_iff bitwise_iffs bit_request_mask using mask by blast
  have "0xE0 OR (x AND INTERRUPT_REQUEST_MASK OR y AND INTERRUPT_REQUEST_MASK) = 0xE0 OR (x OR y)"
    for x y :: u8
    unfolding word_bits_eq_iff bitwise_iffs bit_request_mask using mask by blast
  with absorb show ?thesis
    by (simp add: irq_simps read_if_with_pending_requests_def)
qed

end
