(* ===== verification/Cpu_Types.thy ===== *)
theory Cpu_Types
  imports Gb_Interrupts
begin

text \<open>
  The data of the CPU core: \<open>cpu.rs\<close>, \<open>cpu/decode/kinds.rs\<close> and \<open>cpu/trace.rs\<close>, the
  constructors and state changes of \<open>cpu/state.rs\<close> and \<open>cpu/api.rs\<close>, and the register
  accessors of \<open>cpu/registers.rs\<close>.
\<close>

definition LAST_MACHINE_CYCLE_T :: u8 where "LAST_MACHINE_CYCLE_T = 3"

definition FLAG_Z :: u8 where "FLAG_Z = 0x80"
definition FLAG_N :: u8 where "FLAG_N = 0x40"
definition FLAG_H :: u8 where "FLAG_H = 0x20"
definition FLAG_C :: u8 where "FLAG_C = 0x10"

subsection \<open>Instruction kinds\<close>

datatype register8 = RegA | RegB | RegC | RegD | RegE | RegH | RegL

datatype register16 = PairBC | PairDE | PairHL | PairSP

datatype alu_operation =
  AluAdd | AluAdc | AluSub | AluSbc | AluAnd | AluXor | AluOr | AluCompare

datatype stack_register16 = StackBC | StackDE | StackHL | StackAF

datatype condition_code = CondNz | CondZ | CondNc | CondC

datatype register8_operand = Register register8 | IndirectHl

datatype direct_address_source = AddressBC | AddressDE | AddressHighC

datatype address_update_direction = Increment | Decrement

datatype instruction_execution_group =
  LoadGroup | ArithmeticGroup | ControlFlowGroup | StackGroup | CbPrefixedGroup

datatype fetch_completion_kind =
    Nop
  | DecimalAdjustAccumulator
  | ComplementAccumulator
  | SetCarryFlag
  | ComplementCarryFlag
  | RotateLeftAccumulatorCarry
  | RotateLeftAccumulatorThroughCarry
  | RotateRightAccumulatorCarry
  | RotateRightAccumulatorThroughCarry
  | HaltCompletion
  | DisableInterrupts
  | EnableInterrupts
  | JumpHl
  | LoadRegisterToRegister register8 register8
  | IncrementRegister register8
  | DecrementRegister register8
  | AluRegister alu_operation register8

datatype cb_instruction_kind =
    RotateLeftCarry register8_operand
  | RotateRightCarry register8_operand
  | RotateLeftThroughCarry register8_operand
  | RotateRightThroughCarry register8_operand
  | ShiftLeftArithmetic register8_operand
  | ShiftRightArithmetic register8_operand
  | SwapNibbles register8_operand
  | ShiftRightLogical register8_operand
  | BitTest u8 register8_operand
  | ResetBit u8 register8_operand
  | SetBit u8 register8_operand

fun cb_target :: "cb_instruction_kind \<Rightarrow> register8_operand" where
  "cb_target (RotateLeftCarry t) = t"
| "cb_target (RotateRightCarry t) = t"
| "cb_target (RotateLeftThroughCarry t) = t"
| "cb_target (RotateRightThroughCarry t) = t"
| "cb_target (ShiftLeftArithmetic t) = t"
| "cb_target (ShiftRightArithmetic t) = t"
| "cb_target (SwapNibbles t) = t"
| "cb_target (ShiftRightLogical t) = t"
| "cb_target (BitTest _ t) = t"
| "cb_target (ResetBit _ t) = t"
| "cb_target (SetBit _ t) = t"

datatype cpu_instruction_kind =
    LoadRegisterImmediate register8
  | LoadRegisterPairImmediate register16
  | LoadRegisterFromHl register8
  | StoreRegisterToHl register8
  | StoreImmediateToHl
  | LoadAFromHlWithUpdate address_update_direction
  | StoreAToHlWithUpdate address_update_direction
  | LoadAFromDirectAddress direct_address_source
  | LoadAFromImmediate16Address
  | LoadAFromHighImmediateAddress
  | StoreAToDirectAddress direct_address_source
  | StoreAToImmediate16Address
  | StoreAToHighImmediateAddress
  | StoreSpToImmediate16
  | LoadHlFromSpPlusImmediate
  | AddSpImmediate
  | LoadSpFromHl
  | AddHl register16
  | IncrementRegisterPair register16
  | DecrementRegisterPair register16
  | IncrementHlMemory
  | DecrementHlMemory
  | AluImmediate alu_operation
  | AluFromHl alu_operation
  | RelativeJump
  | ConditionalRelativeJump condition_code
  | AbsoluteJump
  | ConditionalAbsoluteJump condition_code
  | Call
  | ConditionalCall condition_code
  | Return
  | ConditionalReturn condition_code
  | ReturnFromInterrupt
  | Stop
  | Restart u16
  | PushRegisterPair stack_register16
  | PopRegisterPair stack_register16
  | CbPrefixed

definition execution_group :: "cpu_instruction_kind \<Rightarrow> instruction_execution_group" where
  "execution_group k =
     (case k of
        LoadRegisterImmediate _ \<Rightarrow> LoadGroup
      | LoadRegisterPairImmediate _ \<Rightarrow> LoadGroup
      | LoadRegisterFromHl _ \<Rightarrow> LoadGroup
      | StoreRegisterToHl _ \<Rightarrow> LoadGroup
      | StoreImmediateToHl \<Rightarrow> LoadGroup
      | LoadAFromHlWithUpdate _ \<Rightarrow> LoadGroup
      | StoreAToHlWithUpdate _ \<Rightarrow> LoadGroup
      | LoadAFromDirectAddress _ \<Rightarrow> LoadGroup
      | LoadAFromImmediate16Address \<Rightarrow> LoadGroup
      | LoadAFromHighImmediateAddress \<Rightarrow> LoadGroup
      | StoreAToDirectAddress _ \<Rightarrow> LoadGroup
      | StoreAToImmediate16Address \<Rightarrow> LoadGroup
      | StoreAToHighImmediateAddress \<Rightarrow> LoadGroup
      | StoreSpToImmediate16 \<Rightarrow> LoadGroup
      | LoadSpFromHl \<Rightarrow> LoadGroup
      | LoadHlFromSpPlusImmediate \<Rightarrow> ArithmeticGroup
      | AddSpImmediate \<Rightarrow> ArithmeticGroup
      | AddHl _ \<Rightarrow> ArithmeticGroup
      | IncrementRegisterPair _ \<Rightarrow> ArithmeticGroup
      | DecrementRegisterPair _ \<Rightarrow> ArithmeticGroup
      | IncrementHlMemory \<Rightarrow> ArithmeticGroup
      | DecrementHlMemory \<Rightarrow> ArithmeticGroup
      | AluImmediate _ \<Rightarrow> ArithmeticGroup
      | AluFromHl _ \<Rightarrow> ArithmeticGroup
      | PushRegisterPair _ \<Rightarrow> StackGroup
      | PopRegisterPair _ \<Rightarrow> StackGroup
      | CbPrefixed \<Rightarrow> CbPrefixedGroup
      | _ \<Rightarrow> ControlFlowGroup)"

datatype decoded_opcode =
    CompleteOnFetch fetch_completion_kind
  | Execute cpu_instruction_kind
  | Unsupported

subsection \<open>The external port\<close>

datatype cpu_bus_operation =
    BusRead u16
  | BusWrite u16 u8

datatype cpu_external_operation =
    BusOp cpu_bus_operation
  | PendingInterruptMask
  | InterruptEnableMask
  | StopWakeLineAsserted
  | CgbSpeedSwitchPrepared
  | AcknowledgeInterrupt interrupt_source
  | RequestInterrupt interrupt_source

text \<open>
  The callback \<open>FnMut(CpuExternalOperation) -> Option<u8>\<close>; \<open>'w\<close> is what the closure captures,
  and the closure may panic itself.
\<close>

type_synonym 'w cpu_external = "cpu_external_operation \<Rightarrow> 'w \<Rightarrow> (u8 option \<times> 'w) res"

subsection \<open>Core state\<close>

datatype cpu_status = CpuReady

datatype cpu_address_event_kind =
  ReadEvent | WriteEvent | IncDecEvent | ReadWithIncDecEvent | WriteWithIncDecEvent

record cpu_address_event =
  ev_kind :: cpu_address_event_kind
  ev_access_address :: "u16 option"
  ev_idu_address :: "u16 option"
  ev_update_direction :: "address_update_direction option"

datatype cpu_bus_access_kind = OpcodeFetch | OperandRead | DataRead | DataWrite

record cpu_bus_activity =
  act_kind :: cpu_bus_access_kind
  act_address :: u16
  act_value :: u8

record cpu_startup_state =
  start_a :: u8
  start_f :: u8
  start_b :: u8
  start_c :: u8
  start_d :: u8
  start_e :: u8
  start_h :: u8
  start_l :: u8
  start_sp :: u16
  start_pc :: u16

record cpu_registers =
  reg_a :: u8
  reg_f :: u8
  reg_b :: u8
  reg_c :: u8
  reg_d :: u8
  reg_e :: u8
  reg_h :: u8
  reg_l :: u8
  reg_sp :: u16
  reg_pc :: u16

datatype cpu_diagnostic_trap = InvalidOpcode u8 u16

datatype cpu_execution_state =
    FetchOpcode u8
  | ExecuteStep u8 u8
  | ServiceInterrupt interrupt_source u8 u8
  | ServiceStopWakeBuggedInterrupt u8 u8
  | SpeedSwitchPause u32
  | DiagnosticTrap cpu_diagnostic_trap
  | Halted
  | ZombieStopped
  | Stopped

datatype stop_entry_resolution =
    CompleteOnCurrentMachineCycle
  | EnterStoppedAfterPaddingFetch
  | EnterZombieStopped
  | EnterHaltAfterPaddingFetch

record in_flight_instruction =
  ifl_opcode :: "u8 option"
  ifl_kind :: "cpu_instruction_kind option"
  ifl_execution_group :: "instruction_execution_group option"
  ifl_cb_kind :: "cb_instruction_kind option"
  ifl_operand8_latch :: u8
  ifl_operand16_latch :: u16

datatype ime_state =
    ImeDisabled
  | ImeDisabledPendingEnable u8
  | ImeEnabled
  | ImeEnabledPendingEnable u8

record halt_request_context =
  req_ime_enabled :: bool
  req_had_pending_ei :: bool

datatype halt_control_state =
    HaltIdle
  | PendingRequest halt_request_context
  | HaltBugPending

record cpu_core =
  cpu_console_model :: console_model
  cpu_status :: cpu_status
  cpu_startup_state :: cpu_startup_state
  cpu_regs :: cpu_registers
  cpu_state :: cpu_execution_state
  cpu_in_flight :: in_flight_instruction
  cpu_ime :: ime_state
  cpu_halt :: halt_control_state
  cpu_last_bus_activity :: "cpu_bus_activity option"
  cpu_last_address_event :: "cpu_address_event option"
  cpu_stop_div_reset_requested :: bool
  cpu_cgb_speed_switch_requested :: bool

record cpu_save_state =
  csave_console_model :: console_model
  csave_status :: cpu_status
  csave_startup_state :: cpu_startup_state
  csave_regs :: cpu_registers
  csave_state :: cpu_execution_state
  csave_in_flight :: in_flight_instruction
  csave_ime :: ime_state
  csave_halt :: halt_control_state
  csave_last_bus_activity :: "cpu_bus_activity option"
  csave_last_address_event :: "cpu_address_event option"
  csave_stop_div_reset_requested :: bool
  csave_cgb_speed_switch_requested :: bool

definition cpu_capture_save_state :: "cpu_core \<Rightarrow> cpu_save_state" where
  "cpu_capture_save_state c =
     \<lparr>csave_console_model = cpu_console_model c, csave_status = cpu_status c,
      csave_startup_state = cpu_startup_state c, csave_regs = cpu_regs c,
      csave_state = cpu_state c, csave_in_flight = cpu_in_flight c, csave_ime = cpu_ime c,
      csave_halt = cpu_halt c, csave_last_bus_activity = cpu_last_bus_activity c,
      csave_last_address_event = cpu_last_address_event c,
      csave_stop_div_reset_requested = cpu_stop_div_reset_requested c,
      csave_cgb_speed_switch_requested = cpu_cgb_speed_switch_requested c\<rparr>"

definition cpu_restore_save_state :: "cpu_save_state \<Rightarrow> cpu_core \<Rightarrow> cpu_core" where
  "cpu_restore_save_state s c =
     c\<lparr>cpu_console_model := csave_console_model s, cpu_status := csave_status s,
       cpu_startup_state := csave_startup_state s, cpu_regs := csave_regs s,
       cpu_state := csave_state s, cpu_in_flight := csave_in_flight s, cpu_ime := csave_ime s,
       cpu_halt := csave_halt s, cpu_last_bus_activity := csave_last_bus_activity s,
       cpu_last_address_event := csave_last_address_event s,
       cpu_stop_div_reset_requested := csave_stop_div_reset_requested s,
       cpu_cgb_speed_switch_requested := csave_cgb_speed_switch_requested s\<rparr>"

subsection \<open>State changes\<close>

definition read_event :: "u16 \<Rightarrow> cpu_address_event" where
  "read_event a =
     \<lparr>ev_kind = ReadEvent, ev_access_address = Some a, ev_idu_address = None,
      ev_update_direction = None\<rparr>"

definition write_event :: "u16 \<Rightarrow> cpu_address_event" where
  "write_event a =
     \<lparr>ev_kind = WriteEvent, ev_access_address = Some a, ev_idu_address = None,
      ev_update_direction = None\<rparr>"

definition incdec_event :: "u16 \<Rightarrow> address_update_direction \<Rightarrow> cpu_address_event" where
  "incdec_event a d =
     \<lparr>ev_kind = IncDecEvent, ev_access_address = None, ev_idu_address = Some a,
      ev_update_direction = Some d\<rparr>"

definition read_with_incdec_event ::
    "u16 \<Rightarrow> u16 \<Rightarrow> address_update_direction \<Rightarrow> cpu_address_event" where
  "read_with_incdec_event a i d =
     \<lparr>ev_kind = ReadWithIncDecEvent, ev_access_address = Some a, ev_idu_address = Some i,
      ev_update_direction = Some d\<rparr>"

definition write_with_incdec_event ::
    "u16 \<Rightarrow> u16 \<Rightarrow> address_update_direction \<Rightarrow> cpu_address_event" where
  "write_with_incdec_event a i d =
     \<lparr>ev_kind = WriteWithIncDecEvent, ev_access_address = Some a, ev_idu_address = Some i,
      ev_update_direction = Some d\<rparr>"

definition power_on_reset :: cpu_startup_state where
  "power_on_reset =
     \<lparr>start_a = 0, start_f = 0, start_b = 0, start_c = 0, start_d = 0, start_e = 0, start_h = 0,
      start_l = 0, start_sp = 0, start_pc = 0\<rparr>"

definition registers_from_startup_state :: "cpu_startup_state \<Rightarrow> cpu_registers" where
  "registers_from_startup_state s =
     \<lparr>reg_a = start_a s, reg_f = start_f s AND 0xF0, reg_b = start_b s, reg_c = start_c s,
      reg_d = start_d s, reg_e = start_e s, reg_h = start_h s, reg_l = start_l s,
      reg_sp = start_sp s, reg_pc = start_pc s\<rparr>"

definition fetch_opcode :: cpu_execution_state where
  "fetch_opcode = FetchOpcode 0"

definition in_flight_default :: in_flight_instruction where
  "in_flight_default =
     \<lparr>ifl_opcode = None, ifl_kind = None, ifl_execution_group = None, ifl_cb_kind = None,
      ifl_operand8_latch = 0, ifl_operand16_latch = 0\<rparr>"

definition execution_descriptor ::
    "in_flight_instruction \<Rightarrow> (cpu_instruction_kind \<times> instruction_execution_group) option" where
  "execution_descriptor i =
     (case ifl_kind i of
        None \<Rightarrow> None
      | Some kind \<Rightarrow>
          Some (kind, case ifl_execution_group i of Some g \<Rightarrow> g | None \<Rightarrow> execution_group kind))"

definition clear_decoded_state :: "in_flight_instruction \<Rightarrow> in_flight_instruction" where
  "clear_decoded_state i =
     i\<lparr>ifl_kind := None, ifl_execution_group := None, ifl_cb_kind := None,
       ifl_operand8_latch := 0, ifl_operand16_latch := 0\<rparr>"

definition in_flight_clear :: "in_flight_instruction \<Rightarrow> in_flight_instruction" where
  "in_flight_clear i = clear_decoded_state (i\<lparr>ifl_opcode := None\<rparr>)"

fun ime_state_enabled :: "ime_state \<Rightarrow> bool" where
  "ime_state_enabled ImeEnabled = True"
| "ime_state_enabled (ImeEnabledPendingEnable _) = True"
| "ime_state_enabled _ = False"

fun delayed_enable_pending :: "ime_state \<Rightarrow> bool" where
  "delayed_enable_pending (ImeDisabledPendingEnable _) = True"
| "delayed_enable_pending (ImeEnabledPendingEnable _) = True"
| "delayed_enable_pending _ = False"

definition ime_enabled :: "cpu_core \<Rightarrow> bool" where
  "ime_enabled c = ime_state_enabled (cpu_ime c)"

definition delayed_ime_enable :: "cpu_core \<Rightarrow> bool" where
  "delayed_ime_enable c = delayed_enable_pending (cpu_ime c)"

definition set_ime_enabled :: "cpu_core \<Rightarrow> cpu_core" where
  "set_ime_enabled c = c\<lparr>cpu_ime := ImeEnabled\<rparr>"

definition set_ime_disabled :: "cpu_core \<Rightarrow> cpu_core" where
  "set_ime_disabled c = c\<lparr>cpu_ime := ImeDisabled\<rparr>"

definition request_halt_after_current_instruction :: "bool \<Rightarrow> bool \<Rightarrow> cpu_core \<Rightarrow> cpu_core" where
  "request_halt_after_current_instruction ime had_pending_ei c =
     c\<lparr>cpu_halt := PendingRequest \<lparr>req_ime_enabled = ime, req_had_pending_ei = had_pending_ei\<rparr>\<rparr>"

definition take_halt_request :: "cpu_core \<Rightarrow> halt_request_context option \<times> cpu_core" where
  "take_halt_request c =
     (case cpu_halt c of
        PendingRequest r \<Rightarrow> (Some r, c\<lparr>cpu_halt := HaltIdle\<rparr>)
      | _ \<Rightarrow> (None, c))"

definition halt_request_pending :: "cpu_core \<Rightarrow> bool" where
  "halt_request_pending c = (case cpu_halt c of PendingRequest _ \<Rightarrow> True | _ \<Rightarrow> False)"

definition arm_halt_bug :: "cpu_core \<Rightarrow> cpu_core" where
  "arm_halt_bug c = c\<lparr>cpu_halt := HaltBugPending\<rparr>"

definition consume_halt_bug_pending :: "cpu_core \<Rightarrow> bool \<times> cpu_core" where
  "consume_halt_bug_pending c =
     (if cpu_halt c = HaltBugPending then (True, c\<lparr>cpu_halt := HaltIdle\<rparr>) else (False, c))"

definition clear_decoded_instruction_state :: "cpu_core \<Rightarrow> cpu_core" where
  "clear_decoded_instruction_state c = c\<lparr>cpu_in_flight := clear_decoded_state (cpu_in_flight c)\<rparr>"

definition clear_in_flight_instruction_state :: "cpu_core \<Rightarrow> cpu_core" where
  "clear_in_flight_instruction_state c = c\<lparr>cpu_in_flight := in_flight_clear (cpu_in_flight c)\<rparr>"

definition cpu_new :: "console_model \<Rightarrow> cpu_core" where
  "cpu_new m =
     \<lparr>cpu_console_model = m, cpu_status = CpuReady, cpu_startup_state = power_on_reset,
      cpu_regs = registers_from_startup_state power_on_reset, cpu_state = fetch_opcode,
      cpu_in_flight = in_flight_default, cpu_ime = ImeDisabled, cpu_halt = HaltIdle,
      cpu_last_bus_activity = None, cpu_last_address_event = None,
      cpu_stop_div_reset_requested = False, cpu_cgb_speed_switch_requested = False\<rparr>"

definition tick_dma_stall_t_cycle :: "cpu_core \<Rightarrow> cpu_core" where
  "tick_dma_stall_t_cycle c = c\<lparr>cpu_last_bus_activity := None, cpu_last_address_event := None\<rparr>"

definition take_stop_div_reset_request :: "cpu_core \<Rightarrow> bool \<times> cpu_core" where
  "take_stop_div_reset_request c =
     (cpu_stop_div_reset_requested c, c\<lparr>cpu_stop_div_reset_requested := False\<rparr>)"

definition take_cgb_speed_switch_request :: "cpu_core \<Rightarrow> bool \<times> cpu_core" where
  "take_cgb_speed_switch_request c =
     (cpu_cgb_speed_switch_requested c, c\<lparr>cpu_cgb_speed_switch_requested := False\<rparr>)"

definition cpu_apply_startup_state :: "cpu_startup_state \<Rightarrow> cpu_core \<Rightarrow> cpu_core" where
  "cpu_apply_startup_state s c =
     (clear_in_flight_instruction_state
       (c\<lparr>cpu_startup_state := s, cpu_regs := registers_from_startup_state s,
          cpu_state := fetch_opcode, cpu_ime := ImeDisabled, cpu_halt := HaltIdle\<rparr>))
       \<lparr>cpu_last_bus_activity := None, cpu_last_address_event := None,
        cpu_stop_div_reset_requested := False, cpu_cgb_speed_switch_requested := False\<rparr>"

subsection \<open>Registers\<close>

text \<open>Assignments to one register, for \<open>self.registers.x = v\<close>.\<close>

definition set_a :: "u8 \<Rightarrow> cpu_core \<Rightarrow> cpu_core" where
  "set_a v c = c\<lparr>cpu_regs := (cpu_regs c)\<lparr>reg_a := v\<rparr>\<rparr>"

definition set_f :: "u8 \<Rightarrow> cpu_core \<Rightarrow> cpu_core" where
  "set_f v c = c\<lparr>cpu_regs := (cpu_regs c)\<lparr>reg_f := v\<rparr>\<rparr>"

definition set_sp :: "u16 \<Rightarrow> cpu_core \<Rightarrow> cpu_core" where
  "set_sp v c = c\<lparr>cpu_regs := (cpu_regs c)\<lparr>reg_sp := v\<rparr>\<rparr>"

definition set_pc :: "u16 \<Rightarrow> cpu_core \<Rightarrow> cpu_core" where
  "set_pc v c = c\<lparr>cpu_regs := (cpu_regs c)\<lparr>reg_pc := v\<rparr>\<rparr>"

definition get_pc :: "cpu_core \<Rightarrow> u16" where "get_pc c = reg_pc (cpu_regs c)"
definition get_sp :: "cpu_core \<Rightarrow> u16" where "get_sp c = reg_sp (cpu_regs c)"
definition get_a :: "cpu_core \<Rightarrow> u8" where "get_a c = reg_a (cpu_regs c)"
definition get_f :: "cpu_core \<Rightarrow> u8" where "get_f c = reg_f (cpu_regs c)"

definition condition_is_met :: "condition_code option \<Rightarrow> cpu_core \<Rightarrow> bool" where
  "condition_is_met cond c =
     (case cond of
        None \<Rightarrow> True
      | Some CondNz \<Rightarrow> get_f c AND FLAG_Z = 0
      | Some CondZ \<Rightarrow> get_f c AND FLAG_Z \<noteq> 0
      | Some CondNc \<Rightarrow> get_f c AND FLAG_C = 0
      | Some CondC \<Rightarrow> get_f c AND FLAG_C \<noteq> 0)"

fun read_register8 :: "register8 \<Rightarrow> cpu_core \<Rightarrow> u8" where
  "read_register8 RegA c = reg_a (cpu_regs c)"
| "read_register8 RegB c = reg_b (cpu_regs c)"
| "read_register8 RegC c = reg_c (cpu_regs c)"
| "read_register8 RegD c = reg_d (cpu_regs c)"
| "read_register8 RegE c = reg_e (cpu_regs c)"
| "read_register8 RegH c = reg_h (cpu_regs c)"
| "read_register8 RegL c = reg_l (cpu_regs c)"

fun write_register8 :: "register8 \<Rightarrow> u8 \<Rightarrow> cpu_core \<Rightarrow> cpu_core" where
  "write_register8 RegA v c = c\<lparr>cpu_regs := (cpu_regs c)\<lparr>reg_a := v\<rparr>\<rparr>"
| "write_register8 RegB v c = c\<lparr>cpu_regs := (cpu_regs c)\<lparr>reg_b := v\<rparr>\<rparr>"
| "write_register8 RegC v c = c\<lparr>cpu_regs := (cpu_regs c)\<lparr>reg_c := v\<rparr>\<rparr>"
| "write_register8 RegD v c = c\<lparr>cpu_regs := (cpu_regs c)\<lparr>reg_d := v\<rparr>\<rparr>"
| "write_register8 RegE v c = c\<lparr>cpu_regs := (cpu_regs c)\<lparr>reg_e := v\<rparr>\<rparr>"
| "write_register8 RegH v c = c\<lparr>cpu_regs := (cpu_regs c)\<lparr>reg_h := v\<rparr>\<rparr>"
| "write_register8 RegL v c = c\<lparr>cpu_regs := (cpu_regs c)\<lparr>reg_l := v\<rparr>\<rparr>"

fun write_register16 :: "register16 \<Rightarrow> u16 \<Rightarrow> cpu_core \<Rightarrow> cpu_core" where
  "write_register16 PairBC v c =
     c\<lparr>cpu_regs := (cpu_regs c)\<lparr>reg_b := hi_byte v, reg_c := lo_byte v\<rparr>\<rparr>"
| "write_register16 PairDE v c =
     c\<lparr>cpu_regs := (cpu_regs c)\<lparr>reg_d := hi_byte v, reg_e := lo_byte v\<rparr>\<rparr>"
| "write_register16 PairHL v c =
     c\<lparr>cpu_regs := (cpu_regs c)\<lparr>reg_h := hi_byte v, reg_l := lo_byte v\<rparr>\<rparr>"
| "write_register16 PairSP v c = c\<lparr>cpu_regs := (cpu_regs c)\<lparr>reg_sp := v\<rparr>\<rparr>"

definition get_bc :: "cpu_core \<Rightarrow> u16" where
  "get_bc c = from_be_bytes (reg_b (cpu_regs c)) (reg_c (cpu_regs c))"

definition get_de :: "cpu_core \<Rightarrow> u16" where
  "get_de c = from_be_bytes (reg_d (cpu_regs c)) (reg_e (cpu_regs c))"

definition get_hl :: "cpu_core \<Rightarrow> u16" where
  "get_hl c = from_be_bytes (reg_h (cpu_regs c)) (reg_l (cpu_regs c))"

fun read_stack_register16 :: "stack_register16 \<Rightarrow> cpu_core \<Rightarrow> u16" where
  "read_stack_register16 StackBC c = get_bc c"
| "read_stack_register16 StackDE c = get_de c"
| "read_stack_register16 StackHL c = get_hl c"
| "read_stack_register16 StackAF c = from_be_bytes (reg_a (cpu_regs c)) (reg_f (cpu_regs c))"

fun write_stack_register16 :: "stack_register16 \<Rightarrow> u16 \<Rightarrow> cpu_core \<Rightarrow> cpu_core" where
  "write_stack_register16 StackBC v c =
     c\<lparr>cpu_regs := (cpu_regs c)\<lparr>reg_b := hi_byte v, reg_c := lo_byte v\<rparr>\<rparr>"
| "write_stack_register16 StackDE v c =
     c\<lparr>cpu_regs := (cpu_regs c)\<lparr>reg_d := hi_byte v, reg_e := lo_byte v\<rparr>\<rparr>"
| "write_stack_register16 StackHL v c =
     c\<lparr>cpu_regs := (cpu_regs c)\<lparr>reg_h := hi_byte v, reg_l := lo_byte v\<rparr>\<rparr>"
| "write_stack_register16 StackAF v c =
     c\<lparr>cpu_regs := (cpu_regs c)\<lparr>reg_a := hi_byte v, reg_f := lo_byte v AND 0xF0\<rparr>\<rparr>"

definition record_address_event :: "cpu_address_event \<Rightarrow> cpu_core \<Rightarrow> cpu_core" where
  "record_address_event e c = c\<lparr>cpu_last_address_event := Some e\<rparr>"

fun read_register16 :: "register16 \<Rightarrow> cpu_core \<Rightarrow> u16" where
  "read_register16 PairBC c = get_bc c"
| "read_register16 PairDE c = get_de c"
| "read_register16 PairHL c = get_hl c"
| "read_register16 PairSP c = reg_sp (cpu_regs c)"

definition increment_or_decrement_register16 ::
    "register16 \<Rightarrow> address_update_direction \<Rightarrow> cpu_core \<Rightarrow> u16 \<times> cpu_core" where
  "increment_or_decrement_register16 target direction c =
     (let current = read_register16 target c;
          updated = (case direction of Increment \<Rightarrow> current + 1 | Decrement \<Rightarrow> current - 1)
      in (updated, write_register16 target updated c))"

definition increment_or_decrement_register_pair ::
    "register16 \<Rightarrow> address_update_direction \<Rightarrow> cpu_core \<Rightarrow> cpu_core" where
  "increment_or_decrement_register_pair target direction c =
     (case increment_or_decrement_register16 target direction c of
        (updated, c') \<Rightarrow> record_address_event (incdec_event updated direction) c')"

end
