(* ===== verification/Cpu_Bus.thy ===== *)
theory Cpu_Bus
  imports Cpu_Types
begin

text \<open>
  The CPU's side of the bus (\<open>cpu/bus.rs\<close>). A method that is given the callback is a state
  transformer on the core and the callback's captured world; a bus read that is not answered
  panics, the other operations treat no answer as 0.
\<close>

type_synonym ('w, 'a) cpu_sm = "(cpu_core \<times> 'w, 'a) sm"

definition cpu_modify :: "(cpu_core \<Rightarrow> cpu_core) \<Rightarrow> ('w, unit) cpu_sm" where
  "cpu_modify f = sm_modify (map_prod f id)"

definition cpu_gets :: "(cpu_core \<Rightarrow> 'a) \<Rightarrow> ('w, 'a) cpu_sm" where
  "cpu_gets f = sm_gets (\<lambda>(c, w). f c)"

text \<open>A \<open>&mut self\<close> method that returns a value and cannot panic.\<close>

definition cpu_state_fn :: "(cpu_core \<Rightarrow> 'a \<times> cpu_core) \<Rightarrow> ('w, 'a) cpu_sm" where
  "cpu_state_fn f = (\<lambda>(c, w). case f c of (x, c') \<Rightarrow> Inr (x, (c', w)))"

definition external_call ::
    "'w cpu_external \<Rightarrow> cpu_external_operation \<Rightarrow> ('w, u8 option) cpu_sm" where
  "external_call ext op = (\<lambda>(c, w). res_map (\<lambda>(r, w'). (r, (c, w'))) (ext op w))"

definition record_bus_activity :: "cpu_bus_access_kind \<Rightarrow> u16 \<Rightarrow> u8 \<Rightarrow> cpu_core \<Rightarrow> cpu_core" where
  "record_bus_activity kind address v c =
     c\<lparr>cpu_last_bus_activity := Some \<lparr>act_kind = kind, act_address = address, act_value = v\<rparr>\<rparr>"

definition read_byte_with_kind ::
    "'w cpu_external \<Rightarrow> u16 \<Rightarrow> cpu_bus_access_kind \<Rightarrow> ('w, u8) cpu_sm" where
  "read_byte_with_kind ext address kind =
     sm_bind (external_call ext (BusOp (BusRead address))) (\<lambda>r.
     case r of
       None \<Rightarrow> sm_panic ExpectFailed
     | Some v \<Rightarrow> sm_then (cpu_modify (record_bus_activity kind address v)) (sm_return v))"

definition read_pc_u8_with_kind :: "'w cpu_external \<Rightarrow> cpu_bus_access_kind \<Rightarrow> ('w, u8) cpu_sm" where
  "read_pc_u8_with_kind ext kind =
     sm_bind (cpu_gets get_pc) (\<lambda>address.
     sm_bind (read_byte_with_kind ext address kind) (\<lambda>v.
     sm_bind (cpu_state_fn consume_halt_bug_pending) (\<lambda>halt_bug.
     sm_then
       (if halt_bug then cpu_modify (record_address_event (read_event address))
        else cpu_modify (\<lambda>c.
          let c' = set_pc (get_pc c + 1) c
          in record_address_event (read_with_incdec_event address (get_pc c') Increment) c'))
       (sm_return v))))"

definition read_opcode_u8 :: "'w cpu_external \<Rightarrow> ('w, u8) cpu_sm" where
  "read_opcode_u8 ext = read_pc_u8_with_kind ext OpcodeFetch"

definition read_pc_u8 :: "'w cpu_external \<Rightarrow> ('w, u8) cpu_sm" where
  "read_pc_u8 ext = read_pc_u8_with_kind ext OperandRead"

definition read_byte :: "'w cpu_external \<Rightarrow> u16 \<Rightarrow> ('w, u8) cpu_sm" where
  "read_byte ext address =
     sm_bind (read_byte_with_kind ext address DataRead) (\<lambda>v.
     sm_then (cpu_modify (record_address_event (read_event address))) (sm_return v))"

definition unwrap_or_0 :: "u8 option \<Rightarrow> u8" where
  "unwrap_or_0 r = (case r of Some v \<Rightarrow> v | None \<Rightarrow> 0)"

definition cpu_stop_wake_line_asserted :: "'w cpu_external \<Rightarrow> ('w, bool) cpu_sm" where
  "cpu_stop_wake_line_asserted ext =
     sm_bind (external_call ext StopWakeLineAsserted) (\<lambda>r. sm_return (unwrap_or_0 r \<noteq> 0))"

definition cgb_speed_switch_prepared :: "'w cpu_external \<Rightarrow> ('w, bool) cpu_sm" where
  "cgb_speed_switch_prepared ext =
     sm_bind (external_call ext CgbSpeedSwitchPrepared) (\<lambda>r. sm_return (unwrap_or_0 r \<noteq> 0))"

definition write_byte_without_address_event ::
    "'w cpu_external \<Rightarrow> u16 \<Rightarrow> u8 \<Rightarrow> ('w, unit) cpu_sm" where
  "write_byte_without_address_event ext address v =
     sm_then (external_call ext (BusOp (BusWrite address v)))
       (cpu_modify (record_bus_activity DataWrite address v))"

definition write_byte :: "'w cpu_external \<Rightarrow> u16 \<Rightarrow> u8 \<Rightarrow> ('w, unit) cpu_sm" where
  "write_byte ext address v =
     sm_then (write_byte_without_address_event ext address v)
       (cpu_modify (record_address_event (write_event address)))"

subsection \<open>Latches and addresses\<close>

definition set_operand8 :: "u8 \<Rightarrow> cpu_core \<Rightarrow> cpu_core" where
  "set_operand8 v c = c\<lparr>cpu_in_flight := (cpu_in_flight c)\<lparr>ifl_operand8_latch := v\<rparr>\<rparr>"

definition set_operand16 :: "u16 \<Rightarrow> cpu_core \<Rightarrow> cpu_core" where
  "set_operand16 v c = c\<lparr>cpu_in_flight := (cpu_in_flight c)\<lparr>ifl_operand16_latch := v\<rparr>\<rparr>"

definition operand8 :: "cpu_core \<Rightarrow> u8" where
  "operand8 c = ifl_operand8_latch (cpu_in_flight c)"

definition operand16 :: "cpu_core \<Rightarrow> u16" where
  "operand16 c = ifl_operand16_latch (cpu_in_flight c)"

text \<open>\<open>operand16_latch |= u16::from(high) << 8\<close>\<close>

definition or_high_latch :: "u8 \<Rightarrow> cpu_core \<Rightarrow> cpu_core" where
  "or_high_latch high c = set_operand16 (operand16 c OR push_bit 8 (u16_from_u8 high)) c"

fun resolve_direct_address :: "direct_address_source \<Rightarrow> cpu_core \<Rightarrow> u16" where
  "resolve_direct_address AddressBC c = get_bc c"
| "resolve_direct_address AddressDE c = get_de c"
| "resolve_direct_address AddressHighC c = 0xFF00 OR u16_from_u8 (reg_c (cpu_regs c))"

definition resolve_immediate16_address :: "cpu_core \<Rightarrow> u16" where
  "resolve_immediate16_address c = operand16 c"

definition resolve_high_immediate_address :: "cpu_core \<Rightarrow> u16" where
  "resolve_high_immediate_address c = 0xFF00 OR u16_from_u8 (operand8 c)"

subsection \<open>The stack\<close>

definition decrement_sp_and_record_idu_event :: "cpu_core \<Rightarrow> cpu_core" where
  "decrement_sp_and_record_idu_event c =
     (let c' = set_sp (get_sp c - 1) c
      in record_address_event (incdec_event (get_sp c') Decrement) c')"

definition prepare_pc_stack_push :: "cpu_core \<Rightarrow> cpu_core" where
  "prepare_pc_stack_push c =
     decrement_sp_and_record_idu_event (set_operand8 (lo_byte (get_pc c)) c)"

definition write_byte_at_sp :: "'w cpu_external \<Rightarrow> u8 \<Rightarrow> ('w, unit) cpu_sm" where
  "write_byte_at_sp ext v = sm_bind (cpu_gets get_sp) (\<lambda>sp. write_byte ext sp v)"

definition push_pc_high_at_sp :: "'w cpu_external \<Rightarrow> ('w, unit) cpu_sm" where
  "push_pc_high_at_sp ext = sm_bind (cpu_gets (\<lambda>c. hi_byte (get_pc c))) (write_byte_at_sp ext)"

definition push_latched_u16_high_at_sp :: "'w cpu_external \<Rightarrow> ('w, unit) cpu_sm" where
  "push_latched_u16_high_at_sp ext =
     sm_bind (cpu_gets (\<lambda>c. hi_byte (operand16 c))) (write_byte_at_sp ext)"

definition write_byte_with_decremented_sp :: "'w cpu_external \<Rightarrow> u8 \<Rightarrow> ('w, unit) cpu_sm" where
  "write_byte_with_decremented_sp ext v =
     sm_then (cpu_modify (\<lambda>c. set_sp (get_sp c - 1) c))
     (sm_bind (cpu_gets get_sp) (\<lambda>address.
      sm_then (write_byte_without_address_event ext address v)
        (cpu_modify (record_address_event (write_with_incdec_event address address Decrement)))))"

definition push_latched_low_with_decremented_sp :: "'w cpu_external \<Rightarrow> ('w, unit) cpu_sm" where
  "push_latched_low_with_decremented_sp ext =
     sm_bind (cpu_gets operand8) (write_byte_with_decremented_sp ext)"

definition read_byte_and_increment_sp :: "'w cpu_external \<Rightarrow> ('w, u8) cpu_sm" where
  "read_byte_and_increment_sp ext =
     sm_bind (cpu_gets get_sp) (\<lambda>address.
     sm_bind (read_byte_with_kind ext address DataRead) (\<lambda>v.
     sm_then
       (cpu_modify (\<lambda>c.
          let c' = set_sp (get_sp c + 1) c
          in record_address_event (read_with_incdec_event address (get_sp c') Increment) c'))
       (sm_return v)))"

definition read_latched_stack_low_byte :: "'w cpu_external \<Rightarrow> ('w, unit) cpu_sm" where
  "read_latched_stack_low_byte ext =
     sm_bind (read_byte_and_increment_sp ext) (\<lambda>low. cpu_modify (set_operand16 (u16_from_u8 low)))"

definition read_latched_stack_high_byte :: "'w cpu_external \<Rightarrow> ('w, unit) cpu_sm" where
  "read_latched_stack_high_byte ext =
     sm_bind (read_byte_and_increment_sp ext) (\<lambda>high. cpu_modify (or_high_latch high))"

definition read_hl_with_update ::
    "'w cpu_external \<Rightarrow> address_update_direction \<Rightarrow> ('w, u8) cpu_sm" where
  "read_hl_with_update ext direction =
     sm_bind (cpu_gets get_hl) (\<lambda>address.
     sm_bind (read_byte_with_kind ext address DataRead) (\<lambda>v.
     sm_bind (cpu_state_fn (increment_or_decrement_register16 PairHL direction)) (\<lambda>updated.
     sm_then (cpu_modify (record_address_event (read_with_incdec_event address updated direction)))
       (sm_return v))))"

definition write_hl_with_update ::
    "'w cpu_external \<Rightarrow> u8 \<Rightarrow> address_update_direction \<Rightarrow> ('w, unit) cpu_sm" where
  "write_hl_with_update ext v direction =
     sm_bind (cpu_gets get_hl) (\<lambda>address.
     sm_then (write_byte_without_address_event ext address v)
     (sm_bind (cpu_state_fn (increment_or_decrement_register16 PairHL direction)) (\<lambda>updated.
      cpu_modify (record_address_event (write_with_incdec_event address updated direction)))))"

subsection \<open>The interface\<close>

text \<open>
  What the core needs of its callback: bus reads are answered and an invariant of the captured
  world is kept by every operation. \<open>wp\<close> rules for the bus primitives follow.
\<close>

lemma wp_cpu_modify [wp_simps]: "wp (cpu_modify f) Q (c, w) \<longleftrightarrow> Q () (f c, w)"
  by (simp add: cpu_modify_def wp_modify)

lemma wp_cpu_gets [wp_simps]: "wp (cpu_gets f) Q (c, w) \<longleftrightarrow> Q (f c) (c, w)"
  by (simp add: cpu_gets_def wp_gets)

lemma wp_cpu_state_fn [wp_simps]:
  "wp (cpu_state_fn f) Q (c, w) \<longleftrightarrow> Q (fst (f c)) (snd (f c), w)"
  by (simp add: cpu_state_fn_def wp_def split: prod.split)

lemma wp_external_call:
  "wp (external_call ext op) Q (c, w) \<longleftrightarrow> (\<exists>r w'. ext op w = Inr (r, w') \<and> Q r (c, w'))"
  by (cases "ext op w") (auto simp: external_call_def wp_def split: prod.split)

locale cpu_port =
  fixes ext :: "'w cpu_external"
    and inv :: "'w \<Rightarrow> bool"
  assumes call_ok: "inv w \<Longrightarrow> \<exists>r w'. ext op w = Inr (r, w') \<and> inv w'"
    and read_answered: "ext (BusOp (BusRead a)) w = Inr (r, w') \<Longrightarrow> inv w \<Longrightarrow> r \<noteq> None"
begin

lemma wp_port_call:
  assumes "inv w" and "\<And>r w'. inv w' \<Longrightarrow> Q r (c, w')"
  shows "wp (external_call ext op) Q (c, w)"
  using assms call_ok [of w op] by (auto simp: wp_external_call)

lemma wp_read_byte_with_kind:
  assumes "inv w"
    and "\<And>v w'. inv w' \<Longrightarrow> Q v (record_bus_activity kind a v c, w')"
  shows "wp (read_byte_with_kind ext a kind) Q (c, w)"
proof -
  obtain r w' where r: "ext (BusOp (BusRead a)) w = Inr (r, w')" "inv w'"
    using call_ok [OF assms(1)] by blast
  moreover obtain v where "r = Some v"
    using read_answered [OF r(1) assms(1)] by blast
  ultimately show ?thesis
    using assms(2) by (simp add: read_byte_with_kind_def wp_simps wp_external_call)
qed

end

end
