(* ===== verification/Cpu_Alu.thy ===== *)
theory Cpu_Alu
  imports Cpu_Types
begin

text \<open>
  The arithmetic of \<open>cpu/alu.rs\<close>: every operation computes a result from the registers and
  rewrites the flag byte.
\<close>

text \<open>\<open>self.registers.f = 0\<close> and then one \<open>|=\<close> per flag that is set.\<close>

definition flags_byte :: "bool \<Rightarrow> bool \<Rightarrow> bool \<Rightarrow> bool \<Rightarrow> u8" where
  "flags_byte zero subtract half_carry carry =
     (let f0 = 0;
          f1 = (if zero then f0 OR FLAG_Z else f0);
          f2 = (if subtract then f1 OR FLAG_N else f1);
          f3 = (if half_carry then f2 OR FLAG_H else f2)
      in if carry then f3 OR FLAG_C else f3)"

definition write_flags :: "bool \<Rightarrow> bool \<Rightarrow> bool \<Rightarrow> bool \<Rightarrow> cpu_core \<Rightarrow> cpu_core" where
  "write_flags zero subtract half_carry carry c = set_f (flags_byte zero subtract half_carry carry) c"

definition update_inc_flags :: "u8 \<Rightarrow> u8 \<Rightarrow> cpu_core \<Rightarrow> cpu_core" where
  "update_inc_flags before result c =
     (let carry = (get_f c AND FLAG_C \<noteq> 0);
          f0 = 0;
          f1 = (if result = 0 then f0 OR FLAG_Z else f0);
          f2 = (if before AND 0x0F = 0x0F then f1 OR FLAG_H else f1)
      in set_f (if carry then f2 OR FLAG_C else f2) c)"

definition update_dec_flags :: "u8 \<Rightarrow> u8 \<Rightarrow> cpu_core \<Rightarrow> cpu_core" where
  "update_dec_flags before result c =
     (let carry = (get_f c AND FLAG_C \<noteq> 0);
          f0 = FLAG_N;
          f1 = (if result = 0 then f0 OR FLAG_Z else f0);
          f2 = (if before AND 0x0F = 0 then f1 OR FLAG_H else f1)
      in set_f (if carry then f2 OR FLAG_C else f2) c)"

definition add_to_a :: "u8 \<Rightarrow> cpu_core \<Rightarrow> cpu_core" where
  "add_to_a v c =
     (let a = get_a c;
          result = a + v;
          carry = (unat a + unat v > 0xFF);
          half_carry = ((a AND 0x0F) + (v AND 0x0F) > 0x0F)
      in write_flags (result = 0) False half_carry carry (set_a result c))"

definition adc_to_a :: "u8 \<Rightarrow> cpu_core \<Rightarrow> cpu_core" where
  "adc_to_a v c =
     (let a = get_a c;
          carry_in = u8_of_bool (get_f c AND FLAG_C \<noteq> 0);
          result16 = (ucast a :: u16) + ucast v + ucast carry_in;
          result = (ucast result16 :: u8);
          half_carry = ((a AND 0x0F) + (v AND 0x0F) + carry_in > 0x0F)
      in write_flags (result = 0) False half_carry (result16 > 0xFF) (set_a result c))"

definition sub_from_a :: "u8 \<Rightarrow> cpu_core \<Rightarrow> cpu_core" where
  "sub_from_a v c =
     (let a = get_a c;
          result = a - v;
          half_carry = ((a AND 0x0F) < (v AND 0x0F));
          carry = (a < v)
      in write_flags (result = 0) True half_carry carry (set_a result c))"

definition sbc_from_a :: "u8 \<Rightarrow> cpu_core \<Rightarrow> cpu_core" where
  "sbc_from_a v c =
     (let a = get_a c;
          carry_in = u8_of_bool (get_f c AND FLAG_C \<noteq> 0);
          result = a - v - carry_in;
          half_carry = ((a AND 0x0F) < (v AND 0x0F) + carry_in);
          carry = ((ucast a :: u16) < ucast v + ucast carry_in)
      in write_flags (result = 0) True half_carry carry (set_a result c))"

definition and_with_a :: "u8 \<Rightarrow> cpu_core \<Rightarrow> cpu_core" where
  "and_with_a v c =
     (let c' = set_a (get_a c AND v) c in write_flags (get_a c' = 0) False True False c')"

definition xor_with_a :: "u8 \<Rightarrow> cpu_core \<Rightarrow> cpu_core" where
  "xor_with_a v c =
     (let c' = set_a (get_a c XOR v) c in write_flags (get_a c' = 0) False False False c')"

definition or_with_a :: "u8 \<Rightarrow> cpu_core \<Rightarrow> cpu_core" where
  "or_with_a v c =
     (let c' = set_a (get_a c OR v) c in write_flags (get_a c' = 0) False False False c')"

definition compare_a :: "u8 \<Rightarrow> cpu_core \<Rightarrow> cpu_core" where
  "compare_a v c =
     (let a = get_a c;
          result = a - v;
          half_carry = ((a AND 0x0F) < (v AND 0x0F));
          carry = (a < v)
      in write_flags (result = 0) True half_carry carry c)"

definition add_to_hl :: "u16 \<Rightarrow> cpu_core \<Rightarrow> cpu_core" where
  "add_to_hl v c =
     (let hl = get_hl c;
          result = hl + v;
          zero = (get_f c AND FLAG_Z \<noteq> 0);
          half_carry = ((hl AND 0x0FFF) + (v AND 0x0FFF) > 0x0FFF);
          carry = ((ucast hl :: u32) + ucast v > 0xFFFF)
      in write_flags zero False half_carry carry (write_register16 PairHL result c))"

text \<open>\<open>i16::from(value as i8)\<close> is sign extension; \<open>wrapping_add_signed\<close> is addition of words.\<close>

definition sign_extend_u8 :: "u8 \<Rightarrow> u16" where
  "sign_extend_u8 v = scast v"

definition sp_plus_signed_immediate :: "u8 \<Rightarrow> cpu_core \<Rightarrow> u16 \<times> cpu_core" where
  "sp_plus_signed_immediate v c =
     (let sp = get_sp c;
          result = sp + sign_extend_u8 v;
          half_carry = ((sp AND 0x000F) + ucast (v AND 0x0F) > 0x000F);
          carry = ((sp AND 0x00FF) + ucast v > 0x00FF)
      in (result, write_flags False False half_carry carry c))"

fun apply_alu_operation :: "alu_operation \<Rightarrow> u8 \<Rightarrow> cpu_core \<Rightarrow> cpu_core" where
  "apply_alu_operation AluAdd v c = add_to_a v c"
| "apply_alu_operation AluAdc v c = adc_to_a v c"
| "apply_alu_operation AluSub v c = sub_from_a v c"
| "apply_alu_operation AluSbc v c = sbc_from_a v c"
| "apply_alu_operation AluAnd v c = and_with_a v c"
| "apply_alu_operation AluXor v c = xor_with_a v c"
| "apply_alu_operation AluOr v c = or_with_a v c"
| "apply_alu_operation AluCompare v c = compare_a v c"

definition decimal_adjust_a :: "cpu_core \<Rightarrow> cpu_core" where
  "decimal_adjust_a c =
     (let a = get_a c;
          subtract = (get_f c AND FLAG_N \<noteq> 0);
          half_carry = (get_f c AND FLAG_H \<noteq> 0);
          carry = (get_f c AND FLAG_C \<noteq> 0)
      in if \<not> subtract
         then
           let adjust1 = (if half_carry \<or> (a AND 0x0F) > 0x09 then 0x06 else 0);
               adjust2 = (if carry \<or> a > 0x99 then adjust1 OR 0x60 else adjust1);
               next_carry = (if carry \<or> a > 0x99 then True else carry);
               a' = a + adjust2
           in write_flags (a' = 0) subtract False next_carry (set_a a' c)
         else
           let adjust1 = (if half_carry then 0x06 else 0);
               adjust2 = (if carry then adjust1 OR 0x60 else adjust1);
               a' = a - adjust2
           in write_flags (a' = 0) subtract False carry (set_a a' c))"

definition complement_a :: "cpu_core \<Rightarrow> cpu_core" where
  "complement_a c0 =
     (let c = set_a (NOT (get_a c0)) c0;
          zero = (get_f c AND FLAG_Z \<noteq> 0);
          carry = (get_f c AND FLAG_C \<noteq> 0)
      in write_flags zero True True carry c)"

definition set_carry_flag :: "cpu_core \<Rightarrow> cpu_core" where
  "set_carry_flag c = write_flags (get_f c AND FLAG_Z \<noteq> 0) False False True c"

definition complement_carry_flag :: "cpu_core \<Rightarrow> cpu_core" where
  "complement_carry_flag c =
     write_flags (get_f c AND FLAG_Z \<noteq> 0) False False (get_f c AND FLAG_C = 0) c"

subsection \<open>Rotates, shifts and bits\<close>

definition rotate_left_carry :: "u8 \<Rightarrow> cpu_core \<Rightarrow> u8 \<times> cpu_core" where
  "rotate_left_carry v c =
     (let carry = (v AND 0x80 \<noteq> 0); result = word_rotl 1 v
      in (result, write_flags (result = 0) False False carry c))"

definition rotate_right_carry :: "u8 \<Rightarrow> cpu_core \<Rightarrow> u8 \<times> cpu_core" where
  "rotate_right_carry v c =
     (let carry = (v AND 0x01 \<noteq> 0); result = word_rotr 1 v
      in (result, write_flags (result = 0) False False carry c))"

definition rotate_left_through_carry :: "u8 \<Rightarrow> cpu_core \<Rightarrow> u8 \<times> cpu_core" where
  "rotate_left_through_carry v c =
     (let carry_in = u8_of_bool (get_f c AND FLAG_C \<noteq> 0);
          carry_out = (v AND 0x80 \<noteq> 0);
          result = push_bit 1 v OR carry_in
      in (result, write_flags (result = 0) False False carry_out c))"

definition rotate_right_through_carry :: "u8 \<Rightarrow> cpu_core \<Rightarrow> u8 \<times> cpu_core" where
  "rotate_right_through_carry v c =
     (let carry_in = push_bit 7 (u8_of_bool (get_f c AND FLAG_C \<noteq> 0));
          carry_out = (v AND 0x01 \<noteq> 0);
          result = drop_bit 1 v OR carry_in
      in (result, write_flags (result = 0) False False carry_out c))"

definition shift_left_arithmetic :: "u8 \<Rightarrow> cpu_core \<Rightarrow> u8 \<times> cpu_core" where
  "shift_left_arithmetic v c =
     (let carry_out = (v AND 0x80 \<noteq> 0); result = push_bit 1 v
      in (result, write_flags (result = 0) False False carry_out c))"

definition shift_right_arithmetic :: "u8 \<Rightarrow> cpu_core \<Rightarrow> u8 \<times> cpu_core" where
  "shift_right_arithmetic v c =
     (let carry_out = (v AND 0x01 \<noteq> 0); result = drop_bit 1 v OR (v AND 0x80)
      in (result, write_flags (result = 0) False False carry_out c))"

definition swap_nibbles :: "u8 \<Rightarrow> cpu_core \<Rightarrow> u8 \<times> cpu_core" where
  "swap_nibbles v c =
     (let result = word_rotl 4 v in (result, write_flags (result = 0) False False False c))"

definition shift_right_logical :: "u8 \<Rightarrow> cpu_core \<Rightarrow> u8 \<times> cpu_core" where
  "shift_right_logical v c =
     (let carry_out = (v AND 0x01 \<noteq> 0); result = drop_bit 1 v
      in (result, write_flags (result = 0) False False carry_out c))"

definition bit_test :: "u8 \<Rightarrow> u8 \<Rightarrow> cpu_core \<Rightarrow> cpu_core" where
  "bit_test b v c =
     (let carry = (get_f c AND FLAG_C \<noteq> 0);
          f0 = FLAG_H;
          f1 = (if v AND push_bit (unat b) 1 = 0 then f0 OR FLAG_Z else f0)
      in set_f (if carry then f1 OR FLAG_C else f1) c)"

definition reset_bit :: "u8 \<Rightarrow> u8 \<Rightarrow> u8" where
  "reset_bit v b = v AND NOT (push_bit (unat b) 1)"

definition set_bit_u8 :: "u8 \<Rightarrow> u8 \<Rightarrow> u8" where
  "set_bit_u8 v b = v OR push_bit (unat b) 1"

fun apply_cb_operation :: "cb_instruction_kind \<Rightarrow> u8 \<Rightarrow> cpu_core \<Rightarrow> u8 option \<times> cpu_core" where
  "apply_cb_operation (RotateLeftCarry _) v c = map_prod Some id (rotate_left_carry v c)"
| "apply_cb_operation (RotateRightCarry _) v c = map_prod Some id (rotate_right_carry v c)"
| "apply_cb_operation (RotateLeftThroughCarry _) v c =
     map_prod Some id (rotate_left_through_carry v c)"
| "apply_cb_operation (RotateRightThroughCarry _) v c =
     map_prod Some id (rotate_right_through_carry v c)"
| "apply_cb_operation (ShiftLeftArithmetic _) v c = map_prod Some id (shift_left_arithmetic v c)"
| "apply_cb_operation (ShiftRightArithmetic _) v c = map_prod Some id (shift_right_arithmetic v c)"
| "apply_cb_operation (SwapNibbles _) v c = map_prod Some id (swap_nibbles v c)"
| "apply_cb_operation (ShiftRightLogical _) v c = map_prod Some id (shift_right_logical v c)"
| "apply_cb_operation (BitTest b _) v c = (None, bit_test b v c)"
| "apply_cb_operation (ResetBit b _) v c = (Some (reset_bit v b), c)"
| "apply_cb_operation (SetBit b _) v c = (Some (set_bit_u8 v b), c)"

subsection \<open>Reading the registers back\<close>

named_theorems cpu_reg_simps \<open>registers after a change of state\<close>
named_theorems alu_defs \<open>the definitions of the arithmetic unit\<close>

lemmas alu_definitions [alu_defs] =
  write_flags_def update_inc_flags_def update_dec_flags_def add_to_a_def adc_to_a_def
  sub_from_a_def sbc_from_a_def and_with_a_def xor_with_a_def or_with_a_def compare_a_def
  add_to_hl_def sp_plus_signed_immediate_def decimal_adjust_a_def complement_a_def
  set_carry_flag_def complement_carry_flag_def rotate_left_carry_def rotate_right_carry_def
  rotate_left_through_carry_def rotate_right_through_carry_def shift_left_arithmetic_def
  shift_right_arithmetic_def swap_nibbles_def shift_right_logical_def bit_test_def

lemma get_set [simp]:
  "get_a (set_a v c) = v" "get_f (set_a v c) = get_f c" "get_pc (set_a v c) = get_pc c"
  "get_sp (set_a v c) = get_sp c" "get_hl (set_a v c) = get_hl c"
  "get_a (set_f v c) = get_a c" "get_f (set_f v c) = v" "get_pc (set_f v c) = get_pc c"
  "get_sp (set_f v c) = get_sp c" "get_hl (set_f v c) = get_hl c"
  "get_a (set_pc p c) = get_a c" "get_f (set_pc p c) = get_f c" "get_pc (set_pc p c) = p"
  "get_sp (set_pc p c) = get_sp c" "get_hl (set_pc p c) = get_hl c"
  "get_a (set_sp p c) = get_a c" "get_f (set_sp p c) = get_f c" "get_pc (set_sp p c) = get_pc c"
  "get_sp (set_sp p c) = p" "get_hl (set_sp p c) = get_hl c"
  by (simp_all add: get_a_def get_f_def get_pc_def get_sp_def get_hl_def set_a_def set_f_def
      set_pc_def set_sp_def)

text \<open>The flags as booleans.\<close>

definition flag_z :: "cpu_core \<Rightarrow> bool" where "flag_z c = (get_f c AND FLAG_Z \<noteq> 0)"
definition flag_n :: "cpu_core \<Rightarrow> bool" where "flag_n c = (get_f c AND FLAG_N \<noteq> 0)"
definition flag_h :: "cpu_core \<Rightarrow> bool" where "flag_h c = (get_f c AND FLAG_H \<noteq> 0)"
definition flag_c :: "cpu_core \<Rightarrow> bool" where "flag_c c = (get_f c AND FLAG_C \<noteq> 0)"

lemmas flag_defs = FLAG_Z_def FLAG_N_def FLAG_H_def FLAG_C_def

lemma flags_byte_bits [simp]:
  "flags_byte z n h c AND FLAG_Z = (if z then FLAG_Z else 0)"
  "flags_byte z n h c AND FLAG_N = (if n then FLAG_N else 0)"
  "flags_byte z n h c AND FLAG_H = (if h then FLAG_H else 0)"
  "flags_byte z n h c AND FLAG_C = (if c then FLAG_C else 0)"
  by (cases z; cases n; cases h; cases c; simp add: flags_byte_def flag_defs Let_def)+

lemma flags_byte_low [simp]: "flags_byte z n h c AND 0x0F = 0"
  by (cases z; cases n; cases h; cases c; simp add: flags_byte_def flag_defs Let_def)

lemma flag_constants_neq [simp]: "FLAG_Z \<noteq> 0" "FLAG_N \<noteq> 0" "FLAG_H \<noteq> 0" "FLAG_C \<noteq> 0"
  by (simp_all add: flag_defs)

lemma write_flags_flags [simp]:
  "flag_z (write_flags z n h cy c) = z"
  "flag_n (write_flags z n h cy c) = n"
  "flag_h (write_flags z n h cy c) = h"
  "flag_c (write_flags z n h cy c) = cy"
  "get_a (write_flags z n h cy c) = get_a c"
  "get_hl (write_flags z n h cy c) = get_hl c"
  "get_sp (write_flags z n h cy c) = get_sp c"
  "get_pc (write_flags z n h cy c) = get_pc c"
  by (simp_all add: flag_z_def flag_n_def flag_h_def flag_c_def write_flags_def)

text \<open>The unused low nibble of F reads zero.\<close>

definition flags_wf :: "cpu_core \<Rightarrow> bool" where
  "flags_wf c = (get_f c AND 0x0F = 0)"

lemma flags_wf_write_flags [simp]: "flags_wf (write_flags z n h cy c)"
  by (simp add: flags_wf_def write_flags_def)

lemma flags_wf_set_a [simp]: "flags_wf (set_a v c) = flags_wf c"
  by (simp add: flags_wf_def)

lemma flags_wf_set_pc [simp]: "flags_wf (set_pc v c) = flags_wf c"
  by (simp add: flags_wf_def)

lemma flags_wf_set_sp [simp]: "flags_wf (set_sp v c) = flags_wf c"
  by (simp add: flags_wf_def)

lemma flags_wf_write_register8 [simp]: "flags_wf (write_register8 r v c) = flags_wf c"
  by (cases r) (simp_all add: flags_wf_def get_f_def)

lemma flags_wf_write_register16 [simp]: "flags_wf (write_register16 r w c) = flags_wf c"
  by (cases r) (simp_all add: flags_wf_def get_f_def)

lemma flags_wf_inc_dec [simp]:
  "flags_wf (update_inc_flags b r c)" "flags_wf (update_dec_flags b r c)" "flags_wf (bit_test n v c)"
  by (simp_all add: flags_wf_def update_inc_flags_def update_dec_flags_def bit_test_def flag_defs Let_def)

lemma flags_wf_alu [simp]: "flags_wf (apply_alu_operation op v c)"
  by (cases op) (simp_all add: alu_definitions(4-11) Let_def flip: write_flags_def)

end
