(* ===== verification/Gb_Speed.thy ===== *)
theory Gb_Speed
  imports Gb_Model
begin

text \<open>
  The CGB speed controller of \<open>speed.rs\<close>: KEY1, the prepared speed switch, and the
  cadences each speed gives to the divider, serial, LCD and APU domains.
\<close>

definition CGB_SPEED_SWITCH_PAUSE_T_CYCLES :: u32 where
  "CGB_SPEED_SWITCH_PAUSE_T_CYCLES = 65540"
definition KEY1_UNUSED_READ_MASK :: u8 where "KEY1_UNUSED_READ_MASK = 0x7E"
definition KEY1_CURRENT_SPEED_BIT :: u8 where "KEY1_CURRENT_SPEED_BIT = 0x80"
definition KEY1_PREPARE_SWITCH_BIT :: u8 where "KEY1_PREPARE_SWITCH_BIT = 0x01"

datatype cgb_speed_mode = NormalSpeed | DoubleSpeed

fun key1_bit :: "cgb_speed_mode \<Rightarrow> u8" where
  "key1_bit NormalSpeed = 0"
| "key1_bit DoubleSpeed = KEY1_CURRENT_SPEED_BIT"

fun timer_increment_per_scheduler_t_cycle :: "cgb_speed_mode \<Rightarrow> u16" where
  "timer_increment_per_scheduler_t_cycle NormalSpeed = 1"
| "timer_increment_per_scheduler_t_cycle DoubleSpeed = 1"

fun div_apu_counter_bit :: "cgb_speed_mode \<Rightarrow> u8" where
  "div_apu_counter_bit NormalSpeed = 12"
| "div_apu_counter_bit DoubleSpeed = 13"

fun speed_serial_internal_clock_edge_bit :: "cgb_speed_mode \<Rightarrow> u8" where
  "speed_serial_internal_clock_edge_bit NormalSpeed = 8"
| "speed_serial_internal_clock_edge_bit DoubleSpeed = 7"

fun lcd_tick_due_at_scheduler_t_cycle :: "u64 \<Rightarrow> cgb_speed_mode \<Rightarrow> bool" where
  "lcd_tick_due_at_scheduler_t_cycle t NormalSpeed = True"
| "lcd_tick_due_at_scheduler_t_cycle t DoubleSpeed = (t AND 1 = 0)"

definition apu_tick_due_at_scheduler_t_cycle :: "u64 \<Rightarrow> cgb_speed_mode \<Rightarrow> bool" where
  "apu_tick_due_at_scheduler_t_cycle t s = lcd_tick_due_at_scheduler_t_cycle t s"

fun toggled :: "cgb_speed_mode \<Rightarrow> cgb_speed_mode" where
  "toggled NormalSpeed = DoubleSpeed"
| "toggled DoubleSpeed = NormalSpeed"

datatype speed_status = SpeedReady

record speed_controller =
  spd_console_model :: console_model
  spd_operating_mode :: operating_mode
  spd_status :: speed_status
  spd_current_speed :: cgb_speed_mode
  spd_switch_armed :: bool

record speed_save_state =
  spd_saved_console_model :: console_model
  spd_saved_operating_mode :: operating_mode
  spd_saved_status :: speed_status
  spd_saved_current_speed :: cgb_speed_mode
  spd_saved_switch_armed :: bool

definition speed_new :: "console_model \<Rightarrow> operating_mode \<Rightarrow> speed_controller" where
  "speed_new m mode =
     \<lparr>spd_console_model = m, spd_operating_mode = mode, spd_status = SpeedReady,
      spd_current_speed = NormalSpeed, spd_switch_armed = False\<rparr>"

definition cgb_speed_switch_enabled :: "speed_controller \<Rightarrow> bool" where
  "cgb_speed_switch_enabled s =
     (is_cgb_family (spd_console_model s) \<and> enables_cgb_speed_switch (spd_operating_mode s))"

definition speed_current_speed :: "speed_controller \<Rightarrow> cgb_speed_mode" where
  "speed_current_speed s = (if cgb_speed_switch_enabled s then spd_current_speed s else NormalSpeed)"

definition switch_armed :: "speed_controller \<Rightarrow> bool" where
  "switch_armed s = (cgb_speed_switch_enabled s \<and> spd_switch_armed s)"

definition speed_reset_for_model_axes ::
    "console_model \<Rightarrow> operating_mode \<Rightarrow> speed_controller \<Rightarrow> speed_controller" where
  "speed_reset_for_model_axes m mode s = speed_new m mode"

definition speed_apply_operating_mode_state ::
    "operating_mode \<Rightarrow> speed_controller \<Rightarrow> speed_controller" where
  "speed_apply_operating_mode_state mode s0 =
     (let s = s0\<lparr>spd_operating_mode := mode\<rparr>
      in if \<not> cgb_speed_switch_enabled s
         then s\<lparr>spd_current_speed := NormalSpeed, spd_switch_armed := False\<rparr> else s)"

definition speed_capture_save_state :: "speed_controller \<Rightarrow> speed_save_state" where
  "speed_capture_save_state s =
     \<lparr>spd_saved_console_model = spd_console_model s,
      spd_saved_operating_mode = spd_operating_mode s,
      spd_saved_status = spd_status s,
      spd_saved_current_speed = spd_current_speed s,
      spd_saved_switch_armed = spd_switch_armed s\<rparr>"

definition speed_restore_save_state ::
    "speed_save_state \<Rightarrow> speed_controller \<Rightarrow> speed_controller" where
  "speed_restore_save_state st s =
     s\<lparr>spd_console_model := spd_saved_console_model st,
       spd_operating_mode := spd_saved_operating_mode st,
       spd_status := spd_saved_status st,
       spd_current_speed := spd_saved_current_speed st,
       spd_switch_armed := spd_saved_switch_armed st\<rparr>"

definition read_key1 :: "speed_controller \<Rightarrow> u8" where
  "read_key1 s =
     (if \<not> cgb_speed_switch_enabled s then 0xFF
      else KEY1_UNUSED_READ_MASK OR key1_bit (spd_current_speed s)
           OR (u8_of_bool (spd_switch_armed s) * KEY1_PREPARE_SWITCH_BIT))"

definition write_key1 :: "u8 \<Rightarrow> speed_controller \<Rightarrow> speed_controller" where
  "write_key1 v s =
     (if \<not> cgb_speed_switch_enabled s then s
      else s\<lparr>spd_switch_armed := (v AND KEY1_PREPARE_SWITCH_BIT \<noteq> 0)\<rparr>)"

definition begin_prepared_speed_switch :: "speed_controller \<Rightarrow> bool \<times> speed_controller" where
  "begin_prepared_speed_switch s =
     (if \<not> switch_armed s then (False, s)
      else (True, s\<lparr>spd_switch_armed := False, spd_current_speed := toggled (spd_current_speed s)\<rparr>))"

named_theorems speed_simps \<open>the speed controller's registers\<close>

lemmas speed_defs [speed_simps] =
  KEY1_UNUSED_READ_MASK_def KEY1_CURRENT_SPEED_BIT_def KEY1_PREPARE_SWITCH_BIT_def
  cgb_speed_switch_enabled_def speed_current_speed_def switch_armed_def read_key1_def
  write_key1_def begin_prepared_speed_switch_def

lemma toggled_toggled [simp]: "toggled (toggled s) = s"
  by (cases s) simp_all

lemma toggled_neq [simp]: "toggled s \<noteq> s"
  by (cases s) simp_all

lemma speed_save_restore [simp]:
  "speed_restore_save_state (speed_capture_save_state s) s' = s"
  by (simp add: speed_restore_save_state_def speed_capture_save_state_def)

text \<open>KEY1 shows the speed in bit 7 and the armed switch in bit 0; all other bits read 1.\<close>

lemma read_key1_cases:
  "read_key1 s =
     (if \<not> cgb_speed_switch_enabled s then 0xFF
      else case (spd_current_speed s, spd_switch_armed s) of
             (NormalSpeed, False) \<Rightarrow> 0x7E | (NormalSpeed, True) \<Rightarrow> 0x7F
           | (DoubleSpeed, False) \<Rightarrow> 0xFE | (DoubleSpeed, True) \<Rightarrow> 0xFF)"
  by (cases "spd_current_speed s"; cases "spd_switch_armed s")
    (simp_all add: speed_simps u8_of_bool_def)

text \<open>Arming through KEY1 and then switching toggles the speed once and disarms.\<close>

definition speed_switch_round :: "speed_controller \<Rightarrow> speed_controller" where
  "speed_switch_round s = snd (begin_prepared_speed_switch (write_key1 1 s))"

lemma speed_switch_round_eq:
  "cgb_speed_switch_enabled s \<Longrightarrow> speed_switch_round s =
     s\<lparr>spd_switch_armed := False, spd_current_speed := toggled (spd_current_speed s)\<rparr>"
  by (simp add: speed_switch_round_def speed_simps)

lemma speed_switch_round_enabled [simp]:
  "cgb_speed_switch_enabled (speed_switch_round s) = cgb_speed_switch_enabled s"
  by (simp add: speed_switch_round_def speed_simps)

subsection \<open>Properties\<close>

text \<open>KEY1 and the speed switch. Where the model and mode enable it, arming and switching
  toggles the speed exactly once, a second switch without arming does nothing, two armed
  switches restore the speed, and KEY1 reads the speed and the armed bit with all other bits
  set; elsewhere KEY1 reads 0xFF, writes are lost, and no switch ever starts.\<close>

theorem speed_switch_protocol:
  "(if cgb_speed_switch_enabled s
    then fst (begin_prepared_speed_switch (write_key1 1 s))
       \<and> speed_current_speed (speed_switch_round s) = toggled (speed_current_speed s)
       \<and> \<not> fst (begin_prepared_speed_switch (speed_switch_round s))
       \<and> speed_current_speed (speed_switch_round (speed_switch_round s)) = speed_current_speed s
       \<and> read_key1 (write_key1 v s) = 0x7E OR key1_bit (spd_current_speed s) OR (v AND 1)
    else read_key1 s = 0xFF \<and> write_key1 v s = s \<and> \<not> fst (begin_prepared_speed_switch s)
       \<and> speed_current_speed s = NormalSpeed)"
proof (cases "cgb_speed_switch_enabled s")
  case True
  have round: "cgb_speed_switch_enabled (speed_switch_round s)" using True by simp
  have bit0: "u8_of_bool (v AND 1 \<noteq> 0) = v AND 1"
    by (cases "odd v") (simp_all add: u8_of_bool_def and_one_eq odd_iff_mod_2_eq_one)
  have "read_key1 (write_key1 v s) = 0x7E OR key1_bit (spd_current_speed s) OR (v AND 1)"
    using True bit0 by (simp add: read_key1_def write_key1_def cgb_speed_switch_enabled_def
        KEY1_UNUSED_READ_MASK_def KEY1_PREPARE_SWITCH_BIT_def)
  moreover have "\<not> fst (begin_prepared_speed_switch (speed_switch_round s))"
    using True by (simp add: speed_switch_round_eq begin_prepared_speed_switch_def switch_armed_def)
  moreover have "speed_current_speed (speed_switch_round s) = toggled (speed_current_speed s)"
    "speed_current_speed (speed_switch_round (speed_switch_round s)) = speed_current_speed s"
    using True round
    by (simp_all add: speed_current_speed_def speed_switch_round_eq cgb_speed_switch_enabled_def)
  moreover have "fst (begin_prepared_speed_switch (write_key1 1 s))"
    using True by (simp add: speed_simps)
  ultimately show ?thesis using True by simp
next
  case False
  then show ?thesis
    by (simp add: read_key1_def write_key1_def begin_prepared_speed_switch_def switch_armed_def
        speed_current_speed_def)
qed

end
