(* ===== verification/Gb_Joypad.thy ===== *)
theory Gb_Joypad
  imports Gb_Model
begin

text \<open>
  The joypad of \<open>joypad.rs\<close>: the P1 selection bits, the pressed mask, the visible low nibble
  they give, and the interrupt and STOP-wake events raised on its falling edges.
\<close>

definition SELECT_MASK :: u8 where "SELECT_MASK = 0x30"

datatype joypad_status = JoypadReady

datatype joypad_button =
    JoyRight | JoyLeft | JoyUp | JoyDown | JoyA | JoyB | JoySelect | JoyStart

record joypad_startup_state =
  joy_startup_selection_bits :: u8
  joy_startup_pressed_mask :: u8

record joypad =
  joy_console_model :: console_model
  joy_status :: joypad_status
  joy_selection_bits :: u8
  joy_pressed_mask :: u8
  joy_previous_visible_low_nibble :: u8
  joy_interrupt_request_pending :: bool
  joy_stop_wake_pending :: bool

record joypad_save_state =
  jsave_console_model :: console_model
  jsave_status :: joypad_status
  jsave_selection_bits :: u8
  jsave_pressed_mask :: u8
  jsave_previous_visible_low_nibble :: u8
  jsave_interrupt_request_pending :: bool
  jsave_stop_wake_pending :: bool

fun button_mask :: "joypad_button \<Rightarrow> u8" where
  "button_mask JoyRight = 0x01"
| "button_mask JoyLeft = 0x02"
| "button_mask JoyUp = 0x04"
| "button_mask JoyDown = 0x08"
| "button_mask JoyA = 0x10"
| "button_mask JoyB = 0x20"
| "button_mask JoySelect = 0x40"
| "button_mask JoyStart = 0x80"

definition button_row_low_bits :: "u8 \<Rightarrow> u8" where
  "button_row_low_bits pressed =
     (let l0 = 0;
          l1 = (if pressed AND button_mask JoyA \<noteq> 0 then l0 OR 0x01 else l0);
          l2 = (if pressed AND button_mask JoyB \<noteq> 0 then l1 OR 0x02 else l1);
          l3 = (if pressed AND button_mask JoySelect \<noteq> 0 then l2 OR 0x04 else l2)
      in if pressed AND button_mask JoyStart \<noteq> 0 then l3 OR 0x08 else l3)"

definition dpad_row_low_bits :: "u8 \<Rightarrow> u8" where
  "dpad_row_low_bits pressed =
     (let l0 = 0;
          l1 = (if pressed AND button_mask JoyRight \<noteq> 0 then l0 OR 0x01 else l0);
          l2 = (if pressed AND button_mask JoyLeft \<noteq> 0 then l1 OR 0x02 else l1);
          l3 = (if pressed AND button_mask JoyUp \<noteq> 0 then l2 OR 0x04 else l2)
      in if pressed AND button_mask JoyDown \<noteq> 0 then l3 OR 0x08 else l3)"

definition visible_low_nibble :: "u8 \<Rightarrow> u8 \<Rightarrow> u8" where
  "visible_low_nibble selection pressed =
     (let l0 = 0x0F;
          l1 = (if selection AND 0x20 = 0 then l0 AND NOT (button_row_low_bits pressed) else l0)
      in if selection AND 0x10 = 0 then l1 AND NOT (dpad_row_low_bits pressed) else l1)"

definition gained_visible_low_bit :: "u8 \<Rightarrow> u8 \<Rightarrow> bool" where
  "gained_visible_low_bit previous current = ((previous AND NOT current) AND 0x0F \<noteq> 0)"

definition joypad_visible :: "joypad \<Rightarrow> u8" where
  "joypad_visible j = visible_low_nibble (joy_selection_bits j) (joy_pressed_mask j)"

definition update_visible_edge_state :: "joypad \<Rightarrow> joypad" where
  "update_visible_edge_state j =
     (let v = joypad_visible j;
          j1 = (if gained_visible_low_bit (joy_previous_visible_low_nibble j) v
                then j\<lparr>joy_interrupt_request_pending := True, joy_stop_wake_pending := True\<rparr>
                else j)
      in j1\<lparr>joy_previous_visible_low_nibble := v\<rparr>)"

definition joypad_new :: "console_model \<Rightarrow> joypad" where
  "joypad_new m =
     \<lparr>joy_console_model = m, joy_status = JoypadReady, joy_selection_bits = SELECT_MASK,
      joy_pressed_mask = 0, joy_previous_visible_low_nibble = 0x0F,
      joy_interrupt_request_pending = False, joy_stop_wake_pending = False\<rparr>"

definition joypad_capture_save_state :: "joypad \<Rightarrow> joypad_save_state" where
  "joypad_capture_save_state j =
     \<lparr>jsave_console_model = joy_console_model j, jsave_status = joy_status j,
      jsave_selection_bits = joy_selection_bits j, jsave_pressed_mask = joy_pressed_mask j,
      jsave_previous_visible_low_nibble = joy_previous_visible_low_nibble j,
      jsave_interrupt_request_pending = joy_interrupt_request_pending j,
      jsave_stop_wake_pending = joy_stop_wake_pending j\<rparr>"

definition joypad_restore_save_state :: "joypad_save_state \<Rightarrow> joypad \<Rightarrow> joypad" where
  "joypad_restore_save_state s j =
     j\<lparr>joy_console_model := jsave_console_model s, joy_status := jsave_status s,
       joy_selection_bits := jsave_selection_bits s, joy_pressed_mask := jsave_pressed_mask s,
       joy_previous_visible_low_nibble := jsave_previous_visible_low_nibble s,
       joy_interrupt_request_pending := jsave_interrupt_request_pending s,
       joy_stop_wake_pending := jsave_stop_wake_pending s\<rparr>"

definition read_p1 :: "joypad \<Rightarrow> u8" where
  "read_p1 j = 0xC0 OR joy_selection_bits j OR joypad_visible j"

definition write_p1 :: "u8 \<Rightarrow> joypad \<Rightarrow> joypad" where
  "write_p1 v j = update_visible_edge_state (j\<lparr>joy_selection_bits := v AND SELECT_MASK\<rparr>)"

definition set_button_pressed :: "joypad_button \<Rightarrow> bool \<Rightarrow> joypad \<Rightarrow> joypad" where
  "set_button_pressed b pressed j =
     update_visible_edge_state
       (if pressed then j\<lparr>joy_pressed_mask := joy_pressed_mask j OR button_mask b\<rparr>
        else j\<lparr>joy_pressed_mask := joy_pressed_mask j AND NOT (button_mask b)\<rparr>)"

definition apply_pressed_mask :: "u8 \<Rightarrow> joypad \<Rightarrow> bool \<times> joypad" where
  "apply_pressed_mask m j =
     (if joy_pressed_mask j = m then (False, j)
      else (True, update_visible_edge_state (j\<lparr>joy_pressed_mask := m\<rparr>)))"

definition joypad_apply_startup_state :: "joypad_startup_state \<Rightarrow> joypad \<Rightarrow> joypad" where
  "joypad_apply_startup_state s j =
     (let j1 = j\<lparr>joy_selection_bits := joy_startup_selection_bits s AND SELECT_MASK,
                 joy_pressed_mask := joy_startup_pressed_mask s\<rparr>
      in j1\<lparr>joy_previous_visible_low_nibble := joypad_visible j1,
            joy_interrupt_request_pending := False, joy_stop_wake_pending := False\<rparr>)"

definition consume_stop_wake_event :: "joypad \<Rightarrow> bool \<times> joypad" where
  "consume_stop_wake_event j = (joy_stop_wake_pending j, j\<lparr>joy_stop_wake_pending := False\<rparr>)"

definition stop_wake_event_pending :: "joypad \<Rightarrow> bool" where
  "stop_wake_event_pending j = joy_stop_wake_pending j"

definition stop_wake_line_asserted :: "joypad \<Rightarrow> bool" where
  "stop_wake_line_asserted j = (joypad_visible j \<noteq> 0x0F)"

definition consume_interrupt_request :: "joypad \<Rightarrow> bool \<times> joypad" where
  "consume_interrupt_request j =
     (joy_interrupt_request_pending j, j\<lparr>joy_interrupt_request_pending := False\<rparr>)"

definition should_emit_scheduler_trace :: "joypad \<Rightarrow> bool" where
  "should_emit_scheduler_trace j =
     (joy_selection_bits j \<noteq> 0x00 \<or> joy_pressed_mask j \<noteq> 0
      \<or> joy_interrupt_request_pending j \<or> joy_stop_wake_pending j)"

subsection \<open>The matrix\<close>

text \<open>Each button is a line of one of two rows: its bit in the low nibble and its row's select bit.\<close>

fun button_line :: "joypad_button \<Rightarrow> nat" where
  "button_line JoyRight = 0" | "button_line JoyA = 0"
| "button_line JoyLeft = 1" | "button_line JoyB = 1"
| "button_line JoyUp = 2" | "button_line JoySelect = 2"
| "button_line JoyDown = 3" | "button_line JoyStart = 3"

fun button_select_bit :: "joypad_button \<Rightarrow> nat" where
  "button_select_bit JoyRight = 4" | "button_select_bit JoyLeft = 4"
| "button_select_bit JoyUp = 4" | "button_select_bit JoyDown = 4"
| "button_select_bit JoyA = 5" | "button_select_bit JoyB = 5"
| "button_select_bit JoySelect = 5" | "button_select_bit JoyStart = 5"

definition line_pulled :: "nat \<Rightarrow> joypad \<Rightarrow> bool" where
  "line_pulled n j =
     (\<exists>b \<in> {JoyRight, JoyLeft, JoyUp, JoyDown, JoyA, JoyB, JoySelect, JoyStart}.
        button_line b = n \<and> \<not> bit (joy_selection_bits j) (button_select_bit b)
        \<and> joy_pressed_mask j AND button_mask b \<noteq> 0)"

lemma low_four_cases: "(n::nat) < 4 \<Longrightarrow> n = 0 \<or> n = 1 \<or> n = 2 \<or> n = 3"
  by auto

lemma select_bits:
  "(s::u8) AND 0x20 = 0 \<longleftrightarrow> \<not> bit s 5" "(s::u8) AND 0x10 = 0 \<longleftrightarrow> \<not> bit s 4"
  using bit_iff_and_push_bit_not_eq_0 [of s 5] bit_iff_and_push_bit_not_eq_0 [of s 4]
  by (simp_all add: push_bit_of_1)

lemma bit_visible_low_nibble:
  assumes "n < 8"
  shows "bit (joypad_visible j) n \<longleftrightarrow> n < 4 \<and> \<not> line_pulled n j"
proof -
  have n: "n \<in> {0, 1, 2, 3, 4, 5, 6, 7}" using assms by auto
  then show ?thesis
    by (elim insertE)
      (simp_all add: joypad_visible_def visible_low_nibble_def button_row_low_bits_def
        dpad_row_low_bits_def Let_def line_pulled_def select_bits bitwise_iffs)
qed

definition joypad_wf :: "joypad \<Rightarrow> bool" where
  "joypad_wf j =
     (joy_selection_bits j AND SELECT_MASK = joy_selection_bits j
      \<and> joy_previous_visible_low_nibble j = joypad_visible j)"

lemma joypad_visible_update [simp]:
  "joypad_visible (j\<lparr>joy_previous_visible_low_nibble := v\<rparr>) = joypad_visible j"
  "joypad_visible (j\<lparr>joy_interrupt_request_pending := b\<rparr>) = joypad_visible j"
  "joypad_visible (j\<lparr>joy_stop_wake_pending := b\<rparr>) = joypad_visible j"
  by (simp_all add: joypad_visible_def)

lemma update_edge_frame [simp]:
  "joy_selection_bits (update_visible_edge_state j) = joy_selection_bits j"
  "joy_pressed_mask (update_visible_edge_state j) = joy_pressed_mask j"
  "joy_previous_visible_low_nibble (update_visible_edge_state j) = joypad_visible j"
  "joypad_visible (update_visible_edge_state j) = joypad_visible j"
  by (simp_all add: update_visible_edge_state_def Let_def joypad_visible_def)

lemma line_pulled_update [simp]:
  "line_pulled n (update_visible_edge_state j) = line_pulled n j"
  by (simp add: line_pulled_def)

lemma gained_bit_iff:
  "gained_visible_low_bit a b \<longleftrightarrow> (\<exists>n<4. bit a n \<and> \<not> bit b n)"
proof -
  have eq: "(0x0F :: u8) = mask 4" by (simp add: mask_eq_exp_minus_1)
  have "gained_visible_low_bit a b \<longleftrightarrow> (\<exists>n<8. bit a n \<and> \<not> bit b n \<and> n < 4)"
    unfolding gained_visible_low_bit_def word_bits_eq_iff bitwise_iffs eq bit_mask_iff by auto
  also have "\<dots> \<longleftrightarrow> (\<exists>n<4. bit a n \<and> \<not> bit b n)"
    using bit_imp_le_length [of a] by auto
  finally show ?thesis .
qed

lemma update_edge_pending:
  "joy_interrupt_request_pending (update_visible_edge_state j) =
     (joy_interrupt_request_pending j
      \<or> gained_visible_low_bit (joy_previous_visible_low_nibble j) (joypad_visible j))"
  "joy_stop_wake_pending (update_visible_edge_state j) =
     (joy_stop_wake_pending j
      \<or> gained_visible_low_bit (joy_previous_visible_low_nibble j) (joypad_visible j))"
  by (simp_all add: update_visible_edge_state_def Let_def)

text \<open>The three ways the visible nibble can change, and the two ways an event is consumed.\<close>

datatype joypad_op =
    JoyWriteP1 u8
  | JoySetButton joypad_button bool
  | JoyPressedMask u8
  | JoyStartup joypad_startup_state
  | JoyConsumeIrq
  | JoyConsumeWake

fun joypad_apply :: "joypad_op \<Rightarrow> joypad \<Rightarrow> joypad" where
  "joypad_apply (JoyWriteP1 v) j = write_p1 v j"
| "joypad_apply (JoySetButton b pressed) j = set_button_pressed b pressed j"
| "joypad_apply (JoyPressedMask m) j = snd (apply_pressed_mask m j)"
| "joypad_apply (JoyStartup s) j = joypad_apply_startup_state s j"
| "joypad_apply JoyConsumeIrq j = snd (consume_interrupt_request j)"
| "joypad_apply JoyConsumeWake j = snd (consume_stop_wake_event j)"

lemma joypad_new_wf: "joypad_wf (joypad_new m)"
  by (simp add: joypad_wf_def joypad_new_def joypad_visible_def visible_low_nibble_def SELECT_MASK_def)

lemma joypad_apply_wf: "joypad_wf j \<Longrightarrow> joypad_wf (joypad_apply x j)"
  by (cases x)
    (simp_all add: joypad_wf_def write_p1_def set_button_pressed_def apply_pressed_mask_def
      joypad_apply_startup_state_def consume_interrupt_request_def consume_stop_wake_event_def
      Let_def and.assoc joypad_visible_def)

lemma joypad_fold_wf: "joypad_wf j \<Longrightarrow> joypad_wf (fold joypad_apply xs j)"
  by (induction xs arbitrary: j) (simp_all add: joypad_apply_wf)

lemma joypad_save_restore [simp]:
  "joypad_restore_save_state (joypad_capture_save_state j) j' = j"
  by (simp add: joypad_restore_save_state_def joypad_capture_save_state_def)

lemma gained_visible:
  assumes "joy_previous_visible_low_nibble j1 = joypad_visible j"
  shows "gained_visible_low_bit (joy_previous_visible_low_nibble j1) (joypad_visible j1)
    \<longleftrightarrow> (\<exists>n<4. \<not> line_pulled n j \<and> line_pulled n j1)"
proof -
  have "bit (joypad_visible x) n \<longleftrightarrow> \<not> line_pulled n x" if "n < 4" for n x
    using that by (simp add: bit_visible_low_nibble)
  then show ?thesis by (auto simp: assms gained_bit_iff)
qed

lemma joypad_input_update:
  assumes "x \<in> {JoyWriteP1 v, JoySetButton b pressed, JoyPressedMask m}"
  shows "\<exists>j1. (joypad_apply x j = j \<or> joypad_apply x j = update_visible_edge_state j1)
    \<and> joy_previous_visible_low_nibble j1 = joy_previous_visible_low_nibble j
    \<and> joy_interrupt_request_pending j1 = joy_interrupt_request_pending j
    \<and> joy_stop_wake_pending j1 = joy_stop_wake_pending j"
proof -
  let ?p1 = "j\<lparr>joy_selection_bits := v AND SELECT_MASK\<rparr>"
  let ?btn = "if pressed then j\<lparr>joy_pressed_mask := joy_pressed_mask j OR button_mask b\<rparr>
    else j\<lparr>joy_pressed_mask := joy_pressed_mask j AND NOT (button_mask b)\<rparr>"
  let ?msk = "j\<lparr>joy_pressed_mask := m\<rparr>"
  consider "x = JoyWriteP1 v" | "x = JoySetButton b pressed" | "x = JoyPressedMask m"
    using assms by auto
  then show ?thesis
  proof cases
    case 1
    then show ?thesis by (intro exI [of _ ?p1]) (simp add: write_p1_def)
  next
    case 2
    then show ?thesis by (intro exI [of _ ?btn]) (simp add: set_button_pressed_def)
  next
    case 3
    then show ?thesis by (intro exI [of _ ?msk]) (simp add: apply_pressed_mask_def)
  qed
qed

lemma joypad_input_pending:
  assumes "joypad_wf j" and "x \<in> {JoyWriteP1 v, JoySetButton b pressed, JoyPressedMask m}"
  shows "joy_interrupt_request_pending (joypad_apply x j) =
      (joy_interrupt_request_pending j \<or> (\<exists>n<4. \<not> line_pulled n j \<and> line_pulled n (joypad_apply x j)))"
    and "joy_stop_wake_pending (joypad_apply x j) =
      (joy_stop_wake_pending j \<or> (\<exists>n<4. \<not> line_pulled n j \<and> line_pulled n (joypad_apply x j)))"
proof -
  have upd: "joy_interrupt_request_pending (update_visible_edge_state j1)
        = (joy_interrupt_request_pending j \<or> (\<exists>n<4. \<not> line_pulled n j \<and> line_pulled n j1))
      \<and> joy_stop_wake_pending (update_visible_edge_state j1)
        = (joy_stop_wake_pending j \<or> (\<exists>n<4. \<not> line_pulled n j \<and> line_pulled n j1))"
    if "joy_previous_visible_low_nibble j1 = joy_previous_visible_low_nibble j"
      "joy_interrupt_request_pending j1 = joy_interrupt_request_pending j"
      "joy_stop_wake_pending j1 = joy_stop_wake_pending j" for j1
    using gained_visible [of j1 j] that assms(1) by (simp add: update_edge_pending joypad_wf_def)
  obtain j1 where "joypad_apply x j = j \<or> joypad_apply x j = update_visible_edge_state j1"
    "joy_previous_visible_low_nibble j1 = joy_previous_visible_low_nibble j"
    "joy_interrupt_request_pending j1 = joy_interrupt_request_pending j"
    "joy_stop_wake_pending j1 = joy_stop_wake_pending j"
    using joypad_input_update [OF assms(2)] by blast
  with upd [of j1] show "joy_interrupt_request_pending (joypad_apply x j) =
      (joy_interrupt_request_pending j \<or> (\<exists>n<4. \<not> line_pulled n j \<and> line_pulled n (joypad_apply x j)))"
    "joy_stop_wake_pending (joypad_apply x j) =
      (joy_stop_wake_pending j \<or> (\<exists>n<4. \<not> line_pulled n j \<and> line_pulled n (joypad_apply x j)))"
    by auto
qed

subsection \<open>Properties\<close>

text \<open>P1 reads as the button matrix: bits 6 and 7 are set, bits 4 and 5 are the selection
  last written, and a low bit is clear exactly when some pressed button of a selected row is
  on that line.\<close>

theorem read_p1_is_the_matrix:
  assumes "joypad_wf j" and "n < 8"
  shows "bit (read_p1 j) n =
    (if n < 4 then \<not> line_pulled n j else if n < 6 then bit (joy_selection_bits j) n else True)"
proof -
  have "n \<in> {0, 1, 2, 3, 4, 5, 6, 7}" using assms(2) by auto
  moreover have "bit (joy_selection_bits j) n \<longrightarrow> n = 4 \<or> n = 5"
  proof -
    have "bit (joy_selection_bits j) n = (bit (joy_selection_bits j) n \<and> bit SELECT_MASK n)"
      using assms(1) unfolding joypad_wf_def by (metis bit_and_iff)
    with calculation show ?thesis by (elim insertE) (simp_all add: SELECT_MASK_def)
  qed
  ultimately show ?thesis
    using bit_visible_low_nibble [OF assms(2), of j]
    by (elim insertE) (simp_all add: read_p1_def bitwise_iffs)
qed

theorem read_p1_is_the_matrix_witness:
  "bit (read_p1 (set_button_pressed JoyStart True (write_p1 0x10 (joypad_new GameBoy)))) 3 = False"
proof -
  let ?j = "set_button_pressed JoyStart True (write_p1 0x10 (joypad_new GameBoy))"
  have "joypad_wf ?j"
    using joypad_fold_wf [OF joypad_new_wf, of "[JoyWriteP1 0x10, JoySetButton JoyStart True]" GameBoy]
    by simp
  from read_p1_is_the_matrix [OF this, of 3] show ?thesis
    by (simp add: line_pulled_def set_button_pressed_def write_p1_def joypad_new_def SELECT_MASK_def)
qed

text \<open>From power-on, through any P1 writes, key changes, startup states and consumed
  events, an input raises the interrupt and the STOP wake-up exactly when it newly pulls one
  of the four visible lines low: releases, deselected rows and repeated lines raise nothing.\<close>

theorem joypad_events_on_falling_lines:
  assumes "j = fold joypad_apply xs (joypad_new m)"
    and "x \<in> {JoyWriteP1 v, JoySetButton b pressed, JoyPressedMask pm}"
  shows "joypad_wf j
    \<and> joy_interrupt_request_pending (joypad_apply x j) =
        (joy_interrupt_request_pending j
         \<or> (\<exists>n<4. \<not> line_pulled n j \<and> line_pulled n (joypad_apply x j)))
    \<and> joy_stop_wake_pending (joypad_apply x j) =
        (joy_stop_wake_pending j
         \<or> (\<exists>n<4. \<not> line_pulled n j \<and> line_pulled n (joypad_apply x j)))"
  using joypad_fold_wf [OF joypad_new_wf, of xs m] joypad_input_pending [OF _ assms(2)] assms(1)
  by simp

theorem joypad_events_on_falling_lines_witness:
  "joy_interrupt_request_pending
     (joypad_apply (JoyPressedMask 1) (fold joypad_apply [JoyWriteP1 0x20] (joypad_new GameBoy)))"
  using joypad_events_on_falling_lines [OF refl, of "JoyPressedMask 1" 0 JoyA True 1 "[JoyWriteP1 0x20]" GameBoy]
  by (simp add: line_pulled_def write_p1_def apply_pressed_mask_def joypad_new_def SELECT_MASK_def)

end
