(* ===== verification/Cpu_Control.thy ===== *)
theory Cpu_Control
  imports Cpu_Bus Cpu_Alu Gb_Speed Gb_Joypad
begin

text \<open>
  The control state of the core: the instruction life cycle of \<open>cpu/cycle.rs\<close> (begin,
  advance, stall, finish, the STOP entries, the diagnostic trap) and the interrupt, HALT and
  IME control of \<open>cpu/interrupt_control.rs\<close>.
\<close>

subsection \<open>IME and the delayed EI\<close>

definition schedule_delayed_ime_enable :: "cpu_core \<Rightarrow> cpu_core" where
  "schedule_delayed_ime_enable c =
     (if delayed_ime_enable c then c
      else c\<lparr>cpu_ime := (if ime_enabled c then ImeEnabledPendingEnable 2
                         else ImeDisabledPendingEnable 2)\<rparr>)"

definition cancel_delayed_ime_enable :: "cpu_core \<Rightarrow> cpu_core" where
  "cancel_delayed_ime_enable c = c\<lparr>cpu_ime := (if ime_enabled c then ImeEnabled else ImeDisabled)\<rparr>"

definition advance_delayed_ime_enable :: "cpu_core \<Rightarrow> cpu_core" where
  "advance_delayed_ime_enable c =
     (case cpu_ime c of
        ImeDisabledPendingEnable n \<Rightarrow>
          if n > 1 then c\<lparr>cpu_ime := ImeDisabledPendingEnable (n - 1)\<rparr> else set_ime_enabled c
      | ImeEnabledPendingEnable n \<Rightarrow>
          if n > 1 then c\<lparr>cpu_ime := ImeEnabledPendingEnable (n - 1)\<rparr> else set_ime_enabled c
      | _ \<Rightarrow> c)"

subsection \<open>The life cycle of an instruction\<close>

definition begin_instruction :: "u8 \<Rightarrow> cpu_instruction_kind \<Rightarrow> cpu_core \<Rightarrow> cpu_core" where
  "begin_instruction opcode kind c =
     c\<lparr>cpu_in_flight := (cpu_in_flight c)\<lparr>ifl_opcode := Some opcode, ifl_kind := Some kind,
          ifl_execution_group := Some (execution_group kind), ifl_cb_kind := None\<rparr>,
       cpu_state := ExecuteStep 0 0\<rparr>"

definition request_stop_div_reset :: "cpu_core \<Rightarrow> cpu_core" where
  "request_stop_div_reset c = c\<lparr>cpu_stop_div_reset_requested := True\<rparr>"

definition request_cgb_speed_switch :: "cpu_core \<Rightarrow> cpu_core" where
  "request_cgb_speed_switch c = c\<lparr>cpu_cgb_speed_switch_requested := True\<rparr>"

text \<open>Both arms of the matches in these two functions leave the same state.\<close>

definition advance_instruction :: "u8 \<Rightarrow> u8 \<Rightarrow> cpu_core \<Rightarrow> cpu_core" where
  "advance_instruction opcode next_step c =
     (case cpu_state c of
        ExecuteStep step t_cycle \<Rightarrow> c\<lparr>cpu_state := ExecuteStep next_step 0\<rparr>
      | _ \<Rightarrow> c\<lparr>cpu_state := ExecuteStep next_step 0\<rparr>)"

definition stall_instruction :: "u8 \<Rightarrow> u8 \<Rightarrow> cpu_core \<Rightarrow> cpu_core" where
  "stall_instruction opcode step c =
     (case cpu_state c of
        ExecuteStep current_step t_cycle \<Rightarrow> c\<lparr>cpu_state := ExecuteStep step LAST_MACHINE_CYCLE_T\<rparr>
      | _ \<Rightarrow> c\<lparr>cpu_state := ExecuteStep step LAST_MACHINE_CYCLE_T\<rparr>)"

definition finish_instruction :: "cpu_core \<Rightarrow> cpu_core" where
  "finish_instruction c =
     (advance_delayed_ime_enable (clear_in_flight_instruction_state c))\<lparr>cpu_state := fetch_opcode\<rparr>"

definition enter_stopped_state :: "cpu_core \<Rightarrow> cpu_core" where
  "enter_stopped_state c =
     (advance_delayed_ime_enable (clear_in_flight_instruction_state c))\<lparr>cpu_state := Stopped\<rparr>"

definition enter_zombie_stopped_state :: "cpu_core \<Rightarrow> cpu_core" where
  "enter_zombie_stopped_state c =
     (advance_delayed_ime_enable (clear_in_flight_instruction_state c))\<lparr>cpu_state := ZombieStopped\<rparr>"

definition enter_speed_switch_pause_state :: "cpu_core \<Rightarrow> cpu_core" where
  "enter_speed_switch_pause_state c =
     (advance_delayed_ime_enable (clear_in_flight_instruction_state c))
       \<lparr>cpu_state := SpeedSwitchPause CGB_SPEED_SWITCH_PAUSE_T_CYCLES\<rparr>"

definition enter_invalid_opcode_trap :: "u8 \<Rightarrow> cpu_core \<Rightarrow> cpu_core" where
  "enter_invalid_opcode_trap opcode c =
     (let address =
            (case Option.bind (cpu_last_address_event c) ev_access_address of
               Some a \<Rightarrow> a
             | None \<Rightarrow> get_pc c - 1)
      in (clear_decoded_instruction_state c)
           \<lparr>cpu_state := DiagnosticTrap (InvalidOpcode opcode address)\<rparr>)"

definition finish_and_request_halt :: "cpu_core \<Rightarrow> cpu_core" where
  "finish_and_request_halt c0 =
     (let c = clear_in_flight_instruction_state c0;
          ime = ime_enabled c;
          had_pending_ei = delayed_ime_enable c
      in (request_halt_after_current_instruction ime had_pending_ei
            (advance_delayed_ime_enable c))\<lparr>cpu_state := fetch_opcode\<rparr>)"

definition stop_entry :: "bool \<Rightarrow> bool \<Rightarrow> cpu_core \<Rightarrow> stop_entry_resolution" where
  "stop_entry wake_line_asserted pending_interrupt c =
     (if ime_enabled c then
        (if wake_line_asserted then CompleteOnCurrentMachineCycle else EnterStoppedAfterPaddingFetch)
      else
        (case (wake_line_asserted, pending_interrupt) of
           (False, False) \<Rightarrow> EnterStoppedAfterPaddingFetch
         | (False, True) \<Rightarrow> EnterZombieStopped
         | (True, False) \<Rightarrow> EnterHaltAfterPaddingFetch
         | (True, True) \<Rightarrow> CompleteOnCurrentMachineCycle))"

subsection \<open>Interrupt service\<close>

definition begin_interrupt_service :: "interrupt_source \<Rightarrow> cpu_core \<Rightarrow> cpu_core" where
  "begin_interrupt_service source c =
     (clear_in_flight_instruction_state (cancel_delayed_ime_enable (set_ime_disabled c)))
       \<lparr>cpu_state := ServiceInterrupt source 0 0\<rparr>"

definition advance_interrupt_service :: "interrupt_source \<Rightarrow> u8 \<Rightarrow> cpu_core \<Rightarrow> cpu_core" where
  "advance_interrupt_service source next_step c =
     (case cpu_state c of
        ServiceInterrupt _ step t_cycle \<Rightarrow> c\<lparr>cpu_state := ServiceInterrupt source next_step 0\<rparr>
      | _ \<Rightarrow> c\<lparr>cpu_state := ServiceInterrupt source next_step 0\<rparr>)"

definition begin_stop_wake_bugged_interrupt_service :: "cpu_core \<Rightarrow> cpu_core" where
  "begin_stop_wake_bugged_interrupt_service c =
     (clear_in_flight_instruction_state (cancel_delayed_ime_enable (set_ime_disabled c)))
       \<lparr>cpu_state := ServiceStopWakeBuggedInterrupt 0 0\<rparr>"

definition advance_stop_wake_bugged_interrupt_service :: "u8 \<Rightarrow> cpu_core \<Rightarrow> cpu_core" where
  "advance_stop_wake_bugged_interrupt_service next_step c =
     (case cpu_state c of
        ServiceStopWakeBuggedInterrupt step t_cycle \<Rightarrow>
          c\<lparr>cpu_state := ServiceStopWakeBuggedInterrupt next_step 0\<rparr>
      | _ \<Rightarrow> c\<lparr>cpu_state := ServiceStopWakeBuggedInterrupt next_step 0\<rparr>)"

definition finish_interrupt_service :: "cpu_core \<Rightarrow> cpu_core" where
  "finish_interrupt_service c =
     (clear_in_flight_instruction_state c)\<lparr>cpu_state := fetch_opcode\<rparr>"

definition is_stop_sleep_state :: "cpu_core \<Rightarrow> bool" where
  "is_stop_sleep_state c = (cpu_state c = Stopped \<or> cpu_state c = ZombieStopped)"

definition in_diagnostic_trap :: "cpu_core \<Rightarrow> bool" where
  "in_diagnostic_trap c = (case cpu_state c of DiagnosticTrap _ \<Rightarrow> True | _ \<Rightarrow> False)"

definition can_accept_interrupt :: "cpu_core \<Rightarrow> bool" where
  "can_accept_interrupt c =
     ((case cpu_state c of FetchOpcode _ \<Rightarrow> True | _ \<Rightarrow> False)
      \<and> ifl_opcode (cpu_in_flight c) = None)"

definition accept_pending_interrupt ::
    "cpu_core \<times> interrupt_controller \<Rightarrow> cpu_core \<times> interrupt_controller" where
  "accept_pending_interrupt s =
     (case highest_pending (snd s) of
        None \<Rightarrow> s
      | Some source \<Rightarrow> (begin_interrupt_service source (fst s), clear_interrupt source (snd s)))"

definition evaluate_wake_and_interrupts ::
    "cpu_core \<times> interrupt_controller \<times> joypad \<Rightarrow> cpu_core \<times> interrupt_controller \<times> joypad"
where
  "evaluate_wake_and_interrupts s0 =
     (let (c, ints, joy0) = s0;
          stop_sleep_state = is_stop_sleep_state c
      in if \<not> (stop_sleep_state \<or> stop_wake_event_pending joy0
               \<or> (in_diagnostic_trap c \<or> cpu_state c = Halted)
               \<or> halt_request_pending c
               \<or> ime_enabled c \<and> can_accept_interrupt c)
         then s0
         else
           let joy = (if \<not> stop_sleep_state then snd (consume_stop_wake_event joy0) else joy0)
           in if in_diagnostic_trap c then (c, ints, joy)
              else if stop_sleep_state then
                (case consume_stop_wake_event joy of
                   (woken, joy') \<Rightarrow>
                     if woken then
                       (if cpu_state c = Stopped \<and> ime_enabled c
                           \<and> pending_mask ints AND source_mask JoypadIrq \<noteq> 0
                        then (begin_stop_wake_bugged_interrupt_service c,
                              clear_interrupt JoypadIrq ints, joy')
                        else (c\<lparr>cpu_state := fetch_opcode\<rparr>, ints, joy'))
                     else (c, ints, joy'))
              else
                let pending = (pending_mask ints \<noteq> 0);
                    accept = (\<lambda>c. case accept_pending_interrupt (c, ints) of
                                    (c', ints') \<Rightarrow> (c', ints', joy))
                in (case take_halt_request c of
                      (Some request, c1) \<Rightarrow>
                        if \<not> req_ime_enabled request \<and> pending then
                          (if req_had_pending_ei request \<and> ime_enabled c1
                           then accept (set_pc (get_pc c1 - 1) c1)
                           else ((arm_halt_bug c1)\<lparr>cpu_state := fetch_opcode\<rparr>, ints, joy))
                        else if pending then accept c1
                        else (c1\<lparr>cpu_state := Halted\<rparr>, ints, joy)
                    | (None, c1) \<Rightarrow>
                        if cpu_state c1 = Halted then
                          (if \<not> pending then (c1, ints, joy)
                           else if ime_enabled c1 then accept c1
                           else (c1\<lparr>cpu_state := fetch_opcode\<rparr>, ints, joy))
                        else if \<not> ime_enabled c1 \<or> \<not> can_accept_interrupt c1 then (c1, ints, joy)
                        else accept c1))"

definition evaluate_current_cycle_interrupt_requests ::
    "u8 \<Rightarrow> cpu_core \<times> interrupt_controller
      \<Rightarrow> interrupt_source option \<times> cpu_core \<times> interrupt_controller" where
  "evaluate_current_cycle_interrupt_requests request_mask s =
     (case s of (c, ints) \<Rightarrow>
        if request_mask = 0 \<or> \<not> ime_enabled c \<or> \<not> can_accept_interrupt c then (None, c, ints)
        else
          (case highest_priority_from_mask (pending_mask ints OR (read_ie ints AND request_mask)) of
             None \<Rightarrow> (None, c, ints)
           | Some source \<Rightarrow>
               (Some source, begin_interrupt_service source c, clear_interrupt source ints)))"

subsection \<open>Questions to the machine\<close>

definition current_pending_interrupt_mask :: "'w cpu_external \<Rightarrow> ('w, u8) cpu_sm" where
  "current_pending_interrupt_mask ext =
     sm_bind (external_call ext PendingInterruptMask) (\<lambda>r. sm_return (unwrap_or_0 r))"

definition current_highest_pending_interrupt ::
    "'w cpu_external \<Rightarrow> ('w, interrupt_source option) cpu_sm" where
  "current_highest_pending_interrupt ext =
     sm_bind (current_pending_interrupt_mask ext) (\<lambda>m. sm_return (highest_priority_from_mask m))"

definition current_interrupt_enable_mask :: "'w cpu_external \<Rightarrow> ('w, u8) cpu_sm" where
  "current_interrupt_enable_mask ext =
     sm_bind (external_call ext InterruptEnableMask) (\<lambda>r. sm_return (unwrap_or_0 r))"

definition cpu_request_interrupt :: "'w cpu_external \<Rightarrow> interrupt_source \<Rightarrow> ('w, unit) cpu_sm" where
  "cpu_request_interrupt ext source =
     sm_then (external_call ext (RequestInterrupt source)) (sm_return ())"

definition cpu_acknowledge_interrupt ::
    "'w cpu_external \<Rightarrow> interrupt_source \<Rightarrow> ('w, unit) cpu_sm" where
  "cpu_acknowledge_interrupt ext source =
     sm_then (external_call ext (AcknowledgeInterrupt source)) (sm_return ())"

subsection \<open>Machine cycles of the service sequences\<close>

definition complete_interrupt_service_machine_cycle ::
    "'w cpu_external \<Rightarrow> interrupt_source \<Rightarrow> u8 \<Rightarrow> ('w, unit) cpu_sm" where
  "complete_interrupt_service_machine_cycle ext source step =
     (if step = 0 \<or> step = 1 then cpu_modify (advance_interrupt_service source (step + 1))
      else if step = 2 then
        cpu_modify (\<lambda>c. advance_interrupt_service source 3 (prepare_pc_stack_push c))
      else if step = 3 then
        sm_bind (cpu_gets (\<lambda>c. get_sp c = 0xFFFF)) (\<lambda>upper_pc_push_targets_ie.
        sm_then (push_pc_high_at_sp ext)
          (if upper_pc_push_targets_ie then
             sm_bind (current_pending_interrupt_mask ext) (\<lambda>pending.
             sm_bind (current_interrupt_enable_mask ext) (\<lambda>current_ie.
             let candidate_mask = pending OR (current_ie AND source_mask source)
             in case highest_priority_from_mask candidate_mask of
                  Some next_source \<Rightarrow>
                    sm_then
                      (if next_source \<noteq> source
                       then sm_then (cpu_request_interrupt ext source)
                              (cpu_acknowledge_interrupt ext next_source)
                       else sm_return ())
                      (cpu_modify (advance_interrupt_service next_source 4))
                | None \<Rightarrow>
                    sm_then (cpu_request_interrupt ext source)
                      (cpu_modify (\<lambda>c. finish_interrupt_service (set_pc 0 c)))))
           else cpu_modify (advance_interrupt_service source 4)))
      else if step = 4 then
        sm_then (push_latched_low_with_decremented_sp ext)
          (cpu_modify (\<lambda>c. finish_interrupt_service (set_pc (source_vector source) c)))
      else cpu_modify (advance_interrupt_service source step))"

definition complete_stop_wake_bugged_interrupt_service_machine_cycle ::
    "'w cpu_external \<Rightarrow> u8 \<Rightarrow> ('w, unit) cpu_sm" where
  "complete_stop_wake_bugged_interrupt_service_machine_cycle ext step =
     (if step = 0 \<or> step = 1 then
        cpu_modify (advance_stop_wake_bugged_interrupt_service (step + 1))
      else if step = 2 then
        cpu_modify (\<lambda>c. advance_stop_wake_bugged_interrupt_service 3 (prepare_pc_stack_push c))
      else if step = 3 then
        sm_then (push_pc_high_at_sp ext)
          (cpu_modify (advance_stop_wake_bugged_interrupt_service 4))
      else if step = 4 then
        sm_bind (cpu_gets operand8) (\<lambda>v.
        sm_then (write_byte_at_sp ext v)
          (cpu_modify (\<lambda>c. finish_interrupt_service (set_pc 0 c))))
      else cpu_modify (advance_stop_wake_bugged_interrupt_service step))"

end
