(* ===== verification/Cpu_Decode.thy ===== *)
theory Cpu_Decode
  imports Cpu_Types
begin

text \<open>
  The decoder of \<open>cpu/decode/tables.rs\<close>, \<open>fetched.rs\<close> and \<open>cb.rs\<close>. An \<open>unreachable!\<close> arm is
  the panic \<open>Unreachable\<close>; a decode group that does not know an opcode answers \<open>None\<close>.
\<close>

subsection \<open>Selector tables\<close>

definition decode_register16 :: "u8 \<Rightarrow> register16 res" where
  "decode_register16 bits =
     (if bits = 0 then Inr PairBC else if bits = 1 then Inr PairDE
      else if bits = 2 then Inr PairHL else if bits = 3 then Inr PairSP else Inl Unreachable)"

definition decode_register8_operand :: "u8 \<Rightarrow> register8_operand res" where
  "decode_register8_operand bits =
     (if bits = 0 then Inr (Register RegB) else if bits = 1 then Inr (Register RegC)
      else if bits = 2 then Inr (Register RegD) else if bits = 3 then Inr (Register RegE)
      else if bits = 4 then Inr (Register RegH) else if bits = 5 then Inr (Register RegL)
      else if bits = 6 then Inr IndirectHl else if bits = 7 then Inr (Register RegA)
      else Inl Unreachable)"

definition decode_stack_register16 :: "u8 \<Rightarrow> stack_register16 res" where
  "decode_stack_register16 bits =
     (if bits = 0 then Inr StackBC else if bits = 1 then Inr StackDE
      else if bits = 2 then Inr StackHL else if bits = 3 then Inr StackAF else Inl Unreachable)"

definition decode_alu_operation :: "u8 \<Rightarrow> alu_operation res" where
  "decode_alu_operation bits =
     (if bits = 0 then Inr AluAdd else if bits = 1 then Inr AluAdc
      else if bits = 2 then Inr AluSub else if bits = 3 then Inr AluSbc
      else if bits = 4 then Inr AluAnd else if bits = 5 then Inr AluXor
      else if bits = 6 then Inr AluOr else if bits = 7 then Inr AluCompare
      else Inl Unreachable)"

definition decode_relative_jump_condition :: "u8 \<Rightarrow> condition_code option res" where
  "decode_relative_jump_condition opcode =
     (if opcode = 0x18 then Inr None else if opcode = 0x20 then Inr (Some CondNz)
      else if opcode = 0x28 then Inr (Some CondZ) else if opcode = 0x30 then Inr (Some CondNc)
      else if opcode = 0x38 then Inr (Some CondC) else Inl Unreachable)"

definition decode_absolute_jump_condition :: "u8 \<Rightarrow> condition_code option res" where
  "decode_absolute_jump_condition opcode =
     (if opcode = 0xC3 then Inr None else if opcode = 0xC2 then Inr (Some CondNz)
      else if opcode = 0xCA then Inr (Some CondZ) else if opcode = 0xD2 then Inr (Some CondNc)
      else if opcode = 0xDA then Inr (Some CondC) else Inl Unreachable)"

definition decode_call_condition :: "u8 \<Rightarrow> condition_code option res" where
  "decode_call_condition opcode =
     (if opcode = 0xCD then Inr None else if opcode = 0xC4 then Inr (Some CondNz)
      else if opcode = 0xCC then Inr (Some CondZ) else if opcode = 0xD4 then Inr (Some CondNc)
      else if opcode = 0xDC then Inr (Some CondC) else Inl Unreachable)"

definition decode_return_condition :: "u8 \<Rightarrow> condition_code option res" where
  "decode_return_condition opcode =
     (if opcode = 0xC9 then Inr None else if opcode = 0xC0 then Inr (Some CondNz)
      else if opcode = 0xC8 then Inr (Some CondZ) else if opcode = 0xD0 then Inr (Some CondNc)
      else if opcode = 0xD8 then Inr (Some CondC) else Inl Unreachable)"

definition decode_hl_update_direction :: "u8 \<Rightarrow> address_update_direction res" where
  "decode_hl_update_direction opcode =
     (if opcode = 0x22 \<or> opcode = 0x2A then Inr Increment
      else if opcode = 0x32 \<or> opcode = 0x3A then Inr Decrement else Inl Unreachable)"

text \<open>\<open>(opcode >> 3) & 0x07\<close> and \<open>(opcode >> 4) & 0x03\<close>.\<close>

definition opcode_y :: "u8 \<Rightarrow> u8" where "opcode_y opcode = drop_bit 3 opcode AND 0x07"
definition opcode_p :: "u8 \<Rightarrow> u8" where "opcode_p opcode = drop_bit 4 opcode AND 0x03"

subsection \<open>CB-prefixed opcodes\<close>

definition decode_cb_opcode :: "u8 \<Rightarrow> cb_instruction_kind res" where
  "decode_cb_opcode opcode =
     (let target = decode_register8_operand (opcode AND 0x07)
      in if opcode AND 0xF8 = 0x00 then res_map RotateLeftCarry target
         else if opcode AND 0xF8 = 0x08 then res_map RotateRightCarry target
         else if opcode AND 0xF8 = 0x10 then res_map RotateLeftThroughCarry target
         else if opcode AND 0xF8 = 0x18 then res_map RotateRightThroughCarry target
         else if opcode AND 0xF8 = 0x20 then res_map ShiftLeftArithmetic target
         else if opcode AND 0xF8 = 0x28 then res_map ShiftRightArithmetic target
         else if opcode AND 0xF8 = 0x30 then res_map SwapNibbles target
         else if opcode AND 0xF8 = 0x38 then res_map ShiftRightLogical target
         else if opcode AND 0xC0 = 0x40 then res_map (BitTest (opcode_y opcode)) target
         else if opcode AND 0xC0 = 0x80 then res_map (ResetBit (opcode_y opcode)) target
         else res_map (SetBit (opcode_y opcode)) target)"

subsection \<open>Fetched opcodes\<close>

datatype opcode_decode_group = DecodeMisc | DecodeLoad | DecodeArithmetic | DecodeControlFlow

definition decode_misc_opcode :: "u8 \<Rightarrow> decoded_opcode option res" where
  "decode_misc_opcode opcode =
     Inr (if opcode = 0x00 then Some (CompleteOnFetch Nop)
      else if opcode = 0x27 then Some (CompleteOnFetch DecimalAdjustAccumulator)
      else if opcode = 0x2F then Some (CompleteOnFetch ComplementAccumulator)
      else if opcode = 0x37 then Some (CompleteOnFetch SetCarryFlag)
      else if opcode = 0x3F then Some (CompleteOnFetch ComplementCarryFlag)
      else if opcode = 0x07 then Some (CompleteOnFetch RotateLeftAccumulatorCarry)
      else if opcode = 0x17 then Some (CompleteOnFetch RotateLeftAccumulatorThroughCarry)
      else if opcode = 0x0F then Some (CompleteOnFetch RotateRightAccumulatorCarry)
      else if opcode = 0x1F then Some (CompleteOnFetch RotateRightAccumulatorThroughCarry)
      else if opcode = 0x76 then Some (CompleteOnFetch HaltCompletion)
      else if opcode = 0xF3 then Some (CompleteOnFetch DisableInterrupts)
      else if opcode = 0xFB then Some (CompleteOnFetch EnableInterrupts)
      else if opcode = 0x10 then Some (Execute Stop)
      else None)"

definition load_transfer :: "register8_operand \<Rightarrow> register8_operand \<Rightarrow> decoded_opcode" where
  "load_transfer destination source =
     (case (destination, source) of
        (Register d, Register s) \<Rightarrow> CompleteOnFetch (LoadRegisterToRegister d s)
      | (Register t, IndirectHl) \<Rightarrow> Execute (LoadRegisterFromHl t)
      | (IndirectHl, Register s) \<Rightarrow> Execute (StoreRegisterToHl s)
      | (IndirectHl, IndirectHl) \<Rightarrow> Unsupported)"

definition decode_load_opcode :: "u8 \<Rightarrow> decoded_opcode option res" where
  "decode_load_opcode opcode =
     (if opcode \<in> {0x01, 0x11, 0x21, 0x31} then
        res_map (\<lambda>t. Some (Execute (LoadRegisterPairImmediate t))) (decode_register16 (opcode_p opcode))
      else if opcode AND 0xC7 = 0x06 then
        res_map (\<lambda>r. Some (case r of Register t \<Rightarrow> Execute (LoadRegisterImmediate t)
                             | IndirectHl \<Rightarrow> Execute StoreImmediateToHl))
          (decode_register8_operand (opcode_y opcode))
      else if 0x40 \<le> opcode \<and> opcode \<le> 0x7F \<and> opcode \<noteq> 0x76 then
        res_bind (decode_register8_operand (opcode_y opcode)) (\<lambda>destination.
        res_bind (decode_register8_operand (opcode AND 0x07)) (\<lambda>source.
          Inr (Some (load_transfer destination source))))
      else if opcode \<in> {0x02, 0x12, 0xEA} then
        (if opcode = 0x02 then Inr (Some (Execute (StoreAToDirectAddress AddressBC)))
         else if opcode = 0x12 then Inr (Some (Execute (StoreAToDirectAddress AddressDE)))
         else if opcode = 0xEA then Inr (Some (Execute StoreAToImmediate16Address))
         else Inl Unreachable)
      else if opcode \<in> {0xE0, 0xE2} then
        (if opcode = 0xE0 then Inr (Some (Execute StoreAToHighImmediateAddress))
         else if opcode = 0xE2 then Inr (Some (Execute (StoreAToDirectAddress AddressHighC)))
         else Inl Unreachable)
      else if opcode \<in> {0x22, 0x32} then
        res_map (\<lambda>d. Some (Execute (StoreAToHlWithUpdate d))) (decode_hl_update_direction opcode)
      else if opcode \<in> {0x0A, 0x1A, 0xFA} then
        (if opcode = 0x0A then Inr (Some (Execute (LoadAFromDirectAddress AddressBC)))
         else if opcode = 0x1A then Inr (Some (Execute (LoadAFromDirectAddress AddressDE)))
         else if opcode = 0xFA then Inr (Some (Execute LoadAFromImmediate16Address))
         else Inl Unreachable)
      else if opcode \<in> {0xF0, 0xF2} then
        (if opcode = 0xF0 then Inr (Some (Execute LoadAFromHighImmediateAddress))
         else if opcode = 0xF2 then Inr (Some (Execute (LoadAFromDirectAddress AddressHighC)))
         else Inl Unreachable)
      else if opcode = 0x08 then Inr (Some (Execute StoreSpToImmediate16))
      else if opcode = 0xF8 then Inr (Some (Execute LoadHlFromSpPlusImmediate))
      else if opcode = 0xE8 then Inr (Some (Execute AddSpImmediate))
      else if opcode = 0xF9 then Inr (Some (Execute LoadSpFromHl))
      else if opcode \<in> {0x2A, 0x3A} then
        res_map (\<lambda>d. Some (Execute (LoadAFromHlWithUpdate d))) (decode_hl_update_direction opcode)
      else Inr None)"

definition decode_arithmetic_opcode :: "u8 \<Rightarrow> decoded_opcode option res" where
  "decode_arithmetic_opcode opcode =
     (if 0x80 \<le> opcode \<and> opcode \<le> 0xBF then
        res_bind (decode_alu_operation (opcode_y opcode)) (\<lambda>operation.
        res_map (\<lambda>r. Some (case r of Register s \<Rightarrow> CompleteOnFetch (AluRegister operation s)
                             | IndirectHl \<Rightarrow> Execute (AluFromHl operation)))
          (decode_register8_operand (opcode AND 0x07)))
      else if opcode AND 0xC7 = 0x04 then
        res_map (\<lambda>r. Some (case r of Register t \<Rightarrow> CompleteOnFetch (IncrementRegister t)
                             | IndirectHl \<Rightarrow> Execute IncrementHlMemory))
          (decode_register8_operand (opcode_y opcode))
      else if opcode AND 0xC7 = 0x05 then
        res_map (\<lambda>r. Some (case r of Register t \<Rightarrow> CompleteOnFetch (DecrementRegister t)
                             | IndirectHl \<Rightarrow> Execute DecrementHlMemory))
          (decode_register8_operand (opcode_y opcode))
      else if opcode \<in> {0xC6, 0xCE, 0xD6, 0xDE, 0xE6, 0xEE, 0xF6, 0xFE} then
        res_map (\<lambda>operation. Some (Execute (AluImmediate operation)))
          (decode_alu_operation (opcode_y opcode))
      else if opcode AND 0xCF = 0x03 then
        res_map (\<lambda>t. Some (Execute (IncrementRegisterPair t))) (decode_register16 (opcode_p opcode))
      else if opcode AND 0xCF = 0x09 then
        res_map (\<lambda>s. Some (Execute (AddHl s))) (decode_register16 (opcode_p opcode))
      else if opcode AND 0xCF = 0x0B then
        res_map (\<lambda>t. Some (Execute (DecrementRegisterPair t))) (decode_register16 (opcode_p opcode))
      else Inr None)"

definition decode_control_flow_opcode :: "u8 \<Rightarrow> decoded_opcode option res" where
  "decode_control_flow_opcode opcode =
     (if opcode = 0xE9 then Inr (Some (CompleteOnFetch JumpHl))
      else if opcode = 0xCB then Inr (Some (Execute CbPrefixed))
      else if opcode \<in> {0x18, 0x20, 0x28, 0x30, 0x38} then
        res_map (\<lambda>cond. Some (Execute (case cond of Some c \<Rightarrow> ConditionalRelativeJump c
                                        | None \<Rightarrow> RelativeJump)))
          (decode_relative_jump_condition opcode)
      else if opcode \<in> {0xC3, 0xC2, 0xCA, 0xD2, 0xDA} then
        res_map (\<lambda>cond. Some (Execute (case cond of Some c \<Rightarrow> ConditionalAbsoluteJump c
                                        | None \<Rightarrow> AbsoluteJump)))
          (decode_absolute_jump_condition opcode)
      else if opcode \<in> {0xCD, 0xC4, 0xCC, 0xD4, 0xDC} then
        res_map (\<lambda>cond. Some (Execute (case cond of Some c \<Rightarrow> ConditionalCall c | None \<Rightarrow> Call)))
          (decode_call_condition opcode)
      else if opcode \<in> {0xC9, 0xC0, 0xC8, 0xD0, 0xD8} then
        res_map (\<lambda>cond. Some (Execute (case cond of Some c \<Rightarrow> ConditionalReturn c | None \<Rightarrow> Return)))
          (decode_return_condition opcode)
      else if opcode = 0xD9 then Inr (Some (Execute ReturnFromInterrupt))
      else if opcode AND 0xC7 = 0xC7 then Inr (Some (Execute (Restart (ucast (opcode AND 0x38)))))
      else if opcode AND 0xCF = 0xC5 then
        res_map (\<lambda>s. Some (Execute (PushRegisterPair s))) (decode_stack_register16 (opcode_p opcode))
      else if opcode AND 0xCF = 0xC1 then
        res_map (\<lambda>t. Some (Execute (PopRegisterPair t))) (decode_stack_register16 (opcode_p opcode))
      else Inr None)"

definition decode_fast_group :: "u8 \<Rightarrow> opcode_decode_group option" where
  "decode_fast_group opcode =
     (if opcode \<in> {0x00, 0x07, 0x0F, 0x10, 0x17, 0x1F, 0x27, 0x2F, 0x37, 0x3F, 0x76, 0xF3, 0xFB}
        then Some DecodeMisc
      else if 0x40 \<le> opcode \<and> opcode \<le> 0x7F then Some DecodeLoad
      else if 0x80 \<le> opcode \<and> opcode \<le> 0xBF then Some DecodeArithmetic
      else if opcode \<in> {0x18, 0x20, 0x28, 0x30, 0x38, 0xC0, 0xC1, 0xC2, 0xC3, 0xC4, 0xC5, 0xC7,
                        0xC8, 0xC9, 0xCA, 0xCB, 0xCC, 0xCD, 0xCF, 0xD0, 0xD1, 0xD2, 0xD4, 0xD5,
                        0xD7, 0xD8, 0xD9, 0xDA, 0xDC, 0xDF, 0xE7, 0xEF, 0xF7, 0xFF}
        then Some DecodeControlFlow
      else if opcode AND 0xC7 = 0x06 then Some DecodeLoad
      else if opcode AND 0xC7 = 0x04 \<or> opcode AND 0xC7 = 0x05 \<or> opcode AND 0xCF = 0x03
           \<or> opcode AND 0xCF = 0x09 \<or> opcode AND 0xCF = 0x0B then Some DecodeArithmetic
      else if opcode \<in> {0x01, 0x02, 0x08, 0x0A, 0x11, 0x12, 0x1A, 0x21, 0x22, 0x2A, 0x31, 0x32,
                        0x3A, 0xE0, 0xE2, 0xE8, 0xEA, 0xF0, 0xF2, 0xF8, 0xF9, 0xFA}
        then Some DecodeLoad
      else if opcode \<in> {0xC6, 0xCE, 0xD6, 0xDE, 0xE6, 0xEE, 0xF6, 0xFE} then Some DecodeArithmetic
      else None)"

fun decode_opcode_in_group :: "u8 \<Rightarrow> opcode_decode_group \<Rightarrow> decoded_opcode option res" where
  "decode_opcode_in_group opcode DecodeMisc = decode_misc_opcode opcode"
| "decode_opcode_in_group opcode DecodeLoad = decode_load_opcode opcode"
| "decode_opcode_in_group opcode DecodeArithmetic = decode_arithmetic_opcode opcode"
| "decode_opcode_in_group opcode DecodeControlFlow = decode_control_flow_opcode opcode"

text \<open>\<open>x.or_else(|| y)\<close>, and \<open>unwrap_or(Unsupported)\<close>.\<close>

definition decode_or_else ::
    "decoded_opcode option res \<Rightarrow> decoded_opcode option res \<Rightarrow> decoded_opcode option res" where
  "decode_or_else x y = res_bind x (\<lambda>r. case r of Some d \<Rightarrow> Inr (Some d) | None \<Rightarrow> y)"

definition or_unsupported :: "decoded_opcode option \<Rightarrow> decoded_opcode" where
  "or_unsupported r = (case r of Some d \<Rightarrow> d | None \<Rightarrow> Unsupported)"

definition decode_fetched_opcode_slow_path :: "u8 \<Rightarrow> decoded_opcode res" where
  "decode_fetched_opcode_slow_path opcode =
     res_map or_unsupported
       (decode_or_else (decode_or_else (decode_or_else
          (decode_misc_opcode opcode) (decode_load_opcode opcode))
          (decode_arithmetic_opcode opcode)) (decode_control_flow_opcode opcode))"

definition decode_fetched_opcode :: "u8 \<Rightarrow> decoded_opcode res" where
  "decode_fetched_opcode opcode =
     (case decode_fast_group opcode of
        Some grp \<Rightarrow> res_map or_unsupported (decode_opcode_in_group opcode grp)
      | None \<Rightarrow> decode_fetched_opcode_slow_path opcode)"

subsection \<open>The opcode map\<close>

text \<open>
  An independent description of the instruction set by the usual bit fields of an opcode
  (\<open>x\<close> bits 6-7, \<open>y\<close> bits 3-5, \<open>z\<close> bits 0-2, \<open>p\<close> bits 4-5, \<open>q\<close> bit 3).
\<close>

fun operand_of :: "nat \<Rightarrow> register8_operand" where
  "operand_of n =
     [Register RegB, Register RegC, Register RegD, Register RegE, Register RegH, Register RegL,
      IndirectHl, Register RegA] ! n"

fun pair_of :: "nat \<Rightarrow> register16" where
  "pair_of n = [PairBC, PairDE, PairHL, PairSP] ! n"

fun stack_pair_of :: "nat \<Rightarrow> stack_register16" where
  "stack_pair_of n = [StackBC, StackDE, StackHL, StackAF] ! n"

fun condition_of :: "nat \<Rightarrow> condition_code" where
  "condition_of n = [CondNz, CondZ, CondNc, CondC] ! n"

fun alu_of :: "nat \<Rightarrow> alu_operation" where
  "alu_of n = [AluAdd, AluAdc, AluSub, AluSbc, AluAnd, AluXor, AluOr, AluCompare] ! n"

definition on_register ::
    "nat \<Rightarrow> (register8 \<Rightarrow> decoded_opcode) \<Rightarrow> decoded_opcode \<Rightarrow> decoded_opcode" where
  "on_register n f d = (case operand_of n of Register r \<Rightarrow> f r | IndirectHl \<Rightarrow> d)"

definition opcode_map_0 :: "nat \<Rightarrow> nat \<Rightarrow> decoded_opcode" where
  "opcode_map_0 y z =
     (let p = y div 2; q = y mod 2
      in if z = 0 then
           [CompleteOnFetch Nop, Execute StoreSpToImmediate16, Execute Stop, Execute RelativeJump,
            Execute (ConditionalRelativeJump CondNz), Execute (ConditionalRelativeJump CondZ),
            Execute (ConditionalRelativeJump CondNc), Execute (ConditionalRelativeJump CondC)] ! y
         else if z = 1 then
           (if q = 0 then Execute (LoadRegisterPairImmediate (pair_of p)) else Execute (AddHl (pair_of p)))
         else if z = 2 then
           [Execute (StoreAToDirectAddress AddressBC), Execute (LoadAFromDirectAddress AddressBC),
            Execute (StoreAToDirectAddress AddressDE), Execute (LoadAFromDirectAddress AddressDE),
            Execute (StoreAToHlWithUpdate Increment), Execute (LoadAFromHlWithUpdate Increment),
            Execute (StoreAToHlWithUpdate Decrement), Execute (LoadAFromHlWithUpdate Decrement)] ! y
         else if z = 3 then
           (if q = 0 then Execute (IncrementRegisterPair (pair_of p))
            else Execute (DecrementRegisterPair (pair_of p)))
         else if z = 4 then
           on_register y (\<lambda>r. CompleteOnFetch (IncrementRegister r)) (Execute IncrementHlMemory)
         else if z = 5 then
           on_register y (\<lambda>r. CompleteOnFetch (DecrementRegister r)) (Execute DecrementHlMemory)
         else if z = 6 then
           on_register y (\<lambda>r. Execute (LoadRegisterImmediate r)) (Execute StoreImmediateToHl)
         else CompleteOnFetch
           ([RotateLeftAccumulatorCarry, RotateRightAccumulatorCarry,
             RotateLeftAccumulatorThroughCarry, RotateRightAccumulatorThroughCarry,
             DecimalAdjustAccumulator, ComplementAccumulator, SetCarryFlag,
             ComplementCarryFlag] ! y))"

definition opcode_map_3 :: "nat \<Rightarrow> nat \<Rightarrow> decoded_opcode" where
  "opcode_map_3 y z =
     (let p = y div 2; q = y mod 2
      in if z = 0 then
           (if y < 4 then Execute (ConditionalReturn (condition_of y))
            else [Execute StoreAToHighImmediateAddress, Execute AddSpImmediate,
                  Execute LoadAFromHighImmediateAddress, Execute LoadHlFromSpPlusImmediate] ! (y - 4))
         else if z = 1 then
           (if q = 0 then Execute (PopRegisterPair (stack_pair_of p))
            else [Execute Return, Execute ReturnFromInterrupt, CompleteOnFetch JumpHl,
                  Execute LoadSpFromHl] ! p)
         else if z = 2 then
           (if y < 4 then Execute (ConditionalAbsoluteJump (condition_of y))
            else [Execute (StoreAToDirectAddress AddressHighC), Execute StoreAToImmediate16Address,
                  Execute (LoadAFromDirectAddress AddressHighC),
                  Execute LoadAFromImmediate16Address] ! (y - 4))
         else if z = 3 then
           [Execute AbsoluteJump, Execute CbPrefixed, Unsupported, Unsupported, Unsupported,
            Unsupported, CompleteOnFetch DisableInterrupts, CompleteOnFetch EnableInterrupts] ! y
         else if z = 4 then
           (if y < 4 then Execute (ConditionalCall (condition_of y)) else Unsupported)
         else if z = 5 then
           (if q = 0 then Execute (PushRegisterPair (stack_pair_of p))
            else if p = 0 then Execute Call else Unsupported)
         else if z = 6 then Execute (AluImmediate (alu_of y))
         else Execute (Restart (of_nat (8 * y))))"

definition opcode_map :: "u8 \<Rightarrow> decoded_opcode" where
  "opcode_map opcode =
     (let n = unat opcode; x = n div 64; y = n div 8 mod 8; z = n mod 8
      in if x = 0 then opcode_map_0 y z
         else if x = 1 then
           (if y = 6 \<and> z = 6 then CompleteOnFetch HaltCompletion
            else on_register y
              (\<lambda>d. on_register z (\<lambda>s. CompleteOnFetch (LoadRegisterToRegister d s))
                    (Execute (LoadRegisterFromHl d)))
              (on_register z (\<lambda>s. Execute (StoreRegisterToHl s)) Unsupported))
         else if x = 2 then
           on_register z (\<lambda>s. CompleteOnFetch (AluRegister (alu_of y) s)) (Execute (AluFromHl (alu_of y)))
         else opcode_map_3 y z)"

definition cb_opcode_map :: "u8 \<Rightarrow> cb_instruction_kind" where
  "cb_opcode_map opcode =
     (let n = unat opcode; x = n div 64; y = n div 8 mod 8; t = operand_of (n mod 8)
      in if x = 0 then
           ([RotateLeftCarry, RotateRightCarry, RotateLeftThroughCarry, RotateRightThroughCarry,
             ShiftLeftArithmetic, ShiftRightArithmetic, SwapNibbles, ShiftRightLogical] ! y) t
         else if x = 1 then BitTest (of_nat y) t
         else if x = 2 then ResetBit (of_nat y) t
         else SetBit (of_nat y) t)"

lemma or_else_simps:
  "decode_or_else (Inr (Some d)) y = Inr (Some d)"
  "decode_or_else (Inr None) y = y"
  by (simp_all add: decode_or_else_def)

lemma or_else_cong: "x = x' \<Longrightarrow> decode_or_else x y = decode_or_else x' y"
  by simp

lemmas decode_table_defs =
  decode_misc_opcode_def decode_load_opcode_def decode_arithmetic_opcode_def
  decode_control_flow_opcode_def decode_register16_def decode_register8_operand_def
  decode_stack_register16_def decode_alu_operation_def decode_relative_jump_condition_def
  decode_absolute_jump_condition_def decode_call_condition_def decode_return_condition_def
  decode_hl_update_direction_def opcode_y_def opcode_p_def load_transfer_def or_unsupported_def

lemmas opcode_map_defs = opcode_map_def opcode_map_0_def opcode_map_3_def on_register_def Let_def

lemma slow_path_eq_map: "decode_fetched_opcode_slow_path opcode = Inr (opcode_map opcode)"
  by (rule u8_byte_cases [of _ opcode])
    (simp add: decode_fetched_opcode_slow_path_def decode_table_defs or_else_simps
      opcode_map_defs word_le_nat_alt cong: or_else_cong)

lemma fast_path_eq_map: "decode_fetched_opcode opcode = Inr (opcode_map opcode)"
  by (rule u8_byte_cases [of _ opcode])
    (simp add: decode_fetched_opcode_def decode_fast_group_def
      decode_fetched_opcode_slow_path_def decode_table_defs or_else_simps
      opcode_map_defs word_le_nat_alt cong: or_else_cong)

lemma cb_decode_eq_map: "decode_cb_opcode opcode = Inr (cb_opcode_map opcode)"
  by (rule u8_byte_cases [of _ opcode])
    (simp add: decode_cb_opcode_def decode_register8_operand_def opcode_y_def
      cb_opcode_map_def Let_def)

lemma unsupported_opcodes:
  "opcode_map opcode = Unsupported \<longleftrightarrow>
   opcode \<in> {0xD3, 0xDB, 0xDD, 0xE3, 0xE4, 0xEB, 0xEC, 0xED, 0xF4, 0xFC, 0xFD}"
  by (rule u8_byte_cases [of _ opcode]) (simp add: opcode_map_defs)

lemma cb_bit_index: "unat (of_nat (unat (opcode::u8) div 8 mod 8) :: u8) < 8"
  by (simp add: unat_of_nat)

subsection \<open>Properties\<close>

text \<open>C3. Decoding is total and both of its paths are the opcode map: the group dispatch on the
  fetched byte and the sequential slow path give, for every opcode, exactly the instruction
  that the opcode's bit fields name, and no arm marked unreachable is ever reached.\<close>

theorem decode_is_the_opcode_map:
  "decode_fetched_opcode opcode = Inr (opcode_map opcode)
   \<and> decode_fetched_opcode_slow_path opcode = Inr (opcode_map opcode)
   \<and> decode_cb_opcode opcode = Inr (cb_opcode_map opcode)"
  by (simp add: fast_path_eq_map slow_path_eq_map cb_decode_eq_map)

text \<open>The unsupported opcodes are exactly the eleven holes of the instruction set.\<close>

theorem decode_unsupported_exactly:
  "decode_fetched_opcode opcode = Inr Unsupported \<longleftrightarrow>
   opcode \<in> {0xD3, 0xDB, 0xDD, 0xE3, 0xE4, 0xEB, 0xEC, 0xED, 0xF4, 0xFC, 0xFD}"
  by (simp add: fast_path_eq_map unsupported_opcodes)

end
