(* ===== verification/Cpu_Execute.thy ===== *)
theory Cpu_Execute
  imports Cpu_Control Cpu_Decode
begin

text \<open>
  The machine cycles of multi-cycle instructions: \<open>cpu/execute.rs\<close> and \<open>cpu/execute/\<close>. Each
  function performs one machine cycle of one instruction at its current step; an instruction
  of another group is the panic \<open>Unreachable\<close>, a step an instruction does not have stalls.
\<close>

subsection \<open>Common cycles\<close>

text \<open>\<open>self.in_flight.operand8_latch = self.read_pc_u8(..); self.advance_instruction(..)\<close> and alike.\<close>

definition read_pc_to_operand8 :: "'w cpu_external \<Rightarrow> ('w, unit) cpu_sm" where
  "read_pc_to_operand8 ext = sm_bind (read_pc_u8 ext) (\<lambda>v. cpu_modify (set_operand8 v))"

definition read_pc_to_operand16 :: "'w cpu_external \<Rightarrow> ('w, unit) cpu_sm" where
  "read_pc_to_operand16 ext = sm_bind (read_pc_u8 ext) (\<lambda>v. cpu_modify (set_operand16 (u16_from_u8 v)))"

definition read_pc_to_high_latch :: "'w cpu_external \<Rightarrow> ('w, unit) cpu_sm" where
  "read_pc_to_high_latch ext = sm_bind (read_pc_u8 ext) (\<lambda>high. cpu_modify (or_high_latch high))"

definition finish :: "('w, unit) cpu_sm" where
  "finish = cpu_modify finish_instruction"

definition advance_to :: "u8 \<Rightarrow> u8 \<Rightarrow> ('w, unit) cpu_sm" where
  "advance_to opcode step = cpu_modify (advance_instruction opcode step)"

definition stall_at :: "u8 \<Rightarrow> u8 \<Rightarrow> ('w, unit) cpu_sm" where
  "stall_at opcode step = cpu_modify (stall_instruction opcode step)"

subsection \<open>Loads\<close>

datatype immediate16_address_phase = I16ReadLow | I16ReadHigh | I16Access

definition immediate16_address_phase_from_step :: "u8 \<Rightarrow> immediate16_address_phase option" where
  "immediate16_address_phase_from_step step =
     (if step = 0 then Some I16ReadLow else if step = 1 then Some I16ReadHigh
      else if step = 2 then Some I16Access else None)"

datatype high_immediate_address_phase = HiReadOffset | HiAccess

definition high_immediate_address_phase_from_step :: "u8 \<Rightarrow> high_immediate_address_phase option" where
  "high_immediate_address_phase_from_step step =
     (if step = 0 then Some HiReadOffset else if step = 1 then Some HiAccess else None)"

definition execute_load_machine_cycle ::
    "'w cpu_external \<Rightarrow> cpu_instruction_kind \<Rightarrow> u8 \<Rightarrow> u8 \<Rightarrow> ('w, unit) cpu_sm" where
  "execute_load_machine_cycle ext kind opcode step =
     (case kind of
        LoadRegisterImmediate target \<Rightarrow>
          if step = 0 then
            sm_bind (read_pc_u8 ext) (\<lambda>v. sm_then (cpu_modify (write_register8 target v)) finish)
          else stall_at opcode step
      | LoadRegisterPairImmediate target \<Rightarrow>
          if step = 0 then sm_then (read_pc_to_operand16 ext) (advance_to opcode 1)
          else if step = 1 then
            sm_bind (read_pc_u8 ext) (\<lambda>high.
            sm_then
              (cpu_modify (\<lambda>c.
                 write_register16 target (operand16 c OR push_bit 8 (u16_from_u8 high)) c)) finish)
          else stall_at opcode step
      | LoadRegisterFromHl target \<Rightarrow>
          if step = 0 then
            sm_bind (cpu_gets get_hl) (\<lambda>hl.
            sm_bind (read_byte ext hl) (\<lambda>v.
            sm_then (cpu_modify (write_register8 target v)) finish))
          else stall_at opcode step
      | StoreRegisterToHl source \<Rightarrow>
          if step = 0 then
            sm_bind (cpu_gets get_hl) (\<lambda>hl.
            sm_bind (cpu_gets (read_register8 source)) (\<lambda>v.
            sm_then (write_byte ext hl v) finish))
          else stall_at opcode step
      | StoreImmediateToHl \<Rightarrow>
          if step = 0 then sm_then (read_pc_to_operand8 ext) (advance_to opcode 1)
          else if step = 1 then
            sm_bind (cpu_gets get_hl) (\<lambda>hl.
            sm_bind (cpu_gets operand8) (\<lambda>v.
            sm_then (write_byte ext hl v) finish))
          else stall_at opcode step
      | LoadAFromHlWithUpdate direction \<Rightarrow>
          if step = 0 then
            sm_bind (read_hl_with_update ext direction) (\<lambda>v. sm_then (cpu_modify (set_a v)) finish)
          else stall_at opcode step
      | StoreAToHlWithUpdate direction \<Rightarrow>
          if step = 0 then
            sm_bind (cpu_gets get_a) (\<lambda>a.
            sm_then (write_hl_with_update ext a direction) finish)
          else stall_at opcode step
      | LoadAFromDirectAddress source \<Rightarrow>
          if step = 0 then
            sm_bind (cpu_gets (resolve_direct_address source)) (\<lambda>address.
            sm_bind (read_byte ext address) (\<lambda>v. sm_then (cpu_modify (set_a v)) finish))
          else stall_at opcode step
      | LoadAFromImmediate16Address \<Rightarrow>
          (case immediate16_address_phase_from_step step of
             Some I16ReadLow \<Rightarrow> sm_then (read_pc_to_operand16 ext) (advance_to opcode 1)
           | Some I16ReadHigh \<Rightarrow> sm_then (read_pc_to_high_latch ext) (advance_to opcode 2)
           | Some I16Access \<Rightarrow>
               sm_bind (cpu_gets resolve_immediate16_address) (\<lambda>address.
               sm_bind (read_byte ext address) (\<lambda>v. sm_then (cpu_modify (set_a v)) finish))
           | None \<Rightarrow> stall_at opcode step)
      | LoadAFromHighImmediateAddress \<Rightarrow>
          (case high_immediate_address_phase_from_step step of
             Some HiReadOffset \<Rightarrow> sm_then (read_pc_to_operand8 ext) (advance_to opcode 1)
           | Some HiAccess \<Rightarrow>
               sm_bind (cpu_gets resolve_high_immediate_address) (\<lambda>address.
               sm_bind (read_byte ext address) (\<lambda>v. sm_then (cpu_modify (set_a v)) finish))
           | None \<Rightarrow> stall_at opcode step)
      | StoreAToDirectAddress destination \<Rightarrow>
          if step = 0 then
            sm_bind (cpu_gets (resolve_direct_address destination)) (\<lambda>address.
            sm_bind (cpu_gets get_a) (\<lambda>a. sm_then (write_byte ext address a) finish))
          else stall_at opcode step
      | StoreAToImmediate16Address \<Rightarrow>
          (case immediate16_address_phase_from_step step of
             Some I16ReadLow \<Rightarrow> sm_then (read_pc_to_operand16 ext) (advance_to opcode 1)
           | Some I16ReadHigh \<Rightarrow> sm_then (read_pc_to_high_latch ext) (advance_to opcode 2)
           | Some I16Access \<Rightarrow>
               sm_bind (cpu_gets resolve_immediate16_address) (\<lambda>address.
               sm_bind (cpu_gets get_a) (\<lambda>a. sm_then (write_byte ext address a) finish))
           | None \<Rightarrow> stall_at opcode step)
      | StoreAToHighImmediateAddress \<Rightarrow>
          (case high_immediate_address_phase_from_step step of
             Some HiReadOffset \<Rightarrow> sm_then (read_pc_to_operand8 ext) (advance_to opcode 1)
           | Some HiAccess \<Rightarrow>
               sm_bind (cpu_gets resolve_high_immediate_address) (\<lambda>address.
               sm_bind (cpu_gets get_a) (\<lambda>a. sm_then (write_byte ext address a) finish))
           | None \<Rightarrow> stall_at opcode step)
      | StoreSpToImmediate16 \<Rightarrow>
          if step = 0 then sm_then (read_pc_to_operand16 ext) (advance_to opcode 1)
          else if step = 1 then sm_then (read_pc_to_high_latch ext) (advance_to opcode 2)
          else if step = 2 then
            sm_bind (cpu_gets operand16) (\<lambda>address.
            sm_bind (cpu_gets (\<lambda>c. lo_byte (get_sp c))) (\<lambda>low.
            sm_then (write_byte ext address low) (advance_to opcode 3)))
          else if step = 3 then
            sm_bind (cpu_gets (\<lambda>c. operand16 c + 1)) (\<lambda>address.
            sm_bind (cpu_gets (\<lambda>c. hi_byte (get_sp c))) (\<lambda>high.
            sm_then (write_byte ext address high) finish))
          else stall_at opcode step
      | LoadSpFromHl \<Rightarrow>
          if step = 0 then
            sm_then (cpu_modify (\<lambda>c. write_register16 PairSP (get_hl c) c)) finish
          else stall_at opcode step
      | _ \<Rightarrow> sm_panic Unreachable)"

subsection \<open>Arithmetic\<close>

definition execute_arithmetic_machine_cycle ::
    "'w cpu_external \<Rightarrow> cpu_instruction_kind \<Rightarrow> u8 \<Rightarrow> u8 \<Rightarrow> ('w, unit) cpu_sm" where
  "execute_arithmetic_machine_cycle ext kind opcode step =
     (case kind of
        LoadHlFromSpPlusImmediate \<Rightarrow>
          if step = 0 then sm_then (read_pc_to_operand8 ext) (advance_to opcode 1)
          else if step = 1 then
            sm_bind (cpu_gets operand8) (\<lambda>v.
            sm_bind (cpu_state_fn (sp_plus_signed_immediate v)) (\<lambda>result.
            sm_then (cpu_modify (write_register16 PairHL result)) finish))
          else stall_at opcode step
      | AddSpImmediate \<Rightarrow>
          if step = 0 then sm_then (read_pc_to_operand8 ext) (advance_to opcode 1)
          else if step = 1 then advance_to opcode 2
          else if step = 2 then
            sm_bind (cpu_gets operand8) (\<lambda>v.
            sm_bind (cpu_state_fn (sp_plus_signed_immediate v)) (\<lambda>result.
            sm_then (cpu_modify (write_register16 PairSP result)) finish))
          else stall_at opcode step
      | AddHl source \<Rightarrow>
          if step = 0 then
            sm_bind (cpu_gets (read_register16 source)) (\<lambda>v. sm_then (cpu_modify (add_to_hl v)) finish)
          else stall_at opcode step
      | IncrementRegisterPair target \<Rightarrow>
          if step = 0 then
            sm_then (cpu_modify (increment_or_decrement_register_pair target Increment)) finish
          else stall_at opcode step
      | DecrementRegisterPair target \<Rightarrow>
          if step = 0 then
            sm_then (cpu_modify (increment_or_decrement_register_pair target Decrement)) finish
          else stall_at opcode step
      | IncrementHlMemory \<Rightarrow>
          if step = 0 then
            sm_bind (cpu_gets get_hl) (\<lambda>hl.
            sm_bind (read_byte ext hl) (\<lambda>v.
            sm_then (cpu_modify (set_operand8 v)) (advance_to opcode 1)))
          else if step = 1 then
            sm_bind (cpu_gets operand8) (\<lambda>before.
            let result = before + 1
            in sm_then (cpu_modify (set_operand8 result))
               (sm_bind (cpu_gets get_hl) (\<lambda>hl.
                sm_then (write_byte ext hl result)
                (sm_then (cpu_modify (update_inc_flags before result)) finish))))
          else stall_at opcode step
      | DecrementHlMemory \<Rightarrow>
          if step = 0 then
            sm_bind (cpu_gets get_hl) (\<lambda>hl.
            sm_bind (read_byte ext hl) (\<lambda>v.
            sm_then (cpu_modify (set_operand8 v)) (advance_to opcode 1)))
          else if step = 1 then
            sm_bind (cpu_gets operand8) (\<lambda>before.
            let result = before - 1
            in sm_then (cpu_modify (set_operand8 result))
               (sm_bind (cpu_gets get_hl) (\<lambda>hl.
                sm_then (write_byte ext hl result)
                (sm_then (cpu_modify (update_dec_flags before result)) finish))))
          else stall_at opcode step
      | AluImmediate operation \<Rightarrow>
          if step = 0 then
            sm_bind (read_pc_u8 ext) (\<lambda>v.
            sm_then (cpu_modify (apply_alu_operation operation v)) finish)
          else stall_at opcode step
      | AluFromHl operation \<Rightarrow>
          if step = 0 then
            sm_bind (cpu_gets get_hl) (\<lambda>hl.
            sm_bind (read_byte ext hl) (\<lambda>v.
            sm_then (cpu_modify (apply_alu_operation operation v)) finish))
          else stall_at opcode step
      | _ \<Rightarrow> sm_panic Unreachable)"

subsection \<open>Control flow\<close>

datatype relative_jump_phase = RelReadOffset | RelCommitTarget

definition relative_jump_phase_from_step :: "u8 \<Rightarrow> relative_jump_phase option" where
  "relative_jump_phase_from_step step =
     (if step = 0 then Some RelReadOffset else if step = 1 then Some RelCommitTarget else None)"

datatype absolute_jump_phase = AbsReadLow | AbsReadHigh | AbsCommitTarget

definition absolute_jump_phase_from_step :: "u8 \<Rightarrow> absolute_jump_phase option" where
  "absolute_jump_phase_from_step step =
     (if step = 0 then Some AbsReadLow else if step = 1 then Some AbsReadHigh
      else if step = 2 then Some AbsCommitTarget else None)"

datatype stop_phase = StopResolveEntry

definition stop_phase_from_step :: "u8 \<Rightarrow> stop_phase option" where
  "stop_phase_from_step step = (if step = 0 then Some StopResolveEntry else None)"

definition commit_relative_jump :: "cpu_core \<Rightarrow> cpu_core" where
  "commit_relative_jump c = set_pc (get_pc c + sign_extend_u8 (operand8 c)) c"

definition commit_latched_jump :: "cpu_core \<Rightarrow> cpu_core" where
  "commit_latched_jump c = set_pc (operand16 c) c"

definition execute_stop_entry :: "'w cpu_external \<Rightarrow> ('w, unit) cpu_sm" where
  "execute_stop_entry ext =
     sm_then (cpu_modify request_stop_div_reset)
     (sm_bind (cgb_speed_switch_prepared ext) (\<lambda>prepared.
      if prepared then
        sm_bind (read_pc_u8 ext) (\<lambda>_.
        sm_then (cpu_modify request_cgb_speed_switch) (cpu_modify enter_speed_switch_pause_state))
      else
        sm_bind (cpu_stop_wake_line_asserted ext) (\<lambda>wake_line_asserted.
        sm_bind (cpu_gets ime_enabled) (\<lambda>ime.
        sm_bind
          (if ime then sm_return False
           else sm_bind (current_highest_pending_interrupt ext) (\<lambda>p. sm_return (p \<noteq> None)))
          (\<lambda>pending_interrupt.
        sm_bind (cpu_gets (stop_entry wake_line_asserted pending_interrupt)) (\<lambda>resolution.
          case resolution of
            CompleteOnCurrentMachineCycle \<Rightarrow> finish
          | EnterStoppedAfterPaddingFetch \<Rightarrow>
              sm_bind (read_pc_u8 ext) (\<lambda>_. cpu_modify enter_stopped_state)
          | EnterZombieStopped \<Rightarrow> cpu_modify enter_zombie_stopped_state
          | EnterHaltAfterPaddingFetch \<Rightarrow>
              sm_bind (read_pc_u8 ext) (\<lambda>_. cpu_modify finish_and_request_halt)))))))"

definition execute_control_flow_machine_cycle ::
    "'w cpu_external \<Rightarrow> cpu_instruction_kind \<Rightarrow> u8 \<Rightarrow> u8 \<Rightarrow> ('w, unit) cpu_sm" where
  "execute_control_flow_machine_cycle ext kind opcode step =
     (case kind of
        RelativeJump \<Rightarrow>
          (case relative_jump_phase_from_step step of
             Some RelReadOffset \<Rightarrow> sm_then (read_pc_to_operand8 ext) (advance_to opcode 1)
           | Some RelCommitTarget \<Rightarrow> sm_then (cpu_modify commit_relative_jump) finish
           | None \<Rightarrow> stall_at opcode step)
      | ConditionalRelativeJump condition \<Rightarrow>
          (case relative_jump_phase_from_step step of
             Some RelReadOffset \<Rightarrow>
               sm_then (read_pc_to_operand8 ext)
               (sm_bind (cpu_gets (condition_is_met (Some condition))) (\<lambda>met.
                if met then advance_to opcode 1 else finish))
           | Some RelCommitTarget \<Rightarrow> sm_then (cpu_modify commit_relative_jump) finish
           | None \<Rightarrow> stall_at opcode step)
      | AbsoluteJump \<Rightarrow>
          (case absolute_jump_phase_from_step step of
             Some AbsReadLow \<Rightarrow> sm_then (read_pc_to_operand16 ext) (advance_to opcode 1)
           | Some AbsReadHigh \<Rightarrow> sm_then (read_pc_to_high_latch ext) (advance_to opcode 2)
           | Some AbsCommitTarget \<Rightarrow> sm_then (cpu_modify commit_latched_jump) finish
           | None \<Rightarrow> stall_at opcode step)
      | ConditionalAbsoluteJump condition \<Rightarrow>
          (case absolute_jump_phase_from_step step of
             Some AbsReadLow \<Rightarrow> sm_then (read_pc_to_operand16 ext) (advance_to opcode 1)
           | Some AbsReadHigh \<Rightarrow>
               sm_then (read_pc_to_high_latch ext)
               (sm_bind (cpu_gets (condition_is_met (Some condition))) (\<lambda>met.
                if met then advance_to opcode 2 else finish))
           | Some AbsCommitTarget \<Rightarrow> sm_then (cpu_modify commit_latched_jump) finish
           | None \<Rightarrow> stall_at opcode step)
      | Call \<Rightarrow>
          if step = 0 then sm_then (read_pc_to_operand16 ext) (advance_to opcode 1)
          else if step = 1 then sm_then (read_pc_to_high_latch ext) (advance_to opcode 2)
          else if step = 2 then sm_then (cpu_modify prepare_pc_stack_push) (advance_to opcode 3)
          else if step = 3 then sm_then (push_pc_high_at_sp ext) (advance_to opcode 4)
          else if step = 4 then
            sm_then (push_latched_low_with_decremented_sp ext)
              (sm_then (cpu_modify commit_latched_jump) finish)
          else stall_at opcode step
      | ConditionalCall condition \<Rightarrow>
          if step = 0 then sm_then (read_pc_to_operand16 ext) (advance_to opcode 1)
          else if step = 1 then
            sm_then (read_pc_to_high_latch ext)
            (sm_bind (cpu_gets (condition_is_met (Some condition))) (\<lambda>met.
             if met then advance_to opcode 2 else finish))
          else if step = 2 then sm_then (cpu_modify prepare_pc_stack_push) (advance_to opcode 3)
          else if step = 3 then sm_then (push_pc_high_at_sp ext) (advance_to opcode 4)
          else if step = 4 then
            sm_then (push_latched_low_with_decremented_sp ext)
              (sm_then (cpu_modify commit_latched_jump) finish)
          else stall_at opcode step
      | Return \<Rightarrow>
          if step = 0 then sm_then (read_latched_stack_low_byte ext) (advance_to opcode 1)
          else if step = 1 then sm_then (read_latched_stack_high_byte ext) (advance_to opcode 2)
          else if step = 2 then sm_then (cpu_modify commit_latched_jump) finish
          else stall_at opcode step
      | ConditionalReturn condition \<Rightarrow>
          if step = 0 then
            sm_bind (cpu_gets (condition_is_met (Some condition))) (\<lambda>met.
            if met then advance_to opcode 1 else finish)
          else if step = 1 then sm_then (read_latched_stack_low_byte ext) (advance_to opcode 2)
          else if step = 2 then sm_then (read_latched_stack_high_byte ext) (advance_to opcode 3)
          else if step = 3 then sm_then (cpu_modify commit_latched_jump) finish
          else stall_at opcode step
      | ReturnFromInterrupt \<Rightarrow>
          if step = 0 then sm_then (read_latched_stack_low_byte ext) (advance_to opcode 1)
          else if step = 1 then sm_then (read_latched_stack_high_byte ext) (advance_to opcode 2)
          else if step = 2 then
            sm_then (cpu_modify commit_latched_jump)
            (sm_then (cpu_modify set_ime_enabled)
            (sm_then (cpu_modify cancel_delayed_ime_enable) finish))
          else stall_at opcode step
      | Stop \<Rightarrow>
          (case stop_phase_from_step step of
             Some StopResolveEntry \<Rightarrow> execute_stop_entry ext
           | None \<Rightarrow> stall_at opcode step)
      | Restart vector \<Rightarrow>
          if step = 0 then sm_then (cpu_modify prepare_pc_stack_push) (advance_to opcode 1)
          else if step = 1 then sm_then (push_pc_high_at_sp ext) (advance_to opcode 2)
          else if step = 2 then
            sm_then (push_latched_low_with_decremented_sp ext)
              (sm_then (cpu_modify (set_pc vector)) finish)
          else stall_at opcode step
      | _ \<Rightarrow> sm_panic Unreachable)"

subsection \<open>Stack\<close>

definition execute_stack_machine_cycle ::
    "'w cpu_external \<Rightarrow> cpu_instruction_kind \<Rightarrow> u8 \<Rightarrow> u8 \<Rightarrow> ('w, unit) cpu_sm" where
  "execute_stack_machine_cycle ext kind opcode step =
     (case kind of
        PushRegisterPair source \<Rightarrow>
          if step = 0 then
            sm_then (cpu_modify (\<lambda>c. set_operand16 (read_stack_register16 source c) c))
            (sm_then (cpu_modify decrement_sp_and_record_idu_event) (advance_to opcode 1))
          else if step = 1 then
            sm_bind (cpu_gets (\<lambda>c. lo_byte (operand16 c))) (\<lambda>low.
            sm_then (push_latched_u16_high_at_sp ext)
            (sm_then (cpu_modify (set_operand8 low)) (advance_to opcode 2)))
          else if step = 2 then sm_then (push_latched_low_with_decremented_sp ext) finish
          else stall_at opcode step
      | PopRegisterPair target \<Rightarrow>
          if step = 0 then sm_then (read_latched_stack_low_byte ext) (advance_to opcode 1)
          else if step = 1 then
            sm_then (read_latched_stack_high_byte ext)
            (sm_then (cpu_modify (\<lambda>c. write_stack_register16 target (operand16 c) c)) finish)
          else stall_at opcode step
      | _ \<Rightarrow> sm_panic Unreachable)"

subsection \<open>CB-prefixed instructions\<close>

definition set_cb_kind :: "cb_instruction_kind \<Rightarrow> cpu_core \<Rightarrow> cpu_core" where
  "set_cb_kind kind c = c\<lparr>cpu_in_flight := (cpu_in_flight c)\<lparr>ifl_cb_kind := Some kind\<rparr>\<rparr>"

definition is_bit_test :: "cb_instruction_kind \<Rightarrow> bool" where
  "is_bit_test kind = (case kind of BitTest _ _ \<Rightarrow> True | _ \<Rightarrow> False)"

definition execute_cb_prefixed_machine_cycle ::
    "'w cpu_external \<Rightarrow> u8 \<Rightarrow> u8 \<Rightarrow> ('w, unit) cpu_sm" where
  "execute_cb_prefixed_machine_cycle ext opcode step =
     (if step = 0 then
        sm_bind (read_pc_u8 ext) (\<lambda>cb_opcode.
        sm_then (cpu_modify (set_operand8 cb_opcode))
        (sm_bind (sm_lift (decode_cb_opcode cb_opcode)) (\<lambda>kind.
         case cb_target kind of
           Register target \<Rightarrow>
             sm_bind (cpu_gets (read_register8 target)) (\<lambda>v.
             sm_bind (cpu_state_fn (apply_cb_operation kind v)) (\<lambda>result.
             sm_then
               (case result of
                  Some r \<Rightarrow> cpu_modify (write_register8 target r)
                | None \<Rightarrow> sm_return ())
               finish))
         | IndirectHl \<Rightarrow> sm_then (cpu_modify (set_cb_kind kind)) (advance_to opcode 1))))
      else if step = 1 then
        sm_bind (cpu_gets (\<lambda>c. ifl_cb_kind (cpu_in_flight c))) (\<lambda>latched.
        case latched of
          Some kind \<Rightarrow>
            if cb_target kind = IndirectHl then
              sm_bind (cpu_gets get_hl) (\<lambda>hl.
              sm_bind (read_byte ext hl) (\<lambda>v.
              sm_bind (cpu_state_fn (apply_cb_operation kind v)) (\<lambda>result.
                case result of
                  Some r \<Rightarrow> sm_then (cpu_modify (set_operand8 r)) (advance_to opcode 2)
                | None \<Rightarrow> finish)))
            else stall_at opcode step
        | None \<Rightarrow> stall_at opcode step)
      else if step = 2 then
        sm_bind (cpu_gets (\<lambda>c. ifl_cb_kind (cpu_in_flight c))) (\<lambda>latched.
        case latched of
          Some kind \<Rightarrow>
            if cb_target kind = IndirectHl \<and> \<not> is_bit_test kind then
              sm_bind (cpu_gets get_hl) (\<lambda>hl.
              sm_bind (cpu_gets operand8) (\<lambda>v.
              sm_then (write_byte ext hl v) finish))
            else stall_at opcode step
        | None \<Rightarrow> stall_at opcode step)
      else stall_at opcode step)"

subsection \<open>Dispatch\<close>

text \<open>The \<open>debug_assert\<close>s of this function are compiled out of the release profile.\<close>

definition complete_execute_machine_cycle :: "'w cpu_external \<Rightarrow> u8 \<Rightarrow> ('w, unit) cpu_sm" where
  "complete_execute_machine_cycle ext step =
     sm_bind (cpu_gets (\<lambda>c. unwrap_or_0 (ifl_opcode (cpu_in_flight c)))) (\<lambda>opcode.
     sm_bind (cpu_gets (\<lambda>c. execution_descriptor (cpu_in_flight c))) (\<lambda>descriptor.
     case descriptor of
       None \<Rightarrow> cpu_modify (\<lambda>c. c\<lparr>cpu_state := ExecuteStep step LAST_MACHINE_CYCLE_T\<rparr>)
     | Some (kind, g) \<Rightarrow>
         (case g of
            LoadGroup \<Rightarrow> execute_load_machine_cycle ext kind opcode step
          | ArithmeticGroup \<Rightarrow> execute_arithmetic_machine_cycle ext kind opcode step
          | ControlFlowGroup \<Rightarrow> execute_control_flow_machine_cycle ext kind opcode step
          | StackGroup \<Rightarrow> execute_stack_machine_cycle ext kind opcode step
          | CbPrefixedGroup \<Rightarrow> execute_cb_prefixed_machine_cycle ext opcode step)))"

end
