(* ===== verification/Cpu_Cycle.thy ===== *)
theory Cpu_Cycle
  imports Cpu_Execute
begin

text \<open>
  One T-cycle of the core (\<open>cpu/cycle.rs\<close>): the fetch machine cycle with the instructions
  that complete in it, and the dispatch of \<open>tick_t_cycle\<close> on the execution state.
\<close>

definition advance_fetch_t_cycle :: "cpu_core \<Rightarrow> cpu_core res" where
  "advance_fetch_t_cycle c =
     (case cpu_state c of
        FetchOpcode t \<Rightarrow> Inr (c\<lparr>cpu_state := FetchOpcode (t + 1)\<rparr>)
      | _ \<Rightarrow> Inl Unreachable)"

definition advance_execute_t_cycle :: "cpu_core \<Rightarrow> cpu_core res" where
  "advance_execute_t_cycle c =
     (case cpu_state c of
        ExecuteStep step t \<Rightarrow> Inr (c\<lparr>cpu_state := ExecuteStep step (t + 1)\<rparr>)
      | _ \<Rightarrow> Inl Unreachable)"

definition advance_service_interrupt_t_cycle :: "cpu_core \<Rightarrow> cpu_core res" where
  "advance_service_interrupt_t_cycle c =
     (case cpu_state c of
        ServiceInterrupt src step t \<Rightarrow> Inr (c\<lparr>cpu_state := ServiceInterrupt src step (t + 1)\<rparr>)
      | _ \<Rightarrow> Inl Unreachable)"

definition advance_stop_wake_bugged_interrupt_t_cycle :: "cpu_core \<Rightarrow> cpu_core res" where
  "advance_stop_wake_bugged_interrupt_t_cycle c =
     (case cpu_state c of
        ServiceStopWakeBuggedInterrupt step t \<Rightarrow>
          Inr (c\<lparr>cpu_state := ServiceStopWakeBuggedInterrupt step (t + 1)\<rparr>)
      | _ \<Rightarrow> Inl Unreachable)"

definition advance_speed_switch_pause :: "u32 \<Rightarrow> cpu_core \<Rightarrow> cpu_core" where
  "advance_speed_switch_pause remaining c =
     (if remaining \<le> 1 then c\<lparr>cpu_state := fetch_opcode\<rparr>
      else c\<lparr>cpu_state := SpeedSwitchPause (remaining - 1)\<rparr>)"

text \<open>A fallible method on the core alone, in the machine.\<close>

definition cpu_res :: "(cpu_core \<Rightarrow> cpu_core res) \<Rightarrow> ('w, unit) cpu_sm" where
  "cpu_res f = (\<lambda>(c, w). res_map (\<lambda>c'. ((), (c', w))) (f c))"

text \<open>The four accumulator rotates: the rotate itself, then Z, N and H cleared.\<close>

definition rotate_accumulator :: "(u8 \<Rightarrow> cpu_core \<Rightarrow> u8 \<times> cpu_core) \<Rightarrow> cpu_core \<Rightarrow> cpu_core" where
  "rotate_accumulator rot c0 =
     (case rot (get_a c0) c0 of
        (result, c1) \<Rightarrow>
          let c2 = set_a result c1
          in finish_instruction (write_flags False False False (get_f c2 AND FLAG_C \<noteq> 0) c2))"

fun complete_fetch_completion :: "fetch_completion_kind \<Rightarrow> cpu_core \<Rightarrow> cpu_core" where
  "complete_fetch_completion Nop c = finish_instruction c"
| "complete_fetch_completion DecimalAdjustAccumulator c = finish_instruction (decimal_adjust_a c)"
| "complete_fetch_completion ComplementAccumulator c = finish_instruction (complement_a c)"
| "complete_fetch_completion SetCarryFlag c = finish_instruction (set_carry_flag c)"
| "complete_fetch_completion ComplementCarryFlag c = finish_instruction (complement_carry_flag c)"
| "complete_fetch_completion RotateLeftAccumulatorCarry c = rotate_accumulator rotate_left_carry c"
| "complete_fetch_completion RotateLeftAccumulatorThroughCarry c =
     rotate_accumulator rotate_left_through_carry c"
| "complete_fetch_completion RotateRightAccumulatorCarry c = rotate_accumulator rotate_right_carry c"
| "complete_fetch_completion RotateRightAccumulatorThroughCarry c =
     rotate_accumulator rotate_right_through_carry c"
| "complete_fetch_completion HaltCompletion c = finish_and_request_halt c"
| "complete_fetch_completion DisableInterrupts c =
     finish_instruction (cancel_delayed_ime_enable (set_ime_disabled c))"
| "complete_fetch_completion EnableInterrupts c =
     finish_instruction (schedule_delayed_ime_enable c)"
| "complete_fetch_completion JumpHl c = finish_instruction (set_pc (get_hl c) c)"
| "complete_fetch_completion (LoadRegisterToRegister d s) c =
     finish_instruction (write_register8 d (read_register8 s c) c)"
| "complete_fetch_completion (IncrementRegister r) c =
     (let before = read_register8 r c; result = before + 1
      in finish_instruction (update_inc_flags before result (write_register8 r result c)))"
| "complete_fetch_completion (DecrementRegister r) c =
     (let before = read_register8 r c; result = before - 1
      in finish_instruction (update_dec_flags before result (write_register8 r result c)))"
| "complete_fetch_completion (AluRegister operation s) c =
     finish_instruction (apply_alu_operation operation (read_register8 s c) c)"

definition stop_completes_on_fetch_machine_cycle :: "'w cpu_external \<Rightarrow> ('w, bool) cpu_sm" where
  "stop_completes_on_fetch_machine_cycle ext =
     sm_bind (cgb_speed_switch_prepared ext) (\<lambda>prepared.
     if prepared then sm_return False
     else
       sm_bind (cpu_stop_wake_line_asserted ext) (\<lambda>wake_line_asserted.
       if \<not> wake_line_asserted then sm_return False
       else
         sm_bind (cpu_gets ime_enabled) (\<lambda>ime.
         if ime then
           cpu_gets (\<lambda>c. stop_entry wake_line_asserted False c = CompleteOnCurrentMachineCycle)
         else
           sm_bind (current_highest_pending_interrupt ext) (\<lambda>pending.
           cpu_gets (\<lambda>c. stop_entry wake_line_asserted (pending \<noteq> None) c
                         = CompleteOnCurrentMachineCycle)))))"

definition set_current_opcode :: "u8 \<Rightarrow> cpu_core \<Rightarrow> cpu_core" where
  "set_current_opcode opcode c = c\<lparr>cpu_in_flight := (cpu_in_flight c)\<lparr>ifl_opcode := Some opcode\<rparr>\<rparr>"

text \<open>What \<open>complete_fetch_opcode\<close> does once the opcode is read and recorded.\<close>

definition dispatch_fetched_opcode :: "'w cpu_external \<Rightarrow> u8 \<Rightarrow> ('w, unit) cpu_sm" where
  "dispatch_fetched_opcode ext opcode =
     sm_bind
       (if opcode = 0x10 then stop_completes_on_fetch_machine_cycle ext else sm_return False)
       (\<lambda>stop_completes.
      if stop_completes then
        sm_then (cpu_modify request_stop_div_reset) (cpu_modify finish_instruction)
      else
        sm_bind (sm_lift (decode_fetched_opcode opcode)) (\<lambda>decoded.
        case decoded of
          CompleteOnFetch completion \<Rightarrow> cpu_modify (complete_fetch_completion completion)
        | Execute kind \<Rightarrow> cpu_modify (begin_instruction opcode kind)
        | Unsupported \<Rightarrow> cpu_modify (enter_invalid_opcode_trap opcode)))"

definition complete_fetch_opcode :: "'w cpu_external \<Rightarrow> ('w, unit) cpu_sm" where
  "complete_fetch_opcode ext =
     sm_bind (read_opcode_u8 ext) (\<lambda>opcode.
     sm_then (cpu_modify (set_current_opcode opcode)) (dispatch_fetched_opcode ext opcode))"

definition clear_activity :: "cpu_core \<Rightarrow> cpu_core" where
  "clear_activity c = c\<lparr>cpu_last_bus_activity := None, cpu_last_address_event := None\<rparr>"

text \<open>The match of \<open>tick_t_cycle\<close> on the execution state.\<close>

definition dispatch_execution_state ::
    "'w cpu_external \<Rightarrow> cpu_execution_state \<Rightarrow> ('w, unit) cpu_sm" where
  "dispatch_execution_state ext state =
     (case state of
        FetchOpcode t \<Rightarrow>
          if t < LAST_MACHINE_CYCLE_T then cpu_res advance_fetch_t_cycle
          else complete_fetch_opcode ext
      | ExecuteStep step t \<Rightarrow>
          if t < LAST_MACHINE_CYCLE_T then cpu_res advance_execute_t_cycle
          else complete_execute_machine_cycle ext step
      | ServiceInterrupt source step t \<Rightarrow>
          if t < LAST_MACHINE_CYCLE_T then cpu_res advance_service_interrupt_t_cycle
          else complete_interrupt_service_machine_cycle ext source step
      | ServiceStopWakeBuggedInterrupt step t \<Rightarrow>
          if t < LAST_MACHINE_CYCLE_T then cpu_res advance_stop_wake_bugged_interrupt_t_cycle
          else complete_stop_wake_bugged_interrupt_service_machine_cycle ext step
      | SpeedSwitchPause remaining \<Rightarrow> cpu_modify (advance_speed_switch_pause remaining)
      | _ \<Rightarrow> sm_return ())"

definition cpu_tick_t_cycle :: "'w cpu_external \<Rightarrow> ('w, unit) cpu_sm" where
  "cpu_tick_t_cycle ext =
     sm_then (cpu_modify clear_activity)
       (sm_bind (cpu_gets cpu_state) (dispatch_execution_state ext))"

end
