(* ===== verification/Cpu_Invariant.thy ===== *)
theory Cpu_Invariant
  imports Cpu_Cycle
begin

text \<open>
  The invariant of the core and its preservation by every T-cycle, under any port that answers
  bus reads: the core never panics, never stalls, and finishes what it starts.
\<close>

subsection \<open>The invariant\<close>

text \<open>The last step of an instruction's execute machine cycles.\<close>

fun last_step :: "cpu_instruction_kind \<Rightarrow> u8" where
  "last_step (LoadRegisterPairImmediate _) = 1"
| "last_step StoreImmediateToHl = 1"
| "last_step LoadAFromImmediate16Address = 2"
| "last_step LoadAFromHighImmediateAddress = 1"
| "last_step StoreAToImmediate16Address = 2"
| "last_step StoreAToHighImmediateAddress = 1"
| "last_step StoreSpToImmediate16 = 3"
| "last_step LoadHlFromSpPlusImmediate = 1"
| "last_step AddSpImmediate = 2"
| "last_step IncrementHlMemory = 1"
| "last_step DecrementHlMemory = 1"
| "last_step RelativeJump = 1"
| "last_step (ConditionalRelativeJump _) = 1"
| "last_step AbsoluteJump = 2"
| "last_step (ConditionalAbsoluteJump _) = 2"
| "last_step Call = 4"
| "last_step (ConditionalCall _) = 4"
| "last_step Return = 2"
| "last_step (ConditionalReturn _) = 3"
| "last_step ReturnFromInterrupt = 2"
| "last_step (Restart _) = 2"
| "last_step (PushRegisterPair _) = 2"
| "last_step (PopRegisterPair _) = 1"
| "last_step CbPrefixed = 2"
| "last_step _ = 0"

fun ime_wf :: "ime_state \<Rightarrow> bool" where
  "ime_wf (ImeDisabledPendingEnable n) = (n = 1 \<or> n = 2)"
| "ime_wf (ImeEnabledPendingEnable n) = (n = 1 \<or> n = 2)"
| "ime_wf _ = True"

type_synonym in_flight_static =
  "u8 option \<times> cpu_instruction_kind option \<times> instruction_execution_group option
     \<times> cb_instruction_kind option"

definition static_of :: "in_flight_instruction \<Rightarrow> in_flight_static" where
  "static_of i = (ifl_opcode i, ifl_kind i, ifl_execution_group i, ifl_cb_kind i)"

definition executing :: "u8 \<Rightarrow> in_flight_static \<Rightarrow> bool" where
  "executing step st =
     (case st of (opcode, kind, g, cb) \<Rightarrow>
        opcode \<noteq> None
        \<and> (\<exists>k. kind = Some k \<and> g = Some (execution_group k) \<and> step \<le> last_step k
             \<and> (k = CbPrefixed \<longrightarrow> step \<noteq> 0 \<longrightarrow>
                  (\<exists>i. cb = Some i \<and> cb_target i = IndirectHl \<and> (step = 2 \<longrightarrow> \<not> is_bit_test i)))))"

definition state_wf :: "cpu_execution_state \<Rightarrow> in_flight_static \<Rightarrow> bool" where
  "state_wf state st =
     (case state of
        FetchOpcode t \<Rightarrow> t \<le> 3 \<and> st = (None, None, None, None)
      | ExecuteStep step t \<Rightarrow> t \<le> 3 \<and> executing step st
      | ServiceInterrupt _ step t \<Rightarrow> t \<le> 3 \<and> step \<le> 4 \<and> st = (None, None, None, None)
      | ServiceStopWakeBuggedInterrupt step t \<Rightarrow>
          t \<le> 3 \<and> step \<le> 4 \<and> st = (None, None, None, None)
      | SpeedSwitchPause n \<Rightarrow> 1 \<le> n \<and> n \<le> CGB_SPEED_SWITCH_PAUSE_T_CYCLES
          \<and> st = (None, None, None, None)
      | DiagnosticTrap _ \<Rightarrow> True
      | _ \<Rightarrow> st = (None, None, None, None))"

text \<open>A HALT request is outstanding only while the next opcode is being fetched.\<close>

fun no_request :: "halt_control_state \<Rightarrow> bool" where
  "no_request (PendingRequest _) = False"
| "no_request _ = True"

lemma halt_request_pending_iff: "halt_request_pending c \<longleftrightarrow> \<not> no_request (cpu_halt c)"
  by (cases "cpu_halt c") (simp_all add: halt_request_pending_def)

definition cpu_wf :: "cpu_core \<Rightarrow> bool" where
  "cpu_wf c =
     (flags_wf c \<and> ime_wf (cpu_ime c) \<and> state_wf (cpu_state c) (static_of (cpu_in_flight c))
      \<and> (halt_request_pending c \<longrightarrow> (\<exists>t. cpu_state c = FetchOpcode t)))"

text \<open>What the steps of an instruction keep: flags, IME, no outstanding HALT request, and the
  static part of what is in flight.\<close>

definition core_ok :: "in_flight_static \<Rightarrow> cpu_core \<Rightarrow> bool" where
  "core_ok st c =
     (flags_wf c \<and> ime_wf (cpu_ime c) \<and> no_request (cpu_halt c) \<and> static_of (cpu_in_flight c) = st)"

lemma cpu_wf_core_ok:
  "\<not> halt_request_pending c \<Longrightarrow>
   cpu_wf c \<longleftrightarrow> core_ok (static_of (cpu_in_flight c)) c
     \<and> state_wf (cpu_state c) (static_of (cpu_in_flight c))"
  by (auto simp: cpu_wf_def core_ok_def halt_request_pending_iff)

named_theorems core_ok_frame \<open>changes that keep core_ok\<close>

lemma flags_wf_record_update [core_ok_frame]:
  "flags_wf (c\<lparr>cpu_state := s\<rparr>) = flags_wf c"
  "flags_wf (c\<lparr>cpu_in_flight := i\<rparr>) = flags_wf c"
  "flags_wf (c\<lparr>cpu_ime := m\<rparr>) = flags_wf c"
  "flags_wf (c\<lparr>cpu_halt := h\<rparr>) = flags_wf c"
  "flags_wf (c\<lparr>cpu_last_bus_activity := a\<rparr>) = flags_wf c"
  "flags_wf (c\<lparr>cpu_last_address_event := e\<rparr>) = flags_wf c"
  "flags_wf (c\<lparr>cpu_stop_div_reset_requested := b\<rparr>) = flags_wf c"
  "flags_wf (c\<lparr>cpu_cgb_speed_switch_requested := b\<rparr>) = flags_wf c"
  by (simp_all add: flags_wf_def get_f_def)

lemma core_ok_regs:
  assumes "cpu_ime c' = cpu_ime c" and "cpu_in_flight c' = cpu_in_flight c"
    and "cpu_halt c' = cpu_halt c" and "flags_wf c \<Longrightarrow> flags_wf c'" and "core_ok st c"
  shows "core_ok st c'"
  using assms by (simp add: core_ok_def)

lemma core_ok_simps [core_ok_frame]:
  "core_ok st (c\<lparr>cpu_state := s\<rparr>) = core_ok st c"
  "core_ok st (record_bus_activity kind a v c) = core_ok st c"
  "core_ok st (record_address_event e c) = core_ok st c"
  "core_ok st (set_pc p c) = core_ok st c"
  "core_ok st (set_sp p c) = core_ok st c"
  "core_ok st (set_a v c) = core_ok st c"
  "core_ok st (set_operand8 v c) = core_ok st c"
  "core_ok st (set_operand16 p c) = core_ok st c"
  "core_ok st (or_high_latch v c) = core_ok st c"
  "core_ok st (request_stop_div_reset c) = core_ok st c"
  "core_ok st (request_cgb_speed_switch c) = core_ok st c"
  "core_ok st (clear_activity c) = core_ok st c"
  by (simp_all add: core_ok_def flags_wf_def get_f_def record_bus_activity_def
      record_address_event_def set_pc_def set_sp_def set_a_def set_operand8_def set_operand16_def
      or_high_latch_def static_of_def request_stop_div_reset_def request_cgb_speed_switch_def
      clear_activity_def)

lemma core_ok_write_register8 [core_ok_frame]: "core_ok st (write_register8 r v c) = core_ok st c"
  by (cases r) (simp_all add: core_ok_def flags_wf_def get_f_def)

lemma core_ok_write_register16 [core_ok_frame]: "core_ok st (write_register16 r v c) = core_ok st c"
  by (cases r) (simp_all add: core_ok_def flags_wf_def get_f_def)

lemma and_0xF0_low: "(x AND 0xF0) AND 0x0F = (0::u8)"
  by (simp add: and.assoc)

lemma core_ok_write_stack_register16 [core_ok_frame]:
  "core_ok st c \<Longrightarrow> core_ok st (write_stack_register16 r v c)"
  by (cases r) (simp_all add: core_ok_def flags_wf_def get_f_def and_0xF0_low)

lemma core_ok_incdec [core_ok_frame]:
  "core_ok st (snd (increment_or_decrement_register16 r d c)) = core_ok st c"
  "core_ok st (increment_or_decrement_register_pair r d c) = core_ok st c"
  by (simp_all add: increment_or_decrement_register16_def increment_or_decrement_register_pair_def
      Let_def core_ok_frame)

lemma core_ok_halt_bug [core_ok_frame]:
  "core_ok st (snd (consume_halt_bug_pending c)) = core_ok st c"
  by (simp add: consume_halt_bug_pending_def core_ok_def flags_wf_def get_f_def)

lemma core_ok_stack_push [core_ok_frame]:
  "core_ok st (decrement_sp_and_record_idu_event c) = core_ok st c"
  "core_ok st (prepare_pc_stack_push c) = core_ok st c"
  by (simp_all add: decrement_sp_and_record_idu_event_def prepare_pc_stack_push_def Let_def
      core_ok_frame)

lemma write_flags_frame [core_ok_frame]:
  "cpu_ime (write_flags z n h cy c) = cpu_ime c"
  "cpu_in_flight (write_flags z n h cy c) = cpu_in_flight c"
  "cpu_halt (write_flags z n h cy c) = cpu_halt c"
  "cpu_ime (set_a v c) = cpu_ime c"
  "cpu_in_flight (set_a v c) = cpu_in_flight c"
  "cpu_halt (set_a v c) = cpu_halt c"
  "cpu_halt (set_f v c) = cpu_halt c"
  "cpu_halt (write_register16 r w c) = cpu_halt c"
  "cpu_ime (set_f v c) = cpu_ime c"
  "cpu_in_flight (set_f v c) = cpu_in_flight c"
  "cpu_ime (write_register16 r w c) = cpu_ime c"
  "cpu_in_flight (write_register16 r w c) = cpu_in_flight c"
  by (simp_all add: write_flags_def set_f_def set_a_def) (cases r; simp)+

lemma core_ok_write_flags [core_ok_frame]:
  "core_ok st c \<Longrightarrow> core_ok st (write_flags z n h cy c)"
  by (simp add: core_ok_def core_ok_frame)

lemma core_ok_alu [core_ok_frame]:
  "core_ok st c \<Longrightarrow> core_ok st (apply_alu_operation op v c)"
  by (cases op) (simp_all add: alu_definitions(4-11) core_ok_frame Let_def flip: write_flags_def)

lemma core_ok_update_flags [core_ok_frame]:
  "core_ok st c \<Longrightarrow> core_ok st (update_inc_flags b r c)"
  "core_ok st c \<Longrightarrow> core_ok st (update_dec_flags b r c)"
  "core_ok st c \<Longrightarrow> core_ok st (bit_test n v c)"
  using flags_wf_inc_dec
  by (simp_all add: core_ok_def update_inc_flags_def update_dec_flags_def bit_test_def Let_def core_ok_frame)

lemma core_ok_add_hl [core_ok_frame]:
  "core_ok st c \<Longrightarrow> core_ok st (add_to_hl v c)"
  "core_ok st c \<Longrightarrow> core_ok st (snd (sp_plus_signed_immediate b c))"
  by (simp_all add: add_to_hl_def sp_plus_signed_immediate_def Let_def core_ok_frame
      del: write_register16.simps)

lemma core_ok_cb [core_ok_frame]:
  "core_ok st c \<Longrightarrow> core_ok st (snd (apply_cb_operation k v c))"
  by (cases k)
    (simp_all add: core_ok_frame rotate_left_carry_def rotate_right_carry_def
      rotate_left_through_carry_def rotate_right_through_carry_def shift_left_arithmetic_def
      shift_right_arithmetic_def swap_nibbles_def shift_right_logical_def Let_def)

subsection \<open>Ends of machine cycles\<close>

lemma advance_delayed_ime_wf: "ime_wf (cpu_ime c) \<Longrightarrow> ime_wf (cpu_ime (advance_delayed_ime_enable c))"
  by (auto simp: advance_delayed_ime_enable_def set_ime_enabled_def split: ime_state.splits)

lemma advance_delayed_frame [core_ok_frame]:
  "cpu_in_flight (advance_delayed_ime_enable c) = cpu_in_flight c"
  "cpu_regs (advance_delayed_ime_enable c) = cpu_regs c"
  "cpu_halt (advance_delayed_ime_enable c) = cpu_halt c"
  by (simp_all add: advance_delayed_ime_enable_def set_ime_enabled_def split: ime_state.split)

lemma static_of_clear [simp]: "static_of (in_flight_clear i) = (None, None, None, None)"
  by (simp add: static_of_def in_flight_clear_def clear_decoded_state_def)

lemma core_ok_set_ime [core_ok_frame]:
  "core_ok st c \<Longrightarrow> core_ok st (set_ime_enabled c)"
  "core_ok st c \<Longrightarrow> core_ok st (set_ime_disabled c)"
  "core_ok st c \<Longrightarrow> core_ok st (cancel_delayed_ime_enable c)"
  "core_ok st c \<Longrightarrow> core_ok st (schedule_delayed_ime_enable c)"
  by (simp_all add: core_ok_def core_ok_frame set_ime_enabled_def set_ime_disabled_def
      cancel_delayed_ime_enable_def schedule_delayed_ime_enable_def)

lemma core_ok_jump [core_ok_frame]:
  "core_ok st (commit_relative_jump c) = core_ok st c"
  "core_ok st (commit_latched_jump c) = core_ok st c"
  by (simp_all add: commit_relative_jump_def commit_latched_jump_def core_ok_frame)

lemma cleared_and_advanced:
  assumes "core_ok st c"
    and "c' = advance_delayed_ime_enable (clear_in_flight_instruction_state c)"
  shows "core_ok (None, None, None, None) c'"
  using assms advance_delayed_ime_wf [of "clear_in_flight_instruction_state c"]
  by (simp add: core_ok_def core_ok_frame clear_in_flight_instruction_state_def flags_wf_def get_f_def)

lemma fetch_state_wf [simp]: "state_wf fetch_opcode st = (st = (None, None, None, None))"
  by (simp add: state_wf_def fetch_opcode_def)

lemma fetch_is_fetch [simp]: "\<exists>t. fetch_opcode = FetchOpcode t"
  by (simp add: fetch_opcode_def)

lemma finish_wf:
  assumes "core_ok st c"
  shows "cpu_wf (finish_instruction c)" "cpu_wf (enter_stopped_state c)"
    "cpu_wf (enter_zombie_stopped_state c)" "cpu_wf (enter_speed_switch_pause_state c)"
  using cleared_and_advanced [OF assms refl]
  by (auto simp: finish_instruction_def enter_stopped_state_def enter_zombie_stopped_state_def
      enter_speed_switch_pause_state_def cpu_wf_def core_ok_def core_ok_frame state_wf_def
      halt_request_pending_iff CGB_SPEED_SWITCH_PAUSE_T_CYCLES_def fetch_opcode_def)

lemma finish_and_request_halt_wf:
  assumes "core_ok st c"
  shows "cpu_wf (finish_and_request_halt c)"
  using cleared_and_advanced [OF assms refl]
  by (auto simp: finish_and_request_halt_def cpu_wf_def core_ok_def core_ok_frame Let_def
      request_halt_after_current_instruction_def)

lemma finish_interrupt_service_wf: "core_ok st c \<Longrightarrow> cpu_wf (finish_interrupt_service c)"
  by (auto simp: finish_interrupt_service_def clear_in_flight_instruction_state_def cpu_wf_def
      core_ok_def core_ok_frame halt_request_pending_iff)

lemma cpu_state_after [simp]:
  "cpu_state (finish_instruction c) = fetch_opcode"
  "cpu_state (enter_stopped_state c) = Stopped"
  "cpu_state (enter_zombie_stopped_state c) = ZombieStopped"
  "cpu_state (enter_speed_switch_pause_state c) = SpeedSwitchPause CGB_SPEED_SWITCH_PAUSE_T_CYCLES"
  "cpu_state (finish_and_request_halt c) = fetch_opcode"
  "cpu_state (finish_interrupt_service c) = fetch_opcode"
  "cpu_state (advance_instruction op s c) = ExecuteStep s 0"
  by (simp_all add: finish_instruction_def enter_stopped_state_def enter_zombie_stopped_state_def
      enter_speed_switch_pause_state_def finish_and_request_halt_def finish_interrupt_service_def
      advance_instruction_def Let_def split: cpu_execution_state.split)

lemma core_ok_advance [core_ok_frame]:
  "core_ok st (advance_instruction op s c) = core_ok st c"
  by (simp add: advance_instruction_def core_ok_frame split: cpu_execution_state.split)

lemma core_ok_set_cb_kind [core_ok_frame]:
  "core_ok (op, k, g, cb) c \<Longrightarrow> core_ok (op, k, g, Some i) (set_cb_kind i c)"
  by (simp add: core_ok_def set_cb_kind_def static_of_def core_ok_frame)

lemma cpu_wf_core: "core_ok st c \<Longrightarrow> cpu_wf c \<longleftrightarrow> state_wf (cpu_state c) st"
  by (auto simp: cpu_wf_def core_ok_def halt_request_pending_iff)

text \<open>Between instructions: about to fetch, pausing, asleep, or trapped.\<close>

definition at_boundary :: "cpu_core \<Rightarrow> bool" where
  "at_boundary c =
     (case cpu_state c of
        FetchOpcode t \<Rightarrow> t = 0
      | ExecuteStep _ _ \<Rightarrow> False
      | ServiceInterrupt _ _ _ \<Rightarrow> False
      | ServiceStopWakeBuggedInterrupt _ _ \<Rightarrow> False
      | _ \<Rightarrow> True)"

lemma at_boundary_fetch [simp]: "cpu_state c = fetch_opcode \<Longrightarrow> at_boundary c"
  by (simp add: at_boundary_def fetch_opcode_def)

text \<open>
  After a machine cycle at \<open>step\<close> the core is well formed and either is between instructions or
  goes on with the next step of the same instruction.
\<close>

definition cycle_post :: "cpu_instruction_kind \<Rightarrow> u8 \<Rightarrow> cpu_core \<Rightarrow> bool" where
  "cycle_post k step c =
     (cpu_wf c
      \<and> (at_boundary c
          \<or> (cpu_state c = ExecuteStep (step + 1) 0 \<and> ifl_kind (cpu_in_flight c) = Some k)))"

lemma cycle_post_done:
  assumes "core_ok st c"
  shows "cycle_post k step (finish_instruction c)" "cycle_post k step (enter_stopped_state c)"
    "cycle_post k step (enter_zombie_stopped_state c)"
    "cycle_post k step (enter_speed_switch_pause_state c)"
    "cycle_post k step (finish_and_request_halt c)"
  using finish_wf [OF assms] finish_and_request_halt_wf [OF assms]
  by (simp_all add: cycle_post_def at_boundary_def fetch_opcode_def)

lemma cycle_post_advance:
  assumes "core_ok (Some op, Some k, Some (execution_group k), cb) c"
    and "executing s (Some op, Some k, Some (execution_group k), cb)" and "s = step + 1"
  shows "cycle_post k step (advance_instruction op' s c)"
proof -
  have "core_ok (Some op, Some k, Some (execution_group k), cb) (advance_instruction op' s c)"
    using assms(1) by (simp add: core_ok_frame)
  then have "cpu_wf (advance_instruction op' s c)"
    "ifl_kind (cpu_in_flight (advance_instruction op' s c)) = Some k"
    using assms(2) by (auto simp: cpu_wf_def core_ok_def state_wf_def static_of_def halt_request_pending_iff)
  then show ?thesis using assms(3) by (simp add: cycle_post_def)
qed

lemma u8_le_4: "(s::u8) \<le> 4 \<Longrightarrow> s = 0 \<or> s = 1 \<or> s = 2 \<or> s = 3 \<or> s = 4"
proof -
  assume "s \<le> 4"
  then have "unat s \<le> 4" by (simp add: word_le_nat_alt)
  then have "unat s = 0 \<or> unat s = 1 \<or> unat s = 2 \<or> unat s = 3 \<or> unat s = 4" by arith
  then show ?thesis by (auto simp: word_unat_eq_iff)
qed

lemma last_step_le: "last_step k \<le> 4"
  by (cases k) (simp_all add: word_le_nat_alt)

subsection \<open>Machine cycles under a port\<close>

named_theorems port_rules \<open>weakest-precondition rules of the bus primitives\<close>
named_theorems port_questions \<open>weakest-precondition rules of the questions to the machine\<close>

declare write_register8.simps [simp del] write_register16.simps [simp del]
  write_stack_register16.simps [simp del]

lemmas cycle_post_rules = cycle_post_done cycle_post_advance core_ok_frame executing_def

text \<open>
  A predicate on the core that none of the changes made around a bus access affects.
\<close>

definition bus_stable :: "(cpu_core \<Rightarrow> bool) \<Rightarrow> bool" where
  "bus_stable P =
     (\<forall>c. P c \<longrightarrow>
        (\<forall>k a v. P (record_bus_activity k a v c)) \<and> (\<forall>e. P (record_address_event e c))
        \<and> (\<forall>p. P (set_pc p c)) \<and> (\<forall>p. P (set_sp p c)) \<and> P (snd (consume_halt_bug_pending c))
        \<and> (\<forall>d. P (snd (increment_or_decrement_register16 PairHL d c))))"

lemma bus_stableD:
  assumes "bus_stable P" and "P c"
  shows "P (record_bus_activity k a v c)" "P (record_address_event e c)" "P (set_pc p c)"
    "P (set_sp p c)" "P (snd (consume_halt_bug_pending c))"
    "P (snd (increment_or_decrement_register16 PairHL d c))"
  using assms by (simp_all add: bus_stable_def)

lemma core_ok_stable: "bus_stable (core_ok st)"
  by (simp add: bus_stable_def core_ok_frame)

context cpu_port
begin

lemma wp_read_pc_u8_with_kind [port_rules]:
  assumes st: "bus_stable P" and "P c" and "inv w" and "\<And>v c' w'. P c' \<Longrightarrow> inv w' \<Longrightarrow> Q v (c', w')"
  shows "wp (read_pc_u8_with_kind ext kind) Q (c, w)"
  unfolding read_pc_u8_with_kind_def
  using assms by (auto simp: wp_simps bus_stableD [OF st] Let_def intro!: wp_read_byte_with_kind)

lemma wp_read_byte [port_rules]:
  assumes st: "bus_stable P" and "P c" and "inv w" and "\<And>v c' w'. P c' \<Longrightarrow> inv w' \<Longrightarrow> Q v (c', w')"
  shows "wp (read_byte ext a) Q (c, w)"
  unfolding read_byte_def
  using assms by (auto simp: wp_simps bus_stableD [OF st] intro!: wp_read_byte_with_kind)

lemma wp_write_byte_without_address_event [port_rules]:
  assumes st: "bus_stable P" and "P c" and "inv w" and "\<And>c' w'. P c' \<Longrightarrow> inv w' \<Longrightarrow> Q () (c', w')"
  shows "wp (write_byte_without_address_event ext a v) Q (c, w)"
  unfolding write_byte_without_address_event_def
  using assms by (auto simp: wp_simps bus_stableD [OF st] intro!: wp_port_call)

lemma wp_write_byte [port_rules]:
  assumes st: "bus_stable P" and "P c" and "inv w" and "\<And>c' w'. P c' \<Longrightarrow> inv w' \<Longrightarrow> Q () (c', w')"
  shows "wp (write_byte ext a v) Q (c, w)"
  unfolding write_byte_def
  using assms
  by (auto simp: wp_simps bus_stableD [OF st] intro!: wp_write_byte_without_address_event [OF assms(1-3)])

lemma wp_read_hl_with_update [port_rules]:
  assumes st: "bus_stable P" and "P c" and "inv w" and "\<And>v c' w'. P c' \<Longrightarrow> inv w' \<Longrightarrow> Q v (c', w')"
  shows "wp (read_hl_with_update ext d) Q (c, w)"
  unfolding read_hl_with_update_def
  using assms by (auto simp: wp_simps bus_stableD [OF st] intro!: wp_read_byte_with_kind)

lemma wp_write_hl_with_update [port_rules]:
  assumes st: "bus_stable P" and "P c" and "inv w" and "\<And>c' w'. P c' \<Longrightarrow> inv w' \<Longrightarrow> Q () (c', w')"
  shows "wp (write_hl_with_update ext v d) Q (c, w)"
  unfolding write_hl_with_update_def
  using assms
  by (auto simp: wp_simps bus_stableD [OF st] intro!: wp_write_byte_without_address_event [OF assms(1-3)])

lemma wp_read_byte_and_increment_sp [port_rules]:
  assumes st: "bus_stable P" and "P c" and "inv w" and "\<And>v c' w'. P c' \<Longrightarrow> inv w' \<Longrightarrow> Q v (c', w')"
  shows "wp (read_byte_and_increment_sp ext) Q (c, w)"
  unfolding read_byte_and_increment_sp_def
  using assms by (auto simp: wp_simps bus_stableD [OF st] Let_def intro!: wp_read_byte_with_kind)

lemma wp_write_byte_at_sp [port_rules]:
  assumes st: "bus_stable P" and "P c" and "inv w" and "\<And>c' w'. P c' \<Longrightarrow> inv w' \<Longrightarrow> Q () (c', w')"
  shows "wp (write_byte_at_sp ext v) Q (c, w)"
  unfolding write_byte_at_sp_def
  using assms by (auto simp: wp_simps intro!: wp_write_byte [OF st])

lemma wp_write_byte_with_decremented_sp [port_rules]:
  assumes st: "bus_stable P" and "P c" and "inv w" and "\<And>c' w'. P c' \<Longrightarrow> inv w' \<Longrightarrow> Q () (c', w')"
  shows "wp (write_byte_with_decremented_sp ext v) Q (c, w)"
  unfolding write_byte_with_decremented_sp_def
  using assms
  by (auto simp: wp_simps bus_stableD [OF st] intro!: wp_write_byte_without_address_event [OF st])

lemmas core_port_rules = port_rules [OF core_ok_stable]

lemmas port_composite_defs =
  read_pc_u8_def read_opcode_u8_def read_pc_to_operand8_def read_pc_to_operand16_def
  read_pc_to_high_latch_def read_latched_stack_low_byte_def read_latched_stack_high_byte_def
  push_pc_high_at_sp_def push_latched_u16_high_at_sp_def push_latched_low_with_decremented_sp_def
  finish_def advance_to_def

lemma wp_question [port_questions]:
  assumes "inv w" and "\<And>r w'. inv w' \<Longrightarrow> Q r (c, w')"
  shows "wp (current_pending_interrupt_mask ext) Q (c, w)"
    and "wp (current_interrupt_enable_mask ext) Q (c, w)"
  using assms
  by (auto simp: current_pending_interrupt_mask_def current_interrupt_enable_mask_def wp_simps
      intro!: wp_port_call)

lemma wp_bool_question [port_questions]:
  assumes "inv w" and "\<And>r w'. inv w' \<Longrightarrow> Q r (c, w')"
  shows "wp (cpu_stop_wake_line_asserted ext) Q (c, w)"
    and "wp (cgb_speed_switch_prepared ext) Q (c, w)"
  using assms
  by (auto simp: cpu_stop_wake_line_asserted_def cgb_speed_switch_prepared_def wp_simps
      intro!: wp_port_call)

lemma wp_highest_pending_question [port_questions]:
  assumes "inv w" and "\<And>r w'. inv w' \<Longrightarrow> Q r (c, w')"
  shows "wp (current_highest_pending_interrupt ext) Q (c, w)"
  unfolding current_highest_pending_interrupt_def
  using assms by (auto simp: wp_simps intro!: wp_question)

lemma wp_interrupt_command [port_questions]:
  assumes "inv w" and "\<And>w'. inv w' \<Longrightarrow> Q () (c, w')"
  shows "wp (cpu_request_interrupt ext src) Q (c, w)"
    and "wp (cpu_acknowledge_interrupt ext src) Q (c, w)"
  using assms
  by (auto simp: cpu_request_interrupt_def cpu_acknowledge_interrupt_def wp_simps
      intro!: wp_port_call)

lemmas machine_cycle_simps = wp_simps port_composite_defs word_le_nat_alt Let_def
  execute_load_machine_cycle_def execute_arithmetic_machine_cycle_def
  execute_control_flow_machine_cycle_def execute_stack_machine_cycle_def
  immediate16_address_phase_from_step_def high_immediate_address_phase_from_step_def
  relative_jump_phase_from_step_def absolute_jump_phase_from_step_def stop_phase_from_step_def

text \<open>STOP leaves the execute state on every path.\<close>

lemma wp_execute_stop_entry:
  assumes "core_ok st c" and "inv w"
  shows "wp (execute_stop_entry ext) (\<lambda>_ s. cycle_post k step (fst s) \<and> inv (snd s)) (c, w)"
  unfolding execute_stop_entry_def
  using assms
  by (auto simp: wp_simps port_composite_defs core_ok_frame split: stop_entry_resolution.split
      intro!: port_questions wp_read_pc_u8_with_kind [OF core_ok_stable [of st]]
        cycle_post_done [where st = st])

text \<open>One machine cycle of every instruction but the CB-prefixed ones.\<close>

lemma execute_cycle_ok:
  assumes core: "core_ok (Some op, Some k, Some (execution_group k), cb) c" and inv: "inv w"
    and step: "step \<le> last_step k" and cb: "k \<noteq> CbPrefixed"
  shows "wp (complete_execute_machine_cycle ext step)
    (\<lambda>_ s. cycle_post k step (fst s) \<and> inv (snd s)) (c, w)"
proof -
  let ?st = "(Some op, Some k, Some (execution_group k), cb)"
  have descriptor: "execution_descriptor (cpu_in_flight c) = Some (k, execution_group k)"
    using core by (simp add: core_ok_def static_of_def execution_descriptor_def)
  have "step = 0 \<or> step = 1 \<or> step = 2 \<or> step = 3 \<or> step = 4"
    using order_trans [OF step last_step_le] by (rule u8_le_4)
  with core inv step cb show ?thesis
    unfolding complete_execute_machine_cycle_def
    apply (simp add: wp_simps descriptor)
    apply (cases k; elim disjE)
    apply (simp_all add: execution_group_def machine_cycle_simps)
    apply ((rule core_port_rules [where st = ?st],
          simp add: core_ok_frame execution_group_def, assumption)?;
        simp add: wp_simps finish_def advance_to_def execution_group_def cycle_post_advance core_ok_frame executing_def
          cycle_post_done [where st = ?st] wp_execute_stop_entry [where st = ?st])+
    done
qed

text \<open>The CB-prefixed instructions.\<close>

lemma cb_result: "fst (apply_cb_operation i v c) = Some r \<Longrightarrow> \<not> is_bit_test i"
  by (cases i) (simp_all add: is_bit_test_def split_beta)

lemma cb_cycle_ok:
  assumes core: "core_ok st c" and inv: "inv w" and exec: "executing step st"
    and st: "st = (Some op, Some CbPrefixed, Some CbPrefixedGroup, cb)"
  shows "wp (complete_execute_machine_cycle ext step)
    (\<lambda>_ s. cycle_post CbPrefixed step (fst s) \<and> inv (snd s)) (c, w)"
proof -
  have descriptor: "execution_descriptor (cpu_in_flight c) = Some (CbPrefixed, CbPrefixedGroup)"
    and latched: "ifl_cb_kind (cpu_in_flight c) = cb"
    using core st by (simp_all add: core_ok_def static_of_def execution_descriptor_def)
  have "step \<le> last_step CbPrefixed" using exec st by (simp add: executing_def)
  then have "step = 0 \<or> step = 1 \<or> step = 2"
    using u8_le_4 [of step] by (auto simp: word_le_nat_alt)
  then consider "step = 0" | "step = 1" | "step = 2" by blast
  then show ?thesis
  proof cases
    case 1
    with core inv st show ?thesis
      unfolding complete_execute_machine_cycle_def
      apply (simp add: wp_simps descriptor execute_cb_prefixed_machine_cycle_def read_pc_u8_def)
      apply (rule wp_read_pc_u8_with_kind [OF core_ok_stable], assumption, assumption)
      apply (auto simp: wp_simps cb_decode_eq_map finish_def advance_to_def core_ok_frame executing_def
          execution_group_def word_le_nat_alt cycle_post_done [where st = st]
          split: register8_operand.split option.split
          intro!: cycle_post_advance [where op = op] core_ok_set_cb_kind [where cb = cb])
      done
  next
    case 2
    with exec st obtain i where i: "cb = Some i" "cb_target i = IndirectHl"
      by (auto simp: executing_def)
    with 2 core inv st show ?thesis
      unfolding complete_execute_machine_cycle_def
      apply (simp add: wp_simps descriptor execute_cb_prefixed_machine_cycle_def latched)
      apply (rule wp_read_byte [OF core_ok_stable], assumption, assumption)
      apply (auto simp: wp_simps finish_def advance_to_def core_ok_frame executing_def
          execution_group_def word_le_nat_alt cycle_post_done [where st = st]
          split: option.split dest!: cb_result intro!: cycle_post_advance [where op = op and cb = cb])
      done
  next
    case 3
    with exec st obtain i where i: "cb = Some i" "cb_target i = IndirectHl" "\<not> is_bit_test i"
      by (auto simp: executing_def)
    with 3 core inv st show ?thesis
      unfolding complete_execute_machine_cycle_def
      by (auto simp: wp_simps descriptor execute_cb_prefixed_machine_cycle_def latched finish_def
          cycle_post_done [where st = st] intro!: wp_write_byte [OF core_ok_stable [of st]])
  qed
qed

lemma complete_execute_ok:
  assumes "cpu_wf c" and "inv w" and "cpu_state c = ExecuteStep step t"
    and "\<not> halt_request_pending c" and "ifl_kind (cpu_in_flight c) = Some k"
  shows "wp (complete_execute_machine_cycle ext step)
    (\<lambda>_ s. cycle_post k step (fst s) \<and> inv (snd s)) (c, w)"
proof -
  let ?st = "static_of (cpu_in_flight c)"
  have core: "core_ok ?st c" and exec: "executing step ?st"
    using assms(1,3,4) by (simp_all add: cpu_wf_core_ok state_wf_def)
  then obtain op cb where st: "?st = (Some op, Some k, Some (execution_group k), cb)"
    and step: "step \<le> last_step k"
    using assms(5) by (auto simp: executing_def static_of_def)
  show ?thesis
  proof (cases "k = CbPrefixed")
    case True
    then show ?thesis
      using cb_cycle_ok [OF core assms(2) exec, of op cb] st by (simp add: execution_group_def)
  next
    case False
    then show ?thesis
      using execute_cycle_ok [of op k cb c w step] core assms(2) step st by simp
  qed
qed

end

end
