(* ===== verification/Cpu_Progress.thy ===== *)
theory Cpu_Progress
  imports Cpu_Invariant
begin

text \<open>
  One T-cycle of the core under any port: the invariant is kept, nothing panics, and an
  instruction, an interrupt service sequence or a speed switch pause ends within a bounded
  number of T-cycles. The wake and interrupt evaluations keep the invariant too.
\<close>

subsection \<open>Progress\<close>

text \<open>T-cycles that suffice to come to rest.\<close>

definition cycles_left :: "cpu_core \<Rightarrow> nat" where
  "cycles_left c =
     (case cpu_state c of
        FetchOpcode t \<Rightarrow> 24 - unat t
      | ExecuteStep step t \<Rightarrow>
          (case ifl_kind (cpu_in_flight c) of
             Some k \<Rightarrow> 4 * (unat (last_step k) + 1 - unat step) - unat t
           | None \<Rightarrow> 0)
      | ServiceInterrupt _ step t \<Rightarrow> 20 - 4 * unat step - unat t
      | ServiceStopWakeBuggedInterrupt step t \<Rightarrow> 20 - 4 * unat step - unat t
      | _ \<Rightarrow> 0)"

definition tick_post :: "cpu_core \<Rightarrow> cpu_core \<Rightarrow> bool" where
  "tick_post c c' = 
     (cpu_wf c'
      \<and> (at_boundary c' \<or> (cycles_left c' < cycles_left c \<and> \<not> halt_request_pending c')))"

lemma executing_no_request:
  "cpu_wf c \<Longrightarrow> \<not> at_boundary c \<Longrightarrow> (\<And>t. cpu_state c \<noteq> FetchOpcode t)
   \<Longrightarrow> \<not> halt_request_pending c"
  by (auto simp: cpu_wf_def)

lemma unat_le_3: "(t::u8) \<le> 3 \<Longrightarrow> unat t \<le> 3"
  by (simp add: word_le_nat_alt)

lemma unat_last_step: "unat (last_step k) \<le> 4"
  using last_step_le [of k] by (simp add: word_le_nat_alt)

lemma next_t:
  assumes "(t::u8) \<le> 3" and "t < LAST_MACHINE_CYCLE_T"
  shows "t + 1 \<le> 3" and "unat (t + 1) = unat t + 1"
proof -
  have "unat t < 3" using assms(2) by (simp add: LAST_MACHINE_CYCLE_T_def word_less_nat_alt)
  then show "unat (t + 1) = unat t + 1" by (simp add: unat_word_ariths)
  with \<open>unat t < 3\<close> show "t + 1 \<le> 3" by (simp add: word_le_nat_alt)
qed

lemma last_t: "(t::u8) \<le> 3 \<Longrightarrow> \<not> t < LAST_MACHINE_CYCLE_T \<Longrightarrow> t = 3"
  by (simp add: LAST_MACHINE_CYCLE_T_def)

lemma cycles_left_positive:
  assumes "\<not> at_boundary c" and "cpu_wf c"
  shows "0 < cycles_left c"
  using assms
proof (cases "cpu_state c")
  case (ExecuteStep step t)
  with assms have t: "t \<le> 3" and "executing step (static_of (cpu_in_flight c))"
    by (simp_all add: cpu_wf_def state_wf_def)
  then obtain k where k: "ifl_kind (cpu_in_flight c) = Some k" "step \<le> last_step k"
    by (auto simp: executing_def static_of_def)
  then have "unat step \<le> unat (last_step k)" "unat t \<le> 3"
    using t by (simp_all add: word_le_nat_alt)
  with ExecuteStep k show ?thesis by (simp add: cycles_left_def)
qed (auto simp: at_boundary_def cycles_left_def cpu_wf_def state_wf_def word_le_nat_alt)

lemma cycles_left_le: "cycles_left c \<le> 24"
proof (cases "cpu_state c")
  case (ExecuteStep step t)
  have "4 * (unat (last_step k) + 1 - unat step) - unat t \<le> 24" for k
    using unat_last_step [of k] by linarith
  with ExecuteStep show ?thesis by (simp add: cycles_left_def split: option.split)
qed (simp_all add: cycles_left_def)

text \<open>The cycles within a machine cycle.\<close>

lemma tick_post_within:
  assumes "cpu_wf c" and "\<not> halt_request_pending c"
  shows "cpu_state c = FetchOpcode t \<Longrightarrow> t < LAST_MACHINE_CYCLE_T
           \<Longrightarrow> tick_post c (c\<lparr>cpu_state := FetchOpcode (t + 1)\<rparr>)"
    and "cpu_state c = ExecuteStep step t \<Longrightarrow> t < LAST_MACHINE_CYCLE_T
           \<Longrightarrow> tick_post c (c\<lparr>cpu_state := ExecuteStep step (t + 1)\<rparr>)"
    and "cpu_state c = ServiceInterrupt src step t \<Longrightarrow> t < LAST_MACHINE_CYCLE_T
           \<Longrightarrow> tick_post c (c\<lparr>cpu_state := ServiceInterrupt src step (t + 1)\<rparr>)"
    and "cpu_state c = ServiceStopWakeBuggedInterrupt step t \<Longrightarrow> t < LAST_MACHINE_CYCLE_T
           \<Longrightarrow> tick_post c (c\<lparr>cpu_state := ServiceStopWakeBuggedInterrupt step (t + 1)\<rparr>)"
  using assms next_t [of t] unat_le_3 [of t]
  by (auto simp: tick_post_def cpu_wf_def state_wf_def cycles_left_def core_ok_frame
      halt_request_pending_iff executing_def static_of_def word_le_nat_alt unat_last_step)

text \<open>The fetch machine cycle.\<close>

lemma core_ok_accumulator [core_ok_frame]:
  "core_ok st c \<Longrightarrow> core_ok st (decimal_adjust_a c)"
  "core_ok st c \<Longrightarrow> core_ok st (complement_a c)"
  "core_ok st c \<Longrightarrow> core_ok st (set_carry_flag c)"
  "core_ok st c \<Longrightarrow> core_ok st (complement_carry_flag c)"
  by (simp_all add: decimal_adjust_a_def complement_a_def set_carry_flag_def
      complement_carry_flag_def Let_def core_ok_frame)

lemma core_ok_rotates [core_ok_frame]:
  "core_ok st c \<Longrightarrow> core_ok st (snd (rotate_left_carry v c))"
  "core_ok st c \<Longrightarrow> core_ok st (snd (rotate_right_carry v c))"
  "core_ok st c \<Longrightarrow> core_ok st (snd (rotate_left_through_carry v c))"
  "core_ok st c \<Longrightarrow> core_ok st (snd (rotate_right_through_carry v c))"
  by (simp_all add: rotate_left_carry_def rotate_right_carry_def rotate_left_through_carry_def
      rotate_right_through_carry_def Let_def core_ok_frame)

lemma complete_fetch_completion_ok:
  assumes "core_ok st c"
  shows "cpu_wf (complete_fetch_completion kind c)"
    and "cpu_state (complete_fetch_completion kind c) = fetch_opcode"
  using assms
  by (cases kind; simp add: rotate_accumulator_def split_beta Let_def core_ok_frame
      finish_wf [where st = st] finish_and_request_halt_wf [where st = st])+

lemma begin_instruction_wf:
  "core_ok st c \<Longrightarrow> cpu_wf (begin_instruction opcode kind c)"
  by (auto simp: begin_instruction_def cpu_wf_def core_ok_def core_ok_frame state_wf_def
      executing_def static_of_def halt_request_pending_iff word_le_nat_alt)

lemma invalid_opcode_trap_wf: "core_ok st c \<Longrightarrow> cpu_wf (enter_invalid_opcode_trap opcode c)"
  by (auto simp: enter_invalid_opcode_trap_def clear_decoded_instruction_state_def Let_def
      cpu_wf_def core_ok_def core_ok_frame state_wf_def halt_request_pending_iff)

lemma core_ok_set_opcode [core_ok_frame]:
  "core_ok (op, k, g, cb) c \<Longrightarrow> core_ok (Some opcode, k, g, cb) (set_current_opcode opcode c)"
  by (simp add: core_ok_def set_current_opcode_def static_of_def core_ok_frame)

definition fetch_post :: "cpu_core \<Rightarrow> bool" where
  "fetch_post c =
     (cpu_wf c \<and> (at_boundary c \<or> (\<exists>k. cpu_state c = ExecuteStep 0 0 \<and> ifl_kind (cpu_in_flight c) = Some k)))"

lemma fetch_post_cases:
  assumes "core_ok st c"
  shows "fetch_post (finish_instruction c)"
    and "fetch_post (complete_fetch_completion kind c)"
    and "fetch_post (begin_instruction opcode k c)"
    and "fetch_post (enter_invalid_opcode_trap opcode c)"
  using assms complete_fetch_completion_ok [OF assms, of kind]
  by (simp_all add: fetch_post_def finish_wf begin_instruction_wf invalid_opcode_trap_wf)
    (auto simp: begin_instruction_def enter_invalid_opcode_trap_def at_boundary_def Let_def)

lemma tick_post_fetch:
  assumes "cpu_state c = FetchOpcode t" and "t \<le> 3" and "fetch_post c'"
  shows "tick_post c c'"
proof -
  have "unat t \<le> 3" by (rule unat_le_3 [OF assms(2)])
  moreover have "4 + 4 * unat (last_step k) < 24 - unat t" for k
    using unat_last_step [of k] \<open>unat t \<le> 3\<close> by linarith
  ultimately show ?thesis
    using assms(1,3) executing_no_request [of c']
    by (auto simp: tick_post_def fetch_post_def cycles_left_def)
qed

lemma tick_post_execute:
  assumes "cpu_state c = ExecuteStep step t" and "ifl_kind (cpu_in_flight c) = Some k"
    and "step \<le> last_step k" and "t \<le> 3" and "cycle_post k step c'"
  shows "tick_post c c'"
proof -
  have bounds: "unat step \<le> unat (last_step k)" "unat (last_step k) \<le> 4" "unat t \<le> 3"
    using assms(3,4) unat_last_step by (simp_all add: word_le_nat_alt)
  then have "unat (step + 1) = unat step + 1" by (simp add: unat_word_ariths)
  then show ?thesis
    using assms bounds executing_no_request [of c']
    by (auto simp: tick_post_def cycle_post_def cycles_left_def)
qed

text \<open>The interrupt service sequences.\<close>

definition service_post :: "u8 \<Rightarrow> cpu_core \<Rightarrow> bool" where
  "service_post step c =
     (cpu_wf c
      \<and> (at_boundary c
          \<or> (\<exists>src. cpu_state c = ServiceInterrupt src (step + 1) 0)
          \<or> cpu_state c = ServiceStopWakeBuggedInterrupt (step + 1) 0))"

lemma service_post_cases:
  assumes "core_ok (None, None, None, None) c"
  shows "service_post step (finish_interrupt_service c)"
    and "n = step + 1 \<Longrightarrow> n \<le> 4 \<Longrightarrow> service_post step (advance_interrupt_service src n c)"
    and "n = step + 1 \<Longrightarrow> n \<le> 4
           \<Longrightarrow> service_post step (advance_stop_wake_bugged_interrupt_service n c)"
  using assms finish_interrupt_service_wf [OF assms]
  by (auto simp: service_post_def advance_interrupt_service_def state_wf_def core_ok_def cpu_wf_def
      advance_stop_wake_bugged_interrupt_service_def core_ok_frame halt_request_pending_iff
      split: cpu_execution_state.split)

lemma tick_post_service:
  assumes "(\<exists>src. cpu_state c = ServiceInterrupt src step t)
             \<or> cpu_state c = ServiceStopWakeBuggedInterrupt step t"
    and "t \<le> 3" and "step \<le> 4" and "service_post step c'"
  shows "tick_post c c'"
proof -
  have bounds: "unat step \<le> 4" "unat t \<le> 3"
    using assms(2,3) by (simp_all add: word_le_nat_alt)
  then have next_step: "unat (step + 1) = unat step + 1" by (simp add: unat_word_ariths)
  have "20 - 4 * (unat step + 1) < 20 - 4 * unat step - unat t"
    using bounds by (simp add: less_diff_conv)
  then show ?thesis
    using assms(1,4) next_step executing_no_request [of c']
    by (auto simp: tick_post_def service_post_def cycles_left_def)
qed

text \<open>The pause of a speed switch, and what \<open>tick_t_cycle\<close> clears first.\<close>

lemma pause_wf:
  assumes "cpu_wf c" and "cpu_state c = SpeedSwitchPause n"
  shows "cpu_wf (advance_speed_switch_pause n c)" and "at_boundary (advance_speed_switch_pause n c)"
proof -
  have n: "1 \<le> n" "n \<le> CGB_SPEED_SWITCH_PAUSE_T_CYCLES"
    using assms by (simp_all add: cpu_wf_def state_wf_def)
  show "cpu_wf (advance_speed_switch_pause n c)"
  proof (cases "n \<le> 1")
    case True
    then show ?thesis
      using assms by (auto simp: advance_speed_switch_pause_def cpu_wf_def state_wf_def core_ok_frame
          halt_request_pending_iff fetch_opcode_def)
  next
    case False
    then have "1 \<le> n - 1" "n - 1 \<le> CGB_SPEED_SWITCH_PAUSE_T_CYCLES"
      using n by (simp_all add: word_le_nat_alt unat_sub)
    then show ?thesis
      using assms False by (auto simp: advance_speed_switch_pause_def cpu_wf_def state_wf_def
          core_ok_frame halt_request_pending_iff)
  qed
  show "at_boundary (advance_speed_switch_pause n c)"
    by (simp add: advance_speed_switch_pause_def at_boundary_def fetch_opcode_def)
qed

lemma clear_activity_frame:
  "cpu_state (clear_activity c) = cpu_state c"
  "cpu_in_flight (clear_activity c) = cpu_in_flight c"
  "cpu_halt (clear_activity c) = cpu_halt c"
  "cycles_left (clear_activity c) = cycles_left c"
  by (simp_all add: clear_activity_def)
    (cases "cpu_state c"; simp add: cycles_left_def)

lemma wp_cpu_res:
  "wp (cpu_res f) Q (c, w) \<longleftrightarrow> (case f c of Inl _ \<Rightarrow> False | Inr c' \<Rightarrow> Q () (c', w))"
  by (simp add: cpu_res_def wp_def split: sum.split)

context cpu_port
begin

lemma service_cycle_ok:
  assumes core: "core_ok (None, None, None, None) c" and inv: "inv w" and step: "step \<le> 4"
  shows "wp (complete_interrupt_service_machine_cycle ext src step)
    (\<lambda>_ s. service_post step (fst s) \<and> inv (snd s)) (c, w)"
  using u8_le_4 [OF step] core inv
  by (elim disjE)
    (auto simp: complete_interrupt_service_machine_cycle_def wp_simps port_composite_defs
      word_le_nat_alt core_ok_frame Let_def split: option.split
      intro!: service_post_cases port_questions wp_write_byte_at_sp [OF core_ok_stable [of "(None, None, None, None)"]]
        wp_write_byte_with_decremented_sp [OF core_ok_stable [of "(None, None, None, None)"]])

lemma stop_wake_service_cycle_ok:
  assumes core: "core_ok (None, None, None, None) c" and inv: "inv w" and step: "step \<le> 4"
  shows "wp (complete_stop_wake_bugged_interrupt_service_machine_cycle ext step)
    (\<lambda>_ s. service_post step (fst s) \<and> inv (snd s)) (c, w)"
  using u8_le_4 [OF step] core inv
  by (elim disjE)
    (auto simp: complete_stop_wake_bugged_interrupt_service_machine_cycle_def wp_simps
      port_composite_defs word_le_nat_alt core_ok_frame
      intro!: service_post_cases wp_write_byte_at_sp [OF core_ok_stable [of "(None, None, None, None)"]])

lemma fetch_cycle_ok:
  assumes core: "core_ok (None, None, None, None) c" and inv: "inv w"
  shows "wp (complete_fetch_opcode ext) (\<lambda>_ s. fetch_post (fst s) \<and> inv (snd s)) (c, w)"
  unfolding complete_fetch_opcode_def read_opcode_u8_def wp_bind
proof (rule wp_read_pc_u8_with_kind [OF core_ok_stable core inv])
  fix opcode c' w'
  assume "core_ok (None, None, None, None) c'" and "inv w'"
  then have core': "core_ok (Some opcode, None, None, None) (set_current_opcode opcode c')"
    by (simp add: core_ok_frame)
  show "wp (sm_then (cpu_modify (set_current_opcode opcode)) (dispatch_fetched_opcode ext opcode))
     (\<lambda>_ s. fetch_post (fst s) \<and> inv (snd s)) (c', w')"
    using \<open>inv w'\<close> core' fetch_post_cases [OF core']
      fetch_post_cases(1) [of _ "request_stop_div_reset (set_current_opcode opcode c')"]
    by (auto simp: dispatch_fetched_opcode_def wp_simps fast_path_eq_map stop_completes_on_fetch_machine_cycle_def core_ok_frame
        split: decoded_opcode.split intro!: port_questions)
qed

lemma dispatch_ok:
  assumes wf: "cpu_wf c" and req: "\<not> halt_request_pending c" and inv: "inv w"
  shows "wp (dispatch_execution_state ext (cpu_state c)) (\<lambda>_ s. tick_post c (fst s) \<and> inv (snd s)) (c, w)"
proof -
  have core: "core_ok (static_of (cpu_in_flight c)) c"
    and st: "state_wf (cpu_state c) (static_of (cpu_in_flight c))"
    using wf req by (simp_all add: cpu_wf_core_ok)
  note within = tick_post_within [OF wf req]
  show ?thesis
  proof (cases "cpu_state c")
    case (FetchOpcode t)
    then have t: "t \<le> 3" and core0: "core_ok (None, None, None, None) c"
      using st core by (simp_all add: state_wf_def)
    show ?thesis
      using within(1) [OF FetchOpcode] inv FetchOpcode
        wp_mono [OF fetch_cycle_ok [OF core0 inv]] tick_post_fetch [OF FetchOpcode t]
      by (simp add: dispatch_execution_state_def wp_cpu_res advance_fetch_t_cycle_def)
  next
    case (ExecuteStep step t)
    then have t: "t \<le> 3" and exec: "executing step (static_of (cpu_in_flight c))"
      using st by (simp_all add: state_wf_def)
    then obtain k where k: "ifl_kind (cpu_in_flight c) = Some k" "step \<le> last_step k"
      by (auto simp: executing_def static_of_def)
    show ?thesis
      using within(2) [OF ExecuteStep] inv ExecuteStep tick_post_execute [OF ExecuteStep k t]
        wp_mono [OF complete_execute_ok [OF wf inv ExecuteStep req k(1)]]
      by (simp add: dispatch_execution_state_def wp_cpu_res advance_execute_t_cycle_def)
  next
    case (ServiceInterrupt src step t)
    then have t: "t \<le> 3" "step \<le> 4" and core0: "core_ok (None, None, None, None) c"
      using st core by (simp_all add: state_wf_def)
    show ?thesis
      using within(3) [OF ServiceInterrupt] inv ServiceInterrupt tick_post_service [OF _ t]
        wp_mono [OF service_cycle_ok [OF core0 inv t(2)]]
      by (simp add: dispatch_execution_state_def wp_cpu_res advance_service_interrupt_t_cycle_def)
  next
    case (ServiceStopWakeBuggedInterrupt step t)
    then have t: "t \<le> 3" "step \<le> 4" and core0: "core_ok (None, None, None, None) c"
      using st core by (simp_all add: state_wf_def)
    show ?thesis
      using within(4) [OF ServiceStopWakeBuggedInterrupt] inv ServiceStopWakeBuggedInterrupt
        tick_post_service [OF _ t] wp_mono [OF stop_wake_service_cycle_ok [OF core0 inv t(2)]]
      by (simp add: dispatch_execution_state_def wp_cpu_res
          advance_stop_wake_bugged_interrupt_t_cycle_def)
  next
    case (SpeedSwitchPause n)
    then show ?thesis
      using wf req inv pause_wf [OF wf SpeedSwitchPause]
      by (simp add: dispatch_execution_state_def wp_simps tick_post_def)
  qed (use wf inv in \<open>simp_all add: dispatch_execution_state_def wp_simps tick_post_def at_boundary_def\<close>)
qed

lemma tick_ok:
  assumes wf: "cpu_wf c" and req: "\<not> halt_request_pending c" and inv: "inv w"
  shows "wp (cpu_tick_t_cycle ext) (\<lambda>_ s. tick_post c (fst s) \<and> inv (snd s)) (c, w)"
proof -
  have "cpu_wf (clear_activity c)" "\<not> halt_request_pending (clear_activity c)"
    using wf req core_ok_simps(12)
    by (simp_all add: cpu_wf_core_ok halt_request_pending_iff clear_activity_frame)
  from dispatch_ok [OF this inv] show ?thesis
    by (simp add: cpu_tick_t_cycle_def wp_simps clear_activity_frame tick_post_def)
qed

end

subsection \<open>Runs of the core\<close>

fun cpu_run :: "'w cpu_external \<Rightarrow> nat \<Rightarrow> ('w, unit) cpu_sm" where
  "cpu_run ext 0 = sm_return ()"
| "cpu_run ext (Suc n) = sm_then (cpu_tick_t_cycle ext) (cpu_run ext n)"

context cpu_port
begin

lemma tick_run:
  assumes "cpu_wf c" and "\<not> halt_request_pending c" and "inv w"
  obtains c' w' where "cpu_tick_t_cycle ext (c, w) = Inr ((), (c', w'))" and "tick_post c c'" and "inv w'"
  using tick_ok [OF assms] by (auto simp: wp_iff_run)

lemma run_to_boundary:
  assumes "cpu_wf c" and "\<not> halt_request_pending c" and "inv w"
  shows "\<exists>n c' w'. 0 < n \<and> n \<le> max 1 (cycles_left c)
           \<and> cpu_run ext n (c, w) = Inr ((), (c', w')) \<and> cpu_wf c' \<and> at_boundary c' \<and> inv w'"
  using assms
proof (induction "cycles_left c" arbitrary: c w rule: less_induct)
  case less
  obtain c1 w1 where tick: "cpu_tick_t_cycle ext (c, w) = Inr ((), (c1, w1))"
    and post: "tick_post c c1" and inv: "inv w1"
    using tick_run [OF less.prems] .
  show ?case
  proof (cases "at_boundary c1")
    case True
    with tick post inv have "cpu_run ext 1 (c, w) = Inr ((), (c1, w1)) \<and> cpu_wf c1"
      by (simp add: sm_defs tick_post_def)
    with True inv show ?thesis by (intro exI [of _ 1]) auto
  next
    case False
    with post have fewer: "cycles_left c1 < cycles_left c" "\<not> halt_request_pending c1" "cpu_wf c1"
      by (simp_all add: tick_post_def)
    then obtain n c' w' where n: "0 < n" "n \<le> max 1 (cycles_left c1)"
      and run: "cpu_run ext n (c1, w1) = Inr ((), (c', w'))" "cpu_wf c'" "at_boundary c'" "inv w'"
      using less.hyps [OF fewer(1) fewer(3,2) inv] by auto
    have "0 < cycles_left c1"
      using False fewer(3) by (rule cycles_left_positive)
    then have "Suc n \<le> max 1 (cycles_left c)" using n fewer(1) by simp
    moreover have "cpu_run ext (Suc n) (c, w) = Inr ((), (c', w'))"
      using tick run by (simp add: sm_defs)
    ultimately show ?thesis using run by blast
  qed
qed

end

subsection \<open>Wake and interrupt evaluation\<close>

lemma begin_service_wf:
  assumes "flags_wf c" and "no_request (cpu_halt c)"
  shows "cpu_wf (begin_interrupt_service src c)" "cpu_wf (begin_stop_wake_bugged_interrupt_service c)"
  using assms
  by (simp_all add: begin_interrupt_service_def begin_stop_wake_bugged_interrupt_service_def
      cpu_wf_def state_wf_def core_ok_frame halt_request_pending_iff set_ime_disabled_def
      cancel_delayed_ime_enable_def clear_in_flight_instruction_state_def)

lemma begin_service_no_request:
  "cpu_halt (begin_interrupt_service src c) = cpu_halt c"
  "cpu_halt (begin_stop_wake_bugged_interrupt_service c) = cpu_halt c"
  by (simp_all add: begin_interrupt_service_def begin_stop_wake_bugged_interrupt_service_def
      halt_request_pending_iff set_ime_disabled_def cancel_delayed_ime_enable_def
      clear_in_flight_instruction_state_def)

text \<open>The core is ready for the next T-cycle: well formed, with no HALT request outstanding.\<close>

definition cpu_ready :: "cpu_core \<Rightarrow> bool" where
  "cpu_ready c = (cpu_wf c \<and> \<not> halt_request_pending c)"

lemma cpu_ready_begin:
  assumes "flags_wf c" and "no_request (cpu_halt c)"
  shows "cpu_ready (begin_interrupt_service src c)"
    "cpu_ready (begin_stop_wake_bugged_interrupt_service c)"
  using assms by (simp_all add: cpu_ready_def begin_service_wf begin_service_no_request
      halt_request_pending_iff)

lemma cpu_ready_accept:
  assumes "cpu_ready c"
  shows "cpu_ready (fst (accept_pending_interrupt (c, ints)))"
  using assms
  by (auto simp: accept_pending_interrupt_def cpu_ready_def[of c] cpu_wf_def[of c]
      halt_request_pending_iff cpu_ready_begin split: option.split)

lemma cpu_ready_set_pc [simp]: "cpu_ready (set_pc p c) = cpu_ready c"
  by (simp add: cpu_ready_def cpu_wf_def halt_request_pending_iff set_pc_def flags_wf_def get_f_def)

lemma cpu_ready_state:
  assumes "cpu_ready c" and "static_of (cpu_in_flight c) = (None, None, None, None)"
  shows "cpu_ready (c\<lparr>cpu_state := fetch_opcode\<rparr>)" "cpu_ready (c\<lparr>cpu_state := Halted\<rparr>)"
    "cpu_ready ((arm_halt_bug c)\<lparr>cpu_state := fetch_opcode\<rparr>)"
  using assms
  by (simp_all add: cpu_ready_def cpu_wf_def core_ok_frame halt_request_pending_iff arm_halt_bug_def)
    (simp_all add: state_wf_def)

lemma take_halt_request_ready:
  assumes "cpu_wf c" and "take_halt_request c = (r, c1)"
  shows "cpu_ready c1" and "cpu_state c1 = cpu_state c"
    and "r \<noteq> None \<Longrightarrow> static_of (cpu_in_flight c1) = (None, None, None, None)"
  using assms
  by (cases "cpu_halt c";
      auto simp: take_halt_request_def cpu_ready_def cpu_wf_def core_ok_frame
        halt_request_pending_iff state_wf_def)+

lemma cpu_ready_sleeping:
  assumes "cpu_wf c" and "\<not> halt_request_pending c"
  shows "cpu_ready c"
  using assms by (simp add: cpu_ready_def)

lemma wf_asleep:
  assumes "cpu_wf c" and "cpu_state c = Halted \<or> cpu_state c = Stopped \<or> cpu_state c = ZombieStopped"
  shows "cpu_ready c" "static_of (cpu_in_flight c) = (None, None, None, None)"
    "flags_wf c" "no_request (cpu_halt c)"
  using assms by (auto simp: cpu_ready_def cpu_wf_def state_wf_def halt_request_pending_iff)

lemma accept_split:
  "fst (case accept_pending_interrupt s of (c, ints) \<Rightarrow> (c, ints, j)) = fst (accept_pending_interrupt s)"
  by (simp split: prod.split)

lemma evaluate_wake_ready:
  assumes wf: "cpu_wf c"
  shows "cpu_ready (fst (evaluate_wake_and_interrupts (c, ints, joy)))"
proof -
  have trap: "in_diagnostic_trap c \<Longrightarrow> cpu_ready c"
    using wf by (auto simp: in_diagnostic_trap_def cpu_ready_def cpu_wf_def halt_request_pending_iff
        split: cpu_execution_state.splits)
  obtain r c1 where take: "take_halt_request c = (r, c1)" by (rule prod.exhaust)
  note taken = take_halt_request_ready [OF wf take]
  have halted: "cpu_state c1 = Halted \<Longrightarrow> static_of (cpu_in_flight c1) = (None, None, None, None)"
    using taken(1) wf_asleep(2) [of c1] by (simp add: cpu_ready_def)
  consider "is_stop_sleep_state c" | "in_diagnostic_trap c" | "\<not> is_stop_sleep_state c" "\<not> in_diagnostic_trap c"
    by blast
  then show ?thesis
  proof cases
    case 1
    then have "cpu_state c = Halted \<or> cpu_state c = Stopped \<or> cpu_state c = ZombieStopped"
      by (auto simp: is_stop_sleep_state_def)
    note asleep = wf_asleep [OF wf this]
    from 1 show ?thesis
      by (simp add: evaluate_wake_and_interrupts_def Let_def split_beta asleep(1)
          cpu_ready_begin [OF asleep(3,4)] cpu_ready_state [OF asleep(1,2)])
  next
    case 2
    then show ?thesis using trap by (simp add: evaluate_wake_and_interrupts_def Let_def split_beta)
  next
    case 3
    then show ?thesis
      using taken halted cpu_ready_sleeping [OF wf]
      by (cases r) (simp_all add: evaluate_wake_and_interrupts_def Let_def take accept_split
          cpu_ready_state cpu_ready_accept)
  qed
qed

lemma evaluate_current_ready:
  assumes "cpu_ready c"
  shows "cpu_ready (fst (snd (evaluate_current_cycle_interrupt_requests request_mask (c, ints))))"
  using assms
  by (auto simp: evaluate_current_cycle_interrupt_requests_def cpu_ready_def [of c] cpu_wf_def [of c]
      halt_request_pending_iff cpu_ready_begin split: option.split)

end
