(* ===== verification/Gb_Timer.thy ===== *)
theory Gb_Timer
  imports Gb_Scheduler Gb_Speed
begin

text \<open>
  The timer of \<open>timer.rs\<close>: the 16-bit system counter behind DIV, the TIMA counter driven by
  falling edges of the TAC-selected counter bit, the delayed overflow reload, the writes
  that provoke edges, and the frame-sequencer edge the APU takes from the divider.
\<close>

definition TIMER_ENABLE_MASK :: u8 where "TIMER_ENABLE_MASK = 0x04"
definition TIMER_CONTROL_MASK :: u8 where "TIMER_CONTROL_MASK = 0x07"
definition TIMER_RELOAD_DELAY_T_CYCLES :: u8 where "TIMER_RELOAD_DELAY_T_CYCLES = 4"

datatype timer_status = TimerReady

datatype timer_overflow_state = TimerIdle | TimerPending (ticks_until_reload: u8)

datatype timer_signal_change_origin = AutonomousTick | MmioWrite

datatype divider_reset_source = CpuDivWrite | StopInstruction

record divider_reset_effects =
  apu_frame_sequencer_edge :: bool

record timer_startup_state =
  timer_startup_counter :: u16
  timer_startup_tima :: u8
  timer_startup_tma :: u8
  timer_startup_tac :: u8

record timer =
  timer_console_model :: console_model
  timer_status :: timer_status
  system_counter :: u16
  tima :: u8
  tma :: u8
  tac :: u8
  previous_timer_signal :: bool
  overflow_state :: timer_overflow_state
  reloaded_this_t_cycle :: bool
  apu_fs_offset :: u16

record timer_save_state =
  tsave_console_model :: console_model
  tsave_status :: timer_status
  tsave_system_counter :: u16
  tsave_tima :: u8
  tsave_tma :: u8
  tsave_tac :: u8
  tsave_previous_timer_signal :: bool
  tsave_overflow_state :: timer_overflow_state
  tsave_reloaded_this_t_cycle :: bool
  tsave_apu_fs_offset :: u16

definition timer_new :: "console_model \<Rightarrow> timer" where
  "timer_new m =
     \<lparr>timer_console_model = m, timer_status = TimerReady, system_counter = 0,
      tima = 0, tma = 0, tac = 0, previous_timer_signal = False,
      overflow_state = TimerIdle, reloaded_this_t_cycle = False, apu_fs_offset = 0\<rparr>"

definition timer_capture_save_state :: "timer \<Rightarrow> timer_save_state" where
  "timer_capture_save_state t =
     \<lparr>tsave_console_model = timer_console_model t, tsave_status = timer_status t,
      tsave_system_counter = system_counter t, tsave_tima = tima t, tsave_tma = tma t,
      tsave_tac = tac t, tsave_previous_timer_signal = previous_timer_signal t,
      tsave_overflow_state = overflow_state t,
      tsave_reloaded_this_t_cycle = reloaded_this_t_cycle t,
      tsave_apu_fs_offset = apu_fs_offset t\<rparr>"

definition timer_restore_save_state :: "timer_save_state \<Rightarrow> timer \<Rightarrow> timer" where
  "timer_restore_save_state s t =
     t\<lparr>timer_console_model := tsave_console_model s, timer_status := tsave_status s,
       system_counter := tsave_system_counter s, tima := tsave_tima s, tma := tsave_tma s,
       tac := tsave_tac s, previous_timer_signal := tsave_previous_timer_signal s,
       overflow_state := tsave_overflow_state s,
       reloaded_this_t_cycle := tsave_reloaded_this_t_cycle s,
       apu_fs_offset := tsave_apu_fs_offset s\<rparr>"

subsection \<open>The signals\<close>

definition selected_timer_bit :: "u8 \<Rightarrow> nat" where
  "selected_timer_bit v =
     (let s = v AND 0x03
      in if s = 0 then 9 else if s = 1 then 3 else if s = 2 then 5 else 7)"

definition selected_counter_bit_is_high :: "timer \<Rightarrow> bool" where
  "selected_counter_bit_is_high t =
     (system_counter t AND push_bit (selected_timer_bit (tac t)) 1 \<noteq> 0)"

definition current_timer_signal :: "timer \<Rightarrow> bool" where
  "current_timer_signal t =
     (tac t AND TIMER_ENABLE_MASK \<noteq> 0 \<and> selected_counter_bit_is_high t)"

definition current_div_apu_signal_for_speed :: "cgb_speed_mode \<Rightarrow> timer \<Rightarrow> bool" where
  "current_div_apu_signal_for_speed speed t =
     ((system_counter t + apu_fs_offset t)
        AND push_bit (unat (div_apu_counter_bit speed)) 1 \<noteq> 0)"

subsection \<open>Falling edges\<close>

definition overflow_pending :: "timer \<Rightarrow> bool" where
  "overflow_pending t = (case overflow_state t of TimerPending _ \<Rightarrow> True | TimerIdle \<Rightarrow> False)"

definition increment_tima_on_falling_edge ::
    "timer_signal_change_origin \<Rightarrow> timer \<Rightarrow> timer" where
  "increment_tima_on_falling_edge origin t =
     (if overflow_pending t then t
      else
        let result = tima t + 1;
            overflowed = (tima t = 0xFF);
            t1 = t\<lparr>tima := result\<rparr>
        in if overflowed
           then t1\<lparr>overflow_state := TimerPending
                    (case origin of
                       AutonomousTick \<Rightarrow> TIMER_RELOAD_DELAY_T_CYCLES
                     | MmioWrite \<Rightarrow> TIMER_RELOAD_DELAY_T_CYCLES - 1)\<rparr>
           else t1)"

definition process_timer_signal_edge ::
    "bool \<Rightarrow> bool \<Rightarrow> timer_signal_change_origin \<Rightarrow> timer \<Rightarrow> timer" where
  "process_timer_signal_edge previous current origin t =
     (if previous \<and> \<not> current then increment_tima_on_falling_edge origin t else t)"

definition apply_timer_signal_change ::
    "bool \<Rightarrow> timer_signal_change_origin \<Rightarrow> timer \<Rightarrow> timer" where
  "apply_timer_signal_change previous origin t =
     (let current = current_timer_signal t
      in (process_timer_signal_edge previous current origin t)\<lparr>previous_timer_signal := current\<rparr>)"

subsection \<open>Registers\<close>

definition read_div :: "timer \<Rightarrow> u8" where
  "read_div t = ucast (drop_bit 8 (system_counter t))"

definition reset_divider_with_effects_for_speed ::
    "cgb_speed_mode \<Rightarrow> divider_reset_source \<Rightarrow> timer \<Rightarrow> divider_reset_effects \<times> timer" where
  "reset_divider_with_effects_for_speed speed source t =
     (let previous_signal = current_timer_signal t;
          previous_div_apu_signal = current_div_apu_signal_for_speed speed t;
          t1 = t\<lparr>system_counter := 0,
                 apu_fs_offset := (case source of CpuDivWrite \<Rightarrow> 2 | StopInstruction \<Rightarrow> 0)\<rparr>;
          t2 = apply_timer_signal_change previous_signal MmioWrite t1
      in (\<lparr>apu_frame_sequencer_edge =
             (previous_div_apu_signal \<and> \<not> current_div_apu_signal_for_speed speed t2)\<rparr>, t2))"

definition write_div_with_effects_for_speed ::
    "u8 \<Rightarrow> cgb_speed_mode \<Rightarrow> timer \<Rightarrow> divider_reset_effects \<times> timer" where
  "write_div_with_effects_for_speed v speed t =
     reset_divider_with_effects_for_speed speed CpuDivWrite t"

definition write_div_with_effects :: "u8 \<Rightarrow> timer \<Rightarrow> divider_reset_effects \<times> timer" where
  "write_div_with_effects v t = write_div_with_effects_for_speed v NormalSpeed t"

definition write_div :: "u8 \<Rightarrow> timer \<Rightarrow> timer" where
  "write_div v t = snd (write_div_with_effects v t)"

definition stop_reset_divider_with_effects_for_speed ::
    "cgb_speed_mode \<Rightarrow> timer \<Rightarrow> divider_reset_effects \<times> timer" where
  "stop_reset_divider_with_effects_for_speed speed t =
     reset_divider_with_effects_for_speed speed StopInstruction t"

definition read_tima :: "timer \<Rightarrow> u8" where
  "read_tima t = tima t"

definition write_tima :: "u8 \<Rightarrow> timer \<Rightarrow> timer" where
  "write_tima v t =
     (if reloaded_this_t_cycle t then t
      else
        let t1 = t\<lparr>tima := v\<rparr>
        in if overflow_pending t1 then t1\<lparr>overflow_state := TimerIdle\<rparr> else t1)"

definition read_tma :: "timer \<Rightarrow> u8" where
  "read_tma t = tma t"

definition write_tma :: "u8 \<Rightarrow> timer \<Rightarrow> timer" where
  "write_tma v t =
     (let t1 = t\<lparr>tma := v\<rparr>
      in if reloaded_this_t_cycle t1 then t1\<lparr>tima := v\<rparr> else t1)"

definition read_tac :: "timer \<Rightarrow> u8" where
  "read_tac t = 0xF8 OR tac t"

definition write_tac :: "u8 \<Rightarrow> timer \<Rightarrow> timer" where
  "write_tac v t =
     (let previous_signal = current_timer_signal t
      in apply_timer_signal_change previous_signal MmioWrite (t\<lparr>tac := v AND TIMER_CONTROL_MASK\<rparr>))"

definition timer_apply_startup_state :: "timer_startup_state \<Rightarrow> timer \<Rightarrow> timer" where
  "timer_apply_startup_state s t =
     (let t1 = t\<lparr>system_counter := timer_startup_counter s, tima := timer_startup_tima s,
                 tma := timer_startup_tma s, tac := timer_startup_tac s AND TIMER_CONTROL_MASK\<rparr>
      in t1\<lparr>previous_timer_signal := current_timer_signal t1, overflow_state := TimerIdle,
            reloaded_this_t_cycle := False, apu_fs_offset := 0\<rparr>)"

definition apply_boot_handoff_counter_correction :: "u16 \<Rightarrow> timer \<Rightarrow> timer" where
  "apply_boot_handoff_counter_correction n t =
     (let t1 = t\<lparr>system_counter := system_counter t + n\<rparr>
      in t1\<lparr>previous_timer_signal := current_timer_signal t1\<rparr>)"

subsection \<open>One T-cycle\<close>

definition advance_overflow_pipeline ::
    "timer \<Rightarrow> cycle_context \<Rightarrow> (timer \<times> cycle_context) res" where
  "advance_overflow_pipeline t c =
     (case overflow_state t of
        TimerIdle \<Rightarrow> Inr (t, c)
      | TimerPending n \<Rightarrow>
          if n > 1 then Inr (t\<lparr>overflow_state := TimerPending (n - 1)\<rparr>, c)
          else res_map (Pair (t\<lparr>tima := tma t, overflow_state := TimerIdle,
                               reloaded_this_t_cycle := True\<rparr>))
                 (queue_interrupt_request TimerIrq c))"

definition timer_tick_t_cycle_for_speed ::
    "cgb_speed_mode \<Rightarrow> timer \<Rightarrow> cycle_context \<Rightarrow> (timer \<times> cycle_context) res" where
  "timer_tick_t_cycle_for_speed speed t0 c0 =
     res_bind (advance_overflow_pipeline (t0\<lparr>reloaded_this_t_cycle := False\<rparr>) c0) (\<lambda>(t1, c1).
     let previous_signal = current_timer_signal t1;
         previous_div_apu_signal = current_div_apu_signal_for_speed speed t1;
         t2 = t1\<lparr>system_counter :=
                 system_counter t1 + timer_increment_per_scheduler_t_cycle speed\<rparr>
     in res_bind (push_derived_edge DividerTick c1) (\<lambda>c2.
        let current_signal = current_timer_signal t2;
            t3 = process_timer_signal_edge previous_signal current_signal AutonomousTick t2;
            t4 = t3\<lparr>previous_timer_signal := current_signal\<rparr>
        in res_bind
             (if previous_signal \<and> \<not> current_signal
              then push_derived_edge TimerInputFallingEdge c2 else Inr c2) (\<lambda>c3.
           res_map (Pair t4)
             (if previous_div_apu_signal \<and> \<not> current_div_apu_signal_for_speed speed t4
              then push_derived_edge ApuFrameSequencerEdge c3 else Inr c3))))"

subsection \<open>The signals as arithmetic on the counter\<close>

named_theorems timer_simps \<open>the timer's registers and signals\<close>

lemmas timer_defs [timer_simps] =
  TIMER_ENABLE_MASK_def TIMER_CONTROL_MASK_def TIMER_RELOAD_DELAY_T_CYCLES_def
  process_timer_signal_edge_def increment_tima_on_falling_edge_def Let_def

definition timer_period :: "timer \<Rightarrow> nat" where
  "timer_period t = 2 * 2 ^ selected_timer_bit (tac t)"

definition timer_enabled :: "timer \<Rightarrow> bool" where
  "timer_enabled t = (tac t AND TIMER_ENABLE_MASK \<noteq> 0)"

lemma selected_timer_bit_cases: "selected_timer_bit v \<in> {3, 5, 7, 9}"
  by (simp add: selected_timer_bit_def Let_def)

lemma timer_increment [simp]: "timer_increment_per_scheduler_t_cycle speed = 1"
  by (cases speed) simp_all

lemma current_timer_signal_iff [timer_simps]:
  "current_timer_signal t \<longleftrightarrow>
   timer_enabled t \<and> bit (system_counter t) (selected_timer_bit (tac t))"
  by (simp add: current_timer_signal_def selected_counter_bit_is_high_def timer_enabled_def
      bit_iff_and_push_bit_not_eq_0)

subsection \<open>A T-cycle without the context\<close>

text \<open>
  \<open>timer_next\<close> is the timer after one T-cycle and \<open>timer_reloads\<close> says whether that cycle
  reloads TIMA and queues the interrupt; the tick is these two functions whenever the
  context has room, at either speed.
\<close>

definition timer_pipeline :: "timer \<Rightarrow> timer" where
  "timer_pipeline t =
     (case overflow_state t of
        TimerIdle \<Rightarrow> t\<lparr>reloaded_this_t_cycle := False\<rparr>
      | TimerPending n \<Rightarrow>
          if n > 1 then t\<lparr>reloaded_this_t_cycle := False, overflow_state := TimerPending (n - 1)\<rparr>
          else t\<lparr>tima := tma t, overflow_state := TimerIdle, reloaded_this_t_cycle := True\<rparr>)"

definition timer_reloads :: "timer \<Rightarrow> bool" where
  "timer_reloads t = (case overflow_state t of TimerIdle \<Rightarrow> False | TimerPending n \<Rightarrow> n \<le> 1)"

definition timer_next :: "timer \<Rightarrow> timer" where
  "timer_next t =
     (let t1 = timer_pipeline t; t2 = t1\<lparr>system_counter := system_counter t1 + 1\<rparr>
      in (process_timer_signal_edge (current_timer_signal t1) (current_timer_signal t2)
            AutonomousTick t2)\<lparr>previous_timer_signal := current_timer_signal t2\<rparr>)"

definition timer_next_edges :: "cgb_speed_mode \<Rightarrow> timer \<Rightarrow> derived_edge list" where
  "timer_next_edges speed t =
     [DividerTick]
     @ (if current_timer_signal t \<and> \<not> current_timer_signal (timer_next t)
        then [TimerInputFallingEdge] else [])
     @ (if current_div_apu_signal_for_speed speed t
          \<and> \<not> current_div_apu_signal_for_speed speed (timer_next t)
        then [ApuFrameSequencerEdge] else [])"

lemma process_edge_frame [simp]:
  "system_counter (process_timer_signal_edge a b org t) = system_counter t"
  "tac (process_timer_signal_edge a b org t) = tac t"
  "tma (process_timer_signal_edge a b org t) = tma t"
  "apu_fs_offset (process_timer_signal_edge a b org t) = apu_fs_offset t"
  "reloaded_this_t_cycle (process_timer_signal_edge a b org t) = reloaded_this_t_cycle t"
  by (simp_all add: timer_simps)

lemma timer_pipeline_frame [simp]:
  "system_counter (timer_pipeline t) = system_counter t"
  "tac (timer_pipeline t) = tac t"
  "tma (timer_pipeline t) = tma t"
  "apu_fs_offset (timer_pipeline t) = apu_fs_offset t"
  "current_timer_signal (timer_pipeline t) = current_timer_signal t"
  "current_div_apu_signal_for_speed speed (timer_pipeline t) = current_div_apu_signal_for_speed speed t"
  by (simp_all add: timer_pipeline_def timer_simps timer_enabled_def
      current_div_apu_signal_for_speed_def split: timer_overflow_state.splits)

lemma timer_next_frame [simp]:
  "system_counter (timer_next t) = system_counter t + 1"
  "tac (timer_next t) = tac t"
  "tma (timer_next t) = tma t"
  "apu_fs_offset (timer_next t) = apu_fs_offset t"
  by (simp_all add: timer_next_def Let_def)

lemma timer_next_signal:
  "current_timer_signal (timer_next t) =
   current_timer_signal ((timer_pipeline t)\<lparr>system_counter := system_counter t + 1\<rparr>)"
  by (simp add: current_timer_signal_iff timer_enabled_def)

lemma timer_next_previous [simp]:
  "previous_timer_signal (timer_next t) = current_timer_signal (timer_next t)"
  by (simp add: timer_next_signal) (simp add: timer_next_def Let_def)

lemma advance_overflow_pipeline_ok:
  assumes "ctx_room c d 1"
  shows "\<exists>c'. advance_overflow_pipeline (t\<lparr>reloaded_this_t_cycle := False\<rparr>) c
      = Inr (timer_pipeline t, c')
    \<and> ctx_room c' d 0 \<and> derived_edges c' = derived_edges c
    \<and> interrupt_requests c' = interrupt_requests c @ (if timer_reloads t then [TimerIrq] else [])"
  using assms ctx_room_mono [OF assms, of d 0] queue_interrupt_request_ok [of c d 0 TimerIrq]
  by (auto simp: advance_overflow_pipeline_def timer_pipeline_def timer_reloads_def
      split: timer_overflow_state.splits)

lemma timer_tick_eq:
  assumes "ctx_room c 3 1"
  shows "\<exists>c'. timer_tick_t_cycle_for_speed speed t c = Inr (timer_next t, c')
    \<and> interrupt_requests c' = interrupt_requests c @ (if timer_reloads t then [TimerIrq] else [])
    \<and> derived_edges c' = derived_edges c @ timer_next_edges speed t"
proof -
  obtain c1 where c1: "advance_overflow_pipeline (t\<lparr>reloaded_this_t_cycle := False\<rparr>) c
      = Inr (timer_pipeline t, c1)" "ctx_room c1 3 0" "derived_edges c1 = derived_edges c"
    "interrupt_requests c1 = interrupt_requests c @ (if timer_reloads t then [TimerIrq] else [])"
    using advance_overflow_pipeline_ok [OF assms] by blast
  obtain c2 where c2: "push_derived_edge DividerTick c1 = Inr c2" "ctx_room c2 2 0"
    "derived_edges c2 = derived_edges c1 @ [DividerTick]"
    "interrupt_requests c2 = interrupt_requests c1"
    using push_derived_edge_ok [of c1 2 0 DividerTick] c1(2) by (auto simp: eval_nat_numeral)
  define fall where "fall \<longleftrightarrow> current_timer_signal t \<and> \<not> current_timer_signal (timer_next t)"
  obtain c3 where c3: "(if fall then push_derived_edge TimerInputFallingEdge c2 else Inr c2) = Inr c3"
    "ctx_room c3 1 0"
    "derived_edges c3 = derived_edges c2 @ (if fall then [TimerInputFallingEdge] else [])"
    "interrupt_requests c3 = interrupt_requests c2"
    using push_derived_edge_if_ok [of c2 1 0 fall TimerInputFallingEdge] c2(2)
    unfolding eval_nat_numeral by auto
  define apu where "apu \<longleftrightarrow> current_div_apu_signal_for_speed speed t
    \<and> \<not> current_div_apu_signal_for_speed speed (timer_next t)"
  obtain c4 where c4: "(if apu then push_derived_edge ApuFrameSequencerEdge c3 else Inr c3) = Inr c4"
    "derived_edges c4 = derived_edges c3 @ (if apu then [ApuFrameSequencerEdge] else [])"
    "interrupt_requests c4 = interrupt_requests c3"
    using push_derived_edge_if_ok [of c3 0 0 apu ApuFrameSequencerEdge] c3(2) by auto
  define t2 where "t2 = (timer_pipeline t)\<lparr>system_counter := system_counter t + 1\<rparr>"
  have nxt: "(process_timer_signal_edge (current_timer_signal t) (current_timer_signal t2)
      AutonomousTick t2)\<lparr>previous_timer_signal := current_timer_signal t2\<rparr> = timer_next t"
    by (simp add: timer_next_def t2_def Let_def)
  have fall: "(current_timer_signal t \<and> \<not> current_timer_signal t2) = fall"
    by (simp add: fall_def timer_next_signal t2_def)
  have "timer_tick_t_cycle_for_speed speed t c = Inr (timer_next t, c4)"
    by (simp only: timer_tick_t_cycle_for_speed_def c1(1) res_bind_simps prod.case Let_def
        timer_pipeline_frame timer_increment t2_def [symmetric] c2(1) nxt fall c3(1)
        apu_def [symmetric] c4(1) res_map_simps)
  then show ?thesis
    using c1 c2 c3 c4 by (auto simp: timer_next_edges_def fall_def apu_def)
qed

subsection \<open>The invariant\<close>

definition timer_wf :: "timer \<Rightarrow> bool" where
  "timer_wf t =
     (tac t AND TIMER_CONTROL_MASK = tac t
      \<and> (case overflow_state t of TimerIdle \<Rightarrow> True | TimerPending n \<Rightarrow> 1 \<le> n \<and> n \<le> 4)
      \<and> previous_timer_signal t = current_timer_signal t)"

lemma pending_step: "(1::u8) < n \<Longrightarrow> n \<le> 4 \<Longrightarrow> 1 \<le> n - 1 \<and> n - 1 \<le> 4"
  by unat_arith

lemma apply_signal_change_wf:
  assumes "tac t AND TIMER_CONTROL_MASK = tac t"
    and "case overflow_state t of TimerIdle \<Rightarrow> True | TimerPending n \<Rightarrow> 1 \<le> n \<and> n \<le> 4"
  shows "timer_wf (apply_timer_signal_change prev org t)"
  using assms
  by (cases org) (auto simp: timer_wf_def apply_timer_signal_change_def timer_simps timer_enabled_def
      split: timer_overflow_state.splits)

lemma timer_new_wf [simp]: "timer_wf (timer_new m)"
  by (simp add: timer_wf_def timer_new_def timer_simps timer_enabled_def)

lemma write_tac_wf [simp]: "timer_wf t \<Longrightarrow> timer_wf (write_tac v t)"
  unfolding write_tac_def Let_def
  by (rule apply_signal_change_wf) (simp_all add: timer_wf_def and.assoc)

lemma reset_divider_wf [simp]:
  "timer_wf t \<Longrightarrow> timer_wf (snd (reset_divider_with_effects_for_speed speed src t))"
  unfolding reset_divider_with_effects_for_speed_def Let_def snd_conv
  by (rule apply_signal_change_wf) (simp_all add: timer_wf_def)

lemma write_tima_wf [simp]: "timer_wf t \<Longrightarrow> timer_wf (write_tima v t)"
  by (auto simp: timer_wf_def write_tima_def timer_simps timer_enabled_def overflow_pending_def
      split: timer_overflow_state.splits)

lemma write_tma_wf [simp]: "timer_wf t \<Longrightarrow> timer_wf (write_tma v t)"
  by (simp add: timer_wf_def write_tma_def timer_simps timer_enabled_def)

lemma timer_startup_wf [simp]: "timer_wf (timer_apply_startup_state s t)"
  by (simp add: timer_wf_def timer_apply_startup_state_def timer_simps timer_enabled_def and.assoc)

lemma boot_handoff_wf [simp]:
  "timer_wf t \<Longrightarrow> timer_wf (apply_boot_handoff_counter_correction n t)"
  by (simp add: timer_wf_def apply_boot_handoff_counter_correction_def timer_simps
      timer_enabled_def)

lemma overflow_state_timer_next:
  "timer_wf t \<Longrightarrow>
   case overflow_state (timer_next t) of TimerIdle \<Rightarrow> True | TimerPending n \<Rightarrow> 1 \<le> n \<and> n \<le> 4"
  using pending_step
  by (auto simp: timer_wf_def timer_next_def timer_pipeline_def process_timer_signal_edge_def
      increment_tima_on_falling_edge_def TIMER_RELOAD_DELAY_T_CYCLES_def Let_def
      split: timer_overflow_state.splits)

lemma timer_next_wf [simp]: "timer_wf t \<Longrightarrow> timer_wf (timer_next t)"
  using overflow_state_timer_next [of t] by (simp add: timer_wf_def)

lemma timer_save_restore [simp]:
  "timer_restore_save_state (timer_capture_save_state t) t' = t"
  by (simp add: timer_restore_save_state_def timer_capture_save_state_def)

subsection \<open>When the next interrupt comes\<close>

text \<open>
  \<open>timer_countdown\<close> is the number of T-cycles to the next timer interrupt of an enabled
  timer that nobody writes to. One tick lowers it by one, and the tick that brings it to
  zero is the one that reloads.
\<close>

definition timer_phase :: "timer \<Rightarrow> nat" where
  "timer_phase t = unat (system_counter t) mod timer_period t"

definition timer_countdown :: "timer \<Rightarrow> nat" where
  "timer_countdown t =
     (case overflow_state t of
        TimerPending n \<Rightarrow> unat n
      | TimerIdle \<Rightarrow>
          timer_period t - timer_phase t + (255 - unat (tima t)) * timer_period t + 4)"

text \<open>While a reload is pending no edge may interfere: the counter is just past an edge.\<close>

definition timer_running :: "timer \<Rightarrow> bool" where
  "timer_running t =
     (timer_wf t \<and> timer_enabled t
      \<and> (case overflow_state t of TimerIdle \<Rightarrow> True | TimerPending n \<Rightarrow> timer_phase t + unat n = 4))"

lemma timer_period_ge: "16 \<le> timer_period t"
  using selected_timer_bit_cases [of "tac t"] by (auto simp: timer_period_def)

lemma timer_phase_less: "timer_phase t < timer_period t"
  by (simp add: timer_phase_def timer_period_def)

lemma timer_bit_less: "selected_timer_bit (tac t) < 16"
  using selected_timer_bit_cases [of "tac t"] by auto

lemma timer_period_next [simp]: "timer_period (timer_next t) = timer_period t"
  by (simp add: timer_period_def)

lemma timer_enabled_next [simp]: "timer_enabled (timer_next t) = timer_enabled t"
  by (simp add: timer_enabled_def)

lemma timer_phase_next:
  "timer_phase (timer_next t) =
     (if Suc (timer_phase t) = timer_period t then 0 else Suc (timer_phase t))"
  using unat_suc_mod [OF timer_bit_less [of t], of "system_counter t"]
  by (simp add: timer_phase_def timer_period_def)

lemma timer_falls_iff:
  "timer_enabled t \<Longrightarrow>
   current_timer_signal t \<and> \<not> current_timer_signal (timer_next t)
   \<longleftrightarrow> Suc (timer_phase t) = timer_period t"
  using falling_edge_iff [OF timer_bit_less [of t], of "system_counter t"]
  by (auto simp: current_timer_signal_iff timer_phase_def timer_period_def)

lemma timer_next_idle:
  assumes "timer_enabled t" and "overflow_state t = TimerIdle"
  shows "tima (timer_next t) = (if Suc (timer_phase t) = timer_period t then tima t + 1 else tima t)"
    and "overflow_state (timer_next t) =
      (if Suc (timer_phase t) = timer_period t \<and> tima t = 0xFF
       then TimerPending 4 else TimerIdle)"
  using assms timer_falls_iff [OF assms(1)] timer_next_signal [of t]
  by (auto simp: timer_next_def timer_pipeline_def process_timer_signal_edge_def
      increment_tima_on_falling_edge_def overflow_pending_def TIMER_RELOAD_DELAY_T_CYCLES_def
      Let_def current_timer_signal_iff timer_enabled_def)

lemma timer_next_pending:
  assumes "timer_running t" and "overflow_state t = TimerPending n"
  shows "tima (timer_next t) = (if n \<le> 1 then tma t else tima t)"
    and "overflow_state (timer_next t) = (if n \<le> 1 then TimerIdle else TimerPending (n - 1))"
proof -
  have "Suc (timer_phase t) \<noteq> timer_period t"
    using assms timer_period_ge [of t] by (auto simp: timer_running_def)
  then have "\<not> (current_timer_signal t \<and> \<not> current_timer_signal (timer_next t))"
    using assms timer_falls_iff [of t] by (auto simp: timer_running_def)
  then show "tima (timer_next t) = (if n \<le> 1 then tma t else tima t)"
    "overflow_state (timer_next t) = (if n \<le> 1 then TimerIdle else TimerPending (n - 1))"
    using assms(2) timer_next_signal [of t]
    by (auto simp: timer_next_def timer_pipeline_def process_timer_signal_edge_def Let_def
        current_timer_signal_iff timer_enabled_def not_le)
qed

lemma timer_countdown_pos: "timer_running t \<Longrightarrow> 1 \<le> timer_countdown t"
  by (auto simp: timer_running_def timer_wf_def timer_countdown_def unat_gt_0 word_le_nat_alt
      split: timer_overflow_state.splits)

lemma timer_reloads_iff: "timer_running t \<Longrightarrow> timer_reloads t \<longleftrightarrow> timer_countdown t = 1"
proof (cases "overflow_state t")
  case (TimerPending n)
  assume "timer_running t"
  with TimerPending have "1 \<le> n" by (simp add: timer_running_def timer_wf_def)
  with TimerPending show ?thesis
    by (auto simp: timer_reloads_def timer_countdown_def word_le_nat_alt)
qed (simp add: timer_reloads_def timer_countdown_def)

lemma timer_countdown_idle:
  assumes t: "timer_running t" and idle: "overflow_state t = TimerIdle"
  shows "timer_running (timer_next t) \<and> timer_countdown (timer_next t) = timer_countdown t - 1"
proof (cases "Suc (timer_phase t) = timer_period t")
  case False
  with t idle timer_phase_less [of t] show ?thesis
    using timer_next_idle [of t] timer_phase_next [of t]
    by (auto simp: timer_running_def timer_countdown_def)
next
  case edge: True
  show ?thesis
  proof (cases "tima t = 0xFF")
    case True
    with edge t idle show ?thesis
      using timer_next_idle [of t] timer_phase_next [of t]
      by (auto simp: timer_running_def timer_countdown_def)
  next
    case False
    have "unat (tima t) \<noteq> 255" using False by (simp add: word_unat_eq_iff)
    moreover have "unat (tima t) < 256"
      using unsigned_less [of "tima t", where ?'a = nat] by simp
    ultimately have "unat (tima t) < 255" by simp
    moreover from this have "unat (tima t + 1) = Suc (unat (tima t))"
      by (simp add: unat_word_ariths)
    moreover from calculation have
      "255 - unat (tima t) = Suc (255 - unat (tima t + 1))" by simp
    ultimately show ?thesis
      using edge t idle False timer_next_idle [of t] timer_phase_next [of t]
      by (auto simp: timer_running_def timer_countdown_def)
  qed
qed

lemma timer_countdown_pending:
  assumes t: "timer_running t" and pend: "overflow_state t = TimerPending n"
  shows "timer_running (timer_next t)"
    and "n > 1 \<Longrightarrow> timer_countdown (timer_next t) = timer_countdown t - 1"
    and "n \<le> 1 \<Longrightarrow> overflow_state (timer_next t) = TimerIdle \<and> tima (timer_next t) = tma t
      \<and> timer_phase (timer_next t) = 4"
proof -
  have n: "1 \<le> n" "n \<le> 4" and ph: "timer_phase t + unat n = 4"
    using t pend by (auto simp: timer_running_def timer_wf_def)
  have un: "unat (n - 1) = unat n - 1" "1 \<le> unat n"
    using n(1) by (auto simp: unat_sub word_le_nat_alt)
  have ph': "timer_phase (timer_next t) = Suc (timer_phase t)"
    using timer_phase_next [of t] ph un timer_period_ge [of t] by auto
  note nx = timer_next_pending [OF t pend]
  show "timer_running (timer_next t)"
    using t nx ph ph' un by (auto simp: timer_running_def)
  show "timer_countdown (timer_next t) = timer_countdown t - 1" if "n > 1"
    using that nx pend un by (auto simp: timer_countdown_def)
  show "overflow_state (timer_next t) = TimerIdle \<and> tima (timer_next t) = tma t
      \<and> timer_phase (timer_next t) = 4" if "n \<le> 1"
  proof -
    have "unat n = 1" using that un by (simp add: word_le_nat_alt)
    with nx ph ph' that show ?thesis by simp
  qed
qed

lemma timer_next_running: "timer_running t \<Longrightarrow> timer_running (timer_next t)"
  using timer_countdown_idle timer_countdown_pending(1) by (cases "overflow_state t") auto

lemma timer_countdown_next:
  "timer_running t \<Longrightarrow> timer_countdown t \<noteq> 1 \<Longrightarrow>
   timer_countdown (timer_next t) = timer_countdown t - 1"
  using timer_countdown_idle timer_countdown_pending(2) timer_reloads_iff [of t]
  by (cases "overflow_state t") (auto simp: timer_reloads_def)

lemma timer_next_reload:
  "timer_running t \<Longrightarrow> timer_countdown t = 1 \<Longrightarrow>
   overflow_state (timer_next t) = TimerIdle \<and> tima (timer_next t) = tma t
   \<and> timer_phase (timer_next t) = 4"
  using timer_countdown_pending(3) timer_reloads_iff [of t]
  by (cases "overflow_state t") (auto simp: timer_reloads_def)

subsection \<open>Runs of T-cycles\<close>

text \<open>
  Each T-cycle gets a fresh context, numbered by \<open>nows\<close>; the result lists, cycle by cycle,
  whether the timer interrupt was queued.
\<close>

fun timer_run :: "cgb_speed_mode \<Rightarrow> u64 list \<Rightarrow> timer \<Rightarrow> (bool list \<times> timer) res" where
  "timer_run speed [] t = Inr ([], t)"
| "timer_run speed (now # nows) t =
     res_bind (timer_tick_t_cycle_for_speed speed t (context_for_cycle now)) (\<lambda>(t', c).
       res_map (\<lambda>(irqs, t''). ((TimerIrq \<in> set (interrupt_requests c)) # irqs, t''))
         (timer_run speed nows t'))"

lemma timer_run_step:
  "timer_run speed (now # nows) t =
     res_map (\<lambda>(irqs, t''). (timer_reloads t # irqs, t'')) (timer_run speed nows (timer_next t))"
proof -
  have "ctx_room (context_for_cycle now) 3 1" by (simp add: MAX_DERIVED_EDGES_PER_CYCLE_def MAX_INTERRUPT_REQUESTS_PER_CYCLE_def)
  from timer_tick_eq [OF this, of speed t] show ?thesis
    by auto
qed

declare timer_run.simps(2) [simp del]

lemma timer_run_ok: "\<exists>irqs. timer_run speed nows t = Inr (irqs, (timer_next ^^ length nows) t)"
proof (induction nows arbitrary: t)
  case (Cons now nows)
  show ?case
    using Cons.IH [of "timer_next t"]
    by (elim exE) (simp add: timer_run_step funpow_swap1)
qed simp

lemma timer_run_to_reload:
  "timer_running t \<Longrightarrow> length nows = timer_countdown t \<Longrightarrow>
   \<exists>t'. timer_run speed nows t = Inr (replicate (timer_countdown t - 1) False @ [True], t')
      \<and> timer_running t' \<and> overflow_state t' = TimerIdle \<and> tima t' = tma t \<and> tma t' = tma t
      \<and> tac t' = tac t \<and> timer_phase t' = 4
      \<and> system_counter t' = system_counter t + of_nat (timer_countdown t)"
proof (induction nows arbitrary: t)
  case Nil
  then show ?case using timer_countdown_pos [of t] by simp
next
  case (Cons now nows)
  show ?case
  proof (cases "timer_countdown t = 1")
    case True
    with Cons.prems have "nows = []" by simp
    with True Cons.prems timer_next_reload [of t] timer_next_running [of t] show ?thesis
      by (simp add: timer_run_step timer_reloads_iff)
  next
    case False
    have pos: "1 \<le> timer_countdown t" using timer_countdown_pos Cons.prems by blast
    have len: "length nows = timer_countdown (timer_next t)"
      using Cons.prems(2) timer_countdown_next [OF Cons.prems(1) False] by simp
    from Cons.IH [OF timer_next_running [OF Cons.prems(1)] len] obtain t' where t':
      "timer_run speed nows (timer_next t)
         = Inr (replicate (timer_countdown (timer_next t) - 1) False @ [True], t')"
      "timer_running t'" "overflow_state t' = TimerIdle" "tima t' = tma t" "tma t' = tma t"
      "tac t' = tac t" "timer_phase t' = 4"
      "system_counter t' = system_counter t + 1 + of_nat (timer_countdown (timer_next t))"
      by auto
    obtain k where k: "timer_countdown t = Suc (Suc k)"
      using pos False by (metis One_nat_def not0_implies_Suc not_less_eq_eq le0)
    then have k': "timer_countdown (timer_next t) = Suc k"
      using timer_countdown_next [OF Cons.prems(1) False] by simp
    have "\<not> timer_reloads t" using timer_reloads_iff [OF Cons.prems(1)] False by simp
    with t' k k' show ?thesis by (simp add: timer_run_step)
  qed
qed

lemma timer_countdown_after_reload:
  assumes "overflow_state t = TimerIdle" and "timer_phase t = 4"
  shows "timer_countdown t = (256 - unat (tima t)) * timer_period t"
proof -
  have "unat (tima t) < 256" using unsigned_less [of "tima t"] by simp
  then have "256 - unat (tima t) = Suc (255 - unat (tima t))" by simp
  with assms timer_period_ge [of t] show ?thesis by (simp add: timer_countdown_def)
qed

subsection \<open>What the machine does to the timer\<close>

datatype timer_op =
    TimerTick cgb_speed_mode u64
  | TimerDivWrite cgb_speed_mode u8
  | TimerStopReset cgb_speed_mode
  | TimerTimaWrite u8
  | TimerTmaWrite u8
  | TimerTacWrite u8
  | TimerStartup timer_startup_state
  | TimerHandoff u16

fun timer_apply :: "timer_op \<Rightarrow> timer \<Rightarrow> timer res" where
  "timer_apply (TimerTick speed now) t =
     res_map fst (timer_tick_t_cycle_for_speed speed t (context_for_cycle now))"
| "timer_apply (TimerDivWrite speed v) t = Inr (snd (write_div_with_effects_for_speed v speed t))"
| "timer_apply (TimerStopReset speed) t =
     Inr (snd (stop_reset_divider_with_effects_for_speed speed t))"
| "timer_apply (TimerTimaWrite v) t = Inr (write_tima v t)"
| "timer_apply (TimerTmaWrite v) t = Inr (write_tma v t)"
| "timer_apply (TimerTacWrite v) t = Inr (write_tac v t)"
| "timer_apply (TimerStartup s) t = Inr (timer_apply_startup_state s t)"
| "timer_apply (TimerHandoff n) t = Inr (apply_boot_handoff_counter_correction n t)"

fun timer_apply_all :: "timer_op list \<Rightarrow> timer \<Rightarrow> timer res" where
  "timer_apply_all [] t = Inr t"
| "timer_apply_all (x # xs) t = res_bind (timer_apply x t) (timer_apply_all xs)"

lemma timer_tick_wf:
  assumes "timer_wf t"
  shows "\<exists>c'. timer_tick_t_cycle_for_speed speed t (context_for_cycle now) = Inr (timer_next t, c')
    \<and> timer_wf (timer_next t)"
  using assms timer_tick_eq [of "context_for_cycle now" speed t]
  by (auto simp: MAX_DERIVED_EDGES_PER_CYCLE_def MAX_INTERRUPT_REQUESTS_PER_CYCLE_def)

lemma timer_apply_ok:
  assumes "timer_wf t"
  shows "\<exists>t'. timer_apply x t = Inr t' \<and> timer_wf t'"
proof (cases x)
  case (TimerTick speed now)
  with timer_tick_wf [OF assms, of speed now] show ?thesis by auto
qed (use assms in \<open>simp_all add: write_div_with_effects_for_speed_def
  stop_reset_divider_with_effects_for_speed_def\<close>)

lemma timer_apply_all_ok: "timer_wf t \<Longrightarrow> \<exists>t'. timer_apply_all xs t = Inr t' \<and> timer_wf t'"
proof (induction xs arbitrary: t)
  case (Cons x xs)
  then obtain t1 where "timer_apply x t = Inr t1" "timer_wf t1"
    using timer_apply_ok by blast
  with Cons.IH [of t1] show ?case by simp
qed simp

subsection \<open>Properties\<close>

text \<open>C4. Exact interrupt timing. An enabled timer that nobody writes to queues its interrupt
  after exactly \<open>timer_countdown t\<close> T-cycles and not before, at either speed; that cycle
  reloads TIMA from TMA, leaves the counter advanced by the same number, and starts a period
  of exactly \<open>(256 - TMA) * 2^(bit+1)\<close> T-cycles to the next interrupt.\<close>

theorem timer_interrupt_exactly_at_countdown:
  assumes "timer_running t" and "length nows = timer_countdown t"
  shows "\<exists>t'. timer_run speed nows t = Inr (replicate (timer_countdown t - 1) False @ [True], t')
      \<and> tima t' = tma t \<and> tma t' = tma t \<and> tac t' = tac t \<and> overflow_state t' = TimerIdle
      \<and> system_counter t' = system_counter t + of_nat (timer_countdown t)
      \<and> timer_running t'
      \<and> timer_countdown t' = (256 - unat (tma t)) * 2 ^ Suc (selected_timer_bit (tac t))"
proof -
  obtain t' where t': "timer_run speed nows t = Inr (replicate (timer_countdown t - 1) False @ [True], t')"
      "timer_running t'" "overflow_state t' = TimerIdle" "tima t' = tma t" "tma t' = tma t"
      "tac t' = tac t" "timer_phase t' = 4"
      "system_counter t' = system_counter t + of_nat (timer_countdown t)"
    using timer_run_to_reload [OF assms] by blast
  with timer_countdown_after_reload [of t'] show ?thesis
    by (auto simp: timer_period_def)
qed

definition sample_timer :: timer where
  "sample_timer =
     (timer_new GameBoy)\<lparr>system_counter := 0xFFFF, tima := 0xFF, tma := 0xFE, tac := 5,
        previous_timer_signal := True\<rparr>"

lemma sample_timer_running: "timer_running sample_timer" "timer_countdown sample_timer = 5"
  by (simp_all add: sample_timer_def timer_running_def timer_wf_def timer_enabled_def
      timer_countdown_def timer_phase_def timer_period_def timer_new_def selected_timer_bit_def
      timer_simps bit_simps)

theorem timer_interrupt_exactly_at_countdown_witness:
  "\<exists>t'. timer_run DoubleSpeed [0, 1, 2, 3, 4] sample_timer
     = Inr ([False, False, False, False, True], t') \<and> timer_countdown t' = 32"
proof -
  have "length [0, 1, 2, 3, 4 :: u64] = timer_countdown sample_timer"
    by (simp add: sample_timer_running(2))
  moreover have "replicate (timer_countdown sample_timer - 1) False @ [True]
      = [False, False, False, False, True]"
    by (simp add: sample_timer_running(2) numeral_eq_Suc)
  moreover have "(256 - unat (tma sample_timer)) * 2 ^ Suc (selected_timer_bit (tac sample_timer)) = 32"
    by (simp add: sample_timer_def selected_timer_bit_def)
  ultimately show ?thesis
    using timer_interrupt_exactly_at_countdown [OF sample_timer_running(1), of "[0, 1, 2, 3, 4]" DoubleSpeed]
    by metis
qed

text \<open>C13. No sequence of ticks, register writes, STOP resets, startup states and handoff
  corrections makes the timer panic, and every state it reaches keeps the invariant: TAC holds
  three bits, a pending reload is at most four T-cycles away, and the remembered signal is the
  present one.\<close>

theorem timer_never_panics:
  "\<exists>t. timer_apply_all xs (timer_new m) = Inr t \<and> timer_wf t"
  using timer_apply_all_ok by simp

text \<open>The write windows around an overflow. In the T-cycle of the reload a TIMA write is
  lost and a TMA write reaches TIMA too; while the reload is pending a TIMA write cancels it,
  so no interrupt is queued by the ticks that would have reloaded; otherwise both are plain.\<close>

theorem timer_write_windows:
  "(reloaded_this_t_cycle t \<longrightarrow> write_tima v t = t \<and> tima (write_tma v t) = v \<and> tma (write_tma v t) = v)
   \<and> (\<not> reloaded_this_t_cycle t \<longrightarrow>
        tima (write_tima v t) = v \<and> overflow_state (write_tima v t) = TimerIdle
        \<and> \<not> timer_reloads (write_tima v t)
        \<and> tma (write_tma v t) = v \<and> tima (write_tma v t) = tima t
        \<and> overflow_state (write_tma v t) = overflow_state t)"
  by (cases "overflow_state t")
    (simp_all add: write_tima_def write_tma_def overflow_pending_def timer_reloads_def Let_def)

theorem timer_write_windows_witness:
  "\<not> timer_reloads (write_tima 7 (sample_timer\<lparr>overflow_state := TimerPending 1\<rparr>))"
  using timer_write_windows [of "sample_timer\<lparr>overflow_state := TimerPending 1\<rparr>" 7]
  by (simp add: sample_timer_def timer_new_def)

text \<open>A divider reset clears the counter and clocks TIMA exactly when the selected bit was
  high on an enabled timer; an overflow this causes reloads after three further ticks, one
  fewer than an overflow of the running counter.\<close>

theorem timer_divider_reset:
  "case reset_divider_with_effects_for_speed speed src t of (eff, t') \<Rightarrow>
     system_counter t' = 0 \<and> read_div t' = 0
     \<and> tima t' = (if current_timer_signal t \<and> \<not> overflow_pending t then tima t + 1 else tima t)
     \<and> overflow_state t' =
         (if current_timer_signal t \<and> \<not> overflow_pending t \<and> tima t = 0xFF
          then TimerPending 3 else overflow_state t)
     \<and> apu_frame_sequencer_edge eff = current_div_apu_signal_for_speed speed t"
  by (cases src; cases speed)
    (simp_all add: reset_divider_with_effects_for_speed_def apply_timer_signal_change_def
      read_div_def timer_simps overflow_pending_def timer_enabled_def
      current_div_apu_signal_for_speed_def)

end
