(* ===== verification/Machine_Step.thy ===== *)
theory Machine_Step
  imports Cpu_Progress Gb_Timer
begin

text \<open>
  The machine's side of the CPU (\<open>machine/step.rs\<close>): the closure that answers the core, and
  the phases of a T-cycle that run the timer, the core, the interrupt aggregation and the wake
  evaluation. The address space behind the bus, the PPU, the APU and DMA are a record of
  services; the interrupt controller, the joypad, the speed controller, the timer and the
  cycle context are the models of their own theories.
\<close>

record 'b cpu_world =
  w_context :: cycle_context
  w_interrupts :: interrupt_controller
  w_joypad :: joypad
  w_speed :: speed_controller
  w_timer :: timer
  w_rest :: 'b

text \<open>
  What the steps below use of the rest of the machine: bus reads and writes by the CPU, the
  DMA stall, the routing of address events to OAM, the APU's divider edge, the PPU's interrupt
  requests and its deferrals of interrupt service and HALT wake, and the STOP notification.
\<close>

record 'b services =
  svc_read :: "u16 \<Rightarrow> 'b cpu_world \<Rightarrow> u8 \<times> 'b cpu_world"
  svc_write :: "u16 \<Rightarrow> u8 \<Rightarrow> 'b cpu_world \<Rightarrow> 'b cpu_world"
  svc_dma_stall :: "'b \<Rightarrow> bool"
  svc_address_event :: "cpu_address_event \<Rightarrow> 'b \<Rightarrow> 'b"
  svc_div_apu_edge :: "'b \<Rightarrow> 'b"
  svc_ppu_requests :: "'b \<Rightarrow> u8"
  svc_take_ppu_requests :: "'b \<Rightarrow> u8 \<times> 'b"
  svc_vblank_entry_deferred :: "'b \<Rightarrow> bool"
  svc_halt_wake_deferred :: "'b \<Rightarrow> bool"
  svc_system_stop :: "bool \<Rightarrow> 'b \<Rightarrow> 'b"

subsection \<open>The closure of \<open>tick_t_cycle\<close>\<close>

definition machine_external :: "'b services \<Rightarrow> 'b cpu_world cpu_external" where
  "machine_external svc op w =
     (case op of
        BusOp (BusRead address) \<Rightarrow> (case svc_read svc address w of (v, w') \<Rightarrow> Inr (Some v, w'))
      | BusOp (BusWrite address v) \<Rightarrow> Inr (None, svc_write svc address v w)
      | PendingInterruptMask \<Rightarrow> Inr (Some (pending_mask (w_interrupts w)), w)
      | InterruptEnableMask \<Rightarrow> Inr (Some (read_ie (w_interrupts w)), w)
      | StopWakeLineAsserted \<Rightarrow> Inr (Some (u8_of_bool (stop_wake_line_asserted (w_joypad w))), w)
      | CgbSpeedSwitchPrepared \<Rightarrow> Inr (Some (u8_of_bool (switch_armed (w_speed w))), w)
      | AcknowledgeInterrupt source \<Rightarrow>
          Inr (None, w\<lparr>w_interrupts := clear_interrupt source (w_interrupts w)\<rparr>)
      | RequestInterrupt source \<Rightarrow>
          Inr (None, w\<lparr>w_interrupts := request_interrupt source (w_interrupts w)\<rparr>))"

lemma machine_external_answers:
  "\<exists>r w'. machine_external svc op w = Inr (r, w')"
  by (cases op) (auto simp: machine_external_def split: cpu_bus_operation.split prod.split)

text \<open>The laws of the core's port hold of the machine's closure, whatever the services do.\<close>

interpretation mp: cpu_port "machine_external svc" "\<lambda>_. True" for svc :: "'b services"
proof unfold_locales
  show "\<exists>r w'. machine_external svc op w = Inr (r, w') \<and> True" for op and w :: "'b cpu_world"
    using machine_external_answers by auto
  show "r \<noteq> None" if "machine_external svc (BusOp (BusRead a)) w = Inr (r, w')"
    for a and w w' :: "'b cpu_world" and r
    using that by (auto simp: machine_external_def split: prod.splits)
qed

subsection \<open>Phases of a T-cycle\<close>

definition cpu_stop_active :: "cpu_core \<Rightarrow> bool" where
  "cpu_stop_active c =
     (case cpu_state c of
        Stopped \<Rightarrow> True
      | ZombieStopped \<Rightarrow> True
      | SpeedSwitchPause _ \<Rightarrow> True
      | _ \<Rightarrow> False)"

definition current_cycle_scheduler_interrupt_request_mask :: "cycle_context \<Rightarrow> u8" where
  "current_cycle_scheduler_interrupt_request_mask ctx =
     fold (\<lambda>source m. m OR source_mask source) (interrupt_requests ctx) 0"

definition step_derived_edge_resolution ::
    "cpu_core \<times> 'b cpu_world \<Rightarrow> (cpu_core \<times> 'b cpu_world) res" where
  "step_derived_edge_resolution s =
     (case s of (c, w) \<Rightarrow>
        if cpu_stop_active c then Inr (c, w)
        else
          res_map (\<lambda>(t, ctx). (c, w\<lparr>w_timer := t, w_context := ctx\<rparr>))
            (timer_tick_t_cycle_for_speed (speed_current_speed (w_speed w)) (w_timer w) (w_context w)))"

definition apply_stop_div_reset :: "'b services \<Rightarrow> 'b cpu_world \<Rightarrow> 'b cpu_world" where
  "apply_stop_div_reset svc w =
     (case stop_reset_divider_with_effects_for_speed (speed_current_speed (w_speed w)) (w_timer w) of
        (effects, t) \<Rightarrow>
          w\<lparr>w_timer := t,
            w_rest := (if apu_frame_sequencer_edge effects then svc_div_apu_edge svc (w_rest w)
                       else w_rest w)\<rparr>)"

definition finalize_cpu_micro_operation ::
    "'b services \<Rightarrow> cpu_core \<times> 'b cpu_world \<Rightarrow> cpu_core \<times> 'b cpu_world" where
  "finalize_cpu_micro_operation svc s =
     (case s of (c0, w0) \<Rightarrow>
        let w1 = (case cpu_last_address_event c0 of
                    Some event \<Rightarrow> w0\<lparr>w_rest := svc_address_event svc event (w_rest w0)\<rparr>
                  | None \<Rightarrow> w0);
            (div_reset, c1) = take_stop_div_reset_request c0;
            w2 = (if div_reset then apply_stop_div_reset svc w1 else w1);
            (speed_switch, c2) = take_cgb_speed_switch_request c1;
            w3 = (if speed_switch
                  then w2\<lparr>w_speed := snd (begin_prepared_speed_switch (w_speed w2))\<rparr> else w2)
        in (c2, w3))"

definition notify_system_stop ::
    "'b services \<Rightarrow> bool \<Rightarrow> cpu_core \<times> 'b cpu_world \<Rightarrow> cpu_core \<times> 'b cpu_world" where
  "notify_system_stop svc before s =
     (case s of (c, w) \<Rightarrow>
        if before \<noteq> cpu_stop_active c
        then (c, w\<lparr>w_rest := svc_system_stop svc (cpu_stop_active c) (w_rest w)\<rparr>) else (c, w))"

definition accept_current_cycle_timer_interrupt ::
    "cpu_core \<times> 'b cpu_world \<Rightarrow> cpu_core \<times> 'b cpu_world" where
  "accept_current_cycle_timer_interrupt s =
     (case s of (c, w) \<Rightarrow>
        case evaluate_current_cycle_interrupt_requests
               (current_cycle_scheduler_interrupt_request_mask (w_context w) AND source_mask TimerIrq)
               (c, w_interrupts w) of
          (accepted, c', ints) \<Rightarrow>
            (c', w\<lparr>w_interrupts := ints,
                   w_context := (case accepted of
                                   Some source \<Rightarrow> snd (take_interrupt_request source (w_context w))
                                 | None \<Rightarrow> w_context w)\<rparr>))"

definition step_cpu_micro_operation ::
    "'b services \<Rightarrow> cpu_core \<times> 'b cpu_world \<Rightarrow> (cpu_core \<times> 'b cpu_world) res" where
  "step_cpu_micro_operation svc s =
     (case s of (c, w) \<Rightarrow>
        res_map (notify_system_stop svc (cpu_stop_active c))
          (if svc_dma_stall svc (w_rest w) then Inr (tick_dma_stall_t_cycle c, w)
           else
             res_map (\<lambda>(_, s'). finalize_cpu_micro_operation svc s')
               (cpu_tick_t_cycle (machine_external svc) (accept_current_cycle_timer_interrupt (c, w)))))"

definition step_interrupt_aggregation ::
    "'b services \<Rightarrow> cpu_core \<times> 'b cpu_world \<Rightarrow> cpu_core \<times> 'b cpu_world" where
  "step_interrupt_aggregation svc s =
     (case s of (c, w) \<Rightarrow>
        if interrupt_requests (w_context w) = [] \<and> svc_ppu_requests svc (w_rest w) = 0
           \<and> \<not> joy_interrupt_request_pending (w_joypad w)
        then (c, w)
        else
          let ints1 = fold request_interrupt (interrupt_requests (w_context w)) (w_interrupts w);
              (ppu, rest) = svc_take_ppu_requests svc (w_rest w);
              ints2 = (if ppu AND 0x01 \<noteq> 0 then request_interrupt VBlank ints1 else ints1);
              ints3 = (if ppu AND 0x02 \<noteq> 0 then request_interrupt LcdStat ints2 else ints2);
              (pressed, joy) = consume_interrupt_request (w_joypad w);
              ints4 = (if pressed then request_interrupt JoypadIrq ints3 else ints3)
          in (c, w\<lparr>w_interrupts := ints4, w_joypad := joy, w_rest := rest\<rparr>))"

definition step_cpu_wake_interrupt_evaluation ::
    "'b services \<Rightarrow> cpu_core \<times> 'b cpu_world \<Rightarrow> cpu_core \<times> 'b cpu_world" where
  "step_cpu_wake_interrupt_evaluation svc s =
     (case s of (c, w) \<Rightarrow>
        notify_system_stop svc (cpu_stop_active c)
          (if svc_dma_stall svc (w_rest w) then (tick_dma_stall_t_cycle c, w)
           else if highest_pending (w_interrupts w) = Some LcdStat
                \<and> read_ie (w_interrupts w) AND source_mask VBlank \<noteq> 0
                \<and> svc_vblank_entry_deferred svc (w_rest w)
             then (c, w)
           else if cpu_state c = Halted \<and> highest_pending (w_interrupts w) = Some LcdStat
                \<and> svc_halt_wake_deferred svc (w_rest w)
             then (c, w)
           else
             (case evaluate_wake_and_interrupts (c, w_interrupts w, w_joypad w) of
                (c', ints, joy) \<Rightarrow> (c', w\<lparr>w_interrupts := ints, w_joypad := joy\<rparr>))))"

subsection \<open>The core in the machine\<close>

lemma cpu_wf_activity [simp]:
  "cpu_wf (tick_dma_stall_t_cycle c) = cpu_wf c"
  "halt_request_pending (tick_dma_stall_t_cycle c) = halt_request_pending c"
  "cpu_wf (snd (take_stop_div_reset_request c)) = cpu_wf c"
  "cpu_wf (snd (take_cgb_speed_switch_request c)) = cpu_wf c"
  by (simp_all add: tick_dma_stall_t_cycle_def take_stop_div_reset_request_def
      take_cgb_speed_switch_request_def cpu_wf_def core_ok_frame halt_request_pending_iff)

lemma finalize_wf: "cpu_wf (fst (finalize_cpu_micro_operation svc s)) = cpu_wf (fst s)"
  by (cases s) (simp add: finalize_cpu_micro_operation_def Let_def split_beta)

lemma notify_fst [simp]: "fst (notify_system_stop svc b s) = fst s"
  by (cases s) (simp add: notify_system_stop_def)

lemma accept_current_ready:
  "cpu_ready (fst s) \<Longrightarrow> cpu_ready (fst (accept_current_cycle_timer_interrupt s))"
  using evaluate_current_ready [of "fst s"]
  by (cases s) (simp add: accept_current_cycle_timer_interrupt_def split_beta)

lemma micro_operation_ok:
  assumes "cpu_ready c"
  shows "\<exists>c' w'. step_cpu_micro_operation svc (c, w) = Inr (c', w') \<and> cpu_wf c'"
proof -
  obtain c1 w1 where acc: "accept_current_cycle_timer_interrupt (c, w) = (c1, w1)" and ready: "cpu_ready c1"
    using accept_current_ready [of "(c, w)"] assms by (metis fst_conv prod.exhaust)
  then obtain c2 w2 where "cpu_tick_t_cycle (machine_external svc) (c1, w1) = Inr ((), (c2, w2))"
    and "tick_post c1 c2"
    using mp.tick_run [where svc = svc and c = c1 and w = w1] by (auto simp: cpu_ready_def)
  with acc have "case step_cpu_micro_operation svc (c, w) of Inl _ \<Rightarrow> False | Inr s' \<Rightarrow> cpu_wf (fst s')"
    using assms by (simp add: step_cpu_micro_operation_def finalize_wf tick_post_def cpu_ready_def)
  then show ?thesis by (cases "step_cpu_micro_operation svc (c, w)") auto
qed

lemma aggregation_fst [simp]: "fst (step_interrupt_aggregation svc s) = fst s"
  by (cases s) (simp add: step_interrupt_aggregation_def Let_def split_beta)

lemma wake_evaluation_ok:
  assumes "cpu_wf (fst s)"
  shows "cpu_wf (fst (step_cpu_wake_interrupt_evaluation svc s))"
    and "halt_request_pending (fst (step_cpu_wake_interrupt_evaluation svc s)) \<Longrightarrow>
           svc_dma_stall svc (w_rest (snd s)) \<or> svc_vblank_entry_deferred svc (w_rest (snd s))
           \<or> svc_halt_wake_deferred svc (w_rest (snd s))"
proof -
  obtain c w where s: "s = (c, w)" by (rule prod.exhaust)
  have ready: "cpu_ready (fst (evaluate_wake_and_interrupts (c, ints, joy)))" for ints joy
    using assms s by (simp add: evaluate_wake_ready)
  show "cpu_wf (fst (step_cpu_wake_interrupt_evaluation svc s))"
    using assms ready
    by (simp add: s step_cpu_wake_interrupt_evaluation_def cpu_ready_def split_beta)
  show "svc_dma_stall svc (w_rest (snd s)) \<or> svc_vblank_entry_deferred svc (w_rest (snd s))
      \<or> svc_halt_wake_deferred svc (w_rest (snd s))"
    if "halt_request_pending (fst (step_cpu_wake_interrupt_evaluation svc s))"
    using that ready
    by (simp add: s step_cpu_wake_interrupt_evaluation_def cpu_ready_def split_beta split: if_split_asm)
qed

text \<open>The bit of IF of a source.\<close>

definition requested :: "interrupt_source \<Rightarrow> interrupt_controller \<Rightarrow> bool" where
  "requested s c = bit (int_flags c) (source_bit s)"

lemma requested_request [simp]:
  "requested s (request_interrupt a c) \<longleftrightarrow> requested s c \<or> s = a"
  by (simp only: requested_def bit_flags_request source_bit_inject)

lemma requested_fold [simp]:
  "requested s (fold request_interrupt xs c) \<longleftrightarrow> requested s c \<or> s \<in> set xs"
  by (induction xs arbitrary: c) auto

subsection \<open>A flat memory for the witnesses\<close>

definition flat_services :: "(u16 \<Rightarrow> u8) services" where
  "flat_services =
     \<lparr>svc_read = (\<lambda>a w. (w_rest w a, w)), svc_write = (\<lambda>a v w. w\<lparr>w_rest := (w_rest w)(a := v)\<rparr>),
      svc_dma_stall = (\<lambda>_. False), svc_address_event = (\<lambda>_ r. r), svc_div_apu_edge = (\<lambda>r. r),
      svc_ppu_requests = (\<lambda>_. 0), svc_take_ppu_requests = (\<lambda>r. (0, r)),
      svc_vblank_entry_deferred = (\<lambda>_. False), svc_halt_wake_deferred = (\<lambda>_. False),
      svc_system_stop = (\<lambda>_ r. r)\<rparr>"

definition flat_world :: "(u16 \<Rightarrow> u8) \<Rightarrow> (u16 \<Rightarrow> u8) cpu_world" where
  "flat_world mem =
     \<lparr>w_context = context_for_cycle 0, w_interrupts = interrupts_new GameBoy, w_joypad = joypad_new GameBoy,
      w_speed = speed_new GameBoy ModeDmg, w_timer = timer_new GameBoy, w_rest = mem\<rparr>"

lemma cpu_new_ready: "cpu_ready (cpu_new m)"
  by (simp add: cpu_ready_def cpu_wf_def cpu_new_def halt_request_pending_iff flags_wf_def get_f_def
      registers_from_startup_state_def power_on_reset_def static_of_def in_flight_default_def)

lemma startup_ready: "cpu_ready (cpu_apply_startup_state s c)"
  by (simp add: cpu_ready_def cpu_wf_def cpu_apply_startup_state_def halt_request_pending_iff
      flags_wf_def get_f_def registers_from_startup_state_def clear_in_flight_instruction_state_def
      and_0xF0_low)

subsection \<open>Properties\<close>

text \<open>C1. The core never panics: from a well-formed state with no HALT request outstanding, one
  T-cycle against the machine returns, whatever the bus answers and whatever the opcode, and
  leaves a well-formed state; every arm marked unreachable is, and every bus read of the core is answered.\<close>

theorem core_never_panics:
  assumes "cpu_ready c"
  shows "\<exists>c' w'. cpu_tick_t_cycle (machine_external svc) (c, w) = Inr ((), (c', w'))
           \<and> cpu_wf c' \<and> (halt_request_pending c' \<longrightarrow> at_boundary c')"
proof -
  obtain c' w' where "cpu_tick_t_cycle (machine_external svc) (c, w) = Inr ((), (c', w'))"
    and "tick_post c c'"
    using mp.tick_run [where svc = svc and c = c and w = w] assms by (auto simp: cpu_ready_def)
  then show ?thesis by (auto simp: tick_post_def)
qed

theorem core_never_panics_witness:
  "\<exists>c' w'. cpu_tick_t_cycle (machine_external flat_services) (cpu_new GameBoy, flat_world (\<lambda>_. 0x76))
       = Inr ((), (c', w')) \<and> cpu_wf c' \<and> (halt_request_pending c' \<longrightarrow> at_boundary c')"
  by (rule core_never_panics [OF cpu_new_ready])

text \<open>C2. The core makes progress: from every well-formed state with no HALT request outstanding,
  between one and 24 T-cycles bring it to rest between instructions (fetching, asleep, pausing
  or trapped), whatever the bus answers; no instruction and no interrupt service sequence runs forever or stalls.\<close>

theorem core_comes_to_rest:
  assumes "cpu_ready c"
  shows "\<exists>n c' w'. 0 < n \<and> n \<le> 24 \<and> cpu_run (machine_external svc) n (c, w) = Inr ((), (c', w'))
           \<and> cpu_wf c' \<and> at_boundary c'"
proof -
  obtain n c' w' where n: "0 < n" "n \<le> max 1 (cycles_left c)"
    and run: "cpu_run (machine_external svc) n (c, w) = Inr ((), (c', w'))" "cpu_wf c'" "at_boundary c'"
    using assms mp.run_to_boundary [where svc = svc and c = c and w = w] by (auto simp: cpu_ready_def)
  have "cycles_left c \<le> 24" by (rule cycles_left_le)
  with n have "n \<le> 24" by simp
  with n run show ?thesis by blast
qed

theorem core_comes_to_rest_witness:
  "\<exists>n c' w'. 0 < n \<and> n \<le> 24
     \<and> cpu_run (machine_external flat_services) n (cpu_new GameBoy, flat_world (\<lambda>_. 0xCD)) = Inr ((), (c', w'))
     \<and> cpu_wf c' \<and> at_boundary c'"
  by (rule core_comes_to_rest [OF cpu_new_ready])

text \<open>
  The states of the core in a running machine: after a reset with some startup state, then any
  number of CPU phases and wake evaluations, against arbitrary worlds. A CPU phase is taken
  when no HALT request is outstanding.
\<close>

inductive core_reachable :: "'b services \<Rightarrow> cpu_core \<Rightarrow> bool" for svc where
  reset: "core_reachable svc (cpu_apply_startup_state s c)"
| micro: "core_reachable svc c \<Longrightarrow> \<not> halt_request_pending c
          \<Longrightarrow> step_cpu_micro_operation svc (c, w) = Inr (c', w') \<Longrightarrow> core_reachable svc c'"
| wake: "core_reachable svc c
          \<Longrightarrow> step_cpu_wake_interrupt_evaluation svc (c, w) = (c', w') \<Longrightarrow> core_reachable svc c'"

lemma core_reachable_wf: "core_reachable svc c \<Longrightarrow> cpu_wf c"
proof (induction rule: core_reachable.induct)
  case (reset s c)
  then show ?case using startup_ready by (simp add: cpu_ready_def)
next
  case (micro c w c' w')
  then show ?case using micro_operation_ok [of c svc w] by (auto simp: cpu_ready_def)
next
  case (wake c w c' w')
  then show ?case using wake_evaluation_ok(1) [of "(c, w)" svc] by simp
qed

text \<open>C9. Every reachable state of the core in the machine is well formed (the low nibble of F is
  zero, the EI delay is one or two, the step in flight is one its instruction has), its CPU
  phase never panics when no HALT request is outstanding, and a wake evaluation leaves a HALT
  request outstanding only when the phase was stalled by DMA or deferred by the PPU.\<close>

theorem reachable_core_is_safe:
  assumes "core_reachable svc c"
  shows "cpu_wf c
     \<and> (halt_request_pending c \<or> (\<exists>c' w'. step_cpu_micro_operation svc (c, w) = Inr (c', w')))
     \<and> (svc_dma_stall svc (w_rest w) \<or> svc_vblank_entry_deferred svc (w_rest w)
        \<or> svc_halt_wake_deferred svc (w_rest w)
        \<or> cpu_ready (fst (step_cpu_wake_interrupt_evaluation svc (c, w))))"
  using core_reachable_wf [OF assms] micro_operation_ok [of c svc w]
    wake_evaluation_ok [of "(c, w)" svc]
  by (auto simp: cpu_ready_def)

theorem reachable_core_is_safe_witness:
  "let c = cpu_apply_startup_state power_on_reset (cpu_new GameBoy); w = flat_world (\<lambda>_. 0)
   in cpu_wf c
     \<and> (halt_request_pending c \<or> (\<exists>c' w'. step_cpu_micro_operation flat_services (c, w) = Inr (c', w')))
     \<and> (svc_dma_stall flat_services (w_rest w) \<or> svc_vblank_entry_deferred flat_services (w_rest w)
        \<or> svc_halt_wake_deferred flat_services (w_rest w)
        \<or> cpu_ready (fst (step_cpu_wake_interrupt_evaluation flat_services (c, w))))"
  unfolding Let_def by (rule reachable_core_is_safe [OF core_reachable.reset])

text \<open>C10. Interrupt aggregation is exact: after it, IF has exactly the bits it had, those of the
  requests queued in this cycle, VBlank and STAT as the PPU asked, and the joypad's; the
  early exit when nothing is pending loses none. The PPU hands over the mask it shows.\<close>

theorem aggregation_is_exact:
  assumes "fst (svc_take_ppu_requests svc (w_rest w)) = svc_ppu_requests svc (w_rest w)"
  shows "requested s (w_interrupts (snd (step_interrupt_aggregation svc (c, w))))
     \<longleftrightarrow> requested s (w_interrupts w)
         \<or> s \<in> set (interrupt_requests (w_context w))
         \<or> s = VBlank \<and> bit (svc_ppu_requests svc (w_rest w)) 0
         \<or> s = LcdStat \<and> bit (svc_ppu_requests svc (w_rest w)) 1
         \<or> s = JoypadIrq \<and> joy_interrupt_request_pending (w_joypad w)"
proof -
  have masks: "(m AND 0x01 \<noteq> 0) = bit m 0" "(m AND 0x02 \<noteq> 0) = bit m 1" for m :: u8
    using and_source_mask [of m VBlank] and_source_mask [of m LcdStat] by simp_all
  show ?thesis
    using assms
    by (auto simp: step_interrupt_aggregation_def Let_def split_beta masks consume_interrupt_request_def)
qed

theorem aggregation_is_exact_witness:
  "requested JoypadIrq (w_interrupts (snd (step_interrupt_aggregation flat_services
      (cpu_new GameBoy, (flat_world (\<lambda>_. 0))\<lparr>w_joypad := (joypad_new GameBoy)\<lparr>joy_interrupt_request_pending := True\<rparr>\<rparr>))))"
  by (subst aggregation_is_exact) (simp_all add: flat_services_def flat_world_def)

end
