(* ===== verification/Cpu_Timing.thy ===== *)
theory Cpu_Timing
  imports Machine_Step
begin

text \<open>
  How long instructions take: an independent table of machine cycles, and the proof that every
  instruction stays in flight for exactly four times that many T-cycles.
\<close>

subsection \<open>The table\<close>

text \<open>Machine cycles of an instruction, its fetch included; the flag is whether a branch is taken.\<close>

fun machine_cycles :: "cpu_instruction_kind \<Rightarrow> bool \<Rightarrow> nat" where
  "machine_cycles (LoadRegisterPairImmediate _) _ = 3"
| "machine_cycles StoreImmediateToHl _ = 3"
| "machine_cycles LoadAFromImmediate16Address _ = 4"
| "machine_cycles StoreAToImmediate16Address _ = 4"
| "machine_cycles LoadAFromHighImmediateAddress _ = 3"
| "machine_cycles StoreAToHighImmediateAddress _ = 3"
| "machine_cycles StoreSpToImmediate16 _ = 5"
| "machine_cycles LoadHlFromSpPlusImmediate _ = 3"
| "machine_cycles AddSpImmediate _ = 4"
| "machine_cycles IncrementHlMemory _ = 3"
| "machine_cycles DecrementHlMemory _ = 3"
| "machine_cycles RelativeJump _ = 3"
| "machine_cycles (ConditionalRelativeJump _) taken = (if taken then 3 else 2)"
| "machine_cycles AbsoluteJump _ = 4"
| "machine_cycles (ConditionalAbsoluteJump _) taken = (if taken then 4 else 3)"
| "machine_cycles Call _ = 6"
| "machine_cycles (ConditionalCall _) taken = (if taken then 6 else 3)"
| "machine_cycles Return _ = 4"
| "machine_cycles (ConditionalReturn _) taken = (if taken then 5 else 2)"
| "machine_cycles ReturnFromInterrupt _ = 4"
| "machine_cycles (Restart _) _ = 4"
| "machine_cycles (PushRegisterPair _) _ = 4"
| "machine_cycles (PopRegisterPair _) _ = 3"
| "machine_cycles _ _ = 2"

text \<open>Whether the branch of a conditional instruction is taken, on the flags byte.\<close>

fun branch_taken :: "cpu_instruction_kind \<Rightarrow> cpu_core \<Rightarrow> bool" where
  "branch_taken (ConditionalRelativeJump cond) c = condition_is_met (Some cond) c"
| "branch_taken (ConditionalAbsoluteJump cond) c = condition_is_met (Some cond) c"
| "branch_taken (ConditionalCall cond) c = condition_is_met (Some cond) c"
| "branch_taken (ConditionalReturn cond) c = condition_is_met (Some cond) c"
| "branch_taken _ c = True"

text \<open>Machine cycles of the instruction an opcode starts; an invalid opcode traps on its fetch.\<close>

definition opcode_cycles :: "u8 \<Rightarrow> cpu_core \<Rightarrow> nat" where
  "opcode_cycles opcode c =
     (case opcode_map opcode of
        Execute k \<Rightarrow> machine_cycles k (branch_taken k c)
      | _ \<Rightarrow> 1)"

lemma opcode_map_special:
  "opcode_map opcode = Execute Stop \<longleftrightarrow> opcode = 0x10"
  "opcode_map opcode = Execute CbPrefixed \<longleftrightarrow> opcode = 0xCB"
  by (rule u8_byte_cases [of _ opcode]; simp add: opcode_map_defs)+

lemma condition_depends_on_f: "get_f c = get_f c' \<Longrightarrow> condition_is_met cond c = condition_is_met cond c'"
  by (simp add: condition_is_met_def split: option.split condition_code.split)

lemma branch_taken_depends_on_f: "get_f c = get_f c' \<Longrightarrow> branch_taken k c = branch_taken k c'"
  by (cases k) (simp_all add: condition_depends_on_f [of c c'])

subsection \<open>Staying in flight\<close>

text \<open>
  \<open>runs_for ext n Q s\<close>: the next \<open>n\<close> T-cycles return, the core is between instructions after
  none of them but possibly the last, and then \<open>Q\<close> holds.
\<close>

fun runs_for :: "'w cpu_external \<Rightarrow> nat \<Rightarrow> (cpu_core \<times> 'w \<Rightarrow> bool) \<Rightarrow> cpu_core \<times> 'w \<Rightarrow> bool" where
  "runs_for ext 0 Q s = Q s"
| "runs_for ext (Suc n) Q s =
     wp (cpu_tick_t_cycle ext) (\<lambda>_ s'. (n = 0 \<or> \<not> at_boundary (fst s')) \<and> runs_for ext n Q s') s"

lemma runs_for_add:
  "runs_for ext m (\<lambda>s. (n = 0 \<or> \<not> at_boundary (fst s)) \<and> runs_for ext n Q s) s
   \<Longrightarrow> runs_for ext (m + n) Q s"
proof (induction m arbitrary: s)
  case (Suc m)
  have "wp (cpu_tick_t_cycle ext) (\<lambda>_ s'. (m = 0 \<or> \<not> at_boundary (fst s'))
      \<and> runs_for ext m (\<lambda>s. (n = 0 \<or> \<not> at_boundary (fst s)) \<and> runs_for ext n Q s) s') s"
    using Suc.prems by simp
  then have "wp (cpu_tick_t_cycle ext) (\<lambda>_ s'. (m + n = 0 \<or> \<not> at_boundary (fst s'))
      \<and> runs_for ext (m + n) Q s') s"
    by (rule wp_mono) (use Suc.IH in \<open>cases m; auto\<close>)
  then show ?case by simp
qed simp

lemma runs_for_mono: "runs_for ext n Q s \<Longrightarrow> (\<And>s'. Q s' \<Longrightarrow> R s') \<Longrightarrow> runs_for ext n R s"
proof (induction n arbitrary: s)
  case (Suc n)
  from Suc.prems(1) have "wp (cpu_tick_t_cycle ext)
      (\<lambda>_ s'. (n = 0 \<or> \<not> at_boundary (fst s')) \<and> runs_for ext n Q s') s" by simp
  then have "wp (cpu_tick_t_cycle ext)
      (\<lambda>_ s'. (n = 0 \<or> \<not> at_boundary (fst s')) \<and> runs_for ext n R s') s"
    by (rule wp_mono) (use Suc.IH Suc.prems(2) in blast)
  then show ?case by simp
qed simp

lemma runs_for_run:
  "runs_for ext n Q s \<Longrightarrow> \<exists>s'. cpu_run ext n s = Inr ((), s') \<and> Q s'"
  by (induction n arbitrary: s) (fastforce simp: sm_defs wp_iff_run)+

lemma four_ticks: "runs_for ext 4 Q s = runs_for ext (Suc (Suc (Suc (Suc 0)))) Q s"
  by (simp add: eval_nat_numeral)

lemma t_less_last: "(0::u8) < LAST_MACHINE_CYCLE_T" "(1::u8) < LAST_MACHINE_CYCLE_T"
  "(2::u8) < LAST_MACHINE_CYCLE_T" "\<not> (3::u8) < LAST_MACHINE_CYCLE_T"
  by (simp_all add: LAST_MACHINE_CYCLE_T_def word_less_nat_alt)

lemma execute_machine_cycle:
  assumes "cpu_state c = ExecuteStep step 0"
    and "wp (complete_execute_machine_cycle ext step) (\<lambda>_. Q)
           (clear_activity (c\<lparr>cpu_state := ExecuteStep step 3\<rparr>), w)"
  shows "runs_for ext 4 Q (c, w)"
  using assms
  by (simp add: four_ticks cpu_tick_t_cycle_def wp_simps dispatch_execution_state_def t_less_last
      wp_cpu_res advance_execute_t_cycle_def clear_activity_def at_boundary_def)

lemma fetch_machine_cycle:
  assumes "cpu_state c = FetchOpcode 0"
    and "wp (complete_fetch_opcode ext) (\<lambda>_. Q) (clear_activity (c\<lparr>cpu_state := FetchOpcode 3\<rparr>), w)"
  shows "runs_for ext 4 Q (c, w)"
  using assms
  by (simp add: four_ticks cpu_tick_t_cycle_def wp_simps dispatch_execution_state_def t_less_last
      wp_cpu_res advance_fetch_t_cycle_def clear_activity_def at_boundary_def)

subsection \<open>One machine cycle\<close>

text \<open>The instruction is in flight and the flags are those it started with.\<close>

definition in_flight_with :: "in_flight_static \<Rightarrow> u8 \<Rightarrow> cpu_core \<Rightarrow> bool" where
  "in_flight_with st f c = (core_ok st c \<and> get_f c = f)"

lemma get_f_frame [core_ok_frame]:
  "get_f (record_bus_activity k a v c) = get_f c"
  "get_f (record_address_event e c) = get_f c"
  "get_f (set_operand8 v c) = get_f c"
  "get_f (set_operand16 p c) = get_f c"
  "get_f (or_high_latch v c) = get_f c"
  "get_f (snd (consume_halt_bug_pending c)) = get_f c"
  "get_f (write_register16 r p c) = get_f c"
  "get_f (snd (increment_or_decrement_register16 r d c)) = get_f c"
  "get_f (decrement_sp_and_record_idu_event c) = get_f c"
  "get_f (prepare_pc_stack_push c) = get_f c"
  "get_f (advance_instruction op s c) = get_f c"
  "get_f (clear_activity c) = get_f c"
  "get_f (set_current_opcode opcode c) = get_f c"
  by (simp_all add: get_f_def record_bus_activity_def record_address_event_def set_operand8_def
      set_operand16_def or_high_latch_def consume_halt_bug_pending_def advance_instruction_def
      increment_or_decrement_register16_def decrement_sp_and_record_idu_event_def set_sp_def
      prepare_pc_stack_push_def clear_activity_def set_current_opcode_def Let_def split: cpu_execution_state.split)
    (cases r; simp add: write_register16.simps)+

lemma in_flight_with_stable: "bus_stable (in_flight_with st f)"
  by (simp add: bus_stable_def in_flight_with_def core_ok_frame)

lemma in_flight_with_simps [core_ok_frame]:
  "in_flight_with st f (set_operand8 v c) = in_flight_with st f c"
  "in_flight_with st f (set_operand16 p c) = in_flight_with st f c"
  "in_flight_with st f (or_high_latch v c) = in_flight_with st f c"
  "in_flight_with st f (decrement_sp_and_record_idu_event c) = in_flight_with st f c"
  "in_flight_with st f (prepare_pc_stack_push c) = in_flight_with st f c"
  "in_flight_with st f (advance_instruction op s c) = in_flight_with st f c"
  "in_flight_with st f (clear_activity c) = in_flight_with st f c"
  by (simp_all add: in_flight_with_def core_ok_frame)

lemma in_flight_with_set_opcode:
  "in_flight_with (op, k, g, cb) f c \<Longrightarrow> in_flight_with (Some opcode, k, g, cb) f (set_current_opcode opcode c)"
  using core_ok_set_opcode [of op k g cb c opcode] by (simp add: in_flight_with_def core_ok_frame)

definition timed_post :: "in_flight_static \<Rightarrow> u8 \<Rightarrow> u8 \<Rightarrow> nat \<Rightarrow> cpu_core \<Rightarrow> bool" where
  "timed_post st f step n c =
     (if unat step + 2 = n then cpu_state c = fetch_opcode
      else cpu_state c = ExecuteStep (step + 1) 0 \<and> in_flight_with st f c)"

context cpu_port
begin

lemmas timed_port_rules = port_rules [OF in_flight_with_stable]

lemma timed_cycle:
  assumes core: "in_flight_with (Some op, Some k, Some (execution_group k), cb) (get_f c0) c" and inv: "inv w"
    and kind: "k \<noteq> CbPrefixed" "k \<noteq> Stop"
    and step: "unat step + 2 \<le> machine_cycles k (branch_taken k c0)"
  shows "wp (complete_execute_machine_cycle ext step)
    (\<lambda>_ s. timed_post (Some op, Some k, Some (execution_group k), cb) (get_f c0) step
              (machine_cycles k (branch_taken k c0)) (fst s) \<and> inv (snd s)) (c, w)"
proof -
  let ?st = "(Some op, Some k, Some (execution_group k), cb)"
  have descriptor: "execution_descriptor (cpu_in_flight c) = Some (k, execution_group k)"
    using core by (simp add: in_flight_with_def core_ok_def static_of_def execution_descriptor_def)
  have met: "in_flight_with st (get_f c0) c' \<Longrightarrow> condition_is_met cond c' = condition_is_met cond c0" for st c' cond
    by (rule condition_depends_on_f) (simp add: in_flight_with_def)
  have "machine_cycles k (branch_taken k c0) \<le> 6" by (cases k) simp_all
  with step have "step \<le> 4" by (simp add: word_le_nat_alt)
  then have "step = 0 \<or> step = 1 \<or> step = 2 \<or> step = 3 \<or> step = 4" by (rule u8_le_4)
  moreover obtain taken where "branch_taken k c0 = taken" by blast
  ultimately show ?thesis
    using core inv step kind
    unfolding complete_execute_machine_cycle_def
    apply (simp add: wp_simps descriptor)
    apply (cases k; cases taken; elim disjE)
    apply (simp_all add: execution_group_def machine_cycle_simps)
    apply ((rule timed_port_rules [where st = ?st and f = "get_f c0"],
          simp add: core_ok_frame execution_group_def, assumption)?;
        simp add: wp_simps finish_def advance_to_def execution_group_def core_ok_frame timed_post_def
          met)+
    done
qed

lemma execute_run:
  assumes "in_flight_with (Some op, Some k, Some (execution_group k), cb) (get_f c0) c" and "inv w"
    and "k \<noteq> CbPrefixed" and "k \<noteq> Stop" and "cpu_state c = ExecuteStep step 0"
    and "unat step + 2 \<le> machine_cycles k (branch_taken k c0)"
  shows "runs_for ext (4 * (machine_cycles k (branch_taken k c0) - 1 - unat step))
    (\<lambda>s. cpu_state (fst s) = fetch_opcode \<and> inv (snd s)) (c, w)"
  using assms
proof (induction "machine_cycles k (branch_taken k c0) - unat step" arbitrary: c w step rule: less_induct)
  case less
  let ?st = "(Some op, Some k, Some (execution_group k), cb)"
  let ?n = "machine_cycles k (branch_taken k c0)"
  let ?Q = "\<lambda>s. cpu_state (fst s) = fetch_opcode \<and> inv (snd s)"
  have "in_flight_with ?st (get_f c0) (clear_activity (c\<lparr>cpu_state := ExecuteStep step 3\<rparr>))"
    using less.prems(1) by (simp add: in_flight_with_def core_ok_frame) (simp add: get_f_def)
  from timed_cycle [OF this less.prems(2,3,4,6)]
  have cycle: "runs_for ext 4 (\<lambda>s. timed_post ?st (get_f c0) step ?n (fst s) \<and> inv (snd s)) (c, w)"
    by (intro execute_machine_cycle [OF less.prems(5)]) simp
  show ?case
  proof (cases "unat step + 2 = ?n")
    case True
    then have "4 * (?n - 1 - unat step) = 4" by linarith
    with True cycle show ?thesis by (simp add: timed_post_def)
  next
    case False
    have "?n \<le> 6" by (cases k) simp_all
    then have next_step: "unat (step + 1) = unat step + 1"
      using less.prems(6) by (simp add: unat_word_ariths)
    have rest: "4 * (?n - 1 - unat step) = 4 + 4 * (?n - 1 - unat (step + 1))"
      using False less.prems(6) next_step by simp
    have "runs_for ext 4 (\<lambda>s. (4 * (?n - 1 - unat (step + 1)) = 0 \<or> \<not> at_boundary (fst s))
        \<and> runs_for ext (4 * (?n - 1 - unat (step + 1))) ?Q s) (c, w)"
      using cycle
    proof (rule runs_for_mono)
      fix s' assume "timed_post ?st (get_f c0) step ?n (fst s') \<and> inv (snd s')"
      then have state: "cpu_state (fst s') = ExecuteStep (step + 1) 0"
        and flow: "in_flight_with ?st (get_f c0) (fst s')" "inv (snd s')"
        using False by (simp_all add: timed_post_def)
      have "runs_for ext (4 * (?n - 1 - unat (step + 1))) ?Q (fst s', snd s')"
        using flow state False less.prems(3,4,6) next_step by (intro less.hyps) simp_all
      then show "(4 * (?n - 1 - unat (step + 1)) = 0 \<or> \<not> at_boundary (fst s'))
          \<and> runs_for ext (4 * (?n - 1 - unat (step + 1))) ?Q s'"
        using state by (simp add: at_boundary_def)
    qed
    then show ?thesis unfolding rest by (rule runs_for_add)
  qed
qed

lemma fetch_reads:
  assumes read: "ext (BusOp (BusRead (get_pc c))) w = Inr (Some opcode, w1)" and "inv w"
    and flow: "in_flight_with (None, None, None, None) f c"
    and rest: "\<And>c'. in_flight_with (Some opcode, None, None, None) f c' \<Longrightarrow> inv w1
           \<Longrightarrow> wp (dispatch_fetched_opcode ext opcode) Q (c', w1)"
  shows "wp (complete_fetch_opcode ext) Q (c, w)"
proof -
  have "inv w1" using read call_ok [OF assms(2), of "BusOp (BusRead (get_pc c))"] by auto
  then have "wp (dispatch_fetched_opcode ext opcode) Q (set_current_opcode opcode c', w1)"
    if "in_flight_with (None, None, None, None) f c'" for c'
    using that in_flight_with_set_opcode rest by blast
  then show ?thesis
    using read bus_stableD [OF in_flight_with_stable] flow
    by (simp add: complete_fetch_opcode_def read_opcode_u8_def read_pc_u8_with_kind_def
        read_byte_with_kind_def wp_simps wp_external_call Let_def)
qed

lemma instruction_runs:
  assumes read: "ext (BusOp (BusRead (get_pc c))) w = Inr (Some opcode, w1)" and "inv w"
    and ready: "cpu_ready c" and state: "cpu_state c = fetch_opcode"
    and plain: "opcode \<noteq> 0x10" "opcode \<noteq> 0xCB"
  shows "runs_for ext (4 * opcode_cycles opcode c) (\<lambda>s. at_boundary (fst s) \<and> inv (snd s)) (c, w)"
proof -
  let ?c = "clear_activity (c\<lparr>cpu_state := FetchOpcode 3\<rparr>)"
  have pc: "get_pc ?c = get_pc c"
    by (simp add: get_pc_def clear_activity_def)
  have f: "get_f ?c = get_f c"
    by (simp add: get_f_def clear_activity_def)
  have flow: "in_flight_with (None, None, None, None) (get_f c) ?c"
    using ready state f
    by (simp add: in_flight_with_def cpu_ready_def cpu_wf_def core_ok_def
        halt_request_pending_iff clear_activity_def flags_wf_def get_f_def)
  have fetch: "runs_for ext 4 Q (c, w)"
    if "\<And>c'. in_flight_with (Some opcode, None, None, None) (get_f c) c' \<Longrightarrow> inv w1
          \<Longrightarrow> wp (dispatch_fetched_opcode ext opcode) (\<lambda>_. Q) (c', w1)" for Q
    using state read pc that
    by (intro fetch_machine_cycle fetch_reads [OF _ \<open>inv w\<close> flow]) (auto simp: fetch_opcode_def)
  show ?thesis
  proof (cases "opcode_map opcode")
    case (CompleteOnFetch kind)
    then show ?thesis
      using plain complete_fetch_completion_ok(2)
      by (auto intro!: fetch simp: dispatch_fetched_opcode_def fast_path_eq_map wp_simps
          opcode_cycles_def in_flight_with_def at_boundary_fetch)
  next
    case Unsupported
    then show ?thesis
      using plain
      by (auto intro!: fetch simp: dispatch_fetched_opcode_def fast_path_eq_map wp_simps
          opcode_cycles_def enter_invalid_opcode_trap_def at_boundary_def Let_def
          clear_decoded_instruction_state_def)
  next
    case (Execute k)
    then have kind: "k \<noteq> CbPrefixed" "k \<noteq> Stop"
      using plain opcode_map_special [of opcode] by auto
    let ?n = "machine_cycles k (branch_taken k c)"
    have "2 \<le> ?n" by (cases k) simp_all
    then have n: "4 * opcode_cycles opcode c = 4 + 4 * (?n - 1)"
      using Execute by (simp add: opcode_cycles_def)
    have "runs_for ext 4 (\<lambda>s. (4 * (?n - 1) = 0 \<or> \<not> at_boundary (fst s))
        \<and> runs_for ext (4 * (?n - 1)) (\<lambda>s. at_boundary (fst s) \<and> inv (snd s)) s) (c, w)"
    proof (rule fetch)
      fix c' assume c': "in_flight_with (Some opcode, None, None, None) (get_f c) c'" and "inv w1"
      let ?b = "begin_instruction opcode k c'"
      have "in_flight_with (Some opcode, Some k, Some (execution_group k), None) (get_f c) ?b"
        using c' by (simp add: in_flight_with_def core_ok_def static_of_def begin_instruction_def
            core_ok_frame get_f_def)
      from execute_run [OF this \<open>inv w1\<close> kind, of 0]
      have "runs_for ext (4 * (?n - 1)) (\<lambda>s. at_boundary (fst s) \<and> inv (snd s)) (?b, w1)"
        using \<open>2 \<le> ?n\<close> by (auto simp: begin_instruction_def at_boundary_fetch elim!: runs_for_mono)
      then show "wp (dispatch_fetched_opcode ext opcode) (\<lambda>_ s. (4 * (?n - 1) = 0 \<or> \<not> at_boundary (fst s))
        \<and> runs_for ext (4 * (?n - 1)) (\<lambda>s. at_boundary (fst s) \<and> inv (snd s)) s) (c', w1)"
        using plain Execute
        by (simp add: dispatch_fetched_opcode_def fast_path_eq_map wp_simps at_boundary_def
            begin_instruction_def)
    qed
    then show ?thesis unfolding n by (rule runs_for_add)
  qed
qed

end

subsection \<open>Property\<close>

text \<open>C15. Instruction timing is exact: from a fetch, every opcode but STOP and the CB prefix keeps the
  core busy for exactly four T-cycles per machine cycle of the instruction-set table (a
  conditional branch takes its longer time exactly when the condition holds), returning to the
  boundary at the end and not before, whatever the bus answers.\<close>

theorem instruction_timing_is_exact:
  assumes "cpu_ready c" and "cpu_state c = fetch_opcode"
    and "opcode = fst (svc_read svc (get_pc c) w)" and "opcode \<notin> {0x10, 0xCB}"
  shows "runs_for (machine_external svc) (4 * opcode_cycles opcode c) (\<lambda>s. at_boundary (fst s)) (c, w)"
proof -
  have "machine_external svc (BusOp (BusRead (get_pc c))) w
      = Inr (Some opcode, snd (svc_read svc (get_pc c) w))"
    using assms(3) by (simp add: machine_external_def split_beta)
  from mp.instruction_runs [OF this] assms show ?thesis by simp
qed

theorem instruction_timing_is_exact_witness:
  "runs_for (machine_external flat_services) 24 (\<lambda>s. at_boundary (fst s))
     (cpu_new GameBoy, flat_world (\<lambda>_. 0xCD))"
proof -
  have "opcode_cycles 0xCD (cpu_new GameBoy) = 6"
    by (simp add: opcode_cycles_def opcode_map_defs)
  then show ?thesis
    using instruction_timing_is_exact [where c = "cpu_new GameBoy" and opcode = "0xCD"
        and svc = flat_services and w = "flat_world (\<lambda>_. 0xCD)"] cpu_new_ready
    by (simp add: cpu_new_def flat_services_def flat_world_def)
qed

end
