(* ===== verification/Cpu_Arith.thy ===== *)
theory Cpu_Arith
  imports Cpu_Alu
begin

text \<open>
  The arithmetic unit against arithmetic on integers: results and flags of the eight
  accumulator operations and of the 16-bit additions, decimal adjustment as correctness of
  packed-decimal addition and subtraction, and the rotates and shifts bit by bit.
\<close>

subsection \<open>Nibbles as numbers\<close>

named_theorems nibble_simps \<open>masked words as remainders\<close>

lemma low_nibble [nibble_simps]: "unat ((a::u8) AND 0x0F) = unat a mod 16"
  using unat_and_low_bits [of a 4] by (simp add: mask_eq_exp_minus_1)

lemma low_12 [nibble_simps]: "unat ((a::u16) AND 0x0FFF) = unat a mod 4096"
  using unat_and_low_bits [of a 12] by (simp add: mask_eq_exp_minus_1)

lemma low_nibble_16 [nibble_simps]: "unat ((a::u16) AND 0x000F) = unat a mod 16"
  using unat_and_low_bits [of a 4] by (simp add: mask_eq_exp_minus_1)

lemma low_byte_16 [nibble_simps]: "unat ((a::u16) AND 0x00FF) = unat a mod 256"
  using unat_and_low_bits [of a 8] by (simp add: mask_eq_exp_minus_1)

lemma unat_u8_bound [simp]: "unat (a::u8) < 256"
  using unsigned_less [of a, where ?'a = nat] by simp

lemma unat_u16_bound [simp]: "unat (a::u16) < 65536"
  using unsigned_less [of a, where ?'a = nat] by simp

text \<open>The comparisons that give the half carry and the carry.\<close>

lemma half_carry_add [nibble_simps]:
  "((a::u8) AND 0x0F) + (v AND 0x0F) > 0x0F \<longleftrightarrow> 16 \<le> unat a mod 16 + unat v mod 16"
proof -
  have "unat a mod 16 + unat v mod 16 < 256" by (simp add: add_less_le_mono mod_less_divisor order.strict_trans1)
  then show ?thesis by (simp add: word_less_nat_alt unat_word_ariths nibble_simps; linarith)
qed

lemma of_bool_le_1: "of_bool b \<le> (1::nat)"
  by simp

lemma unat_u8_of_bool [simp]: "unat (u8_of_bool b) = of_bool b"
  by (simp add: u8_of_bool_def)

lemma half_carry_adc [nibble_simps]:
  "((a::u8) AND 0x0F) + (v AND 0x0F) + u8_of_bool b > 0x0F
     \<longleftrightarrow> 16 \<le> unat a mod 16 + unat v mod 16 + of_bool b"
proof -
  have "unat a mod 16 < 16" "unat v mod 16 < 16" "of_bool b \<le> (1::nat)" by simp_all
  then have "unat a mod 16 + unat v mod 16 + of_bool b < 256" by linarith
  then show ?thesis by (simp add: word_less_nat_alt unat_word_ariths nibble_simps; linarith)
qed

lemma half_borrow [nibble_simps]:
  "((a::u8) AND 0x0F) < (v AND 0x0F) \<longleftrightarrow> unat a mod 16 < unat v mod 16"
  by (simp add: word_less_nat_alt nibble_simps)

lemma half_borrow_sbc [nibble_simps]:
  "((a::u8) AND 0x0F) < (v AND 0x0F) + u8_of_bool b \<longleftrightarrow> unat a mod 16 < unat v mod 16 + of_bool b"
proof -
  have "unat v mod 16 < 16" "of_bool b \<le> (1::nat)" by simp_all
  then have "unat v mod 16 + of_bool b < 256" by linarith
  then show ?thesis by (simp add: word_less_nat_alt unat_word_ariths nibble_simps)
qed

lemma carry_adc [nibble_simps]:
  "(ucast (a::u8) :: u16) + ucast (v::u8) + ucast (u8_of_bool b) > 0xFF
     \<longleftrightarrow> 256 \<le> unat a + unat v + of_bool b"
  "(ucast ((ucast a :: u16) + ucast v + ucast (u8_of_bool b)) :: u8) = a + v + u8_of_bool b"
proof -
  have "unat a + unat v + of_bool b < 65536"
    using unat_u8_bound [of a] unat_u8_bound [of v] of_bool_le_1 [of b] by linarith
  then have sum: "unat ((ucast a :: u16) + ucast v + ucast (u8_of_bool b)) = unat a + unat v + of_bool b"
    by (simp add: unat_word_ariths unsigned_ucast_eq take_bit_eq_mod)
  show "(ucast a :: u16) + ucast v + ucast (u8_of_bool b) > 0xFF
      \<longleftrightarrow> 256 \<le> unat a + unat v + of_bool b"
    unfolding word_less_nat_alt sum by (cases b; simp; arith)
  have "unat (ucast ((ucast a :: u16) + ucast v + ucast (u8_of_bool b)) :: u8)
      = unat (a + v + u8_of_bool b)"
    by (simp only: unsigned_ucast_eq sum take_bit_eq_mod) (simp add: unat_word_ariths mod_simps)
  then show "(ucast ((ucast a :: u16) + ucast v + ucast (u8_of_bool b)) :: u8) = a + v + u8_of_bool b"
    by (simp only: word_unat_eq_iff)
qed

lemma borrow_sbc [nibble_simps]:
  "(ucast (a::u8) :: u16) < ucast (v::u8) + ucast (u8_of_bool b) \<longleftrightarrow> unat a < unat v + of_bool b"
proof -
  have "unat v + of_bool b < 65536"
    using unat_u8_bound [of v] of_bool_le_1 [of b] by linarith
  moreover have "unat a mod 65536 = unat a"
    using unat_u8_bound [of a] by (intro mod_less) linarith
  ultimately show ?thesis
    by (simp add: word_less_nat_alt unat_word_ariths unsigned_ucast_eq take_bit_eq_mod)
qed

text \<open>Results, as integers modulo 256.\<close>

lemma uint_u8_of_bool [simp]: "uint (u8_of_bool b) = of_bool b"
  by (simp add: u8_of_bool_def)

lemma uint_u8_results [nibble_simps]:
  "uint ((a::u8) + v) = (uint a + uint v) mod 256"
  "uint (a - v) = (uint a - uint v) mod 256"
  "uint (a + v + u8_of_bool b) = (uint a + uint v + of_bool b) mod 256"
  "uint (a - v - u8_of_bool b) = (uint a - uint v - of_bool b) mod 256"
  by (simp_all add: uint_word_ariths mod_simps)

lemma carry_flags:
  "(255 < unat (a::u8) + unat (v::u8)) = (256 \<le> unat a + unat v)"
  "(a < v) = (unat a < unat v)"
  by (auto simp: word_less_nat_alt)

subsection \<open>The eight operations\<close>

text \<open>
  Result, subtract, half carry and carry of each operation on the accumulator \<open>a\<close>, the operand
  \<open>v\<close> and the carry flag \<open>cin\<close>.
\<close>

fun alu_spec :: "alu_operation \<Rightarrow> u8 \<Rightarrow> u8 \<Rightarrow> bool \<Rightarrow> int \<times> bool \<times> bool \<times> bool" where
  "alu_spec AluAdd a v cin =
     ((uint a + uint v) mod 256, False, 16 \<le> unat a mod 16 + unat v mod 16, 256 \<le> unat a + unat v)"
| "alu_spec AluAdc a v cin =
     ((uint a + uint v + of_bool cin) mod 256, False,
      16 \<le> unat a mod 16 + unat v mod 16 + of_bool cin, 256 \<le> unat a + unat v + of_bool cin)"
| "alu_spec AluSub a v cin =
     ((uint a - uint v) mod 256, True, unat a mod 16 < unat v mod 16, unat a < unat v)"
| "alu_spec AluSbc a v cin =
     ((uint a - uint v - of_bool cin) mod 256, True,
      unat a mod 16 < unat v mod 16 + of_bool cin, unat a < unat v + of_bool cin)"
| "alu_spec AluAnd a v cin = (and (uint a) (uint v), False, True, False)"
| "alu_spec AluXor a v cin = (xor (uint a) (uint v), False, False, False)"
| "alu_spec AluOr a v cin = (or (uint a) (uint v), False, False, False)"
| "alu_spec AluCompare a v cin =
     ((uint a - uint v) mod 256, True, unat a mod 16 < unat v mod 16, unat a < unat v)"

lemma alu_arith:
  assumes "alu_spec op (get_a c) v (flag_c c) = (r, n, h, cy)" and "c' = apply_alu_operation op v c"
  shows "uint (get_a c') = (if op = AluCompare then uint (get_a c) else r)
    \<and> flag_z c' = (r = 0) \<and> flag_n c' = n \<and> flag_h c' = h \<and> flag_c c' = cy
    \<and> c' = set_f (get_f c') (set_a (get_a c') c)"
proof -
  have zero: "(x = 0) = (uint (x::u8) = 0)" for x by (simp add: unsigned_eq_0_iff)
  have self: "set_a (get_a c) c = c" by (simp add: set_a_def get_a_def)
  show ?thesis
    using assms
    by (cases op; elim alu_spec.elims; clarify;
        simp only: apply_alu_operation.simps alu_spec.simps alu_definitions(4-11) Let_def
          flag_c_def [symmetric] write_flags_flags get_set prod.case;
        (simp only: nibble_simps carry_flags(1))?;
        simp only: zero self carry_flags(2) nibble_simps;
        simp add: unsigned_and_eq unsigned_or_eq unsigned_xor_eq write_flags_def mod_simps)
qed

text \<open>C7. The accumulator operations compute what the instruction set says: for each of the eight,
  A receives the result modulo 256 (CP leaves A), Z says whether the result is zero, N whether
  it was a subtraction, H the carry or borrow out of bit 3 and C out of bit 7, with the carry
  flag as carry-in of ADC and SBC; no other register changes.\<close>

theorem alu_operations_are_arithmetic:
  "let c' = apply_alu_operation op v c;
       (r, n, h, cy) = alu_spec op (get_a c) v (flag_c c)
   in uint (get_a c') = (if op = AluCompare then uint (get_a c) else r)
      \<and> flag_z c' = (r = 0) \<and> flag_n c' = n \<and> flag_h c' = h \<and> flag_c c' = cy
      \<and> c' = set_f (get_f c') (set_a (get_a c') c)"
  using alu_arith [OF _ refl] by (simp add: Let_def split: prod.split)

subsection \<open>Decimal adjustment\<close>

text \<open>The number a byte holds as two decimal digits, and the bytes that hold one.\<close>

definition bcd_nat :: "nat \<Rightarrow> nat" where
  "bcd_nat x = 10 * (x div 16) + x mod 16"

definition bcd_digits :: "nat \<Rightarrow> bool" where
  "bcd_digits x = (x div 16 \<le> 9 \<and> x mod 16 \<le> 9)"

lemma bcd_of_digits: "p \<le> 9 \<Longrightarrow> q \<le> 9 \<Longrightarrow> v = 16 * p + q \<Longrightarrow> bcd_digits v \<and> bcd_nat v = 10 * p + q"
  by (simp add: bcd_nat_def bcd_digits_def)

lemma bcd_add_core:
  assumes "H \<le> 18" and "L \<le> (19::nat)" and t: "t = 16 * H + L"
    and v: "v = (t + (if t > 153 then 96 else 0) + (if L \<ge> 10 then 6 else 0)) mod 256"
  shows "bcd_digits v \<and> bcd_nat v + 100 * of_bool (t > 153) = 10 * H + L"
proof -
  define p where "p = H + of_bool (L \<ge> 10) - 10 * of_bool (t > 153)"
  define q where "q = L - 10 * of_bool (L \<ge> 10)"
  have "p \<le> 9" "q \<le> 9" "10 * p + q + 100 * of_bool (t > 153) = 10 * H + L"
    using assms by (auto simp: p_def q_def split: split_of_bool)
  moreover have "t + (if t > 153 then 96 else 0) + (if L \<ge> 10 then 6 else 0)
      = 16 * p + q + 256 * of_bool (t > 153)"
    using assms by (auto simp: p_def q_def split: split_of_bool)
  then have "v = 16 * p + q"
    using v \<open>p \<le> 9\<close> \<open>q \<le> 9\<close> by (simp split: split_of_bool)
  ultimately show ?thesis using bcd_of_digits [of p q v] by simp
qed
lemma bcd_sub_core:
  assumes x: "bcd_digits x" and y: "bcd_digits y" and cin: "cin \<le> 1"
    and cy: "cy = (x < y + cin)" and h: "h = (x mod 16 < y mod 16 + cin)"
    and v: "int v = (int x - int y - int cin - 96 * of_bool cy - 6 * of_bool h) mod 256"
  shows "bcd_digits v \<and> int (bcd_nat v) = int (bcd_nat x) - int (bcd_nat y) - int cin + 100 * of_bool cy"
proof -
  define xh xl yh yl where digits: "xh = int (x div 16)" "xl = int (x mod 16)"
    "yh = int (y div 16)" "yl = int (y mod 16)"
  have xy: "int x = 16 * xh + xl" "int y = 16 * yh + yl" unfolding digits by presburger+
  have range: "0 \<le> xh" "xh \<le> 9" "0 \<le> xl" "xl \<le> 9" "0 \<le> yh" "yh \<le> 9" "0 \<le> yl" "yl \<le> 9"
    using x y unfolding digits bcd_digits_def by linarith+
  have hd: "h = (xl - yl - int cin < 0)" unfolding h digits by linarith
  define p where "p = xh - yh - of_bool h + 10 * of_bool cy"
  define q where "q = xl - yl - int cin + 10 * of_bool h"
  have cyd: "cy = (xh - yh - of_bool h < 0)"
    using cy xy range hd cin by (auto split: split_of_bool)
  have bounds: "0 \<le> p" "p \<le> 9" "0 \<le> q" "q \<le> 9"
    using range hd cyd cin by (auto simp: p_def q_def split: split_of_bool)
  have "int x - int y - int cin - 96 * of_bool cy - 6 * of_bool h = (16 * p + q) + 256 * (- of_bool cy)"
    unfolding xy p_def q_def by (simp split: split_of_bool)
  with v have "int v = ((16 * p + q) + 256 * (- of_bool cy)) mod 256" by (simp only:)
  also have "\<dots> = (16 * p + q) mod 256" by (simp only: mod_mult_self2)
  also have "\<dots> = 16 * p + q" using bounds by (intro mod_pos_pos_trivial) linarith+
  finally have "v = 16 * nat p + nat q" using bounds by linarith
  then have "bcd_digits v \<and> bcd_nat v = 10 * nat p + nat q"
    using bounds by (intro bcd_of_digits) linarith+
  then show ?thesis
    using bounds unfolding p_def q_def bcd_nat_def digits by simp
qed

text \<open>A and the carry flag after the two instructions, on plain values.\<close>

definition daa_value :: "bool \<Rightarrow> bool \<Rightarrow> bool \<Rightarrow> u8 \<Rightarrow> u8 \<times> bool" where
  "daa_value n h cy a =
     (if \<not> n
      then (a + ((if cy \<or> a > 0x99 then 0x60 else 0) + (if h \<or> (a AND 0x0F) > 0x09 then 0x06 else 0)),
            cy \<or> a > 0x99)
      else (a - ((if cy then 0x60 else 0) + (if h then 0x06 else 0)), cy))"

lemma decimal_adjust_a_value:
  "get_a (decimal_adjust_a c) = fst (daa_value (flag_n c) (flag_h c) (flag_c c) (get_a c))"
  "flag_c (decimal_adjust_a c) = snd (daa_value (flag_n c) (flag_h c) (flag_c c) (get_a c))"
  "flag_z (decimal_adjust_a c) = (get_a (decimal_adjust_a c) = 0)"
  "flag_h (decimal_adjust_a c) = False"
  "flag_n (decimal_adjust_a c) = flag_n c"
  by (simp_all add: decimal_adjust_a_def daa_value_def Let_def flag_c_def [symmetric]
      flag_n_def [symmetric] flag_h_def [symmetric])

text \<open>The value as a number.\<close>

lemma daa_value_add:
  "unat (fst (daa_value False h cy a)) =
     (unat a + (if cy \<or> unat a > 153 then 96 else 0) + (if h \<or> unat a mod 16 > 9 then 6 else 0)) mod 256"
  "snd (daa_value False h cy a) = (cy \<or> unat a > 153)"
  by (simp_all add: daa_value_def word_less_nat_alt nibble_simps unat_word_ariths mod_simps add.assoc)

lemma daa_value_sub:
  "uint (fst (daa_value True h cy a)) = (uint a - 96 * of_bool cy - 6 * of_bool h) mod 256"
  "snd (daa_value True h cy a) = cy"
  by (simp_all add: daa_value_def uint_word_ariths mod_simps diff_diff_eq split: split_of_bool)

lemma daa_after_add:
  assumes n: "\<not> flag_n s" and a: "uint (get_a s) = int t mod 256"
    and h: "flag_h s = (16 \<le> L)" and cy: "flag_c s = (256 \<le> t)"
    and t: "t = 16 * H + L" and H: "H \<le> 18" and L: "L \<le> 19"
  shows "bcd_digits (unat (get_a (decimal_adjust_a s)))"
    and "bcd_nat (unat (get_a (decimal_adjust_a s))) + 100 * of_bool (flag_c (decimal_adjust_a s)) = 10 * H + L"
proof -
  have "unat (get_a s) = nat (int t mod 256)" using a by (simp only: unat_eq_nat_uint)
  then have r: "unat (get_a s) = t mod 256" by (simp add: nat_mod_distrib)
  then have low: "unat (get_a s) mod 16 = L mod 16" using t by (simp add: mod_mod_cancel)
  have high: "(flag_c s \<or> unat (get_a s) > 153) = (t > 153)"
    using r cy t H L by auto
  have six: "(flag_h s \<or> unat (get_a s) mod 16 > 9) = (10 \<le> L)"
    using h low L by auto
  have "unat (get_a (decimal_adjust_a s)) = (t + (if t > 153 then 96 else 0) + (if L \<ge> 10 then 6 else 0)) mod 256"
    using n high six r by (simp add: decimal_adjust_a_value daa_value_add mod_simps add.assoc)
  moreover have "flag_c (decimal_adjust_a s) = (t > 153)"
    using n high by (simp add: decimal_adjust_a_value daa_value_add)
  ultimately show "bcd_digits (unat (get_a (decimal_adjust_a s)))"
    and "bcd_nat (unat (get_a (decimal_adjust_a s))) + 100 * of_bool (flag_c (decimal_adjust_a s)) = 10 * H + L"
    using bcd_add_core [OF H L t] by simp_all
qed

text \<open>C5. Packed decimal addition is correct: when A and the operand hold two decimal digits,
  ADD or ADC followed by DAA leaves two decimal digits in A, and their value with the carry
  flag as the hundred is the decimal sum of the operands and the carry-in of ADC.\<close>

theorem decimal_addition_is_correct:
  assumes "bcd_digits (unat (get_a c))" and "bcd_digits (unat v)" and "op = AluAdd \<or> op = AluAdc"
  shows "let c' = decimal_adjust_a (apply_alu_operation op v c)
    in bcd_digits (unat (get_a c'))
       \<and> bcd_nat (unat (get_a c')) + 100 * of_bool (flag_c c')
           = bcd_nat (unat (get_a c)) + bcd_nat (unat v) + of_bool (op = AluAdc \<and> flag_c c)"
proof -
  define s where "s = apply_alu_operation op v c"
  define cin where "cin = (op = AluAdc \<and> flag_c c)"
  define t where "t = unat (get_a c) + unat v + of_bool cin"
  define H where "H = unat (get_a c) div 16 + unat v div 16"
  define L where "L = unat (get_a c) mod 16 + unat v mod 16 + of_bool cin"
  have spec: "alu_spec op (get_a c) v (flag_c c) = (int t mod 256, False, 16 \<le> L, 256 \<le> t)"
    using assms(3) by (auto simp: t_def L_def cin_def)
  have digits: "H \<le> 18" "L \<le> 19" "t = 16 * H + L"
    using assms(1,2) of_bool_le_1 [of cin]
    by (auto simp: bcd_digits_def H_def L_def t_def)
  have "op \<noteq> AluCompare" using assms(3) by auto
  then have state: "\<not> flag_n s" "uint (get_a s) = int t mod 256" "flag_h s = (16 \<le> L)" "flag_c s = (256 \<le> t)"
    using alu_arith [OF spec s_def] by simp_all
  show ?thesis
    using daa_after_add [OF state digits(3,1,2)]
    by (simp add: Let_def s_def [symmetric] bcd_nat_def H_def L_def cin_def)
qed

theorem decimal_addition_is_correct_witness:
  "let c' = decimal_adjust_a (apply_alu_operation AluAdd 0x38 (set_a 0x45 (cpu_new GameBoy)))
   in bcd_digits (unat (get_a c')) \<and> bcd_nat (unat (get_a c')) + 100 * of_bool (flag_c c') = 83"
  using decimal_addition_is_correct [of "set_a 0x45 (cpu_new GameBoy)" "0x38" AluAdd]
  by (simp add: bcd_digits_def bcd_nat_def Let_def)

text \<open>C6. Packed decimal subtraction is correct: when A and the operand hold two decimal digits, SUB
  or SBC followed by DAA leaves two decimal digits in A, their value being the decimal
  difference less the carry-in of SBC, plus one hundred when the carry flag reports a borrow.\<close>

theorem decimal_subtraction_is_correct:
  assumes "bcd_digits (unat (get_a c))" and "bcd_digits (unat v)" and "op = AluSub \<or> op = AluSbc"
  shows "let c' = decimal_adjust_a (apply_alu_operation op v c)
    in bcd_digits (unat (get_a c'))
       \<and> int (bcd_nat (unat (get_a c')))
           = int (bcd_nat (unat (get_a c))) - int (bcd_nat (unat v)) - of_bool (op = AluSbc \<and> flag_c c)
             + 100 * of_bool (flag_c c')"
proof -
  define s where "s = apply_alu_operation op v c"
  define cin :: nat where "cin = of_bool (op = AluSbc \<and> flag_c c)"
  define x y where "x = unat (get_a c)" and "y = unat v"
  have spec: "alu_spec op (get_a c) v (flag_c c)
      = ((int x - int y - int cin) mod 256, True, x mod 16 < y mod 16 + cin, x < y + cin)"
    using assms(3) by (auto simp: x_def y_def cin_def)
  have "op \<noteq> AluCompare" using assms(3) by auto
  then have state: "flag_n s" "uint (get_a s) = (int x - int y - int cin) mod 256"
    "flag_h s = (x mod 16 < y mod 16 + cin)" "flag_c s = (x < y + cin)"
    using alu_arith [OF spec s_def] by simp_all
  have "int (unat (get_a (decimal_adjust_a s)))
      = (int x - int y - int cin - 96 * of_bool (flag_c s) - 6 * of_bool (flag_h s)) mod 256"
    using state(1,2)
    by (cases "flag_c s"; cases "flag_h s")
      (simp_all add: decimal_adjust_a_value daa_value_sub mod_simps algebra_simps)
  from bcd_sub_core [OF _ _ _ state(4,3) this]
  show ?thesis
    using assms(1,2) state(1)
    by (simp add: Let_def s_def [symmetric] x_def y_def cin_def decimal_adjust_a_value daa_value_sub)
qed

theorem decimal_subtraction_is_correct_witness:
  "let c' = decimal_adjust_a (apply_alu_operation AluSub 0x45 (set_a 0x12 (cpu_new GameBoy)))
   in bcd_digits (unat (get_a c')) \<and> int (bcd_nat (unat (get_a c'))) = 12 - 45 + 100 * of_bool (flag_c c')"
  using decimal_subtraction_is_correct [of "set_a 0x12 (cpu_new GameBoy)" "0x45" AluSub]
  by (simp add: bcd_digits_def bcd_nat_def Let_def)

subsection \<open>Rotates, shifts and bits\<close>

text \<open>
  Bit \<open>n\<close> of the result and the carry out, for the operand \<open>v\<close> and the carry in.
\<close>

fun cb_result_bit :: "cb_instruction_kind \<Rightarrow> u8 \<Rightarrow> bool \<Rightarrow> nat \<Rightarrow> bool" where
  "cb_result_bit (RotateLeftCarry _) v cin n = bit v ((n + 7) mod 8)"
| "cb_result_bit (RotateRightCarry _) v cin n = bit v ((n + 1) mod 8)"
| "cb_result_bit (RotateLeftThroughCarry _) v cin n = (if n = 0 then cin else bit v (n - 1))"
| "cb_result_bit (RotateRightThroughCarry _) v cin n = (if n = 7 then cin else bit v (n + 1))"
| "cb_result_bit (ShiftLeftArithmetic _) v cin n = (n \<noteq> 0 \<and> bit v (n - 1))"
| "cb_result_bit (ShiftRightArithmetic _) v cin n = bit v (if n = 7 then 7 else n + 1)"
| "cb_result_bit (SwapNibbles _) v cin n = bit v ((n + 4) mod 8)"
| "cb_result_bit (ShiftRightLogical _) v cin n = (n \<noteq> 7 \<and> bit v (n + 1))"
| "cb_result_bit (BitTest b _) v cin n = bit v n"
| "cb_result_bit (ResetBit b _) v cin n = (n \<noteq> unat b \<and> bit v n)"
| "cb_result_bit (SetBit b _) v cin n = (n = unat b \<or> bit v n)"

fun cb_carry_out :: "cb_instruction_kind \<Rightarrow> u8 \<Rightarrow> bool \<Rightarrow> bool" where
  "cb_carry_out (RotateLeftCarry _) v cin = bit v 7"
| "cb_carry_out (RotateRightCarry _) v cin = bit v 0"
| "cb_carry_out (RotateLeftThroughCarry _) v cin = bit v 7"
| "cb_carry_out (RotateRightThroughCarry _) v cin = bit v 0"
| "cb_carry_out (ShiftLeftArithmetic _) v cin = bit v 7"
| "cb_carry_out (ShiftRightArithmetic _) v cin = bit v 0"
| "cb_carry_out (SwapNibbles _) v cin = False"
| "cb_carry_out (ShiftRightLogical _) v cin = bit v 0"
| "cb_carry_out _ v cin = cin"

lemma u8_top_bit: "(v AND 0x80 \<noteq> 0) = bit (v::u8) 7" "(v AND 0x01 \<noteq> 0) = bit (v::u8) 0"
  using and_exp_eq_0_iff_not_bit [of v 7] and_exp_eq_0_iff_not_bit [of v 0] by simp_all

definition byte_of_bits :: "(nat \<Rightarrow> bool) \<Rightarrow> u8" where
  "byte_of_bits f = horner_sum of_bool 2 (map f [0..<8])"

lemma bit_byte_of_bits: "bit (byte_of_bits f) n = (n < 8 \<and> f n)"
  by (auto simp: byte_of_bits_def bit_horner_sum_bit_word_iff)

lemma byte_eqI: "(\<And>n. n < 8 \<Longrightarrow> bit (x::u8) n = f n) \<Longrightarrow> x = byte_of_bits f"
  by (rule bit_word_eqI) (simp add: bit_byte_of_bits)

lemma bit_0x80: "bit (0x80 :: u8) n = (n = 7)"
proof -
  have "(0x80 :: u8) = push_bit 7 1" by simp
  then show ?thesis by (auto simp only: bit_push_bit_iff bit_1_iff) simp_all
qed

lemma byte_results:
  "word_rotl 1 (v::u8) = byte_of_bits (\<lambda>n. bit v ((n + 7) mod 8))"
  "word_rotr 1 v = byte_of_bits (\<lambda>n. bit v ((n + 1) mod 8))"
  "word_rotl 4 v = byte_of_bits (\<lambda>n. bit v ((n + 4) mod 8))"
  "push_bit 1 v OR u8_of_bool b = byte_of_bits (\<lambda>n. if n = 0 then b else bit v (n - 1))"
  "drop_bit 1 v OR push_bit 7 (u8_of_bool b) = byte_of_bits (\<lambda>n. if n = 7 then b else bit v (n + 1))"
  "push_bit 1 v = byte_of_bits (\<lambda>n. n \<noteq> 0 \<and> bit v (n - 1))"
  "drop_bit 1 v OR (v AND 0x80) = byte_of_bits (\<lambda>n. bit v (if n = 7 then 7 else n + 1))"
  "drop_bit 1 v = byte_of_bits (\<lambda>n. n \<noteq> 7 \<and> bit v (n + 1))"
  "v AND NOT (push_bit m 1) = byte_of_bits (\<lambda>n. n \<noteq> m \<and> bit v n)"
  "v OR push_bit m 1 = byte_of_bits (\<lambda>n. n = m \<or> bit v n)"
  by (rule byte_eqI;
      (simp only: bit_word_rotl_iff bit_word_rotr_iff bitwise_iffs bit_push_bit_iff bit_drop_bit_eq
        bit_u8_of_bool bit_1_iff bit_0x80)?;
      auto simp: bit_imp_le_length dest: bit_imp_le_length)+

lemma bit_test_flags:
  "flag_z (bit_test b v c) = (\<not> bit v (unat b))" "flag_n (bit_test b v c) = False"
  "flag_h (bit_test b v c) = True" "flag_c (bit_test b v c) = flag_c c"
  by (simp_all add: bit_test_def flag_z_def flag_n_def flag_h_def flag_c_def Let_def
      and_exp_eq_0_iff_not_bit FLAG_Z_def FLAG_N_def FLAG_H_def FLAG_C_def)

definition cb_is_bit_operation :: "cb_instruction_kind \<Rightarrow> bool" where
  "cb_is_bit_operation k =
     (case k of BitTest _ _ \<Rightarrow> True | ResetBit _ _ \<Rightarrow> True | SetBit _ _ \<Rightarrow> True | _ \<Rightarrow> False)"

text \<open>C8. The CB-prefixed operations move bits as the instruction set says: every rotate, shift and
  swap produces, bit by bit, the byte that its description gives, with Z for a zero result, N
  and H clear and the bit shifted out in C; BIT sets Z to the complement of the bit, H, clears N
  and keeps C; RES and SET change one bit and no flag; no other register changes.\<close>

theorem cb_operations_are_bitwise:
  "let (r, c') = apply_cb_operation k v c
   in (case k of BitTest _ _ \<Rightarrow> r = None
       | _ \<Rightarrow> r = Some (byte_of_bits (cb_result_bit k v (flag_c c))))
      \<and> (if cb_is_bit_operation k
         then (case k of
                 BitTest b _ \<Rightarrow>
                   flag_z c' = (\<not> bit v (unat b)) \<and> \<not> flag_n c' \<and> flag_h c' \<and> flag_c c' = flag_c c
               | _ \<Rightarrow> c' = c)
         else flag_z c' = (r = Some 0) \<and> \<not> flag_n c' \<and> \<not> flag_h c'
              \<and> flag_c c' = cb_carry_out k v (flag_c c))
      \<and> c' = set_f (get_f c') c"
proof -
  have self: "set_f (get_f c) c = c" by (simp add: set_f_def get_f_def)
  note defs = rotate_left_carry_def rotate_right_carry_def rotate_left_through_carry_def
    rotate_right_through_carry_def shift_left_arithmetic_def shift_right_arithmetic_def
    swap_nibbles_def shift_right_logical_def reset_bit_def set_bit_u8_def
  show ?thesis
    by (cases k;
        simp only: apply_cb_operation.simps defs Let_def map_prod_simp prod.case
          flag_c_def [symmetric] byte_results(1-5,7,9-10);
        (simp only: byte_results(6,8))?;
        simp add: cb_result_bit.simps [abs_def] cb_is_bit_operation_def u8_top_bit bit_test_flags self)
      (simp_all add: write_flags_def bit_test_def Let_def)
qed

subsection \<open>Sixteen-bit additions\<close>

lemma get_hl_write [simp]: "get_hl (write_register16 PairHL v c) = v"
  by (simp add: get_hl_def)

lemma add_hl_flags [nibble_simps]:
  "((hl::u16) AND 0x0FFF) + (v AND 0x0FFF) > 0x0FFF \<longleftrightarrow> 4096 \<le> unat hl mod 4096 + unat v mod 4096"
  "(ucast (hl::u16) :: u32) + ucast (v::u16) > 0xFFFF \<longleftrightarrow> 65536 \<le> unat hl + unat v"
proof -
  have "unat hl mod 4096 < 4096" "unat v mod 4096 < 4096" by simp_all
  then have "unat hl mod 4096 + unat v mod 4096 < 65536" by linarith
  then show "(hl AND 0x0FFF) + (v AND 0x0FFF) > 0x0FFF \<longleftrightarrow> 4096 \<le> unat hl mod 4096 + unat v mod 4096"
    by (simp add: word_less_nat_alt unat_word_ariths nibble_simps; linarith)
  have "unat hl + unat v < 4294967296"
    using unat_u16_bound [of hl] unat_u16_bound [of v] by linarith
  moreover have "unat x mod 4294967296 = unat x" for x :: u16
    using unat_u16_bound [of x] by (intro mod_less) linarith
  ultimately show "(ucast hl :: u32) + ucast v > 0xFFFF \<longleftrightarrow> 65536 \<le> unat hl + unat v"
    by (simp add: word_less_nat_alt unat_word_ariths unsigned_ucast_eq take_bit_eq_mod; linarith)
qed

lemma sp_plus_flags [nibble_simps]:
  "((sp::u16) AND 0x000F) + ucast ((v::u8) AND 0x0F) > 0x000F \<longleftrightarrow> 16 \<le> unat sp mod 16 + unat v mod 16"
  "(sp AND 0x00FF) + ucast v > 0x00FF \<longleftrightarrow> 256 \<le> unat sp mod 256 + unat v"
proof -
  have small: "unat x mod 65536 = unat x" for x :: u8
    using unat_u8_bound [of x] by (intro mod_less) linarith
  have "unat sp mod 16 < 16" "unat v mod 16 < 16" by simp_all
  then have "unat sp mod 16 + unat v mod 16 < 65536" by linarith
  then show "(sp AND 0x000F) + ucast (v AND 0x0F) > 0x000F \<longleftrightarrow> 16 \<le> unat sp mod 16 + unat v mod 16"
    using small [of "v AND 0x0F"]
    by (simp add: word_less_nat_alt unat_word_ariths nibble_simps unsigned_ucast_eq take_bit_eq_mod; linarith)
  have "unat sp mod 256 < 256" by simp
  then have "unat sp mod 256 + unat v < 65536" using unat_u8_bound [of v] by linarith
  then show "(sp AND 0x00FF) + ucast v > 0x00FF \<longleftrightarrow> 256 \<le> unat sp mod 256 + unat v"
    using small [of v]
    by (simp add: word_less_nat_alt unat_word_ariths nibble_simps unsigned_ucast_eq take_bit_eq_mod; linarith)
qed

text \<open>The 16-bit additions: ADD HL,rr adds modulo 65536, keeps Z, clears N, and sets H and C on
  the carries out of bits 11 and 15; ADD SP,e and LD HL,SP+e add the operand as a signed byte
  and take H and C from the unsigned carries out of bits 3 and 7, clearing Z and N.\<close>

theorem sixteen_bit_additions:
  "(let c' = add_to_hl v c
    in uint (get_hl c') = (uint (get_hl c) + uint v) mod 65536
       \<and> flag_z c' = flag_z c \<and> \<not> flag_n c'
       \<and> flag_h c' = (4096 \<le> unat (get_hl c) mod 4096 + unat v mod 4096)
       \<and> flag_c c' = (65536 \<le> unat (get_hl c) + unat v))
   \<and> (let (r, c') = sp_plus_signed_immediate e c
    in uint r = (uint (get_sp c) + sint e) mod 65536
       \<and> \<not> flag_z c' \<and> \<not> flag_n c'
       \<and> flag_h c' = (16 \<le> unat (get_sp c) mod 16 + unat e mod 16)
       \<and> flag_c c' = (256 \<le> unat (get_sp c) mod 256 + unat e))"
proof -
  have ext: "uint (sign_extend_u8 e) = sint e mod 65536"
    unfolding sign_extend_u8_def scast_eq uint_word_of_int by simp
  show ?thesis
    by (simp only: add_to_hl_def sp_plus_signed_immediate_def Let_def prod.case write_flags_flags
        nibble_simps get_hl_write flag_z_def [symmetric])
      (simp add: uint_word_ariths ext mod_simps)
qed

end
