(* ===== verification/Gb_Serial.thy ===== *)
theory Gb_Serial
  imports Gb_Scheduler Gb_Speed
begin

text \<open>
  The serial port of \<open>serial.rs\<close>: SB and SC, the internal clock taken from a free-running
  counter, pulses of an external clock, the bit-by-bit exchange with the peer, and the
  completed bytes and interrupt it produces.
\<close>

definition SC_TRANSFER_REQUEST_BIT :: u8 where "SC_TRANSFER_REQUEST_BIT = 0x80"
definition SC_UNUSED_READ_MASK :: u8 where "SC_UNUSED_READ_MASK = 0x7C"
definition SC_CGB_HIGH_SPEED_BIT :: u8 where "SC_CGB_HIGH_SPEED_BIT = 0x02"
definition SC_CLOCK_MODE_BIT :: u8 where "SC_CLOCK_MODE_BIT = 0x01"

datatype serial_status = SerialReady

datatype serial_clock_mode = ExternalClock | InternalClock

datatype serial_peer = Disconnected | Loopback | StagedIncomingByte u8

datatype serial_transfer_state = SerialIdle | TransferRequested (bits_shifted: u8)

record serial_tick_telemetry =
  active_t_cycles :: u64
  internal_ticks :: u64
  external_ticks :: u64
  external_wait_ticks :: u64
  shift_edges :: u64
  completed_bytes :: u64
  external_port_ticks :: u64

definition telemetry_default :: serial_tick_telemetry where
  "telemetry_default =
     \<lparr>active_t_cycles = 0, internal_ticks = 0, external_ticks = 0, external_wait_ticks = 0,
      shift_edges = 0, completed_bytes = 0, external_port_ticks = 0\<rparr>"

definition external_port_tick :: serial_tick_telemetry where
  "external_port_tick = telemetry_default\<lparr>external_port_ticks := 1\<rparr>"

definition telemetry_accumulate ::
    "serial_tick_telemetry \<Rightarrow> serial_tick_telemetry \<Rightarrow> serial_tick_telemetry" where
  "telemetry_accumulate x y =
     \<lparr>active_t_cycles = u64_saturating_add (active_t_cycles x) (active_t_cycles y),
      internal_ticks = u64_saturating_add (internal_ticks x) (internal_ticks y),
      external_ticks = u64_saturating_add (external_ticks x) (external_ticks y),
      external_wait_ticks = u64_saturating_add (external_wait_ticks x) (external_wait_ticks y),
      shift_edges = u64_saturating_add (shift_edges x) (shift_edges y),
      completed_bytes = u64_saturating_add (completed_bytes x) (completed_bytes y),
      external_port_ticks = u64_saturating_add (external_port_ticks x) (external_port_ticks y)\<rparr>"

record serial_startup_state =
  ser_startup_sb :: u8
  ser_startup_clock_mode :: serial_clock_mode
  ser_startup_cgb_high_speed_clock :: bool
  ser_startup_transfer_state :: serial_transfer_state
  ser_startup_clock_counter :: u16

definition serial_startup_from_registers :: "u8 \<Rightarrow> u8 \<Rightarrow> serial_startup_state" where
  "serial_startup_from_registers sb sc =
     \<lparr>ser_startup_sb = sb,
      ser_startup_clock_mode =
        (if sc AND SC_CLOCK_MODE_BIT \<noteq> 0 then InternalClock else ExternalClock),
      ser_startup_cgb_high_speed_clock = (sc AND SC_CGB_HIGH_SPEED_BIT \<noteq> 0),
      ser_startup_transfer_state =
        (if sc AND SC_TRANSFER_REQUEST_BIT \<noteq> 0 then TransferRequested 0 else SerialIdle),
      ser_startup_clock_counter = 0\<rparr>"

definition serial_startup_with_clock_counter ::
    "u16 \<Rightarrow> serial_startup_state \<Rightarrow> serial_startup_state" where
  "serial_startup_with_clock_counter n s = s\<lparr>ser_startup_clock_counter := n\<rparr>"

record serial =
  ser_console_model :: console_model
  ser_operating_mode :: operating_mode
  ser_status :: serial_status
  ser_sb :: u8
  ser_clock_mode :: serial_clock_mode
  ser_cgb_high_speed_clock :: bool
  ser_transfer_state :: serial_transfer_state
  ser_peer :: serial_peer
  ser_clock_counter :: u16
  external_clock_pulses_pending :: u8
  staged_outgoing_byte :: u8
  current_outgoing_byte :: u8
  current_outgoing_shift_byte :: u8
  current_incoming_byte :: u8
  latest_completed_output_byte :: "u8 option"
  completed_output_bytes :: "u8 list"

record serial_save_state =
  ssave_console_model :: console_model
  ssave_operating_mode :: operating_mode
  ssave_status :: serial_status
  ssave_sb :: u8
  ssave_clock_mode :: serial_clock_mode
  ssave_cgb_high_speed_clock :: bool
  ssave_transfer_state :: serial_transfer_state
  ssave_peer :: serial_peer
  ssave_clock_counter :: u16
  ssave_external_clock_pulses_pending :: u8
  ssave_staged_outgoing_byte :: u8
  ssave_current_outgoing_byte :: u8
  ssave_current_outgoing_shift_byte :: u8
  ssave_current_incoming_byte :: u8
  ssave_latest_completed_output_byte :: "u8 option"
  ssave_completed_output_bytes :: "u8 list"

definition serial_new_with_operating_mode :: "console_model \<Rightarrow> operating_mode \<Rightarrow> serial" where
  "serial_new_with_operating_mode m mode =
     \<lparr>ser_console_model = m, ser_operating_mode = mode, ser_status = SerialReady, ser_sb = 0,
      ser_clock_mode = ExternalClock, ser_cgb_high_speed_clock = False,
      ser_transfer_state = SerialIdle, ser_peer = Disconnected, ser_clock_counter = 0,
      external_clock_pulses_pending = 0, staged_outgoing_byte = 0, current_outgoing_byte = 0,
      current_outgoing_shift_byte = 0, current_incoming_byte = 0,
      latest_completed_output_byte = None, completed_output_bytes = []\<rparr>"

definition serial_new :: "console_model \<Rightarrow> serial" where
  "serial_new m = serial_new_with_operating_mode m (default_operating_mode m)"

definition cgb_high_speed_serial_enabled :: "serial \<Rightarrow> bool" where
  "cgb_high_speed_serial_enabled s =
     (is_cgb_family (ser_console_model s) \<and> enables_cgb_high_speed_serial (ser_operating_mode s))"

definition serial_apply_operating_mode_state :: "operating_mode \<Rightarrow> serial \<Rightarrow> serial" where
  "serial_apply_operating_mode_state mode s0 =
     (let s = s0\<lparr>ser_operating_mode := mode\<rparr>
      in if \<not> cgb_high_speed_serial_enabled s then s\<lparr>ser_cgb_high_speed_clock := False\<rparr> else s)"

definition serial_capture_save_state :: "serial \<Rightarrow> serial_save_state" where
  "serial_capture_save_state s =
     \<lparr>ssave_console_model = ser_console_model s,
      ssave_operating_mode = ser_operating_mode s,
      ssave_status = ser_status s,
      ssave_sb = ser_sb s,
      ssave_clock_mode = ser_clock_mode s,
      ssave_cgb_high_speed_clock = ser_cgb_high_speed_clock s,
      ssave_transfer_state = ser_transfer_state s,
      ssave_peer = ser_peer s,
      ssave_clock_counter = ser_clock_counter s,
      ssave_external_clock_pulses_pending = external_clock_pulses_pending s,
      ssave_staged_outgoing_byte = staged_outgoing_byte s,
      ssave_current_outgoing_byte = current_outgoing_byte s,
      ssave_current_outgoing_shift_byte = current_outgoing_shift_byte s,
      ssave_current_incoming_byte = current_incoming_byte s,
      ssave_latest_completed_output_byte = latest_completed_output_byte s,
      ssave_completed_output_bytes = completed_output_bytes s\<rparr>"

definition serial_restore_save_state :: "serial_save_state \<Rightarrow> serial \<Rightarrow> serial" where
  "serial_restore_save_state st s =
     s\<lparr>ser_console_model := ssave_console_model st,
       ser_operating_mode := ssave_operating_mode st,
       ser_status := ssave_status st,
       ser_sb := ssave_sb st,
       ser_clock_mode := ssave_clock_mode st,
       ser_cgb_high_speed_clock := ssave_cgb_high_speed_clock st,
       ser_transfer_state := ssave_transfer_state st,
       ser_peer := ssave_peer st,
       ser_clock_counter := ssave_clock_counter st,
       external_clock_pulses_pending := ssave_external_clock_pulses_pending st,
       staged_outgoing_byte := ssave_staged_outgoing_byte st,
       current_outgoing_byte := ssave_current_outgoing_byte st,
       current_outgoing_shift_byte := ssave_current_outgoing_shift_byte st,
       current_incoming_byte := ssave_current_incoming_byte st,
       latest_completed_output_byte := ssave_latest_completed_output_byte st,
       completed_output_bytes := ssave_completed_output_bytes st\<rparr>"

definition serial_cgb_high_speed_clock :: "serial \<Rightarrow> bool" where
  "serial_cgb_high_speed_clock s =
     (cgb_high_speed_serial_enabled s \<and> ser_cgb_high_speed_clock s)"

subsection \<open>Registers\<close>

definition read_sb :: "serial \<Rightarrow> u8" where
  "read_sb s = ser_sb s"

definition write_sb :: "u8 \<Rightarrow> serial \<Rightarrow> serial" where
  "write_sb v s = s\<lparr>ser_sb := v, staged_outgoing_byte := v\<rparr>"

definition read_sc_high_speed_bit :: "serial \<Rightarrow> u8" where
  "read_sc_high_speed_bit s =
     (if cgb_high_speed_serial_enabled s
      then u8_of_bool (ser_cgb_high_speed_clock s) * SC_CGB_HIGH_SPEED_BIT
      else SC_CGB_HIGH_SPEED_BIT)"

definition read_sc :: "serial \<Rightarrow> u8" where
  "read_sc s =
     SC_UNUSED_READ_MASK OR read_sc_high_speed_bit s
     OR (case ser_transfer_state s of SerialIdle \<Rightarrow> 0 | TransferRequested _ \<Rightarrow> SC_TRANSFER_REQUEST_BIT)
     OR (case ser_clock_mode s of ExternalClock \<Rightarrow> 0 | InternalClock \<Rightarrow> SC_CLOCK_MODE_BIT)"

definition write_sc :: "u8 \<Rightarrow> serial \<Rightarrow> serial" where
  "write_sc v s =
     s\<lparr>ser_clock_mode := (if v AND SC_CLOCK_MODE_BIT \<noteq> 0 then InternalClock else ExternalClock),
       ser_cgb_high_speed_clock :=
         (cgb_high_speed_serial_enabled s \<and> v AND SC_CGB_HIGH_SPEED_BIT \<noteq> 0),
       ser_transfer_state :=
         (if v AND SC_TRANSFER_REQUEST_BIT \<noteq> 0 then TransferRequested 0 else SerialIdle),
       external_clock_pulses_pending := 0, current_outgoing_byte := 0,
       current_outgoing_shift_byte := 0, current_incoming_byte := 0,
       latest_completed_output_byte := None\<rparr>"

definition serial_apply_startup_state :: "serial_startup_state \<Rightarrow> serial \<Rightarrow> serial" where
  "serial_apply_startup_state st s =
     s\<lparr>ser_sb := ser_startup_sb st,
       ser_clock_mode := ser_startup_clock_mode st,
       ser_cgb_high_speed_clock :=
         (cgb_high_speed_serial_enabled s \<and> ser_startup_cgb_high_speed_clock st),
       ser_transfer_state := ser_startup_transfer_state st,
       ser_peer := Disconnected,
       ser_clock_counter := ser_startup_clock_counter st,
       external_clock_pulses_pending := 0, staged_outgoing_byte := ser_startup_sb st,
       current_outgoing_byte := 0, current_outgoing_shift_byte := 0, current_incoming_byte := 0,
       latest_completed_output_byte := None, completed_output_bytes := []\<rparr>"

definition set_peer :: "serial_peer \<Rightarrow> serial \<Rightarrow> serial" where
  "set_peer p s = s\<lparr>ser_peer := p\<rparr>"

definition transfer_requested :: "serial \<Rightarrow> bool" where
  "transfer_requested s =
     (case ser_transfer_state s of TransferRequested _ \<Rightarrow> True | SerialIdle \<Rightarrow> False)"

definition accepts_external_clock_pulse :: "serial \<Rightarrow> bool" where
  "accepts_external_clock_pulse s = (ser_clock_mode s = ExternalClock \<and> transfer_requested s)"

definition queue_external_clock_pulse :: "serial \<Rightarrow> bool \<times> serial" where
  "queue_external_clock_pulse s =
     (if \<not> accepts_external_clock_pulse s then (False, s)
      else
        let previous_pending = external_clock_pulses_pending s;
            s' = s\<lparr>external_clock_pulses_pending :=
                    u8_saturating_add (external_clock_pulses_pending s) 1\<rparr>
        in (external_clock_pulses_pending s' \<noteq> previous_pending, s'))"

definition take_completed_output_bytes :: "serial \<Rightarrow> u8 list \<times> serial" where
  "take_completed_output_bytes s = (completed_output_bytes s, s\<lparr>completed_output_bytes := []\<rparr>)"

definition requires_full_t_cycle_tick :: "serial \<Rightarrow> bool" where
  "requires_full_t_cycle_tick s = (transfer_requested s \<or> external_clock_pulses_pending s \<noteq> 0)"

definition external_wait_without_pending_clock :: "serial \<Rightarrow> bool" where
  "external_wait_without_pending_clock s =
     (ser_clock_mode s = ExternalClock \<and> transfer_requested s
      \<and> external_clock_pulses_pending s = 0)"

text \<open>The \<open>debug_assert!\<close> of this function is compiled out of the release profile.\<close>

definition tick_external_wait_t_cycle :: "serial \<Rightarrow> serial_tick_telemetry \<times> serial" where
  "tick_external_wait_t_cycle s =
     (telemetry_default\<lparr>active_t_cycles := 1, external_ticks := 1, external_wait_ticks := 1\<rparr>,
      s\<lparr>latest_completed_output_byte := None, ser_clock_counter := ser_clock_counter s + 1\<rparr>)"

definition tick_idle_t_cycle :: "serial \<Rightarrow> serial" where
  "tick_idle_t_cycle s =
     s\<lparr>latest_completed_output_byte := None, ser_clock_counter := ser_clock_counter s + 1\<rparr>"

fun serial_internal_clock_edge_bit :: "cgb_speed_mode \<Rightarrow> bool \<Rightarrow> nat" where
  "serial_internal_clock_edge_bit NormalSpeed False = 8"
| "serial_internal_clock_edge_bit DoubleSpeed False = 7"
| "serial_internal_clock_edge_bit NormalSpeed True = 3"
| "serial_internal_clock_edge_bit DoubleSpeed True = 2"

definition serial_internal_clock_edge :: "u16 \<Rightarrow> u16 \<Rightarrow> cgb_speed_mode \<Rightarrow> bool \<Rightarrow> bool" where
  "serial_internal_clock_edge previous current speed high_speed =
     (let edge_mask = push_bit (serial_internal_clock_edge_bit speed high_speed) 1
      in previous AND edge_mask \<noteq> 0 \<and> current AND edge_mask = 0)"

definition internal_clock_edge_pending_this_t_cycle_for_speed ::
    "cgb_speed_mode \<Rightarrow> serial \<Rightarrow> bool" where
  "internal_clock_edge_pending_this_t_cycle_for_speed speed s =
     (ser_clock_mode s = InternalClock \<and> transfer_requested s
      \<and> serial_internal_clock_edge (ser_clock_counter s) (ser_clock_counter s + 1) speed
           (serial_cgb_high_speed_clock s))"

definition endpoint_outgoing_byte :: "serial \<Rightarrow> u8" where
  "endpoint_outgoing_byte s =
     (case ser_transfer_state s of
        TransferRequested n \<Rightarrow>
          if n \<noteq> 0 then current_outgoing_byte s else staged_outgoing_byte s
      | SerialIdle \<Rightarrow> staged_outgoing_byte s)"

subsection \<open>Shifting\<close>

fun staged_incoming_byte_for_peer :: "serial_peer \<Rightarrow> u8" where
  "staged_incoming_byte_for_peer Disconnected = 0"
| "staged_incoming_byte_for_peer Loopback = 0"
| "staged_incoming_byte_for_peer (StagedIncomingByte b) = b"

fun incoming_bit_from_peer :: "serial_peer \<Rightarrow> bool \<Rightarrow> u8 \<Rightarrow> bool \<times> u8" where
  "incoming_bit_from_peer Disconnected outgoing_bit incoming = (True, incoming)"
| "incoming_bit_from_peer Loopback outgoing_bit incoming = (outgoing_bit, incoming)"
| "incoming_bit_from_peer (StagedIncomingByte b) outgoing_bit incoming =
     (incoming AND 0x80 \<noteq> 0, push_bit 1 incoming)"

definition shift_one_bit ::
    "serial \<Rightarrow> cycle_context \<Rightarrow> (bool \<times> serial \<times> cycle_context) res" where
  "shift_one_bit s c =
     (case ser_transfer_state s of
        SerialIdle \<Rightarrow> Inr (False, s, c)
      | TransferRequested n \<Rightarrow>
          let s1 = (if n = 0
                    then s\<lparr>current_outgoing_byte := staged_outgoing_byte s,
                           current_outgoing_shift_byte := staged_outgoing_byte s,
                           current_incoming_byte := staged_incoming_byte_for_peer (ser_peer s)\<rparr>
                    else s);
              outgoing_bit = (current_outgoing_shift_byte s1 AND 0x80 \<noteq> 0);
              s2 = s1\<lparr>current_outgoing_shift_byte := push_bit 1 (current_outgoing_shift_byte s1)\<rparr>;
              incoming = incoming_bit_from_peer (ser_peer s2) outgoing_bit (current_incoming_byte s2);
              s3 = s2\<lparr>current_incoming_byte := snd incoming,
                      ser_sb := push_bit 1 (ser_sb s2) OR u8_of_bool (fst incoming)\<rparr>;
              n' = n + 1
          in if n' = 8
             then res_map (\<lambda>c'. (True,
                    s3\<lparr>ser_transfer_state := SerialIdle, external_clock_pulses_pending := 0,
                       completed_output_bytes := completed_output_bytes s3 @ [current_outgoing_byte s3],
                       latest_completed_output_byte := Some (current_outgoing_byte s3),
                       current_outgoing_byte := 0, current_outgoing_shift_byte := 0,
                       current_incoming_byte := 0\<rparr>, c'))
                  (queue_interrupt_request SerialIrq c)
             else Inr (False, s3\<lparr>ser_transfer_state := TransferRequested n'\<rparr>, c))"

definition serial_tick_t_cycle_for_speed ::
    "cgb_speed_mode \<Rightarrow> serial \<Rightarrow> cycle_context
       \<Rightarrow> (serial_tick_telemetry \<times> serial \<times> cycle_context) res" where
  "serial_tick_t_cycle_for_speed speed s0 c =
     (let previous_clock_counter = ser_clock_counter s0;
          s = s0\<lparr>latest_completed_output_byte := None,
                 ser_clock_counter := ser_clock_counter s0 + 1\<rparr>
      in case ser_transfer_state s of
           SerialIdle \<Rightarrow> Inr (telemetry_default, s, c)
         | TransferRequested _ \<Rightarrow>
             let t0 = telemetry_default\<lparr>active_t_cycles := 1\<rparr>
             in (case ser_clock_mode s of
                   InternalClock \<Rightarrow>
                     let t1 = t0\<lparr>internal_ticks := 1\<rparr>
                     in if serial_internal_clock_edge previous_clock_counter (ser_clock_counter s)
                             speed (serial_cgb_high_speed_clock s)
                        then res_map (\<lambda>(completed, s', c').
                               (if completed then t1\<lparr>shift_edges := 1, completed_bytes := 1\<rparr>
                                else t1\<lparr>shift_edges := 1\<rparr>, s', c'))
                             (shift_one_bit s c)
                        else Inr (t1, s, c)
                 | ExternalClock \<Rightarrow>
                     let t1 = t0\<lparr>external_ticks := 1\<rparr>
                     in if external_clock_pulses_pending s \<noteq> 0
                        then res_map (\<lambda>(completed, s', c').
                               (if completed then t1\<lparr>shift_edges := 1, completed_bytes := 1\<rparr>
                                else t1\<lparr>shift_edges := 1\<rparr>, s', c'))
                             (shift_one_bit (s\<lparr>external_clock_pulses_pending :=
                                external_clock_pulses_pending s - 1\<rparr>) c)
                        else Inr (t1\<lparr>external_wait_ticks := 1\<rparr>, s, c)))"

subsection \<open>The exchange of a byte\<close>

text \<open>What the peer sends while \<open>out\<close> is shifted out.\<close>

fun peer_byte :: "serial_peer \<Rightarrow> u8 \<Rightarrow> u8" where
  "peer_byte Disconnected out = 0xFF"
| "peer_byte Loopback out = out"
| "peer_byte (StagedIncomingByte b) out = b"

definition shift_progress :: "nat \<Rightarrow> u8 \<Rightarrow> u8 \<Rightarrow> serial \<Rightarrow> bool" where
  "shift_progress k out sb0 s =
     (k < 8 \<and> ser_transfer_state s = TransferRequested (of_nat k)
      \<and> ser_sb s = push_bit k sb0 OR drop_bit (8 - k) (peer_byte (ser_peer s) out)
      \<and> (if k = 0 then staged_outgoing_byte s = out
         else current_outgoing_byte s = out \<and> current_outgoing_shift_byte s = push_bit k out
           \<and> current_incoming_byte s = push_bit k (staged_incoming_byte_for_peer (ser_peer s))))"

lemma and_0x80_iff: "(x::u8) AND 0x80 \<noteq> 0 \<longleftrightarrow> bit x 7"
  using bit_iff_and_push_bit_not_eq_0 [of x 7] by (simp add: push_bit_of_1)

lemma bit_push_top: "k < 8 \<Longrightarrow> bit (push_bit k (x::u8)) 7 \<longleftrightarrow> bit x (7 - k)"
  by (simp add: bit_push_bit_iff)

lemma shift_in_step:
  "push_bit 1 (push_bit k (a::u8) OR drop_bit (Suc j) b) OR u8_of_bool (bit b j)
    = push_bit (Suc k) a OR drop_bit j b"
proof (rule bit_word_eqI)
  fix n :: nat
  assume n: "n < LENGTH(8)"
  show "bit (push_bit 1 (push_bit k a OR drop_bit (Suc j) b) OR u8_of_bool (bit b j)) n
      = bit (push_bit (Suc k) a OR drop_bit j b) n"
  proof (cases n)
    case 0
    then show ?thesis
      by (simp only: bit_or_iff bit_push_bit_iff bit_drop_bit_eq bit_u8_of_bool) simp
  next
    case (Suc m)
    with n have "m < 7" by simp
    with Suc show ?thesis
      by (simp only: bit_or_iff bit_push_bit_iff bit_drop_bit_eq bit_u8_of_bool) auto
  qed
qed

lemma incoming_bit_progress:
  assumes "k < 8"
  shows "fst (incoming_bit_from_peer p (bit out (7 - k)) (push_bit k (staged_incoming_byte_for_peer p)))
      = bit (peer_byte p out) (7 - k)"
    and "snd (incoming_bit_from_peer p (bit out (7 - k)) (push_bit k (staged_incoming_byte_for_peer p)))
      = push_bit (Suc k) (staged_incoming_byte_for_peer p)"
proof -
  have "bit (0xFF :: u8) (7 - k)"
  proof -
    have "(0xFF :: u8) = - 1" by simp
    then show ?thesis by (simp only: bit_minus_1_iff) simp
  qed
  with assms show "fst (incoming_bit_from_peer p (bit out (7 - k)) (push_bit k (staged_incoming_byte_for_peer p)))
      = bit (peer_byte p out) (7 - k)"
    by (cases p) (simp_all add: and_0x80_iff bit_push_top)
  show "snd (incoming_bit_from_peer p (bit out (7 - k)) (push_bit k (staged_incoming_byte_for_peer p)))
      = push_bit (Suc k) (staged_incoming_byte_for_peer p)"
    by (cases p) simp_all
qed

lemma of_nat_u8_small: "k < 8 \<Longrightarrow> (of_nat k :: u8) = 0 \<longleftrightarrow> k = 0"
  "k < 8 \<Longrightarrow> (of_nat k :: u8) + 1 = 8 \<longleftrightarrow> k = 7"
  by (auto simp: word_unat_eq_iff unat_word_ariths unat_of_nat)

lemma shift_one_bit_requested:
  assumes "ser_transfer_state s = TransferRequested n"
  shows "shift_one_bit s c =
    (let out = (if n = 0 then staged_outgoing_byte s else current_outgoing_byte s);
         shiftb = (if n = 0 then staged_outgoing_byte s else current_outgoing_shift_byte s);
         inb = (if n = 0 then staged_incoming_byte_for_peer (ser_peer s) else current_incoming_byte s);
         incoming = incoming_bit_from_peer (ser_peer s) (bit shiftb 7) inb;
         sb = push_bit 1 (ser_sb s) OR u8_of_bool (fst incoming)
     in if n + 1 = 8
        then res_map (\<lambda>c'. (True,
               s\<lparr>ser_sb := sb, ser_transfer_state := SerialIdle, external_clock_pulses_pending := 0,
                 completed_output_bytes := completed_output_bytes s @ [out],
                 latest_completed_output_byte := Some out, current_outgoing_byte := 0,
                 current_outgoing_shift_byte := 0, current_incoming_byte := 0\<rparr>, c'))
             (queue_interrupt_request SerialIrq c)
        else Inr (False,
               s\<lparr>ser_sb := sb, ser_transfer_state := TransferRequested (n + 1),
                 current_outgoing_byte := out, current_outgoing_shift_byte := push_bit 1 shiftb,
                 current_incoming_byte := snd incoming\<rparr>, c))"
  using assms by (simp add: shift_one_bit_def Let_def and_0x80_iff [simplified])

lemma shift_progress_values:
  assumes "shift_progress k out sb0 s"
  shows "(if (of_nat k :: u8) = 0 then staged_outgoing_byte s else current_outgoing_byte s) = out"
    and "(if (of_nat k :: u8) = 0 then staged_outgoing_byte s else current_outgoing_shift_byte s)
      = push_bit k out"
    and "(if (of_nat k :: u8) = 0 then staged_incoming_byte_for_peer (ser_peer s)
      else current_incoming_byte s) = push_bit k (staged_incoming_byte_for_peer (ser_peer s))"
  using assms by (auto simp: shift_progress_def of_nat_u8_small)

text \<open>The state one shift leads to, and the whole bit.\<close>

definition shifted_bit_sb :: "nat \<Rightarrow> u8 \<Rightarrow> u8 \<Rightarrow> serial \<Rightarrow> u8" where
  "shifted_bit_sb k out sb0 s = push_bit (Suc k) sb0 OR drop_bit (7 - k) (peer_byte (ser_peer s) out)"

lemma shift_progress_step:
  assumes p: "shift_progress k out sb0 s"
  shows "k < 7 \<Longrightarrow> \<exists>s'. shift_one_bit s c = Inr (False, s', c) \<and> shift_progress (Suc k) out sb0 s'
      \<and> ser_peer s' = ser_peer s \<and> ser_clock_mode s' = ser_clock_mode s
      \<and> ser_clock_counter s' = ser_clock_counter s
      \<and> ser_cgb_high_speed_clock s' = ser_cgb_high_speed_clock s
      \<and> cgb_high_speed_serial_enabled s' = cgb_high_speed_serial_enabled s
      \<and> completed_output_bytes s' = completed_output_bytes s"
    and "k = 7 \<Longrightarrow> ctx_room c d (Suc i) \<Longrightarrow>
      \<exists>s' c'. shift_one_bit s c = Inr (True, s', c') \<and> ser_transfer_state s' = SerialIdle
      \<and> ser_sb s' = peer_byte (ser_peer s) out \<and> interrupt_requests c' = interrupt_requests c @ [SerialIrq]
      \<and> completed_output_bytes s' = completed_output_bytes s @ [out]
      \<and> latest_completed_output_byte s' = Some out"
proof -
  from p have k: "k < 8" and st: "ser_transfer_state s = TransferRequested (of_nat k)"
    and sb: "ser_sb s = push_bit k sb0 OR drop_bit (8 - k) (peer_byte (ser_peer s) out)"
    by (auto simp: shift_progress_def)
  have j: "8 - k = Suc (7 - k)" using k by simp
  have sb': "push_bit 1 (ser_sb s) OR u8_of_bool (bit (peer_byte (ser_peer s) out) (7 - k))
      = shifted_bit_sb k out sb0 s"
    unfolding sb j shifted_bit_sb_def by (rule shift_in_step)
  note run = shift_one_bit_requested [OF st, of c, unfolded shift_progress_values [OF p] Let_def
      bit_push_top [OF k] incoming_bit_progress [OF k] sb' of_nat_u8_small(2) [OF k]]
  show "\<exists>s'. shift_one_bit s c = Inr (False, s', c) \<and> shift_progress (Suc k) out sb0 s'
      \<and> ser_peer s' = ser_peer s \<and> ser_clock_mode s' = ser_clock_mode s
      \<and> ser_clock_counter s' = ser_clock_counter s
      \<and> ser_cgb_high_speed_clock s' = ser_cgb_high_speed_clock s
      \<and> cgb_high_speed_serial_enabled s' = cgb_high_speed_serial_enabled s
      \<and> completed_output_bytes s' = completed_output_bytes s" if "k < 7"
  proof -
    let ?s = "s\<lparr>ser_sb := shifted_bit_sb k out sb0 s, ser_transfer_state := TransferRequested (of_nat k + 1),
      current_outgoing_byte := out, current_outgoing_shift_byte := push_bit 1 (push_bit k out),
      current_incoming_byte := push_bit (Suc k) (staged_incoming_byte_for_peer (ser_peer s))\<rparr>"
    have "shift_one_bit s c = Inr (False, ?s, c)" using run that by simp
    moreover have "shift_progress (Suc k) out sb0 ?s"
      using that by (simp add: shift_progress_def shifted_bit_sb_def add.commute [of _ 1])
    ultimately show ?thesis
      by (intro exI [of _ ?s]) (simp add: cgb_high_speed_serial_enabled_def)
  qed
  show "\<exists>s' c'. shift_one_bit s c = Inr (True, s', c') \<and> ser_transfer_state s' = SerialIdle
      \<and> ser_sb s' = peer_byte (ser_peer s) out \<and> interrupt_requests c' = interrupt_requests c @ [SerialIrq]
      \<and> completed_output_bytes s' = completed_output_bytes s @ [out]
      \<and> latest_completed_output_byte s' = Some out" if "k = 7" "ctx_room c d (Suc i)"
  proof -
    have "push_bit 8 sb0 = 0"
      by (rule bit_word_eqI) (simp add: bit_push_bit_iff)
    then have "shifted_bit_sb 7 out sb0 s = peer_byte (ser_peer s) out"
      by (simp add: shifted_bit_sb_def)
    with that run queue_interrupt_request_ok [OF that(2), of SerialIrq] show ?thesis by auto
  qed
qed

subsection \<open>The internal clock\<close>

definition serial_edge_period :: "cgb_speed_mode \<Rightarrow> serial \<Rightarrow> nat" where
  "serial_edge_period speed s =
     2 * 2 ^ serial_internal_clock_edge_bit speed (serial_cgb_high_speed_clock s)"

definition serial_phase :: "cgb_speed_mode \<Rightarrow> serial \<Rightarrow> nat" where
  "serial_phase speed s = unat (ser_clock_counter s) mod serial_edge_period speed s"

text \<open>T-cycles until the transfer completes, \<open>k\<close> bits being done.\<close>

definition serial_countdown :: "cgb_speed_mode \<Rightarrow> nat \<Rightarrow> serial \<Rightarrow> nat" where
  "serial_countdown speed k s =
     serial_edge_period speed s - serial_phase speed s + (7 - k) * serial_edge_period speed s"

lemma serial_edge_bit_less: "serial_internal_clock_edge_bit speed h < 16"
  by (cases speed; cases h) simp_all

lemma serial_edge_iff:
  "serial_internal_clock_edge (ser_clock_counter s) (ser_clock_counter s + 1) speed
     (serial_cgb_high_speed_clock s)
   \<longleftrightarrow> Suc (serial_phase speed s) = serial_edge_period speed s"
  using falling_edge_iff [OF serial_edge_bit_less [of speed "serial_cgb_high_speed_clock s"],
      of "ser_clock_counter s"]
  by (simp add: serial_internal_clock_edge_def Let_def serial_phase_def serial_edge_period_def
      bit_iff_and_push_bit_not_eq_0)

lemma serial_phase_less: "serial_phase speed s < serial_edge_period speed s"
  by (simp add: serial_phase_def serial_edge_period_def)

lemma serial_phase_suc:
  assumes "ser_clock_counter s' = ser_clock_counter s + 1"
    and "serial_cgb_high_speed_clock s' = serial_cgb_high_speed_clock s"
  shows "serial_phase speed s' =
    (if Suc (serial_phase speed s) = serial_edge_period speed s then 0
     else Suc (serial_phase speed s))"
  using unat_suc_mod [OF serial_edge_bit_less [of speed "serial_cgb_high_speed_clock s"],
      of "ser_clock_counter s"] assms
  by (simp add: serial_phase_def serial_edge_period_def)

definition serial_advanced :: "serial \<Rightarrow> serial" where
  "serial_advanced s =
     s\<lparr>latest_completed_output_byte := None, ser_clock_counter := ser_clock_counter s + 1\<rparr>"

lemma serial_advanced_simps [simp]:
  "ser_clock_counter (serial_advanced s) = ser_clock_counter s + 1"
  "ser_peer (serial_advanced s) = ser_peer s"
  "ser_clock_mode (serial_advanced s) = ser_clock_mode s"
  "ser_transfer_state (serial_advanced s) = ser_transfer_state s"
  "completed_output_bytes (serial_advanced s) = completed_output_bytes s"
  "serial_cgb_high_speed_clock (serial_advanced s) = serial_cgb_high_speed_clock s"
  "shift_progress k out sb0 (serial_advanced s) = shift_progress k out sb0 s"
  by (simp_all add: serial_advanced_def shift_progress_def serial_cgb_high_speed_clock_def
      cgb_high_speed_serial_enabled_def)

definition serial_transferring :: "nat \<Rightarrow> u8 \<Rightarrow> u8 \<Rightarrow> serial \<Rightarrow> bool" where
  "serial_transferring k out sb0 s =
     (shift_progress k out sb0 s \<and> ser_clock_mode s = InternalClock)"

lemma serial_tick_internal:
  assumes "serial_transferring k out sb0 s"
  shows "serial_tick_t_cycle_for_speed speed s c =
    (let t1 = telemetry_default\<lparr>active_t_cycles := 1, internal_ticks := 1\<rparr>
     in if Suc (serial_phase speed s) = serial_edge_period speed s
        then res_map (\<lambda>(completed, s', c').
               (if completed then t1\<lparr>shift_edges := 1, completed_bytes := 1\<rparr>
                else t1\<lparr>shift_edges := 1\<rparr>, s', c')) (shift_one_bit (serial_advanced s) c)
        else Inr (t1, serial_advanced s, c))"
  using assms serial_edge_iff [of s speed]
  by (simp add: serial_tick_t_cycle_for_speed_def Let_def serial_transferring_def
      shift_progress_def serial_advanced_def serial_cgb_high_speed_clock_def
      cgb_high_speed_serial_enabled_def)

lemma serial_countdown_one:
  assumes "k < 8"
  shows "serial_countdown speed k s = 1
    \<longleftrightarrow> Suc (serial_phase speed s) = serial_edge_period speed s \<and> k = 7"
proof -
  define d where "d = serial_edge_period speed s - serial_phase speed s"
  define m where "m = (7 - k) * serial_edge_period speed s"
  have "0 < d" and "d = 1 \<longleftrightarrow> Suc (serial_phase speed s) = serial_edge_period speed s"
    using serial_phase_less [of speed s] by (auto simp: d_def)
  moreover have "m = 0 \<longleftrightarrow> k = 7"
    using assms by (auto simp: m_def serial_edge_period_def)
  moreover have "serial_countdown speed k s = d + m"
    by (simp only: serial_countdown_def d_def m_def)
  ultimately show ?thesis by auto
qed

lemma serial_tick_waits:
  assumes "serial_transferring k out sb0 s" and "serial_countdown speed k s \<noteq> 1"
  shows "\<exists>t s' k'. serial_tick_t_cycle_for_speed speed s c = Inr (t, s', c)
    \<and> serial_transferring k' out sb0 s' \<and> Suc (serial_countdown speed k' s') = serial_countdown speed k s
    \<and> ser_peer s' = ser_peer s \<and> completed_output_bytes s' = completed_output_bytes s"
proof (cases "Suc (serial_phase speed s) = serial_edge_period speed s")
  case False
  let ?s = "serial_advanced s"
  have "serial_edge_period speed ?s = serial_edge_period speed s"
    by (simp add: serial_edge_period_def)
  moreover have "serial_phase speed ?s = Suc (serial_phase speed s)"
    using serial_phase_suc [of ?s s speed] False by simp
  ultimately have "Suc (serial_countdown speed k ?s) = serial_countdown speed k s"
    using serial_phase_less [of speed s] False by (simp add: serial_countdown_def)
  with assms False show ?thesis
    by (auto simp: serial_tick_internal [OF assms(1)] Let_def serial_transferring_def intro!: exI [of _ k])
next
  case True
  have k: "k < 8" using assms(1) by (simp add: serial_transferring_def shift_progress_def)
  with True assms(2) serial_countdown_one [OF k, of speed s] have k7: "k < 7" by auto
  have "shift_progress k out sb0 (serial_advanced s)"
    using assms(1) by (simp add: serial_transferring_def)
  from shift_progress_step(1) [OF this k7] obtain s' where s':
    "shift_one_bit (serial_advanced s) c = Inr (False, s', c)" "shift_progress (Suc k) out sb0 s'"
    "ser_peer s' = ser_peer s" "ser_clock_mode s' = ser_clock_mode s"
    "ser_clock_counter s' = ser_clock_counter s + 1"
    "ser_cgb_high_speed_clock s' = ser_cgb_high_speed_clock (serial_advanced s)"
    "cgb_high_speed_serial_enabled s' = cgb_high_speed_serial_enabled (serial_advanced s)"
    "completed_output_bytes s' = completed_output_bytes s"
    by auto
  then have hs: "serial_cgb_high_speed_clock s' = serial_cgb_high_speed_clock s"
    by (simp add: serial_cgb_high_speed_clock_def serial_advanced_def cgb_high_speed_serial_enabled_def)
  then have per: "serial_edge_period speed s' = serial_edge_period speed s"
    by (simp add: serial_edge_period_def)
  obtain m where m: "7 - k = Suc m" "7 - Suc k = m" using k7 by (metis Suc_diff_Suc)
  have ph: "serial_phase speed s' = 0"
    using serial_phase_suc [OF s'(5) hs, of speed] True by simp
  have "Suc (serial_countdown speed (Suc k) s') = serial_countdown speed k s"
    using True per ph m by (simp add: serial_countdown_def)
  with s' assms True show ?thesis
    by (auto simp: serial_tick_internal [OF assms(1)] Let_def serial_transferring_def
        intro!: exI [of _ "Suc k"])
qed

lemma serial_tick_completes:
  assumes "serial_transferring k out sb0 s" and "serial_countdown speed k s = 1"
    and room: "ctx_room c d (Suc i)"
  shows "\<exists>t s' c'. serial_tick_t_cycle_for_speed speed s c = Inr (t, s', c')
    \<and> ser_transfer_state s' = SerialIdle \<and> ser_sb s' = peer_byte (ser_peer s) out
    \<and> interrupt_requests c' = interrupt_requests c @ [SerialIrq]
    \<and> completed_output_bytes s' = completed_output_bytes s @ [out]
    \<and> latest_completed_output_byte s' = Some out"
proof -
  have k: "k < 8" using assms(1) by (simp add: serial_transferring_def shift_progress_def)
  with assms(2) serial_countdown_one [OF k, of speed s]
  have edge: "Suc (serial_phase speed s) = serial_edge_period speed s" and k7: "k = 7" by auto
  have "shift_progress k out sb0 (serial_advanced s)"
    using assms(1) by (simp add: serial_transferring_def)
  from shift_progress_step(2) [OF this k7 room] edge show ?thesis
    by (auto simp: serial_tick_internal [OF assms(1)] Let_def)
qed

fun serial_run :: "cgb_speed_mode \<Rightarrow> u64 list \<Rightarrow> serial \<Rightarrow> (bool list \<times> serial) res" where
  "serial_run speed [] s = Inr ([], s)"
| "serial_run speed (now # nows) s =
     res_bind (serial_tick_t_cycle_for_speed speed s (context_for_cycle now)) (\<lambda>(t, s', c).
       res_map (\<lambda>(irqs, s''). ((SerialIrq \<in> set (interrupt_requests c)) # irqs, s''))
         (serial_run speed nows s'))"

lemma serial_run_to_completion:
  "serial_transferring k out sb0 s \<Longrightarrow> length nows = serial_countdown speed k s \<Longrightarrow>
   \<exists>s'. serial_run speed nows s = Inr (replicate (serial_countdown speed k s - 1) False @ [True], s')
     \<and> ser_transfer_state s' = SerialIdle \<and> ser_sb s' = peer_byte (ser_peer s) out
     \<and> completed_output_bytes s' = completed_output_bytes s @ [out]
     \<and> latest_completed_output_byte s' = Some out"
proof (induction nows arbitrary: s k)
  case Nil
  then show ?case using serial_phase_less [of speed s] by (simp add: serial_countdown_def)
next
  case (Cons now nows)
  let ?c = "context_for_cycle now"
  have room: "ctx_room ?c 0 (Suc 0)" by (simp add: MAX_INTERRUPT_REQUESTS_PER_CYCLE_def)
  show ?case
  proof (cases "serial_countdown speed k s = 1")
    case True
    with Cons.prems have "nows = []" by simp
    with True serial_tick_completes [OF Cons.prems(1) True room] show ?thesis by auto
  next
    case False
    from serial_tick_waits [OF Cons.prems(1) False, of ?c] obtain t s1 k1 where s1:
      "serial_tick_t_cycle_for_speed speed s ?c = Inr (t, s1, ?c)"
      "serial_transferring k1 out sb0 s1" "Suc (serial_countdown speed k1 s1) = serial_countdown speed k s"
      "ser_peer s1 = ser_peer s" "completed_output_bytes s1 = completed_output_bytes s"
      by blast
    moreover have "length nows = serial_countdown speed k1 s1" using Cons.prems(2) s1(3) by simp
    moreover from Cons.IH [OF s1(2) this] obtain s' where
      "serial_run speed nows s1 = Inr (replicate (serial_countdown speed k1 s1 - 1) False @ [True], s')"
      "ser_transfer_state s' = SerialIdle" "ser_sb s' = peer_byte (ser_peer s1) out"
      "completed_output_bytes s' = completed_output_bytes s1 @ [out]"
      "latest_completed_output_byte s' = Some out" by blast
    moreover have "0 < serial_countdown speed k1 s1"
      using serial_phase_less [of speed s1] by (simp add: serial_countdown_def)
    then obtain m where "serial_countdown speed k1 s1 = Suc m" using gr0_conv_Suc by blast
    moreover from this s1(3) have "serial_countdown speed k s = Suc (Suc m)" by simp
    ultimately show ?thesis by simp
  qed
qed

subsection \<open>The invariant\<close>

definition serial_wf :: "serial \<Rightarrow> bool" where
  "serial_wf s =
     ((case ser_transfer_state s of SerialIdle \<Rightarrow> True | TransferRequested n \<Rightarrow> n < 8)
      \<and> (external_clock_pulses_pending s \<noteq> 0 \<longrightarrow> accepts_external_clock_pulse s)
      \<and> (ser_cgb_high_speed_clock s \<longrightarrow> cgb_high_speed_serial_enabled s))"

datatype serial_op =
    SerTick cgb_speed_mode u64
  | SerWaitTick
  | SerIdleTick
  | SerWriteSb u8
  | SerWriteSc u8
  | SerSetPeer serial_peer
  | SerPulse
  | SerTakeOutput
  | SerMode operating_mode
  | SerStartup u8 u8 u16

fun serial_apply :: "serial_op \<Rightarrow> serial \<Rightarrow> serial res" where
  "serial_apply (SerTick speed now) s =
     res_map (\<lambda>(t, s', c). s') (serial_tick_t_cycle_for_speed speed s (context_for_cycle now))"
| "serial_apply SerWaitTick s = Inr (snd (tick_external_wait_t_cycle s))"
| "serial_apply SerIdleTick s = Inr (tick_idle_t_cycle s)"
| "serial_apply (SerWriteSb v) s = Inr (write_sb v s)"
| "serial_apply (SerWriteSc v) s = Inr (write_sc v s)"
| "serial_apply (SerSetPeer p) s = Inr (set_peer p s)"
| "serial_apply SerPulse s = Inr (snd (queue_external_clock_pulse s))"
| "serial_apply SerTakeOutput s = Inr (snd (take_completed_output_bytes s))"
| "serial_apply (SerMode m) s = Inr (serial_apply_operating_mode_state m s)"
| "serial_apply (SerStartup sb sc n) s =
     Inr (serial_apply_startup_state
       (serial_startup_with_clock_counter n (serial_startup_from_registers sb sc)) s)"

fun serial_apply_all :: "serial_op list \<Rightarrow> serial \<Rightarrow> serial res" where
  "serial_apply_all [] s = Inr s"
| "serial_apply_all (x # xs) s = res_bind (serial_apply x s) (serial_apply_all xs)"

lemmas serial_wf_defs =
  serial_wf_def accepts_external_clock_pulse_def transfer_requested_def
  cgb_high_speed_serial_enabled_def

lemma small_bits_step: "(n::u8) < 8 \<Longrightarrow> n + 1 \<noteq> 8 \<Longrightarrow> n + 1 < 8"
  by unat_arith

lemma shift_one_bit_wf:
  assumes "serial_wf s" and "ctx_room c 0 (Suc 0)"
  shows "\<exists>completed s' c'. shift_one_bit s c = Inr (completed, s', c') \<and> serial_wf s'"
proof (cases "ser_transfer_state s")
  case SerialIdle
  with assms show ?thesis by (auto simp: shift_one_bit_def)
next
  case (TransferRequested n)
  with assms(1) have n: "n < 8" by (simp add: serial_wf_def)
  obtain c' where "queue_interrupt_request SerialIrq c = Inr c'"
    using queue_interrupt_request_ok [OF assms(2)] by blast
  with assms(1) TransferRequested small_bits_step [OF n] show ?thesis
    by (auto simp: shift_one_bit_requested Let_def serial_wf_defs)
qed

lemma serial_tick_wf:
  assumes "serial_wf s" and "ctx_room c 0 (Suc 0)"
  shows "\<exists>t s' c'. serial_tick_t_cycle_for_speed speed s c = Inr (t, s', c') \<and> serial_wf s'"
proof -
  have adv: "serial_wf (serial_advanced s)"
    using assms(1) by (simp add: serial_advanced_def serial_wf_defs)
  then have wait: "serial_wf (s\<lparr>latest_completed_output_byte := None,
      ser_clock_counter := ser_clock_counter s + 1\<rparr>)"
    by (simp add: serial_advanced_def)
  have pulse: "serial_wf (s\<lparr>latest_completed_output_byte := None,
      ser_clock_counter := ser_clock_counter s + 1,
      external_clock_pulses_pending := external_clock_pulses_pending s - 1\<rparr>)"
    if "external_clock_pulses_pending s \<noteq> 0"
    using that assms(1) by (simp add: serial_wf_defs)
  show ?thesis
    using shift_one_bit_wf [OF wait assms(2)] shift_one_bit_wf [OF pulse assms(2)] wait
    by (auto simp: serial_tick_t_cycle_for_speed_def Let_def
        split: serial_transfer_state.splits serial_clock_mode.splits)
qed

lemma serial_apply_ok:
  assumes "serial_wf s"
  shows "\<exists>s'. serial_apply x s = Inr s' \<and> serial_wf s'"
proof (cases x)
  case (SerTick speed now)
  have "ctx_room (context_for_cycle now) 0 (Suc 0)"
    by (simp add: MAX_INTERRUPT_REQUESTS_PER_CYCLE_def)
  from serial_tick_wf [OF assms this, of speed] SerTick show ?thesis by auto
qed (use assms in \<open>auto simp: serial_wf_defs tick_external_wait_t_cycle_def tick_idle_t_cycle_def
  write_sb_def write_sc_def set_peer_def queue_external_clock_pulse_def take_completed_output_bytes_def
  serial_apply_operating_mode_state_def serial_apply_startup_state_def Let_def
  serial_startup_with_clock_counter_def serial_startup_from_registers_def
  split: serial_transfer_state.splits\<close>)

lemma serial_new_wf: "serial_wf (serial_new m)"
  by (simp add: serial_new_def serial_new_with_operating_mode_def serial_wf_defs)

lemma serial_apply_all_ok: "serial_wf s \<Longrightarrow> \<exists>s'. serial_apply_all xs s = Inr s' \<and> serial_wf s'"
proof (induction xs arbitrary: s)
  case (Cons x xs)
  then obtain s1 where "serial_apply x s = Inr s1" "serial_wf s1"
    using serial_apply_ok by blast
  with Cons.IH [of s1] show ?case by simp
qed simp

lemma serial_save_restore [simp]:
  "serial_restore_save_state (serial_capture_save_state s) s' = s"
  by (simp add: serial_restore_save_state_def serial_capture_save_state_def)

lemma start_transferring:
  assumes "v AND 0x81 = 0x81"
  shows "serial_transferring 0 b b (write_sc v (write_sb b s))"
proof -
  have "(0x81 :: u8) AND 0x80 = 0x80" "(0x81 :: u8) AND 1 = 1" by simp_all
  with assms have "v AND 0x80 = 0x80" "v AND 1 = 1" by (metis and.assoc)+
  moreover have "drop_bit 8 x = (0::u8)" for x
    by (rule bit_word_eqI) (auto simp: bit_drop_bit_eq dest: bit_imp_le_length)
  ultimately show ?thesis
    by (simp add: serial_transferring_def shift_progress_def write_sc_def write_sb_def
        SC_CLOCK_MODE_BIT_def SC_TRANSFER_REQUEST_BIT_def)
qed

subsection \<open>Properties\<close>

text \<open>C11. A transfer started on the internal clock exchanges a whole byte: after exactly
  \<open>serial_countdown\<close> T-cycles, and not before, SB holds the byte the peer sends (ones from a
  disconnected cable, the byte itself in loopback, the staged byte otherwise), the byte sent
  is recorded as completed output, the transfer is idle and its one interrupt is queued.\<close>

theorem serial_internal_exchange:
  assumes "v AND 0x81 = 0x81"
    and "s1 = write_sc v (write_sb b s)"
    and "length nows = serial_countdown speed 0 s1"
  shows "\<exists>s'. serial_run speed nows s1 = Inr (replicate (serial_countdown speed 0 s1 - 1) False @ [True], s')
     \<and> read_sb s' = peer_byte (ser_peer s) b \<and> ser_transfer_state s' = SerialIdle
     \<and> completed_output_bytes s' = completed_output_bytes s @ [b]
     \<and> latest_completed_output_byte s' = Some b"
proof -
  have "ser_peer s1 = ser_peer s" "completed_output_bytes s1 = completed_output_bytes s"
    by (simp_all add: assms(2) write_sc_def write_sb_def)
  with serial_run_to_completion [OF start_transferring [OF assms(1), of b s, folded assms(2)] assms(3)]
  show ?thesis by (auto simp: read_sb_def)
qed

theorem serial_internal_exchange_witness:
  "\<exists>s'. serial_run NormalSpeed (replicate 4096 0)
        (write_sc 0x81 (write_sb 0x42 (set_peer Loopback (serial_new GameBoy))))
      = Inr (replicate 4095 False @ [True], s') \<and> read_sb s' = 0x42"
proof -
  let ?s = "set_peer Loopback (serial_new GameBoy)"
  let ?s1 = "write_sc 0x81 (write_sb 0x42 ?s)"
  have cd: "serial_countdown NormalSpeed 0 ?s1 = 4096"
    by (simp add: serial_countdown_def serial_edge_period_def serial_phase_def
        serial_cgb_high_speed_clock_def cgb_high_speed_serial_enabled_def write_sc_def write_sb_def
        set_peer_def serial_new_def serial_new_with_operating_mode_def is_cgb_family_def)
  have "length (replicate 4096 (0::u64)) = serial_countdown NormalSpeed 0 ?s1"
    by (simp only: cd length_replicate)
  from serial_internal_exchange [OF _ refl this] show ?thesis
    unfolding cd by (auto simp: set_peer_def)
qed

text \<open>No sequence of ticks, register writes, clock pulses, peer changes, mode changes and
  register-derived startup states makes the serial port panic; every state reached has fewer
  than eight bits shifted, holds external pulses only while it waits for them, and runs the
  high-speed clock only where the model enables it.\<close>

theorem serial_never_panics:
  "\<exists>s. serial_apply_all xs (serial_new m) = Inr s \<and> serial_wf s"
  using serial_apply_all_ok [OF serial_new_wf] .

end
