(* ===== verification/Cart_Types.thy ===== *)
theory Cart_Types
  imports Cart_Header
begin

text \<open>
  The shared vocabulary of the cartridge mappers (\<open>cartridge.rs\<close>): sizes, the mapped ROM
  window, the description of an external access, persistence metadata and the persistent
  states with their errors, and the fields and operations that many boards have in common.
  The texts of error messages and trace lines are left out.
\<close>

subsection \<open>Sizes\<close>

definition RAM_ABSENT_READ_VALUE :: u8 where "RAM_ABSENT_READ_VALUE = 0xFF"
definition ROM_BANK_BYTES :: nat where "ROM_BANK_BYTES = 16 * 1024"
definition NO_MBC_SUPPORTED_ROM_BYTES :: nat where "NO_MBC_SUPPORTED_ROM_BYTES = 32 * 1024"
definition NO_MBC_SUPPORTED_RAM_BYTES :: nat where "NO_MBC_SUPPORTED_RAM_BYTES = 8 * 1024"
definition MBC1_STANDARD_RAM_BYTES_MAX :: nat where "MBC1_STANDARD_RAM_BYTES_MAX = 32 * 1024"
definition MBC1_LARGE_ROM_RAM_BYTES :: nat where "MBC1_LARGE_ROM_RAM_BYTES = 8 * 1024"
definition M161_BANK_BYTES :: nat where "M161_BANK_BYTES = 32 * 1024"
definition M161_SUPPORTED_ROM_BANKS_MIN :: nat where "M161_SUPPORTED_ROM_BANKS_MIN = 5"
definition M161_SUPPORTED_ROM_BANKS_MAX :: nat where "M161_SUPPORTED_ROM_BANKS_MAX = 8"
definition MBC2_SUPPORTED_ROM_BYTES_MAX :: nat where "MBC2_SUPPORTED_ROM_BYTES_MAX = 256 * 1024"
definition MBC2_RAM_CELL_COUNT :: nat where "MBC2_RAM_CELL_COUNT = 512"
definition MBC2_RAM_ADDRESS_MASK :: u64 where "MBC2_RAM_ADDRESS_MASK = 511"
definition MBC2_RAM_READ_HIGH_NIBBLE :: u8 where "MBC2_RAM_READ_HIGH_NIBBLE = 0xF0"
definition MMM01_MENU_BYTES :: nat where "MMM01_MENU_BYTES = 32 * 1024"
definition MMM01_MIN_ROM_BYTES :: nat where "MMM01_MIN_ROM_BYTES = 64 * 1024"
definition MMM01_SUPPORTED_ROM_BYTES_MAX :: nat where
  "MMM01_SUPPORTED_ROM_BYTES_MAX = 8 * 1024 * 1024"
definition HUC1_SUPPORTED_ROM_BYTES_MAX :: nat where "HUC1_SUPPORTED_ROM_BYTES_MAX = 1024 * 1024"
definition HUC1_SUPPORTED_RAM_BYTES_MAX :: nat where "HUC1_SUPPORTED_RAM_BYTES_MAX = 32 * 1024"
definition MBC3_SUPPORTED_ROM_BYTES_MAX :: nat where
  "MBC3_SUPPORTED_ROM_BYTES_MAX = 2 * 1024 * 1024"
definition MBC30_SUPPORTED_ROM_BYTES_MAX :: nat where
  "MBC30_SUPPORTED_ROM_BYTES_MAX = 4 * 1024 * 1024"
definition MBC5_SUPPORTED_ROM_BYTES_MAX :: nat where
  "MBC5_SUPPORTED_ROM_BYTES_MAX = 8 * 1024 * 1024"

named_theorems size_defs \<open>the sizes as numerals\<close>

lemmas cartridge_sizes [size_defs] =
  ROM_BANK_BYTES_def NO_MBC_SUPPORTED_ROM_BYTES_def NO_MBC_SUPPORTED_RAM_BYTES_def
  MBC1_STANDARD_RAM_BYTES_MAX_def MBC1_LARGE_ROM_RAM_BYTES_def M161_BANK_BYTES_def
  M161_SUPPORTED_ROM_BANKS_MIN_def M161_SUPPORTED_ROM_BANKS_MAX_def
  MBC2_SUPPORTED_ROM_BYTES_MAX_def MBC2_RAM_CELL_COUNT_def MMM01_MENU_BYTES_def
  MMM01_MIN_ROM_BYTES_def MMM01_SUPPORTED_ROM_BYTES_MAX_def HUC1_SUPPORTED_ROM_BYTES_MAX_def
  HUC1_SUPPORTED_RAM_BYTES_MAX_def MBC3_SUPPORTED_ROM_BYTES_MAX_def
  MBC30_SUPPORTED_ROM_BYTES_MAX_def MBC5_SUPPORTED_ROM_BYTES_MAX_def

subsection \<open>Mapped ROM windows\<close>

datatype cartridge_mapped_rom_source = FromRom | FromFlash

record cartridge_mapped_rom_window =
  win_source :: cartridge_mapped_rom_source
  win_bank :: nat
  win_bank_size :: nat
  win_bank_offset :: nat

definition rom_window :: "nat \<Rightarrow> nat \<Rightarrow> nat \<Rightarrow> cartridge_mapped_rom_window" where
  "rom_window bank bank_size bank_offset =
     \<lparr>win_source = FromRom, win_bank = bank, win_bank_size = bank_size,
      win_bank_offset = bank_offset\<rparr>"

definition flash_window :: "nat \<Rightarrow> nat \<Rightarrow> nat \<Rightarrow> cartridge_mapped_rom_window" where
  "flash_window bank bank_size bank_offset =
     \<lparr>win_source = FromFlash, win_bank = bank, win_bank_size = bank_size,
      win_bank_offset = bank_offset\<rparr>"

text \<open>The byte of the image a window points at.\<close>

definition window_index :: "cartridge_mapped_rom_window \<Rightarrow> nat" where
  "window_index w = win_bank w * win_bank_size w + win_bank_offset w"

subsection \<open>External accesses\<close>

datatype cartridge_rtc_register = RtcSeconds | RtcMinutes | RtcHours | RtcDayLow | RtcDayHigh

datatype mbc6_window = Mbc6WindowA | Mbc6WindowB

datatype mbc7_accelerometer_axis = AxisX | AxisY

datatype mbc7_accelerometer_byte = AxisLow | AxisHigh

datatype cartridge_external_target =
    NoDevice
  | LinearRam
  | BankedRam u8
  | Mbc6RamTarget mbc6_window u8
  | Mbc2InternalRam
  | IrRegister
  | Huc3CommandMailbox
  | Huc3ResponseMailbox
  | Huc3SemaphoreTarget
  | Huc3InvalidSelector u8
  | RtcRegisterTarget cartridge_rtc_register
  | ReservedSelectorTarget u8
  | Mbc7AccelerometerLatchReset
  | Mbc7AccelerometerLatchCommit
  | Mbc7AccelerometerAxis mbc7_accelerometer_axis mbc7_accelerometer_byte
  | Mbc7FixedRegister u8
  | Mbc7EepromSerialTarget
  | Mbc7ReservedRegister u8
  | PocketCameraRegister u8

datatype cartridge_external_availability = Accessible | Disabled | Absent | Reserved

datatype cartridge_external_read_behavior =
    ReadStorage
  | InfraredSensor
  | ReadOpenBus
  | Huc3MailboxResponse
  | Huc3SemaphoreReady
  | RtcLatched
  | ReadMbc7Accelerometer
  | ReadMbc7EepromSerial
  | FallbackValue u8

datatype cartridge_external_write_behavior =
    WriteStorage
  | InfraredTransmitter
  | Huc3MailboxCommandArgument
  | Huc3SemaphoreControl
  | RtcLive
  | Mbc7AccelerometerLatch
  | WriteMbc7EepromSerial
  | WriteIgnored

record cartridge_external_access_info =
  acc_address :: u16
  acc_target :: cartridge_external_target
  acc_availability :: cartridge_external_availability
  acc_read_behavior :: cartridge_external_read_behavior
  acc_write_behavior :: cartridge_external_write_behavior
  acc_rtc_ready_at :: "u64 option"

definition access_info_new ::
    "u16 \<Rightarrow> cartridge_external_target \<Rightarrow> cartridge_external_availability
     \<Rightarrow> cartridge_external_read_behavior \<Rightarrow> cartridge_external_write_behavior
     \<Rightarrow> cartridge_external_access_info" where
  "access_info_new address target availability rd wr =
     \<lparr>acc_address = address, acc_target = target, acc_availability = availability,
      acc_read_behavior = rd, acc_write_behavior = wr, acc_rtc_ready_at = None\<rparr>"

definition access_info_no_device :: "u16 \<Rightarrow> cartridge_external_access_info" where
  "access_info_no_device address =
     access_info_new address NoDevice Absent (FallbackValue RAM_ABSENT_READ_VALUE) WriteIgnored"

text \<open>The three answers that go together in every description of a RAM access.\<close>

definition storage_access ::
    "u16 \<Rightarrow> cartridge_external_target \<Rightarrow> bool \<Rightarrow> cartridge_external_availability
     \<Rightarrow> cartridge_external_access_info" where
  "storage_access address target available otherwise =
     access_info_new address target
       (if available then Accessible else otherwise)
       (if available then ReadStorage else FallbackValue RAM_ABSENT_READ_VALUE)
       (if available then WriteStorage else WriteIgnored)"

subsection \<open>Persistence\<close>

datatype cartridge_ram_payload_kind = PayloadLinear nat | PayloadMbc2Nibbles nat

datatype cartridge_persistence_profile =
    ProfileNone
  | NonPersistentRam cartridge_ram_payload_kind
  | PersistentRam cartridge_ram_payload_kind
  | PersistentRtc
  | PersistentRamAndRtc cartridge_ram_payload_kind
  | PersistentRamAndFlash cartridge_ram_payload_kind nat nat
  | PersistentEeprom nat

record cartridge_persistence_metadata =
  meta_has_battery :: bool
  meta_has_rtc :: bool
  meta_profile :: cartridge_persistence_profile

record mbc3_rtc_state =
  rtc_seconds :: u8
  rtc_minutes :: u8
  rtc_hours :: u8
  rtc_day_counter :: u16
  rtc_halt :: bool
  rtc_carry :: bool

record huc3_rtc_state =
  h3_minutes_of_day :: u16
  h3_days :: u16
  h3_subminute_seconds :: u8
  h3_event_minutes_of_day :: u16
  h3_event_days :: u16

record huc3_save =
  h3p_ram :: "u8 list"
  h3p_mcu_ram :: "u8 list"
  h3p_rtc :: huc3_rtc_state
  h3p_rom_bank :: u8
  h3p_ram_bank :: u8
  h3p_select_mode :: u8
  h3p_access_address :: u8
  h3p_mailbox_command :: u8
  h3p_mailbox_argument :: u8
  h3p_last_response_nybble :: u8
  h3p_semaphore_ready :: bool
  h3p_ir_emitter_on :: bool
  h3p_ir_light_detected :: bool
  h3p_last_control_write :: "u8 option"
  h3p_last_unsupported_command :: "u8 option"
  h3p_last_unsupported_argument :: "u8 option"

datatype persistent_cart_state =
    PersistNone
  | NoMbcRam "u8 list"
  | Mmm01Ram "u8 list"
  | Huc1Ram "u8 list"
  | Huc3State huc3_save
  | Mbc1Ram "u8 list"
  | Mbc2Ram "u8 list"
  | Mbc3Rtc mbc3_rtc_state
  | Mbc3Ram "u8 list"
  | Mbc3RamRtc "u8 list" mbc3_rtc_state
  | Mbc5Ram "u8 list"
  | Mbc6State "u8 list" "u8 list" "u8 list" bool
  | Mbc7EepromState "u8 list"
  | PocketCameraRam "u8 list"

fun kind_name :: "persistent_cart_state \<Rightarrow> string" where
  "kind_name PersistNone = ''None''"
| "kind_name (NoMbcRam _) = ''NoMbcRam''"
| "kind_name (Mmm01Ram _) = ''Mmm01Ram''"
| "kind_name (Huc1Ram _) = ''Huc1Ram''"
| "kind_name (Huc3State _) = ''Huc3''"
| "kind_name (Mbc1Ram _) = ''Mbc1Ram''"
| "kind_name (Mbc2Ram _) = ''Mbc2Ram''"
| "kind_name (Mbc3Rtc _) = ''Mbc3Rtc''"
| "kind_name (Mbc3Ram _) = ''Mbc3Ram''"
| "kind_name (Mbc3RamRtc _ _) = ''Mbc3RamRtc''"
| "kind_name (Mbc5Ram _) = ''Mbc5Ram''"
| "kind_name (Mbc6State _ _ _ _) = ''Mbc6''"
| "kind_name (Mbc7EepromState _) = ''Mbc7Eeprom''"
| "kind_name (PocketCameraRam _) = ''PocketCameraRam''"

datatype persistent_state_error =
    KindMismatch string string
  | RamLengthMismatch nat nat
  | EepromLengthMismatch nat nat
  | InvalidMbc2NibbleValue nat u8
  | InvalidHuc3NibbleValue nat u8

definition kind_mismatch :: "string \<Rightarrow> persistent_cart_state \<Rightarrow> persistent_state_error + 'a" where
  "kind_mismatch expected other = Inl (KindMismatch expected (kind_name other))"

subsection \<open>Classification\<close>

datatype supported_cartridge_family =
    FamilyNoMbc | FamilyMmm01 | FamilyM161 | FamilyHuc1 | FamilyHuc3 | FamilyMbc1 | FamilyMbc2
  | FamilyMbc3 | FamilyMbc5 | FamilyMbc6 | FamilyMbc7 | FamilyPocketCamera

datatype unsupported_cartridge_category =
    PlannedVariant | DocumentedButUnsupported | ExperimentalHeuristic | AccessorySpecialCase
  | UnknownCode

datatype cartridge_selection =
    SelectSupported supported_cartridge_family
  | SelectUnsupported unsupported_cartridge_category

record cartridge_classification =
  cls_raw_type :: u8
  cls_detected_name :: string
  cls_selection :: cartridge_selection
  cls_reason :: string

subsection \<open>Boards\<close>

text \<open>What every board holds, and the boards with external RAM behind an optional battery.\<close>

record cart_board =
  cart_rom :: "u8 list"
  cart_header :: cartridge_header
  cart_classification :: cartridge_classification

record ram_board = cart_board +
  cart_ram :: "u8 list option"
  cart_has_battery :: bool

text \<open>\<open>rom.get(index).copied().unwrap_or(0xFF)\<close>, and its mutable counterpart.\<close>

definition rom_get :: "u8 list \<Rightarrow> nat \<Rightarrow> u8" where
  "rom_get rom i = (case slice_get rom i of Some b \<Rightarrow> b | None \<Rightarrow> RAM_ABSENT_READ_VALUE)"

definition ram_get :: "u8 list option \<Rightarrow> nat \<Rightarrow> u8" where
  "ram_get ram i = (case ram of Some bytes \<Rightarrow> rom_get bytes i | None \<Rightarrow> RAM_ABSENT_READ_VALUE)"

definition ram_put :: "u8 list option \<Rightarrow> nat \<Rightarrow> u8 \<Rightarrow> u8 list option" where
  "ram_put ram i v =
     (case ram of Some bytes \<Rightarrow> Some (if i < length bytes then bytes[i := v] else bytes) | None \<Rightarrow> None)"

text \<open>\<open>(address - 0xA000) as usize\<close> on a \<open>u16\<close>.\<close>

definition ram_base_offset :: "u16 \<Rightarrow> nat" where
  "ram_base_offset address = unat (address - 0xA000)"

definition header_rom_banks :: "('a) cart_board_scheme \<Rightarrow> nat" where
  "header_rom_banks c =
     (case rom_bank_count (hdr_rom_size (cart_header c)) of Some n \<Rightarrow> n | None \<Rightarrow> 0)"

text \<open>The 16 KiB window of most mappers: a fixed low bank and a switchable high bank.\<close>

definition banked_rom_index :: "nat \<Rightarrow> nat \<Rightarrow> u16 \<Rightarrow> nat" where
  "banked_rom_index low high address =
     (if address < 0x4000 then low * 0x4000 + unat address
      else high * 0x4000 + (unat address - 0x4000))"

definition banked_rom_window ::
    "nat \<Rightarrow> nat \<Rightarrow> u16 \<Rightarrow> cartridge_mapped_rom_window option" where
  "banked_rom_window low high address =
     (if 0x8000 \<le> address then None
      else Some (rom_window (if address < 0x4000 then low else high) 0x4000
                   (if address < 0x4000 then unat address else unat address - 0x4000)))"

text \<open>Metadata, capture and restore of a board whose only persistent payload is linear RAM.\<close>

definition linear_ram_metadata :: "('a) ram_board_scheme \<Rightarrow> cartridge_persistence_metadata" where
  "linear_ram_metadata c =
     \<lparr>meta_has_battery = cart_has_battery c, meta_has_rtc = False,
      meta_profile =
        (case cart_ram c of
           Some ram \<Rightarrow> if cart_has_battery c then PersistentRam (PayloadLinear (length ram))
                       else NonPersistentRam (PayloadLinear (length ram))
         | None \<Rightarrow> ProfileNone)\<rparr>"

definition linear_ram_state ::
    "(u8 list \<Rightarrow> persistent_cart_state) \<Rightarrow> ('a) ram_board_scheme \<Rightarrow> persistent_cart_state" where
  "linear_ram_state kind c =
     (if cart_has_battery c then (case cart_ram c of Some ram \<Rightarrow> kind ram | None \<Rightarrow> PersistNone)
      else PersistNone)"

definition restore_linear_ram ::
    "string \<Rightarrow> u8 list option \<Rightarrow> persistent_cart_state \<Rightarrow> ('a) ram_board_scheme
     \<Rightarrow> persistent_state_error + ('a) ram_board_scheme" where
  "restore_linear_ram expected payload state c =
     (case (cart_has_battery c, cart_ram c) of
        (True, Some ram) \<Rightarrow>
          (case payload of
             Some persisted \<Rightarrow>
               if length ram \<noteq> length persisted
               then Inl (RamLengthMismatch (length ram) (length persisted))
               else Inr (c\<lparr>cart_ram := Some persisted\<rparr>)
           | None \<Rightarrow> kind_mismatch expected state)
      | _ \<Rightarrow> if state = PersistNone then Inr c else kind_mismatch ''None'' state)"

subsection \<open>Facts\<close>

lemma rom_get_in: "i < length rom \<Longrightarrow> rom_get rom i = rom ! i"
  by (simp add: rom_get_def slice_get_def)

lemma rom_get_out: "length rom \<le> i \<Longrightarrow> rom_get rom i = RAM_ABSENT_READ_VALUE"
  by (simp add: rom_get_def slice_get_def)

lemma ram_get_put:
  "ram_get (ram_put ram i v) j =
     (if i = j \<and> (\<exists>bytes. ram = Some bytes \<and> i < length bytes) then v else ram_get ram j)"
  by (auto simp: ram_get_def ram_put_def rom_get_def slice_get_def split: option.split)

lemma ram_put_shape [simp]:
  "map_option length (ram_put ram i v) = map_option length ram"
  "(ram_put ram i v = None) = (ram = None)"
  by (auto simp: ram_put_def split: option.split)

lemma banked_rom_window_index:
  "address < 0x8000 \<Longrightarrow>
     \<exists>w. banked_rom_window low high address = Some w \<and> win_bank_offset w < win_bank_size w
       \<and> window_index w = banked_rom_index low high address"
  by (auto simp: banked_rom_window_def banked_rom_index_def window_index_def rom_window_def
      word_less_nat_alt word_le_nat_alt)

lemma banked_rom_window_none: "0x8000 \<le> address \<Longrightarrow> banked_rom_window low high address = None"
  by (simp add: banked_rom_window_def)

lemma banked_rom_index_less:
  assumes "address < 0x8000" and "low < n" and "high < n"
  shows "banked_rom_index low high address < n * 0x4000"
proof -
  have "unat address < 0x8000" using assms(1) by (simp add: word_less_nat_alt)
  moreover have "b * 0x4000 + 0x4000 \<le> n * 0x4000" if "b < n" for b
    using mult_le_mono1 [of "Suc b" n "0x4000"] that by simp
  ultimately show ?thesis
    using assms(2,3) by (auto simp: banked_rom_index_def word_less_nat_alt less_le_trans)
qed

lemma banked_window_reads:
  "a < 0x8000 \<Longrightarrow> \<exists>w. banked_rom_window low high a = Some w \<and> win_bank_offset w < win_bank_size w
     \<and> rom_get rom (banked_rom_index low high a) = rom_get rom (window_index w)"
  using banked_rom_window_index [of a low high] by metis

lemma banked_window_inside:
  assumes w: "banked_rom_window low high a = Some w" and "low < n" and "high < n"
  shows "window_index w < n * 0x4000"
proof -
  have a: "a < 0x8000" using w banked_rom_window_none [of a] by (metis not_le option.discI)
  with banked_rom_window_index [OF a, of low high] w
  have "window_index w = banked_rom_index low high a" by simp
  with banked_rom_index_less [OF a assms(2,3)] show ?thesis by simp
qed

text \<open>What loading establishes of most boards: the image is whole banks, as many as the header says.\<close>

definition whole_banks :: "('a) cart_board_scheme \<Rightarrow> bool" where
  "whole_banks c = (0 < header_rom_banks c \<and> length (cart_rom c) = header_rom_banks c * 0x4000)"

end
