(* ===== verification/Cart_Mapper.thy ===== *)
theory Cart_Mapper
  imports Cart_Types
begin

text \<open>
  What the bus and the save files rely on of a cartridge mapper, as locales:
  \<open>normalizing_mapper\<close> holds of every one of them; restoring a save may bring it into a normal
  form, which in a \<open>mapper\<close> is the save itself; \<open>banked_rom\<close> and \<open>banked_mapper\<close> add that
  every read of the ROM area stays inside the image. The mappers interpret them in their own
  theories. \<open>shaped\<close> says of a persistent state that its arrays have the lengths their types
  fix; \<open>board\<close> is what no access changes.
\<close>

text \<open>The accesses a running program makes, and the restore a frontend makes.\<close>

datatype cart_access = WriteRom u16 u8 | WriteRam u16 u8 | RestoreState persistent_cart_state

locale normalizing_mapper =
  fixes read_rom :: "'c \<Rightarrow> u16 \<Rightarrow> u8"
    and window :: "'c \<Rightarrow> u16 \<Rightarrow> cartridge_mapped_rom_window option"
    and write_rom :: "u16 \<Rightarrow> u8 \<Rightarrow> 'c \<Rightarrow> 'c"
    and write_ram :: "u16 \<Rightarrow> u8 \<Rightarrow> 'c \<Rightarrow> 'c"
    and persistent :: "'c \<Rightarrow> persistent_cart_state"
    and restore :: "persistent_cart_state \<Rightarrow> 'c \<Rightarrow> persistent_state_error + 'c"
    and image :: "'c \<Rightarrow> u8 list"
    and board :: "'c \<Rightarrow> 'k"
    and shaped :: "persistent_cart_state \<Rightarrow> bool"
    and normal :: "persistent_cart_state \<Rightarrow> persistent_cart_state"
    and ok :: "'c \<Rightarrow> bool"
  assumes window_reads: "ok c \<Longrightarrow> a < 0x8000 \<Longrightarrow>
      \<exists>w. window c a = Some w \<and> win_bank_offset w < win_bank_size w
        \<and> read_rom c a = rom_get (image c) (window_index w)"
    and window_none: "0x8000 \<le> a \<Longrightarrow> window c a = None"
    and write_rom_keeps: "ok c \<Longrightarrow> ok (write_rom a v c) \<and> board (write_rom a v c) = board c
      \<and> image (write_rom a v c) = image c"
    and write_ram_keeps: "ok c \<Longrightarrow> ok (write_ram a v c) \<and> board (write_ram a v c) = board c
      \<and> image (write_ram a v c) = image c"
    and restore_keeps: "ok c \<Longrightarrow> shaped s \<Longrightarrow> restore s c = Inr c' \<Longrightarrow>
      ok c' \<and> board c' = board c \<and> image c' = image c \<and> persistent c' = normal s"
    and restore_captured: "ok c \<Longrightarrow> ok d \<Longrightarrow> board c = board d \<Longrightarrow>
      shaped (persistent c) \<and> (\<exists>d'. restore (persistent c) d = Inr d')"
begin

fun access :: "cart_access \<Rightarrow> 'c \<Rightarrow> 'c" where
  "access (WriteRom a v) c = write_rom a v c"
| "access (WriteRam a v) c = write_ram a v c"
| "access (RestoreState s) c =
     (if shaped s then (case restore s c of Inl _ \<Rightarrow> c | Inr c' \<Rightarrow> c') else c)"

lemma access_keeps:
  "ok c \<Longrightarrow> ok (access x c) \<and> board (access x c) = board c \<and> image (access x c) = image c"
  using write_rom_keeps write_ram_keeps restore_keeps
  by (cases x) (auto split: sum.split)

lemma accesses_keep:
  "ok c \<Longrightarrow> ok (fold access xs c) \<and> board (fold access xs c) = board c
     \<and> image (fold access xs c) = image c"
  by (induction xs arbitrary: c) (auto simp: access_keeps)

text \<open>The program never changes the image, and reads exactly the byte the window shows.\<close>

lemma reads_through_the_window:
  assumes "ok c" and "a < 0x8000"
  shows "\<exists>w. window (fold access xs c) a = Some w \<and> win_bank_offset w < win_bank_size w
    \<and> read_rom (fold access xs c) a = rom_get (image c) (window_index w)"
  using accesses_keep [OF assms(1), of xs] window_reads [OF _ assms(2), of "fold access xs c"] by auto

text \<open>A save made at any time restores into any other run of the same board.\<close>

lemma save_round_trip:
  assumes "ok c" and "ok d" and "board c = board d"
  shows "\<exists>d'. restore (persistent (fold access xs c)) (fold access ys d) = Inr d'
    \<and> persistent d' = normal (persistent (fold access xs c)) \<and> image d' = image d"
proof -
  note c = accesses_keep [OF assms(1), of xs] and d = accesses_keep [OF assms(2), of ys]
  obtain d' where d': "restore (persistent (fold access xs c)) (fold access ys d) = Inr d'"
    and "shaped (persistent (fold access xs c))"
    using restore_captured [of "fold access xs c" "fold access ys d"] c d assms(3) by auto
  with restore_keeps [OF _ _ d'] d show ?thesis by auto
qed

end

locale banked_rom = normalizing_mapper +
  assumes window_inside: "ok c \<Longrightarrow> window c a = Some w \<Longrightarrow> window_index w < length (image c)"
begin

lemma reads_inside_the_image:
  assumes "ok c" and "a < 0x8000"
  shows "\<exists>w. window (fold access xs c) a = Some w \<and> window_index w < length (image c)
    \<and> read_rom (fold access xs c) a = image c ! window_index w"
proof -
  obtain w where "window (fold access xs c) a = Some w"
    and "read_rom (fold access xs c) a = rom_get (image c) (window_index w)"
    using reads_through_the_window [OF assms] by blast
  moreover have "window_index w < length (image c)"
    using window_inside [of "fold access xs c" a w] accesses_keep [OF assms(1), of xs] calculation by simp
  ultimately show ?thesis by (simp add: rom_get_in)
qed

end

text \<open>Most mappers restore a save exactly, and keep no register in it.\<close>

locale mapper =
  normalizing_mapper read_rom window write_rom write_ram persistent restore image board shaped "\<lambda>s. s" ok
  for read_rom :: "'c \<Rightarrow> u16 \<Rightarrow> u8"
    and window :: "'c \<Rightarrow> u16 \<Rightarrow> cartridge_mapped_rom_window option"
    and write_rom :: "u16 \<Rightarrow> u8 \<Rightarrow> 'c \<Rightarrow> 'c"
    and write_ram :: "u16 \<Rightarrow> u8 \<Rightarrow> 'c \<Rightarrow> 'c"
    and persistent :: "'c \<Rightarrow> persistent_cart_state"
    and restore :: "persistent_cart_state \<Rightarrow> 'c \<Rightarrow> persistent_state_error + 'c"
    and image :: "'c \<Rightarrow> u8 list"
    and board :: "'c \<Rightarrow> 'k"
    and shaped :: "persistent_cart_state \<Rightarrow> bool"
    and ok :: "'c \<Rightarrow> bool"
  + assumes save_untouched: "ok c \<Longrightarrow> persistent (write_rom a v c) = persistent c"
begin

text \<open>Bank switching never touches the save.\<close>

lemma bank_switching_keeps_the_save:
  "ok c \<Longrightarrow> persistent (fold (\<lambda>(a, v). write_rom a v) ws c) = persistent c"
proof (induction ws arbitrary: c)
  case (Cons x ws)
  then show ?case using write_rom_keeps save_untouched by (auto split: prod.split)
qed simp

end

locale banked_mapper =
  mapper read_rom window write_rom write_ram persistent restore image board shaped ok +
  banked_rom read_rom window write_rom write_ram persistent restore image board shaped "\<lambda>s. s" ok
  for read_rom :: "'c \<Rightarrow> u16 \<Rightarrow> u8"
    and window :: "'c \<Rightarrow> u16 \<Rightarrow> cartridge_mapped_rom_window option"
    and write_rom :: "u16 \<Rightarrow> u8 \<Rightarrow> 'c \<Rightarrow> 'c"
    and write_ram :: "u16 \<Rightarrow> u8 \<Rightarrow> 'c \<Rightarrow> 'c"
    and persistent :: "'c \<Rightarrow> persistent_cart_state"
    and restore :: "persistent_cart_state \<Rightarrow> 'c \<Rightarrow> persistent_state_error + 'c"
    and image :: "'c \<Rightarrow> u8 list"
    and board :: "'c \<Rightarrow> 'k"
    and shaped :: "persistent_cart_state \<Rightarrow> bool"
    and ok :: "'c \<Rightarrow> bool"

subsection \<open>Boards whose save file is their linear RAM\<close>

text \<open>The parts of a board with RAM that no access changes.\<close>

definition ram_board_key :: "('a) ram_board_scheme \<Rightarrow> bool \<times> nat option" where
  "ram_board_key c = (cart_has_battery c, map_option length (cart_ram c))"

text \<open>The kind of payload a mapper writes, and its recognition when it restores one.\<close>

locale linear_payload =
  fixes kind :: "u8 list \<Rightarrow> persistent_cart_state"
    and payload :: "persistent_cart_state \<Rightarrow> u8 list option"
  assumes payload_kind: "payload (kind ram) = Some ram"
    and payload_only: "payload s = Some ram \<Longrightarrow> s = kind ram"
    and kind_not_none: "kind ram \<noteq> PersistNone"
begin

lemma restored:
  assumes "restore_linear_ram expected (payload s) s c = Inr c'"
  shows "\<exists>ram. c' = c\<lparr>cart_ram := ram\<rparr> \<and> map_option length ram = map_option length (cart_ram c)
    \<and> linear_ram_state kind c' = s"
proof (cases "cart_has_battery c \<and> cart_ram c \<noteq> None")
  case True
  then obtain ram where ram: "cart_ram c = Some ram" and battery: "cart_has_battery c" by auto
  with assms obtain persisted where "payload s = Some persisted" "length ram = length persisted"
    and c': "c' = c\<lparr>cart_ram := Some persisted\<rparr>"
    by (auto simp: restore_linear_ram_def kind_mismatch_def split: option.splits if_splits)
  then show ?thesis
    using ram battery payload_only by (auto simp: linear_ram_state_def)
next
  case False
  then have "restore_linear_ram expected (payload s) s c
      = (if s = PersistNone then Inr c else kind_mismatch ''None'' s)"
    by (auto simp: restore_linear_ram_def split: option.splits bool.splits)
  with assms have "c' = c" "s = PersistNone"
    by (simp_all add: kind_mismatch_def split: if_splits)
  with False show ?thesis
    by (auto intro!: exI [of _ "cart_ram c"] simp: linear_ram_state_def split: option.splits)
qed

lemma captured:
  assumes "ram_board_key c = ram_board_key d"
  shows "\<exists>d'. restore_linear_ram expected (payload (linear_ram_state kind c)) (linear_ram_state kind c) d = Inr d'"
  using assms
  by (cases "cart_ram c"; cases "cart_ram d"; cases "cart_has_battery d")
    (auto simp: restore_linear_ram_def linear_ram_state_def ram_board_key_def payload_kind)

end

lemma linear_ram_state_frame:
  "cart_has_battery c = cart_has_battery d \<Longrightarrow> cart_ram c = cart_ram d
   \<Longrightarrow> linear_ram_state kind c = linear_ram_state kind d"
  by (simp add: linear_ram_state_def)

lemma ram_put_key [simp]: "ram_board_key (c\<lparr>cart_ram := ram_put (cart_ram c) i v\<rparr>) = ram_board_key c"
  by (simp add: ram_board_key_def)

lemmas whole_banks_fields = whole_banks_def header_rom_banks_def ram_board_key_def linear_ram_state_def

subsection \<open>External RAM as memory\<close>

text \<open>
  A mapper maps an address to a cell of its RAM, or to none when the RAM is absent, disabled or
  the cell out of range. Reads and writes then are those of a memory of cells; \<open>observed\<close> is
  what a written byte reads back as.
\<close>

locale external_ram =
  fixes read_ram :: "'c \<Rightarrow> u16 \<Rightarrow> u8"
    and write_ram :: "u16 \<Rightarrow> u8 \<Rightarrow> 'c \<Rightarrow> 'c"
    and cell :: "'c \<Rightarrow> u16 \<Rightarrow> nat option"
    and observed :: "u8 \<Rightarrow> u8"
  assumes read_write: "read_ram (write_ram a v c) b =
      (if cell c a = cell c b \<and> cell c a \<noteq> None then observed v else read_ram c b)"
    and cell_write: "cell (write_ram a v c) b = cell c b"
begin

definition write_all :: "(u16 \<times> u8) list \<Rightarrow> 'c \<Rightarrow> 'c" where
  "write_all ws c = fold (\<lambda>(a, v). write_ram a v) ws c"

lemma cell_write_all: "cell (write_all ws c) b = cell c b"
  by (induction ws arbitrary: c) (auto simp: write_all_def cell_write)

text \<open>A read gives the last byte written to its cell, and otherwise what was there.\<close>

lemma last_write_wins:
  "read_ram (write_all ws c) b =
     (case find (\<lambda>(a, v). cell c a = cell c b \<and> cell c a \<noteq> None) (rev ws) of
        Some (a, v) \<Rightarrow> observed v
      | None \<Rightarrow> read_ram c b)"
proof (induction ws rule: rev_induct)
  case Nil
  then show ?case by (simp add: write_all_def)
next
  case (snoc x ws)
  obtain a v where x: "x = (a, v)" by (rule prod.exhaust)
  have "write_all (ws @ [x]) c = write_ram a v (write_all ws c)"
    by (simp add: write_all_def x)
  then show ?case
    using snoc
    by (cases "cell c a = cell c b \<and> cell c a \<noteq> None") (auto simp add: x read_write cell_write_all)
qed

end

text \<open>The cell of linear RAM at an offset, and its reads and writes behind an enable flag.\<close>

definition linear_cell :: "bool \<Rightarrow> u8 list option \<Rightarrow> nat \<Rightarrow> nat option" where
  "linear_cell enabled ram offset =
     (if enabled then
        (case ram of Some bytes \<Rightarrow> if offset < length bytes then Some offset else None | None \<Rightarrow> None)
      else None)"

lemma linear_cell_put [simp]: "linear_cell e (ram_put ram i v) j = linear_cell e ram j"
  by (auto simp: linear_cell_def ram_put_def split: option.split)

lemma ram_get_put_cell:
  "ram_get (ram_put ram i v) j =
     (if linear_cell True ram i = linear_cell True ram j \<and> linear_cell True ram i \<noteq> None then v
      else ram_get ram j)"
  by (auto simp: ram_get_put linear_cell_def split: option.splits)

lemma linear_cell_disabled [simp]: "linear_cell False ram i = None"
  by (simp add: linear_cell_def)

end
