(* ===== verification/Cart_Plain.thy ===== *)
theory Cart_Plain
  imports Cart_Mapper
begin

text \<open>
  The boards without bank registers of their own: plain ROM with optional RAM
  (\<open>no_mbc.rs\<close>) and the one-shot 32 KiB switch of M161 (\<open>m161.rs\<close>).
\<close>

subsection \<open>No MBC\<close>

type_synonym no_mbc_cartridge = ram_board

definition no_mbc_describe :: "u16 \<Rightarrow> no_mbc_cartridge \<Rightarrow> cartridge_external_access_info" where
  "no_mbc_describe address c = storage_access address LinearRam (cart_ram c \<noteq> None) Absent"

definition no_mbc_read_rom :: "no_mbc_cartridge \<Rightarrow> u16 \<Rightarrow> u8" where
  "no_mbc_read_rom c address = rom_get (cart_rom c) (unat address)"

definition no_mbc_mapped_rom_window ::
    "no_mbc_cartridge \<Rightarrow> u16 \<Rightarrow> cartridge_mapped_rom_window option" where
  "no_mbc_mapped_rom_window c address =
     (if 0x8000 \<le> address then None
      else Some (rom_window (unat address div 0x4000) 0x4000 (unat address mod 0x4000)))"

definition no_mbc_write_rom :: "u16 \<Rightarrow> u8 \<Rightarrow> no_mbc_cartridge \<Rightarrow> no_mbc_cartridge" where
  "no_mbc_write_rom address v c = c"

definition no_mbc_read_ram :: "no_mbc_cartridge \<Rightarrow> u16 \<Rightarrow> u8" where
  "no_mbc_read_ram c address = ram_get (cart_ram c) (ram_base_offset address)"

definition no_mbc_write_ram :: "u16 \<Rightarrow> u8 \<Rightarrow> no_mbc_cartridge \<Rightarrow> no_mbc_cartridge" where
  "no_mbc_write_ram address v c = c\<lparr>cart_ram := ram_put (cart_ram c) (ram_base_offset address) v\<rparr>"

definition no_mbc_persistence_metadata :: "no_mbc_cartridge \<Rightarrow> cartridge_persistence_metadata" where
  "no_mbc_persistence_metadata c = linear_ram_metadata c"

definition no_mbc_persistent_state :: "no_mbc_cartridge \<Rightarrow> persistent_cart_state" where
  "no_mbc_persistent_state c = linear_ram_state NoMbcRam c"

definition no_mbc_payload :: "persistent_cart_state \<Rightarrow> u8 list option" where
  "no_mbc_payload s = (case s of NoMbcRam ram \<Rightarrow> Some ram | _ \<Rightarrow> None)"

definition no_mbc_restore ::
    "persistent_cart_state \<Rightarrow> no_mbc_cartridge \<Rightarrow> persistent_state_error + no_mbc_cartridge" where
  "no_mbc_restore s c =
     restore_linear_ram ''NoMbcRam'' (no_mbc_payload s) s c"

subsection \<open>M161\<close>

record m161_cartridge = cart_board +
  m161_selected_bank :: u8
  m161_bank_switch_locked :: bool
  m161_last_bank_write :: "u8 option"

definition m161_describe :: "u16 \<Rightarrow> m161_cartridge \<Rightarrow> cartridge_external_access_info" where
  "m161_describe address c =
     access_info_new address LinearRam Absent (FallbackValue RAM_ABSENT_READ_VALUE) WriteIgnored"

definition m161_read_rom :: "m161_cartridge \<Rightarrow> u16 \<Rightarrow> u8" where
  "m161_read_rom c address =
     rom_get (cart_rom c) (unat (m161_selected_bank c) * M161_BANK_BYTES + unat address)"

definition m161_mapped_rom_window ::
    "m161_cartridge \<Rightarrow> u16 \<Rightarrow> cartridge_mapped_rom_window option" where
  "m161_mapped_rom_window c address =
     (if 0x8000 \<le> address then None
      else Some (rom_window (unat (m161_selected_bank c)) M161_BANK_BYTES (unat address)))"

definition m161_write_rom :: "u16 \<Rightarrow> u8 \<Rightarrow> m161_cartridge \<Rightarrow> m161_cartridge" where
  "m161_write_rom address v c =
     (if m161_bank_switch_locked c then c
      else c\<lparr>m161_selected_bank := v AND 0x07, m161_bank_switch_locked := True,
             m161_last_bank_write := Some (v AND 0x07)\<rparr>)"

definition m161_read_ram :: "m161_cartridge \<Rightarrow> u16 \<Rightarrow> u8" where
  "m161_read_ram c address = RAM_ABSENT_READ_VALUE"

definition m161_write_ram :: "u16 \<Rightarrow> u8 \<Rightarrow> m161_cartridge \<Rightarrow> m161_cartridge" where
  "m161_write_ram address v c = c"

definition m161_persistence_metadata :: "m161_cartridge \<Rightarrow> cartridge_persistence_metadata" where
  "m161_persistence_metadata c =
     \<lparr>meta_has_battery = False, meta_has_rtc = False, meta_profile = ProfileNone\<rparr>"

definition m161_persistent_state :: "m161_cartridge \<Rightarrow> persistent_cart_state" where
  "m161_persistent_state c = PersistNone"

definition m161_restore ::
    "persistent_cart_state \<Rightarrow> m161_cartridge \<Rightarrow> persistent_state_error + m161_cartridge" where
  "m161_restore s c = (if s = PersistNone then Inr c else kind_mismatch ''None'' s)"

subsection \<open>Mapper laws\<close>

interpretation no_mbc_ram: linear_payload NoMbcRam no_mbc_payload
  by unfold_locales (auto simp: no_mbc_payload_def split: persistent_cart_state.splits)

interpretation no_mbc: mapper no_mbc_read_rom no_mbc_mapped_rom_window no_mbc_write_rom
  no_mbc_write_ram no_mbc_persistent_state no_mbc_restore cart_rom ram_board_key
  "\<lambda>_. True" "\<lambda>_. True"
proof unfold_locales
  show "\<exists>w. no_mbc_mapped_rom_window c a = Some w \<and> win_bank_offset w < win_bank_size w
      \<and> no_mbc_read_rom c a = rom_get (cart_rom c) (window_index w)"
    if "a < 0x8000" for a and c :: no_mbc_cartridge
    using that by (simp add: no_mbc_mapped_rom_window_def no_mbc_read_rom_def rom_window_def
        window_index_def word_less_nat_alt word_le_nat_alt)
next
  fix c c' :: no_mbc_cartridge and s
  assume "no_mbc_restore s c = Inr c'"
  then show "True \<and> ram_board_key c' = ram_board_key c \<and> cart_rom c' = cart_rom c
      \<and> no_mbc_persistent_state c' = s"
    by (auto simp: no_mbc_restore_def no_mbc_persistent_state_def ram_board_key_def
        dest!: no_mbc_ram.restored)
qed (simp_all add: no_mbc_mapped_rom_window_def no_mbc_write_rom_def no_mbc_write_ram_def
    no_mbc_persistent_state_def no_mbc_restore_def no_mbc_ram.captured)

definition no_mbc_cell :: "no_mbc_cartridge \<Rightarrow> u16 \<Rightarrow> nat option" where
  "no_mbc_cell c address = linear_cell True (cart_ram c) (ram_base_offset address)"

interpretation no_mbc_memory: external_ram no_mbc_read_ram no_mbc_write_ram no_mbc_cell "\<lambda>v. v"
  by unfold_locales (auto simp: no_mbc_read_ram_def no_mbc_write_ram_def no_mbc_cell_def ram_get_put_cell)

text \<open>M161 keeps no save file, and its window may point past a small image.\<close>

interpretation m161: mapper m161_read_rom m161_mapped_rom_window m161_write_rom
  m161_write_ram m161_persistent_state m161_restore cart_rom "\<lambda>_. ()"
  "\<lambda>_. True" "\<lambda>_. True"
proof unfold_locales
  show "\<exists>w. m161_mapped_rom_window c a = Some w \<and> win_bank_offset w < win_bank_size w
      \<and> m161_read_rom c a = rom_get (cart_rom c) (window_index w)"
    if "a < 0x8000" for a and c :: m161_cartridge
    using that by (simp add: m161_mapped_rom_window_def m161_read_rom_def rom_window_def
        window_index_def M161_BANK_BYTES_def word_less_nat_alt word_le_nat_alt)
next
  show "True \<and> () = () \<and> cart_rom c' = cart_rom c \<and> m161_persistent_state c' = s"
    if "m161_restore s c = Inr c'" for c c' :: m161_cartridge and s
    using that by (auto simp: m161_restore_def m161_persistent_state_def kind_mismatch_def split: if_splits)
qed (simp_all add: m161_mapped_rom_window_def m161_write_rom_def m161_write_ram_def
    m161_persistent_state_def m161_restore_def)

text \<open>The switch of M161 is one-shot: the first write decides the bank for good.\<close>

lemma m161_write_locked:
  "m161_bank_switch_locked c \<Longrightarrow> fold (\<lambda>(a, v). m161_write_rom a v) xs c = c"
  by (induction xs) (auto simp: m161_write_rom_def)

lemma m161_first_write_wins:
  "\<not> m161_bank_switch_locked c \<Longrightarrow>
     m161_selected_bank (fold (\<lambda>(a, v). m161_write_rom a v) ((a, v) # xs) c) = v AND 7"
  by (simp add: m161_write_rom_def m161_write_locked)

end
