(* ===== verification/Cart_Mbc1.thy ===== *)
theory Cart_Mbc1
  imports Cart_Mapper
begin

text \<open>
  MBC1 (\<open>mbc1.rs\<close>): a five-bit bank register whose zero reads as one, a two-bit secondary
  register wired to ROM or RAM, the banking mode, and the multicart variant MBC1M.
\<close>

datatype mbc1_wiring = Mbc1WiringStandard | Mbc1WiringLargeRom

datatype mbc1_variant = Mbc1Standard | Mbc1M

record mbc1_layout =
  lay1_wiring :: mbc1_wiring
  lay1_variant :: mbc1_variant
  lay1_ram_len :: nat

record mbc1_cartridge = ram_board +
  mbc1_variant_of :: mbc1_variant
  mbc1_wiring_of :: mbc1_wiring
  mbc1_ram_enabled :: bool
  mbc1_rom_bank_low5 :: u8
  mbc1_secondary_bank :: u8
  mbc1_banking_mode :: u8

definition mbc1_effective_ram_bank_count :: "mbc1_cartridge \<Rightarrow> nat" where
  "mbc1_effective_ram_bank_count c =
     (case cart_ram c of Some ram \<Rightarrow> max (length ram div 0x2000) 1 | None \<Rightarrow> 1)"

definition mbc1_effective_high_rom_bank :: "nat \<Rightarrow> mbc1_cartridge \<Rightarrow> nat" where
  "mbc1_effective_high_rom_bank bank_count c =
     (let raw_low5 = mbc1_rom_bank_low5 c AND 0x1F;
          translated_low5 = unat (if raw_low5 = 0 then 1 else raw_low5)
      in if bank_count = 0 then 0
         else if mbc1_variant_of c = Mbc1M
           then (push_bit 4 (unat (mbc1_secondary_bank c)) OR (translated_low5 AND 0x0F)) mod bank_count
         else case mbc1_wiring_of c of
             Mbc1WiringStandard \<Rightarrow> translated_low5 mod bank_count
           | Mbc1WiringLargeRom \<Rightarrow>
               (push_bit 5 (unat (mbc1_secondary_bank c)) OR translated_low5) mod bank_count)"

definition mbc1_effective_low_rom_bank :: "nat \<Rightarrow> mbc1_cartridge \<Rightarrow> nat" where
  "mbc1_effective_low_rom_bank bank_count c =
     (if bank_count = 0 then 0
      else if mbc1_variant_of c = Mbc1M
        then (if mbc1_banking_mode c = 0 then 0
              else push_bit 4 (unat (mbc1_secondary_bank c)) mod bank_count)
      else case mbc1_wiring_of c of
          Mbc1WiringStandard \<Rightarrow> 0
        | Mbc1WiringLargeRom \<Rightarrow>
            if mbc1_banking_mode c = 0 then 0
            else push_bit 5 (unat (mbc1_secondary_bank c)) mod bank_count)"

definition mbc1_effective_ram_bank :: "mbc1_cartridge \<Rightarrow> u8" where
  "mbc1_effective_ram_bank c =
     (if mbc1_variant_of c = Mbc1M then 0
      else case mbc1_wiring_of c of
          Mbc1WiringStandard \<Rightarrow>
            if mbc1_banking_mode c = 0 then 0 else mbc1_secondary_bank c AND 0x03
        | Mbc1WiringLargeRom \<Rightarrow> 0)"

definition mbc1_effective_ram_offset :: "u16 \<Rightarrow> mbc1_cartridge \<Rightarrow> nat" where
  "mbc1_effective_ram_offset address c =
     (let base_offset = ram_base_offset address
      in if mbc1_variant_of c = Mbc1M then base_offset
         else case mbc1_wiring_of c of
             Mbc1WiringStandard \<Rightarrow>
               (unat (mbc1_effective_ram_bank c) mod mbc1_effective_ram_bank_count c) * 0x2000
               + base_offset
           | Mbc1WiringLargeRom \<Rightarrow> base_offset)"

definition mbc1_describe :: "u16 \<Rightarrow> mbc1_cartridge \<Rightarrow> cartridge_external_access_info" where
  "mbc1_describe address c =
     storage_access address (BankedRam (mbc1_effective_ram_bank c))
       (mbc1_ram_enabled c \<and> cart_ram c \<noteq> None)
       (if mbc1_ram_enabled c then Absent else Disabled)"

definition mbc1_read_rom :: "mbc1_cartridge \<Rightarrow> u16 \<Rightarrow> u8" where
  "mbc1_read_rom c address =
     rom_get (cart_rom c)
       (banked_rom_index (mbc1_effective_low_rom_bank (header_rom_banks c) c)
          (mbc1_effective_high_rom_bank (header_rom_banks c) c) address)"

definition mbc1_mapped_rom_window ::
    "mbc1_cartridge \<Rightarrow> u16 \<Rightarrow> cartridge_mapped_rom_window option" where
  "mbc1_mapped_rom_window c address =
     banked_rom_window (mbc1_effective_low_rom_bank (header_rom_banks c) c)
       (mbc1_effective_high_rom_bank (header_rom_banks c) c) address"

definition mbc1_write_rom :: "u16 \<Rightarrow> u8 \<Rightarrow> mbc1_cartridge \<Rightarrow> mbc1_cartridge" where
  "mbc1_write_rom address v c =
     (if address \<le> 0x1FFF then c\<lparr>mbc1_ram_enabled := (v AND 0x0F = 0x0A)\<rparr>
      else if address \<le> 0x3FFF then c\<lparr>mbc1_rom_bank_low5 := v AND 0x1F\<rparr>
      else if address \<le> 0x5FFF then c\<lparr>mbc1_secondary_bank := v AND 0x03\<rparr>
      else if address \<le> 0x7FFF then c\<lparr>mbc1_banking_mode := v AND 0x01\<rparr>
      else c)"

definition mbc1_read_ram :: "mbc1_cartridge \<Rightarrow> u16 \<Rightarrow> u8" where
  "mbc1_read_ram c address =
     (if \<not> mbc1_ram_enabled c then RAM_ABSENT_READ_VALUE
      else ram_get (cart_ram c) (mbc1_effective_ram_offset address c))"

definition mbc1_write_ram :: "u16 \<Rightarrow> u8 \<Rightarrow> mbc1_cartridge \<Rightarrow> mbc1_cartridge" where
  "mbc1_write_ram address v c =
     (if \<not> mbc1_ram_enabled c then c
      else c\<lparr>cart_ram := ram_put (cart_ram c) (mbc1_effective_ram_offset address c) v\<rparr>)"

definition mbc1_persistence_metadata :: "mbc1_cartridge \<Rightarrow> cartridge_persistence_metadata" where
  "mbc1_persistence_metadata c = linear_ram_metadata c"

definition mbc1_persistent_state :: "mbc1_cartridge \<Rightarrow> persistent_cart_state" where
  "mbc1_persistent_state c = linear_ram_state Mbc1Ram c"

definition mbc1_payload :: "persistent_cart_state \<Rightarrow> u8 list option" where
  "mbc1_payload s = (case s of Mbc1Ram ram \<Rightarrow> Some ram | _ \<Rightarrow> None)"

definition mbc1_restore ::
    "persistent_cart_state \<Rightarrow> mbc1_cartridge \<Rightarrow> persistent_state_error + mbc1_cartridge" where
  "mbc1_restore s c = restore_linear_ram ''Mbc1Ram'' (mbc1_payload s) s c"

subsection \<open>Laws\<close>

lemma mbc1_banks_less:
  "0 < n \<Longrightarrow> mbc1_effective_low_rom_bank n c < n \<and> mbc1_effective_high_rom_bank n c < n"
  by (simp add: mbc1_effective_low_rom_bank_def mbc1_effective_high_rom_bank_def Let_def
      split: mbc1_wiring.split)

lemma mbc1_write_fields [simp]:
  "cart_rom (mbc1_write_rom a v c) = cart_rom c" "cart_rom (mbc1_write_ram a v c) = cart_rom c"
  "cart_header (mbc1_write_rom a v c) = cart_header c" "cart_header (mbc1_write_ram a v c) = cart_header c"
  "cart_ram (mbc1_write_rom a v c) = cart_ram c"
  "cart_has_battery (mbc1_write_rom a v c) = cart_has_battery c"
  "cart_has_battery (mbc1_write_ram a v c) = cart_has_battery c"
  "map_option length (cart_ram (mbc1_write_ram a v c)) = map_option length (cart_ram c)"
  by (simp_all add: mbc1_write_rom_def mbc1_write_ram_def)

interpretation mbc1_ram: linear_payload Mbc1Ram mbc1_payload
  by unfold_locales (auto simp: mbc1_payload_def split: persistent_cart_state.splits)

interpretation mbc1: banked_mapper mbc1_read_rom mbc1_mapped_rom_window mbc1_write_rom
  mbc1_write_ram mbc1_persistent_state mbc1_restore cart_rom ram_board_key "\<lambda>_. True" whole_banks
proof unfold_locales
  show "\<exists>w. mbc1_mapped_rom_window c a = Some w \<and> win_bank_offset w < win_bank_size w
      \<and> mbc1_read_rom c a = rom_get (cart_rom c) (window_index w)"
    if "a < 0x8000" for a c
    using banked_window_reads [OF that] by (simp add: mbc1_mapped_rom_window_def mbc1_read_rom_def)
next
  fix c c' s assume "whole_banks c" and "mbc1_restore s c = Inr c'"
  then show "whole_banks c' \<and> ram_board_key c' = ram_board_key c \<and> cart_rom c' = cart_rom c
      \<and> mbc1_persistent_state c' = s"
    by (auto simp: mbc1_restore_def mbc1_persistent_state_def ram_board_key_def
        whole_banks_def header_rom_banks_def dest!: mbc1_ram.restored)
next
  show "window_index w < length (cart_rom c)"
    if "whole_banks c" and "mbc1_mapped_rom_window c a = Some w" for c a w
    using that mbc1_banks_less [of "header_rom_banks c" c] banked_window_inside
    by (auto simp: mbc1_mapped_rom_window_def whole_banks_def)
next
  show "True \<and> (\<exists>d'. mbc1_restore (mbc1_persistent_state c) d = Inr d')"
    if "ram_board_key c = ram_board_key d" for c d
    using mbc1_ram.captured [OF that] by (simp add: mbc1_restore_def mbc1_persistent_state_def)
qed (simp_all add: mbc1_mapped_rom_window_def banked_rom_window_none whole_banks_fields mbc1_persistent_state_def)

definition mbc1_cell :: "mbc1_cartridge \<Rightarrow> u16 \<Rightarrow> nat option" where
  "mbc1_cell c address =
     linear_cell (mbc1_ram_enabled c) (cart_ram c) (mbc1_effective_ram_offset address c)"

lemma mbc1_offset_write [simp]:
  "mbc1_effective_ram_offset b (c\<lparr>cart_ram := ram_put (cart_ram c) i v\<rparr>) = mbc1_effective_ram_offset b c"
proof -
  have "mbc1_effective_ram_bank_count (c\<lparr>cart_ram := ram_put (cart_ram c) i v\<rparr>) = mbc1_effective_ram_bank_count c"
    by (auto simp: mbc1_effective_ram_bank_count_def ram_put_def split: option.split)
  then show ?thesis
    by (simp add: mbc1_effective_ram_offset_def mbc1_effective_ram_bank_def Let_def split: mbc1_wiring.split)
qed

interpretation mbc1_memory: external_ram mbc1_read_ram mbc1_write_ram mbc1_cell "\<lambda>v. v"
  by unfold_locales
    (auto simp: mbc1_read_ram_def mbc1_write_ram_def mbc1_cell_def ram_get_put_cell)

end
