(* ===== verification/Cart_Mbc2.thy ===== *)
theory Cart_Mbc2
  imports Cart_Mapper
begin

text \<open>
  MBC2 (\<open>mbc2.rs\<close>): one register write port told apart by address bit 8, and 512 nibbles of
  internal RAM that mirror through the external window.
\<close>

record mbc2_cartridge = cart_board +
  mbc2_ram_nibbles :: "u8 list"
  mbc2_has_battery :: bool
  mbc2_ram_enabled :: bool
  mbc2_rom_bank_low4 :: u8

definition mbc2_describe :: "u16 \<Rightarrow> mbc2_cartridge \<Rightarrow> cartridge_external_access_info" where
  "mbc2_describe address c = storage_access address Mbc2InternalRam (mbc2_ram_enabled c) Disabled"

definition mbc2_effective_high_rom_bank :: "nat \<Rightarrow> mbc2_cartridge \<Rightarrow> nat" where
  "mbc2_effective_high_rom_bank bank_count c =
     (let raw_low4 = mbc2_rom_bank_low4 c AND 0x0F;
          translated_low4 = unat (if raw_low4 = 0 then 1 else raw_low4)
      in if bank_count = 0 then 0 else translated_low4 mod bank_count)"

definition mbc2_read_rom :: "mbc2_cartridge \<Rightarrow> u16 \<Rightarrow> u8" where
  "mbc2_read_rom c address =
     rom_get (cart_rom c)
       (banked_rom_index 0 (mbc2_effective_high_rom_bank (header_rom_banks c) c) address)"

definition mbc2_mapped_rom_window ::
    "mbc2_cartridge \<Rightarrow> u16 \<Rightarrow> cartridge_mapped_rom_window option" where
  "mbc2_mapped_rom_window c address =
     banked_rom_window 0 (mbc2_effective_high_rom_bank (header_rom_banks c) c) address"

definition mbc2_write_rom :: "u16 \<Rightarrow> u8 \<Rightarrow> mbc2_cartridge \<Rightarrow> mbc2_cartridge" where
  "mbc2_write_rom address v c =
     (if 0x3FFF < address then c
      else if address AND 0x0100 = 0 then c\<lparr>mbc2_ram_enabled := (v AND 0x0F = 0x0A)\<rparr>
      else c\<lparr>mbc2_rom_bank_low4 := v AND 0x0F\<rparr>)"

text \<open>\<open>(address as usize - 0xA000) & 0x1FF\<close>: below 0xA000 the subtraction wraps at 64 bits.\<close>

definition mbc2_ram_index :: "u16 \<Rightarrow> nat" where
  "mbc2_ram_index address = unat ((ucast address - 0xA000 :: u64) AND MBC2_RAM_ADDRESS_MASK)"

definition mbc2_read_ram :: "mbc2_cartridge \<Rightarrow> u16 \<Rightarrow> u8 res" where
  "mbc2_read_ram c address =
     (if \<not> mbc2_ram_enabled c then Inr RAM_ABSENT_READ_VALUE
      else res_map (\<lambda>nibble. MBC2_RAM_READ_HIGH_NIBBLE OR nibble)
             (index_get (mbc2_ram_nibbles c) (mbc2_ram_index address)))"

definition mbc2_write_ram :: "u16 \<Rightarrow> u8 \<Rightarrow> mbc2_cartridge \<Rightarrow> mbc2_cartridge res" where
  "mbc2_write_ram address v c =
     (if \<not> mbc2_ram_enabled c then Inr c
      else res_map (\<lambda>nibbles. c\<lparr>mbc2_ram_nibbles := nibbles\<rparr>)
             (index_set (mbc2_ram_nibbles c) (mbc2_ram_index address) (v AND 0x0F)))"

definition mbc2_persistence_metadata :: "mbc2_cartridge \<Rightarrow> cartridge_persistence_metadata" where
  "mbc2_persistence_metadata c =
     \<lparr>meta_has_battery = mbc2_has_battery c, meta_has_rtc = False,
      meta_profile = (if mbc2_has_battery c then PersistentRam (PayloadMbc2Nibbles MBC2_RAM_CELL_COUNT)
                      else NonPersistentRam (PayloadMbc2Nibbles MBC2_RAM_CELL_COUNT))\<rparr>"

definition mbc2_persistent_state :: "mbc2_cartridge \<Rightarrow> persistent_cart_state" where
  "mbc2_persistent_state c =
     (if mbc2_has_battery c then Mbc2Ram (mbc2_ram_nibbles c) else PersistNone)"

text \<open>The first cell of a list that holds more than a nibble.\<close>

definition first_wide_nibble :: "u8 list \<Rightarrow> (nat \<times> u8) option" where
  "first_wide_nibble cells = find (\<lambda>(i, v). v AND 0xF0 \<noteq> 0) (enumerate 0 cells)"

definition mbc2_restore ::
    "persistent_cart_state \<Rightarrow> mbc2_cartridge \<Rightarrow> persistent_state_error + mbc2_cartridge" where
  "mbc2_restore s c =
     (if mbc2_has_battery c then
        (case s of
           Mbc2Ram nibbles \<Rightarrow>
             (case first_wide_nibble nibbles of
                Some (i, v) \<Rightarrow> Inl (InvalidMbc2NibbleValue i v)
              | None \<Rightarrow> Inr (c\<lparr>mbc2_ram_nibbles := nibbles\<rparr>))
         | _ \<Rightarrow> kind_mismatch ''Mbc2Ram'' s)
      else if s = PersistNone then Inr c else kind_mismatch ''None'' s)"

subsection \<open>Laws\<close>

text \<open>Whole banks, and 512 cells that hold nibbles; the cells are an array in the code.\<close>

definition mbc2_wf :: "mbc2_cartridge \<Rightarrow> bool" where
  "mbc2_wf c = (whole_banks c
     \<and> length (mbc2_ram_nibbles c) = MBC2_RAM_CELL_COUNT
     \<and> (\<forall>v \<in> set (mbc2_ram_nibbles c). v AND 0xF0 = 0))"

text \<open>A save state whose array has the length its type fixes.\<close>

definition mbc2_array :: "persistent_cart_state \<Rightarrow> bool" where
  "mbc2_array s = (case s of Mbc2Ram nibbles \<Rightarrow> length nibbles = MBC2_RAM_CELL_COUNT | _ \<Rightarrow> True)"

lemma first_wide_nibble_None: "first_wide_nibble cells = None \<longleftrightarrow> (\<forall>v \<in> set cells. v AND 0xF0 = 0)"
proof -
  have "find (\<lambda>(i, v). v AND 0xF0 \<noteq> 0) (enumerate k cells) = None
      \<longleftrightarrow> (\<forall>v \<in> set cells. v AND 0xF0 = 0)" for k
    by (induction cells arbitrary: k) auto
  then show ?thesis by (simp add: first_wide_nibble_def)
qed

lemma mbc2_ram_index_less: "mbc2_ram_index address < MBC2_RAM_CELL_COUNT"
proof -
  have "(ucast address - 0xA000 :: u64) AND 511 \<le> 511" by (rule word_and_le1)
  then show ?thesis
    by (simp add: mbc2_ram_index_def MBC2_RAM_ADDRESS_MASK_def MBC2_RAM_CELL_COUNT_def word_le_nat_alt)
qed

lemma mbc2_ram_total:
  assumes "mbc2_wf c"
  shows "mbc2_read_ram c address = Inr (if mbc2_ram_enabled c
           then MBC2_RAM_READ_HIGH_NIBBLE OR mbc2_ram_nibbles c ! mbc2_ram_index address
           else RAM_ABSENT_READ_VALUE)"
    and "mbc2_write_ram address v c = Inr (if mbc2_ram_enabled c
           then c\<lparr>mbc2_ram_nibbles := (mbc2_ram_nibbles c)[mbc2_ram_index address := v AND 0x0F]\<rparr> else c)"
  using assms mbc2_ram_index_less [of address]
  by (simp_all add: mbc2_read_ram_def mbc2_write_ram_def index_get_def index_set_def mbc2_wf_def)

text \<open>
  The locales take total operations; a panic would leave the state as it is, and
  \<open>mbc2_ram_total\<close> shows that on a well-formed board there is none.
\<close>

definition mbc2_ram_after_write :: "u16 \<Rightarrow> u8 \<Rightarrow> mbc2_cartridge \<Rightarrow> mbc2_cartridge" where
  "mbc2_ram_after_write address v c = (case mbc2_write_ram address v c of Inr c' \<Rightarrow> c' | Inl _ \<Rightarrow> c)"

text \<open>The parts of a board that no access changes: whether it has a battery.\<close>

lemma mbc2_write_fields [simp]:
  "cart_rom (mbc2_write_rom a v c) = cart_rom c" "cart_header (mbc2_write_rom a v c) = cart_header c"
  "mbc2_ram_nibbles (mbc2_write_rom a v c) = mbc2_ram_nibbles c"
  "mbc2_has_battery (mbc2_write_rom a v c) = mbc2_has_battery c"
  by (simp_all add: mbc2_write_rom_def)

lemma nibbles_update:
  assumes "\<forall>v \<in> set cells. v AND 0xF0 = (0::u8)"
  shows "\<forall>v \<in> set (cells[i := w AND 0x0F]). v AND 0xF0 = 0"
proof
  fix v assume "v \<in> set (cells[i := w AND 0x0F])"
  then have "v = w AND 0x0F \<or> v \<in> set cells"
    using set_update_subset_insert [of cells i "w AND 0x0F"] by blast
  with assms show "v AND 0xF0 = 0" by (auto simp: and.assoc)
qed

lemma mbc2_after_write:
  assumes "mbc2_wf c"
  shows "mbc2_wf (mbc2_ram_after_write a v c)"
    "cart_rom (mbc2_ram_after_write a v c) = cart_rom c"
    "mbc2_has_battery (mbc2_ram_after_write a v c) = mbc2_has_battery c"
  using assms nibbles_update [of "mbc2_ram_nibbles c" "mbc2_ram_index a" v]
  by (simp_all add: mbc2_ram_after_write_def mbc2_ram_total)
    (auto simp: mbc2_wf_def whole_banks_def header_rom_banks_def)

lemma mbc2_wf_write_rom: "mbc2_wf c \<Longrightarrow> mbc2_wf (mbc2_write_rom a v c)"
  by (simp add: mbc2_wf_def whole_banks_def header_rom_banks_def)

interpretation mbc2: banked_mapper mbc2_read_rom mbc2_mapped_rom_window mbc2_write_rom
  mbc2_ram_after_write mbc2_persistent_state mbc2_restore cart_rom mbc2_has_battery mbc2_array mbc2_wf
proof unfold_locales
  show "\<exists>w. mbc2_mapped_rom_window c a = Some w \<and> win_bank_offset w < win_bank_size w
      \<and> mbc2_read_rom c a = rom_get (cart_rom c) (window_index w)"
    if "a < 0x8000" for a c
    using banked_window_reads [OF that] by (simp add: mbc2_mapped_rom_window_def mbc2_read_rom_def)
next
  show "mbc2_wf c' \<and> mbc2_has_battery c' = mbc2_has_battery c \<and> cart_rom c' = cart_rom c
      \<and> mbc2_persistent_state c' = s"
    if "mbc2_wf c" and "mbc2_array s" and "mbc2_restore s c = Inr c'" for c c' s
    using that first_wide_nibble_None
    by (cases s) (auto simp: mbc2_restore_def mbc2_persistent_state_def mbc2_array_def kind_mismatch_def
        mbc2_wf_def whole_banks_def header_rom_banks_def split: if_splits option.splits)
next
  show "mbc2_array (mbc2_persistent_state c) \<and> (\<exists>d'. mbc2_restore (mbc2_persistent_state c) d = Inr d')"
    if "mbc2_wf c" and "mbc2_has_battery c = mbc2_has_battery d" for c d
    using that first_wide_nibble_None [of "mbc2_ram_nibbles c"]
    by (simp add: mbc2_restore_def mbc2_persistent_state_def mbc2_array_def mbc2_wf_def)
next
  show "window_index w < length (cart_rom c)"
    if "mbc2_wf c" and "mbc2_mapped_rom_window c a = Some w" for c a w
    using that banked_window_inside [of 0 "mbc2_effective_high_rom_bank (header_rom_banks c) c" a w]
    by (auto simp: mbc2_mapped_rom_window_def mbc2_wf_def whole_banks_def mbc2_effective_high_rom_bank_def Let_def)
qed (simp_all add: mbc2_mapped_rom_window_def banked_rom_window_none mbc2_after_write
    mbc2_wf_write_rom mbc2_persistent_state_def)

end
