(* ===== verification/Cart_Mbc3.thy ===== *)
theory Cart_Mbc3
  imports Cart_Mapper
begin

text \<open>
  MBC3 (\<open>mbc3.rs\<close>, \<open>persist.rs\<close>): banked ROM, RAM or a clock register behind one select
  register, the latch, and the real-time clock whose \<open>advance_mbc3_rtc_fields\<close> jumps over any
  number of seconds. The clock is proved to be the one that ticks second by second.
\<close>

subsection \<open>The clock\<close>

definition rtc_default :: mbc3_rtc_state where
  "rtc_default =
     \<lparr>rtc_seconds = 0, rtc_minutes = 0, rtc_hours = 0, rtc_day_counter = 0, rtc_halt = False,
      rtc_carry = False\<rparr>"

definition rtc_read :: "cartridge_rtc_register \<Rightarrow> mbc3_rtc_state \<Rightarrow> u8" where
  "rtc_read reg s =
     (case reg of
        RtcSeconds \<Rightarrow> rtc_seconds s
      | RtcMinutes \<Rightarrow> rtc_minutes s
      | RtcHours \<Rightarrow> rtc_hours s
      | RtcDayLow \<Rightarrow> ucast (rtc_day_counter s AND 0x00FF)
      | RtcDayHigh \<Rightarrow>
          (ucast (drop_bit 8 (rtc_day_counter s)) AND 0x01)
          OR push_bit 6 (u8_of_bool (rtc_halt s)) OR push_bit 7 (u8_of_bool (rtc_carry s)))"

definition rtc_write :: "cartridge_rtc_register \<Rightarrow> u8 \<Rightarrow> mbc3_rtc_state \<Rightarrow> mbc3_rtc_state" where
  "rtc_write reg v s =
     (case reg of
        RtcSeconds \<Rightarrow> s\<lparr>rtc_seconds := v AND 0x3F\<rparr>
      | RtcMinutes \<Rightarrow> s\<lparr>rtc_minutes := v AND 0x3F\<rparr>
      | RtcHours \<Rightarrow> s\<lparr>rtc_hours := v AND 0x1F\<rparr>
      | RtcDayLow \<Rightarrow> s\<lparr>rtc_day_counter := (rtc_day_counter s AND 0x0100) OR ucast v\<rparr>
      | RtcDayHigh \<Rightarrow>
          s\<lparr>rtc_day_counter := (rtc_day_counter s AND 0x00FF) OR push_bit 8 (ucast (v AND 0x01)),
            rtc_halt := (v AND 0x40 \<noteq> 0), rtc_carry := (v AND 0x80 \<noteq> 0)\<rparr>)"

definition rtc_fields_are_canonical :: "mbc3_rtc_state \<Rightarrow> bool" where
  "rtc_fields_are_canonical s = (rtc_seconds s < 60 \<and> rtc_minutes s < 60 \<and> rtc_hours s < 24)"

definition rtc_tick_one_day :: "mbc3_rtc_state \<Rightarrow> mbc3_rtc_state" where
  "rtc_tick_one_day s =
     (let next_day = (rtc_day_counter s AND 0x01FF) + 1
      in if 0x01FF < next_day then s\<lparr>rtc_day_counter := 0, rtc_carry := True\<rparr>
         else s\<lparr>rtc_day_counter := next_day\<rparr>)"

definition rtc_tick_one_hour :: "mbc3_rtc_state \<Rightarrow> mbc3_rtc_state" where
  "rtc_tick_one_hour s =
     (if rtc_hours s = 23 then rtc_tick_one_day (s\<lparr>rtc_hours := 0\<rparr>)
      else if rtc_hours s = 31 then s\<lparr>rtc_hours := 0\<rparr>
      else s\<lparr>rtc_hours := (rtc_hours s + 1) AND 0x1F\<rparr>)"

definition rtc_tick_one_minute :: "mbc3_rtc_state \<Rightarrow> mbc3_rtc_state" where
  "rtc_tick_one_minute s =
     (if rtc_minutes s = 59 then rtc_tick_one_hour (s\<lparr>rtc_minutes := 0\<rparr>)
      else if rtc_minutes s = 63 then s\<lparr>rtc_minutes := 0\<rparr>
      else s\<lparr>rtc_minutes := (rtc_minutes s + 1) AND 0x3F\<rparr>)"

definition rtc_tick_one_second :: "mbc3_rtc_state \<Rightarrow> mbc3_rtc_state" where
  "rtc_tick_one_second s =
     (if rtc_seconds s = 59 then rtc_tick_one_minute (s\<lparr>rtc_seconds := 0\<rparr>)
      else if rtc_seconds s = 63 then s\<lparr>rtc_seconds := 0\<rparr>
      else s\<lparr>rtc_seconds := (rtc_seconds s + 1) AND 0x3F\<rparr>)"

text \<open>The loop of \<open>advance_mbc3_rtc_fields\<close>: single seconds until the fields are canonical.\<close>

fun rtc_settle :: "nat \<Rightarrow> mbc3_rtc_state \<Rightarrow> nat \<times> mbc3_rtc_state" where
  "rtc_settle 0 s = (0, s)"
| "rtc_settle (Suc n) s =
     (if rtc_fields_are_canonical s then (Suc n, s) else rtc_settle n (rtc_tick_one_second s))"

definition rtc_mask_fields :: "mbc3_rtc_state \<Rightarrow> mbc3_rtc_state" where
  "rtc_mask_fields s =
     s\<lparr>rtc_seconds := rtc_seconds s AND 0x3F, rtc_minutes := rtc_minutes s AND 0x3F,
       rtc_hours := rtc_hours s AND 0x1F, rtc_day_counter := rtc_day_counter s AND 0x01FF\<rparr>"

definition rtc_current_total_seconds :: "mbc3_rtc_state \<Rightarrow> u64" where
  "rtc_current_total_seconds s =
     ucast (rtc_day_counter s) * 86400 + ucast (rtc_hours s) * 3600 + ucast (rtc_minutes s) * 60
     + ucast (rtc_seconds s)"

text \<open>The closed form for the remaining seconds.\<close>

definition rtc_jump :: "u64 \<Rightarrow> mbc3_rtc_state \<Rightarrow> mbc3_rtc_state" where
  "rtc_jump remaining s =
     (let advanced = rtc_current_total_seconds s + remaining;
          total_days = advanced div 86400;
          day_seconds = advanced mod 86400
      in s\<lparr>rtc_carry := (if 511 < total_days then True else rtc_carry s),
           rtc_day_counter := ucast (total_days mod 512),
           rtc_hours := ucast (day_seconds div 3600),
           rtc_minutes := ucast ((day_seconds mod 3600) div 60),
           rtc_seconds := ucast (day_seconds mod 60)\<rparr>)"

definition advance_mbc3_rtc_fields :: "u64 \<Rightarrow> mbc3_rtc_state \<Rightarrow> mbc3_rtc_state" where
  "advance_mbc3_rtc_fields elapsed s =
     (if rtc_halt s \<or> elapsed = 0 then s
      else
        (case rtc_settle (unat elapsed) (rtc_mask_fields s) of
           (remaining, s1) \<Rightarrow> if remaining = 0 then s1 else rtc_jump (of_nat remaining) s1))"

subsection \<open>The clock ticks second by second\<close>

definition rtc_total :: "mbc3_rtc_state \<Rightarrow> nat" where
  "rtc_total s =
     unat (rtc_day_counter s) * 86400 + unat (rtc_hours s) * 3600 + unat (rtc_minutes s) * 60
     + unat (rtc_seconds s)"

definition rtc_wf :: "mbc3_rtc_state \<Rightarrow> bool" where
  "rtc_wf s = (rtc_fields_are_canonical s \<and> unat (rtc_day_counter s) < 512)"

abbreviation rtc_period :: nat where "rtc_period \<equiv> 512 * 86400"

lemma rtc_total_less: "rtc_wf s \<Longrightarrow> rtc_total s < rtc_period"
  by (auto simp: rtc_wf_def rtc_fields_are_canonical_def rtc_total_def word_less_nat_alt)

lemma low_digit: "(d::nat) < b \<Longrightarrow> (b * x + d) mod b = d \<and> (b * x + d) div b = x"
  by simp

lemma rtc_parts:
  assumes "rtc_wf r"
  shows "unat (rtc_seconds r) = rtc_total r mod 60" "unat (rtc_minutes r) = rtc_total r div 60 mod 60"
    "unat (rtc_hours r) = rtc_total r div 60 div 60 mod 24"
    "unat (rtc_day_counter r) = rtc_total r div 60 div 60 div 24"
proof -
  have b: "unat (rtc_seconds r) < 60" "unat (rtc_minutes r) < 60" "unat (rtc_hours r) < 24"
    using assms by (simp_all add: rtc_wf_def rtc_fields_are_canonical_def word_less_nat_alt)
  have "rtc_total r = 60 * (60 * (24 * unat (rtc_day_counter r) + unat (rtc_hours r))
      + unat (rtc_minutes r)) + unat (rtc_seconds r)"
    by (simp add: rtc_total_def)
  with low_digit [OF b(1)] have s: "rtc_total r mod 60 = unat (rtc_seconds r)"
    and m: "rtc_total r div 60 = 60 * (24 * unat (rtc_day_counter r) + unat (rtc_hours r)) + unat (rtc_minutes r)"
    by metis+
  from s show "unat (rtc_seconds r) = rtc_total r mod 60" ..
  from low_digit [OF b(2)] m have m': "rtc_total r div 60 mod 60 = unat (rtc_minutes r)"
    and h: "rtc_total r div 60 div 60 = 24 * unat (rtc_day_counter r) + unat (rtc_hours r)"
    by metis+
  from m' show "unat (rtc_minutes r) = rtc_total r div 60 mod 60" ..
  from low_digit [OF b(3)] h show "unat (rtc_hours r) = rtc_total r div 60 div 60 mod 24"
    "unat (rtc_day_counter r) = rtc_total r div 60 div 60 div 24"
    by metis+
qed

lemma rtc_total_inject:
  assumes "rtc_wf s" and "rtc_wf s'" and "rtc_total s = rtc_total s'"
    and "rtc_halt s = rtc_halt s'" and "rtc_carry s = rtc_carry s'"
  shows "s = s'"
proof -
  have "rtc_seconds s = rtc_seconds s'" "rtc_minutes s = rtc_minutes s'" "rtc_hours s = rtc_hours s'"
    "rtc_day_counter s = rtc_day_counter s'"
    using rtc_parts [OF assms(1)] rtc_parts [OF assms(2)] assms(3) by (metis word_unat_eq_iff)+
  with assms(4,5) show ?thesis by simp
qed

text \<open>One second adds one to the total, modulo 512 days, and the carry sticks.\<close>

lemma low_field:
  "unat ((x::u8) AND 0x3F) = unat x mod 64"
  "unat (x AND 0x1F) = unat x mod 32"
  "unat ((d::u16) AND 0x01FF) = unat d mod 512"
  using unat_and_low_bits [of x 6] unat_and_low_bits [of x 5] unat_and_low_bits [of d 9]
  by (simp_all add: mask_eq_exp_minus_1)

lemma rtc_tick_total:
  assumes "rtc_wf s"
  shows "rtc_wf (rtc_tick_one_second s)
    \<and> rtc_total (rtc_tick_one_second s) = (rtc_total s + 1) mod rtc_period
    \<and> rtc_carry (rtc_tick_one_second s) = (rtc_carry s \<or> rtc_total s + 1 = rtc_period)
    \<and> rtc_halt (rtc_tick_one_second s) = rtc_halt s"
proof -
  have b: "unat (rtc_seconds s) < 60" "unat (rtc_minutes s) < 60" "unat (rtc_hours s) < 24"
    "unat (rtc_day_counter s) < 512"
    using assms by (simp_all add: rtc_wf_def rtc_fields_are_canonical_def word_less_nat_alt)
  note defs = rtc_wf_def rtc_fields_are_canonical_def rtc_total_def rtc_tick_one_second_def
    rtc_tick_one_minute_def rtc_tick_one_hour_def rtc_tick_one_day_def Let_def low_field
    word_less_nat_alt word_le_nat_alt word_unat_eq_iff unat_word_ariths
  consider "unat (rtc_seconds s) < 59"
    | "unat (rtc_seconds s) = 59" "unat (rtc_minutes s) < 59"
    | "unat (rtc_seconds s) = 59" "unat (rtc_minutes s) = 59" "unat (rtc_hours s) < 23"
    | "unat (rtc_seconds s) = 59" "unat (rtc_minutes s) = 59" "unat (rtc_hours s) = 23"
        "unat (rtc_day_counter s) < 511"
    | "unat (rtc_seconds s) = 59" "unat (rtc_minutes s) = 59" "unat (rtc_hours s) = 23"
        "unat (rtc_day_counter s) = 511"
    using b by linarith
  then show ?thesis
    using b by cases (simp_all add: defs)
qed

lemma rtc_ticks_total:
  assumes "rtc_wf s"
  shows "rtc_wf ((rtc_tick_one_second ^^ n) s)
    \<and> rtc_total ((rtc_tick_one_second ^^ n) s) = (rtc_total s + n) mod rtc_period
    \<and> rtc_carry ((rtc_tick_one_second ^^ n) s) = (rtc_carry s \<or> rtc_period \<le> rtc_total s + n)
    \<and> rtc_halt ((rtc_tick_one_second ^^ n) s) = rtc_halt s"
proof (induction n)
  case 0
  then show ?case using assms rtc_total_less [OF assms] by simp
next
  case (Suc n)
  let ?s = "(rtc_tick_one_second ^^ n) s"
  have step: "rtc_wf (rtc_tick_one_second ?s)
    \<and> rtc_total (rtc_tick_one_second ?s) = (rtc_total ?s + 1) mod rtc_period
    \<and> rtc_carry (rtc_tick_one_second ?s) = (rtc_carry ?s \<or> rtc_total ?s + 1 = rtc_period)
    \<and> rtc_halt (rtc_tick_one_second ?s) = rtc_halt ?s"
    using Suc by (intro rtc_tick_total) simp
  have "(rtc_period \<le> rtc_total s + n \<or> (rtc_total s + n) mod rtc_period + 1 = rtc_period)
      = (rtc_period \<le> rtc_total s + Suc n)"
    by (cases "rtc_total s + n < rtc_period") auto
  moreover have "((rtc_total s + n) mod rtc_period + 1) mod rtc_period = (rtc_total s + Suc n) mod rtc_period"
    by (simp only: mod_add_left_eq) simp
  ultimately show ?case using Suc step by auto
qed

lemma rtc_current_total:
  assumes "rtc_wf s"
  shows "unat (rtc_current_total_seconds s) = rtc_total s"
proof -
  have b: "unat (rtc_seconds s) < 60" "unat (rtc_minutes s) < 60" "unat (rtc_hours s) < 24"
    "unat (rtc_day_counter s) < 512"
    using assms by (simp_all add: rtc_wf_def rtc_fields_are_canonical_def word_less_nat_alt)
  have "rtc_current_total_seconds s = of_nat (rtc_total s)"
    by (simp add: rtc_current_total_seconds_def rtc_total_def of_nat_unat)
  moreover have "rtc_total s < 2 ^ 64" using rtc_total_less [OF assms] by simp
  ultimately show ?thesis by (simp add: unat_of_nat)
qed

text \<open>The digits of a number of seconds.\<close>

lemma rtc_digits:
  "(t::nat) div 86400 * 86400 + t mod 86400 div 3600 * 3600 + t mod 86400 mod 3600 div 60 * 60
     + t mod 86400 mod 60 = t"
proof -
  have m: "t mod 86400 mod 60 = t mod 86400 mod 3600 mod 60" by (simp add: mod_mod_cancel)
  show ?thesis by (simp only: m add.assoc div_mult_mod_eq)
qed

lemma rtc_of_digits:
  assumes "d < 512" and "h < 24" and "m < 60" and "n < 60"
    and "r = s\<lparr>rtc_day_counter := of_nat d, rtc_hours := of_nat h, rtc_minutes := of_nat m,
      rtc_seconds := of_nat n, rtc_carry := c\<rparr>"
  shows "rtc_wf r \<and> rtc_total r = d * 86400 + h * 3600 + m * 60 + n"
  using assms
  by (simp add: rtc_wf_def rtc_fields_are_canonical_def rtc_total_def word_less_nat_alt unat_of_nat)

lemma rtc_of_total:
  assumes "t < rtc_period" and "r = s\<lparr>rtc_day_counter := of_nat (t div 86400),
      rtc_hours := of_nat (t mod 86400 div 3600), rtc_minutes := of_nat (t mod 86400 mod 3600 div 60),
      rtc_seconds := of_nat (t mod 86400 mod 60), rtc_carry := c\<rparr>"
  shows "rtc_wf r" "rtc_total r = t"
proof -
  have "t div 86400 < 512" using assms(1) by (simp add: less_mult_imp_div_less)
  moreover have "t mod 86400 div 3600 < 24" "t mod 86400 mod 3600 div 60 < 60" "t mod 86400 mod 60 < 60"
    by (simp_all add: less_mult_imp_div_less)
  ultimately have "rtc_wf r \<and> rtc_total r = t div 86400 * 86400 + t mod 86400 div 3600 * 3600
      + t mod 86400 mod 3600 div 60 * 60 + t mod 86400 mod 60"
    by (rule rtc_of_digits [OF _ _ _ _ assms(2)])
  then show "rtc_wf r" "rtc_total r = t"
    by (simp_all only: rtc_digits)
qed

lemma rtc_set_time:
  "rtc_halt (s\<lparr>rtc_day_counter := d, rtc_hours := h, rtc_minutes := m, rtc_seconds := n, rtc_carry := c\<rparr>)
     = rtc_halt s"
  "rtc_carry (s\<lparr>rtc_day_counter := d, rtc_hours := h, rtc_minutes := m, rtc_seconds := n, rtc_carry := c\<rparr>)
     = c"
  by simp_all

lemma rtc_jump_is_ticks:
  assumes wf: "rtc_wf s" and bound: "rtc_total s + unat n < 2 ^ 64"
  shows "rtc_jump n s = (rtc_tick_one_second ^^ unat n) s"
proof -
  let ?a = "rtc_total s + unat n"
  let ?t = "?a mod rtc_period"
  let ?r = "s\<lparr>rtc_day_counter := of_nat (?t div 86400),
      rtc_hours := of_nat (?t mod 86400 div 3600), rtc_minutes := of_nat (?t mod 86400 mod 3600 div 60),
      rtc_seconds := of_nat (?t mod 86400 mod 60), rtc_carry := rtc_carry s \<or> rtc_period \<le> ?a\<rparr>"
  define adv where "adv = rtc_current_total_seconds s + n"
  have a: "unat adv = ?a"
    using bound rtc_current_total [OF wf] by (simp add: adv_def unat_word_ariths)
  have "?t div 86400 = ?a div 86400 mod 512"
    using mod_mult2_eq [of ?a 86400 512] by (simp add: mult.commute)
  moreover have "?t mod 86400 = ?a mod 86400" by (simp add: mod_mod_cancel)
  ultimately have fields: "ucast (adv div 86400 mod 512) = (of_nat (?t div 86400) :: u16)"
    "ucast (adv mod 86400 div 3600) = (of_nat (?t mod 86400 div 3600) :: u8)"
    "ucast (adv mod 86400 mod 3600 div 60) = (of_nat (?t mod 86400 mod 3600 div 60) :: u8)"
    "ucast (adv mod 86400 mod 60) = (of_nat (?t mod 86400 mod 60) :: u8)"
    by (simp_all add: word_unat_eq_iff unsigned_ucast_eq take_bit_eq_mod unat_div unat_mod unat_of_nat a)
  have carry: "511 < adv div 86400 \<longleftrightarrow> rtc_period \<le> ?a"
  proof -
    have "511 < ?a div 86400 \<longleftrightarrow> 512 \<le> ?a div 86400" by linarith
    also have "\<dots> \<longleftrightarrow> rtc_period \<le> ?a" by (simp only: less_eq_div_iff_mult_less_eq)
    finally show ?thesis by (simp add: word_less_nat_alt unat_div a)
  qed
  have jump: "rtc_jump n s = ?r"
    using carry by (simp add: rtc_jump_def Let_def adv_def [symmetric] fields)
  have "?t < rtc_period" by simp
  from rtc_of_total [OF this refl] have r: "rtc_wf ?r" "rtc_total ?r = ?t"
    .
  note ticks = rtc_ticks_total [OF wf, of "unat n"]
  show ?thesis
    unfolding jump
  proof (rule rtc_total_inject [OF r(1)])
    show "rtc_wf ((rtc_tick_one_second ^^ unat n) s)" using ticks by blast
    show "rtc_total ?r = rtc_total ((rtc_tick_one_second ^^ unat n) s)"
      using ticks r(2) by (metis (no_types))
    have "rtc_halt ?r = rtc_halt s" "rtc_carry ?r = (rtc_carry s \<or> rtc_period \<le> ?a)"
      by (simp_all only: rtc_set_time)
    with ticks show "rtc_halt ?r = rtc_halt ((rtc_tick_one_second ^^ unat n) s)"
      "rtc_carry ?r = rtc_carry ((rtc_tick_one_second ^^ unat n) s)"
      by (metis (no_types))+
  qed
qed

lemma rtc_tick_frame:
  "rtc_halt (rtc_tick_one_second s) = rtc_halt s"
  "unat (rtc_day_counter s) < 512 \<Longrightarrow> unat (rtc_day_counter (rtc_tick_one_second s)) < 512"
  by (simp_all add: rtc_tick_one_second_def rtc_tick_one_minute_def rtc_tick_one_hour_def
      rtc_tick_one_day_def Let_def word_less_nat_alt)

lemma rtc_settle_is_ticks:
  "unat (rtc_day_counter s) < 512 \<Longrightarrow> rtc_settle n s = (k, s') \<Longrightarrow>
     k \<le> n \<and> s' = (rtc_tick_one_second ^^ (n - k)) s \<and> (0 < k \<longrightarrow> rtc_wf s')"
proof (induction n arbitrary: s)
  case (Suc n)
  show ?case
  proof (cases "rtc_fields_are_canonical s")
    case True
    with Suc.prems show ?thesis by (auto simp: rtc_wf_def)
  next
    case False
    with Suc.prems have "rtc_settle n (rtc_tick_one_second s) = (k, s')" by simp
    from Suc.IH [OF rtc_tick_frame(2) [OF Suc.prems(1)] this] show ?thesis
      by (auto simp: Suc_diff_le funpow_swap1)
  qed
qed simp

lemma advance_is_ticks:
  assumes "\<not> rtc_halt s" and "e \<noteq> 0" and bound: "unat e + rtc_period < 2 ^ 64"
  shows "advance_mbc3_rtc_fields e s = (rtc_tick_one_second ^^ unat e) (rtc_mask_fields s)"
proof -
  obtain k s1 where settle: "rtc_settle (unat e) (rtc_mask_fields s) = (k, s1)" by (rule prod.exhaust)
  have "unat (rtc_day_counter (rtc_mask_fields s)) < 512" by (simp add: rtc_mask_fields_def low_field)
  from rtc_settle_is_ticks [OF this settle] have k: "k \<le> unat e"
    and s1: "s1 = (rtc_tick_one_second ^^ (unat e - k)) (rtc_mask_fields s)" and wf: "0 < k \<Longrightarrow> rtc_wf s1"
    by auto
  have "k < 2 ^ 64" using k bound by linarith
  then have uk: "unat (of_nat k :: u64) = k" by (simp add: unat_of_nat)
  have "rtc_jump (of_nat k) s1 = (rtc_tick_one_second ^^ k) s1" if "0 < k"
    using rtc_jump_is_ticks [OF wf [OF that], of "of_nat k"] rtc_total_less [OF wf [OF that]] k bound uk
    by simp
  also have "(rtc_tick_one_second ^^ k) s1 = (rtc_tick_one_second ^^ unat e) (rtc_mask_fields s)"
  proof -
    have "(rtc_tick_one_second ^^ k) s1 = (rtc_tick_one_second ^^ (k + (unat e - k))) (rtc_mask_fields s)"
      by (simp only: s1 funpow_add comp_def)
    then show ?thesis using k by simp
  qed
  finally have "(if k = 0 then s1 else rtc_jump (of_nat k) s1)
      = (rtc_tick_one_second ^^ unat e) (rtc_mask_fields s)"
    using s1 by auto
  then show ?thesis
    using assms(1,2) settle by (simp add: advance_mbc3_rtc_fields_def)
qed

subsection \<open>The cartridge\<close>

definition MBC3_RTC_ACCESS_SPACING_T_CYCLES :: u64 where "MBC3_RTC_ACCESS_SPACING_T_CYCLES = 16"
definition MBC3_RTC_CLOCK_TICKS_PER_SECOND :: u64 where "MBC3_RTC_CLOCK_TICKS_PER_SECOND = 32768"

datatype mbc3_variant = Mbc3Standard | Mbc30

datatype mbc3_ram_rtc_select =
    SelectRamBank u8
  | SelectReserved u8
  | SelectRtcRegister cartridge_rtc_register

record mbc3_cartridge = ram_board +
  mbc3_has_rtc :: bool
  mbc3_variant_of :: mbc3_variant
  mbc3_ram_rtc_enabled :: bool
  mbc3_rom_bank :: u8
  mbc3_select :: mbc3_ram_rtc_select
  mbc3_rtc_live :: mbc3_rtc_state
  mbc3_rtc_latched :: mbc3_rtc_state
  mbc3_rtc_latched_valid :: bool
  mbc3_rtc_latch_armed :: bool
  mbc3_rtc_subsecond_ticks :: u16
  mbc3_rtc_access_ready_at :: "u64 option"

definition select_from_value :: "u8 \<Rightarrow> mbc3_variant \<Rightarrow> mbc3_ram_rtc_select" where
  "select_from_value v variant =
     (let low_nibble = v AND 0x0F
      in if low_nibble \<le> 0x03 then SelectRamBank low_nibble
         else if low_nibble \<le> 0x07 \<and> variant = Mbc30 then SelectRamBank low_nibble
         else if low_nibble = 0x08 then SelectRtcRegister RtcSeconds
         else if low_nibble = 0x09 then SelectRtcRegister RtcMinutes
         else if low_nibble = 0x0A then SelectRtcRegister RtcHours
         else if low_nibble = 0x0B then SelectRtcRegister RtcDayLow
         else if low_nibble = 0x0C then SelectRtcRegister RtcDayHigh
         else SelectReserved low_nibble)"

definition mbc3_effective_rom_bank :: "nat \<Rightarrow> mbc3_cartridge \<Rightarrow> nat" where
  "mbc3_effective_rom_bank bank_count c =
     (let raw_bank = (case mbc3_variant_of c of
                        Mbc3Standard \<Rightarrow> mbc3_rom_bank c AND 0x7F | Mbc30 \<Rightarrow> mbc3_rom_bank c);
          translated_bank = unat (if raw_bank = 0 then 1 else raw_bank)
      in if bank_count = 0 then 0 else translated_bank mod bank_count)"

definition mbc3_effective_ram_offset :: "u16 \<Rightarrow> u8 \<Rightarrow> mbc3_cartridge \<Rightarrow> nat" where
  "mbc3_effective_ram_offset address raw_bank c =
     (let base_offset = ram_base_offset address
      in case cart_ram c of
           Some ram \<Rightarrow>
             if length ram = 0 then base_offset
             else (base_offset + unat raw_bank * 0x2000) mod length ram
         | None \<Rightarrow> base_offset)"

definition mbc3_effective_ram_bank :: "u8 \<Rightarrow> mbc3_cartridge \<Rightarrow> u8" where
  "mbc3_effective_ram_bank raw_bank c =
     (let bank_count = max (case ram_bank_count (hdr_ram_size (cart_header c)) of Some n \<Rightarrow> n | None \<Rightarrow> 0) 1
      in of_nat (unat raw_bank mod bank_count))"

definition mbc3_describe :: "u16 \<Rightarrow> mbc3_cartridge \<Rightarrow> cartridge_external_access_info" where
  "mbc3_describe address c =
     (case mbc3_select c of
        SelectRamBank raw_bank \<Rightarrow>
          storage_access address (BankedRam (mbc3_effective_ram_bank raw_bank c))
            (mbc3_ram_rtc_enabled c \<and> cart_ram c \<noteq> None)
            (if mbc3_ram_rtc_enabled c then Absent else Disabled)
      | SelectReserved raw_selector \<Rightarrow>
          access_info_new address (ReservedSelectorTarget raw_selector)
            (if mbc3_ram_rtc_enabled c then Reserved else Disabled)
            (FallbackValue RAM_ABSENT_READ_VALUE) WriteIgnored
      | SelectRtcRegister reg \<Rightarrow>
          (let available = (mbc3_ram_rtc_enabled c \<and> mbc3_has_rtc c)
           in (access_info_new address (RtcRegisterTarget reg)
                (if available then Accessible
                 else if mbc3_ram_rtc_enabled c then Absent else Disabled)
                (if available then RtcLatched else FallbackValue RAM_ABSENT_READ_VALUE)
                (if available then RtcLive else WriteIgnored))
              \<lparr>acc_rtc_ready_at := mbc3_rtc_access_ready_at c\<rparr>))"

definition clear_runtime_rtc_snapshot_state :: "mbc3_cartridge \<Rightarrow> mbc3_cartridge" where
  "clear_runtime_rtc_snapshot_state c =
     c\<lparr>mbc3_rtc_latched := rtc_default, mbc3_rtc_latched_valid := False,
       mbc3_rtc_latch_armed := False, mbc3_rtc_subsecond_ticks := 0,
       mbc3_rtc_access_ready_at := None\<rparr>"

definition note_rtc_access_timing :: "u64 \<Rightarrow> mbc3_cartridge \<Rightarrow> mbc3_cartridge" where
  "note_rtc_access_timing t c =
     c\<lparr>mbc3_rtc_access_ready_at := Some (t + MBC3_RTC_ACCESS_SPACING_T_CYCLES)\<rparr>"

definition visible_rtc_state :: "mbc3_cartridge \<Rightarrow> mbc3_rtc_state" where
  "visible_rtc_state c = (if mbc3_rtc_latched_valid c then mbc3_rtc_latched c else rtc_default)"

definition mbc3_read_rom :: "mbc3_cartridge \<Rightarrow> u16 \<Rightarrow> u8" where
  "mbc3_read_rom c address =
     rom_get (cart_rom c)
       (banked_rom_index 0 (mbc3_effective_rom_bank (header_rom_banks c) c) address)"

definition mbc3_mapped_rom_window ::
    "mbc3_cartridge \<Rightarrow> u16 \<Rightarrow> cartridge_mapped_rom_window option" where
  "mbc3_mapped_rom_window c address =
     banked_rom_window 0 (mbc3_effective_rom_bank (header_rom_banks c) c) address"

definition latch_rtc_if_needed :: "u8 \<Rightarrow> mbc3_cartridge \<Rightarrow> mbc3_cartridge" where
  "latch_rtc_if_needed v c =
     (if \<not> mbc3_has_rtc c then c\<lparr>mbc3_rtc_latch_armed := (v = 0)\<rparr>
      else if v = 0 then c\<lparr>mbc3_rtc_latch_armed := True\<rparr>
      else
        (if mbc3_rtc_latch_armed c \<and> v = 0x01 \<or> mbc3_rtc_latched_valid c
         then c\<lparr>mbc3_rtc_latched := mbc3_rtc_live c, mbc3_rtc_latched_valid := True\<rparr> else c)
        \<lparr>mbc3_rtc_latch_armed := False\<rparr>)"

definition mbc3_write_rom :: "u16 \<Rightarrow> u8 \<Rightarrow> mbc3_cartridge \<Rightarrow> mbc3_cartridge" where
  "mbc3_write_rom address v c =
     (if address \<le> 0x1FFF then c\<lparr>mbc3_ram_rtc_enabled := (v AND 0x0F = 0x0A)\<rparr>
      else if address \<le> 0x3FFF then
        c\<lparr>mbc3_rom_bank := (case mbc3_variant_of c of Mbc3Standard \<Rightarrow> v AND 0x7F | Mbc30 \<Rightarrow> v)\<rparr>
      else if address \<le> 0x5FFF then c\<lparr>mbc3_select := select_from_value v (mbc3_variant_of c)\<rparr>
      else if address \<le> 0x7FFF then latch_rtc_if_needed v c
      else c)"

definition mbc3_read_ram :: "mbc3_cartridge \<Rightarrow> u16 \<Rightarrow> u8" where
  "mbc3_read_ram c address =
     (if \<not> mbc3_ram_rtc_enabled c then RAM_ABSENT_READ_VALUE
      else case mbc3_select c of
          SelectRamBank raw_bank \<Rightarrow> ram_get (cart_ram c) (mbc3_effective_ram_offset address raw_bank c)
        | SelectReserved _ \<Rightarrow> RAM_ABSENT_READ_VALUE
        | SelectRtcRegister reg \<Rightarrow>
            if mbc3_has_rtc c then rtc_read reg (visible_rtc_state c) else RAM_ABSENT_READ_VALUE)"

definition mbc3_read_ram_timed :: "u16 \<Rightarrow> u64 \<Rightarrow> mbc3_cartridge \<Rightarrow> u8 \<times> mbc3_cartridge" where
  "mbc3_read_ram_timed address t c =
     (if \<not> mbc3_ram_rtc_enabled c then (RAM_ABSENT_READ_VALUE, c)
      else case mbc3_select c of
          SelectRamBank raw_bank \<Rightarrow>
            (ram_get (cart_ram c) (mbc3_effective_ram_offset address raw_bank c), c)
        | SelectReserved _ \<Rightarrow> (RAM_ABSENT_READ_VALUE, c)
        | SelectRtcRegister reg \<Rightarrow>
            if mbc3_has_rtc c then
              (let c1 = note_rtc_access_timing t c in (rtc_read reg (visible_rtc_state c1), c1))
            else (RAM_ABSENT_READ_VALUE, c))"

definition note_rtc_register_write :: "cartridge_rtc_register \<Rightarrow> mbc3_cartridge \<Rightarrow> mbc3_cartridge" where
  "note_rtc_register_write reg c =
     (if reg = RtcSeconds then c\<lparr>mbc3_rtc_subsecond_ticks := 0\<rparr> else c)"

definition mbc3_write_ram :: "u16 \<Rightarrow> u8 \<Rightarrow> mbc3_cartridge \<Rightarrow> mbc3_cartridge" where
  "mbc3_write_ram address v c =
     (if \<not> mbc3_ram_rtc_enabled c then c
      else case mbc3_select c of
          SelectRamBank raw_bank \<Rightarrow>
            c\<lparr>cart_ram := ram_put (cart_ram c) (mbc3_effective_ram_offset address raw_bank c) v\<rparr>
        | SelectReserved _ \<Rightarrow> c
        | SelectRtcRegister reg \<Rightarrow>
            if mbc3_has_rtc c then
              note_rtc_register_write reg (c\<lparr>mbc3_rtc_live := rtc_write reg v (mbc3_rtc_live c)\<rparr>)
            else c)"

definition mbc3_write_ram_timed :: "u16 \<Rightarrow> u8 \<Rightarrow> u64 \<Rightarrow> mbc3_cartridge \<Rightarrow> mbc3_cartridge" where
  "mbc3_write_ram_timed address v t c =
     (if \<not> mbc3_ram_rtc_enabled c then c
      else case mbc3_select c of
          SelectRamBank raw_bank \<Rightarrow>
            c\<lparr>cart_ram := ram_put (cart_ram c) (mbc3_effective_ram_offset address raw_bank c) v\<rparr>
        | SelectReserved _ \<Rightarrow> c
        | SelectRtcRegister reg \<Rightarrow>
            if mbc3_has_rtc c then
              (let c1 = note_rtc_access_timing t c
               in note_rtc_register_write reg (c1\<lparr>mbc3_rtc_live := rtc_write reg v (mbc3_rtc_live c1)\<rparr>))
            else c)"

definition mbc3_advance_rtc_seconds :: "u64 \<Rightarrow> mbc3_cartridge \<Rightarrow> mbc3_cartridge" where
  "mbc3_advance_rtc_seconds seconds c =
     (if mbc3_has_rtc c
      then c\<lparr>mbc3_rtc_live := advance_mbc3_rtc_fields seconds (mbc3_rtc_live c)\<rparr> else c)"

definition mbc3_advance_rtc_clock_ticks :: "u64 \<Rightarrow> mbc3_cartridge \<Rightarrow> mbc3_cartridge" where
  "mbc3_advance_rtc_clock_ticks ticks c =
     (if \<not> mbc3_has_rtc c \<or> rtc_halt (mbc3_rtc_live c) \<or> ticks = 0 then c
      else
        (let total_ticks = ucast (mbc3_rtc_subsecond_ticks c) + ticks;
             elapsed_seconds = total_ticks div MBC3_RTC_CLOCK_TICKS_PER_SECOND
         in c\<lparr>mbc3_rtc_subsecond_ticks := ucast (total_ticks mod MBC3_RTC_CLOCK_TICKS_PER_SECOND),
              mbc3_rtc_live := advance_mbc3_rtc_fields elapsed_seconds (mbc3_rtc_live c)\<rparr>))"

definition mbc3_persistence_metadata :: "mbc3_cartridge \<Rightarrow> cartridge_persistence_metadata" where
  "mbc3_persistence_metadata c =
     \<lparr>meta_has_battery = cart_has_battery c, meta_has_rtc = mbc3_has_rtc c,
      meta_profile =
        (case (cart_has_battery c, mbc3_has_rtc c, map_option (\<lambda>ram. PayloadLinear (length ram)) (cart_ram c)) of
           (True, True, Some ram) \<Rightarrow> PersistentRamAndRtc ram
         | (True, True, None) \<Rightarrow> PersistentRtc
         | (True, False, Some ram) \<Rightarrow> PersistentRam ram
         | (False, False, Some ram) \<Rightarrow> NonPersistentRam ram
         | _ \<Rightarrow> ProfileNone)\<rparr>"

definition mbc3_persistent_state :: "mbc3_cartridge \<Rightarrow> persistent_cart_state" where
  "mbc3_persistent_state c =
     (if \<not> cart_has_battery c then PersistNone
      else case (cart_ram c, mbc3_has_rtc c) of
          (Some ram, True) \<Rightarrow> Mbc3RamRtc ram (mbc3_rtc_live c)
        | (Some ram, False) \<Rightarrow> Mbc3Ram ram
        | (None, True) \<Rightarrow> Mbc3Rtc (mbc3_rtc_live c)
        | (None, False) \<Rightarrow> PersistNone)"

definition mbc3_restore ::
    "persistent_cart_state \<Rightarrow> mbc3_cartridge \<Rightarrow> persistent_state_error + mbc3_cartridge" where
  "mbc3_restore s c =
     (if \<not> cart_has_battery c then (if s = PersistNone then Inr c else kind_mismatch ''None'' s)
      else case (mbc3_has_rtc c, cart_ram c) of
          (True, Some ram) \<Rightarrow>
            (case s of
               Mbc3RamRtc persisted rtc \<Rightarrow>
                 if length ram \<noteq> length persisted
                 then Inl (RamLengthMismatch (length ram) (length persisted))
                 else Inr (clear_runtime_rtc_snapshot_state
                             (c\<lparr>cart_ram := Some persisted, mbc3_rtc_live := rtc\<rparr>))
             | _ \<Rightarrow> kind_mismatch ''Mbc3RamRtc'' s)
        | (False, Some ram) \<Rightarrow>
            (case s of
               Mbc3Ram persisted \<Rightarrow>
                 if length ram \<noteq> length persisted
                 then Inl (RamLengthMismatch (length ram) (length persisted))
                 else Inr (c\<lparr>cart_ram := Some persisted\<rparr>)
             | _ \<Rightarrow> kind_mismatch ''Mbc3Ram'' s)
        | (True, None) \<Rightarrow>
            (case s of
               Mbc3Rtc rtc \<Rightarrow> Inr (clear_runtime_rtc_snapshot_state (c\<lparr>mbc3_rtc_live := rtc\<rparr>))
             | _ \<Rightarrow> kind_mismatch ''Mbc3Rtc'' s)
        | (False, None) \<Rightarrow> if s = PersistNone then Inr c else kind_mismatch ''None'' s)"

subsection \<open>Laws\<close>

definition mbc3_key :: "mbc3_cartridge \<Rightarrow> bool \<times> bool \<times> nat option" where
  "mbc3_key c = (cart_has_battery c, mbc3_has_rtc c, map_option length (cart_ram c))"

lemma latch_fields [simp]:
  "cart_rom (latch_rtc_if_needed v c) = cart_rom c" "cart_header (latch_rtc_if_needed v c) = cart_header c"
  "cart_ram (latch_rtc_if_needed v c) = cart_ram c"
  "cart_has_battery (latch_rtc_if_needed v c) = cart_has_battery c"
  "mbc3_has_rtc (latch_rtc_if_needed v c) = mbc3_has_rtc c"
  "mbc3_rtc_live (latch_rtc_if_needed v c) = mbc3_rtc_live c"
  by (simp_all add: latch_rtc_if_needed_def)

lemma mbc3_write_fields [simp]:
  "cart_rom (mbc3_write_rom a v c) = cart_rom c" "cart_rom (mbc3_write_ram a v c) = cart_rom c"
  "cart_header (mbc3_write_rom a v c) = cart_header c" "cart_header (mbc3_write_ram a v c) = cart_header c"
  "cart_ram (mbc3_write_rom a v c) = cart_ram c" "mbc3_rtc_live (mbc3_write_rom a v c) = mbc3_rtc_live c"
  "mbc3_key (mbc3_write_rom a v c) = mbc3_key c" "mbc3_key (mbc3_write_ram a v c) = mbc3_key c"
  by (simp_all add: mbc3_write_rom_def mbc3_write_ram_def mbc3_key_def note_rtc_register_write_def
      split: mbc3_ram_rtc_select.split)

lemma mbc3_persistent_frame:
  "mbc3_key c = mbc3_key d \<Longrightarrow> cart_ram c = cart_ram d \<Longrightarrow> mbc3_rtc_live c = mbc3_rtc_live d
   \<Longrightarrow> mbc3_persistent_state c = mbc3_persistent_state d"
  by (auto simp: mbc3_persistent_state_def mbc3_key_def split: option.split bool.split)

interpretation mbc3: banked_mapper mbc3_read_rom mbc3_mapped_rom_window mbc3_write_rom
  mbc3_write_ram mbc3_persistent_state mbc3_restore cart_rom mbc3_key "\<lambda>_. True" whole_banks
proof unfold_locales
  show "\<exists>w. mbc3_mapped_rom_window c a = Some w \<and> win_bank_offset w < win_bank_size w
      \<and> mbc3_read_rom c a = rom_get (cart_rom c) (window_index w)"
    if "a < 0x8000" for a c
    using banked_window_reads [OF that] by (simp add: mbc3_mapped_rom_window_def mbc3_read_rom_def)
next
  show "whole_banks (mbc3_write_rom a v c) \<and> mbc3_key (mbc3_write_rom a v c) = mbc3_key c
      \<and> cart_rom (mbc3_write_rom a v c) = cart_rom c"
    if "whole_banks c" for a v c
    using that by (simp add: whole_banks_def header_rom_banks_def)
next
  show "mbc3_persistent_state (mbc3_write_rom a v c) = mbc3_persistent_state c" for a v c
    by (rule mbc3_persistent_frame) simp_all
next
  show "whole_banks c' \<and> mbc3_key c' = mbc3_key c \<and> cart_rom c' = cart_rom c
      \<and> mbc3_persistent_state c' = s"
    if "whole_banks c" and "mbc3_restore s c = Inr c'" for c c' s
    using that
    by (auto simp: mbc3_restore_def mbc3_persistent_state_def mbc3_key_def kind_mismatch_def
        clear_runtime_rtc_snapshot_state_def whole_banks_def header_rom_banks_def
        split: if_splits option.splits bool.splits persistent_cart_state.splits)
next
  show "window_index w < length (cart_rom c)"
    if "whole_banks c" and "mbc3_mapped_rom_window c a = Some w" for c a w
    using that banked_window_inside [of 0 _ a w]
    by (auto simp: mbc3_mapped_rom_window_def whole_banks_def mbc3_effective_rom_bank_def Let_def)
next
  show "True \<and> (\<exists>d'. mbc3_restore (mbc3_persistent_state c) d = Inr d')"
    if "mbc3_key c = mbc3_key d" for c d
    using that
    by (cases "cart_ram c"; cases "cart_ram d"; cases "mbc3_has_rtc d"; cases "cart_has_battery d")
      (simp_all add: mbc3_restore_def mbc3_persistent_state_def mbc3_key_def)
qed (simp_all add: mbc3_mapped_rom_window_def banked_rom_window_none whole_banks_def header_rom_banks_def)

definition mbc3_cell :: "mbc3_cartridge \<Rightarrow> u16 \<Rightarrow> nat option" where
  "mbc3_cell c address =
     (case mbc3_select c of
        SelectRamBank raw_bank \<Rightarrow>
          linear_cell (mbc3_ram_rtc_enabled c) (cart_ram c) (mbc3_effective_ram_offset address raw_bank c)
      | _ \<Rightarrow> None)"

lemma mbc3_offset_write [simp]:
  "mbc3_effective_ram_offset b bank (c\<lparr>cart_ram := ram_put (cart_ram c) i v\<rparr>)
     = mbc3_effective_ram_offset b bank c"
  by (auto simp: mbc3_effective_ram_offset_def ram_put_def Let_def split: option.split)

lemma mbc3_write_visible [simp]:
  "visible_rtc_state (mbc3_write_ram a v c) = visible_rtc_state c"
  "mbc3_select (mbc3_write_ram a v c) = mbc3_select c"
  "mbc3_ram_rtc_enabled (mbc3_write_ram a v c) = mbc3_ram_rtc_enabled c"
  "mbc3_has_rtc (mbc3_write_ram a v c) = mbc3_has_rtc c"
  by (simp_all add: mbc3_write_ram_def note_rtc_register_write_def visible_rtc_state_def
      split: mbc3_ram_rtc_select.split)

text \<open>Clock registers read latched and write live, so as memory only the RAM banks count.\<close>

interpretation mbc3_memory: external_ram mbc3_read_ram mbc3_write_ram mbc3_cell "\<lambda>v. v"
proof unfold_locales
  show "mbc3_read_ram (mbc3_write_ram a v c) b =
      (if mbc3_cell c a = mbc3_cell c b \<and> mbc3_cell c a \<noteq> None then v else mbc3_read_ram c b)" for a v c b
    by (cases "mbc3_select c"; cases "mbc3_ram_rtc_enabled c")
      (auto simp: mbc3_read_ram_def mbc3_cell_def ram_get_put_cell, auto simp: mbc3_write_ram_def ram_get_put_cell)
  show "mbc3_cell (mbc3_write_ram a v c) b = mbc3_cell c b" for a v c b
    by (cases "mbc3_select c"; cases "mbc3_ram_rtc_enabled c")
      (auto simp: mbc3_cell_def, auto simp: mbc3_write_ram_def)
qed

end
