(* ===== verification/Cart_Mbc5.thy ===== *)
theory Cart_Mbc5
  imports Cart_Mapper
begin

text \<open>
  MBC5 (\<open>mbc5.rs\<close>): a nine-bit ROM bank whose zero is bank zero, a RAM bank register whose
  bit 3 drives the rumble motor on the boards that have one, and a ROM layout that a permissive
  load may derive from the image instead of the header (\<open>CartridgeRomLayout\<close>).
\<close>

datatype cartridge_rom_layout_source = DeclaredExact | PermissiveRoundedActual

record cartridge_rom_layout =
  lay_declared_bytes :: "nat option"
  lay_actual_bytes :: nat
  lay_effective_bytes :: nat
  lay_effective_bank_count :: nat
  lay_source :: cartridge_rom_layout_source

definition layout_declared_exact :: "nat \<Rightarrow> nat \<Rightarrow> cartridge_rom_layout" where
  "layout_declared_exact declared actual =
     \<lparr>lay_declared_bytes = Some declared, lay_actual_bytes = actual, lay_effective_bytes = declared,
      lay_effective_bank_count = declared div ROM_BANK_BYTES, lay_source = DeclaredExact\<rparr>"

text \<open>\<open>usize::div_ceil\<close>.\<close>

definition div_ceil :: "nat \<Rightarrow> nat \<Rightarrow> nat" where
  "div_ceil a b = (a + b - 1) div b"

definition layout_loaded_image :: "cartridge_header \<Rightarrow> nat \<Rightarrow> cartridge_rom_layout" where
  "layout_loaded_image hdr actual =
     (let exact = (rom_decoded_bytes (hdr_rom_size hdr) = Some actual);
          rounded = max (div_ceil actual ROM_BANK_BYTES) (NO_MBC_SUPPORTED_ROM_BYTES div ROM_BANK_BYTES)
      in \<lparr>lay_declared_bytes = rom_decoded_bytes (hdr_rom_size hdr), lay_actual_bytes = actual,
          lay_effective_bytes =
            (if exact then (case rom_decoded_bytes (hdr_rom_size hdr) of Some n \<Rightarrow> n | None \<Rightarrow> actual)
             else actual),
          lay_effective_bank_count =
            (if exact then (case rom_bank_count (hdr_rom_size hdr) of Some n \<Rightarrow> n | None \<Rightarrow> rounded)
             else rounded),
          lay_source = (if exact then DeclaredExact else PermissiveRoundedActual)\<rparr>)"

datatype mbc5_variant =
    Mbc5NoRam | Mbc5WithRam | Mbc5RamBattery | Mbc5Rumble | Mbc5RumbleRam | Mbc5RumbleRamBattery

definition mbc5_variant_has_ram :: "mbc5_variant \<Rightarrow> bool" where
  "mbc5_variant_has_ram v =
     (v \<in> {Mbc5WithRam, Mbc5RamBattery, Mbc5RumbleRam, Mbc5RumbleRamBattery})"

definition mbc5_variant_has_battery :: "mbc5_variant \<Rightarrow> bool" where
  "mbc5_variant_has_battery v = (v \<in> {Mbc5RamBattery, Mbc5RumbleRamBattery})"

definition mbc5_variant_has_rumble :: "mbc5_variant \<Rightarrow> bool" where
  "mbc5_variant_has_rumble v = (v \<in> {Mbc5Rumble, Mbc5RumbleRam, Mbc5RumbleRamBattery})"

record mbc5_validation_layout =
  lay5_variant :: mbc5_variant
  lay5_rom_layout :: cartridge_rom_layout
  lay5_ram_len :: nat

record mbc5_cartridge = ram_board +
  mbc5_has_rumble :: bool
  mbc5_variant_of :: mbc5_variant
  mbc5_rom_layout :: cartridge_rom_layout
  mbc5_ram_enabled :: bool
  mbc5_rom_bank_low8 :: u8
  mbc5_rom_bank_high1 :: u8
  mbc5_ram_bank_raw :: u8
  mbc5_rumble_flag :: bool

definition mbc5_effective_rom_bank :: "nat \<Rightarrow> mbc5_cartridge \<Rightarrow> nat" where
  "mbc5_effective_rom_bank bank_count c =
     (if bank_count = 0 then 0
      else (push_bit 8 (unat (mbc5_rom_bank_high1 c)) OR unat (mbc5_rom_bank_low8 c)) mod bank_count)"

definition mbc5_effective_ram_bank :: "mbc5_cartridge \<Rightarrow> u8" where
  "mbc5_effective_ram_bank c =
     (let bank_count = max (case ram_bank_count (hdr_ram_size (cart_header c)) of Some n \<Rightarrow> n | None \<Rightarrow> 0) 1
      in of_nat (unat (mbc5_ram_bank_raw c) mod bank_count))"

definition mbc5_effective_ram_offset :: "u16 \<Rightarrow> mbc5_cartridge \<Rightarrow> nat" where
  "mbc5_effective_ram_offset address c =
     unat (mbc5_effective_ram_bank c) * 0x2000 + ram_base_offset address"

definition mbc5_describe :: "u16 \<Rightarrow> mbc5_cartridge \<Rightarrow> cartridge_external_access_info" where
  "mbc5_describe address c =
     storage_access address (BankedRam (mbc5_effective_ram_bank c))
       (mbc5_ram_enabled c \<and> cart_ram c \<noteq> None)
       (if mbc5_ram_enabled c then Absent else Disabled)"

definition mbc5_read_rom :: "mbc5_cartridge \<Rightarrow> u16 \<Rightarrow> u8" where
  "mbc5_read_rom c address =
     rom_get (cart_rom c)
       (banked_rom_index 0
          (mbc5_effective_rom_bank (lay_effective_bank_count (mbc5_rom_layout c)) c) address)"

definition mbc5_mapped_rom_window ::
    "mbc5_cartridge \<Rightarrow> u16 \<Rightarrow> cartridge_mapped_rom_window option" where
  "mbc5_mapped_rom_window c address =
     banked_rom_window 0 (mbc5_effective_rom_bank (header_rom_banks c) c) address"

definition mbc5_write_rom :: "u16 \<Rightarrow> u8 \<Rightarrow> mbc5_cartridge \<Rightarrow> mbc5_cartridge" where
  "mbc5_write_rom address v c =
     (if address \<le> 0x1FFF then c\<lparr>mbc5_ram_enabled := (v AND 0x0F = 0x0A)\<rparr>
      else if address \<le> 0x2FFF then c\<lparr>mbc5_rom_bank_low8 := v\<rparr>
      else if address \<le> 0x3FFF then c\<lparr>mbc5_rom_bank_high1 := v AND 0x01\<rparr>
      else if address \<le> 0x5FFF then
        (if mbc5_has_rumble c
         then c\<lparr>mbc5_rumble_flag := (v AND 0x08 \<noteq> 0), mbc5_ram_bank_raw := v AND 0x07\<rparr>
         else c\<lparr>mbc5_ram_bank_raw := v AND 0x0F\<rparr>)
      else c)"

definition mbc5_read_ram :: "mbc5_cartridge \<Rightarrow> u16 \<Rightarrow> u8" where
  "mbc5_read_ram c address =
     (if \<not> mbc5_ram_enabled c then RAM_ABSENT_READ_VALUE
      else ram_get (cart_ram c) (mbc5_effective_ram_offset address c))"

definition mbc5_write_ram :: "u16 \<Rightarrow> u8 \<Rightarrow> mbc5_cartridge \<Rightarrow> mbc5_cartridge" where
  "mbc5_write_ram address v c =
     (if \<not> mbc5_ram_enabled c then c
      else c\<lparr>cart_ram := ram_put (cart_ram c) (mbc5_effective_ram_offset address c) v\<rparr>)"

definition mbc5_rumble_on :: "mbc5_cartridge \<Rightarrow> bool" where
  "mbc5_rumble_on c = (mbc5_has_rumble c \<and> mbc5_rumble_flag c)"

definition mbc5_persistence_metadata :: "mbc5_cartridge \<Rightarrow> cartridge_persistence_metadata" where
  "mbc5_persistence_metadata c = linear_ram_metadata c"

definition mbc5_persistent_state :: "mbc5_cartridge \<Rightarrow> persistent_cart_state" where
  "mbc5_persistent_state c = linear_ram_state Mbc5Ram c"

definition mbc5_payload :: "persistent_cart_state \<Rightarrow> u8 list option" where
  "mbc5_payload s = (case s of Mbc5Ram ram \<Rightarrow> Some ram | _ \<Rightarrow> None)"

definition mbc5_restore ::
    "persistent_cart_state \<Rightarrow> mbc5_cartridge \<Rightarrow> persistent_state_error + mbc5_cartridge" where
  "mbc5_restore s c = restore_linear_ram ''Mbc5Ram'' (mbc5_payload s) s c"

subsection \<open>Laws\<close>

text \<open>
  The image has the banks of its layout; in an exact layout the header names as many.
\<close>

definition mbc5_layout_wf :: "mbc5_cartridge \<Rightarrow> bool" where
  "mbc5_layout_wf c =
     (0 < lay_effective_bank_count (mbc5_rom_layout c)
      \<and> length (cart_rom c) = lay_effective_bank_count (mbc5_rom_layout c) * 0x4000)"

definition mbc5_exact :: "mbc5_cartridge \<Rightarrow> bool" where
  "mbc5_exact c = (mbc5_layout_wf c \<and> header_rom_banks c = lay_effective_bank_count (mbc5_rom_layout c))"

lemma mbc5_bank_less: "0 < n \<Longrightarrow> mbc5_effective_rom_bank n c < n"
  by (simp add: mbc5_effective_rom_bank_def)

text \<open>Every layout, permissive ones included, keeps the reads inside the image.\<close>

lemma mbc5_reads_inside:
  assumes "mbc5_layout_wf c" and "a < 0x8000"
  shows "banked_rom_index 0 (mbc5_effective_rom_bank (lay_effective_bank_count (mbc5_rom_layout c)) c) a
    < length (cart_rom c)"
  using assms banked_rom_index_less [OF assms(2)] mbc5_bank_less
  by (simp add: mbc5_layout_wf_def)

lemma mbc5_write_fields [simp]:
  "cart_rom (mbc5_write_rom a v c) = cart_rom c" "cart_rom (mbc5_write_ram a v c) = cart_rom c"
  "cart_header (mbc5_write_rom a v c) = cart_header c" "cart_header (mbc5_write_ram a v c) = cart_header c"
  "mbc5_rom_layout (mbc5_write_rom a v c) = mbc5_rom_layout c"
  "mbc5_rom_layout (mbc5_write_ram a v c) = mbc5_rom_layout c"
  "cart_ram (mbc5_write_rom a v c) = cart_ram c"
  "cart_has_battery (mbc5_write_rom a v c) = cart_has_battery c"
  "cart_has_battery (mbc5_write_ram a v c) = cart_has_battery c"
  "map_option length (cart_ram (mbc5_write_ram a v c)) = map_option length (cart_ram c)"
  by (simp_all add: mbc5_write_rom_def mbc5_write_ram_def)

interpretation mbc5_ram: linear_payload Mbc5Ram mbc5_payload
  by unfold_locales (auto simp: mbc5_payload_def split: persistent_cart_state.splits)

interpretation mbc5: banked_mapper mbc5_read_rom mbc5_mapped_rom_window mbc5_write_rom
  mbc5_write_ram mbc5_persistent_state mbc5_restore cart_rom ram_board_key "\<lambda>_. True" mbc5_exact
proof unfold_locales
  show "\<exists>w. mbc5_mapped_rom_window c a = Some w \<and> win_bank_offset w < win_bank_size w
      \<and> mbc5_read_rom c a = rom_get (cart_rom c) (window_index w)"
    if "mbc5_exact c" and "a < 0x8000" for a c
    using banked_window_reads [OF that(2)] that(1)
    by (simp add: mbc5_mapped_rom_window_def mbc5_read_rom_def mbc5_exact_def)
next
  fix c c' s assume "mbc5_exact c" and "mbc5_restore s c = Inr c'"
  then show "mbc5_exact c' \<and> ram_board_key c' = ram_board_key c \<and> cart_rom c' = cart_rom c
      \<and> mbc5_persistent_state c' = s"
    by (auto simp: mbc5_restore_def mbc5_persistent_state_def ram_board_key_def mbc5_exact_def
        mbc5_layout_wf_def header_rom_banks_def dest!: mbc5_ram.restored)
next
  show "window_index w < length (cart_rom c)"
    if "mbc5_exact c" and "mbc5_mapped_rom_window c a = Some w" for c a w
    using that mbc5_bank_less [of "header_rom_banks c" c] banked_window_inside [of 0 _ a w]
    by (auto simp: mbc5_mapped_rom_window_def mbc5_exact_def mbc5_layout_wf_def)
next
  show "True \<and> (\<exists>d'. mbc5_restore (mbc5_persistent_state c) d = Inr d')"
    if "ram_board_key c = ram_board_key d" for c d
    using mbc5_ram.captured [OF that] by (simp add: mbc5_restore_def mbc5_persistent_state_def)
qed (simp_all add: mbc5_mapped_rom_window_def banked_rom_window_none mbc5_exact_def mbc5_layout_wf_def
    header_rom_banks_def ram_board_key_def linear_ram_state_def mbc5_persistent_state_def)

definition mbc5_cell :: "mbc5_cartridge \<Rightarrow> u16 \<Rightarrow> nat option" where
  "mbc5_cell c address =
     linear_cell (mbc5_ram_enabled c) (cart_ram c) (mbc5_effective_ram_offset address c)"

lemma mbc5_offset_write [simp]:
  "mbc5_effective_ram_offset b (c\<lparr>cart_ram := ram\<rparr>) = mbc5_effective_ram_offset b c"
  by (simp add: mbc5_effective_ram_offset_def mbc5_effective_ram_bank_def)

interpretation mbc5_memory: external_ram mbc5_read_ram mbc5_write_ram mbc5_cell "\<lambda>v. v"
  by unfold_locales
    (auto simp: mbc5_read_ram_def mbc5_write_ram_def mbc5_cell_def ram_get_put_cell)

end
