(* ===== verification/Cart_Samples.thy ===== *)
theory Cart_Samples
  imports Cart_Mapper
begin

text \<open>A small header and classification, for the concrete instances of the properties.\<close>

definition sample_header :: "nat \<Rightarrow> cartridge_header" where
  "sample_header banks =
     \<lparr>hdr_entry_point = [0x00, 0xC3, 0x50, 0x01], hdr_nintendo_logo = replicate 48 0,
      hdr_title_bytes = replicate 16 0, hdr_raw_title_suffix = [], hdr_title = [],
      hdr_cgb_flag = CgbNone, hdr_sgb_flag = SgbNone, hdr_cartridge_type = 0,
      hdr_rom_size = \<lparr>rom_raw_code = 0, rom_decoded_bytes = Some (banks * 0x4000), rom_bank_count = Some banks\<rparr>,
      hdr_ram_size = \<lparr>ram_raw_code = 0, ram_decoded_bytes = Some 0, ram_bank_count = Some 0\<rparr>,
      hdr_new_licensee_code = [], hdr_destination_code = 0, hdr_old_licensee_code = 0,
      hdr_header_checksum = 0\<rparr>"

definition sample_classification :: cartridge_classification where
  "sample_classification =
     \<lparr>cls_raw_type = 0, cls_detected_name = ''sample'', cls_selection = SelectSupported FamilyNoMbc,
      cls_reason = ''''\<rparr>"

lemma sample_header_sizes [simp]:
  "rom_bank_count (hdr_rom_size (sample_header n)) = Some n"
  "rom_decoded_bytes (hdr_rom_size (sample_header n)) = Some (n * 0x4000)"
  by (simp_all add: sample_header_def)

end
