(* ===== verification/Cart_Mbc6.thy ===== *)
theory Cart_Mbc6
  imports Cart_Samples
begin

text \<open>
  MBC6 (\<open>mbc6.rs\<close>): two 8 KiB windows that each show ROM or a flash chip, two 4 KiB windows of
  RAM, and the flash chip itself: unlock sequences, erasing, a program buffer of 128 bytes, a
  hidden region and the protection of sector 0. An index or slice out of range is a panic.
\<close>

definition MBC6_SUPPORTED_ROM_BYTES :: nat where "MBC6_SUPPORTED_ROM_BYTES = 1024 * 1024"
definition MBC6_SUPPORTED_RAM_BYTES :: nat where "MBC6_SUPPORTED_RAM_BYTES = 32 * 1024"
definition MBC6_ROM_FLASH_BANK_BYTES :: nat where "MBC6_ROM_FLASH_BANK_BYTES = 8 * 1024"
definition MBC6_RAM_BANK_BYTES :: nat where "MBC6_RAM_BANK_BYTES = 4 * 1024"
definition MBC6_FLASH_BYTES :: nat where "MBC6_FLASH_BYTES = 1024 * 1024"
definition MBC6_HIDDEN_BYTES :: nat where "MBC6_HIDDEN_BYTES = 256"
definition MBC6_FLASH_SECTOR_BYTES :: nat where "MBC6_FLASH_SECTOR_BYTES = 128 * 1024"
definition MBC6_FLASH_PROGRAM_BLOCK_BYTES :: nat where "MBC6_FLASH_PROGRAM_BLOCK_BYTES = 128"
definition MBC6_FLASH_MANUFACTURER_ID :: u8 where "MBC6_FLASH_MANUFACTURER_ID = 0xC2"
definition MBC6_FLASH_DEVICE_ID :: u8 where "MBC6_FLASH_DEVICE_ID = 0x81"
definition MBC6_FLASH_STATUS_DONE :: u8 where "MBC6_FLASH_STATUS_DONE = 0x80"
definition MBC6_FLASH_STATUS_SECTOR0_PROTECTED :: u8 where "MBC6_FLASH_STATUS_SECTOR0_PROTECTED = 0x02"
definition MBC6_FLASH_UNLOCK_AA_OFFSET :: nat where "MBC6_FLASH_UNLOCK_AA_OFFSET = 0x5555"
definition MBC6_FLASH_UNLOCK_55_OFFSET :: nat where "MBC6_FLASH_UNLOCK_55_OFFSET = 0x2AAA"
definition MBC6_FLASH_BANK_COUNT :: nat where
  "MBC6_FLASH_BANK_COUNT = MBC6_FLASH_BYTES div MBC6_ROM_FLASH_BANK_BYTES"
definition MBC6_RAM_BANK_COUNT :: nat where
  "MBC6_RAM_BANK_COUNT = MBC6_SUPPORTED_RAM_BYTES div MBC6_RAM_BANK_BYTES"

lemmas mbc6_constants [size_defs] =
  MBC6_SUPPORTED_ROM_BYTES_def MBC6_SUPPORTED_RAM_BYTES_def MBC6_ROM_FLASH_BANK_BYTES_def
  MBC6_RAM_BANK_BYTES_def MBC6_FLASH_BYTES_def MBC6_HIDDEN_BYTES_def MBC6_FLASH_SECTOR_BYTES_def
  MBC6_FLASH_PROGRAM_BLOCK_BYTES_def MBC6_FLASH_BANK_COUNT_def MBC6_RAM_BANK_COUNT_def

subsection \<open>State\<close>

datatype mbc6_window_select = SelectRom | SelectFlash

datatype mbc6_program_target = MainFlash | HiddenRegion

record mbc6_program_state =
  prog_target :: mbc6_program_target
  prog_block_base :: "nat option"
  prog_buffer :: "u8 list"
  prog_written :: "bool list"
  prog_final_byte_seen :: bool

datatype mbc6_flash_status_source =
    StatusProgram | StatusErase | StatusProtect | StatusIgnoredWriteProtected

datatype mbc6_flash_mode =
    ReadArray
  | AwaitUnlock2
  | AwaitCommand
  | EraseAwaitUnlock1
  | EraseAwaitUnlock2
  | EraseAwaitCommand
  | ExtendedAwaitUnlock1
  | ExtendedAwaitUnlock2
  | ExtendedAwaitCommand
  | HiddenReadAwaitUnlock1
  | HiddenReadAwaitUnlock2
  | HiddenReadAwaitCommand
  | IdMode
  | HiddenReadMode
  | ProgramMode mbc6_program_state
  | HiddenProgramMode mbc6_program_state
  | StatusMode mbc6_flash_status_source u8

record mbc6_cartridge = cart_board +
  mbc6_ram :: "u8 list"
  mbc6_flash :: "u8 list"
  mbc6_hidden_region :: "u8 list"
  mbc6_has_battery :: bool
  mbc6_ram_enabled :: bool
  mbc6_flash_enabled :: bool
  mbc6_flash_write_enabled :: bool
  mbc6_ram_bank_a :: u8
  mbc6_ram_bank_b :: u8
  mbc6_rom_flash_bank_a :: u8
  mbc6_rom_flash_bank_b :: u8
  mbc6_window_select_a :: mbc6_window_select
  mbc6_window_select_b :: mbc6_window_select
  mbc6_sector0_protected :: bool
  mbc6_flash_mode :: mbc6_flash_mode

definition program_state_new :: "mbc6_program_target \<Rightarrow> mbc6_program_state" where
  "program_state_new target =
     \<lparr>prog_target = target, prog_block_base = None,
      prog_buffer = replicate MBC6_FLASH_PROGRAM_BLOCK_BYTES 0xFF,
      prog_written = replicate MBC6_FLASH_PROGRAM_BLOCK_BYTES False, prog_final_byte_seen = False\<rparr>"

definition mbc6_mode :: "mbc6_flash_mode \<Rightarrow> mbc6_cartridge \<Rightarrow> mbc6_cartridge" where
  "mbc6_mode mode c = c\<lparr>mbc6_flash_mode := mode\<rparr>"

text \<open>\<open>a % b\<close>, \<open>xs[a..b]\<close>, \<open>xs[a..b].fill(v)\<close> and \<open>dst.copy_from_slice(src)\<close>.\<close>

definition usize_rem :: "nat \<Rightarrow> nat \<Rightarrow> nat res" where
  "usize_rem a b = (if b = 0 then Inl ExplicitPanic else Inr (a mod b))"

definition slice_range :: "'a list \<Rightarrow> nat \<Rightarrow> nat \<Rightarrow> 'a list res" where
  "slice_range xs a b =
     (if a \<le> b \<and> b \<le> length xs then Inr (take (b - a) (drop a xs)) else Inl IndexOutOfBounds)"

definition fill_range :: "'a list \<Rightarrow> nat \<Rightarrow> nat \<Rightarrow> 'a \<Rightarrow> 'a list res" where
  "fill_range xs a b v =
     (if a \<le> b \<and> b \<le> length xs then Inr (take a xs @ replicate (b - a) v @ drop b xs)
      else Inl IndexOutOfBounds)"

definition copy_from_slice :: "'a list \<Rightarrow> 'a list \<Rightarrow> 'a list res" where
  "copy_from_slice dst src = (if length dst = length src then Inr src else Inl ExplicitPanic)"

subsection \<open>Windows\<close>

definition mbc6_selected :: "mbc6_window \<Rightarrow> mbc6_cartridge \<Rightarrow> mbc6_window_select" where
  "mbc6_selected window c =
     (case window of Mbc6WindowA \<Rightarrow> mbc6_window_select_a c | Mbc6WindowB \<Rightarrow> mbc6_window_select_b c)"

definition mbc6_rom_flash_bank_count :: "mbc6_cartridge \<Rightarrow> nat" where
  "mbc6_rom_flash_bank_count c = max (length (cart_rom c) div MBC6_ROM_FLASH_BANK_BYTES) 1"

definition mbc6_effective_rom_flash_bank :: "mbc6_window \<Rightarrow> nat \<Rightarrow> mbc6_cartridge \<Rightarrow> nat" where
  "mbc6_effective_rom_flash_bank window bank_count c =
     (if bank_count = 0 then 0
      else unat (case window of Mbc6WindowA \<Rightarrow> mbc6_rom_flash_bank_a c
                              | Mbc6WindowB \<Rightarrow> mbc6_rom_flash_bank_b c) mod bank_count)"

definition mbc6_flash_offset :: "mbc6_window \<Rightarrow> nat \<Rightarrow> mbc6_cartridge \<Rightarrow> nat" where
  "mbc6_flash_offset window window_offset c =
     mbc6_effective_rom_flash_bank window MBC6_FLASH_BANK_COUNT c * MBC6_ROM_FLASH_BANK_BYTES + window_offset"

definition mbc6_effective_ram_bank :: "mbc6_window \<Rightarrow> mbc6_cartridge \<Rightarrow> u8" where
  "mbc6_effective_ram_bank window c =
     (case window of Mbc6WindowA \<Rightarrow> mbc6_ram_bank_a c | Mbc6WindowB \<Rightarrow> mbc6_ram_bank_b c)
     mod of_nat MBC6_RAM_BANK_COUNT"

definition mbc6_effective_ram_offset :: "u16 \<Rightarrow> mbc6_cartridge \<Rightarrow> nat" where
  "mbc6_effective_ram_offset address c =
     (if address < 0xB000
      then unat (mbc6_effective_ram_bank Mbc6WindowA c) * MBC6_RAM_BANK_BYTES + unat (address - 0xA000)
      else unat (mbc6_effective_ram_bank Mbc6WindowB c) * MBC6_RAM_BANK_BYTES + unat (address - 0xB000))"

definition mbc6_describe :: "u16 \<Rightarrow> mbc6_cartridge \<Rightarrow> cartridge_external_access_info" where
  "mbc6_describe address c =
     (let window = (if address < 0xB000 then Mbc6WindowA else Mbc6WindowB)
      in storage_access address (Mbc6RamTarget window (mbc6_effective_ram_bank window c))
           (mbc6_ram_enabled c) Disabled)"

subsection \<open>The flash chip\<close>

definition is_unlock_aa :: "nat \<Rightarrow> u8 \<Rightarrow> bool" where
  "is_unlock_aa offset v = (offset = MBC6_FLASH_UNLOCK_AA_OFFSET \<and> v = 0xAA)"

definition is_unlock_55 :: "nat \<Rightarrow> u8 \<Rightarrow> bool" where
  "is_unlock_55 offset v = (offset = MBC6_FLASH_UNLOCK_55_OFFSET \<and> v = 0x55)"

definition restart_or_idle :: "nat \<Rightarrow> u8 \<Rightarrow> mbc6_flash_mode" where
  "restart_or_idle offset v = (if is_unlock_aa offset v then AwaitUnlock2 else ReadArray)"

definition status_mode :: "mbc6_flash_status_source \<Rightarrow> mbc6_cartridge \<Rightarrow> mbc6_flash_mode" where
  "status_mode source c =
     StatusMode source
       (MBC6_FLASH_STATUS_DONE
        OR (if mbc6_sector0_protected c then MBC6_FLASH_STATUS_SECTOR0_PROTECTED else 0))"

definition read_flash :: "nat \<Rightarrow> mbc6_cartridge \<Rightarrow> u8 res" where
  "read_flash offset c =
     (case mbc6_flash_mode c of
        IdMode \<Rightarrow>
          Inr (let selector = offset AND 0x000F
               in if selector = 0 then MBC6_FLASH_MANUFACTURER_ID
                  else if selector = 1 then MBC6_FLASH_DEVICE_ID
                  else RAM_ABSENT_READ_VALUE)
      | HiddenReadMode \<Rightarrow> index_get (mbc6_hidden_region c) (offset AND (MBC6_HIDDEN_BYTES - 1))
      | StatusMode _ status \<Rightarrow> Inr status
      | _ \<Rightarrow>
          res_bind (usize_rem offset (length (mbc6_flash c))) (\<lambda>i. index_get (mbc6_flash c) i))"

definition sector0_locked :: "mbc6_cartridge \<Rightarrow> bool" where
  "sector0_locked c = (\<not> mbc6_flash_write_enabled c \<or> mbc6_sector0_protected c)"

definition erase_sector_index :: "nat \<Rightarrow> mbc6_cartridge \<Rightarrow> mbc6_cartridge res" where
  "erase_sector_index sector c =
     res_map (\<lambda>flash. c\<lparr>mbc6_flash := flash\<rparr>)
       (fill_range (mbc6_flash c) (sector * MBC6_FLASH_SECTOR_BYTES)
          (sector * MBC6_FLASH_SECTOR_BYTES + MBC6_FLASH_SECTOR_BYTES) 0xFF)"

definition erase_unlocked_sector :: "nat \<Rightarrow> mbc6_cartridge \<Rightarrow> mbc6_cartridge res" where
  "erase_unlocked_sector sector c =
     (if sector = 0 \<and> sector0_locked c then Inr c else erase_sector_index sector c)"

primrec erase_sectors :: "nat list \<Rightarrow> mbc6_cartridge \<Rightarrow> mbc6_cartridge res" where
  "erase_sectors [] c = Inr c"
| "erase_sectors (s # ss) c = res_bind (erase_unlocked_sector s c) (erase_sectors ss)"

definition erase_chip :: "mbc6_cartridge \<Rightarrow> mbc6_cartridge res" where
  "erase_chip c = erase_sectors [0..<MBC6_FLASH_BYTES div MBC6_FLASH_SECTOR_BYTES] c"

definition erase_sector :: "nat \<Rightarrow> mbc6_cartridge \<Rightarrow> mbc6_cartridge res" where
  "erase_sector offset c =
     erase_unlocked_sector
       ((offset div MBC6_FLASH_SECTOR_BYTES) mod (MBC6_FLASH_BYTES div MBC6_FLASH_SECTOR_BYTES)) c"

text \<open>\<open>x & !(128 - 1)\<close> clears the low seven bits.\<close>

definition program_block_base :: "mbc6_program_target \<Rightarrow> nat \<Rightarrow> mbc6_cartridge \<Rightarrow> nat res" where
  "program_block_base target offset c =
     (case target of
        MainFlash \<Rightarrow>
          res_map (\<lambda>o'. o' - o' mod MBC6_FLASH_PROGRAM_BLOCK_BYTES) (usize_rem offset (length (mbc6_flash c)))
      | HiddenRegion \<Rightarrow>
          (let o' = offset AND (MBC6_HIDDEN_BYTES - 1)
           in Inr (o' - o' mod MBC6_FLASH_PROGRAM_BLOCK_BYTES)))"

definition program_byte_offset :: "mbc6_program_target \<Rightarrow> nat \<Rightarrow> nat" where
  "program_byte_offset target offset = offset AND (MBC6_FLASH_PROGRAM_BLOCK_BYTES - 1)"

definition seed_program_buffer ::
    "nat \<Rightarrow> mbc6_cartridge \<Rightarrow> mbc6_program_state \<Rightarrow> mbc6_program_state res" where
  "seed_program_buffer block_base c s =
     (let source = (case prog_target s of MainFlash \<Rightarrow> mbc6_flash c | HiddenRegion \<Rightarrow> mbc6_hidden_region c)
      in res_bind (slice_range source block_base (block_base + MBC6_FLASH_PROGRAM_BLOCK_BYTES)) (\<lambda>block.
         res_map (\<lambda>buffer. s\<lparr>prog_buffer := buffer\<rparr>) (copy_from_slice (prog_buffer s) block)))"

text \<open>The loop that programs a block: only bits that are still set can be cleared.\<close>

primrec program_cells ::
    "nat list \<Rightarrow> nat \<Rightarrow> mbc6_program_state \<Rightarrow> u8 list \<Rightarrow> u8 list res" where
  "program_cells [] base s cells = Inr cells"
| "program_cells (i # is) base s cells =
     res_bind (index_get (prog_written s) i) (\<lambda>written.
       res_bind
         (if written then
            res_bind (index_get (prog_buffer s) i) (\<lambda>v.
            res_bind (index_get cells (base + i)) (\<lambda>old. index_set cells (base + i) (old AND v)))
          else Inr cells)
         (program_cells is base s))"

definition commit_program_buffer ::
    "mbc6_program_state \<Rightarrow> nat \<Rightarrow> mbc6_cartridge \<Rightarrow> mbc6_cartridge res" where
  "commit_program_buffer s block_base c =
     (case prog_target s of
        MainFlash \<Rightarrow>
          if block_base < MBC6_FLASH_SECTOR_BYTES \<and> sector0_locked c then Inr c
          else res_map (\<lambda>cells. c\<lparr>mbc6_flash := cells\<rparr>)
                 (program_cells [0..<MBC6_FLASH_PROGRAM_BLOCK_BYTES] block_base s (mbc6_flash c))
      | HiddenRegion \<Rightarrow>
          if \<not> mbc6_flash_write_enabled c then Inr c
          else res_map (\<lambda>cells. c\<lparr>mbc6_hidden_region := cells\<rparr>)
                 (program_cells [0..<MBC6_FLASH_PROGRAM_BLOCK_BYTES] block_base s (mbc6_hidden_region c)))"

definition list_put :: "'a list \<Rightarrow> nat \<Rightarrow> 'a \<Rightarrow> 'a list" where
  "list_put xs i v = (if i < length xs then xs[i := v] else xs)"

definition program_write ::
    "mbc6_program_state \<Rightarrow> nat \<Rightarrow> u8 \<Rightarrow> mbc6_cartridge \<Rightarrow> (bool \<times> mbc6_program_state \<times> mbc6_cartridge) res" where
  "program_write s offset v c =
     res_bind (program_block_base (prog_target s) offset c) (\<lambda>block_base.
     res_bind
       (if prog_block_base s \<noteq> Some block_base then
          seed_program_buffer block_base c
            (s\<lparr>prog_block_base := Some block_base, prog_final_byte_seen := False,
               prog_written := replicate (length (prog_written s)) False\<rparr>)
        else Inr s) (\<lambda>s1.
     let byte_offset = program_byte_offset (prog_target s1) offset;
         s2 = s1\<lparr>prog_buffer := list_put (prog_buffer s1) byte_offset v,
                 prog_written := list_put (prog_written s1) byte_offset True\<rparr>
     in if byte_offset \<noteq> MBC6_FLASH_PROGRAM_BLOCK_BYTES - 1 then Inr (False, s2, c)
        else if prog_final_byte_seen s2 then
          res_map (\<lambda>c'. (True, s2, c')) (commit_program_buffer s2 block_base c)
        else Inr (False, s2\<lparr>prog_final_byte_seen := True\<rparr>, c)))"

definition execute_primary_command :: "nat \<Rightarrow> u8 \<Rightarrow> mbc6_flash_mode" where
  "execute_primary_command offset v =
     (if v = 0x80 then EraseAwaitUnlock1
      else if v = 0x90 then IdMode
      else if v = 0xA0 then ProgramMode (program_state_new MainFlash)
      else if v = 0x60 then ExtendedAwaitUnlock1
      else if v = 0x77 then HiddenReadAwaitUnlock1
      else restart_or_idle offset v)"

definition execute_erase_command :: "nat \<Rightarrow> u8 \<Rightarrow> mbc6_cartridge \<Rightarrow> mbc6_cartridge res" where
  "execute_erase_command offset v c =
     (if v = 0x10 \<and> offset = MBC6_FLASH_UNLOCK_AA_OFFSET then
        res_map (\<lambda>c'. mbc6_mode (status_mode StatusErase c') c') (erase_chip c)
      else if v = 0x30 then
        res_map (\<lambda>c'. mbc6_mode (status_mode StatusErase c') c') (erase_sector offset c)
      else Inr (mbc6_mode (restart_or_idle offset v) c))"

definition set_sector0_protected :: "bool \<Rightarrow> mbc6_cartridge \<Rightarrow> mbc6_cartridge" where
  "set_sector0_protected b c =
     (let c' = c\<lparr>mbc6_sector0_protected := b\<rparr> in mbc6_mode (status_mode StatusProtect c') c')"

definition execute_flash_extended_command :: "u8 \<Rightarrow> mbc6_cartridge \<Rightarrow> mbc6_cartridge" where
  "execute_flash_extended_command v c =
     (let ignored = mbc6_mode (status_mode StatusIgnoredWriteProtected c) c
      in if v = 0x04 then
           (if mbc6_flash_write_enabled c
            then mbc6_mode (status_mode StatusErase c)
                   (c\<lparr>mbc6_hidden_region := replicate (length (mbc6_hidden_region c)) 0xFF\<rparr>)
            else ignored)
         else if v = 0xE0 then
           (if mbc6_flash_write_enabled c
            then mbc6_mode (HiddenProgramMode (program_state_new HiddenRegion)) c else ignored)
         else if v = 0x40 then (if mbc6_flash_write_enabled c then set_sector0_protected False c else ignored)
         else if v = 0x20 then (if mbc6_flash_write_enabled c then set_sector0_protected True c else ignored)
         else mbc6_mode ReadArray c)"

text \<open>A step of an unlock sequence.\<close>

definition unlock_step ::
    "bool \<Rightarrow> mbc6_flash_mode \<Rightarrow> nat \<Rightarrow> u8 \<Rightarrow> mbc6_cartridge \<Rightarrow> mbc6_cartridge res" where
  "unlock_step matches next_mode offset v c =
     Inr (mbc6_mode (if matches then next_mode else restart_or_idle offset v) c)"

definition program_step ::
    "(mbc6_program_state \<Rightarrow> mbc6_flash_mode) \<Rightarrow> mbc6_program_state \<Rightarrow> nat \<Rightarrow> u8 \<Rightarrow> mbc6_cartridge
     \<Rightarrow> mbc6_cartridge res" where
  "program_step mode s offset v c =
     res_map (\<lambda>(done, s', c').
        mbc6_mode (if done then status_mode StatusProgram c' else mode s') c')
       (program_write s offset v c)"

definition write_flash :: "nat \<Rightarrow> u8 \<Rightarrow> mbc6_cartridge \<Rightarrow> mbc6_cartridge res" where
  "write_flash offset v c0 =
     (let c = mbc6_mode ReadArray c0
      in if v = 0xF0 then Inr c
         else case mbc6_flash_mode c0 of
             AwaitUnlock2 \<Rightarrow> unlock_step (is_unlock_55 offset v) AwaitCommand offset v c
           | AwaitCommand \<Rightarrow> Inr (mbc6_mode (execute_primary_command offset v) c)
           | EraseAwaitUnlock1 \<Rightarrow> unlock_step (is_unlock_aa offset v) EraseAwaitUnlock2 offset v c
           | EraseAwaitUnlock2 \<Rightarrow> unlock_step (is_unlock_55 offset v) EraseAwaitCommand offset v c
           | EraseAwaitCommand \<Rightarrow> execute_erase_command offset v c
           | ExtendedAwaitUnlock1 \<Rightarrow> unlock_step (is_unlock_aa offset v) ExtendedAwaitUnlock2 offset v c
           | ExtendedAwaitUnlock2 \<Rightarrow> unlock_step (is_unlock_55 offset v) ExtendedAwaitCommand offset v c
           | ExtendedAwaitCommand \<Rightarrow> Inr (execute_flash_extended_command v c)
           | HiddenReadAwaitUnlock1 \<Rightarrow> unlock_step (is_unlock_aa offset v) HiddenReadAwaitUnlock2 offset v c
           | HiddenReadAwaitUnlock2 \<Rightarrow> unlock_step (is_unlock_55 offset v) HiddenReadAwaitCommand offset v c
           | HiddenReadAwaitCommand \<Rightarrow> unlock_step (v = 0x77) HiddenReadMode offset v c
           | ProgramMode s \<Rightarrow> program_step ProgramMode s offset v c
           | HiddenProgramMode s \<Rightarrow> program_step HiddenProgramMode s offset v c
           | _ \<Rightarrow> Inr (mbc6_mode (restart_or_idle offset v) c))"

subsection \<open>The cartridge\<close>

definition write_flash_window :: "mbc6_window \<Rightarrow> u16 \<Rightarrow> u8 \<Rightarrow> mbc6_cartridge \<Rightarrow> mbc6_cartridge res" where
  "write_flash_window window address v c =
     (if \<not> mbc6_flash_enabled c \<or> mbc6_selected window c \<noteq> SelectFlash then Inr c
      else
        (let window_offset = unat (case window of Mbc6WindowA \<Rightarrow> address - 0x4000
                                                | Mbc6WindowB \<Rightarrow> address - 0x6000)
         in write_flash (mbc6_flash_offset window window_offset c) v c))"

definition read_high_window :: "mbc6_window \<Rightarrow> nat \<Rightarrow> mbc6_cartridge \<Rightarrow> u8 res" where
  "read_high_window window window_offset c =
     (case mbc6_selected window c of
        SelectRom \<Rightarrow>
          Inr (rom_get (cart_rom c)
            (mbc6_effective_rom_flash_bank window (mbc6_rom_flash_bank_count c) c
               * MBC6_ROM_FLASH_BANK_BYTES + window_offset))
      | SelectFlash \<Rightarrow>
          if mbc6_flash_enabled c then read_flash (mbc6_flash_offset window window_offset c) c
          else Inr RAM_ABSENT_READ_VALUE)"

definition mapped_high_window :: "mbc6_window \<Rightarrow> nat \<Rightarrow> mbc6_cartridge \<Rightarrow> cartridge_mapped_rom_window" where
  "mapped_high_window window window_offset c =
     (case mbc6_selected window c of
        SelectRom \<Rightarrow>
          rom_window (mbc6_effective_rom_flash_bank window (mbc6_rom_flash_bank_count c) c)
            MBC6_ROM_FLASH_BANK_BYTES window_offset
      | SelectFlash \<Rightarrow>
          flash_window (mbc6_effective_rom_flash_bank window MBC6_FLASH_BANK_COUNT c)
            MBC6_ROM_FLASH_BANK_BYTES window_offset)"

definition mbc6_read_rom :: "u16 \<Rightarrow> mbc6_cartridge \<Rightarrow> u8 res" where
  "mbc6_read_rom address c =
     (if address \<le> 0x3FFF then Inr (rom_get (cart_rom c) (unat address))
      else if address \<le> 0x5FFF then read_high_window Mbc6WindowA (unat address - 0x4000) c
      else if address \<le> 0x7FFF then read_high_window Mbc6WindowB (unat address - 0x6000) c
      else Inr RAM_ABSENT_READ_VALUE)"

definition mbc6_mapped_rom_window ::
    "u16 \<Rightarrow> mbc6_cartridge \<Rightarrow> cartridge_mapped_rom_window option" where
  "mbc6_mapped_rom_window address c =
     (if address \<le> 0x3FFF then Some (rom_window 0 0x4000 (unat address))
      else if address \<le> 0x5FFF then Some (mapped_high_window Mbc6WindowA (unat (address - 0x4000)) c)
      else if address \<le> 0x7FFF then Some (mapped_high_window Mbc6WindowB (unat (address - 0x6000)) c)
      else None)"

definition window_select_from_value :: "u8 \<Rightarrow> mbc6_window_select" where
  "window_select_from_value v = (if v AND 0x08 \<noteq> 0 then SelectFlash else SelectRom)"

definition mbc6_write_rom :: "u16 \<Rightarrow> u8 \<Rightarrow> mbc6_cartridge \<Rightarrow> mbc6_cartridge res" where
  "mbc6_write_rom address v c =
     (if address \<le> 0x03FF then Inr (c\<lparr>mbc6_ram_enabled := (v AND 0x0F = 0x0A)\<rparr>)
      else if address \<le> 0x07FF then Inr (c\<lparr>mbc6_ram_bank_a := v AND 0x07\<rparr>)
      else if address \<le> 0x0BFF then Inr (c\<lparr>mbc6_ram_bank_b := v AND 0x07\<rparr>)
      else if address \<le> 0x0FFF then
        (let c1 = c\<lparr>mbc6_flash_enabled := (v AND 0x01 \<noteq> 0)\<rparr>
         in Inr (if mbc6_flash_enabled c1 then c1 else mbc6_mode ReadArray c1))
      else if address = 0x1000 then Inr (c\<lparr>mbc6_flash_write_enabled := (v AND 0x01 \<noteq> 0)\<rparr>)
      else if address \<le> 0x1FFF then Inr c
      else if address \<le> 0x27FF then Inr (c\<lparr>mbc6_rom_flash_bank_a := v AND 0x7F\<rparr>)
      else if address \<le> 0x2FFF then Inr (c\<lparr>mbc6_window_select_a := window_select_from_value v\<rparr>)
      else if address \<le> 0x37FF then Inr (c\<lparr>mbc6_rom_flash_bank_b := v AND 0x7F\<rparr>)
      else if address \<le> 0x3FFF then Inr (c\<lparr>mbc6_window_select_b := window_select_from_value v\<rparr>)
      else if address \<le> 0x5FFF then write_flash_window Mbc6WindowA address v c
      else if address \<le> 0x7FFF then write_flash_window Mbc6WindowB address v c
      else Inr c)"

definition mbc6_read_ram :: "mbc6_cartridge \<Rightarrow> u16 \<Rightarrow> u8" where
  "mbc6_read_ram c address =
     (if \<not> mbc6_ram_enabled c then RAM_ABSENT_READ_VALUE
      else rom_get (mbc6_ram c) (mbc6_effective_ram_offset address c))"

definition mbc6_write_ram :: "u16 \<Rightarrow> u8 \<Rightarrow> mbc6_cartridge \<Rightarrow> mbc6_cartridge" where
  "mbc6_write_ram address v c =
     (if \<not> mbc6_ram_enabled c then c
      else c\<lparr>mbc6_ram := list_put (mbc6_ram c) (mbc6_effective_ram_offset address c) v\<rparr>)"

definition mbc6_persistence_metadata :: "mbc6_cartridge \<Rightarrow> cartridge_persistence_metadata" where
  "mbc6_persistence_metadata c =
     \<lparr>meta_has_battery = mbc6_has_battery c, meta_has_rtc = False,
      meta_profile = PersistentRamAndFlash (PayloadLinear (length (mbc6_ram c)))
        (length (mbc6_flash c)) (length (mbc6_hidden_region c))\<rparr>"

definition mbc6_persistent_state :: "mbc6_cartridge \<Rightarrow> persistent_cart_state" where
  "mbc6_persistent_state c =
     (if mbc6_has_battery c
      then Mbc6State (mbc6_ram c) (mbc6_flash c) (mbc6_hidden_region c) (mbc6_sector0_protected c)
      else PersistNone)"

definition mbc6_restore ::
    "persistent_cart_state \<Rightarrow> mbc6_cartridge \<Rightarrow> persistent_state_error + mbc6_cartridge" where
  "mbc6_restore s c =
     (if \<not> mbc6_has_battery c then (if s = PersistNone then Inr c else kind_mismatch ''None'' s)
      else case s of
          Mbc6State ram flash hidden_region protected_flag \<Rightarrow>
            if length (mbc6_ram c) \<noteq> length ram
            then Inl (RamLengthMismatch (length (mbc6_ram c)) (length ram))
            else if length (mbc6_flash c) \<noteq> length flash
            then Inl (RamLengthMismatch (length (mbc6_flash c)) (length flash))
            else if length (mbc6_hidden_region c) \<noteq> length hidden_region
            then Inl (RamLengthMismatch (length (mbc6_hidden_region c)) (length hidden_region))
            else Inr (c\<lparr>mbc6_ram := ram, mbc6_flash := flash, mbc6_hidden_region := hidden_region,
                        mbc6_sector0_protected := protected_flag\<rparr>)
        | _ \<Rightarrow> kind_mismatch ''Mbc6'' s)"

subsection \<open>Results without panic\<close>

definition returns :: "'a res \<Rightarrow> ('a \<Rightarrow> bool) \<Rightarrow> bool" where
  "returns r P = (case r of Inl _ \<Rightarrow> False | Inr x \<Rightarrow> P x)"

lemma returns_simps [simp]:
  "returns (Inr x) P = P x" "\<not> returns (Inl e) P"
  "returns (res_bind r f) P = returns r (\<lambda>x. returns (f x) P)"
  "returns (res_map g r) P = returns r (\<lambda>x. P (g x))"
  by (cases r; simp add: returns_def res_bind_def res_map_def)+

lemma returns_mono: "returns r P \<Longrightarrow> (\<And>x. P x \<Longrightarrow> Q x) \<Longrightarrow> returns r Q"
  by (simp add: returns_def split: sum.splits)

lemma returns_iff: "returns r P \<longleftrightarrow> (\<exists>x. r = Inr x \<and> P x)"
  by (simp add: returns_def split: sum.split)

subsection \<open>How the flash changes\<close>

text \<open>The chip's sizes, and a program buffer of one block.\<close>

definition program_ok :: "mbc6_program_state \<Rightarrow> bool" where
  "program_ok s = (length (prog_buffer s) = 128 \<and> length (prog_written s) = 128)"

definition mode_ok :: "mbc6_flash_mode \<Rightarrow> bool" where
  "mode_ok mode =
     (case mode of ProgramMode s \<Rightarrow> program_ok s | HiddenProgramMode s \<Rightarrow> program_ok s | _ \<Rightarrow> True)"

definition mbc6_wf :: "mbc6_cartridge \<Rightarrow> bool" where
  "mbc6_wf c =
     (length (mbc6_flash c) = 1048576 \<and> length (mbc6_hidden_region c) = 256 \<and> mode_ok (mbc6_flash_mode c))"

text \<open>
  A cell is erased to all ones or loses bits; the cells of a protected part stay as they are.
\<close>

definition cells_evolve :: "nat \<Rightarrow> u8 list \<Rightarrow> u8 list \<Rightarrow> bool" where
  "cells_evolve fixed old new =
     (length new = length old
      \<and> (\<forall>i < length old. new ! i = 0xFF \<or> new ! i = old ! i AND new ! i)
      \<and> (\<forall>i < fixed. i < length old \<longrightarrow> new ! i = old ! i))"

definition cells_erased :: "nat \<Rightarrow> u8 list \<Rightarrow> u8 list \<Rightarrow> bool" where
  "cells_erased fixed old new =
     (length new = length old \<and> (\<forall>i < length old. new ! i = old ! i \<or> new ! i = 0xFF)
      \<and> (\<forall>i < fixed. i < length old \<longrightarrow> new ! i = old ! i))"

definition cells_programmed :: "nat \<Rightarrow> u8 list \<Rightarrow> u8 list \<Rightarrow> bool" where
  "cells_programmed fixed old new =
     (length new = length old \<and> (\<forall>i < length old. new ! i = old ! i AND new ! i)
      \<and> (\<forall>i < fixed. i < length old \<longrightarrow> new ! i = old ! i))"

lemma evolve_refl [simp]: "cells_evolve n cells cells" "cells_erased n cells cells" "cells_programmed n cells cells"
  by (simp_all add: cells_evolve_def cells_erased_def cells_programmed_def)

lemma erased_trans: "cells_erased n a b \<Longrightarrow> cells_erased n b c \<Longrightarrow> cells_erased n a c"
  unfolding cells_erased_def by metis

lemma lost_bits_trans: "y = x AND y \<Longrightarrow> z = y AND z \<Longrightarrow> z = x AND (z :: u8)"
  by (metis and.assoc)

lemma programmed_trans:
  assumes "cells_programmed n a b" and "cells_programmed n b c"
  shows "cells_programmed n a c"
proof -
  have "c ! i = a ! i AND c ! i" if "i < length a" for i
    by (rule lost_bits_trans [of "b ! i"]) (use assms that in \<open>simp_all add: cells_programmed_def\<close>)
  with assms show ?thesis by (simp add: cells_programmed_def)
qed

lemma erased_evolve: "cells_erased n a b \<Longrightarrow> cells_evolve n a b"
  unfolding cells_erased_def cells_evolve_def by (metis and.idem)

lemma programmed_evolve: "cells_programmed n a b \<Longrightarrow> cells_evolve n a b"
  unfolding cells_programmed_def cells_evolve_def by blast

lemma fill_erased:
  assumes "n \<le> a" and "a \<le> b" and "b \<le> length cells"
  shows "returns (fill_range cells a b 0xFF) (cells_erased n cells)"
  using assms by (auto simp: fill_range_def cells_erased_def nth_append)

lemma cell_programmed:
  assumes "n \<le> j"
  shows "cells_programmed n cells (cells[j := cells ! j AND v])"
  using assms by (cases "j < length cells") (auto simp: cells_programmed_def nth_list_update list_update_beyond)

lemma programmed_cells:
  assumes "program_ok s" and "n \<le> base" and "base + 128 \<le> length cells" and "\<forall>i \<in> set is. i < 128"
  shows "returns (program_cells is base s cells) (cells_programmed n cells)"
  using assms(3,4)
proof (induction "is" arbitrary: cells)
  case (Cons i "is")
  define new where "new = (if prog_written s ! i then cells[base + i := cells ! (base + i) AND prog_buffer s ! i] else cells)"
  have "cells_programmed n cells new"
    using assms(2) cell_programmed [of n "base + i"] by (simp add: new_def)
  moreover have "returns (program_cells is base s new) (cells_programmed n new)"
    using Cons.IH [of new] Cons.prems by (simp add: new_def)
  ultimately have "returns (program_cells is base s new) (cells_programmed n cells)"
    by (blast intro: returns_mono programmed_trans)
  then show ?case
    using Cons.prems assms(1)
    by (cases "prog_written s ! i") (simp_all add: program_ok_def index_get_def index_set_def new_def)
qed simp

text \<open>What one access may do to the chip.\<close>

definition flash_step :: "mbc6_cartridge \<Rightarrow> mbc6_cartridge \<Rightarrow> bool" where
  "flash_step c c' =
     (mbc6_wf c' \<and> cart_rom c' = cart_rom c \<and> cart_header c' = cart_header c
      \<and> mbc6_has_battery c' = mbc6_has_battery c \<and> length (mbc6_ram c') = length (mbc6_ram c)
      \<and> cells_evolve (if sector0_locked c then 131072 else 0) (mbc6_flash c) (mbc6_flash c')
      \<and> cells_evolve (if mbc6_flash_write_enabled c then 0 else 256)
          (mbc6_hidden_region c) (mbc6_hidden_region c'))"

lemma step_mode:
  "mbc6_wf c \<Longrightarrow> mode_ok mode \<Longrightarrow> flash_step c (mbc6_mode mode c)"
  by (simp add: flash_step_def mbc6_wf_def mbc6_mode_def)

lemma step_then_mode: "flash_step c c' \<Longrightarrow> mode_ok mode \<Longrightarrow> flash_step c (mbc6_mode mode c')"
  by (simp add: flash_step_def mbc6_wf_def mbc6_mode_def)

lemma step_from_mode: "flash_step (mbc6_mode mode c) c' \<Longrightarrow> flash_step c c'"
  by (simp add: flash_step_def mbc6_mode_def sector0_locked_def)

lemma simple_modes [simp]:
  "mode_ok (status_mode source c)" "mode_ok (restart_or_idle offset v)"
  "mode_ok (execute_primary_command offset v)" "mode_ok ReadArray"
  by (simp_all add: mode_ok_def status_mode_def restart_or_idle_def execute_primary_command_def
      program_state_new_def program_ok_def MBC6_FLASH_PROGRAM_BLOCK_BYTES_def)

lemma step_flash:
  assumes "mbc6_wf c" and "cells_evolve (if sector0_locked c then 131072 else 0) (mbc6_flash c) cells"
  shows "flash_step c (c\<lparr>mbc6_flash := cells\<rparr>)"
  using assms by (simp add: flash_step_def mbc6_wf_def cells_evolve_def)

lemma step_hidden:
  assumes "mbc6_wf c"
    and "cells_evolve (if mbc6_flash_write_enabled c then 0 else 256) (mbc6_hidden_region c) cells"
  shows "flash_step c (c\<lparr>mbc6_hidden_region := cells\<rparr>)"
  using assms by (simp add: flash_step_def mbc6_wf_def cells_evolve_def)

subsection \<open>Erasing\<close>

definition only_flash :: "mbc6_cartridge \<Rightarrow> mbc6_cartridge \<Rightarrow> bool" where
  "only_flash c c' =
     (\<exists>cells. c' = c\<lparr>mbc6_flash := cells\<rparr>
       \<and> cells_erased (if sector0_locked c then 131072 else 0) (mbc6_flash c) cells)"

lemma only_flash_refl [simp]: "only_flash c c"
  unfolding only_flash_def by (rule exI [of _ "mbc6_flash c"]) simp

lemma erase_one:
  assumes "mbc6_wf c" and "sector < 8"
  shows "returns (erase_unlocked_sector sector c) (only_flash c)"
proof (cases "sector = 0 \<and> sector0_locked c")
  case True
  then show ?thesis by (simp add: erase_unlocked_sector_def)
next
  case False
  have "returns (fill_range (mbc6_flash c) (sector * 131072) (sector * 131072 + 131072) 0xFF)
      (cells_erased (if sector0_locked c then 131072 else 0) (mbc6_flash c))"
    by (rule fill_erased) (use assms False in \<open>auto simp: mbc6_wf_def\<close>)
  with False show ?thesis
    by (auto simp: erase_unlocked_sector_def erase_sector_index_def MBC6_FLASH_SECTOR_BYTES_def only_flash_def
        elim!: returns_mono)
qed

lemma only_flash_wf: "mbc6_wf c \<Longrightarrow> only_flash c c' \<Longrightarrow> mbc6_wf c' \<and> sector0_locked c' = sector0_locked c"
  by (auto simp: only_flash_def mbc6_wf_def cells_erased_def sector0_locked_def)

lemma only_flash_trans:
  assumes "only_flash c d" and "only_flash d e"
  shows "only_flash c e"
proof -
  obtain x y where d: "d = c\<lparr>mbc6_flash := x\<rparr>" and e: "e = d\<lparr>mbc6_flash := y\<rparr>"
    and x: "cells_erased (if sector0_locked c then 131072 else 0) (mbc6_flash c) x"
    and y: "cells_erased (if sector0_locked d then 131072 else 0) (mbc6_flash d) y"
    using assms unfolding only_flash_def by blast
  have "sector0_locked d = sector0_locked c" by (simp add: d sector0_locked_def)
  with y have "cells_erased (if sector0_locked c then 131072 else 0) x y" by (simp add: d)
  with erased_trans [OF x] show ?thesis unfolding only_flash_def by (intro exI [of _ y]) (simp add: d e)
qed

lemma erase_many:
  "mbc6_wf c \<Longrightarrow> \<forall>s \<in> set ss. s < 8 \<Longrightarrow> returns (erase_sectors ss c) (only_flash c)"
proof (induction ss arbitrary: c)
  case (Cons s ss)
  have "returns (erase_unlocked_sector s c) (only_flash c)" using erase_one Cons.prems by simp
  moreover have "returns (erase_sectors ss x) (only_flash c)" if "only_flash c x" for x
    using Cons.IH [of x] Cons.prems only_flash_wf [OF Cons.prems(1) that]
    by (auto elim!: returns_mono intro: only_flash_trans [OF that])
  ultimately show ?case by (auto elim!: returns_mono)
qed simp

lemma only_flash_step: "mbc6_wf c \<Longrightarrow> only_flash c c' \<Longrightarrow> flash_step c c'"
  unfolding only_flash_def by (auto intro: step_flash erased_evolve)

lemma erase_command_step:
  assumes "mbc6_wf c"
  shows "returns (execute_erase_command offset v c) (flash_step c)"
proof -
  have "returns (erase_chip c) (flash_step c)"
    unfolding erase_chip_def
    by (rule returns_mono [OF erase_many [OF assms]])
      (auto simp: MBC6_FLASH_BYTES_def MBC6_FLASH_SECTOR_BYTES_def intro: only_flash_step [OF assms])
  moreover have "returns (erase_sector offset c) (flash_step c)"
    unfolding erase_sector_def
    by (rule returns_mono [OF erase_one [OF assms]])
      (auto simp: MBC6_FLASH_BYTES_def MBC6_FLASH_SECTOR_BYTES_def intro: only_flash_step [OF assms])
  ultimately show ?thesis
    by (auto simp: execute_erase_command_def step_mode [OF assms] elim!: returns_mono intro: step_then_mode)
qed

lemma extended_command_step: "mbc6_wf c \<Longrightarrow> flash_step c (execute_flash_extended_command v c)"
proof -
  assume wf: "mbc6_wf c"
  have "flash_step c (c\<lparr>mbc6_hidden_region := replicate (length (mbc6_hidden_region c)) 0xFF\<rparr>)"
    if "mbc6_flash_write_enabled c"
    by (rule step_hidden [OF wf]) (simp add: cells_evolve_def that)
  moreover have "flash_step c (set_sector0_protected b c)" for b
    using wf by (simp add: flash_step_def set_sector0_protected_def Let_def mbc6_wf_def mbc6_mode_def)
  moreover have "mode_ok (HiddenProgramMode (program_state_new HiddenRegion))"
    by (simp add: mode_ok_def program_state_new_def program_ok_def MBC6_FLASH_PROGRAM_BLOCK_BYTES_def)
  ultimately show ?thesis
    by (simp add: execute_flash_extended_command_def Let_def step_mode [OF wf] step_then_mode)
qed

subsection \<open>Programming\<close>

lemma block_base_inside:
  assumes "mbc6_wf c"
  shows "returns (program_block_base target offset c) (\<lambda>base. base + 128 \<le>
      length (case target of MainFlash \<Rightarrow> mbc6_flash c | HiddenRegion \<Rightarrow> mbc6_hidden_region c))"
proof -
  have aligned: "x - x mod 128 \<le> m * 128" if "x < Suc m * 128" for x m :: nat
    using that less_mult_imp_div_less [of x "Suc m" 128] by (simp add: minus_mod_eq_div_mult)
  have "offset AND 255 = take_bit 8 offset" by (simp add: take_bit_eq_mask mask_eq_exp_minus_1)
  then have "offset AND 255 < 256" using take_bit_nat_less_exp [of 8 offset] by simp
  then show ?thesis
    using assms aligned [of "offset mod 1048576" 8191] aligned [of "offset AND 255" 1]
    by (cases target)
      (simp_all add: program_block_base_def usize_rem_def mbc6_wf_def MBC6_FLASH_PROGRAM_BLOCK_BYTES_def
        MBC6_HIDDEN_BYTES_def Let_def)
qed

lemma seeded_buffer:
  assumes "program_ok s"
    and "base + 128 \<le> length (case prog_target s of MainFlash \<Rightarrow> mbc6_flash c | HiddenRegion \<Rightarrow> mbc6_hidden_region c)"
  shows "returns (seed_program_buffer base c s) (\<lambda>s'. program_ok s' \<and> prog_target s' = prog_target s)"
  using assms
  by (simp add: seed_program_buffer_def slice_range_def copy_from_slice_def program_ok_def
      MBC6_FLASH_PROGRAM_BLOCK_BYTES_def)

lemma committed_buffer:
  assumes "mbc6_wf c" and "program_ok s"
    and "base + 128 \<le> length (case prog_target s of MainFlash \<Rightarrow> mbc6_flash c | HiddenRegion \<Rightarrow> mbc6_hidden_region c)"
  shows "returns (commit_program_buffer s base c) (flash_step c)"
proof (cases "prog_target s")
  case MainFlash
  show ?thesis
  proof (cases "base < 131072 \<and> sector0_locked c")
    case True
    with MainFlash assms(1) step_mode [OF assms(1), of ReadArray] show ?thesis
      by (simp add: commit_program_buffer_def MBC6_FLASH_SECTOR_BYTES_def flash_step_def)
  next
    case False
    have "returns (program_cells [0..<128] base s (mbc6_flash c))
        (cells_programmed (if sector0_locked c then 131072 else 0) (mbc6_flash c))"
      by (rule programmed_cells [OF assms(2)]) (use False assms(3) MainFlash in auto)
    with False MainFlash show ?thesis
      by (auto simp: commit_program_buffer_def MBC6_FLASH_SECTOR_BYTES_def MBC6_FLASH_PROGRAM_BLOCK_BYTES_def
          intro: step_flash [OF assms(1) programmed_evolve] elim!: returns_mono)
  qed
next
  case HiddenRegion
  show ?thesis
  proof (cases "mbc6_flash_write_enabled c")
    case False
    with HiddenRegion assms(1) show ?thesis by (simp add: commit_program_buffer_def flash_step_def)
  next
    case True
    have "returns (program_cells [0..<128] base s (mbc6_hidden_region c))
        (cells_programmed 0 (mbc6_hidden_region c))"
      by (rule programmed_cells [OF assms(2)]) (use assms(3) HiddenRegion in auto)
    with True HiddenRegion show ?thesis
      by (auto simp: commit_program_buffer_def MBC6_FLASH_PROGRAM_BLOCK_BYTES_def
          intro!: step_hidden [OF assms(1)] programmed_evolve elim!: returns_mono)
  qed
qed

lemma program_write_step:
  assumes "mbc6_wf c" and "program_ok s"
  shows "returns (program_write s offset v c) (\<lambda>(done, s', c'). flash_step c c' \<and> program_ok s')"
proof -
  let ?room = "\<lambda>base s. base + 128 \<le>
      length (case prog_target s of MainFlash \<Rightarrow> mbc6_flash c | HiddenRegion \<Rightarrow> mbc6_hidden_region c)"
  have refl: "flash_step c c" using assms(1) by (simp add: flash_step_def)
  have seed: "returns (if prog_block_base s \<noteq> Some base
        then seed_program_buffer base c (s\<lparr>prog_block_base := Some base, prog_final_byte_seen := False,
               prog_written := replicate (length (prog_written s)) False\<rparr>)
        else Inr s) (\<lambda>s1. program_ok s1 \<and> prog_target s1 = prog_target s)" if "?room base s" for base
    using seeded_buffer [of "s\<lparr>prog_block_base := Some base, prog_final_byte_seen := False,
        prog_written := replicate (length (prog_written s)) False\<rparr>" base c] assms(2) that
    by (simp add: program_ok_def)
  have finish: "returns (let byte_offset = program_byte_offset (prog_target s1) offset;
        s2 = s1\<lparr>prog_buffer := list_put (prog_buffer s1) byte_offset v,
                prog_written := list_put (prog_written s1) byte_offset True\<rparr>
      in if byte_offset \<noteq> MBC6_FLASH_PROGRAM_BLOCK_BYTES - 1 then Inr (False, s2, c)
         else if prog_final_byte_seen s2 then
           res_map (\<lambda>c'. (True, s2, c')) (commit_program_buffer s2 base c)
         else Inr (False, s2\<lparr>prog_final_byte_seen := True\<rparr>, c))
     (\<lambda>(done, s', c'). flash_step c c' \<and> program_ok s')"
    if "?room base s" and "program_ok s1" and "prog_target s1 = prog_target s" for base s1
  proof -
    let ?o = "program_byte_offset (prog_target s1) offset"
    let ?s2 = "s1\<lparr>prog_buffer := list_put (prog_buffer s1) ?o v, prog_written := list_put (prog_written s1) ?o True\<rparr>"
    have "program_ok ?s2" using that(2) by (simp add: program_ok_def list_put_def)
    moreover have "returns (commit_program_buffer ?s2 base c) (flash_step c)"
      by (rule committed_buffer [OF assms(1) calculation]) (use that in simp)
    ultimately show ?thesis
      using refl that(2) by (auto simp: Let_def program_ok_def elim!: returns_mono)
  qed
  show ?thesis
    unfolding program_write_def returns_simps
    by (rule returns_mono [OF block_base_inside [OF assms(1)]], rule returns_mono [OF seed])
      (assumption | erule conjE | rule finish)+
qed

lemma program_step_ok:
  assumes "mbc6_wf c" and "program_ok s" and "\<And>s'. program_ok s' \<Longrightarrow> mode_ok (mode s')"
  shows "returns (program_step mode s offset v c) (flash_step c)"
  unfolding program_step_def returns_simps
  by (rule returns_mono [OF program_write_step [OF assms(1,2)]])
    (auto intro!: step_then_mode assms(3) split: prod.splits)

text \<open>The whole chip, then the cartridge.\<close>

lemma write_flash_step:
  assumes "mbc6_wf c"
  shows "returns (write_flash offset v c) (flash_step c)"
proof -
  let ?c = "mbc6_mode ReadArray c"
  have wf: "mbc6_wf ?c" using assms by (simp add: mbc6_wf_def mbc6_mode_def mode_ok_def)
  have mode: "flash_step c (mbc6_mode m ?c)" if "mode_ok m" for m
    using step_mode [OF wf that] by (rule step_from_mode)
  have unlock: "returns (unlock_step b m offset v ?c) (flash_step c)" if "mode_ok m" for b m
    using mode that by (simp add: unlock_step_def)
  have idle: "flash_step c ?c" by (rule step_mode [OF assms]) simp
  have erase: "returns (execute_erase_command offset v ?c) (flash_step c)"
    by (rule returns_mono [OF erase_command_step [OF wf]]) (rule step_from_mode)
  have extended: "flash_step c (execute_flash_extended_command v ?c)"
    by (rule step_from_mode) (rule extended_command_step [OF wf])
  have programmed: "returns (program_step m s offset v ?c) (flash_step c)"
    if "program_ok s" and "\<And>s'. program_ok s' \<Longrightarrow> mode_ok (m s')" for m s
    by (rule returns_mono [OF program_step_ok [OF wf that(1), of m]]) (use that(2) step_from_mode in auto)
  show ?thesis
    using assms
    by (cases "mbc6_flash_mode c")
      (simp_all add: write_flash_def Let_def idle mode unlock erase extended programmed mbc6_wf_def
        mode_ok_def [of "ProgramMode _"] mode_ok_def [of "HiddenProgramMode _"]
        mode_ok_def [of AwaitCommand] mode_ok_def [of EraseAwaitUnlock2] mode_ok_def [of EraseAwaitCommand]
        mode_ok_def [of ExtendedAwaitUnlock2] mode_ok_def [of ExtendedAwaitCommand]
        mode_ok_def [of HiddenReadAwaitUnlock2] mode_ok_def [of HiddenReadAwaitCommand]
        mode_ok_def [of HiddenReadMode])
qed

lemma mbc6_write_rom_step:
  assumes "mbc6_wf c"
  shows "returns (mbc6_write_rom a v c) (flash_step c)"
proof -
  have window: "returns (write_flash_window w a v c) (flash_step c)" for w
    using write_flash_step [OF assms] assms by (simp add: write_flash_window_def Let_def flash_step_def)
  have "flash_step c (c\<lparr>mbc6_ram_enabled := b\<rparr>)" "flash_step c (c\<lparr>mbc6_ram_bank_a := x\<rparr>)"
    "flash_step c (c\<lparr>mbc6_ram_bank_b := x\<rparr>)" "flash_step c (c\<lparr>mbc6_flash_enabled := b\<rparr>)"
    "flash_step c (c\<lparr>mbc6_flash_write_enabled := b\<rparr>)" "flash_step c (c\<lparr>mbc6_rom_flash_bank_a := x\<rparr>)"
    "flash_step c (c\<lparr>mbc6_rom_flash_bank_b := x\<rparr>)" "flash_step c (c\<lparr>mbc6_window_select_a := w\<rparr>)"
    "flash_step c (c\<lparr>mbc6_window_select_b := w\<rparr>)" "flash_step c c" for b x w
    using assms by (simp_all add: flash_step_def mbc6_wf_def)
  with window step_then_mode show ?thesis
    by (simp add: mbc6_write_rom_def Let_def)
qed

text \<open>The accesses of a running program, and what they do to the chip.\<close>

definition mbc6_access :: "cart_access \<Rightarrow> mbc6_cartridge \<Rightarrow> mbc6_cartridge res" where
  "mbc6_access x c =
     (case x of
        WriteRom a v \<Rightarrow> mbc6_write_rom a v c
      | WriteRam a v \<Rightarrow> Inr (mbc6_write_ram a v c)
      | RestoreState s \<Rightarrow> (case mbc6_restore s c of Inl _ \<Rightarrow> Inr c | Inr c' \<Rightarrow> Inr c'))"

primrec mbc6_accesses :: "cart_access list \<Rightarrow> mbc6_cartridge \<Rightarrow> mbc6_cartridge res" where
  "mbc6_accesses [] c = Inr c"
| "mbc6_accesses (x # xs) c = res_bind (mbc6_access x c) (mbc6_accesses xs)"

lemma mbc6_ram_step: "mbc6_wf c \<Longrightarrow> flash_step c (mbc6_write_ram a v c)"
  by (simp add: mbc6_write_ram_def flash_step_def mbc6_wf_def list_put_def)

lemma mbc6_restore_wf: "mbc6_wf c \<Longrightarrow> mbc6_restore s c = Inr c' \<Longrightarrow>
    mbc6_wf c' \<and> cart_rom c' = cart_rom c \<and> mbc6_persistent_state c' = s"
  by (cases s; cases "mbc6_has_battery c")
    (auto simp: mbc6_restore_def mbc6_wf_def kind_mismatch_def mbc6_persistent_state_def split: if_splits)

lemma mbc6_access_wf: "mbc6_wf c \<Longrightarrow> returns (mbc6_access x c) (\<lambda>c'. mbc6_wf c' \<and> cart_rom c' = cart_rom c)"
proof (cases x)
  case (WriteRom a v)
  then show "mbc6_wf c \<Longrightarrow> ?thesis"
    using mbc6_write_rom_step [of c a v] by (auto simp: mbc6_access_def flash_step_def elim!: returns_mono)
next
  case (WriteRam a v)
  then show "mbc6_wf c \<Longrightarrow> ?thesis"
    using mbc6_ram_step [of c a v] by (simp add: mbc6_access_def flash_step_def)
next
  case (RestoreState s)
  then show "mbc6_wf c \<Longrightarrow> ?thesis"
    using mbc6_restore_wf [of c s] by (cases "mbc6_restore s c") (simp_all add: mbc6_access_def)
qed

lemma flash_step_reading:
  assumes "mbc6_wf c" and "flash_step c d"
  shows "length (mbc6_flash d) = 1048576" and "length (mbc6_hidden_region d) = 256"
    and "\<forall>i < 1048576. mbc6_flash d ! i = 0xFF \<or> mbc6_flash d ! i = mbc6_flash c ! i AND mbc6_flash d ! i"
    and "sector0_locked c \<Longrightarrow> \<forall>i < 131072. mbc6_flash d ! i = mbc6_flash c ! i"
    and "\<not> mbc6_flash_write_enabled c \<Longrightarrow> mbc6_hidden_region d = mbc6_hidden_region c"
proof -
  have len: "length (mbc6_flash c) = 1048576" "length (mbc6_hidden_region c) = 256"
    using assms(1) by (simp_all add: mbc6_wf_def)
  have main: "cells_evolve (if sector0_locked c then 131072 else 0) (mbc6_flash c) (mbc6_flash d)"
    and hidden: "cells_evolve (if mbc6_flash_write_enabled c then 0 else 256)
      (mbc6_hidden_region c) (mbc6_hidden_region d)"
    using assms(2) by (simp_all add: flash_step_def)
  show "length (mbc6_flash d) = 1048576" "length (mbc6_hidden_region d) = 256"
    "\<forall>i < 1048576. mbc6_flash d ! i = 0xFF \<or> mbc6_flash d ! i = mbc6_flash c ! i AND mbc6_flash d ! i"
    using main hidden len by (simp_all only: cells_evolve_def) blast
  show "\<forall>i < 131072. mbc6_flash d ! i = mbc6_flash c ! i" if "sector0_locked c"
    using main that len by (simp add: cells_evolve_def)
  show "mbc6_hidden_region d = mbc6_hidden_region c" if "\<not> mbc6_flash_write_enabled c"
    by (rule nth_equalityI) (use hidden that len in \<open>simp_all add: cells_evolve_def\<close>)
qed

text \<open>Whatever a program writes, the MBC6 flash never panics, its cells only lose bits until
  they are erased, sector 0 stays as it is while it is protected or writing is disabled, and
  the hidden region stays as it is while writing is disabled.
\<close>

theorem flash_writes_respect_protection:
  assumes "mbc6_wf c"
  shows "\<exists>c1. mbc6_accesses xs c = Inr c1 \<and> (\<exists>c2. mbc6_write_rom a v c1 = Inr c2
    \<and> length (mbc6_flash c2) = 1048576 \<and> length (mbc6_hidden_region c2) = 256
    \<and> (\<forall>i < 1048576. mbc6_flash c2 ! i = 0xFF \<or> mbc6_flash c2 ! i = mbc6_flash c1 ! i AND mbc6_flash c2 ! i)
    \<and> (\<not> mbc6_flash_write_enabled c1 \<or> mbc6_sector0_protected c1 \<longrightarrow> (\<forall>i < 131072. mbc6_flash c2 ! i = mbc6_flash c1 ! i))
    \<and> (\<not> mbc6_flash_write_enabled c1 \<longrightarrow> mbc6_hidden_region c2 = mbc6_hidden_region c1))"
proof -
  have "returns (mbc6_accesses xs c) mbc6_wf"
    using assms
  proof (induction xs arbitrary: c)
    case (Cons x xs)
    then show ?case using mbc6_access_wf [of c x] by (auto elim!: returns_mono)
  qed simp
  then obtain c1 where c1: "mbc6_accesses xs c = Inr c1" "mbc6_wf c1" by (auto simp: returns_iff)
  obtain c2 where "mbc6_write_rom a v c1 = Inr c2" "flash_step c1 c2"
    using mbc6_write_rom_step [OF c1(2), of a v] by (auto simp: returns_iff)
  with flash_step_reading [OF c1(2) this(2)] c1(1) show ?thesis unfolding sector0_locked_def by blast
qed

definition sample_mbc6 :: mbc6_cartridge where
  "sample_mbc6 =
     \<lparr>cart_rom = replicate (64 * 0x4000) 0, cart_header = sample_header 64,
      cart_classification = sample_classification, mbc6_ram = replicate 32768 0,
      mbc6_flash = replicate 1048576 0xFF, mbc6_hidden_region = replicate 256 0xFF,
      mbc6_has_battery = True, mbc6_ram_enabled = False, mbc6_flash_enabled = False,
      mbc6_flash_write_enabled = False, mbc6_ram_bank_a = 0, mbc6_ram_bank_b = 1,
      mbc6_rom_flash_bank_a = 2, mbc6_rom_flash_bank_b = 3, mbc6_window_select_a = SelectRom,
      mbc6_window_select_b = SelectRom, mbc6_sector0_protected = False, mbc6_flash_mode = ReadArray\<rparr>"

lemma flash_writes_respect_protection_witness:
  "\<exists>c1. mbc6_accesses [WriteRom 0x0C00 1, WriteRom 0x2800 8] sample_mbc6 = Inr c1
     \<and> (\<exists>c2. mbc6_write_rom 0x5555 0xAA c1 = Inr c2 \<and> mbc6_hidden_region c2 = mbc6_hidden_region c1)"
proof -
  have "mbc6_wf sample_mbc6" by (simp add: mbc6_wf_def sample_mbc6_def)
  from flash_writes_respect_protection [OF this, of "[WriteRom 0x0C00 1, WriteRom 0x2800 8]" "0x5555" "0xAA"]
  obtain c1 c2 where c1: "mbc6_accesses [WriteRom 0x0C00 1, WriteRom 0x2800 8] sample_mbc6 = Inr c1"
    and c2: "mbc6_write_rom 0x5555 0xAA c1 = Inr c2"
    and hidden: "\<not> mbc6_flash_write_enabled c1 \<longrightarrow> mbc6_hidden_region c2 = mbc6_hidden_region c1" by blast
  from c1 have "\<not> mbc6_flash_write_enabled c1"
    by (auto simp: mbc6_access_def mbc6_write_rom_def window_select_from_value_def Let_def sample_mbc6_def)
  with c1 c2 hidden show ?thesis by blast
qed

end
