(* ===== verification/Cart_Mbc7.thy ===== *)
theory Cart_Mbc7
  imports Cart_Samples
begin

text \<open>
  MBC7 (\<open>mbc7.rs\<close>): a register window with a two-axis accelerometer and a serial 256-byte
  EEPROM behind four pins. The EEPROM is a state machine clocked by the rising edges of one
  pin: a start bit, ten command bits, then sixteen data bits in or out.
\<close>

definition MBC7_ROM_BANK_BYTES :: nat where "MBC7_ROM_BANK_BYTES = 0x4000"
definition MBC7_REGISTER_START :: u16 where "MBC7_REGISTER_START = 0xA000"
definition MBC7_REGISTER_END :: u16 where "MBC7_REGISTER_END = 0xAFFF"
definition MBC7_FIXED_OPEN_END :: u16 where "MBC7_FIXED_OPEN_END = 0xBFFF"
definition MBC7_EEPROM_PIN_CS :: u8 where "MBC7_EEPROM_PIN_CS = 0x80"
definition MBC7_EEPROM_PIN_CLK :: u8 where "MBC7_EEPROM_PIN_CLK = 0x40"
definition MBC7_EEPROM_PIN_DI :: u8 where "MBC7_EEPROM_PIN_DI = 0x02"
definition MBC7_EEPROM_PIN_DO :: u8 where "MBC7_EEPROM_PIN_DO = 0x01"
definition MBC7_EEPROM_COMMAND_BITS :: u8 where "MBC7_EEPROM_COMMAND_BITS = 10"
definition MBC7_EEPROM_DATA_BITS :: u8 where "MBC7_EEPROM_DATA_BITS = 16"
definition MBC7_SUPPORTED_ROM_BYTES_MAX :: nat where "MBC7_SUPPORTED_ROM_BYTES_MAX = 2 * 1024 * 1024"
definition MBC7_EEPROM_BYTES :: nat where "MBC7_EEPROM_BYTES = 256"
definition MBC7_EEPROM_WORDS :: nat where "MBC7_EEPROM_WORDS = 128"
definition MBC7_ACCELEROMETER_UNLATCHED_VALUE :: u16 where
  "MBC7_ACCELEROMETER_UNLATCHED_VALUE = 0x8000"
definition MBC7_ACCELEROMETER_NEUTRAL_VALUE :: u16 where
  "MBC7_ACCELEROMETER_NEUTRAL_VALUE = 0x81D0"
definition MBC7_ACCELEROMETER_DELTA_PER_G :: int where "MBC7_ACCELEROMETER_DELTA_PER_G = 0x70"

lemmas mbc7_constants [size_defs] =
  MBC7_ROM_BANK_BYTES_def MBC7_REGISTER_START_def MBC7_REGISTER_END_def MBC7_FIXED_OPEN_END_def
  MBC7_EEPROM_PIN_CS_def MBC7_EEPROM_PIN_CLK_def MBC7_EEPROM_PIN_DI_def MBC7_EEPROM_PIN_DO_def
  MBC7_EEPROM_COMMAND_BITS_def MBC7_EEPROM_DATA_BITS_def MBC7_EEPROM_BYTES_def MBC7_EEPROM_WORDS_def
  MBC7_ACCELEROMETER_UNLATCHED_VALUE_def MBC7_ACCELEROMETER_NEUTRAL_VALUE_def
  MBC7_ACCELEROMETER_DELTA_PER_G_def

subsection \<open>State\<close>

record mbc7_accelerometer_input =
  acc_x_raw :: u16
  acc_y_raw :: u16

definition accelerometer_neutral :: mbc7_accelerometer_input where
  "accelerometer_neutral =
     \<lparr>acc_x_raw = MBC7_ACCELEROMETER_NEUTRAL_VALUE, acc_y_raw = MBC7_ACCELEROMETER_NEUTRAL_VALUE\<rparr>"

text \<open>Rust's division truncates towards zero; the argument is an \<open>i16\<close>.\<close>

definition mbc7_accelerometer_raw_from_milli_g :: "16 word \<Rightarrow> u16" where
  "mbc7_accelerometer_raw_from_milli_g milli_g =
     (let product = sint milli_g * MBC7_ACCELEROMETER_DELTA_PER_G;
          delta = (if 0 \<le> product then product div 1000 else - (- product div 1000))
      in word_of_int (min (max (uint MBC7_ACCELEROMETER_NEUTRAL_VALUE + delta) 0) 0xFFFF))"

record mbc7_eeprom_pins =
  pin_cs :: bool
  pin_clk :: bool
  pin_di :: bool
  pin_do :: bool

definition eeprom_pins_default :: mbc7_eeprom_pins where
  "eeprom_pins_default = \<lparr>pin_cs = False, pin_clk = False, pin_di = False, pin_do = True\<rparr>"

datatype mbc7_eeprom_data_target = WriteWord u8 | WriteAllWords

datatype mbc7_eeprom_command =
    EepromIdle
  | ReceivingCommand u8 u16
  | ReceivingData mbc7_eeprom_data_target u8 u16
  | SendingRead u8 u16

record mbc7_cartridge = cart_board +
  mbc7_eeprom :: "u8 list"
  mbc7_ram_enabled :: bool
  mbc7_sensor_eeprom_enabled :: bool
  mbc7_rom_bank :: u8
  mbc7_accelerometer_input :: mbc7_accelerometer_input
  mbc7_accelerometer_latch_armed :: bool
  mbc7_latched_x :: u16
  mbc7_latched_y :: u16
  mbc7_eeprom_pins :: mbc7_eeprom_pins
  mbc7_eeprom_command :: mbc7_eeprom_command
  mbc7_eeprom_write_enabled :: bool

definition mbc7_command :: "mbc7_eeprom_command \<Rightarrow> mbc7_cartridge \<Rightarrow> mbc7_cartridge" where
  "mbc7_command cmd c = c\<lparr>mbc7_eeprom_command := cmd\<rparr>"

definition mbc7_do :: "bool \<Rightarrow> mbc7_cartridge \<Rightarrow> mbc7_cartridge" where
  "mbc7_do b c = c\<lparr>mbc7_eeprom_pins := (mbc7_eeprom_pins c)\<lparr>pin_do := b\<rparr>\<rparr>"

text \<open>\<open>eeprom_command = Idle; eeprom_pins.do_pin = true\<close>, as every finished command ends.\<close>

definition mbc7_idle :: "mbc7_cartridge \<Rightarrow> mbc7_cartridge" where
  "mbc7_idle c = mbc7_do True (mbc7_command EepromIdle c)"

subsection \<open>The EEPROM\<close>

definition eeprom_word_offset :: "u8 \<Rightarrow> nat" where
  "eeprom_word_offset address = (unat address mod MBC7_EEPROM_WORDS) * 2"

definition read_eeprom_word :: "u8 \<Rightarrow> mbc7_cartridge \<Rightarrow> u16 res" where
  "read_eeprom_word address c =
     (let offset = eeprom_word_offset address
      in res_bind (index_get (mbc7_eeprom c) offset) (\<lambda>hi.
         res_map (\<lambda>lo. from_be_bytes hi lo) (index_get (mbc7_eeprom c) (offset + 1))))"

definition write_eeprom_word :: "u8 \<Rightarrow> u16 \<Rightarrow> mbc7_cartridge \<Rightarrow> mbc7_cartridge res" where
  "write_eeprom_word address v c =
     (let offset = eeprom_word_offset address
      in res_bind (index_set (mbc7_eeprom c) offset (hi_byte v)) (\<lambda>cells.
         res_map (\<lambda>cells. c\<lparr>mbc7_eeprom := cells\<rparr>) (index_set cells (offset + 1) (lo_byte v))))"

primrec write_eeprom_words :: "nat list \<Rightarrow> u16 \<Rightarrow> mbc7_cartridge \<Rightarrow> mbc7_cartridge res" where
  "write_eeprom_words [] v c = Inr c"
| "write_eeprom_words (a # as) v c =
     res_bind (write_eeprom_word (of_nat a) v c) (write_eeprom_words as v)"

definition commit_eeprom_data ::
    "mbc7_eeprom_data_target \<Rightarrow> u16 \<Rightarrow> mbc7_cartridge \<Rightarrow> mbc7_cartridge res" where
  "commit_eeprom_data target v c =
     res_map mbc7_idle
       (if mbc7_eeprom_write_enabled c then
          (case target of
             WriteWord address \<Rightarrow> write_eeprom_word address v c
           | WriteAllWords \<Rightarrow> write_eeprom_words [0..<MBC7_EEPROM_WORDS] v c)
        else Inr c)"

definition finish_eeprom_extended_command :: "u16 \<Rightarrow> mbc7_cartridge \<Rightarrow> mbc7_cartridge res" where
  "finish_eeprom_extended_command command c =
     (let selector = drop_bit 6 command AND 0x03
      in if selector = 0 then Inr (mbc7_idle (c\<lparr>mbc7_eeprom_write_enabled := False\<rparr>))
         else if selector = 1 then Inr (mbc7_command (ReceivingData WriteAllWords 0 0) c)
         else if selector = 2 then
           Inr (mbc7_idle
             (if mbc7_eeprom_write_enabled c
              then c\<lparr>mbc7_eeprom := replicate (length (mbc7_eeprom c)) 0xFF\<rparr> else c))
         else if selector = 3 then Inr (mbc7_idle (c\<lparr>mbc7_eeprom_write_enabled := True\<rparr>))
         else Inl Unreachable)"

definition finish_eeprom_command :: "u16 \<Rightarrow> mbc7_cartridge \<Rightarrow> mbc7_cartridge res" where
  "finish_eeprom_command command c =
     (let opcode = drop_bit 8 command AND 0x03; address = ucast (command AND 0x7F)
      in if opcode = 2 then
           res_map (\<lambda>v. mbc7_do False (mbc7_command (SendingRead MBC7_EEPROM_DATA_BITS v) c))
             (read_eeprom_word address c)
         else if opcode = 1 then Inr (mbc7_command (ReceivingData (WriteWord address) 0 0) c)
         else if opcode = 3 then
           res_map mbc7_idle
             (if mbc7_eeprom_write_enabled c then write_eeprom_word address (- 1) c else Inr c)
         else if opcode = 0 then finish_eeprom_extended_command command c
         else Inl Unreachable)"

text \<open>\<open>(value << 1) | u16::from(di)\<close>\<close>

definition shift_in :: "u16 \<Rightarrow> bool \<Rightarrow> u16" where
  "shift_in v b = push_bit 1 v OR (if b then 1 else 0)"

definition clock_eeprom :: "mbc7_cartridge \<Rightarrow> mbc7_cartridge res" where
  "clock_eeprom c =
     (let di = pin_di (mbc7_eeprom_pins c)
      in case mbc7_eeprom_command c of
           EepromIdle \<Rightarrow> Inr (if di then mbc7_do True (mbc7_command (ReceivingCommand 0 0) c) else c)
         | ReceivingCommand bits v \<Rightarrow>
             if bits + 1 = MBC7_EEPROM_COMMAND_BITS then finish_eeprom_command (shift_in v di) c
             else Inr (mbc7_command (ReceivingCommand (bits + 1) (shift_in v di)) c)
         | ReceivingData target bits v \<Rightarrow>
             if bits + 1 = MBC7_EEPROM_DATA_BITS then commit_eeprom_data target (shift_in v di) c
             else Inr (mbc7_command (ReceivingData target (bits + 1) (shift_in v di)) c)
         | SendingRead bits_remaining v \<Rightarrow>
             if bits_remaining = 0 then Inr (mbc7_command EepromIdle c)
             else
               Inr (mbc7_command
                 (if bits_remaining - 1 = 0 then EepromIdle else SendingRead (bits_remaining - 1) v)
                 (mbc7_do (drop_bit (unat (bits_remaining - 1)) v AND 1 \<noteq> 0) c)))"

definition read_eeprom_pins :: "mbc7_cartridge \<Rightarrow> u8" where
  "read_eeprom_pins c =
     (let pins = mbc7_eeprom_pins c
      in push_bit 7 (u8_of_bool (pin_cs pins)) OR push_bit 6 (u8_of_bool (pin_clk pins))
         OR push_bit 1 (u8_of_bool (pin_di pins))
         OR (if pin_do pins then MBC7_EEPROM_PIN_DO else 0))"

definition write_eeprom_pins :: "u8 \<Rightarrow> mbc7_cartridge \<Rightarrow> mbc7_cartridge res" where
  "write_eeprom_pins v c =
     (let previous_clk = pin_clk (mbc7_eeprom_pins c);
          new_cs = v AND MBC7_EEPROM_PIN_CS \<noteq> 0;
          new_clk = v AND MBC7_EEPROM_PIN_CLK \<noteq> 0;
          new_di = v AND MBC7_EEPROM_PIN_DI \<noteq> 0;
          c1 = c\<lparr>mbc7_eeprom_pins := (mbc7_eeprom_pins c)
                 \<lparr>pin_cs := new_cs, pin_clk := new_clk, pin_di := new_di\<rparr>\<rparr>
      in if \<not> new_cs then Inr (mbc7_idle c1)
         else if \<not> previous_clk \<and> new_clk then clock_eeprom c1
         else Inr c1)"

subsection \<open>The cartridge\<close>

definition mbc7_register_selector :: "u16 \<Rightarrow> u8" where
  "mbc7_register_selector address = ucast (drop_bit 4 address AND 0x0F)"

definition mbc7_registers_enabled :: "mbc7_cartridge \<Rightarrow> bool" where
  "mbc7_registers_enabled c = (mbc7_ram_enabled c \<and> mbc7_sensor_eeprom_enabled c)"

definition mbc7_effective_rom_bank :: "nat \<Rightarrow> mbc7_cartridge \<Rightarrow> nat" where
  "mbc7_effective_rom_bank bank_count c = unat (mbc7_rom_bank c) mod max bank_count 1"

definition mbc7_read_register :: "u16 \<Rightarrow> mbc7_cartridge \<Rightarrow> u8" where
  "mbc7_read_register address c =
     (if \<not> (MBC7_REGISTER_START \<le> address \<and> address \<le> MBC7_REGISTER_END)
         \<or> \<not> mbc7_registers_enabled c then RAM_ABSENT_READ_VALUE
      else
        (let selector = mbc7_register_selector address
         in if selector = 0x02 then ucast (mbc7_latched_x c)
            else if selector = 0x03 then ucast (drop_bit 8 (mbc7_latched_x c))
            else if selector = 0x04 then ucast (mbc7_latched_y c)
            else if selector = 0x05 then ucast (drop_bit 8 (mbc7_latched_y c))
            else if selector = 0x06 then 0x00
            else if selector = 0x08 then read_eeprom_pins c
            else RAM_ABSENT_READ_VALUE))"

definition mbc7_write_register :: "u16 \<Rightarrow> u8 \<Rightarrow> mbc7_cartridge \<Rightarrow> mbc7_cartridge res" where
  "mbc7_write_register address v c =
     (if \<not> (MBC7_REGISTER_START \<le> address \<and> address \<le> MBC7_REGISTER_END)
         \<or> \<not> mbc7_registers_enabled c then Inr c
      else
        (let selector = mbc7_register_selector address
         in if selector = 0x00 \<and> v = 0x55 then
              Inr (c\<lparr>mbc7_accelerometer_latch_armed := True,
                     mbc7_latched_x := MBC7_ACCELEROMETER_UNLATCHED_VALUE,
                     mbc7_latched_y := MBC7_ACCELEROMETER_UNLATCHED_VALUE\<rparr>)
            else if selector = 0x01 \<and> v = 0xAA \<and> mbc7_accelerometer_latch_armed c then
              Inr (c\<lparr>mbc7_latched_x := acc_x_raw (mbc7_accelerometer_input c),
                     mbc7_latched_y := acc_y_raw (mbc7_accelerometer_input c),
                     mbc7_accelerometer_latch_armed := False\<rparr>)
            else if selector = 0x08 then write_eeprom_pins v c
            else Inr c))"

definition mbc7_register_target ::
    "u8 \<Rightarrow> cartridge_external_target \<times> cartridge_external_read_behavior
      \<times> cartridge_external_write_behavior" where
  "mbc7_register_target selector =
     (if selector = 0x00 then
        (Mbc7AccelerometerLatchReset, FallbackValue RAM_ABSENT_READ_VALUE, Mbc7AccelerometerLatch)
      else if selector = 0x01 then
        (Mbc7AccelerometerLatchCommit, FallbackValue RAM_ABSENT_READ_VALUE, Mbc7AccelerometerLatch)
      else if selector = 0x02 then
        (Mbc7AccelerometerAxis AxisX AxisLow, ReadMbc7Accelerometer, WriteIgnored)
      else if selector = 0x03 then
        (Mbc7AccelerometerAxis AxisX AxisHigh, ReadMbc7Accelerometer, WriteIgnored)
      else if selector = 0x04 then
        (Mbc7AccelerometerAxis AxisY AxisLow, ReadMbc7Accelerometer, WriteIgnored)
      else if selector = 0x05 then
        (Mbc7AccelerometerAxis AxisY AxisHigh, ReadMbc7Accelerometer, WriteIgnored)
      else if selector = 0x06 then (Mbc7FixedRegister 0x00, FallbackValue 0x00, WriteIgnored)
      else if selector = 0x08 then
        (Mbc7EepromSerialTarget, ReadMbc7EepromSerial, WriteMbc7EepromSerial)
      else (Mbc7ReservedRegister selector, FallbackValue RAM_ABSENT_READ_VALUE, WriteIgnored))"

definition mbc7_describe :: "u16 \<Rightarrow> mbc7_cartridge \<Rightarrow> cartridge_external_access_info" where
  "mbc7_describe address c =
     (if \<not> (MBC7_REGISTER_START \<le> address \<and> address \<le> MBC7_FIXED_OPEN_END)
      then access_info_no_device address
      else if MBC7_REGISTER_END < address then
        access_info_new address (Mbc7ReservedRegister 0x10) Reserved
          (FallbackValue RAM_ABSENT_READ_VALUE) WriteIgnored
      else
        (let selector = mbc7_register_selector address; enabled = mbc7_registers_enabled c;
             availability =
               (if enabled then
                  (if selector \<le> 0x06 \<or> selector = 0x08 then Accessible else Reserved)
                else Disabled)
         in case mbc7_register_target selector of
              (target, read_behavior, write_behavior) \<Rightarrow>
                if enabled then access_info_new address target availability read_behavior write_behavior
                else access_info_new address target availability
                       (FallbackValue RAM_ABSENT_READ_VALUE) WriteIgnored))"

definition mbc7_bank_count :: "mbc7_cartridge \<Rightarrow> nat" where
  "mbc7_bank_count c = max (header_rom_banks c) 1"

definition mbc7_read_rom :: "mbc7_cartridge \<Rightarrow> u16 \<Rightarrow> u8" where
  "mbc7_read_rom c address =
     rom_get (cart_rom c)
       (banked_rom_index 0 (mbc7_effective_rom_bank (mbc7_bank_count c) c) address)"

definition mbc7_mapped_rom_window ::
    "mbc7_cartridge \<Rightarrow> u16 \<Rightarrow> cartridge_mapped_rom_window option" where
  "mbc7_mapped_rom_window c address =
     banked_rom_window 0 (mbc7_effective_rom_bank (mbc7_bank_count c) c) address"

definition mbc7_write_rom :: "u16 \<Rightarrow> u8 \<Rightarrow> mbc7_cartridge \<Rightarrow> mbc7_cartridge" where
  "mbc7_write_rom address v c =
     (if address \<le> 0x1FFF then c\<lparr>mbc7_ram_enabled := (v AND 0x0F = 0x0A)\<rparr>
      else if address \<le> 0x3FFF then c\<lparr>mbc7_rom_bank := v AND 0x7F\<rparr>
      else if address \<le> 0x5FFF then c\<lparr>mbc7_sensor_eeprom_enabled := (v = 0x40)\<rparr>
      else c)"

definition mbc7_read_ram :: "mbc7_cartridge \<Rightarrow> u16 \<Rightarrow> u8" where
  "mbc7_read_ram c address = mbc7_read_register address c"

definition mbc7_write_ram :: "u16 \<Rightarrow> u8 \<Rightarrow> mbc7_cartridge \<Rightarrow> mbc7_cartridge res" where
  "mbc7_write_ram address v c = mbc7_write_register address v c"

definition mbc7_persistence_metadata :: "mbc7_cartridge \<Rightarrow> cartridge_persistence_metadata" where
  "mbc7_persistence_metadata c =
     \<lparr>meta_has_battery = False, meta_has_rtc = False,
      meta_profile = PersistentEeprom (length (mbc7_eeprom c))\<rparr>"

definition mbc7_persistent_state :: "mbc7_cartridge \<Rightarrow> persistent_cart_state" where
  "mbc7_persistent_state c = Mbc7EepromState (mbc7_eeprom c)"

definition mbc7_restore ::
    "persistent_cart_state \<Rightarrow> mbc7_cartridge \<Rightarrow> persistent_state_error + mbc7_cartridge" where
  "mbc7_restore s c =
     (case s of
        Mbc7EepromState eeprom \<Rightarrow>
          if length (mbc7_eeprom c) \<noteq> length eeprom
          then Inl (EepromLengthMismatch (length (mbc7_eeprom c)) (length eeprom))
          else Inr (c\<lparr>mbc7_eeprom := eeprom, mbc7_eeprom_pins := eeprom_pins_default,
                      mbc7_eeprom_command := EepromIdle, mbc7_eeprom_write_enabled := False\<rparr>)
      | _ \<Rightarrow> kind_mismatch ''Mbc7Eeprom'' s)"

definition mbc7_set_accelerometer_input ::
    "mbc7_accelerometer_input \<Rightarrow> mbc7_cartridge \<Rightarrow> mbc7_cartridge" where
  "mbc7_set_accelerometer_input inp c = c\<lparr>mbc7_accelerometer_input := inp\<rparr>"

subsection \<open>Panic freedom and the mapper laws\<close>

definition eeprom_command_ok :: "mbc7_eeprom_command \<Rightarrow> bool" where
  "eeprom_command_ok cmd =
     (case cmd of
        EepromIdle \<Rightarrow> True
      | ReceivingCommand bits _ \<Rightarrow> bits < 10
      | ReceivingData _ bits _ \<Rightarrow> bits < 16
      | SendingRead bits_remaining _ \<Rightarrow> 0 < bits_remaining \<and> bits_remaining \<le> 16)"

text \<open>Whole banks, the EEPROM's 256 bytes, and counters inside the lengths of the transfers.\<close>

definition mbc7_wf :: "mbc7_cartridge \<Rightarrow> bool" where
  "mbc7_wf c = (whole_banks c \<and> length (mbc7_eeprom c) = MBC7_EEPROM_BYTES
     \<and> eeprom_command_ok (mbc7_eeprom_command c))"

definition eeprom_put_word :: "u8 \<Rightarrow> u16 \<Rightarrow> u8 list \<Rightarrow> u8 list" where
  "eeprom_put_word address v cells =
     cells[eeprom_word_offset address := hi_byte v, eeprom_word_offset address + 1 := lo_byte v]"

lemma length_put_word [simp]: "length (eeprom_put_word a v cells) = length cells"
  by (simp add: eeprom_put_word_def)

lemma eeprom_offset_less: "eeprom_word_offset address + 1 < 256"
  using mod_less_divisor [of 128 "unat address"]
  by (simp add: eeprom_word_offset_def MBC7_EEPROM_WORDS_def)

lemma write_eeprom_word_total:
  "length (mbc7_eeprom c) = MBC7_EEPROM_BYTES \<Longrightarrow>
     write_eeprom_word a v c = Inr (c\<lparr>mbc7_eeprom := eeprom_put_word a v (mbc7_eeprom c)\<rparr>)"
  using eeprom_offset_less [of a]
  by (simp add: write_eeprom_word_def Let_def index_set_def eeprom_put_word_def MBC7_EEPROM_BYTES_def)

lemma read_eeprom_word_total:
  "length (mbc7_eeprom c) = MBC7_EEPROM_BYTES \<Longrightarrow>
     read_eeprom_word a c =
       Inr (from_be_bytes (mbc7_eeprom c ! eeprom_word_offset a) (mbc7_eeprom c ! (eeprom_word_offset a + 1)))"
  using eeprom_offset_less [of a]
  by (simp add: read_eeprom_word_def Let_def index_get_def MBC7_EEPROM_BYTES_def)

lemma write_eeprom_words_total:
  "length (mbc7_eeprom c) = MBC7_EEPROM_BYTES \<Longrightarrow>
     write_eeprom_words as v c =
       Inr (c\<lparr>mbc7_eeprom := fold (\<lambda>a. eeprom_put_word (of_nat a) v) as (mbc7_eeprom c)\<rparr>)"
  by (induction as arbitrary: c) (simp_all add: write_eeprom_word_total)

lemma length_put_words [simp]:
  "length (fold (\<lambda>a. eeprom_put_word (of_nat a) v) as cells) = length cells"
  by (induction as arbitrary: cells) simp_all

text \<open>What no write to a register changes, and what it establishes.\<close>

definition mbc7_step_ok :: "mbc7_cartridge \<Rightarrow> mbc7_cartridge res \<Rightarrow> bool" where
  "mbc7_step_ok c r =
     (case r of
        Inl _ \<Rightarrow> False
      | Inr c' \<Rightarrow> cart_rom c' = cart_rom c \<and> cart_header c' = cart_header c
          \<and> mbc7_registers_enabled c' = mbc7_registers_enabled c
          \<and> length (mbc7_eeprom c') = length (mbc7_eeprom c)
          \<and> eeprom_command_ok (mbc7_eeprom_command c'))"

lemmas mbc7_step_simps = mbc7_step_ok_def mbc7_idle_def mbc7_do_def mbc7_command_def
  eeprom_command_ok_def mbc7_registers_enabled_def

lemma commit_step:
  "length (mbc7_eeprom c) = MBC7_EEPROM_BYTES \<Longrightarrow> mbc7_step_ok c (commit_eeprom_data target v c)"
  by (cases target) (simp_all add: commit_eeprom_data_def write_eeprom_word_total
      write_eeprom_words_total mbc7_step_simps)

lemma two_bits: "(x :: u16) AND 3 \<in> {0, 1, 2, 3}"
proof -
  have "x AND 3 \<le> 3" by (rule word_and_le1)
  then have "unat (x AND 3) \<in> {0, 1, 2, 3}" by (auto simp: word_le_nat_alt)
  then show ?thesis by (auto simp: word_unat_eq_iff)
qed

lemma finish_extended_step:
  "length (mbc7_eeprom c) = MBC7_EEPROM_BYTES \<Longrightarrow> mbc7_step_ok c (finish_eeprom_extended_command w c)"
  using two_bits [of "drop_bit 6 w"]
  by (auto simp: finish_eeprom_extended_command_def Let_def mbc7_step_simps)

lemma finish_step:
  "length (mbc7_eeprom c) = MBC7_EEPROM_BYTES \<Longrightarrow> mbc7_step_ok c (finish_eeprom_command w c)"
  using two_bits [of "drop_bit 8 w"] finish_extended_step [of c w]
  by (auto simp: finish_eeprom_command_def Let_def write_eeprom_word_total read_eeprom_word_total)
    (simp_all add: mbc7_step_simps MBC7_EEPROM_DATA_BITS_def)

lemma u8_count_up: "(k :: u8) < n \<Longrightarrow> k + 1 \<noteq> n \<Longrightarrow> k + 1 < n"
  by (simp add: inc_le less_le)

lemma u8_count_down: "(k :: u8) \<le> n \<Longrightarrow> k \<noteq> 0 \<Longrightarrow> k - 1 \<le> n"
  by (simp add: word_le_nat_alt unat_minus_one)

lemma clock_step:
  assumes "length (mbc7_eeprom c) = MBC7_EEPROM_BYTES" and "eeprom_command_ok (mbc7_eeprom_command c)"
  shows "mbc7_step_ok c (clock_eeprom c)"
proof (cases "mbc7_eeprom_command c")
  case EepromIdle
  then show ?thesis by (simp add: clock_eeprom_def mbc7_step_simps)
next
  case (ReceivingCommand bits v)
  with assms finish_step [OF assms(1)] show ?thesis
    by (simp add: clock_eeprom_def Let_def MBC7_EEPROM_COMMAND_BITS_def)
      (simp add: mbc7_step_simps u8_count_up)
next
  case (ReceivingData target bits v)
  with assms commit_step [OF assms(1)] show ?thesis
    by (simp add: clock_eeprom_def Let_def MBC7_EEPROM_DATA_BITS_def)
      (simp add: mbc7_step_simps u8_count_up)
next
  case (SendingRead n v)
  with assms show ?thesis
    by (simp add: clock_eeprom_def mbc7_step_simps u8_count_down word_gt_0)
qed

lemma write_register_step:
  assumes "length (mbc7_eeprom c) = MBC7_EEPROM_BYTES" and "eeprom_command_ok (mbc7_eeprom_command c)"
  shows "mbc7_step_ok c (mbc7_write_register a v c)"
proof -
  have "mbc7_step_ok c (clock_eeprom (c\<lparr>mbc7_eeprom_pins := p\<rparr>))" for p
    using clock_step [of "c\<lparr>mbc7_eeprom_pins := p\<rparr>"] assms
    by (cases "clock_eeprom (c\<lparr>mbc7_eeprom_pins := p\<rparr>)")
      (simp_all add: mbc7_step_ok_def mbc7_registers_enabled_def)
  then have "mbc7_step_ok c (write_eeprom_pins v c)"
    using assms(2) by (simp add: write_eeprom_pins_def Let_def) (simp add: mbc7_step_simps)
  with assms(2) show ?thesis
    by (simp add: mbc7_write_register_def Let_def) (simp add: mbc7_step_ok_def mbc7_registers_enabled_def)
qed

text \<open>
  The locales take total operations; a panic would leave the state as it is, and
  \<open>mbc7_write_total\<close> shows that on a well-formed board there is none.
\<close>

definition mbc7_ram_after_write :: "u16 \<Rightarrow> u8 \<Rightarrow> mbc7_cartridge \<Rightarrow> mbc7_cartridge" where
  "mbc7_ram_after_write address v c = (case mbc7_write_ram address v c of Inr c' \<Rightarrow> c' | Inl _ \<Rightarrow> c)"

lemma mbc7_write_total:
  assumes "mbc7_wf c"
  shows "mbc7_write_ram a v c = Inr (mbc7_ram_after_write a v c)"
    and "mbc7_wf (mbc7_ram_after_write a v c)"
    and "cart_rom (mbc7_ram_after_write a v c) = cart_rom c"
  using write_register_step [of c a v] assms
  by (simp_all add: mbc7_step_ok_def mbc7_ram_after_write_def mbc7_write_ram_def mbc7_wf_def
      whole_banks_def header_rom_banks_def split: sum.splits)

text \<open>A save state with an EEPROM of the right size.\<close>

definition mbc7_array :: "persistent_cart_state \<Rightarrow> bool" where
  "mbc7_array s = (case s of Mbc7EepromState eeprom \<Rightarrow> length eeprom = MBC7_EEPROM_BYTES | _ \<Rightarrow> True)"

lemma mbc7_write_rom_fields:
  "mbc7_wf c \<Longrightarrow> mbc7_wf (mbc7_write_rom a v c) \<and> cart_rom (mbc7_write_rom a v c) = cart_rom c
     \<and> mbc7_persistent_state (mbc7_write_rom a v c) = mbc7_persistent_state c"
  by (simp add: mbc7_write_rom_def mbc7_wf_def mbc7_persistent_state_def whole_banks_def header_rom_banks_def)

interpretation mbc7: banked_mapper mbc7_read_rom mbc7_mapped_rom_window mbc7_write_rom
  mbc7_ram_after_write mbc7_persistent_state mbc7_restore cart_rom "\<lambda>_. ()" mbc7_array mbc7_wf
proof unfold_locales
  show "\<exists>w. mbc7_mapped_rom_window c a = Some w \<and> win_bank_offset w < win_bank_size w
      \<and> mbc7_read_rom c a = rom_get (cart_rom c) (window_index w)"
    if "a < 0x8000" for a c
    using banked_window_reads [OF that] by (simp add: mbc7_mapped_rom_window_def mbc7_read_rom_def)
next
  show "mbc7_wf c' \<and> () = () \<and> cart_rom c' = cart_rom c \<and> mbc7_persistent_state c' = s"
    if "mbc7_wf c" and "mbc7_restore s c = Inr c'" for c c' s
    using that
    by (cases s) (auto simp: mbc7_restore_def mbc7_persistent_state_def kind_mismatch_def mbc7_wf_def
        whole_banks_def header_rom_banks_def eeprom_command_ok_def split: if_splits)
next
  show "window_index w < length (cart_rom c)"
    if "mbc7_wf c" and "mbc7_mapped_rom_window c a = Some w" for c a w
    using that banked_window_inside [of 0 _ a w]
    by (auto simp: mbc7_mapped_rom_window_def mbc7_wf_def whole_banks_def mbc7_effective_rom_bank_def
        mbc7_bank_count_def max_def)
next
  show "mbc7_array (mbc7_persistent_state c) \<and> (\<exists>d'. mbc7_restore (mbc7_persistent_state c) d = Inr d')"
    if "mbc7_wf c" and "mbc7_wf d" for c d
    using that by (simp add: mbc7_restore_def mbc7_persistent_state_def mbc7_array_def mbc7_wf_def)
qed (use mbc7_write_total mbc7_write_rom_fields in
    \<open>simp_all add: mbc7_mapped_rom_window_def banked_rom_window_none\<close>)

subsection \<open>The serial protocol\<close>

text \<open>
  The program's side: it lowers the clock with a bit on the data pin, then raises it, and
  reads the answer from the data output pin; a transaction starts by deselecting the chip.
\<close>

definition eeprom_clock_bit :: "bool \<Rightarrow> mbc7_cartridge \<Rightarrow> mbc7_cartridge res" where
  "eeprom_clock_bit b c =
     res_bind (mbc7_write_ram 0xA080 (if b then 0x82 else 0x80) c)
       (mbc7_write_ram 0xA080 (if b then 0xC2 else 0xC0))"

primrec eeprom_send :: "bool list \<Rightarrow> mbc7_cartridge \<Rightarrow> mbc7_cartridge res" where
  "eeprom_send [] c = Inr c"
| "eeprom_send (b # bs) c = res_bind (eeprom_clock_bit b c) (eeprom_send bs)"

primrec eeprom_receive :: "nat \<Rightarrow> mbc7_cartridge \<Rightarrow> (bool list \<times> mbc7_cartridge) res" where
  "eeprom_receive 0 c = Inr ([], c)"
| "eeprom_receive (Suc n) c =
     res_bind (eeprom_clock_bit False c) (\<lambda>c1.
       res_map (\<lambda>(bs, c2). (bit (mbc7_read_ram c1 0xA080) 0 # bs, c2)) (eeprom_receive n c1))"

definition msb_bits :: "nat \<Rightarrow> u16 \<Rightarrow> bool list" where
  "msb_bits n w = map (bit w) (rev [0..<n])"

text \<open>A start bit, two bits of opcode and eight of address.\<close>

definition eeprom_command_bits :: "u16 \<Rightarrow> u8 \<Rightarrow> bool list" where
  "eeprom_command_bits opcode address = True # msb_bits 10 (push_bit 8 opcode OR ucast address)"

lemma msb_bits_Suc: "msb_bits (Suc n) w = bit w n # msb_bits n w"
  by (simp add: msb_bits_def)

lemma length_msb_bits [simp]: "length (msb_bits n w) = n"
  by (simp add: msb_bits_def)

lemma shifted_in: "foldl shift_in v (msb_bits n w) = push_bit n v OR take_bit n w"
proof (induction n arbitrary: v)
  case 0
  then show ?case by (simp add: msb_bits_def)
next
  case (Suc n)
  have "push_bit n (shift_in v (bit w n)) OR take_bit n w = push_bit (Suc n) v OR take_bit (Suc n) w"
    by (rule bit_word_eqI) (auto simp: shift_in_def bit_simps bit_1_iff less_Suc_eq not_less)
  with Suc show ?case by (simp add: msb_bits_Suc)
qed

lemma mbc7_eeprom_port:
  "mbc7_registers_enabled c \<Longrightarrow> mbc7_write_ram 0xA080 v c = write_eeprom_pins v c"
  "mbc7_registers_enabled c \<Longrightarrow> mbc7_read_ram c 0xA080 = read_eeprom_pins c"
  by (simp_all add: mbc7_write_ram_def mbc7_write_register_def mbc7_read_ram_def mbc7_read_register_def
      mbc7_register_selector_def MBC7_REGISTER_START_def MBC7_REGISTER_END_def)

definition raised_pins :: "bool \<Rightarrow> mbc7_cartridge \<Rightarrow> mbc7_eeprom_pins" where
  "raised_pins b c = (mbc7_eeprom_pins c)\<lparr>pin_cs := True, pin_clk := True, pin_di := b\<rparr>"

lemma clock_bit_is:
  "mbc7_registers_enabled c \<Longrightarrow>
     eeprom_clock_bit b c = clock_eeprom (c\<lparr>mbc7_eeprom_pins := raised_pins b c\<rparr>)"
  by (cases b; cases "pin_clk (mbc7_eeprom_pins c)")
    (simp_all add: eeprom_clock_bit_def mbc7_eeprom_port write_eeprom_pins_def Let_def raised_pins_def
      MBC7_EEPROM_PIN_CS_def MBC7_EEPROM_PIN_CLK_def MBC7_EEPROM_PIN_DI_def
      mbc7_registers_enabled_def mbc7_eeprom_port)

lemma send_append: "eeprom_send (xs @ ys) c = res_bind (eeprom_send xs c) (eeprom_send ys)"
proof (induction xs arbitrary: c)
  case (Cons b xs)
  then show ?case by (cases "eeprom_clock_bit b c") simp_all
qed simp

text \<open>All but the last bit of a command or of a word only move into the shift register.\<close>

lemma send_command_bits:
  "mbc7_registers_enabled c \<Longrightarrow> mbc7_eeprom_command c = ReceivingCommand k v \<Longrightarrow>
   unat k + length bs < 10 \<Longrightarrow>
     \<exists>p. eeprom_send bs c = Inr (c\<lparr>mbc7_eeprom_pins := p,
       mbc7_eeprom_command := ReceivingCommand (k + of_nat (length bs)) (foldl shift_in v bs)\<rparr>)"
proof (induction bs arbitrary: c k v)
  case Nil
  then show ?case by (auto intro!: exI [of _ "mbc7_eeprom_pins c"])
next
  case (Cons b bs)
  have k: "unat (k + 1) = unat k + 1" using Cons.prems(3) by (simp add: unat_word_ariths)
  then have "k + 1 \<noteq> 10" using Cons.prems(3) by auto
  with Cons.prems(1,2) have step: "eeprom_clock_bit b c = Inr (c\<lparr>mbc7_eeprom_pins := raised_pins b c,
      mbc7_eeprom_command := ReceivingCommand (k + 1) (shift_in v b)\<rparr>)"
    by (simp add: clock_bit_is clock_eeprom_def Let_def MBC7_EEPROM_COMMAND_BITS_def mbc7_command_def
        raised_pins_def)
  with Cons.IH [of "c\<lparr>mbc7_eeprom_pins := raised_pins b c,
      mbc7_eeprom_command := ReceivingCommand (k + 1) (shift_in v b)\<rparr>"] Cons.prems k
  show ?case by (simp add: mbc7_registers_enabled_def ac_simps)
qed

lemma send_data_bits:
  "mbc7_registers_enabled c \<Longrightarrow> mbc7_eeprom_command c = ReceivingData target k v \<Longrightarrow>
   unat k + length bs < 16 \<Longrightarrow>
     \<exists>p. eeprom_send bs c = Inr (c\<lparr>mbc7_eeprom_pins := p,
       mbc7_eeprom_command := ReceivingData target (k + of_nat (length bs)) (foldl shift_in v bs)\<rparr>)"
proof (induction bs arbitrary: c k v)
  case Nil
  then show ?case by (auto intro!: exI [of _ "mbc7_eeprom_pins c"])
next
  case (Cons b bs)
  have k: "unat (k + 1) = unat k + 1" using Cons.prems(3) by (simp add: unat_word_ariths)
  then have "k + 1 \<noteq> 16" using Cons.prems(3) by auto
  with Cons.prems(1,2) have step: "eeprom_clock_bit b c = Inr (c\<lparr>mbc7_eeprom_pins := raised_pins b c,
      mbc7_eeprom_command := ReceivingData target (k + 1) (shift_in v b)\<rparr>)"
    by (simp add: clock_bit_is clock_eeprom_def Let_def MBC7_EEPROM_DATA_BITS_def mbc7_command_def
        raised_pins_def)
  with Cons.IH [of "c\<lparr>mbc7_eeprom_pins := raised_pins b c,
      mbc7_eeprom_command := ReceivingData target (k + 1) (shift_in v b)\<rparr>"] Cons.prems k
  show ?case by (simp add: mbc7_registers_enabled_def ac_simps)
qed

text \<open>After the last bit of a command it is executed; after the last bit of a word it is stored.\<close>

lemma msb_bits_snoc: "msb_bits (Suc n) w = msb_bits n (drop_bit 1 w) @ [bit w 0]"
  by (simp add: msb_bits_def upt_conv_Cons map_Suc_upt [symmetric] rev_map bit_drop_bit_eq comp_def
      del: upt_Suc)

lemma bit_shift_in: "bit (shift_in v b) i \<longleftrightarrow> (if i = 0 then b else i < 16 \<and> bit v (i - 1))"
  unfolding shift_in_def bit_or_iff bit_push_bit_iff by (auto simp: bit_1_iff)

lemma shift_in_last: "shift_in (take_bit n (drop_bit 1 w)) (bit w 0) = take_bit (Suc n) w"
proof (rule bit_word_eqI)
  show "bit (shift_in (take_bit n (drop_bit 1 w)) (bit w 0)) i = bit (take_bit (Suc n) w) i"
    if "i < LENGTH(16)" for i
    using that by (cases i) (auto simp: bit_shift_in bit_simps)
qed

lemma pins_before_command:
  "c\<lparr>mbc7_eeprom_command := cmd, mbc7_eeprom_pins := p\<rparr>
     = c\<lparr>mbc7_eeprom_pins := p, mbc7_eeprom_command := cmd\<rparr>"
  by simp

lemma eeprom_send_command:
  assumes "mbc7_registers_enabled c" and "mbc7_eeprom_command c = EepromIdle"
  shows "\<exists>p cmd. eeprom_send (eeprom_command_bits opcode a) c =
    finish_eeprom_command (take_bit 10 (push_bit 8 opcode OR ucast a))
      (c\<lparr>mbc7_eeprom_pins := p, mbc7_eeprom_command := cmd\<rparr>)"
proof -
  let ?w = "push_bit 8 opcode OR ucast a"
  define c1 where "c1 = c\<lparr>mbc7_eeprom_pins := (raised_pins True c)\<lparr>pin_do := True\<rparr>,
    mbc7_eeprom_command := ReceivingCommand 0 0\<rparr>"
  have start: "eeprom_clock_bit True c = Inr c1"
    using assms by (simp add: clock_bit_is clock_eeprom_def Let_def mbc7_do_def mbc7_command_def
        raised_pins_def c1_def)
  have c1: "mbc7_registers_enabled c1" "mbc7_eeprom_command c1 = ReceivingCommand 0 0"
    using assms(1) by (simp_all add: c1_def mbc7_registers_enabled_def)
  obtain p where nine: "eeprom_send (msb_bits 9 (drop_bit 1 ?w)) c1 = Inr (c1\<lparr>mbc7_eeprom_pins := p,
      mbc7_eeprom_command := ReceivingCommand 9 (take_bit 9 (drop_bit 1 ?w))\<rparr>)"
    using send_command_bits [OF c1, of "msb_bits 9 (drop_bit 1 ?w)"] by (auto simp: shifted_in)
  define c2 where "c2 = c1\<lparr>mbc7_eeprom_pins := p,
      mbc7_eeprom_command := ReceivingCommand 9 (take_bit 9 (drop_bit 1 ?w))\<rparr>"
  have "eeprom_send [bit ?w 0] c2 = finish_eeprom_command (take_bit 10 ?w)
      (c\<lparr>mbc7_eeprom_pins := raised_pins (bit ?w 0) c2, mbc7_eeprom_command := mbc7_eeprom_command c2\<rparr>)"
    (is "_ = ?r")
    using c1(1) shift_in_last [of 9 ?w]
    by (cases ?r)
      (simp_all add: clock_bit_is clock_eeprom_def Let_def MBC7_EEPROM_COMMAND_BITS_def c2_def c1_def
        mbc7_registers_enabled_def raised_pins_def pins_before_command)
  moreover have "msb_bits 10 ?w = msb_bits 9 (drop_bit 1 ?w) @ [bit ?w 0]"
    using msb_bits_snoc [of 9] by simp
  ultimately have "eeprom_send (eeprom_command_bits opcode a) c = finish_eeprom_command (take_bit 10 ?w)
      (c\<lparr>mbc7_eeprom_pins := raised_pins (bit ?w 0) c2, mbc7_eeprom_command := mbc7_eeprom_command c2\<rparr>)"
    using start nine
    by (simp only: eeprom_command_bits_def eeprom_send.simps(2) send_append c2_def [symmetric] res_bind_simps)
  then show ?thesis by blast
qed

lemma eeprom_send_word:
  assumes "mbc7_registers_enabled c" and "mbc7_eeprom_command c = ReceivingData target 0 0"
  shows "\<exists>p cmd. eeprom_send (msb_bits 16 v) c =
    commit_eeprom_data target v (c\<lparr>mbc7_eeprom_pins := p, mbc7_eeprom_command := cmd\<rparr>)"
proof -
  obtain p where p: "eeprom_send (msb_bits 15 (drop_bit 1 v)) c = Inr (c\<lparr>mbc7_eeprom_pins := p,
      mbc7_eeprom_command := ReceivingData target 15 (take_bit 15 (drop_bit 1 v))\<rparr>)"
    using send_data_bits [OF assms, of "msb_bits 15 (drop_bit 1 v)"] by (auto simp: shifted_in)
  define c2 where "c2 = c\<lparr>mbc7_eeprom_pins := p,
      mbc7_eeprom_command := ReceivingData target 15 (take_bit 15 (drop_bit 1 v))\<rparr>"
  have "eeprom_send [bit v 0] c2 = commit_eeprom_data target v
      (c\<lparr>mbc7_eeprom_pins := raised_pins (bit v 0) c2, mbc7_eeprom_command := mbc7_eeprom_command c2\<rparr>)"
    (is "_ = ?r")
    using assms(1) shift_in_last [of 15 v] take_bit_word_eq_self [of 16 v]
    by (cases ?r)
      (simp_all add: clock_bit_is clock_eeprom_def Let_def MBC7_EEPROM_DATA_BITS_def c2_def
        mbc7_registers_enabled_def raised_pins_def pins_before_command)
  moreover have "msb_bits 16 v = msb_bits 15 (drop_bit 1 v) @ [bit v 0]"
    using msb_bits_snoc [of 15] by simp
  ultimately have "eeprom_send (msb_bits 16 v) c = commit_eeprom_data target v
      (c\<lparr>mbc7_eeprom_pins := raised_pins (bit v 0) c2, mbc7_eeprom_command := mbc7_eeprom_command c2\<rparr>)"
    using p by (simp only: send_append c2_def [symmetric] res_bind_simps)
  then show ?thesis by blast
qed

lemma answer_pin: "bit (read_eeprom_pins c) 0 = pin_do (mbc7_eeprom_pins c)"
  by (cases "pin_cs (mbc7_eeprom_pins c)"; cases "pin_clk (mbc7_eeprom_pins c)";
      cases "pin_di (mbc7_eeprom_pins c)"; cases "pin_do (mbc7_eeprom_pins c)")
    (simp_all add: read_eeprom_pins_def u8_of_bool_def MBC7_EEPROM_PIN_DO_def)

lemma low_bit_test: "(drop_bit n (w :: u16) AND 1 \<noteq> 0) = bit w n"
  by (simp add: and_one_eq bit_iff_odd_drop_bit odd_iff_mod_2_eq_one)

lemma eeprom_receive_bits:
  "mbc7_registers_enabled c \<Longrightarrow> n \<le> 16 \<Longrightarrow>
   mbc7_eeprom_command c = (if n = 0 then EepromIdle else SendingRead (of_nat n) v) \<Longrightarrow>
     \<exists>p. eeprom_receive n c
       = Inr (msb_bits n v, c\<lparr>mbc7_eeprom_pins := p, mbc7_eeprom_command := EepromIdle\<rparr>)"
proof (induction n arbitrary: c)
  case 0
  then show ?case by (auto simp: msb_bits_def intro!: exI [of _ "mbc7_eeprom_pins c"])
next
  case (Suc n)
  define c1 where "c1 = c\<lparr>mbc7_eeprom_pins := (raised_pins False c)\<lparr>pin_do := bit v n\<rparr>,
    mbc7_eeprom_command := (if n = 0 then EepromIdle else SendingRead (of_nat n) v)\<rparr>"
  have suc: "unat (of_nat (Suc n) :: u8) = Suc n" and n: "unat (of_nat n :: u8) = n"
    using Suc.prems(2) by (simp_all add: unsigned_of_nat take_bit_eq_mod del: of_nat_Suc)
  have nonzero: "(1 + of_nat n :: u8) \<noteq> 0"
  proof
    assume "(1 + of_nat n :: u8) = 0"
    then have "unat (of_nat (Suc n) :: u8) = 0" by simp
    with suc show False by linarith
  qed
  have zero: "((of_nat n :: u8) = 0) = (n = 0)" using n by fastforce
  have "eeprom_clock_bit False c = Inr c1"
    using Suc.prems(1,3) nonzero zero n
    by (simp add: clock_bit_is clock_eeprom_def Let_def c1_def mbc7_command_def mbc7_do_def low_bit_test)
  moreover have "mbc7_registers_enabled c1" using Suc.prems(1) by (simp add: c1_def mbc7_registers_enabled_def)
  moreover have "bit (read_eeprom_pins c1) 0 = bit v n" by (simp add: answer_pin c1_def)
  moreover obtain p where "eeprom_receive n c1
      = Inr (msb_bits n v, c1\<lparr>mbc7_eeprom_pins := p, mbc7_eeprom_command := EepromIdle\<rparr>)"
    using Suc.IH [of c1] calculation Suc.prems(2) by (auto simp: c1_def)
  ultimately show ?case by (auto simp: mbc7_eeprom_port msb_bits_Suc c1_def)
qed

lemma command_opcode:
  "drop_bit 8 (take_bit 10 (push_bit 8 opcode OR ucast (a :: u8)) :: u16) AND 3 = take_bit 2 opcode"
proof -
  have "(3 :: u16) = Bit_Operations.mask 2" by (simp add: mask_eq_exp_minus_1)
  then show ?thesis
    by (simp only: take_bit_eq_mask [symmetric])
      (rule bit_word_eqI, auto simp: bit_take_bit_iff bit_drop_bit_eq bit_or_iff bit_push_bit_iff
        bit_ucast_iff dest: bit_imp_le_length)
qed

lemma command_address:
  "eeprom_word_offset (ucast (take_bit 10 (push_bit 8 opcode OR ucast (a :: u8)) AND 0x7F :: u16))
     = unat a mod 128 * 2"
proof -
  have "ucast (take_bit 10 (push_bit 8 opcode OR ucast a) AND 0x7F :: u16) = (take_bit 7 a :: u8)"
  proof -
    have "(0x7F :: u16) = Bit_Operations.mask 7" by (simp add: mask_eq_exp_minus_1)
    then show ?thesis
      by (simp only: take_bit_eq_mask [symmetric])
        (rule bit_word_eqI, auto simp: bit_take_bit_iff bit_or_iff bit_push_bit_iff bit_ucast_iff
          dest: bit_imp_le_length)
  qed
  moreover have "unat (take_bit 7 a) mod 128 = unat a mod 128"
    by (simp only: unsigned_take_bit_eq) (simp add: take_bit_eq_mod)
  ultimately show ?thesis by (simp only: eeprom_word_offset_def MBC7_EEPROM_WORDS_def)
qed

subsection \<open>The EEPROM as a memory of words\<close>

text \<open>What the chip's data sheet promises: a write-protected memory of 128 words.\<close>

datatype eeprom_operation =
    ReadOp u8
  | WriteOp u8 u16
  | EraseOp u8
  | WriteAllOp u16
  | EraseAllOp
  | AllowWritesOp
  | ForbidWritesOp

type_synonym eeprom_model = "bool \<times> (nat \<Rightarrow> u16)"

fun eeprom_spec :: "eeprom_operation \<Rightarrow> eeprom_model \<Rightarrow> bool list \<times> eeprom_model" where
  "eeprom_spec (ReadOp a) (w, m) = (msb_bits 16 (m (unat a mod 128)), (w, m))"
| "eeprom_spec (WriteOp a v) (w, m) = ([], (w, if w then m(unat a mod 128 := v) else m))"
| "eeprom_spec (EraseOp a) (w, m) = ([], (w, if w then m(unat a mod 128 := 0xFFFF) else m))"
| "eeprom_spec (WriteAllOp v) (w, m) = ([], (w, if w then (\<lambda>_. v) else m))"
| "eeprom_spec EraseAllOp (w, m) = ([], (w, if w then (\<lambda>_. 0xFFFF) else m))"
| "eeprom_spec AllowWritesOp (w, m) = ([], (True, m))"
| "eeprom_spec ForbidWritesOp (w, m) = ([], (False, m))"

text \<open>The bits the program clocks in for an operation, and how many it clocks out.\<close>

fun eeprom_operation_bits :: "eeprom_operation \<Rightarrow> bool list" where
  "eeprom_operation_bits (ReadOp a) = eeprom_command_bits 2 a"
| "eeprom_operation_bits (WriteOp a v) = eeprom_command_bits 1 a @ msb_bits 16 v"
| "eeprom_operation_bits (EraseOp a) = eeprom_command_bits 3 a"
| "eeprom_operation_bits (WriteAllOp v) = eeprom_command_bits 0 0x40 @ msb_bits 16 v"
| "eeprom_operation_bits EraseAllOp = eeprom_command_bits 0 0x80"
| "eeprom_operation_bits AllowWritesOp = eeprom_command_bits 0 0xC0"
| "eeprom_operation_bits ForbidWritesOp = eeprom_command_bits 0 0x00"

definition eeprom_answer_bits :: "eeprom_operation \<Rightarrow> nat" where
  "eeprom_answer_bits oper = (case oper of ReadOp _ \<Rightarrow> 16 | _ \<Rightarrow> 0)"

text \<open>One transaction over the pins: deselect, clock the bits in, clock the answer out.\<close>

definition eeprom_transaction :: "eeprom_operation \<Rightarrow> mbc7_cartridge \<Rightarrow> (bool list \<times> mbc7_cartridge) res" where
  "eeprom_transaction oper c =
     res_bind (mbc7_write_ram 0xA080 0 c) (\<lambda>c0.
       res_bind (eeprom_send (eeprom_operation_bits oper) c0) (eeprom_receive (eeprom_answer_bits oper)))"

definition eeprom_word :: "u8 list \<Rightarrow> nat \<Rightarrow> u16" where
  "eeprom_word cells i = from_be_bytes (cells ! (i * 2)) (cells ! (i * 2 + 1))"

definition eeprom_models :: "mbc7_cartridge \<Rightarrow> eeprom_model \<Rightarrow> bool" where
  "eeprom_models c m =
     (mbc7_registers_enabled c \<and> length (mbc7_eeprom c) = MBC7_EEPROM_BYTES
      \<and> mbc7_eeprom_write_enabled c = fst m
      \<and> (\<forall>i < 128. eeprom_word (mbc7_eeprom c) i = snd m i))"

lemma eeprom_word_update:
  assumes "length cells = 256" and "i < 128" and "j < 128"
  shows "eeprom_word (cells[j * 2 := hi_byte v, j * 2 + 1 := lo_byte v]) i
    = (if i = j then v else eeprom_word cells i)"
proof -
  have "j * 2 + 1 < 256" "i * 2 + 1 < 256" "i * 2 \<noteq> j * 2 + 1" "i * 2 + 1 \<noteq> j * 2"
    using assms(2,3) by presburger+
  then show ?thesis
    using assms(1) by (auto simp: eeprom_word_def nth_list_update)
qed

lemma eeprom_word_put:
  assumes "length cells = 256" and "i < 128"
  shows "eeprom_word (eeprom_put_word a v cells) i
    = (if i = unat a mod 128 then v else eeprom_word cells i)"
  using eeprom_word_update [OF assms, of "unat a mod 128" v]
  by (simp only: eeprom_put_word_def eeprom_word_offset_def MBC7_EEPROM_WORDS_def mod_less_divisor
      zero_less_numeral simp_thms)

lemma fold_put_get:
  assumes "\<And>a cells. length cells = n \<Longrightarrow> length (put a cells) = n"
    and "\<And>a cells. length cells = n \<Longrightarrow> get (put a cells) = (if i = f a then v else get cells)"
  shows "length cells = n \<Longrightarrow> get (fold put as cells) = (if i \<in> f ` set as then v else get cells)"
  by (induction as arbitrary: cells) (auto simp: assms)

lemma eeprom_word_put_all:
  assumes "length cells = 256" and "i < 128"
  shows "eeprom_word (fold (\<lambda>a. eeprom_put_word (of_nat a) v) as cells) i
    = (if i \<in> (\<lambda>a. unat (of_nat a :: u8) mod 128) ` set as then v else eeprom_word cells i)"
  by (rule fold_put_get [where get = "\<lambda>cells. eeprom_word cells i", OF _ _ assms(1)])
    (simp_all only: length_put_word eeprom_word_put [OF _ assms(2)])

lemma all_word_indices: "i < 128 \<Longrightarrow> i \<in> (\<lambda>a. unat (of_nat a :: u8) mod 128) ` set [0..<MBC7_EEPROM_WORDS]"
  by (rule image_eqI [of _ _ i]) (simp_all add: unsigned_of_nat take_bit_eq_mod MBC7_EEPROM_WORDS_def)

text \<open>A transaction starts from an idle command.\<close>

lemma eeprom_deselect:
  "mbc7_registers_enabled c \<Longrightarrow>
     \<exists>p. mbc7_write_ram 0xA080 0 c = Inr (c\<lparr>mbc7_eeprom_pins := p, mbc7_eeprom_command := EepromIdle\<rparr>)"
  by (simp add: mbc7_eeprom_port write_eeprom_pins_def Let_def mbc7_idle_def mbc7_do_def mbc7_command_def
      pins_before_command) blast

lemma eeprom_word_read:
  "length (mbc7_eeprom c) = MBC7_EEPROM_BYTES \<Longrightarrow> eeprom_word_offset a = unat b mod 128 * 2 \<Longrightarrow>
     read_eeprom_word a c = Inr (eeprom_word (mbc7_eeprom c) (unat (b :: u8) mod 128))"
  by (simp add: read_eeprom_word_total eeprom_word_def)

text \<open>The command part of a transaction ends in the execution of the command.\<close>

lemma transaction_command:
  assumes "mbc7_registers_enabled c"
  shows "\<exists>p cmd. res_bind (mbc7_write_ram 0xA080 0 c) (\<lambda>c0. eeprom_send (eeprom_command_bits opcode a) c0)
    = finish_eeprom_command (take_bit 10 (push_bit 8 opcode OR ucast a))
        (c\<lparr>mbc7_eeprom_pins := p, mbc7_eeprom_command := cmd\<rparr>)"
proof -
  obtain p where p: "mbc7_write_ram 0xA080 0 c
      = Inr (c\<lparr>mbc7_eeprom_pins := p, mbc7_eeprom_command := EepromIdle\<rparr>)"
    using eeprom_deselect [OF assms] by blast
  have "mbc7_registers_enabled (c\<lparr>mbc7_eeprom_pins := p, mbc7_eeprom_command := EepromIdle\<rparr>)"
    using assms by (simp add: mbc7_registers_enabled_def)
  from eeprom_send_command [OF this, of opcode a] show ?thesis
    by (auto simp: p)
qed

lemma res_bind_assoc: "res_bind (res_bind m f) g = res_bind m (\<lambda>x. res_bind (f x) g)"
  by (cases m) simp_all

lemma models_frame:
  "eeprom_models (c\<lparr>mbc7_eeprom_pins := p, mbc7_eeprom_command := cmd\<rparr>) m = eeprom_models c m"
  by (simp add: eeprom_models_def mbc7_registers_enabled_def)

lemma models_idle: "eeprom_models (mbc7_idle c) m = eeprom_models c m"
  by (simp add: eeprom_models_def mbc7_registers_enabled_def mbc7_idle_def mbc7_do_def mbc7_command_def)

lemma models_write:
  "eeprom_models c (w, m) \<Longrightarrow>
     eeprom_models (c\<lparr>mbc7_eeprom := eeprom_put_word a v (mbc7_eeprom c)\<rparr>) (w, m(unat a mod 128 := v))"
  by (auto simp: eeprom_models_def mbc7_registers_enabled_def eeprom_word_put MBC7_EEPROM_BYTES_def)

lemma models_write_all:
  "eeprom_models c (w, m) \<Longrightarrow>
     eeprom_models (c\<lparr>mbc7_eeprom := fold (\<lambda>a. eeprom_put_word (of_nat a) v) [0..<MBC7_EEPROM_WORDS] (mbc7_eeprom c)\<rparr>)
       (w, \<lambda>_. v)"
  using all_word_indices
  by (simp add: eeprom_models_def mbc7_registers_enabled_def MBC7_EEPROM_BYTES_def eeprom_word_put_all
      del: set_upt)

lemma models_fill:
  "eeprom_models c (w, m) \<Longrightarrow>
     eeprom_models (c\<lparr>mbc7_eeprom := replicate (length (mbc7_eeprom c)) 0xFF\<rparr>) (w, \<lambda>_. 0xFFFF)"
proof -
  have "from_be_bytes 0xFF 0xFF = (0xFFFF :: u16)" by (simp add: from_be_bytes_def)
  then show "eeprom_models c (w, m) \<Longrightarrow> ?thesis"
    by (auto simp: eeprom_models_def mbc7_registers_enabled_def eeprom_word_def MBC7_EEPROM_BYTES_def)
qed

lemma same_word: "eeprom_word_offset a = unat (b :: u8) mod 128 * 2 \<Longrightarrow> eeprom_put_word a v = eeprom_put_word b v"
  by (simp add: eeprom_put_word_def fun_eq_iff eeprom_word_offset_def MBC7_EEPROM_WORDS_def)

text \<open>Writing the word on the data pin after a write command stores it.\<close>

lemma eeprom_stored:
  assumes "eeprom_models c m"
  shows "\<exists>p cmd. eeprom_send (msb_bits 16 v) (mbc7_command (ReceivingData target 0 0) c)
    = commit_eeprom_data target v (c\<lparr>mbc7_eeprom_pins := p, mbc7_eeprom_command := cmd\<rparr>)"
proof -
  have "mbc7_registers_enabled (mbc7_command (ReceivingData target 0 0) c)"
    using assms by (simp add: eeprom_models_def mbc7_registers_enabled_def mbc7_command_def)
  moreover have "mbc7_eeprom_command (mbc7_command (ReceivingData target 0 0) c) = ReceivingData target 0 0"
    by (simp add: mbc7_command_def)
  ultimately show ?thesis
    using eeprom_send_word [of "mbc7_command (ReceivingData target 0 0) c" target v]
    by (auto simp: mbc7_command_def)
qed

lemma eeprom_committed:
  assumes "eeprom_models c (w, m)"
  shows "\<exists>c'. commit_eeprom_data (WriteWord a) v c = Inr c'
      \<and> eeprom_models c' (w, if w then m(unat a mod 128 := v) else m)"
    and "\<exists>c'. commit_eeprom_data WriteAllWords v c = Inr c'
      \<and> eeprom_models c' (w, if w then (\<lambda>_. v) else m)"
proof -
  have len: "length (mbc7_eeprom c) = MBC7_EEPROM_BYTES" and en: "mbc7_eeprom_write_enabled c = w"
    using assms by (simp_all add: eeprom_models_def)
  show "\<exists>c'. commit_eeprom_data (WriteWord a) v c = Inr c'
      \<and> eeprom_models c' (w, if w then m(unat a mod 128 := v) else m)"
    using models_write [OF assms] assms
    by (cases w) (simp_all add: commit_eeprom_data_def write_eeprom_word_total len en models_idle)
  show "\<exists>c'. commit_eeprom_data WriteAllWords v c = Inr c'
      \<and> eeprom_models c' (w, if w then (\<lambda>_. v) else m)"
    using models_write_all [OF assms] assms
    by (cases w) (simp_all add: commit_eeprom_data_def write_eeprom_words_total len en models_idle del: set_upt)
qed

text \<open>The execution of the commands that end with their last bit.\<close>

definition command_word :: "u16 \<Rightarrow> u8 \<Rightarrow> u16" where
  "command_word opcode a = take_bit 10 (push_bit 8 opcode OR ucast a)"

lemma extended_selector: "drop_bit 6 (command_word 0 a) AND 3 = ucast (drop_bit 6 a)"
proof -
  have "(3 :: u16) = Bit_Operations.mask 2" by (simp add: mask_eq_exp_minus_1)
  then show ?thesis
    by (simp only: command_word_def take_bit_eq_mask [symmetric])
      (rule bit_word_eqI, auto simp: bit_take_bit_iff bit_drop_bit_eq bit_or_iff bit_push_bit_iff
        bit_ucast_iff dest: bit_imp_le_length)
qed

lemma command_opcodes:
  "drop_bit 8 (command_word 0 a) AND 3 = 0" "drop_bit 8 (command_word 1 a) AND 3 = 1"
  "drop_bit 8 (command_word 2 a) AND 3 = 2" "drop_bit 8 (command_word 3 a) AND 3 = 3"
  by (simp_all only: command_word_def command_opcode) simp_all

lemma models_fields:
  assumes "eeprom_models c (w, m)"
  shows "length (mbc7_eeprom c) = MBC7_EEPROM_BYTES" and "mbc7_eeprom_write_enabled c = w"
    and "i < 128 \<Longrightarrow> eeprom_word (mbc7_eeprom c) i = m i"
  using assms by (simp_all add: eeprom_models_def)

lemma idle_command: "mbc7_eeprom_command (mbc7_idle c) = EepromIdle"
  by (simp add: mbc7_idle_def mbc7_do_def mbc7_command_def)

lemma models_protection: "eeprom_models c (w, m) \<Longrightarrow> eeprom_models (c\<lparr>mbc7_eeprom_write_enabled := e\<rparr>) (e, m)"
  by (simp add: eeprom_models_def mbc7_registers_enabled_def)

lemmas finish_simps = finish_eeprom_command_def finish_eeprom_extended_command_def Let_def
  command_opcodes extended_selector models_idle idle_command

lemma executed_protection:
  assumes "eeprom_models c (w, m)"
  shows "\<exists>c'. finish_eeprom_command (command_word 0 0xC0) c = Inr c' \<and> mbc7_eeprom_command c' = EepromIdle
      \<and> eeprom_models c' (True, m)"
    and "\<exists>c'. finish_eeprom_command (command_word 0 0) c = Inr c' \<and> mbc7_eeprom_command c' = EepromIdle
      \<and> eeprom_models c' (False, m)"
  using models_protection [OF assms] by (simp_all add: finish_simps)

lemma executed_erase_all:
  assumes "eeprom_models c (w, m)"
  shows "\<exists>c'. finish_eeprom_command (command_word 0 0x80) c = Inr c' \<and> mbc7_eeprom_command c' = EepromIdle
      \<and> eeprom_models c' (w, if w then (\<lambda>_. 0xFFFF) else m)"
  using models_fill [OF assms] assms models_fields(2) [OF assms] by (cases w) (simp_all add: finish_simps)

lemma all_ones: "(- 1 :: u16) = 0xFFFF"
  by simp

lemma executed_erase:
  assumes "eeprom_models c (w, m)"
  shows "\<exists>c'. finish_eeprom_command (command_word 3 a) c = Inr c' \<and> mbc7_eeprom_command c' = EepromIdle
      \<and> eeprom_models c' (w, if w then m(unat a mod 128 := 0xFFFF) else m)"
proof -
  have "eeprom_put_word (ucast (command_word 3 a AND 0x7F)) v = eeprom_put_word a v" for v
    unfolding command_word_def by (rule same_word) (rule command_address)
  then show ?thesis
    using models_write [OF assms, of a "0xFFFF"] assms models_fields(1,2) [OF assms]
    by (cases w) (simp_all add: finish_simps write_eeprom_word_total all_ones)
qed

lemma executed_transfers:
  assumes "eeprom_models c (w, m)"
  shows "finish_eeprom_command (command_word 0 0x40) c = Inr (mbc7_command (ReceivingData WriteAllWords 0 0) c)"
    and "finish_eeprom_command (command_word 1 a) c
      = Inr (mbc7_command (ReceivingData (WriteWord (ucast (command_word 1 a AND 0x7F))) 0 0) c)"
    and "finish_eeprom_command (command_word 2 a) c
      = Inr (mbc7_do False (mbc7_command (SendingRead 16 (m (unat a mod 128))) c))"
proof -
  have "read_eeprom_word (ucast (command_word 2 a AND 0x7F)) c = Inr (m (unat a mod 128))"
    using eeprom_word_read [OF models_fields(1) [OF assms] command_address, of 2 a]
      models_fields(3) [OF assms, of "unat a mod 128"] by (simp add: command_word_def)
  then show "finish_eeprom_command (command_word 2 a) c
      = Inr (mbc7_do False (mbc7_command (SendingRead 16 (m (unat a mod 128))) c))"
    by (simp add: finish_simps MBC7_EEPROM_DATA_BITS_def)
qed (simp_all add: finish_simps)

lemma transaction_start:
  assumes "eeprom_models c m"
  shows "\<exists>c1. eeprom_models c1 m \<and> (\<forall>rest. res_bind (mbc7_write_ram 0xA080 0 c)
      (\<lambda>c0. res_bind (eeprom_send (eeprom_command_bits opcode a) c0) rest)
    = res_bind (finish_eeprom_command (command_word opcode a) c1) rest)"
proof -
  have "mbc7_registers_enabled c" using assms by (simp add: eeprom_models_def)
  from transaction_command [OF this, of opcode a] obtain p cmd where
    "res_bind (mbc7_write_ram 0xA080 0 c) (\<lambda>c0. eeprom_send (eeprom_command_bits opcode a) c0)
      = finish_eeprom_command (command_word opcode a) (c\<lparr>mbc7_eeprom_pins := p, mbc7_eeprom_command := cmd\<rparr>)"
    by (auto simp: command_word_def)
  with assms show ?thesis
    by (intro exI [of _ "c\<lparr>mbc7_eeprom_pins := p, mbc7_eeprom_command := cmd\<rparr>"])
      (simp add: models_frame res_bind_assoc [symmetric])
qed

lemma answerless: "eeprom_receive 0 = (\<lambda>c. Inr ([], c))"
  by (simp add: fun_eq_iff)

lemma transaction_immediate:
  assumes "eeprom_models c m" and "eeprom_operation_bits oper = eeprom_command_bits opcode a"
    and "eeprom_answer_bits oper = 0"
    and "\<And>c1. eeprom_models c1 m \<Longrightarrow> \<exists>c'. finish_eeprom_command (command_word opcode a) c1 = Inr c'
      \<and> mbc7_eeprom_command c' = EepromIdle \<and> eeprom_models c' m'"
  shows "\<exists>c'. eeprom_transaction oper c = Inr ([], c') \<and> eeprom_models c' m'"
proof -
  obtain c1 where c1: "eeprom_models c1 m"
    and run: "eeprom_transaction oper c = res_bind (finish_eeprom_command (command_word opcode a) c1) (eeprom_receive 0)"
    using transaction_start [OF assms(1), of opcode a] by (auto simp: eeprom_transaction_def assms(2,3))
  with assms(4) [OF c1] show ?thesis by (auto simp: answerless)
qed

lemma transaction_stored:
  assumes "eeprom_models c m" and "eeprom_operation_bits oper = eeprom_command_bits opcode a @ msb_bits 16 v"
    and "eeprom_answer_bits oper = 0"
    and "\<And>c1. eeprom_models c1 m \<Longrightarrow> finish_eeprom_command (command_word opcode a) c1
      = Inr (mbc7_command (ReceivingData target 0 0) c1)"
    and "\<And>c1. eeprom_models c1 m \<Longrightarrow> \<exists>c'. commit_eeprom_data target v c1 = Inr c' \<and> eeprom_models c' m'"
  shows "\<exists>c'. eeprom_transaction oper c = Inr ([], c') \<and> eeprom_models c' m'"
proof -
  obtain c1 where c1: "eeprom_models c1 m"
    and run: "eeprom_transaction oper c = res_bind (finish_eeprom_command (command_word opcode a) c1)
      (\<lambda>c. res_bind (eeprom_send (msb_bits 16 v) c) (eeprom_receive 0))"
    using transaction_start [OF assms(1), of opcode a]
    by (auto simp: eeprom_transaction_def assms(2,3) send_append res_bind_assoc)
  obtain p cmd where "eeprom_send (msb_bits 16 v) (mbc7_command (ReceivingData target 0 0) c1)
      = commit_eeprom_data target v (c1\<lparr>mbc7_eeprom_pins := p, mbc7_eeprom_command := cmd\<rparr>)"
    using eeprom_stored [OF c1] by blast
  with assms(5) [of "c1\<lparr>mbc7_eeprom_pins := p, mbc7_eeprom_command := cmd\<rparr>"] assms(4) [OF c1] c1 run
  show ?thesis by (auto simp: models_frame answerless)
qed

lemma transaction_read:
  assumes "eeprom_models c (w, m)"
  shows "\<exists>c'. eeprom_transaction (ReadOp a) c = Inr (msb_bits 16 (m (unat a mod 128)), c')
    \<and> eeprom_models c' (w, m)"
proof -
  obtain c1 where c1: "eeprom_models c1 (w, m)"
    and run: "eeprom_transaction (ReadOp a) c = res_bind (finish_eeprom_command (command_word 2 a) c1) (eeprom_receive 16)"
    using transaction_start [OF assms, of 2 a] by (auto simp: eeprom_transaction_def eeprom_answer_bits_def)
  let ?c2 = "mbc7_do False (mbc7_command (SendingRead 16 (m (unat a mod 128))) c1)"
  have "mbc7_registers_enabled ?c2" and "mbc7_eeprom_command ?c2 = SendingRead 16 (m (unat a mod 128))"
    using c1 by (simp_all add: eeprom_models_def mbc7_registers_enabled_def mbc7_do_def mbc7_command_def)
  then obtain p where "eeprom_receive 16 ?c2 = Inr (msb_bits 16 (m (unat a mod 128)),
      ?c2\<lparr>mbc7_eeprom_pins := p, mbc7_eeprom_command := EepromIdle\<rparr>)"
    using eeprom_receive_bits [of ?c2 16] by auto
  moreover have "eeprom_models (?c2\<lparr>mbc7_eeprom_pins := p, mbc7_eeprom_command := EepromIdle\<rparr>) (w, m)"
    using c1 by (simp add: eeprom_models_def mbc7_registers_enabled_def mbc7_do_def mbc7_command_def)
  ultimately show ?thesis using run executed_transfers(3) [OF c1, of a] by simp
qed

lemma write_target: "unat (ucast (command_word 1 a AND 0x7F) :: u8) mod 128 = unat a mod 128"
  using command_address [of 1 a] by (simp add: eeprom_word_offset_def MBC7_EEPROM_WORDS_def command_word_def)

lemma eeprom_transaction_simulates:
  assumes "eeprom_models c (w, m)"
  shows "\<exists>c'. eeprom_transaction oper c = Inr (fst (eeprom_spec oper (w, m)), c')
    \<and> eeprom_models c' (snd (eeprom_spec oper (w, m)))"
proof (cases oper)
  case (ReadOp a)
  then show ?thesis using transaction_read [OF assms] by simp
next
  case (WriteOp a v)
  let ?target = "WriteWord (ucast (command_word 1 a AND 0x7F))"
  have "\<exists>c'. commit_eeprom_data ?target v c1 = Inr c'
      \<and> eeprom_models c' (w, if w then m(unat a mod 128 := v) else m)" if "eeprom_models c1 (w, m)" for c1
    using eeprom_committed(1) [OF that, of "ucast (command_word 1 a AND 0x7F)" v] by (simp only: write_target)
  with transaction_stored [OF assms _ _ executed_transfers(2), of oper a] WriteOp show ?thesis
    by (simp add: eeprom_answer_bits_def)
next
  case (EraseOp a)
  with transaction_immediate [OF assms _ _ executed_erase, of oper a] show ?thesis
    by (simp add: eeprom_answer_bits_def)
next
  case (WriteAllOp v)
  with transaction_stored [OF assms _ _ executed_transfers(1) eeprom_committed(2), of oper v] show ?thesis
    by (simp add: eeprom_answer_bits_def)
next
  case EraseAllOp
  with transaction_immediate [OF assms _ _ executed_erase_all, of oper] show ?thesis
    by (simp add: eeprom_answer_bits_def)
next
  case AllowWritesOp
  with transaction_immediate [OF assms _ _ executed_protection(1), of oper] show ?thesis
    by (simp add: eeprom_answer_bits_def)
next
  case ForbidWritesOp
  with transaction_immediate [OF assms _ _ executed_protection(2), of oper] show ?thesis
    by (simp add: eeprom_answer_bits_def)
qed

text \<open>A session of transactions, and what the memory answers.\<close>

fun eeprom_session :: "eeprom_operation list \<Rightarrow> mbc7_cartridge \<Rightarrow> (bool list list \<times> mbc7_cartridge) res" where
  "eeprom_session [] c = Inr ([], c)"
| "eeprom_session (x # xs) c =
     res_bind (eeprom_transaction x c) (\<lambda>(r, c1). res_map (\<lambda>(rs, c2). (r # rs, c2)) (eeprom_session xs c1))"

fun eeprom_answers :: "eeprom_operation list \<Rightarrow> eeprom_model \<Rightarrow> bool list list \<times> eeprom_model" where
  "eeprom_answers [] m = ([], m)"
| "eeprom_answers (x # xs) m =
     (case eeprom_spec x m of (r, m1) \<Rightarrow> case eeprom_answers xs m1 of (rs, m2) \<Rightarrow> (r # rs, m2))"

text \<open>C39. Driven through its four pins, the MBC7 EEPROM is a write-protected memory of 128
  words: over every session of transactions the bits it answers are those of the words last
  written while writing was allowed, and no register write panics.\<close>

theorem eeprom_is_a_memory:
  assumes "eeprom_models c m"
  shows "\<exists>c'. eeprom_session xs c = Inr (fst (eeprom_answers xs m), c')
    \<and> eeprom_models c' (snd (eeprom_answers xs m))"
  using assms
proof (induction xs arbitrary: c m)
  case (Cons x xs)
  obtain w mem where m: "m = (w, mem)" by (rule prod.exhaust)
  obtain c1 where "eeprom_transaction x c = Inr (fst (eeprom_spec x m), c1)"
    and "eeprom_models c1 (snd (eeprom_spec x m))"
    using eeprom_transaction_simulates Cons.prems unfolding m by blast
  with Cons.IH [of c1 "snd (eeprom_spec x m)"] show ?case by (auto split: prod.split)
qed simp

definition sample_mbc7 :: mbc7_cartridge where
  "sample_mbc7 =
     \<lparr>cart_rom = replicate (2 * 0x4000) 0, cart_header = sample_header 2,
      cart_classification = sample_classification, mbc7_eeprom = replicate 256 0xFF,
      mbc7_ram_enabled = True, mbc7_sensor_eeprom_enabled = True, mbc7_rom_bank = 1,
      mbc7_accelerometer_input = accelerometer_neutral, mbc7_accelerometer_latch_armed = False,
      mbc7_latched_x = 0x8000, mbc7_latched_y = 0x8000, mbc7_eeprom_pins = eeprom_pins_default,
      mbc7_eeprom_command = EepromIdle, mbc7_eeprom_write_enabled = False\<rparr>"

lemma eeprom_is_a_memory_witness:
  "\<exists>c'. eeprom_session [WriteOp 3 0x1234, AllowWritesOp, WriteOp 5 0x00A5, ReadOp 5, ReadOp 3] sample_mbc7
     = Inr ([[], [], [], msb_bits 16 0x00A5, msb_bits 16 0xFFFF], c')"
proof -
  have "from_be_bytes 0xFF 0xFF = (0xFFFF :: u16)" by (simp add: from_be_bytes_def)
  then have "eeprom_models sample_mbc7 (False, \<lambda>_. 0xFFFF)"
    by (simp add: eeprom_models_def sample_mbc7_def mbc7_registers_enabled_def MBC7_EEPROM_BYTES_def
        eeprom_word_def)
  from eeprom_is_a_memory [OF this, of "[WriteOp 3 0x1234, AllowWritesOp, WriteOp 5 0x00A5, ReadOp 5, ReadOp 3]"]
  show ?thesis by auto
qed

end
