(* ===== verification/Cart_Mmm01.thy ===== *)
theory Cart_Mmm01
  imports Cart_Mapper
begin

text \<open>
  MMM01 (\<open>mmm01.rs\<close>): a multicart controller that starts on the menu at the end of the image,
  is configured with masks and high bits while unmapped, and locks them when it maps a game.
  \<open>read_rom\<close> takes its index modulo the image length; an empty image, which loading never
  makes, would panic there.
\<close>

record mmm01_cartridge = ram_board +
  mmm_mapped :: bool
  mmm_ram_enabled :: bool
  mmm_ram_bank_mask :: u8
  mmm_rom_bank_low :: u8
  mmm_rom_bank_mid :: u8
  mmm_ram_bank_low :: u8
  mmm_ram_bank_high :: u8
  mmm_rom_bank_high :: u8
  mmm_mode_write_disable :: bool
  mmm_banking_mode :: u8
  mmm_rom_bank_mask :: u8
  mmm_multiplex_enabled :: bool

definition mmm01_rom_bank_count :: "mmm01_cartridge \<Rightarrow> nat" where
  "mmm01_rom_bank_count c =
     max (case rom_bank_count (hdr_rom_size (cart_header c)) of
            Some n \<Rightarrow> n | None \<Rightarrow> length (cart_rom c) div 0x4000) 1"

definition mmm01_unmapped_rom_bank :: "u16 \<Rightarrow> mmm01_cartridge \<Rightarrow> nat" where
  "mmm01_unmapped_rom_bank address c =
     (let bank_count = mmm01_rom_bank_count c
      in if bank_count \<le> 1 then 0
         else if address < 0x4000 then bank_count - 2 else bank_count - 1)"

definition mmm01_masked_rom_bank_low :: "mmm01_cartridge \<Rightarrow> u8" where
  "mmm01_masked_rom_bank_low c = mmm_rom_bank_low c AND mmm_rom_bank_mask c"

definition mmm01_translated_rom_bank_low :: "mmm01_cartridge \<Rightarrow> u8" where
  "mmm01_translated_rom_bank_low c =
     (let unmasked = mmm_rom_bank_low c AND NOT (mmm_rom_bank_mask c)
      in if unmasked = 0 then mmm_rom_bank_low c OR 1 else mmm_rom_bank_low c)"

definition mmm01_low_bits :: "mmm01_cartridge \<Rightarrow> u8" where
  "mmm01_low_bits c =
     (if mmm_banking_mode c = 0 then mmm_ram_bank_low c AND mmm_ram_bank_mask c
      else mmm_ram_bank_low c AND 0x03)"

definition mmm01_effective_low_rom_bank :: "mmm01_cartridge \<Rightarrow> nat" where
  "mmm01_effective_low_rom_bank c =
     (let bank_count = mmm01_rom_bank_count c;
          mid_bits = (if mmm_multiplex_enabled c then mmm01_low_bits c else mmm_rom_bank_mid c);
          raw_bank = push_bit 7 (unat (mmm_rom_bank_high c)) OR push_bit 5 (unat mid_bits)
                     OR unat (mmm01_masked_rom_bank_low c)
      in if bank_count = 0 then 0 else raw_bank mod bank_count)"

definition mmm01_effective_high_rom_bank :: "mmm01_cartridge \<Rightarrow> nat" where
  "mmm01_effective_high_rom_bank c =
     (let bank_count = mmm01_rom_bank_count c;
          mid_bits = (if mmm_multiplex_enabled c then mmm_ram_bank_low c AND 0x03
                      else mmm_rom_bank_mid c AND 0x03);
          raw_bank = push_bit 7 (unat (mmm_rom_bank_high c)) OR push_bit 5 (unat mid_bits)
                     OR unat (mmm01_translated_rom_bank_low c)
      in if bank_count = 0 then 0 else raw_bank mod bank_count)"

definition mmm01_effective_ram_bank_count :: "mmm01_cartridge \<Rightarrow> nat" where
  "mmm01_effective_ram_bank_count c =
     (case cart_ram c of Some ram \<Rightarrow> max (length ram div 0x2000) 1 | None \<Rightarrow> 1)"

definition mmm01_effective_ram_bank :: "mmm01_cartridge \<Rightarrow> u8" where
  "mmm01_effective_ram_bank c =
     push_bit 2 (mmm_ram_bank_high c AND 0x03)
     OR (if mmm_multiplex_enabled c then mmm_rom_bank_mid c AND 0x03 else mmm01_low_bits c)"

definition mmm01_effective_ram_offset :: "u16 \<Rightarrow> mmm01_cartridge \<Rightarrow> nat" where
  "mmm01_effective_ram_offset address c =
     (unat (mmm01_effective_ram_bank c) mod mmm01_effective_ram_bank_count c) * 0x2000
     + ram_base_offset address"

definition mmm01_describe :: "u16 \<Rightarrow> mmm01_cartridge \<Rightarrow> cartridge_external_access_info" where
  "mmm01_describe address c =
     storage_access address (BankedRam (mmm01_effective_ram_bank c))
       (mmm_mapped c \<and> mmm_ram_enabled c \<and> cart_ram c \<noteq> None)
       (if mmm_mapped c \<and> mmm_ram_enabled c then Absent else Disabled)"

definition mmm01_low_window_bank :: "u16 \<Rightarrow> mmm01_cartridge \<Rightarrow> nat" where
  "mmm01_low_window_bank address c =
     (if \<not> mmm_mapped c then mmm01_unmapped_rom_bank address c else mmm01_effective_low_rom_bank c)"

definition mmm01_high_window_bank :: "u16 \<Rightarrow> mmm01_cartridge \<Rightarrow> nat" where
  "mmm01_high_window_bank address c =
     (if \<not> mmm_mapped c then mmm01_unmapped_rom_bank address c else mmm01_effective_high_rom_bank c)"

definition mmm01_read_rom :: "mmm01_cartridge \<Rightarrow> u16 \<Rightarrow> u8" where
  "mmm01_read_rom c address =
     (let rom_index = banked_rom_index (mmm01_low_window_bank address c)
                        (mmm01_high_window_bank address c) address
      in rom_get (cart_rom c)
           (if mmm01_rom_bank_count c = 0 then 0 else rom_index mod length (cart_rom c)))"

definition mmm01_mapped_rom_window ::
    "mmm01_cartridge \<Rightarrow> u16 \<Rightarrow> cartridge_mapped_rom_window option" where
  "mmm01_mapped_rom_window c address =
     banked_rom_window (mmm01_low_window_bank address c) (mmm01_high_window_bank address c) address"

definition mmm01_write_rom_bank_low :: "u8 \<Rightarrow> mmm01_cartridge \<Rightarrow> mmm01_cartridge" where
  "mmm01_write_rom_bank_low v c =
     (let lock_mask = mmm_rom_bank_mask c AND 0x1E
      in c\<lparr>mmm_rom_bank_low := (mmm_rom_bank_low c AND lock_mask) OR (v AND NOT lock_mask)\<rparr>)"

definition mmm01_write_ram_bank_low :: "u8 \<Rightarrow> mmm01_cartridge \<Rightarrow> mmm01_cartridge" where
  "mmm01_write_ram_bank_low v c =
     (let lock_mask = mmm_ram_bank_mask c AND 0x03
      in c\<lparr>mmm_ram_bank_low := (mmm_ram_bank_low c AND lock_mask) OR (v AND NOT lock_mask)\<rparr>)"

definition mmm01_write_rom :: "u16 \<Rightarrow> u8 \<Rightarrow> mmm01_cartridge \<Rightarrow> mmm01_cartridge" where
  "mmm01_write_rom address v c =
     (if address \<le> 0x1FFF then
        (let c1 = c\<lparr>mmm_ram_enabled := (v AND 0x0F = 0x0A)\<rparr>
         in if \<not> mmm_mapped c1 then
              (let c2 = c1\<lparr>mmm_ram_bank_mask := drop_bit 4 v AND 0x03\<rparr>
               in if v AND 0x40 \<noteq> 0 then c2\<lparr>mmm_mapped := True\<rparr> else c2)
            else c1)
      else if address \<le> 0x3FFF then
        (let c1 = mmm01_write_rom_bank_low (v AND 0x1F) c
         in if \<not> mmm_mapped c1 then c1\<lparr>mmm_rom_bank_mid := drop_bit 5 v AND 0x03\<rparr> else c1)
      else if address \<le> 0x5FFF then
        (let c1 = mmm01_write_ram_bank_low (v AND 0x03) c
         in if \<not> mmm_mapped c1 then
              c1\<lparr>mmm_ram_bank_high := drop_bit 2 v AND 0x03,
                 mmm_rom_bank_high := drop_bit 4 v AND 0x03,
                 mmm_mode_write_disable := (v AND 0x40 \<noteq> 0)\<rparr>
            else c1)
      else if address \<le> 0x7FFF then
        (let c1 = (if \<not> mmm_mode_write_disable c then c\<lparr>mmm_banking_mode := v AND 0x01\<rparr> else c)
         in if \<not> mmm_mapped c1 then
              c1\<lparr>mmm_rom_bank_mask := (drop_bit 1 v AND 0x1F) AND 0x1E,
                 mmm_multiplex_enabled := (v AND 0x40 \<noteq> 0)\<rparr>
            else c1)
      else c)"

definition mmm01_read_ram :: "mmm01_cartridge \<Rightarrow> u16 \<Rightarrow> u8" where
  "mmm01_read_ram c address =
     (if \<not> mmm_mapped c \<or> \<not> mmm_ram_enabled c then RAM_ABSENT_READ_VALUE
      else ram_get (cart_ram c) (mmm01_effective_ram_offset address c))"

definition mmm01_write_ram :: "u16 \<Rightarrow> u8 \<Rightarrow> mmm01_cartridge \<Rightarrow> mmm01_cartridge" where
  "mmm01_write_ram address v c =
     (if \<not> mmm_mapped c \<or> \<not> mmm_ram_enabled c then c
      else c\<lparr>cart_ram := ram_put (cart_ram c) (mmm01_effective_ram_offset address c) v\<rparr>)"

definition mmm01_persistence_metadata :: "mmm01_cartridge \<Rightarrow> cartridge_persistence_metadata" where
  "mmm01_persistence_metadata c = linear_ram_metadata c"

definition mmm01_persistent_state :: "mmm01_cartridge \<Rightarrow> persistent_cart_state" where
  "mmm01_persistent_state c = linear_ram_state Mmm01Ram c"

definition mmm01_payload :: "persistent_cart_state \<Rightarrow> u8 list option" where
  "mmm01_payload s = (case s of Mmm01Ram ram \<Rightarrow> Some ram | _ \<Rightarrow> None)"

definition mmm01_restore ::
    "persistent_cart_state \<Rightarrow> mmm01_cartridge \<Rightarrow> persistent_state_error + mmm01_cartridge" where
  "mmm01_restore s c = restore_linear_ram ''Mmm01Ram'' (mmm01_payload s) s c"

subsection \<open>Laws\<close>

lemma mmm01_window_banks:
  assumes "whole_banks c"
  shows "mmm01_low_window_bank a c < header_rom_banks c" "mmm01_high_window_bank a c < header_rom_banks c"
proof -
  have "mmm01_rom_bank_count c = header_rom_banks c" "0 < header_rom_banks c"
    using assms by (auto simp: mmm01_rom_bank_count_def whole_banks_def header_rom_banks_def split: option.splits)
  then show "mmm01_low_window_bank a c < header_rom_banks c" "mmm01_high_window_bank a c < header_rom_banks c"
    by (auto simp: mmm01_low_window_bank_def mmm01_high_window_bank_def mmm01_unmapped_rom_bank_def
        mmm01_effective_low_rom_bank_def mmm01_effective_high_rom_bank_def Let_def)
qed

lemma mmm01_read_unwrapped:
  assumes "whole_banks c" and "a < 0x8000"
  shows "mmm01_read_rom c a = rom_get (cart_rom c)
    (banked_rom_index (mmm01_low_window_bank a c) (mmm01_high_window_bank a c) a)"
proof -
  have "banked_rom_index (mmm01_low_window_bank a c) (mmm01_high_window_bank a c) a < length (cart_rom c)"
    using banked_rom_index_less [OF assms(2) mmm01_window_banks [OF assms(1)]] assms(1)
    by (simp add: whole_banks_def)
  moreover have "mmm01_rom_bank_count c \<noteq> 0" by (simp add: mmm01_rom_bank_count_def)
  ultimately show ?thesis by (simp add: mmm01_read_rom_def)
qed

lemma mmm01_register_fields [simp]:
  "cart_rom (mmm01_write_rom_bank_low v c) = cart_rom c" "cart_rom (mmm01_write_ram_bank_low v c) = cart_rom c"
  "cart_header (mmm01_write_rom_bank_low v c) = cart_header c"
  "cart_header (mmm01_write_ram_bank_low v c) = cart_header c"
  "cart_ram (mmm01_write_rom_bank_low v c) = cart_ram c" "cart_ram (mmm01_write_ram_bank_low v c) = cart_ram c"
  "cart_has_battery (mmm01_write_rom_bank_low v c) = cart_has_battery c"
  "cart_has_battery (mmm01_write_ram_bank_low v c) = cart_has_battery c"
  "mmm_mapped (mmm01_write_rom_bank_low v c) = mmm_mapped c"
  "mmm_mapped (mmm01_write_ram_bank_low v c) = mmm_mapped c"
  by (simp_all add: mmm01_write_rom_bank_low_def mmm01_write_ram_bank_low_def Let_def)

lemma mmm01_write_fields [simp]:
  "cart_rom (mmm01_write_rom a v c) = cart_rom c" "cart_rom (mmm01_write_ram a v c) = cart_rom c"
  "cart_header (mmm01_write_rom a v c) = cart_header c" "cart_header (mmm01_write_ram a v c) = cart_header c"
  "cart_ram (mmm01_write_rom a v c) = cart_ram c"
  "cart_has_battery (mmm01_write_rom a v c) = cart_has_battery c"
  "cart_has_battery (mmm01_write_ram a v c) = cart_has_battery c"
  "map_option length (cart_ram (mmm01_write_ram a v c)) = map_option length (cart_ram c)"
  by (simp_all add: mmm01_write_rom_def mmm01_write_ram_def Let_def)

interpretation mmm01_ram: linear_payload Mmm01Ram mmm01_payload
  by unfold_locales (auto simp: mmm01_payload_def split: persistent_cart_state.splits)

interpretation mmm01: banked_mapper mmm01_read_rom mmm01_mapped_rom_window mmm01_write_rom
  mmm01_write_ram mmm01_persistent_state mmm01_restore cart_rom ram_board_key "\<lambda>_. True" whole_banks
proof unfold_locales
  show "\<exists>w. mmm01_mapped_rom_window c a = Some w \<and> win_bank_offset w < win_bank_size w
      \<and> mmm01_read_rom c a = rom_get (cart_rom c) (window_index w)"
    if "whole_banks c" and "a < 0x8000" for a c
    using banked_window_reads [OF that(2)] mmm01_read_unwrapped [OF that]
    by (simp add: mmm01_mapped_rom_window_def)
next
  fix c c' s assume "whole_banks c" and "mmm01_restore s c = Inr c'"
  then show "whole_banks c' \<and> ram_board_key c' = ram_board_key c \<and> cart_rom c' = cart_rom c
      \<and> mmm01_persistent_state c' = s"
    by (auto simp: mmm01_restore_def mmm01_persistent_state_def ram_board_key_def
        whole_banks_def header_rom_banks_def dest!: mmm01_ram.restored)
next
  show "window_index w < length (cart_rom c)"
    if "whole_banks c" and "mmm01_mapped_rom_window c a = Some w" for c a w
    using that mmm01_window_banks [OF that(1), of a] banked_window_inside
    by (auto simp: mmm01_mapped_rom_window_def whole_banks_def)
next
  show "True \<and> (\<exists>d'. mmm01_restore (mmm01_persistent_state c) d = Inr d')"
    if "ram_board_key c = ram_board_key d" for c d
    using mmm01_ram.captured [OF that] by (simp add: mmm01_restore_def mmm01_persistent_state_def)
qed (simp_all add: mmm01_mapped_rom_window_def banked_rom_window_none whole_banks_fields
    mmm01_persistent_state_def)

definition mmm01_cell :: "mmm01_cartridge \<Rightarrow> u16 \<Rightarrow> nat option" where
  "mmm01_cell c address =
     linear_cell (mmm_mapped c \<and> mmm_ram_enabled c) (cart_ram c) (mmm01_effective_ram_offset address c)"

lemma mmm01_offset_write [simp]:
  "mmm01_effective_ram_offset b (c\<lparr>cart_ram := ram_put (cart_ram c) i v\<rparr>) = mmm01_effective_ram_offset b c"
  by (auto simp: mmm01_effective_ram_offset_def mmm01_effective_ram_bank_def Let_def ram_put_def
      mmm01_effective_ram_bank_count_def mmm01_low_bits_def split: option.split)

interpretation mmm01_memory: external_ram mmm01_read_ram mmm01_write_ram mmm01_cell "\<lambda>v. v"
  by unfold_locales
    (auto simp: mmm01_read_ram_def mmm01_write_ram_def mmm01_cell_def ram_get_put_cell)

text \<open>Once a game is mapped the configuration is locked: only unlocked bank bits still change.\<close>

definition mmm01_locked_part :: "mmm01_cartridge \<Rightarrow> u8 \<times> u8 \<times> u8 \<times> u8 \<times> u8 \<times> bool \<times> bool \<times> u8 \<times> u8" where
  "mmm01_locked_part c =
     (mmm_ram_bank_mask c, mmm_rom_bank_mask c, mmm_rom_bank_mid c, mmm_ram_bank_high c,
      mmm_rom_bank_high c, mmm_mode_write_disable c, mmm_multiplex_enabled c,
      mmm_rom_bank_low c AND (mmm_rom_bank_mask c AND 0x1E),
      mmm_ram_bank_low c AND (mmm_ram_bank_mask c AND 0x03))"

lemma locked_bits: "((x AND m) OR (v AND NOT m)) AND m = x AND (m :: u8)"
  by (rule bit_word_eqI) (auto simp: bit_simps)

lemma mmm01_register_masks:
  "mmm_ram_bank_mask (mmm01_write_rom_bank_low v c) = mmm_ram_bank_mask c"
  "mmm_rom_bank_mask (mmm01_write_rom_bank_low v c) = mmm_rom_bank_mask c"
  "mmm_rom_bank_mid (mmm01_write_rom_bank_low v c) = mmm_rom_bank_mid c"
  "mmm_ram_bank_high (mmm01_write_rom_bank_low v c) = mmm_ram_bank_high c"
  "mmm_rom_bank_high (mmm01_write_rom_bank_low v c) = mmm_rom_bank_high c"
  "mmm_mode_write_disable (mmm01_write_rom_bank_low v c) = mmm_mode_write_disable c"
  "mmm_multiplex_enabled (mmm01_write_rom_bank_low v c) = mmm_multiplex_enabled c"
  "mmm_ram_bank_low (mmm01_write_rom_bank_low v c) = mmm_ram_bank_low c"
  "mmm_ram_bank_mask (mmm01_write_ram_bank_low v c) = mmm_ram_bank_mask c"
  "mmm_rom_bank_mask (mmm01_write_ram_bank_low v c) = mmm_rom_bank_mask c"
  "mmm_rom_bank_mid (mmm01_write_ram_bank_low v c) = mmm_rom_bank_mid c"
  "mmm_ram_bank_high (mmm01_write_ram_bank_low v c) = mmm_ram_bank_high c"
  "mmm_rom_bank_high (mmm01_write_ram_bank_low v c) = mmm_rom_bank_high c"
  "mmm_mode_write_disable (mmm01_write_ram_bank_low v c) = mmm_mode_write_disable c"
  "mmm_multiplex_enabled (mmm01_write_ram_bank_low v c) = mmm_multiplex_enabled c"
  "mmm_rom_bank_low (mmm01_write_ram_bank_low v c) = mmm_rom_bank_low c"
  by (simp_all add: mmm01_write_rom_bank_low_def mmm01_write_ram_bank_low_def Let_def)

lemma mmm01_register_locked:
  "mmm01_locked_part (mmm01_write_rom_bank_low v c) = mmm01_locked_part c"
  "mmm01_locked_part (mmm01_write_ram_bank_low v c) = mmm01_locked_part c"
proof -
  have "mmm_rom_bank_low (mmm01_write_rom_bank_low v c) =
      (let m = mmm_rom_bank_mask c AND 0x1E in (mmm_rom_bank_low c AND m) OR (v AND NOT m))"
    by (simp add: mmm01_write_rom_bank_low_def Let_def)
  then have "mmm_rom_bank_low (mmm01_write_rom_bank_low v c) AND (mmm_rom_bank_mask c AND 0x1E)
      = mmm_rom_bank_low c AND (mmm_rom_bank_mask c AND 0x1E)"
    by (simp only: Let_def locked_bits)
  then show "mmm01_locked_part (mmm01_write_rom_bank_low v c) = mmm01_locked_part c"
    by (simp add: mmm01_locked_part_def mmm01_register_masks)
  have "mmm_ram_bank_low (mmm01_write_ram_bank_low v c) =
      (let m = mmm_ram_bank_mask c AND 0x03 in (mmm_ram_bank_low c AND m) OR (v AND NOT m))"
    by (simp add: mmm01_write_ram_bank_low_def Let_def)
  then have "mmm_ram_bank_low (mmm01_write_ram_bank_low v c) AND (mmm_ram_bank_mask c AND 0x03)
      = mmm_ram_bank_low c AND (mmm_ram_bank_mask c AND 0x03)"
    by (simp only: Let_def locked_bits)
  then show "mmm01_locked_part (mmm01_write_ram_bank_low v c) = mmm01_locked_part c"
    by (simp add: mmm01_locked_part_def mmm01_register_masks)
qed

lemma mmm01_locked_frame:
  "mmm01_locked_part (c\<lparr>mmm_ram_enabled := e\<rparr>) = mmm01_locked_part c"
  "mmm01_locked_part (c\<lparr>mmm_banking_mode := b\<rparr>) = mmm01_locked_part c"
  by (simp_all add: mmm01_locked_part_def)

lemma mmm01_mapped_is_locked:
  "mmm_mapped c \<Longrightarrow> mmm_mapped (mmm01_write_rom a v c)
     \<and> mmm01_locked_part (mmm01_write_rom a v c) = mmm01_locked_part c"
  by (simp add: mmm01_write_rom_def Let_def mmm01_register_locked mmm01_locked_frame)

text \<open>Once the menu of an MMM01 cartridge has mapped a game, no sequence of writes to the ROM
  area unmaps it or changes the configuration the menu chose: the masks, the high bank bits, the
  multiplexing, and those bits of the bank registers that the masks lock.\<close>

theorem mmm01_configuration_is_locked:
  assumes "mmm_mapped c"
  shows "mmm_mapped (fold (\<lambda>(a, v). mmm01_write_rom a v) ws c)
    \<and> mmm01_locked_part (fold (\<lambda>(a, v). mmm01_write_rom a v) ws c) = mmm01_locked_part c"
  using assms by (induction ws arbitrary: c) (auto simp: mmm01_mapped_is_locked split: prod.split)

end
