(* ===== verification/Cart_Huc1.thy ===== *)
theory Cart_Huc1
  imports Cart_Mapper
begin

text \<open>
  HuC1 (\<open>huc1.rs\<close>): six ROM bank bits, two RAM bank bits, and an infrared port that takes the
  place of the RAM while it is selected.
\<close>

datatype huc1_io_mode = Huc1Ram_mode | Huc1Ir_mode

record huc1_cartridge = ram_board +
  huc1_mode :: huc1_io_mode
  huc1_rom_bank :: u8
  huc1_ram_bank :: u8
  huc1_ir_emitter_on :: bool
  huc1_ir_light_detected :: bool

definition huc1_effective_ram_bank_count :: "huc1_cartridge \<Rightarrow> nat" where
  "huc1_effective_ram_bank_count c =
     (case cart_ram c of Some ram \<Rightarrow> max (length ram div 0x2000) 1 | None \<Rightarrow> 1)"

definition huc1_read_ir_register :: "huc1_cartridge \<Rightarrow> u8" where
  "huc1_read_ir_register c = (if huc1_ir_light_detected c then 0xC1 else 0xC0)"

definition huc1_effective_rom_bank :: "nat \<Rightarrow> huc1_cartridge \<Rightarrow> nat" where
  "huc1_effective_rom_bank bank_count c =
     (if bank_count = 0 then 0 else unat (huc1_rom_bank c) mod bank_count)"

definition huc1_effective_ram_bank :: "huc1_cartridge \<Rightarrow> u8" where
  "huc1_effective_ram_bank c =
     of_nat (unat (huc1_ram_bank c) mod huc1_effective_ram_bank_count c)"

definition huc1_effective_ram_offset :: "u16 \<Rightarrow> huc1_cartridge \<Rightarrow> nat" where
  "huc1_effective_ram_offset address c =
     (let offset = unat (huc1_effective_ram_bank c) * 0x2000 + ram_base_offset address
      in case cart_ram c of
           Some ram \<Rightarrow> if ram = [] then offset else offset mod length ram
         | None \<Rightarrow> offset)"

definition huc1_describe :: "u16 \<Rightarrow> huc1_cartridge \<Rightarrow> cartridge_external_access_info" where
  "huc1_describe address c =
     (case huc1_mode c of
        Huc1Ram_mode \<Rightarrow>
          storage_access address (BankedRam (huc1_effective_ram_bank c)) (cart_ram c \<noteq> None) Absent
      | Huc1Ir_mode \<Rightarrow>
          access_info_new address IrRegister Accessible InfraredSensor InfraredTransmitter)"

definition huc1_read_rom :: "huc1_cartridge \<Rightarrow> u16 \<Rightarrow> u8" where
  "huc1_read_rom c address =
     rom_get (cart_rom c)
       (banked_rom_index 0 (huc1_effective_rom_bank (header_rom_banks c) c) address)"

definition huc1_mapped_rom_window ::
    "huc1_cartridge \<Rightarrow> u16 \<Rightarrow> cartridge_mapped_rom_window option" where
  "huc1_mapped_rom_window c address =
     banked_rom_window 0 (huc1_effective_rom_bank (header_rom_banks c) c) address"

definition huc1_write_rom :: "u16 \<Rightarrow> u8 \<Rightarrow> huc1_cartridge \<Rightarrow> huc1_cartridge" where
  "huc1_write_rom address v c =
     (if address \<le> 0x1FFF then c\<lparr>huc1_mode := (if v = 0x0E then Huc1Ir_mode else Huc1Ram_mode)\<rparr>
      else if address \<le> 0x3FFF then c\<lparr>huc1_rom_bank := v AND 0x3F\<rparr>
      else if address \<le> 0x5FFF then c\<lparr>huc1_ram_bank := v AND 0x03\<rparr>
      else c)"

definition huc1_read_ram :: "huc1_cartridge \<Rightarrow> u16 \<Rightarrow> u8" where
  "huc1_read_ram c address =
     (case huc1_mode c of
        Huc1Ram_mode \<Rightarrow> ram_get (cart_ram c) (huc1_effective_ram_offset address c)
      | Huc1Ir_mode \<Rightarrow> huc1_read_ir_register c)"

definition huc1_write_ram :: "u16 \<Rightarrow> u8 \<Rightarrow> huc1_cartridge \<Rightarrow> huc1_cartridge" where
  "huc1_write_ram address v c =
     (case huc1_mode c of
        Huc1Ram_mode \<Rightarrow>
          c\<lparr>cart_ram := ram_put (cart_ram c) (huc1_effective_ram_offset address c) v\<rparr>
      | Huc1Ir_mode \<Rightarrow> c\<lparr>huc1_ir_emitter_on := (v AND 0x01 \<noteq> 0)\<rparr>)"

definition huc1_persistence_metadata :: "huc1_cartridge \<Rightarrow> cartridge_persistence_metadata" where
  "huc1_persistence_metadata c = linear_ram_metadata c"

definition huc1_persistent_state :: "huc1_cartridge \<Rightarrow> persistent_cart_state" where
  "huc1_persistent_state c = linear_ram_state Huc1Ram c"

definition huc1_payload :: "persistent_cart_state \<Rightarrow> u8 list option" where
  "huc1_payload s = (case s of Huc1Ram ram \<Rightarrow> Some ram | _ \<Rightarrow> None)"

definition huc1_restore ::
    "persistent_cart_state \<Rightarrow> huc1_cartridge \<Rightarrow> persistent_state_error + huc1_cartridge" where
  "huc1_restore s c = restore_linear_ram ''Huc1Ram'' (huc1_payload s) s c"

subsection \<open>Laws\<close>

lemma huc1_write_fields [simp]:
  "cart_rom (huc1_write_rom a v c) = cart_rom c" "cart_rom (huc1_write_ram a v c) = cart_rom c"
  "cart_header (huc1_write_rom a v c) = cart_header c" "cart_header (huc1_write_ram a v c) = cart_header c"
  "cart_ram (huc1_write_rom a v c) = cart_ram c"
  "cart_has_battery (huc1_write_rom a v c) = cart_has_battery c"
  "cart_has_battery (huc1_write_ram a v c) = cart_has_battery c"
  "map_option length (cart_ram (huc1_write_ram a v c)) = map_option length (cart_ram c)"
  by (simp_all add: huc1_write_rom_def huc1_write_ram_def split: huc1_io_mode.split)

interpretation huc1_payload: linear_payload Huc1Ram huc1_payload
  by unfold_locales (auto simp: huc1_payload_def split: persistent_cart_state.splits)

interpretation huc1: banked_mapper huc1_read_rom huc1_mapped_rom_window huc1_write_rom
  huc1_write_ram huc1_persistent_state huc1_restore cart_rom ram_board_key "\<lambda>_. True" whole_banks
proof unfold_locales
  show "\<exists>w. huc1_mapped_rom_window c a = Some w \<and> win_bank_offset w < win_bank_size w
      \<and> huc1_read_rom c a = rom_get (cart_rom c) (window_index w)"
    if "a < 0x8000" for a c
    using banked_window_reads [OF that] by (simp add: huc1_mapped_rom_window_def huc1_read_rom_def)
next
  fix c c' s assume "whole_banks c" and "huc1_restore s c = Inr c'"
  then show "whole_banks c' \<and> ram_board_key c' = ram_board_key c \<and> cart_rom c' = cart_rom c
      \<and> huc1_persistent_state c' = s"
    by (auto simp: huc1_restore_def huc1_persistent_state_def ram_board_key_def
        whole_banks_def header_rom_banks_def dest!: huc1_payload.restored)
next
  show "window_index w < length (cart_rom c)"
    if "whole_banks c" and "huc1_mapped_rom_window c a = Some w" for c a w
    using that banked_window_inside [of 0 _ a w]
    by (auto simp: huc1_mapped_rom_window_def whole_banks_def huc1_effective_rom_bank_def)
next
  show "True \<and> (\<exists>d'. huc1_restore (huc1_persistent_state c) d = Inr d')"
    if "ram_board_key c = ram_board_key d" for c d
    using huc1_payload.captured [OF that] by (simp add: huc1_restore_def huc1_persistent_state_def)
qed (simp_all add: huc1_mapped_rom_window_def banked_rom_window_none whole_banks_fields huc1_persistent_state_def)

definition huc1_cell :: "huc1_cartridge \<Rightarrow> u16 \<Rightarrow> nat option" where
  "huc1_cell c address =
     linear_cell (huc1_mode c = Huc1Ram_mode) (cart_ram c) (huc1_effective_ram_offset address c)"

lemma huc1_offset_write [simp]:
  "huc1_effective_ram_offset b (c\<lparr>cart_ram := ram_put (cart_ram c) i v\<rparr>) = huc1_effective_ram_offset b c"
  by (auto simp: huc1_effective_ram_offset_def huc1_effective_ram_bank_def Let_def ram_put_def
      huc1_effective_ram_bank_count_def split: option.split)

lemma huc1_offset_ir [simp]:
  "huc1_effective_ram_offset b (c\<lparr>huc1_ir_emitter_on := e\<rparr>) = huc1_effective_ram_offset b c"
  by (simp add: huc1_effective_ram_offset_def huc1_effective_ram_bank_def huc1_effective_ram_bank_count_def)

interpretation huc1_memory: external_ram huc1_read_ram huc1_write_ram huc1_cell "\<lambda>v. v"
  by unfold_locales
    (auto simp: huc1_read_ram_def huc1_write_ram_def huc1_cell_def ram_get_put_cell
      huc1_read_ir_register_def split: huc1_io_mode.split)

end
