(* ===== verification/Cart_Huc3.thy ===== *)
theory Cart_Huc3
  imports Cart_Samples
begin

text \<open>
  HuC3 (\<open>huc3.rs\<close>): a mailbox to a microcontroller that keeps a clock and an event time in
  256 nibbles of its own RAM, and an infrared port. The nibbles are an array of 256 cells, so
  every index of the code, a byte or a small constant, is inside it.
\<close>

definition HUC3_SUPPORTED_ROM_BYTES_MAX :: nat where "HUC3_SUPPORTED_ROM_BYTES_MAX = 2 * 1024 * 1024"
definition HUC3_SUPPORTED_RAM_BYTES_MAX :: nat where "HUC3_SUPPORTED_RAM_BYTES_MAX = 32 * 1024"
definition HUC3_MCU_RAM_NIBBLE_COUNT :: nat where "HUC3_MCU_RAM_NIBBLE_COUNT = 256"
definition HUC3_DAY_COUNTER_MODULUS :: u16 where "HUC3_DAY_COUNTER_MODULUS = 0x1000"
definition HUC3_MINUTES_PER_DAY :: u16 where "HUC3_MINUTES_PER_DAY = 1440"

datatype huc3_select_mode =
    RamReadOnly
  | RamReadWrite
  | RtcCommandArgument
  | RtcCommandResponse
  | RtcSemaphore
  | Huc3Ir
  | OpenBusMode u8

record huc3_mailbox =
  box_command :: u8
  box_argument :: u8
  box_last_response :: u8
  box_semaphore_ready :: bool

record huc3_cartridge = cart_board +
  huc3_ram :: "u8 list"
  huc3_has_battery :: bool
  huc3_select_mode :: huc3_select_mode
  huc3_rom_bank :: u8
  huc3_ram_bank :: u8
  huc3_access_address :: u8
  huc3_mailbox :: huc3_mailbox
  huc3_mcu_ram :: "u8 list"
  huc3_rtc :: huc3_rtc_state
  huc3_ir_emitter_on :: bool
  huc3_ir_light_detected :: bool
  huc3_last_control_write :: "u8 option"
  huc3_last_unsupported_command :: "u8 option"
  huc3_last_unsupported_argument :: "u8 option"

definition mailbox_default :: huc3_mailbox where
  "mailbox_default =
     \<lparr>box_command = 0, box_argument = 0, box_last_response = 0, box_semaphore_ready = True\<rparr>"

definition huc3_select_from_value :: "u8 \<Rightarrow> huc3_select_mode" where
  "huc3_select_from_value v =
     (let raw = v AND 0x0F
      in if raw = 0x00 then RamReadOnly
         else if raw = 0x0A then RamReadWrite
         else if raw = 0x0B then RtcCommandArgument
         else if raw = 0x0C then RtcCommandResponse
         else if raw = 0x0D then RtcSemaphore
         else if raw = 0x0E then Huc3Ir
         else OpenBusMode raw)"

fun huc3_select_raw_value :: "huc3_select_mode \<Rightarrow> u8" where
  "huc3_select_raw_value RamReadOnly = 0x00"
| "huc3_select_raw_value RamReadWrite = 0x0A"
| "huc3_select_raw_value RtcCommandArgument = 0x0B"
| "huc3_select_raw_value RtcCommandResponse = 0x0C"
| "huc3_select_raw_value RtcSemaphore = 0x0D"
| "huc3_select_raw_value Huc3Ir = 0x0E"
| "huc3_select_raw_value (OpenBusMode raw) = raw AND 0x0F"

subsection \<open>The clock\<close>

definition advance_huc3_rtc_fields :: "u64 \<Rightarrow> huc3_rtc_state \<Rightarrow> huc3_rtc_state" where
  "advance_huc3_rtc_fields elapsed s =
     (if elapsed = 0 then s
      else
        (let s1 = s\<lparr>h3_minutes_of_day := h3_minutes_of_day s mod HUC3_MINUTES_PER_DAY,
                    h3_days := h3_days s mod HUC3_DAY_COUNTER_MODULUS,
                    h3_subminute_seconds := h3_subminute_seconds s mod 60\<rparr>;
             total_seconds = ucast (h3_subminute_seconds s1) + elapsed;
             minute_delta = total_seconds div 60;
             s2 = s1\<lparr>h3_subminute_seconds := ucast (total_seconds mod 60)\<rparr>
         in if minute_delta = 0 then s2
            else
              (let total_minutes = ucast (h3_days s2) * ucast HUC3_MINUTES_PER_DAY
                                   + ucast (h3_minutes_of_day s2);
                   wrapped = (total_minutes + minute_delta)
                             mod (ucast HUC3_DAY_COUNTER_MODULUS * ucast HUC3_MINUTES_PER_DAY)
               in s2\<lparr>h3_days := ucast (wrapped div ucast HUC3_MINUTES_PER_DAY),
                     h3_minutes_of_day := ucast (wrapped mod ucast HUC3_MINUTES_PER_DAY)\<rparr>)))"

definition triplet_read :: "nat \<Rightarrow> u8 list \<Rightarrow> u16" where
  "triplet_read start cells =
     ucast (cells ! start) OR push_bit 4 (ucast (cells ! (start + 1)))
     OR push_bit 8 (ucast (cells ! (start + 2)))"

definition triplet_write :: "nat \<Rightarrow> u16 \<Rightarrow> u8 list \<Rightarrow> u8 list" where
  "triplet_write start v cells =
     cells[start := ucast (v AND 0x0F), start + 1 := ucast (drop_bit 4 v AND 0x0F),
           start + 2 := ucast (drop_bit 8 v AND 0x0F)]"

definition sync_tracked :: "huc3_rtc_state \<Rightarrow> u8 list \<Rightarrow> u8 list" where
  "sync_tracked rtc cells =
     triplet_write 0x5B (h3_event_days rtc) (triplet_write 0x58 (h3_event_minutes_of_day rtc)
       (triplet_write 0x13 (h3_days rtc) (triplet_write 0x10 (h3_minutes_of_day rtc) cells)))"

definition sync_tracked_rtc_locations :: "huc3_cartridge \<Rightarrow> huc3_cartridge" where
  "sync_tracked_rtc_locations c = c\<lparr>huc3_mcu_ram := sync_tracked (huc3_rtc c) (huc3_mcu_ram c)\<rparr>"

definition sync_current_time_from_mcu_window :: "huc3_cartridge \<Rightarrow> huc3_cartridge" where
  "sync_current_time_from_mcu_window c =
     c\<lparr>huc3_rtc := (huc3_rtc c)
         \<lparr>h3_minutes_of_day := triplet_read 0x10 (huc3_mcu_ram c) mod HUC3_MINUTES_PER_DAY,
          h3_days := triplet_read 0x13 (huc3_mcu_ram c) mod HUC3_DAY_COUNTER_MODULUS,
          h3_subminute_seconds := 0\<rparr>\<rparr>"

definition sync_event_time_from_mcu_window :: "huc3_cartridge \<Rightarrow> huc3_cartridge" where
  "sync_event_time_from_mcu_window c =
     c\<lparr>huc3_rtc := (huc3_rtc c)
         \<lparr>h3_event_minutes_of_day := triplet_read 0x58 (huc3_mcu_ram c) mod HUC3_MINUTES_PER_DAY,
          h3_event_days := triplet_read 0x5B (huc3_mcu_ram c) mod HUC3_DAY_COUNTER_MODULUS\<rparr>\<rparr>"

definition rtc_cycle_minutes :: u32 where
  "rtc_cycle_minutes = ucast HUC3_DAY_COUNTER_MODULUS * ucast HUC3_MINUTES_PER_DAY"

definition current_total_minutes :: "huc3_rtc_state \<Rightarrow> u32" where
  "current_total_minutes rtc =
     ucast (h3_days rtc) * ucast HUC3_MINUTES_PER_DAY + ucast (h3_minutes_of_day rtc)"

definition event_total_minutes :: "huc3_rtc_state \<Rightarrow> u32" where
  "event_total_minutes rtc =
     ucast (h3_event_days rtc) * ucast HUC3_MINUTES_PER_DAY + ucast (h3_event_minutes_of_day rtc)"

definition remaining_event_delta_minutes :: "huc3_rtc_state \<Rightarrow> u32" where
  "remaining_event_delta_minutes rtc =
     (event_total_minutes rtc + rtc_cycle_minutes - current_total_minutes rtc) mod rtc_cycle_minutes"

definition set_event_total_minutes :: "u32 \<Rightarrow> huc3_rtc_state \<Rightarrow> huc3_rtc_state" where
  "set_event_total_minutes total_minutes rtc =
     (let wrapped = total_minutes mod rtc_cycle_minutes
      in rtc\<lparr>h3_event_days := ucast (wrapped div ucast HUC3_MINUTES_PER_DAY) mod HUC3_DAY_COUNTER_MODULUS,
             h3_event_minutes_of_day := ucast (wrapped mod ucast HUC3_MINUTES_PER_DAY)\<rparr>)"

definition mask_mcu_nibbles :: "u8 list \<Rightarrow> u8 list" where
  "mask_mcu_nibbles cells = map (\<lambda>v. v AND 0x0F) cells"

definition huc3_initialize_runtime_state :: "huc3_cartridge \<Rightarrow> huc3_cartridge" where
  "huc3_initialize_runtime_state c =
     sync_tracked_rtc_locations
       (c\<lparr>huc3_rtc := \<lparr>h3_minutes_of_day = h3_minutes_of_day (huc3_rtc c) mod HUC3_MINUTES_PER_DAY,
                       h3_days = h3_days (huc3_rtc c) mod HUC3_DAY_COUNTER_MODULUS,
                       h3_subminute_seconds = h3_subminute_seconds (huc3_rtc c) mod 60,
                       h3_event_minutes_of_day = h3_event_minutes_of_day (huc3_rtc c) mod HUC3_MINUTES_PER_DAY,
                       h3_event_days = h3_event_days (huc3_rtc c) mod HUC3_DAY_COUNTER_MODULUS\<rparr>,
          huc3_mcu_ram := mask_mcu_nibbles (huc3_mcu_ram c)\<rparr>)"

subsection \<open>The microcontroller's commands\<close>

definition write_mcu_nibble :: "u8 \<Rightarrow> u8 \<Rightarrow> huc3_cartridge \<Rightarrow> huc3_cartridge" where
  "write_mcu_nibble address v c =
     (let c1 = c\<lparr>huc3_mcu_ram := (huc3_mcu_ram c)[unat address := v AND 0x0F]\<rparr>
      in if 0x10 \<le> address \<and> address \<le> 0x15 then sync_current_time_from_mcu_window c1
         else if 0x58 \<le> address \<and> address \<le> 0x5D then sync_event_time_from_mcu_window c1
         else c1)"

definition copy_current_time_to_io_window :: "huc3_cartridge \<Rightarrow> huc3_cartridge" where
  "copy_current_time_to_io_window c =
     c\<lparr>huc3_mcu_ram :=
         (triplet_write 0x03 (h3_days (huc3_rtc c))
            (triplet_write 0x00 (h3_minutes_of_day (huc3_rtc c)) (huc3_mcu_ram c)))[0x06 := 0]\<rparr>"

definition apply_io_window_current_time_preserving_event_delta :: "huc3_cartridge \<Rightarrow> huc3_cartridge" where
  "apply_io_window_current_time_preserving_event_delta c =
     (let remaining_minutes = remaining_event_delta_minutes (huc3_rtc c);
          rtc1 = (huc3_rtc c)
            \<lparr>h3_minutes_of_day := triplet_read 0x00 (huc3_mcu_ram c) mod HUC3_MINUTES_PER_DAY,
             h3_days := triplet_read 0x03 (huc3_mcu_ram c) mod HUC3_DAY_COUNTER_MODULUS,
             h3_subminute_seconds := 0\<rparr>;
          new_event_total = (current_total_minutes rtc1 + remaining_minutes) mod rtc_cycle_minutes
      in sync_tracked_rtc_locations (c\<lparr>huc3_rtc := set_event_total_minutes new_event_total rtc1\<rparr>))"

definition mailbox_respond :: "u8 \<Rightarrow> huc3_cartridge \<Rightarrow> huc3_cartridge" where
  "mailbox_respond v c = c\<lparr>huc3_mailbox := (huc3_mailbox c)\<lparr>box_last_response := v\<rparr>\<rparr>"

definition execute_extended_command :: "u8 \<Rightarrow> huc3_cartridge \<Rightarrow> huc3_cartridge" where
  "execute_extended_command argument c =
     (let selector = argument AND 0x0F
      in if selector = 0x00 then copy_current_time_to_io_window c
         else if selector = 0x01 then apply_io_window_current_time_preserving_event_delta c
         else if selector = 0x02 then mailbox_respond 0x01 c
         else c\<lparr>huc3_last_unsupported_command := Some 0x06, huc3_last_unsupported_argument := Some selector\<rparr>)"

definition execute_mailbox_command :: "huc3_cartridge \<Rightarrow> huc3_cartridge" where
  "execute_mailbox_command c0 =
     (let c = c0\<lparr>huc3_last_unsupported_command := None, huc3_last_unsupported_argument := None\<rparr>;
          command = box_command (huc3_mailbox c) AND 0x07;
          argument = box_argument (huc3_mailbox c)
      in if command = 0x01 then
           (mailbox_respond (huc3_mcu_ram c ! unat (huc3_access_address c) AND 0x0F) c)
             \<lparr>huc3_access_address := huc3_access_address c + 1\<rparr>
         else if command = 0x03 then
           (write_mcu_nibble (huc3_access_address c) argument c)
             \<lparr>huc3_access_address := huc3_access_address c + 1\<rparr>
         else if command = 0x04 then
           c\<lparr>huc3_access_address := (huc3_access_address c AND 0xF0) OR (argument AND 0x0F)\<rparr>
         else if command = 0x05 then
           c\<lparr>huc3_access_address := (huc3_access_address c AND 0x0F) OR push_bit 4 (argument AND 0x0F)\<rparr>
         else if command = 0x06 then execute_extended_command argument c
         else c\<lparr>huc3_last_unsupported_command := Some command,
                huc3_last_unsupported_argument := Some (argument AND 0x0F)\<rparr>)"

definition set_semaphore :: "bool \<Rightarrow> huc3_cartridge \<Rightarrow> huc3_cartridge" where
  "set_semaphore b c = c\<lparr>huc3_mailbox := (huc3_mailbox c)\<lparr>box_semaphore_ready := b\<rparr>\<rparr>"

definition request_mcu_command_execution :: "huc3_cartridge \<Rightarrow> huc3_cartridge" where
  "request_mcu_command_execution c = set_semaphore True (execute_mailbox_command (set_semaphore False c))"

definition huc3_tone_enabled :: "huc3_cartridge \<Rightarrow> bool" where
  "huc3_tone_enabled c = (huc3_mcu_ram c ! 0x27 = 0x01)"

definition huc3_tone_selection :: "huc3_cartridge \<Rightarrow> u8" where
  "huc3_tone_selection c = huc3_mcu_ram c ! 0x26 AND 0x03"

subsection \<open>The cartridge\<close>

definition huc3_effective_rom_bank :: "nat \<Rightarrow> huc3_cartridge \<Rightarrow> nat" where
  "huc3_effective_rom_bank bank_count c =
     (if bank_count = 0 then 0 else unat (huc3_rom_bank c) mod bank_count)"

definition huc3_effective_ram_bank_count :: "huc3_cartridge \<Rightarrow> nat" where
  "huc3_effective_ram_bank_count c = max (length (huc3_ram c) div 0x2000) 1"

definition huc3_effective_ram_bank :: "huc3_cartridge \<Rightarrow> u8" where
  "huc3_effective_ram_bank c = of_nat (unat (huc3_ram_bank c) mod huc3_effective_ram_bank_count c)"

definition huc3_effective_ram_offset :: "u16 \<Rightarrow> huc3_cartridge \<Rightarrow> nat" where
  "huc3_effective_ram_offset address c =
     (ram_base_offset address + unat (huc3_effective_ram_bank c) * 0x2000) mod max (length (huc3_ram c)) 1"

definition huc3_describe :: "u16 \<Rightarrow> huc3_cartridge \<Rightarrow> cartridge_external_access_info" where
  "huc3_describe address c =
     (case huc3_select_mode c of
        RamReadOnly \<Rightarrow>
          access_info_new address (BankedRam (huc3_effective_ram_bank c)) Accessible ReadStorage WriteIgnored
      | RamReadWrite \<Rightarrow>
          access_info_new address (BankedRam (huc3_effective_ram_bank c)) Accessible ReadStorage WriteStorage
      | RtcCommandArgument \<Rightarrow>
          access_info_new address Huc3CommandMailbox Accessible ReadOpenBus Huc3MailboxCommandArgument
      | RtcCommandResponse \<Rightarrow>
          access_info_new address Huc3ResponseMailbox Accessible Huc3MailboxResponse WriteIgnored
      | RtcSemaphore \<Rightarrow>
          access_info_new address Huc3SemaphoreTarget Accessible Huc3SemaphoreReady Huc3SemaphoreControl
      | Huc3Ir \<Rightarrow>
          access_info_new address IrRegister Accessible InfraredSensor InfraredTransmitter
      | OpenBusMode raw \<Rightarrow>
          access_info_new address (Huc3InvalidSelector raw) Reserved ReadOpenBus WriteIgnored)"

definition huc3_read_rom :: "huc3_cartridge \<Rightarrow> u16 \<Rightarrow> u8" where
  "huc3_read_rom c address =
     rom_get (cart_rom c)
       (banked_rom_index 0 (huc3_effective_rom_bank (header_rom_banks c) c) address)"

definition huc3_mapped_rom_window ::
    "huc3_cartridge \<Rightarrow> u16 \<Rightarrow> cartridge_mapped_rom_window option" where
  "huc3_mapped_rom_window c address =
     banked_rom_window 0 (huc3_effective_rom_bank (header_rom_banks c) c) address"

definition huc3_write_rom :: "u16 \<Rightarrow> u8 \<Rightarrow> huc3_cartridge \<Rightarrow> huc3_cartridge" where
  "huc3_write_rom address v c =
     (if address \<le> 0x1FFF then c\<lparr>huc3_select_mode := huc3_select_from_value v\<rparr>
      else if address \<le> 0x3FFF then c\<lparr>huc3_rom_bank := v AND 0x7F\<rparr>
      else if address \<le> 0x5FFF then c\<lparr>huc3_ram_bank := v AND 0x03\<rparr>
      else if address \<le> 0x7FFF then c\<lparr>huc3_last_control_write := Some v\<rparr>
      else c)"

definition huc3_read_ram :: "huc3_cartridge \<Rightarrow> u16 \<Rightarrow> u8" where
  "huc3_read_ram c address =
     (case huc3_select_mode c of
        RamReadOnly \<Rightarrow> rom_get (huc3_ram c) (huc3_effective_ram_offset address c)
      | RamReadWrite \<Rightarrow> rom_get (huc3_ram c) (huc3_effective_ram_offset address c)
      | RtcCommandArgument \<Rightarrow> 0xFF
      | RtcCommandResponse \<Rightarrow>
          0x80 OR push_bit 4 (box_command (huc3_mailbox c) AND 0x07)
          OR (box_last_response (huc3_mailbox c) AND 0x0F)
      | RtcSemaphore \<Rightarrow> 0x80 OR u8_of_bool (box_semaphore_ready (huc3_mailbox c))
      | Huc3Ir \<Rightarrow> 0x80 OR u8_of_bool (huc3_ir_light_detected c)
      | OpenBusMode _ \<Rightarrow> 0xFF)"

definition huc3_write_ram :: "u16 \<Rightarrow> u8 \<Rightarrow> huc3_cartridge \<Rightarrow> huc3_cartridge" where
  "huc3_write_ram address v c =
     (case huc3_select_mode c of
        RamReadOnly \<Rightarrow> c
      | RamReadWrite \<Rightarrow>
          (let offset = huc3_effective_ram_offset address c
           in if offset < length (huc3_ram c) then c\<lparr>huc3_ram := (huc3_ram c)[offset := v]\<rparr> else c)
      | RtcCommandArgument \<Rightarrow>
          c\<lparr>huc3_mailbox := (huc3_mailbox c)\<lparr>box_command := drop_bit 4 v AND 0x07, box_argument := v AND 0x0F\<rparr>,
            huc3_last_unsupported_command := None, huc3_last_unsupported_argument := None\<rparr>
      | RtcCommandResponse \<Rightarrow> c
      | RtcSemaphore \<Rightarrow> if v AND 0x01 = 0 then request_mcu_command_execution c else c
      | Huc3Ir \<Rightarrow> c\<lparr>huc3_ir_emitter_on := (v AND 0x01 \<noteq> 0)\<rparr>
      | OpenBusMode _ \<Rightarrow> c)"

definition huc3_advance_rtc_seconds :: "u64 \<Rightarrow> huc3_cartridge \<Rightarrow> huc3_cartridge" where
  "huc3_advance_rtc_seconds elapsed c =
     sync_tracked_rtc_locations (c\<lparr>huc3_rtc := advance_huc3_rtc_fields elapsed (huc3_rtc c)\<rparr>)"

definition huc3_persistence_metadata :: "huc3_cartridge \<Rightarrow> cartridge_persistence_metadata" where
  "huc3_persistence_metadata c =
     \<lparr>meta_has_battery = huc3_has_battery c, meta_has_rtc = True,
      meta_profile = PersistentRamAndRtc (PayloadLinear (length (huc3_ram c)))\<rparr>"

definition huc3_persistent_state :: "huc3_cartridge \<Rightarrow> persistent_cart_state" where
  "huc3_persistent_state c =
     (if \<not> huc3_has_battery c then PersistNone
      else Huc3State
        \<lparr>h3p_ram = huc3_ram c, h3p_mcu_ram = huc3_mcu_ram c, h3p_rtc = huc3_rtc c,
         h3p_rom_bank = huc3_rom_bank c, h3p_ram_bank = huc3_ram_bank c,
         h3p_select_mode = huc3_select_raw_value (huc3_select_mode c),
         h3p_access_address = huc3_access_address c,
         h3p_mailbox_command = box_command (huc3_mailbox c),
         h3p_mailbox_argument = box_argument (huc3_mailbox c),
         h3p_last_response_nybble = box_last_response (huc3_mailbox c),
         h3p_semaphore_ready = box_semaphore_ready (huc3_mailbox c),
         h3p_ir_emitter_on = huc3_ir_emitter_on c, h3p_ir_light_detected = huc3_ir_light_detected c,
         h3p_last_control_write = huc3_last_control_write c,
         h3p_last_unsupported_command = huc3_last_unsupported_command c,
         h3p_last_unsupported_argument = huc3_last_unsupported_argument c\<rparr>)"

text \<open>The first cell of the microcontroller's RAM that does not hold a nibble.\<close>

definition first_non_nibble :: "u8 list \<Rightarrow> (nat \<times> u8) option" where
  "first_non_nibble cells = find (\<lambda>(i, v). 0x0F < v) (enumerate 0 cells)"

definition huc3_load_persistent :: "huc3_save \<Rightarrow> huc3_cartridge \<Rightarrow> huc3_cartridge" where
  "huc3_load_persistent p c =
     huc3_initialize_runtime_state
       (c\<lparr>huc3_ram := h3p_ram p, huc3_mcu_ram := h3p_mcu_ram p, huc3_rtc := h3p_rtc p,
          huc3_rom_bank := h3p_rom_bank p AND 0x7F, huc3_ram_bank := h3p_ram_bank p AND 0x03,
          huc3_select_mode := huc3_select_from_value (h3p_select_mode p),
          huc3_access_address := h3p_access_address p,
          huc3_mailbox :=
            \<lparr>box_command = h3p_mailbox_command p AND 0x07, box_argument = h3p_mailbox_argument p AND 0x0F,
             box_last_response = h3p_last_response_nybble p AND 0x0F,
             box_semaphore_ready = h3p_semaphore_ready p\<rparr>,
          huc3_ir_emitter_on := h3p_ir_emitter_on p, huc3_ir_light_detected := h3p_ir_light_detected p,
          huc3_last_control_write := h3p_last_control_write p,
          huc3_last_unsupported_command := map_option (\<lambda>v. v AND 0x07) (h3p_last_unsupported_command p),
          huc3_last_unsupported_argument := map_option (\<lambda>v. v AND 0x0F) (h3p_last_unsupported_argument p)\<rparr>)"

definition huc3_restore ::
    "persistent_cart_state \<Rightarrow> huc3_cartridge \<Rightarrow> persistent_state_error + huc3_cartridge" where
  "huc3_restore s c =
     (if \<not> huc3_has_battery c then (if s = PersistNone then Inr c else kind_mismatch ''None'' s)
      else case s of
          Huc3State p \<Rightarrow>
            if length (huc3_ram c) \<noteq> length (h3p_ram p)
            then Inl (RamLengthMismatch (length (huc3_ram c)) (length (h3p_ram p)))
            else (case first_non_nibble (h3p_mcu_ram p) of
                Some (i, v) \<Rightarrow> Inl (InvalidHuc3NibbleValue i v)
              | None \<Rightarrow> Inr (huc3_load_persistent p c))
        | _ \<Rightarrow> kind_mismatch ''Huc3'' s)"

subsection \<open>Laws\<close>

definition nibble_cells :: "u8 list \<Rightarrow> bool" where
  "nibble_cells cells = (length cells = HUC3_MCU_RAM_NIBBLE_COUNT \<and> (\<forall>v \<in> set cells. v \<le> 0x0F))"

definition huc3_wf :: "huc3_cartridge \<Rightarrow> bool" where
  "huc3_wf c = (whole_banks c \<and> nibble_cells (huc3_mcu_ram c))"

text \<open>What no access but a RAM write changes.\<close>

definition huc3_frame :: "huc3_cartridge \<Rightarrow> u8 list \<times> cartridge_header \<times> bool \<times> u8 list" where
  "huc3_frame c = (cart_rom c, cart_header c, huc3_has_battery c, huc3_ram c)"

lemma nibble_update: "nibble_cells cells \<Longrightarrow> v \<le> 0x0F \<Longrightarrow> nibble_cells (cells[i := v])"
  using set_update_subset_insert [of cells i v] by (auto simp: nibble_cells_def)

lemma low_nibble_le [simp]: "(v :: u8) AND 0x0F \<le> 0x0F"
  by (rule word_and_le1)

lemma narrow_nibble_le [simp]: "ucast ((v :: u16) AND 0x0F) \<le> (0x0F :: u8)"
proof -
  have "v AND 0x0F \<le> 0x0F" by (rule word_and_le1)
  then have "unat (v AND 0x0F) \<le> 15" by (simp add: word_le_nat_alt)
  then show ?thesis by (simp add: word_le_nat_alt unsigned_ucast_eq take_bit_eq_mod)
qed

lemma nibble_triplet [simp]: "nibble_cells cells \<Longrightarrow> nibble_cells (triplet_write i v cells)"
  by (simp add: triplet_write_def nibble_update)

lemma nibble_sync [simp]: "nibble_cells cells \<Longrightarrow> nibble_cells (sync_tracked rtc cells)"
  by (simp add: sync_tracked_def)

lemmas huc3_ops = mailbox_respond_def set_semaphore_def write_mcu_nibble_def
  sync_current_time_from_mcu_window_def sync_event_time_from_mcu_window_def
  copy_current_time_to_io_window_def apply_io_window_current_time_preserving_event_delta_def
  sync_tracked_rtc_locations_def Let_def

lemma execute_extended_keeps:
  "huc3_frame (execute_extended_command v c) = huc3_frame c"
  "nibble_cells (huc3_mcu_ram c) \<Longrightarrow> nibble_cells (huc3_mcu_ram (execute_extended_command v c))"
  by (simp_all add: execute_extended_command_def huc3_ops huc3_frame_def nibble_update)

lemma execute_command_keeps:
  "huc3_frame (execute_mailbox_command c) = huc3_frame c"
  "nibble_cells (huc3_mcu_ram c) \<Longrightarrow> nibble_cells (huc3_mcu_ram (execute_mailbox_command c))"
  using execute_extended_keeps
  by (simp_all add: execute_mailbox_command_def huc3_ops huc3_frame_def nibble_update)

lemma request_command_keeps:
  "huc3_frame (request_mcu_command_execution c) = huc3_frame c"
  "nibble_cells (huc3_mcu_ram c) \<Longrightarrow> nibble_cells (huc3_mcu_ram (request_mcu_command_execution c))"
  using execute_command_keeps [of "set_semaphore False c"]
  by (simp_all add: request_mcu_command_execution_def huc3_frame_def set_semaphore_def)

definition huc3_key :: "huc3_cartridge \<Rightarrow> bool \<times> nat" where
  "huc3_key c = (huc3_has_battery c, length (huc3_ram c))"

lemma huc3_write_ram_keeps:
  "huc3_wf c \<Longrightarrow> huc3_wf (huc3_write_ram a v c) \<and> huc3_key (huc3_write_ram a v c) = huc3_key c
     \<and> cart_rom (huc3_write_ram a v c) = cart_rom c"
  using request_command_keeps [of c]
  by (auto simp: huc3_write_ram_def huc3_wf_def huc3_frame_def huc3_key_def whole_banks_def header_rom_banks_def
      Let_def split: huc3_select_mode.splits)

lemma huc3_write_rom_keeps:
  "huc3_wf c \<Longrightarrow> huc3_wf (huc3_write_rom a v c) \<and> huc3_key (huc3_write_rom a v c) = huc3_key c
     \<and> cart_rom (huc3_write_rom a v c) = cart_rom c"
  by (simp add: huc3_write_rom_def huc3_wf_def huc3_key_def whole_banks_def header_rom_banks_def)

lemma first_non_nibble_None: "first_non_nibble cells = None \<longleftrightarrow> (\<forall>v \<in> set cells. v \<le> 0x0F)"
proof -
  have "find (\<lambda>(i, v). 0x0F < v) (enumerate k cells) = None \<longleftrightarrow> (\<forall>v \<in> set cells. v \<le> 0x0F)" for k
    by (induction cells arbitrary: k) auto
  then show ?thesis by (simp add: first_non_nibble_def)
qed

text \<open>
  The normal form of a save: registers masked, the clock in range, and the clock's copies in
  the microcontroller's RAM brought in line with it.
\<close>

definition huc3_rtc_in_range :: "huc3_rtc_state \<Rightarrow> huc3_rtc_state" where
  "huc3_rtc_in_range rtc =
     \<lparr>h3_minutes_of_day = h3_minutes_of_day rtc mod HUC3_MINUTES_PER_DAY,
      h3_days = h3_days rtc mod HUC3_DAY_COUNTER_MODULUS,
      h3_subminute_seconds = h3_subminute_seconds rtc mod 60,
      h3_event_minutes_of_day = h3_event_minutes_of_day rtc mod HUC3_MINUTES_PER_DAY,
      h3_event_days = h3_event_days rtc mod HUC3_DAY_COUNTER_MODULUS\<rparr>"

definition huc3_normal :: "persistent_cart_state \<Rightarrow> persistent_cart_state" where
  "huc3_normal s =
     (case s of
        Huc3State p \<Rightarrow> Huc3State
          (p\<lparr>h3p_mcu_ram := sync_tracked (huc3_rtc_in_range (h3p_rtc p)) (mask_mcu_nibbles (h3p_mcu_ram p)),
             h3p_rtc := huc3_rtc_in_range (h3p_rtc p),
             h3p_rom_bank := h3p_rom_bank p AND 0x7F, h3p_ram_bank := h3p_ram_bank p AND 0x03,
             h3p_select_mode := h3p_select_mode p AND 0x0F,
             h3p_mailbox_command := h3p_mailbox_command p AND 0x07,
             h3p_mailbox_argument := h3p_mailbox_argument p AND 0x0F,
             h3p_last_response_nybble := h3p_last_response_nybble p AND 0x0F,
             h3p_last_unsupported_command := map_option (\<lambda>v. v AND 0x07) (h3p_last_unsupported_command p),
             h3p_last_unsupported_argument := map_option (\<lambda>v. v AND 0x0F) (h3p_last_unsupported_argument p)\<rparr>)
      | _ \<Rightarrow> s)"

text \<open>A save state whose array has the length its type fixes.\<close>

definition huc3_array :: "persistent_cart_state \<Rightarrow> bool" where
  "huc3_array s = (case s of Huc3State p \<Rightarrow> length (h3p_mcu_ram p) = HUC3_MCU_RAM_NIBBLE_COUNT | _ \<Rightarrow> True)"

lemma select_round_trip: "huc3_select_raw_value (huc3_select_from_value v) = v AND 0x0F"
  by (simp add: huc3_select_from_value_def Let_def)

lemma masked_nibbles: "length cells = HUC3_MCU_RAM_NIBBLE_COUNT \<Longrightarrow> nibble_cells (mask_mcu_nibbles cells)"
  by (auto simp: nibble_cells_def mask_mcu_nibbles_def)

lemma huc3_loaded:
  assumes "huc3_wf c" and "huc3_has_battery c" and "length (huc3_ram c) = length (h3p_ram p)"
    and "length (h3p_mcu_ram p) = HUC3_MCU_RAM_NIBBLE_COUNT"
  shows "huc3_wf (huc3_load_persistent p c) \<and> huc3_key (huc3_load_persistent p c) = huc3_key c
    \<and> cart_rom (huc3_load_persistent p c) = cart_rom c
    \<and> huc3_persistent_state (huc3_load_persistent p c) = huc3_normal (Huc3State p)"
  using assms
  by (simp add: huc3_load_persistent_def huc3_initialize_runtime_state_def sync_tracked_rtc_locations_def
      huc3_wf_def huc3_key_def whole_banks_def header_rom_banks_def masked_nibbles
      huc3_persistent_state_def huc3_normal_def huc3_rtc_in_range_def select_round_trip)

lemma huc3_restored:
  assumes "huc3_restore s c = Inr c'"
  shows "\<not> huc3_has_battery c \<and> s = PersistNone \<and> c' = c
    \<or> huc3_has_battery c \<and> (\<exists>p. s = Huc3State p \<and> length (huc3_ram c) = length (h3p_ram p)
        \<and> c' = huc3_load_persistent p c)"
  using assms
  by (cases s; cases "huc3_has_battery c")
    (auto simp: huc3_restore_def kind_mismatch_def split: if_splits option.splits)

interpretation huc3: banked_rom huc3_read_rom huc3_mapped_rom_window huc3_write_rom
  huc3_write_ram huc3_persistent_state huc3_restore cart_rom huc3_key huc3_array huc3_normal huc3_wf
proof unfold_locales
  show "\<exists>w. huc3_mapped_rom_window c a = Some w \<and> win_bank_offset w < win_bank_size w
      \<and> huc3_read_rom c a = rom_get (cart_rom c) (window_index w)"
    if "a < 0x8000" for a c
    using banked_window_reads [OF that] by (simp add: huc3_mapped_rom_window_def huc3_read_rom_def)
next
  show "huc3_wf c' \<and> huc3_key c' = huc3_key c \<and> cart_rom c' = cart_rom c
      \<and> huc3_persistent_state c' = huc3_normal s"
    if "huc3_wf c" and "huc3_array s" and "huc3_restore s c = Inr c'" for c c' s
    using huc3_restored [OF that(3)]
  proof
    assume "\<not> huc3_has_battery c \<and> s = PersistNone \<and> c' = c"
    with that(1) show ?thesis by (simp add: huc3_normal_def huc3_persistent_state_def)
  next
    assume "huc3_has_battery c \<and> (\<exists>p. s = Huc3State p \<and> length (huc3_ram c) = length (h3p_ram p)
        \<and> c' = huc3_load_persistent p c)"
    then obtain p where p: "huc3_has_battery c" "s = Huc3State p" "length (huc3_ram c) = length (h3p_ram p)"
      "c' = huc3_load_persistent p c" by blast
    with huc3_loaded [OF that(1) p(1,3)] that(2) show ?thesis by (simp only: huc3_array_def persistent_cart_state.simps)
  qed
next
  show "window_index w < length (cart_rom c)"
    if "huc3_wf c" and "huc3_mapped_rom_window c a = Some w" for c a w
    using that banked_window_inside [of 0 _ a w]
    by (auto simp: huc3_mapped_rom_window_def huc3_wf_def whole_banks_def huc3_effective_rom_bank_def)
next
  show "huc3_array (huc3_persistent_state c) \<and> (\<exists>d'. huc3_restore (huc3_persistent_state c) d = Inr d')"
    if "huc3_wf c" and "huc3_wf d" and "huc3_key c = huc3_key d" for c d
    using that first_non_nibble_None [of "huc3_mcu_ram c"]
    by (simp add: huc3_restore_def huc3_persistent_state_def huc3_array_def huc3_wf_def nibble_cells_def huc3_key_def)
qed (use huc3_write_ram_keeps huc3_write_rom_keeps in
    \<open>simp_all add: huc3_mapped_rom_window_def banked_rom_window_none\<close>)

subsection \<open>The clock counts seconds\<close>

definition huc3_rtc_ok :: "huc3_rtc_state \<Rightarrow> bool" where
  "huc3_rtc_ok s =
     (h3_minutes_of_day s < HUC3_MINUTES_PER_DAY \<and> h3_days s < HUC3_DAY_COUNTER_MODULUS
      \<and> h3_subminute_seconds s < 60 \<and> h3_event_minutes_of_day s < HUC3_MINUTES_PER_DAY
      \<and> h3_event_days s < HUC3_DAY_COUNTER_MODULUS)"

definition huc3_minutes :: "huc3_rtc_state \<Rightarrow> nat" where
  "huc3_minutes s = unat (h3_days s) * 1440 + unat (h3_minutes_of_day s)"

definition huc3_event_minutes :: "huc3_rtc_state \<Rightarrow> nat" where
  "huc3_event_minutes s = unat (h3_event_days s) * 1440 + unat (h3_event_minutes_of_day s)"

definition huc3_seconds :: "huc3_rtc_state \<Rightarrow> nat" where
  "huc3_seconds s = huc3_minutes s * 60 + unat (h3_subminute_seconds s)"

lemma huc3_rtc_ok_unat:
  "huc3_rtc_ok s \<longleftrightarrow> unat (h3_minutes_of_day s) < 1440 \<and> unat (h3_days s) < 4096
     \<and> unat (h3_subminute_seconds s) < 60 \<and> unat (h3_event_minutes_of_day s) < 1440
     \<and> unat (h3_event_days s) < 4096"
  by (simp add: huc3_rtc_ok_def HUC3_MINUTES_PER_DAY_def HUC3_DAY_COUNTER_MODULUS_def word_less_nat_alt)

text \<open>Carrying whole minutes and keeping the rest is counting seconds in one long cycle.\<close>

lemma cycle_of_seconds:
  fixes m :: nat
  shows "((m + t div 60) mod n) * 60 + t mod 60 = (m * 60 + t) mod (n * 60)"
proof -
  have "(m * 60 + t) mod (60 * n) = 60 * ((m * 60 + t) div 60 mod n) + (m * 60 + t) mod 60"
    by (rule mod_mult2_eq)
  then show ?thesis by (simp add: mult.commute)
qed

lemma day_split: "(w :: nat) div 1440 * 1440 + w mod 1440 = w"
  by (rule div_mult_mod_eq)

lemma unat_u64_add: "unat a + unat b < 2 ^ 64 \<Longrightarrow> unat (a + b :: u64) = unat a + unat b"
  by (simp add: unat_word_ariths)

lemma unat_narrow: "unat (w :: u64) < 65536 \<Longrightarrow> unat (ucast w :: u16) = unat w"
  "unat (w :: u64) < 256 \<Longrightarrow> unat (ucast w :: u8) = unat w"
  by (simp_all add: unsigned_ucast_eq take_bit_eq_mod)

lemma unat_widen: "unat (ucast (a :: u16) :: u64) = unat a" "unat (ucast (b :: u8) :: u64) = unat b"
  using unsigned_less [of a, where 'a = nat] unsigned_less [of b, where 'a = nat]
  by (simp_all add: unsigned_ucast_eq take_bit_nat_eq_self)

lemma in_range_self:
  assumes "huc3_rtc_ok s"
  shows "h3_minutes_of_day s mod HUC3_MINUTES_PER_DAY = h3_minutes_of_day s"
    and "h3_days s mod HUC3_DAY_COUNTER_MODULUS = h3_days s"
    and "h3_subminute_seconds s mod 60 = h3_subminute_seconds s"
  using assms by (simp_all add: huc3_rtc_ok_def word_arith_nat_mod word_less_nat_alt)

text \<open>The wrapped total of minutes, split into days and minutes.\<close>

lemma wrapped_minutes:
  fixes delta :: u64
  assumes "huc3_rtc_ok s" and "unat delta * 60 < 2 ^ 64"
  shows "unat ((ucast (h3_days s) * 1440 + ucast (h3_minutes_of_day s) + delta :: u64) mod 5898240)
    = (huc3_minutes s + unat delta) mod 5898240"
proof -
  have days: "unat (h3_days s) < 4096" and mins: "unat (h3_minutes_of_day s) < 1440"
    using assms(1) by (simp_all add: huc3_rtc_ok_unat)
  have "unat (ucast (h3_days s) * 1440 :: u64) = unat (h3_days s) * 1440"
    using days by (simp add: unat_word_ariths unat_widen)
  then have "unat (ucast (h3_days s) * 1440 + ucast (h3_minutes_of_day s) :: u64) = huc3_minutes s"
    using days mins unat_u64_add [of "ucast (h3_days s) * 1440" "ucast (h3_minutes_of_day s)"]
    by (simp add: unat_widen huc3_minutes_def)
  moreover have "huc3_minutes s < 5898240"
    using days mins by (simp add: huc3_minutes_def)
  ultimately have "unat (ucast (h3_days s) * 1440 + ucast (h3_minutes_of_day s) + delta :: u64)
      = huc3_minutes s + unat delta"
    using assms(2) unat_u64_add [of "ucast (h3_days s) * 1440 + ucast (h3_minutes_of_day s)" delta] by simp
  then show ?thesis by (simp add: unat_mod)
qed

lemma huc3_store_minutes:
  assumes "unat (w :: u64) < 5898240"
  shows "unat (ucast (w div 1440) :: u16) = unat w div 1440"
    and "unat (ucast (w mod 1440) :: u16) = unat w mod 1440"
  using assms unat_narrow(1) [of "w div 1440"] unat_narrow(1) [of "w mod 1440"]
  by (simp_all add: unat_div unat_mod)

lemma advance_huc3_in_range:
  fixes e :: u64
  assumes "huc3_rtc_ok s" and "e \<noteq> 0"
  defines "t \<equiv> ucast (h3_subminute_seconds s) + e"
  shows "advance_huc3_rtc_fields e s =
    (if t div 60 = 0 then s\<lparr>h3_subminute_seconds := ucast (t mod 60)\<rparr>
     else
       (let w = (ucast (h3_days s) * 1440 + ucast (h3_minutes_of_day s) + t div 60 :: u64) mod 5898240
        in s\<lparr>h3_subminute_seconds := ucast (t mod 60), h3_days := ucast (w div 1440),
             h3_minutes_of_day := ucast (w mod 1440)\<rparr>))"
proof -
  have "s\<lparr>h3_minutes_of_day := h3_minutes_of_day s, h3_days := h3_days s,
      h3_subminute_seconds := h3_subminute_seconds s\<rparr> = s" by simp
  then show ?thesis
    using assms(2) in_range_self [OF assms(1)] unfolding t_def
    by (simp add: advance_huc3_rtc_fields_def Let_def)
      (simp add: HUC3_MINUTES_PER_DAY_def HUC3_DAY_COUNTER_MODULUS_def)
qed

text \<open>Advancing the HuC-3 clock by any number of seconds keeps it in range, adds that many
  seconds modulo 4096 days, and leaves the alarm where it was.\<close>

theorem huc3_clock_counts_seconds:
  assumes ok: "huc3_rtc_ok s" and bound: "unat e + 60 < 2 ^ 64"
  shows "huc3_rtc_ok (advance_huc3_rtc_fields e s)
    \<and> huc3_seconds (advance_huc3_rtc_fields e s) = (huc3_seconds s + unat e) mod (5898240 * 60)
    \<and> huc3_event_minutes (advance_huc3_rtc_fields e s) = huc3_event_minutes s"
proof -
  define t where "t = ucast (h3_subminute_seconds s) + e"
  have sub: "unat (h3_subminute_seconds s) < 60" using ok by (simp add: huc3_rtc_ok_unat)
  have t: "unat t = unat (h3_subminute_seconds s) + unat e"
    unfolding t_def using sub bound
    by (subst unat_u64_add) (simp_all add: unat_widen)
  have rest: "unat (ucast (t mod 60) :: u8) = unat t mod 60"
    using unat_narrow(2) [of "t mod 60"] by (simp add: unat_mod)
  have delta: "unat (t div 60) = unat t div 60" by (simp add: unat_div)
  have total: "huc3_seconds s + unat e = huc3_minutes s * 60 + unat t"
    by (simp add: huc3_seconds_def t)
  define w where "w = (ucast (h3_days s) * 1440 + ucast (h3_minutes_of_day s) + t div 60 :: u64) mod 5898240"
  have w: "unat w = (huc3_minutes s + unat t div 60) mod 5898240"
    unfolding w_def using wrapped_minutes [OF ok, of "t div 60"] sub bound t by (simp add: delta)
  have less: "huc3_minutes s < 5898240" using ok by (simp add: huc3_rtc_ok_unat huc3_minutes_def)
  have cycle: "((huc3_minutes s + unat t div 60) mod 5898240) * 60 + unat t mod 60
      = (huc3_seconds s + unat e) mod (5898240 * 60)"
    unfolding total by (rule cycle_of_seconds)
  show ?thesis
  proof (cases "e = 0")
    case True
    have "huc3_seconds s < 5898240 * 60" using less sub by (simp add: huc3_seconds_def)
    with ok True show ?thesis by (simp add: advance_huc3_rtc_fields_def)
  next
    case False
    note advance = advance_huc3_in_range [OF ok False, folded t_def, unfolded Let_def, folded w_def]
    show ?thesis
    proof (cases "t div 60 = 0")
      case True
      then have "unat t div 60 = 0" using delta by (metis unat_0)
      with True cycle less ok rest sub show ?thesis
        by (simp add: advance huc3_rtc_ok_unat huc3_seconds_def huc3_minutes_def huc3_event_minutes_def)
    next
      case False
      have "unat w < 5898240" using w by simp
      note stored = huc3_store_minutes [OF this]
      have "unat w div 1440 < 4096" using \<open>unat w < 5898240\<close> by linarith
      moreover have "unat w div 1440 * 1440 + unat w mod 1440 = unat w" by (rule day_split)
      ultimately show ?thesis
        using False cycle ok rest stored w
        by (simp add: advance huc3_rtc_ok_unat huc3_seconds_def huc3_minutes_def huc3_event_minutes_def)
    qed
  qed
qed

lemma huc3_clock_counts_seconds_witness:
  "huc3_seconds (advance_huc3_rtc_fields 61
      \<lparr>h3_minutes_of_day = 1439, h3_days = 4095, h3_subminute_seconds = 0, h3_event_minutes_of_day = 7,
       h3_event_days = 1\<rparr>) = 1"
  using huc3_clock_counts_seconds [of "\<lparr>h3_minutes_of_day = 1439, h3_days = 4095, h3_subminute_seconds = 0,
      h3_event_minutes_of_day = 7, h3_event_days = 1\<rparr>" 61]
  by (simp add: huc3_rtc_ok_unat huc3_seconds_def huc3_minutes_def)

subsection \<open>Setting the time keeps the event's distance\<close>

lemma unat_u16_wide: "unat (ucast (a :: u16) :: u32) = unat a"
  using unsigned_less [of a, where 'a = nat] by (simp add: unsigned_ucast_eq take_bit_nat_eq_self)

lemma unat_minutes:
  assumes "unat d < 4096" and "unat (m :: u16) < 1440"
  shows "unat (ucast (d :: u16) * 1440 + ucast m :: u32) = unat d * 1440 + unat m"
  using assms by (simp add: unat_word_ariths unat_u16_wide)

lemma total_minutes_unat:
  assumes "huc3_rtc_ok s"
  shows "unat (current_total_minutes s) = huc3_minutes s"
    and "unat (event_total_minutes s) = huc3_event_minutes s"
    and "huc3_minutes s < 5898240" and "huc3_event_minutes s < 5898240"
  using assms unat_minutes
  by (simp_all add: current_total_minutes_def event_total_minutes_def HUC3_MINUTES_PER_DAY_def
      huc3_rtc_ok_unat huc3_minutes_def huc3_event_minutes_def)

lemma rtc_cycle_value: "rtc_cycle_minutes = 5898240"
  by (simp add: rtc_cycle_minutes_def HUC3_MINUTES_PER_DAY_def HUC3_DAY_COUNTER_MODULUS_def)

lemma remaining_unat:
  assumes "huc3_rtc_ok s"
  shows "unat (remaining_event_delta_minutes s) = (huc3_event_minutes s + 5898240 - huc3_minutes s) mod 5898240"
proof -
  note totals = total_minutes_unat [OF assms]
  have sum: "unat (event_total_minutes s + 5898240) = huc3_event_minutes s + 5898240"
    using totals by (simp add: unat_word_ariths)
  then have "current_total_minutes s \<le> event_total_minutes s + 5898240"
    using totals by (simp add: word_le_nat_alt)
  then have "unat (event_total_minutes s + 5898240 - current_total_minutes s)
      = huc3_event_minutes s + 5898240 - huc3_minutes s"
    using sum totals by (simp add: unat_sub)
  then show ?thesis by (simp add: remaining_event_delta_minutes_def rtc_cycle_value unat_mod)
qed

lemma unat_u32_narrow: "unat (w :: u32) < 65536 \<Longrightarrow> unat (ucast w :: u16) = unat w"
  by (simp add: unsigned_ucast_eq take_bit_eq_mod)

lemma set_event_minutes:
  assumes "huc3_rtc_ok s"
  shows "huc3_rtc_ok (set_event_total_minutes w s)
    \<and> huc3_minutes (set_event_total_minutes w s) = huc3_minutes s
    \<and> huc3_event_minutes (set_event_total_minutes w s) = unat w mod 5898240"
proof -
  define v where "v = w mod 5898240"
  have v: "unat v = unat w mod 5898240" by (simp add: v_def unat_mod)
  then have less: "unat v < 5898240" by simp
  then have days: "unat v div 1440 < 4096" by linarith
  have "unat (ucast (v div 1440) mod 0x1000 :: u16) = unat v div 1440"
    using days unat_u32_narrow [of "v div 1440"] by (simp add: unat_div unat_mod)
  moreover have "unat (ucast (v mod 1440) :: u16) = unat v mod 1440"
    using unat_u32_narrow [of "v mod 1440"] by (simp add: unat_mod)
  moreover have "unat v div 1440 * 1440 + unat v mod 1440 = unat v" by (rule day_split)
  ultimately show ?thesis
    using assms days v
    by (simp add: set_event_total_minutes_def Let_def rtc_cycle_value HUC3_MINUTES_PER_DAY_def
        HUC3_DAY_COUNTER_MODULUS_def v_def [symmetric])
      (simp add: huc3_rtc_ok_unat huc3_minutes_def huc3_event_minutes_def)
qed

lemma distance_kept:
  fixes m :: nat
  assumes "r < n" and "m < n"
  shows "((m + r) mod n + n - m) mod n = r"
proof (cases "m + r < n")
  case True
  then show ?thesis using assms by simp
next
  case False
  then have "(m + r) mod n = m + r - n" using assms by (simp add: mod_if)
  then show ?thesis using assms False by simp
qed

lemma sync_rtc [simp]: "huc3_rtc (sync_tracked_rtc_locations c) = huc3_rtc c"
  by (simp add: sync_tracked_rtc_locations_def)

text \<open>Setting the HuC-3 clock from the I/O window takes the window's time, modulo its range,
  and moves the alarm along: as many minutes remain until it as before.\<close>

theorem huc3_set_time_keeps_the_alarm:
  assumes "huc3_rtc_ok (huc3_rtc c)"
  defines "rtc' \<equiv> huc3_rtc (apply_io_window_current_time_preserving_event_delta c)"
  shows "huc3_rtc_ok rtc'
    \<and> huc3_minutes rtc' = unat (triplet_read 3 (huc3_mcu_ram c)) mod 4096 * 1440
        + unat (triplet_read 0 (huc3_mcu_ram c)) mod 1440
    \<and> remaining_event_delta_minutes rtc' = remaining_event_delta_minutes (huc3_rtc c)"
proof -
  let ?m = "triplet_read 0 (huc3_mcu_ram c) mod HUC3_MINUTES_PER_DAY"
  let ?d = "triplet_read 3 (huc3_mcu_ram c) mod HUC3_DAY_COUNTER_MODULUS"
  define rtc1 where "rtc1 = (huc3_rtc c)\<lparr>h3_minutes_of_day := ?m, h3_days := ?d, h3_subminute_seconds := 0\<rparr>"
  define w where "w = (current_total_minutes rtc1 + remaining_event_delta_minutes (huc3_rtc c)) mod rtc_cycle_minutes"
  have window: "unat ?m = unat (triplet_read 0 (huc3_mcu_ram c)) mod 1440"
    "unat ?d = unat (triplet_read 3 (huc3_mcu_ram c)) mod 4096"
    by (simp_all add: unat_mod HUC3_MINUTES_PER_DAY_def HUC3_DAY_COUNTER_MODULUS_def)
  have rtc1: "huc3_rtc_ok rtc1" "huc3_minutes rtc1 = unat ?d * 1440 + unat ?m"
    using assms(1) window by (simp_all add: huc3_rtc_ok_unat rtc1_def huc3_minutes_def)
  have rtc': "rtc' = set_event_total_minutes w rtc1"
    by (simp add: rtc'_def apply_io_window_current_time_preserving_event_delta_def Let_def w_def rtc1_def)
  note set1 = set_event_minutes [OF rtc1(1), of w, folded rtc']
  note totals = total_minutes_unat [OF rtc1(1)]
  let ?r = "unat (remaining_event_delta_minutes (huc3_rtc c))"
  have r: "?r < 5898240" using remaining_unat [OF assms(1)] by simp
  have "unat (current_total_minutes rtc1 + remaining_event_delta_minutes (huc3_rtc c)) = huc3_minutes rtc1 + ?r"
    using r totals by (simp add: unat_word_ariths)
  then have "unat w = (huc3_minutes rtc1 + ?r) mod 5898240" by (simp add: w_def rtc_cycle_value unat_mod)
  then have "unat (remaining_event_delta_minutes rtc') = ?r"
    using remaining_unat [of rtc'] set1 distance_kept [OF r totals(3)] by simp
  then have "remaining_event_delta_minutes rtc' = remaining_event_delta_minutes (huc3_rtc c)"
    by (rule word_unat_eq_iff [THEN iffD2])
  with set1 rtc1(2) window show ?thesis by simp
qed

end
