(* ===== verification/Cart_Camera.thy ===== *)
theory Cart_Camera
  imports Cart_Samples
begin

text \<open>
  The Pocket Camera (\<open>pocket_camera.rs\<close>): sixteen RAM banks or 54 registers in the external
  window, and a capture that is staged when it starts and reaches the RAM when its time has
  passed. Pixels are \<open>i32\<close> in the code, always small, and \<open>int\<close> here; products with an edge
  factor are \<open>f32\<close> in the code and exact, since the factors are quarters and the products have
  at most fourteen bits, so truncating them is the division below.
\<close>

definition POCKET_CAMERA_SUPPORTED_ROM_BYTES :: nat where
  "POCKET_CAMERA_SUPPORTED_ROM_BYTES = 1024 * 1024"
definition POCKET_CAMERA_SUPPORTED_RAM_BYTES :: nat where
  "POCKET_CAMERA_SUPPORTED_RAM_BYTES = 128 * 1024"
definition POCKET_CAMERA_RAM_BANK_BYTES :: nat where "POCKET_CAMERA_RAM_BANK_BYTES = 8 * 1024"
definition CAPTURE_TILE_BASE_OFFSET :: nat where "CAPTURE_TILE_BASE_OFFSET = 0x0100"
definition CAPTURE_TILE_BYTES :: nat where "CAPTURE_TILE_BYTES = 14 * 16 * 16"
definition CAPTURE_TILE_WIDTH :: nat where "CAPTURE_TILE_WIDTH = 16"
definition CAPTURE_WIDTH :: nat where "CAPTURE_WIDTH = 128"
definition CAPTURE_HEIGHT :: nat where "CAPTURE_HEIGHT = 112"
definition CAPTURE_PIXEL_COUNT :: nat where "CAPTURE_PIXEL_COUNT = CAPTURE_WIDTH * CAPTURE_HEIGHT"
definition SENSOR_EXTRA_LINES :: nat where "SENSOR_EXTRA_LINES = 8"
definition SENSOR_HEIGHT :: nat where "SENSOR_HEIGHT = CAPTURE_HEIGHT + SENSOR_EXTRA_LINES"
definition SENSOR_PIXEL_COUNT :: nat where "SENSOR_PIXEL_COUNT = CAPTURE_WIDTH * SENSOR_HEIGHT"
definition CAMERA_REGISTER_COUNT :: nat where "CAMERA_REGISTER_COUNT = 0x36"
definition CAMERA_REGISTER_MIRROR_MASK :: u64 where "CAMERA_REGISTER_MIRROR_MASK = 0x7F"
definition CAMERA_WORKING_RAM_READ_VALUE :: u8 where "CAMERA_WORKING_RAM_READ_VALUE = 0x00"

lemmas camera_sizes [size_defs] =
  POCKET_CAMERA_SUPPORTED_RAM_BYTES_def POCKET_CAMERA_RAM_BANK_BYTES_def CAPTURE_TILE_BASE_OFFSET_def
  CAPTURE_TILE_BYTES_def CAPTURE_TILE_WIDTH_def CAPTURE_WIDTH_def CAPTURE_HEIGHT_def
  CAPTURE_PIXEL_COUNT_def SENSOR_EXTRA_LINES_def SENSOR_HEIGHT_def SENSOR_PIXEL_COUNT_def
  CAMERA_REGISTER_COUNT_def

text \<open>Rust's \<open>/\<close> on signed integers truncates towards zero; \<open>clamp\<close>.\<close>

definition trunc_div :: "int \<Rightarrow> int \<Rightarrow> int" where
  "trunc_div a b = (if 0 \<le> a then a div b else - (- a div b))"

definition clamp :: "int \<Rightarrow> int \<Rightarrow> int \<Rightarrow> int" where
  "clamp lo hi v = (if v < lo then lo else if hi < v then hi else v)"

subsection \<open>State\<close>

record pocket_camera_frame =
  frame_width :: u16
  frame_height :: u16
  frame_pixels :: "u8 list"

datatype pocket_camera_frame_error =
    CameraUnsupportedCartridge
  | InvalidDimensions u16 u16 nat

datatype camera_capture_state =
    CaptureIdle
  | CaptureWorking u64 "u8 list"
  | CapturePaused u64 "u8 list"

record pocket_camera = cart_board +
  cam_ram :: "u8 list"
  cam_ram_enabled :: bool
  cam_rom_bank :: u8
  cam_select :: u8
  cam_registers :: "u8 list"
  cam_host_frame :: "u8 list"
  cam_capture :: camera_capture_state

subsection \<open>Host frames\<close>

text \<open>Pixels in rows, as the two nested loops of the code fill them.\<close>

definition raster :: "nat \<Rightarrow> nat \<Rightarrow> (nat \<Rightarrow> nat \<Rightarrow> 'a) \<Rightarrow> 'a list" where
  "raster width height f = concat (map (\<lambda>y. map (\<lambda>x. f x y) [0..<width]) [0..<height])"

definition normalize_frame :: "pocket_camera_frame \<Rightarrow> pocket_camera_frame_error + u8 list" where
  "normalize_frame frame =
     (let width = unat (frame_width frame); height = unat (frame_height frame)
      in if width = 0 \<or> height = 0 \<or> length (frame_pixels frame) \<noteq> width * height
         then Inl (InvalidDimensions (frame_width frame) (frame_height frame) (length (frame_pixels frame)))
         else if width = CAPTURE_WIDTH \<and> height = CAPTURE_HEIGHT then Inr (frame_pixels frame)
         else Inr (raster CAPTURE_WIDTH CAPTURE_HEIGHT
           (\<lambda>x y. frame_pixels frame ! (y * height div CAPTURE_HEIGHT * width + x * width div CAPTURE_WIDTH))))"

definition placeholder_frame :: "u8 list" where
  "placeholder_frame =
     raster CAPTURE_WIDTH CAPTURE_HEIGHT
       (\<lambda>x y. if x = 0 \<or> y = 0 \<or> x + 1 = CAPTURE_WIDTH \<or> y + 1 = CAPTURE_HEIGHT then 0
              else [0, 85, 170, 255] ! (x * 4 div CAPTURE_WIDTH))"

definition set_host_frame :: "pocket_camera_frame \<Rightarrow> pocket_camera \<Rightarrow> pocket_camera_frame_error + pocket_camera" where
  "set_host_frame frame c =
     (case normalize_frame frame of Inl e \<Rightarrow> Inl e | Inr pixels \<Rightarrow> Inr (c\<lparr>cam_host_frame := pixels\<rparr>))"

definition clear_host_frame :: "pocket_camera \<Rightarrow> pocket_camera" where
  "clear_host_frame c = c\<lparr>cam_host_frame := placeholder_frame\<rparr>"

subsection \<open>The sensor and its filters\<close>

definition capture_exposure :: "pocket_camera \<Rightarrow> u16" where
  "capture_exposure c = push_bit 8 (ucast (cam_registers c ! 2)) OR ucast (cam_registers c ! 3)"

definition capture_duration_t_cycles :: "pocket_camera \<Rightarrow> u64" where
  "capture_duration_t_cycles c =
     4 * (32446 + (if cam_registers c ! 1 AND 0x80 \<noteq> 0 then 0 else 512) + 16 * ucast (capture_exposure c))"

definition build_sensor_image :: "pocket_camera \<Rightarrow> int list" where
  "build_sensor_image c =
     (let exposure = uint (capture_exposure c);
          invert = cam_registers c ! 4 AND 0x08 \<noteq> 0
      in raster CAPTURE_WIDTH SENSOR_HEIGHT (\<lambda>x y.
           let source_y = (if y < SENSOR_EXTRA_LINES div 2 then 0
                           else if CAPTURE_HEIGHT + SENSOR_EXTRA_LINES div 2 \<le> y then CAPTURE_HEIGHT - 1
                           else y - SENSOR_EXTRA_LINES div 2);
               v0 = uint (cam_host_frame c ! (source_y * CAPTURE_WIDTH + x));
               v1 = trunc_div (v0 * exposure) 0x0300;
               v2 = clamp 0 255 (128 + trunc_div (v1 - 128) 8)
           in if invert then 255 - v2 else v2))"

definition pixel_index :: "nat \<Rightarrow> nat \<Rightarrow> nat" where
  "pixel_index x y = y * CAPTURE_WIDTH + x"

text \<open>The kernel of the one-dimensional modes, on the pixel and its southern neighbour.\<close>

definition p_bits :: "pocket_camera \<Rightarrow> nat" where
  "p_bits c = (if drop_bit 1 (cam_registers c ! 0) AND 0x03 = 0 then 0 else 1)"

definition m_bits :: "pocket_camera \<Rightarrow> nat" where
  "m_bits c =
     (let selector = drop_bit 1 (cam_registers c ! 0) AND 0x03
      in if selector = 0 then 1 else if selector = 1 then 0 else 2)"

definition vertical_kernel :: "pocket_camera \<Rightarrow> int list \<Rightarrow> int list" where
  "vertical_kernel c temp =
     raster CAPTURE_WIDTH SENSOR_HEIGHT (\<lambda>x y.
       let south = temp ! pixel_index x (min (y + 1) (SENSOR_HEIGHT - 1));
           current = temp ! pixel_index x y
       in clamp (-128) 127
            ((if odd (p_bits c) then current else 0) + (if odd (p_bits c div 2) then south else 0)
             - (if odd (m_bits c) then current else 0) - (if odd (m_bits c div 2) then south else 0)))"

text \<open>The edge factors, in quarters: 0.5, 0.75, 1, 1.25, 2, 3, 4 and 5.\<close>

definition edge_quarters :: "pocket_camera \<Rightarrow> int" where
  "edge_quarters c =
     [2, 3, 4, 5, 8, 12, 16, 20] ! unat (drop_bit 4 (cam_registers c ! 4 AND 0x70))"

definition horizontal_edges :: "pocket_camera \<Rightarrow> int list \<Rightarrow> int list" where
  "horizontal_edges c original =
     raster CAPTURE_WIDTH SENSOR_HEIGHT (\<lambda>x y.
       let west = original ! pixel_index (x - 1) y;
           east = original ! pixel_index (min (x + 1) (CAPTURE_WIDTH - 1)) y;
           current = original ! pixel_index x y
       in clamp 0 255 (current + trunc_div ((2 * current - west - east) * edge_quarters c) 4))"

definition two_dimensional_edges :: "pocket_camera \<Rightarrow> int list \<Rightarrow> int list" where
  "two_dimensional_edges c original =
     raster CAPTURE_WIDTH SENSOR_HEIGHT (\<lambda>x y.
       let south = original ! pixel_index x (min (y + 1) (SENSOR_HEIGHT - 1));
           north = original ! pixel_index x (y - 1);
           west = original ! pixel_index (x - 1) y;
           east = original ! pixel_index (min (x + 1) (CAPTURE_WIDTH - 1)) y;
           current = original ! pixel_index x y
       in clamp (-128) 127
            (current + trunc_div ((4 * current - west - east - north - south) * edge_quarters c) 4))"

definition filtering_mode :: "pocket_camera \<Rightarrow> nat" where
  "filtering_mode c =
     (if cam_registers c ! 1 AND 0x80 \<noteq> 0 then 8 else 0)
     + unat (drop_bit 5 (cam_registers c ! 1) AND 0x03) * 2
     + (if cam_registers c ! 4 AND 0x80 \<noteq> 0 then 1 else 0)"

definition apply_filtering :: "pocket_camera \<Rightarrow> int list \<Rightarrow> int list" where
  "apply_filtering c pixels =
     (let mode = filtering_mode c
      in if mode = 0x0 then vertical_kernel c pixels
         else if mode = 0x2 then vertical_kernel c (horizontal_edges c pixels)
         else if mode = 0xE then two_dimensional_edges c pixels
         else if mode = 0x1 then replicate (length pixels) 0
         else pixels)"

definition matrix_map :: "pocket_camera \<Rightarrow> u8 \<Rightarrow> nat \<Rightarrow> nat \<Rightarrow> u8" where
  "matrix_map c v x y =
     (let base = 6 + (y mod 4 * 4 + x mod 4) * 3
      in if v < cam_registers c ! base then 0x00
         else if v < cam_registers c ! (base + 1) then 0x40
         else if v < cam_registers c ! (base + 2) then 0x80
         else 0xC0)"

subsection \<open>Tiles\<close>

definition four_color :: "pocket_camera \<Rightarrow> u8 list" where
  "four_color c =
     (let processed = map (\<lambda>v. v + 128) (apply_filtering c (map (\<lambda>v. v - 128) (build_sensor_image c)))
      in raster CAPTURE_WIDTH CAPTURE_HEIGHT (\<lambda>x y.
           matrix_map c
             (word_of_int (clamp 0 255 (processed ! ((y + SENSOR_EXTRA_LINES div 2) * CAPTURE_WIDTH + x)))) x y))"

definition tile_offset :: "nat \<Rightarrow> nat \<Rightarrow> nat" where
  "tile_offset x y = (y div 8 * CAPTURE_TILE_WIDTH + x div 8) * 16 + y mod 8 * 2"

text \<open>One pixel: its two colour bits go to the same bit of two neighbouring bytes.\<close>

definition put_pixel :: "u8 \<Rightarrow> nat \<Rightarrow> nat \<Rightarrow> u8 list \<Rightarrow> u8 list" where
  "put_pixel color x y tiles =
     (let offset = tile_offset x y;
          pixel_bit = push_bit (7 - x mod 8) 1;
          t1 = (if color AND 0x01 \<noteq> 0 then tiles[offset := tiles ! offset OR pixel_bit] else tiles)
      in if color AND 0x02 \<noteq> 0 then t1[offset + 1 := t1 ! (offset + 1) OR pixel_bit] else t1)"

definition out_color :: "u8 list \<Rightarrow> nat \<Rightarrow> nat \<Rightarrow> u8" where
  "out_color colors x y = 3 - drop_bit 6 (colors ! (y * CAPTURE_WIDTH + x))"

definition encode_tiles :: "u8 list \<Rightarrow> u8 list" where
  "encode_tiles colors =
     fold (\<lambda>(x, y). put_pixel (out_color colors x y) x y)
       (raster CAPTURE_WIDTH CAPTURE_HEIGHT (\<lambda>x y. (x, y))) (replicate CAPTURE_TILE_BYTES 0)"

definition build_capture_tiles :: "pocket_camera \<Rightarrow> u8 list" where
  "build_capture_tiles c = encode_tiles (four_color c)"

subsection \<open>Capturing\<close>

definition capture_is_working :: "pocket_camera \<Rightarrow> bool" where
  "capture_is_working c = (case cam_capture c of CaptureWorking _ _ \<Rightarrow> True | _ \<Rightarrow> False)"

definition capture_ready_at :: "pocket_camera \<Rightarrow> u64 option" where
  "capture_ready_at c = (case cam_capture c of CaptureWorking ready_at _ \<Rightarrow> Some ready_at | _ \<Rightarrow> None)"

definition commit_staged_tiles :: "u8 list \<Rightarrow> pocket_camera \<Rightarrow> pocket_camera" where
  "commit_staged_tiles staged c =
     (let start = CAPTURE_TILE_BASE_OFFSET
      in if start + length staged \<le> length (cam_ram c)
         then c\<lparr>cam_ram := take start (cam_ram c) @ staged @ drop (start + length staged) (cam_ram c)\<rparr>
         else c)"

definition maybe_complete_capture :: "u64 option \<Rightarrow> pocket_camera \<Rightarrow> pocket_camera" where
  "maybe_complete_capture t c =
     (case (t, cam_capture c) of
        (Some now, CaptureWorking ready_at staged) \<Rightarrow>
          if ready_at \<le> now then commit_staged_tiles staged (c\<lparr>cam_capture := CaptureIdle\<rparr>) else c
      | _ \<Rightarrow> c)"

definition start_new_capture :: "u64 option \<Rightarrow> pocket_camera \<Rightarrow> pocket_camera" where
  "start_new_capture t c =
     (let duration = capture_duration_t_cycles c
      in c\<lparr>cam_capture := CaptureWorking
             (case t of Some now \<Rightarrow> u64_saturating_add now duration | None \<Rightarrow> duration)
             (build_capture_tiles c)\<rparr>)"

definition u64_saturating_sub :: "u64 \<Rightarrow> u64 \<Rightarrow> u64" where
  "u64_saturating_sub a b = (if a < b then 0 else a - b)"

definition pause_capture :: "u64 option \<Rightarrow> pocket_camera \<Rightarrow> pocket_camera" where
  "pause_capture t c =
     (case cam_capture c of
        CaptureWorking ready_at staged \<Rightarrow>
          c\<lparr>cam_capture := CapturePaused
              (case t of Some now \<Rightarrow> u64_saturating_sub ready_at now | None \<Rightarrow> ready_at) staged\<rparr>
      | _ \<Rightarrow> c)"

definition resume_capture :: "u64 option \<Rightarrow> pocket_camera \<Rightarrow> pocket_camera" where
  "resume_capture t c =
     (case cam_capture c of
        CapturePaused remaining staged \<Rightarrow>
          c\<lparr>cam_capture := CaptureWorking
              (case t of Some now \<Rightarrow> u64_saturating_add now remaining | None \<Rightarrow> remaining) staged\<rparr>
      | _ \<Rightarrow> c)"

subsection \<open>The cartridge\<close>

definition registers_selected :: "pocket_camera \<Rightarrow> bool" where
  "registers_selected c = (cam_select c AND 0x10 \<noteq> 0)"

definition selected_ram_bank :: "pocket_camera \<Rightarrow> u8" where
  "selected_ram_bank c = cam_select c AND 0x0F"

definition camera_ram_offset :: "u16 \<Rightarrow> pocket_camera \<Rightarrow> nat" where
  "camera_ram_offset address c =
     unat (selected_ram_bank c) * POCKET_CAMERA_RAM_BANK_BYTES + ram_base_offset address"

text \<open>\<open>(address as usize - 0xA000) & 0x7F\<close>: below 0xA000 the subtraction wraps at 64 bits.\<close>

definition register_offset :: "u16 \<Rightarrow> nat" where
  "register_offset address = unat ((ucast address - 0xA000 :: u64) AND CAMERA_REGISTER_MIRROR_MASK)"

definition camera_describe :: "u16 \<Rightarrow> pocket_camera \<Rightarrow> cartridge_external_access_info" where
  "camera_describe address c =
     (if registers_selected c then
        (let offset = of_nat (register_offset address) :: u8;
             is_register = unat offset < CAMERA_REGISTER_COUNT
         in access_info_new address (PocketCameraRegister offset)
              (if is_register then Accessible else Reserved)
              (if offset = 0 then ReadStorage else FallbackValue 0)
              (if is_register then WriteStorage else WriteIgnored))
      else
        access_info_new address (BankedRam (selected_ram_bank c))
          (if capture_is_working c then Disabled else Accessible)
          (if capture_is_working c then FallbackValue CAMERA_WORKING_RAM_READ_VALUE else ReadStorage)
          (if capture_is_working c \<or> \<not> cam_ram_enabled c then WriteIgnored else WriteStorage))"

definition camera_effective_rom_bank :: "nat \<Rightarrow> pocket_camera \<Rightarrow> nat" where
  "camera_effective_rom_bank bank_count c = unat (cam_rom_bank c) mod max bank_count 1"

definition camera_bank_count :: "pocket_camera \<Rightarrow> nat" where
  "camera_bank_count c =
     max (case rom_bank_count (hdr_rom_size (cart_header c)) of Some n \<Rightarrow> n | None \<Rightarrow> 1) 1"

definition camera_read_rom :: "pocket_camera \<Rightarrow> u16 \<Rightarrow> u8" where
  "camera_read_rom c address =
     rom_get (cart_rom c)
       (banked_rom_index 0 (camera_effective_rom_bank (camera_bank_count c) c) address)"

definition camera_mapped_rom_window ::
    "pocket_camera \<Rightarrow> u16 \<Rightarrow> cartridge_mapped_rom_window option" where
  "camera_mapped_rom_window c address =
     banked_rom_window 0 (camera_effective_rom_bank (camera_bank_count c) c) address"

definition camera_write_rom :: "u16 \<Rightarrow> u8 \<Rightarrow> pocket_camera \<Rightarrow> pocket_camera" where
  "camera_write_rom address v c =
     (if address \<le> 0x1FFF then c\<lparr>cam_ram_enabled := (v AND 0x0F = 0x0A)\<rparr>
      else if address \<le> 0x3FFF then c\<lparr>cam_rom_bank := v AND 0x3F\<rparr>
      else if address \<le> 0x5FFF then c\<lparr>cam_select := v AND 0x1F\<rparr>
      else c)"

definition camera_read_register :: "u16 \<Rightarrow> pocket_camera \<Rightarrow> u8" where
  "camera_read_register address c =
     (if register_offset address = 0
      then (cam_registers c ! 0 AND 0x06) OR u8_of_bool (capture_is_working c) else 0)"

definition camera_write_register :: "u16 \<Rightarrow> u8 \<Rightarrow> u64 option \<Rightarrow> pocket_camera \<Rightarrow> pocket_camera" where
  "camera_write_register address v t c =
     (let offset = register_offset address
      in if offset = 0 then
           (let c1 = c\<lparr>cam_registers := (cam_registers c)[0 := v AND 0x06]\<rparr>
            in if v AND 0x01 \<noteq> 0 then
                 (case cam_capture c1 of
                    CaptureIdle \<Rightarrow> start_new_capture t c1
                  | CapturePaused _ _ \<Rightarrow> resume_capture t c1
                  | CaptureWorking _ _ \<Rightarrow> c1)
               else if capture_is_working c1 then pause_capture t c1 else c1)
         else if offset \<le> 0x35 then c\<lparr>cam_registers := (cam_registers c)[offset := v]\<rparr>
         else c)"

definition camera_read_resolved :: "u16 \<Rightarrow> pocket_camera \<Rightarrow> u8" where
  "camera_read_resolved address c =
     (if registers_selected c then camera_read_register address c
      else if capture_is_working c then CAMERA_WORKING_RAM_READ_VALUE
      else rom_get (cam_ram c) (camera_ram_offset address c))"

definition camera_write_resolved :: "u16 \<Rightarrow> u8 \<Rightarrow> u64 option \<Rightarrow> pocket_camera \<Rightarrow> pocket_camera" where
  "camera_write_resolved address v t c =
     (if registers_selected c then camera_write_register address v t c
      else if capture_is_working c \<or> \<not> cam_ram_enabled c then c
      else
        (let offset = camera_ram_offset address c
         in if offset < length (cam_ram c) then c\<lparr>cam_ram := (cam_ram c)[offset := v]\<rparr> else c))"

definition camera_read_ram :: "pocket_camera \<Rightarrow> u16 \<Rightarrow> u8" where
  "camera_read_ram c address = camera_read_resolved address c"

definition camera_read_ram_timed :: "u16 \<Rightarrow> u64 \<Rightarrow> pocket_camera \<Rightarrow> u8 \<times> pocket_camera" where
  "camera_read_ram_timed address t c =
     (let c1 = maybe_complete_capture (Some t) c in (camera_read_resolved address c1, c1))"

definition camera_write_ram :: "u16 \<Rightarrow> u8 \<Rightarrow> pocket_camera \<Rightarrow> pocket_camera" where
  "camera_write_ram address v c = camera_write_resolved address v None c"

definition camera_write_ram_timed :: "u16 \<Rightarrow> u8 \<Rightarrow> u64 \<Rightarrow> pocket_camera \<Rightarrow> pocket_camera" where
  "camera_write_ram_timed address v t c =
     camera_write_resolved address v (Some t) (maybe_complete_capture (Some t) c)"

definition camera_persistence_metadata :: "pocket_camera \<Rightarrow> cartridge_persistence_metadata" where
  "camera_persistence_metadata c =
     \<lparr>meta_has_battery = True, meta_has_rtc = False,
      meta_profile = PersistentRam (PayloadLinear (length (cam_ram c)))\<rparr>"

definition camera_persistent_state :: "pocket_camera \<Rightarrow> persistent_cart_state" where
  "camera_persistent_state c = PocketCameraRam (cam_ram c)"

definition camera_restore ::
    "persistent_cart_state \<Rightarrow> pocket_camera \<Rightarrow> persistent_state_error + pocket_camera" where
  "camera_restore s c =
     (case s of
        PocketCameraRam ram \<Rightarrow>
          if length (cam_ram c) \<noteq> length ram
          then Inl (RamLengthMismatch (length (cam_ram c)) (length ram))
          else Inr (c\<lparr>cam_ram := ram\<rparr>)
      | _ \<Rightarrow> kind_mismatch ''PocketCameraRam'' s)"

subsection \<open>Mapper laws\<close>

lemma capture_fields [simp]:
  "cart_rom (start_new_capture t c) = cart_rom c" "cart_header (start_new_capture t c) = cart_header c"
  "cam_ram (start_new_capture t c) = cam_ram c"
  "cart_rom (pause_capture t c) = cart_rom c" "cart_header (pause_capture t c) = cart_header c"
  "cam_ram (pause_capture t c) = cam_ram c"
  "cart_rom (resume_capture t c) = cart_rom c" "cart_header (resume_capture t c) = cart_header c"
  "cam_ram (resume_capture t c) = cam_ram c"
  by (simp_all add: start_new_capture_def pause_capture_def resume_capture_def Let_def
      split: camera_capture_state.split)

lemma camera_write_fields [simp]:
  "cart_rom (camera_write_ram a v c) = cart_rom c" "cart_header (camera_write_ram a v c) = cart_header c"
  "length (cam_ram (camera_write_ram a v c)) = length (cam_ram c)"
  "cart_rom (camera_write_rom a v c) = cart_rom c" "cart_header (camera_write_rom a v c) = cart_header c"
  "cam_ram (camera_write_rom a v c) = cam_ram c"
  by (simp_all add: camera_write_ram_def camera_write_resolved_def camera_write_register_def
      camera_write_rom_def Let_def split: camera_capture_state.split)

interpretation camera: banked_mapper camera_read_rom camera_mapped_rom_window camera_write_rom
  camera_write_ram camera_persistent_state camera_restore cart_rom "\<lambda>c. length (cam_ram c)" "\<lambda>_. True" whole_banks
proof unfold_locales
  show "\<exists>w. camera_mapped_rom_window c a = Some w \<and> win_bank_offset w < win_bank_size w
      \<and> camera_read_rom c a = rom_get (cart_rom c) (window_index w)"
    if "a < 0x8000" for a c
    using banked_window_reads [OF that] by (simp add: camera_mapped_rom_window_def camera_read_rom_def)
next
  show "whole_banks c' \<and> length (cam_ram c') = length (cam_ram c) \<and> cart_rom c' = cart_rom c
      \<and> camera_persistent_state c' = s"
    if "whole_banks c" and "camera_restore s c = Inr c'" for c c' s
    using that
    by (cases s) (auto simp: camera_restore_def camera_persistent_state_def kind_mismatch_def
        whole_banks_def header_rom_banks_def split: if_splits)
next
  show "window_index w < length (cart_rom c)"
    if "whole_banks c" and "camera_mapped_rom_window c a = Some w" for c a w
    using that banked_window_inside [of 0 _ a w]
    by (auto simp: camera_mapped_rom_window_def whole_banks_def camera_effective_rom_bank_def
        camera_bank_count_def header_rom_banks_def max_def split: option.splits)
next
  show "True \<and> (\<exists>d'. camera_restore (camera_persistent_state c) d = Inr d')"
    if "length (cam_ram c) = length (cam_ram d)" for c d
    using that by (simp add: camera_restore_def camera_persistent_state_def)
qed (simp_all add: camera_mapped_rom_window_def banked_rom_window_none whole_banks_def
    header_rom_banks_def camera_persistent_state_def)

subsection \<open>Indices\<close>

lemma length_raster [simp]: "length (raster w h f) = w * h"
proof -
  have "sum_list (map (\<lambda>y. w) ys) = w * length ys" for ys :: "nat list"
    by (induction ys) simp_all
  then show ?thesis by (simp add: raster_def length_concat comp_def)
qed

lemma concat_rows_nth:
  "x < w \<Longrightarrow> y < length rows \<Longrightarrow> \<forall>r \<in> set rows. length r = w \<Longrightarrow> concat rows ! (y * w + x) = rows ! y ! x"
proof (induction rows arbitrary: y)
  case (Cons r rows)
  then show ?case by (cases y) (auto simp: nth_append add.assoc)
qed simp

lemma raster_nth: "x < w \<Longrightarrow> y < h \<Longrightarrow> raster w h f ! (y * w + x) = f x y"
  using concat_rows_nth [of x w y "map (\<lambda>y. map (\<lambda>x. f x y) [0..<w]) [0..<h]"]
  by (simp add: raster_def)

lemma raster_pairs: "set (raster w h (\<lambda>x y. (x, y))) = {..<w} \<times> {..<h}"
  by (auto simp: raster_def)

text \<open>Every index of the conversions is inside its list, so none of them panics.\<close>

lemma scaled_less: "y < h \<Longrightarrow> 0 < n \<Longrightarrow> y * n div h < (n :: nat)"
  by (simp add: div_less_iff_less_mult)

lemma normalize_indices:
  assumes "x < CAPTURE_WIDTH" and "y < CAPTURE_HEIGHT" and "0 < width" and "0 < height"
  shows "y * height div CAPTURE_HEIGHT * width + x * width div CAPTURE_WIDTH < width * height"
proof -
  have "y * height div CAPTURE_HEIGHT < height" and "x * width div CAPTURE_WIDTH < width"
    using assms scaled_less by blast+
  then have "(y * height div CAPTURE_HEIGHT + 1) * width \<le> height * width"
    by (intro mult_le_mono1) simp
  with \<open>x * width div CAPTURE_WIDTH < width\<close> show ?thesis by (simp add: mult.commute)
qed

lemma normalized_length: "normalize_frame frame = Inr pixels \<Longrightarrow> length pixels = CAPTURE_PIXEL_COUNT"
  by (auto simp: normalize_frame_def Let_def CAPTURE_PIXEL_COUNT_def split: if_splits)

lemma filtered_length:
  "length pixels = SENSOR_PIXEL_COUNT \<Longrightarrow> length (apply_filtering c pixels) = SENSOR_PIXEL_COUNT"
  by (simp add: apply_filtering_def Let_def vertical_kernel_def two_dimensional_edges_def SENSOR_PIXEL_COUNT_def)

lemma matrix_indices: "6 + (y mod 4 * 4 + x mod 4) * 3 + 2 < (54 :: nat)"
proof -
  have "6 + (b * 4 + a) * 3 + 2 < 54" if "a < 4" "b < 4" for a b :: nat using that by presburger
  from this [of "x mod 4" "y mod 4"] show ?thesis by simp
qed

subsection \<open>The tiles hold the picture\<close>

definition tile_pixel_bit :: "u8 list \<Rightarrow> nat \<Rightarrow> nat \<Rightarrow> nat \<Rightarrow> bool" where
  "tile_pixel_bit tiles x y plane = bit (tiles ! (tile_offset x y + plane)) (7 - x mod 8)"

lemma tile_offset_less:
  assumes "x < 128" and "y < 112"
  shows "tile_offset x y + 1 < 3584"
proof -
  have "x div 8 \<le> 15" "y div 8 \<le> 13" "y mod 8 \<le> 7" using assms by simp_all
  then show ?thesis by (simp add: tile_offset_def CAPTURE_TILE_WIDTH_def)
qed

lemma tile_offset_inject:
  assumes "x < 128" and "x' < 128" and "k < 2" and "k' < 2"
    and same: "tile_offset x y + k = tile_offset x' y' + k'" and bits: "7 - x mod 8 = 7 - x' mod 8"
  shows "x = x' \<and> y = y' \<and> k = k'"
proof -
  define f where "f x y k = (y div 8 * 16 + x div 8) * 16 + (y mod 8 * 2 + k)" for x y k :: nat
  have digits: "(q * 16 + r) div 16 = q \<and> (q * 16 + r) mod 16 = r" if "r < 16" for q r :: nat
    using that by simp
  have row: "f x y k div 16 = y div 8 * 16 + x div 8" "f x y k mod 16 = y mod 8 * 2 + k" if "k < 2" for x y k :: nat
  proof -
    have "y mod 8 < 8" by simp
    with that have "y mod 8 * 2 + k < 16" by linarith
    then show "f x y k div 16 = y div 8 * 16 + x div 8" "f x y k mod 16 = y mod 8 * 2 + k"
      using digits [of "y mod 8 * 2 + k" "y div 8 * 16 + x div 8"] by (simp_all only: f_def)
  qed
  have "f x y k = f x' y' k'" using same by (simp add: f_def tile_offset_def CAPTURE_TILE_WIDTH_def)
  then have tiles: "y div 8 * 16 + x div 8 = y' div 8 * 16 + x' div 8"
    and rows: "y mod 8 * 2 + k = y' mod 8 * 2 + k'"
    using row [of k] row [of k'] assms(3,4) by metis+
  have "x div 8 < 16" "x' div 8 < 16" using assms(1,2) by simp_all
  then have "x div 8 = x' div 8 \<and> y div 8 = y' div 8"
    using digits [of "x div 8" "y div 8"] digits [of "x' div 8" "y' div 8"] tiles by metis
  moreover have "b = b' \<and> p = p'" if "b * 2 + p = b' * 2 + p'" "p < 2" "p' < 2" for b b' p p' :: nat
    using that by presburger
  from this [OF rows assms(3,4)] have "y mod 8 = y' mod 8 \<and> k = k'" .
  moreover have "b = b'" if "7 - b = 7 - b'" "b < 8" "b' < 8" for b b' :: nat using that by linarith
  from this [OF bits] have "x mod 8 = x' mod 8" by simp
  ultimately show ?thesis by (metis div_mult_mod_eq)
qed

lemma color_planes: "(col AND 1 \<noteq> 0) = bit (col :: u8) 0" "(col AND 2 \<noteq> 0) = bit (col :: u8) 1"
  using and_exp_eq_0_iff_not_bit [of col 0] and_exp_eq_0_iff_not_bit [of col 1] by simp_all

lemma put_pixel_length [simp]: "length (put_pixel col x y tiles) = length tiles"
  by (simp add: put_pixel_def Let_def)

lemma put_pixel_nth:
  assumes "length tiles = 3584" and "x < 128" and "y < 112" and "i < 3584"
  shows "put_pixel col x y tiles ! i =
    (if i = tile_offset x y \<and> bit col 0 \<or> i = tile_offset x y + 1 \<and> bit col 1
     then tiles ! i OR push_bit (7 - x mod 8) 1 else tiles ! i)"
  using tile_offset_less [OF assms(2,3)] assms(1,4)
  by (simp add: put_pixel_def Let_def color_planes nth_list_update)

lemma put_pixel_bit:
  assumes "length tiles = 3584" and "x < 128" and "y < 112" and "x' < 128" and "y' < 112" and "k < 2"
  shows "tile_pixel_bit (put_pixel col x y tiles) x' y' k
    = (tile_pixel_bit tiles x' y' k \<or> x = x' \<and> y = y' \<and> bit col k)"
proof -
  let ?i = "tile_offset x' y' + k"
  have i: "?i < 3584" using tile_offset_less [OF assms(4,5)] assms(6) by linarith
  have one: "bit (push_bit n 1 :: u8) m = (n = m)" if "m < 8" for n m
    using that by (auto simp: bit_exp_iff)
  have hit: "(?i = tile_offset x y \<and> bit col 0 \<or> ?i = tile_offset x y + 1 \<and> bit col 1) \<and> 7 - x mod 8 = 7 - x' mod 8
      \<longleftrightarrow> x = x' \<and> y = y' \<and> bit col k"
  proof
    assume "(?i = tile_offset x y \<and> bit col 0 \<or> ?i = tile_offset x y + 1 \<and> bit col 1) \<and> 7 - x mod 8 = 7 - x' mod 8"
    then have "(\<exists>n < 2. ?i = tile_offset x y + n \<and> bit col n)" and same: "7 - x' mod 8 = 7 - x mod 8"
      by (auto intro: exI [of _ 0] exI [of _ 1])
    then obtain n where n: "n < 2" "?i = tile_offset x y + n" "bit col n" "7 - x' mod 8 = 7 - x mod 8" by blast
    from tile_offset_inject [OF assms(4,2,6) n(1,2,4)] n(3) show "x = x' \<and> y = y' \<and> bit col k" by metis
  next
    assume same: "x = x' \<and> y = y' \<and> bit col k"
    have "k = 0 \<or> k = 1" using assms(6) by linarith
    with same show "(?i = tile_offset x y \<and> bit col 0 \<or> ?i = tile_offset x y + 1 \<and> bit col 1)
        \<and> 7 - x mod 8 = 7 - x' mod 8"
      by (elim disjE) simp_all
  qed
  have "tile_pixel_bit (put_pixel col x y tiles) x' y' k =
      (bit (tiles ! ?i) (7 - x' mod 8)
       \<or> (?i = tile_offset x y \<and> bit col 0 \<or> ?i = tile_offset x y + 1 \<and> bit col 1) \<and> 7 - x mod 8 = 7 - x' mod 8)"
    unfolding tile_pixel_bit_def put_pixel_nth [OF assms(1-3) i]
    by (auto simp: bit_or_iff one simp del: push_bit_of_1)
  then show ?thesis unfolding hit tile_pixel_bit_def .
qed

lemma pixels_put:
  assumes "\<forall>(x, y) \<in> set ps. x < 128 \<and> y < 112" and "x < 128" and "y < 112" and "k < 2"
  shows "length tiles = 3584 \<Longrightarrow>
    tile_pixel_bit (fold (\<lambda>(x, y). put_pixel (color x y) x y) ps tiles) x y k
      = (tile_pixel_bit tiles x y k \<or> (x, y) \<in> set ps \<and> bit (color x y) k)"
  using assms(1)
proof (induction ps arbitrary: tiles)
  case (Cons q ps)
  obtain a b where q: "q = (a, b)" by (rule prod.exhaust)
  with Cons.prems have "a < 128" "b < 112" by auto
  with Cons put_pixel_bit [OF Cons.prems(1) this assms(2,3,4), of "color a b"] show ?case
    by (auto simp: q)
qed simp

lemma encoded_picture:
  assumes "x < CAPTURE_WIDTH" and "y < CAPTURE_HEIGHT" and "k < 2"
  shows "tile_pixel_bit (encode_tiles colors) x y k = bit (out_color colors x y) k"
proof -
  have "tile_offset x y + k < 3584"
    using tile_offset_less [of x y] assms by (simp add: CAPTURE_WIDTH_def CAPTURE_HEIGHT_def)
  then have blank: "\<not> tile_pixel_bit (replicate CAPTURE_TILE_BYTES 0) x y k"
    by (simp add: tile_pixel_bit_def CAPTURE_TILE_BYTES_def)
  have pairs: "\<forall>(x, y) \<in> set (raster CAPTURE_WIDTH CAPTURE_HEIGHT (\<lambda>x y. (x, y))). x < 128 \<and> y < 112"
    unfolding raster_pairs by (auto simp: CAPTURE_WIDTH_def CAPTURE_HEIGHT_def)
  have len: "length (replicate CAPTURE_TILE_BYTES (0 :: u8)) = 3584" by (simp add: CAPTURE_TILE_BYTES_def)
  have mem: "(x, y) \<in> set (raster CAPTURE_WIDTH CAPTURE_HEIGHT (\<lambda>x y. (x, y)))"
    unfolding raster_pairs using assms by simp
  have "x < 128" "y < 112" using assms by (simp_all add: CAPTURE_WIDTH_def CAPTURE_HEIGHT_def)
  from pixels_put [OF pairs this assms(3) len, of "out_color colors"] blank mem show ?thesis
    by (simp add: encode_tiles_def)
qed

subsection \<open>The life of a capture\<close>

lemma encoded_length [simp]: "length (build_capture_tiles c) = 3584"
proof -
  have "length (fold (\<lambda>(x, y). put_pixel (f x y) x y) ps tiles) = length tiles" for f ps tiles
    by (induction ps arbitrary: tiles) auto
  then show ?thesis by (simp add: build_capture_tiles_def encode_tiles_def CAPTURE_TILE_BYTES_def)
qed

lemma saturating_add_small: "unat a + unat b < 2 ^ 64 \<Longrightarrow> unat (u64_saturating_add a b) = unat a + unat b"
  by (simp add: u64_saturating_add_def word_less_nat_alt unat_word_ariths)

lemma saturating_sub_unat: "unat (u64_saturating_sub a b) = unat a - unat b"
  by (simp add: u64_saturating_sub_def word_less_nat_alt unat_sub_if_size)

text \<open>A write to the control register, on a camera whose registers are selected.\<close>

lemma control_write:
  assumes "registers_selected c" and "register_offset a = 0"
  shows "camera_write_resolved a v t c =
    (let c1 = c\<lparr>cam_registers := (cam_registers c)[0 := v AND 0x06]\<rparr>
     in if v AND 0x01 \<noteq> 0 then
          (case cam_capture c1 of
             CaptureIdle \<Rightarrow> start_new_capture t c1
           | CapturePaused _ _ \<Rightarrow> resume_capture t c1
           | CaptureWorking _ _ \<Rightarrow> c1)
        else if capture_is_working c1 then pause_capture t c1 else c1)"
  using assms by (simp add: camera_write_resolved_def camera_write_register_def)

lemma started:
  assumes "cam_capture c = CaptureIdle" and "registers_selected c" and "register_offset a = 0" and "v AND 1 \<noteq> 0"
    and "unat t + unat (capture_duration_t_cycles c) < 2 ^ 64"
  shows "\<exists>ready regs. camera_write_ram_timed a v t c = c\<lparr>cam_registers := regs,
      cam_capture := CaptureWorking ready (build_capture_tiles (c\<lparr>cam_registers := (cam_registers c)[0 := v AND 6]\<rparr>))\<rparr>
    \<and> unat ready = unat t + unat (capture_duration_t_cycles c)"
proof -
  have "capture_duration_t_cycles (c\<lparr>cam_registers := (cam_registers c)[0 := v AND 6]\<rparr>) = capture_duration_t_cycles c"
    by (simp add: capture_duration_t_cycles_def capture_exposure_def)
  moreover have "maybe_complete_capture (Some t) c = c"
    using assms(1) by (simp add: maybe_complete_capture_def)
  ultimately show ?thesis
    using assms saturating_add_small [OF assms(5)]
    by (intro exI [of _ "u64_saturating_add t (capture_duration_t_cycles c)"]
        exI [of _ "(cam_registers c)[0 := v AND 6]"])
      (simp add: camera_write_ram_timed_def control_write start_new_capture_def Let_def)
qed

lemma paused:
  assumes "cam_capture c = CaptureWorking ready staged" and "registers_selected c" and "register_offset a = 0"
    and "w AND 1 = 0" and "unat p < unat ready"
  shows "\<exists>rest regs. camera_write_ram_timed a w p c = c\<lparr>cam_registers := regs, cam_capture := CapturePaused rest staged\<rparr>
    \<and> unat rest = unat ready - unat p"
proof -
  have "maybe_complete_capture (Some p) c = c"
    using assms(1,5) by (simp add: maybe_complete_capture_def word_le_nat_alt)
  then show ?thesis
    using assms saturating_sub_unat [of ready p]
    by (intro exI [of _ "u64_saturating_sub ready p"] exI [of _ "(cam_registers c)[0 := w AND 6]"])
      (simp add: camera_write_ram_timed_def control_write pause_capture_def capture_is_working_def Let_def)
qed

lemma resumed:
  assumes "cam_capture c = CapturePaused rest staged" and "registers_selected c" and "register_offset a = 0"
    and "v AND 1 \<noteq> 0" and "unat r + unat rest < 2 ^ 64"
  shows "\<exists>ready regs. camera_write_ram_timed a v r c = c\<lparr>cam_registers := regs, cam_capture := CaptureWorking ready staged\<rparr>
    \<and> unat ready = unat r + unat rest"
proof -
  have "maybe_complete_capture (Some r) c = c"
    using assms(1) by (simp add: maybe_complete_capture_def)
  then show ?thesis
    using assms saturating_add_small [OF assms(5)]
    by (intro exI [of _ "u64_saturating_add r rest"] exI [of _ "(cam_registers c)[0 := v AND 6]"])
      (simp add: camera_write_ram_timed_def control_write resume_capture_def Let_def)
qed

lemma completed:
  assumes "cam_capture c = CaptureWorking ready staged" and "0x100 + length staged \<le> length (cam_ram c)"
  shows "cam_ram (snd (camera_read_ram_timed b u c)) =
    (if unat u < unat ready then cam_ram c
     else take 0x100 (cam_ram c) @ staged @ drop (0x100 + length staged) (cam_ram c))"
  using assms
  by (simp add: camera_read_ram_timed_def maybe_complete_capture_def commit_staged_tiles_def Let_def
      CAPTURE_TILE_BASE_OFFSET_def word_le_nat_alt)

text \<open>A capture started at \<open>t\<close>, paused at \<open>p\<close> and resumed at \<open>r\<close> is finished after exactly its
  duration of working time: until then the RAM is as it was, from then on bytes 0x100 to 0xEFF
  hold the tiles staged when it started, and nothing else of the RAM has changed.
\<close>

theorem capture_takes_its_time:
  fixes c :: pocket_camera
  assumes "cam_capture c = CaptureIdle" and "registers_selected c" and "length (cam_ram c) = 131072"
    and "register_offset a = 0" and "start AND 1 \<noteq> 0" and "stop AND 1 = 0" and "again AND 1 \<noteq> 0"
    and "unat t \<le> unat p" and "unat p < unat t + unat (capture_duration_t_cycles c)"
    and "unat r + unat (capture_duration_t_cycles c) < 2 ^ 64" and "unat p \<le> unat r"
  shows "cam_ram (snd (camera_read_ram_timed b u
        (camera_write_ram_timed a again r (camera_write_ram_timed a stop p (camera_write_ram_timed a start t c))))) =
    (if unat u < unat r + (unat t + unat (capture_duration_t_cycles c) - unat p) then cam_ram c
     else take 0x100 (cam_ram c)
       @ build_capture_tiles (c\<lparr>cam_registers := (cam_registers c)[0 := start AND 6]\<rparr>) @ drop 0xF00 (cam_ram c))"
proof -
  let ?tiles = "build_capture_tiles (c\<lparr>cam_registers := (cam_registers c)[0 := start AND 6]\<rparr>)"
  have frame: "registers_selected (c\<lparr>cam_registers := x, cam_capture := y\<rparr>)" for x y
    using assms(2) by (simp add: registers_selected_def)
  have "unat t + unat (capture_duration_t_cycles c) < 2 ^ 64" using assms(8,10,11) by linarith
  from started [OF assms(1,2,4,5) this] obtain ready regs1
    where c1: "camera_write_ram_timed a start t c = c\<lparr>cam_registers := regs1, cam_capture := CaptureWorking ready ?tiles\<rparr>"
      and ready: "unat ready = unat t + unat (capture_duration_t_cycles c)" by blast
  have "cam_capture (c\<lparr>cam_registers := regs1, cam_capture := CaptureWorking ready ?tiles\<rparr>) = CaptureWorking ready ?tiles"
    by simp
  moreover have "unat p < unat ready" using assms(9) ready by simp
  ultimately obtain rest regs2 where c2: "camera_write_ram_timed a stop p (camera_write_ram_timed a start t c)
      = c\<lparr>cam_registers := regs2, cam_capture := CapturePaused rest ?tiles\<rparr>" and rest: "unat rest = unat ready - unat p"
    using paused [OF _ frame [where x = regs1 and y = "CaptureWorking ready ?tiles"] assms(4,6), of ready ?tiles p] c1
    by auto
  have "cam_capture (c\<lparr>cam_registers := regs2, cam_capture := CapturePaused rest ?tiles\<rparr>) = CapturePaused rest ?tiles"
    by simp
  moreover have "unat r + unat rest < 2 ^ 64" using rest ready assms(8,10) by linarith
  ultimately obtain finish regs3 where c3: "camera_write_ram_timed a again r (camera_write_ram_timed a stop p
      (camera_write_ram_timed a start t c)) = c\<lparr>cam_registers := regs3, cam_capture := CaptureWorking finish ?tiles\<rparr>"
    and fin: "unat finish = unat r + unat rest"
    using resumed [OF _ frame [where x = regs2 and y = "CapturePaused rest ?tiles"] assms(4,7), of rest ?tiles r] c2
    by auto
  from completed [of "c\<lparr>cam_registers := regs3, cam_capture := CaptureWorking finish ?tiles\<rparr>" finish ?tiles b u]
    assms(3) rest ready fin show ?thesis by (simp only: c3) simp
qed

end
