(* ===== verification/Cart_Device.thy ===== *)
theory Cart_Device
  imports Cart_Plain Cart_Mbc1 Cart_Mbc2 Cart_Mbc3 Cart_Mbc5 Cart_Mbc6 Cart_Mbc7 Cart_Mmm01 Cart_Huc1 Cart_Huc3 Cart_Camera
begin

text \<open>
  The cartridge in the slot (\<open>cartridge/device.rs\<close>): the sum of the mappers, each operation
  passed on to the one that is there. Operations that may panic on some mapper return a result.
\<close>

datatype cartridge_device =
    DevNoMbc no_mbc_cartridge
  | DevMmm01 mmm01_cartridge
  | DevM161 m161_cartridge
  | DevHuc1 huc1_cartridge
  | DevHuc3 huc3_cartridge
  | DevMbc1 mbc1_cartridge
  | DevMbc2 mbc2_cartridge
  | DevMbc3 mbc3_cartridge
  | DevMbc5 mbc5_cartridge
  | DevMbc6 mbc6_cartridge
  | DevMbc7 mbc7_cartridge
  | DevPocketCamera pocket_camera

fun device_rom_bytes :: "cartridge_device \<Rightarrow> u8 list" where
  "device_rom_bytes (DevNoMbc c) = cart_rom c"
| "device_rom_bytes (DevMmm01 c) = cart_rom c"
| "device_rom_bytes (DevM161 c) = cart_rom c"
| "device_rom_bytes (DevHuc1 c) = cart_rom c"
| "device_rom_bytes (DevHuc3 c) = cart_rom c"
| "device_rom_bytes (DevMbc1 c) = cart_rom c"
| "device_rom_bytes (DevMbc2 c) = cart_rom c"
| "device_rom_bytes (DevMbc3 c) = cart_rom c"
| "device_rom_bytes (DevMbc5 c) = cart_rom c"
| "device_rom_bytes (DevMbc6 c) = cart_rom c"
| "device_rom_bytes (DevMbc7 c) = cart_rom c"
| "device_rom_bytes (DevPocketCamera c) = cart_rom c"

fun device_header :: "cartridge_device \<Rightarrow> cartridge_header" where
  "device_header (DevNoMbc c) = cart_header c"
| "device_header (DevMmm01 c) = cart_header c"
| "device_header (DevM161 c) = cart_header c"
| "device_header (DevHuc1 c) = cart_header c"
| "device_header (DevHuc3 c) = cart_header c"
| "device_header (DevMbc1 c) = cart_header c"
| "device_header (DevMbc2 c) = cart_header c"
| "device_header (DevMbc3 c) = cart_header c"
| "device_header (DevMbc5 c) = cart_header c"
| "device_header (DevMbc6 c) = cart_header c"
| "device_header (DevMbc7 c) = cart_header c"
| "device_header (DevPocketCamera c) = cart_header c"

fun device_classification :: "cartridge_device \<Rightarrow> cartridge_classification" where
  "device_classification (DevNoMbc c) = cart_classification c"
| "device_classification (DevMmm01 c) = cart_classification c"
| "device_classification (DevM161 c) = cart_classification c"
| "device_classification (DevHuc1 c) = cart_classification c"
| "device_classification (DevHuc3 c) = cart_classification c"
| "device_classification (DevMbc1 c) = cart_classification c"
| "device_classification (DevMbc2 c) = cart_classification c"
| "device_classification (DevMbc3 c) = cart_classification c"
| "device_classification (DevMbc5 c) = cart_classification c"
| "device_classification (DevMbc6 c) = cart_classification c"
| "device_classification (DevMbc7 c) = cart_classification c"
| "device_classification (DevPocketCamera c) = cart_classification c"

definition device_rom_layout :: "cartridge_device \<Rightarrow> cartridge_rom_layout" where
  "device_rom_layout d =
     (case d of DevMbc5 c \<Rightarrow> mbc5_rom_layout c
      | _ \<Rightarrow> layout_loaded_image (device_header d) (length (device_rom_bytes d)))"

fun device_describe_external_access :: "u16 \<Rightarrow> cartridge_device \<Rightarrow> cartridge_external_access_info" where
  "device_describe_external_access a (DevNoMbc c) = no_mbc_describe a c"
| "device_describe_external_access a (DevMmm01 c) = mmm01_describe a c"
| "device_describe_external_access a (DevM161 c) = m161_describe a c"
| "device_describe_external_access a (DevHuc1 c) = huc1_describe a c"
| "device_describe_external_access a (DevHuc3 c) = huc3_describe a c"
| "device_describe_external_access a (DevMbc1 c) = mbc1_describe a c"
| "device_describe_external_access a (DevMbc2 c) = mbc2_describe a c"
| "device_describe_external_access a (DevMbc3 c) = mbc3_describe a c"
| "device_describe_external_access a (DevMbc5 c) = mbc5_describe a c"
| "device_describe_external_access a (DevMbc6 c) = mbc6_describe a c"
| "device_describe_external_access a (DevMbc7 c) = mbc7_describe a c"
| "device_describe_external_access a (DevPocketCamera c) = camera_describe a c"

fun device_read_rom :: "u16 \<Rightarrow> cartridge_device \<Rightarrow> u8 res" where
  "device_read_rom a (DevNoMbc c) = Inr (no_mbc_read_rom c a)"
| "device_read_rom a (DevMmm01 c) = Inr (mmm01_read_rom c a)"
| "device_read_rom a (DevM161 c) = Inr (m161_read_rom c a)"
| "device_read_rom a (DevHuc1 c) = Inr (huc1_read_rom c a)"
| "device_read_rom a (DevHuc3 c) = Inr (huc3_read_rom c a)"
| "device_read_rom a (DevMbc1 c) = Inr (mbc1_read_rom c a)"
| "device_read_rom a (DevMbc2 c) = Inr (mbc2_read_rom c a)"
| "device_read_rom a (DevMbc3 c) = Inr (mbc3_read_rom c a)"
| "device_read_rom a (DevMbc5 c) = Inr (mbc5_read_rom c a)"
| "device_read_rom a (DevMbc6 c) = mbc6_read_rom a c"
| "device_read_rom a (DevMbc7 c) = Inr (mbc7_read_rom c a)"
| "device_read_rom a (DevPocketCamera c) = Inr (camera_read_rom c a)"

fun device_mapped_rom_window :: "u16 \<Rightarrow> cartridge_device \<Rightarrow> cartridge_mapped_rom_window option" where
  "device_mapped_rom_window a (DevNoMbc c) = no_mbc_mapped_rom_window c a"
| "device_mapped_rom_window a (DevMmm01 c) = mmm01_mapped_rom_window c a"
| "device_mapped_rom_window a (DevM161 c) = m161_mapped_rom_window c a"
| "device_mapped_rom_window a (DevHuc1 c) = huc1_mapped_rom_window c a"
| "device_mapped_rom_window a (DevHuc3 c) = huc3_mapped_rom_window c a"
| "device_mapped_rom_window a (DevMbc1 c) = mbc1_mapped_rom_window c a"
| "device_mapped_rom_window a (DevMbc2 c) = mbc2_mapped_rom_window c a"
| "device_mapped_rom_window a (DevMbc3 c) = mbc3_mapped_rom_window c a"
| "device_mapped_rom_window a (DevMbc5 c) = mbc5_mapped_rom_window c a"
| "device_mapped_rom_window a (DevMbc6 c) = mbc6_mapped_rom_window a c"
| "device_mapped_rom_window a (DevMbc7 c) = mbc7_mapped_rom_window c a"
| "device_mapped_rom_window a (DevPocketCamera c) = camera_mapped_rom_window c a"

fun device_write_rom :: "u16 \<Rightarrow> u8 \<Rightarrow> cartridge_device \<Rightarrow> cartridge_device res" where
  "device_write_rom a v (DevNoMbc c) = Inr (DevNoMbc (no_mbc_write_rom a v c))"
| "device_write_rom a v (DevMmm01 c) = Inr (DevMmm01 (mmm01_write_rom a v c))"
| "device_write_rom a v (DevM161 c) = Inr (DevM161 (m161_write_rom a v c))"
| "device_write_rom a v (DevHuc1 c) = Inr (DevHuc1 (huc1_write_rom a v c))"
| "device_write_rom a v (DevHuc3 c) = Inr (DevHuc3 (huc3_write_rom a v c))"
| "device_write_rom a v (DevMbc1 c) = Inr (DevMbc1 (mbc1_write_rom a v c))"
| "device_write_rom a v (DevMbc2 c) = Inr (DevMbc2 (mbc2_write_rom a v c))"
| "device_write_rom a v (DevMbc3 c) = Inr (DevMbc3 (mbc3_write_rom a v c))"
| "device_write_rom a v (DevMbc5 c) = Inr (DevMbc5 (mbc5_write_rom a v c))"
| "device_write_rom a v (DevMbc6 c) = res_map DevMbc6 (mbc6_write_rom a v c)"
| "device_write_rom a v (DevMbc7 c) = Inr (DevMbc7 (mbc7_write_rom a v c))"
| "device_write_rom a v (DevPocketCamera c) = Inr (DevPocketCamera (camera_write_rom a v c))"

fun device_read_ram :: "u16 \<Rightarrow> cartridge_device \<Rightarrow> u8 res" where
  "device_read_ram a (DevNoMbc c) = Inr (no_mbc_read_ram c a)"
| "device_read_ram a (DevMmm01 c) = Inr (mmm01_read_ram c a)"
| "device_read_ram a (DevM161 c) = Inr (m161_read_ram c a)"
| "device_read_ram a (DevHuc1 c) = Inr (huc1_read_ram c a)"
| "device_read_ram a (DevHuc3 c) = Inr (huc3_read_ram c a)"
| "device_read_ram a (DevMbc1 c) = Inr (mbc1_read_ram c a)"
| "device_read_ram a (DevMbc2 c) = mbc2_read_ram c a"
| "device_read_ram a (DevMbc3 c) = Inr (mbc3_read_ram c a)"
| "device_read_ram a (DevMbc5 c) = Inr (mbc5_read_ram c a)"
| "device_read_ram a (DevMbc6 c) = Inr (mbc6_read_ram c a)"
| "device_read_ram a (DevMbc7 c) = Inr (mbc7_read_ram c a)"
| "device_read_ram a (DevPocketCamera c) = Inr (camera_read_ram c a)"

text \<open>Reading with the time may complete a capture or note a clock access.\<close>

definition device_read_ram_timed :: "u16 \<Rightarrow> u64 \<Rightarrow> cartridge_device \<Rightarrow> (u8 \<times> cartridge_device) res" where
  "device_read_ram_timed a t d =
     (case d of
        DevMbc3 c \<Rightarrow> Inr (case mbc3_read_ram_timed a t c of (v, c') \<Rightarrow> (v, DevMbc3 c'))
      | DevMbc7 c \<Rightarrow> Inr (mbc7_read_register a c, DevMbc7 c)
      | DevPocketCamera c \<Rightarrow> Inr (case camera_read_ram_timed a t c of (v, c') \<Rightarrow> (v, DevPocketCamera c'))
      | _ \<Rightarrow> res_map (\<lambda>v. (v, d)) (device_read_ram a d))"

fun device_write_ram :: "u16 \<Rightarrow> u8 \<Rightarrow> cartridge_device \<Rightarrow> cartridge_device res" where
  "device_write_ram a v (DevNoMbc c) = Inr (DevNoMbc (no_mbc_write_ram a v c))"
| "device_write_ram a v (DevMmm01 c) = Inr (DevMmm01 (mmm01_write_ram a v c))"
| "device_write_ram a v (DevM161 c) = Inr (DevM161 (m161_write_ram a v c))"
| "device_write_ram a v (DevHuc1 c) = Inr (DevHuc1 (huc1_write_ram a v c))"
| "device_write_ram a v (DevHuc3 c) = Inr (DevHuc3 (huc3_write_ram a v c))"
| "device_write_ram a v (DevMbc1 c) = Inr (DevMbc1 (mbc1_write_ram a v c))"
| "device_write_ram a v (DevMbc2 c) = res_map DevMbc2 (mbc2_write_ram a v c)"
| "device_write_ram a v (DevMbc3 c) = Inr (DevMbc3 (mbc3_write_ram a v c))"
| "device_write_ram a v (DevMbc5 c) = Inr (DevMbc5 (mbc5_write_ram a v c))"
| "device_write_ram a v (DevMbc6 c) = Inr (DevMbc6 (mbc6_write_ram a v c))"
| "device_write_ram a v (DevMbc7 c) = res_map DevMbc7 (mbc7_write_ram a v c)"
| "device_write_ram a v (DevPocketCamera c) = Inr (DevPocketCamera (camera_write_ram a v c))"

definition device_write_ram_timed :: "u16 \<Rightarrow> u8 \<Rightarrow> u64 \<Rightarrow> cartridge_device \<Rightarrow> cartridge_device res" where
  "device_write_ram_timed a v t d =
     (case d of
        DevMbc3 c \<Rightarrow> Inr (DevMbc3 (mbc3_write_ram_timed a v t c))
      | DevMbc7 c \<Rightarrow> res_map DevMbc7 (mbc7_write_register a v c)
      | DevPocketCamera c \<Rightarrow> Inr (DevPocketCamera (camera_write_ram_timed a v t c))
      | _ \<Rightarrow> device_write_ram a v d)"

definition device_advance_rtc_seconds :: "u64 \<Rightarrow> cartridge_device \<Rightarrow> cartridge_device" where
  "device_advance_rtc_seconds seconds d =
     (case d of
        DevMbc3 c \<Rightarrow> DevMbc3 (mbc3_advance_rtc_seconds seconds c)
      | DevHuc3 c \<Rightarrow> DevHuc3 (huc3_advance_rtc_seconds seconds c)
      | _ \<Rightarrow> d)"

definition device_advance_mbc3_rtc_clock_ticks :: "u64 \<Rightarrow> cartridge_device \<Rightarrow> cartridge_device" where
  "device_advance_mbc3_rtc_clock_ticks ticks d =
     (case d of DevMbc3 c \<Rightarrow> DevMbc3 (mbc3_advance_rtc_clock_ticks ticks c) | _ \<Rightarrow> d)"

definition device_advance_huc3_rtc_seconds :: "u64 \<Rightarrow> cartridge_device \<Rightarrow> cartridge_device" where
  "device_advance_huc3_rtc_seconds seconds d =
     (case d of DevHuc3 c \<Rightarrow> DevHuc3 (huc3_advance_rtc_seconds seconds c) | _ \<Rightarrow> d)"

definition device_rumble_on :: "cartridge_device \<Rightarrow> bool" where
  "device_rumble_on d = (case d of DevMbc5 c \<Rightarrow> mbc5_rumble_on c | _ \<Rightarrow> False)"

definition device_has_rumble :: "cartridge_device \<Rightarrow> bool" where
  "device_has_rumble d = (case d of DevMbc5 c \<Rightarrow> mbc5_has_rumble c | _ \<Rightarrow> False)"

fun device_persistence_metadata :: "cartridge_device \<Rightarrow> cartridge_persistence_metadata" where
  "device_persistence_metadata (DevNoMbc c) = no_mbc_persistence_metadata c"
| "device_persistence_metadata (DevMmm01 c) = mmm01_persistence_metadata c"
| "device_persistence_metadata (DevM161 c) = m161_persistence_metadata c"
| "device_persistence_metadata (DevHuc1 c) = huc1_persistence_metadata c"
| "device_persistence_metadata (DevHuc3 c) = huc3_persistence_metadata c"
| "device_persistence_metadata (DevMbc1 c) = mbc1_persistence_metadata c"
| "device_persistence_metadata (DevMbc2 c) = mbc2_persistence_metadata c"
| "device_persistence_metadata (DevMbc3 c) = mbc3_persistence_metadata c"
| "device_persistence_metadata (DevMbc5 c) = mbc5_persistence_metadata c"
| "device_persistence_metadata (DevMbc6 c) = mbc6_persistence_metadata c"
| "device_persistence_metadata (DevMbc7 c) = mbc7_persistence_metadata c"
| "device_persistence_metadata (DevPocketCamera c) = camera_persistence_metadata c"

definition device_rtc_access_ready_at :: "cartridge_device \<Rightarrow> u64 option" where
  "device_rtc_access_ready_at d = (case d of DevMbc3 c \<Rightarrow> mbc3_rtc_access_ready_at c | _ \<Rightarrow> None)"

definition device_camera_capture_ready_at :: "cartridge_device \<Rightarrow> u64 option" where
  "device_camera_capture_ready_at d = (case d of DevPocketCamera c \<Rightarrow> capture_ready_at c | _ \<Rightarrow> None)"

definition device_camera_registers_selected :: "cartridge_device \<Rightarrow> bool" where
  "device_camera_registers_selected d = (case d of DevPocketCamera c \<Rightarrow> registers_selected c | _ \<Rightarrow> False)"

fun device_persistent_state :: "cartridge_device \<Rightarrow> persistent_cart_state" where
  "device_persistent_state (DevNoMbc c) = no_mbc_persistent_state c"
| "device_persistent_state (DevMmm01 c) = mmm01_persistent_state c"
| "device_persistent_state (DevM161 c) = m161_persistent_state c"
| "device_persistent_state (DevHuc1 c) = huc1_persistent_state c"
| "device_persistent_state (DevHuc3 c) = huc3_persistent_state c"
| "device_persistent_state (DevMbc1 c) = mbc1_persistent_state c"
| "device_persistent_state (DevMbc2 c) = mbc2_persistent_state c"
| "device_persistent_state (DevMbc3 c) = mbc3_persistent_state c"
| "device_persistent_state (DevMbc5 c) = mbc5_persistent_state c"
| "device_persistent_state (DevMbc6 c) = mbc6_persistent_state c"
| "device_persistent_state (DevMbc7 c) = mbc7_persistent_state c"
| "device_persistent_state (DevPocketCamera c) = camera_persistent_state c"

definition restored_as :: "('c \<Rightarrow> cartridge_device) \<Rightarrow> persistent_state_error + 'c
    \<Rightarrow> persistent_state_error + cartridge_device" where
  "restored_as dev r = (case r of Inl e \<Rightarrow> Inl e | Inr c \<Rightarrow> Inr (dev c))"

fun device_restore_persistent_state ::
    "persistent_cart_state \<Rightarrow> cartridge_device \<Rightarrow> persistent_state_error + cartridge_device" where
  "device_restore_persistent_state s (DevNoMbc c) = restored_as DevNoMbc (no_mbc_restore s c)"
| "device_restore_persistent_state s (DevMmm01 c) = restored_as DevMmm01 (mmm01_restore s c)"
| "device_restore_persistent_state s (DevM161 c) = restored_as DevM161 (m161_restore s c)"
| "device_restore_persistent_state s (DevHuc1 c) = restored_as DevHuc1 (huc1_restore s c)"
| "device_restore_persistent_state s (DevHuc3 c) = restored_as DevHuc3 (huc3_restore s c)"
| "device_restore_persistent_state s (DevMbc1 c) = restored_as DevMbc1 (mbc1_restore s c)"
| "device_restore_persistent_state s (DevMbc2 c) = restored_as DevMbc2 (mbc2_restore s c)"
| "device_restore_persistent_state s (DevMbc3 c) = restored_as DevMbc3 (mbc3_restore s c)"
| "device_restore_persistent_state s (DevMbc5 c) = restored_as DevMbc5 (mbc5_restore s c)"
| "device_restore_persistent_state s (DevMbc6 c) = restored_as DevMbc6 (mbc6_restore s c)"
| "device_restore_persistent_state s (DevMbc7 c) = restored_as DevMbc7 (mbc7_restore s c)"
| "device_restore_persistent_state s (DevPocketCamera c) = restored_as DevPocketCamera (camera_restore s c)"

definition device_has_pocket_camera :: "cartridge_device \<Rightarrow> bool" where
  "device_has_pocket_camera d = (case d of DevPocketCamera _ \<Rightarrow> True | _ \<Rightarrow> False)"

definition device_has_mbc7_accelerometer :: "cartridge_device \<Rightarrow> bool" where
  "device_has_mbc7_accelerometer d = (case d of DevMbc7 _ \<Rightarrow> True | _ \<Rightarrow> False)"

datatype mbc7_accelerometer_error = AccelerometerUnsupportedCartridge

definition device_set_mbc7_accelerometer_input ::
    "mbc7_accelerometer_input \<Rightarrow> cartridge_device \<Rightarrow> mbc7_accelerometer_error + cartridge_device" where
  "device_set_mbc7_accelerometer_input inp d =
     (case d of DevMbc7 c \<Rightarrow> Inr (DevMbc7 (mbc7_set_accelerometer_input inp c))
      | _ \<Rightarrow> Inl AccelerometerUnsupportedCartridge)"

definition device_set_pocket_camera_frame ::
    "pocket_camera_frame \<Rightarrow> cartridge_device \<Rightarrow> pocket_camera_frame_error + cartridge_device" where
  "device_set_pocket_camera_frame frame d =
     (case d of
        DevPocketCamera c \<Rightarrow>
          (case set_host_frame frame c of Inl e \<Rightarrow> Inl e | Inr c' \<Rightarrow> Inr (DevPocketCamera c'))
      | _ \<Rightarrow> Inl CameraUnsupportedCartridge)"

definition device_clear_pocket_camera_frame ::
    "cartridge_device \<Rightarrow> pocket_camera_frame_error + cartridge_device" where
  "device_clear_pocket_camera_frame d =
     (case d of DevPocketCamera c \<Rightarrow> Inr (DevPocketCamera (clear_host_frame c))
      | _ \<Rightarrow> Inl CameraUnsupportedCartridge)"

end
