(* ===== verification/Cart_Laws.thy ===== *)
theory Cart_Laws
  imports Cart_Device Cart_Samples
begin

text \<open>
  What holds of the cartridge in the slot, whichever mapper it is: no sequence of accesses
  panics or changes the image, every byte read from the ROM area is the byte of the image the
  reported window points at, and a save restores into any other run of the same board. The
  mappers' own laws (the interpretations in their theories) carry the proofs.
\<close>

section \<open>Accesses\<close>

text \<open>The bus reads and writes RAM with the time; the machine and the frontend pass time on.\<close>

datatype device_access =
    DeviceWriteRom u16 u8
  | DeviceReadRam u16 u64
  | DeviceWriteRam u16 u8 u64
  | DeviceElapsedSeconds u64
  | DeviceClockTicks u64
  | DeviceRestore persistent_cart_state

text \<open>A save state whose arrays have the lengths their types fix.\<close>

definition saved_arrays :: "persistent_cart_state \<Rightarrow> bool" where
  "saved_arrays s = (mbc2_array s \<and> mbc7_array s \<and> huc3_array s)"

fun apply_access :: "device_access \<Rightarrow> cartridge_device \<Rightarrow> cartridge_device res" where
  "apply_access (DeviceWriteRom a v) d = device_write_rom a v d"
| "apply_access (DeviceReadRam a t) d = res_map snd (device_read_ram_timed a t d)"
| "apply_access (DeviceWriteRam a v t) d = device_write_ram_timed a v t d"
| "apply_access (DeviceElapsedSeconds n) d = Inr (device_advance_rtc_seconds n d)"
| "apply_access (DeviceClockTicks n) d = Inr (device_advance_mbc3_rtc_clock_ticks n d)"
| "apply_access (DeviceRestore s) d =
     (if saved_arrays s
      then (case device_restore_persistent_state s d of Inl _ \<Rightarrow> Inr d | Inr d' \<Rightarrow> Inr d')
      else Inr d)"

fun apply_accesses :: "device_access list \<Rightarrow> cartridge_device \<Rightarrow> cartridge_device res" where
  "apply_accesses [] d = Inr d"
| "apply_accesses (x # xs) d = res_bind (apply_access x d) (apply_accesses xs)"

section \<open>Well-formed cartridges\<close>

definition camera_wf :: "pocket_camera \<Rightarrow> bool" where
  "camera_wf c = (whole_banks c \<and> length (cam_registers c) = CAMERA_REGISTER_COUNT
     \<and> length (cam_host_frame c) = CAPTURE_PIXEL_COUNT)"

fun device_ok :: "cartridge_device \<Rightarrow> bool" where
  "device_ok (DevNoMbc c) = True"
| "device_ok (DevMmm01 c) = whole_banks c"
| "device_ok (DevM161 c) = True"
| "device_ok (DevHuc1 c) = whole_banks c"
| "device_ok (DevHuc3 c) = huc3_wf c"
| "device_ok (DevMbc1 c) = whole_banks c"
| "device_ok (DevMbc2 c) = mbc2_wf c"
| "device_ok (DevMbc3 c) = whole_banks c"
| "device_ok (DevMbc5 c) = mbc5_layout_wf c"
| "device_ok (DevMbc6 c) = (mbc6_wf c \<and> 0x4000 \<le> length (cart_rom c))"
| "device_ok (DevMbc7 c) = mbc7_wf c"
| "device_ok (DevPocketCamera c) = camera_wf c"

text \<open>What no access changes: the mapper, the battery, the clock chip and the RAM size.\<close>

fun device_board :: "cartridge_device \<Rightarrow> nat \<times> bool \<times> bool \<times> nat option" where
  "device_board (DevNoMbc c) = (0, cart_has_battery c, False, map_option length (cart_ram c))"
| "device_board (DevMmm01 c) = (1, cart_has_battery c, False, map_option length (cart_ram c))"
| "device_board (DevM161 c) = (2, False, False, None)"
| "device_board (DevHuc1 c) = (3, cart_has_battery c, False, map_option length (cart_ram c))"
| "device_board (DevHuc3 c) = (4, huc3_has_battery c, True, Some (length (huc3_ram c)))"
| "device_board (DevMbc1 c) = (5, cart_has_battery c, False, map_option length (cart_ram c))"
| "device_board (DevMbc2 c) = (6, mbc2_has_battery c, False, None)"
| "device_board (DevMbc3 c) = (7, cart_has_battery c, mbc3_has_rtc c, map_option length (cart_ram c))"
| "device_board (DevMbc5 c) = (8, cart_has_battery c, False, map_option length (cart_ram c))"
| "device_board (DevMbc6 c) = (9, mbc6_has_battery c, False, Some (length (mbc6_ram c)))"
| "device_board (DevMbc7 c) = (10, False, False, None)"
| "device_board (DevPocketCamera c) = (11, True, False, Some (length (cam_ram c)))"

text \<open>
  The bank count the header names is the one the mapper uses: only an MBC5 image of another
  size than declared, accepted by a permissive policy, has it otherwise. In a whole image every
  bank a window can point at is there.
\<close>

fun device_exact :: "cartridge_device \<Rightarrow> bool" where
  "device_exact (DevMbc5 c) = (header_rom_banks c = lay_effective_bank_count (mbc5_rom_layout c))"
| "device_exact _ = True"

definition device_whole :: "cartridge_device \<Rightarrow> bool" where
  "device_whole d =
     (case d of
        DevNoMbc c \<Rightarrow> 0x8000 \<le> length (cart_rom c)
      | DevM161 _ \<Rightarrow> False
      | _ \<Rightarrow> device_exact d)"

definition device_kept :: "cartridge_device \<Rightarrow> cartridge_device \<Rightarrow> bool" where
  "device_kept d d' =
     (device_ok d' \<and> device_board d' = device_board d \<and> device_rom_bytes d' = device_rom_bytes d
      \<and> device_exact d' = device_exact d)"

lemma device_kept_refl: "device_ok d \<Longrightarrow> device_kept d d"
  by (simp add: device_kept_def)

lemma device_kept_trans: "device_kept d e \<Longrightarrow> device_kept e f \<Longrightarrow> device_kept d f"
  by (simp add: device_kept_def)

section \<open>One access\<close>

lemma rom_write_kept: "device_ok d \<Longrightarrow> returns (device_write_rom a v d) (device_kept d)"
proof (cases d)
  case (DevMbc6 c)
  then show "device_ok d \<Longrightarrow> ?thesis"
    using mbc6_write_rom_step [of c a v] by (auto simp: device_kept_def flash_step_def elim!: returns_mono)
next
  case (DevPocketCamera c)
  then show "device_ok d \<Longrightarrow> ?thesis"
    using camera.write_rom_keeps [of c a v] by (simp add: device_kept_def camera_wf_def) (simp add: camera_write_rom_def)
next
  case (DevHuc3 c)
  then show "device_ok d \<Longrightarrow> ?thesis"
    using huc3.write_rom_keeps [of c a v] by (simp add: device_kept_def huc3_key_def)
next
  case (DevMbc5 c)
  then show "device_ok d \<Longrightarrow> ?thesis" by (simp add: device_kept_def mbc5_layout_wf_def header_rom_banks_def)
qed (use no_mbc.write_rom_keeps mmm01.write_rom_keeps m161.write_rom_keeps huc1.write_rom_keeps
      mbc1.write_rom_keeps mbc2.write_rom_keeps mbc3.write_rom_keeps mbc7.write_rom_keeps in
    \<open>simp_all add: device_kept_def ram_board_key_def mbc3_key_def\<close>)

lemma note_fields [simp]:
  "cart_rom (note_rtc_access_timing t c) = cart_rom c"
  "cart_header (note_rtc_access_timing t c) = cart_header c"
  "mbc3_key (note_rtc_access_timing t c) = mbc3_key c"
  by (simp_all add: note_rtc_access_timing_def mbc3_key_def)

lemma mbc3_timed_fields [simp]:
  "cart_rom (snd (mbc3_read_ram_timed a t c)) = cart_rom c"
  "cart_header (snd (mbc3_read_ram_timed a t c)) = cart_header c"
  "mbc3_key (snd (mbc3_read_ram_timed a t c)) = mbc3_key c"
  "cart_rom (mbc3_write_ram_timed a v t c) = cart_rom c"
  "cart_header (mbc3_write_ram_timed a v t c) = cart_header c"
  "mbc3_key (mbc3_write_ram_timed a v t c) = mbc3_key c"
  by (simp_all add: mbc3_read_ram_timed_def mbc3_write_ram_timed_def note_rtc_register_write_def Let_def
      split: mbc3_ram_rtc_select.split)
    (simp add: mbc3_key_def note_rtc_access_timing_def)

lemma mbc3_timed_kept:
  assumes "whole_banks c"
  shows "device_kept (DevMbc3 c) (DevMbc3 (snd (mbc3_read_ram_timed a t c)))"
    and "device_kept (DevMbc3 c) (DevMbc3 (mbc3_write_ram_timed a v t c))"
    and "device_kept (DevMbc3 c) (DevMbc3 (mbc3_advance_rtc_seconds n c))"
    and "device_kept (DevMbc3 c) (DevMbc3 (mbc3_advance_rtc_clock_ticks n c))"
  using assms mbc3_timed_fields(3) [of a t c] mbc3_timed_fields(6) [of a v t c]
  by (simp_all add: device_kept_def mbc3_key_def whole_banks_def header_rom_banks_def
      mbc3_advance_rtc_seconds_def mbc3_advance_rtc_clock_ticks_def Let_def)

lemma camera_completed_fields [simp]:
  "cart_rom (maybe_complete_capture t c) = cart_rom c"
  "cart_header (maybe_complete_capture t c) = cart_header c"
  "length (cam_ram (maybe_complete_capture t c)) = length (cam_ram c)"
  "cam_registers (maybe_complete_capture t c) = cam_registers c"
  "cam_host_frame (maybe_complete_capture t c) = cam_host_frame c"
  by (auto simp: maybe_complete_capture_def commit_staged_tiles_def Let_def
      split: option.split camera_capture_state.split)

lemma camera_capture_registers [simp]:
  "cam_registers (start_new_capture t c) = cam_registers c"
  "cam_registers (pause_capture t c) = cam_registers c"
  "cam_registers (resume_capture t c) = cam_registers c"
  "cam_host_frame (start_new_capture t c) = cam_host_frame c"
  "cam_host_frame (pause_capture t c) = cam_host_frame c"
  "cam_host_frame (resume_capture t c) = cam_host_frame c"
  by (simp_all add: start_new_capture_def pause_capture_def resume_capture_def Let_def
      split: camera_capture_state.split)

lemma camera_resolved_fields [simp]:
  "cart_rom (camera_write_resolved a v t c) = cart_rom c"
  "cart_header (camera_write_resolved a v t c) = cart_header c"
  "length (cam_ram (camera_write_resolved a v t c)) = length (cam_ram c)"
  "length (cam_registers (camera_write_resolved a v t c)) = length (cam_registers c)"
  "cam_host_frame (camera_write_resolved a v t c) = cam_host_frame c"
  by (simp_all add: camera_write_resolved_def camera_write_register_def Let_def
      split: camera_capture_state.split)

lemma camera_timed_kept:
  assumes "camera_wf c"
  shows "device_kept (DevPocketCamera c) (DevPocketCamera (snd (camera_read_ram_timed a t c)))"
    and "device_kept (DevPocketCamera c) (DevPocketCamera (camera_write_ram_timed a v t c))"
  using assms
  by (simp_all add: device_kept_def camera_wf_def camera_read_ram_timed_def camera_write_ram_timed_def
      whole_banks_def header_rom_banks_def Let_def)

lemma huc3_advanced_kept:
  "huc3_wf c \<Longrightarrow> device_kept (DevHuc3 c) (DevHuc3 (huc3_advance_rtc_seconds n c))"
  by (simp add: device_kept_def huc3_wf_def huc3_advance_rtc_seconds_def sync_tracked_rtc_locations_def
      whole_banks_def header_rom_banks_def)

lemma ram_read_kept: "device_ok d \<Longrightarrow> returns (device_read_ram_timed a t d) (\<lambda>r. device_kept d (snd r))"
  by (cases d) (auto simp: device_read_ram_timed_def device_kept_refl mbc3_timed_kept camera_timed_kept
      mbc2_ram_total case_prod_beta)

lemma ram_write_kept: "device_ok d \<Longrightarrow> returns (device_write_ram_timed a v t d) (device_kept d)"
proof (cases d)
  case (DevMbc2 c)
  then show "device_ok d \<Longrightarrow> ?thesis"
    using mbc2_after_write [of c a v] by (simp add: device_write_ram_timed_def device_kept_def mbc2_ram_after_write_def mbc2_ram_total)
next
  case (DevMbc7 c)
  then show "device_ok d \<Longrightarrow> ?thesis"
    using mbc7_write_total [of c a v]
    by (simp add: device_write_ram_timed_def device_kept_def mbc7_write_ram_def)
next
  case (DevMbc6 c)
  then show "device_ok d \<Longrightarrow> ?thesis"
    using mbc6_ram_step [of c a v] by (simp add: device_write_ram_timed_def device_kept_def flash_step_def)
next
  case (DevHuc3 c)
  then show "device_ok d \<Longrightarrow> ?thesis"
    using huc3.write_ram_keeps [of c a v] by (simp add: device_write_ram_timed_def device_kept_def huc3_key_def)
next
  case (DevMbc3 c)
  then show "device_ok d \<Longrightarrow> ?thesis" by (simp add: device_write_ram_timed_def mbc3_timed_kept)
next
  case (DevPocketCamera c)
  then show "device_ok d \<Longrightarrow> ?thesis" by (simp add: device_write_ram_timed_def camera_timed_kept)
next
  case (DevMbc5 c)
  then show "device_ok d \<Longrightarrow> ?thesis"
    by (simp add: device_write_ram_timed_def device_kept_def mbc5_layout_wf_def header_rom_banks_def)
qed (use no_mbc.write_ram_keeps mmm01.write_ram_keeps m161.write_ram_keeps huc1.write_ram_keeps
      mbc1.write_ram_keeps in
    \<open>simp_all add: device_write_ram_timed_def device_kept_def ram_board_key_def\<close>)

text \<open>Restoring a save: it is refused, or the board then holds it in its normal form.\<close>

lemma restored_as_Inr: "restored_as dev r = Inr d' \<longleftrightarrow> (\<exists>c. r = Inr c \<and> d' = dev c)"
  by (auto simp: restored_as_def split: sum.split)

lemma camera_restored:
  "camera_wf c \<Longrightarrow> camera_restore s c = Inr c' \<Longrightarrow>
     camera_wf c' \<and> length (cam_ram c') = length (cam_ram c) \<and> cart_rom c' = cart_rom c
     \<and> camera_persistent_state c' = s"
  by (cases s) (auto simp: camera_restore_def kind_mismatch_def camera_wf_def camera_persistent_state_def
      whole_banks_def header_rom_banks_def split: if_splits)

lemma mbc6_restored:
  "mbc6_wf c \<Longrightarrow> mbc6_restore s c = Inr c' \<Longrightarrow>
     mbc6_wf c' \<and> mbc6_has_battery c' = mbc6_has_battery c \<and> length (mbc6_ram c') = length (mbc6_ram c)
     \<and> cart_rom c' = cart_rom c \<and> mbc6_persistent_state c' = s"
  by (frule (1) mbc6_restore_wf, cases s; cases "mbc6_has_battery c")
    (simp_all add: mbc6_restore_def kind_mismatch_def split: if_splits, auto)

lemma mbc5_restored:
  "mbc5_layout_wf c \<Longrightarrow> mbc5_restore s c = Inr c' \<Longrightarrow>
     mbc5_layout_wf c' \<and> cart_has_battery c' = cart_has_battery c
     \<and> map_option length (cart_ram c') = map_option length (cart_ram c)
     \<and> cart_rom c' = cart_rom c \<and> mbc5_persistent_state c' = s
     \<and> cart_header c' = cart_header c \<and> mbc5_rom_layout c' = mbc5_rom_layout c"
  by (auto simp: mbc5_restore_def mbc5_persistent_state_def mbc5_layout_wf_def dest!: mbc5_ram.restored)

definition device_normal :: "cartridge_device \<Rightarrow> persistent_cart_state \<Rightarrow> persistent_cart_state" where
  "device_normal d s = (case d of DevHuc3 _ \<Rightarrow> huc3_normal s | _ \<Rightarrow> s)"

lemma restore_kept:
  assumes "device_ok d" and "saved_arrays s" and "device_restore_persistent_state s d = Inr d'"
  shows "device_kept d d' \<and> device_persistent_state d' = device_normal d s"
proof (cases d)
  case (DevPocketCamera c)
  with assms(3) obtain c' where r: "camera_restore s c = Inr c'" and d': "d' = DevPocketCamera c'"
    by (auto simp: restored_as_Inr)
  from camera_restored [OF _ r] assms(1,2) DevPocketCamera d' show ?thesis
    by (simp add: device_kept_def device_normal_def )
next
  case (DevMbc6 c)
  with assms(3) obtain c' where r: "mbc6_restore s c = Inr c'" and d': "d' = DevMbc6 c'"
    by (auto simp: restored_as_Inr)
  from mbc6_restored [OF _ r] assms(1,2) DevMbc6 d' show ?thesis
    by (simp add: device_kept_def device_normal_def )
next
  case (DevHuc3 c)
  with assms(3) obtain c' where r: "huc3_restore s c = Inr c'" and d': "d' = DevHuc3 c'"
    by (auto simp: restored_as_Inr)
  from huc3.restore_keeps [OF _ _ r] assms(1,2) DevHuc3 d' show ?thesis
    by (simp add: device_kept_def device_normal_def saved_arrays_def huc3_key_def)
next
  case (DevMbc2 c)
  with assms(3) obtain c' where r: "mbc2_restore s c = Inr c'" and d': "d' = DevMbc2 c'"
    by (auto simp: restored_as_Inr)
  from mbc2.restore_keeps [OF _ _ r] assms(1,2) DevMbc2 d' show ?thesis
    by (simp add: device_kept_def device_normal_def saved_arrays_def)
next
  case (DevMbc7 c)
  with assms(3) obtain c' where r: "mbc7_restore s c = Inr c'" and d': "d' = DevMbc7 c'"
    by (auto simp: restored_as_Inr)
  from mbc7.restore_keeps [OF _ _ r] assms(1,2) DevMbc7 d' show ?thesis
    by (simp add: device_kept_def device_normal_def saved_arrays_def)
next
  case (DevMbc3 c)
  with assms(3) obtain c' where r: "mbc3_restore s c = Inr c'" and d': "d' = DevMbc3 c'"
    by (auto simp: restored_as_Inr)
  from mbc3.restore_keeps [OF _ _ r] assms(1,2) DevMbc3 d' show ?thesis
    by (simp add: device_kept_def device_normal_def mbc3_key_def)
next
  case (DevMbc5 c)
  with assms(3) obtain c' where r: "mbc5_restore s c = Inr c'" and d': "d' = DevMbc5 c'"
    by (auto simp: restored_as_Inr)
  from mbc5_restored [OF _ r] assms(1) DevMbc5 d' show ?thesis
    by (simp add: device_kept_def device_normal_def header_rom_banks_def)
next
  case (DevMbc1 c)
  with assms(3) obtain c' where r: "mbc1_restore s c = Inr c'" and d': "d' = DevMbc1 c'"
    by (auto simp: restored_as_Inr)
  from mbc1.restore_keeps [OF _ _ r] assms(1,2) DevMbc1 d' show ?thesis
    by (simp add: device_kept_def device_normal_def ram_board_key_def)
next
  case (DevHuc1 c)
  with assms(3) obtain c' where r: "huc1_restore s c = Inr c'" and d': "d' = DevHuc1 c'"
    by (auto simp: restored_as_Inr)
  from huc1.restore_keeps [OF _ _ r] assms(1,2) DevHuc1 d' show ?thesis
    by (simp add: device_kept_def device_normal_def ram_board_key_def)
next
  case (DevMmm01 c)
  with assms(3) obtain c' where r: "mmm01_restore s c = Inr c'" and d': "d' = DevMmm01 c'"
    by (auto simp: restored_as_Inr)
  from mmm01.restore_keeps [OF _ _ r] assms(1,2) DevMmm01 d' show ?thesis
    by (simp add: device_kept_def device_normal_def ram_board_key_def)
next
  case (DevM161 c)
  with assms(3) obtain c' where r: "m161_restore s c = Inr c'" and d': "d' = DevM161 c'"
    by (auto simp: restored_as_Inr)
  from m161.restore_keeps [OF _ _ r] assms(1,2) DevM161 d' show ?thesis
    by (simp add: device_kept_def device_normal_def )
next
  case (DevNoMbc c)
  with assms(3) obtain c' where r: "no_mbc_restore s c = Inr c'" and d': "d' = DevNoMbc c'"
    by (auto simp: restored_as_Inr)
  from no_mbc.restore_keeps [OF _ _ r] assms(1,2) DevNoMbc d' show ?thesis
    by (simp add: device_kept_def device_normal_def ram_board_key_def)
qed

lemma access_kept: "device_ok d \<Longrightarrow> returns (apply_access x d) (device_kept d)"
proof (cases x)
  case (DeviceRestore s)
  then show "device_ok d \<Longrightarrow> ?thesis"
    using restore_kept [of d s] by (auto simp: device_kept_refl split: sum.split)
next
  case (DeviceElapsedSeconds n)
  then show "device_ok d \<Longrightarrow> ?thesis"
    by (cases d) (simp_all add: device_advance_rtc_seconds_def device_kept_refl mbc3_timed_kept huc3_advanced_kept)
next
  case (DeviceClockTicks n)
  then show "device_ok d \<Longrightarrow> ?thesis"
    by (cases d) (simp_all add: device_advance_mbc3_rtc_clock_ticks_def device_kept_refl mbc3_timed_kept)
qed (use rom_write_kept ram_read_kept ram_write_kept in simp_all)

lemma accesses_kept: "device_ok d \<Longrightarrow> returns (apply_accesses xs d) (device_kept d)"
proof (induction xs arbitrary: d)
  case (Cons x xs)
  have "returns (apply_accesses xs e) (device_kept d)" if kept: "device_kept d e" for e
    using Cons.IH [of e] kept device_kept_trans [OF kept]
    by (auto simp: device_kept_def elim!: returns_mono)
  then show ?case
    unfolding apply_accesses.simps returns_simps by (rule returns_mono [OF access_kept [OF Cons.prems]])
qed (simp add: device_kept_refl)


section \<open>Reading the image\<close>

text \<open>What a read and the window reported for its address have to do with each other.\<close>

definition shows_the_image ::
    "bool \<Rightarrow> bool \<Rightarrow> u8 list \<Rightarrow> u8 res \<Rightarrow> cartridge_mapped_rom_window option \<Rightarrow> bool" where
  "shows_the_image exact whole bytes r win =
     (\<exists>v w. r = Inr v \<and> win = Some w \<and> win_bank_offset w < win_bank_size w
        \<and> (exact \<and> win_source w = FromRom \<longrightarrow> v = rom_get bytes (window_index w))
        \<and> (whole \<and> win_source w = FromRom \<longrightarrow> window_index w < length bytes \<and> v = bytes ! window_index w))"

lemma shows_by_window:
  assumes "\<exists>w. win = Some w \<and> win_bank_offset w < win_bank_size w \<and> v = rom_get bytes (window_index w)"
    and "\<And>w. win = Some w \<Longrightarrow> whole \<Longrightarrow> window_index w < length bytes"
  shows "shows_the_image exact whole bytes (Inr v) win"
  using assms rom_get_in by (fastforce simp: shows_the_image_def)

lemma mbc6_window_shows:
  assumes "mbc6_wf c" and "0x4000 \<le> length (cart_rom c)" and "a < 0x8000"
  shows "shows_the_image True True (cart_rom c) (mbc6_read_rom a c) (mbc6_mapped_rom_window a c)"
proof -
  have high: "shows_the_image True True (cart_rom c) (read_high_window w k c) (Some (mapped_high_window w k c))"
    if "k < 0x2000" for w k
  proof (cases "mbc6_selected w c")
    case SelectRom
    have "mbc6_effective_rom_flash_bank w (mbc6_rom_flash_bank_count c) c < length (cart_rom c) div 0x2000"
      using assms(2) by (cases w) (simp_all add: mbc6_effective_rom_flash_bank_def mbc6_rom_flash_bank_count_def
          MBC6_ROM_FLASH_BANK_BYTES_def)
    then have "mbc6_effective_rom_flash_bank w (mbc6_rom_flash_bank_count c) c * 0x2000 + 0x2000
        \<le> length (cart_rom c) div 0x2000 * 0x2000"
      using mult_le_mono1 [of "Suc _" _ "0x2000"] by (metis Suc_leI add.commute mult_Suc)
    then have "mbc6_effective_rom_flash_bank w (mbc6_rom_flash_bank_count c) c * 0x2000 + k < length (cart_rom c)"
      using that div_times_less_eq_dividend [of "length (cart_rom c)" "0x2000"] by linarith
    with SelectRom that show ?thesis
      by (simp add: shows_the_image_def read_high_window_def mapped_high_window_def rom_window_def
          window_index_def MBC6_ROM_FLASH_BANK_BYTES_def rom_get_in)
  next
    case SelectFlash
    have low_byte: "offset AND 255 < 256" for offset :: nat
      using take_bit_nat_less_exp [of 8 offset] by (simp add: take_bit_eq_mask mask_eq_exp_minus_1)
    have "\<exists>v. read_flash x c = Inr v" for x
      using assms(1) low_byte [of x] by (cases "mbc6_flash_mode c")
        (simp_all add: read_flash_def mbc6_wf_def usize_rem_def index_get_def MBC6_HIDDEN_BYTES_def)
    with SelectFlash that show ?thesis
      by (auto simp: shows_the_image_def read_high_window_def mapped_high_window_def flash_window_def
          MBC6_ROM_FLASH_BANK_BYTES_def)
  qed
  consider "a \<le> 0x3FFF" | "0x4000 \<le> a" "a \<le> 0x5FFF" | "0x6000 \<le> a"
    by (simp add: word_le_nat_alt) arith
  then show ?thesis
  proof cases
    case 1
    with assms(2) show ?thesis
      by (simp add: mbc6_read_rom_def mbc6_mapped_rom_window_def shows_the_image_def rom_window_def
          window_index_def rom_get_in word_le_nat_alt)
  next
    case 2
    then have "unat (a - 0x4000) = unat a - 0x4000" by (simp add: unat_sub)
    with 2 high [of "unat a - 0x4000" Mbc6WindowA] show ?thesis
      by (simp add: mbc6_read_rom_def mbc6_mapped_rom_window_def word_le_nat_alt)
  next
    case 3
    then have "unat (a - 0x6000) = unat a - 0x6000" by (simp add: unat_sub)
    with 3 assms(3) high [of "unat a - 0x6000" Mbc6WindowB] show ?thesis
      by (simp add: mbc6_read_rom_def mbc6_mapped_rom_window_def word_le_nat_alt word_less_nat_alt)
  qed
qed

lemma device_shows:
  assumes "device_ok d" and "a < 0x8000"
  shows "shows_the_image (device_exact d) (device_whole d) (device_rom_bytes d) (device_read_rom a d)
    (device_mapped_rom_window a d)"
proof (cases d)
  case (DevMbc6 c)
  with assms mbc6_window_shows [of c a] show ?thesis by (simp add: device_whole_def)
next
  case (DevMbc5 c)
  have short: "window_index w < length (cart_rom c)" if "mbc5_mapped_rom_window c a = Some w" and "mbc5_exact c" for w
    using mbc5.window_inside that by blast
  show ?thesis
  proof (cases "device_exact d")
    case True
    with DevMbc5 assms(1) have "mbc5_exact c" by (simp add: mbc5_exact_def)
    with short mbc5.window_reads [OF this assms(2)] DevMbc5 show ?thesis by (auto intro: shows_by_window)
  next
    case False
    with DevMbc5 assms(2) show ?thesis
      by (simp add: device_whole_def shows_the_image_def mbc5_mapped_rom_window_def banked_rom_window_def
          rom_window_def word_less_nat_alt word_le_nat_alt linorder_not_less) arith
  qed
next
  case (DevNoMbc c)
  with assms no_mbc.window_reads [of a c] show ?thesis
    by (auto intro!: shows_by_window simp: device_whole_def no_mbc_mapped_rom_window_def rom_window_def
        window_index_def word_less_nat_alt split: if_splits)
next
  case (DevM161 c)
  with assms m161.window_reads [of a c] show ?thesis by (auto intro!: shows_by_window simp: device_whole_def)
next
  case (DevPocketCamera c)
  with assms(1) have "whole_banks c" by (simp add: camera_wf_def)
  with DevPocketCamera assms(2) camera.window_reads [of c a] camera.window_inside [of c a] show ?thesis
    by (auto intro!: shows_by_window)
qed (use assms mmm01.window_reads mmm01.window_inside huc1.window_reads huc1.window_inside huc3.window_reads
      huc3.window_inside mbc1.window_reads mbc1.window_inside mbc2.window_reads mbc2.window_inside
      mbc3.window_reads mbc3.window_inside mbc7.window_reads mbc7.window_inside in
    \<open>auto intro!: shows_by_window\<close>)

lemma flash_windows:
  assumes "device_mapped_rom_window a d = Some w" and "win_source w = FromFlash"
  shows "\<exists>c. d = DevMbc6 c"
  using assms
  by (cases d)
    (simp_all add: no_mbc_mapped_rom_window_def mmm01_mapped_rom_window_def m161_mapped_rom_window_def
      huc1_mapped_rom_window_def huc3_mapped_rom_window_def mbc1_mapped_rom_window_def
      mbc2_mapped_rom_window_def mbc3_mapped_rom_window_def mbc5_mapped_rom_window_def
      mbc7_mapped_rom_window_def camera_mapped_rom_window_def banked_rom_window_def rom_window_def
      split: if_splits,
     (auto simp: banked_rom_window_def rom_window_def split: if_splits)?)

section \<open>Saves\<close>

lemma linear_saves [simp]:
  "saved_arrays (linear_ram_state NoMbcRam c)" "saved_arrays (linear_ram_state Mmm01Ram c)"
  "saved_arrays (linear_ram_state Huc1Ram c)" "saved_arrays (linear_ram_state Mbc1Ram c)"
  "saved_arrays (linear_ram_state Mbc5Ram c)"
  by (simp_all add: saved_arrays_def linear_ram_state_def mbc2_array_def mbc7_array_def huc3_array_def
      split: option.split)

lemma saved_shape: "device_ok d \<Longrightarrow> saved_arrays (device_persistent_state d)"
  by (cases d)
    (simp_all add: no_mbc_persistent_state_def mmm01_persistent_state_def huc1_persistent_state_def
      mbc1_persistent_state_def mbc5_persistent_state_def,
     simp_all add: saved_arrays_def mbc2_array_def mbc7_array_def huc3_array_def m161_persistent_state_def
      huc3_persistent_state_def mbc2_persistent_state_def mbc3_persistent_state_def mbc6_persistent_state_def
      mbc7_persistent_state_def camera_persistent_state_def huc3_wf_def nibble_cells_def mbc2_wf_def
      mbc7_wf_def split: option.split bool.split)

lemma device_captured:
  assumes "device_ok d" and "device_ok e" and "device_board d = device_board e"
  shows "\<exists>e'. device_restore_persistent_state (device_persistent_state d) e = Inr e'"
proof (cases d)
  case (DevNoMbc c)
  with assms obtain c' where "e = DevNoMbc c'" by (cases e) auto
  with DevNoMbc assms no_mbc.restore_captured [of c c'] show ?thesis by (auto simp: restored_as_Inr ram_board_key_def)
next
  case (DevMmm01 c)
  with assms obtain c' where "e = DevMmm01 c'" by (cases e) auto
  with DevMmm01 assms mmm01.restore_captured [of c c'] show ?thesis by (auto simp: restored_as_Inr ram_board_key_def)
next
  case (DevM161 c)
  with assms obtain c' where "e = DevM161 c'" by (cases e) auto
  with DevM161 m161.restore_captured [of c c'] show ?thesis by (auto simp: restored_as_Inr)
next
  case (DevHuc1 c)
  with assms obtain c' where "e = DevHuc1 c'" by (cases e) auto
  with DevHuc1 assms huc1.restore_captured [of c c'] show ?thesis by (auto simp: restored_as_Inr ram_board_key_def)
next
  case (DevHuc3 c)
  with assms obtain c' where "e = DevHuc3 c'" by (cases e) auto
  with DevHuc3 assms huc3.restore_captured [of c c'] show ?thesis by (auto simp: restored_as_Inr huc3_key_def)
next
  case (DevMbc1 c)
  with assms obtain c' where "e = DevMbc1 c'" by (cases e) auto
  with DevMbc1 assms mbc1.restore_captured [of c c'] show ?thesis by (auto simp: restored_as_Inr ram_board_key_def)
next
  case (DevMbc2 c)
  with assms obtain c' where "e = DevMbc2 c'" by (cases e) auto
  with DevMbc2 assms mbc2.restore_captured [of c c'] show ?thesis by (auto simp: restored_as_Inr)
next
  case (DevMbc3 c)
  with assms obtain c' where "e = DevMbc3 c'" by (cases e) auto
  with DevMbc3 assms mbc3.restore_captured [of c c'] show ?thesis by (auto simp: restored_as_Inr mbc3_key_def)
next
  case (DevMbc5 c)
  with assms obtain c' where "e = DevMbc5 c'" by (cases e) auto
  with DevMbc5 assms mbc5_ram.captured [of c c'] show ?thesis
    by (auto simp: restored_as_Inr ram_board_key_def mbc5_restore_def mbc5_persistent_state_def)
next
  case (DevMbc6 c)
  with assms obtain c' where "e = DevMbc6 c'" by (cases e) auto
  with DevMbc6 assms show ?thesis
    by (auto simp: restored_as_Inr mbc6_restore_def mbc6_persistent_state_def mbc6_wf_def)
next
  case (DevMbc7 c)
  with assms obtain c' where "e = DevMbc7 c'" by (cases e) auto
  with DevMbc7 assms mbc7.restore_captured [of c c'] show ?thesis by (auto simp: restored_as_Inr)
next
  case (DevPocketCamera c)
  with assms obtain c' where "e = DevPocketCamera c'" by (cases e) auto
  with DevPocketCamera assms camera.restore_captured [of c c'] show ?thesis
    by (auto simp: restored_as_Inr camera_wf_def)
qed

section \<open>Properties\<close>

text \<open>C37. Whatever the program and the frontend do with a well-formed cartridge, nothing panics and
  the image stays as it is. A read of the ROM area gives the byte of the image that the window
  reported for the address points at, and 0xFF when that lies past the end of the image, which a
  whole image excludes. The exceptions are stated: a window onto flash, which only MBC6 reports,
  shows flash and not the image, and an MBC5 image of another size than its header declares
  (loaded permissively) reports windows that do not match its reads; no other board has them.\<close>

theorem device_reads_the_image:
  assumes "device_ok d" and "a < 0x8000"
  shows "\<exists>d' v w. apply_accesses xs d = Inr d' \<and> device_rom_bytes d' = device_rom_bytes d
    \<and> device_read_rom a d' = Inr v \<and> device_mapped_rom_window a d' = Some w
    \<and> win_bank_offset w < win_bank_size w
    \<and> (device_exact d \<and> win_source w = FromRom \<longrightarrow>
         v = (if window_index w < length (device_rom_bytes d)
              then device_rom_bytes d ! window_index w else 0xFF))
    \<and> (device_whole d \<and> win_source w = FromRom \<longrightarrow> window_index w < length (device_rom_bytes d))
    \<and> (win_source w = FromFlash \<longrightarrow> (\<exists>c. d' = DevMbc6 c))
    \<and> (\<not> device_exact d \<longrightarrow>
         (\<exists>c. d' = DevMbc5 c \<and> header_rom_banks c \<noteq> lay_effective_bank_count (mbc5_rom_layout c)))"
proof -
  obtain d' where d': "apply_accesses xs d = Inr d'" and kept: "device_kept d d'"
    using accesses_kept [OF assms(1), of xs] by (auto simp: returns_iff)
  have "device_whole d' = device_whole d"
    using kept by (cases d; cases d') (auto simp: device_kept_def device_whole_def)
  with kept device_shows [of d' a] assms(2) obtain v w
    where read: "device_read_rom a d' = Inr v" "device_mapped_rom_window a d' = Some w"
      and shown: "win_bank_offset w < win_bank_size w"
        "device_exact d \<and> win_source w = FromRom \<longrightarrow> v = rom_get (device_rom_bytes d) (window_index w)"
        "device_whole d \<and> win_source w = FromRom \<longrightarrow> window_index w < length (device_rom_bytes d)"
    unfolding device_kept_def shows_the_image_def by auto
  have "\<exists>c. d' = DevMbc5 c \<and> header_rom_banks c \<noteq> lay_effective_bank_count (mbc5_rom_layout c)"
    if "\<not> device_exact d"
    using that kept by (cases d') (auto simp: device_kept_def)
  moreover have "device_exact d \<and> win_source w = FromRom \<longrightarrow>
      v = (if window_index w < length (device_rom_bytes d)
           then device_rom_bytes d ! window_index w else 0xFF)"
    using shown(2) by (auto simp: rom_get_in rom_get_out RAM_ABSENT_READ_VALUE_def)
  moreover have "device_rom_bytes d' = device_rom_bytes d" using kept by (simp add: device_kept_def)
  ultimately show ?thesis
    using d' read shown(1,3) flash_windows [OF read(2)] by blast
qed

text \<open>C38. A save made at any point of any run restores into any other run of a cartridge with the
  same board (mapper, battery, clock chip and RAM size), and saving again gives that save back
  exactly. The one exception is HuC-3, whose restore normalises the save: there saving again
  gives its normal form.\<close>

theorem device_save_round_trip:
  assumes "device_ok d" and "device_ok e" and "device_board d = device_board e"
  shows "\<exists>d' e' e''. apply_accesses xs d = Inr d' \<and> apply_accesses ys e = Inr e'
    \<and> device_restore_persistent_state (device_persistent_state d') e' = Inr e''
    \<and> ((\<forall>c. e \<noteq> DevHuc3 c) \<longrightarrow> device_persistent_state e'' = device_persistent_state d')
    \<and> ((\<exists>c. e = DevHuc3 c) \<longrightarrow> device_persistent_state e'' = huc3_normal (device_persistent_state d'))
    \<and> device_rom_bytes e'' = device_rom_bytes e"
proof -
  obtain d' where d': "apply_accesses xs d = Inr d'" and kept_d: "device_kept d d'"
    using accesses_kept [OF assms(1), of xs] by (auto simp: returns_iff)
  obtain e' where e': "apply_accesses ys e = Inr e'" and kept_e: "device_kept e e'"
    using accesses_kept [OF assms(2), of ys] by (auto simp: returns_iff)
  obtain e'' where r: "device_restore_persistent_state (device_persistent_state d') e' = Inr e''"
    using device_captured [of d' e'] kept_d kept_e assms(3) by (auto simp: device_kept_def)
  have "saved_arrays (device_persistent_state d')"
    using kept_d saved_shape by (simp add: device_kept_def)
  then have "device_kept e' e''" "device_persistent_state e'' = device_normal e' (device_persistent_state d')"
    using restore_kept [OF _ _ r] kept_e by (simp_all add: device_kept_def)
  moreover have "device_normal e' = device_normal e"
    using kept_e by (cases e; cases e') (auto simp: device_kept_def device_normal_def)
  ultimately have "device_persistent_state e'' = device_normal e (device_persistent_state d')"
    "device_rom_bytes e'' = device_rom_bytes e"
    using kept_e by (simp_all add: device_kept_def)
  moreover have "device_normal e = (\<lambda>s. s)" if "\<forall>c. e \<noteq> DevHuc3 c"
    using that by (cases e) (auto simp: device_normal_def)
  moreover have "device_normal e = huc3_normal" if "\<exists>c. e = DevHuc3 c"
    using that by (auto simp: device_normal_def)
  ultimately show ?thesis using d' e' r by (cases "\<exists>c. e = DevHuc3 c") auto
qed

definition sample_device :: cartridge_device where
  "sample_device =
     DevMbc1 \<lparr>cart_rom = replicate 0x10000 0x5A, cart_header = sample_header 4,
       cart_classification = sample_classification, cart_ram = Some (replicate 0x2000 0),
       cart_has_battery = True, mbc1_variant_of = Mbc1Standard, mbc1_wiring_of = Mbc1WiringStandard,
       mbc1_ram_enabled = False, mbc1_rom_bank_low5 = 0, mbc1_secondary_bank = 0, mbc1_banking_mode = 0\<rparr>"

lemma sample_device_ok: "device_ok sample_device \<and> device_exact sample_device"
  by (simp add: sample_device_def whole_banks_def header_rom_banks_def)

lemma device_reads_the_image_witness:
  "\<exists>d' v w. apply_accesses [DeviceWriteRom 0x2000 3] sample_device = Inr d'
     \<and> device_read_rom 0x4001 d' = Inr v \<and> device_mapped_rom_window 0x4001 d' = Some w
     \<and> device_rom_bytes d' = device_rom_bytes sample_device"
  using device_reads_the_image [of sample_device "0x4001" "[DeviceWriteRom 0x2000 3]"] sample_device_ok
  by (auto simp: word_less_nat_alt)

lemma device_save_round_trip_witness:
  "\<exists>d' e''. apply_accesses [DeviceWriteRom 0 0x0A, DeviceWriteRam 0xA000 0x42 0] sample_device = Inr d'
     \<and> device_restore_persistent_state (device_persistent_state d') sample_device = Inr e''
     \<and> device_persistent_state e'' = device_persistent_state d'"
  using device_save_round_trip [of sample_device sample_device
      "[DeviceWriteRom 0 0x0A, DeviceWriteRam 0xA000 0x42 0]" "[]"] sample_device_ok
  by (auto simp: device_normal_def sample_device_def)

end
