(* ===== verification/Cart_Clocks.thy ===== *)
theory Cart_Clocks
  imports Cart_Laws
begin


text \<open>While the clock is not halted, advancing it at once by any nonzero number of seconds (far
  from the 64-bit limit) gives what as many single ticks give from its registers once the bits
  the registers do not have are masked off.\<close>

theorem mbc3_jumps_are_ticks:
  assumes "\<not> rtc_halt s" and "e \<noteq> 0" and "unat e + 512 * 86400 < 2 ^ 64"
  shows "advance_mbc3_rtc_fields e s = (rtc_tick_one_second ^^ unat e) (rtc_mask_fields s)"
  using assms by (rule advance_is_ticks)

lemma mbc3_jumps_are_ticks_witness:
  "advance_mbc3_rtc_fields 2 (rtc_default\<lparr>rtc_seconds := 63\<rparr>)
     = (rtc_tick_one_second ^^ 2) (rtc_mask_fields (rtc_default\<lparr>rtc_seconds := 63\<rparr>))"
  using mbc3_jumps_are_ticks [of "rtc_default\<lparr>rtc_seconds := 63\<rparr>" 2]
  by (simp add: rtc_default_def)




section \<open>Concrete instances\<close>



definition sample_mmm01 :: mmm01_cartridge where
  "sample_mmm01 =
     \<lparr>cart_rom = replicate 0x10000 0, cart_header = sample_header 4,
      cart_classification = sample_classification, cart_ram = None, cart_has_battery = False,
      mmm_mapped = True, mmm_ram_enabled = False, mmm_ram_bank_mask = 0, mmm_rom_bank_low = 0x12,
      mmm_rom_bank_mid = 1, mmm_ram_bank_low = 0, mmm_ram_bank_high = 0, mmm_rom_bank_high = 0,
      mmm_mode_write_disable = False, mmm_banking_mode = 0, mmm_rom_bank_mask = 0x10,
      mmm_multiplex_enabled = False\<rparr>"

lemma mmm01_configuration_is_locked_witness:
  "mmm_rom_bank_mid (fold (\<lambda>(a, v). mmm01_write_rom a v) [(0x2000, 0x61), (0x0000, 0x40)] sample_mmm01) = 1"
  using mmm01_configuration_is_locked [of sample_mmm01 "[(0x2000, 0x61), (0x0000, 0x40)]"]
  by (simp add: mmm01_locked_part_def) (simp add: sample_mmm01_def)

definition sample_huc3 :: huc3_cartridge where
  "sample_huc3 =
     \<lparr>cart_rom = replicate 0x10000 0, cart_header = sample_header 4,
      cart_classification = sample_classification, huc3_ram = replicate 0x2000 0, huc3_has_battery = True,
      huc3_select_mode = RtcSemaphore, huc3_rom_bank = 0, huc3_ram_bank = 0, huc3_access_address = 0,
      huc3_mailbox = \<lparr>box_command = 6, box_argument = 1, box_last_response = 0, box_semaphore_ready = True\<rparr>,
      huc3_mcu_ram = [10, 0, 0, 2, 0, 0] @ replicate 250 0,
      huc3_rtc = \<lparr>h3_minutes_of_day = 100, h3_days = 1, h3_subminute_seconds = 30,
        h3_event_minutes_of_day = 130, h3_event_days = 1\<rparr>,
      huc3_ir_emitter_on = False, huc3_ir_light_detected = False, huc3_last_control_write = None,
      huc3_last_unsupported_command = None, huc3_last_unsupported_argument = None\<rparr>"

lemma huc3_set_time_keeps_the_alarm_witness:
  "huc3_minutes (huc3_rtc (apply_io_window_current_time_preserving_event_delta sample_huc3)) = 2 * 1440 + 10"
  using huc3_set_time_keeps_the_alarm [of sample_huc3]
  by (simp add: sample_huc3_def huc3_rtc_ok_unat triplet_read_def)

definition sample_camera :: pocket_camera where
  "sample_camera =
     \<lparr>cart_rom = replicate 0x10000 0, cart_header = sample_header 4,
      cart_classification = sample_classification, cam_ram = replicate 131072 0, cam_ram_enabled = True,
      cam_rom_bank = 1, cam_select = 0x10, cam_registers = replicate 54 0,
      cam_host_frame = replicate 14336 0, cam_capture = CaptureIdle\<rparr>"

lemma capture_takes_its_time_witness:
  "cam_ram (snd (camera_read_ram_timed 0xA000 132731
      (camera_write_ram_timed 0xA000 1 1000 (camera_write_ram_timed 0xA000 0 100
        (camera_write_ram_timed 0xA000 1 0 sample_camera))))) = cam_ram sample_camera"
proof -
  have "capture_duration_t_cycles sample_camera = 131832"
    by (simp add: capture_duration_t_cycles_def capture_exposure_def sample_camera_def)
  then show ?thesis
    using capture_takes_its_time [of sample_camera "0xA000" 1 0 1 0 100 1000 "0xA000" 132731]
    by (simp add: sample_camera_def registers_selected_def register_offset_def CAMERA_REGISTER_MIRROR_MASK_def)
qed

end
