(* ===== verification/Cart_Parse.thy ===== *)
theory Cart_Parse
  imports Cart_Types
begin

text \<open>
  Parsing the cartridge header of an image (\<open>cartridge/header.rs\<close>): the size codes, the flags,
  the header at any offset, and the choice between the header at the start and the menu header
  at the end of an MMM01 image. The title is kept as its bytes; the lossy UTF-8 decoding the
  code applies to it is for display, and neither emptiness nor an ASCII suffix depends on it.
\<close>

definition HEADER_MINIMUM_ROM_LEN :: nat where "HEADER_MINIMUM_ROM_LEN = 0x0150"
definition ENTRY_POINT_LEN :: nat where "ENTRY_POINT_LEN = 4"
definition NINTENDO_LOGO_LEN :: nat where "NINTENDO_LOGO_LEN = 48"
definition TITLE_BYTES_LEN :: nat where "TITLE_BYTES_LEN = 0x0143 - 0x0134 + 1"
definition MANUFACTURER_CODE_LEN :: nat where "MANUFACTURER_CODE_LEN = 0x0142 - 0x013F + 1"
definition NEW_LICENSEE_CODE_LEN :: nat where "NEW_LICENSEE_CODE_LEN = 2"
definition ENTRY_POINT_START :: nat where "ENTRY_POINT_START = 0x0100"
definition NINTENDO_LOGO_START :: nat where "NINTENDO_LOGO_START = 0x0104"
definition TITLE_START :: nat where "TITLE_START = 0x0134"
definition MANUFACTURER_CODE_START :: nat where "MANUFACTURER_CODE_START = 0x013F"
definition TITLE_END_INCLUSIVE :: nat where "TITLE_END_INCLUSIVE = 0x0143"
definition CGB_FLAG_ADDRESS :: nat where "CGB_FLAG_ADDRESS = 0x0143"
definition NEW_LICENSEE_CODE_START :: nat where "NEW_LICENSEE_CODE_START = 0x0144"
definition SGB_FLAG_ADDRESS :: nat where "SGB_FLAG_ADDRESS = 0x0146"
definition CARTRIDGE_TYPE_ADDRESS :: nat where "CARTRIDGE_TYPE_ADDRESS = 0x0147"
definition ROM_SIZE_ADDRESS :: nat where "ROM_SIZE_ADDRESS = 0x0148"
definition RAM_SIZE_ADDRESS :: nat where "RAM_SIZE_ADDRESS = 0x0149"
definition DESTINATION_CODE_ADDRESS :: nat where "DESTINATION_CODE_ADDRESS = 0x014A"
definition OLD_LICENSEE_CODE_ADDRESS :: nat where "OLD_LICENSEE_CODE_ADDRESS = 0x014B"
definition HEADER_CHECKSUM_ADDRESS :: nat where "HEADER_CHECKSUM_ADDRESS = 0x014D"

lemmas header_layout = HEADER_MINIMUM_ROM_LEN_def ENTRY_POINT_LEN_def NINTENDO_LOGO_LEN_def TITLE_BYTES_LEN_def
  MANUFACTURER_CODE_LEN_def NEW_LICENSEE_CODE_LEN_def ENTRY_POINT_START_def NINTENDO_LOGO_START_def
  TITLE_START_def MANUFACTURER_CODE_START_def TITLE_END_INCLUSIVE_def CGB_FLAG_ADDRESS_def
  NEW_LICENSEE_CODE_START_def SGB_FLAG_ADDRESS_def CARTRIDGE_TYPE_ADDRESS_def ROM_SIZE_ADDRESS_def
  RAM_SIZE_ADDRESS_def DESTINATION_CODE_ADDRESS_def OLD_LICENSEE_CODE_ADDRESS_def HEADER_CHECKSUM_ADDRESS_def

definition MANI_MMM01_SUPPORTED_ROM_BYTES :: "nat list" where
  "MANI_MMM01_SUPPORTED_ROM_BYTES = [512 * 1024, 1024 * 1024]"
definition MANI_MMM01_MENU_TYPE :: u8 where "MANI_MMM01_MENU_TYPE = 0x11"

text \<open>An ASCII literal as bytes.\<close>

definition ascii :: "string \<Rightarrow> u8 list" where
  "ascii s = map of_char s"

definition MANI_MMM01_MENU_SUFFIX :: "u8 list" where "MANI_MMM01_MENU_SUFFIX = ascii '' SET''"

section \<open>Sizes and flags\<close>

definition decode_rom_size :: "u8 \<Rightarrow> rom_size_info" where
  "decode_rom_size raw_code =
     (if raw_code \<le> 0x08 then
        (let bank_count = push_bit (unat raw_code) 2
         in \<lparr>rom_raw_code = raw_code, rom_decoded_bytes = Some (16 * 1024 * bank_count),
             rom_bank_count = Some bank_count\<rparr>)
      else if raw_code = 0x52 then
        \<lparr>rom_raw_code = raw_code, rom_decoded_bytes = Some (72 * 16 * 1024), rom_bank_count = Some 72\<rparr>
      else if raw_code = 0x53 then
        \<lparr>rom_raw_code = raw_code, rom_decoded_bytes = Some (80 * 16 * 1024), rom_bank_count = Some 80\<rparr>
      else if raw_code = 0x54 then
        \<lparr>rom_raw_code = raw_code, rom_decoded_bytes = Some (96 * 16 * 1024), rom_bank_count = Some 96\<rparr>
      else \<lparr>rom_raw_code = raw_code, rom_decoded_bytes = None, rom_bank_count = None\<rparr>)"

definition decode_ram_size :: "u8 \<Rightarrow> ram_size_info" where
  "decode_ram_size raw_code =
     (let size = (\<lambda>bytes banks. \<lparr>ram_raw_code = raw_code, ram_decoded_bytes = bytes, ram_bank_count = banks\<rparr>)
      in if raw_code = 0x00 then size (Some 0) (Some 0)
         else if raw_code = 0x01 then size (Some (2 * 1024)) (Some 1)
         else if raw_code = 0x02 then size (Some (8 * 1024)) (Some 1)
         else if raw_code = 0x03 then size (Some (32 * 1024)) (Some 4)
         else if raw_code = 0x04 then size (Some (128 * 1024)) (Some 16)
         else if raw_code = 0x05 then size (Some (64 * 1024)) (Some 8)
         else size None None)"

definition uses_cgb_title_layout :: "u8 \<Rightarrow> bool" where
  "uses_cgb_title_layout raw_flag = (raw_flag AND 0x80 \<noteq> 0)"

definition decode_cgb_flag :: "u8 \<Rightarrow> cgb_flag" where
  "decode_cgb_flag raw_flag =
     (if raw_flag = 0x00 then CgbNone
      else if raw_flag = 0x80 then CgbSupported
      else if raw_flag = 0xC0 then CgbOnly
      else if uses_cgb_title_layout raw_flag then CgbSupportedNonCanonical raw_flag
      else CgbUnknown raw_flag)"

definition decode_sgb_flag :: "u8 \<Rightarrow> sgb_flag" where
  "decode_sgb_flag raw_flag =
     (if raw_flag = 0x00 then SgbNone else if raw_flag = 0x03 then SgbSupported else SgbUnknown raw_flag)"

definition uses_nintendo_licensee_for_cgb_compatibility :: "cartridge_header \<Rightarrow> bool" where
  "uses_nintendo_licensee_for_cgb_compatibility h =
     (if hdr_old_licensee_code h = 0x33 then hdr_new_licensee_code h = ascii ''01''
      else hdr_old_licensee_code h = 0x01)"

definition cgb_compatibility_title_checksum :: "cartridge_header \<Rightarrow> u8 option" where
  "cgb_compatibility_title_checksum h =
     (if uses_nintendo_licensee_for_cgb_compatibility h
      then Some (fold (\<lambda>b checksum. checksum + b) (hdr_title_bytes h) 0) else None)"

section \<open>The header at an offset\<close>

datatype header_parse_error = ImageTooSmall nat nat

definition bytes_at :: "u8 list \<Rightarrow> nat \<Rightarrow> nat \<Rightarrow> u8 list" where
  "bytes_at rom start len = take len (drop start rom)"

definition visible_title :: "u8 \<Rightarrow> u8 list \<Rightarrow> u8 list" where
  "visible_title raw_cgb_flag title_bytes =
     takeWhile (\<lambda>b. b \<noteq> 0 \<and> b \<noteq> 0xFF)
       (if uses_cgb_title_layout raw_cgb_flag then take (TITLE_BYTES_LEN - 1) title_bytes else title_bytes)"

definition parse_at_offset :: "u8 list \<Rightarrow> nat \<Rightarrow> header_parse_error + cartridge_header" where
  "parse_at_offset rom base =
     (let minimum_size = base + HEADER_MINIMUM_ROM_LEN
      in if length rom < minimum_size then Inl (ImageTooSmall (length rom) minimum_size)
         else
           (let raw_cgb_flag = rom ! (base + CGB_FLAG_ADDRESS);
                title_bytes = bytes_at rom (base + TITLE_START) TITLE_BYTES_LEN
            in Inr \<lparr>hdr_entry_point = bytes_at rom (base + ENTRY_POINT_START) ENTRY_POINT_LEN,
                 hdr_nintendo_logo = bytes_at rom (base + NINTENDO_LOGO_START) NINTENDO_LOGO_LEN,
                 hdr_title_bytes = title_bytes,
                 hdr_raw_title_suffix = bytes_at rom (base + MANUFACTURER_CODE_START) MANUFACTURER_CODE_LEN,
                 hdr_title = visible_title raw_cgb_flag title_bytes,
                 hdr_cgb_flag = decode_cgb_flag raw_cgb_flag,
                 hdr_sgb_flag = decode_sgb_flag (rom ! (base + SGB_FLAG_ADDRESS)),
                 hdr_cartridge_type = rom ! (base + CARTRIDGE_TYPE_ADDRESS),
                 hdr_rom_size = decode_rom_size (rom ! (base + ROM_SIZE_ADDRESS)),
                 hdr_ram_size = decode_ram_size (rom ! (base + RAM_SIZE_ADDRESS)),
                 hdr_new_licensee_code = bytes_at rom (base + NEW_LICENSEE_CODE_START) NEW_LICENSEE_CODE_LEN,
                 hdr_destination_code = rom ! (base + DESTINATION_CODE_ADDRESS),
                 hdr_old_licensee_code = rom ! (base + OLD_LICENSEE_CODE_ADDRESS),
                 hdr_header_checksum = rom ! (base + HEADER_CHECKSUM_ADDRESS)\<rparr>))"

definition parse_header :: "u8 list \<Rightarrow> header_parse_error + cartridge_header" where
  "parse_header rom = parse_at_offset rom 0"

section \<open>Menu headers\<close>

text \<open>\<open>(0..limit).step_by(0x4000)\<close>.\<close>

definition bank_starts :: "nat \<Rightarrow> nat list" where
  "bank_starts limit = map (\<lambda>i. i * 0x4000) [0..<(limit + 0x3FFF) div 0x4000]"

definition title_ends_with_menu_suffix :: "cartridge_header \<Rightarrow> bool" where
  "title_ends_with_menu_suffix h =
     (length MANI_MMM01_MENU_SUFFIX \<le> length (hdr_title h)
      \<and> drop (length (hdr_title h) - length MANI_MMM01_MENU_SUFFIX) (hdr_title h) = MANI_MMM01_MENU_SUFFIX)"

text \<open>A game header of a Mani multicart, and of a standard MMM01 one.\<close>

definition is_mani_subheader :: "u8 list \<Rightarrow> u8 list \<Rightarrow> nat \<Rightarrow> bool" where
  "is_mani_subheader rom expected_logo base =
     (case parse_at_offset rom base of
        Inl _ \<Rightarrow> False
      | Inr candidate \<Rightarrow>
          (case rom_decoded_bytes (hdr_rom_size candidate) of
             None \<Rightarrow> False
           | Some subrom_bytes \<Rightarrow>
               \<not> (hdr_nintendo_logo candidate \<noteq> expected_logo
                  \<or> \<not> hdr_cartridge_type candidate \<le> 0x03
                  \<or> ram_raw_code (hdr_ram_size candidate) \<noteq> 0x00
                  \<or> length rom \<le> subrom_bytes
                  \<or> hdr_title candidate = []
                  \<or> title_ends_with_menu_suffix candidate)))"

definition count_mani_mmm01_subheaders :: "u8 list \<Rightarrow> u8 list \<Rightarrow> nat" where
  "count_mani_mmm01_subheaders rom expected_logo =
     length (filter (is_mani_subheader rom expected_logo) (bank_starts (length rom)))"

definition is_mmm01_type :: "u8 \<Rightarrow> bool" where
  "is_mmm01_type t = (0x0B \<le> t \<and> t \<le> 0x0D)"

definition is_standard_subheader :: "u8 list \<Rightarrow> u8 list \<Rightarrow> nat \<Rightarrow> bool" where
  "is_standard_subheader rom expected_logo base =
     (case parse_at_offset rom base of
        Inl _ \<Rightarrow> False
      | Inr candidate \<Rightarrow>
          (case rom_decoded_bytes (hdr_rom_size candidate) of
             None \<Rightarrow> False
           | Some subrom_bytes \<Rightarrow>
               \<not> (hdr_nintendo_logo candidate \<noteq> expected_logo
                  \<or> is_mmm01_type (hdr_cartridge_type candidate)
                  \<or> length rom \<le> subrom_bytes
                  \<or> hdr_title candidate = [])))"

definition count_standard_mmm01_subheaders :: "u8 list \<Rightarrow> u8 list \<Rightarrow> nat" where
  "count_standard_mmm01_subheaders rom expected_logo =
     (if length rom < MMM01_MENU_BYTES then 0
      else length (filter (is_standard_subheader rom expected_logo)
                     (bank_starts (length rom - MMM01_MENU_BYTES))))"

definition parse_mmm01_menu_header :: "u8 list \<Rightarrow> cartridge_header option" where
  "parse_mmm01_menu_header rom =
     (if length rom < MMM01_MIN_ROM_BYTES then None
      else
        (let base_offset = length rom - MMM01_MENU_BYTES
         in if base_offset = 0 then None
            else case parse_at_offset rom base_offset of
                Inl _ \<Rightarrow> None
              | Inr candidate \<Rightarrow>
                  if \<not> is_mmm01_type (hdr_cartridge_type candidate) then None
                  else if rom_decoded_bytes (hdr_rom_size candidate) \<noteq> Some (length rom) then None
                  else if hdr_title candidate = [] then None
                  else if count_standard_mmm01_subheaders rom (hdr_nintendo_logo candidate) < 2 then None
                  else Some candidate))"

definition is_mbc1_type :: "u8 \<Rightarrow> bool" where
  "is_mbc1_type t = (0x01 \<le> t \<and> t \<le> 0x03)"

definition parse_mani_mmm01_menu_header :: "u8 list \<Rightarrow> cartridge_header \<Rightarrow> cartridge_header option" where
  "parse_mani_mmm01_menu_header rom primary =
     (if \<not> is_mbc1_type (hdr_cartridge_type primary)
        \<or> ram_raw_code (hdr_ram_size primary) \<noteq> 0x00
        \<or> length rom \<notin> set MANI_MMM01_SUPPORTED_ROM_BYTES then None
      else if length rom \<le> MMM01_MENU_BYTES then None
      else case parse_at_offset rom (length rom - MMM01_MENU_BYTES) of
          Inl _ \<Rightarrow> None
        | Inr candidate \<Rightarrow>
            if hdr_cartridge_type candidate \<noteq> MANI_MMM01_MENU_TYPE
              \<or> ram_raw_code (hdr_ram_size candidate) \<noteq> 0x00
              \<or> ram_decoded_bytes (hdr_ram_size candidate) \<noteq> Some 0
              \<or> rom_decoded_bytes (hdr_rom_size candidate) \<noteq> Some (length rom)
              \<or> \<not> title_ends_with_menu_suffix candidate
              \<or> hdr_nintendo_logo candidate \<noteq> hdr_nintendo_logo primary then None
            else if 4 \<le> count_mani_mmm01_subheaders rom (hdr_nintendo_logo candidate)
              then Some candidate else None)"

definition parse_for_load :: "u8 list \<Rightarrow> header_parse_error + cartridge_header" where
  "parse_for_load rom =
     (case parse_header rom of
        Inl e \<Rightarrow> Inl e
      | Inr primary \<Rightarrow>
          (case parse_mmm01_menu_header rom of
             Some menu_header \<Rightarrow> Inr menu_header
           | None \<Rightarrow>
               (case parse_mani_mmm01_menu_header rom primary of
                  Some menu_header \<Rightarrow> Inr menu_header
                | None \<Rightarrow> Inr primary)))"

section \<open>Laws\<close>

text \<open>A parsed header has fields of the lengths their array types fix, and consistent sizes.\<close>

definition header_wf :: "cartridge_header \<Rightarrow> bool" where
  "header_wf h =
     (length (hdr_entry_point h) = 4 \<and> length (hdr_nintendo_logo h) = 48 \<and> length (hdr_title_bytes h) = 16
      \<and> length (hdr_raw_title_suffix h) = 4 \<and> length (hdr_new_licensee_code h) = 2
      \<and> hdr_rom_size h = decode_rom_size (rom_raw_code (hdr_rom_size h))
      \<and> hdr_ram_size h = decode_ram_size (ram_raw_code (hdr_ram_size h)))"

lemma decoded_rom_size [simp]: "rom_raw_code (decode_rom_size v) = v"
  by (simp add: decode_rom_size_def Let_def)

lemma decoded_ram_size [simp]: "ram_raw_code (decode_ram_size v) = v"
  by (simp add: decode_ram_size_def Let_def)

lemma decoded_rom_banks:
  "rom_decoded_bytes (decode_rom_size v) = Some n \<Longrightarrow>
     \<exists>banks. rom_bank_count (decode_rom_size v) = Some banks \<and> n = banks * 0x4000 \<and> 2 \<le> banks"
  by (auto simp: decode_rom_size_def Let_def push_bit_eq_mult split: if_splits)

lemma parsed_header:
  "parse_at_offset rom base = Inr h \<Longrightarrow> header_wf h \<and> base + 0x150 \<le> length rom"
  by (auto simp: parse_at_offset_def header_wf_def bytes_at_def header_layout Let_def split: if_splits)

lemma parsed_for_load:
  assumes "parse_for_load rom = Inr h"
  shows "header_wf h \<and> (\<exists>base. parse_at_offset rom base = Inr h) \<and> 0x150 \<le> length rom"
proof -
  obtain primary where primary: "parse_header rom = Inr primary"
    using assms by (auto simp: parse_for_load_def split: sum.splits)
  then have len: "0x150 \<le> length rom" using parsed_header by (force simp: parse_header_def)
  have "h = primary \<or> parse_mmm01_menu_header rom = Some h \<or> parse_mani_mmm01_menu_header rom primary = Some h"
    using assms primary by (auto simp: parse_for_load_def split: option.splits)
  then have "\<exists>base. parse_at_offset rom base = Inr h"
    using primary
    by (auto simp: parse_header_def parse_mmm01_menu_header_def parse_mani_mmm01_menu_header_def Let_def
        split: if_splits sum.splits)
  with parsed_header len show ?thesis by blast
qed

end
