(* ===== verification/Cart_Classify.thy ===== *)
theory Cart_Classify
  imports Cart_Parse Gb_Model
begin

text \<open>
  Which mapper an image is for (\<open>cartridge/classify.rs\<close>): the type code of its header, the
  signatures of the multicarts that reuse another code, and the experimental heuristics.
\<close>

definition M161_SUPPORTED_ROM_BYTES_MIN :: nat where "M161_SUPPORTED_ROM_BYTES_MIN = 5 * (32 * 1024)"
definition M161_SUPPORTED_ROM_BYTES_MAX :: nat where "M161_SUPPORTED_ROM_BYTES_MAX = 8 * (32 * 1024)"
definition M161_SYNTHETIC_MENU_TITLE :: "u8 list" where "M161_SYNTHETIC_MENU_TITLE = ascii ''MANI 4 IN 1''"
definition M161_COMMERCIAL_MENU_TITLE :: "u8 list" where "M161_COMMERCIAL_MENU_TITLE = ascii ''TETRIS SET''"
definition M161_KNOWN_SUBTITLE_SET :: "u8 list list" where
  "M161_KNOWN_SUBTITLE_SET = map ascii [''TETRIS'', ''TENNIS'', ''ALLEY WAY'', ''YAKUMAN'']"

definition supported_with_reason ::
    "u8 \<Rightarrow> string \<Rightarrow> supported_cartridge_family \<Rightarrow> string \<Rightarrow> cartridge_classification" where
  "supported_with_reason raw_type name fam reason =
     \<lparr>cls_raw_type = raw_type, cls_detected_name = name, cls_selection = SelectSupported fam,
      cls_reason = reason\<rparr>"

definition supported :: "u8 \<Rightarrow> string \<Rightarrow> supported_cartridge_family \<Rightarrow> cartridge_classification" where
  "supported raw_type name fam = supported_with_reason raw_type name fam ''supported cartridge family''"

definition unsupported ::
    "u8 \<Rightarrow> string \<Rightarrow> unsupported_cartridge_category \<Rightarrow> string \<Rightarrow> cartridge_classification" where
  "unsupported raw_type name category reason =
     \<lparr>cls_raw_type = raw_type, cls_detected_name = name, cls_selection = SelectUnsupported category,
      cls_reason = reason\<rparr>"

definition classify :: "u8 \<Rightarrow> cartridge_classification" where
  "classify t =
     (if t = 0x00 then supported t ''ROM ONLY'' FamilyNoMbc
      else if t = 0x08 then supported t ''ROM+RAM'' FamilyNoMbc
      else if t = 0x09 then supported t ''ROM+RAM+BATTERY'' FamilyNoMbc
      else if t = 0x01 then supported t ''MBC1'' FamilyMbc1
      else if t = 0x02 then supported t ''MBC1+RAM'' FamilyMbc1
      else if t = 0x03 then supported t ''MBC1+RAM+BATTERY'' FamilyMbc1
      else if t = 0x05 then supported t ''MBC2'' FamilyMbc2
      else if t = 0x06 then supported t ''MBC2+BATTERY'' FamilyMbc2
      else if t = 0x0F then supported t ''MBC3+TIMER+BATTERY'' FamilyMbc3
      else if t = 0x10 then supported t ''MBC3+TIMER+RAM+BATTERY'' FamilyMbc3
      else if t = 0x11 then supported t ''MBC3'' FamilyMbc3
      else if t = 0x12 then supported t ''MBC3+RAM'' FamilyMbc3
      else if t = 0x13 then supported t ''MBC3+RAM+BATTERY'' FamilyMbc3
      else if t = 0x19 then supported t ''MBC5'' FamilyMbc5
      else if t = 0x1A then supported t ''MBC5+RAM'' FamilyMbc5
      else if t = 0x1B then supported t ''MBC5+RAM+BATTERY'' FamilyMbc5
      else if t = 0x1C then supported t ''MBC5+RUMBLE'' FamilyMbc5
      else if t = 0x1D then supported t ''MBC5+RUMBLE+RAM'' FamilyMbc5
      else if t = 0x1E then supported t ''MBC5+RUMBLE+RAM+BATTERY'' FamilyMbc5
      else if t = 0xFC then supported t ''POCKET CAMERA'' FamilyPocketCamera
      else if t = 0x0B then supported t ''MMM01'' FamilyMmm01
      else if t = 0x0C then supported t ''MMM01+RAM'' FamilyMmm01
      else if t = 0x0D then supported t ''MMM01+RAM+BATTERY'' FamilyMmm01
      else if t = 0x20 then supported t ''MBC6'' FamilyMbc6
      else if t = 0x22 then supported t ''MBC7+SENSOR+RUMBLE+RAM+BATTERY'' FamilyMbc7
      else if t = 0xFD then unsupported t ''BANDAI TAMA5'' AccessorySpecialCase
        ''Bandai TAMA5 needs dedicated accessory hardware''
      else if t = 0xFE then supported t ''HuC-3'' FamilyHuc3
      else if t = 0xFF then supported t ''HuC1+RAM+BATTERY'' FamilyHuc1
      else unsupported t ''UNKNOWN'' UnknownCode ''The cartridge type code is not recognized'')"

definition matches_padded_title :: "u8 list \<Rightarrow> u8 list \<Rightarrow> bool" where
  "matches_padded_title title expected =
     (length expected \<le> length title \<and> take (length expected) title = expected
      \<and> list_all (\<lambda>b. b = 0x00 \<or> b = 0xFF) (drop (length expected) title))"

text \<open>\<open>rom_bytes.get(start..end)\<close>.\<close>

definition bytes_get :: "u8 list \<Rightarrow> nat \<Rightarrow> nat \<Rightarrow> u8 list option" where
  "bytes_get rom start len = (if start + len \<le> length rom then Some (bytes_at rom start len) else None)"

section \<open>Signatures\<close>

definition is_mbc1m_multicart_signature :: "cartridge_header \<Rightarrow> u8 list \<Rightarrow> bool" where
  "is_mbc1m_multicart_signature h rom =
     (is_mbc1_type (hdr_cartridge_type h)
      \<and> rom_decoded_bytes (hdr_rom_size h) = Some (1024 * 1024) \<and> length rom = 1024 * 1024
      \<and> 2 \<le> length (filter (\<lambda>bank. bytes_get rom (bank * 0x4000 + NINTENDO_LOGO_START) NINTENDO_LOGO_LEN
              = Some (hdr_nintendo_logo h)) [0x10, 0x20, 0x30]))"

text \<open>
  The M161 scan: each known subtitle must appear in exactly one bank, with a plain 32 KiB
  header; \<open>None\<close> is the early \<open>return false\<close>.
\<close>

definition m161_match_title ::
    "cartridge_header \<Rightarrow> u8 list \<Rightarrow> nat \<Rightarrow> u8 list \<Rightarrow> u8 list \<Rightarrow> nat \<times> u8 list \<Rightarrow> bool list \<Rightarrow> bool list option" where
  "m161_match_title h rom bank_start bank_logo bank_title entry seen =
     (case entry of
        (title_index, expected) \<Rightarrow>
          if \<not> matches_padded_title bank_title expected then Some seen
          else if seen ! title_index \<or> bank_logo \<noteq> hdr_nintendo_logo h
            \<or> slice_get rom (bank_start + CARTRIDGE_TYPE_ADDRESS) \<noteq> Some 0x00
            \<or> slice_get rom (bank_start + ROM_SIZE_ADDRESS) \<noteq> Some 0x00
            \<or> slice_get rom (bank_start + RAM_SIZE_ADDRESS) \<noteq> Some 0x00 then None
          else Some (seen[title_index := True]))"

fun m161_match_titles ::
    "cartridge_header \<Rightarrow> u8 list \<Rightarrow> nat \<Rightarrow> u8 list \<Rightarrow> u8 list \<Rightarrow> (nat \<times> u8 list) list \<Rightarrow> bool list
     \<Rightarrow> bool list option" where
  "m161_match_titles h rom bank_start logo title [] seen = Some seen"
| "m161_match_titles h rom bank_start logo title (e # es) seen =
     (case m161_match_title h rom bank_start logo title e seen of
        None \<Rightarrow> None
      | Some seen' \<Rightarrow> m161_match_titles h rom bank_start logo title es seen')"

fun m161_scan_banks :: "cartridge_header \<Rightarrow> u8 list \<Rightarrow> nat list \<Rightarrow> bool list \<Rightarrow> bool list option" where
  "m161_scan_banks h rom [] seen = Some seen"
| "m161_scan_banks h rom (bank_start # bs) seen =
     (case bytes_get rom (bank_start + NINTENDO_LOGO_START) NINTENDO_LOGO_LEN of
        None \<Rightarrow> None
      | Some logo \<Rightarrow>
          (case bytes_get rom (bank_start + TITLE_START) TITLE_BYTES_LEN of
             None \<Rightarrow> None
           | Some title \<Rightarrow>
               (case m161_match_titles h rom bank_start logo title (enumerate 0 M161_KNOWN_SUBTITLE_SET) seen of
                  None \<Rightarrow> None
                | Some seen' \<Rightarrow> m161_scan_banks h rom bs seen')))"

definition is_m161_multicart_signature :: "cartridge_header \<Rightarrow> u8 list \<Rightarrow> bool" where
  "is_m161_multicart_signature h rom =
     (if length rom < M161_SUPPORTED_ROM_BYTES_MIN \<or> M161_SUPPORTED_ROM_BYTES_MAX < length rom
        \<or> length rom mod M161_BANK_BYTES \<noteq> 0 then False
      else if \<not> matches_padded_title (hdr_title_bytes h) M161_SYNTHETIC_MENU_TITLE
        \<and> \<not> matches_padded_title (hdr_title_bytes h) M161_COMMERCIAL_MENU_TITLE then False
      else if ram_raw_code (hdr_ram_size h) \<noteq> 0x00 then False
      else
        (case m161_scan_banks h rom
                (map (\<lambda>i. i * M161_BANK_BYTES) [0..<length rom div M161_BANK_BYTES])
                (replicate (length M161_KNOWN_SUBTITLE_SET) False) of
           None \<Rightarrow> False
         | Some seen \<Rightarrow> list_all (\<lambda>s. s) seen))"

definition is_mani_mmm01_signature :: "cartridge_header \<Rightarrow> u8 list \<Rightarrow> bool" where
  "is_mani_mmm01_signature h rom =
     (if hdr_cartridge_type h \<noteq> MANI_MMM01_MENU_TYPE
        \<or> ram_raw_code (hdr_ram_size h) \<noteq> 0x00
        \<or> ram_decoded_bytes (hdr_ram_size h) \<noteq> Some 0
        \<or> rom_decoded_bytes (hdr_rom_size h) \<noteq> Some (length rom)
        \<or> \<not> title_ends_with_menu_suffix h
        \<or> length rom \<notin> set MANI_MMM01_SUPPORTED_ROM_BYTES then False
      else case parse_header rom of
          Inl _ \<Rightarrow> False
        | Inr primary \<Rightarrow>
            if \<not> is_mbc1_type (hdr_cartridge_type primary)
              \<or> ram_raw_code (hdr_ram_size primary) \<noteq> 0x00
              \<or> hdr_nintendo_logo primary \<noteq> hdr_nintendo_logo h then False
            else 4 \<le> length (filter (is_mani_subheader rom (hdr_nintendo_logo h)) (bank_starts (length rom))))"

definition is_mbc30_header_variant :: "cartridge_header \<Rightarrow> bool" where
  "is_mbc30_header_variant h =
     (hdr_cartridge_type h \<in> {0x10, 0x12, 0x13} \<and> ram_raw_code (hdr_ram_size h) = 0x05)"

definition is_ems_multicart_signature :: "u8 list \<Rightarrow> u8 \<Rightarrow> u8 \<Rightarrow> bool" where
  "is_ems_multicart_signature title_bytes raw_type destination_code =
     (matches_padded_title title_bytes (ascii ''EMSMENU'') \<or> matches_padded_title title_bytes (ascii ''GB16M'')
      \<or> raw_type = 0x1B \<and> destination_code = 0xE1)"

definition is_wisdom_tree_signature :: "u8 list \<Rightarrow> u8 \<Rightarrow> u8 \<Rightarrow> nat \<Rightarrow> u8 \<Rightarrow> bool" where
  "is_wisdom_tree_signature title_bytes raw_type rom_size_code actual_rom_size destination_code =
     (matches_padded_title title_bytes (ascii ''WISDOM TREE'')
      \<or> matches_padded_title title_bytes (ascii ''WISDOM'' @ [0] @ ascii ''TREE'')
      \<or> raw_type = 0x00 \<and> rom_size_code = 0x00 \<and> NO_MBC_SUPPORTED_ROM_BYTES < actual_rom_size
      \<or> raw_type = 0xC0 \<and> destination_code = 0xD1)"

section \<open>The classification of an image\<close>

definition classify_supported_signature_variant ::
    "cartridge_header \<Rightarrow> u8 list \<Rightarrow> cartridge_classification option" where
  "classify_supported_signature_variant h rom =
     (let t = hdr_cartridge_type h
      in if is_m161_multicart_signature h rom then
           Some (supported_with_reason t ''M161'' FamilyM161
             ''M161 multicart classification came from the explicit Mani 4-in-1 signature path'')
         else if is_mani_mmm01_signature h rom then
           Some (supported_with_reason t ''MMM01'' FamilyMmm01
             ''MMM01 classification came from the explicit later Mani trailing-menu signature path'')
         else if is_mbc1m_multicart_signature h rom then
           Some (supported_with_reason t ''MBC1M'' FamilyMbc1
             ''MBC1 multicart classification came from the explicit subheader signature path'')
         else if is_mbc30_header_variant h then
           Some (supported_with_reason t ''MBC30'' FamilyMbc3
             ''MBC30 classification came from the MBC3 64 KiB SRAM header shape'')
         else None)"

definition classify_experimental_heuristic ::
    "cartridge_header \<Rightarrow> u8 list \<Rightarrow> cartridge_classification option" where
  "classify_experimental_heuristic h rom =
     (let t = hdr_cartridge_type h
      in if t = 0xBE then
           Some (unsupported t ''BUNG'' ExperimentalHeuristic
             ''Bung multicart classification came from an explicit experimental heuristic path'')
         else if is_ems_multicart_signature (hdr_title_bytes h) t (hdr_destination_code h) then
           Some (unsupported t ''EMS'' ExperimentalHeuristic
             ''EMS multicart classification came from an explicit experimental heuristic path'')
         else if is_wisdom_tree_signature (hdr_title_bytes h) t (rom_raw_code (hdr_rom_size h)) (length rom)
                   (hdr_destination_code h) then
           Some (unsupported t ''WISDOM TREE'' ExperimentalHeuristic
             ''Wisdom Tree classification came from an explicit experimental heuristic path'')
         else None)"

definition classify_loaded_cartridge ::
    "cartridge_header \<Rightarrow> u8 list \<Rightarrow> compatibility_policy \<Rightarrow> cartridge_classification" where
  "classify_loaded_cartridge h rom policy =
     (case classify_supported_signature_variant h rom of
        Some c \<Rightarrow> c
      | None \<Rightarrow>
          (case (if pol_heuristic_policy policy = AllowExperimental
                 then classify_experimental_heuristic h rom else None) of
             Some c \<Rightarrow> c
           | None \<Rightarrow> classify (hdr_cartridge_type h)))"

section \<open>Laws\<close>

text \<open>The raw type is the header's, and the type codes a family can come with.\<close>

lemma classified_raw_type: "cls_raw_type (classify_loaded_cartridge h rom policy) = hdr_cartridge_type h"
  by (auto simp: classify_loaded_cartridge_def classify_supported_signature_variant_def
      classify_experimental_heuristic_def classify_def supported_with_reason_def supported_def
      unsupported_def Let_def split: option.split)

lemma classified_no_mbc:
  assumes "cls_selection (classify_loaded_cartridge h rom policy) = SelectSupported FamilyNoMbc"
  shows "hdr_cartridge_type h \<in> {0x00, 0x08, 0x09}"
  using assms
  by (auto simp: classify_loaded_cartridge_def classify_supported_signature_variant_def
      classify_experimental_heuristic_def classify_def supported_with_reason_def supported_def
      unsupported_def Let_def split: option.splits if_splits)

lemma classified_mbc5:
  assumes "cls_selection (classify_loaded_cartridge h rom policy) = SelectSupported FamilyMbc5"
  shows "hdr_cartridge_type h \<in> {0x19, 0x1A, 0x1B, 0x1C, 0x1D, 0x1E}"
  using assms
  by (auto simp: classify_loaded_cartridge_def classify_supported_signature_variant_def
      classify_experimental_heuristic_def classify_def supported_with_reason_def supported_def
      unsupported_def Let_def split: option.splits if_splits)

lemma classified_mbc1m:
  assumes "cls_detected_name (classify_loaded_cartridge h rom policy) = ''MBC1M''"
  shows "is_mbc1m_multicart_signature h rom"
  using assms
  by (auto simp: classify_loaded_cartridge_def classify_supported_signature_variant_def
      classify_experimental_heuristic_def classify_def supported_with_reason_def supported_def
      unsupported_def Let_def split: option.splits if_splits)

end
