(* ===== verification/Cart_Validate.thy ===== *)
theory Cart_Validate
  imports Cart_Classify Cart_Device
begin

text \<open>
  Checking a header against the mapper it names and the image that came with it
  (\<open>cartridge/validate.rs\<close>). A check either rejects the image whatever the policy, or is
  degradable: rejected by a strict policy, a warning under \<open>Warn\<close>, ignored under \<open>Ignore\<close>.
  The texts of the messages are left out; an issue carries the values they would print.
\<close>

section \<open>Issues, errors and the checking context\<close>

datatype load_issue =
    RomCodeUnsupported u8
  | RomCodeUnexpected u8
  | RomDeclarationUnexpected "nat option"
  | ImageSizeUnexpected nat nat
  | RomSizeOutOfRange nat
  | BankCountOutOfRange nat
  | RamCodeUnsupported u8
  | RamCodeUnexpected u8
  | RamDeclarationUnexpected "nat option" u8
  | RamSizeOutOfRange nat
  | CgbFlagRequired cgb_flag
  | PermissiveRomCapacity nat nat
  | RareVariant
  | UnsupportedFamily unsupported_cartridge_category

datatype cartridge_diagnostic = Warning load_issue

datatype cartridge_load_error =
    HeaderParse header_parse_error
  | Rejected cartridge_classification execution_mode load_issue "cartridge_diagnostic list"

record validation_context =
  ctx_policy :: compatibility_policy
  ctx_classification :: cartridge_classification

type_synonym 'a validation =
  "cartridge_diagnostic list \<Rightarrow> (cartridge_load_error + 'a \<times> cartridge_diagnostic list) res"

definition v_return :: "'a \<Rightarrow> 'a validation" where
  "v_return x = (\<lambda>ds. Inr (Inr (x, ds)))"

definition v_bind :: "'a validation \<Rightarrow> ('a \<Rightarrow> 'b validation) \<Rightarrow> 'b validation" where
  "v_bind m f =
     (\<lambda>ds. res_bind (m ds) (\<lambda>r. case r of Inl e \<Rightarrow> Inr (Inl e) | Inr (x, ds') \<Rightarrow> f x ds'))"

definition v_then :: "unit validation \<Rightarrow> 'b validation \<Rightarrow> 'b validation" where
  "v_then m k = v_bind m (\<lambda>_. k)"

definition v_panic :: "rust_panic \<Rightarrow> 'a validation" where
  "v_panic e = (\<lambda>ds. Inl e)"

definition v_reject :: "validation_context \<Rightarrow> load_issue \<Rightarrow> 'a validation" where
  "v_reject ctx issue =
     (\<lambda>ds. Inr (Inl (Rejected (ctx_classification ctx) (pol_execution_mode (ctx_policy ctx)) issue ds)))"

definition v_warn :: "load_issue \<Rightarrow> unit validation" where
  "v_warn issue = (\<lambda>ds. Inr (Inr ((), ds @ [Warning issue])))"

text \<open>\<open>record_degradable_issue\<close> behind \<open>check_degradable\<close>.\<close>

definition v_check_degradable :: "validation_context \<Rightarrow> load_issue \<Rightarrow> unit validation" where
  "v_check_degradable ctx issue =
     (case pol_validation_policy (ctx_policy ctx) of
        ValidateStrict \<Rightarrow> v_reject ctx issue
      | ValidateWarn \<Rightarrow> v_warn issue
      | ValidateIgnore \<Rightarrow> v_return ())"

text \<open>\<open>if !ok { return Err(..) }\<close> and \<open>if !ok { ctx.check_degradable(..)?; }\<close>.\<close>

definition v_require :: "validation_context \<Rightarrow> bool \<Rightarrow> load_issue \<Rightarrow> unit validation" where
  "v_require ctx ok issue = (if ok then v_return () else v_reject ctx issue)"

definition v_expect :: "validation_context \<Rightarrow> bool \<Rightarrow> load_issue \<Rightarrow> unit validation" where
  "v_expect ctx ok issue = (if ok then v_return () else v_check_degradable ctx issue)"

text \<open>The prologue most mappers share: a known size code, and an image of that size.\<close>

definition v_declared_rom :: "validation_context \<Rightarrow> cartridge_header \<Rightarrow> nat \<Rightarrow> nat validation" where
  "v_declared_rom ctx h actual =
     (case rom_decoded_bytes (hdr_rom_size h) of
        None \<Rightarrow> v_reject ctx (RomCodeUnsupported (rom_raw_code (hdr_rom_size h)))
      | Some declared \<Rightarrow>
          v_then (v_require ctx (actual = declared) (ImageSizeUnexpected declared actual))
            (v_return declared))"

abbreviation ctx_raw_type :: "validation_context \<Rightarrow> u8" where
  "ctx_raw_type ctx \<equiv> cls_raw_type (ctx_classification ctx)"

section \<open>The validators\<close>

definition expected_ram_code_decompressed :: "u8 \<Rightarrow> nat" where
  "expected_ram_code_decompressed code = (if code = 0x02 then NO_MBC_SUPPORTED_RAM_BYTES else 0)"

definition no_mbc_expected_ram_code :: "u8 \<Rightarrow> u8 option" where
  "no_mbc_expected_ram_code t =
     (if t = 0x00 then Some 0x00 else if t = 0x08 \<or> t = 0x09 then Some 0x02 else None)"

definition validate_no_mbc :: "cartridge_header \<Rightarrow> nat \<Rightarrow> validation_context \<Rightarrow> unit validation" where
  "validate_no_mbc h actual ctx =
     (case no_mbc_expected_ram_code (ctx_raw_type ctx) of
        None \<Rightarrow> v_panic Unreachable
      | Some expected \<Rightarrow>
          v_then (v_expect ctx (ram_raw_code (hdr_ram_size h) = expected)
                    (RamCodeUnexpected (ram_raw_code (hdr_ram_size h))))
          (v_then (v_expect ctx (ram_decoded_bytes (hdr_ram_size h) = Some (expected_ram_code_decompressed expected))
                    (RamDeclarationUnexpected (ram_decoded_bytes (hdr_ram_size h)) (ram_raw_code (hdr_ram_size h))))
          (v_then (v_expect ctx (rom_raw_code (hdr_rom_size h) = 0x00)
                    (RomCodeUnexpected (rom_raw_code (hdr_rom_size h))))
          (v_then (v_expect ctx (rom_decoded_bytes (hdr_rom_size h) = Some NO_MBC_SUPPORTED_ROM_BYTES)
                    (RomDeclarationUnexpected (rom_decoded_bytes (hdr_rom_size h))))
          (v_then (v_expect ctx (actual = NO_MBC_SUPPORTED_ROM_BYTES)
                    (ImageSizeUnexpected NO_MBC_SUPPORTED_ROM_BYTES actual))
             (if ctx_raw_type ctx \<in> {0x08, 0x09} then v_warn RareVariant else v_return ()))))))"

definition validate_mmm01 :: "cartridge_header \<Rightarrow> nat \<Rightarrow> validation_context \<Rightarrow> nat validation" where
  "validate_mmm01 h actual ctx =
     v_bind (v_declared_rom ctx h actual) (\<lambda>declared.
       v_then (v_require ctx (MMM01_MIN_ROM_BYTES \<le> declared \<and> declared \<le> MMM01_SUPPORTED_ROM_BYTES_MAX)
                 (RomSizeOutOfRange declared))
       (let has_ram = (ctx_raw_type ctx \<in> {0x0C, 0x0D})
        in v_then (v_require ctx (ram_raw_code (hdr_ram_size h) \<in> (if has_ram then {0x02, 0x03, 0x04} else {0x00}))
                     (RamCodeUnexpected (ram_raw_code (hdr_ram_size h))))
             (v_return (case ram_decoded_bytes (hdr_ram_size h) of Some n \<Rightarrow> n | None \<Rightarrow> 0))))"

definition validate_m161 :: "cartridge_header \<Rightarrow> nat \<Rightarrow> validation_context \<Rightarrow> unit validation" where
  "validate_m161 h actual ctx =
     v_then (v_require ctx (ram_raw_code (hdr_ram_size h) = 0x00 \<and> ram_decoded_bytes (hdr_ram_size h) = Some 0)
               (RamDeclarationUnexpected (ram_decoded_bytes (hdr_ram_size h)) (ram_raw_code (hdr_ram_size h))))
     (v_then (v_require ctx (actual mod M161_BANK_BYTES = 0) (ImageSizeUnexpected M161_BANK_BYTES actual))
        (let bank_count = actual div M161_BANK_BYTES
         in v_require ctx (M161_SUPPORTED_ROM_BANKS_MIN \<le> bank_count \<and> bank_count \<le> M161_SUPPORTED_ROM_BANKS_MAX)
              (BankCountOutOfRange bank_count)))"

text \<open>HuC1 and HuC-3 check the same things against their own limits.\<close>

definition validate_huc :: "nat \<Rightarrow> nat \<Rightarrow> cartridge_header \<Rightarrow> nat \<Rightarrow> validation_context \<Rightarrow> nat validation" where
  "validate_huc rom_max ram_max h actual ctx =
     v_bind (v_declared_rom ctx h actual) (\<lambda>declared.
       v_then (v_require ctx (declared \<le> rom_max) (RomSizeOutOfRange declared))
         (case ram_decoded_bytes (hdr_ram_size h) of
            None \<Rightarrow> v_reject ctx (RamCodeUnsupported (ram_raw_code (hdr_ram_size h)))
          | Some ram_len \<Rightarrow>
              v_then (v_require ctx (\<not> (ram_len = 0 \<or> ram_max < ram_len)) (RamSizeOutOfRange ram_len))
                (v_return ram_len)))"

definition validate_huc1 :: "cartridge_header \<Rightarrow> nat \<Rightarrow> validation_context \<Rightarrow> nat validation" where
  "validate_huc1 = validate_huc HUC1_SUPPORTED_ROM_BYTES_MAX HUC1_SUPPORTED_RAM_BYTES_MAX"

definition validate_huc3 :: "cartridge_header \<Rightarrow> nat \<Rightarrow> validation_context \<Rightarrow> nat validation" where
  "validate_huc3 = validate_huc HUC3_SUPPORTED_ROM_BYTES_MAX HUC3_SUPPORTED_RAM_BYTES_MAX"

definition MBC1_STANDARD_ROM_SIZES :: "nat list" where
  "MBC1_STANDARD_ROM_SIZES = [32 * 1024, 64 * 1024, 128 * 1024, 256 * 1024, 512 * 1024]"
definition MBC1_LARGE_ROM_SIZES :: "nat list" where
  "MBC1_LARGE_ROM_SIZES = [1024 * 1024, 2 * 1024 * 1024]"

definition validate_mbc1m :: "cartridge_header \<Rightarrow> validation_context \<Rightarrow> mbc1_layout validation" where
  "validate_mbc1m h ctx =
     (let has_ram = (ctx_raw_type ctx \<in> {0x02, 0x03});
          expected = (if has_ram then 0x02 else 0x00)
      in v_then (v_require ctx (ram_raw_code (hdr_ram_size h) = expected)
                   (RamCodeUnexpected (ram_raw_code (hdr_ram_size h))))
           (v_return \<lparr>lay1_wiring = Mbc1WiringLargeRom, lay1_variant = Mbc1M,
                      lay1_ram_len = (if has_ram then 8 * 1024 else 0)\<rparr>))"

definition mbc1_wiring_for :: "nat \<Rightarrow> mbc1_wiring option" where
  "mbc1_wiring_for declared =
     (if declared \<in> set MBC1_STANDARD_ROM_SIZES then Some Mbc1WiringStandard
      else if declared \<in> set MBC1_LARGE_ROM_SIZES then Some Mbc1WiringLargeRom else None)"

definition mbc1_allowed_ram_codes :: "bool \<Rightarrow> mbc1_wiring \<Rightarrow> u8 list" where
  "mbc1_allowed_ram_codes has_ram wiring =
     (if \<not> has_ram then [0x00]
      else case wiring of Mbc1WiringStandard \<Rightarrow> [0x02, 0x03] | Mbc1WiringLargeRom \<Rightarrow> [0x02])"

definition mbc1_loaded_ram_len :: "bool \<Rightarrow> mbc1_wiring \<Rightarrow> ram_size_info \<Rightarrow> nat" where
  "mbc1_loaded_ram_len has_ram wiring ram =
     (if \<not> has_ram then 0
      else case wiring of
          Mbc1WiringStandard \<Rightarrow>
            if ram_raw_code ram \<in> {0x02, 0x03}
            then (case ram_decoded_bytes ram of Some n \<Rightarrow> n | None \<Rightarrow> MBC1_STANDARD_RAM_BYTES_MAX)
            else MBC1_STANDARD_RAM_BYTES_MAX
        | Mbc1WiringLargeRom \<Rightarrow> MBC1_LARGE_ROM_RAM_BYTES)"

definition validate_mbc1 :: "cartridge_header \<Rightarrow> nat \<Rightarrow> validation_context \<Rightarrow> mbc1_layout validation" where
  "validate_mbc1 h actual ctx =
     v_bind (v_declared_rom ctx h actual) (\<lambda>declared.
       if cls_detected_name (ctx_classification ctx) = ''MBC1M'' then validate_mbc1m h ctx
       else case mbc1_wiring_for declared of
           None \<Rightarrow> v_reject ctx (RomSizeOutOfRange declared)
         | Some wiring \<Rightarrow>
             (let has_ram = (ctx_raw_type ctx \<in> {0x02, 0x03})
              in v_then (v_expect ctx (ram_raw_code (hdr_ram_size h) \<in> set (mbc1_allowed_ram_codes has_ram wiring))
                           (RamCodeUnexpected (ram_raw_code (hdr_ram_size h))))
                   (v_return \<lparr>lay1_wiring = wiring, lay1_variant = Mbc1Standard,
                              lay1_ram_len = mbc1_loaded_ram_len has_ram wiring (hdr_ram_size h)\<rparr>)))"

definition validate_mbc2 :: "cartridge_header \<Rightarrow> nat \<Rightarrow> validation_context \<Rightarrow> unit validation" where
  "validate_mbc2 h actual ctx =
     v_bind (v_declared_rom ctx h actual) (\<lambda>declared.
       v_then (v_require ctx (declared \<le> MBC2_SUPPORTED_ROM_BYTES_MAX) (RomSizeOutOfRange declared))
         (v_expect ctx (ram_raw_code (hdr_ram_size h) = 0x00) (RamCodeUnexpected (ram_raw_code (hdr_ram_size h)))))"

definition mbc3_validated_variant :: "cartridge_header \<Rightarrow> validation_context \<Rightarrow> mbc3_variant" where
  "mbc3_validated_variant h ctx =
     (if ctx_raw_type ctx \<in> {0x10, 0x12, 0x13} \<and> ram_raw_code (hdr_ram_size h) = 0x05
      then Mbc30 else Mbc3Standard)"

definition validate_mbc3 :: "cartridge_header \<Rightarrow> nat \<Rightarrow> validation_context \<Rightarrow> mbc3_variant validation" where
  "validate_mbc3 h actual ctx =
     v_bind (v_declared_rom ctx h actual) (\<lambda>declared.
       let has_ram = (ctx_raw_type ctx \<in> {0x10, 0x12, 0x13});
           variant = mbc3_validated_variant h ctx;
           rom_limit = (case variant of Mbc3Standard \<Rightarrow> MBC3_SUPPORTED_ROM_BYTES_MAX
                        | Mbc30 \<Rightarrow> MBC30_SUPPORTED_ROM_BYTES_MAX);
           ram = hdr_ram_size h
       in v_then (v_require ctx (declared \<le> rom_limit) (RomSizeOutOfRange declared))
          (v_then
            (if has_ram then
               (case variant of
                  Mbc3Standard \<Rightarrow>
                    v_require ctx (0x01 \<le> ram_raw_code ram \<and> ram_raw_code ram \<le> 0x03)
                      (RamCodeUnexpected (ram_raw_code ram))
                | Mbc30 \<Rightarrow>
                    v_require ctx (\<not> (ram_decoded_bytes ram \<noteq> Some (64 * 1024) \<or> ram_bank_count ram \<noteq> Some 8))
                      (RamCodeUnexpected (ram_raw_code ram)))
             else v_expect ctx (ram_raw_code ram = 0x00) (RamCodeUnexpected (ram_raw_code ram)))
            (v_return variant)))"

text \<open>
  MBC5 under a policy that is not strict takes an image of any size up to the limit: its
  capacity is rounded up to whole banks, at least two, and then to a power of two.
\<close>

function power_of_two_from :: "nat \<Rightarrow> nat \<Rightarrow> nat" where
  "power_of_two_from p n = (if p = 0 \<or> n \<le> p then p else power_of_two_from (2 * p) n)"
  by auto
termination by (relation "measure (\<lambda>(p, n). n - p)") auto

declare power_of_two_from.simps [simp del]

definition next_power_of_two :: "nat \<Rightarrow> nat" where
  "next_power_of_two n = power_of_two_from 1 n"

definition rounded_mbc5_actual_rom_capacity :: "nat \<Rightarrow> nat" where
  "rounded_mbc5_actual_rom_capacity actual =
     (let bank_rounded = max (div_ceil actual ROM_BANK_BYTES) (NO_MBC_SUPPORTED_ROM_BYTES div ROM_BANK_BYTES)
            * ROM_BANK_BYTES
      in next_power_of_two bank_rounded)"

definition permissive_rom_layout :: "nat option \<Rightarrow> nat \<Rightarrow> cartridge_rom_layout" where
  "permissive_rom_layout declared actual =
     (let effective = rounded_mbc5_actual_rom_capacity actual
      in \<lparr>lay_declared_bytes = declared, lay_actual_bytes = actual, lay_effective_bytes = effective,
          lay_effective_bank_count = effective div ROM_BANK_BYTES, lay_source = PermissiveRoundedActual\<rparr>)"

definition validate_mbc5_rom_layout ::
    "validation_context \<Rightarrow> cartridge_header \<Rightarrow> nat \<Rightarrow> cartridge_rom_layout validation" where
  "validate_mbc5_rom_layout ctx h actual =
     v_then (v_require ctx (actual \<le> MBC5_SUPPORTED_ROM_BYTES_MAX) (RomSizeOutOfRange actual))
       (case rom_decoded_bytes (hdr_rom_size h) of
          Some declared \<Rightarrow>
            if actual = declared then v_return (layout_declared_exact declared actual)
            else if pol_validation_policy (ctx_policy ctx) = ValidateStrict
              then v_reject ctx (ImageSizeUnexpected declared actual)
            else v_then (v_check_degradable ctx
                           (PermissiveRomCapacity (rounded_mbc5_actual_rom_capacity actual) actual))
                   (v_return (permissive_rom_layout (Some declared) actual))
        | None \<Rightarrow>
            if pol_validation_policy (ctx_policy ctx) = ValidateStrict
              then v_reject ctx (RomCodeUnsupported (rom_raw_code (hdr_rom_size h)))
            else v_then (v_check_degradable ctx
                           (PermissiveRomCapacity (rounded_mbc5_actual_rom_capacity actual) actual))
                   (v_return (permissive_rom_layout None actual)))"

definition mbc5_variant_of_type :: "u8 \<Rightarrow> mbc5_variant option" where
  "mbc5_variant_of_type t =
     (if t = 0x19 then Some Mbc5NoRam
      else if t = 0x1A then Some Mbc5WithRam
      else if t = 0x1B then Some Mbc5RamBattery
      else if t = 0x1C then Some Mbc5Rumble
      else if t = 0x1D then Some Mbc5RumbleRam
      else if t = 0x1E then Some Mbc5RumbleRamBattery
      else None)"

definition mbc5_allowed_ram_codes :: "mbc5_variant \<Rightarrow> u8 list" where
  "mbc5_allowed_ram_codes variant =
     (if mbc5_variant_has_rumble variant then [0x02, 0x03, 0x05] else [0x02, 0x03, 0x04, 0x05])"

definition validate_mbc5 ::
    "cartridge_header \<Rightarrow> nat \<Rightarrow> validation_context \<Rightarrow> mbc5_validation_layout validation" where
  "validate_mbc5 h actual ctx =
     v_bind (validate_mbc5_rom_layout ctx h actual) (\<lambda>rom_layout.
       case mbc5_variant_of_type (ctx_raw_type ctx) of
         None \<Rightarrow> v_panic Unreachable
       | Some variant \<Rightarrow>
           v_bind
             (if mbc5_variant_has_ram variant then
                v_then (v_require ctx (ram_raw_code (hdr_ram_size h) \<in> set (mbc5_allowed_ram_codes variant))
                          (RamCodeUnexpected (ram_raw_code (hdr_ram_size h))))
                  (v_return (case ram_decoded_bytes (hdr_ram_size h) of Some n \<Rightarrow> n | None \<Rightarrow> 0))
              else
                v_then (v_expect ctx (ram_raw_code (hdr_ram_size h) = 0x00)
                          (RamCodeUnexpected (ram_raw_code (hdr_ram_size h))))
                  (v_return 0))
             (\<lambda>ram_len. v_return \<lparr>lay5_variant = variant, lay5_rom_layout = rom_layout, lay5_ram_len = ram_len\<rparr>))"

definition validate_mbc6 :: "cartridge_header \<Rightarrow> nat \<Rightarrow> validation_context \<Rightarrow> unit validation" where
  "validate_mbc6 h actual ctx =
     v_then (v_require ctx (enables_cgb_native_mode (hdr_cgb_flag h)) (CgbFlagRequired (hdr_cgb_flag h)))
     (v_then (v_require ctx
                (\<not> (rom_raw_code (hdr_rom_size h) \<noteq> 0x05
                    \<or> rom_decoded_bytes (hdr_rom_size h) \<noteq> Some MBC6_SUPPORTED_ROM_BYTES))
                (RomDeclarationUnexpected (rom_decoded_bytes (hdr_rom_size h))))
     (v_then (v_require ctx (actual = MBC6_SUPPORTED_ROM_BYTES)
                (ImageSizeUnexpected MBC6_SUPPORTED_ROM_BYTES actual))
        (v_require ctx
           (\<not> (ram_raw_code (hdr_ram_size h) \<noteq> 0x03
               \<or> ram_decoded_bytes (hdr_ram_size h) \<noteq> Some MBC6_SUPPORTED_RAM_BYTES))
           (RamDeclarationUnexpected (ram_decoded_bytes (hdr_ram_size h)) (ram_raw_code (hdr_ram_size h))))))"

definition validate_mbc7 :: "cartridge_header \<Rightarrow> nat \<Rightarrow> validation_context \<Rightarrow> unit validation" where
  "validate_mbc7 h actual ctx =
     v_bind (v_declared_rom ctx h actual) (\<lambda>declared.
       v_then (v_require ctx (declared \<le> MBC7_SUPPORTED_ROM_BYTES_MAX) (RomSizeOutOfRange declared))
       (v_then (v_require ctx (enables_cgb_native_mode (hdr_cgb_flag h)) (CgbFlagRequired (hdr_cgb_flag h)))
          (v_require ctx
             (\<not> (ram_raw_code (hdr_ram_size h) \<noteq> 0x00 \<or> ram_decoded_bytes (hdr_ram_size h) \<noteq> Some 0))
             (RamDeclarationUnexpected (ram_decoded_bytes (hdr_ram_size h)) (ram_raw_code (hdr_ram_size h))))))"

definition validate_pocket_camera :: "cartridge_header \<Rightarrow> nat \<Rightarrow> validation_context \<Rightarrow> unit validation" where
  "validate_pocket_camera h actual ctx =
     (case rom_decoded_bytes (hdr_rom_size h) of
        None \<Rightarrow> v_reject ctx (RomCodeUnsupported (rom_raw_code (hdr_rom_size h)))
      | Some declared \<Rightarrow>
          v_then (v_require ctx
                    (\<not> (rom_raw_code (hdr_rom_size h) \<noteq> 0x05 \<or> declared \<noteq> POCKET_CAMERA_SUPPORTED_ROM_BYTES))
                    (RomDeclarationUnexpected (Some declared)))
          (v_then (v_require ctx (actual = POCKET_CAMERA_SUPPORTED_ROM_BYTES)
                     (ImageSizeUnexpected POCKET_CAMERA_SUPPORTED_ROM_BYTES actual))
             (v_require ctx
                (\<not> (ram_raw_code (hdr_ram_size h) \<noteq> 0x04
                    \<or> ram_decoded_bytes (hdr_ram_size h) \<noteq> Some POCKET_CAMERA_SUPPORTED_RAM_BYTES))
                (RamDeclarationUnexpected (ram_decoded_bytes (hdr_ram_size h)) (ram_raw_code (hdr_ram_size h))))))"

section \<open>Reasoning about checks\<close>

text \<open>
  \<open>valid m P\<close>: the checks \<open>m\<close> do not panic and, where they pass, the answer satisfies \<open>P\<close>.
\<close>

definition valid :: "'a validation \<Rightarrow> ('a \<Rightarrow> bool) \<Rightarrow> bool" where
  "valid m P \<longleftrightarrow> (\<forall>ds. (\<exists>e. m ds = Inr (Inl e)) \<or> (\<exists>x ds'. m ds = Inr (Inr (x, ds')) \<and> P x))"

named_theorems valid_rules \<open>what passing a check establishes\<close>

lemma valid_return [valid_rules]: "valid (v_return x) P = P x"
  by (simp add: valid_def v_return_def)

lemma valid_reject [valid_rules]: "valid (v_reject ctx i) P"
  by (simp add: valid_def v_reject_def)

lemma valid_warn [valid_rules]: "valid (v_warn i) P = P ()"
  by (auto simp: valid_def v_warn_def)

lemma valid_panic [valid_rules]: "\<not> valid (v_panic e) P"
  by (simp add: valid_def v_panic_def)

lemma valid_check_degradable [valid_rules]:
  "valid (v_check_degradable ctx i) P
     = (pol_validation_policy (ctx_policy ctx) \<noteq> ValidateStrict \<longrightarrow> P ())"
  by (simp add: v_check_degradable_def valid_rules split: validation_policy.split)

lemma valid_require [valid_rules]: "valid (v_require ctx ok i) P = (ok \<longrightarrow> P ())"
  by (simp add: v_require_def valid_rules)

lemma valid_expect [valid_rules]:
  "valid (v_expect ctx ok i) P
     = (ok \<or> pol_validation_policy (ctx_policy ctx) \<noteq> ValidateStrict \<longrightarrow> P ())"
  by (auto simp: v_expect_def valid_rules)

lemma valid_bind:
  assumes "valid m (\<lambda>x. valid (f x) P)"
  shows "valid (v_bind m f) P"
  unfolding valid_def v_bind_def
proof (intro allI)
  fix ds
  from assms consider (err) e where "m ds = Inr (Inl e)"
    | (ok) x ds' where "m ds = Inr (Inr (x, ds'))" and "valid (f x) P"
    unfolding valid_def [of m] by blast
  then show "(\<exists>e. res_bind (m ds) (case_sum (\<lambda>e. Inr (Inl e)) (\<lambda>(x, ds'). f x ds')) = Inr (Inl e))
    \<or> (\<exists>y ds'. res_bind (m ds) (case_sum (\<lambda>e. Inr (Inl e)) (\<lambda>(x, ds'). f x ds')) = Inr (Inr (y, ds')) \<and> P y)"
    by cases (simp_all add: valid_def [of "f _"])
qed

lemma valid_then: "valid m (\<lambda>_. valid k P) \<Longrightarrow> valid (v_then m k) P"
  by (simp add: v_then_def valid_bind)

lemmas valid_steps = valid_bind valid_then

lemma valid_declared_rom:
  "valid (v_declared_rom ctx h actual) (\<lambda>declared. rom_decoded_bytes (hdr_rom_size h) = Some declared \<and> actual = declared)"
  by (auto simp: v_declared_rom_def valid_rules split: option.split intro!: valid_steps)

lemma valid_mono: "valid m P \<Longrightarrow> (\<And>x. P x \<Longrightarrow> Q x) \<Longrightarrow> valid m Q"
  unfolding valid_def by blast

lemma valid_declared_bind:
  "(\<And>d. rom_decoded_bytes (hdr_rom_size h) = Some d \<Longrightarrow> actual = d \<Longrightarrow> valid (f d) P)
     \<Longrightarrow> valid (v_bind (v_declared_rom ctx h actual) f) P"
  by (rule valid_bind, rule valid_mono, rule valid_declared_rom) blast

section \<open>What the validators establish\<close>

definition strict_context :: "validation_context \<Rightarrow> bool" where
  "strict_context ctx = (pol_validation_policy (ctx_policy ctx) = ValidateStrict)"

text \<open>The image has the size the header declares.\<close>

definition declared_size :: "cartridge_header \<Rightarrow> nat \<Rightarrow> bool" where
  "declared_size h actual = (rom_decoded_bytes (hdr_rom_size h) = Some actual)"

lemma validated_no_mbc:
  assumes "ctx_raw_type ctx \<in> {0x00, 0x08, 0x09}"
  shows "valid (validate_no_mbc h actual ctx) (\<lambda>_. strict_context ctx \<longrightarrow> actual = NO_MBC_SUPPORTED_ROM_BYTES)"
  using assms
  by (auto simp: validate_no_mbc_def no_mbc_expected_ram_code_def valid_rules strict_context_def intro!: valid_steps)

lemma validated_declared:
  "valid (validate_mmm01 h actual ctx) (\<lambda>_. declared_size h actual)"
  "valid (validate_huc1 h actual ctx) (\<lambda>_. declared_size h actual)"
  "valid (validate_huc3 h actual ctx) (\<lambda>_. declared_size h actual)"
  "valid (validate_mbc1 h actual ctx) (\<lambda>_. declared_size h actual)"
  "valid (validate_mbc2 h actual ctx) (\<lambda>_. declared_size h actual)"
  "valid (validate_mbc3 h actual ctx) (\<lambda>_. declared_size h actual)"
  "valid (validate_mbc6 h actual ctx) (\<lambda>_. declared_size h actual \<and> actual = MBC6_SUPPORTED_ROM_BYTES)"
  "valid (validate_mbc7 h actual ctx) (\<lambda>_. declared_size h actual)"
  "valid (validate_pocket_camera h actual ctx) (\<lambda>_. declared_size h actual)"
  by (auto simp: validate_mmm01_def validate_huc1_def validate_huc3_def validate_huc_def validate_mbc1_def
      validate_mbc1m_def validate_mbc2_def validate_mbc3_def validate_mbc6_def validate_mbc7_def
      validate_pocket_camera_def declared_size_def valid_rules Let_def
      intro!: valid_declared_bind valid_then split: option.split mbc3_variant.split)

text \<open>The rounded capacity is a whole number of banks that holds the image.\<close>

lemma power_of_two_from_power: "\<exists>k. power_of_two_from (2 ^ j) n = 2 ^ k \<and> n \<le> 2 ^ k"
proof (induction "n - 2 ^ j" arbitrary: j rule: less_induct)
  case less
  show ?case
  proof (cases "n \<le> 2 ^ j")
    case True
    then show ?thesis by (subst power_of_two_from.simps) auto
  next
    case False
    then have "n - 2 ^ Suc j < n - 2 ^ j" by (simp add: diff_less_mono2)
    from less [OF this] False show ?thesis by (subst power_of_two_from.simps) simp
  qed
qed

lemma next_power_of_two_power: "\<exists>k. next_power_of_two n = 2 ^ k \<and> n \<le> 2 ^ k"
  using power_of_two_from_power [of 0 n] by (simp add: next_power_of_two_def)

lemma rounded_capacity:
  "actual \<le> rounded_mbc5_actual_rom_capacity actual"
  "0x4000 dvd rounded_mbc5_actual_rom_capacity actual"
  "0x8000 \<le> rounded_mbc5_actual_rom_capacity actual"
proof -
  define r where "r = max (div_ceil actual ROM_BANK_BYTES) (NO_MBC_SUPPORTED_ROM_BYTES div ROM_BANK_BYTES)
    * ROM_BANK_BYTES"
  have "div_ceil actual ROM_BANK_BYTES * ROM_BANK_BYTES \<le> r" by (simp add: r_def)
  moreover have "actual \<le> div_ceil actual ROM_BANK_BYTES * ROM_BANK_BYTES"
    by (simp add: div_ceil_def ROM_BANK_BYTES_def)
  ultimately have ge: "actual \<le> r" by simp
  have low: "0x8000 \<le> r" by (simp add: r_def size_defs max_def)
  obtain k where k: "next_power_of_two r = 2 ^ k" "r \<le> 2 ^ k" using next_power_of_two_power by blast
  have "15 \<le> k"
  proof (rule ccontr)
    assume "\<not> 15 \<le> k"
    then have "(2::nat) ^ k \<le> 2 ^ 14" by (intro power_increasing) auto
    with low k(2) show False by simp
  qed
  then have "(2::nat) ^ 14 dvd 2 ^ k" using le_imp_power_dvd [of 14 k "2 :: nat"] by simp
  moreover have "rounded_mbc5_actual_rom_capacity actual = 2 ^ k"
    using k(1) by (simp add: rounded_mbc5_actual_rom_capacity_def r_def Let_def)
  moreover have "actual \<le> 2 ^ k" and "0x8000 \<le> (2::nat) ^ k" using ge low k(2) by simp_all
  ultimately show "0x4000 dvd rounded_mbc5_actual_rom_capacity actual"
    "actual \<le> rounded_mbc5_actual_rom_capacity actual" "0x8000 \<le> rounded_mbc5_actual_rom_capacity actual"
    by simp_all
qed

definition layout_sound :: "cartridge_header \<Rightarrow> nat \<Rightarrow> bool \<Rightarrow> cartridge_rom_layout \<Rightarrow> bool" where
  "layout_sound h actual strict l =
     (0 < lay_effective_bank_count l \<and> lay_effective_bytes l = lay_effective_bank_count l * 0x4000
      \<and> actual \<le> lay_effective_bytes l
      \<and> (strict \<longrightarrow> declared_size h actual \<and> lay_effective_bytes l = actual))"

lemma permissive_layout_sound: "layout_sound h actual False (permissive_rom_layout d actual)"
  using rounded_capacity [of actual]
  by (auto simp: layout_sound_def permissive_rom_layout_def ROM_BANK_BYTES_def Let_def)

lemma validated_mbc5:
  assumes "ctx_raw_type ctx \<in> {0x19, 0x1A, 0x1B, 0x1C, 0x1D, 0x1E}" and "header_wf h"
  shows "valid (validate_mbc5 h actual ctx) (\<lambda>l. layout_sound h actual (strict_context ctx) (lay5_rom_layout l))"
proof -
  have exact: "layout_sound h d strict (layout_declared_exact d d)"
    if "rom_decoded_bytes (hdr_rom_size h) = Some d" for d strict
    using that decoded_rom_banks [of "rom_raw_code (hdr_rom_size h)" d] assms(2)
    by (auto simp: layout_sound_def layout_declared_exact_def header_wf_def declared_size_def ROM_BANK_BYTES_def)
  have "valid (validate_mbc5_rom_layout ctx h actual) (layout_sound h actual (strict_context ctx))"
    using exact permissive_layout_sound
    by (auto simp: validate_mbc5_rom_layout_def valid_rules strict_context_def
        intro!: valid_steps split: option.split)
  moreover obtain v where "mbc5_variant_of_type (ctx_raw_type ctx) = Some v"
    using assms(1) by (auto simp: mbc5_variant_of_type_def)
  ultimately show ?thesis
    by (auto simp: validate_mbc5_def valid_rules intro!: valid_steps elim!: valid_mono)
qed

end
