(* ===== verification/Cart_Save.thy ===== *)
theory Cart_Save
  imports Cart_Laws
begin

text \<open>
  Run-time save states of the cartridge (\<open>CartridgeRuntimeSaveState\<close> in \<open>cartridge.rs\<close>, captured,
  validated and restored in \<open>cartridge/slot.rs\<close>): the RAM, registers and clocks of the mapper
  without the image, the header and what the board fixes. The arrays of fixed length
  (\<open>mcu_ram\<close>, \<open>ram_nibbles\<close>, \<open>registers\<close>) are lists here; their lengths are \<open>saved_arrays_fit\<close>.
\<close>

section \<open>What each mapper saves\<close>

record no_mbc_save =
  snm_ram :: "u8 list option"

record mmm01_save =
  smm_ram :: "u8 list option"
  smm_mapped :: bool
  smm_ram_enabled :: bool
  smm_ram_bank_mask :: u8
  smm_rom_bank_low :: u8
  smm_rom_bank_mid :: u8
  smm_ram_bank_low :: u8
  smm_ram_bank_high :: u8
  smm_rom_bank_high :: u8
  smm_mode_write_disable :: bool
  smm_banking_mode :: u8
  smm_rom_bank_mask :: u8
  smm_multiplex_enabled :: bool

record m161_save =
  s161_selected_bank :: u8
  s161_bank_switch_locked :: bool
  s161_last_bank_write :: "u8 option"

record huc1_save =
  sh1_ram :: "u8 list option"
  sh1_mode :: huc1_io_mode
  sh1_rom_bank :: u8
  sh1_ram_bank :: u8
  sh1_ir_emitter_on :: bool
  sh1_ir_light_detected :: bool

record huc3_runtime_save =
  sh3_ram :: "u8 list"
  sh3_select_mode :: huc3_select_mode
  sh3_rom_bank :: u8
  sh3_ram_bank :: u8
  sh3_access_address :: u8
  sh3_mailbox :: huc3_mailbox
  sh3_mcu_ram :: "u8 list"
  sh3_rtc :: huc3_rtc_state
  sh3_ir_emitter_on :: bool
  sh3_ir_light_detected :: bool
  sh3_last_control_write :: "u8 option"
  sh3_last_unsupported_command :: "u8 option"
  sh3_last_unsupported_argument :: "u8 option"

record mbc1_save =
  sm1_ram :: "u8 list option"
  sm1_ram_enabled :: bool
  sm1_rom_bank_low5 :: u8
  sm1_secondary_bank :: u8
  sm1_banking_mode :: u8

record mbc2_save =
  sm2_ram_nibbles :: "u8 list"
  sm2_ram_enabled :: bool
  sm2_rom_bank_low4 :: u8

record mbc3_save =
  sm3_ram :: "u8 list option"
  sm3_ram_rtc_enabled :: bool
  sm3_rom_bank :: u8
  sm3_select :: mbc3_ram_rtc_select
  sm3_rtc_live :: mbc3_rtc_state
  sm3_rtc_latched :: mbc3_rtc_state
  sm3_rtc_latched_valid :: bool
  sm3_rtc_latch_armed :: bool
  sm3_rtc_subsecond_ticks :: u16
  sm3_rtc_access_ready_at :: "u64 option"

record mbc5_save =
  sm5_ram :: "u8 list option"
  sm5_ram_enabled :: bool
  sm5_rom_bank_low8 :: u8
  sm5_rom_bank_high1 :: u8
  sm5_ram_bank_raw :: u8
  sm5_rumble_flag :: bool

record mbc6_save =
  sm6_ram :: "u8 list"
  sm6_flash :: "u8 list"
  sm6_hidden_region :: "u8 list"
  sm6_ram_enabled :: bool
  sm6_flash_enabled :: bool
  sm6_flash_write_enabled :: bool
  sm6_ram_bank_a :: u8
  sm6_ram_bank_b :: u8
  sm6_rom_flash_bank_a :: u8
  sm6_rom_flash_bank_b :: u8
  sm6_window_select_a :: mbc6_window_select
  sm6_window_select_b :: mbc6_window_select
  sm6_sector0_protected :: bool
  sm6_flash_mode :: mbc6_flash_mode

record mbc7_save =
  sm7_eeprom :: "u8 list"
  sm7_ram_enabled :: bool
  sm7_sensor_eeprom_enabled :: bool
  sm7_rom_bank :: u8
  sm7_accelerometer_input :: mbc7_accelerometer_input
  sm7_accelerometer_latch_armed :: bool
  sm7_latched_x :: u16
  sm7_latched_y :: u16
  sm7_eeprom_pins :: mbc7_eeprom_pins
  sm7_eeprom_command :: mbc7_eeprom_command
  sm7_eeprom_write_enabled :: bool

record camera_save =
  scam_ram :: "u8 list"
  scam_ram_enabled :: bool
  scam_rom_bank :: u8
  scam_select :: u8
  scam_registers :: "u8 list"
  scam_host_frame :: "u8 list"
  scam_capture :: camera_capture_state

datatype device_save_state =
    SaveNoMbc no_mbc_save
  | SaveMmm01 mmm01_save
  | SaveM161 m161_save
  | SaveHuc1 huc1_save
  | SaveHuc3 huc3_runtime_save
  | SaveMbc1 mbc1_save
  | SaveMbc2 mbc2_save
  | SaveMbc3 mbc3_save
  | SaveMbc5 mbc5_save
  | SaveMbc6 mbc6_save
  | SaveMbc7 mbc7_save
  | SavePocketCamera camera_save

definition no_mbc_capture :: "no_mbc_cartridge \<Rightarrow> no_mbc_save" where
  "no_mbc_capture c =
     \<lparr>snm_ram = cart_ram c\<rparr>"

definition mmm01_capture :: "mmm01_cartridge \<Rightarrow> mmm01_save" where
  "mmm01_capture c =
     \<lparr>smm_ram = cart_ram c, smm_mapped = mmm_mapped c, smm_ram_enabled = mmm_ram_enabled c,
      smm_ram_bank_mask = mmm_ram_bank_mask c, smm_rom_bank_low = mmm_rom_bank_low c,
      smm_rom_bank_mid = mmm_rom_bank_mid c, smm_ram_bank_low = mmm_ram_bank_low c,
      smm_ram_bank_high = mmm_ram_bank_high c, smm_rom_bank_high = mmm_rom_bank_high c,
      smm_mode_write_disable = mmm_mode_write_disable c, smm_banking_mode = mmm_banking_mode c,
      smm_rom_bank_mask = mmm_rom_bank_mask c, smm_multiplex_enabled = mmm_multiplex_enabled c\<rparr>"

definition m161_capture :: "m161_cartridge \<Rightarrow> m161_save" where
  "m161_capture c =
     \<lparr>s161_selected_bank = m161_selected_bank c,
      s161_bank_switch_locked = m161_bank_switch_locked c,
      s161_last_bank_write = m161_last_bank_write c\<rparr>"

definition huc1_capture :: "huc1_cartridge \<Rightarrow> huc1_save" where
  "huc1_capture c =
     \<lparr>sh1_ram = cart_ram c, sh1_mode = huc1_mode c, sh1_rom_bank = huc1_rom_bank c,
      sh1_ram_bank = huc1_ram_bank c, sh1_ir_emitter_on = huc1_ir_emitter_on c,
      sh1_ir_light_detected = huc1_ir_light_detected c\<rparr>"

definition huc3_capture :: "huc3_cartridge \<Rightarrow> huc3_runtime_save" where
  "huc3_capture c =
     \<lparr>sh3_ram = huc3_ram c, sh3_select_mode = huc3_select_mode c, sh3_rom_bank = huc3_rom_bank c,
      sh3_ram_bank = huc3_ram_bank c, sh3_access_address = huc3_access_address c,
      sh3_mailbox = huc3_mailbox c, sh3_mcu_ram = huc3_mcu_ram c, sh3_rtc = huc3_rtc c,
      sh3_ir_emitter_on = huc3_ir_emitter_on c, sh3_ir_light_detected = huc3_ir_light_detected c,
      sh3_last_control_write = huc3_last_control_write c,
      sh3_last_unsupported_command = huc3_last_unsupported_command c,
      sh3_last_unsupported_argument = huc3_last_unsupported_argument c\<rparr>"

definition mbc1_capture :: "mbc1_cartridge \<Rightarrow> mbc1_save" where
  "mbc1_capture c =
     \<lparr>sm1_ram = cart_ram c, sm1_ram_enabled = mbc1_ram_enabled c,
      sm1_rom_bank_low5 = mbc1_rom_bank_low5 c, sm1_secondary_bank = mbc1_secondary_bank c,
      sm1_banking_mode = mbc1_banking_mode c\<rparr>"

definition mbc2_capture :: "mbc2_cartridge \<Rightarrow> mbc2_save" where
  "mbc2_capture c =
     \<lparr>sm2_ram_nibbles = mbc2_ram_nibbles c, sm2_ram_enabled = mbc2_ram_enabled c,
      sm2_rom_bank_low4 = mbc2_rom_bank_low4 c\<rparr>"

definition mbc3_capture :: "mbc3_cartridge \<Rightarrow> mbc3_save" where
  "mbc3_capture c =
     \<lparr>sm3_ram = cart_ram c, sm3_ram_rtc_enabled = mbc3_ram_rtc_enabled c,
      sm3_rom_bank = mbc3_rom_bank c, sm3_select = mbc3_select c, sm3_rtc_live = mbc3_rtc_live c,
      sm3_rtc_latched = mbc3_rtc_latched c, sm3_rtc_latched_valid = mbc3_rtc_latched_valid c,
      sm3_rtc_latch_armed = mbc3_rtc_latch_armed c,
      sm3_rtc_subsecond_ticks = mbc3_rtc_subsecond_ticks c,
      sm3_rtc_access_ready_at = mbc3_rtc_access_ready_at c\<rparr>"

definition mbc5_capture :: "mbc5_cartridge \<Rightarrow> mbc5_save" where
  "mbc5_capture c =
     \<lparr>sm5_ram = cart_ram c, sm5_ram_enabled = mbc5_ram_enabled c,
      sm5_rom_bank_low8 = mbc5_rom_bank_low8 c, sm5_rom_bank_high1 = mbc5_rom_bank_high1 c,
      sm5_ram_bank_raw = mbc5_ram_bank_raw c, sm5_rumble_flag = mbc5_rumble_flag c\<rparr>"

definition mbc6_capture :: "mbc6_cartridge \<Rightarrow> mbc6_save" where
  "mbc6_capture c =
     \<lparr>sm6_ram = mbc6_ram c, sm6_flash = mbc6_flash c, sm6_hidden_region = mbc6_hidden_region c,
      sm6_ram_enabled = mbc6_ram_enabled c, sm6_flash_enabled = mbc6_flash_enabled c,
      sm6_flash_write_enabled = mbc6_flash_write_enabled c, sm6_ram_bank_a = mbc6_ram_bank_a c,
      sm6_ram_bank_b = mbc6_ram_bank_b c, sm6_rom_flash_bank_a = mbc6_rom_flash_bank_a c,
      sm6_rom_flash_bank_b = mbc6_rom_flash_bank_b c, sm6_window_select_a = mbc6_window_select_a c,
      sm6_window_select_b = mbc6_window_select_b c,
      sm6_sector0_protected = mbc6_sector0_protected c, sm6_flash_mode = mbc6_flash_mode c\<rparr>"

definition mbc7_capture :: "mbc7_cartridge \<Rightarrow> mbc7_save" where
  "mbc7_capture c =
     \<lparr>sm7_eeprom = mbc7_eeprom c, sm7_ram_enabled = mbc7_ram_enabled c,
      sm7_sensor_eeprom_enabled = mbc7_sensor_eeprom_enabled c, sm7_rom_bank = mbc7_rom_bank c,
      sm7_accelerometer_input = mbc7_accelerometer_input c,
      sm7_accelerometer_latch_armed = mbc7_accelerometer_latch_armed c,
      sm7_latched_x = mbc7_latched_x c, sm7_latched_y = mbc7_latched_y c,
      sm7_eeprom_pins = mbc7_eeprom_pins c, sm7_eeprom_command = mbc7_eeprom_command c,
      sm7_eeprom_write_enabled = mbc7_eeprom_write_enabled c\<rparr>"

definition camera_capture :: "pocket_camera \<Rightarrow> camera_save" where
  "camera_capture c =
     \<lparr>scam_ram = cam_ram c, scam_ram_enabled = cam_ram_enabled c, scam_rom_bank = cam_rom_bank c,
      scam_select = cam_select c, scam_registers = cam_registers c,
      scam_host_frame = cam_host_frame c, scam_capture = cam_capture c\<rparr>"

definition no_mbc_resume :: "no_mbc_save \<Rightarrow> no_mbc_cartridge \<Rightarrow> no_mbc_cartridge" where
  "no_mbc_resume s c =
     c\<lparr>cart_ram := snm_ram s\<rparr>"

definition mmm01_resume :: "mmm01_save \<Rightarrow> mmm01_cartridge \<Rightarrow> mmm01_cartridge" where
  "mmm01_resume s c =
     c\<lparr>cart_ram := smm_ram s, mmm_mapped := smm_mapped s, mmm_ram_enabled := smm_ram_enabled s,
       mmm_ram_bank_mask := smm_ram_bank_mask s, mmm_rom_bank_low := smm_rom_bank_low s,
       mmm_rom_bank_mid := smm_rom_bank_mid s, mmm_ram_bank_low := smm_ram_bank_low s,
       mmm_ram_bank_high := smm_ram_bank_high s, mmm_rom_bank_high := smm_rom_bank_high s,
       mmm_mode_write_disable := smm_mode_write_disable s, mmm_banking_mode := smm_banking_mode s,
       mmm_rom_bank_mask := smm_rom_bank_mask s, mmm_multiplex_enabled := smm_multiplex_enabled s\<rparr>"

definition m161_resume :: "m161_save \<Rightarrow> m161_cartridge \<Rightarrow> m161_cartridge" where
  "m161_resume s c =
     c\<lparr>m161_selected_bank := s161_selected_bank s,
       m161_bank_switch_locked := s161_bank_switch_locked s,
       m161_last_bank_write := s161_last_bank_write s\<rparr>"

definition huc1_resume :: "huc1_save \<Rightarrow> huc1_cartridge \<Rightarrow> huc1_cartridge" where
  "huc1_resume s c =
     c\<lparr>cart_ram := sh1_ram s, huc1_mode := sh1_mode s, huc1_rom_bank := sh1_rom_bank s,
       huc1_ram_bank := sh1_ram_bank s, huc1_ir_emitter_on := sh1_ir_emitter_on s,
       huc1_ir_light_detected := sh1_ir_light_detected s\<rparr>"

definition huc3_resume :: "huc3_runtime_save \<Rightarrow> huc3_cartridge \<Rightarrow> huc3_cartridge" where
  "huc3_resume s c =
     c\<lparr>huc3_ram := sh3_ram s, huc3_select_mode := sh3_select_mode s,
       huc3_rom_bank := sh3_rom_bank s, huc3_ram_bank := sh3_ram_bank s,
       huc3_access_address := sh3_access_address s, huc3_mailbox := sh3_mailbox s,
       huc3_mcu_ram := sh3_mcu_ram s, huc3_rtc := sh3_rtc s,
       huc3_ir_emitter_on := sh3_ir_emitter_on s,
       huc3_ir_light_detected := sh3_ir_light_detected s,
       huc3_last_control_write := sh3_last_control_write s,
       huc3_last_unsupported_command := sh3_last_unsupported_command s,
       huc3_last_unsupported_argument := sh3_last_unsupported_argument s\<rparr>"

definition mbc1_resume :: "mbc1_save \<Rightarrow> mbc1_cartridge \<Rightarrow> mbc1_cartridge" where
  "mbc1_resume s c =
     c\<lparr>cart_ram := sm1_ram s, mbc1_ram_enabled := sm1_ram_enabled s,
       mbc1_rom_bank_low5 := sm1_rom_bank_low5 s, mbc1_secondary_bank := sm1_secondary_bank s,
       mbc1_banking_mode := sm1_banking_mode s\<rparr>"

definition mbc2_resume :: "mbc2_save \<Rightarrow> mbc2_cartridge \<Rightarrow> mbc2_cartridge" where
  "mbc2_resume s c =
     c\<lparr>mbc2_ram_nibbles := sm2_ram_nibbles s, mbc2_ram_enabled := sm2_ram_enabled s,
       mbc2_rom_bank_low4 := sm2_rom_bank_low4 s\<rparr>"

definition mbc3_resume :: "mbc3_save \<Rightarrow> mbc3_cartridge \<Rightarrow> mbc3_cartridge" where
  "mbc3_resume s c =
     c\<lparr>cart_ram := sm3_ram s, mbc3_ram_rtc_enabled := sm3_ram_rtc_enabled s,
       mbc3_rom_bank := sm3_rom_bank s, mbc3_select := sm3_select s,
       mbc3_rtc_live := sm3_rtc_live s, mbc3_rtc_latched := sm3_rtc_latched s,
       mbc3_rtc_latched_valid := sm3_rtc_latched_valid s,
       mbc3_rtc_latch_armed := sm3_rtc_latch_armed s,
       mbc3_rtc_subsecond_ticks := sm3_rtc_subsecond_ticks s,
       mbc3_rtc_access_ready_at := sm3_rtc_access_ready_at s\<rparr>"

definition mbc5_resume :: "mbc5_save \<Rightarrow> mbc5_cartridge \<Rightarrow> mbc5_cartridge" where
  "mbc5_resume s c =
     c\<lparr>cart_ram := sm5_ram s, mbc5_ram_enabled := sm5_ram_enabled s,
       mbc5_rom_bank_low8 := sm5_rom_bank_low8 s, mbc5_rom_bank_high1 := sm5_rom_bank_high1 s,
       mbc5_ram_bank_raw := sm5_ram_bank_raw s, mbc5_rumble_flag := sm5_rumble_flag s\<rparr>"

definition mbc6_resume :: "mbc6_save \<Rightarrow> mbc6_cartridge \<Rightarrow> mbc6_cartridge" where
  "mbc6_resume s c =
     c\<lparr>mbc6_ram := sm6_ram s, mbc6_flash := sm6_flash s, mbc6_hidden_region := sm6_hidden_region s,
       mbc6_ram_enabled := sm6_ram_enabled s, mbc6_flash_enabled := sm6_flash_enabled s,
       mbc6_flash_write_enabled := sm6_flash_write_enabled s, mbc6_ram_bank_a := sm6_ram_bank_a s,
       mbc6_ram_bank_b := sm6_ram_bank_b s, mbc6_rom_flash_bank_a := sm6_rom_flash_bank_a s,
       mbc6_rom_flash_bank_b := sm6_rom_flash_bank_b s,
       mbc6_window_select_a := sm6_window_select_a s,
       mbc6_window_select_b := sm6_window_select_b s,
       mbc6_sector0_protected := sm6_sector0_protected s, mbc6_flash_mode := sm6_flash_mode s\<rparr>"

definition mbc7_resume :: "mbc7_save \<Rightarrow> mbc7_cartridge \<Rightarrow> mbc7_cartridge" where
  "mbc7_resume s c =
     c\<lparr>mbc7_eeprom := sm7_eeprom s, mbc7_ram_enabled := sm7_ram_enabled s,
       mbc7_sensor_eeprom_enabled := sm7_sensor_eeprom_enabled s, mbc7_rom_bank := sm7_rom_bank s,
       mbc7_accelerometer_input := sm7_accelerometer_input s,
       mbc7_accelerometer_latch_armed := sm7_accelerometer_latch_armed s,
       mbc7_latched_x := sm7_latched_x s, mbc7_latched_y := sm7_latched_y s,
       mbc7_eeprom_pins := sm7_eeprom_pins s, mbc7_eeprom_command := sm7_eeprom_command s,
       mbc7_eeprom_write_enabled := sm7_eeprom_write_enabled s\<rparr>"

definition camera_resume :: "camera_save \<Rightarrow> pocket_camera \<Rightarrow> pocket_camera" where
  "camera_resume s c =
     c\<lparr>cam_ram := scam_ram s, cam_ram_enabled := scam_ram_enabled s,
       cam_rom_bank := scam_rom_bank s, cam_select := scam_select s,
       cam_registers := scam_registers s, cam_host_frame := scam_host_frame s,
       cam_capture := scam_capture s\<rparr>"

fun capture_device :: "cartridge_device \<Rightarrow> device_save_state" where
  "capture_device (DevNoMbc c) = SaveNoMbc (no_mbc_capture c)"
| "capture_device (DevMmm01 c) = SaveMmm01 (mmm01_capture c)"
| "capture_device (DevM161 c) = SaveM161 (m161_capture c)"
| "capture_device (DevHuc1 c) = SaveHuc1 (huc1_capture c)"
| "capture_device (DevHuc3 c) = SaveHuc3 (huc3_capture c)"
| "capture_device (DevMbc1 c) = SaveMbc1 (mbc1_capture c)"
| "capture_device (DevMbc2 c) = SaveMbc2 (mbc2_capture c)"
| "capture_device (DevMbc3 c) = SaveMbc3 (mbc3_capture c)"
| "capture_device (DevMbc5 c) = SaveMbc5 (mbc5_capture c)"
| "capture_device (DevMbc6 c) = SaveMbc6 (mbc6_capture c)"
| "capture_device (DevMbc7 c) = SaveMbc7 (mbc7_capture c)"
| "capture_device (DevPocketCamera c) = SavePocketCamera (camera_capture c)"

text \<open>\<open>None\<close> where the code has \<open>unreachable!\<close>: another mapper than the one in the slot.\<close>

definition resume_device :: "device_save_state \<Rightarrow> cartridge_device \<Rightarrow> cartridge_device option" where
  "resume_device save d =
     (case d of
        DevNoMbc c \<Rightarrow> (case save of SaveNoMbc s \<Rightarrow> Some (DevNoMbc (no_mbc_resume s c)) | _ \<Rightarrow> None)
      | DevMmm01 c \<Rightarrow> (case save of SaveMmm01 s \<Rightarrow> Some (DevMmm01 (mmm01_resume s c)) | _ \<Rightarrow> None)
      | DevM161 c \<Rightarrow> (case save of SaveM161 s \<Rightarrow> Some (DevM161 (m161_resume s c)) | _ \<Rightarrow> None)
      | DevHuc1 c \<Rightarrow> (case save of SaveHuc1 s \<Rightarrow> Some (DevHuc1 (huc1_resume s c)) | _ \<Rightarrow> None)
      | DevHuc3 c \<Rightarrow> (case save of SaveHuc3 s \<Rightarrow> Some (DevHuc3 (huc3_resume s c)) | _ \<Rightarrow> None)
      | DevMbc1 c \<Rightarrow> (case save of SaveMbc1 s \<Rightarrow> Some (DevMbc1 (mbc1_resume s c)) | _ \<Rightarrow> None)
      | DevMbc2 c \<Rightarrow> (case save of SaveMbc2 s \<Rightarrow> Some (DevMbc2 (mbc2_resume s c)) | _ \<Rightarrow> None)
      | DevMbc3 c \<Rightarrow> (case save of SaveMbc3 s \<Rightarrow> Some (DevMbc3 (mbc3_resume s c)) | _ \<Rightarrow> None)
      | DevMbc5 c \<Rightarrow> (case save of SaveMbc5 s \<Rightarrow> Some (DevMbc5 (mbc5_resume s c)) | _ \<Rightarrow> None)
      | DevMbc6 c \<Rightarrow> (case save of SaveMbc6 s \<Rightarrow> Some (DevMbc6 (mbc6_resume s c)) | _ \<Rightarrow> None)
      | DevMbc7 c \<Rightarrow> (case save of SaveMbc7 s \<Rightarrow> Some (DevMbc7 (mbc7_resume s c)) | _ \<Rightarrow> None)
      | DevPocketCamera c \<Rightarrow> (case save of SavePocketCamera s \<Rightarrow> Some (DevPocketCamera (camera_resume s c)) | _ \<Rightarrow> None))"

lemmas capture_defs =
  no_mbc_capture_def mmm01_capture_def m161_capture_def huc1_capture_def huc3_capture_def
  mbc1_capture_def mbc2_capture_def mbc3_capture_def mbc5_capture_def mbc6_capture_def
  mbc7_capture_def camera_capture_def
lemmas resume_defs =
  no_mbc_resume_def mmm01_resume_def m161_resume_def huc1_resume_def huc3_resume_def
  mbc1_resume_def mbc2_resume_def mbc3_resume_def mbc5_resume_def mbc6_resume_def
  mbc7_resume_def camera_resume_def

datatype cartridge_slot_state =
    SlotEmpty | SlotNoMbc | SlotMmm01 | SlotM161 | SlotHuc1 | SlotHuc3 | SlotMbc1
  | SlotMbc2 | SlotMbc3 | SlotMbc5 | SlotMbc6 | SlotMbc7 | SlotPocketCamera

fun device_slot_state :: "cartridge_device \<Rightarrow> cartridge_slot_state" where
  "device_slot_state (DevNoMbc _) = SlotNoMbc"
| "device_slot_state (DevMmm01 _) = SlotMmm01"
| "device_slot_state (DevM161 _) = SlotM161"
| "device_slot_state (DevHuc1 _) = SlotHuc1"
| "device_slot_state (DevHuc3 _) = SlotHuc3"
| "device_slot_state (DevMbc1 _) = SlotMbc1"
| "device_slot_state (DevMbc2 _) = SlotMbc2"
| "device_slot_state (DevMbc3 _) = SlotMbc3"
| "device_slot_state (DevMbc5 _) = SlotMbc5"
| "device_slot_state (DevMbc6 _) = SlotMbc6"
| "device_slot_state (DevMbc7 _) = SlotMbc7"
| "device_slot_state (DevPocketCamera _) = SlotPocketCamera"

fun saved_slot_state :: "device_save_state \<Rightarrow> cartridge_slot_state" where
  "saved_slot_state (SaveNoMbc _) = SlotNoMbc"
| "saved_slot_state (SaveMmm01 _) = SlotMmm01"
| "saved_slot_state (SaveM161 _) = SlotM161"
| "saved_slot_state (SaveHuc1 _) = SlotHuc1"
| "saved_slot_state (SaveHuc3 _) = SlotHuc3"
| "saved_slot_state (SaveMbc1 _) = SlotMbc1"
| "saved_slot_state (SaveMbc2 _) = SlotMbc2"
| "saved_slot_state (SaveMbc3 _) = SlotMbc3"
| "saved_slot_state (SaveMbc5 _) = SlotMbc5"
| "saved_slot_state (SaveMbc6 _) = SlotMbc6"
| "saved_slot_state (SaveMbc7 _) = SlotMbc7"
| "saved_slot_state (SavePocketCamera _) = SlotPocketCamera"


section \<open>Sizes\<close>

definition optional_bytes_len :: "u8 list option \<Rightarrow> nat" where
  "optional_bytes_len bytes = (case bytes of Some b \<Rightarrow> length b | None \<Rightarrow> 0)"

definition mbc6_mode_payload_bytes :: "mbc6_flash_mode \<Rightarrow> nat" where
  "mbc6_mode_payload_bytes mode =
     (case mode of
        ProgramMode p \<Rightarrow> length (prog_buffer p) + length (prog_written p)
      | HiddenProgramMode p \<Rightarrow> length (prog_buffer p) + length (prog_written p)
      | _ \<Rightarrow> 0)"

definition capture_payload_bytes :: "camera_capture_state \<Rightarrow> nat" where
  "capture_payload_bytes s =
     (case s of CaptureIdle \<Rightarrow> 0 | CaptureWorking _ staged \<Rightarrow> length staged | CapturePaused _ staged \<Rightarrow> length staged)"

fun dynamic_payload_bytes :: "device_save_state \<Rightarrow> nat" where
  "dynamic_payload_bytes (SaveNoMbc s) = optional_bytes_len (snm_ram s)"
| "dynamic_payload_bytes (SaveMmm01 s) = optional_bytes_len (smm_ram s)"
| "dynamic_payload_bytes (SaveM161 s) = 0"
| "dynamic_payload_bytes (SaveHuc1 s) = optional_bytes_len (sh1_ram s)"
| "dynamic_payload_bytes (SaveHuc3 s) = length (sh3_ram s)"
| "dynamic_payload_bytes (SaveMbc1 s) = optional_bytes_len (sm1_ram s)"
| "dynamic_payload_bytes (SaveMbc2 s) = 0"
| "dynamic_payload_bytes (SaveMbc3 s) = optional_bytes_len (sm3_ram s)"
| "dynamic_payload_bytes (SaveMbc5 s) = optional_bytes_len (sm5_ram s)"
| "dynamic_payload_bytes (SaveMbc6 s) =
     length (sm6_ram s) + length (sm6_flash s) + length (sm6_hidden_region s)
     + mbc6_mode_payload_bytes (sm6_flash_mode s)"
| "dynamic_payload_bytes (SaveMbc7 s) = length (sm7_eeprom s)"
| "dynamic_payload_bytes (SavePocketCamera s) =
     length (scam_ram s) + length (scam_host_frame s) + capture_payload_bytes (scam_capture s)"

section \<open>Validation\<close>

datatype runtime_save_error =
    SlotStateMismatch cartridge_slot_state cartridge_slot_state
  | RamShapeMismatch string "nat option" "nat option"

definition validate_optional_ram_shape ::
    "string \<Rightarrow> u8 list option \<Rightarrow> u8 list option \<Rightarrow> runtime_save_error + unit" where
  "validate_optional_ram_shape field expected actual =
     (if map_option length expected = map_option length actual then Inr ()
      else Inl (RamShapeMismatch field (map_option length expected) (map_option length actual)))"

definition validate_ram_shape :: "string \<Rightarrow> u8 list \<Rightarrow> u8 list \<Rightarrow> runtime_save_error + unit" where
  "validate_ram_shape field expected actual =
     (if length expected = length actual then Inr ()
      else Inl (RamShapeMismatch field (Some (length expected)) (Some (length actual))))"

definition validate_mbc6_program_vec_shape :: "string \<Rightarrow> nat \<Rightarrow> runtime_save_error + unit" where
  "validate_mbc6_program_vec_shape field actual =
     (if actual = MBC6_FLASH_PROGRAM_BLOCK_BYTES then Inr ()
      else Inl (RamShapeMismatch field (Some MBC6_FLASH_PROGRAM_BLOCK_BYTES) (Some actual)))"

text \<open>\<open>?\<close>: the first error ends the checks.\<close>

definition and_check :: "runtime_save_error + unit \<Rightarrow> runtime_save_error + unit \<Rightarrow> runtime_save_error + unit" where
  "and_check a b = (case a of Inl e \<Rightarrow> Inl e | Inr _ \<Rightarrow> b)"

definition validate_mbc6_program_state_shape :: "mbc6_program_state \<Rightarrow> runtime_save_error + unit" where
  "validate_mbc6_program_state_shape p =
     and_check (validate_mbc6_program_vec_shape ''MBC6 program buffer'' (length (prog_buffer p)))
       (validate_mbc6_program_vec_shape ''MBC6 program written bitmap'' (length (prog_written p)))"

definition validate_mbc6_flash_mode_shape :: "mbc6_flash_mode \<Rightarrow> runtime_save_error + unit" where
  "validate_mbc6_flash_mode_shape mode =
     (case mode of
        ProgramMode p \<Rightarrow> validate_mbc6_program_state_shape p
      | HiddenProgramMode p \<Rightarrow> validate_mbc6_program_state_shape p
      | _ \<Rightarrow> Inr ())"

text \<open>\<open>None\<close> where the code has \<open>unreachable!\<close>: the slot states were compared first.\<close>

definition validate_device_save ::
    "cartridge_device \<Rightarrow> device_save_state \<Rightarrow> (runtime_save_error + unit) option" where
  "validate_device_save d save =
     (case d of
        DevNoMbc c \<Rightarrow>
          (case save of
             SaveNoMbc s \<Rightarrow>
               Some (validate_optional_ram_shape ''NoMBC RAM'' (cart_ram c) (snm_ram s))
           | _ \<Rightarrow> None)
      | DevMmm01 c \<Rightarrow>
          (case save of
             SaveMmm01 s \<Rightarrow>
               Some (validate_optional_ram_shape ''MMM01 RAM'' (cart_ram c) (smm_ram s))
           | _ \<Rightarrow> None)
      | DevM161 c \<Rightarrow>
          (case save of
             SaveM161 s \<Rightarrow>
               Some (Inr ())
           | _ \<Rightarrow> None)
      | DevHuc1 c \<Rightarrow>
          (case save of
             SaveHuc1 s \<Rightarrow>
               Some (validate_optional_ram_shape ''HuC-1 RAM'' (cart_ram c) (sh1_ram s))
           | _ \<Rightarrow> None)
      | DevHuc3 c \<Rightarrow>
          (case save of
             SaveHuc3 s \<Rightarrow>
               Some (validate_ram_shape ''HuC-3 RAM'' (huc3_ram c) (sh3_ram s))
           | _ \<Rightarrow> None)
      | DevMbc1 c \<Rightarrow>
          (case save of
             SaveMbc1 s \<Rightarrow>
               Some (validate_optional_ram_shape ''MBC1 RAM'' (cart_ram c) (sm1_ram s))
           | _ \<Rightarrow> None)
      | DevMbc2 c \<Rightarrow>
          (case save of
             SaveMbc2 s \<Rightarrow>
               Some (Inr ())
           | _ \<Rightarrow> None)
      | DevMbc3 c \<Rightarrow>
          (case save of
             SaveMbc3 s \<Rightarrow>
               Some (validate_optional_ram_shape ''MBC3 RAM'' (cart_ram c) (sm3_ram s))
           | _ \<Rightarrow> None)
      | DevMbc5 c \<Rightarrow>
          (case save of
             SaveMbc5 s \<Rightarrow>
               Some (validate_optional_ram_shape ''MBC5 RAM'' (cart_ram c) (sm5_ram s))
           | _ \<Rightarrow> None)
      | DevMbc6 c \<Rightarrow>
          (case save of
             SaveMbc6 s \<Rightarrow>
               Some (and_check (validate_ram_shape ''MBC6 RAM'' (mbc6_ram c) (sm6_ram s))
          (and_check (validate_ram_shape ''MBC6 flash'' (mbc6_flash c) (sm6_flash s))
          (and_check (validate_ram_shape ''MBC6 hidden flash'' (mbc6_hidden_region c) (sm6_hidden_region s))
             (validate_mbc6_flash_mode_shape (sm6_flash_mode s)))))
           | _ \<Rightarrow> None)
      | DevMbc7 c \<Rightarrow>
          (case save of
             SaveMbc7 s \<Rightarrow>
               Some (validate_ram_shape ''MBC7 EEPROM'' (mbc7_eeprom c) (sm7_eeprom s))
           | _ \<Rightarrow> None)
      | DevPocketCamera c \<Rightarrow>
          (case save of
             SavePocketCamera s \<Rightarrow>
               Some (and_check (validate_ram_shape ''Pocket Camera RAM'' (cam_ram c) (scam_ram s))
             (validate_ram_shape ''Pocket Camera host frame'' (cam_host_frame c) (scam_host_frame s)))
           | _ \<Rightarrow> None))"

end
