(* ===== verification/Cart_Rewind.thy ===== *)
theory Cart_Rewind
  imports Cart_Save
begin

text \<open>
  Restoring a run-time save state gives back the cartridge it was captured from, whatever was
  done to the cartridge in between: an access changes only what the save state holds.
\<close>

section \<open>Restoring forgets every access\<close>

named_theorems resume_simps \<open>restoring a state into a changed cartridge\<close>

lemma no_mbc_resume_updates [resume_simps]:
  "no_mbc_resume s (c\<lparr>cart_ram := v0\<rparr>) = no_mbc_resume s c"
  by (simp_all add: no_mbc_resume_def)

lemma no_mbc_resume_capture [resume_simps]: "no_mbc_resume (no_mbc_capture c) c = c"
  by (simp add: no_mbc_resume_def no_mbc_capture_def)

lemma no_mbc_capture_resume [resume_simps]: "no_mbc_capture (no_mbc_resume s c) = s"
  by (simp add: no_mbc_resume_def no_mbc_capture_def)

lemma mmm01_resume_updates [resume_simps]:
  "mmm01_resume s (c\<lparr>cart_ram := v0\<rparr>) = mmm01_resume s c"
  "mmm01_resume s (c\<lparr>mmm_mapped := v1\<rparr>) = mmm01_resume s c"
  "mmm01_resume s (c\<lparr>mmm_ram_enabled := v2\<rparr>) = mmm01_resume s c"
  "mmm01_resume s (c\<lparr>mmm_ram_bank_mask := v3\<rparr>) = mmm01_resume s c"
  "mmm01_resume s (c\<lparr>mmm_rom_bank_low := v4\<rparr>) = mmm01_resume s c"
  "mmm01_resume s (c\<lparr>mmm_rom_bank_mid := v5\<rparr>) = mmm01_resume s c"
  "mmm01_resume s (c\<lparr>mmm_ram_bank_low := v6\<rparr>) = mmm01_resume s c"
  "mmm01_resume s (c\<lparr>mmm_ram_bank_high := v7\<rparr>) = mmm01_resume s c"
  "mmm01_resume s (c\<lparr>mmm_rom_bank_high := v8\<rparr>) = mmm01_resume s c"
  "mmm01_resume s (c\<lparr>mmm_mode_write_disable := v9\<rparr>) = mmm01_resume s c"
  "mmm01_resume s (c\<lparr>mmm_banking_mode := v10\<rparr>) = mmm01_resume s c"
  "mmm01_resume s (c\<lparr>mmm_rom_bank_mask := v11\<rparr>) = mmm01_resume s c"
  "mmm01_resume s (c\<lparr>mmm_multiplex_enabled := v12\<rparr>) = mmm01_resume s c"
  by (simp_all add: mmm01_resume_def)

lemma mmm01_resume_capture [resume_simps]: "mmm01_resume (mmm01_capture c) c = c"
  by (simp add: mmm01_resume_def mmm01_capture_def)

lemma mmm01_capture_resume [resume_simps]: "mmm01_capture (mmm01_resume s c) = s"
  by (simp add: mmm01_resume_def mmm01_capture_def)

lemma m161_resume_updates [resume_simps]:
  "m161_resume s (c\<lparr>m161_selected_bank := v0\<rparr>) = m161_resume s c"
  "m161_resume s (c\<lparr>m161_bank_switch_locked := v1\<rparr>) = m161_resume s c"
  "m161_resume s (c\<lparr>m161_last_bank_write := v2\<rparr>) = m161_resume s c"
  by (simp_all add: m161_resume_def)

lemma m161_resume_capture [resume_simps]: "m161_resume (m161_capture c) c = c"
  by (simp add: m161_resume_def m161_capture_def)

lemma m161_capture_resume [resume_simps]: "m161_capture (m161_resume s c) = s"
  by (simp add: m161_resume_def m161_capture_def)

lemma huc1_resume_updates [resume_simps]:
  "huc1_resume s (c\<lparr>cart_ram := v0\<rparr>) = huc1_resume s c"
  "huc1_resume s (c\<lparr>huc1_mode := v1\<rparr>) = huc1_resume s c"
  "huc1_resume s (c\<lparr>huc1_rom_bank := v2\<rparr>) = huc1_resume s c"
  "huc1_resume s (c\<lparr>huc1_ram_bank := v3\<rparr>) = huc1_resume s c"
  "huc1_resume s (c\<lparr>huc1_ir_emitter_on := v4\<rparr>) = huc1_resume s c"
  "huc1_resume s (c\<lparr>huc1_ir_light_detected := v5\<rparr>) = huc1_resume s c"
  by (simp_all add: huc1_resume_def)

lemma huc1_resume_capture [resume_simps]: "huc1_resume (huc1_capture c) c = c"
  by (simp add: huc1_resume_def huc1_capture_def)

lemma huc1_capture_resume [resume_simps]: "huc1_capture (huc1_resume s c) = s"
  by (simp add: huc1_resume_def huc1_capture_def)

lemma huc3_resume_updates [resume_simps]:
  "huc3_resume s (c\<lparr>huc3_ram := v0\<rparr>) = huc3_resume s c"
  "huc3_resume s (c\<lparr>huc3_select_mode := v1\<rparr>) = huc3_resume s c"
  "huc3_resume s (c\<lparr>huc3_rom_bank := v2\<rparr>) = huc3_resume s c"
  "huc3_resume s (c\<lparr>huc3_ram_bank := v3\<rparr>) = huc3_resume s c"
  "huc3_resume s (c\<lparr>huc3_access_address := v4\<rparr>) = huc3_resume s c"
  "huc3_resume s (c\<lparr>huc3_mailbox := v5\<rparr>) = huc3_resume s c"
  "huc3_resume s (c\<lparr>huc3_mcu_ram := v6\<rparr>) = huc3_resume s c"
  "huc3_resume s (c\<lparr>huc3_rtc := v7\<rparr>) = huc3_resume s c"
  "huc3_resume s (c\<lparr>huc3_ir_emitter_on := v8\<rparr>) = huc3_resume s c"
  "huc3_resume s (c\<lparr>huc3_ir_light_detected := v9\<rparr>) = huc3_resume s c"
  "huc3_resume s (c\<lparr>huc3_last_control_write := v10\<rparr>) = huc3_resume s c"
  "huc3_resume s (c\<lparr>huc3_last_unsupported_command := v11\<rparr>) = huc3_resume s c"
  "huc3_resume s (c\<lparr>huc3_last_unsupported_argument := v12\<rparr>) = huc3_resume s c"
  by (simp_all add: huc3_resume_def)

lemma huc3_resume_capture [resume_simps]: "huc3_resume (huc3_capture c) c = c"
  by (simp add: huc3_resume_def huc3_capture_def)

lemma huc3_capture_resume [resume_simps]: "huc3_capture (huc3_resume s c) = s"
  by (simp add: huc3_resume_def huc3_capture_def)

lemma mbc1_resume_updates [resume_simps]:
  "mbc1_resume s (c\<lparr>cart_ram := v0\<rparr>) = mbc1_resume s c"
  "mbc1_resume s (c\<lparr>mbc1_ram_enabled := v1\<rparr>) = mbc1_resume s c"
  "mbc1_resume s (c\<lparr>mbc1_rom_bank_low5 := v2\<rparr>) = mbc1_resume s c"
  "mbc1_resume s (c\<lparr>mbc1_secondary_bank := v3\<rparr>) = mbc1_resume s c"
  "mbc1_resume s (c\<lparr>mbc1_banking_mode := v4\<rparr>) = mbc1_resume s c"
  by (simp_all add: mbc1_resume_def)

lemma mbc1_resume_capture [resume_simps]: "mbc1_resume (mbc1_capture c) c = c"
  by (simp add: mbc1_resume_def mbc1_capture_def)

lemma mbc1_capture_resume [resume_simps]: "mbc1_capture (mbc1_resume s c) = s"
  by (simp add: mbc1_resume_def mbc1_capture_def)

lemma mbc2_resume_updates [resume_simps]:
  "mbc2_resume s (c\<lparr>mbc2_ram_nibbles := v0\<rparr>) = mbc2_resume s c"
  "mbc2_resume s (c\<lparr>mbc2_ram_enabled := v1\<rparr>) = mbc2_resume s c"
  "mbc2_resume s (c\<lparr>mbc2_rom_bank_low4 := v2\<rparr>) = mbc2_resume s c"
  by (simp_all add: mbc2_resume_def)

lemma mbc2_resume_capture [resume_simps]: "mbc2_resume (mbc2_capture c) c = c"
  by (simp add: mbc2_resume_def mbc2_capture_def)

lemma mbc2_capture_resume [resume_simps]: "mbc2_capture (mbc2_resume s c) = s"
  by (simp add: mbc2_resume_def mbc2_capture_def)

lemma mbc3_resume_updates [resume_simps]:
  "mbc3_resume s (c\<lparr>cart_ram := v0\<rparr>) = mbc3_resume s c"
  "mbc3_resume s (c\<lparr>mbc3_ram_rtc_enabled := v1\<rparr>) = mbc3_resume s c"
  "mbc3_resume s (c\<lparr>mbc3_rom_bank := v2\<rparr>) = mbc3_resume s c"
  "mbc3_resume s (c\<lparr>mbc3_select := v3\<rparr>) = mbc3_resume s c"
  "mbc3_resume s (c\<lparr>mbc3_rtc_live := v4\<rparr>) = mbc3_resume s c"
  "mbc3_resume s (c\<lparr>mbc3_rtc_latched := v5\<rparr>) = mbc3_resume s c"
  "mbc3_resume s (c\<lparr>mbc3_rtc_latched_valid := v6\<rparr>) = mbc3_resume s c"
  "mbc3_resume s (c\<lparr>mbc3_rtc_latch_armed := v7\<rparr>) = mbc3_resume s c"
  "mbc3_resume s (c\<lparr>mbc3_rtc_subsecond_ticks := v8\<rparr>) = mbc3_resume s c"
  "mbc3_resume s (c\<lparr>mbc3_rtc_access_ready_at := v9\<rparr>) = mbc3_resume s c"
  by (simp_all add: mbc3_resume_def)

lemma mbc3_resume_capture [resume_simps]: "mbc3_resume (mbc3_capture c) c = c"
  by (simp add: mbc3_resume_def mbc3_capture_def)

lemma mbc3_capture_resume [resume_simps]: "mbc3_capture (mbc3_resume s c) = s"
  by (simp add: mbc3_resume_def mbc3_capture_def)

lemma mbc5_resume_updates [resume_simps]:
  "mbc5_resume s (c\<lparr>cart_ram := v0\<rparr>) = mbc5_resume s c"
  "mbc5_resume s (c\<lparr>mbc5_ram_enabled := v1\<rparr>) = mbc5_resume s c"
  "mbc5_resume s (c\<lparr>mbc5_rom_bank_low8 := v2\<rparr>) = mbc5_resume s c"
  "mbc5_resume s (c\<lparr>mbc5_rom_bank_high1 := v3\<rparr>) = mbc5_resume s c"
  "mbc5_resume s (c\<lparr>mbc5_ram_bank_raw := v4\<rparr>) = mbc5_resume s c"
  "mbc5_resume s (c\<lparr>mbc5_rumble_flag := v5\<rparr>) = mbc5_resume s c"
  by (simp_all add: mbc5_resume_def)

lemma mbc5_resume_capture [resume_simps]: "mbc5_resume (mbc5_capture c) c = c"
  by (simp add: mbc5_resume_def mbc5_capture_def)

lemma mbc5_capture_resume [resume_simps]: "mbc5_capture (mbc5_resume s c) = s"
  by (simp add: mbc5_resume_def mbc5_capture_def)

lemma mbc6_resume_updates [resume_simps]:
  "mbc6_resume s (c\<lparr>mbc6_ram := v0\<rparr>) = mbc6_resume s c"
  "mbc6_resume s (c\<lparr>mbc6_flash := v1\<rparr>) = mbc6_resume s c"
  "mbc6_resume s (c\<lparr>mbc6_hidden_region := v2\<rparr>) = mbc6_resume s c"
  "mbc6_resume s (c\<lparr>mbc6_ram_enabled := v3\<rparr>) = mbc6_resume s c"
  "mbc6_resume s (c\<lparr>mbc6_flash_enabled := v4\<rparr>) = mbc6_resume s c"
  "mbc6_resume s (c\<lparr>mbc6_flash_write_enabled := v5\<rparr>) = mbc6_resume s c"
  "mbc6_resume s (c\<lparr>mbc6_ram_bank_a := v6\<rparr>) = mbc6_resume s c"
  "mbc6_resume s (c\<lparr>mbc6_ram_bank_b := v7\<rparr>) = mbc6_resume s c"
  "mbc6_resume s (c\<lparr>mbc6_rom_flash_bank_a := v8\<rparr>) = mbc6_resume s c"
  "mbc6_resume s (c\<lparr>mbc6_rom_flash_bank_b := v9\<rparr>) = mbc6_resume s c"
  "mbc6_resume s (c\<lparr>mbc6_window_select_a := v10\<rparr>) = mbc6_resume s c"
  "mbc6_resume s (c\<lparr>mbc6_window_select_b := v11\<rparr>) = mbc6_resume s c"
  "mbc6_resume s (c\<lparr>mbc6_sector0_protected := v12\<rparr>) = mbc6_resume s c"
  "mbc6_resume s (c\<lparr>mbc6_flash_mode := v13\<rparr>) = mbc6_resume s c"
  by (simp_all add: mbc6_resume_def)

lemma mbc6_resume_capture [resume_simps]: "mbc6_resume (mbc6_capture c) c = c"
  by (simp add: mbc6_resume_def mbc6_capture_def)

lemma mbc6_capture_resume [resume_simps]: "mbc6_capture (mbc6_resume s c) = s"
  by (simp add: mbc6_resume_def mbc6_capture_def)

lemma mbc7_resume_updates [resume_simps]:
  "mbc7_resume s (c\<lparr>mbc7_eeprom := v0\<rparr>) = mbc7_resume s c"
  "mbc7_resume s (c\<lparr>mbc7_ram_enabled := v1\<rparr>) = mbc7_resume s c"
  "mbc7_resume s (c\<lparr>mbc7_sensor_eeprom_enabled := v2\<rparr>) = mbc7_resume s c"
  "mbc7_resume s (c\<lparr>mbc7_rom_bank := v3\<rparr>) = mbc7_resume s c"
  "mbc7_resume s (c\<lparr>mbc7_accelerometer_input := v4\<rparr>) = mbc7_resume s c"
  "mbc7_resume s (c\<lparr>mbc7_accelerometer_latch_armed := v5\<rparr>) = mbc7_resume s c"
  "mbc7_resume s (c\<lparr>mbc7_latched_x := v6\<rparr>) = mbc7_resume s c"
  "mbc7_resume s (c\<lparr>mbc7_latched_y := v7\<rparr>) = mbc7_resume s c"
  "mbc7_resume s (c\<lparr>mbc7_eeprom_pins := v8\<rparr>) = mbc7_resume s c"
  "mbc7_resume s (c\<lparr>mbc7_eeprom_command := v9\<rparr>) = mbc7_resume s c"
  "mbc7_resume s (c\<lparr>mbc7_eeprom_write_enabled := v10\<rparr>) = mbc7_resume s c"
  by (simp_all add: mbc7_resume_def)

lemma mbc7_resume_capture [resume_simps]: "mbc7_resume (mbc7_capture c) c = c"
  by (simp add: mbc7_resume_def mbc7_capture_def)

lemma mbc7_capture_resume [resume_simps]: "mbc7_capture (mbc7_resume s c) = s"
  by (simp add: mbc7_resume_def mbc7_capture_def)

lemma camera_resume_updates [resume_simps]:
  "camera_resume s (c\<lparr>cam_ram := v0\<rparr>) = camera_resume s c"
  "camera_resume s (c\<lparr>cam_ram_enabled := v1\<rparr>) = camera_resume s c"
  "camera_resume s (c\<lparr>cam_rom_bank := v2\<rparr>) = camera_resume s c"
  "camera_resume s (c\<lparr>cam_select := v3\<rparr>) = camera_resume s c"
  "camera_resume s (c\<lparr>cam_registers := v4\<rparr>) = camera_resume s c"
  "camera_resume s (c\<lparr>cam_host_frame := v5\<rparr>) = camera_resume s c"
  "camera_resume s (c\<lparr>cam_capture := v6\<rparr>) = camera_resume s c"
  by (simp_all add: camera_resume_def)

lemma camera_resume_capture [resume_simps]: "camera_resume (camera_capture c) c = c"
  by (simp add: camera_resume_def camera_capture_def)

lemma camera_capture_resume [resume_simps]: "camera_capture (camera_resume s c) = s"
  by (simp add: camera_resume_def camera_capture_def)


subsection \<open>The plain registers\<close>

lemma registers_resume [resume_simps]:
  "no_mbc_resume s1 (no_mbc_write_rom a v c1) = no_mbc_resume s1 c1"
  "no_mbc_resume s1 (no_mbc_write_ram a v c1) = no_mbc_resume s1 c1"
  "m161_resume s2 (m161_write_rom a v c2) = m161_resume s2 c2"
  "m161_resume s2 (m161_write_ram a v c2) = m161_resume s2 c2"
  "mmm01_resume s3 (mmm01_write_ram a v c3) = mmm01_resume s3 c3"
  "huc1_resume s4 (huc1_write_rom a v c4) = huc1_resume s4 c4"
  "huc1_resume s4 (huc1_write_ram a v c4) = huc1_resume s4 c4"
  "mbc1_resume s5 (mbc1_write_rom a v c5) = mbc1_resume s5 c5"
  "mbc1_resume s5 (mbc1_write_ram a v c5) = mbc1_resume s5 c5"
  "mbc2_resume s6 (mbc2_write_rom a v c6) = mbc2_resume s6 c6"
  "mbc5_resume s7 (mbc5_write_rom a v c7) = mbc5_resume s7 c7"
  "mbc5_resume s7 (mbc5_write_ram a v c7) = mbc5_resume s7 c7"
  by (simp_all add: no_mbc_write_rom_def no_mbc_write_ram_def m161_write_rom_def m161_write_ram_def
      mmm01_write_ram_def huc1_write_rom_def huc1_write_ram_def mbc1_write_rom_def mbc1_write_ram_def
      mbc2_write_rom_def mbc5_write_rom_def mbc5_write_ram_def resume_simps split: huc1_io_mode.split)

lemma mmm01_write_rom_resume [resume_simps]: "mmm01_resume s (mmm01_write_rom a v c) = mmm01_resume s c"
  by (simp add: mmm01_write_rom_def mmm01_write_rom_bank_low_def mmm01_write_ram_bank_low_def Let_def resume_simps)

lemma mbc2_write_ram_resume: "mbc2_write_ram a v c = Inr c' \<Longrightarrow> mbc2_resume s c' = mbc2_resume s c"
  by (auto simp: mbc2_write_ram_def res_map_def resume_simps split: if_splits sum.splits)

subsection \<open>The clocks\<close>

lemma latch_resume [resume_simps]: "mbc3_resume s (latch_rtc_if_needed v c) = mbc3_resume s c"
  by (simp add: latch_rtc_if_needed_def resume_simps)

lemma note_resume [resume_simps]:
  "mbc3_resume s (note_rtc_access_timing t c) = mbc3_resume s c"
  "mbc3_resume s (note_rtc_register_write reg c) = mbc3_resume s c"
  by (simp_all add: note_rtc_access_timing_def note_rtc_register_write_def resume_simps)

lemma mbc3_resume_accesses [resume_simps]:
  "mbc3_resume s (mbc3_write_rom a v c) = mbc3_resume s c"
  "mbc3_resume s (snd (mbc3_read_ram_timed a t c)) = mbc3_resume s c"
  "mbc3_resume s (mbc3_write_ram_timed a v t c) = mbc3_resume s c"
  "mbc3_resume s (mbc3_advance_rtc_seconds n c) = mbc3_resume s c"
  "mbc3_resume s (mbc3_advance_rtc_clock_ticks n c) = mbc3_resume s c"
  by (simp_all add: mbc3_write_rom_def mbc3_read_ram_timed_def mbc3_write_ram_timed_def
      mbc3_advance_rtc_seconds_def mbc3_advance_rtc_clock_ticks_def Let_def resume_simps
      split: mbc3_ram_rtc_select.split)

lemma huc3_resume_windows [resume_simps]:
  "huc3_resume s (sync_tracked_rtc_locations c) = huc3_resume s c"
  "huc3_resume s (sync_current_time_from_mcu_window c) = huc3_resume s c"
  "huc3_resume s (sync_event_time_from_mcu_window c) = huc3_resume s c"
  "huc3_resume s (mailbox_respond v c) = huc3_resume s c"
  "huc3_resume s (set_semaphore b c) = huc3_resume s c"
  by (simp_all add: sync_tracked_rtc_locations_def sync_current_time_from_mcu_window_def
      sync_event_time_from_mcu_window_def mailbox_respond_def set_semaphore_def resume_simps)

lemma huc3_resume_commands [resume_simps]:
  "huc3_resume s (write_mcu_nibble a v c) = huc3_resume s c"
  "huc3_resume s (execute_extended_command v c) = huc3_resume s c"
  by (simp_all add: write_mcu_nibble_def execute_extended_command_def copy_current_time_to_io_window_def
      apply_io_window_current_time_preserving_event_delta_def Let_def resume_simps)

lemma huc3_resume_mailbox [resume_simps]:
  "huc3_resume s (execute_mailbox_command c) = huc3_resume s c"
  by (simp add: execute_mailbox_command_def Let_def resume_simps)

lemma huc3_resume_accesses [resume_simps]:
  "huc3_resume s (huc3_write_rom a v c) = huc3_resume s c"
  "huc3_resume s (huc3_write_ram a v c) = huc3_resume s c"
  "huc3_resume s (huc3_advance_rtc_seconds n c) = huc3_resume s c"
  by (simp_all add: huc3_write_rom_def huc3_write_ram_def request_mcu_command_execution_def
      huc3_advance_rtc_seconds_def Let_def resume_simps split: huc3_select_mode.split)

subsection \<open>The flash\<close>

lemma res_map_Inr: "res_map f m = Inr y \<longleftrightarrow> (\<exists>x. m = Inr x \<and> y = f x)"
  by (cases m) auto

lemma mbc6_mode_resume [resume_simps]: "mbc6_resume s (mbc6_mode m c) = mbc6_resume s c"
  by (simp add: mbc6_mode_def resume_simps)

lemma erase_resume: "erase_unlocked_sector i c = Inr c' \<Longrightarrow> mbc6_resume s c' = mbc6_resume s c"
  by (auto simp: erase_unlocked_sector_def erase_sector_index_def res_map_Inr resume_simps split: if_splits)

lemma erase_sectors_resume: "erase_sectors is c = Inr c' \<Longrightarrow> mbc6_resume s c' = mbc6_resume s c"
  by (induction "is" arbitrary: c) (auto simp: res_bind_eq_Inr dest: erase_resume)

lemma commit_resume: "commit_program_buffer p b c = Inr c' \<Longrightarrow> mbc6_resume s c' = mbc6_resume s c"
  by (auto simp: commit_program_buffer_def res_map_Inr resume_simps split: mbc6_program_target.splits if_splits)

lemma program_write_resume: "program_write p i v c = Inr (b, p', c') \<Longrightarrow> mbc6_resume s c' = mbc6_resume s c"
  by (auto simp: program_write_def res_map_Inr res_bind_eq_Inr Let_def dest: commit_resume split: if_splits)

lemma program_step_resume: "program_step m p i v c = Inr c' \<Longrightarrow> mbc6_resume s c' = mbc6_resume s c"
  by (auto simp: program_step_def res_map_Inr resume_simps dest: program_write_resume)

lemma erase_command_resume: "execute_erase_command i v c = Inr c' \<Longrightarrow> mbc6_resume s c' = mbc6_resume s c"
  by (auto simp: execute_erase_command_def erase_chip_def erase_sector_def res_map_Inr resume_simps
      dest: erase_resume erase_sectors_resume split: if_splits)

lemma extended_command_resume [resume_simps]:
  "mbc6_resume s (execute_flash_extended_command v c) = mbc6_resume s c"
  by (simp add: execute_flash_extended_command_def set_sector0_protected_def Let_def resume_simps)

lemma write_flash_resume: "write_flash i v c = Inr c' \<Longrightarrow> mbc6_resume s c' = mbc6_resume s c"
  by (cases "mbc6_flash_mode c")
    (auto simp: write_flash_def unlock_step_def Let_def resume_simps
      dest!: erase_command_resume [where s = s] program_step_resume [where s = s] split: if_splits)

lemma mbc6_write_rom_resume: "mbc6_write_rom a v c = Inr c' \<Longrightarrow> mbc6_resume s c' = mbc6_resume s c"
  by (auto simp: mbc6_write_rom_def write_flash_window_def Let_def resume_simps
      dest!: write_flash_resume [where s = s] split: if_splits)

lemma mbc6_write_ram_resume [resume_simps]: "mbc6_resume s (mbc6_write_ram a v c) = mbc6_resume s c"
  by (simp add: mbc6_write_ram_def resume_simps)

subsection \<open>The EEPROM\<close>

lemma mbc7_pins_resume [resume_simps]:
  "mbc7_resume s (mbc7_command cmd c) = mbc7_resume s c"
  "mbc7_resume s (mbc7_do b c) = mbc7_resume s c"
  "mbc7_resume s (mbc7_idle c) = mbc7_resume s c"
  by (simp_all add: mbc7_command_def mbc7_do_def mbc7_idle_def resume_simps)

lemma write_eeprom_word_resume: "write_eeprom_word a v c = Inr c' \<Longrightarrow> mbc7_resume s c' = mbc7_resume s c"
  by (auto simp: write_eeprom_word_def res_bind_eq_Inr res_map_Inr resume_simps Let_def)

lemma write_eeprom_words_resume: "write_eeprom_words as v c = Inr c' \<Longrightarrow> mbc7_resume s c' = mbc7_resume s c"
  by (induction "as" arbitrary: c) (auto simp: res_bind_eq_Inr dest: write_eeprom_word_resume)

lemma commit_eeprom_resume: "commit_eeprom_data t v c = Inr c' \<Longrightarrow> mbc7_resume s c' = mbc7_resume s c"
  by (auto simp: commit_eeprom_data_def res_map_Inr resume_simps
      dest: write_eeprom_word_resume write_eeprom_words_resume split: if_splits mbc7_eeprom_data_target.splits)

lemma extended_eeprom_resume: "finish_eeprom_extended_command v c = Inr c' \<Longrightarrow> mbc7_resume s c' = mbc7_resume s c"
  by (auto simp: finish_eeprom_extended_command_def Let_def resume_simps split: if_splits)

lemma finish_eeprom_resume: "finish_eeprom_command v c = Inr c' \<Longrightarrow> mbc7_resume s c' = mbc7_resume s c"
  by (auto simp: finish_eeprom_command_def Let_def res_map_Inr resume_simps
      dest: write_eeprom_word_resume extended_eeprom_resume split: if_splits)

lemma clock_eeprom_resume: "clock_eeprom c = Inr c' \<Longrightarrow> mbc7_resume s c' = mbc7_resume s c"
  by (auto simp: clock_eeprom_def Let_def resume_simps
      dest: finish_eeprom_resume commit_eeprom_resume split: if_splits mbc7_eeprom_command.splits)

lemma mbc7_write_register_resume: "mbc7_write_register a v c = Inr c' \<Longrightarrow> mbc7_resume s c' = mbc7_resume s c"
  by (auto simp: mbc7_write_register_def write_eeprom_pins_def Let_def resume_simps
      dest!: clock_eeprom_resume [where s = s] split: if_splits)

lemma mbc7_write_rom_resume [resume_simps]: "mbc7_resume s (mbc7_write_rom a v c) = mbc7_resume s c"
  by (simp add: mbc7_write_rom_def resume_simps)

subsection \<open>The camera\<close>

lemma capture_resume [resume_simps]:
  "camera_resume s (maybe_complete_capture t c) = camera_resume s c"
  "camera_resume s (start_new_capture t c) = camera_resume s c"
  "camera_resume s (pause_capture t c) = camera_resume s c"
  "camera_resume s (resume_capture t c) = camera_resume s c"
  by (simp_all add: maybe_complete_capture_def commit_staged_tiles_def start_new_capture_def
      pause_capture_def resume_capture_def Let_def resume_simps split: option.split camera_capture_state.split)

lemma camera_resume_accesses [resume_simps]:
  "camera_resume s (camera_write_rom a v c) = camera_resume s c"
  "camera_resume s (snd (camera_read_ram_timed a t c)) = camera_resume s c"
  "camera_resume s (camera_write_ram_timed a v t c) = camera_resume s c"
  by (simp_all add: camera_write_rom_def camera_read_ram_timed_def camera_write_ram_timed_def
      camera_write_resolved_def camera_write_register_def Let_def resume_simps split: camera_capture_state.split)

section \<open>Any access to the cartridge\<close>

lemma rom_write_resume:
  "device_write_rom a v d = Inr d' \<Longrightarrow> resume_device s d' = resume_device s d"
  by (cases d) (auto simp: resume_device_def resume_simps res_map_Inr split: device_save_state.split
      dest: mbc6_write_rom_resume)

lemma ram_read_resume:
  "device_read_ram_timed a t d = Inr (v, d') \<Longrightarrow> resume_device s d' = resume_device s d"
  by (cases d) (auto simp: device_read_ram_timed_def resume_device_def resume_simps res_map_Inr case_prod_beta
      split: device_save_state.split)

lemma ram_write_resume:
  "device_write_ram_timed a v t d = Inr d' \<Longrightarrow> resume_device s d' = resume_device s d"
  by (cases d) (auto simp: device_write_ram_timed_def resume_device_def resume_simps res_map_Inr
      dest: mbc2_write_ram_resume mbc7_write_register_resume split: device_save_state.split)

lemma linear_restore_resumes:
  "restore_linear_ram e p s0 (c :: no_mbc_cartridge) = Inr c' \<Longrightarrow> no_mbc_resume s1 c' = no_mbc_resume s1 c"
  "restore_linear_ram e p s0 (m :: mmm01_cartridge) = Inr m' \<Longrightarrow> mmm01_resume s2 m' = mmm01_resume s2 m"
  "restore_linear_ram e p s0 (h :: huc1_cartridge) = Inr h' \<Longrightarrow> huc1_resume s3 h' = huc1_resume s3 h"
  "restore_linear_ram e p s0 (b :: mbc1_cartridge) = Inr b' \<Longrightarrow> mbc1_resume s4 b' = mbc1_resume s4 b"
  "restore_linear_ram e p s0 (q :: mbc5_cartridge) = Inr q' \<Longrightarrow> mbc5_resume s5 q' = mbc5_resume s5 q"
  by (auto simp: restore_linear_ram_def kind_mismatch_def resume_simps split: option.splits if_splits bool.splits)

lemma huc3_load_resume [resume_simps]: "huc3_resume s (huc3_load_persistent p c) = huc3_resume s c"
  by (simp add: huc3_load_persistent_def huc3_initialize_runtime_state_def resume_simps)

lemma mbc3_restore_resume: "mbc3_restore p c = Inr c' \<Longrightarrow> mbc3_resume s c' = mbc3_resume s c"
  by (auto simp: mbc3_restore_def kind_mismatch_def clear_runtime_rtc_snapshot_state_def Let_def resume_simps
      split: if_splits option.splits bool.splits persistent_cart_state.splits)

lemma restore_resume:
  "device_restore_persistent_state p d = Inr d' \<Longrightarrow> resume_device s d' = resume_device s d"
  by (cases d) (auto simp: restored_as_Inr resume_device_def no_mbc_restore_def mmm01_restore_def m161_restore_def
      huc1_restore_def mbc1_restore_def mbc5_restore_def mbc2_restore_def mbc6_restore_def mbc7_restore_def
      huc3_restore_def camera_restore_def kind_mismatch_def resume_simps
      dest: linear_restore_resumes mbc3_restore_resume
      split: device_save_state.split if_splits persistent_cart_state.splits option.splits)

end
