(* ===== verification/Cart_Slot.thy ===== *)
theory Cart_Slot
  imports Cart_Validate Cart_Rewind
begin

text \<open>
  The cartridge slot (\<open>cartridge/slot.rs\<close>): loading an image (parse the header, classify, check,
  build the mapper with its power-up registers), the operations the bus and the machine call,
  and the run-time save states.
\<close>

section \<open>Fingerprints\<close>

text \<open>64-bit FNV-1a over the bytes of the image (\<open>save_state.rs\<close>).\<close>

record byte_fingerprint =
  fp_len :: u64
  fp_fnv1a64 :: u64

definition FNV_OFFSET_BASIS :: u64 where "FNV_OFFSET_BASIS = 0xcbf29ce484222325"
definition FNV_PRIME :: u64 where "FNV_PRIME = 0x00000100000001b3"

definition fingerprint_from_bytes :: "u8 list \<Rightarrow> byte_fingerprint" where
  "fingerprint_from_bytes bytes =
     \<lparr>fp_len = of_nat (length bytes),
      fp_fnv1a64 = fold (\<lambda>b hash. (hash XOR ucast b) * FNV_PRIME) bytes FNV_OFFSET_BASIS\<rparr>"

record cartridge_slot =
  slot_device :: "cartridge_device option"
  slot_fingerprint :: "byte_fingerprint option"

definition slot_empty :: cartridge_slot where
  "slot_empty = \<lparr>slot_device = None, slot_fingerprint = None\<rparr>"

definition with_loaded_device :: "cartridge_device \<Rightarrow> byte_fingerprint \<Rightarrow> cartridge_slot" where
  "with_loaded_device d fp = \<lparr>slot_device = Some d, slot_fingerprint = Some fp\<rparr>"

section \<open>Building the mappers\<close>

text \<open>\<open>(len != 0).then(|| vec![0; len])\<close>\<close>

definition zeroed_ram :: "nat \<Rightarrow> u8 list option" where
  "zeroed_ram len = (if len \<noteq> 0 then Some (replicate len 0) else None)"

definition new_no_mbc :: "u8 list \<Rightarrow> cartridge_header \<Rightarrow> cartridge_classification \<Rightarrow> no_mbc_cartridge" where
  "new_no_mbc rom h cls =
     \<lparr>cart_rom = rom, cart_header = h, cart_classification = cls,
      cart_ram = (if cls_raw_type cls \<in> {0x08, 0x09} then Some (replicate NO_MBC_SUPPORTED_RAM_BYTES 0) else None),
      cart_has_battery = (cls_raw_type cls = 0x09)\<rparr>"

definition new_mmm01 :: "u8 list \<Rightarrow> cartridge_header \<Rightarrow> cartridge_classification \<Rightarrow> nat \<Rightarrow> mmm01_cartridge" where
  "new_mmm01 rom h cls ram_len =
     \<lparr>cart_rom = rom, cart_header = h, cart_classification = cls, cart_ram = zeroed_ram ram_len,
      cart_has_battery = (cls_raw_type cls = 0x0D), mmm_mapped = False, mmm_ram_enabled = False,
      mmm_ram_bank_mask = 0, mmm_rom_bank_low = 0, mmm_rom_bank_mid = 0, mmm_ram_bank_low = 0,
      mmm_ram_bank_high = 0, mmm_rom_bank_high = 0, mmm_mode_write_disable = False, mmm_banking_mode = 0,
      mmm_rom_bank_mask = 0, mmm_multiplex_enabled = False\<rparr>"

definition new_m161 :: "u8 list \<Rightarrow> cartridge_header \<Rightarrow> cartridge_classification \<Rightarrow> m161_cartridge" where
  "new_m161 rom h cls =
     \<lparr>cart_rom = rom, cart_header = h, cart_classification = cls, m161_selected_bank = 0,
      m161_bank_switch_locked = False, m161_last_bank_write = None\<rparr>"

definition new_huc1 :: "u8 list \<Rightarrow> cartridge_header \<Rightarrow> cartridge_classification \<Rightarrow> nat \<Rightarrow> huc1_cartridge" where
  "new_huc1 rom h cls ram_len =
     \<lparr>cart_rom = rom, cart_header = h, cart_classification = cls, cart_ram = Some (replicate ram_len 0),
      cart_has_battery = True, huc1_mode = Huc1Ram_mode, huc1_rom_bank = 0, huc1_ram_bank = 0,
      huc1_ir_emitter_on = False, huc1_ir_light_detected = False\<rparr>"

definition huc3_rtc_default :: huc3_rtc_state where
  "huc3_rtc_default =
     \<lparr>h3_minutes_of_day = 0, h3_days = 0, h3_subminute_seconds = 0, h3_event_minutes_of_day = 0,
      h3_event_days = 0\<rparr>"

definition new_huc3 :: "u8 list \<Rightarrow> cartridge_header \<Rightarrow> cartridge_classification \<Rightarrow> nat \<Rightarrow> huc3_cartridge" where
  "new_huc3 rom h cls ram_len =
     huc3_initialize_runtime_state
       \<lparr>cart_rom = rom, cart_header = h, cart_classification = cls, huc3_ram = replicate ram_len 0,
        huc3_has_battery = True, huc3_select_mode = RamReadOnly, huc3_rom_bank = 0, huc3_ram_bank = 0,
        huc3_access_address = 0, huc3_mailbox = mailbox_default,
        huc3_mcu_ram = replicate HUC3_MCU_RAM_NIBBLE_COUNT 0, huc3_rtc = huc3_rtc_default,
        huc3_ir_emitter_on = False, huc3_ir_light_detected = False, huc3_last_control_write = None,
        huc3_last_unsupported_command = None, huc3_last_unsupported_argument = None\<rparr>"

definition new_mbc1 :: "u8 list \<Rightarrow> cartridge_header \<Rightarrow> cartridge_classification \<Rightarrow> mbc1_layout \<Rightarrow> mbc1_cartridge" where
  "new_mbc1 rom h cls l =
     \<lparr>cart_rom = rom, cart_header = h, cart_classification = cls, cart_ram = zeroed_ram (lay1_ram_len l),
      cart_has_battery = (cls_raw_type cls = 0x03), mbc1_variant_of = lay1_variant l,
      mbc1_wiring_of = lay1_wiring l, mbc1_ram_enabled = False, mbc1_rom_bank_low5 = 0,
      mbc1_secondary_bank = 0, mbc1_banking_mode = 0\<rparr>"

definition new_mbc2 :: "u8 list \<Rightarrow> cartridge_header \<Rightarrow> cartridge_classification \<Rightarrow> mbc2_cartridge" where
  "new_mbc2 rom h cls =
     \<lparr>cart_rom = rom, cart_header = h, cart_classification = cls,
      mbc2_ram_nibbles = replicate MBC2_RAM_CELL_COUNT 0, mbc2_has_battery = (cls_raw_type cls = 0x06),
      mbc2_ram_enabled = False, mbc2_rom_bank_low4 = 0\<rparr>"

definition new_mbc3 :: "u8 list \<Rightarrow> cartridge_header \<Rightarrow> cartridge_classification \<Rightarrow> mbc3_variant \<Rightarrow> mbc3_cartridge" where
  "new_mbc3 rom h cls variant =
     (let ram_len = (case ram_decoded_bytes (hdr_ram_size h) of Some n \<Rightarrow> n | None \<Rightarrow> 0)
      in \<lparr>cart_rom = rom, cart_header = h, cart_classification = cls,
          cart_ram = (if cls_raw_type cls \<in> {0x10, 0x12, 0x13} \<and> ram_len \<noteq> 0
                      then Some (replicate ram_len 0) else None),
          cart_has_battery = (cls_raw_type cls \<in> {0x0F, 0x10, 0x13}),
          mbc3_has_rtc = (cls_raw_type cls \<in> {0x0F, 0x10}), mbc3_variant_of = variant,
          mbc3_ram_rtc_enabled = False, mbc3_rom_bank = 0, mbc3_select = SelectRamBank 0,
          mbc3_rtc_live = rtc_default, mbc3_rtc_latched = rtc_default, mbc3_rtc_latched_valid = False,
          mbc3_rtc_latch_armed = False, mbc3_rtc_subsecond_ticks = 0, mbc3_rtc_access_ready_at = None\<rparr>)"

text \<open>\<open>rom.resize(effective_bytes, 0xFF)\<close>, and bank 1 in the window at power-up.\<close>

definition padded_rom :: "u8 list \<Rightarrow> nat \<Rightarrow> u8 list" where
  "padded_rom rom len =
     (if length rom < len then rom @ replicate (len - length rom) RAM_ABSENT_READ_VALUE else rom)"

definition new_mbc5 ::
    "u8 list \<Rightarrow> cartridge_header \<Rightarrow> cartridge_classification \<Rightarrow> mbc5_validation_layout \<Rightarrow> mbc5_cartridge" where
  "new_mbc5 rom h cls l =
     \<lparr>cart_rom = padded_rom rom (lay_effective_bytes (lay5_rom_layout l)), cart_header = h,
      cart_classification = cls, cart_ram = zeroed_ram (lay5_ram_len l),
      cart_has_battery = mbc5_variant_has_battery (lay5_variant l),
      mbc5_has_rumble = mbc5_variant_has_rumble (lay5_variant l), mbc5_variant_of = lay5_variant l,
      mbc5_rom_layout = lay5_rom_layout l, mbc5_ram_enabled = False, mbc5_rom_bank_low8 = 1,
      mbc5_rom_bank_high1 = 0, mbc5_ram_bank_raw = 0, mbc5_rumble_flag = False\<rparr>"

definition new_mbc6 :: "u8 list \<Rightarrow> cartridge_header \<Rightarrow> cartridge_classification \<Rightarrow> mbc6_cartridge" where
  "new_mbc6 rom h cls =
     \<lparr>cart_rom = rom, cart_header = h, cart_classification = cls,
      mbc6_ram = replicate MBC6_SUPPORTED_RAM_BYTES 0, mbc6_flash = replicate MBC6_FLASH_BYTES 0xFF,
      mbc6_hidden_region = replicate MBC6_HIDDEN_BYTES 0xFF, mbc6_has_battery = True,
      mbc6_ram_enabled = False, mbc6_flash_enabled = False, mbc6_flash_write_enabled = False,
      mbc6_ram_bank_a = 0, mbc6_ram_bank_b = 1, mbc6_rom_flash_bank_a = 2, mbc6_rom_flash_bank_b = 3,
      mbc6_window_select_a = SelectRom, mbc6_window_select_b = SelectRom, mbc6_sector0_protected = False,
      mbc6_flash_mode = ReadArray\<rparr>"

definition new_mbc7 :: "u8 list \<Rightarrow> cartridge_header \<Rightarrow> cartridge_classification \<Rightarrow> mbc7_cartridge" where
  "new_mbc7 rom h cls =
     \<lparr>cart_rom = rom, cart_header = h, cart_classification = cls,
      mbc7_eeprom = replicate MBC7_EEPROM_BYTES 0xFF, mbc7_ram_enabled = False,
      mbc7_sensor_eeprom_enabled = False, mbc7_rom_bank = 1, mbc7_accelerometer_input = accelerometer_neutral,
      mbc7_accelerometer_latch_armed = False, mbc7_latched_x = MBC7_ACCELEROMETER_UNLATCHED_VALUE,
      mbc7_latched_y = MBC7_ACCELEROMETER_UNLATCHED_VALUE, mbc7_eeprom_pins = eeprom_pins_default,
      mbc7_eeprom_command = EepromIdle, mbc7_eeprom_write_enabled = False\<rparr>"

definition new_camera :: "u8 list \<Rightarrow> cartridge_header \<Rightarrow> cartridge_classification \<Rightarrow> pocket_camera" where
  "new_camera rom h cls =
     \<lparr>cart_rom = rom, cart_header = h, cart_classification = cls,
      cam_ram = replicate POCKET_CAMERA_SUPPORTED_RAM_BYTES 0, cam_ram_enabled = False, cam_rom_bank = 1,
      cam_select = 0, cam_registers = replicate CAMERA_REGISTER_COUNT 0, cam_host_frame = placeholder_frame,
      cam_capture = CaptureIdle\<rparr>"

section \<open>Loading\<close>

record cartridge_load_report =
  report_cartridge :: cartridge_slot
  report_diagnostics :: "cartridge_diagnostic list"

definition checked_device :: "'a validation \<Rightarrow> ('a \<Rightarrow> cartridge_device) \<Rightarrow> cartridge_device validation" where
  "checked_device check build = v_bind check (\<lambda>x. v_return (build x))"

definition load_device ::
    "u8 list \<Rightarrow> cartridge_header \<Rightarrow> validation_context \<Rightarrow> cartridge_device validation" where
  "load_device rom h ctx =
     (let cls = ctx_classification ctx; size = length rom
      in case cls_selection cls of
           SelectUnsupported category \<Rightarrow> v_reject ctx (UnsupportedFamily category)
         | SelectSupported fam \<Rightarrow>
             (case fam of
                FamilyNoMbc \<Rightarrow> checked_device (validate_no_mbc h size ctx) (\<lambda>_. DevNoMbc (new_no_mbc rom h cls))
              | FamilyMmm01 \<Rightarrow> checked_device (validate_mmm01 h size ctx) (\<lambda>n. DevMmm01 (new_mmm01 rom h cls n))
              | FamilyM161 \<Rightarrow> checked_device (validate_m161 h size ctx) (\<lambda>_. DevM161 (new_m161 rom h cls))
              | FamilyHuc1 \<Rightarrow> checked_device (validate_huc1 h size ctx) (\<lambda>n. DevHuc1 (new_huc1 rom h cls n))
              | FamilyHuc3 \<Rightarrow> checked_device (validate_huc3 h size ctx) (\<lambda>n. DevHuc3 (new_huc3 rom h cls n))
              | FamilyMbc1 \<Rightarrow> checked_device (validate_mbc1 h size ctx) (\<lambda>l. DevMbc1 (new_mbc1 rom h cls l))
              | FamilyMbc2 \<Rightarrow> checked_device (validate_mbc2 h size ctx) (\<lambda>_. DevMbc2 (new_mbc2 rom h cls))
              | FamilyMbc3 \<Rightarrow> checked_device (validate_mbc3 h size ctx) (\<lambda>v. DevMbc3 (new_mbc3 rom h cls v))
              | FamilyMbc5 \<Rightarrow> checked_device (validate_mbc5 h size ctx) (\<lambda>l. DevMbc5 (new_mbc5 rom h cls l))
              | FamilyMbc6 \<Rightarrow> checked_device (validate_mbc6 h size ctx) (\<lambda>_. DevMbc6 (new_mbc6 rom h cls))
              | FamilyMbc7 \<Rightarrow> checked_device (validate_mbc7 h size ctx) (\<lambda>_. DevMbc7 (new_mbc7 rom h cls))
              | FamilyPocketCamera \<Rightarrow>
                  checked_device (validate_pocket_camera h size ctx) (\<lambda>_. DevPocketCamera (new_camera rom h cls))))"

definition load_cartridge ::
    "u8 list \<Rightarrow> compatibility_policy \<Rightarrow> (cartridge_load_error + cartridge_load_report) res" where
  "load_cartridge rom policy =
     (case parse_for_load rom of
        Inl e \<Rightarrow> Inr (Inl (HeaderParse e))
      | Inr h \<Rightarrow>
          (let ctx = \<lparr>ctx_policy = policy, ctx_classification = classify_loaded_cartridge h rom policy\<rparr>
           in res_map (\<lambda>r. case r of
                  Inl e \<Rightarrow> Inl e
                | Inr (d, diagnostics) \<Rightarrow>
                    Inr \<lparr>report_cartridge = with_loaded_device d (fingerprint_from_bytes rom),
                         report_diagnostics = diagnostics\<rparr>)
                (load_device rom h ctx [])))"

section \<open>The slot's operations\<close>

definition slot_state :: "cartridge_slot \<Rightarrow> cartridge_slot_state" where
  "slot_state s = (case slot_device s of None \<Rightarrow> SlotEmpty | Some d \<Rightarrow> device_slot_state d)"

definition slot_is_empty :: "cartridge_slot \<Rightarrow> bool" where
  "slot_is_empty s = (slot_device s = None)"

definition slot_header :: "cartridge_slot \<Rightarrow> cartridge_header option" where
  "slot_header s = map_option device_header (slot_device s)"

definition slot_classification :: "cartridge_slot \<Rightarrow> cartridge_classification option" where
  "slot_classification s = map_option device_classification (slot_device s)"

definition slot_effective_rom_layout :: "cartridge_slot \<Rightarrow> cartridge_rom_layout option" where
  "slot_effective_rom_layout s = map_option device_rom_layout (slot_device s)"

definition slot_rom_fingerprint :: "cartridge_slot \<Rightarrow> byte_fingerprint option" where
  "slot_rom_fingerprint s =
     (case slot_fingerprint s of
        Some fp \<Rightarrow> Some fp
      | None \<Rightarrow> map_option (\<lambda>d. fingerprint_from_bytes (device_rom_bytes d)) (slot_device s))"

definition slot_read_rom :: "u16 \<Rightarrow> cartridge_slot \<Rightarrow> u8 res" where
  "slot_read_rom a s = (case slot_device s of None \<Rightarrow> Inr RAM_ABSENT_READ_VALUE | Some d \<Rightarrow> device_read_rom a d)"

definition slot_mapped_rom_window :: "u16 \<Rightarrow> cartridge_slot \<Rightarrow> cartridge_mapped_rom_window option" where
  "slot_mapped_rom_window a s =
     (case slot_device s of None \<Rightarrow> None | Some d \<Rightarrow> device_mapped_rom_window a d)"

definition slot_read_ram :: "u16 \<Rightarrow> cartridge_slot \<Rightarrow> u8 res" where
  "slot_read_ram a s = (case slot_device s of None \<Rightarrow> Inr RAM_ABSENT_READ_VALUE | Some d \<Rightarrow> device_read_ram a d)"

definition slot_describe_external_access :: "u16 \<Rightarrow> cartridge_slot \<Rightarrow> cartridge_external_access_info" where
  "slot_describe_external_access a s =
     (case slot_device s of None \<Rightarrow> access_info_no_device a | Some d \<Rightarrow> device_describe_external_access a d)"

definition slot_rtc_access_ready_at :: "cartridge_slot \<Rightarrow> u64 option" where
  "slot_rtc_access_ready_at s = (case slot_device s of None \<Rightarrow> None | Some d \<Rightarrow> device_rtc_access_ready_at d)"

definition with_device :: "(cartridge_device \<Rightarrow> cartridge_device res) \<Rightarrow> cartridge_slot \<Rightarrow> cartridge_slot res" where
  "with_device f s =
     (case slot_device s of None \<Rightarrow> Inr s | Some d \<Rightarrow> res_map (\<lambda>d'. s\<lparr>slot_device := Some d'\<rparr>) (f d))"

definition slot_write_rom :: "u16 \<Rightarrow> u8 \<Rightarrow> cartridge_slot \<Rightarrow> cartridge_slot res" where
  "slot_write_rom a v = with_device (device_write_rom a v)"

definition slot_write_ram :: "u16 \<Rightarrow> u8 \<Rightarrow> cartridge_slot \<Rightarrow> cartridge_slot res" where
  "slot_write_ram a v = with_device (device_write_ram a v)"

definition slot_write_ram_timed :: "u16 \<Rightarrow> u8 \<Rightarrow> u64 \<Rightarrow> cartridge_slot \<Rightarrow> cartridge_slot res" where
  "slot_write_ram_timed a v t = with_device (device_write_ram_timed a v t)"

definition slot_read_ram_timed :: "u16 \<Rightarrow> u64 \<Rightarrow> cartridge_slot \<Rightarrow> (u8 \<times> cartridge_slot) res" where
  "slot_read_ram_timed a t s =
     (case slot_device s of
        None \<Rightarrow> Inr (RAM_ABSENT_READ_VALUE, s)
      | Some d \<Rightarrow> res_map (\<lambda>(v, d'). (v, s\<lparr>slot_device := Some d'\<rparr>)) (device_read_ram_timed a t d))"

definition slot_advance_rtc_seconds :: "u64 \<Rightarrow> cartridge_slot \<Rightarrow> cartridge_slot" where
  "slot_advance_rtc_seconds n s = s\<lparr>slot_device := map_option (device_advance_rtc_seconds n) (slot_device s)\<rparr>"

definition slot_advance_mbc3_rtc_clock_ticks :: "u64 \<Rightarrow> cartridge_slot \<Rightarrow> cartridge_slot" where
  "slot_advance_mbc3_rtc_clock_ticks n s =
     s\<lparr>slot_device := map_option (device_advance_mbc3_rtc_clock_ticks n) (slot_device s)\<rparr>"

definition slot_advance_huc3_rtc_seconds :: "u64 \<Rightarrow> cartridge_slot \<Rightarrow> cartridge_slot" where
  "slot_advance_huc3_rtc_seconds n s =
     s\<lparr>slot_device := map_option (device_advance_huc3_rtc_seconds n) (slot_device s)\<rparr>"

record cartridge_snapshot =
  snap_state :: cartridge_slot_state
  snap_rtc_access_ready_at :: "u64 option"
  snap_camera_capture_ready_at :: "u64 option"
  snap_camera_registers_selected :: bool

definition slot_snapshot :: "cartridge_slot \<Rightarrow> cartridge_snapshot" where
  "slot_snapshot s =
     \<lparr>snap_state = slot_state s, snap_rtc_access_ready_at = slot_rtc_access_ready_at s,
      snap_camera_capture_ready_at =
        (case slot_device s of None \<Rightarrow> None | Some d \<Rightarrow> device_camera_capture_ready_at d),
      snap_camera_registers_selected =
        (case slot_device s of None \<Rightarrow> False | Some d \<Rightarrow> device_camera_registers_selected d)\<rparr>"

definition slot_persistence_metadata :: "cartridge_slot \<Rightarrow> cartridge_persistence_metadata" where
  "slot_persistence_metadata s =
     (case slot_device s of
        None \<Rightarrow> \<lparr>meta_has_battery = False, meta_has_rtc = False, meta_profile = ProfileNone\<rparr>
      | Some d \<Rightarrow> device_persistence_metadata d)"

definition slot_has_rumble :: "cartridge_slot \<Rightarrow> bool" where
  "slot_has_rumble s = (case slot_device s of None \<Rightarrow> False | Some d \<Rightarrow> device_has_rumble d)"

definition slot_rumble_on :: "cartridge_slot \<Rightarrow> bool" where
  "slot_rumble_on s = (case slot_device s of None \<Rightarrow> False | Some d \<Rightarrow> device_rumble_on d)"

definition slot_has_pocket_camera :: "cartridge_slot \<Rightarrow> bool" where
  "slot_has_pocket_camera s = (case slot_device s of None \<Rightarrow> False | Some d \<Rightarrow> device_has_pocket_camera d)"

definition slot_has_mbc7_accelerometer :: "cartridge_slot \<Rightarrow> bool" where
  "slot_has_mbc7_accelerometer s =
     (case slot_device s of None \<Rightarrow> False | Some d \<Rightarrow> device_has_mbc7_accelerometer d)"

definition slot_persistent_state :: "cartridge_slot \<Rightarrow> persistent_cart_state" where
  "slot_persistent_state s =
     (case slot_device s of None \<Rightarrow> PersistNone | Some d \<Rightarrow> device_persistent_state d)"

definition slot_update ::
    "('e + cartridge_device) \<Rightarrow> cartridge_slot \<Rightarrow> 'e + cartridge_slot" where
  "slot_update r s = (case r of Inl e \<Rightarrow> Inl e | Inr d \<Rightarrow> Inr (s\<lparr>slot_device := Some d\<rparr>))"

definition slot_restore_persistent_state ::
    "persistent_cart_state \<Rightarrow> cartridge_slot \<Rightarrow> persistent_state_error + cartridge_slot" where
  "slot_restore_persistent_state p s =
     (case slot_device s of
        Some d \<Rightarrow> slot_update (device_restore_persistent_state p d) s
      | None \<Rightarrow> if p = PersistNone then Inr s else kind_mismatch ''None'' p)"

definition slot_set_mbc7_accelerometer_input ::
    "mbc7_accelerometer_input \<Rightarrow> cartridge_slot \<Rightarrow> mbc7_accelerometer_error + cartridge_slot" where
  "slot_set_mbc7_accelerometer_input inp s =
     (case slot_device s of
        Some d \<Rightarrow> slot_update (device_set_mbc7_accelerometer_input inp d) s
      | None \<Rightarrow> Inl AccelerometerUnsupportedCartridge)"

definition slot_set_pocket_camera_frame ::
    "pocket_camera_frame \<Rightarrow> cartridge_slot \<Rightarrow> pocket_camera_frame_error + cartridge_slot" where
  "slot_set_pocket_camera_frame frame s =
     (case slot_device s of
        Some d \<Rightarrow> slot_update (device_set_pocket_camera_frame frame d) s
      | None \<Rightarrow> Inl CameraUnsupportedCartridge)"

definition slot_clear_pocket_camera_frame ::
    "cartridge_slot \<Rightarrow> pocket_camera_frame_error + cartridge_slot" where
  "slot_clear_pocket_camera_frame s =
     (case slot_device s of
        Some d \<Rightarrow> slot_update (device_clear_pocket_camera_frame d) s
      | None \<Rightarrow> Inl CameraUnsupportedCartridge)"

section \<open>Run-time save states\<close>

type_synonym cartridge_runtime_save_state = "device_save_state option"

definition runtime_slot_state :: "cartridge_runtime_save_state \<Rightarrow> cartridge_slot_state" where
  "runtime_slot_state st = (case st of None \<Rightarrow> SlotEmpty | Some d \<Rightarrow> saved_slot_state d)"

definition runtime_payload_bytes :: "cartridge_runtime_save_state \<Rightarrow> nat" where
  "runtime_payload_bytes st = (case st of None \<Rightarrow> 0 | Some d \<Rightarrow> dynamic_payload_bytes d)"

definition slot_capture_save_state :: "cartridge_slot \<Rightarrow> cartridge_runtime_save_state" where
  "slot_capture_save_state s = map_option capture_device (slot_device s)"

definition slot_validate_save_state ::
    "cartridge_runtime_save_state \<Rightarrow> cartridge_slot \<Rightarrow> (runtime_save_error + unit) res" where
  "slot_validate_save_state st s =
     (if slot_state s \<noteq> runtime_slot_state st
      then Inr (Inl (SlotStateMismatch (slot_state s) (runtime_slot_state st)))
      else case (slot_device s, st) of
          (None, None) \<Rightarrow> Inr (Inr ())
        | (Some d, Some saved) \<Rightarrow>
            (case validate_device_save d saved of None \<Rightarrow> Inl Unreachable | Some r \<Rightarrow> Inr r)
        | _ \<Rightarrow> Inl Unreachable)"

definition slot_restore_save_state :: "cartridge_runtime_save_state \<Rightarrow> cartridge_slot \<Rightarrow> cartridge_slot res" where
  "slot_restore_save_state st s =
     (case (slot_device s, st) of
        (None, None) \<Rightarrow> Inr s
      | (Some d, Some saved) \<Rightarrow>
          (case resume_device saved d of None \<Rightarrow> Inl Unreachable | Some d' \<Rightarrow> Inr (s\<lparr>slot_device := Some d'\<rparr>))
      | _ \<Rightarrow> Inl Unreachable)"

end
