(* ===== verification/Cart_Load.thy ===== *)
theory Cart_Load
  imports Cart_Slot
begin

text \<open>
  What loading and the save states guarantee: an image is refused or becomes a cartridge that
  satisfies every invariant the mappers rely on, and a run-time save state brings back exactly
  the cartridge it was taken from.
\<close>

section \<open>Every loaded cartridge is well formed\<close>

lemma declared_whole_banks:
  assumes "header_wf h" and "declared_size h (length rom)"
  shows "0 < (case rom_bank_count (hdr_rom_size h) of Some n \<Rightarrow> n | None \<Rightarrow> 0)
    \<and> length rom = (case rom_bank_count (hdr_rom_size h) of Some n \<Rightarrow> n | None \<Rightarrow> 0) * 0x4000"
  using assms decoded_rom_banks [of "rom_raw_code (hdr_rom_size h)" "length rom"]
  by (auto simp: header_wf_def declared_size_def)

text \<open>The image is kept, followed by the padding of a permissive MBC5 load.\<close>

definition holds_image :: "u8 list \<Rightarrow> cartridge_device \<Rightarrow> bool" where
  "holds_image rom d = (\<exists>n. device_rom_bytes d = rom @ replicate n RAM_ABSENT_READ_VALUE)"

definition loaded_soundly :: "u8 list \<Rightarrow> cartridge_header \<Rightarrow> bool \<Rightarrow> cartridge_device \<Rightarrow> bool" where
  "loaded_soundly rom h strict d =
     (device_ok d \<and> device_header d = h \<and> holds_image rom d
      \<and> (strict \<longrightarrow> device_rom_bytes d = rom
           \<and> (device_whole d \<or> device_slot_state d = SlotM161)))"

lemma checked_device_valid:
  "valid m P \<Longrightarrow> (\<And>x. P x \<Longrightarrow> Q (b x)) \<Longrightarrow> valid (checked_device m b) Q"
  unfolding checked_device_def
  by (rule valid_bind, erule valid_mono) (simp add: valid_return)

lemma sound_boards:
  assumes "header_wf h" and "declared_size h (length rom)"
  shows "loaded_soundly rom h strict (DevMmm01 (new_mmm01 rom h cls n))"
    and "loaded_soundly rom h strict (DevHuc1 (new_huc1 rom h cls n))"
    and "loaded_soundly rom h strict (DevMbc1 (new_mbc1 rom h cls l))"
    and "loaded_soundly rom h strict (DevMbc2 (new_mbc2 rom h cls))"
    and "loaded_soundly rom h strict (DevMbc3 (new_mbc3 rom h cls v))"
    and "loaded_soundly rom h strict (DevMbc7 (new_mbc7 rom h cls))"
    and "loaded_soundly rom h strict (DevPocketCamera (new_camera rom h cls))"
  using declared_whole_banks [OF assms]
  by (simp_all add: loaded_soundly_def holds_image_def device_whole_def whole_banks_def header_rom_banks_def
      new_mmm01_def new_huc1_def new_mbc1_def new_mbc2_def new_mbc3_def new_mbc7_def new_camera_def
      mbc2_wf_def mbc7_wf_def camera_wf_def eeprom_command_ok_def placeholder_frame_def CAPTURE_PIXEL_COUNT_def Let_def
      exI [of "\<lambda>n. rom = rom @ replicate n RAM_ABSENT_READ_VALUE" 0])

lemma new_huc3_parts [simp]:
  "cart_rom (new_huc3 rom h cls n) = rom" "cart_header (new_huc3 rom h cls n) = h"
  "nibble_cells (huc3_mcu_ram (new_huc3 rom h cls n))"
  by (simp_all add: new_huc3_def huc3_initialize_runtime_state_def sync_tracked_rtc_locations_def masked_nibbles)

lemma sound_huc3:
  assumes "header_wf h" and "declared_size h (length rom)"
  shows "loaded_soundly rom h strict (DevHuc3 (new_huc3 rom h cls n))"
  using declared_whole_banks [OF assms]
  by (simp add: loaded_soundly_def holds_image_def device_whole_def huc3_wf_def whole_banks_def header_rom_banks_def
      exI [of "\<lambda>n. rom = rom @ replicate n RAM_ABSENT_READ_VALUE" 0])

lemma sound_no_mbc:
  "(strict \<longrightarrow> length rom = NO_MBC_SUPPORTED_ROM_BYTES) \<Longrightarrow>
     loaded_soundly rom h strict (DevNoMbc (new_no_mbc rom h cls))"
  by (auto simp: loaded_soundly_def holds_image_def device_whole_def new_no_mbc_def size_defs
      intro!: exI [of "\<lambda>n. rom = rom @ replicate n RAM_ABSENT_READ_VALUE" 0])

lemma sound_m161: "loaded_soundly rom h strict (DevM161 (new_m161 rom h cls))"
  by (auto simp: loaded_soundly_def holds_image_def device_whole_def new_m161_def
      intro!: exI [of "\<lambda>n. rom = rom @ replicate n RAM_ABSENT_READ_VALUE" 0])

lemma sound_mbc6:
  "declared_size h (length rom) \<Longrightarrow> length rom = MBC6_SUPPORTED_ROM_BYTES \<Longrightarrow>
     loaded_soundly rom h strict (DevMbc6 (new_mbc6 rom h cls))"
  by (auto simp: loaded_soundly_def holds_image_def device_whole_def new_mbc6_def mbc6_wf_def
      MBC6_SUPPORTED_ROM_BYTES_def MBC6_FLASH_BYTES_def MBC6_HIDDEN_BYTES_def
      intro!: exI [of "\<lambda>n. rom = rom @ replicate n RAM_ABSENT_READ_VALUE" 0])

lemma padded_rom_holds:
  "length rom \<le> n \<Longrightarrow> padded_rom rom n = rom @ replicate (n - length rom) RAM_ABSENT_READ_VALUE"
  by (simp add: padded_rom_def)

lemma sound_mbc5:
  assumes "header_wf h" and "layout_sound h (length rom) strict (lay5_rom_layout l)"
  shows "loaded_soundly rom h strict (DevMbc5 (new_mbc5 rom h cls l))"
proof -
  let ?n = "lay_effective_bytes (lay5_rom_layout l)"
  have n: "length rom \<le> ?n" "?n = lay_effective_bank_count (lay5_rom_layout l) * 0x4000"
    "0 < lay_effective_bank_count (lay5_rom_layout l)"
    using assms(2) by (simp_all add: layout_sound_def)
  have strict: "declared_size h (length rom) \<and> ?n = length rom" if strict
    using assms(2) that by (simp add: layout_sound_def)
  have "header_rom_banks (new_mbc5 rom h cls l) = lay_effective_bank_count (lay5_rom_layout l)" if strict
    using declared_whole_banks [OF assms(1), of rom] strict [OF that] n(2)
    by (simp add: header_rom_banks_def new_mbc5_def)
  with n strict show ?thesis
    by (auto simp: loaded_soundly_def holds_image_def device_whole_def mbc5_layout_wf_def new_mbc5_def padded_rom_holds)
qed

text \<open>No load panics, whatever the bytes and the policy.\<close>

lemma load_device_valid:
  assumes "header_wf h" and cls: "ctx_classification ctx = classify_loaded_cartridge h rom (ctx_policy ctx)"
  shows "valid (load_device rom h ctx) (loaded_soundly rom h (strict_context ctx))"
proof (cases "cls_selection (ctx_classification ctx)")
  case (SelectUnsupported category)
  then show ?thesis by (simp add: load_device_def valid_reject)
next
  case (SelectSupported fam)
  have raw: "ctx_raw_type ctx = hdr_cartridge_type h" by (simp add: cls classified_raw_type)
  note valid = validated_declared sound_boards sound_huc3 sound_m161
  show ?thesis
  proof (cases fam)
    case FamilyNoMbc
    with SelectSupported have "ctx_raw_type ctx \<in> {0x00, 0x08, 0x09}"
      using classified_no_mbc raw cls by metis
    with SelectSupported FamilyNoMbc show ?thesis
      by (auto simp: load_device_def Let_def intro!: checked_device_valid [OF validated_no_mbc] sound_no_mbc)
  next
    case FamilyMbc5
    with SelectSupported have "ctx_raw_type ctx \<in> {0x19, 0x1A, 0x1B, 0x1C, 0x1D, 0x1E}"
      using classified_mbc5 raw cls by metis
    from validated_mbc5 [OF this assms(1)]
    have "valid (checked_device (validate_mbc5 h (length rom) ctx) (\<lambda>l. DevMbc5 (new_mbc5 rom h (ctx_classification ctx) l)))
        (loaded_soundly rom h (strict_context ctx))"
      by (rule checked_device_valid) (rule sound_mbc5 [OF assms(1)])
    with SelectSupported FamilyMbc5 show ?thesis by (simp add: load_device_def Let_def)
  next
    case FamilyM161
    have "valid (validate_m161 h (length rom) ctx) (\<lambda>_. True)"
      by (auto simp: validate_m161_def valid_rules Let_def intro!: valid_then)
    with SelectSupported FamilyM161 show ?thesis
      by (auto simp: load_device_def Let_def intro!: checked_device_valid sound_m161)
  next
    case FamilyMbc6
    with SelectSupported show ?thesis
      by (auto simp: load_device_def Let_def intro!: checked_device_valid [OF validated_declared(7)] sound_mbc6)
  qed (use SelectSupported in \<open>auto simp: load_device_def Let_def
      intro!: checked_device_valid [OF validated_declared(1)] checked_device_valid [OF validated_declared(2)]
        checked_device_valid [OF validated_declared(3)] checked_device_valid [OF validated_declared(4)]
        checked_device_valid [OF validated_declared(5)] checked_device_valid [OF validated_declared(6)]
        checked_device_valid [OF validated_declared(8)] checked_device_valid [OF validated_declared(9)]
        sound_boards [OF assms(1)] sound_huc3 [OF assms(1)]\<close>)
qed

lemma load_cartridge_cases:
  "(\<exists>e. load_cartridge rom policy = Inr (Inl e))
   \<or> (\<exists>h d ds. parse_for_load rom = Inr h \<and> loaded_soundly rom h (pol_validation_policy policy = ValidateStrict) d
        \<and> load_cartridge rom policy
            = Inr (Inr \<lparr>report_cartridge = with_loaded_device d (fingerprint_from_bytes rom), report_diagnostics = ds\<rparr>))"
proof (cases "parse_for_load rom")
  case (Inl e)
  then show ?thesis by (simp add: load_cartridge_def)
next
  case (Inr h)
  let ?ctx = "\<lparr>ctx_policy = policy, ctx_classification = classify_loaded_cartridge h rom policy\<rparr>"
  have "header_wf h" using parsed_for_load [OF Inr] by simp
  then have "valid (load_device rom h ?ctx) (loaded_soundly rom h (strict_context ?ctx))"
    by (rule load_device_valid) simp
  then consider (err) e where "load_device rom h ?ctx [] = Inr (Inl e)"
    | (ok) d ds where "load_device rom h ?ctx [] = Inr (Inr (d, ds))" and "loaded_soundly rom h (strict_context ?ctx) d"
    unfolding valid_def by blast
  then show ?thesis
    by cases (auto simp add: load_cartridge_def Inr Let_def strict_context_def)
qed

section \<open>Play after a load\<close>

lemma kept_whole: "device_kept d e \<Longrightarrow> device_whole e = device_whole d"
  by (cases d; cases e) (simp_all add: device_kept_def device_whole_def)

lemma kept_slot_state: "device_kept d e \<Longrightarrow> device_slot_state e = device_slot_state d"
  by (cases d; cases e) (simp_all add: device_kept_def)

section \<open>Save states\<close>

lemma resume_captured: "resume_device (capture_device d) d = Some d"
  by (cases d) (simp_all add: resume_device_def resume_simps)

lemma advance_resume:
  "resume_device s (device_advance_rtc_seconds n d) = resume_device s d"
  "resume_device s (device_advance_mbc3_rtc_clock_ticks n d) = resume_device s d"
  by (cases d; simp add: device_advance_rtc_seconds_def device_advance_mbc3_rtc_clock_ticks_def
      resume_device_def resume_simps split: device_save_state.split)+

lemma resume_after_access:
  assumes "apply_access x d = Inr e"
  shows "resume_device s e = resume_device s d"
proof (cases x)
  case (DeviceReadRam a t)
  with assms show ?thesis by (auto simp: res_map_Inr dest: ram_read_resume [where s = s])
next
  case (DeviceRestore p)
  with assms show ?thesis by (auto dest: restore_resume [where s = s] split: if_splits sum.splits)
qed (use assms advance_resume rom_write_resume ram_write_resume in auto)

lemma resume_after_accesses:
  "apply_accesses xs d = Inr e \<Longrightarrow> resume_device s e = resume_device s d"
  by (induction xs arbitrary: d) (auto simp: res_bind_eq_Inr dest: resume_after_access [where s = s])

lemma program_shapes: "mode_ok m \<Longrightarrow> validate_mbc6_flash_mode_shape m = Inr ()"
  by (cases m) (simp_all add: validate_mbc6_flash_mode_shape_def mode_ok_def validate_mbc6_program_state_shape_def
      validate_mbc6_program_vec_shape_def program_ok_def MBC6_FLASH_PROGRAM_BLOCK_BYTES_def and_check_def)

lemma captured_validates:
  assumes "device_ok d" and "device_ok e" and "device_board e = device_board d"
  shows "validate_device_save e (capture_device d) = Some (Inr ())"
  using assms
  by (cases d; cases e)
    (simp_all add: validate_device_save_def capture_defs validate_optional_ram_shape_def validate_ram_shape_def
      and_check_def mbc6_wf_def mbc7_wf_def camera_wf_def program_shapes)

lemma capture_state_agrees [simp]: "saved_slot_state (capture_device d) = device_slot_state d"
  by (cases d) simp_all

lemma saved_not_empty [simp]: "saved_slot_state st \<noteq> SlotEmpty" "SlotEmpty \<noteq> saved_slot_state st"
  by (cases st; simp)+

lemma validated_same_mapper:
  "device_slot_state d = saved_slot_state st \<Longrightarrow> \<exists>r. validate_device_save d st = Some r"
  by (cases d; cases st) (simp_all add: validate_device_save_def)

lemma resumed_same_mapper:
  "device_slot_state d = saved_slot_state st \<Longrightarrow> \<exists>e. resume_device st d = Some e \<and> capture_device e = st"
  by (cases d; cases st) (simp_all add: resume_device_def resume_simps)

section \<open>Properties\<close>

text \<open>C16. Loading never panics: whatever the bytes and the policy, the image is refused or becomes a
  cartridge with the header found in it, its bytes in place (followed by 0xFF under a permissive
  MBC5 load), and every invariant of its mapper; under a strict policy it has exactly the bytes
  of the image, and every bank its registers can select is there (M161 aside).\<close>

theorem every_load_is_sound:
  "\<exists>r. load_cartridge rom policy = Inr r
     \<and> (\<forall>report. r = Inr report \<longrightarrow>
          (\<exists>d. slot_device (report_cartridge report) = Some d \<and> device_ok d
             \<and> parse_for_load rom = Inr (device_header d) \<and> holds_image rom d
             \<and> (pol_validation_policy policy = ValidateStrict \<longrightarrow>
                  device_rom_bytes d = rom \<and> (device_whole d \<or> device_slot_state d = SlotM161))))"
  using load_cartridge_cases [of rom policy]
  by (auto simp: with_loaded_device_def loaded_soundly_def)

text \<open>C17. After a strict load no sequence of accesses panics, and a read of the ROM area then gives
  the byte of the loaded file that the window reported for the address points at. Only two boards
  show anything else: M161, which can select a bank its image does not have, reads 0xFF there, and
  MBC6 reports flash windows, which show its flash.\<close>

theorem loaded_cartridge_serves_its_image:
  assumes "load_cartridge rom policy = Inr (Inr report)"
    and "pol_validation_policy policy = ValidateStrict"
    and "slot_device (report_cartridge report) = Some d" and "a < 0x8000"
  shows "\<exists>d' v w. apply_accesses xs d = Inr d' \<and> device_read_rom a d' = Inr v
    \<and> device_mapped_rom_window a d' = Some w
    \<and> (win_source w = FromRom \<longrightarrow>
         (if window_index w < length rom then v = rom ! window_index w
          else device_slot_state d = SlotM161 \<and> v = 0xFF))
    \<and> (win_source w = FromFlash \<longrightarrow> device_slot_state d = SlotMbc6)"
proof -
  have ok: "device_ok d" and rom: "device_rom_bytes d = rom"
    and whole: "device_whole d \<or> device_slot_state d = SlotM161"
    using load_cartridge_cases [of rom policy] assms by (auto simp: with_loaded_device_def loaded_soundly_def)
  obtain e where e: "apply_accesses xs d = Inr e" and kept: "device_kept d e"
    using accesses_kept [OF ok, of xs] by (auto simp: returns_iff)
  have state: "device_slot_state e = device_slot_state d" by (rule kept_slot_state [OF kept])
  have "device_exact e" if "device_slot_state e = SlotM161"
    using that by (cases e) simp_all
  moreover have "device_exact e" if "device_whole e"
    using that by (cases e) (simp_all add: device_whole_def)
  moreover have "device_whole e \<or> device_slot_state e = SlotM161"
    using whole kept_whole [OF kept] state by simp
  ultimately have exact: "device_exact e"
    and whole_e: "device_whole e \<or> device_slot_state d = SlotM161"
    using state by auto
  have "device_ok e" and rom_e: "device_rom_bytes e = rom"
    using kept rom by (simp_all add: device_kept_def)
  then obtain v w where read: "device_read_rom a e = Inr v" "device_mapped_rom_window a e = Some w"
    and shown: "win_source w = FromRom \<longrightarrow> v = rom_get rom (window_index w)"
      "device_whole e \<and> win_source w = FromRom \<longrightarrow> window_index w < length rom"
    using device_shows [of e a] assms(4) exact unfolding shows_the_image_def by auto
  have "win_source w = FromFlash \<longrightarrow> device_slot_state d = SlotMbc6"
    using flash_windows [OF read(2)] state by auto
  moreover have "win_source w = FromRom \<longrightarrow>
      (if window_index w < length rom then v = rom ! window_index w
       else device_slot_state d = SlotM161 \<and> v = 0xFF)"
    using shown whole_e by (auto simp: rom_get_in rom_get_out RAM_ABSENT_READ_VALUE_def)
  ultimately show ?thesis using e read by blast
qed

text \<open>C18. Rewinding is exact: a save state taken from a well-formed cartridge is accepted after any
  accesses to it, and restoring it gives back the cartridge as it was, registers, RAM, clocks and
  flash included.\<close>

theorem rewind_is_exact:
  assumes "device_ok d" and "apply_accesses xs d = Inr e"
  shows "slot_validate_save_state (slot_capture_save_state (with_loaded_device d fp)) (with_loaded_device e fp)
      = Inr (Inr ())
    \<and> slot_restore_save_state (slot_capture_save_state (with_loaded_device d fp)) (with_loaded_device e fp)
      = Inr (with_loaded_device d fp)"
proof -
  have kept: "device_kept d e" using accesses_kept [OF assms(1), of xs] assms(2) by (auto simp: returns_iff)
  with captured_validates [of d e] kept_slot_state [OF kept] resume_after_accesses [OF assms(2)] assms(1)
  show ?thesis
    by (simp add: slot_validate_save_state_def slot_restore_save_state_def slot_capture_save_state_def
        with_loaded_device_def slot_state_def runtime_slot_state_def resume_captured device_kept_def)
qed

text \<open>C19. The checks on a save state never panic; one they accept is restored without a panic, and the
  slot then holds exactly the saved state.\<close>

theorem accepted_save_state_is_restored:
  "\<exists>r. slot_validate_save_state st s = Inr r
     \<and> (r = Inr () \<longrightarrow> (\<exists>s'. slot_restore_save_state st s = Inr s' \<and> slot_capture_save_state s' = st))"
proof (cases "slot_state s = runtime_slot_state st")
  case False
  then show ?thesis by (simp add: slot_validate_save_state_def)
next
  case True
  show ?thesis
  proof (cases "slot_device s")
    case None
    with True show ?thesis
      by (cases st) (auto simp: slot_validate_save_state_def slot_restore_save_state_def
          slot_capture_save_state_def slot_state_def runtime_slot_state_def)
  next
    case (Some d)
    with True obtain saved where "st = Some saved" and same: "device_slot_state d = saved_slot_state saved"
      by (cases st; cases d) (auto simp: slot_state_def runtime_slot_state_def)
    with Some True validated_same_mapper [OF same] resumed_same_mapper [OF same] show ?thesis
      by (auto simp: slot_validate_save_state_def slot_restore_save_state_def slot_capture_save_state_def)
  qed
qed

section \<open>Concrete instances\<close>

text \<open>A 32 KiB image of zeros is a plain ROM cartridge for every policy.\<close>

definition plain_image :: "u8 list" where
  "plain_image = replicate 0x8000 0"

lemma plain_image_length: "length plain_image = 0x8000"
  by (simp add: plain_image_def)

lemma plain_image_loads:
  "\<exists>d ds. load_cartridge plain_image policy_strict
       = Inr (Inr \<lparr>report_cartridge = with_loaded_device d (fingerprint_from_bytes plain_image), report_diagnostics = ds\<rparr>)
     \<and> device_slot_state d = SlotNoMbc"
proof -
  obtain h where h: "parse_header plain_image = Inr h" and t: "hdr_cartridge_type h = 0"
    and sizes: "hdr_rom_size h = decode_rom_size 0" "hdr_ram_size h = decode_ram_size 0"
    by (simp add: parse_header_def parse_at_offset_def plain_image_def header_layout Let_def)
  have "parse_mmm01_menu_header plain_image = None"
    by (simp add: parse_mmm01_menu_header_def plain_image_def MMM01_MIN_ROM_BYTES_def)
  moreover have "parse_mani_mmm01_menu_header plain_image h = None"
    by (simp add: parse_mani_mmm01_menu_header_def t is_mbc1_type_def)
  ultimately have parsed: "parse_for_load plain_image = Inr h" by (simp add: parse_for_load_def h)
  have cls: "classify_loaded_cartridge h plain_image policy_strict = classify 0"
    by (simp add: classify_loaded_cartridge_def classify_supported_signature_variant_def is_m161_multicart_signature_def
        is_mani_mmm01_signature_def is_mbc1m_multicart_signature_def is_mbc30_header_variant_def is_mbc1_type_def
        policy_strict_def t plain_image_def M161_SUPPORTED_ROM_BYTES_MIN_def MANI_MMM01_MENU_TYPE_def)
  let ?ctx = "\<lparr>ctx_policy = policy_strict, ctx_classification = classify 0\<rparr>"
  have "load_device plain_image h ?ctx [] = Inr (Inr (DevNoMbc (new_no_mbc plain_image h (classify 0)), []))"
    by (simp add: classify_def supported_def supported_with_reason_def load_device_def
        checked_device_def validate_no_mbc_def no_mbc_expected_ram_code_def v_bind_def v_then_def v_expect_def
        v_return_def sizes decode_rom_size_def decode_ram_size_def expected_ram_code_decompressed_def size_defs
        plain_image_length)
  then show ?thesis by (auto simp: load_cartridge_def parsed cls)
qed

lemma every_load_is_sound_witness:
  "\<exists>report d. load_cartridge plain_image policy_strict = Inr (Inr report)
     \<and> slot_device (report_cartridge report) = Some d \<and> device_ok d \<and> device_rom_bytes d = plain_image"
  using every_load_is_sound [of plain_image policy_strict] plain_image_loads
  by (auto simp: policy_strict_def)

lemma loaded_cartridge_serves_its_image_witness:
  "\<exists>report d d' v. load_cartridge plain_image policy_strict = Inr (Inr report)
     \<and> slot_device (report_cartridge report) = Some d
     \<and> apply_accesses [DeviceWriteRom 0x2000 1] d = Inr d' \<and> device_read_rom 0x4000 d' = Inr v"
proof -
  obtain d ds where l: "load_cartridge plain_image policy_strict
       = Inr (Inr \<lparr>report_cartridge = with_loaded_device d (fingerprint_from_bytes plain_image), report_diagnostics = ds\<rparr>)"
    and kind: "device_slot_state d = SlotNoMbc" using plain_image_loads by blast
  from loaded_cartridge_serves_its_image [OF l, of d "0x4000" "[DeviceWriteRom 0x2000 1]"] l kind
  show ?thesis by (fastforce simp: policy_strict_def with_loaded_device_def word_less_nat_alt)
qed

lemma rewind_is_exact_witness:
  "\<exists>e. apply_accesses [DeviceWriteRom 0 0x0A, DeviceWriteRam 0xA000 0x42 7] sample_device = Inr e
     \<and> slot_restore_save_state (slot_capture_save_state (with_loaded_device sample_device (fingerprint_from_bytes plain_image))) (with_loaded_device e (fingerprint_from_bytes plain_image))
         = Inr (with_loaded_device sample_device (fingerprint_from_bytes plain_image))"
proof -
  obtain e where "apply_accesses [DeviceWriteRom 0 0x0A, DeviceWriteRam 0xA000 0x42 7] sample_device = Inr e"
    using accesses_kept [OF conjunct1 [OF sample_device_ok],
        of "[DeviceWriteRom 0 0x0A, DeviceWriteRam 0xA000 0x42 7]"]
    unfolding returns_iff by blast
  with rewind_is_exact [OF conjunct1 [OF sample_device_ok] this] show ?thesis by blast
qed

lemma accepted_save_state_is_restored_witness:
  "\<exists>s'. slot_restore_save_state (Some (capture_device sample_device)) (with_loaded_device sample_device (fingerprint_from_bytes plain_image)) = Inr s'
     \<and> slot_capture_save_state s' = Some (capture_device sample_device)"
  using accepted_save_state_is_restored [of "Some (capture_device sample_device)" "with_loaded_device sample_device (fingerprint_from_bytes plain_image)"]
    captured_validates [OF conjunct1 [OF sample_device_ok] conjunct1 [OF sample_device_ok] refl]
  by (simp add: slot_validate_save_state_def with_loaded_device_def slot_state_def runtime_slot_state_def)

section \<open>A window that does not follow the read\<close>

definition mismatched_image :: "u8 list" where
  "mismatched_image = (replicate 0x8000 0)[0x147 := 0x19] @ replicate 0x8000 0xAA"

lemma mismatched_length: "length mismatched_image = 0x10000"
  by (simp add: mismatched_image_def)

lemma mismatched_nth:
  "i < 0x8000 \<Longrightarrow> mismatched_image ! i = (if i = 0x147 then 0x19 else 0)"
  "0x8000 \<le> i \<Longrightarrow> i < 0x10000 \<Longrightarrow> mismatched_image ! i = 0xAA"
  by (simp_all add: mismatched_image_def nth_append)

lemma rounded_64k: "rounded_mbc5_actual_rom_capacity 0x10000 = 0x10000"
  by (simp add: rounded_mbc5_actual_rom_capacity_def next_power_of_two_def div_ceil_def size_defs
      power_of_two_from.simps)

lemma mismatched_loads:
  "\<exists>h ds. rom_bank_count (hdr_rom_size h) = Some 2
     \<and> load_cartridge mismatched_image policy_permissive
       = Inr (Inr \<lparr>report_cartridge = with_loaded_device
            (DevMbc5 (new_mbc5 mismatched_image h (classify 0x19)
               \<lparr>lay5_variant = Mbc5NoRam, lay5_rom_layout = permissive_rom_layout (Some 0x8000) 0x10000, lay5_ram_len = 0\<rparr>))
            (fingerprint_from_bytes mismatched_image), report_diagnostics = ds\<rparr>)"
proof -
  obtain h where h: "parse_header mismatched_image = Inr h" and t: "hdr_cartridge_type h = 0x19"
    and sizes: "hdr_rom_size h = decode_rom_size 0" "hdr_ram_size h = decode_ram_size 0"
    by (simp add: parse_header_def parse_at_offset_def mismatched_length mismatched_nth header_layout Let_def)
  obtain g where g: "parse_at_offset mismatched_image 0x8000 = Inr g" and gt: "hdr_cartridge_type g = 0xAA"
    by (simp add: parse_at_offset_def mismatched_length mismatched_nth header_layout Let_def)
  have "parse_mmm01_menu_header mismatched_image = None"
    by (simp add: parse_mmm01_menu_header_def mismatched_length size_defs g gt is_mmm01_type_def Let_def)
  moreover have "parse_mani_mmm01_menu_header mismatched_image h = None"
    by (simp add: parse_mani_mmm01_menu_header_def t is_mbc1_type_def)
  ultimately have parsed: "parse_for_load mismatched_image = Inr h" by (simp add: parse_for_load_def h)
  have cls: "classify_loaded_cartridge h mismatched_image policy_permissive = classify 0x19"
    by (simp add: classify_loaded_cartridge_def classify_supported_signature_variant_def is_m161_multicart_signature_def
        is_mani_mmm01_signature_def is_mbc1m_multicart_signature_def is_mbc30_header_variant_def is_mbc1_type_def
        policy_permissive_def t mismatched_length M161_SUPPORTED_ROM_BYTES_MIN_def MANI_MMM01_MENU_TYPE_def)
  let ?ctx = "\<lparr>ctx_policy = policy_permissive, ctx_classification = classify 0x19\<rparr>"
  obtain ds where "load_device mismatched_image h ?ctx [] = Inr (Inr (DevMbc5 (new_mbc5 mismatched_image h (classify 0x19)
       \<lparr>lay5_variant = Mbc5NoRam, lay5_rom_layout = permissive_rom_layout (Some 0x8000) 0x10000, lay5_ram_len = 0\<rparr>), ds))"
    by (simp add: classify_def supported_def supported_with_reason_def load_device_def checked_device_def
        validate_mbc5_def validate_mbc5_rom_layout_def mbc5_variant_of_type_def mbc5_variant_has_ram_def
        v_bind_def v_then_def v_expect_def v_require_def v_check_degradable_def v_warn_def v_return_def
        sizes decode_rom_size_def decode_ram_size_def policy_permissive_def size_defs mismatched_length)
  then show ?thesis
    using sizes by (intro exI [of _ h]) (auto simp: load_cartridge_def parsed cls decode_rom_size_def)
qed

text \<open>C20. A 64 KiB MBC5 image whose header declares 32 KiB loads under the permissive policy; with bank 2
  selected a read comes from bank 2 of the image, but the window reported for the same address
  (taken from the header's two banks) points at another byte.\<close>

theorem permissive_mbc5_window_disagrees:
  "\<exists>report d d' w. load_cartridge mismatched_image policy_permissive = Inr (Inr report)
     \<and> slot_device (report_cartridge report) = Some d \<and> device_write_rom 0x2000 2 d = Inr d'
     \<and> device_read_rom 0x4000 d' = Inr 0xAA \<and> device_mapped_rom_window 0x4000 d' = Some w
     \<and> win_source w = FromRom \<and> rom_get (device_rom_bytes d') (window_index w) = 0"
proof -
  obtain h ds where banks: "rom_bank_count (hdr_rom_size h) = Some 2" and l: "load_cartridge mismatched_image policy_permissive
       = Inr (Inr \<lparr>report_cartridge = with_loaded_device
            (DevMbc5 (new_mbc5 mismatched_image h (classify 0x19)
               \<lparr>lay5_variant = Mbc5NoRam, lay5_rom_layout = permissive_rom_layout (Some 0x8000) 0x10000, lay5_ram_len = 0\<rparr>))
            (fingerprint_from_bytes mismatched_image), report_diagnostics = ds\<rparr>)"
    using mismatched_loads by blast
  show ?thesis
    unfolding l
    by (simp add: with_loaded_device_def new_mbc5_def permissive_rom_layout_def rounded_64k padded_rom_def
        mismatched_length mismatched_nth banks
        mbc5_write_rom_def mbc5_read_rom_def mbc5_mapped_rom_window_def mbc5_effective_rom_bank_def
        header_rom_banks_def banked_rom_index_def banked_rom_window_def rom_window_def window_index_def
        rom_get_def slice_get_def ROM_BANK_BYTES_def Let_def word_le_nat_alt word_less_nat_alt)
qed

end
