(* ===== verification/Bus_Map.thy ===== *)
theory Bus_Map
  imports Gb_Model
begin

text \<open>
  The address map of the bus (\<open>bus/map.rs\<close>, \<open>bus/router.rs\<close>) and the vocabulary of its
  arbitration (\<open>bus/state.rs\<close>, \<open>PpuBusState\<close> of \<open>ppu.rs\<close>): regions, their domains and owners,
  the descriptors of the I/O registers, the decoding of an address with and without the boot
  ROM overlay, and the records in which the PPU, DMA and the boot controller publish what
  they take from the CPU.
\<close>

subsection \<open>Regions\<close>

datatype bus_region =
    RegionBootRom | RegionCartridgeRomBank0 | RegionCartridgeRomBankN | RegionVram
  | RegionCartridgeExternal | RegionWramBank0 | RegionWramBankN | RegionEchoRam | RegionOam
  | RegionUnusable | RegionMmio | RegionHram | RegionInterruptEnable

datatype bus_domain =
  DomainBootRom | DomainCartridge | DomainVram | DomainWram | DomainOam | DomainUnusable | DomainIoHram

datatype bus_region_owner =
  RegionOwnerBoot | RegionOwnerBus | RegionOwnerCartridge | RegionOwnerPpu | RegionOwnerMmio
  | RegionOwnerInterruptController

fun region_domain :: "bus_region \<Rightarrow> bus_domain" where
  "region_domain RegionBootRom = DomainBootRom"
| "region_domain RegionCartridgeRomBank0 = DomainCartridge"
| "region_domain RegionCartridgeRomBankN = DomainCartridge"
| "region_domain RegionCartridgeExternal = DomainCartridge"
| "region_domain RegionVram = DomainVram"
| "region_domain RegionWramBank0 = DomainWram"
| "region_domain RegionWramBankN = DomainWram"
| "region_domain RegionEchoRam = DomainWram"
| "region_domain RegionOam = DomainOam"
| "region_domain RegionUnusable = DomainUnusable"
| "region_domain RegionMmio = DomainIoHram"
| "region_domain RegionHram = DomainIoHram"
| "region_domain RegionInterruptEnable = DomainIoHram"

fun region_owner :: "bus_region \<Rightarrow> bus_region_owner" where
  "region_owner RegionBootRom = RegionOwnerBoot"
| "region_owner RegionCartridgeRomBank0 = RegionOwnerCartridge"
| "region_owner RegionCartridgeRomBankN = RegionOwnerCartridge"
| "region_owner RegionCartridgeExternal = RegionOwnerCartridge"
| "region_owner RegionVram = RegionOwnerPpu"
| "region_owner RegionOam = RegionOwnerPpu"
| "region_owner RegionWramBank0 = RegionOwnerBus"
| "region_owner RegionWramBankN = RegionOwnerBus"
| "region_owner RegionEchoRam = RegionOwnerBus"
| "region_owner RegionUnusable = RegionOwnerBus"
| "region_owner RegionHram = RegionOwnerBus"
| "region_owner RegionMmio = RegionOwnerMmio"
| "region_owner RegionInterruptEnable = RegionOwnerInterruptController"

record bus_address_info =
  info_address :: u16
  info_region :: bus_region
  info_region_offset :: u16

definition bus_address_info_new :: "u16 \<Rightarrow> bus_region \<Rightarrow> u16 \<Rightarrow> bus_address_info" where
  "bus_address_info_new address region offset =
     \<lparr>info_address = address, info_region = region, info_region_offset = offset\<rparr>"

definition info_domain :: "bus_address_info \<Rightarrow> bus_domain" where
  "info_domain i = region_domain (info_region i)"

definition info_owner :: "bus_address_info \<Rightarrow> bus_region_owner" where
  "info_owner i = region_owner (info_region i)"

datatype unusable_area_read_profile = DmgFamilyFixedZero | CgbRevisionDependent

datatype unusable_area_write_profile = UnusableIgnored | CgbRevisionDependentRam

record unusable_area_info =
  unusable_address :: u16
  unusable_read_profile :: unusable_area_read_profile
  unusable_write_profile :: unusable_area_write_profile
  runtime_fallback_read_value :: u8
  runtime_fallback_writes_ignored :: bool

subsection \<open>I/O registers\<close>

datatype io_register_owner =
    OwnerJoypad | OwnerSerial | OwnerTimer | OwnerInterruptController | OwnerApu | OwnerPpu
  | OwnerDma | OwnerBoot | OwnerMemoryController | OwnerInfrared | OwnerCgbSystem | OwnerReserved

datatype io_register_availability = AvailShared | AvailDmgCompatible | AvailCgbOnly

datatype io_register_implementation = IoImplemented | IoStubbed | IoUnavailable

datatype io_register_access = IoReadWrite | IoReadOnly | IoWriteOnly | IoMixed

datatype io_register_kind =
    RegJoyp | RegSerialData | RegSerialControl | RegDiv | RegTima | RegTma | RegTac | RegInterruptFlag
  | RegNr10 | RegNr11 | RegNr12 | RegNr13 | RegNr14 | RegNr21 | RegNr22 | RegNr23
  | RegNr24 | RegNr30 | RegNr31 | RegNr32 | RegNr33 | RegNr34 | RegNr41 | RegNr42
  | RegNr43 | RegNr44 | RegNr50 | RegNr51 | RegNr52 | RegWaveRam | RegLcdc | RegStat
  | RegScy | RegScx | RegLy | RegLyc | RegBgp | RegObp0 | RegObp1 | RegWy
  | RegWx | RegOamDma | RegBootRomDisable | RegKey0 | RegKey1 | RegVbk | RegHdma1 | RegHdma2
  | RegHdma3 | RegHdma4 | RegHdma5 | RegRp | RegBcps | RegBcpd | RegOcps | RegOcpd
  | RegOpri | RegSvbk | RegCgbUndocumented72 | RegCgbUndocumented73 | RegCgbUndocumented74 | RegCgbUndocumented75 | RegPcm12 | RegPcm34
  | RegCgbUndocumented | RegReserved | RegInterruptEnable

record io_register_info =
  io_address :: u16
  io_owner :: io_register_owner
  io_availability :: io_register_availability
  io_implementation :: io_register_implementation
  io_access :: io_register_access
  io_kind :: io_register_kind

type_synonym io_register_row =
  "u16 \<times> u16 \<times> io_register_owner \<times> io_register_availability \<times> io_register_implementation
   \<times> io_register_access \<times> io_register_kind"

text \<open>The arms of \<open>describe_io_register\<close>, each with the first and the last address it covers.\<close>

definition io_rows_ports_and_pulse :: "io_register_row list" where
  "io_rows_ports_and_pulse = [
    (0xFF00, 0xFF00, OwnerJoypad, AvailShared, IoImplemented, IoMixed, RegJoyp),
    (0xFF01, 0xFF01, OwnerSerial, AvailShared, IoImplemented, IoReadWrite, RegSerialData),
    (0xFF02, 0xFF02, OwnerSerial, AvailShared, IoImplemented, IoMixed, RegSerialControl),
    (0xFF03, 0xFF03, OwnerReserved, AvailShared, IoUnavailable, IoMixed, RegReserved),
    (0xFF04, 0xFF04, OwnerTimer, AvailShared, IoImplemented, IoMixed, RegDiv),
    (0xFF05, 0xFF05, OwnerTimer, AvailShared, IoImplemented, IoReadWrite, RegTima),
    (0xFF06, 0xFF06, OwnerTimer, AvailShared, IoImplemented, IoReadWrite, RegTma),
    (0xFF07, 0xFF07, OwnerTimer, AvailShared, IoImplemented, IoMixed, RegTac),
    (0xFF08, 0xFF0E, OwnerReserved, AvailShared, IoUnavailable, IoMixed, RegReserved),
    (0xFF0F, 0xFF0F, OwnerInterruptController, AvailShared, IoImplemented, IoMixed, RegInterruptFlag),
    (0xFF10, 0xFF10, OwnerApu, AvailShared, IoImplemented, IoMixed, RegNr10),
    (0xFF11, 0xFF11, OwnerApu, AvailShared, IoImplemented, IoMixed, RegNr11),
    (0xFF12, 0xFF12, OwnerApu, AvailShared, IoImplemented, IoReadWrite, RegNr12),
    (0xFF13, 0xFF13, OwnerApu, AvailShared, IoImplemented, IoWriteOnly, RegNr13),
    (0xFF14, 0xFF14, OwnerApu, AvailShared, IoImplemented, IoMixed, RegNr14),
    (0xFF15, 0xFF15, OwnerReserved, AvailShared, IoUnavailable, IoMixed, RegReserved),
    (0xFF16, 0xFF16, OwnerApu, AvailShared, IoImplemented, IoMixed, RegNr21),
    (0xFF17, 0xFF17, OwnerApu, AvailShared, IoImplemented, IoReadWrite, RegNr22),
    (0xFF18, 0xFF18, OwnerApu, AvailShared, IoImplemented, IoWriteOnly, RegNr23),
    (0xFF19, 0xFF19, OwnerApu, AvailShared, IoImplemented, IoMixed, RegNr24)
  ]"

definition io_rows_wave_and_lcd :: "io_register_row list" where
  "io_rows_wave_and_lcd = [
    (0xFF1A, 0xFF1A, OwnerApu, AvailShared, IoImplemented, IoMixed, RegNr30),
    (0xFF1B, 0xFF1B, OwnerApu, AvailShared, IoImplemented, IoWriteOnly, RegNr31),
    (0xFF1C, 0xFF1C, OwnerApu, AvailShared, IoImplemented, IoMixed, RegNr32),
    (0xFF1D, 0xFF1D, OwnerApu, AvailShared, IoImplemented, IoWriteOnly, RegNr33),
    (0xFF1E, 0xFF1E, OwnerApu, AvailShared, IoImplemented, IoMixed, RegNr34),
    (0xFF1F, 0xFF1F, OwnerReserved, AvailShared, IoUnavailable, IoMixed, RegReserved),
    (0xFF20, 0xFF20, OwnerApu, AvailShared, IoImplemented, IoWriteOnly, RegNr41),
    (0xFF21, 0xFF21, OwnerApu, AvailShared, IoImplemented, IoReadWrite, RegNr42),
    (0xFF22, 0xFF22, OwnerApu, AvailShared, IoImplemented, IoReadWrite, RegNr43),
    (0xFF23, 0xFF23, OwnerApu, AvailShared, IoImplemented, IoMixed, RegNr44),
    (0xFF24, 0xFF24, OwnerApu, AvailShared, IoImplemented, IoReadWrite, RegNr50),
    (0xFF25, 0xFF25, OwnerApu, AvailShared, IoImplemented, IoReadWrite, RegNr51),
    (0xFF26, 0xFF26, OwnerApu, AvailShared, IoImplemented, IoMixed, RegNr52),
    (0xFF27, 0xFF2F, OwnerReserved, AvailShared, IoUnavailable, IoMixed, RegReserved),
    (0xFF30, 0xFF3F, OwnerApu, AvailShared, IoImplemented, IoReadWrite, RegWaveRam),
    (0xFF40, 0xFF40, OwnerPpu, AvailShared, IoImplemented, IoReadWrite, RegLcdc),
    (0xFF41, 0xFF41, OwnerPpu, AvailShared, IoImplemented, IoMixed, RegStat),
    (0xFF42, 0xFF42, OwnerPpu, AvailShared, IoImplemented, IoReadWrite, RegScy),
    (0xFF43, 0xFF43, OwnerPpu, AvailShared, IoImplemented, IoReadWrite, RegScx),
    (0xFF44, 0xFF44, OwnerPpu, AvailShared, IoImplemented, IoReadOnly, RegLy),
    (0xFF45, 0xFF45, OwnerPpu, AvailShared, IoImplemented, IoReadWrite, RegLyc)
  ]"

definition io_rows_palettes_and_cgb :: "io_register_row list" where
  "io_rows_palettes_and_cgb = [
    (0xFF46, 0xFF46, OwnerDma, AvailShared, IoImplemented, IoReadWrite, RegOamDma),
    (0xFF47, 0xFF47, OwnerPpu, AvailDmgCompatible, IoImplemented, IoReadWrite, RegBgp),
    (0xFF48, 0xFF48, OwnerPpu, AvailDmgCompatible, IoImplemented, IoReadWrite, RegObp0),
    (0xFF49, 0xFF49, OwnerPpu, AvailDmgCompatible, IoImplemented, IoReadWrite, RegObp1),
    (0xFF4A, 0xFF4A, OwnerPpu, AvailShared, IoImplemented, IoReadWrite, RegWy),
    (0xFF4B, 0xFF4B, OwnerPpu, AvailShared, IoImplemented, IoReadWrite, RegWx),
    (0xFF4C, 0xFF4C, OwnerCgbSystem, AvailCgbOnly, IoImplemented, IoMixed, RegKey0),
    (0xFF4D, 0xFF4D, OwnerCgbSystem, AvailCgbOnly, IoImplemented, IoMixed, RegKey1),
    (0xFF4F, 0xFF4F, OwnerPpu, AvailCgbOnly, IoImplemented, IoMixed, RegVbk),
    (0xFF51, 0xFF51, OwnerDma, AvailCgbOnly, IoImplemented, IoWriteOnly, RegHdma1),
    (0xFF52, 0xFF52, OwnerDma, AvailCgbOnly, IoImplemented, IoWriteOnly, RegHdma2),
    (0xFF53, 0xFF53, OwnerDma, AvailCgbOnly, IoImplemented, IoWriteOnly, RegHdma3),
    (0xFF54, 0xFF54, OwnerDma, AvailCgbOnly, IoImplemented, IoWriteOnly, RegHdma4),
    (0xFF55, 0xFF55, OwnerDma, AvailCgbOnly, IoImplemented, IoMixed, RegHdma5),
    (0xFF56, 0xFF56, OwnerInfrared, AvailCgbOnly, IoImplemented, IoMixed, RegRp),
    (0xFF68, 0xFF68, OwnerPpu, AvailCgbOnly, IoImplemented, IoReadWrite, RegBcps),
    (0xFF69, 0xFF69, OwnerPpu, AvailCgbOnly, IoImplemented, IoReadWrite, RegBcpd),
    (0xFF6A, 0xFF6A, OwnerPpu, AvailCgbOnly, IoImplemented, IoReadWrite, RegOcps),
    (0xFF6B, 0xFF6B, OwnerPpu, AvailCgbOnly, IoImplemented, IoReadWrite, RegOcpd),
    (0xFF6C, 0xFF6C, OwnerPpu, AvailCgbOnly, IoImplemented, IoReadWrite, RegOpri)
  ]"

definition io_rows_cgb_system :: "io_register_row list" where
  "io_rows_cgb_system = [
    (0xFF70, 0xFF70, OwnerMemoryController, AvailCgbOnly, IoImplemented, IoMixed, RegSvbk),
    (0xFF72, 0xFF72, OwnerCgbSystem, AvailCgbOnly, IoImplemented, IoReadWrite, RegCgbUndocumented72),
    (0xFF73, 0xFF73, OwnerCgbSystem, AvailCgbOnly, IoImplemented, IoReadWrite, RegCgbUndocumented73),
    (0xFF74, 0xFF74, OwnerCgbSystem, AvailCgbOnly, IoImplemented, IoReadWrite, RegCgbUndocumented74),
    (0xFF75, 0xFF75, OwnerCgbSystem, AvailCgbOnly, IoImplemented, IoMixed, RegCgbUndocumented75),
    (0xFF76, 0xFF76, OwnerApu, AvailCgbOnly, IoImplemented, IoReadOnly, RegPcm12),
    (0xFF77, 0xFF77, OwnerApu, AvailCgbOnly, IoImplemented, IoReadOnly, RegPcm34),
    (0xFF6D, 0xFF6F, OwnerCgbSystem, AvailCgbOnly, IoStubbed, IoMixed, RegCgbUndocumented),
    (0xFF4E, 0xFF4E, OwnerReserved, AvailShared, IoUnavailable, IoMixed, RegReserved),
    (0xFF57, 0xFF67, OwnerReserved, AvailShared, IoUnavailable, IoMixed, RegReserved),
    (0xFF71, 0xFF71, OwnerReserved, AvailShared, IoUnavailable, IoMixed, RegReserved),
    (0xFF78, 0xFF7F, OwnerReserved, AvailShared, IoUnavailable, IoMixed, RegReserved),
    (0xFF50, 0xFF50, OwnerBoot, AvailShared, IoImplemented, IoWriteOnly, RegBootRomDisable),
    (0xFFFF, 0xFFFF, OwnerInterruptController, AvailShared, IoImplemented, IoReadWrite, RegInterruptEnable)
  ]"

definition io_register_table :: "io_register_row list" where
  "io_register_table =
     io_rows_ports_and_pulse @ io_rows_wave_and_lcd
     @ io_rows_palettes_and_cgb @ io_rows_cgb_system"

definition describe_io_register :: "u16 \<Rightarrow> io_register_info option" where
  "describe_io_register a =
     map_option (\<lambda>(_, _, owner, availability, implementation, access, kind).
         \<lparr>io_address = a, io_owner = owner, io_availability = availability,
          io_implementation = implementation, io_access = access, io_kind = kind\<rparr>)
       (find (\<lambda>(first, last, _). first \<le> a \<and> a \<le> last) io_register_table)"

subsection \<open>What the PPU, DMA and the boot controller publish\<close>

datatype ppu_access_mode = AccessHBlank | AccessVBlank | AccessOamScan | AccessDrawing

fun stat_bits :: "ppu_access_mode \<Rightarrow> u8" where
  "stat_bits AccessHBlank = 0"
| "stat_bits AccessVBlank = 1"
| "stat_bits AccessOamScan = 2"
| "stat_bits AccessDrawing = 3"

definition from_stat_bits :: "u8 \<Rightarrow> ppu_access_mode" where
  "from_stat_bits b =
     (if b AND 0x03 = 0 then AccessHBlank else if b AND 0x03 = 1 then AccessVBlank
      else if b AND 0x03 = 2 then AccessOamScan else AccessDrawing)"

record ppu_bus_state =
  ppu_lcd_enabled :: bool
  ppu_mode :: ppu_access_mode

definition ppu_bus_lcd_enabled :: "ppu_access_mode \<Rightarrow> ppu_bus_state" where
  "ppu_bus_lcd_enabled mode = \<lparr>ppu_lcd_enabled = True, ppu_mode = mode\<rparr>"

definition ppu_bus_lcd_disabled :: ppu_bus_state where
  "ppu_bus_lcd_disabled = \<lparr>ppu_lcd_enabled = False, ppu_mode = AccessHBlank\<rparr>"

datatype bus_requester = ReqCpu | ReqDma | ReqPpu | ReqApu | ReqSerial | ReqBoot | ReqCartridge

datatype bus_access_kind = AccessRead | AccessWrite

datatype bus_block_reason =
    DmaExternalBusConflict | DmaVideoBusConflict | DmaWramBusConflict
  | PpuVramBlockedDuringMode3 | PpuOamBlockedDuringMode2 | PpuOamBlockedDuringMode3
  | BlockedUnusableRegion | UnusableRegionDuringOamBlock | UnusableRegionDuringDmaVideoBusConflict

datatype bus_access_disposition =
    AccessAllowed
  | BlockedRead u8 bus_block_reason
  | IgnoredWrite bus_block_reason

fun blocked_reason :: "bus_access_disposition \<Rightarrow> bus_block_reason option" where
  "blocked_reason AccessAllowed = None"
| "blocked_reason (BlockedRead v reason) = Some reason"
| "blocked_reason (IgnoredWrite reason) = Some reason"

fun blocked_read_value :: "bus_access_disposition \<Rightarrow> u8 option" where
  "blocked_read_value (BlockedRead v reason) = Some v"
| "blocked_read_value AccessAllowed = None"
| "blocked_read_value (IgnoredWrite reason) = None"

datatype dma_cpu_access_policy =
  DmaUnrestricted | ExternalBusBlocked | ExternalBusOnlyBlocked | VideoBusBlocked | WramBusBlocked

datatype dma_memory_region_impact = ImpactOam | ImpactVram

record dma_bus_state =
  cpu_access_policy :: dma_cpu_access_policy
  dma_active_region :: "dma_memory_region_impact option"
  cpu_conflict_source_address :: "u16 option"

definition dma_bus_unrestricted :: dma_bus_state where
  "dma_bus_unrestricted =
     \<lparr>cpu_access_policy = DmaUnrestricted, dma_active_region = None, cpu_conflict_source_address = None\<rparr>"

definition dma_bus_external_blocked :: "dma_memory_region_impact option \<Rightarrow> dma_bus_state" where
  "dma_bus_external_blocked region =
     \<lparr>cpu_access_policy = ExternalBusBlocked, dma_active_region = region, cpu_conflict_source_address = None\<rparr>"

definition dma_bus_external_only_blocked :: "dma_memory_region_impact option \<Rightarrow> dma_bus_state" where
  "dma_bus_external_only_blocked region =
     \<lparr>cpu_access_policy = ExternalBusOnlyBlocked, dma_active_region = region, cpu_conflict_source_address = None\<rparr>"

definition dma_bus_video_blocked :: "dma_memory_region_impact option \<Rightarrow> dma_bus_state" where
  "dma_bus_video_blocked region =
     \<lparr>cpu_access_policy = VideoBusBlocked, dma_active_region = region, cpu_conflict_source_address = None\<rparr>"

definition dma_bus_wram_blocked :: "dma_memory_region_impact option \<Rightarrow> dma_bus_state" where
  "dma_bus_wram_blocked region =
     \<lparr>cpu_access_policy = WramBusBlocked, dma_active_region = region, cpu_conflict_source_address = None\<rparr>"

definition with_cpu_conflict_source_address :: "u16 option \<Rightarrow> dma_bus_state \<Rightarrow> dma_bus_state" where
  "with_cpu_conflict_source_address a s = s\<lparr>cpu_conflict_source_address := a\<rparr>"

record boot_rom_bus_state =
  low_window_mapped :: bool
  cgb_upper_window_mapped :: bool

definition boot_windows_unmapped :: boot_rom_bus_state where
  "boot_windows_unmapped = \<lparr>low_window_mapped = False, cgb_upper_window_mapped = False\<rparr>"

definition map_dmg_low_bytes :: boot_rom_bus_state where
  "map_dmg_low_bytes = \<lparr>low_window_mapped = True, cgb_upper_window_mapped = False\<rparr>"

definition map_cgb_windows :: boot_rom_bus_state where
  "map_cgb_windows = \<lparr>low_window_mapped = True, cgb_upper_window_mapped = True\<rparr>"

definition overlays_read :: "u16 \<Rightarrow> boot_rom_bus_state \<Rightarrow> bool" where
  "overlays_read a b \<longleftrightarrow>
     low_window_mapped b \<and> a \<le> 0x00FF \<or> cgb_upper_window_mapped b \<and> 0x0200 \<le> a \<and> a \<le> 0x08FF"

record bus_arbitration_state =
  arb_boot_rom :: boot_rom_bus_state
  arb_ppu :: ppu_bus_state
  arb_dma :: dma_bus_state

definition arbitration_default :: bus_arbitration_state where
  "arbitration_default =
     \<lparr>arb_boot_rom = boot_windows_unmapped, arb_ppu = ppu_bus_lcd_disabled, arb_dma = dma_bus_unrestricted\<rparr>"

subsection \<open>The router\<close>

definition BLOCKED_READ_VALUE :: u8 where "BLOCKED_READ_VALUE = 0xFF"
definition DMG_UNUSABLE_READ_VALUE :: u8 where "DMG_UNUSABLE_READ_VALUE = 0x00"

definition decode_address :: "u16 \<Rightarrow> bus_address_info" where
  "decode_address a =
     (if a \<le> 0x3FFF then bus_address_info_new a RegionCartridgeRomBank0 a
      else if a \<le> 0x7FFF then bus_address_info_new a RegionCartridgeRomBankN (a - 0x4000)
      else if a \<le> 0x9FFF then bus_address_info_new a RegionVram (a - 0x8000)
      else if a \<le> 0xBFFF then bus_address_info_new a RegionCartridgeExternal (a - 0xA000)
      else if a \<le> 0xCFFF then bus_address_info_new a RegionWramBank0 (a - 0xC000)
      else if a \<le> 0xDFFF then bus_address_info_new a RegionWramBankN (a - 0xD000)
      else if a \<le> 0xFDFF then bus_address_info_new a RegionEchoRam (a - 0xE000)
      else if a \<le> 0xFE9F then bus_address_info_new a RegionOam (a - 0xFE00)
      else if a \<le> 0xFEFF then bus_address_info_new a RegionUnusable (a - 0xFEA0)
      else if a \<le> 0xFF7F then bus_address_info_new a RegionMmio (a - 0xFF00)
      else if a \<le> 0xFFFE then bus_address_info_new a RegionHram (a - 0xFF80)
      else bus_address_info_new a RegionInterruptEnable 0)"

definition cgb_e_extra_oam_read_value :: "u16 \<Rightarrow> u8" where
  "cgb_e_extra_oam_read_value a =
     (let low_address = (ucast a :: u8) in (low_address AND 0xF0) OR drop_bit 4 low_address)"

definition describe_unusable_area ::
    "console_model \<Rightarrow> hardware_revision \<Rightarrow> u16 \<Rightarrow> unusable_area_info option" where
  "describe_unusable_area m r a =
     (if \<not> (0xFEA0 \<le> a \<and> a \<le> 0xFEFF) then None
      else Some
        (if m = GameBoy \<or> m = GameBoyPocket \<or> m = GameBoyLight then
           \<lparr>unusable_address = a, unusable_read_profile = DmgFamilyFixedZero,
            unusable_write_profile = UnusableIgnored,
            runtime_fallback_read_value = DMG_UNUSABLE_READ_VALUE,
            runtime_fallback_writes_ignored = True\<rparr>
         else
           \<lparr>unusable_address = a, unusable_read_profile = CgbRevisionDependent,
            unusable_write_profile = CgbRevisionDependentRam,
            runtime_fallback_read_value =
              (if r = CpuCgbE \<or> r = CpuAgb0 \<or> r = CpuAgbA then cgb_e_extra_oam_read_value a
               else BLOCKED_READ_VALUE),
            runtime_fallback_writes_ignored = True\<rparr>))"

definition resolve_nominal_target ::
    "bus_access_kind \<Rightarrow> u16 \<Rightarrow> bus_arbitration_state \<Rightarrow> bus_address_info" where
  "resolve_nominal_target kind a s =
     (if kind = AccessRead \<and> overlays_read a (arb_boot_rom s)
      then bus_address_info_new a RegionBootRom a else decode_address a)"

subsection \<open>The map covers every address\<close>

text \<open>First address and number of bytes of the regions an address can decode to.\<close>

fun region_start :: "bus_region \<Rightarrow> nat" where
  "region_start RegionCartridgeRomBankN = 0x4000"
| "region_start RegionVram = 0x8000"
| "region_start RegionCartridgeExternal = 0xA000"
| "region_start RegionWramBank0 = 0xC000"
| "region_start RegionWramBankN = 0xD000"
| "region_start RegionEchoRam = 0xE000"
| "region_start RegionOam = 0xFE00"
| "region_start RegionUnusable = 0xFEA0"
| "region_start RegionMmio = 0xFF00"
| "region_start RegionHram = 0xFF80"
| "region_start RegionInterruptEnable = 0xFFFF"
| "region_start _ = 0"

fun region_length :: "bus_region \<Rightarrow> nat" where
  "region_length RegionBootRom = 0"
| "region_length RegionCartridgeRomBank0 = 0x4000"
| "region_length RegionCartridgeRomBankN = 0x4000"
| "region_length RegionVram = 0x2000"
| "region_length RegionCartridgeExternal = 0x2000"
| "region_length RegionWramBank0 = 0x1000"
| "region_length RegionWramBankN = 0x1000"
| "region_length RegionEchoRam = 0x1E00"
| "region_length RegionOam = 0xA0"
| "region_length RegionUnusable = 0x60"
| "region_length RegionMmio = 0x80"
| "region_length RegionHram = 0x7F"
| "region_length RegionInterruptEnable = 1"

lemmas word16_cases = word_le_nat_alt unat_sub_if' word_unat_eq_iff

lemma decode_address_address [simp]: "info_address (decode_address a) = a"
  by (simp add: decode_address_def bus_address_info_new_def)

lemma decode_address_ranges:
  "unat (info_region_offset (decode_address a)) < region_length (info_region (decode_address a))"
  "region_start (info_region (decode_address a)) + unat (info_region_offset (decode_address a)) = unat a"
  using unsigned_less [of a, where ?'a = nat]
  by (auto simp: decode_address_def bus_address_info_new_def word16_cases)
end
