(* ===== verification/Dma.thy ===== *)
theory Dma
  imports Bus_Map Gb_Speed
begin

text \<open>
  The DMA controller (\<open>dma.rs\<close>): OAM DMA with its start delay, its bus restriction and its
  restart, general-purpose and HBlank VRAM DMA with their registers, block publication and
  windows, the bus state the controller publishes, and the byte of work each T-cycle yields.
\<close>

subsection \<open>Transfers\<close>

definition OAM_DMA_DESTINATION_START :: u16 where "OAM_DMA_DESTINATION_START = 0xFE00"
definition OAM_DMA_TRANSFER_BYTES :: u16 where "OAM_DMA_TRANSFER_BYTES = 160"
definition OAM_DMA_FIRST_BYTE_DELAY_T_CYCLES :: u8 where "OAM_DMA_FIRST_BYTE_DELAY_T_CYCLES = 8"
definition OAM_DMA_CPU_BUS_RESTRICTION_DELAY_T_CYCLES :: u8 where
  "OAM_DMA_CPU_BUS_RESTRICTION_DELAY_T_CYCLES = 5"
definition OAM_DMA_T_CYCLES_PER_BYTE :: u8 where "OAM_DMA_T_CYCLES_PER_BYTE = 4"
definition OAM_DMA_TOTAL_T_CYCLES :: u16 where "OAM_DMA_TOTAL_T_CYCLES = 648"
definition DMG_OAM_DMA_ECHO_ALIAS_OFFSET :: u16 where "DMG_OAM_DMA_ECHO_ALIAS_OFFSET = 0x2000"
definition VRAM_DMA_BLOCK_BYTES :: u16 where "VRAM_DMA_BLOCK_BYTES = 0x10"
definition VRAM_DMA_NORMAL_SPEED_FIRST_BYTE_DELAY_T_CYCLES :: u8 where
  "VRAM_DMA_NORMAL_SPEED_FIRST_BYTE_DELAY_T_CYCLES = 2"
definition VRAM_DMA_CPU_BUS_RESTRICTION_DELAY_T_CYCLES :: u8 where
  "VRAM_DMA_CPU_BUS_RESTRICTION_DELAY_T_CYCLES = 0"
definition VRAM_DMA_NORMAL_SPEED_T_CYCLES_PER_BYTE :: u8 where
  "VRAM_DMA_NORMAL_SPEED_T_CYCLES_PER_BYTE = 2"
definition VRAM_DMA_CPU_RELEASE_T_CYCLES :: u8 where "VRAM_DMA_CPU_RELEASE_T_CYCLES = 5"
definition VRAM_DMA_PUBLICATION_T_CYCLES :: u8 where "VRAM_DMA_PUBLICATION_T_CYCLES = 12"
definition VRAM_DMA_DESTINATION_END :: u16 where "VRAM_DMA_DESTINATION_END = 0x9FFF"
definition VRAM_DMA_INVALID_SOURCE_READ_VALUE :: u8 where "VRAM_DMA_INVALID_SOURCE_READ_VALUE = 0xFF"
definition HDMA5_TRANSFER_LENGTH_MASK :: u8 where "HDMA5_TRANSFER_LENGTH_MASK = 0x7F"
definition HDMA5_MODE_BIT :: u8 where "HDMA5_MODE_BIT = 0x80"
definition HDMA5_INACTIVE_READ_BIT :: u8 where "HDMA5_INACTIVE_READ_BIT = 0x80"
definition HDMA5_COMPLETED_READ :: u8 where "HDMA5_COMPLETED_READ = 0xFF"

lemmas dma_constants =
  OAM_DMA_DESTINATION_START_def OAM_DMA_TRANSFER_BYTES_def OAM_DMA_FIRST_BYTE_DELAY_T_CYCLES_def
  OAM_DMA_CPU_BUS_RESTRICTION_DELAY_T_CYCLES_def OAM_DMA_T_CYCLES_PER_BYTE_def OAM_DMA_TOTAL_T_CYCLES_def
  DMG_OAM_DMA_ECHO_ALIAS_OFFSET_def VRAM_DMA_BLOCK_BYTES_def
  VRAM_DMA_NORMAL_SPEED_FIRST_BYTE_DELAY_T_CYCLES_def VRAM_DMA_CPU_BUS_RESTRICTION_DELAY_T_CYCLES_def
  VRAM_DMA_NORMAL_SPEED_T_CYCLES_PER_BYTE_def VRAM_DMA_CPU_RELEASE_T_CYCLES_def
  VRAM_DMA_PUBLICATION_T_CYCLES_def VRAM_DMA_DESTINATION_END_def VRAM_DMA_INVALID_SOURCE_READ_VALUE_def
  HDMA5_TRANSFER_LENGTH_MASK_def HDMA5_MODE_BIT_def HDMA5_INACTIVE_READ_BIT_def HDMA5_COMPLETED_READ_def

datatype dma_status = DmaReady

datatype dma_transfer_kind = DmaOam | DmaGdma | DmaHdma

datatype dma_cpu_impact_policy =
  NoCpuStallButBusRestriction | CpuFullyStalledUntilDone | CpuStalledPerBlock

datatype dma_transfer_family = FullBurst | BlockWindowed

datatype dma_advance_condition = EveryTCycle | AdvanceHBlank | ExternalGate

datatype dma_source_bus = SourceExternal | SourceVideoRam | SourceWorkRam

record dma_transfer_timing =
  total_t_cycles :: u16
  first_byte_delay_t_cycles :: u8
  cpu_bus_restriction_delay_t_cycles :: u8
  t_cycles_per_byte :: u8

record dma_transfer =
  transfer_kind :: dma_transfer_kind
  transfer_source_start :: u16
  transfer_destination_start :: u16
  transfer_total_bytes :: u16
  transfer_block_size :: u16
  transfer_family :: dma_transfer_family
  transfer_timing :: dma_transfer_timing
  oam_speed_mode :: cgb_speed_mode
  cpu_impact_policy :: dma_cpu_impact_policy
  memory_region_impact :: dma_memory_region_impact
  advance_condition :: dma_advance_condition

definition u8_to_u16 :: "u8 \<Rightarrow> u16" where
  "u8_to_u16 b = ucast b"

definition dma_transfer_oam_for_speed :: "u8 \<Rightarrow> cgb_speed_mode \<Rightarrow> dma_transfer" where
  "dma_transfer_oam_for_speed source_page mode =
     \<lparr>transfer_kind = DmaOam,
      transfer_source_start = push_bit 8 (u8_to_u16 source_page),
      transfer_destination_start = OAM_DMA_DESTINATION_START,
      transfer_total_bytes = OAM_DMA_TRANSFER_BYTES,
      transfer_block_size = 1,
      transfer_family = FullBurst,
      transfer_timing =
        \<lparr>total_t_cycles = OAM_DMA_TOTAL_T_CYCLES,
         first_byte_delay_t_cycles = OAM_DMA_FIRST_BYTE_DELAY_T_CYCLES,
         cpu_bus_restriction_delay_t_cycles = OAM_DMA_CPU_BUS_RESTRICTION_DELAY_T_CYCLES,
         t_cycles_per_byte = OAM_DMA_T_CYCLES_PER_BYTE\<rparr>,
      oam_speed_mode = mode,
      cpu_impact_policy = NoCpuStallButBusRestriction,
      memory_region_impact = ImpactOam,
      advance_condition = EveryTCycle\<rparr>"

definition vram_dma_first_byte_delay_t_cycles :: "cgb_speed_mode \<Rightarrow> u8" where
  "vram_dma_first_byte_delay_t_cycles mode =
     (case mode of
        NormalSpeed \<Rightarrow> VRAM_DMA_NORMAL_SPEED_FIRST_BYTE_DELAY_T_CYCLES
      | DoubleSpeed \<Rightarrow> VRAM_DMA_NORMAL_SPEED_FIRST_BYTE_DELAY_T_CYCLES * 2)"

definition vram_dma_t_cycles_per_byte :: "cgb_speed_mode \<Rightarrow> u8" where
  "vram_dma_t_cycles_per_byte mode =
     (case mode of
        NormalSpeed \<Rightarrow> VRAM_DMA_NORMAL_SPEED_T_CYCLES_PER_BYTE
      | DoubleSpeed \<Rightarrow> VRAM_DMA_NORMAL_SPEED_T_CYCLES_PER_BYTE * 2)"

definition vram_dma_body_t_cycles :: "u16 \<Rightarrow> cgb_speed_mode \<Rightarrow> u16" where
  "vram_dma_body_t_cycles total_bytes mode =
     (if total_bytes = 0 then 0
      else u8_to_u16 (vram_dma_first_byte_delay_t_cycles mode)
             + (total_bytes - 1) * u8_to_u16 (vram_dma_t_cycles_per_byte mode))"

definition vram_dma_timing :: "u16 \<Rightarrow> cgb_speed_mode \<Rightarrow> dma_transfer_timing" where
  "vram_dma_timing total_bytes mode =
     \<lparr>total_t_cycles =
        (if total_bytes = 0 then 0
         else vram_dma_body_t_cycles total_bytes mode + u8_to_u16 VRAM_DMA_CPU_RELEASE_T_CYCLES),
      first_byte_delay_t_cycles = vram_dma_first_byte_delay_t_cycles mode,
      cpu_bus_restriction_delay_t_cycles = VRAM_DMA_CPU_BUS_RESTRICTION_DELAY_T_CYCLES,
      t_cycles_per_byte = vram_dma_t_cycles_per_byte mode\<rparr>"

subsection \<open>VRAM DMA registers and transfers\<close>

datatype vram_dma_mode = GeneralPurpose | VramHBlank

record vram_dma_registers =
  source_high :: u8
  source_low :: u8
  destination_high :: u8
  destination_low :: u8

definition vram_dma_registers_default :: vram_dma_registers where
  "vram_dma_registers_default =
     \<lparr>source_high = 0xFF, source_low = 0xF0, destination_high = 0x1F, destination_low = 0xF0\<rparr>"

definition registers_source_start :: "vram_dma_registers \<Rightarrow> u16" where
  "registers_source_start r = push_bit 8 (u8_to_u16 (source_high r)) OR u8_to_u16 (source_low r)"

definition registers_destination_start :: "vram_dma_registers \<Rightarrow> u16" where
  "registers_destination_start r =
     0x8000 OR push_bit 8 (u8_to_u16 (destination_high r)) OR u8_to_u16 (destination_low r)"

definition registers_write_hdma1 :: "u8 \<Rightarrow> vram_dma_registers \<Rightarrow> vram_dma_registers" where
  "registers_write_hdma1 v r = r\<lparr>source_high := v\<rparr>"

definition registers_write_hdma2 :: "u8 \<Rightarrow> vram_dma_registers \<Rightarrow> vram_dma_registers" where
  "registers_write_hdma2 v r = r\<lparr>source_low := v AND 0xF0\<rparr>"

definition registers_write_hdma3 :: "u8 \<Rightarrow> vram_dma_registers \<Rightarrow> vram_dma_registers" where
  "registers_write_hdma3 v r = r\<lparr>destination_high := v AND 0x1F\<rparr>"

definition registers_write_hdma4 :: "u8 \<Rightarrow> vram_dma_registers \<Rightarrow> vram_dma_registers" where
  "registers_write_hdma4 v r = r\<lparr>destination_low := v AND 0xF0\<rparr>"

definition registers_set_endpoints :: "u16 \<Rightarrow> u16 \<Rightarrow> vram_dma_registers \<Rightarrow> vram_dma_registers" where
  "registers_set_endpoints source destination r =
     r\<lparr>source_high := ucast (drop_bit 8 source),
       source_low := ucast source AND 0xF0,
       destination_high := ucast (drop_bit 8 destination) AND 0x1F,
       destination_low := ucast destination AND 0xF0\<rparr>"

record vram_dma_transfer =
  vram_mode :: vram_dma_mode
  vram_source_start :: u16
  vram_destination_start :: u16
  vram_total_blocks :: u16
  vram_remaining_blocks :: u16

definition clip_vram_dma_blocks_for_destination :: "u16 \<Rightarrow> u16 \<Rightarrow> u16" where
  "clip_vram_dma_blocks_for_destination destination requested =
     (let bytes_until_overflow = VRAM_DMA_DESTINATION_END + 1 - destination;
          blocks_until_overflow = bytes_until_overflow div VRAM_DMA_BLOCK_BYTES
      in if requested > blocks_until_overflow then blocks_until_overflow else requested)"

definition vram_dma_transfer_new ::
    "vram_dma_mode \<Rightarrow> vram_dma_registers \<Rightarrow> u16 \<Rightarrow> vram_dma_transfer" where
  "vram_dma_transfer_new mode r blocks =
     (let total = clip_vram_dma_blocks_for_destination (registers_destination_start r) blocks
      in \<lparr>vram_mode = mode, vram_source_start = registers_source_start r,
          vram_destination_start = registers_destination_start r,
          vram_total_blocks = total, vram_remaining_blocks = total\<rparr>)"

definition vram_remaining_bytes :: "vram_dma_transfer \<Rightarrow> u16" where
  "vram_remaining_bytes t = vram_remaining_blocks t * VRAM_DMA_BLOCK_BYTES"

definition vram_total_bytes :: "vram_dma_transfer \<Rightarrow> u16" where
  "vram_total_bytes t = vram_total_blocks t * VRAM_DMA_BLOCK_BYTES"

definition remaining_blocks_minus_one :: "vram_dma_transfer \<Rightarrow> u8" where
  "remaining_blocks_minus_one t =
     ucast (if vram_remaining_blocks t = 0 then 0 else vram_remaining_blocks t - 1)"

definition advance_completed_blocks :: "u16 \<Rightarrow> vram_dma_transfer \<Rightarrow> vram_dma_transfer" where
  "advance_completed_blocks completed t =
     (let n = (if completed > vram_remaining_blocks t then vram_remaining_blocks t else completed);
          bytes = n * VRAM_DMA_BLOCK_BYTES
      in t\<lparr>vram_source_start := vram_source_start t + bytes,
           vram_destination_start := vram_destination_start t + bytes,
           vram_remaining_blocks := vram_remaining_blocks t - n\<rparr>)"

definition dma_transfer_gdma_for_speed :: "vram_dma_transfer \<Rightarrow> cgb_speed_mode \<Rightarrow> dma_transfer" where
  "dma_transfer_gdma_for_speed t mode =
     \<lparr>transfer_kind = DmaGdma,
      transfer_source_start = vram_source_start t,
      transfer_destination_start = vram_destination_start t,
      transfer_total_bytes = vram_remaining_bytes t,
      transfer_block_size = VRAM_DMA_BLOCK_BYTES,
      transfer_family = FullBurst,
      transfer_timing = vram_dma_timing (vram_remaining_bytes t) mode,
      oam_speed_mode = mode,
      cpu_impact_policy = CpuFullyStalledUntilDone,
      memory_region_impact = ImpactVram,
      advance_condition = EveryTCycle\<rparr>"

definition dma_transfer_hdma_block_for_speed :: "vram_dma_transfer \<Rightarrow> cgb_speed_mode \<Rightarrow> dma_transfer" where
  "dma_transfer_hdma_block_for_speed t mode =
     \<lparr>transfer_kind = DmaHdma,
      transfer_source_start = vram_source_start t,
      transfer_destination_start = vram_destination_start t,
      transfer_total_bytes = VRAM_DMA_BLOCK_BYTES,
      transfer_block_size = VRAM_DMA_BLOCK_BYTES,
      transfer_family = BlockWindowed,
      transfer_timing = vram_dma_timing VRAM_DMA_BLOCK_BYTES mode,
      oam_speed_mode = mode,
      cpu_impact_policy = CpuStalledPerBlock,
      memory_region_impact = ImpactVram,
      advance_condition = AdvanceHBlank\<rparr>"

definition normalize_oam_source_address :: "u16 \<Rightarrow> u16" where
  "normalize_oam_source_address a = (if 0xE000 \<le> a then a - DMG_OAM_DMA_ECHO_ALIAS_OFFSET else a)"

definition source_address_for_byte :: "u16 \<Rightarrow> dma_transfer \<Rightarrow> u16" where
  "source_address_for_byte i t =
     (case transfer_kind t of
        DmaOam \<Rightarrow> normalize_oam_source_address (transfer_source_start t + i)
      | DmaGdma \<Rightarrow> transfer_source_start t + i
      | DmaHdma \<Rightarrow> transfer_source_start t + i)"

definition destination_address_for_byte :: "u16 \<Rightarrow> dma_transfer \<Rightarrow> u16" where
  "destination_address_for_byte i t = transfer_destination_start t + i"

definition source_end_inclusive :: "dma_transfer \<Rightarrow> u16" where
  "source_end_inclusive t = transfer_source_start t + transfer_total_bytes t - 1"

definition destination_end_inclusive :: "dma_transfer \<Rightarrow> u16" where
  "destination_end_inclusive t = transfer_destination_start t + transfer_total_bytes t - 1"

definition div_ceil16 :: "u16 \<Rightarrow> u16 \<Rightarrow> u16" where
  "div_ceil16 a b = (if a mod b = 0 then a div b else a div b + 1)"

definition transfer_total_blocks :: "dma_transfer \<Rightarrow> u16" where
  "transfer_total_blocks t = div_ceil16 (transfer_total_bytes t) (transfer_block_size t)"

definition lcd_domain_duration_dots :: "dma_transfer \<Rightarrow> u16" where
  "lcd_domain_duration_dots t =
     (case oam_speed_mode t of
        DoubleSpeed \<Rightarrow> div_ceil16 (total_t_cycles (transfer_timing t)) 2
      | NormalSpeed \<Rightarrow> total_t_cycles (transfer_timing t))"

definition source_bus :: "dma_transfer \<Rightarrow> dma_source_bus" where
  "source_bus t =
     (let a = source_address_for_byte 0 t
      in if 0x8000 \<le> a \<and> a \<le> 0x9FFF then SourceVideoRam
         else if 0xC000 \<le> a \<and> a \<le> 0xFDFF then SourceWorkRam
         else SourceExternal)"

subsection \<open>Progress of a transfer\<close>

record dma_transfer_progress =
  progress_transfer :: dma_transfer
  elapsed_t_cycles :: u16

definition progress_new :: "dma_transfer \<Rightarrow> dma_transfer_progress" where
  "progress_new t = \<lparr>progress_transfer = t, elapsed_t_cycles = 0\<rparr>"

definition progress_first_byte_delay :: "dma_transfer_progress \<Rightarrow> u16" where
  "progress_first_byte_delay p = u8_to_u16 (first_byte_delay_t_cycles (transfer_timing (progress_transfer p)))"

definition progress_restriction_delay :: "dma_transfer_progress \<Rightarrow> u16" where
  "progress_restriction_delay p =
     u8_to_u16 (cpu_bus_restriction_delay_t_cycles (transfer_timing (progress_transfer p)))"

definition progress_t_cycles_per_byte :: "dma_transfer_progress \<Rightarrow> u16" where
  "progress_t_cycles_per_byte p = u8_to_u16 (t_cycles_per_byte (transfer_timing (progress_transfer p)))"

definition first_byte_delay_remaining_t_cycles :: "dma_transfer_progress \<Rightarrow> u8" where
  "first_byte_delay_remaining_t_cycles p =
     (if progress_first_byte_delay p \<le> elapsed_t_cycles p then 0
      else ucast (progress_first_byte_delay p - elapsed_t_cycles p))"

definition cpu_bus_restriction_delay_remaining_t_cycles :: "dma_transfer_progress \<Rightarrow> u8" where
  "cpu_bus_restriction_delay_remaining_t_cycles p =
     (if progress_restriction_delay p \<le> elapsed_t_cycles p then 0
      else ucast (progress_restriction_delay p - elapsed_t_cycles p))"

definition is_cpu_bus_restriction_active :: "dma_transfer_progress \<Rightarrow> bool" where
  "is_cpu_bus_restriction_active p = (progress_restriction_delay p \<le> elapsed_t_cycles p)"

definition progress_completed_bytes :: "dma_transfer_progress \<Rightarrow> u16" where
  "progress_completed_bytes p =
     (if elapsed_t_cycles p < progress_first_byte_delay p then 0
      else
        let bytes = 1 + (elapsed_t_cycles p - progress_first_byte_delay p) div progress_t_cycles_per_byte p
        in if bytes > transfer_total_bytes (progress_transfer p)
           then transfer_total_bytes (progress_transfer p) else bytes)"

definition progress_remaining_bytes :: "dma_transfer_progress \<Rightarrow> u16" where
  "progress_remaining_bytes p = transfer_total_bytes (progress_transfer p) - progress_completed_bytes p"

definition progress_completed_blocks :: "dma_transfer_progress \<Rightarrow> u16" where
  "progress_completed_blocks p = progress_completed_bytes p div transfer_block_size (progress_transfer p)"

definition published_completed_blocks :: "dma_transfer_progress \<Rightarrow> u16" where
  "published_completed_blocks p =
     (let blocks = progress_completed_blocks p
      in if blocks = 0 then 0
         else
           let bytes = blocks * transfer_block_size (progress_transfer p);
               last_byte = progress_first_byte_delay p + (bytes - 1) * progress_t_cycles_per_byte p;
               release = last_byte + u8_to_u16 VRAM_DMA_PUBLICATION_T_CYCLES
           in if release \<le> elapsed_t_cycles p then blocks else blocks - 1)"

definition has_unpublished_completed_blocks :: "dma_transfer_progress \<Rightarrow> bool" where
  "has_unpublished_completed_blocks p = (progress_completed_blocks p > published_completed_blocks p)"

definition progress_remaining_blocks :: "dma_transfer_progress \<Rightarrow> u16" where
  "progress_remaining_blocks p =
     transfer_total_blocks (progress_transfer p) - progress_completed_blocks p"

definition byte_phase_t_cycles :: "dma_transfer_progress \<Rightarrow> u8" where
  "byte_phase_t_cycles p =
     (if elapsed_t_cycles p < progress_first_byte_delay p then ucast (elapsed_t_cycles p)
      else ucast ((elapsed_t_cycles p - progress_first_byte_delay p) mod progress_t_cycles_per_byte p))"

definition progress_is_complete :: "dma_transfer_progress \<Rightarrow> bool" where
  "progress_is_complete p = (total_t_cycles (transfer_timing (progress_transfer p)) \<le> elapsed_t_cycles p)"

definition sat_succ16 :: "u16 \<Rightarrow> u16" where
  "sat_succ16 w = (if w = 0xFFFF then w else w + 1)"

definition advance_one_t_cycle :: "dma_transfer_progress \<Rightarrow> dma_transfer_progress" where
  "advance_one_t_cycle p = p\<lparr>elapsed_t_cycles := sat_succ16 (elapsed_t_cycles p)\<rparr>"

subsection \<open>State of the controller\<close>

datatype vram_dma_state =
    VramInactive u8
  | GeneralPurposeActive vram_dma_transfer
  | GeneralPurposeComplete vram_dma_transfer
  | HBlankActive vram_dma_transfer

definition vram_dma_state_default :: vram_dma_state where
  "vram_dma_state_default = VramInactive HDMA5_TRANSFER_LENGTH_MASK"

fun vram_state_is_active :: "vram_dma_state \<Rightarrow> bool" where
  "vram_state_is_active (GeneralPurposeActive t) = True"
| "vram_state_is_active (HBlankActive t) = True"
| "vram_state_is_active (VramInactive low) = False"
| "vram_state_is_active (GeneralPurposeComplete t) = False"

fun vram_active_transfer :: "vram_dma_state \<Rightarrow> vram_dma_transfer option" where
  "vram_active_transfer (GeneralPurposeActive t) = Some t"
| "vram_active_transfer (HBlankActive t) = Some t"
| "vram_active_transfer (VramInactive low) = None"
| "vram_active_transfer (GeneralPurposeComplete t) = None"

fun hblank_active_transfer :: "vram_dma_state \<Rightarrow> vram_dma_transfer option" where
  "hblank_active_transfer (HBlankActive t) = Some t"
| "hblank_active_transfer (GeneralPurposeActive t) = None"
| "hblank_active_transfer (VramInactive low) = None"
| "hblank_active_transfer (GeneralPurposeComplete t) = None"

fun vram_state_read_hdma5 :: "vram_dma_state \<Rightarrow> u8" where
  "vram_state_read_hdma5 (VramInactive low) =
     HDMA5_INACTIVE_READ_BIT OR (low AND HDMA5_TRANSFER_LENGTH_MASK)"
| "vram_state_read_hdma5 (GeneralPurposeActive t) = remaining_blocks_minus_one t"
| "vram_state_read_hdma5 (GeneralPurposeComplete t) = HDMA5_COMPLETED_READ"
| "vram_state_read_hdma5 (HBlankActive t) = remaining_blocks_minus_one t"

datatype vram_dma_hblank_window = NoWindow | LcdDisabledWindow | VisibleHBlank u8

definition window_from_ppu_bus_state :: "ppu_bus_state \<Rightarrow> u8 \<Rightarrow> u16 \<Rightarrow> u16 \<Rightarrow> vram_dma_hblank_window" where
  "window_from_ppu_bus_state ppu ly line_dot mode0_start_dot =
     (if \<not> ppu_lcd_enabled ppu then LcdDisabledWindow
      else if ly < 144 \<and> ppu_mode ppu = AccessHBlank \<and> line_dot > mode0_start_dot + 2
      then VisibleHBlank ly
      else NoWindow)"

record vram_dma_runtime_context =
  ctx_ppu_bus_state :: ppu_bus_state
  ctx_ppu_ly :: u8
  ctx_ppu_line_dot :: u16
  ctx_ppu_mode0_start_dot :: u16
  ctx_cpu_halted :: bool
  ctx_speed_mode :: cgb_speed_mode

definition hblank_window :: "vram_dma_runtime_context \<Rightarrow> vram_dma_hblank_window" where
  "hblank_window c =
     window_from_ppu_bus_state (ctx_ppu_bus_state c) (ctx_ppu_ly c) (ctx_ppu_line_dot c)
       (ctx_ppu_mode0_start_dot c)"

definition runtime_context_for_speed ::
    "ppu_bus_state \<Rightarrow> u8 \<Rightarrow> bool \<Rightarrow> cgb_speed_mode \<Rightarrow> vram_dma_runtime_context" where
  "runtime_context_for_speed ppu ly halted mode =
     \<lparr>ctx_ppu_bus_state = ppu, ctx_ppu_ly = ly, ctx_ppu_line_dot = 3, ctx_ppu_mode0_start_dot = 0,
      ctx_cpu_halted = halted, ctx_speed_mode = mode\<rparr>"

definition runtime_context_default :: vram_dma_runtime_context where
  "runtime_context_default = runtime_context_for_speed ppu_bus_lcd_disabled 0 False NormalSpeed"

datatype dma_transfer_state =
    TransferIdle
  | TransferStarting dma_transfer_progress
  | TransferActive dma_transfer_progress
  | TransferCompleted dma_transfer_progress

datatype dma_transfer_lifecycle =
  LifecycleIdle | LifecycleStarting | LifecycleActive | LifecycleCompleted | LifecycleCancelled

fun transfer_progress :: "dma_transfer_state \<Rightarrow> dma_transfer_progress option" where
  "transfer_progress TransferIdle = None"
| "transfer_progress (TransferStarting p) = Some p"
| "transfer_progress (TransferActive p) = Some p"
| "transfer_progress (TransferCompleted p) = Some p"

definition state_current_transfer :: "dma_transfer_state \<Rightarrow> dma_transfer option" where
  "state_current_transfer s = map_option progress_transfer (transfer_progress s)"

fun transfer_lifecycle :: "dma_transfer_state \<Rightarrow> dma_transfer_lifecycle" where
  "transfer_lifecycle TransferIdle = LifecycleIdle"
| "transfer_lifecycle (TransferStarting p) = LifecycleStarting"
| "transfer_lifecycle (TransferActive p) = LifecycleActive"
| "transfer_lifecycle (TransferCompleted p) = LifecycleCompleted"

fun is_in_flight :: "dma_transfer_state \<Rightarrow> bool" where
  "is_in_flight (TransferStarting p) = True"
| "is_in_flight (TransferActive p) = True"
| "is_in_flight TransferIdle = False"
| "is_in_flight (TransferCompleted p) = False"

record dma_transfer_work =
  work_transfer :: dma_transfer
  work_byte_index :: u16

definition work_source_address :: "dma_transfer_work \<Rightarrow> u16" where
  "work_source_address w = source_address_for_byte (work_byte_index w) (work_transfer w)"

definition work_destination_address :: "dma_transfer_work \<Rightarrow> u16" where
  "work_destination_address w = destination_address_for_byte (work_byte_index w) (work_transfer w)"

definition vram_dma_source_address_is_supported :: "u16 \<Rightarrow> bool" where
  "vram_dma_source_address_is_supported a \<longleftrightarrow> a \<le> 0x7FFF \<or> 0xA000 \<le> a \<and> a \<le> 0xDFFF"

definition is_vram_kind :: "dma_transfer_kind \<Rightarrow> bool" where
  "is_vram_kind k \<longleftrightarrow> k = DmaGdma \<or> k = DmaHdma"

definition source_read_value_override :: "dma_transfer_work \<Rightarrow> u8 option" where
  "source_read_value_override w =
     (if is_vram_kind (transfer_kind (work_transfer w))
         \<and> \<not> vram_dma_source_address_is_supported (work_source_address w)
      then Some VRAM_DMA_INVALID_SOURCE_READ_VALUE else None)"

record dma_controller =
  dma_console_model :: console_model
  dma_status :: dma_status
  source_page_latch :: u8
  transfer_state :: dma_transfer_state
  pending_restart :: "dma_transfer_progress option"
  vram_registers :: vram_dma_registers
  vram_state :: vram_dma_state
  last_served_window :: vram_dma_hblank_window

record dma_save_state =
  dsave_console_model :: console_model
  dsave_status :: dma_status
  dsave_source_page_latch :: u8
  dsave_transfer_state :: dma_transfer_state
  dsave_pending_restart :: "dma_transfer_progress option"
  dsave_vram_registers :: vram_dma_registers
  dsave_vram_state :: vram_dma_state
  dsave_last_served_window :: vram_dma_hblank_window

definition dma_new :: "console_model \<Rightarrow> dma_controller" where
  "dma_new m =
     \<lparr>dma_console_model = m, dma_status = DmaReady, source_page_latch = 0,
      transfer_state = TransferIdle, pending_restart = None,
      vram_registers = vram_dma_registers_default, vram_state = vram_dma_state_default,
      last_served_window = NoWindow\<rparr>"

definition dma_capture_save_state :: "dma_controller \<Rightarrow> dma_save_state" where
  "dma_capture_save_state d =
     \<lparr>dsave_console_model = dma_console_model d, dsave_status = dma_status d,
      dsave_source_page_latch = source_page_latch d, dsave_transfer_state = transfer_state d,
      dsave_pending_restart = pending_restart d, dsave_vram_registers = vram_registers d,
      dsave_vram_state = vram_state d, dsave_last_served_window = last_served_window d\<rparr>"

definition dma_restore_save_state :: "dma_save_state \<Rightarrow> dma_controller \<Rightarrow> dma_controller" where
  "dma_restore_save_state s d =
     d\<lparr>dma_console_model := dsave_console_model s, dma_status := dsave_status s,
       source_page_latch := dsave_source_page_latch s, transfer_state := dsave_transfer_state s,
       pending_restart := dsave_pending_restart s, vram_registers := dsave_vram_registers s,
       vram_state := dsave_vram_state s, last_served_window := dsave_last_served_window s\<rparr>"

definition requires_t_cycle_tick :: "dma_controller \<Rightarrow> bool" where
  "requires_t_cycle_tick d \<longleftrightarrow>
     is_in_flight (transfer_state d) \<or> pending_restart d \<noteq> None \<or> vram_state_is_active (vram_state d)"

definition conflict_source :: "dma_transfer_progress \<Rightarrow> u16 option" where
  "conflict_source p =
     (if progress_completed_bytes p > 0
      then Some (source_address_for_byte (progress_completed_bytes p - 1) (progress_transfer p)) else None)"

definition dma_bus_state_of_progress :: "console_model \<Rightarrow> dma_transfer_progress \<Rightarrow> dma_bus_state" where
  "dma_bus_state_of_progress m p =
     (let region = Some (memory_region_impact (progress_transfer p))
      in if is_vram_kind (transfer_kind (progress_transfer p)) then dma_bus_video_blocked region
         else with_cpu_conflict_source_address (conflict_source p)
           (case source_bus (progress_transfer p) of
              SourceExternal \<Rightarrow> if is_cgb_family m then dma_bus_external_only_blocked region
                               else dma_bus_external_blocked region
            | SourceVideoRam \<Rightarrow> dma_bus_video_blocked region
            | SourceWorkRam \<Rightarrow> if is_cgb_family m then dma_bus_wram_blocked region
                              else dma_bus_external_blocked region))"

definition dma_bus_state_of :: "dma_controller \<Rightarrow> dma_bus_state" where
  "dma_bus_state_of d =
     (case (is_in_flight (transfer_state d), transfer_progress (transfer_state d)) of
        (True, Some p) \<Rightarrow>
          if \<not> is_cpu_bus_restriction_active p then dma_bus_unrestricted
          else dma_bus_state_of_progress (dma_console_model d) p
      | _ \<Rightarrow> dma_bus_unrestricted)"

definition cpu_stall_active :: "dma_controller \<Rightarrow> bool" where
  "cpu_stall_active d =
     (if \<not> is_in_flight (transfer_state d) then False
      else case transfer_progress (transfer_state d) of
             None \<Rightarrow> False
           | Some p \<Rightarrow>
               if \<not> is_cpu_bus_restriction_active p then False
               else cpu_impact_policy (progress_transfer p) = CpuFullyStalledUntilDone
                    \<or> cpu_impact_policy (progress_transfer p) = CpuStalledPerBlock)"

subsection \<open>Registers\<close>

definition read_ff46 :: "dma_controller \<Rightarrow> u8" where
  "read_ff46 d = source_page_latch d"

definition write_ff46_for_speed :: "u8 \<Rightarrow> cgb_speed_mode \<Rightarrow> dma_controller \<Rightarrow> dma_controller" where
  "write_ff46_for_speed v mode d =
     (let d = d\<lparr>source_page_latch := v\<rparr>;
          mode = (if is_cgb_family (dma_console_model d) then mode else NormalSpeed);
          restarted = progress_new (dma_transfer_oam_for_speed v mode)
      in if is_in_flight (transfer_state d) then d\<lparr>pending_restart := Some restarted\<rparr>
         else d\<lparr>transfer_state := TransferStarting restarted, pending_restart := None\<rparr>)"

definition write_ff46 :: "u8 \<Rightarrow> dma_controller \<Rightarrow> dma_controller" where
  "write_ff46 v = write_ff46_for_speed v NormalSpeed"

definition read_hdma5 :: "dma_controller \<Rightarrow> u8" where
  "read_hdma5 d = vram_state_read_hdma5 (vram_state d)"

definition write_hdma1 :: "u8 \<Rightarrow> dma_controller \<Rightarrow> dma_controller" where
  "write_hdma1 v d = d\<lparr>vram_registers := registers_write_hdma1 v (vram_registers d)\<rparr>"

definition write_hdma2 :: "u8 \<Rightarrow> dma_controller \<Rightarrow> dma_controller" where
  "write_hdma2 v d = d\<lparr>vram_registers := registers_write_hdma2 v (vram_registers d)\<rparr>"

definition write_hdma3 :: "u8 \<Rightarrow> dma_controller \<Rightarrow> dma_controller" where
  "write_hdma3 v d = d\<lparr>vram_registers := registers_write_hdma3 v (vram_registers d)\<rparr>"

definition write_hdma4 :: "u8 \<Rightarrow> dma_controller \<Rightarrow> dma_controller" where
  "write_hdma4 v d = d\<lparr>vram_registers := registers_write_hdma4 v (vram_registers d)\<rparr>"

definition cancel_hblank_transfer :: "u8 \<Rightarrow> dma_controller \<Rightarrow> dma_controller" where
  "cancel_hblank_transfer v d =
     (let d = d\<lparr>vram_state := VramInactive (v AND HDMA5_TRANSFER_LENGTH_MASK)\<rparr>
      in if map_option transfer_kind (state_current_transfer (transfer_state d)) = Some DmaHdma
         then d\<lparr>transfer_state := TransferIdle\<rparr> else d)"

definition start_vram_transfer :: "u8 \<Rightarrow> cgb_speed_mode \<Rightarrow> dma_controller \<Rightarrow> dma_controller" where
  "start_vram_transfer v mode d =
     (let blocks = u8_to_u16 (v AND HDMA5_TRANSFER_LENGTH_MASK) + 1
      in if v AND HDMA5_MODE_BIT = 0 then
           let t = vram_dma_transfer_new GeneralPurpose (vram_registers d) blocks
           in d\<lparr>transfer_state := TransferStarting (progress_new (dma_transfer_gdma_for_speed t mode)),
                pending_restart := None,
                vram_state := GeneralPurposeActive t,
                last_served_window := NoWindow\<rparr>
         else
           d\<lparr>vram_state := HBlankActive (vram_dma_transfer_new VramHBlank (vram_registers d) blocks),
             last_served_window := NoWindow\<rparr>)"

definition write_hdma5_for_speed :: "u8 \<Rightarrow> cgb_speed_mode \<Rightarrow> dma_controller \<Rightarrow> dma_controller" where
  "write_hdma5_for_speed v mode d =
     (case vram_state d of
        HBlankActive t \<Rightarrow> if v AND HDMA5_MODE_BIT = 0 then cancel_hblank_transfer v d else d
      | _ \<Rightarrow> start_vram_transfer v mode d)"

definition write_hdma5 :: "u8 \<Rightarrow> dma_controller \<Rightarrow> dma_controller" where
  "write_hdma5 v = write_hdma5_for_speed v NormalSpeed"

definition dma_apply_startup_state :: "u8 \<Rightarrow> dma_controller \<Rightarrow> dma_controller" where
  "dma_apply_startup_state page d =
     d\<lparr>source_page_latch := page, transfer_state := TransferIdle, pending_restart := None,
       vram_registers := vram_dma_registers_default, vram_state := vram_dma_state_default,
       last_served_window := NoWindow\<rparr>"

subsection \<open>A T-cycle\<close>

definition start_hdma_block_if_eligible :: "vram_dma_runtime_context \<Rightarrow> dma_controller \<Rightarrow> dma_controller" where
  "start_hdma_block_if_eligible c d =
     (if is_in_flight (transfer_state d) \<or> ctx_cpu_halted c then d
      else case vram_state d of
             HBlankActive t \<Rightarrow>
               if hblank_window c = NoWindow \<or> last_served_window d = hblank_window c then d
               else d\<lparr>transfer_state :=
                        TransferStarting (progress_new (dma_transfer_hdma_block_for_speed t (ctx_speed_mode c))),
                      last_served_window := hblank_window c\<rparr>
           | _ \<Rightarrow> d)"

fun step_transfer_state :: "dma_transfer_state \<Rightarrow> dma_transfer_state" where
  "step_transfer_state TransferIdle = TransferIdle"
| "step_transfer_state (TransferCompleted p) =
     (if is_vram_kind (transfer_kind (progress_transfer p)) \<and> has_unpublished_completed_blocks p
      then TransferCompleted (advance_one_t_cycle p) else TransferCompleted p)"
| "step_transfer_state (TransferStarting p) =
     (if is_cpu_bus_restriction_active (advance_one_t_cycle p)
      then TransferActive (advance_one_t_cycle p) else TransferStarting (advance_one_t_cycle p))"
| "step_transfer_state (TransferActive p) =
     (if progress_is_complete (advance_one_t_cycle p)
      then TransferCompleted (advance_one_t_cycle p) else TransferActive (advance_one_t_cycle p))"

definition transfer_work_for_current_t_cycle ::
    "dma_transfer_state \<Rightarrow> dma_transfer_state \<Rightarrow> dma_transfer_work option" where
  "transfer_work_for_current_t_cycle previous current =
     (case (transfer_progress previous, transfer_progress current) of
        (Some p, Some q) \<Rightarrow>
          if progress_completed_bytes q \<le> progress_completed_bytes p then None
          else Some \<lparr>work_transfer = progress_transfer q,
                     work_byte_index = progress_completed_bytes q - 1\<rparr>
      | _ \<Rightarrow> None)"

definition publish_blocks :: "dma_transfer_kind \<Rightarrow> u16 \<Rightarrow> dma_controller \<Rightarrow> dma_controller" where
  "publish_blocks kind blocks d =
     (case vram_state d of
        GeneralPurposeActive t \<Rightarrow>
          if kind = DmaGdma then
            let u = advance_completed_blocks blocks t
            in d\<lparr>vram_registers := registers_set_endpoints (vram_source_start u) (vram_destination_start u)
                                    (vram_registers d),
                 vram_state := (if vram_remaining_blocks u = 0 then GeneralPurposeComplete u
                                else GeneralPurposeActive u)\<rparr>
          else d
      | HBlankActive t \<Rightarrow>
          if kind = DmaHdma then
            let u = advance_completed_blocks blocks t
            in d\<lparr>vram_registers := registers_set_endpoints (vram_source_start u) (vram_destination_start u)
                                    (vram_registers d),
                 vram_state := (if vram_remaining_blocks u = 0 then VramInactive HDMA5_TRANSFER_LENGTH_MASK
                                else HBlankActive u)\<rparr>
          else d
      | _ \<Rightarrow> d)"

definition apply_vram_dma_progress_side_effects ::
    "dma_transfer_state \<Rightarrow> dma_transfer_state \<Rightarrow> dma_controller \<Rightarrow> dma_controller" where
  "apply_vram_dma_progress_side_effects previous current d =
     (case transfer_progress current of
        None \<Rightarrow> d
      | Some q \<Rightarrow>
          if \<not> is_vram_kind (transfer_kind (progress_transfer q)) then d
          else
            let blocks = published_completed_blocks q
                  - (case transfer_progress previous of None \<Rightarrow> 0 | Some p \<Rightarrow> published_completed_blocks p)
            in if blocks = 0 then d else publish_blocks (transfer_kind (progress_transfer q)) blocks d)"

definition dma_step_transfer :: "dma_controller \<Rightarrow> dma_transfer_work option \<times> dma_controller" where
  "dma_step_transfer d =
     (let previous = transfer_state d;
          current = step_transfer_state previous
      in (transfer_work_for_current_t_cycle previous current,
          apply_vram_dma_progress_side_effects previous current (d\<lparr>transfer_state := current\<rparr>)))"

definition dma_tick_t_cycle ::
    "vram_dma_runtime_context \<Rightarrow> dma_controller \<Rightarrow> dma_transfer_work option \<times> dma_controller" where
  "dma_tick_t_cycle c d =
     (let d = start_hdma_block_if_eligible c d
      in case pending_restart d of
           Some r \<Rightarrow>
             if \<not> is_cpu_bus_restriction_active (advance_one_t_cycle r)
             then dma_step_transfer (d\<lparr>pending_restart := Some (advance_one_t_cycle r)\<rparr>)
             else (None, d\<lparr>transfer_state := TransferActive (advance_one_t_cycle r), pending_restart := None\<rparr>)
         | None \<Rightarrow> dma_step_transfer d)"

end
