(* ===== verification/Dma_Laws.thy ===== *)
theory Dma_Laws
  imports Dma
begin

text \<open>
  What a DMA transfer does: which bytes it moves, when, from where and to where, where its
  writes can land, and how the VRAM registers follow the blocks.
\<close>

subsection \<open>A transfer in natural numbers\<close>

definition t_delay :: "dma_transfer \<Rightarrow> nat" where
  "t_delay t = unat (first_byte_delay_t_cycles (transfer_timing t))"

definition t_rate :: "dma_transfer \<Rightarrow> nat" where
  "t_rate t = unat (t_cycles_per_byte (transfer_timing t))"

definition t_restriction :: "dma_transfer \<Rightarrow> nat" where
  "t_restriction t = unat (cpu_bus_restriction_delay_t_cycles (transfer_timing t))"

definition t_bytes :: "dma_transfer \<Rightarrow> nat" where
  "t_bytes t = unat (transfer_total_bytes t)"

definition t_total :: "dma_transfer \<Rightarrow> nat" where
  "t_total t = unat (total_t_cycles (transfer_timing t))"

text \<open>Bytes a transfer has moved after \<open>e\<close> T-cycles.\<close>

definition bytes_moved :: "dma_transfer \<Rightarrow> nat \<Rightarrow> nat" where
  "bytes_moved t e = (if e < t_delay t then 0 else min (t_bytes t) (1 + (e - t_delay t) div t_rate t))"

definition transfer_ok :: "dma_transfer \<Rightarrow> bool" where
  "transfer_ok t \<longleftrightarrow>
     2 \<le> t_rate t \<and> 1 \<le> t_bytes t \<and> t_delay t + (t_bytes t - 1) * t_rate t < t_total t
     \<and> Suc (t_restriction t) < t_total t"

lemma u8_to_u16_nat [simp]: "unat (u8_to_u16 b) = unat b"
  using unsigned_less [of b, where ?'a = nat]
  by (simp add: u8_to_u16_def unsigned_ucast_eq take_bit_eq_mod)

lemma progress_nat [simp]:
  "unat (progress_first_byte_delay p) = t_delay (progress_transfer p)"
  "unat (progress_t_cycles_per_byte p) = t_rate (progress_transfer p)"
  "unat (progress_restriction_delay p) = t_restriction (progress_transfer p)"
  "unat (transfer_total_bytes t) = t_bytes t"
  "unat (total_t_cycles (transfer_timing t)) = t_total t"
  by (simp_all add: progress_first_byte_delay_def progress_t_cycles_per_byte_def t_bytes_def t_total_def
      progress_restriction_delay_def t_delay_def t_rate_def t_restriction_def)

lemma completed_bytes_nat:
  assumes "transfer_ok (progress_transfer p)"
  shows "unat (progress_completed_bytes p) = bytes_moved (progress_transfer p) (unat (elapsed_t_cycles p))"
proof -
  let ?t = "progress_transfer p" and ?e = "elapsed_t_cycles p"
  have r: "2 \<le> t_rate ?t" using assms by (simp add: transfer_ok_def)
  have q: "(unat ?e - t_delay ?t) div t_rate ?t < 65535"
  proof -
    have "(unat ?e - t_delay ?t) div t_rate ?t \<le> (unat ?e - t_delay ?t) div 2"
      using r by (intro div_le_mono2) auto
    also have "\<dots> < 65535" using unsigned_less [of ?e, where ?'a = nat] by simp
    finally show ?thesis .
  qed
  show ?thesis
  proof (cases "unat ?e < t_delay ?t")
    case True
    then show ?thesis
      by (simp add: progress_completed_bytes_def bytes_moved_def word_less_nat_alt)
  next
    case False
    let ?b = "1 + (?e - progress_first_byte_delay p) div progress_t_cycles_per_byte p"
    have d: "unat ((?e - progress_first_byte_delay p) div progress_t_cycles_per_byte p)
        = (unat ?e - t_delay ?t) div t_rate ?t"
      using False by (simp add: unat_div unat_sub_if')
    have b: "unat ?b = 1 + (unat ?e - t_delay ?t) div t_rate ?t"
      by (subst unat_word_ariths(1), subst d) (use q in simp)
    from False show ?thesis
      by (auto simp: progress_completed_bytes_def Let_def bytes_moved_def word_less_nat_alt b min_def)
  qed
qed

lemma bytes_moved_0: "transfer_ok t \<Longrightarrow> 0 < t_delay t \<Longrightarrow> bytes_moved t 0 = 0"
  by (simp add: bytes_moved_def)

lemma bytes_moved_mono: "e \<le> f \<Longrightarrow> bytes_moved t e \<le> bytes_moved t f"
  by (auto simp: bytes_moved_def min_def not_le not_less intro: le_trans div_le_mono
      dest: div_le_mono [of "e - t_delay t" "f - t_delay t" "t_rate t", rotated])
     (meson diff_le_mono div_le_mono le_trans not_less_eq_eq nat_less_le)+

lemma bytes_moved_Suc:
  assumes "transfer_ok t"
  shows "bytes_moved t (Suc e) = bytes_moved t e \<or> bytes_moved t (Suc e) = Suc (bytes_moved t e)"
proof -
  have "(Suc e - t_delay t) div t_rate t \<le> Suc ((e - t_delay t) div t_rate t)"
    if "t_delay t \<le> e"
    using assms that by (simp add: transfer_ok_def Suc_diff_le div_Suc)
  moreover have "(e - t_delay t) div t_rate t \<le> (Suc e - t_delay t) div t_rate t"
    by (intro div_le_mono) simp
  ultimately show ?thesis
    using assms by (auto simp: bytes_moved_def transfer_ok_def min_def)
qed

lemma bytes_moved_total: "transfer_ok t \<Longrightarrow> t_total t \<le> e \<Longrightarrow> bytes_moved t e = t_bytes t"
proof -
  assume ok: "transfer_ok t" and e: "t_total t \<le> e"
  then have le: "t_delay t + (t_bytes t - 1) * t_rate t \<le> e" and r: "0 < t_rate t" and n: "1 \<le> t_bytes t"
    by (auto simp: transfer_ok_def)
  then have "(t_bytes t - 1) * t_rate t div t_rate t \<le> (e - t_delay t) div t_rate t"
    by (intro div_le_mono) simp
  with r n le show "bytes_moved t e = t_bytes t"
    by (simp add: bytes_moved_def min_def)
qed

subsection \<open>Running a transfer\<close>

definition work_of :: "dma_transfer \<Rightarrow> nat \<Rightarrow> dma_transfer_work" where
  "work_of t i = \<lparr>work_transfer = t, work_byte_index = of_nat i\<rparr>"

primrec dma_run :: "vram_dma_runtime_context list \<Rightarrow> dma_controller \<Rightarrow> dma_transfer_work list \<times> dma_controller" where
  "dma_run [] d = ([], d)"
| "dma_run (c # cs) d =
     (case dma_tick_t_cycle c d of
        (w, d') \<Rightarrow> (case dma_run cs d' of (ws, d'') \<Rightarrow> ((case w of None \<Rightarrow> [] | Some x \<Rightarrow> [x]) @ ws, d'')))"

lemma publish_blocks_frame [simp]:
  "transfer_state (publish_blocks k n d) = transfer_state d"
  "pending_restart (publish_blocks k n d) = pending_restart d"
  "dma_console_model (publish_blocks k n d) = dma_console_model d"
  "source_page_latch (publish_blocks k n d) = source_page_latch d"
  "last_served_window (publish_blocks k n d) = last_served_window d"
  by (simp_all add: publish_blocks_def Let_def split: vram_dma_state.split)

lemma side_effects_frame [simp]:
  "transfer_state (apply_vram_dma_progress_side_effects s s' d) = transfer_state d"
  "pending_restart (apply_vram_dma_progress_side_effects s s' d) = pending_restart d"
  "dma_console_model (apply_vram_dma_progress_side_effects s s' d) = dma_console_model d"
  "source_page_latch (apply_vram_dma_progress_side_effects s s' d) = source_page_latch d"
  "last_served_window (apply_vram_dma_progress_side_effects s s' d) = last_served_window d"
  by (simp_all add: apply_vram_dma_progress_side_effects_def Let_def split: option.split)

lemma start_in_flight [simp]:
  "is_in_flight (transfer_state d) \<Longrightarrow> start_hdma_block_if_eligible c d = d"
  by (simp add: start_hdma_block_if_eligible_def)

text \<open>A transfer in flight, \<open>e\<close> T-cycles after its start.\<close>

definition flying :: "dma_transfer \<Rightarrow> nat \<Rightarrow> dma_transfer_state \<Rightarrow> bool" where
  "flying t e s \<longleftrightarrow>
     is_in_flight s \<and> e < t_total t
     \<and> (\<exists>p. transfer_progress s = Some p \<and> progress_transfer p = t \<and> unat (elapsed_t_cycles p) = e
            \<and> (s = TransferStarting p \<longrightarrow> Suc e < t_total t))"

definition landed :: "dma_transfer \<Rightarrow> dma_transfer_state \<Rightarrow> bool" where
  "landed t s \<longleftrightarrow> (\<exists>p. s = TransferCompleted p \<and> progress_transfer p = t \<and> unat (elapsed_t_cycles p) = t_total t)"

lemma total_small: "t_total t < 65536"
  using unsigned_less [of "total_t_cycles (transfer_timing t)", where ?'a = nat] by simp

lemma advance_nat:
  assumes "unat (elapsed_t_cycles p) = e" and "e < t_total (progress_transfer p)"
  shows "unat (elapsed_t_cycles (advance_one_t_cycle p)) = Suc e"
    and "progress_transfer (advance_one_t_cycle p) = progress_transfer p"
proof -
  have "Suc e < 65536" using assms(2) total_small [of "progress_transfer p"] by linarith
  with assms(1) show "unat (elapsed_t_cycles (advance_one_t_cycle p)) = Suc e"
    by (auto simp: advance_one_t_cycle_def sat_succ16_def word_unat_eq_iff unat_word_ariths)
qed (simp add: advance_one_t_cycle_def)

lemma flying_step:
  assumes "transfer_ok t" and "flying t e s"
  shows "if Suc e < t_total t then flying t (Suc e) (step_transfer_state s) else landed t (step_transfer_state s)"
    and "\<exists>p. transfer_progress s = Some p \<and> progress_transfer p = t \<and> unat (elapsed_t_cycles p) = e"
    and "\<exists>q. transfer_progress (step_transfer_state s) = Some q \<and> progress_transfer q = t
            \<and> unat (elapsed_t_cycles q) = Suc e"
proof -
  from assms(2) obtain p where p: "transfer_progress s = Some p" "progress_transfer p = t"
      "unat (elapsed_t_cycles p) = e" "e < t_total t" "is_in_flight s"
      "s = TransferStarting p \<longrightarrow> Suc e < t_total t"
    by (auto simp: flying_def)
  note adv = advance_nat [of p e, unfolded p(2), OF p(3,4)]
  have act: "is_cpu_bus_restriction_active (advance_one_t_cycle p) \<longleftrightarrow> t_restriction t \<le> Suc e"
    and com: "progress_is_complete (advance_one_t_cycle p) \<longleftrightarrow> t_total t \<le> Suc e"
    by (simp_all add: is_cpu_bus_restriction_active_def progress_is_complete_def word_le_nat_alt adv)
  have r: "Suc (t_restriction t) < t_total t" using assms(1) by (simp add: transfer_ok_def)
  show "if Suc e < t_total t then flying t (Suc e) (step_transfer_state s) else landed t (step_transfer_state s)"
  proof (cases s)
    case (TransferStarting x)
    with p have "x = p" "Suc e < t_total t" by auto
    with TransferStarting act adv r show ?thesis by (auto simp: flying_def)
  next
    case (TransferActive x)
    with p have "x = p" by auto
    with TransferActive com adv p(4) show ?thesis by (auto simp: flying_def landed_def)
  qed (use p in auto)
  show "\<exists>p. transfer_progress s = Some p \<and> progress_transfer p = t \<and> unat (elapsed_t_cycles p) = e"
    using p by blast
  show "\<exists>q. transfer_progress (step_transfer_state s) = Some q \<and> progress_transfer q = t
            \<and> unat (elapsed_t_cycles q) = Suc e"
    using p adv by (cases s) auto
qed

lemma step_work:
  assumes ok: "transfer_ok t"
    and p: "transfer_progress s = Some p" "progress_transfer p = t" "unat (elapsed_t_cycles p) = e"
    and q: "transfer_progress s' = Some q" "progress_transfer q = t" "unat (elapsed_t_cycles q) = Suc e"
  shows "transfer_work_for_current_t_cycle s s'
      = (if bytes_moved t (Suc e) = bytes_moved t e then None else Some (work_of t (bytes_moved t e)))"
proof -
  have np: "unat (progress_completed_bytes p) = bytes_moved t e"
    and nq: "unat (progress_completed_bytes q) = bytes_moved t (Suc e)"
    using completed_bytes_nat [of p] completed_bytes_nat [of q] p q ok by simp_all
  have "progress_completed_bytes q - 1 = of_nat (bytes_moved t e)"
    if "bytes_moved t (Suc e) = Suc (bytes_moved t e)"
  proof -
    have "progress_completed_bytes q = of_nat (unat (progress_completed_bytes q))" by simp
    also have "\<dots> = 1 + of_nat (bytes_moved t e)" by (simp only: nq that of_nat_Suc)
    finally show ?thesis by simp
  qed
  then show ?thesis
    using bytes_moved_Suc [OF ok, of e]
    by (auto simp: transfer_work_for_current_t_cycle_def p q word_le_nat_alt np nq work_of_def)
qed

lemma flying_tick:
  assumes ok: "transfer_ok t" and fl: "flying t e (transfer_state d)" and nr: "pending_restart d = None"
  obtains d' where "dma_tick_t_cycle c d
      = ((if bytes_moved t (Suc e) = bytes_moved t e then None else Some (work_of t (bytes_moved t e))), d')"
    and "transfer_state d' = step_transfer_state (transfer_state d)" and "pending_restart d' = None"
    and "dma_console_model d' = dma_console_model d"
proof -
  from flying_step(2,3) [OF ok fl] step_work [OF ok]
  have "transfer_work_for_current_t_cycle (transfer_state d) (step_transfer_state (transfer_state d))
      = (if bytes_moved t (Suc e) = bytes_moved t e then None else Some (work_of t (bytes_moved t e)))" by blast
  moreover have "is_in_flight (transfer_state d)" using fl by (simp add: flying_def)
  ultimately show thesis using that nr by (simp add: dma_tick_t_cycle_def Let_def dma_step_transfer_def)
qed

lemma bytes_moved_upt:
  assumes "transfer_ok t" and "e \<le> f"
  shows "(if bytes_moved t (Suc e) = bytes_moved t e then [] else [work_of t (bytes_moved t e)])
      @ map (work_of t) [bytes_moved t (Suc e) ..< bytes_moved t (Suc f)]
    = map (work_of t) [bytes_moved t e ..< bytes_moved t (Suc f)]"
  using bytes_moved_Suc [OF assms(1), of e] bytes_moved_mono [of "Suc e" "Suc f" t] assms(2)
  by (auto simp: upt_conv_Cons)

text \<open>Run for as long as it takes, a transfer in flight moves exactly its bytes, in order, each as its
  time comes.\<close>

lemma run_transfer:
  assumes "transfer_ok t" and "flying t e (transfer_state d)" and "pending_restart d = None"
    and "e + length cs \<le> t_total t"
  shows "fst (dma_run cs d) = map (work_of t) [bytes_moved t e ..< bytes_moved t (e + length cs)]
    \<and> pending_restart (snd (dma_run cs d)) = None
    \<and> dma_console_model (snd (dma_run cs d)) = dma_console_model d
    \<and> (if e + length cs < t_total t then flying t (e + length cs) (transfer_state (snd (dma_run cs d)))
       else landed t (transfer_state (snd (dma_run cs d))))"
  using assms
proof (induction cs arbitrary: d e)
  case Nil
  then show ?case by (auto simp: flying_def)
next
  case (Cons c cs)
  obtain d' where tick: "dma_tick_t_cycle c d
      = ((if bytes_moved t (Suc e) = bytes_moved t e then None else Some (work_of t (bytes_moved t e))), d')"
    and st: "transfer_state d' = step_transfer_state (transfer_state d)" and nr: "pending_restart d' = None"
    and m: "dma_console_model d' = dma_console_model d"
    using flying_tick [OF Cons.prems(1,2,3)] by metis
  note upt = bytes_moved_upt [OF Cons.prems(1), of e "e + length cs"]
  show ?case
  proof (cases cs)
    case Nil
    with flying_step(1) [OF Cons.prems(1,2)] tick st nr m upt show ?thesis by (auto split: if_splits)
  next
    case (Cons b bs)
    with Cons.prems have "Suc e < t_total t" by simp
    with flying_step(1) [OF Cons.prems(1,2)] st have "flying t (Suc e) (transfer_state d')" by simp
    from Cons.IH [OF Cons.prems(1) this nr] Cons.prems(4)
    show ?thesis using tick upt m by (cases "dma_run cs d'") (auto split: if_splits)
  qed
qed

subsection \<open>The transfers the controller starts\<close>

lemma oam_transfer_numbers:
  "t_delay (dma_transfer_oam_for_speed v m) = 8" "t_rate (dma_transfer_oam_for_speed v m) = 4"
  "t_bytes (dma_transfer_oam_for_speed v m) = 160" "t_total (dma_transfer_oam_for_speed v m) = 648"
  "t_restriction (dma_transfer_oam_for_speed v m) = 5"
  unfolding t_delay_def t_rate_def t_bytes_def t_total_def t_restriction_def
  by (simp_all add: dma_transfer_oam_for_speed_def dma_constants del: progress_nat)

lemma oam_transfer_ok [simp]: "transfer_ok (dma_transfer_oam_for_speed v m)"
  by (simp add: transfer_ok_def oam_transfer_numbers)

lemma fresh_flying:
  "transfer_ok t \<Longrightarrow> flying t 0 (TransferStarting (progress_new t))"
  by (auto simp: flying_def progress_new_def transfer_ok_def)

lemma write_ff46_starts:
  assumes "\<not> is_in_flight (transfer_state d)"
  obtains m' where "transfer_state (write_ff46_for_speed v m d)
      = TransferStarting (progress_new (dma_transfer_oam_for_speed v m'))"
    and "pending_restart (write_ff46_for_speed v m d) = None"
    and "dma_console_model (write_ff46_for_speed v m d) = dma_console_model d"
  using assms that by (simp add: write_ff46_for_speed_def Let_def)

text \<open>First source address of page \<open>v\<close>: pages from \<open>0xE0\<close> on alias work RAM.\<close>

definition oam_source_base :: "u8 \<Rightarrow> u16" where
  "oam_source_base v = (if 0xE0 \<le> v then push_bit 8 (u8_to_u16 v) - 0x2000 else push_bit 8 (u8_to_u16 v))"

definition oam_bytes_by :: "nat \<Rightarrow> nat" where
  "oam_bytes_by k = (if k < 8 then 0 else min 160 (1 + (k - 8) div 4))"

lemma oam_bytes_moved: "bytes_moved (dma_transfer_oam_for_speed v m) k = oam_bytes_by k"
  by (auto simp: bytes_moved_def oam_bytes_by_def oam_transfer_numbers)

lemma oam_work_addresses:
  assumes "i < 160"
  shows "work_source_address (work_of (dma_transfer_oam_for_speed v m) i) = oam_source_base v + of_nat i"
    and "work_destination_address (work_of (dma_transfer_oam_for_speed v m) i) = 0xFE00 + of_nat i"
proof -
  have v: "unat (push_bit 8 (u8_to_u16 v)) = 256 * unat v"
    using unsigned_less [of v, where ?'a = nat]
    by (simp add: push_bit_eq_mult unat_word_ariths)
  have i: "unat (of_nat i :: u16) = i" using assms by (simp add: unat_of_nat)
  have "0xE000 \<le> push_bit 8 (u8_to_u16 v) + (of_nat i :: u16) \<longleftrightarrow> 0xE0 \<le> v"
    using assms unsigned_less [of v, where ?'a = nat]
    by (auto simp: word_le_nat_alt unat_word_ariths v i)
  then show "work_source_address (work_of (dma_transfer_oam_for_speed v m) i) = oam_source_base v + of_nat i"
    by (simp add: work_source_address_def work_of_def source_address_for_byte_def normalize_oam_source_address_def
        dma_transfer_oam_for_speed_def oam_source_base_def dma_constants)
  show "work_destination_address (work_of (dma_transfer_oam_for_speed v m) i) = 0xFE00 + of_nat i"
    by (simp add: work_destination_address_def work_of_def destination_address_for_byte_def
        dma_transfer_oam_for_speed_def dma_constants)
qed

lemma bus_state_policy:
  "cpu_access_policy (dma_bus_state_of_progress m p) \<noteq> DmaUnrestricted"
  by (simp add: dma_bus_state_of_progress_def Let_def with_cpu_conflict_source_address_def
      dma_bus_video_blocked_def dma_bus_external_blocked_def dma_bus_external_only_blocked_def
      dma_bus_wram_blocked_def split: dma_source_bus.split)

lemma flying_bus_state:
  assumes "flying t e (transfer_state d)"
  shows "cpu_access_policy (dma_bus_state_of d) = DmaUnrestricted \<longleftrightarrow> e < t_restriction t"
proof -
  from assms obtain p where "transfer_progress (transfer_state d) = Some p" "is_in_flight (transfer_state d)"
    "progress_transfer p = t" "unat (elapsed_t_cycles p) = e" by (auto simp: flying_def)
  then show ?thesis
    by (auto simp: dma_bus_state_of_def is_cpu_bus_restriction_active_def word_le_nat_alt bus_state_policy
        dma_bus_unrestricted_def)
qed

lemma landed_bus_state: "landed t (transfer_state d) \<Longrightarrow> dma_bus_state_of d = dma_bus_unrestricted"
  by (auto simp: landed_def dma_bus_state_of_def)

text \<open>C30. OAM DMA: a write to \<open>FF46\<close> while no transfer is in flight moves the 160 bytes of the page to
  OAM, each once and in order, the first after 8 T-cycles and one every 4 from then on, whatever the PPU and the
  CPU do; the CPU's bus is restricted from the fifth T-cycle until the transfer ends after 648.\<close>

theorem oam_dma_moves_the_page:
  assumes "\<not> is_in_flight (transfer_state d)" and "length cs \<le> 648"
  shows "map (\<lambda>w. (work_source_address w, work_destination_address w))
           (fst (dma_run cs (write_ff46_for_speed v m d)))
         = map (\<lambda>i. (oam_source_base v + of_nat i, 0xFE00 + of_nat i)) [0 ..< oam_bytes_by (length cs)]
    \<and> (cpu_access_policy (dma_bus_state_of (snd (dma_run cs (write_ff46_for_speed v m d)))) = DmaUnrestricted
         \<longleftrightarrow> length cs < 5 \<or> length cs = 648)"
proof -
  obtain m' where st: "transfer_state (write_ff46_for_speed v m d)
      = TransferStarting (progress_new (dma_transfer_oam_for_speed v m'))"
    and nr: "pending_restart (write_ff46_for_speed v m d) = None"
    using write_ff46_starts [OF assms(1)] by metis
  let ?t = "dma_transfer_oam_for_speed v m'" and ?r = "dma_run cs (write_ff46_for_speed v m d)"
  have run: "fst ?r = map (work_of ?t) [0 ..< oam_bytes_by (length cs)]"
    and fin: "if length cs < 648 then flying ?t (length cs) (transfer_state (snd ?r))
        else landed ?t (transfer_state (snd ?r))"
    using run_transfer [OF oam_transfer_ok, of v m' 0 "write_ff46_for_speed v m d" cs] st nr assms(2)
      fresh_flying [OF oam_transfer_ok, of v m']
    by (auto simp: oam_transfer_numbers oam_bytes_moved oam_bytes_by_def)
  have "(cpu_access_policy (dma_bus_state_of (snd ?r)) = DmaUnrestricted \<longleftrightarrow> length cs < 5 \<or> length cs = 648)"
    using fin flying_bus_state [of ?t "length cs" "snd ?r"] landed_bus_state [of ?t "snd ?r"] assms(2)
    by (auto simp: oam_transfer_numbers dma_bus_unrestricted_def split: if_splits)
  moreover have "\<forall>i \<in> set [0 ..< oam_bytes_by (length cs)]. i < 160" by (auto simp: oam_bytes_by_def)
  ultimately show ?thesis by (simp add: run oam_work_addresses)
qed

lemma oam_dma_moves_the_page_witness:
  "length (fst (dma_run (replicate 648 runtime_context_default) (write_ff46 0xC1 (dma_new GameBoy)))) = 160
   \<and> cpu_access_policy (dma_bus_state_of
        (snd (dma_run (replicate 648 runtime_context_default) (write_ff46 0xC1 (dma_new GameBoy))))) = DmaUnrestricted"
  using oam_dma_moves_the_page [of "dma_new GameBoy" "replicate 648 runtime_context_default" "0xC1" NormalSpeed]
  by (auto simp: dma_new_def write_ff46_def oam_bytes_by_def dest: arg_cong [where f = length])

end
