(* ===== verification/Dma_Safety.thy ===== *)
theory Dma_Safety
  imports Dma_Laws
begin

text \<open>
  Where DMA can read and write: an invariant of the controller that every operation and every
  T-cycle keeps, and what it says of each byte of work.
\<close>

subsection \<open>Well-formed transfers\<close>

definition transfer_lands :: "dma_transfer \<Rightarrow> bool" where
  "transfer_lands t \<longleftrightarrow>
     transfer_ok t
     \<and> (if transfer_kind t = DmaOam
        then transfer_destination_start t = 0xFE00 \<and> t_bytes t = 160 \<and> ucast (transfer_source_start t) = (0::u8)
        else 0x8000 \<le> unat (transfer_destination_start t)
             \<and> unat (transfer_destination_start t) + t_bytes t \<le> 0xA000)"

definition vram_transfer_lands :: "vram_dma_transfer \<Rightarrow> bool" where
  "vram_transfer_lands t \<longleftrightarrow>
     0x8000 \<le> unat (vram_destination_start t)
     \<and> unat (vram_destination_start t) + 16 * unat (vram_remaining_blocks t) \<le> 0xA000"

definition registers_wf :: "vram_dma_registers \<Rightarrow> bool" where
  "registers_wf r \<longleftrightarrow> unat (destination_high r) < 0x20 \<and> unat (destination_low r) mod 16 = 0"

definition state_lands :: "dma_transfer_state \<Rightarrow> bool" where
  "state_lands s = (case transfer_progress s of None \<Rightarrow> True | Some p \<Rightarrow> transfer_lands (progress_transfer p))"

definition dma_wf :: "dma_controller \<Rightarrow> bool" where
  "dma_wf d \<longleftrightarrow>
     state_lands (transfer_state d)
     \<and> (case pending_restart d of None \<Rightarrow> True | Some p \<Rightarrow> transfer_lands (progress_transfer p))
     \<and> registers_wf (vram_registers d)
     \<and> (case vram_active_transfer (vram_state d) of
          None \<Rightarrow> True | Some t \<Rightarrow> vram_transfer_lands t \<and> vram_remaining_blocks t \<noteq> 0)"

lemma oam_transfer_lands: "transfer_lands (dma_transfer_oam_for_speed v m)"
proof -
  have "ucast (push_bit 8 (u8_to_u16 v)) = (0::u8)"
    by (intro bit_word_eqI) (simp add: bit_ucast_iff bit_push_bit_iff)
  then show ?thesis
    unfolding transfer_lands_def oam_transfer_numbers
    by (simp add: dma_transfer_oam_for_speed_def dma_constants)
       (use oam_transfer_ok [of v m] in \<open>simp add: dma_transfer_oam_for_speed_def dma_constants\<close>)
qed

lemma vram_timing_ok:
  assumes t: "transfer_timing t = vram_dma_timing n m" "transfer_total_bytes t = n"
    and n: "1 \<le> unat n" "unat n \<le> 0x2000"
  shows "transfer_ok t" and "t_bytes t = unat n"
proof -
  obtain k where k: "unat n = Suc k" "k < 0x2000" using n by (cases "unat n") auto
  have m1: "unat (n - 1) = k" using k by (simp add: unat_sub_if')
  have "n \<noteq> 0" using k(1) by auto
  then show "transfer_ok t" "t_bytes t = unat n"
    unfolding transfer_ok_def t_delay_def t_rate_def t_bytes_def t_total_def t_restriction_def
    using k by (cases m; simp add: t vram_dma_timing_def vram_dma_body_t_cycles_def dma_constants
        vram_dma_first_byte_delay_t_cycles_def vram_dma_t_cycles_per_byte_def unat_word_ariths m1
        del: progress_nat)+
qed

definition vram_byte_t_cycles :: "cgb_speed_mode \<Rightarrow> nat" where
  "vram_byte_t_cycles m = (case m of NormalSpeed \<Rightarrow> 2 | DoubleSpeed \<Rightarrow> 4)"

lemma vram_timing_numbers:
  assumes t: "transfer_timing t = vram_dma_timing n m" and n: "1 \<le> unat n" "unat n \<le> 0x2000"
  shows "t_delay t = vram_byte_t_cycles m" "t_rate t = vram_byte_t_cycles m"
    and "t_total t = vram_byte_t_cycles m * unat n + 5"
proof -
  obtain k where k: "unat n = Suc k" "k < 0x2000" using n by (cases "unat n") auto
  have m1: "unat (n - 1) = k" using k by (simp add: unat_sub_if')
  have "n \<noteq> 0" using k(1) by auto
  then show "t_delay t = vram_byte_t_cycles m" "t_rate t = vram_byte_t_cycles m"
    "t_total t = vram_byte_t_cycles m * unat n + 5"
    unfolding t_delay_def t_rate_def t_total_def vram_byte_t_cycles_def
    using k by (cases m; simp add: t vram_dma_timing_def vram_dma_body_t_cycles_def dma_constants
        vram_dma_first_byte_delay_t_cycles_def vram_dma_t_cycles_per_byte_def unat_word_ariths m1
        del: progress_nat)+
qed

lemma remaining_bytes_nat:
  assumes "vram_transfer_lands t" and "vram_remaining_blocks t \<noteq> 0"
  shows "unat (vram_remaining_bytes t) = 16 * unat (vram_remaining_blocks t)"
    and "1 \<le> unat (vram_remaining_blocks t)" and "16 * unat (vram_remaining_blocks t) \<le> 0x2000"
proof -
  show le: "16 * unat (vram_remaining_blocks t) \<le> 0x2000" using assms(1) by (simp add: vram_transfer_lands_def)
  show "1 \<le> unat (vram_remaining_blocks t)"
    using assms(2) by (simp add: word_unat_eq_iff Suc_le_eq)
  show "unat (vram_remaining_bytes t) = 16 * unat (vram_remaining_blocks t)"
    using le by (simp add: vram_remaining_bytes_def dma_constants unat_word_ariths)
qed

lemma gdma_transfer_lands:
  assumes "vram_transfer_lands t" and "vram_remaining_blocks t \<noteq> 0"
  shows "transfer_lands (dma_transfer_gdma_for_speed t m)"
proof -
  note b = remaining_bytes_nat [OF assms]
  have "transfer_timing (dma_transfer_gdma_for_speed t m) = vram_dma_timing (vram_remaining_bytes t) m"
    "transfer_total_bytes (dma_transfer_gdma_for_speed t m) = vram_remaining_bytes t"
    by (simp_all add: dma_transfer_gdma_for_speed_def)
  from vram_timing_ok [OF this] b assms(1)
  show ?thesis by (simp add: transfer_lands_def vram_transfer_lands_def)
      (simp add: dma_transfer_gdma_for_speed_def)
qed

lemma hdma_transfer_lands:
  assumes "vram_transfer_lands t" and "vram_remaining_blocks t \<noteq> 0"
  shows "transfer_lands (dma_transfer_hdma_block_for_speed t m)"
proof -
  note b = remaining_bytes_nat [OF assms]
  have "transfer_timing (dma_transfer_hdma_block_for_speed t m) = vram_dma_timing VRAM_DMA_BLOCK_BYTES m"
    "transfer_total_bytes (dma_transfer_hdma_block_for_speed t m) = VRAM_DMA_BLOCK_BYTES"
    by (simp_all add: dma_transfer_hdma_block_for_speed_def)
  from vram_timing_ok [OF this] b assms(1)
  show ?thesis by (simp add: transfer_lands_def vram_transfer_lands_def dma_constants)
      (simp add: dma_transfer_hdma_block_for_speed_def)
qed

subsection \<open>Every operation keeps the controller well formed\<close>

lemma registers_destination_nat:
  assumes "registers_wf r"
  shows "0x8000 \<le> unat (registers_destination_start r)" "unat (registers_destination_start r) < 0xA000"
    and "unat (registers_destination_start r) mod 16 = 0"
proof -
  have h: "unat (u8_to_u16 (destination_high r)) < 0x20" and l: "unat (u8_to_u16 (destination_low r)) < 256"
    and l16: "unat (destination_low r) mod 16 = 0"
    using assms unsigned_less [of "destination_low r", where ?'a = nat] by (simp_all add: registers_wf_def)
  have "registers_destination_start r = 0x8000 + (push_bit 8 (u8_to_u16 (destination_high r)) + u8_to_u16 (destination_low r))"
  proof -
    have d1: "push_bit 8 (u8_to_u16 (destination_high r)) AND u8_to_u16 (destination_low r) = 0"
      by (intro bit_word_eqI) (auto simp: bit_simps u8_to_u16_def dest: bit_imp_le_length)
    have hb: "\<not> bit (u8_to_u16 (destination_high r)) k" if "5 \<le> k" for k
    proof -
      have "unat (u8_to_u16 (destination_high r)) < 2 ^ k"
        using h power_increasing [OF that, of "2 :: nat"] by simp
      then have "\<not> bit (unat (u8_to_u16 (destination_high r))) k" by (simp add: bit_iff_odd)
      then show ?thesis by (simp add: bit_unsigned_iff u8_to_u16_def)
    qed
    have d2: "0x8000 AND (push_bit 8 (u8_to_u16 (destination_high r)) OR u8_to_u16 (destination_low r)) = 0"
    proof (intro bit_word_eqI)
      fix n assume "n < LENGTH(16)"
      have e: "(0x8000 :: u16) = push_bit 15 1" by (simp add: push_bit_eq_mult)
      have "bit (0x8000 :: u16) n \<longleftrightarrow> n = 15"
        using \<open>n < LENGTH(16)\<close> by (subst e, subst bit_push_bit_iff) (auto simp: bit_1_iff)
      then show "bit (0x8000 AND (push_bit 8 (u8_to_u16 (destination_high r)) OR u8_to_u16 (destination_low r))) n
          \<longleftrightarrow> bit (0 :: u16) n"
        using hb [of "n - 8"]
        by (auto simp: bit_and_iff bit_or_iff bit_push_bit_iff u8_to_u16_def bit_unsigned_iff dest: bit_imp_le_length)
    qed
    show ?thesis
      unfolding registers_destination_start_def
      by (simp only: disjunctive_add_eq_or [OF d1] disjunctive_add_eq_or [OF d2] or.assoc)
  qed
  then have "unat (registers_destination_start r) = 0x8000 + (256 * unat (destination_high r) + unat (destination_low r))"
    using h l by (simp add: unat_word_ariths push_bit_eq_mult)
  with h l l16 show "0x8000 \<le> unat (registers_destination_start r)" "unat (registers_destination_start r) < 0xA000"
    "unat (registers_destination_start r) mod 16 = 0" by (simp_all add: mod_simps) presburger
qed

lemma new_transfer_lands:
  assumes "registers_wf r" and "1 \<le> unat blocks"
  shows "vram_transfer_lands (vram_dma_transfer_new mode r blocks)"
    and "vram_remaining_blocks (vram_dma_transfer_new mode r blocks) \<noteq> 0"
proof -
  note d = registers_destination_nat [OF assms(1)]
  let ?u = "(VRAM_DMA_DESTINATION_END + 1 - registers_destination_start r) div VRAM_DMA_BLOCK_BYTES"
  have u: "unat ?u = (0xA000 - unat (registers_destination_start r)) div 16"
    using d by (simp add: dma_constants unat_div unat_sub_if')
  have u1: "1 \<le> unat ?u" and u2: "unat (registers_destination_start r) + 16 * unat ?u \<le> 0xA000"
    using d unfolding u by presburger+
  let ?n = "clip_vram_dma_blocks_for_destination (registers_destination_start r) blocks"
  have "unat ?n = min (unat blocks) (unat ?u)"
    by (simp add: clip_vram_dma_blocks_for_destination_def word_less_nat_alt min_def)
  with u1 u2 assms(2) d have "1 \<le> unat ?n" "unat (registers_destination_start r) + 16 * unat ?n \<le> 0xA000"
    by (auto simp: min_def)
  with d show "vram_transfer_lands (vram_dma_transfer_new mode r blocks)"
    "vram_remaining_blocks (vram_dma_transfer_new mode r blocks) \<noteq> 0"
    by (auto simp: vram_dma_transfer_new_def vram_transfer_lands_def Let_def)
qed

lemma advance_lands:
  assumes "vram_transfer_lands t"
  shows "vram_transfer_lands (advance_completed_blocks n t)"
proof -
  let ?k = "if n > vram_remaining_blocks t then vram_remaining_blocks t else n"
  have k: "unat ?k \<le> unat (vram_remaining_blocks t)" by (auto simp: word_less_nat_alt)
  from assms have l: "0x8000 \<le> unat (vram_destination_start t)"
    "unat (vram_destination_start t) + 16 * unat (vram_remaining_blocks t) \<le> 0xA000"
    by (simp_all add: vram_transfer_lands_def)
  have b: "unat (?k * VRAM_DMA_BLOCK_BYTES) = 16 * unat ?k"
    using k l by (simp add: dma_constants unat_word_ariths del: if_split)
  have "unat (vram_destination_start t + ?k * VRAM_DMA_BLOCK_BYTES) = unat (vram_destination_start t) + 16 * unat ?k"
    "unat (vram_remaining_blocks t - ?k) = unat (vram_remaining_blocks t) - unat ?k"
    using k l by (simp_all only: unat_word_ariths(1) b unat_sub_if') simp_all
  with l k show ?thesis by (simp add: vram_transfer_lands_def advance_completed_blocks_def Let_def del: if_split)
qed

lemma byte_masks:
  "unat ((x::u8) AND 0x1F) < 32" "unat ((x::u8) AND 0xF0) mod 16 = 0"
proof -
  have "x AND 0x1F = take_bit 5 x" by (simp add: take_bit_eq_mask mask_eq_exp_minus_1)
  then show "unat (x AND 0x1F) < 32"
    by (simp only: unsigned_take_bit_eq) (use take_bit_nat_less_exp [of 5 "unat x"] in simp)
  have "take_bit 4 (x AND 0xF0) = 0" by (simp add: take_bit_eq_mask mask_eq_exp_minus_1 and.assoc)
  moreover have "unat (x AND 0xF0) mod 2 ^ 4 = unat (take_bit 4 (x AND 0xF0))"
    by (simp only: unsigned_take_bit_eq take_bit_nat_def)
  ultimately show "unat (x AND 0xF0) mod 16 = 0" by simp
qed

lemma set_endpoints_wf: "registers_wf (registers_set_endpoints a b r)"
  by (simp add: registers_wf_def registers_set_endpoints_def byte_masks)

lemma publish_wf: "dma_wf d \<Longrightarrow> dma_wf (publish_blocks k n d)"
  using advance_lands [of _ n]
  by (auto simp: dma_wf_def publish_blocks_def Let_def set_endpoints_wf split: vram_dma_state.split)

lemma side_effects_wf: "dma_wf d \<Longrightarrow> dma_wf (apply_vram_dma_progress_side_effects s s' d)"
  by (auto simp: apply_vram_dma_progress_side_effects_def Let_def publish_wf split: option.split)

lemma advance_transfer [simp]: "progress_transfer (advance_one_t_cycle p) = progress_transfer p"
  by (simp add: advance_one_t_cycle_def)

lemma step_transfer [simp]:
  "map_option progress_transfer (transfer_progress (step_transfer_state s)) = map_option progress_transfer (transfer_progress s)"
  by (cases s) auto

lemma state_lands_iff:
  "state_lands s \<longleftrightarrow> (case map_option progress_transfer (transfer_progress s) of None \<Rightarrow> True | Some t \<Rightarrow> transfer_lands t)"
  by (simp add: state_lands_def split: option.split)

lemma step_lands: "state_lands (step_transfer_state s) = state_lands s"
  by (simp add: state_lands_iff)

lemma start_wf: "dma_wf d \<Longrightarrow> dma_wf (start_hdma_block_if_eligible c d)"
  using hdma_transfer_lands
  by (auto simp: dma_wf_def start_hdma_block_if_eligible_def state_lands_def progress_new_def
      split: vram_dma_state.split)

lemma dma_step_wf: "dma_wf d \<Longrightarrow> dma_wf (snd (dma_step_transfer d))"
  by (auto simp: dma_step_transfer_def Let_def intro!: side_effects_wf) (auto simp: dma_wf_def step_lands)

lemma tick_wf: "dma_wf d \<Longrightarrow> dma_wf (snd (dma_tick_t_cycle c d))"
  using start_wf [of d c]
  by (auto simp: dma_tick_t_cycle_def Let_def split: option.split intro!: dma_step_wf)
     (auto simp: dma_wf_def state_lands_def)

lemma write_ff46_wf: "dma_wf d \<Longrightarrow> dma_wf (write_ff46_for_speed v m d)"
  using oam_transfer_lands
  by (auto simp: dma_wf_def write_ff46_for_speed_def Let_def state_lands_def progress_new_def)

lemma write_hdma_wf:
  assumes "dma_wf d"
  shows "dma_wf (write_hdma1 v d)" "dma_wf (write_hdma2 v d)" "dma_wf (write_hdma3 v d)" "dma_wf (write_hdma4 v d)"
  using assms byte_masks [of v]
  by (simp_all add: dma_wf_def write_hdma1_def write_hdma2_def write_hdma3_def write_hdma4_def registers_wf_def
      registers_write_hdma1_def registers_write_hdma2_def registers_write_hdma3_def registers_write_hdma4_def)

lemma hdma5_blocks: "1 \<le> unat (u8_to_u16 (v AND HDMA5_TRANSFER_LENGTH_MASK) + 1)"
  using unsigned_less [of "v AND HDMA5_TRANSFER_LENGTH_MASK", where ?'a = nat] by (simp add: unat_word_ariths)

lemma write_hdma5_wf: assumes "dma_wf d" shows "dma_wf (write_hdma5_for_speed v m d)"
proof -
  have r: "registers_wf (vram_registers d)" using assms by (simp add: dma_wf_def)
  note t = new_transfer_lands [OF r hdma5_blocks [of v]]
  have "dma_wf (start_vram_transfer v m d)"
    using assms t gdma_transfer_lands [OF t(1) t(2)]
    by (auto simp: dma_wf_def start_vram_transfer_def Let_def state_lands_def progress_new_def)
  moreover have "dma_wf (cancel_hblank_transfer v d)"
    using assms by (auto simp: dma_wf_def cancel_hblank_transfer_def Let_def state_lands_def)
  ultimately show ?thesis using assms by (simp add: write_hdma5_for_speed_def split: vram_dma_state.split)
qed

subsection \<open>Where the bytes go\<close>

datatype dma_op =
    OpWriteFf46 u8 cgb_speed_mode
  | OpWriteHdma1 u8 | OpWriteHdma2 u8 | OpWriteHdma3 u8 | OpWriteHdma4 u8
  | OpWriteHdma5 u8 cgb_speed_mode
  | OpStartup u8
  | OpTick vram_dma_runtime_context

fun dma_apply :: "dma_op \<Rightarrow> dma_controller \<Rightarrow> dma_transfer_work option \<times> dma_controller" where
  "dma_apply (OpWriteFf46 v m) d = (None, write_ff46_for_speed v m d)"
| "dma_apply (OpWriteHdma1 v) d = (None, write_hdma1 v d)"
| "dma_apply (OpWriteHdma2 v) d = (None, write_hdma2 v d)"
| "dma_apply (OpWriteHdma3 v) d = (None, write_hdma3 v d)"
| "dma_apply (OpWriteHdma4 v) d = (None, write_hdma4 v d)"
| "dma_apply (OpWriteHdma5 v m) d = (None, write_hdma5_for_speed v m d)"
| "dma_apply (OpStartup v) d = (None, dma_apply_startup_state v d)"
| "dma_apply (OpTick c) d = dma_tick_t_cycle c d"

primrec dma_ops :: "dma_op list \<Rightarrow> dma_controller \<Rightarrow> dma_transfer_work list" where
  "dma_ops [] d = []"
| "dma_ops (op # ops) d =
     (case dma_apply op d of
        (w, d') \<Rightarrow> (case w of None \<Rightarrow> [] | Some x \<Rightarrow> [x]) @ dma_ops ops d')"

text \<open>
  OAM DMA fills OAM from below \<open>0xE000\<close>; VRAM DMA writes VRAM, and takes a byte from the bus only where
  the cartridge or work RAM drive it.
\<close>

definition work_safe :: "dma_transfer_work \<Rightarrow> bool" where
  "work_safe w \<longleftrightarrow>
     (if transfer_kind (work_transfer w) = DmaOam
      then info_region (decode_address (work_destination_address w)) = RegionOam
           \<and> work_source_address w < 0xE000
      else info_region (decode_address (work_destination_address w)) = RegionVram
           \<and> (source_read_value_override w = None
                \<longrightarrow> region_domain (info_region (decode_address (work_source_address w))) = DomainCartridge
                  \<or> region_domain (info_region (decode_address (work_source_address w))) = DomainWram))"

lemma registers_default_wf: "registers_wf vram_dma_registers_default"
  by (simp add: registers_wf_def vram_dma_registers_default_def)

lemma dma_new_wf: "dma_wf (dma_new m)"
  by (simp add: dma_wf_def dma_new_def state_lands_def registers_default_wf vram_dma_state_default_def)

lemma apply_wf: "dma_wf d \<Longrightarrow> dma_wf (snd (dma_apply op d))"
  by (cases op) (simp_all add: write_ff46_wf write_hdma_wf write_hdma5_wf tick_wf,
      simp add: dma_wf_def dma_apply_startup_state_def state_lands_def registers_default_wf vram_dma_state_default_def)

lemma work_of_step:
  assumes "transfer_work_for_current_t_cycle s (step_transfer_state s) = Some w" and "state_lands s"
  shows "transfer_lands (work_transfer w)" and "unat (work_byte_index w) < t_bytes (work_transfer w)"
proof -
  from assms(1) obtain p q where p: "transfer_progress s = Some p" and q: "transfer_progress (step_transfer_state s) = Some q"
    and w: "w = \<lparr>work_transfer = progress_transfer q, work_byte_index = progress_completed_bytes q - 1\<rparr>"
    and lt: "progress_completed_bytes p < progress_completed_bytes q"
    by (auto simp: transfer_work_for_current_t_cycle_def not_le split: option.splits if_splits)
  have lands: "transfer_lands (progress_transfer q)"
    using step_lands [of s] assms(2) q by (simp add: state_lands_def)
  with w show "transfer_lands (work_transfer w)" by simp
  have "unat (progress_completed_bytes q) \<le> t_bytes (progress_transfer q)"
    using completed_bytes_nat [of q] lands by (auto simp: transfer_lands_def bytes_moved_def)
  moreover have "0 < unat (progress_completed_bytes q)" using lt by (simp add: word_less_nat_alt)
  ultimately show "unat (work_byte_index w) < t_bytes (work_transfer w)"
    by (simp add: w unat_sub_if')
qed

lemma lands_safe:
  assumes t: "transfer_lands (work_transfer w)" and i: "unat (work_byte_index w) < t_bytes (work_transfer w)"
  shows "work_safe w"
proof -
  let ?t = "work_transfer w" and ?i = "work_byte_index w"
  show ?thesis
  proof (cases "transfer_kind ?t = DmaOam")
    case True
    with t i have d: "transfer_destination_start ?t = 0xFE00" "unat ?i < 160" by (simp_all add: transfer_lands_def)
    then have "unat (work_destination_address w) = 0xFE00 + unat ?i"
      by (simp add: work_destination_address_def destination_address_for_byte_def unat_word_ariths)
    with d(2) have "info_region (decode_address (work_destination_address w)) = RegionOam"
      by (simp add: decode_address_def bus_address_info_new_def word_le_nat_alt)
    moreover have "work_source_address w < 0xE000"
      using True unsigned_less [of "transfer_source_start ?t + ?i", where ?'a = nat]
      by (auto simp: work_source_address_def source_address_for_byte_def normalize_oam_source_address_def
          dma_constants word_less_nat_alt word_le_nat_alt unat_sub_if')
    ultimately show ?thesis using True by (simp add: work_safe_def)
  next
    case False
    with t i have "0x8000 \<le> unat (transfer_destination_start ?t)"
      "unat (transfer_destination_start ?t) + unat ?i < 0xA000" by (simp_all add: transfer_lands_def)
    then have "0x8000 \<le> unat (work_destination_address w)" "unat (work_destination_address w) < 0xA000"
      by (simp_all add: work_destination_address_def destination_address_for_byte_def unat_word_ariths)
    then have "info_region (decode_address (work_destination_address w)) = RegionVram"
      by (simp add: decode_address_def bus_address_info_new_def word_le_nat_alt)
    moreover have "is_vram_kind (transfer_kind ?t)" using False by (cases "transfer_kind ?t") (simp_all add: is_vram_kind_def)
    then have "region_domain (info_region (decode_address (work_source_address w))) \<in> {DomainCartridge, DomainWram}"
      if "source_read_value_override w = None"
      using that by (auto simp: source_read_value_override_def vram_dma_source_address_is_supported_def decode_address_def
          bus_address_info_new_def word_le_nat_alt split: if_splits)
    ultimately show ?thesis using False by (auto simp: work_safe_def)
  qed
qed

lemma tick_safe:
  assumes "dma_wf d" and "dma_tick_t_cycle c d = (Some w, d')"
  shows "work_safe w"
proof -
  have "\<exists>e. dma_wf e \<and> fst (dma_step_transfer e) = Some w"
  proof (cases "pending_restart (start_hdma_block_if_eligible c d)")
    case None
    with assms start_wf [OF assms(1), of c] show ?thesis
      by (intro exI [of _ "start_hdma_block_if_eligible c d"]) (simp add: dma_tick_t_cycle_def Let_def)
  next
    case (Some r)
    let ?e = "(start_hdma_block_if_eligible c d)\<lparr>pending_restart := Some (advance_one_t_cycle r)\<rparr>"
    have "dma_wf ?e" using start_wf [OF assms(1), of c] Some by (simp add: dma_wf_def)
    with assms(2) Some show ?thesis
      by (intro exI [of _ ?e]) (auto simp: dma_tick_t_cycle_def Let_def split: if_splits)
  qed
  then obtain e where "dma_wf e" "transfer_work_for_current_t_cycle (transfer_state e) (step_transfer_state (transfer_state e)) = Some w"
    by (auto simp: dma_step_transfer_def Let_def)
  with work_of_step lands_safe show ?thesis by (metis dma_wf_def)
qed

lemma ops_safe: "dma_wf d \<Longrightarrow> list_all work_safe (dma_ops ops d)"
proof (induction ops arbitrary: d)
  case (Cons op ops)
  obtain w d' where a: "dma_apply op d = (w, d')" by (cases "dma_apply op d")
  have "work_safe x" if "w = Some x" for x
    using a that tick_safe [OF Cons.prems] by (cases op) auto
  with a apply_wf [OF Cons.prems, of op] Cons.IH [of d'] show ?case
    by (simp split: option.split)
qed simp

text \<open>C29. Whatever is written to its registers and however the PPU and the CPU move on, every byte the
  DMA controller moves lands in OAM (OAM DMA) or in VRAM (VRAM DMA), never past either; OAM DMA never
  reads above work RAM, and VRAM DMA takes bytes only from the cartridge and work RAM.\<close>

theorem dma_writes_stay_in_video_memory:
  "list_all work_safe (dma_ops ops (dma_new m))"
  by (rule ops_safe [OF dma_new_wf])

end
