(* ===== verification/Dma_Blocks.thy ===== *)
theory Dma_Blocks
  imports Dma_Safety
begin

text \<open>
  VRAM DMA by blocks: when a block of sixteen bytes is published to the registers, what a
  general-purpose transfer leaves behind, and the block an OAM DMA can make the controller
  forget.
\<close>

subsection \<open>Blocks in natural numbers\<close>

definition t_final :: "dma_transfer \<Rightarrow> nat" where
  "t_final t = t_delay t + (t_bytes t - 1) * t_rate t + 12"

definition t_blocks :: "dma_transfer \<Rightarrow> nat" where
  "t_blocks t = t_bytes t div 16"

text \<open>Blocks published after \<open>e\<close> T-cycles: twelve after the last byte of each.\<close>

definition blocks_published :: "dma_transfer \<Rightarrow> nat \<Rightarrow> nat" where
  "blocks_published t e =
     (let b = bytes_moved t e div 16
      in if b = 0 then 0 else if t_delay t + (16 * b - 1) * t_rate t + 12 \<le> e then b else b - 1)"

definition block_transfer :: "dma_transfer \<Rightarrow> bool" where
  "block_transfer t \<longleftrightarrow>
     transfer_ok t \<and> is_vram_kind (transfer_kind t) \<and> transfer_block_size t = 16
     \<and> t_bytes t mod 16 = 0 \<and> t_final t < 65536 \<and> t_total t \<le> t_final t"

lemma last_byte_le:
  assumes "transfer_ok t" and "b \<noteq> 0" and "b \<le> t_bytes t"
  shows "t_delay t + (b - 1) * t_rate t + 12 \<le> t_final t"
  using assms by (auto simp: t_final_def intro!: mult_le_mono1 diff_le_mono)

lemma published_nat:
  assumes "block_transfer (progress_transfer p)"
  shows "unat (published_completed_blocks p) = blocks_published (progress_transfer p) (unat (elapsed_t_cycles p))"
    and "unat (progress_completed_blocks p) = bytes_moved (progress_transfer p) (unat (elapsed_t_cycles p)) div 16"
proof -
  let ?t = "progress_transfer p" and ?e = "unat (elapsed_t_cycles p)"
  let ?b = "bytes_moved ?t ?e div 16"
  have ok: "transfer_ok ?t" and bs: "transfer_block_size ?t = 16" and fin: "t_final ?t < 65536"
    using assms by (simp_all add: block_transfer_def)
  note cb = completed_bytes_nat [OF ok]
  show nb: "unat (progress_completed_blocks p) = ?b"
    by (simp add: progress_completed_blocks_def bs unat_div cb)
  have le: "16 * ?b \<le> t_bytes ?t" by (auto simp: bytes_moved_def min_def)
  moreover have "t_bytes ?t < 65536"
    using unsigned_less [of "transfer_total_bytes ?t", where ?'a = nat] by simp
  ultimately have b16: "16 * ?b < 65536" by linarith
  show "unat (published_completed_blocks p) = blocks_published ?t ?e"
  proof (cases "?b = 0")
    case True
    then have "progress_completed_blocks p = 0" using nb by (simp add: word_unat_eq_iff)
    with True show ?thesis by (simp add: published_completed_blocks_def blocks_published_def)
  next
    case False
    have lb: "t_delay ?t + (16 * ?b - 1) * t_rate ?t + 12 < 65536"
      using last_byte_le [OF ok _ le] False fin by simp
    have "unat (progress_completed_blocks p * transfer_block_size ?t) = 16 * ?b"
      using b16 by (simp add: bs unat_word_ariths(2) nb)
    then have n1: "unat (progress_completed_blocks p * transfer_block_size ?t - 1) = 16 * ?b - 1"
      using False by (simp add: unat_sub_if')
    have n2: "unat (progress_first_byte_delay p + (progress_completed_blocks p * transfer_block_size ?t - 1) * progress_t_cycles_per_byte p
          + u8_to_u16 VRAM_DMA_PUBLICATION_T_CYCLES) = t_delay ?t + (16 * ?b - 1) * t_rate ?t + 12"
      using lb by (simp only: unat_word_ariths(1,2) n1 progress_nat u8_to_u16_nat) (simp add: VRAM_DMA_PUBLICATION_T_CYCLES_def)
    have "progress_completed_blocks p \<noteq> 0" using False nb by auto
    with False show ?thesis
      by (auto simp: published_completed_blocks_def blocks_published_def Let_def word_le_nat_alt n2 nb unat_sub_if')
  qed
qed

lemma published_mono: "blocks_published t e \<le> blocks_published t (Suc e)"
proof -
  obtain b where b: "bytes_moved t e div 16 = b" by simp
  obtain b' where b': "bytes_moved t (Suc e) div 16 = b'" by simp
  have "bytes_moved t e div 16 \<le> bytes_moved t (Suc e) div 16"
    by (intro div_le_mono bytes_moved_mono) simp
  then consider "b = b'" | "Suc b \<le> b'" unfolding b b' by linarith
  then show ?thesis
    by cases (auto simp: blocks_published_def Let_def b b')
qed

lemma published_le: "blocks_published t e \<le> t_blocks t"
proof -
  have "bytes_moved t e \<le> t_bytes t" by (simp add: bytes_moved_def)
  then have "bytes_moved t e div 16 \<le> t_blocks t" unfolding t_blocks_def by (rule div_le_mono)
  then show ?thesis by (auto simp: blocks_published_def Let_def)
qed

lemma published_bounds:
  assumes "block_transfer t"
  shows "blocks_published t 0 = 0"
    and "blocks_published t (t_final t) = t_blocks t"
    and "t_total t \<le> e \<Longrightarrow> blocks_published t e < bytes_moved t e div 16 \<longleftrightarrow> e < t_final t"
    and "16 * t_blocks t = t_bytes t" and "1 \<le> t_blocks t"
proof -
  have ok: "transfer_ok t" and fin: "t_total t \<le> t_final t" and m: "t_bytes t mod 16 = 0"
    using assms by (simp_all add: block_transfer_def)
  show b16: "16 * t_blocks t = t_bytes t" using m by (simp add: t_blocks_def mod_0_imp_dvd)
  then show b1: "1 \<le> t_blocks t" using ok by (auto simp: transfer_ok_def Suc_le_eq intro: gr0I)
  have "bytes_moved t 0 \<le> 1" by (simp add: bytes_moved_def)
  then show "blocks_published t 0 = 0" by (simp add: blocks_published_def)
  have "bytes_moved t (t_final t) = t_bytes t" using bytes_moved_total [OF ok fin] .
  with b16 b1 show "blocks_published t (t_final t) = t_blocks t"
    by (auto simp: blocks_published_def Let_def t_final_def simp flip: t_blocks_def)
  show "blocks_published t e < bytes_moved t e div 16 \<longleftrightarrow> e < t_final t" if "t_total t \<le> e"
    using bytes_moved_total [OF ok that] b16 b1
    by (auto simp: blocks_published_def Let_def t_final_def simp flip: t_blocks_def)
qed

subsection \<open>Running a general-purpose transfer to its last publication\<close>

text \<open>The VRAM transfer after \<open>k\<close> of its blocks.\<close>

definition after_blocks :: "vram_dma_transfer \<Rightarrow> nat \<Rightarrow> vram_dma_transfer" where
  "after_blocks t k =
     t\<lparr>vram_source_start := vram_source_start t + 16 * of_nat k,
       vram_destination_start := vram_destination_start t + 16 * of_nat k,
       vram_remaining_blocks := vram_remaining_blocks t - of_nat k\<rparr>"

definition gdma_state :: "vram_dma_transfer \<Rightarrow> nat \<Rightarrow> vram_dma_state" where
  "gdma_state t k =
     (if k = unat (vram_remaining_blocks t) then GeneralPurposeComplete (after_blocks t k)
      else GeneralPurposeActive (after_blocks t k))"

lemma nat_to_u16: "n < 65536 \<Longrightarrow> unat (of_nat n :: u16) = n"
  by (simp add: unat_of_nat)

lemma after_blocks_advance:
  assumes "k + j \<le> unat (vram_remaining_blocks t)"
  shows "advance_completed_blocks (of_nat j) (after_blocks t k) = after_blocks t (k + j)"
    and "vram_remaining_blocks (after_blocks t (k + j)) = 0 \<longleftrightarrow> k + j = unat (vram_remaining_blocks t)"
proof -
  let ?n = "vram_remaining_blocks t"
  have lt: "unat ?n < 65536" using unsigned_less [of ?n, where ?'a = nat] by simp
  have u: "unat (of_nat k :: u16) = k" "unat (of_nat j :: u16) = j" "unat (of_nat (k + j) :: u16) = k + j"
    using assms lt by (auto intro!: nat_to_u16 simp del: of_nat_add)
  have "unat (?n - of_nat k) = unat ?n - k" using assms u(1) by (simp add: unat_sub_if')
  then have "\<not> of_nat j > ?n - of_nat k" using assms u(2) by (simp add: word_less_nat_alt)
  then show "advance_completed_blocks (of_nat j) (after_blocks t k) = after_blocks t (k + j)"
    by (simp add: advance_completed_blocks_def after_blocks_def VRAM_DMA_BLOCK_BYTES_def Let_def
        distrib_left diff_diff_add mult.commute [of "of_nat j :: u16" "16"] add.assoc)
  have "unat (?n - of_nat (k + j)) = unat ?n - (k + j)"
    using assms u(3) by (simp add: unat_sub_if' del: of_nat_add)
  then show "vram_remaining_blocks (after_blocks t (k + j)) = 0 \<longleftrightarrow> k + j = unat ?n"
    using assms by (simp add: after_blocks_def word_unat_eq_iff del: of_nat_add) linarith
qed

definition riding :: "dma_transfer \<Rightarrow> nat \<Rightarrow> dma_transfer_state \<Rightarrow> bool" where
  "riding t e s \<longleftrightarrow>
     (if e < t_total t then flying t e s
      else \<exists>p. s = TransferCompleted p \<and> progress_transfer p = t \<and> unat (elapsed_t_cycles p) = e)"

lemma riding_progress:
  assumes "riding t e s"
  obtains p where "transfer_progress s = Some p" and "progress_transfer p = t" and "unat (elapsed_t_cycles p) = e"
  using assms by (auto simp: riding_def flying_def split: if_splits)

lemma riding_step:
  assumes "block_transfer t" and "riding t e s" and "e < t_final t"
  shows "riding t (Suc e) (step_transfer_state s)"
proof (cases "e < t_total t")
  case True
  with assms have "flying t e s" and "transfer_ok t" by (simp_all add: riding_def block_transfer_def)
  from flying_step(1) [OF this(2,1)] True show ?thesis
    by (auto simp: riding_def landed_def split: if_splits)
next
  case False
  with assms(2) obtain p where p: "s = TransferCompleted p" "progress_transfer p = t" "unat (elapsed_t_cycles p) = e"
    by (auto simp: riding_def)
  have "has_unpublished_completed_blocks p"
    using published_nat [of p] p assms(1,3) published_bounds(3) [OF assms(1), of e] False
    by (simp add: has_unpublished_completed_blocks_def word_less_nat_alt)
  moreover have "Suc e < 65536" using assms(1,3) by (simp add: block_transfer_def)
  then have "unat (elapsed_t_cycles (advance_one_t_cycle p)) = Suc e"
    using p(3) by (auto simp: advance_one_t_cycle_def sat_succ16_def word_unat_eq_iff unat_word_ariths)
  ultimately show ?thesis
    using p assms(1) False by (auto simp: riding_def block_transfer_def)
qed

text \<open>The registers once \<open>k\<close> blocks are published.\<close>

definition endpoints_after :: "vram_dma_transfer \<Rightarrow> nat \<Rightarrow> vram_dma_registers \<Rightarrow> vram_dma_registers" where
  "endpoints_after t k r =
     registers_set_endpoints (vram_source_start (after_blocks t k)) (vram_destination_start (after_blocks t k)) r"

lemma endpoints_overwritten:
  "registers_set_endpoints a b (registers_set_endpoints x y r) = registers_set_endpoints a b r"
  by (simp add: registers_set_endpoints_def)

definition gdma_at :: "dma_transfer \<Rightarrow> vram_dma_transfer \<Rightarrow> vram_dma_registers \<Rightarrow> nat \<Rightarrow> dma_controller \<Rightarrow> bool" where
  "gdma_at x t r e d \<longleftrightarrow>
     riding x e (transfer_state d) \<and> pending_restart d = None
     \<and> vram_state d = gdma_state t (blocks_published x e)
     \<and> vram_registers d = (if blocks_published x e = 0 then r else endpoints_after t (blocks_published x e) r)"

lemma gdma_tick:
  assumes x: "block_transfer x" "transfer_kind x = DmaGdma" "t_blocks x = unat (vram_remaining_blocks t)"
    and d: "gdma_at x t r e d" and e: "e < t_final x"
  obtains d' where "dma_tick_t_cycle c d
      = ((if bytes_moved x (Suc e) = bytes_moved x e then None else Some (work_of x (bytes_moved x e))), d')"
    and "gdma_at x t r (Suc e) d'"
proof -
  let ?s = "transfer_state d"
  have ride: "riding x e ?s" "riding x (Suc e) (step_transfer_state ?s)"
    using d riding_step [OF x(1) _ e] by (simp_all add: gdma_at_def)
  obtain p where p: "transfer_progress ?s = Some p" "progress_transfer p = x" "unat (elapsed_t_cycles p) = e"
    using ride(1) by (rule riding_progress)
  obtain q where q: "transfer_progress (step_transfer_state ?s) = Some q" "progress_transfer q = x"
      "unat (elapsed_t_cycles q) = Suc e"
    using ride(2) by (rule riding_progress)
  have ok: "transfer_ok x" using x(1) by (simp add: block_transfer_def)
  note w = step_work [OF ok p q]
  let ?k = "blocks_published x e" and ?k' = "blocks_published x (Suc e)"
  have kp: "unat (published_completed_blocks p) = ?k" and kq: "unat (published_completed_blocks q) = ?k'"
    using published_nat(1) [of p] published_nat(1) [of q] p q x(1) by simp_all
  have le: "?k \<le> ?k'" "?k' \<le> unat (vram_remaining_blocks t)" using published_mono published_le x(3) by metis+
  have diff: "published_completed_blocks q - published_completed_blocks p = of_nat (?k' - ?k)"
    using kp kq le(1) unsigned_less [of "vram_remaining_blocks t", where ?'a = nat] le(2)
    by (simp add: word_unat_eq_iff unat_sub_if' nat_to_u16)
  have same: "of_nat (?k' - ?k) = (0::u16) \<longleftrightarrow> ?k' = ?k"
    using le unsigned_less [of "vram_remaining_blocks t", where ?'a = nat] by (simp add: word_unat_eq_iff nat_to_u16 del: of_nat_diff)
  have start: "start_hdma_block_if_eligible c d = d"
    using d by (auto simp: start_hdma_block_if_eligible_def gdma_at_def gdma_state_def)
  let ?d = "d\<lparr>transfer_state := step_transfer_state ?s\<rparr>"
  let ?d' = "apply_vram_dma_progress_side_effects ?s (step_transfer_state ?s) ?d"
  have tick: "dma_tick_t_cycle c d
      = ((if bytes_moved x (Suc e) = bytes_moved x e then None else Some (work_of x (bytes_moved x e))), ?d')"
    using d w by (simp add: dma_tick_t_cycle_def Let_def start gdma_at_def dma_step_transfer_def)
  have gd: "vram_state d = gdma_state t ?k" "vram_registers d = (if ?k = 0 then r else endpoints_after t ?k r)"
    "pending_restart d = None" using d by (simp_all add: gdma_at_def)
  have "gdma_at x t r (Suc e) ?d'"
  proof (cases "?k' = ?k")
    case True
    then have "?d' = ?d"
      using diff same p q x(2) by (simp add: apply_vram_dma_progress_side_effects_def is_vram_kind_def)
    then show ?thesis using True gd ride(2) by (simp add: gdma_at_def)
  next
    case False
    then have lt: "?k \<noteq> unat (vram_remaining_blocks t)" using le by simp
    have eff: "?d' = publish_blocks DmaGdma (of_nat (?k' - ?k)) ?d"
      using False diff same p q x(2) by (simp add: apply_vram_dma_progress_side_effects_def is_vram_kind_def)
    have "?k + (?k' - ?k) = ?k'" using le by simp
    with after_blocks_advance [of ?k "?k' - ?k" t] le
    have adv: "advance_completed_blocks (of_nat (?k' - ?k)) (after_blocks t ?k) = after_blocks t ?k'"
      "vram_remaining_blocks (after_blocks t ?k') = 0 \<longleftrightarrow> ?k' = unat (vram_remaining_blocks t)" by simp_all
    show ?thesis
      unfolding eff using adv gd lt ride(2) False le(1)
      by (simp add: gdma_at_def publish_blocks_def gdma_state_def Let_def endpoints_after_def endpoints_overwritten)
  qed
  with tick that show thesis by blast
qed

lemma gdma_run:
  assumes x: "block_transfer x" "transfer_kind x = DmaGdma" "t_blocks x = unat (vram_remaining_blocks t)"
    and "gdma_at x t r e d" and "e + length cs \<le> t_final x"
  shows "fst (dma_run cs d) = map (work_of x) [bytes_moved x e ..< bytes_moved x (e + length cs)]
    \<and> gdma_at x t r (e + length cs) (snd (dma_run cs d))"
  using assms(4,5)
proof (induction cs arbitrary: d e)
  case (Cons c cs)
  have e: "e < t_final x" using Cons.prems(2) by simp
  obtain d' where tick: "dma_tick_t_cycle c d
      = ((if bytes_moved x (Suc e) = bytes_moved x e then None else Some (work_of x (bytes_moved x e))), d')"
    and at: "gdma_at x t r (Suc e) d'"
    using gdma_tick [OF x Cons.prems(1) e] by metis
  have ok: "transfer_ok x" using x(1) by (simp add: block_transfer_def)
  from Cons.IH [OF at] Cons.prems(2) bytes_moved_upt [OF ok, of e "e + length cs"] tick
  show ?case by (cases "dma_run cs d'") (auto split: if_splits)
qed simp

subsection \<open>General-purpose DMA\<close>

definition gdma_t_cycles :: "cgb_speed_mode \<Rightarrow> nat \<Rightarrow> nat" where
  "gdma_t_cycles m n = (case m of NormalSpeed \<Rightarrow> 32 * n + 12 | DoubleSpeed \<Rightarrow> 64 * n + 12)"

text \<open>Blocks a write of \<open>v\<close> to \<open>FF55\<close> moves: the requested ones, clipped at the end of VRAM.\<close>

definition hdma5_clipped_blocks :: "u8 \<Rightarrow> vram_dma_registers \<Rightarrow> nat" where
  "hdma5_clipped_blocks v r =
     min (Suc (unat (v AND 0x7F))) ((0xA000 - unat (registers_destination_start r)) div 16)"

lemma new_transfer_blocks:
  assumes "registers_wf r"
  shows "unat (vram_remaining_blocks (vram_dma_transfer_new mode r (u8_to_u16 (v AND HDMA5_TRANSFER_LENGTH_MASK) + 1)))
      = hdma5_clipped_blocks v r"
proof -
  have b: "unat (u8_to_u16 (v AND HDMA5_TRANSFER_LENGTH_MASK) + 1) = Suc (unat (v AND 0x7F))"
    using unsigned_less [of "v AND 0x7F", where ?'a = nat]
    by (simp add: unat_word_ariths HDMA5_TRANSFER_LENGTH_MASK_def)
  have "unat ((VRAM_DMA_DESTINATION_END + 1 - registers_destination_start r) div VRAM_DMA_BLOCK_BYTES)
      = (0xA000 - unat (registers_destination_start r)) div 16"
    using registers_destination_nat [OF assms] by (simp add: dma_constants unat_div unat_sub_if')
  then show ?thesis
    using b by (auto simp: vram_dma_transfer_new_def Let_def clip_vram_dma_blocks_for_destination_def
        hdma5_clipped_blocks_def word_less_nat_alt min_def)
qed

lemma gdma_block_transfer:
  assumes "vram_transfer_lands t" and "vram_remaining_blocks t \<noteq> 0"
  shows "block_transfer (dma_transfer_gdma_for_speed t m)"
    and "t_blocks (dma_transfer_gdma_for_speed t m) = unat (vram_remaining_blocks t)"
    and "t_bytes (dma_transfer_gdma_for_speed t m) = 16 * unat (vram_remaining_blocks t)"
    and "t_final (dma_transfer_gdma_for_speed t m) = gdma_t_cycles m (unat (vram_remaining_blocks t))"
    and "0 < t_delay (dma_transfer_gdma_for_speed t m)"
proof -
  let ?x = "dma_transfer_gdma_for_speed t m" and ?n = "unat (vram_remaining_blocks t)"
  note b = remaining_bytes_nat [OF assms]
  have x: "transfer_timing ?x = vram_dma_timing (vram_remaining_bytes t) m"
    "transfer_total_bytes ?x = vram_remaining_bytes t" by (simp_all add: dma_transfer_gdma_for_speed_def)
  have ok: "transfer_ok ?x" and bytes: "t_bytes ?x = 16 * ?n"
    using vram_timing_ok [OF x] b by simp_all
  note num = vram_timing_numbers [OF x(1), unfolded b(1)]
  have n16: "1 \<le> 16 * ?n" using b(2) by simp
  note num = num [OF n16 b(3)]
  obtain j where j: "?n = Suc j" using b(2) by (cases ?n) auto
  have f: "t_final ?x = vram_byte_t_cycles m * (16 * ?n) + 12"
    unfolding t_final_def bytes num(1,2) j by (simp add: algebra_simps)
  then have total: "t_total ?x + 7 = t_final ?x" unfolding num(3) by simp
  have fin: "t_final ?x = gdma_t_cycles m ?n"
    unfolding f by (cases m) (simp_all add: gdma_t_cycles_def vram_byte_t_cycles_def)
  have dl: "0 < t_delay ?x"
    unfolding num(1) by (cases m) (simp_all add: vram_byte_t_cycles_def)
  show "t_bytes ?x = 16 * ?n" by (rule bytes)
  show "t_blocks ?x = ?n" by (simp add: t_blocks_def bytes)
  show "t_final ?x = gdma_t_cycles m ?n" by (rule fin)
  show "0 < t_delay ?x" by (rule dl)
  have "t_final ?x < 65536" using b(3) fin by (cases m) (simp_all add: gdma_t_cycles_def)
  with ok bytes total show "block_transfer ?x"
    by (simp add: block_transfer_def) (simp add: dma_transfer_gdma_for_speed_def is_vram_kind_def dma_constants)
qed

lemma gdma_work_addresses:
  "work_source_address (work_of (dma_transfer_gdma_for_speed t m) i) = vram_source_start t + of_nat i"
  "work_destination_address (work_of (dma_transfer_gdma_for_speed t m) i) = vram_destination_start t + of_nat i"
  by (simp_all add: work_source_address_def work_destination_address_def work_of_def source_address_for_byte_def
      destination_address_for_byte_def dma_transfer_gdma_for_speed_def)

text \<open>C31. General-purpose VRAM DMA: writing \<open>FF55\<close> with bit 7 clear moves the requested blocks, clipped at the end
  of VRAM, byte by byte and in order, whatever the PPU and the CPU do meanwhile; when the last block is
  published \<open>FF55\<close> reads \<open>0xFF\<close> and the address registers stand behind the last byte.\<close>

theorem gdma_moves_the_blocks:
  assumes "dma_wf d" and "hblank_active_transfer (vram_state d) = None" and "v AND 0x80 = 0"
    and "length cs = gdma_t_cycles m (hdma5_clipped_blocks v (vram_registers d))"
  shows "map (\<lambda>w. (work_source_address w, work_destination_address w))
           (fst (dma_run cs (write_hdma5_for_speed v m d)))
         = map (\<lambda>i. (registers_source_start (vram_registers d) + of_nat i,
                      registers_destination_start (vram_registers d) + of_nat i))
             [0 ..< 16 * hdma5_clipped_blocks v (vram_registers d)]
    \<and> read_hdma5 (snd (dma_run cs (write_hdma5_for_speed v m d))) = 0xFF
    \<and> vram_registers (snd (dma_run cs (write_hdma5_for_speed v m d)))
      = registers_set_endpoints
          (registers_source_start (vram_registers d) + 16 * of_nat (hdma5_clipped_blocks v (vram_registers d)))
          (registers_destination_start (vram_registers d) + 16 * of_nat (hdma5_clipped_blocks v (vram_registers d)))
          (vram_registers d)"
proof -
  let ?r = "vram_registers d" and ?n = "hdma5_clipped_blocks v (vram_registers d)"
  let ?t = "vram_dma_transfer_new GeneralPurpose ?r (u8_to_u16 (v AND HDMA5_TRANSFER_LENGTH_MASK) + 1)"
  let ?x = "dma_transfer_gdma_for_speed ?t m" and ?d = "write_hdma5_for_speed v m d"
  have wf: "registers_wf ?r" using assms(1) by (simp add: dma_wf_def)
  note t = new_transfer_lands [OF wf hdma5_blocks [of v], of GeneralPurpose]
  have n: "unat (vram_remaining_blocks ?t) = ?n" by (rule new_transfer_blocks [OF wf])
  note x = gdma_block_transfer [OF t, of m, unfolded n]
  have n1: "1 \<le> ?n" using published_bounds(5) [OF x(1)] x(2) by simp
  have ok: "transfer_ok ?x" using x(1) by (simp add: block_transfer_def)
  have start: "?d = d\<lparr>transfer_state := TransferStarting (progress_new ?x), pending_restart := None,
       vram_state := GeneralPurposeActive ?t, last_served_window := NoWindow\<rparr>"
    using assms(2,3) by (cases "vram_state d")
      (simp_all add: write_hdma5_for_speed_def start_vram_transfer_def Let_def HDMA5_MODE_BIT_def)
  have b0: "bytes_moved ?x 0 = 0" using x(5) by (simp add: bytes_moved_def)
  have "after_blocks ?t 0 = ?t" by (simp add: after_blocks_def)
  moreover have "0 < t_total ?x" using ok by (simp add: transfer_ok_def)
  ultimately have at: "gdma_at ?x ?t ?r 0 ?d"
    using fresh_flying [OF ok] n n1 published_bounds(1) [OF x(1)]
    by (simp add: start gdma_at_def riding_def gdma_state_def)
  have len: "0 + length cs = t_final ?x" using assms(4) x(4) by simp
  have kind: "transfer_kind ?x = DmaGdma" by (simp add: dma_transfer_gdma_for_speed_def)
  have works: "fst (dma_run cs ?d) = map (work_of ?x) [0 ..< 16 * ?n]"
    and fin: "gdma_at ?x ?t ?r (t_final ?x) (snd (dma_run cs ?d))"
    using gdma_run [OF x(1) kind _ at, of cs] len x(2) n b0 bytes_moved_total [OF ok, of "t_final ?x"] x(1,3)
    by (simp_all add: block_transfer_def)
  have pub: "blocks_published ?x (t_final ?x) = ?n" using published_bounds(2) [OF x(1)] x(2) by simp
  have "vram_source_start ?t = registers_source_start ?r" "vram_destination_start ?t = registers_destination_start ?r"
    by (simp_all add: vram_dma_transfer_new_def Let_def)
  then show ?thesis
    using fin n n1
    by (simp add: works gdma_work_addresses gdma_at_def pub gdma_state_def read_hdma5_def HDMA5_COMPLETED_READ_def
        endpoints_after_def after_blocks_def)
qed

lemma gdma_moves_the_blocks_witness:
  "length (fst (dma_run (replicate 44 runtime_context_default) (write_hdma5 0x05 (dma_new GameBoyColor)))) = 16
   \<and> read_hdma5 (snd (dma_run (replicate 44 runtime_context_default) (write_hdma5 0x05 (dma_new GameBoyColor)))) = 0xFF"
proof -
  have r: "registers_destination_start vram_dma_registers_default = 0x9FF0"
    by (simp add: registers_destination_start_def vram_dma_registers_default_def u8_to_u16_def push_bit_eq_mult)
  have n: "hdma5_clipped_blocks 5 (vram_registers (dma_new GameBoyColor)) = 1"
    by (simp add: hdma5_clipped_blocks_def dma_new_def r)
  have h: "hblank_active_transfer (vram_state (dma_new GameBoyColor)) = None"
    by (simp add: dma_new_def vram_dma_state_default_def)
  note g = gdma_moves_the_blocks [OF dma_new_wf h, of 5 "replicate 44 runtime_context_default" NormalSpeed,
      unfolded n, folded write_hdma5_def]
  have "length (fst (dma_run (replicate 44 runtime_context_default) (write_hdma5 5 (dma_new GameBoyColor)))) = 16"
    using arg_cong [where f = length, OF conjunct1 [OF g]] by (simp add: gdma_t_cycles_def)
  with g show ?thesis by (simp add: gdma_t_cycles_def)
qed

subsection \<open>A block forgotten\<close>

lemma oam_side_effects:
  "transfer_kind (progress_transfer q) = DmaOam \<Longrightarrow> transfer_progress s' = Some q
   \<Longrightarrow> apply_vram_dma_progress_side_effects s s' d = d"
  by (simp add: apply_vram_dma_progress_side_effects_def is_vram_kind_def)

lemma oam_run_frame:
  assumes "transfer_kind t = DmaOam" and "transfer_ok t" and "flying t e (transfer_state d)"
    and "pending_restart d = None" and "e + length cs \<le> t_total t"
  shows "vram_state (snd (dma_run cs d)) = vram_state d
    \<and> last_served_window (snd (dma_run cs d)) = last_served_window d"
  using assms(3-5)
proof (induction cs arbitrary: d e)
  case (Cons c cs)
  from flying_step [OF assms(2) Cons.prems(1)] obtain q where
    q: "transfer_progress (step_transfer_state (transfer_state d)) = Some q" "progress_transfer q = t" by blast
  let ?d = "d\<lparr>transfer_state := step_transfer_state (transfer_state d)\<rparr>"
  have fl: "is_in_flight (transfer_state d)" using Cons.prems(1) by (simp add: flying_def)
  obtain w where tick: "dma_tick_t_cycle c d = (w, ?d)"
    using fl q assms(1) Cons.prems(2)
    by (simp add: dma_tick_t_cycle_def Let_def dma_step_transfer_def oam_side_effects [of q])
  show ?case
  proof (cases cs)
    case Nil
    with tick show ?thesis by simp
  next
    case (Cons b bs)
    with Cons.prems(3) have "Suc e < t_total t" by simp
    with flying_step(1) [OF assms(2) Cons.prems(1)] have "flying t (Suc e) (transfer_state ?d)" by simp
    from Cons.IH [OF this] Cons.prems tick show ?thesis by (cases "dma_run cs ?d") simp
  qed
qed simp

text \<open>C32. A block can be copied twice: an HBlank block is published to the registers only 7 T-cycles after the CPU
  is released, and a write to \<open>FF46\<close> in that window replaces the completed transfer before it is published;
  when the OAM DMA it starts is over, the next HBlank starts the very block that was already copied.\<close>

theorem oam_dma_forgets_a_block:
  assumes "transfer_state d = TransferCompleted p"
    and "progress_transfer p = dma_transfer_hdma_block_for_speed t m" and "vram_state d = HBlankActive t"
    and "length cs = 648"
    and "\<not> ctx_cpu_halted c" and "hblank_window c \<noteq> NoWindow" and "hblank_window c \<noteq> last_served_window d"
  shows "transfer_state (start_hdma_block_if_eligible c (snd (dma_run cs (write_ff46_for_speed v mo d))))
    = TransferStarting (progress_new (dma_transfer_hdma_block_for_speed t (ctx_speed_mode c)))"
proof -
  let ?d = "write_ff46_for_speed v mo d"
  obtain m' where st: "transfer_state ?d = TransferStarting (progress_new (dma_transfer_oam_for_speed v m'))"
    and nr: "pending_restart ?d = None"
    using write_ff46_starts [of d v mo] assms(1) by (metis is_in_flight.simps(4))
  let ?t = "dma_transfer_oam_for_speed v m'"
  have fly: "flying ?t 0 (transfer_state ?d)" using fresh_flying [OF oam_transfer_ok] st by simp
  have kind: "transfer_kind ?t = DmaOam" by (simp add: dma_transfer_oam_for_speed_def)
  have "landed ?t (transfer_state (snd (dma_run cs ?d)))"
    using run_transfer [OF oam_transfer_ok fly nr, of cs] assms(4) by (simp add: oam_transfer_numbers)
  then have idle: "\<not> is_in_flight (transfer_state (snd (dma_run cs ?d)))" by (auto simp: landed_def)
  have "vram_state ?d = HBlankActive t" "last_served_window ?d = last_served_window d"
    using assms(1,3) by (simp_all add: write_ff46_for_speed_def Let_def)
  with oam_run_frame [OF kind oam_transfer_ok fly nr, of cs] assms(4)
  have "vram_state (snd (dma_run cs ?d)) = HBlankActive t"
    "last_served_window (snd (dma_run cs ?d)) = last_served_window d"
    by (simp_all add: oam_transfer_numbers)
  with idle assms(5-7) show ?thesis by (simp add: start_hdma_block_if_eligible_def)
qed

definition hblank_of_line :: "u8 \<Rightarrow> vram_dma_runtime_context" where
  "hblank_of_line ly = runtime_context_for_speed (ppu_bus_lcd_enabled AccessHBlank) ly False NormalSpeed"

definition two_blocks :: dma_controller where
  "two_blocks = write_hdma5 0x81 (write_hdma4 0 (write_hdma3 0 (dma_new GameBoyColor)))"

lemma after_first_block:
  "let d = snd (dma_run (replicate 37 (hblank_of_line 0)) two_blocks) in
     vram_state d = vram_state two_blocks \<and> last_served_window d = VisibleHBlank 0
     \<and> (case transfer_state d of TransferCompleted p \<Rightarrow>
          (case vram_state d of HBlankActive t \<Rightarrow> progress_transfer p = dma_transfer_hdma_block_for_speed t NormalSpeed
           | _ \<Rightarrow> False) | _ \<Rightarrow> False)"
  by code_simp

definition after_one_block :: dma_controller where
  "after_one_block = snd (dma_run (replicate 37 (hblank_of_line 0)) two_blocks)"

lemma oam_dma_forgets_a_block_witness:
  "\<exists>p t. transfer_state after_one_block = TransferCompleted p
     \<and> progress_transfer p = dma_transfer_hdma_block_for_speed t NormalSpeed
     \<and> transfer_state (start_hdma_block_if_eligible (hblank_of_line 1)
          (snd (dma_run (replicate 648 (hblank_of_line 0)) (write_ff46 0xC0 after_one_block))))
       = TransferStarting (progress_new (dma_transfer_hdma_block_for_speed t NormalSpeed))"
proof -
  have w: "last_served_window after_one_block = VisibleHBlank 0"
    using after_first_block by (simp add: Let_def after_one_block_def)
  have c: "\<not> ctx_cpu_halted (hblank_of_line 1)" "hblank_window (hblank_of_line 1) = VisibleHBlank 1"
    "ctx_speed_mode (hblank_of_line 1) = NormalSpeed"
    by (simp_all add: hblank_of_line_def runtime_context_for_speed_def hblank_window_def
        window_from_ppu_bus_state_def ppu_bus_lcd_enabled_def)
  obtain p t where "transfer_state after_one_block = TransferCompleted p" "vram_state after_one_block = HBlankActive t"
    "progress_transfer p = dma_transfer_hdma_block_for_speed t NormalSpeed"
    using after_first_block
    by (auto simp: Let_def simp flip: after_one_block_def split: dma_transfer_state.splits vram_dma_state.splits)
  with oam_dma_forgets_a_block [of after_one_block p t NormalSpeed "replicate 648 (hblank_of_line 0)" "hblank_of_line 1"
      "0xC0" NormalSpeed] w c
  show ?thesis by (intro exI [of _ p] exI [of _ t]) (simp add: write_ff46_def)
qed

end
