(* ===== verification/Boot_Rom.thy ===== *)
theory Boot_Rom
  imports Bus_Map Cart_Slot
begin

text \<open>
  The boot ROM side of \<open>boot.rs\<close>: the boot ROM images and their mapping, the contents memory
  has at startup, and the boot controller that keeps the image over the cartridge until \<open>FF50\<close>
  is written. Reading images from a directory (\<open>from_directory\<close>) is file I/O and is left out.
\<close>

subsection \<open>Images\<close>

definition DMG_FAMILY_BOOT_ROM_LEN :: nat where "DMG_FAMILY_BOOT_ROM_LEN = 0x0100"
definition CGB_BOOT_ROM_RAW_LEN :: nat where "CGB_BOOT_ROM_RAW_LEN = 0x0800"
definition CGB_BOOT_ROM_MAPPED_LEN :: nat where "CGB_BOOT_ROM_MAPPED_LEN = 0x0900"
definition CGB_BOOT_ROM_UPPER_WINDOW_START :: nat where "CGB_BOOT_ROM_UPPER_WINDOW_START = 0x0200"

lemmas boot_rom_lengths =
  DMG_FAMILY_BOOT_ROM_LEN_def CGB_BOOT_ROM_RAW_LEN_def CGB_BOOT_ROM_MAPPED_LEN_def
  CGB_BOOT_ROM_UPPER_WINDOW_START_def

datatype boot_rom_asset_kind =
    AssetDmg0 | AssetDmg | AssetMgb | AssetSgb | AssetSgb2
  | AssetCgb0 | AssetCgb | AssetCgbE | AssetCgbAgb0 | AssetCgbAgb

fun asset_from_revision :: "hardware_revision \<Rightarrow> boot_rom_asset_kind" where
  "asset_from_revision DmgCpu0 = AssetDmg0"
| "asset_from_revision DmgCpuA = AssetDmg"
| "asset_from_revision DmgCpuB = AssetDmg"
| "asset_from_revision DmgCpuC = AssetDmg"
| "asset_from_revision CpuMgb = AssetMgb"
| "asset_from_revision CpuCgb0 = AssetCgb0"
| "asset_from_revision CpuCgbA = AssetCgb"
| "asset_from_revision CpuCgbB = AssetCgb"
| "asset_from_revision CpuCgbC = AssetCgb"
| "asset_from_revision CpuCgbD = AssetCgb"
| "asset_from_revision CpuCgbE = AssetCgbE"
| "asset_from_revision CpuAgb0 = AssetCgbAgb0"
| "asset_from_revision CpuAgbA = AssetCgbAgb"

fun asset_from_sgb_profile :: "sgb_host_profile \<Rightarrow> boot_rom_asset_kind" where
  "asset_from_sgb_profile SgbNtsc = AssetSgb"
| "asset_from_sgb_profile SgbPal = AssetSgb"
| "asset_from_sgb_profile Sgb2Ntsc = AssetSgb2"

definition asset_from_machine_profile ::
    "hardware_revision \<Rightarrow> sgb_host_profile option \<Rightarrow> boot_rom_asset_kind" where
  "asset_from_machine_profile r profile =
     (case profile of Some p \<Rightarrow> asset_from_sgb_profile p | None \<Rightarrow> asset_from_revision r)"

definition uses_cgb_mapping :: "boot_rom_asset_kind \<Rightarrow> bool" where
  "uses_cgb_mapping k \<longleftrightarrow>
     k = AssetCgb0 \<or> k = AssetCgb \<or> k = AssetCgbE \<or> k = AssetCgbAgb0 \<or> k = AssetCgbAgb"

definition asset_minimum_len :: "boot_rom_asset_kind \<Rightarrow> nat" where
  "asset_minimum_len k = (if uses_cgb_mapping k then CGB_BOOT_ROM_RAW_LEN else DMG_FAMILY_BOOT_ROM_LEN)"

definition asset_expected_size :: "boot_rom_asset_kind \<Rightarrow> nat" where
  "asset_expected_size k = (if uses_cgb_mapping k then CGB_BOOT_ROM_MAPPED_LEN else DMG_FAMILY_BOOT_ROM_LEN)"

record boot_rom_assets =
  asset_dmg0 :: "u8 list option"
  asset_dmg :: "u8 list option"
  asset_mgb :: "u8 list option"
  asset_sgb :: "u8 list option"
  asset_sgb2 :: "u8 list option"
  asset_cgb0 :: "u8 list option"
  asset_cgb :: "u8 list option"
  asset_cgb_e :: "u8 list option"
  asset_cgb_agb0 :: "u8 list option"
  asset_cgb_agb :: "u8 list option"

definition boot_assets_none :: boot_rom_assets where
  "boot_assets_none =
     \<lparr>asset_dmg0 = None, asset_dmg = None, asset_mgb = None, asset_sgb = None, asset_sgb2 = None,
      asset_cgb0 = None, asset_cgb = None, asset_cgb_e = None, asset_cgb_agb0 = None,
      asset_cgb_agb = None\<rparr>"

fun asset_bytes_for :: "boot_rom_asset_kind \<Rightarrow> boot_rom_assets \<Rightarrow> u8 list option" where
  "asset_bytes_for AssetDmg0 a = asset_dmg0 a"
| "asset_bytes_for AssetDmg a = asset_dmg a"
| "asset_bytes_for AssetMgb a = asset_mgb a"
| "asset_bytes_for AssetSgb a = asset_sgb a"
| "asset_bytes_for AssetSgb2 a = asset_sgb2 a"
| "asset_bytes_for AssetCgb0 a = asset_cgb0 a"
| "asset_bytes_for AssetCgb a = asset_cgb a"
| "asset_bytes_for AssetCgbE a = asset_cgb_e a"
| "asset_bytes_for AssetCgbAgb0 a = asset_cgb_agb0 a"
| "asset_bytes_for AssetCgbAgb a = asset_cgb_agb a"

text \<open>\<open>bytes_slot_mut\<close> and the assignment through it.\<close>

fun asset_set_slot :: "boot_rom_asset_kind \<Rightarrow> u8 list \<Rightarrow> boot_rom_assets \<Rightarrow> boot_rom_assets" where
  "asset_set_slot AssetDmg0 bytes a = a\<lparr>asset_dmg0 := Some bytes\<rparr>"
| "asset_set_slot AssetDmg bytes a = a\<lparr>asset_dmg := Some bytes\<rparr>"
| "asset_set_slot AssetMgb bytes a = a\<lparr>asset_mgb := Some bytes\<rparr>"
| "asset_set_slot AssetSgb bytes a = a\<lparr>asset_sgb := Some bytes\<rparr>"
| "asset_set_slot AssetSgb2 bytes a = a\<lparr>asset_sgb2 := Some bytes\<rparr>"
| "asset_set_slot AssetCgb0 bytes a = a\<lparr>asset_cgb0 := Some bytes\<rparr>"
| "asset_set_slot AssetCgb bytes a = a\<lparr>asset_cgb := Some bytes\<rparr>"
| "asset_set_slot AssetCgbE bytes a = a\<lparr>asset_cgb_e := Some bytes\<rparr>"
| "asset_set_slot AssetCgbAgb0 bytes a = a\<lparr>asset_cgb_agb0 := Some bytes\<rparr>"
| "asset_set_slot AssetCgbAgb bytes a = a\<lparr>asset_cgb_agb := Some bytes\<rparr>"

datatype boot_rom_asset_error = ImageTooShort nat nat

definition validate_boot_rom_len :: "nat \<Rightarrow> u8 list \<Rightarrow> boot_rom_asset_error + unit" where
  "validate_boot_rom_len minimum bytes =
     (if length bytes < minimum then Inl (ImageTooShort minimum (length bytes)) else Inr ())"

definition insert_asset_bytes ::
    "boot_rom_asset_kind \<Rightarrow> u8 list \<Rightarrow> boot_rom_assets \<Rightarrow> boot_rom_asset_error + boot_rom_assets" where
  "insert_asset_bytes k bytes a =
     (case validate_boot_rom_len (asset_minimum_len k) bytes of
        Inl e \<Rightarrow> Inl e
      | Inr _ \<Rightarrow> Inr (asset_set_slot k bytes a))"

definition insert_revision_bytes ::
    "hardware_revision \<Rightarrow> u8 list \<Rightarrow> boot_rom_assets \<Rightarrow> boot_rom_asset_error + boot_rom_assets" where
  "insert_revision_bytes r = insert_asset_bytes (asset_from_revision r)"

definition has_asset :: "boot_rom_asset_kind \<Rightarrow> boot_rom_assets \<Rightarrow> bool" where
  "has_asset k a = (asset_bytes_for k a \<noteq> None)"

definition boot_assets_is_empty :: "boot_rom_assets \<Rightarrow> bool" where
  "boot_assets_is_empty a \<longleftrightarrow>
     asset_dmg0 a = None \<and> asset_dmg a = None \<and> asset_mgb a = None \<and> asset_sgb a = None
     \<and> asset_sgb2 a = None \<and> asset_cgb0 a = None \<and> asset_cgb a = None \<and> asset_cgb_e a = None
     \<and> asset_cgb_agb0 a = None \<and> asset_cgb_agb a = None"

definition bytes_get :: "u8 list \<Rightarrow> nat \<Rightarrow> u8 option" where
  "bytes_get xs i = (if i < length xs then Some (xs ! i) else None)"

definition read_cgb_boot_rom_byte :: "u8 list \<Rightarrow> u16 \<Rightarrow> u8 option" where
  "read_cgb_boot_rom_byte bytes address =
     (let a = unat address
      in if a \<le> 0x00FF then bytes_get bytes a
         else if 0x0200 \<le> a \<and> a \<le> 0x08FF then
           bytes_get bytes
             (if length bytes \<ge> CGB_BOOT_ROM_MAPPED_LEN then a
              else a - (CGB_BOOT_ROM_UPPER_WINDOW_START - DMG_FAMILY_BOOT_ROM_LEN))
         else None)"

definition read_asset_byte :: "boot_rom_asset_kind \<Rightarrow> u16 \<Rightarrow> boot_rom_assets \<Rightarrow> u8 option" where
  "read_asset_byte k address a =
     (case asset_bytes_for k a of
        None \<Rightarrow> None
      | Some bytes \<Rightarrow> if uses_cgb_mapping k then read_cgb_boot_rom_byte bytes address
                      else bytes_get bytes (unat address))"

definition fingerprint_asset :: "boot_rom_asset_kind \<Rightarrow> boot_rom_assets \<Rightarrow> byte_fingerprint option" where
  "fingerprint_asset k a = map_option fingerprint_from_bytes (asset_bytes_for k a)"

subsection \<open>Memory at startup\<close>

datatype startup_memory_policy =
    DeterministicPatterned
  | DmgBootLogoVram
  | CgbRealBootEntry
  | CgbRealBootEntryWithDmgBootLogoVram
  | CgbRealBootEntryWithDmgBootLogoTiles

definition DMG_BOOT_LOGO_TILE_VRAM_START :: u16 where "DMG_BOOT_LOGO_TILE_VRAM_START = 0x8010"
definition DMG_BOOT_LOGO_MAP_VRAM_START :: u16 where "DMG_BOOT_LOGO_MAP_VRAM_START = 0x9904"

definition DMG_BOOT_LOGO_TILE_BYTES :: "u8 list" where
  "DMG_BOOT_LOGO_TILE_BYTES = 
    [
     0xF0, 0xF0, 0xFC, 0xFC, 0xFC, 0xFC, 0xF3, 0xF3, 0x3C, 0x3C, 0x3C, 0x3C, 0x3C, 0x3C, 0x3C, 0x3C,
     0xF0, 0xF0, 0xF0, 0xF0, 0x00, 0x00, 0xF3, 0xF3, 0x00, 0x00, 0x00, 0x00, 0x00, 0x00, 0xCF, 0xCF,
     0x00, 0x00, 0x0F, 0x0F, 0x3F, 0x3F, 0x0F, 0x0F, 0x00, 0x00, 0x00, 0x00, 0xC0, 0xC0, 0x0F, 0x0F,
     0x00, 0x00, 0x00, 0x00, 0x00, 0x00, 0xF0, 0xF0, 0x00, 0x00, 0x00, 0x00, 0x00, 0x00, 0xF3, 0xF3,
     0x00, 0x00, 0x00, 0x00, 0x00, 0x00, 0xC0, 0xC0, 0x03, 0x03, 0x03, 0x03, 0x03, 0x03, 0xFF, 0xFF,
     0xC0, 0xC0, 0xC0, 0xC0, 0xC0, 0xC0, 0xC3, 0xC3, 0x00, 0x00, 0x00, 0x00, 0x00, 0x00, 0xFC, 0xFC,
     0xF3, 0xF3, 0xF0, 0xF0, 0xF0, 0xF0, 0xF0, 0xF0, 0x3C, 0x3C, 0xFC, 0xFC, 0xFC, 0xFC, 0x3C, 0x3C,
     0xF3, 0xF3, 0xF3, 0xF3, 0xF3, 0xF3, 0xF3, 0xF3, 0xF3, 0xF3, 0xC3, 0xC3, 0xC3, 0xC3, 0xC3, 0xC3,
     0xCF, 0xCF, 0xCF, 0xCF, 0xCF, 0xCF, 0xCF, 0xCF, 0x3C, 0x3C, 0x3F, 0x3F, 0x3C, 0x3C, 0x0F, 0x0F,
     0x3C, 0x3C, 0xFC, 0xFC, 0x00, 0x00, 0xFC, 0xFC, 0xFC, 0xFC, 0xF0, 0xF0, 0xF0, 0xF0, 0xF0, 0xF0,
     0xF3, 0xF3, 0xF3, 0xF3, 0xF3, 0xF3, 0xF0, 0xF0, 0xC3, 0xC3, 0xC3, 0xC3, 0xC3, 0xC3, 0xFF, 0xFF,
     0xCF, 0xCF, 0xCF, 0xCF, 0xCF, 0xCF, 0xC3, 0xC3, 0x0F, 0x0F, 0x0F, 0x0F, 0x0F, 0x0F, 0xFC, 0xFC,
     0x3C, 0x42, 0xB9, 0xA5, 0xB9, 0xA5, 0x42, 0x3C]"

definition DMG_BOOT_LOGO_MAP_BYTES :: "u8 list" where
  "DMG_BOOT_LOGO_MAP_BYTES = 
    [
     0x01, 0x02, 0x03, 0x04, 0x05, 0x06, 0x07, 0x08, 0x09, 0x0A, 0x0B, 0x0C, 0x19, 0x00, 0x00, 0x00,
     0x00, 0x00, 0x00, 0x00, 0x00, 0x00, 0x00, 0x00, 0x00, 0x00, 0x00, 0x00, 0x00, 0x00, 0x00, 0x00,
     0x0D, 0x0E, 0x0F, 0x10, 0x11, 0x12, 0x13, 0x14, 0x15, 0x16, 0x17, 0x18]"

definition CGB_BOOT_LOGO_HRAM_PREFIX :: "u8 list" where
  "CGB_BOOT_LOGO_HRAM_PREFIX = 
    [
     0xCE, 0xED, 0x66, 0x66, 0xCC, 0x0D, 0x00, 0x0B, 0x03, 0x73, 0x00, 0x83, 0x00, 0x0C, 0x00, 0x0D,
     0x00, 0x08, 0x11, 0x1F, 0x88, 0x89, 0x00, 0x0E, 0xDC, 0xCC, 0x6E, 0xE6, 0xDD, 0xDD, 0xD9, 0x99,
     0xBB, 0xBB, 0x67, 0x63, 0x6E, 0x0E, 0xEC, 0xCC, 0xDD, 0xDC, 0x99, 0x9F, 0xBB, 0xB9, 0x33, 0x3E]"

definition CGB_REAL_BOOT_VRAM_PREFIX :: "u8 list" where
  "CGB_REAL_BOOT_VRAM_PREFIX = 
    [
     0x00, 0x00, 0x00, 0x00, 0x00, 0x00, 0x00, 0x00, 0x00, 0x00, 0x00, 0x00, 0x00, 0x00, 0x00, 0x00,
     0xF0, 0x00, 0xF0, 0x00, 0xFC, 0x00, 0xFC, 0x00, 0xFC, 0x00, 0xFC, 0x00, 0xF3, 0x00, 0xF3, 0x00]"

text \<open>A slice is a list; the functions below return the slice they were given, rewritten.\<close>

definition write_vram_backing_byte :: "u16 \<Rightarrow> u8 \<Rightarrow> u8 list \<Rightarrow> u8 list" where
  "write_vram_backing_byte address v bytes =
     (if 0x8000 \<le> address then
        (if unat (address - 0x8000) < length bytes then bytes[unat (address - 0x8000) := v] else bytes)
      else bytes)"

definition apply_dmg_boot_logo_tile_vram :: "u8 list \<Rightarrow> u8 list" where
  "apply_dmg_boot_logo_tile_vram bytes =
     fold (\<lambda>(i, b). write_vram_backing_byte (DMG_BOOT_LOGO_TILE_VRAM_START + of_nat i * 2) b)
       (enumerate 0 DMG_BOOT_LOGO_TILE_BYTES) bytes"

definition apply_dmg_boot_logo_tilemap_vram :: "u8 list \<Rightarrow> u8 list" where
  "apply_dmg_boot_logo_tilemap_vram bytes =
     fold (\<lambda>(i, b). write_vram_backing_byte (DMG_BOOT_LOGO_MAP_VRAM_START + of_nat i) b)
       (enumerate 0 DMG_BOOT_LOGO_MAP_BYTES) bytes"

definition apply_dmg_boot_logo_vram :: "u8 list \<Rightarrow> u8 list" where
  "apply_dmg_boot_logo_vram bytes =
     apply_dmg_boot_logo_tilemap_vram (apply_dmg_boot_logo_tile_vram bytes)"

definition prefix_over_zeros :: "u8 list \<Rightarrow> u8 list \<Rightarrow> u8 list" where
  "prefix_over_zeros prefix bytes =
     (let n = min (length prefix) (length bytes)
      in take n prefix @ replicate (length bytes - n) 0)"

definition initialize_cgb_real_boot_entry_vram :: "u8 list \<Rightarrow> u8 list" where
  "initialize_cgb_real_boot_entry_vram bytes = prefix_over_zeros CGB_REAL_BOOT_VRAM_PREFIX bytes"

definition initialize_cgb_real_boot_entry_hram :: "u8 list \<Rightarrow> u8 list" where
  "initialize_cgb_real_boot_entry_hram bytes = prefix_over_zeros CGB_BOOT_LOGO_HRAM_PREFIX bytes"

definition deterministic_startup_byte :: "u16 \<Rightarrow> u8" where
  "deterministic_startup_byte address =
     (let low = ucast address :: u8;
          high = ucast (drop_bit 8 address) :: u8;
          mixed = (low * 0x3D) XOR (high * 0xA7) XOR 0x5A
      in word_rotl (unat (drop_bit 1 address AND 0x07)) mixed XOR 0xA5)"

definition fill_deterministic_startup_pattern :: "u16 \<Rightarrow> u8 list \<Rightarrow> u8 list" where
  "fill_deterministic_startup_pattern base bytes =
     map (\<lambda>i. deterministic_startup_byte (base + of_nat i)) [0 ..< length bytes]"

definition policy_fill_bytes :: "startup_memory_policy \<Rightarrow> u16 \<Rightarrow> u8 list \<Rightarrow> u8 list" where
  "policy_fill_bytes p base bytes =
     (if p = DeterministicPatterned \<or> p = DmgBootLogoVram
      then fill_deterministic_startup_pattern base bytes else bytes)"

fun initialize_vram :: "startup_memory_policy \<Rightarrow> u8 list \<Rightarrow> u8 list" where
  "initialize_vram DeterministicPatterned bytes = bytes"
| "initialize_vram DmgBootLogoVram bytes = apply_dmg_boot_logo_vram bytes"
| "initialize_vram CgbRealBootEntry bytes = initialize_cgb_real_boot_entry_vram bytes"
| "initialize_vram CgbRealBootEntryWithDmgBootLogoTiles bytes =
     apply_dmg_boot_logo_tile_vram (initialize_cgb_real_boot_entry_vram bytes)"
| "initialize_vram CgbRealBootEntryWithDmgBootLogoVram bytes =
     apply_dmg_boot_logo_vram (initialize_cgb_real_boot_entry_vram bytes)"

definition initialize_wram :: "startup_memory_policy \<Rightarrow> u8 list \<Rightarrow> u8 list" where
  "initialize_wram p bytes =
     (if p = DeterministicPatterned \<or> p = DmgBootLogoVram then policy_fill_bytes p 0xC000 bytes
      else replicate (length bytes) 0)"

definition initialize_hram :: "startup_memory_policy \<Rightarrow> u8 list \<Rightarrow> u8 list" where
  "initialize_hram p bytes =
     (if p = DeterministicPatterned \<or> p = DmgBootLogoVram then policy_fill_bytes p 0xFF80 bytes
      else initialize_cgb_real_boot_entry_hram bytes)"

subsection \<open>The controller\<close>

datatype boot_status = BootReady

record boot_controller =
  boot_console_model :: console_model
  boot_revision :: hardware_revision
  boot_sgb_profile :: "sgb_host_profile option"
  boot_startup_mode :: startup_mode
  boot_status :: boot_status
  boot_rom_mapped :: bool
  boot_rom_assets :: boot_rom_assets

definition boot_new_with_sgb_profile ::
    "console_model \<Rightarrow> hardware_revision \<Rightarrow> sgb_host_profile option \<Rightarrow> startup_mode \<Rightarrow> boot_rom_assets
     \<Rightarrow> boot_controller" where
  "boot_new_with_sgb_profile m r profile mode assets =
     \<lparr>boot_console_model = m, boot_revision = r, boot_sgb_profile = profile, boot_startup_mode = mode,
      boot_status = BootReady, boot_rom_mapped = requires_boot_rom mode, boot_rom_assets = assets\<rparr>"

definition boot_new ::
    "console_model \<Rightarrow> hardware_revision \<Rightarrow> startup_mode \<Rightarrow> boot_rom_assets \<Rightarrow> boot_controller" where
  "boot_new m r mode assets = boot_new_with_sgb_profile m r None mode assets"

record boot_save_state =
  bsave_console_model :: console_model
  bsave_revision :: hardware_revision
  bsave_sgb_profile :: "sgb_host_profile option"
  bsave_startup_mode :: startup_mode
  bsave_status :: boot_status
  bsave_boot_rom_mapped :: bool
  bsave_boot_rom_assets :: boot_rom_assets

definition boot_capture_save_state :: "boot_controller \<Rightarrow> boot_save_state" where
  "boot_capture_save_state b =
     \<lparr>bsave_console_model = boot_console_model b, bsave_revision = boot_revision b,
      bsave_sgb_profile = boot_sgb_profile b, bsave_startup_mode = boot_startup_mode b,
      bsave_status = boot_status b, bsave_boot_rom_mapped = boot_rom_mapped b,
      bsave_boot_rom_assets = boot_rom_assets b\<rparr>"

definition boot_restore_save_state :: "boot_save_state \<Rightarrow> boot_controller \<Rightarrow> boot_controller" where
  "boot_restore_save_state s b =
     b\<lparr>boot_console_model := bsave_console_model s, boot_revision := bsave_revision s,
       boot_sgb_profile := bsave_sgb_profile s, boot_startup_mode := bsave_startup_mode s,
       boot_status := bsave_status s, boot_rom_mapped := bsave_boot_rom_mapped s,
       boot_rom_assets := bsave_boot_rom_assets s\<rparr>"

definition boot_rom_asset :: "boot_controller \<Rightarrow> boot_rom_asset_kind" where
  "boot_rom_asset b = asset_from_machine_profile (boot_revision b) (boot_sgb_profile b)"

definition has_boot_rom_asset :: "boot_controller \<Rightarrow> bool" where
  "has_boot_rom_asset b = has_asset (boot_rom_asset b) (boot_rom_assets b)"

definition boot_rom_fingerprint :: "boot_controller \<Rightarrow> byte_fingerprint option" where
  "boot_rom_fingerprint b = fingerprint_asset (boot_rom_asset b) (boot_rom_assets b)"

definition boot_bus_state :: "boot_controller \<Rightarrow> boot_rom_bus_state" where
  "boot_bus_state b =
     (if \<not> boot_rom_mapped b then boot_windows_unmapped
      else if boot_console_model b = GameBoyColor \<or> boot_console_model b = GameBoyAdvance
      then map_cgb_windows else map_dmg_low_bytes)"

definition read_ff50 :: "boot_controller \<Rightarrow> u8" where
  "read_ff50 b = 0xFF"

definition startup_memory_policy_of :: "boot_controller \<Rightarrow> startup_memory_policy" where
  "startup_memory_policy_of b =
     (if boot_startup_mode b = SkipBoot \<or> boot_startup_mode b = CustomBoot then
        (if is_cgb_family (boot_console_model b) then CgbRealBootEntryWithDmgBootLogoTiles
         else DmgBootLogoVram)
      else DeterministicPatterned)"

definition read_boot_rom :: "u16 \<Rightarrow> boot_controller \<Rightarrow> u8" where
  "read_boot_rom address b =
     (case read_asset_byte (boot_rom_asset b) address (boot_rom_assets b) of None \<Rightarrow> 0xFF | Some v \<Rightarrow> v)"

definition write_ff50 :: "u8 \<Rightarrow> boot_controller \<Rightarrow> bool \<times> boot_controller" where
  "write_ff50 v b =
     (if v \<noteq> 0 \<and> boot_rom_mapped b then (True, b\<lparr>boot_rom_mapped := False\<rparr>) else (False, b))"

subsection \<open>Facts about the images and the memory\<close>

lemma slice_lengths [simp]:
  "length (write_vram_backing_byte a v bytes) = length bytes"
  "length (prefix_over_zeros xs bytes) = length bytes"
  "length (fill_deterministic_startup_pattern base bytes) = length bytes"
  by (simp_all add: write_vram_backing_byte_def prefix_over_zeros_def Let_def fill_deterministic_startup_pattern_def)

lemma fold_backing_length [simp]:
  "length (fold (\<lambda>(i, b). write_vram_backing_byte (f i) b) xs bytes) = length bytes"
  by (induction xs arbitrary: bytes) auto

lemma initialize_lengths [simp]:
  "length (initialize_vram p bytes) = length bytes"
  "length (initialize_wram p bytes) = length bytes"
  "length (initialize_hram p bytes) = length bytes"
  by (cases p; simp add: apply_dmg_boot_logo_vram_def apply_dmg_boot_logo_tile_vram_def
      apply_dmg_boot_logo_tilemap_vram_def initialize_cgb_real_boot_entry_vram_def
      initialize_cgb_real_boot_entry_hram_def initialize_wram_def initialize_hram_def policy_fill_bytes_def)+

text \<open>The boot ROM is gone for good once a nonzero byte is written to \<open>FF50\<close>.\<close>

lemma write_ff50_unmaps:
  "v \<noteq> 0 \<Longrightarrow> \<not> boot_rom_mapped (snd (write_ff50 v b))"
  "fst (write_ff50 v b) \<longleftrightarrow> boot_rom_mapped b \<and> \<not> boot_rom_mapped (snd (write_ff50 v b))"
  by (auto simp: write_ff50_def)

lemma unmapped_stays:
  "\<not> boot_rom_mapped b \<Longrightarrow> write_ff50 v b = (False, b)"
  "\<not> boot_rom_mapped b \<Longrightarrow> \<not> overlays_read a (boot_bus_state b)"
  by (simp_all add: write_ff50_def boot_bus_state_def overlays_read_def boot_windows_unmapped_def)

text \<open>An image that was accepted answers every address its window shows: the fall-back is never read.\<close>

lemma asset_set_get [simp]: "asset_bytes_for k (asset_set_slot k bytes a) = Some bytes"
  by (cases k) simp_all

lemma inserted_image_covers_window:
  assumes "insert_asset_bytes k bytes a = Inr a'"
    and "unat address \<le> 0xFF \<or> uses_cgb_mapping k \<and> 0x200 \<le> unat address \<and> unat address \<le> 0x8FF"
  shows "\<exists>v. read_asset_byte k address a' = Some v"
proof -
  have len: "asset_minimum_len k \<le> length bytes" and a': "a' = asset_set_slot k bytes a"
    using assms(1) by (auto simp: insert_asset_bytes_def validate_boot_rom_len_def split: if_splits)
  show ?thesis
    using assms(2) len
    by (auto simp: read_asset_byte_def a' read_cgb_boot_rom_byte_def Let_def bytes_get_def asset_minimum_len_def
        boot_rom_lengths split: if_splits)
qed

end
