(* ===== verification/Boot_Startup.thy ===== *)
theory Boot_Startup
  imports Boot_Rom Cart_Parse Gb_Serial Gb_Timer Gb_Joypad Gb_Interrupts Dma Cpu_Alu
begin

text \<open>
  What the machine starts from when no boot ROM runs (\<open>boot.rs\<close>): the register snapshots of
  each console, the divider phase the boot ROM would leave for the cartridge at hand, and the
  startup states of the processor, the timer, the serial port, the joypad, the interrupt
  controller, DMA, sound and video that are built from them; and the power-on states of a real
  boot.
\<close>

subsection \<open>Snapshots\<close>

record boot_audio_snapshot =
  snd_nr10 :: u8
  snd_nr11 :: u8
  snd_nr12 :: u8
  snd_nr13 :: u8
  snd_nr14 :: u8
  snd_nr21 :: u8
  snd_nr22 :: u8
  snd_nr23 :: u8
  snd_nr24 :: u8
  snd_nr30 :: u8
  snd_nr31 :: u8
  snd_nr32 :: u8
  snd_nr33 :: u8
  snd_nr34 :: u8
  snd_nr41 :: u8
  snd_nr42 :: u8
  snd_nr43 :: u8
  snd_nr44 :: u8
  snd_nr50 :: u8
  snd_nr51 :: u8
  snd_nr52 :: u8

record boot_io_snapshot =
  io_p1 :: u8
  io_sb :: u8
  io_sc :: u8
  io_div :: u8
  io_tima :: u8
  io_tma :: u8
  io_tac :: u8
  io_interrupt_flag :: u8
  io_lcdc :: u8
  io_stat :: u8
  io_scy :: u8
  io_scx :: u8
  io_ly :: u8
  io_lyc :: u8
  io_dma :: u8
  io_bgp :: u8
  io_wy :: u8
  io_wx :: u8
  io_interrupt_enable :: u8
  io_audio :: boot_audio_snapshot

definition CGB_SKIP_BOOT_DIV :: u8 where "CGB_SKIP_BOOT_DIV = 0x26"

definition dmg_family_skip_boot_audio_snapshot :: boot_audio_snapshot where
  "dmg_family_skip_boot_audio_snapshot =
     \<lparr>snd_nr10 = 0x80, snd_nr11 = 0xBF, snd_nr12 = 0xF3, snd_nr13 = 0xFF, snd_nr14 = 0xBF,
      snd_nr21 = 0x3F, snd_nr22 = 0x00, snd_nr23 = 0xFF, snd_nr24 = 0xBF, snd_nr30 = 0x7F,
      snd_nr31 = 0xFF, snd_nr32 = 0x9F, snd_nr33 = 0xFF, snd_nr34 = 0xBF, snd_nr41 = 0xFF,
      snd_nr42 = 0x00, snd_nr43 = 0x00, snd_nr44 = 0xBF, snd_nr50 = 0x77, snd_nr51 = 0xF3,
      snd_nr52 = 0xF1\<rparr>"

definition dmg_family_synthetic_skip_boot_io_snapshot :: boot_io_snapshot where
  "dmg_family_synthetic_skip_boot_io_snapshot =
     \<lparr>io_p1 = 0xCF, io_sb = 0x00, io_sc = 0x7E, io_div = 0xAB, io_tima = 0x00, io_tma = 0x00,
      io_tac = 0xF8, io_interrupt_flag = 0xE1, io_lcdc = 0x91, io_stat = 0x85, io_scy = 0x00,
      io_scx = 0x00, io_ly = 0x00, io_lyc = 0x00, io_dma = 0xFF, io_bgp = 0xFC, io_wy = 0x00,
      io_wx = 0x00, io_interrupt_enable = 0x00, io_audio = dmg_family_skip_boot_audio_snapshot\<rparr>"

definition dmg0_synthetic_skip_boot_io_snapshot :: boot_io_snapshot where
  "dmg0_synthetic_skip_boot_io_snapshot =
     \<lparr>io_p1 = 0xCF, io_sb = 0x00, io_sc = 0x7E, io_div = 0x18, io_tima = 0x00, io_tma = 0x00,
      io_tac = 0xF8, io_interrupt_flag = 0xE1, io_lcdc = 0x91, io_stat = 0x83, io_scy = 0x00,
      io_scx = 0x00, io_ly = 0x01, io_lyc = 0x00, io_dma = 0xFF, io_bgp = 0xFC, io_wy = 0x00,
      io_wx = 0x00, io_interrupt_enable = 0x00, io_audio = dmg_family_skip_boot_audio_snapshot\<rparr>"

definition sgb_synthetic_skip_boot_io_snapshot :: boot_io_snapshot where
  "sgb_synthetic_skip_boot_io_snapshot =
     dmg_family_synthetic_skip_boot_io_snapshot
       \<lparr>io_p1 := 0xFF, io_audio := dmg_family_skip_boot_audio_snapshot\<lparr>snd_nr52 := 0xF0\<rparr>\<rparr>"

definition synthetic_skip_boot_io_snapshot ::
    "console_model \<Rightarrow> hardware_revision \<Rightarrow> sgb_host_profile option \<Rightarrow> boot_io_snapshot" where
  "synthetic_skip_boot_io_snapshot m r profile =
     (if profile \<noteq> None then sgb_synthetic_skip_boot_io_snapshot
      else if m = GameBoy \<and> r = DmgCpu0 then dmg0_synthetic_skip_boot_io_snapshot
      else if m = GameBoy \<or> m = GameBoyPocket \<or> m = GameBoyLight
      then dmg_family_synthetic_skip_boot_io_snapshot
      else dmg_family_synthetic_skip_boot_io_snapshot
             \<lparr>io_p1 := 0xFF, io_div := CGB_SKIP_BOOT_DIV, io_dma := 0x00\<rparr>)"

definition verified_boot_entry_io_snapshot ::
    "console_model \<Rightarrow> hardware_revision \<Rightarrow> sgb_host_profile option \<Rightarrow> boot_io_snapshot" where
  "verified_boot_entry_io_snapshot m r profile =
     (if profile \<noteq> None then sgb_synthetic_skip_boot_io_snapshot
      else if m = GameBoy \<and> r = DmgCpu0 then dmg0_synthetic_skip_boot_io_snapshot
      else if m = GameBoy \<or> m = GameBoyPocket \<or> m = GameBoyLight then
        \<lparr>io_p1 = 0xCF, io_sb = 0x00, io_sc = 0x7E, io_div = 0xAB, io_tima = 0x00, io_tma = 0x00,
         io_tac = 0xF8, io_interrupt_flag = 0xE1, io_lcdc = 0x91, io_stat = 0x81, io_scy = 0x00,
         io_scx = 0x00, io_ly = 153, io_lyc = 0x00, io_dma = 0xFF, io_bgp = 0xFC, io_wy = 0x00,
         io_wx = 0x00, io_interrupt_enable = 0x00, io_audio = dmg_family_skip_boot_audio_snapshot\<rparr>
      else synthetic_skip_boot_io_snapshot m r profile)"

subsection \<open>The divider at the cartridge's first instruction\<close>

definition DMG_FAMILY_SKIP_BOOT_SYSTEM_COUNTER_LOW :: u8 where
  "DMG_FAMILY_SKIP_BOOT_SYSTEM_COUNTER_LOW = 0xC8"
definition DMG0_SKIP_BOOT_SYSTEM_COUNTER_LOW :: u8 where "DMG0_SKIP_BOOT_SYSTEM_COUNTER_LOW = 0x2C"
definition DMG_FAMILY_SKIP_BOOT_SERIAL_CLOCK_COUNTER :: u16 where
  "DMG_FAMILY_SKIP_BOOT_SERIAL_CLOCK_COUNTER = 0xABCC"
definition SGB_DIRECT_BOOT_SET_BIT_T_CYCLES :: u16 where "SGB_DIRECT_BOOT_SET_BIT_T_CYCLES = 4"
definition SGB_DIRECT_BOOT_ZERO_HEADER_SYSTEM_COUNTER :: u16 where
  "SGB_DIRECT_BOOT_ZERO_HEADER_SYSTEM_COUNTER = 0xDCA0"
definition CGB0_DIRECT_BOOT_SYSTEM_COUNTER :: u16 where "CGB0_DIRECT_BOOT_SYSTEM_COUNTER = 0x2880"
definition CGB_DEFAULT_DIRECT_BOOT_SYSTEM_COUNTER :: u16 where
  "CGB_DEFAULT_DIRECT_BOOT_SYSTEM_COUNTER = 0x2674"
definition AGB_DMG_COMPATIBLE_DIRECT_BOOT_SYSTEM_COUNTER :: u16 where
  "AGB_DMG_COMPATIBLE_DIRECT_BOOT_SYSTEM_COUNTER = 0x2678"
definition CGB_NATIVE_NON_NINTENDO_DIRECT_BOOT_SYSTEM_COUNTER :: u16 where
  "CGB_NATIVE_NON_NINTENDO_DIRECT_BOOT_SYSTEM_COUNTER = 0x1E84"
definition CGB_NATIVE_BINARY_ZERO_NEW_LICENSEE_DIRECT_BOOT_SYSTEM_COUNTER :: u16 where
  "CGB_NATIVE_BINARY_ZERO_NEW_LICENSEE_DIRECT_BOOT_SYSTEM_COUNTER = 0x1E98"
definition CGB_NATIVE_BINARY_ZERO_NEW_LICENSEE_HANDOFF_CORRECTION_T_CYCLES :: u16 where
  "CGB_NATIVE_BINARY_ZERO_NEW_LICENSEE_HANDOFF_CORRECTION_T_CYCLES = 24"
definition OLD_LICENSEE_NINTENDO :: u8 where "OLD_LICENSEE_NINTENDO = 0x01"
definition OLD_LICENSEE_USE_NEW_LICENSEE_CODE :: u8 where "OLD_LICENSEE_USE_NEW_LICENSEE_CODE = 0x33"
definition DMG_FAMILY_REAL_BOOT_POWER_ON_SYSTEM_COUNTER :: u16 where
  "DMG_FAMILY_REAL_BOOT_POWER_ON_SYSTEM_COUNTER = 0x0064"
definition DMG_FAMILY_REAL_BOOT_POWER_ON_SERIAL_CLOCK_COUNTER :: u16 where
  "DMG_FAMILY_REAL_BOOT_POWER_ON_SERIAL_CLOCK_COUNTER = 0x0068"
definition CGB_REAL_BOOT_POWER_ON_SYSTEM_COUNTER :: u16 where
  "CGB_REAL_BOOT_POWER_ON_SYSTEM_COUNTER = 0xFFFB"

definition DMG_FAMILY_SYNTHETIC_SKIP_BOOT_SYSTEM_COUNTER :: u16 where
  "DMG_FAMILY_SYNTHETIC_SKIP_BOOT_SYSTEM_COUNTER =
     push_bit 8 (u8_to_u16 (io_div dmg_family_synthetic_skip_boot_io_snapshot))
       OR u8_to_u16 DMG_FAMILY_SKIP_BOOT_SYSTEM_COUNTER_LOW"

definition DMG0_SYNTHETIC_SKIP_BOOT_SYSTEM_COUNTER :: u16 where
  "DMG0_SYNTHETIC_SKIP_BOOT_SYSTEM_COUNTER =
     push_bit 8 (u8_to_u16 (io_div dmg0_synthetic_skip_boot_io_snapshot))
       OR u8_to_u16 DMG0_SKIP_BOOT_SYSTEM_COUNTER_LOW"

definition count_ones :: "u8 \<Rightarrow> nat" where
  "count_ones b = length (filter (bit b) [0 ..< 8])"

primrec read_bytes_from :: "cartridge_slot option \<Rightarrow> nat list \<Rightarrow> u8 list res" where
  "read_bytes_from slot [] = Inr []"
| "read_bytes_from slot (a # as) =
     res_bind (case slot of None \<Rightarrow> Inr 0xFF | Some s \<Rightarrow> slot_read_rom (of_nat a) s)
       (\<lambda>b. res_map (Cons b) (read_bytes_from slot as))"

definition sgb_direct_start_system_counter :: "cartridge_slot option \<Rightarrow> u16 res" where
  "sgb_direct_start_system_counter slot =
     res_map (\<lambda>bytes. SGB_DIRECT_BOOT_ZERO_HEADER_SYSTEM_COUNTER
                - sum_list (map (\<lambda>b. of_nat (count_ones b)) bytes) * SGB_DIRECT_BOOT_SET_BIT_T_CYCLES)
       (read_bytes_from slot [0x100 ..< 0x150])"

definition cgb_native_binary_zero_new_licensee_boot_bucket :: "cartridge_header option \<Rightarrow> bool" where
  "cgb_native_binary_zero_new_licensee_boot_bucket header =
     (case header of
        None \<Rightarrow> False
      | Some h \<Rightarrow> enables_cgb_native_mode (hdr_cgb_flag h)
                   \<and> hdr_old_licensee_code h = OLD_LICENSEE_USE_NEW_LICENSEE_CODE
                   \<and> hdr_new_licensee_code h = [0x00, 0x00])"

definition cgb_direct_start_system_counter :: "cartridge_header option \<Rightarrow> u16" where
  "cgb_direct_start_system_counter header =
     (case header of
        None \<Rightarrow> CGB_DEFAULT_DIRECT_BOOT_SYSTEM_COUNTER
      | Some h \<Rightarrow>
          if \<not> enables_cgb_native_mode (hdr_cgb_flag h) then CGB_DEFAULT_DIRECT_BOOT_SYSTEM_COUNTER
          else if cgb_native_binary_zero_new_licensee_boot_bucket (Some h)
          then CGB_NATIVE_BINARY_ZERO_NEW_LICENSEE_DIRECT_BOOT_SYSTEM_COUNTER
          else if hdr_old_licensee_code h = OLD_LICENSEE_NINTENDO
                  \<or> hdr_old_licensee_code h = OLD_LICENSEE_USE_NEW_LICENSEE_CODE
          then CGB_DEFAULT_DIRECT_BOOT_SYSTEM_COUNTER
          else CGB_NATIVE_NON_NINTENDO_DIRECT_BOOT_SYSTEM_COUNTER)"

definition agb_direct_start_system_counter :: "cartridge_header option \<Rightarrow> u16" where
  "agb_direct_start_system_counter header =
     (case header of
        None \<Rightarrow> CGB_DEFAULT_DIRECT_BOOT_SYSTEM_COUNTER
      | Some h \<Rightarrow>
          if \<not> enables_cgb_native_mode (hdr_cgb_flag h) then AGB_DMG_COMPATIBLE_DIRECT_BOOT_SYSTEM_COUNTER
          else cgb_direct_start_system_counter (Some h))"

definition direct_start_system_counter ::
    "console_model \<Rightarrow> hardware_revision \<Rightarrow> cartridge_header option \<Rightarrow> u16" where
  "direct_start_system_counter m r header =
     (case m of
        GameBoy \<Rightarrow> if r = DmgCpu0 then DMG0_SYNTHETIC_SKIP_BOOT_SYSTEM_COUNTER
                    else DMG_FAMILY_SYNTHETIC_SKIP_BOOT_SYSTEM_COUNTER
      | GameBoyPocket \<Rightarrow> DMG_FAMILY_SYNTHETIC_SKIP_BOOT_SYSTEM_COUNTER
      | GameBoyLight \<Rightarrow> DMG_FAMILY_SYNTHETIC_SKIP_BOOT_SYSTEM_COUNTER
      | GameBoyColor \<Rightarrow> if r = CpuCgb0 then CGB0_DIRECT_BOOT_SYSTEM_COUNTER
                         else cgb_direct_start_system_counter header
      | GameBoyAdvance \<Rightarrow> agb_direct_start_system_counter header)"

definition direct_start_system_counter_for_cartridge ::
    "console_model \<Rightarrow> hardware_revision \<Rightarrow> sgb_host_profile option \<Rightarrow> cartridge_slot option \<Rightarrow> u16 res" where
  "direct_start_system_counter_for_cartridge m r profile slot =
     (if profile \<noteq> None then sgb_direct_start_system_counter slot
      else Inr (direct_start_system_counter m r (Option.bind slot slot_header)))"

definition cgb_real_boot_handoff_correction_t_cycles :: "cartridge_header option \<Rightarrow> u16" where
  "cgb_real_boot_handoff_correction_t_cycles header =
     (if cgb_native_binary_zero_new_licensee_boot_bucket header
      then CGB_NATIVE_BINARY_ZERO_NEW_LICENSEE_HANDOFF_CORRECTION_T_CYCLES else 0)"

definition div_from_system_counter :: "u16 \<Rightarrow> u8" where
  "div_from_system_counter n = ucast (drop_bit 8 n)"

definition div_apu_phase_from_system_counter :: "u16 \<Rightarrow> u8" where
  "div_apu_phase_from_system_counter n = ucast (drop_bit 13 n AND 0x07)"

definition verified_boot_entry_div_apu :: "console_model \<Rightarrow> hardware_revision \<Rightarrow> u16 \<Rightarrow> u8" where
  "verified_boot_entry_div_apu m r n =
     (case m of
        GameBoy \<Rightarrow> if r = DmgCpu0 then div_apu_phase_from_system_counter n else 0x01
      | GameBoyPocket \<Rightarrow> 0x01
      | GameBoyLight \<Rightarrow> 0x01
      | GameBoyColor \<Rightarrow> div_apu_phase_from_system_counter n
      | GameBoyAdvance \<Rightarrow> div_apu_phase_from_system_counter n)"

subsection \<open>The processor\<close>

definition cgb_dmg_mode_boot_b :: "cartridge_header option \<Rightarrow> u8" where
  "cgb_dmg_mode_boot_b header =
     (case Option.bind header cgb_compatibility_title_checksum of None \<Rightarrow> 0 | Some v \<Rightarrow> v)"

definition cgb_family_boot_b :: "bool \<Rightarrow> bool \<Rightarrow> u8 \<Rightarrow> u8" where
  "cgb_family_boot_b cgb_native agb b =
     (if cgb_native then (if agb then 0x01 else 0x00) else if agb then b + 1 else b)"

definition agb_dmg_mode_boot_f :: "u8 \<Rightarrow> u8" where
  "agb_dmg_mode_boot_f b =
     (let zero_flag = (if b + 1 = 0 then 0x80 else 0x00);
          half_carry_flag = (if b AND 0x0F = 0x0F then 0x20 else 0x00)
      in zero_flag OR half_carry_flag)"

definition cgb_family_boot_f :: "bool \<Rightarrow> bool \<Rightarrow> u8 \<Rightarrow> u8" where
  "cgb_family_boot_f cgb_native agb b =
     (if cgb_native \<and> agb then 0x00 else if \<not> agb then 0x80 else agb_dmg_mode_boot_f b)"

definition cgb_family_boot_hl :: "bool \<Rightarrow> bool \<Rightarrow> u8 \<Rightarrow> u8 \<times> u8" where
  "cgb_family_boot_hl cgb_native agb b =
     (if cgb_native then (0x00, 0x0D)
      else if \<not> agb \<and> (b = 0x43 \<or> b = 0x58) \<or> agb \<and> (b = 0x44 \<or> b = 0x59) then (0x99, 0x1A)
      else (0x00, 0x7C))"

definition dmg_family_skip_boot_flags :: "u8 option \<Rightarrow> u8" where
  "dmg_family_skip_boot_flags checksum = (if checksum = Some 0x00 then 0x80 else 0xB0)"

definition start_state :: "u8 \<Rightarrow> u8 \<Rightarrow> u8 \<Rightarrow> u8 \<Rightarrow> u8 \<Rightarrow> u8 \<Rightarrow> u8 \<Rightarrow> u8 \<Rightarrow> cpu_startup_state" where
  "start_state a f b c d e h l =
     \<lparr>start_a = a, start_f = f, start_b = b, start_c = c, start_d = d, start_e = e, start_h = h,
      start_l = l, start_sp = 0xFFFE, start_pc = 0x0100\<rparr>"

definition build_skip_boot_cpu_state ::
    "console_model \<Rightarrow> hardware_revision \<Rightarrow> sgb_host_profile option \<Rightarrow> cartridge_header option
     \<Rightarrow> cpu_startup_state" where
  "build_skip_boot_cpu_state m r profile header =
     (case profile of
        Some Sgb2Ntsc \<Rightarrow> start_state 0xFF 0x00 0x00 0x14 0x00 0x00 0xC0 0x60
      | Some _ \<Rightarrow> start_state 0x01 0x00 0x00 0x14 0x00 0x00 0xC0 0x60
      | None \<Rightarrow>
          let flags = dmg_family_skip_boot_flags (map_option hdr_header_checksum header)
          in if m = GameBoy then
               (if r = DmgCpu0 then start_state 0x01 0x00 0xFF 0x13 0x00 0xC1 0x84 0x03
                else start_state 0x01 flags 0x00 0x13 0x00 0xD8 0x01 0x4D)
             else if m = GameBoyPocket \<or> m = GameBoyLight then
               start_state 0xFF flags 0x00 0x13 0x00 0xD8 0x01 0x4D
             else
               let cgb_native = (case header of None \<Rightarrow> False | Some h \<Rightarrow> enables_cgb_native_mode (hdr_cgb_flag h));
                   agb = (m = GameBoyAdvance);
                   dmg_mode_b = cgb_dmg_mode_boot_b header;
                   b = cgb_family_boot_b cgb_native agb dmg_mode_b;
                   f = cgb_family_boot_f cgb_native agb dmg_mode_b;
                   hl = cgb_family_boot_hl cgb_native agb b
               in start_state 0x11 f b 0x00 (if cgb_native then 0xFF else 0x00)
                    (if cgb_native then 0x56 else 0x08) (fst hl) (snd hl))"

subsection \<open>Sound and video\<close>

datatype wave_ram_startup_policy = DeterministicZeroed | CgbRealBootAlternating

record apu_startup_state =
  apus_powered :: bool
  apus_nr10 :: u8
  apus_nr11 :: u8
  apus_nr12 :: u8
  apus_nr13 :: u8
  apus_nr14 :: u8
  apus_nr21 :: u8
  apus_nr22 :: u8
  apus_nr23 :: u8
  apus_nr24 :: u8
  apus_nr30 :: u8
  apus_nr31 :: u8
  apus_nr32 :: u8
  apus_nr33 :: u8
  apus_nr34 :: u8
  apus_nr41 :: u8
  apus_nr42 :: u8
  apus_nr43 :: u8
  apus_nr44 :: u8
  apus_nr50 :: u8
  apus_nr51 :: u8
  apus_channel_active_mask :: u8
  apus_startup_silent_channel_mask :: u8
  apus_div_apu :: u8
  apus_wave_ram_startup_policy :: wave_ram_startup_policy

definition cgb_family_direct_start_silent_channel_mask :: "console_model \<Rightarrow> boot_audio_snapshot \<Rightarrow> u8" where
  "cgb_family_direct_start_silent_channel_mask m audio =
     (if is_cgb_family m then snd_nr52 audio AND 0x0F else 0)"

definition build_skip_boot_apu_state ::
    "console_model \<Rightarrow> hardware_revision \<Rightarrow> u16 \<Rightarrow> boot_io_snapshot \<Rightarrow> apu_startup_state" where
  "build_skip_boot_apu_state m r n io =
     (let audio = io_audio io in
      \<lparr>apus_powered = (snd_nr52 audio AND 0x80 \<noteq> 0),
       apus_nr10 = snd_nr10 audio AND 0x7F, apus_nr11 = snd_nr11 audio AND 0xC0,
       apus_nr12 = snd_nr12 audio, apus_nr13 = 0x00, apus_nr14 = snd_nr14 audio AND 0x40,
       apus_nr21 = snd_nr21 audio AND 0xC0, apus_nr22 = snd_nr22 audio, apus_nr23 = 0x00,
       apus_nr24 = snd_nr24 audio AND 0x40, apus_nr30 = snd_nr30 audio AND 0x80, apus_nr31 = 0x00,
       apus_nr32 = snd_nr32 audio AND 0x60, apus_nr33 = 0x00, apus_nr34 = snd_nr34 audio AND 0x40,
       apus_nr41 = 0x00, apus_nr42 = snd_nr42 audio, apus_nr43 = snd_nr43 audio,
       apus_nr44 = snd_nr44 audio AND 0x40, apus_nr50 = snd_nr50 audio, apus_nr51 = snd_nr51 audio,
       apus_channel_active_mask = snd_nr52 audio AND 0x0F,
       apus_startup_silent_channel_mask = cgb_family_direct_start_silent_channel_mask m audio,
       apus_div_apu = div_apu_phase_from_system_counter n,
       apus_wave_ram_startup_policy =
         (if m = GameBoyColor \<and> r = CpuCgb0 then DeterministicZeroed
          else if is_cgb_family m then CgbRealBootAlternating else DeterministicZeroed)\<rparr>)"

definition build_verified_boot_entry_apu_state ::
    "console_model \<Rightarrow> hardware_revision \<Rightarrow> u16 \<Rightarrow> boot_io_snapshot \<Rightarrow> apu_startup_state" where
  "build_verified_boot_entry_apu_state m r n io =
     (build_skip_boot_apu_state m r n io)\<lparr>apus_div_apu := verified_boot_entry_div_apu m r n\<rparr>"

datatype dmg_obj_palette_read_policy = ReadAsFfUntilWritten

record ppu_startup_state =
  ppus_lcdc :: u8
  ppus_stat :: u8
  ppus_scy :: u8
  ppus_scx :: u8
  ppus_ly :: u8
  ppus_lyc :: u8
  ppus_bgp :: u8
  ppus_wy :: u8
  ppus_wx :: u8
  ppus_obj_palette_read_policy :: dmg_obj_palette_read_policy

definition build_skip_boot_ppu_state :: "boot_io_snapshot \<Rightarrow> ppu_startup_state" where
  "build_skip_boot_ppu_state io =
     \<lparr>ppus_lcdc = io_lcdc io, ppus_stat = io_stat io, ppus_scy = io_scy io, ppus_scx = io_scx io,
      ppus_ly = io_ly io, ppus_lyc = io_lyc io, ppus_bgp = io_bgp io, ppus_wy = io_wy io,
      ppus_wx = io_wx io, ppus_obj_palette_read_policy = ReadAsFfUntilWritten\<rparr>"

subsection \<open>Startup states\<close>

record boot_direct_boot_state =
  direct_cpu :: cpu_startup_state
  direct_io :: boot_io_snapshot
  direct_apu :: apu_startup_state
  direct_ppu :: ppu_startup_state
  direct_serial :: serial_startup_state
  direct_timer :: timer_startup_state
  direct_dma :: u8
  direct_interrupts :: interrupt_startup_state
  direct_joypad :: joypad_startup_state
  direct_startup_memory_policy :: startup_memory_policy

definition build_skip_boot_state ::
    "cartridge_slot option \<Rightarrow> boot_io_snapshot \<Rightarrow> apu_startup_state \<Rightarrow> u16 \<Rightarrow> boot_controller
     \<Rightarrow> boot_direct_boot_state" where
  "build_skip_boot_state slot io apu n b =
     \<lparr>direct_cpu = build_skip_boot_cpu_state (boot_console_model b) (boot_revision b) (boot_sgb_profile b)
                    (Option.bind slot slot_header),
      direct_io = io,
      direct_apu = apu,
      direct_ppu = build_skip_boot_ppu_state io,
      direct_serial = serial_startup_with_clock_counter DMG_FAMILY_SKIP_BOOT_SERIAL_CLOCK_COUNTER
                        (serial_startup_from_registers (io_sb io) (io_sc io)),
      direct_timer = \<lparr>timer_startup_counter = n, timer_startup_tima = io_tima io,
                      timer_startup_tma = io_tma io, timer_startup_tac = io_tac io AND 0x07\<rparr>,
      direct_dma = io_dma io,
      direct_interrupts = \<lparr>int_startup_flags = io_interrupt_flag io AND 0x1F,
                           int_startup_enable = io_interrupt_enable io\<rparr>,
      direct_joypad = \<lparr>joy_startup_selection_bits = io_p1 io AND 0x30, joy_startup_pressed_mask = 0\<rparr>,
      direct_startup_memory_policy = startup_memory_policy_of b\<rparr>"

definition direct_boot_state :: "cartridge_slot option \<Rightarrow> boot_controller \<Rightarrow> boot_direct_boot_state option res" where
  "direct_boot_state slot b =
     (if boot_startup_mode b \<noteq> SkipBoot then Inr None
      else res_map (\<lambda>n.
          let io = verified_boot_entry_io_snapshot (boot_console_model b) (boot_revision b) (boot_sgb_profile b);
              io = io\<lparr>io_div := div_from_system_counter n\<rparr>;
              apu = build_verified_boot_entry_apu_state (boot_console_model b) (boot_revision b) n io
          in Some (build_skip_boot_state slot io apu n b))
        (direct_start_system_counter_for_cartridge (boot_console_model b) (boot_revision b)
           (boot_sgb_profile b) slot))"

definition machine_skip_boot_state ::
    "cartridge_slot option \<Rightarrow> boot_controller \<Rightarrow> boot_direct_boot_state option res" where
  "machine_skip_boot_state slot b =
     (if \<not> uses_direct_boot_state (boot_startup_mode b) then Inr None
      else res_map (\<lambda>n.
          let io = synthetic_skip_boot_io_snapshot (boot_console_model b) (boot_revision b) (boot_sgb_profile b);
              io = io\<lparr>io_div := div_from_system_counter n\<rparr>;
              apu = build_skip_boot_apu_state (boot_console_model b) (boot_revision b) n io
          in Some (build_skip_boot_state slot io apu n b))
        (direct_start_system_counter_for_cartridge (boot_console_model b) (boot_revision b)
           (boot_sgb_profile b) slot))"

record boot_real_boot_power_on_state =
  power_on_timer :: timer_startup_state
  power_on_serial :: serial_startup_state
  power_on_dma :: u8
  power_on_joypad :: joypad_startup_state

definition real_boot_power_on_system_counter :: "console_model \<Rightarrow> hardware_revision \<Rightarrow> u16" where
  "real_boot_power_on_system_counter m r =
     (if m = GameBoy \<or> m = GameBoyPocket \<or> m = GameBoyLight
      then DMG_FAMILY_REAL_BOOT_POWER_ON_SYSTEM_COUNTER else CGB_REAL_BOOT_POWER_ON_SYSTEM_COUNTER)"

definition real_boot_power_on_serial_clock_counter :: "console_model \<Rightarrow> hardware_revision \<Rightarrow> u16" where
  "real_boot_power_on_serial_clock_counter m r =
     (if m = GameBoy \<or> m = GameBoyPocket \<or> m = GameBoyLight
      then DMG_FAMILY_REAL_BOOT_POWER_ON_SERIAL_CLOCK_COUNTER else 0)"

definition real_boot_power_on_joypad_state :: "console_model \<Rightarrow> joypad_startup_state" where
  "real_boot_power_on_joypad_state m =
     (if m = GameBoy \<or> m = GameBoyPocket \<or> m = GameBoyLight
      then \<lparr>joy_startup_selection_bits = 0x00, joy_startup_pressed_mask = 0x00\<rparr>
      else \<lparr>joy_startup_selection_bits = 0x30, joy_startup_pressed_mask = 0x00\<rparr>)"

definition real_boot_power_on_state :: "boot_controller \<Rightarrow> boot_real_boot_power_on_state option" where
  "real_boot_power_on_state b =
     (if boot_startup_mode b \<noteq> RealBoot then None
      else Some
        \<lparr>power_on_timer =
           \<lparr>timer_startup_counter = real_boot_power_on_system_counter (boot_console_model b) (boot_revision b),
            timer_startup_tima = 0x00, timer_startup_tma = 0x00, timer_startup_tac = 0x00\<rparr>,
         power_on_serial =
           serial_startup_with_clock_counter
             (real_boot_power_on_serial_clock_counter (boot_console_model b) (boot_revision b))
             (serial_startup_from_registers 0x00 0x00),
         power_on_dma = (if is_cgb_family (boot_console_model b) then 0x00 else 0xFF),
         power_on_joypad = real_boot_power_on_joypad_state (boot_console_model b)\<rparr>)"

end
