(* ===== verification/Boot_Laws.thy ===== *)
theory Boot_Laws
  imports Boot_Startup
begin

text \<open>
  The startup states agree with themselves and with the processor: what the started components
  show on their registers is the snapshot, and the flags of the Advance's boot ROM are those of
  the instruction it ends with.
\<close>

lemmas snapshot_defs =
  dmg_family_synthetic_skip_boot_io_snapshot_def dmg0_synthetic_skip_boot_io_snapshot_def
  sgb_synthetic_skip_boot_io_snapshot_def

text \<open>What a snapshot needs to be shown by the components as it stands.\<close>

definition snapshot_visible :: "boot_io_snapshot \<Rightarrow> bool" where
  "snapshot_visible io \<longleftrightarrow>
     io_sc io = 0x7E \<and> io_tac io = 0xF8 \<and> io_interrupt_flag io = 0xE1 \<and> (io_p1 io = 0xCF \<or> io_p1 io = 0xFF)"

lemma snapshots_visible:
  "snapshot_visible (synthetic_skip_boot_io_snapshot m r profile)"
  "snapshot_visible (verified_boot_entry_io_snapshot m r profile)"
  by (simp_all add: snapshot_visible_def synthetic_skip_boot_io_snapshot_def verified_boot_entry_io_snapshot_def
      snapshot_defs)

lemma started_serial_shows_sc:
  "read_sc (serial_apply_startup_state (serial_startup_with_clock_counter n (serial_startup_from_registers sb 0x7E)) s)
   = 0x7E"
  by (simp add: read_sc_def read_sc_high_speed_bit_def serial_apply_startup_state_def cgb_high_speed_serial_enabled_def
      serial_startup_with_clock_counter_def serial_startup_from_registers_def SC_CLOCK_MODE_BIT_def
      SC_CGB_HIGH_SPEED_BIT_def SC_TRANSFER_REQUEST_BIT_def SC_UNUSED_READ_MASK_def u8_of_bool_def)

lemma started_joypad_shows_p1:
  "p = 0xCF \<or> p = 0xFF \<Longrightarrow>
   read_p1 (joypad_apply_startup_state \<lparr>joy_startup_selection_bits = p AND 0x30, joy_startup_pressed_mask = 0\<rparr> j) = p"
  by (auto simp: read_p1_def joypad_apply_startup_state_def Let_def joypad_visible_def visible_low_nibble_def
      SELECT_MASK_def button_row_low_bits_def dpad_row_low_bits_def)

lemma built_state_reads_back:
  assumes "snapshot_visible io" and "io_div io = div_from_system_counter n"
    and "s = build_skip_boot_state slot io apu n b"
  shows "read_div (timer_apply_startup_state (direct_timer s) t) = io_div io"
    and "read_tima (timer_apply_startup_state (direct_timer s) t) = io_tima io"
    and "read_tma (timer_apply_startup_state (direct_timer s) t) = io_tma io"
    and "read_tac (timer_apply_startup_state (direct_timer s) t) = io_tac io"
    and "read_sb (serial_apply_startup_state (direct_serial s) p) = io_sb io"
    and "read_sc (serial_apply_startup_state (direct_serial s) p) = io_sc io"
    and "read_if (interrupts_apply_startup_state (direct_interrupts s) i) = io_interrupt_flag io"
    and "read_ie (interrupts_apply_startup_state (direct_interrupts s) i) = io_interrupt_enable io"
    and "read_p1 (joypad_apply_startup_state (direct_joypad s) j) = io_p1 io"
    and "read_ff46 (dma_apply_startup_state (direct_dma s) d) = io_dma io"
    and "direct_io s = io"
  using assms started_joypad_shows_p1 [of "io_p1 io" j] started_serial_shows_sc
  by (auto simp: build_skip_boot_state_def snapshot_visible_def timer_apply_startup_state_def Let_def read_div_def
      div_from_system_counter_def read_tima_def read_tma_def read_tac_def TIMER_CONTROL_MASK_def read_sb_def
      serial_apply_startup_state_def serial_startup_with_clock_counter_def serial_startup_from_registers_def
      interrupts_apply_startup_state_def read_if_def read_ie_def read_ff46_def dma_apply_startup_state_def
      INTERRUPT_FLAG_FORCED_HIGH_BITS_def INTERRUPT_REQUEST_MASK_def)

lemma skip_boot_states_built:
  assumes "machine_skip_boot_state slot b = Inr (Some s) \<or> direct_boot_state slot b = Inr (Some s)"
  obtains io apu n where "snapshot_visible io" and "io_div io = div_from_system_counter n"
    and "s = build_skip_boot_state slot io apu n b"
proof -
  have vis: "snapshot_visible (io\<lparr>io_div := x\<rparr>) = snapshot_visible io" for io x by (simp add: snapshot_visible_def)
  let ?c = "direct_start_system_counter_for_cartridge (boot_console_model b) (boot_revision b) (boot_sgb_profile b) slot"
  let ?io1 = "synthetic_skip_boot_io_snapshot (boot_console_model b) (boot_revision b) (boot_sgb_profile b)"
  let ?io2 = "verified_boot_entry_io_snapshot (boot_console_model b) (boot_revision b) (boot_sgb_profile b)"
  from assms show thesis
  proof
    assume "machine_skip_boot_state slot b = Inr (Some s)"
    then obtain n where "?c = Inr n" and "s = build_skip_boot_state slot (?io1\<lparr>io_div := div_from_system_counter n\<rparr>)
        (build_skip_boot_apu_state (boot_console_model b) (boot_revision b) n
          (?io1\<lparr>io_div := div_from_system_counter n\<rparr>)) n b"
      by (cases ?c) (auto simp: machine_skip_boot_state_def Let_def split: if_splits)
    with that [of "?io1\<lparr>io_div := div_from_system_counter n\<rparr>" n] show thesis by (simp add: vis snapshots_visible)
  next
    assume "direct_boot_state slot b = Inr (Some s)"
    then obtain n where "?c = Inr n" and "s = build_skip_boot_state slot (?io2\<lparr>io_div := div_from_system_counter n\<rparr>)
        (build_verified_boot_entry_apu_state (boot_console_model b) (boot_revision b) n
          (?io2\<lparr>io_div := div_from_system_counter n\<rparr>)) n b"
      by (cases ?c) (auto simp: direct_boot_state_def Let_def split: if_splits)
    with that [of "?io2\<lparr>io_div := div_from_system_counter n\<rparr>" n] show thesis by (simp add: vis snapshots_visible)
  qed
qed

text \<open>C33. A started machine shows its snapshot: after a skipped boot, on every console, every register of the timer,
  the serial port, the interrupt controller, the joypad and OAM DMA reads as the register snapshot of that
  startup says.\<close>

theorem skipped_boot_shows_its_snapshot:
  assumes "machine_skip_boot_state slot b = Inr (Some s) \<or> direct_boot_state slot b = Inr (Some s)"
  shows "read_div (timer_apply_startup_state (direct_timer s) t) = io_div (direct_io s)
    \<and> read_tima (timer_apply_startup_state (direct_timer s) t) = io_tima (direct_io s)
    \<and> read_tma (timer_apply_startup_state (direct_timer s) t) = io_tma (direct_io s)
    \<and> read_tac (timer_apply_startup_state (direct_timer s) t) = io_tac (direct_io s)
    \<and> read_sb (serial_apply_startup_state (direct_serial s) p) = io_sb (direct_io s)
    \<and> read_sc (serial_apply_startup_state (direct_serial s) p) = io_sc (direct_io s)
    \<and> read_if (interrupts_apply_startup_state (direct_interrupts s) i) = io_interrupt_flag (direct_io s)
    \<and> read_ie (interrupts_apply_startup_state (direct_interrupts s) i) = io_interrupt_enable (direct_io s)
    \<and> read_p1 (joypad_apply_startup_state (direct_joypad s) j) = io_p1 (direct_io s)
    \<and> read_ff46 (dma_apply_startup_state (direct_dma s) d) = io_dma (direct_io s)"
proof -
  obtain io apu n where io: "snapshot_visible io" "io_div io = div_from_system_counter n"
    "s = build_skip_boot_state slot io apu n b"
    using skip_boot_states_built [OF assms] by metis
  show ?thesis unfolding built_state_reads_back(11) [OF io] by (intro conjI built_state_reads_back [OF io])
qed

lemma skipped_boot_shows_its_snapshot_witness:
  "\<exists>s. machine_skip_boot_state None (boot_new GameBoyColor CpuCgbE SkipBoot boot_assets_none) = Inr (Some s)
     \<and> read_div (timer_apply_startup_state (direct_timer s) (timer_new GameBoyColor)) = io_div (direct_io s)
     \<and> io_div (direct_io s) = 0x26"
proof -
  obtain s where s: "machine_skip_boot_state None (boot_new GameBoyColor CpuCgbE SkipBoot boot_assets_none) = Inr (Some s)"
    and d: "io_div (direct_io s) = 0x26"
    by (simp add: machine_skip_boot_state_def boot_new_def boot_new_with_sgb_profile_def uses_direct_boot_state_def
        direct_start_system_counter_for_cartridge_def direct_start_system_counter_def cgb_direct_start_system_counter_def
        CGB_DEFAULT_DIRECT_BOOT_SYSTEM_COUNTER_def build_skip_boot_state_def div_from_system_counter_def Let_def
        drop_bit_eq_div)
  with skipped_boot_shows_its_snapshot [OF disjI1 [OF s]] show ?thesis by blast
qed

text \<open>
  On an Advance the boot ROM ends with \<open>INC B\<close>: the flags of the startup state are those the model of the
  processor gives for it, carry clear.
\<close>

lemma agb_boot_flags_are_inc_b:
  "get_f (update_inc_flags b (b + 1) (set_f 0 c)) = agb_dmg_mode_boot_f b"
  "cgb_family_boot_b False True b = b + 1"
  by (auto simp: update_inc_flags_def agb_dmg_mode_boot_f_def Let_def FLAG_Z_def FLAG_H_def FLAG_C_def
      cgb_family_boot_b_def get_f_def set_f_def)

end
