(* ===== verification/Bus_Memory.thy ===== *)
theory Bus_Memory
  imports Bus_Map Boot_Rom
begin

text \<open>
  The memories behind the bus: work RAM with its switchable bank (\<open>bus/wram.rs\<close>), OAM and
  VRAM with the masters that hold them and what the CPU may do with them
  (\<open>bus/video.rs\<close>), and the borrowed views the PPU reads through (\<open>bus/view.rs\<close>).
  Indexing a buffer out of its range is a panic.
\<close>

definition DMG_VRAM_LEN :: nat where "DMG_VRAM_LEN = 0x2000"
definition CGB_VRAM_LEN :: nat where "CGB_VRAM_LEN = 0x4000"
definition DMG_WRAM_LEN :: nat where "DMG_WRAM_LEN = 0x2000"
definition CGB_WRAM_LEN :: nat where "CGB_WRAM_LEN = 0x8000"
definition OAM_LEN :: nat where "OAM_LEN = 0xA0"
definition HRAM_LEN :: nat where "HRAM_LEN = 0x7F"

lemmas memory_lengths =
  DMG_VRAM_LEN_def CGB_VRAM_LEN_def DMG_WRAM_LEN_def CGB_WRAM_LEN_def OAM_LEN_def HRAM_LEN_def

text \<open>\<open>copy_from_slice\<close> of the common prefix into a buffer that was filled with zeros.\<close>

definition restore_prefix :: "u8 list \<Rightarrow> u8 list \<Rightarrow> u8 list" where
  "restore_prefix saved bytes =
     (let copy_len = min (length saved) (length bytes)
      in take copy_len saved @ replicate (length bytes - copy_len) 0)"

lemma length_restore_prefix [simp]: "length (restore_prefix saved bytes) = length bytes"
  by (simp add: restore_prefix_def Let_def)

subsection \<open>Work RAM\<close>

record wram_domain =
  wram_console_model :: console_model
  selected_bank_register :: u8
  wram_bytes :: "u8 list"

record wram_save_state =
  wsave_console_model :: console_model
  wsave_selected_bank_register :: u8
  wsave_bytes :: "u8 list"

definition wram_new_for_model :: "console_model \<Rightarrow> wram_domain" where
  "wram_new_for_model m =
     \<lparr>wram_console_model = m, selected_bank_register = 0, wram_bytes = replicate CGB_WRAM_LEN 0\<rparr>"

definition selected_wram_bank :: "wram_domain \<Rightarrow> u8" where
  "selected_wram_bank w =
     (let bank = selected_bank_register w AND 0x07 in if bank = 0 then 1 else bank)"

definition wram_switchable_bank_index :: "u16 \<Rightarrow> wram_domain \<Rightarrow> nat" where
  "wram_switchable_bank_index offset w =
     (if is_cgb_family (wram_console_model w)
      then unat (selected_wram_bank w) * 0x1000 + unat offset else 0x1000 + unat offset)"

definition wram_index :: "u16 \<Rightarrow> wram_domain \<Rightarrow> nat res" where
  "wram_index a w =
     (if 0xC000 \<le> a \<and> a \<le> 0xCFFF then Inr (unat (a - 0xC000))
      else if 0xD000 \<le> a \<and> a \<le> 0xDFFF then Inr (wram_switchable_bank_index (a - 0xD000) w)
      else if 0xE000 \<le> a \<and> a \<le> 0xEFFF then Inr (unat (a - 0xE000))
      else if 0xF000 \<le> a \<and> a \<le> 0xFDFF then Inr (wram_switchable_bank_index (a - 0xF000) w)
      else Inl ExplicitPanic)"

definition wram_read :: "u16 \<Rightarrow> wram_domain \<Rightarrow> u8 res" where
  "wram_read a w = res_bind (wram_index a w) (index_get (wram_bytes w))"

definition wram_write :: "u16 \<Rightarrow> u8 \<Rightarrow> wram_domain \<Rightarrow> wram_domain res" where
  "wram_write a v w =
     res_bind (wram_index a w) (\<lambda>i.
       res_map (\<lambda>bytes. w\<lparr>wram_bytes := bytes\<rparr>) (index_set (wram_bytes w) i v))"

definition wram_debug_len :: "wram_domain \<Rightarrow> nat" where
  "wram_debug_len w =
     (if is_cgb_family (wram_console_model w) then CGB_WRAM_LEN else DMG_WRAM_LEN)"

definition wram_debug_bytes :: "wram_domain \<Rightarrow> u8 list" where
  "wram_debug_bytes w = take (wram_debug_len w) (wram_bytes w)"

definition wram_apply_startup_memory_policy ::
    "startup_memory_policy \<Rightarrow> wram_domain \<Rightarrow> wram_domain" where
  "wram_apply_startup_memory_policy p w =
     w\<lparr>wram_bytes :=
         initialize_wram p (wram_debug_bytes w) @ drop (wram_debug_len w) (wram_bytes w)\<rparr>"

record debug_wram_address_sample =
  sample_address :: u16
  sample_bank :: u8
  sample_bank_offset :: u16
  sample_value :: u8

definition debug_address_bank_and_offset :: "u16 \<Rightarrow> wram_domain \<Rightarrow> (u8 \<times> u16) option" where
  "debug_address_bank_and_offset a w =
     (if 0xC000 \<le> a \<and> a \<le> 0xCFFF then Some (0, a - 0xC000)
      else if 0xD000 \<le> a \<and> a \<le> 0xDFFF then Some (selected_wram_bank w, a - 0xD000)
      else if 0xE000 \<le> a \<and> a \<le> 0xEFFF then Some (0, a - 0xE000)
      else if 0xF000 \<le> a \<and> a \<le> 0xFDFF then Some (selected_wram_bank w, a - 0xF000)
      else None)"

definition debug_address_sample ::
    "u16 \<Rightarrow> wram_domain \<Rightarrow> debug_wram_address_sample option res" where
  "debug_address_sample a w =
     (case debug_address_bank_and_offset a w of
        None \<Rightarrow> Inr None
      | Some (bank, offset) \<Rightarrow>
          res_map (\<lambda>v. Some \<lparr>sample_address = a, sample_bank = bank,
              sample_bank_offset = offset, sample_value = v\<rparr>) (wram_read a w))"

definition wram_capture_save_state :: "wram_domain \<Rightarrow> wram_save_state" where
  "wram_capture_save_state w =
     \<lparr>wsave_console_model = wram_console_model w,
      wsave_selected_bank_register = selected_bank_register w, wsave_bytes = wram_debug_bytes w\<rparr>"

definition wram_restore_save_state :: "wram_save_state \<Rightarrow> wram_domain \<Rightarrow> wram_domain" where
  "wram_restore_save_state s w =
     \<lparr>wram_console_model = wsave_console_model s,
      selected_bank_register = wsave_selected_bank_register s AND 0x07,
      wram_bytes = restore_prefix (wsave_bytes s) (wram_bytes w)\<rparr>"

definition wram_dynamic_payload_bytes :: "wram_save_state \<Rightarrow> nat" where
  "wram_dynamic_payload_bytes s = length (wsave_bytes s)"

definition read_svbk :: "wram_domain \<Rightarrow> u8" where
  "read_svbk w = 0xF8 OR (selected_bank_register w AND 0x07)"

definition write_svbk :: "u8 \<Rightarrow> wram_domain \<Rightarrow> wram_domain" where
  "write_svbk v w =
     (if is_cgb_family (wram_console_model w) then w\<lparr>selected_bank_register := v AND 0x07\<rparr> else w)"

definition wram_reset_bank_select :: "wram_domain \<Rightarrow> wram_domain" where
  "wram_reset_bank_select w = w\<lparr>selected_bank_register := 0\<rparr>"

subsection \<open>OAM\<close>

fun master_mask :: "bus_requester \<Rightarrow> u16" where
  "master_mask ReqCpu = push_bit 0 1"
| "master_mask ReqDma = push_bit 1 1"
| "master_mask ReqPpu = push_bit 2 1"
| "master_mask ReqApu = push_bit 3 1"
| "master_mask ReqSerial = push_bit 4 1"
| "master_mask ReqBoot = push_bit 5 1"
| "master_mask ReqCartridge = push_bit 6 1"

fun block_access :: "bus_access_kind \<Rightarrow> bus_block_reason \<Rightarrow> bus_access_disposition" where
  "block_access AccessRead reason = BlockedRead BLOCKED_READ_VALUE reason"
| "block_access AccessWrite reason = IgnoredWrite reason"

record oam_domain =
  oam_bytes :: "u8 list"
  oam_acquired_by :: u16

definition oam_new :: oam_domain where
  "oam_new = \<lparr>oam_bytes = replicate OAM_LEN 0, oam_acquired_by = 0\<rparr>"

definition oam_read :: "nat \<Rightarrow> oam_domain \<Rightarrow> u8 res" where
  "oam_read offset d = index_get (oam_bytes d) offset"

definition oam_write :: "nat \<Rightarrow> u8 \<Rightarrow> oam_domain \<Rightarrow> oam_domain res" where
  "oam_write offset v d = res_map (\<lambda>b. d\<lparr>oam_bytes := b\<rparr>) (index_set (oam_bytes d) offset v)"

definition oam_acquire :: "bus_requester \<Rightarrow> oam_domain \<Rightarrow> oam_domain" where
  "oam_acquire m d = d\<lparr>oam_acquired_by := oam_acquired_by d OR master_mask m\<rparr>"

definition oam_release :: "bus_requester \<Rightarrow> oam_domain \<Rightarrow> oam_domain" where
  "oam_release m d = d\<lparr>oam_acquired_by := oam_acquired_by d AND NOT (master_mask m)\<rparr>"

definition oam_set_acquired :: "bus_requester \<Rightarrow> bool \<Rightarrow> oam_domain \<Rightarrow> oam_domain" where
  "oam_set_acquired m acquired d = (if acquired then oam_acquire m d else oam_release m d)"

definition oam_is_acquired :: "oam_domain \<Rightarrow> bool" where
  "oam_is_acquired d \<longleftrightarrow> oam_acquired_by d \<noteq> 0"

definition oam_is_acquired_by :: "bus_requester \<Rightarrow> oam_domain \<Rightarrow> bool" where
  "oam_is_acquired_by m d \<longleftrightarrow> oam_acquired_by d AND master_mask m \<noteq> 0"

definition oam_evaluate_access ::
    "bus_requester \<Rightarrow> bus_access_kind \<Rightarrow> ppu_bus_state \<Rightarrow> dma_bus_state
     \<Rightarrow> bus_access_disposition option" where
  "oam_evaluate_access requester kind ppu dma =
     (if requester \<noteq> ReqCpu then None
      else if cpu_access_policy dma = VideoBusBlocked then Some (block_access kind DmaVideoBusConflict)
      else if \<not> ppu_lcd_enabled ppu then None
      else case ppu_mode ppu of
          AccessOamScan \<Rightarrow> Some (block_access kind PpuOamBlockedDuringMode2)
        | AccessDrawing \<Rightarrow> Some (block_access kind PpuOamBlockedDuringMode3)
        | AccessHBlank \<Rightarrow> None
        | AccessVBlank \<Rightarrow> None)"

subsection \<open>VRAM\<close>

record vram_domain =
  vram_console_model :: console_model
  vram_selected_bank :: u8
  vram_bytes :: "u8 list"
  vram_acquired_by :: u16

record vram_save_state =
  vsave_console_model :: console_model
  vsave_selected_bank :: u8
  vsave_bytes :: "u8 list"
  vsave_acquired_by :: u16

definition vram_new_for_model :: "console_model \<Rightarrow> vram_domain" where
  "vram_new_for_model m =
     \<lparr>vram_console_model = m, vram_selected_bank = 0, vram_bytes = replicate CGB_VRAM_LEN 0,
      vram_acquired_by = 0\<rparr>"

definition vram_storage_index_for_bank :: "u8 \<Rightarrow> nat \<Rightarrow> vram_domain \<Rightarrow> nat" where
  "vram_storage_index_for_bank bank offset d =
     (let bank = (if is_cgb_family (vram_console_model d) then unat (bank AND 0x01) else 0)
      in bank * DMG_VRAM_LEN + offset)"

definition vram_storage_index :: "nat \<Rightarrow> vram_domain \<Rightarrow> nat" where
  "vram_storage_index offset d = vram_storage_index_for_bank (vram_selected_bank d) offset d"

definition vram_read :: "nat \<Rightarrow> vram_domain \<Rightarrow> u8 res" where
  "vram_read offset d = index_get (vram_bytes d) (vram_storage_index offset d)"

definition vram_read_bank :: "u8 \<Rightarrow> nat \<Rightarrow> vram_domain \<Rightarrow> u8 res" where
  "vram_read_bank bank offset d =
     index_get (vram_bytes d) (vram_storage_index_for_bank bank offset d)"

definition vram_write :: "nat \<Rightarrow> u8 \<Rightarrow> vram_domain \<Rightarrow> vram_domain res" where
  "vram_write offset v d =
     res_map (\<lambda>b. d\<lparr>vram_bytes := b\<rparr>) (index_set (vram_bytes d) (vram_storage_index offset d) v)"

definition vram_debug_len :: "vram_domain \<Rightarrow> nat" where
  "vram_debug_len d =
     (if is_cgb_family (vram_console_model d) then CGB_VRAM_LEN else DMG_VRAM_LEN)"

definition vram_debug_bytes :: "vram_domain \<Rightarrow> u8 list" where
  "vram_debug_bytes d = take (vram_debug_len d) (vram_bytes d)"

definition vram_apply_startup_memory_policy ::
    "startup_memory_policy \<Rightarrow> vram_domain \<Rightarrow> vram_domain" where
  "vram_apply_startup_memory_policy p d =
     d\<lparr>vram_bytes :=
         initialize_vram p (vram_debug_bytes d) @ drop (vram_debug_len d) (vram_bytes d)\<rparr>"

definition vram_capture_save_state :: "vram_domain \<Rightarrow> vram_save_state" where
  "vram_capture_save_state d =
     \<lparr>vsave_console_model = vram_console_model d, vsave_selected_bank = vram_selected_bank d,
      vsave_bytes = vram_debug_bytes d, vsave_acquired_by = vram_acquired_by d\<rparr>"

definition vram_restore_save_state :: "vram_save_state \<Rightarrow> vram_domain \<Rightarrow> vram_domain" where
  "vram_restore_save_state s d =
     \<lparr>vram_console_model = vsave_console_model s,
      vram_selected_bank = vsave_selected_bank s AND 0x01,
      vram_bytes = restore_prefix (vsave_bytes s) (vram_bytes d),
      vram_acquired_by = vsave_acquired_by s\<rparr>"

definition vram_dynamic_payload_bytes :: "vram_save_state \<Rightarrow> nat" where
  "vram_dynamic_payload_bytes s = length (vsave_bytes s)"

definition read_vbk :: "vram_domain \<Rightarrow> u8" where
  "read_vbk d = 0xFE OR vram_selected_bank d"

definition write_vbk :: "u8 \<Rightarrow> vram_domain \<Rightarrow> vram_domain" where
  "write_vbk v d =
     (if is_cgb_family (vram_console_model d) then d\<lparr>vram_selected_bank := v AND 0x01\<rparr> else d)"

definition vram_reset_bank_select :: "vram_domain \<Rightarrow> vram_domain" where
  "vram_reset_bank_select d = d\<lparr>vram_selected_bank := 0\<rparr>"

definition vram_acquire :: "bus_requester \<Rightarrow> vram_domain \<Rightarrow> vram_domain" where
  "vram_acquire m d = d\<lparr>vram_acquired_by := vram_acquired_by d OR master_mask m\<rparr>"

definition vram_release :: "bus_requester \<Rightarrow> vram_domain \<Rightarrow> vram_domain" where
  "vram_release m d = d\<lparr>vram_acquired_by := vram_acquired_by d AND NOT (master_mask m)\<rparr>"

definition vram_set_acquired :: "bus_requester \<Rightarrow> bool \<Rightarrow> vram_domain \<Rightarrow> vram_domain" where
  "vram_set_acquired m acquired d = (if acquired then vram_acquire m d else vram_release m d)"

definition vram_is_acquired :: "vram_domain \<Rightarrow> bool" where
  "vram_is_acquired d \<longleftrightarrow> vram_acquired_by d \<noteq> 0"

definition vram_is_acquired_by :: "bus_requester \<Rightarrow> vram_domain \<Rightarrow> bool" where
  "vram_is_acquired_by m d \<longleftrightarrow> vram_acquired_by d AND master_mask m \<noteq> 0"

definition vram_evaluate_access ::
    "bus_requester \<Rightarrow> bus_access_kind \<Rightarrow> ppu_bus_state \<Rightarrow> dma_bus_state
     \<Rightarrow> bus_access_disposition option" where
  "vram_evaluate_access requester kind ppu dma =
     (if requester \<noteq> ReqCpu then None
      else if cpu_access_policy dma = VideoBusBlocked then Some (block_access kind DmaVideoBusConflict)
      else if ppu_lcd_enabled ppu \<and> ppu_mode ppu = AccessDrawing
        then Some (block_access kind PpuVramBlockedDuringMode3)
      else None)"

subsection \<open>Borrowed views\<close>

text \<open>A view pairs a master with a domain; it reads without arbitration and never panics.\<close>

record 'd video_bus_view =
  view_master :: bus_requester
  view_domain :: 'd

definition oam_view_read :: "nat \<Rightarrow> oam_domain video_bus_view \<Rightarrow> u8 option" where
  "oam_view_read offset w = slice_get (oam_bytes (view_domain w)) offset"

definition oam_view_is_acquired_by_master :: "oam_domain video_bus_view \<Rightarrow> bool" where
  "oam_view_is_acquired_by_master w = oam_is_acquired_by (view_master w) (view_domain w)"

definition vram_view_read :: "nat \<Rightarrow> vram_domain video_bus_view \<Rightarrow> u8 option" where
  "vram_view_read offset w = slice_get (take DMG_VRAM_LEN (vram_bytes (view_domain w))) offset"

definition vram_view_is_acquired_by_master :: "vram_domain video_bus_view \<Rightarrow> bool" where
  "vram_view_is_acquired_by_master w = vram_is_acquired_by (view_master w) (view_domain w)"

definition vram_view_read_bank :: "u8 \<Rightarrow> nat \<Rightarrow> vram_domain video_bus_view \<Rightarrow> u8 option res" where
  "vram_view_read_bank bank offset w =
     (if offset \<ge> DMG_VRAM_LEN then Inr None
      else res_map Some (vram_read_bank bank offset (view_domain w)))"

subsection \<open>Memory laws\<close>

text \<open>
  The invariants of the three memories: the buffers have their full size, the bank registers
  hold only their bits, and on a DMG console the part of the buffer it does not have is zero.
\<close>

definition wram_wf :: "wram_domain \<Rightarrow> bool" where
  "wram_wf w \<longleftrightarrow>
     length (wram_bytes w) = CGB_WRAM_LEN
     \<and> selected_bank_register w AND 0x07 = selected_bank_register w
     \<and> drop (wram_debug_len w) (wram_bytes w) = replicate (CGB_WRAM_LEN - wram_debug_len w) 0"

definition vram_wf :: "vram_domain \<Rightarrow> bool" where
  "vram_wf d \<longleftrightarrow>
     length (vram_bytes d) = CGB_VRAM_LEN
     \<and> vram_selected_bank d AND 0x01 = vram_selected_bank d
     \<and> drop (vram_debug_len d) (vram_bytes d) = replicate (CGB_VRAM_LEN - vram_debug_len d) 0"

definition oam_wf :: "oam_domain \<Rightarrow> bool" where
  "oam_wf d \<longleftrightarrow> length (oam_bytes d) = OAM_LEN"

lemma index_get_Inr [simp]: "i < length xs \<Longrightarrow> index_get xs i = Inr (xs ! i)"
  by (simp add: index_get_def)

lemma index_set_Inr [simp]: "i < length xs \<Longrightarrow> index_set xs i v = Inr (xs[i := v])"
  by (simp add: index_set_def)

lemma unat_and_7: "unat (b AND (0x07::u8)) = unat b mod 8"
  using unat_and_low_bits [of b 3] by (simp add: mask_eq_exp_minus_1)

lemma selected_wram_bank_range: "1 \<le> unat (selected_wram_bank w) \<and> unat (selected_wram_bank w) < 8"
proof -
  have "unat (selected_bank_register w AND 0x07) < 8" by (simp add: unat_and_7)
  then show ?thesis
    by (auto simp: selected_wram_bank_def Let_def word_unat_eq_iff)
qed

text \<open>The cell of work RAM an address reaches: the bank and the offset the debug probe reports.\<close>

lemma wram_index_of_cell:
  "wram_index a w =
     (case debug_address_bank_and_offset a w of
        None \<Rightarrow> Inl ExplicitPanic
      | Some (bank, offset) \<Rightarrow>
          Inr (if unat bank = 0 then unat offset
               else if is_cgb_family (wram_console_model w) then unat bank * 0x1000 + unat offset
               else 0x1000 + unat offset))"
  using selected_wram_bank_range [of w]
  by (auto simp: wram_index_def debug_address_bank_and_offset_def wram_switchable_bank_index_def)

lemma debug_cell_ranges:
  assumes "debug_address_bank_and_offset a w = Some (bank, offset)"
  shows "unat bank < 8 \<and> unat offset < 0x1000 \<and> (unat bank = 0 \<or> bank = selected_wram_bank w)"
  using assms selected_wram_bank_range [of w] unsigned_less [of a, where ?'a = nat]
  by (auto simp: debug_address_bank_and_offset_def word16_cases split: if_splits)

lemma debug_cell_total:
  assumes "0xC000 \<le> a" and "a \<le> 0xFDFF"
  obtains bank offset where "debug_address_bank_and_offset a w = Some (bank, offset)"
proof -
  have "debug_address_bank_and_offset a w \<noteq> None"
    using assms by (simp add: debug_address_bank_and_offset_def word_le_nat_alt)
  then show ?thesis using that by auto
qed


text \<open>A sequence of writes, and the last value it writes to the cell of an address, if any.\<close>

fun write_all :: "('a \<Rightarrow> u8 \<Rightarrow> 'd \<Rightarrow> 'd res) \<Rightarrow> ('a \<times> u8) list \<Rightarrow> 'd \<Rightarrow> 'd res" where
  "write_all writes [] d = Inr d"
| "write_all writes ((a, v) # xs) d = res_bind (writes a v d) (write_all writes xs)"

fun last_write :: "('a \<Rightarrow> 'd \<Rightarrow> nat) \<Rightarrow> ('a \<times> u8) list \<Rightarrow> 'a \<Rightarrow> 'd \<Rightarrow> u8 option" where
  "last_write cell [] b d = None"
| "last_write cell ((a, v) # xs) b d =
     (case last_write cell xs b d of
        Some w \<Rightarrow> Some w
      | None \<Rightarrow> if cell b d = cell a d then Some v else None)"

text \<open>
  What a client may rely on: total reads and writes at the valid addresses, and one cell per
  address, where a write is seen by exactly the addresses of its cell.
\<close>

locale cell_memory =
  fixes reads :: "'a \<Rightarrow> 'd \<Rightarrow> u8 res"
    and writes :: "'a \<Rightarrow> u8 \<Rightarrow> 'd \<Rightarrow> 'd res"
    and cell :: "'a \<Rightarrow> 'd \<Rightarrow> nat"
    and valid :: "'a \<Rightarrow> bool"
    and wf :: "'d \<Rightarrow> bool"
  assumes read_total: "wf d \<Longrightarrow> valid a \<Longrightarrow> \<exists>v. reads a d = Inr v"
    and write_keeps: "wf d \<Longrightarrow> valid a \<Longrightarrow> \<exists>d'. writes a v d = Inr d' \<and> wf d' \<and> (\<forall>b. cell b d' = cell b d)"
    and write_read: "wf d \<Longrightarrow> valid a \<Longrightarrow> valid b \<Longrightarrow> writes a v d = Inr d' \<Longrightarrow>
      reads b d' = (if cell b d = cell a d then Inr v else reads b d)"
begin

lemma last_write_cong: "(\<And>b. cell b d' = cell b d) \<Longrightarrow> last_write cell xs b d' = last_write cell xs b d"
  by (induction xs) auto

lemma write_all_total:
  assumes "wf d" and "\<forall>(a, v) \<in> set xs. valid a"
  shows "\<exists>d'. write_all writes xs d = Inr d' \<and> wf d' \<and> (\<forall>b. cell b d' = cell b d)"
  using assms
proof (induction xs arbitrary: d)
  case (Cons x xs)
  obtain a v where x: "x = (a, v)" by force
  with Cons.prems have "valid a" by simp
  with Cons.prems(1) obtain d1 where d1: "writes a v d = Inr d1" "wf d1" "\<forall>b. cell b d1 = cell b d"
    using write_keeps [of d a v] by blast
  with Cons.IH [of d1] Cons.prems(2) x show ?case by auto
qed simp

theorem last_write_wins:
  assumes "wf d" and "\<forall>(a, v) \<in> set xs. valid a" and "valid b" and "write_all writes xs d = Inr d'"
  shows "reads b d' = (case last_write cell xs b d of Some v \<Rightarrow> Inr v | None \<Rightarrow> reads b d)"
  using assms
proof (induction xs arbitrary: d)
  case (Cons x xs)
  obtain a v where x: "x = (a, v)" by force
  with Cons.prems have a: "valid a" by simp
  with Cons.prems(1) obtain d1 where d1: "writes a v d = Inr d1" "wf d1" "\<forall>b. cell b d1 = cell b d"
    using write_keeps [of d a v] by blast
  then have "reads b d' = (case last_write cell xs b d1 of Some v \<Rightarrow> Inr v | None \<Rightarrow> reads b d1)"
    using Cons.IH [of d1] Cons.prems x by auto
  moreover have "last_write cell xs b d1 = last_write cell xs b d" using d1(3) by (intro last_write_cong) simp
  ultimately show ?case
    using write_read [OF Cons.prems(1) a Cons.prems(3) d1(1)] x by (auto split: option.split)
qed simp

end

text \<open>Work RAM and its echo, VRAM behind the selected bank, and OAM are such memories.\<close>

definition wram_cell :: "u16 \<Rightarrow> wram_domain \<Rightarrow> nat" where
  "wram_cell a w = (case wram_index a w of Inr i \<Rightarrow> i | Inl _ \<Rightarrow> 0)"

definition in_wram :: "u16 \<Rightarrow> bool" where
  "in_wram a \<longleftrightarrow> 0xC000 \<le> a \<and> a \<le> 0xFDFF"

lemma wram_index_in_range:
  assumes "in_wram a"
  shows "\<exists>i. wram_index a w = Inr i \<and> i < wram_debug_len w \<and> i < CGB_WRAM_LEN"
proof -
  obtain bank offset where c: "debug_address_bank_and_offset a w = Some (bank, offset)"
    using assms debug_cell_total unfolding in_wram_def by blast
  from debug_cell_ranges [OF c] show ?thesis
    by (auto simp: wram_index_of_cell c wram_debug_len_def memory_lengths)
qed

lemma wram_debug_len_update [simp]:
  "wram_debug_len (w\<lparr>wram_bytes := b\<rparr>) = wram_debug_len w"
  "wram_debug_len (w\<lparr>selected_bank_register := r\<rparr>) = wram_debug_len w"
  by (simp_all add: wram_debug_len_def)

lemma wram_index_update [simp]: "wram_index a (w\<lparr>wram_bytes := b\<rparr>) = wram_index a w"
  by (simp add: wram_index_def wram_switchable_bank_index_def selected_wram_bank_def)

interpretation wram: cell_memory wram_read wram_write wram_cell in_wram wram_wf
proof unfold_locales
  fix w :: wram_domain and a b :: u16 and v :: u8 and w' :: wram_domain
  assume wf: "wram_wf w" and a: "in_wram a"
  from wram_index_in_range [OF a, of w] obtain i where
    i: "wram_index a w = Inr i" "i < wram_debug_len w" "i < CGB_WRAM_LEN" by blast
  show "\<exists>v. wram_read a w = Inr v"
    using wf i by (simp add: wram_read_def wram_wf_def)
  show "\<exists>w'. wram_write a v w = Inr w' \<and> wram_wf w' \<and> (\<forall>b. wram_cell b w' = wram_cell b w)"
    using wf i by (simp add: wram_write_def wram_wf_def wram_cell_def)
  assume b: "in_wram b" and w': "wram_write a v w = Inr w'"
  from wram_index_in_range [OF b, of w] obtain j where
    j: "wram_index b w = Inr j" "j < CGB_WRAM_LEN" by blast
  show "wram_read b w' = (if wram_cell b w = wram_cell a w then Inr v else wram_read b w)"
    using wf i j w' by (auto simp: wram_write_def wram_read_def wram_wf_def wram_cell_def)
qed

lemma vram_debug_len_update [simp]:
  "vram_debug_len (d\<lparr>vram_bytes := b\<rparr>) = vram_debug_len d"
  "vram_debug_len (d\<lparr>vram_selected_bank := r\<rparr>) = vram_debug_len d"
  by (simp_all add: vram_debug_len_def)

lemma vram_index_in_range:
  assumes "vram_wf d" and "offset < DMG_VRAM_LEN"
  shows "vram_storage_index_for_bank bank offset d < vram_debug_len d
    \<and> vram_storage_index_for_bank bank offset d < CGB_VRAM_LEN"
proof -
  have "unat (bank AND 0x01) < 2"
    using unat_and_low_bits [of bank 1] by (simp add: mask_eq_exp_minus_1)
  with assms(2) show ?thesis
    by (auto simp: vram_storage_index_for_bank_def vram_debug_len_def memory_lengths)
qed

lemma vram_index_update [simp]: "vram_storage_index x (d\<lparr>vram_bytes := b\<rparr>) = vram_storage_index x d"
  by (simp add: vram_storage_index_def vram_storage_index_for_bank_def)

interpretation vram: cell_memory vram_read vram_write vram_storage_index "\<lambda>x. x < DMG_VRAM_LEN" vram_wf
proof unfold_locales
  fix d d' :: vram_domain and a b :: nat and v :: u8
  assume wf: "vram_wf d" and a: "a < DMG_VRAM_LEN"
  note i = vram_index_in_range [OF wf a, of "vram_selected_bank d", folded vram_storage_index_def]
  show "\<exists>v. vram_read a d = Inr v"
    using wf i by (simp add: vram_read_def vram_wf_def)
  show "\<exists>d'. vram_write a v d = Inr d' \<and> vram_wf d' \<and> (\<forall>b. vram_storage_index b d' = vram_storage_index b d)"
    using wf i by (simp add: vram_write_def vram_wf_def)
  assume b: "b < DMG_VRAM_LEN" and d': "vram_write a v d = Inr d'"
  note j = vram_index_in_range [OF wf b, of "vram_selected_bank d", folded vram_storage_index_def]
  show "vram_read b d' = (if vram_storage_index b d = vram_storage_index a d then Inr v else vram_read b d)"
    using wf i j d' by (auto simp: vram_write_def vram_read_def vram_wf_def)
qed

interpretation oam: cell_memory oam_read oam_write "\<lambda>x d. x" "\<lambda>x. x < OAM_LEN" oam_wf
  by unfold_locales (auto simp: oam_read_def oam_write_def oam_wf_def)

end
