(* ===== verification/Bus_Io.thy ===== *)
theory Bus_Io
  imports Bus_Memory Dma Gb_Timer Gb_Serial Gb_Joypad Gb_Interrupts
begin

text \<open>
  The I/O page and high RAM (\<open>bus/iohram.rs\<close>, \<open>bus/infrared.rs\<close>): the infrared port
  with its sensor, the \<open>KEY0\<close> latch, the undocumented CGB registers, which register of the
  map is live on which console, and the dispatch of a register access to the component that
  owns it. A component the caller does not lend reads as \<open>FF\<close> and ignores writes. The PPU
  and the APU enter through the register operations the bus calls on them (\<open>io_services\<close>);
  \<open>unreachable!\<close> arms are panics.
\<close>

subsection \<open>Infrared\<close>

definition RP_EMITTER_BIT :: u8 where "RP_EMITTER_BIT = 0x01"
definition RP_SIGNAL_BIT :: u8 where "RP_SIGNAL_BIT = 0x02"
definition RP_WRITABLE_MASK :: u8 where "RP_WRITABLE_MASK = 0xC1"
definition RP_READ_ENABLE_MASK :: u8 where "RP_READ_ENABLE_MASK = 0xC0"
definition RP_UNUSED_READ_MASK :: u8 where "RP_UNUSED_READ_MASK = 0x3C"
definition IR_WARMUP_T_CYCLES :: u32 where "IR_WARMUP_T_CYCLES = 19900"
definition IR_THRESHOLD_T_CYCLES :: u32 where "IR_THRESHOLD_T_CYCLES = 0"
definition IR_DECAY_T_CYCLES :: u32 where "IR_DECAY_T_CYCLES = 31500"
definition IR_MAX_T_CYCLES :: u32 where
  "IR_MAX_T_CYCLES =
     IR_WARMUP_T_CYCLES + IR_THRESHOLD_T_CYCLES * 2 + IR_DECAY_T_CYCLES + 268"

lemmas infrared_constants =
  RP_EMITTER_BIT_def RP_SIGNAL_BIT_def RP_WRITABLE_MASK_def RP_READ_ENABLE_MASK_def
  RP_UNUSED_READ_MASK_def IR_WARMUP_T_CYCLES_def IR_THRESHOLD_T_CYCLES_def IR_DECAY_T_CYCLES_def
  IR_MAX_T_CYCLES_def

record cgb_infrared_state =
  rp_latch :: u8
  external_optical_input :: bool
  sensor_counter :: u32
  effective_signal_detected :: bool

definition infrared_new :: cgb_infrared_state where
  "infrared_new =
     \<lparr>rp_latch = 0, external_optical_input = False, sensor_counter = 0,
      effective_signal_detected = False\<rparr>"

definition ir_read_enabled :: "cgb_infrared_state \<Rightarrow> bool" where
  "ir_read_enabled s \<longleftrightarrow> rp_latch s AND RP_READ_ENABLE_MASK = RP_READ_ENABLE_MASK"

definition emitter_on :: "cgb_infrared_state \<Rightarrow> bool" where
  "emitter_on s \<longleftrightarrow> rp_latch s AND RP_EMITTER_BIT \<noteq> 0"

definition optical_input_active :: "cgb_infrared_state \<Rightarrow> bool" where
  "optical_input_active s \<longleftrightarrow> external_optical_input s \<or> emitter_on s"

definition signal_visible_to_rp :: "cgb_infrared_state \<Rightarrow> bool" where
  "signal_visible_to_rp s \<longleftrightarrow> ir_read_enabled s \<and> effective_signal_detected s"

definition ir_read_rp :: "cgb_infrared_state \<Rightarrow> u8" where
  "ir_read_rp s =
     (let signal_bit = (if signal_visible_to_rp s then 0 else RP_SIGNAL_BIT)
      in RP_UNUSED_READ_MASK OR signal_bit OR rp_latch s)"

definition ir_write_rp :: "u8 \<Rightarrow> cgb_infrared_state \<Rightarrow> cgb_infrared_state" where
  "ir_write_rp v s = s\<lparr>rp_latch := v AND RP_WRITABLE_MASK\<rparr>"

definition set_external_optical_input :: "bool \<Rightarrow> cgb_infrared_state \<Rightarrow> cgb_infrared_state" where
  "set_external_optical_input active s = s\<lparr>external_optical_input := active\<rparr>"

record cgb_infrared_status =
  irs_rp_latch :: u8
  irs_emitter_on :: bool
  irs_read_enabled :: bool
  irs_external_optical_input :: bool
  irs_optical_input_active :: bool
  irs_sensor_counter :: u32
  irs_sensor_warmed :: bool
  irs_effective_signal_detected :: bool
  irs_signal_visible_to_rp :: bool

definition infrared_status :: "cgb_infrared_state \<Rightarrow> cgb_infrared_status" where
  "infrared_status s =
     \<lparr>irs_rp_latch = rp_latch s, irs_emitter_on = emitter_on s,
      irs_read_enabled = ir_read_enabled s,
      irs_external_optical_input = external_optical_input s,
      irs_optical_input_active = optical_input_active s,
      irs_sensor_counter = sensor_counter s,
      irs_sensor_warmed = (sensor_counter s \<ge> IR_WARMUP_T_CYCLES),
      irs_effective_signal_detected = effective_signal_detected s,
      irs_signal_visible_to_rp = signal_visible_to_rp s\<rparr>"

definition receive_ready :: "cgb_infrared_status \<Rightarrow> bool" where
  "receive_ready s \<longleftrightarrow>
     irs_read_enabled s \<and> irs_sensor_warmed s \<and> \<not> irs_emitter_on s
     \<and> \<not> irs_optical_input_active s \<and> \<not> irs_effective_signal_detected s"

definition u32_saturating_add :: "u32 \<Rightarrow> u32 \<Rightarrow> u32" where
  "u32_saturating_add a b = (if a + b < a then - 1 else a + b)"

definition u32_saturating_sub :: "u32 \<Rightarrow> u32 \<Rightarrow> u32" where
  "u32_saturating_sub a b = (if a < b then 0 else a - b)"

definition ir_tick_t_cycle :: "cgb_infrared_state \<Rightarrow> cgb_infrared_state" where
  "ir_tick_t_cycle s =
     (let sensing = ir_read_enabled s in
      if sensing \<and> optical_input_active s then
        let counter = min (u32_saturating_add (sensor_counter s) 1) IR_MAX_T_CYCLES
        in s\<lparr>sensor_counter := counter,
             effective_signal_detected :=
               (counter \<ge> IR_WARMUP_T_CYCLES + IR_THRESHOLD_T_CYCLES
                \<and> counter \<le> IR_WARMUP_T_CYCLES + IR_THRESHOLD_T_CYCLES + IR_DECAY_T_CYCLES)\<rparr>
      else
        let target = (if sensing then IR_WARMUP_T_CYCLES else 0);
            counter =
              (if sensor_counter s < target then min (u32_saturating_add (sensor_counter s) 1) target
               else if sensor_counter s = target then target
               else max (u32_saturating_sub (sensor_counter s) 1) target)
        in s\<lparr>sensor_counter := counter, effective_signal_detected := False\<rparr>)"

subsection \<open>KEY0\<close>

record cgb_key0_state =
  key0_value :: u8
  key0_locked :: bool

definition DMG_COMPATIBILITY_MODE_BIT :: u8 where "DMG_COMPATIBILITY_MODE_BIT = 0x04"
definition DMG_EXT_MODE_BIT :: u8 where "DMG_EXT_MODE_BIT = 0x08"

definition key0_new :: cgb_key0_state where
  "key0_new = \<lparr>key0_value = 0, key0_locked = True\<rparr>"

definition key0_direct_boot :: "console_model \<Rightarrow> operating_mode \<Rightarrow> cgb_flag \<Rightarrow> cgb_key0_state" where
  "key0_direct_boot m mode flag =
     (if \<not> is_cgb_family m then key0_new
      else
        \<lparr>key0_value =
           (if mode = ModeGbCompatible then
              (case flag of
                 CgbSupportedNonCanonical v \<Rightarrow>
                   if v AND DMG_COMPATIBILITY_MODE_BIT \<noteq> 0 then v else DMG_COMPATIBILITY_MODE_BIT
               | _ \<Rightarrow> DMG_COMPATIBILITY_MODE_BIT)
            else if mode = ModeCgbDmgExt then
              (case flag of
                 CgbSupportedNonCanonical v \<Rightarrow> v
               | _ \<Rightarrow> 0x80 OR DMG_EXT_MODE_BIT)
            else
              (case flag of
                 CgbSupported \<Rightarrow> 0x80
               | CgbOnly \<Rightarrow> 0xC0
               | CgbSupportedNonCanonical v \<Rightarrow> v
               | CgbNone \<Rightarrow> DMG_COMPATIBILITY_MODE_BIT
               | CgbUnknown _ \<Rightarrow> DMG_COMPATIBILITY_MODE_BIT)),
         key0_locked = True\<rparr>)"

definition key0_real_boot_entry :: "console_model \<Rightarrow> operating_mode \<Rightarrow> cgb_key0_state" where
  "key0_real_boot_entry m mode =
     (if \<not> is_cgb_family m then key0_new
      else
        \<lparr>key0_value =
           (if mode = ModeGbCompatible then DMG_COMPATIBILITY_MODE_BIT
            else if mode = ModeCgbDmgExt then DMG_EXT_MODE_BIT else 0),
         key0_locked = False\<rparr>)"

definition key0_read_runtime :: "cgb_key0_state \<Rightarrow> u8" where
  "key0_read_runtime k = BLOCKED_READ_VALUE"

definition key0_write_runtime :: "u8 \<Rightarrow> cgb_key0_state \<Rightarrow> cgb_key0_state" where
  "key0_write_runtime v k = (if \<not> key0_locked k then k\<lparr>key0_value := v\<rparr> else k)"

definition boot_selected_operating_mode ::
    "console_model \<Rightarrow> heuristic_policy \<Rightarrow> cgb_key0_state \<Rightarrow> operating_mode" where
  "boot_selected_operating_mode m pol k =
     (if \<not> is_cgb_family m then ModeDmg
      else if pol = AllowExperimental \<and> key0_value k AND DMG_EXT_MODE_BIT \<noteq> 0 then ModeCgbDmgExt
      else if key0_value k AND DMG_COMPATIBILITY_MODE_BIT \<noteq> 0 then ModeGbCompatible
      else ModeCgb)"

definition lock_real_boot_handoff ::
    "console_model \<Rightarrow> heuristic_policy \<Rightarrow> cgb_key0_state \<Rightarrow> operating_mode \<times> cgb_key0_state" where
  "lock_real_boot_handoff m pol k =
     (if \<not> is_cgb_family m then (ModeDmg, k\<lparr>key0_value := 0, key0_locked := True\<rparr>)
      else
        let k' = k\<lparr>key0_locked := True\<rparr>
        in (boot_selected_operating_mode m pol k', k'))"

subsection \<open>Undocumented CGB registers\<close>

record cgb_misc_io_state =
  ff72 :: u8
  ff73 :: u8
  ff74 :: u8
  ff75_bits_4_6 :: u8

definition FF75_FORCED_BITS :: u8 where "FF75_FORCED_BITS = 0x8F"
definition FF75_WRITABLE_MASK :: u8 where "FF75_WRITABLE_MASK = 0x70"

definition cgb_misc_new :: cgb_misc_io_state where
  "cgb_misc_new = \<lparr>ff72 = 0, ff73 = 0, ff74 = 0, ff75_bits_4_6 = 0\<rparr>"

definition cgb_misc_read :: "u16 \<Rightarrow> cgb_misc_io_state \<Rightarrow> u8" where
  "cgb_misc_read a s =
     (if a = 0xFF72 then ff72 s
      else if a = 0xFF73 then ff73 s
      else if a = 0xFF74 then ff74 s
      else if a = 0xFF75 then FF75_FORCED_BITS OR ff75_bits_4_6 s
      else BLOCKED_READ_VALUE)"

definition cgb_misc_write :: "u16 \<Rightarrow> u8 \<Rightarrow> cgb_misc_io_state \<Rightarrow> cgb_misc_io_state" where
  "cgb_misc_write a v s =
     (if a = 0xFF72 then s\<lparr>ff72 := v\<rparr>
      else if a = 0xFF73 then s\<lparr>ff73 := v\<rparr>
      else if a = 0xFF74 then s\<lparr>ff74 := v\<rparr>
      else if a = 0xFF75 then s\<lparr>ff75_bits_4_6 := v AND FF75_WRITABLE_MASK\<rparr>
      else s)"

subsection \<open>Which registers are live\<close>

definition cgb_io_register_is_available ::
    "io_register_kind \<Rightarrow> console_model \<Rightarrow> operating_mode \<Rightarrow> bool" where
  "cgb_io_register_is_available kind m mode =
     (if \<not> is_cgb_family m then False
      else if kind = RegRp \<and> \<not> has_cgb_infrared_port m then False
      else if enables_cgb_extensions mode then True
      else if mode = ModeCgbDmgExt then
        kind \<in> {RegKey1, RegVbk, RegRp, RegBcps, RegOcps, RegOpri, RegSvbk, RegCgbUndocumented72,
          RegCgbUndocumented73, RegCgbUndocumented74, RegCgbUndocumented75, RegPcm12, RegPcm34}
      else
        kind \<in> {RegVbk, RegBcps, RegOcps, RegCgbUndocumented72, RegCgbUndocumented73,
          RegCgbUndocumented75, RegPcm12, RegPcm34})"

definition io_register_kind_is_available ::
    "io_register_kind \<Rightarrow> io_register_availability \<Rightarrow> console_model \<Rightarrow> operating_mode \<Rightarrow> bool" where
  "io_register_kind_is_available kind availability m mode =
     (case availability of
        AvailShared \<Rightarrow> True
      | AvailDmgCompatible \<Rightarrow> True
      | AvailCgbOnly \<Rightarrow> cgb_io_register_is_available kind m mode)"

subsection \<open>The I/O and high RAM domain\<close>

record iohram_domain =
  hram :: "u8 list"
  key0 :: cgb_key0_state
  cgb_misc :: cgb_misc_io_state
  infrared :: cgb_infrared_state

definition iohram_new :: iohram_domain where
  "iohram_new =
     \<lparr>hram = replicate HRAM_LEN 0, key0 = key0_new, cgb_misc = cgb_misc_new,
      infrared = infrared_new\<rparr>"

definition iohram_apply_startup_memory_policy ::
    "startup_memory_policy \<Rightarrow> iohram_domain \<Rightarrow> iohram_domain" where
  "iohram_apply_startup_memory_policy p d = d\<lparr>hram := initialize_hram p (hram d)\<rparr>"

definition reset_cgb_misc_io :: "iohram_domain \<Rightarrow> iohram_domain" where
  "reset_cgb_misc_io d = d\<lparr>cgb_misc := cgb_misc_new\<rparr>"

definition apply_direct_boot_key0 ::
    "console_model \<Rightarrow> operating_mode \<Rightarrow> cgb_flag \<Rightarrow> iohram_domain \<Rightarrow> iohram_domain" where
  "apply_direct_boot_key0 m mode flag d = d\<lparr>key0 := key0_direct_boot m mode flag\<rparr>"

definition reset_real_boot_key0 ::
    "console_model \<Rightarrow> operating_mode \<Rightarrow> iohram_domain \<Rightarrow> iohram_domain" where
  "reset_real_boot_key0 m mode d = d\<lparr>key0 := key0_real_boot_entry m mode\<rparr>"

definition iohram_read_key0 :: "iohram_domain \<Rightarrow> u8" where
  "iohram_read_key0 d = key0_read_runtime (key0 d)"

definition iohram_write_key0 :: "u8 \<Rightarrow> iohram_domain \<Rightarrow> iohram_domain" where
  "iohram_write_key0 v d = d\<lparr>key0 := key0_write_runtime v (key0 d)\<rparr>"

definition iohram_lock_cgb_real_boot_key0 ::
    "console_model \<Rightarrow> heuristic_policy \<Rightarrow> iohram_domain \<Rightarrow> operating_mode \<times> iohram_domain" where
  "iohram_lock_cgb_real_boot_key0 m pol d =
     (let (mode, k) = lock_real_boot_handoff m pol (key0 d) in (mode, d\<lparr>key0 := k\<rparr>))"

definition read_cgb_misc_io :: "u16 \<Rightarrow> iohram_domain \<Rightarrow> u8" where
  "read_cgb_misc_io a d = cgb_misc_read a (cgb_misc d)"

definition write_cgb_misc_io :: "u16 \<Rightarrow> u8 \<Rightarrow> iohram_domain \<Rightarrow> iohram_domain" where
  "write_cgb_misc_io a v d = d\<lparr>cgb_misc := cgb_misc_write a v (cgb_misc d)\<rparr>"

definition read_rp :: "iohram_domain \<Rightarrow> u8" where
  "read_rp d = ir_read_rp (infrared d)"

definition write_rp :: "u8 \<Rightarrow> iohram_domain \<Rightarrow> iohram_domain" where
  "write_rp v d = d\<lparr>infrared := ir_write_rp v (infrared d)\<rparr>"

definition iohram_tick_cgb_infrared :: "iohram_domain \<Rightarrow> iohram_domain" where
  "iohram_tick_cgb_infrared d = d\<lparr>infrared := ir_tick_t_cycle (infrared d)\<rparr>"

definition iohram_set_cgb_infrared_external_input :: "bool \<Rightarrow> iohram_domain \<Rightarrow> iohram_domain" where
  "iohram_set_cgb_infrared_external_input active d =
     d\<lparr>infrared := set_external_optical_input active (infrared d)\<rparr>"

subsection \<open>What the caller lends\<close>

datatype ppu_register_read_source = ReadImmediate | ReadCpuBusOperation

record ('apu, 'ppu) io_services =
  svc_ppu_read_register_with_source :: "u16 \<Rightarrow> ppu_register_read_source \<Rightarrow> 'ppu \<Rightarrow> u8"
  svc_ppu_read_register :: "u16 \<Rightarrow> 'ppu \<Rightarrow> u8"
  svc_ppu_write_register :: "u16 \<Rightarrow> u8 \<Rightarrow> 'ppu \<Rightarrow> 'ppu"
  svc_apu_read_register :: "u16 \<Rightarrow> 'apu \<Rightarrow> u8"
  svc_apu_read_pcm12 :: "'apu \<Rightarrow> u8"
  svc_apu_read_pcm34 :: "'apu \<Rightarrow> u8"
  svc_apu_on_div_apu_edge :: "'apu \<Rightarrow> 'apu"
  svc_apu_write_register :: "u16 \<Rightarrow> u8 \<Rightarrow> cgb_speed_mode \<Rightarrow> bool \<Rightarrow> 'apu \<Rightarrow> 'apu"

record ('apu, 'ppu) bus_io_read_view =
  rv_apu :: "'apu option"
  rv_timer :: "timer option"
  rv_serial :: "serial option"
  rv_dma :: "dma_controller option"
  rv_boot :: "boot_controller option"
  rv_interrupts :: "interrupt_controller option"
  rv_interrupt_flag_pending_mask :: u8
  rv_joypad :: "joypad option"
  rv_ppu :: "'ppu option"
  rv_speed :: "speed_controller option"
  rv_ppu_cpu_visible_read :: bool

record ('apu, 'ppu) bus_io_write_view =
  wv_apu :: "'apu option"
  wv_timer :: "timer option"
  wv_serial :: "serial option"
  wv_dma :: "dma_controller option"
  wv_boot :: "boot_controller option"
  wv_interrupts :: "interrupt_controller option"
  wv_joypad :: "joypad option"
  wv_ppu :: "'ppu option"
  wv_speed :: "speed_controller option"
  wv_boot_ff50_newly_unmapped :: "bool option"

definition read_view_default :: "('apu, 'ppu) bus_io_read_view" where
  "read_view_default =
     \<lparr>rv_apu = None, rv_timer = None, rv_serial = None, rv_dma = None, rv_boot = None,
      rv_interrupts = None, rv_interrupt_flag_pending_mask = 0, rv_joypad = None, rv_ppu = None,
      rv_speed = None, rv_ppu_cpu_visible_read = False\<rparr>"

definition write_view_default :: "('apu, 'ppu) bus_io_write_view" where
  "write_view_default =
     \<lparr>wv_apu = None, wv_timer = None, wv_serial = None, wv_dma = None, wv_boot = None,
      wv_interrupts = None, wv_joypad = None, wv_ppu = None, wv_speed = None,
      wv_boot_ff50_newly_unmapped = None\<rparr>"

definition map_or :: "'b \<Rightarrow> ('a \<Rightarrow> 'b) \<Rightarrow> 'a option \<Rightarrow> 'b" where
  "map_or d f x = (case x of None \<Rightarrow> d | Some y \<Rightarrow> f y)"

definition view_speed_mode :: "('apu, 'ppu) bus_io_write_view \<Rightarrow> cgb_speed_mode" where
  "view_speed_mode io = map_or NormalSpeed speed_current_speed (wv_speed io)"

subsection \<open>Register reads\<close>

definition read_io_by_owner ::
    "('apu, 'ppu) io_services \<Rightarrow> io_register_owner \<Rightarrow> u16 \<Rightarrow> ('apu, 'ppu) bus_io_read_view \<Rightarrow> u8 res" where
  "read_io_by_owner svc owner a io =
     (case owner of
        io_register_owner.OwnerPpu \<Rightarrow> Inr (map_or BLOCKED_READ_VALUE (svc_ppu_read_register svc a) (rv_ppu io))
      | io_register_owner.OwnerApu \<Rightarrow> Inr (map_or BLOCKED_READ_VALUE (svc_apu_read_register svc a) (rv_apu io))
      | io_register_owner.OwnerMemoryController \<Rightarrow> Inr BLOCKED_READ_VALUE
      | io_register_owner.OwnerInfrared \<Rightarrow> Inr BLOCKED_READ_VALUE
      | io_register_owner.OwnerCgbSystem \<Rightarrow> Inr BLOCKED_READ_VALUE
      | io_register_owner.OwnerReserved \<Rightarrow> Inr BLOCKED_READ_VALUE
      | _ \<Rightarrow> Inl Unreachable)"

definition read_io_kind ::
    "('apu, 'ppu) io_services \<Rightarrow> io_register_info \<Rightarrow> u16 \<Rightarrow> ('apu, 'ppu) bus_io_read_view
     \<Rightarrow> iohram_domain \<Rightarrow> u8 res" where
  "read_io_kind svc info a io d =
     (case io_kind info of
        RegJoyp \<Rightarrow> Inr (map_or BLOCKED_READ_VALUE read_p1 (rv_joypad io))
      | RegSerialData \<Rightarrow> Inr (map_or BLOCKED_READ_VALUE read_sb (rv_serial io))
      | RegSerialControl \<Rightarrow> Inr (map_or BLOCKED_READ_VALUE read_sc (rv_serial io))
      | RegDiv \<Rightarrow> Inr (map_or BLOCKED_READ_VALUE read_div (rv_timer io))
      | RegTima \<Rightarrow> Inr (map_or BLOCKED_READ_VALUE read_tima (rv_timer io))
      | RegTma \<Rightarrow> Inr (map_or BLOCKED_READ_VALUE read_tma (rv_timer io))
      | RegTac \<Rightarrow> Inr (map_or BLOCKED_READ_VALUE read_tac (rv_timer io))
      | RegKey1 \<Rightarrow> Inr (map_or BLOCKED_READ_VALUE read_key1 (rv_speed io))
      | RegInterruptFlag \<Rightarrow>
          Inr (map_or BLOCKED_READ_VALUE
            (read_if_with_pending_requests (rv_interrupt_flag_pending_mask io)) (rv_interrupts io))
      | RegOamDma \<Rightarrow> Inr (map_or BLOCKED_READ_VALUE read_ff46 (rv_dma io))
      | RegHdma1 \<Rightarrow> Inr BLOCKED_READ_VALUE
      | RegHdma2 \<Rightarrow> Inr BLOCKED_READ_VALUE
      | RegHdma3 \<Rightarrow> Inr BLOCKED_READ_VALUE
      | RegHdma4 \<Rightarrow> Inr BLOCKED_READ_VALUE
      | RegHdma5 \<Rightarrow> Inr (map_or BLOCKED_READ_VALUE read_hdma5 (rv_dma io))
      | RegRp \<Rightarrow> Inr (read_rp d)
      | RegBootRomDisable \<Rightarrow> Inr (map_or BLOCKED_READ_VALUE read_ff50 (rv_boot io))
      | RegPcm12 \<Rightarrow> Inr (map_or BLOCKED_READ_VALUE (svc_apu_read_pcm12 svc) (rv_apu io))
      | RegPcm34 \<Rightarrow> Inr (map_or BLOCKED_READ_VALUE (svc_apu_read_pcm34 svc) (rv_apu io))
      | RegInterruptEnable \<Rightarrow> Inr (map_or BLOCKED_READ_VALUE read_ie (rv_interrupts io))
      | other \<Rightarrow>
          if other = RegStat \<or> other = RegLy then
            Inr (map_or BLOCKED_READ_VALUE
              (svc_ppu_read_register_with_source svc a
                 (if rv_ppu_cpu_visible_read io then ReadCpuBusOperation else ReadImmediate))
              (rv_ppu io))
          else read_io_by_owner svc (io_owner info) a io)"

definition io_register_is_routed :: "io_register_info \<Rightarrow> console_model \<Rightarrow> operating_mode \<Rightarrow> bool" where
  "io_register_is_routed info m mode \<longleftrightarrow>
     io_register_kind_is_available (io_kind info) (io_availability info) m mode
     \<and> io_implementation info = IoImplemented"

definition read_io_target ::
    "('apu, 'ppu) io_services \<Rightarrow> console_model \<Rightarrow> operating_mode \<Rightarrow> u16
     \<Rightarrow> ('apu, 'ppu) bus_io_read_view \<Rightarrow> iohram_domain \<Rightarrow> u8 res" where
  "read_io_target svc m mode a io d =
     (case describe_io_register a of
        None \<Rightarrow> Inr BLOCKED_READ_VALUE
      | Some info \<Rightarrow>
          if \<not> io_register_is_routed info m mode then Inr BLOCKED_READ_VALUE
          else read_io_kind svc info a io d)"

subsection \<open>Register writes\<close>

definition write_div_through ::
    "('apu, 'ppu) io_services \<Rightarrow> u8 \<Rightarrow> ('apu, 'ppu) bus_io_write_view
     \<Rightarrow> ('apu, 'ppu) bus_io_write_view" where
  "write_div_through svc v io =
     (case wv_timer io of
        None \<Rightarrow> io
      | Some t \<Rightarrow>
          let (effects, t') = write_div_with_effects_for_speed v (view_speed_mode io) t;
              io' = io\<lparr>wv_timer := Some t'\<rparr>
          in if apu_frame_sequencer_edge effects
             then io'\<lparr>wv_apu := map_option (svc_apu_on_div_apu_edge svc) (wv_apu io')\<rparr>
             else io')"

definition write_ff50_through ::
    "u8 \<Rightarrow> ('apu, 'ppu) bus_io_write_view \<Rightarrow> ('apu, 'ppu) bus_io_write_view" where
  "write_ff50_through v io =
     (case wv_boot io of
        None \<Rightarrow> io
      | Some b \<Rightarrow>
          let (newly_unmapped, b') = write_ff50 v b
          in io\<lparr>wv_boot := Some b',
                wv_boot_ff50_newly_unmapped :=
                  map_option (\<lambda>_. newly_unmapped) (wv_boot_ff50_newly_unmapped io)\<rparr>)"

definition write_apu_through ::
    "('apu, 'ppu) io_services \<Rightarrow> u16 \<Rightarrow> u8 \<Rightarrow> ('apu, 'ppu) bus_io_write_view
     \<Rightarrow> ('apu, 'ppu) bus_io_write_view" where
  "write_apu_through svc a v io =
     (let speed_mode = view_speed_mode io;
          div_apu_signal_high = map_or False (current_div_apu_signal_for_speed speed_mode) (wv_timer io)
      in io\<lparr>wv_apu :=
              map_option (svc_apu_write_register svc a v speed_mode div_apu_signal_high) (wv_apu io)\<rparr>)"

definition write_io_by_owner ::
    "('apu, 'ppu) io_services \<Rightarrow> io_register_owner \<Rightarrow> u16 \<Rightarrow> u8 \<Rightarrow> ('apu, 'ppu) bus_io_write_view
     \<Rightarrow> ('apu, 'ppu) bus_io_write_view res" where
  "write_io_by_owner svc owner a v io =
     (case owner of
        io_register_owner.OwnerPpu \<Rightarrow> Inr (io\<lparr>wv_ppu := map_option (svc_ppu_write_register svc a v) (wv_ppu io)\<rparr>)
      | io_register_owner.OwnerApu \<Rightarrow> Inr (write_apu_through svc a v io)
      | io_register_owner.OwnerMemoryController \<Rightarrow> Inr io
      | io_register_owner.OwnerInfrared \<Rightarrow> Inr io
      | io_register_owner.OwnerCgbSystem \<Rightarrow> Inr io
      | io_register_owner.OwnerReserved \<Rightarrow> Inr io
      | _ \<Rightarrow> Inl Unreachable)"

definition write_io_component ::
    "('apu, 'ppu) io_services \<Rightarrow> io_register_info \<Rightarrow> u16 \<Rightarrow> u8 \<Rightarrow> ('apu, 'ppu) bus_io_write_view
     \<Rightarrow> ('apu, 'ppu) bus_io_write_view res" where
  "write_io_component svc info a v io =
     (case io_kind info of
        RegJoyp \<Rightarrow> Inr (io\<lparr>wv_joypad := map_option (write_p1 v) (wv_joypad io)\<rparr>)
      | RegSerialData \<Rightarrow> Inr (io\<lparr>wv_serial := map_option (write_sb v) (wv_serial io)\<rparr>)
      | RegSerialControl \<Rightarrow> Inr (io\<lparr>wv_serial := map_option (write_sc v) (wv_serial io)\<rparr>)
      | RegDiv \<Rightarrow> Inr (write_div_through svc v io)
      | RegTima \<Rightarrow> Inr (io\<lparr>wv_timer := map_option (write_tima v) (wv_timer io)\<rparr>)
      | RegTma \<Rightarrow> Inr (io\<lparr>wv_timer := map_option (write_tma v) (wv_timer io)\<rparr>)
      | RegTac \<Rightarrow> Inr (io\<lparr>wv_timer := map_option (write_tac v) (wv_timer io)\<rparr>)
      | RegKey1 \<Rightarrow> Inr (io\<lparr>wv_speed := map_option (write_key1 v) (wv_speed io)\<rparr>)
      | RegInterruptFlag \<Rightarrow> Inr (io\<lparr>wv_interrupts := map_option (write_if v) (wv_interrupts io)\<rparr>)
      | RegOamDma \<Rightarrow>
          Inr (io\<lparr>wv_dma := map_option (write_ff46_for_speed v (view_speed_mode io)) (wv_dma io)\<rparr>)
      | RegHdma1 \<Rightarrow> Inr (io\<lparr>wv_dma := map_option (write_hdma1 v) (wv_dma io)\<rparr>)
      | RegHdma2 \<Rightarrow> Inr (io\<lparr>wv_dma := map_option (write_hdma2 v) (wv_dma io)\<rparr>)
      | RegHdma3 \<Rightarrow> Inr (io\<lparr>wv_dma := map_option (write_hdma3 v) (wv_dma io)\<rparr>)
      | RegHdma4 \<Rightarrow> Inr (io\<lparr>wv_dma := map_option (write_hdma4 v) (wv_dma io)\<rparr>)
      | RegHdma5 \<Rightarrow>
          Inr (io\<lparr>wv_dma := map_option (write_hdma5_for_speed v (view_speed_mode io)) (wv_dma io)\<rparr>)
      | RegBootRomDisable \<Rightarrow> Inr (write_ff50_through v io)
      | RegInterruptEnable \<Rightarrow> Inr (io\<lparr>wv_interrupts := map_option (write_ie v) (wv_interrupts io)\<rparr>)
      | RegPcm12 \<Rightarrow> Inr io
      | RegPcm34 \<Rightarrow> Inr io
      | _ \<Rightarrow> write_io_by_owner svc (io_owner info) a v io)"

definition write_io_target ::
    "('apu, 'ppu) io_services \<Rightarrow> console_model \<Rightarrow> operating_mode \<Rightarrow> u16 \<Rightarrow> u8
     \<Rightarrow> ('apu, 'ppu) bus_io_write_view \<Rightarrow> iohram_domain
     \<Rightarrow> (iohram_domain \<times> ('apu, 'ppu) bus_io_write_view) res" where
  "write_io_target svc m mode a v io d =
     (case describe_io_register a of
        None \<Rightarrow> Inr (d, io)
      | Some info \<Rightarrow>
          if \<not> io_register_is_routed info m mode then Inr (d, io)
          else if io_kind info = RegRp then Inr (write_rp v d, io)
          else res_map (Pair d) (write_io_component svc info a v io))"

definition iohram_read ::
    "('apu, 'ppu) io_services \<Rightarrow> console_model \<Rightarrow> operating_mode \<Rightarrow> bus_address_info
     \<Rightarrow> ('apu, 'ppu) bus_io_read_view \<Rightarrow> iohram_domain \<Rightarrow> u8 res" where
  "iohram_read svc m mode target io d =
     (case info_region target of
        RegionHram \<Rightarrow> index_get (hram d) (unat (info_region_offset target))
      | RegionMmio \<Rightarrow> read_io_target svc m mode (info_address target) io d
      | RegionInterruptEnable \<Rightarrow> read_io_target svc m mode (info_address target) io d
      | _ \<Rightarrow> Inl Unreachable)"

definition iohram_write ::
    "('apu, 'ppu) io_services \<Rightarrow> console_model \<Rightarrow> operating_mode \<Rightarrow> bus_address_info \<Rightarrow> u8
     \<Rightarrow> ('apu, 'ppu) bus_io_write_view \<Rightarrow> iohram_domain
     \<Rightarrow> (iohram_domain \<times> ('apu, 'ppu) bus_io_write_view) res" where
  "iohram_write svc m mode target v io d =
     (case info_region target of
        RegionHram \<Rightarrow>
          res_map (\<lambda>bytes. (d\<lparr>hram := bytes\<rparr>, io))
            (index_set (hram d) (unat (info_region_offset target)) v)
      | RegionMmio \<Rightarrow> write_io_target svc m mode (info_address target) v io d
      | RegionInterruptEnable \<Rightarrow> write_io_target svc m mode (info_address target) v io d
      | _ \<Rightarrow> Inl Unreachable)"

end
