(* ===== verification/Bus_Dispatch.thy ===== *)
theory Bus_Dispatch
  imports Bus_Io Cpu_Types
begin

text \<open>
  The bus itself (\<open>bus.rs\<close>) and the path of an access through it: what DMA, the PPU and the
  unusable area do with it (\<open>bus/policy.rs\<close>), its resolution and its two entry points with
  their fast paths (\<open>bus/dispatch.rs\<close>), the memory or device that answers
  (\<open>bus/access.rs\<close>), and the CPU address events that corrupt OAM
  (\<open>bus/corruption.rs\<close>). A lent cartridge, and the components lent for the I/O page, come
  back with the result of a write.
\<close>

subsection \<open>The bus\<close>

datatype bus_status = BusReady

record bus =
  bus_console_model :: console_model
  bus_revision :: hardware_revision
  bus_operating_mode :: operating_mode
  bus_status_of :: bus_status
  bus_vram :: vram_domain
  bus_wram :: wram_domain
  bus_oam :: oam_domain
  bus_iohram :: iohram_domain

record bus_save_state =
  bsave_console_model :: console_model
  bsave_revision :: hardware_revision
  bsave_operating_mode :: operating_mode
  bsave_status :: bus_status
  bsave_vram :: vram_save_state
  bsave_wram :: wram_save_state
  bsave_oam :: oam_domain
  bsave_iohram :: iohram_domain

record bus_snapshot =
  bsnap_console_model :: console_model
  bsnap_revision :: hardware_revision
  bsnap_status :: bus_status
  bsnap_arbitration :: bus_arbitration_state

definition bus_new_with_revision_and_operating_mode ::
    "console_model \<Rightarrow> hardware_revision \<Rightarrow> operating_mode \<Rightarrow> bus" where
  "bus_new_with_revision_and_operating_mode m r mode =
     \<lparr>bus_console_model = m, bus_revision = r, bus_operating_mode = mode,
      bus_status_of = BusReady, bus_vram = vram_new_for_model m, bus_wram = wram_new_for_model m,
      bus_oam = oam_new, bus_iohram = iohram_new\<rparr>"

definition bus_new :: "console_model \<Rightarrow> bus" where
  "bus_new m =
     bus_new_with_revision_and_operating_mode m (default_revision m) (default_operating_mode m)"

definition bus_new_with_revision :: "console_model \<Rightarrow> hardware_revision \<Rightarrow> bus" where
  "bus_new_with_revision m r =
     bus_new_with_revision_and_operating_mode m r (default_operating_mode m)"

definition bus_new_with_operating_mode :: "console_model \<Rightarrow> operating_mode \<Rightarrow> bus" where
  "bus_new_with_operating_mode m mode =
     bus_new_with_revision_and_operating_mode m (default_revision m) mode"

definition bus_apply_operating_mode_state :: "operating_mode \<Rightarrow> bus \<Rightarrow> bus" where
  "bus_apply_operating_mode_state mode b = b\<lparr>bus_operating_mode := mode\<rparr>"

definition bus_cgb_extensions_enabled :: "bus \<Rightarrow> bool" where
  "bus_cgb_extensions_enabled b \<longleftrightarrow>
     is_cgb_family (bus_console_model b) \<and> enables_cgb_extensions (bus_operating_mode b)"

definition cgb_infrared_register_enabled :: "bus \<Rightarrow> bool" where
  "cgb_infrared_register_enabled b \<longleftrightarrow>
     has_cgb_infrared_port (bus_console_model b)
     \<and> enables_cgb_infrared_register (bus_operating_mode b)"

definition io_register_info_is_live :: "io_register_info \<Rightarrow> bus \<Rightarrow> bool" where
  "io_register_info_is_live info b \<longleftrightarrow>
     io_register_kind_is_available (io_kind info) (io_availability info)
       (bus_console_model b) (bus_operating_mode b)"

definition bus_capture_save_state :: "bus \<Rightarrow> bus_save_state" where
  "bus_capture_save_state b =
     \<lparr>bsave_console_model = bus_console_model b, bsave_revision = bus_revision b,
      bsave_operating_mode = bus_operating_mode b, bsave_status = bus_status_of b,
      bsave_vram = vram_capture_save_state (bus_vram b),
      bsave_wram = wram_capture_save_state (bus_wram b),
      bsave_oam = bus_oam b, bsave_iohram = bus_iohram b\<rparr>"

definition bus_restore_save_state :: "bus_save_state \<Rightarrow> bus \<Rightarrow> bus" where
  "bus_restore_save_state s b =
     \<lparr>bus_console_model = bsave_console_model s,
      bus_revision =
        (if supports_revision (bsave_console_model s) (bsave_revision s) then bsave_revision s
         else default_revision (bsave_console_model s)),
      bus_operating_mode = bsave_operating_mode s, bus_status_of = bsave_status s,
      bus_vram = vram_restore_save_state (bsave_vram s) (bus_vram b),
      bus_wram = wram_restore_save_state (bsave_wram s) (bus_wram b),
      bus_oam = bsave_oam s, bus_iohram = bsave_iohram s\<rparr>"

definition bus_dynamic_payload_bytes :: "bus_save_state \<Rightarrow> nat" where
  "bus_dynamic_payload_bytes s =
     vram_dynamic_payload_bytes (bsave_vram s) + wram_dynamic_payload_bytes (bsave_wram s)"

definition bus_take_snapshot :: "bus_arbitration_state \<Rightarrow> bus \<Rightarrow> bus_snapshot" where
  "bus_take_snapshot arbitration b =
     \<lparr>bsnap_console_model = bus_console_model b, bsnap_revision = bus_revision b,
      bsnap_status = bus_status_of b, bsnap_arbitration = arbitration\<rparr>"

definition bus_describe_unusable_area :: "u16 \<Rightarrow> bus \<Rightarrow> unusable_area_info option" where
  "bus_describe_unusable_area a b = describe_unusable_area (bus_console_model b) (bus_revision b) a"

definition apply_cgb_startup_state ::
    "startup_mode \<Rightarrow> cartridge_header option \<Rightarrow> bus \<Rightarrow> bus" where
  "apply_cgb_startup_state mode header b =
     (let b = b\<lparr>bus_vram := vram_reset_bank_select (bus_vram b),
                bus_wram := wram_reset_bank_select (bus_wram b),
                bus_iohram := reset_cgb_misc_io (bus_iohram b)\<rparr>
      in if uses_direct_boot_state mode then
           let flag = map_or CgbSupported hdr_cgb_flag header
           in b\<lparr>bus_iohram :=
                  apply_direct_boot_key0 (bus_console_model b) (bus_operating_mode b) flag (bus_iohram b)\<rparr>
         else
           b\<lparr>bus_iohram :=
               reset_real_boot_key0 (bus_console_model b) (bus_operating_mode b) (bus_iohram b)\<rparr>)"

definition lock_cgb_real_boot_key0_at_handoff ::
    "heuristic_policy \<Rightarrow> bus \<Rightarrow> operating_mode option \<times> bus" where
  "lock_cgb_real_boot_key0_at_handoff pol b =
     (if \<not> is_cgb_family (bus_console_model b) then (None, b)
      else
        let (mode, d) = iohram_lock_cgb_real_boot_key0 (bus_console_model b) pol (bus_iohram b)
        in (Some mode, b\<lparr>bus_iohram := d, bus_operating_mode := mode\<rparr>))"

definition bus_tick_cgb_infrared :: "bus \<Rightarrow> bus" where
  "bus_tick_cgb_infrared b =
     (if cgb_infrared_register_enabled b
      then b\<lparr>bus_iohram := iohram_tick_cgb_infrared (bus_iohram b)\<rparr> else b)"

definition bus_set_cgb_infrared_external_input :: "bool \<Rightarrow> bus \<Rightarrow> bus" where
  "bus_set_cgb_infrared_external_input active b =
     b\<lparr>bus_iohram := iohram_set_cgb_infrared_external_input
         (cgb_infrared_register_enabled b \<and> active) (bus_iohram b)\<rparr>"

definition bus_cgb_infrared_emitter_on :: "bus \<Rightarrow> bool" where
  "bus_cgb_infrared_emitter_on b \<longleftrightarrow>
     cgb_infrared_register_enabled b \<and> emitter_on (infrared (bus_iohram b))"

definition bus_cgb_infrared_status :: "bus \<Rightarrow> cgb_infrared_status option" where
  "bus_cgb_infrared_status b =
     (if cgb_infrared_register_enabled b then Some (infrared_status (infrared (bus_iohram b))) else None)"

definition bus_apply_startup_memory_policy :: "startup_memory_policy \<Rightarrow> bus \<Rightarrow> bus" where
  "bus_apply_startup_memory_policy p b =
     b\<lparr>bus_vram := vram_apply_startup_memory_policy p (bus_vram b),
       bus_wram := wram_apply_startup_memory_policy p (bus_wram b),
       bus_iohram := iohram_apply_startup_memory_policy p (bus_iohram b)\<rparr>"

text \<open>The ownership of the video memories in a build with debug assertions.\<close>

definition sync_video_domain_ownership :: "ppu_bus_state \<Rightarrow> dma_bus_state \<Rightarrow> bus \<Rightarrow> bus" where
  "sync_video_domain_ownership ppu dma b =
     (let ppu_vram = (ppu_lcd_enabled ppu \<and> ppu_mode ppu = AccessDrawing);
          ppu_oam = (ppu_lcd_enabled ppu \<and> (ppu_mode ppu = AccessOamScan \<or> ppu_mode ppu = AccessDrawing));
          dma_oam = (dma_active_region dma = Some ImpactOam);
          dma_vram = (dma_active_region dma = Some ImpactVram)
      in b\<lparr>bus_vram := vram_set_acquired ReqDma dma_vram (vram_set_acquired ReqPpu ppu_vram (bus_vram b)),
           bus_oam := oam_set_acquired ReqDma dma_oam (oam_set_acquired ReqPpu ppu_oam (bus_oam b))\<rparr>)"

subsection \<open>Policies\<close>

definition evaluate_global_dma_policy ::
    "bus_requester \<Rightarrow> bus_access_kind \<Rightarrow> bus_address_info \<Rightarrow> bus_arbitration_state
     \<Rightarrow> bus_access_disposition option" where
  "evaluate_global_dma_policy requester kind target st =
     (if requester \<noteq> ReqCpu then None
      else case cpu_access_policy (arb_dma st) of
          DmaUnrestricted \<Rightarrow> None
        | ExternalBusBlocked \<Rightarrow>
            if info_region target = RegionHram \<or> info_address target = 0xFF46 then None
            else Some (block_access kind DmaExternalBusConflict)
        | ExternalBusOnlyBlocked \<Rightarrow>
            if info_region target \<in> {RegionCartridgeRomBank0, RegionCartridgeRomBankN,
                 RegionCartridgeExternal, RegionOam}
            then Some (block_access kind DmaExternalBusConflict) else None
        | VideoBusBlocked \<Rightarrow>
            if info_region target \<in> {RegionVram, RegionOam}
            then Some (block_access kind DmaVideoBusConflict) else None
        | WramBusBlocked \<Rightarrow>
            if info_region target \<in> {RegionWramBank0, RegionWramBankN, RegionEchoRam, RegionOam}
            then Some (block_access kind DmaWramBusConflict) else None)"

definition evaluate_domain_policy ::
    "bus_requester \<Rightarrow> bus_access_kind \<Rightarrow> bus_address_info \<Rightarrow> bus_arbitration_state
     \<Rightarrow> bus_access_disposition option" where
  "evaluate_domain_policy requester kind target st =
     (if info_region target = RegionVram then
        vram_evaluate_access requester kind (arb_ppu st) (arb_dma st)
      else if info_region target = RegionOam then
        oam_evaluate_access requester kind (arb_ppu st) (arb_dma st)
      else None)"

definition evaluate_unusable_policy ::
    "bus \<Rightarrow> bus_requester \<Rightarrow> bus_access_kind \<Rightarrow> bus_address_info \<Rightarrow> bus_arbitration_state
     \<Rightarrow> bus_access_disposition option" where
  "evaluate_unusable_policy b requester kind target st =
     (if info_region target \<noteq> RegionUnusable then None
      else if kind = AccessWrite
         \<and> map_or True runtime_fallback_writes_ignored (bus_describe_unusable_area (info_address target) b)
        then Some (IgnoredWrite BlockedUnusableRegion)
      else if requester = ReqCpu \<and> cpu_access_policy (arb_dma st) = VideoBusBlocked
        then Some (BlockedRead BLOCKED_READ_VALUE UnusableRegionDuringDmaVideoBusConflict)
      else if requester = ReqCpu \<and> ppu_lcd_enabled (arb_ppu st)
         \<and> (ppu_mode (arb_ppu st) = AccessOamScan \<or> ppu_mode (arb_ppu st) = AccessDrawing)
        then Some (BlockedRead BLOCKED_READ_VALUE UnusableRegionDuringOamBlock)
      else None)"

definition evaluate_access_policy ::
    "bus \<Rightarrow> bus_requester \<Rightarrow> bus_access_kind \<Rightarrow> bus_address_info \<Rightarrow> bus_arbitration_state
     \<Rightarrow> bus_access_disposition" where
  "evaluate_access_policy b requester kind target st =
     (case evaluate_global_dma_policy requester kind target st of
        Some disposition \<Rightarrow> disposition
      | None \<Rightarrow>
          (case evaluate_domain_policy requester kind target st of
             Some disposition \<Rightarrow> disposition
           | None \<Rightarrow>
               (case evaluate_unusable_policy b requester kind target st of
                  Some disposition \<Rightarrow> disposition
                | None \<Rightarrow> AccessAllowed)))"

subsection \<open>Resolution\<close>

record bus_access_resolution =
  res_requester :: bus_requester
  res_kind :: bus_access_kind
  res_requested_address :: u16
  res_nominal_target :: bus_address_info
  res_target :: bus_address_info
  res_nominal_cartridge_external :: "cartridge_external_access_info option"
  res_cartridge_external :: "cartridge_external_access_info option"
  res_nominal_disposition :: bus_access_disposition
  res_disposition :: bus_access_disposition

definition is_redirected :: "bus_access_resolution \<Rightarrow> bool" where
  "is_redirected r \<longleftrightarrow> info_address (res_target r) \<noteq> res_requested_address r"

definition redirected_source_address :: "bus_access_resolution \<Rightarrow> u16 option" where
  "redirected_source_address r =
     (if is_redirected r then Some (info_address (res_target r)) else None)"

definition address_uses_hot_cpu_external_bus :: "u16 \<Rightarrow> bool" where
  "address_uses_hot_cpu_external_bus a \<longleftrightarrow> a \<le> 0x7FFF \<or> 0xA000 \<le> a \<and> a \<le> 0xBFFF"

definition address_uses_hot_cpu_wram_bus :: "u16 \<Rightarrow> bool" where
  "address_uses_hot_cpu_wram_bus a \<longleftrightarrow> 0xC000 \<le> a \<and> a \<le> 0xFDFF"

definition address_uses_hot_cpu_timed_fast_path :: "u16 \<Rightarrow> bool" where
  "address_uses_hot_cpu_timed_fast_path a \<longleftrightarrow>
     a \<le> 0x7FFF \<or> 0xA000 \<le> a \<and> a \<le> 0xBFFF \<or> 0xC000 \<le> a \<and> a \<le> 0xFDFF"

definition cpu_dma_conflict_source_address ::
    "bus_requester \<Rightarrow> u16 \<Rightarrow> bus_address_info \<Rightarrow> bus_arbitration_state \<Rightarrow> u16 option" where
  "cpu_dma_conflict_source_address requester a nominal st =
     (if requester \<noteq> ReqCpu then None
      else case cpu_access_policy (arb_dma st) of
          ExternalBusBlocked \<Rightarrow>
            if \<not> address_uses_hot_cpu_timed_fast_path a then None
            else cpu_conflict_source_address (arb_dma st)
        | ExternalBusOnlyBlocked \<Rightarrow>
            if \<not> address_uses_hot_cpu_external_bus a
               \<or> info_region nominal \<notin> {RegionCartridgeRomBank0, RegionCartridgeRomBankN,
                    RegionCartridgeExternal}
            then None else cpu_conflict_source_address (arb_dma st)
        | WramBusBlocked \<Rightarrow>
            if \<not> address_uses_hot_cpu_wram_bus a
               \<or> info_region nominal \<notin> {RegionWramBank0, RegionWramBankN, RegionEchoRam}
            then None else cpu_conflict_source_address (arb_dma st)
        | DmaUnrestricted \<Rightarrow> None
        | VideoBusBlocked \<Rightarrow> None)"

definition describe_cartridge_external_access ::
    "bus_address_info \<Rightarrow> cartridge_slot option \<Rightarrow> cartridge_external_access_info option" where
  "describe_cartridge_external_access target cart =
     (if info_region target \<noteq> RegionCartridgeExternal then None
      else Some
        (case cart of
           None \<Rightarrow> access_info_no_device (info_address target)
         | Some s \<Rightarrow> slot_describe_external_access (info_address target) s))"

definition resolve_requester_access ::
    "bus \<Rightarrow> bus_requester \<Rightarrow> bus_access_kind \<Rightarrow> u16 \<Rightarrow> bus_arbitration_state \<Rightarrow> cartridge_slot option
     \<Rightarrow> bus_access_resolution" where
  "resolve_requester_access b requester kind a st cart =
     (let nominal = resolve_nominal_target kind a st;
          disposition = evaluate_access_policy b requester kind nominal st;
          external = describe_cartridge_external_access nominal cart
      in case cpu_dma_conflict_source_address requester a nominal st of
           Some source \<Rightarrow>
             let target = resolve_nominal_target kind source st
             in \<lparr>res_requester = requester, res_kind = kind, res_requested_address = a,
                 res_nominal_target = nominal, res_target = target,
                 res_nominal_cartridge_external = external,
                 res_cartridge_external = describe_cartridge_external_access target cart,
                 res_nominal_disposition = disposition, res_disposition = AccessAllowed\<rparr>
         | None \<Rightarrow>
             \<lparr>res_requester = requester, res_kind = kind, res_requested_address = a,
              res_nominal_target = nominal, res_target = nominal,
              res_nominal_cartridge_external = external, res_cartridge_external = external,
              res_nominal_disposition = disposition, res_disposition = disposition\<rparr>)"

definition resolve_access ::
    "bus \<Rightarrow> bus_access_kind \<Rightarrow> u16 \<Rightarrow> bus_arbitration_state \<Rightarrow> cartridge_slot option
     \<Rightarrow> bus_access_resolution" where
  "resolve_access b = resolve_requester_access b ReqCpu"

end
