(* ===== verification/Bus_Access.thy ===== *)
theory Bus_Access
  imports Bus_Dispatch
begin

text \<open>
  The accesses themselves: which memory or device answers an allowed access
  (\<open>bus/access.rs\<close>), the plain and the timed entry points with the fast path of the timed
  ones (\<open>bus/dispatch.rs\<close>), and the CPU address events that corrupt OAM
  (\<open>bus/corruption.rs\<close>).
\<close>

subsection \<open>Registers the bus owns\<close>

definition bus_owned_io_kinds :: "io_register_kind set" where
  "bus_owned_io_kinds =
     {RegKey0, RegVbk, RegSvbk, RegCgbUndocumented72, RegCgbUndocumented73, RegCgbUndocumented74,
      RegCgbUndocumented75}"

definition read_cgb_bus_owned_io :: "u16 \<Rightarrow> bus \<Rightarrow> u8 option" where
  "read_cgb_bus_owned_io a b =
     (case describe_io_register a of
        None \<Rightarrow> None
      | Some info \<Rightarrow>
          if io_kind info \<notin> bus_owned_io_kinds then None
          else if \<not> io_register_info_is_live info b \<or> io_implementation info \<noteq> IoImplemented
            then Some BLOCKED_READ_VALUE
          else Some
            (if io_kind info = RegKey0 then iohram_read_key0 (bus_iohram b)
             else if io_kind info = RegVbk then read_vbk (bus_vram b)
             else if io_kind info = RegSvbk then read_svbk (bus_wram b)
             else read_cgb_misc_io a (bus_iohram b)))"

definition write_cgb_bus_owned_io :: "u16 \<Rightarrow> u8 \<Rightarrow> bus \<Rightarrow> bool \<times> bus" where
  "write_cgb_bus_owned_io a v b =
     (case describe_io_register a of
        None \<Rightarrow> (False, b)
      | Some info \<Rightarrow>
          if io_kind info \<notin> bus_owned_io_kinds then (False, b)
          else if \<not> io_register_info_is_live info b \<or> io_implementation info \<noteq> IoImplemented
            then (True, b)
          else (True,
            if io_kind info = RegKey0 then b\<lparr>bus_iohram := iohram_write_key0 v (bus_iohram b)\<rparr>
            else if io_kind info = RegVbk then b\<lparr>bus_vram := write_vbk v (bus_vram b)\<rparr>
            else if io_kind info = RegSvbk then b\<lparr>bus_wram := write_svbk v (bus_wram b)\<rparr>
            else b\<lparr>bus_iohram := write_cgb_misc_io a v (bus_iohram b)\<rparr>))"

definition read_iohram_target ::
    "('apu, 'ppu) io_services \<Rightarrow> bus_address_info \<Rightarrow> ('apu, 'ppu) bus_io_read_view \<Rightarrow> bus \<Rightarrow> u8 res" where
  "read_iohram_target svc target io b =
     (case (if info_region target = RegionMmio
            then read_cgb_bus_owned_io (info_address target) b else None) of
        Some v \<Rightarrow> Inr v
      | None \<Rightarrow>
          iohram_read svc (bus_console_model b) (bus_operating_mode b) target io (bus_iohram b))"

definition write_iohram_target ::
    "('apu, 'ppu) io_services \<Rightarrow> bus_address_info \<Rightarrow> u8 \<Rightarrow> ('apu, 'ppu) bus_io_write_view \<Rightarrow> bus
     \<Rightarrow> (bus \<times> ('apu, 'ppu) bus_io_write_view) res" where
  "write_iohram_target svc target v io b =
     (let (owned, b') =
        (if info_region target = RegionMmio
         then write_cgb_bus_owned_io (info_address target) v b else (False, b))
      in if owned then Inr (b', io)
         else res_map (\<lambda>(d, io'). (b\<lparr>bus_iohram := d\<rparr>, io'))
           (iohram_write svc (bus_console_model b) (bus_operating_mode b) target v io (bus_iohram b)))"

subsection \<open>The cartridge, the boot ROM and the unusable area\<close>

definition read_boot_rom_placeholder ::
    "u16 \<Rightarrow> ('apu, 'ppu) bus_io_read_view \<Rightarrow> u8" where
  "read_boot_rom_placeholder a io = map_or BLOCKED_READ_VALUE (read_boot_rom a) (rv_boot io)"

definition read_unusable_placeholder :: "u16 \<Rightarrow> bus \<Rightarrow> u8" where
  "read_unusable_placeholder a b =
     map_or BLOCKED_READ_VALUE runtime_fallback_read_value (bus_describe_unusable_area a b)"

definition read_cartridge_target :: "u16 \<Rightarrow> bus_region \<Rightarrow> cartridge_slot option \<Rightarrow> u8 res" where
  "read_cartridge_target a region cart =
     (case cart of
        None \<Rightarrow> Inr BLOCKED_READ_VALUE
      | Some s \<Rightarrow>
          if region = RegionCartridgeRomBank0 \<or> region = RegionCartridgeRomBankN then slot_read_rom a s
          else if region = RegionCartridgeExternal then slot_read_ram a s
          else Inl Unreachable)"

definition read_cartridge_target_timed ::
    "u16 \<Rightarrow> bus_region \<Rightarrow> u64 \<Rightarrow> cartridge_slot option \<Rightarrow> (u8 \<times> cartridge_slot option) res" where
  "read_cartridge_target_timed a region t cart =
     (case cart of
        None \<Rightarrow> Inr (BLOCKED_READ_VALUE, None)
      | Some s \<Rightarrow>
          if region = RegionCartridgeRomBank0 \<or> region = RegionCartridgeRomBankN
            then res_map (\<lambda>v. (v, Some s)) (slot_read_rom a s)
          else if region = RegionCartridgeExternal
            then res_map (\<lambda>(v, s'). (v, Some s')) (slot_read_ram_timed a t s)
          else Inl Unreachable)"

definition write_cartridge_target ::
    "u16 \<Rightarrow> bus_region \<Rightarrow> u8 \<Rightarrow> cartridge_slot option \<Rightarrow> cartridge_slot option res" where
  "write_cartridge_target a region v cart =
     (case cart of
        None \<Rightarrow> Inr None
      | Some s \<Rightarrow>
          if region = RegionCartridgeRomBank0 \<or> region = RegionCartridgeRomBankN
            then res_map Some (slot_write_rom a v s)
          else if region = RegionCartridgeExternal then res_map Some (slot_write_ram a v s)
          else Inl Unreachable)"

definition write_cartridge_target_timed ::
    "u16 \<Rightarrow> bus_region \<Rightarrow> u8 \<Rightarrow> u64 \<Rightarrow> cartridge_slot option \<Rightarrow> cartridge_slot option res" where
  "write_cartridge_target_timed a region v t cart =
     (case cart of
        None \<Rightarrow> Inr None
      | Some s \<Rightarrow>
          if region = RegionCartridgeRomBank0 \<or> region = RegionCartridgeRomBankN
            then res_map Some (slot_write_rom a v s)
          else if region = RegionCartridgeExternal then res_map Some (slot_write_ram_timed a v t s)
          else Inl Unreachable)"

subsection \<open>Allowed accesses\<close>

definition perform_allowed_read ::
    "('apu, 'ppu) io_services \<Rightarrow> bus_address_info \<Rightarrow> cartridge_slot option
     \<Rightarrow> ('apu, 'ppu) bus_io_read_view \<Rightarrow> bus \<Rightarrow> u8 res" where
  "perform_allowed_read svc target cart io b =
     (case region_domain (info_region target) of
        DomainBootRom \<Rightarrow> Inr (read_boot_rom_placeholder (info_address target) io)
      | DomainCartridge \<Rightarrow> read_cartridge_target (info_address target) (info_region target) cart
      | DomainVram \<Rightarrow> vram_read (unat (info_region_offset target)) (bus_vram b)
      | DomainWram \<Rightarrow> wram_read (info_address target) (bus_wram b)
      | DomainOam \<Rightarrow> oam_read (unat (info_region_offset target)) (bus_oam b)
      | DomainUnusable \<Rightarrow> Inr (read_unusable_placeholder (info_address target) b)
      | DomainIoHram \<Rightarrow> read_iohram_target svc target io b)"

definition perform_allowed_read_timed ::
    "('apu, 'ppu) io_services \<Rightarrow> bus_address_info \<Rightarrow> u64 \<Rightarrow> cartridge_slot option
     \<Rightarrow> ('apu, 'ppu) bus_io_read_view \<Rightarrow> bus \<Rightarrow> (u8 \<times> cartridge_slot option) res" where
  "perform_allowed_read_timed svc target t cart io b =
     (case region_domain (info_region target) of
        DomainBootRom \<Rightarrow> Inr (read_boot_rom_placeholder (info_address target) io, cart)
      | DomainCartridge \<Rightarrow>
          read_cartridge_target_timed (info_address target) (info_region target) t cart
      | DomainVram \<Rightarrow> res_map (\<lambda>v. (v, cart)) (vram_read (unat (info_region_offset target)) (bus_vram b))
      | DomainWram \<Rightarrow> res_map (\<lambda>v. (v, cart)) (wram_read (info_address target) (bus_wram b))
      | DomainOam \<Rightarrow> res_map (\<lambda>v. (v, cart)) (oam_read (unat (info_region_offset target)) (bus_oam b))
      | DomainUnusable \<Rightarrow> Inr (read_unusable_placeholder (info_address target) b, cart)
      | DomainIoHram \<Rightarrow> res_map (\<lambda>v. (v, cart)) (read_iohram_target svc target io b))"

type_synonym ('apu, 'ppu) bus_write_result =
  "(bus \<times> cartridge_slot option \<times> ('apu, 'ppu) bus_io_write_view) res"

definition perform_allowed_write ::
    "('apu, 'ppu) io_services \<Rightarrow> bus_address_info \<Rightarrow> u8 \<Rightarrow> cartridge_slot option
     \<Rightarrow> ('apu, 'ppu) bus_io_write_view \<Rightarrow> bus \<Rightarrow> ('apu, 'ppu) bus_write_result" where
  "perform_allowed_write svc target v cart io b =
     (case region_domain (info_region target) of
        DomainBootRom \<Rightarrow> Inl Unreachable
      | DomainCartridge \<Rightarrow>
          res_map (\<lambda>cart'. (b, cart', io))
            (write_cartridge_target (info_address target) (info_region target) v cart)
      | DomainVram \<Rightarrow>
          res_map (\<lambda>d. (b\<lparr>bus_vram := d\<rparr>, cart, io))
            (vram_write (unat (info_region_offset target)) v (bus_vram b))
      | DomainWram \<Rightarrow>
          res_map (\<lambda>d. (b\<lparr>bus_wram := d\<rparr>, cart, io)) (wram_write (info_address target) v (bus_wram b))
      | DomainOam \<Rightarrow>
          res_map (\<lambda>d. (b\<lparr>bus_oam := d\<rparr>, cart, io))
            (oam_write (unat (info_region_offset target)) v (bus_oam b))
      | DomainUnusable \<Rightarrow> Inr (b, cart, io)
      | DomainIoHram \<Rightarrow>
          res_map (\<lambda>(b', io'). (b', cart, io')) (write_iohram_target svc target v io b))"

definition perform_allowed_write_timed ::
    "('apu, 'ppu) io_services \<Rightarrow> bus_address_info \<Rightarrow> u8 \<Rightarrow> u64 \<Rightarrow> cartridge_slot option
     \<Rightarrow> ('apu, 'ppu) bus_io_write_view \<Rightarrow> bus \<Rightarrow> ('apu, 'ppu) bus_write_result" where
  "perform_allowed_write_timed svc target v t cart io b =
     (case region_domain (info_region target) of
        DomainBootRom \<Rightarrow> Inl Unreachable
      | DomainCartridge \<Rightarrow>
          res_map (\<lambda>cart'. (b, cart', io))
            (write_cartridge_target_timed (info_address target) (info_region target) v t cart)
      | DomainVram \<Rightarrow>
          res_map (\<lambda>d. (b\<lparr>bus_vram := d\<rparr>, cart, io))
            (vram_write (unat (info_region_offset target)) v (bus_vram b))
      | DomainWram \<Rightarrow>
          res_map (\<lambda>d. (b\<lparr>bus_wram := d\<rparr>, cart, io)) (wram_write (info_address target) v (bus_wram b))
      | DomainOam \<Rightarrow>
          res_map (\<lambda>d. (b\<lparr>bus_oam := d\<rparr>, cart, io))
            (oam_write (unat (info_region_offset target)) v (bus_oam b))
      | DomainUnusable \<Rightarrow> Inr (b, cart, io)
      | DomainIoHram \<Rightarrow>
          res_map (\<lambda>(b', io'). (b', cart, io')) (write_iohram_target svc target v io b))"

subsection \<open>Entry points\<close>

definition read_with_context ::
    "('apu, 'ppu) io_services \<Rightarrow> u16 \<Rightarrow> bus_requester \<Rightarrow> bus_arbitration_state \<Rightarrow> cartridge_slot option
     \<Rightarrow> ('apu, 'ppu) bus_io_read_view \<Rightarrow> bus \<Rightarrow> u8 res" where
  "read_with_context svc a requester st cart io b =
     (let resolution = resolve_requester_access b requester AccessRead a st cart
      in case res_disposition resolution of
           AccessAllowed \<Rightarrow> perform_allowed_read svc (res_target resolution) cart io b
         | BlockedRead v _ \<Rightarrow> Inr v
         | IgnoredWrite _ \<Rightarrow> Inl ExplicitPanic)"

definition read_partial_harness_with_cartridge ::
    "('apu, 'ppu) io_services \<Rightarrow> u16 \<Rightarrow> bus_requester \<Rightarrow> bus_arbitration_state \<Rightarrow> cartridge_slot option
     \<Rightarrow> bus \<Rightarrow> u8 res" where
  "read_partial_harness_with_cartridge svc a requester st cart =
     read_with_context svc a requester st cart read_view_default"

definition try_read_timed_fast_path ::
    "u16 \<Rightarrow> bus_requester \<Rightarrow> bus_arbitration_state \<Rightarrow> u64 \<Rightarrow> cartridge_slot option \<Rightarrow> bus
     \<Rightarrow> (u8 \<times> cartridge_slot option) res option" where
  "try_read_timed_fast_path a requester st t cart b =
     (if requester \<noteq> ReqCpu \<or> cpu_access_policy (arb_dma st) \<noteq> DmaUnrestricted
         \<or> overlays_read a (arb_boot_rom st) then None
      else if a \<le> 0x7FFF then
        Some (case cart of
                Some s \<Rightarrow> res_map (\<lambda>v. (v, Some s)) (slot_read_rom a s)
              | None \<Rightarrow> Inr (BLOCKED_READ_VALUE, None))
      else if 0xA000 \<le> a \<and> a \<le> 0xBFFF then
        Some (case cart of
                Some s \<Rightarrow> res_map (\<lambda>(v, s'). (v, Some s')) (slot_read_ram_timed a t s)
              | None \<Rightarrow> Inr (BLOCKED_READ_VALUE, None))
      else if 0xC000 \<le> a \<and> a \<le> 0xFDFF then
        Some (res_map (\<lambda>v. (v, cart)) (wram_read a (bus_wram b)))
      else None)"

definition read_with_t_cycle_context ::
    "('apu, 'ppu) io_services \<Rightarrow> u16 \<Rightarrow> bus_requester \<Rightarrow> bus_arbitration_state \<Rightarrow> u64
     \<Rightarrow> cartridge_slot option \<Rightarrow> ('apu, 'ppu) bus_io_read_view \<Rightarrow> bus
     \<Rightarrow> (u8 \<times> cartridge_slot option) res" where
  "read_with_t_cycle_context svc a requester st t cart io b =
     (case try_read_timed_fast_path a requester st t cart b of
        Some result \<Rightarrow> result
      | None \<Rightarrow>
          let resolution = resolve_requester_access b requester AccessRead a st cart
          in case res_disposition resolution of
               AccessAllowed \<Rightarrow> perform_allowed_read_timed svc (res_target resolution) t cart io b
             | BlockedRead v _ \<Rightarrow> Inr (v, cart)
             | IgnoredWrite _ \<Rightarrow> Inl ExplicitPanic)"

definition write_with_context ::
    "('apu, 'ppu) io_services \<Rightarrow> u16 \<Rightarrow> u8 \<Rightarrow> bus_requester \<Rightarrow> bus_arbitration_state
     \<Rightarrow> cartridge_slot option \<Rightarrow> ('apu, 'ppu) bus_io_write_view \<Rightarrow> bus
     \<Rightarrow> ('apu, 'ppu) bus_write_result" where
  "write_with_context svc a v requester st cart io b =
     (let resolution = resolve_requester_access b requester AccessWrite a st cart
      in case res_disposition resolution of
           AccessAllowed \<Rightarrow> perform_allowed_write svc (res_target resolution) v cart io b
         | IgnoredWrite _ \<Rightarrow> Inr (b, cart, io)
         | BlockedRead _ _ \<Rightarrow> Inl ExplicitPanic)"

definition write_partial_harness_with_cartridge ::
    "('apu, 'ppu) io_services \<Rightarrow> u16 \<Rightarrow> u8 \<Rightarrow> bus_requester \<Rightarrow> bus_arbitration_state
     \<Rightarrow> cartridge_slot option \<Rightarrow> bus \<Rightarrow> ('apu, 'ppu) bus_write_result" where
  "write_partial_harness_with_cartridge svc a v requester st cart =
     write_with_context svc a v requester st cart write_view_default"

definition try_write_timed_fast_path ::
    "u16 \<Rightarrow> u8 \<Rightarrow> bus_requester \<Rightarrow> bus_arbitration_state \<Rightarrow> u64 \<Rightarrow> cartridge_slot option \<Rightarrow> bus
     \<Rightarrow> (bus \<times> cartridge_slot option) res option" where
  "try_write_timed_fast_path a v requester st t cart b =
     (if requester \<noteq> ReqCpu \<or> cpu_access_policy (arb_dma st) \<noteq> DmaUnrestricted then None
      else if a \<le> 0x7FFF \<or> 0xA000 \<le> a \<and> a \<le> 0xBFFF then
        (let target = decode_address a
         in Some (res_map (Pair b)
              (write_cartridge_target_timed (info_address target) (info_region target) v t cart)))
      else if 0xC000 \<le> a \<and> a \<le> 0xFDFF then
        Some (res_map (\<lambda>d. (b\<lparr>bus_wram := d\<rparr>, cart)) (wram_write a v (bus_wram b)))
      else None)"

definition write_with_t_cycle_context ::
    "('apu, 'ppu) io_services \<Rightarrow> u16 \<Rightarrow> u8 \<Rightarrow> bus_requester \<Rightarrow> bus_arbitration_state \<Rightarrow> u64
     \<Rightarrow> cartridge_slot option \<Rightarrow> ('apu, 'ppu) bus_io_write_view \<Rightarrow> bus
     \<Rightarrow> ('apu, 'ppu) bus_write_result" where
  "write_with_t_cycle_context svc a v requester st t cart io b =
     (case try_write_timed_fast_path a v requester st t cart b of
        Some result \<Rightarrow> res_map (\<lambda>(b', cart'). (b', cart', io)) result
      | None \<Rightarrow>
          let resolution = resolve_requester_access b requester AccessWrite a st cart
          in case res_disposition resolution of
               AccessAllowed \<Rightarrow> perform_allowed_write_timed svc (res_target resolution) v t cart io b
             | IgnoredWrite _ \<Rightarrow> Inr (b, cart, io)
             | BlockedRead _ _ \<Rightarrow> Inl ExplicitPanic)"

subsection \<open>Address events that corrupt OAM\<close>

datatype oam_corruption_event_kind =
  CorruptionRead | CorruptionWrite | CorruptionReadWithIncDec | CorruptionWriteWithIncDec

definition address_may_hit_oam_corruption :: "u16 \<Rightarrow> bool" where
  "address_may_hit_oam_corruption a \<longleftrightarrow> a AND 0xFF00 = 0xFE00"

definition idu_glitched_address :: "cpu_address_event \<Rightarrow> u16 option" where
  "idu_glitched_address event =
     (case ev_idu_address event of
        None \<Rightarrow> None
      | Some driven \<Rightarrow>
          (case ev_update_direction event of
             None \<Rightarrow> None
           | Some Increment \<Rightarrow> Some (driven - 1)
           | Some Decrement \<Rightarrow> Some (driven + 1)))"

fun access_kind_for_cpu_address_event :: "cpu_address_event_kind \<Rightarrow> bus_access_kind res" where
  "access_kind_for_cpu_address_event ReadEvent = Inr AccessRead"
| "access_kind_for_cpu_address_event ReadWithIncDecEvent = Inr AccessRead"
| "access_kind_for_cpu_address_event WriteEvent = Inr AccessWrite"
| "access_kind_for_cpu_address_event WriteWithIncDecEvent = Inr AccessWrite"
| "access_kind_for_cpu_address_event IncDecEvent = Inl Unreachable"

fun oam_corruption_event_kind_of :: "cpu_address_event_kind \<Rightarrow> oam_corruption_event_kind" where
  "oam_corruption_event_kind_of ReadEvent = CorruptionRead"
| "oam_corruption_event_kind_of WriteEvent = CorruptionWrite"
| "oam_corruption_event_kind_of IncDecEvent = CorruptionWrite"
| "oam_corruption_event_kind_of ReadWithIncDecEvent = CorruptionReadWithIncDec"
| "oam_corruption_event_kind_of WriteWithIncDecEvent = CorruptionWriteWithIncDec"

definition idu_event_reaches_oam :: "u16 \<Rightarrow> bus \<Rightarrow> bool" where
  "idu_event_reaches_oam a b \<longleftrightarrow>
     is_dmg_family (bus_console_model b) \<and> address_may_hit_oam_corruption a"

definition access_hits_oam_corruption ::
    "bus \<Rightarrow> bus_access_kind \<Rightarrow> u16 \<Rightarrow> bus_arbitration_state \<Rightarrow> bool" where
  "access_hits_oam_corruption b kind a st =
     (let resolution = resolve_access b kind a st None;
          region = info_region (res_target resolution);
          reason = blocked_reason (res_disposition resolution)
      in if region = RegionOam \<and> reason = Some PpuOamBlockedDuringMode2 then True
         else if region = RegionUnusable \<and> kind = AccessWrite \<and> ppu_lcd_enabled (arb_ppu st)
           \<and> ppu_mode (arb_ppu st) = AccessOamScan then True
         else if region = RegionUnusable \<and> kind = AccessRead \<and> ppu_lcd_enabled (arb_ppu st)
           \<and> ppu_mode (arb_ppu st) = AccessOamScan \<and> reason = Some UnusableRegionDuringOamBlock then True
         else False)"

definition classify_oam_corruption_event ::
    "cpu_address_event \<Rightarrow> bus_arbitration_state \<Rightarrow> bus \<Rightarrow> oam_corruption_event_kind option res" where
  "classify_oam_corruption_event event st b =
     (if ev_kind event = IncDecEvent then
        (case idu_glitched_address event of
           None \<Rightarrow> Inr None
         | Some glitched \<Rightarrow>
             Inr (if idu_event_reaches_oam glitched b then Some CorruptionWrite else None))
      else
        (case ev_access_address event of
           None \<Rightarrow> Inr None
         | Some access \<Rightarrow>
             let with_incdec = (ev_kind event = ReadWithIncDecEvent \<or> ev_kind event = WriteWithIncDecEvent);
                 idu_may_hit =
                   (with_incdec \<and> map_or False address_may_hit_oam_corruption (idu_glitched_address event))
             in if \<not> address_may_hit_oam_corruption access \<and> \<not> idu_may_hit then Inr None
                else
                  res_bind
                    (if address_may_hit_oam_corruption access then
                       res_map (\<lambda>kind. access_hits_oam_corruption b kind access st)
                         (access_kind_for_cpu_address_event (ev_kind event))
                     else Inr False)
                    (\<lambda>access_hits.
                       let idu_hits =
                         (with_incdec
                          \<and> map_or False (\<lambda>a. idu_event_reaches_oam a b) (idu_glitched_address event))
                       in Inr (if access_hits \<or> idu_hits
                               then Some (oam_corruption_event_kind_of (ev_kind event)) else None))))"

text \<open>The corruption itself is the PPU's; it rewrites the OAM bytes it is given.\<close>

definition route_cpu_address_event ::
    "(oam_corruption_event_kind \<Rightarrow> u8 list \<Rightarrow> 'ppu \<Rightarrow> u8 list \<times> 'ppu) \<Rightarrow> cpu_address_event
     \<Rightarrow> bus_arbitration_state \<Rightarrow> 'ppu \<Rightarrow> bus \<Rightarrow> (bus \<times> 'ppu) res" where
  "route_cpu_address_event apply_oam_corruption_event event st ppu b =
     (if \<not> is_dmg_family (bus_console_model b) then Inr (b, ppu)
      else
        res_map (\<lambda>kind.
            case kind of
              None \<Rightarrow> (b, ppu)
            | Some k \<Rightarrow>
                let (bytes, ppu') = apply_oam_corruption_event k (oam_bytes (bus_oam b)) ppu
                in (b\<lparr>bus_oam := (bus_oam b)\<lparr>oam_bytes := bytes\<rparr>\<rparr>, ppu'))
          (classify_oam_corruption_event event st b))"

end
