(* ===== verification/Bus_Laws.thy ===== *)
theory Bus_Laws
  imports Bus_Access Cart_Laws
begin

text \<open>
  What an access through the bus does: no access panics and every component keeps its
  invariant; the fast paths of the timed entry points change nothing; work RAM, its echo and
  its banks follow a reference memory; what the registers of the I/O page do on the wrong console; and when
  an address event of the CPU can reach OAM.
\<close>

lemma res_map_res_map [simp]: "res_map f (res_map g x) = res_map (\<lambda>y. f (g y)) x"
  by (cases x) simp_all

subsection \<open>The I/O page\<close>

definition owner_fits :: "io_register_owner \<Rightarrow> io_register_kind \<Rightarrow> bool" where
  "owner_fits owner kind \<longleftrightarrow>
     owner \<in> {io_register_owner.OwnerPpu, io_register_owner.OwnerApu,
       io_register_owner.OwnerMemoryController, io_register_owner.OwnerInfrared,
       io_register_owner.OwnerCgbSystem, io_register_owner.OwnerReserved}
     \<or> kind \<in> {RegJoyp, RegSerialData, RegSerialControl, RegDiv, RegTima, RegTma, RegTac,
       RegInterruptFlag, RegOamDma, RegHdma1, RegHdma2, RegHdma3, RegHdma4, RegHdma5,
       RegBootRomDisable, RegInterruptEnable}"

lemma io_rows_fit:
  "list_all (\<lambda>(lo, hi, owner, availability, implementation, access, kind). owner_fits owner kind)
     io_register_table"
  by (simp add: io_register_table_def io_rows_ports_and_pulse_def io_rows_wave_and_lcd_def
      io_rows_palettes_and_cgb_def io_rows_cgb_system_def owner_fits_def)

lemma described_row:
  assumes "describe_io_register a = Some info"
  shows "\<exists>lo hi. lo \<le> a \<and> a \<le> hi \<and> (lo, hi, io_owner info, io_availability info,
    io_implementation info, io_access info, io_kind info) \<in> set io_register_table"
proof -
  from assms obtain row where row: "find (\<lambda>(first, last, _). first \<le> a \<and> a \<le> last) io_register_table = Some row"
    and info: "info = (\<lambda>(_, _, owner, availability, implementation, access, kind).
         \<lparr>io_address = a, io_owner = owner, io_availability = availability,
          io_implementation = implementation, io_access = access, io_kind = kind\<rparr>) row"
    by (auto simp: describe_io_register_def)
  from row have "row \<in> set io_register_table" "(\<lambda>(first, last, _). first \<le> a \<and> a \<le> last) row"
    by (auto simp: find_Some_iff in_set_conv_nth)
  with info show ?thesis by (cases row) auto
qed

lemma described_owner_fits:
  assumes "describe_io_register a = Some info"
  shows "owner_fits (io_owner info) (io_kind info)"
  using described_row [OF assms] io_rows_fit by (force simp: list_all_iff)

text \<open>Whatever the kinds with an arm of their own do not take, the owners take.\<close>

definition owner_takes :: "io_register_owner \<Rightarrow> bool" where
  "owner_takes owner \<longleftrightarrow>
     owner \<in> {io_register_owner.OwnerPpu, io_register_owner.OwnerApu,
       io_register_owner.OwnerMemoryController, io_register_owner.OwnerInfrared,
       io_register_owner.OwnerCgbSystem, io_register_owner.OwnerReserved}"

lemma owner_takes_total:
  assumes "owner_takes owner"
  shows "\<exists>v. read_io_by_owner svc owner a io = Inr v"
    and "\<exists>io'. write_io_by_owner svc owner a v' iow = Inr io'"
  using assms by (auto simp: owner_takes_def read_io_by_owner_def write_io_by_owner_def)

lemma owner_fits_cases:
  assumes "owner_fits owner kind"
  obtains "owner_takes owner"
    | "kind \<in> {RegJoyp, RegSerialData, RegSerialControl, RegDiv, RegTima, RegTma, RegTac,
       RegInterruptFlag, RegOamDma, RegHdma1, RegHdma2, RegHdma3, RegHdma4, RegHdma5,
       RegBootRomDisable, RegInterruptEnable}"
  using assms unfolding owner_fits_def owner_takes_def by blast

lemma read_io_kind_total:
  assumes "owner_fits (io_owner info) (io_kind info)"
  shows "\<exists>v. read_io_kind svc info a io d = Inr v"
  using assms
proof (cases rule: owner_fits_cases)
  case 1
  then obtain v where v: "read_io_by_owner svc (io_owner info) a io = Inr v"
    using owner_takes_total(1) by blast
  show ?thesis by (cases "io_kind info") (simp_all add: read_io_kind_def v)
next
  case 2
  then show ?thesis by (elim insertE emptyE) (simp_all add: read_io_kind_def)
qed

lemma write_io_component_total:
  assumes "owner_fits (io_owner info) (io_kind info)"
  shows "\<exists>io'. write_io_component svc info a v io = Inr io'"
  using assms
proof (cases rule: owner_fits_cases)
  case 1
  then obtain io' where v: "write_io_by_owner svc (io_owner info) a v io = Inr io'"
    using owner_takes_total(2) by blast
  show ?thesis by (cases "io_kind info") (simp_all add: write_io_component_def v)
next
  case 2
  then show ?thesis by (elim insertE emptyE) (simp_all add: write_io_component_def)
qed

lemma read_io_target_total: "\<exists>v. read_io_target svc m mode a io d = Inr v"
proof (cases "describe_io_register a")
  case (Some info)
  with read_io_kind_total [OF described_owner_fits [OF Some], of svc a io d] show ?thesis
    by (simp add: read_io_target_def)
qed (simp add: read_io_target_def)

lemma write_io_target_total:
  "\<exists>d' io'. write_io_target svc m mode a v io d = Inr (d', io') \<and> hram d' = hram d"
proof (cases "describe_io_register a")
  case (Some info)
  obtain io' where "write_io_component svc info a v io = Inr io'"
    using write_io_component_total [OF described_owner_fits [OF Some]] by blast
  with Some show ?thesis by (auto simp: write_io_target_def write_rp_def)
qed (simp add: write_io_target_def)

subsection \<open>The invariant of the bus\<close>

definition bus_wf :: "bus \<Rightarrow> bool" where
  "bus_wf b \<longleftrightarrow>
     wram_wf (bus_wram b) \<and> vram_wf (bus_vram b) \<and> oam_wf (bus_oam b)
     \<and> length (hram (bus_iohram b)) = HRAM_LEN
     \<and> wram_console_model (bus_wram b) = bus_console_model b
     \<and> vram_console_model (bus_vram b) = bus_console_model b
     \<and> supports_revision (bus_console_model b) (bus_revision b)"

definition slot_ok :: "cartridge_slot option \<Rightarrow> bool" where
  "slot_ok cart \<longleftrightarrow> (\<forall>s d. cart = Some s \<longrightarrow> slot_device s = Some d \<longrightarrow> device_ok d)"

lemma slot_rom_read_total:
  assumes "slot_ok (Some s)" and "a < 0x8000"
  shows "\<exists>v. slot_read_rom a s = Inr v"
  using assms device_shows [of _ a]
  by (auto simp: slot_ok_def slot_read_rom_def shows_the_image_def split: option.split)

lemma slot_ram_read_total:
  assumes "slot_ok (Some s)"
  shows "\<exists>v s'. slot_read_ram_timed a t s = Inr (v, s') \<and> slot_ok (Some s')"
proof (cases "slot_device s")
  case (Some d)
  with assms have "device_ok d" by (simp add: slot_ok_def)
  from ram_read_kept [OF this, of a t] Some show ?thesis
    by (auto simp: slot_read_ram_timed_def slot_ok_def returns_iff device_kept_def)
qed (use assms in \<open>simp add: slot_read_ram_timed_def\<close>)

lemma slot_ram_write_total:
  assumes "slot_ok (Some s)"
  shows "\<exists>s'. slot_write_ram_timed a v t s = Inr s' \<and> slot_ok (Some s')"
proof (cases "slot_device s")
  case (Some d)
  with assms have "device_ok d" by (simp add: slot_ok_def)
  from ram_write_kept [OF this, of a v t] Some show ?thesis
    by (auto simp: slot_write_ram_timed_def with_device_def slot_ok_def returns_iff device_kept_def)
qed (use assms in \<open>simp add: slot_write_ram_timed_def with_device_def\<close>)

lemma slot_rom_write_total:
  assumes "slot_ok (Some s)"
  shows "\<exists>s'. slot_write_rom a v s = Inr s' \<and> slot_ok (Some s')"
proof (cases "slot_device s")
  case (Some d)
  with assms have "device_ok d" by (simp add: slot_ok_def)
  from rom_write_kept [OF this, of a v] Some show ?thesis
    by (auto simp: slot_write_rom_def with_device_def slot_ok_def returns_iff device_kept_def)
qed (use assms in \<open>simp add: slot_write_rom_def with_device_def\<close>)

subsection \<open>Where an access goes\<close>

lemma decoded_region:
  "info_region (decode_address a) \<noteq> RegionBootRom"
  "region_domain (info_region (decode_address a)) = DomainWram \<Longrightarrow> in_wram a"
  "region_domain (info_region (decode_address a)) = DomainCartridge \<Longrightarrow>
     info_region (decode_address a) = RegionCartridgeExternal \<or> a < 0x8000"
  by (auto simp: decode_address_def bus_address_info_new_def in_wram_def word_less_nat_alt word_le_nat_alt
      split: if_splits)

lemma decoded_offset:
  "info_region (decode_address a) = RegionVram \<Longrightarrow> unat (info_region_offset (decode_address a)) < DMG_VRAM_LEN"
  "info_region (decode_address a) = RegionOam \<Longrightarrow> unat (info_region_offset (decode_address a)) < OAM_LEN"
  "info_region (decode_address a) = RegionHram \<Longrightarrow> unat (info_region_offset (decode_address a)) < HRAM_LEN"
  using decode_address_ranges(1) [of a] by (simp_all add: memory_lengths)

text \<open>The target of a resolved access is a decoded address, or the boot ROM for a read.\<close>

definition proper_target :: "bus_access_kind \<Rightarrow> bus_address_info \<Rightarrow> bool" where
  "proper_target kind target \<longleftrightarrow>
     target = decode_address (info_address target)
     \<or> kind = AccessRead \<and> info_region target = RegionBootRom"

lemma nominal_target_proper: "proper_target kind (resolve_nominal_target kind a st)"
  by (simp add: proper_target_def resolve_nominal_target_def bus_address_info_new_def)

lemma resolved_target_proper:
  "proper_target kind (res_target (resolve_requester_access b requester kind a st cart))"
  by (simp add: resolve_requester_access_def Let_def nominal_target_proper split: option.split)

definition fits_kind :: "bus_access_kind \<Rightarrow> bus_access_disposition \<Rightarrow> bool" where
  "fits_kind kind disposition \<longleftrightarrow>
     (case disposition of
        AccessAllowed \<Rightarrow> True
      | BlockedRead v _ \<Rightarrow> kind = AccessRead \<and> v = BLOCKED_READ_VALUE
      | IgnoredWrite _ \<Rightarrow> kind = AccessWrite)"

lemma block_access_fits [simp]: "fits_kind kind (block_access kind reason)"
  by (cases kind) (simp_all add: fits_kind_def)

lemma policies_fit:
  "evaluate_global_dma_policy requester kind target st = Some disposition \<Longrightarrow> fits_kind kind disposition"
  "evaluate_domain_policy requester kind target st = Some disposition \<Longrightarrow> fits_kind kind disposition"
  by (auto simp: evaluate_global_dma_policy_def evaluate_domain_policy_def vram_evaluate_access_def
      oam_evaluate_access_def split: if_splits dma_cpu_access_policy.splits ppu_access_mode.splits)

lemma unusable_policy_fits:
  assumes "evaluate_unusable_policy b requester kind target st = Some disposition"
  shows "fits_kind kind disposition"
proof -
  have "map_or True runtime_fallback_writes_ignored (bus_describe_unusable_area (info_address target) b)"
    by (simp add: map_or_def bus_describe_unusable_area_def describe_unusable_area_def)
  with assms show ?thesis
    by (cases kind) (auto simp: evaluate_unusable_policy_def fits_kind_def split: if_splits)
qed

lemma resolved_disposition_fits:
  "fits_kind kind (res_disposition (resolve_requester_access b requester kind a st cart))"
proof -
  have "fits_kind kind (evaluate_access_policy b requester kind target st)" for target
    using policies_fit unusable_policy_fits
    by (auto simp: evaluate_access_policy_def fits_kind_def [of _ AccessAllowed] split: option.split)
  then show ?thesis
    by (simp add: resolve_requester_access_def Let_def fits_kind_def [of _ AccessAllowed] split: option.split)
qed

subsection \<open>No access panics\<close>

lemma memory_writes_keep_models:
  "wram_write a v w = Inr w' \<Longrightarrow> wram_console_model w' = wram_console_model w"
  "vram_write i v d = Inr d' \<Longrightarrow> vram_console_model d' = vram_console_model d"
  by (auto simp: wram_write_def vram_write_def index_set_def res_bind_eq_Inr split: if_splits)

lemma iohram_read_total:
  assumes "bus_wf b" and "target = decode_address (info_address target)"
    and "region_domain (info_region target) = DomainIoHram"
  shows "\<exists>v. iohram_read svc m mode target io (bus_iohram b) = Inr v"
proof (cases "info_region target = RegionHram")
  case True
  with assms(1) decoded_offset(3) [of "info_address target"] assms(2) [symmetric] show ?thesis
    by (simp add: iohram_read_def bus_wf_def)
next
  case False
  with assms(3) read_io_target_total show ?thesis
    by (cases "info_region target") (simp_all add: iohram_read_def)
qed

lemma perform_allowed_read_timed_total:
  assumes wf: "bus_wf b" and slot: "slot_ok cart" and target: "proper_target AccessRead target"
  shows "\<exists>v cart'. perform_allowed_read_timed svc target t cart io b = Inr (v, cart') \<and> slot_ok cart'"
proof (cases "info_region target = RegionBootRom")
  case True
  with slot show ?thesis by (simp add: perform_allowed_read_timed_def)
next
  case False
  with target have dec: "target = decode_address (info_address target)"
    by (simp add: proper_target_def)
  note offset = decoded_offset [of "info_address target", folded dec]
  note region = decoded_region [of "info_address target", folded dec]
  show ?thesis
  proof (cases "region_domain (info_region target)")
    case DomainCartridge
    with region(3) have "info_region target = RegionCartridgeExternal
        \<or> (info_region target = RegionCartridgeRomBank0 \<or> info_region target = RegionCartridgeRomBankN)
          \<and> info_address target < 0x8000"
      by (cases "info_region target") auto
    with slot_rom_read_total [of _ "info_address target"] slot_ram_read_total [of _ "info_address target" t]
      slot DomainCartridge
    show ?thesis
      by (cases cart) (fastforce simp: perform_allowed_read_timed_def read_cartridge_target_timed_def)+
  next
    case DomainVram
    then have "info_region target = RegionVram" by (cases "info_region target") simp_all
    with DomainVram vram.read_total [OF _ offset(1), of "bus_vram b"] wf slot show ?thesis
      by (auto simp: perform_allowed_read_timed_def bus_wf_def)
  next
    case DomainOam
    then have "info_region target = RegionOam" by (cases "info_region target") simp_all
    with DomainOam oam.read_total [OF _ offset(2), of "bus_oam b"] wf slot show ?thesis
      by (auto simp: perform_allowed_read_timed_def bus_wf_def)
  next
    case DomainWram
    with wram.read_total [OF _ region(2), of "bus_wram b"] wf slot show ?thesis
      by (auto simp: perform_allowed_read_timed_def bus_wf_def)
  next
    case DomainIoHram
    with iohram_read_total [OF wf dec, of svc "bus_console_model b" "bus_operating_mode b" io] slot
    show ?thesis
      by (auto simp: perform_allowed_read_timed_def read_iohram_target_def split: option.split)
  qed (use slot in \<open>simp_all add: perform_allowed_read_timed_def\<close>)
qed

lemma bank_selects [simp]:
  "vram_wf d \<Longrightarrow> vram_wf (write_vbk v d)" "wram_wf w \<Longrightarrow> wram_wf (write_svbk v w)"
  "vram_console_model (write_vbk v d) = vram_console_model d"
  "wram_console_model (write_svbk v w) = wram_console_model w"
  by (simp_all add: vram_wf_def write_vbk_def wram_wf_def write_svbk_def and.assoc)

lemma owned_io_keeps_bus_wf:
  assumes "bus_wf b"
  shows "bus_wf (snd (write_cgb_bus_owned_io a v b))"
  using assms
  by (auto simp: write_cgb_bus_owned_io_def bus_wf_def iohram_write_key0_def write_cgb_misc_io_def
      split: option.split)

lemma write_iohram_target_total:
  assumes wf: "bus_wf b" and dec: "target = decode_address (info_address target)"
    and dom: "region_domain (info_region target) = DomainIoHram"
  shows "\<exists>b' io'. write_iohram_target svc target v io b = Inr (b', io') \<and> bus_wf b'"
proof -
  have general: "\<exists>d' io'. iohram_write svc m mode target v io (bus_iohram b) = Inr (d', io')
      \<and> length (hram d') = HRAM_LEN" for m mode
  proof (cases "info_region target = RegionHram")
    case True
    with wf decoded_offset(3) [of "info_address target"] dec [symmetric] show ?thesis
      by (simp add: iohram_write_def bus_wf_def)
  next
    case False
    with dom write_io_target_total [of svc m mode "info_address target" v io "bus_iohram b"] wf show ?thesis
      by (cases "info_region target") (auto simp: iohram_write_def bus_wf_def)
  qed
  obtain owned b' where o: "(if info_region target = RegionMmio
         then write_cgb_bus_owned_io (info_address target) v b else (False, b)) = (owned, b')" by force
  have "bus_wf b'"
    using owned_io_keeps_bus_wf [OF wf, of "info_address target" v] wf o by (auto split: if_splits)
  with general [of "bus_console_model b" "bus_operating_mode b"] wf show ?thesis
    by (auto simp: write_iohram_target_def o bus_wf_def)
qed

lemma perform_allowed_write_timed_total:
  assumes wf: "bus_wf b" and slot: "slot_ok cart" and target: "proper_target AccessWrite target"
  shows "\<exists>b' cart' io'. perform_allowed_write_timed svc target v t cart io b = Inr (b', cart', io')
    \<and> bus_wf b' \<and> slot_ok cart'"
proof -
  from target have dec: "target = decode_address (info_address target)"
    by (simp add: proper_target_def)
  note offset = decoded_offset [of "info_address target", folded dec]
  note region = decoded_region [of "info_address target", folded dec]
  show ?thesis
  proof (cases "region_domain (info_region target)")
    case DomainBootRom
    with region(1) show ?thesis by (cases "info_region target") simp_all
  next
    case DomainCartridge
    then have "info_region target = RegionCartridgeExternal
        \<or> info_region target = RegionCartridgeRomBank0 \<or> info_region target = RegionCartridgeRomBankN"
      by (cases "info_region target") auto
    with slot_rom_write_total [of _ "info_address target" v] slot_ram_write_total [of _ "info_address target" v t]
      slot DomainCartridge wf
    show ?thesis
      by (cases cart) (fastforce simp: perform_allowed_write_timed_def write_cartridge_target_timed_def)+
  next
    case DomainVram
    then have "info_region target = RegionVram" by (cases "info_region target") simp_all
    with DomainVram vram.write_keeps [OF _ offset(1), of "bus_vram b" v] wf slot show ?thesis
      by (auto simp: perform_allowed_write_timed_def bus_wf_def memory_writes_keep_models)
  next
    case DomainOam
    then have "info_region target = RegionOam" by (cases "info_region target") simp_all
    with DomainOam oam.write_keeps [OF _ offset(2), of "bus_oam b" v] wf slot show ?thesis
      by (auto simp: perform_allowed_write_timed_def bus_wf_def)
  next
    case DomainWram
    with wram.write_keeps [OF _ region(2), of "bus_wram b" v] wf slot show ?thesis
      by (auto simp: perform_allowed_write_timed_def bus_wf_def memory_writes_keep_models)
  next
    case DomainUnusable
    with wf slot show ?thesis by (simp add: perform_allowed_write_timed_def)
  next
    case DomainIoHram
    with write_iohram_target_total [OF wf dec, of svc v io] slot show ?thesis
      by (auto simp: perform_allowed_write_timed_def)
  qed
qed

subsection \<open>Fast paths\<close>

definition read_by_resolution ::
    "('apu, 'ppu) io_services \<Rightarrow> u16 \<Rightarrow> bus_requester \<Rightarrow> bus_arbitration_state \<Rightarrow> u64
     \<Rightarrow> cartridge_slot option \<Rightarrow> ('apu, 'ppu) bus_io_read_view \<Rightarrow> bus
     \<Rightarrow> (u8 \<times> cartridge_slot option) res" where
  "read_by_resolution svc a requester st t cart io b =
     (let resolution = resolve_requester_access b requester AccessRead a st cart
      in case res_disposition resolution of
           AccessAllowed \<Rightarrow> perform_allowed_read_timed svc (res_target resolution) t cart io b
         | BlockedRead v _ \<Rightarrow> Inr (v, cart)
         | IgnoredWrite _ \<Rightarrow> Inl ExplicitPanic)"

definition write_by_resolution ::
    "('apu, 'ppu) io_services \<Rightarrow> u16 \<Rightarrow> u8 \<Rightarrow> bus_requester \<Rightarrow> bus_arbitration_state \<Rightarrow> u64
     \<Rightarrow> cartridge_slot option \<Rightarrow> ('apu, 'ppu) bus_io_write_view \<Rightarrow> bus
     \<Rightarrow> ('apu, 'ppu) bus_write_result" where
  "write_by_resolution svc a v requester st t cart io b =
     (let resolution = resolve_requester_access b requester AccessWrite a st cart
      in case res_disposition resolution of
           AccessAllowed \<Rightarrow> perform_allowed_write_timed svc (res_target resolution) v t cart io b
         | IgnoredWrite _ \<Rightarrow> Inr (b, cart, io)
         | BlockedRead _ _ \<Rightarrow> Inl ExplicitPanic)"

text \<open>An address with a fast path, when DMA leaves the CPU alone, is neither blocked nor redirected.\<close>

lemma hot_region:
  assumes "address_uses_hot_cpu_timed_fast_path a"
  shows "info_region (decode_address a) \<in> {RegionCartridgeRomBank0, RegionCartridgeRomBankN,
    RegionCartridgeExternal, RegionWramBank0, RegionWramBankN, RegionEchoRam}"
  using assms
  by (auto simp: address_uses_hot_cpu_timed_fast_path_def decode_address_def bus_address_info_new_def
      word_le_nat_alt)

lemma hot_resolution:
  assumes "address_uses_hot_cpu_timed_fast_path a" and "cpu_access_policy (arb_dma st) = DmaUnrestricted"
    and "resolve_nominal_target kind a st = decode_address a"
  shows "res_disposition (resolve_requester_access b ReqCpu kind a st cart) = AccessAllowed
    \<and> res_target (resolve_requester_access b ReqCpu kind a st cart) = decode_address a"
  using hot_region [OF assms(1)] assms(2,3)
  by (auto simp: resolve_requester_access_def cpu_dma_conflict_source_address_def evaluate_access_policy_def
      evaluate_global_dma_policy_def evaluate_domain_policy_def evaluate_unusable_policy_def Let_def)

lemma fast_read_is_resolution:
  assumes "try_read_timed_fast_path a requester st t cart b = Some result"
  shows "read_by_resolution svc a requester st t cart io b = result"
proof -
  from assms have c: "requester = ReqCpu" "cpu_access_policy (arb_dma st) = DmaUnrestricted"
    "\<not> overlays_read a (arb_boot_rom st)" and hot: "address_uses_hot_cpu_timed_fast_path a"
    by (auto simp: try_read_timed_fast_path_def address_uses_hot_cpu_timed_fast_path_def split: if_splits)
  have "resolve_nominal_target AccessRead a st = decode_address a"
    using c by (simp add: resolve_nominal_target_def)
  note r = hot_resolution [OF hot c(2) this, of b cart]
  have "read_by_resolution svc a requester st t cart io b
      = perform_allowed_read_timed svc (decode_address a) t cart io b"
    using r c by (simp add: read_by_resolution_def)
  moreover have "perform_allowed_read_timed svc (decode_address a) t cart io b = result"
    using assms hot c
    by (auto simp: try_read_timed_fast_path_def address_uses_hot_cpu_timed_fast_path_def
        perform_allowed_read_timed_def read_cartridge_target_timed_def decode_address_def
        bus_address_info_new_def word_le_nat_alt split: if_splits option.splits)
  ultimately show ?thesis by simp
qed

lemma fast_write_is_resolution:
  assumes "try_write_timed_fast_path a v requester st t cart b = Some result"
  shows "write_by_resolution svc a v requester st t cart io b = res_map (\<lambda>(b', cart'). (b', cart', io)) result"
proof -
  from assms have c: "requester = ReqCpu" "cpu_access_policy (arb_dma st) = DmaUnrestricted"
    and hot: "address_uses_hot_cpu_timed_fast_path a"
    by (auto simp: try_write_timed_fast_path_def address_uses_hot_cpu_timed_fast_path_def split: if_splits)
  have "resolve_nominal_target AccessWrite a st = decode_address a"
    by (simp add: resolve_nominal_target_def)
  note r = hot_resolution [OF hot c(2) this, of b cart]
  have "write_by_resolution svc a v requester st t cart io b
      = perform_allowed_write_timed svc (decode_address a) v t cart io b"
    using r c by (simp add: write_by_resolution_def)
  moreover have "perform_allowed_write_timed svc (decode_address a) v t cart io b
      = res_map (\<lambda>(b', cart'). (b', cart', io)) result"
    using assms hot c
    by (auto simp: try_write_timed_fast_path_def address_uses_hot_cpu_timed_fast_path_def
        perform_allowed_write_timed_def decode_address_def
        bus_address_info_new_def word_le_nat_alt Let_def split: if_splits)
  ultimately show ?thesis by simp
qed

lemma read_is_resolution:
  "read_with_t_cycle_context svc a requester st t cart io b
     = read_by_resolution svc a requester st t cart io b"
proof (cases "try_read_timed_fast_path a requester st t cart b")
  case None
  then show ?thesis by (simp add: read_with_t_cycle_context_def read_by_resolution_def)
next
  case (Some result)
  from fast_read_is_resolution [OF Some, of svc io] Some show ?thesis
    by (simp add: read_with_t_cycle_context_def)
qed

lemma write_is_resolution:
  "write_with_t_cycle_context svc a v requester st t cart io b
     = write_by_resolution svc a v requester st t cart io b"
proof (cases "try_write_timed_fast_path a v requester st t cart b")
  case None
  then show ?thesis by (simp add: write_with_t_cycle_context_def write_by_resolution_def)
next
  case (Some result)
  from fast_write_is_resolution [OF Some, of svc io] Some show ?thesis
    by (simp add: write_with_t_cycle_context_def)
qed

lemma resolution_read_total:
  assumes "bus_wf b" and "slot_ok cart"
  shows "\<exists>x cart'. read_by_resolution svc a requester st t cart io b = Inr (x, cart') \<and> slot_ok cart'"
  using perform_allowed_read_timed_total [OF assms resolved_target_proper, of svc b requester a st cart t io]
    resolved_disposition_fits [of AccessRead b requester a st cart] assms(2)
  by (auto simp: read_by_resolution_def Let_def fits_kind_def split: bus_access_disposition.splits)

lemma resolution_write_total:
  assumes "bus_wf b" and "slot_ok cart"
  shows "\<exists>b' cart' io'. write_by_resolution svc a v requester st t cart io b = Inr (b', cart', io')
    \<and> bus_wf b' \<and> slot_ok cart'"
  using perform_allowed_write_timed_total [OF assms resolved_target_proper, of svc b requester a st cart v t io]
    resolved_disposition_fits [of AccessWrite b requester a st cart] assms
  by (auto simp: write_by_resolution_def Let_def fits_kind_def split: bus_access_disposition.splits)

subsection \<open>Work RAM seen by the CPU\<close>

text \<open>
  What the CPU does to work RAM: storing bytes there and writing the bank register at FF70. Every
  access has its own arbitration state and T-cycle.
\<close>

datatype wram_access = StoreByte u16 u8 | SelectBank u8

fun cpu_wram_access ::
    "('apu, 'ppu) io_services \<Rightarrow> bus_arbitration_state \<times> u64 \<times> wram_access \<Rightarrow> cartridge_slot option
     \<Rightarrow> ('apu, 'ppu) bus_io_write_view \<Rightarrow> bus \<Rightarrow> ('apu, 'ppu) bus_write_result" where
  "cpu_wram_access svc (st, t, StoreByte a v) cart io b =
     write_with_t_cycle_context svc a v ReqCpu st t cart io b"
| "cpu_wram_access svc (st, t, SelectBank v) cart io b =
     write_with_t_cycle_context svc 0xFF70 v ReqCpu st t cart io b"

primrec cpu_wram_accesses ::
    "('apu, 'ppu) io_services \<Rightarrow> (bus_arbitration_state \<times> u64 \<times> wram_access) list
     \<Rightarrow> cartridge_slot option \<Rightarrow> ('apu, 'ppu) bus_io_write_view \<Rightarrow> bus
     \<Rightarrow> ('apu, 'ppu) bus_write_result" where
  "cpu_wram_accesses svc [] cart io b = Inr (b, cart, io)"
| "cpu_wram_accesses svc (x # xs) cart io b =
     res_bind (cpu_wram_access svc x cart io b)
       (\<lambda>(b', cart', io'). cpu_wram_accesses svc xs cart' io' b')"

text \<open>
  The reference: eight banks of 4 KiB and a bank number. The lower half of the work RAM area and
  of its echo is bank 0; the upper half is the selected bank on a CGB, with bank 1 in place of
  bank 0, and bank 1 on a DMG. Only the modes with CGB registers can select a bank.
\<close>

type_synonym reference_wram = "nat \<times> (nat \<times> nat \<Rightarrow> u8)"

definition reference_cell :: "console_model \<Rightarrow> nat \<Rightarrow> u16 \<Rightarrow> nat \<times> nat" where
  "reference_cell m selected a =
     (if unat a div 0x1000 \<in> {0xC, 0xE} then 0 else if is_cgb_family m then max 1 selected else 1,
      unat a mod 0x1000)"

fun reference_step :: "console_model \<Rightarrow> operating_mode \<Rightarrow> wram_access \<Rightarrow> reference_wram \<Rightarrow> reference_wram" where
  "reference_step m mode (StoreByte a v) (selected, mem) =
     (selected, mem(reference_cell m selected a := v))"
| "reference_step m mode (SelectBank v) (selected, mem) =
     (if is_cgb_family m \<and> mode \<in> {ModeCgb, ModeCgbDmgExt} then unat v mod 8 else selected, mem)"

definition reference_of :: "bus \<Rightarrow> reference_wram" where
  "reference_of b =
     (unat (selected_bank_register (bus_wram b)) mod 8,
      \<lambda>(bank, offset). wram_bytes (bus_wram b) ! (bank * 0x1000 + offset))"

definition follows_reference :: "bus \<Rightarrow> console_model \<Rightarrow> operating_mode \<Rightarrow> reference_wram \<Rightarrow> bool" where
  "follows_reference b m mode r \<longleftrightarrow>
     bus_wf b \<and> bus_console_model b = m \<and> bus_operating_mode b = mode
     \<and> fst r = unat (selected_bank_register (bus_wram b)) mod 8
     \<and> (\<forall>bank < 8. \<forall>offset < 0x1000.
          snd r (bank, offset) = wram_bytes (bus_wram b) ! (bank * 0x1000 + offset))"

lemma follows_reference_of:
  "bus_wf b \<Longrightarrow> follows_reference b (bus_console_model b) (bus_operating_mode b) (reference_of b)"
  by (simp add: follows_reference_def reference_of_def)

lemma selected_bank_number:
  "unat (selected_wram_bank w) = max 1 (unat (selected_bank_register w) mod 8)"
  by (simp add: selected_wram_bank_def Let_def unat_and_7 word_unat_eq_iff)

lemma reference_cell_in_range:
  assumes "selected < 8"
  shows "fst (reference_cell m selected a) < 8 \<and> snd (reference_cell m selected a) < 0x1000"
  using assms by (simp add: reference_cell_def)

lemma quarter_cases:
  "n \<le> 0xCFFF \<or> 0xD000 \<le> n \<and> n \<le> 0xDFFF \<or> 0xE000 \<le> n \<and> n \<le> 0xEFFF \<or> 0xF000 \<le> (n::nat)"
  by linarith

lemma bank_of_position:
  assumes "k * 0x1000 \<le> n" and "n < k * 0x1000 + (0x1000::nat)"
  shows "n div 0x1000 = k \<and> n mod 0x1000 = n - k * 0x1000"
proof -
  obtain r where "n = k * 0x1000 + r" "r < 0x1000"
    using assms by (metis le_Suc_ex nat_add_left_cancel_less)
  then show ?thesis by simp
qed

lemma wram_index_is_reference_cell:
  assumes "in_wram a"
  shows "wram_index a w = Inr (fst (reference_cell (wram_console_model w) (unat (selected_bank_register w) mod 8) a)
      * 0x1000 + unat a mod 0x1000)"
proof -
  have "0xC000 \<le> unat a" "unat a \<le> 0xFDFF"
    using assms by (simp_all add: in_wram_def word_le_nat_alt)
  then consider (c) "0xC000 \<le> unat a" "unat a \<le> 0xCFFF" | (d) "0xD000 \<le> unat a" "unat a \<le> 0xDFFF"
    | (e) "0xE000 \<le> unat a" "unat a \<le> 0xEFFF" | (f) "0xF000 \<le> unat a" "unat a \<le> 0xFDFF"
    using quarter_cases [of "unat a"] by blast
  then show ?thesis
  proof cases
    case c
    then have "unat a div 0x1000 = 0xC" "unat a mod 0x1000 = unat a - 0xC000"
      using bank_of_position [of 12 "unat a"] by simp_all
    with c show ?thesis
      by (simp add: wram_index_def reference_cell_def word_le_nat_alt unat_sub_if')
  next
    case d
    then have "unat a div 0x1000 = 0xD" "unat a mod 0x1000 = unat a - 0xD000"
      using bank_of_position [of 13 "unat a"] by simp_all
    with d show ?thesis
      by (simp add: wram_index_def reference_cell_def word_le_nat_alt unat_sub_if'
          wram_switchable_bank_index_def selected_bank_number)
  next
    case e
    then have "unat a div 0x1000 = 0xE" "unat a mod 0x1000 = unat a - 0xE000"
      using bank_of_position [of 14 "unat a"] by simp_all
    with e show ?thesis
      by (simp add: wram_index_def reference_cell_def word_le_nat_alt unat_sub_if')
  next
    case f
    then have "unat a div 0x1000 = 0xF" "unat a mod 0x1000 = unat a - 0xF000"
      using bank_of_position [of 15 "unat a"] by simp_all
    with f show ?thesis
      by (simp add: wram_index_def reference_cell_def word_le_nat_alt unat_sub_if'
          wram_switchable_bank_index_def selected_bank_number)
  qed
qed

lemma in_wram_not_overlaid: "in_wram a \<Longrightarrow> \<not> overlays_read a boot"
  by (simp add: in_wram_def overlays_read_def word_le_nat_alt)

lemma cpu_read_wram:
  assumes "in_wram a" and "cpu_access_policy (arb_dma st) = DmaUnrestricted"
  shows "read_with_t_cycle_context svc a ReqCpu st t cart io b
    = res_map (\<lambda>v. (v, cart)) (wram_read a (bus_wram b))"
proof -
  have "try_read_timed_fast_path a ReqCpu st t cart b
      = Some (res_map (\<lambda>v. (v, cart)) (wram_read a (bus_wram b)))"
    using assms in_wram_not_overlaid [OF assms(1), of "arb_boot_rom st"]
    by (simp add: try_read_timed_fast_path_def in_wram_def word_le_nat_alt)
  then show ?thesis by (simp add: read_with_t_cycle_context_def)
qed

lemma cpu_write_wram:
  assumes "in_wram a" and "cpu_access_policy (arb_dma st) = DmaUnrestricted"
  shows "write_with_t_cycle_context svc a v ReqCpu st t cart io b
    = res_map (\<lambda>w. (b\<lparr>bus_wram := w\<rparr>, cart, io)) (wram_write a v (bus_wram b))"
proof -
  have "try_write_timed_fast_path a v ReqCpu st t cart b
      = Some (res_map (\<lambda>w. (b\<lparr>bus_wram := w\<rparr>, cart)) (wram_write a v (bus_wram b)))"
    using assms by (simp add: try_write_timed_fast_path_def in_wram_def word_le_nat_alt)
  then show ?thesis by (simp add: write_with_t_cycle_context_def)
qed

lemma described_svbk:
  "describe_io_register 0xFF70 = Some \<lparr>io_address = 0xFF70, io_owner = io_register_owner.OwnerMemoryController,
      io_availability = AvailCgbOnly, io_implementation = IoImplemented, io_access = IoMixed, io_kind = RegSvbk\<rparr>"
  by code_simp

lemma cpu_write_svbk:
  assumes "cpu_access_policy (arb_dma st) = DmaUnrestricted"
  shows "write_with_t_cycle_context svc 0xFF70 v ReqCpu st t cart io b
    = Inr (if is_cgb_family (bus_console_model b) \<and> bus_operating_mode b \<in> {ModeCgb, ModeCgbDmgExt}
           then b\<lparr>bus_wram := write_svbk v (bus_wram b)\<rparr> else b, cart, io)"
proof -
  have d: "decode_address 0xFF70 = bus_address_info_new 0xFF70 RegionMmio 0x70"
    by (simp add: decode_address_def)
  have "write_cgb_bus_owned_io 0xFF70 v b =
      (True, if is_cgb_family (bus_console_model b) \<and> bus_operating_mode b \<in> {ModeCgb, ModeCgbDmgExt}
             then b\<lparr>bus_wram := write_svbk v (bus_wram b)\<rparr> else b)"
    by (cases "bus_operating_mode b")
      (simp_all add: write_cgb_bus_owned_io_def described_svbk bus_owned_io_kinds_def io_register_info_is_live_def
        io_register_kind_is_available_def cgb_io_register_is_available_def enables_cgb_extensions_def)
  then show ?thesis
    using assms
    by (simp add: write_is_resolution write_by_resolution_def Let_def resolve_requester_access_def
        cpu_dma_conflict_source_address_def evaluate_access_policy_def evaluate_global_dma_policy_def
        evaluate_domain_policy_def evaluate_unusable_policy_def resolve_nominal_target_def d
        bus_address_info_new_def perform_allowed_write_timed_def write_iohram_target_def)
qed

fun undisturbed_access :: "bus_arbitration_state \<times> u64 \<times> wram_access \<Rightarrow> bool" where
  "undisturbed_access (st, t, x) \<longleftrightarrow>
     cpu_access_policy (arb_dma st) = DmaUnrestricted
     \<and> (case x of StoreByte a v \<Rightarrow> 0xC000 \<le> a \<and> a \<le> 0xFDFF | SelectBank v \<Rightarrow> True)"

lemma cell_position_inj:
  assumes "o1 < 0x1000" and "o2 < (0x1000::nat)"
  shows "bank1 * 0x1000 + o1 = bank2 * 0x1000 + o2 \<longleftrightarrow> bank1 = bank2 \<and> o1 = o2"
proof -
  have "(bank1 * 0x1000 + o1) div 0x1000 = bank1" "(bank1 * 0x1000 + o1) mod 0x1000 = o1"
    "(bank2 * 0x1000 + o2) div 0x1000 = bank2" "(bank2 * 0x1000 + o2) mod 0x1000 = o2"
    using assms by simp_all
  then show ?thesis by metis
qed

lemma store_follows_reference:
  assumes "follows_reference b m mode r" and "in_wram a"
  shows "\<exists>w. wram_write a v (bus_wram b) = Inr w
    \<and> follows_reference (b\<lparr>bus_wram := w\<rparr>) m mode (reference_step m mode (StoreByte a v) r)"
proof -
  let ?w = "bus_wram b" and ?cell = "reference_cell m (fst r) a"
  let ?i = "fst ?cell * 0x1000 + unat a mod 0x1000"
  have wf: "bus_wf b" "wram_console_model ?w = m" and sel: "fst r = unat (selected_bank_register ?w) mod 8"
    using assms(1) by (auto simp: follows_reference_def bus_wf_def)
  have i: "wram_index a ?w = Inr ?i"
    using wram_index_is_reference_cell [OF assms(2), of ?w] wf(2) sel by simp
  obtain w where w: "wram_write a v ?w = Inr w" and "wram_wf w"
    using wram.write_keeps [OF _ assms(2), of ?w v] wf(1) by (auto simp: bus_wf_def)
  have "?i < CGB_WRAM_LEN" using wram_index_in_range [OF assms(2), of ?w] i by auto
  moreover have "length (wram_bytes ?w) = CGB_WRAM_LEN" using wf(1) by (simp add: bus_wf_def wram_wf_def)
  ultimately have w': "w = ?w\<lparr>wram_bytes := (wram_bytes ?w)[?i := v]\<rparr>" and len: "?i < length (wram_bytes ?w)"
    using w i by (simp_all add: wram_write_def)
  have range: "fst ?cell < 8" "snd ?cell = unat a mod 0x1000" "unat a mod 0x1000 < 0x1000"
    using reference_cell_in_range [of "fst r" m a] sel by (simp_all add: reference_cell_def)
  have "(wram_bytes ?w)[?i := v] ! (bank * 0x1000 + offset)
      = (if (bank, offset) = ?cell then v else wram_bytes ?w ! (bank * 0x1000 + offset))"
    if "offset < 0x1000" for bank offset
    using cell_position_inj [OF range(3) that, of "fst ?cell" bank] len range(2)
    by (auto simp: nth_list_update prod_eq_iff)
  then show ?thesis
    using assms(1) w w' \<open>wram_wf w\<close>
    by (cases r) (auto simp: follows_reference_def bus_wf_def)
qed

lemma select_follows_reference:
  assumes "follows_reference b m mode r"
  shows "follows_reference
    (if is_cgb_family (bus_console_model b) \<and> bus_operating_mode b \<in> {ModeCgb, ModeCgbDmgExt}
     then b\<lparr>bus_wram := write_svbk v (bus_wram b)\<rparr> else b) m mode (reference_step m mode (SelectBank v) r)"
  using assms
  by (cases r) (auto simp: follows_reference_def bus_wf_def write_svbk_def unat_and_7 wram_wf_def and.assoc)

lemma accesses_follow_reference:
  assumes "follows_reference b m mode r" and "list_all undisturbed_access xs"
  shows "\<exists>b'. cpu_wram_accesses svc xs cart io b = Inr (b', cart, io)
    \<and> follows_reference b' m mode (fold (reference_step m mode) (map (snd \<circ> snd) xs) r)"
  using assms
proof (induction xs arbitrary: b r)
  case (Cons x xs)
  obtain st t y where x: "x = (st, t, y)" by (cases x)
  have "\<exists>b1. cpu_wram_access svc x cart io b = Inr (b1, cart, io)
      \<and> follows_reference b1 m mode (reference_step m mode y r)"
  proof (cases y)
    case (StoreByte a v)
    then have "in_wram a" "cpu_access_policy (arb_dma st) = DmaUnrestricted"
      using Cons.prems(2) x by (simp_all add: in_wram_def)
    then show ?thesis
      using store_follows_reference [OF Cons.prems(1), of a v] x StoreByte by (auto simp: cpu_write_wram)
  next
    case (SelectBank v)
    then have "cpu_access_policy (arb_dma st) = DmaUnrestricted"
      using Cons.prems(2) x by simp
    then show ?thesis
      using select_follows_reference [OF Cons.prems(1), of v] x SelectBank by (simp add: cpu_write_svbk)
  qed
  then obtain b1 where "cpu_wram_access svc x cart io b = Inr (b1, cart, io)"
    "follows_reference b1 m mode (reference_step m mode y r)" by blast
  then show ?case using Cons.IH [of b1] Cons.prems(2) x by simp
qed simp

lemma read_follows_reference:
  assumes "follows_reference b m mode r" and "in_wram a"
  shows "wram_read a (bus_wram b) = Inr (snd r (reference_cell m (fst r) a))"
proof -
  let ?w = "bus_wram b"
  have wf: "bus_wf b" "wram_console_model ?w = m" and sel: "fst r = unat (selected_bank_register ?w) mod 8"
    using assms(1) by (auto simp: follows_reference_def bus_wf_def)
  let ?cell = "reference_cell m (fst r) a"
  have i: "wram_index a ?w = Inr (fst ?cell * 0x1000 + snd ?cell)"
    using wram_index_is_reference_cell [OF assms(2), of ?w] wf(2) sel by (simp add: reference_cell_def)
  have "fst ?cell < 8" "snd ?cell < 0x1000" using reference_cell_in_range sel by simp_all
  then have "snd r ?cell = wram_bytes ?w ! (fst ?cell * 0x1000 + snd ?cell)"
    using assms(1) unfolding follows_reference_def by (metis prod.collapse)
  moreover have "fst ?cell * 0x1000 + snd ?cell < length (wram_bytes ?w)"
    using wram_index_in_range [OF assms(2), of ?w] i wf(1) by (auto simp: bus_wf_def wram_wf_def)
  ultimately show ?thesis using i by (simp add: wram_read_def)
qed

subsection \<open>Facts about resolutions\<close>

lemma dma_read_resolution:
  "res_disposition (resolve_requester_access b ReqDma AccessRead a st cart) = AccessAllowed
   \<and> res_target (resolve_requester_access b ReqDma AccessRead a st cart) = resolve_nominal_target AccessRead a st"
  by (simp add: resolve_requester_access_def Let_def cpu_dma_conflict_source_address_def
      evaluate_access_policy_def evaluate_global_dma_policy_def evaluate_domain_policy_def
      vram_evaluate_access_def oam_evaluate_access_def evaluate_unusable_policy_def)

lemma io_rows_in_page:
  "list_all (\<lambda>(lo, hi, _). 0xFF00 \<le> lo \<and> (hi \<le> 0xFF7F \<or> lo = 0xFFFF)) io_register_table"
  by (simp add: io_register_table_def io_rows_ports_and_pulse_def io_rows_wave_and_lcd_def
      io_rows_palettes_and_cgb_def io_rows_cgb_system_def)

lemma described_region:
  assumes "describe_io_register a = Some info"
  shows "info_region (decode_address a) = RegionMmio \<or> info_region (decode_address a) = RegionInterruptEnable"
proof -
  obtain lo hi where r: "lo \<le> a" "a \<le> hi" "0xFF00 \<le> lo" "hi \<le> 0xFF7F \<or> lo = 0xFFFF"
    using described_row [OF assms] io_rows_in_page by (force simp: list_all_iff)
  then show ?thesis by (auto simp: decode_address_def bus_address_info_new_def word_le_nat_alt)
qed

lemma access_hit_needs_scan:
  assumes "access_hits_oam_corruption b kind a st"
  shows "ppu_lcd_enabled (arb_ppu st) \<and> ppu_mode (arb_ppu st) = AccessOamScan"
  using assms
  by (cases kind)
    (auto simp: access_hits_oam_corruption_def resolve_access_def resolve_requester_access_def Let_def
      evaluate_access_policy_def evaluate_global_dma_policy_def evaluate_domain_policy_def
      vram_evaluate_access_def oam_evaluate_access_def evaluate_unusable_policy_def
      split: if_splits option.splits dma_cpu_access_policy.splits ppu_access_mode.splits)

subsection \<open>The infrared sensor\<close>

lemma tick_keeps_inputs [simp]:
  "rp_latch (ir_tick_t_cycle s) = rp_latch s"
  "external_optical_input (ir_tick_t_cycle s) = external_optical_input s"
  by (simp_all add: ir_tick_t_cycle_def Let_def)

lemma ticks_keep_inputs [simp]:
  "rp_latch ((ir_tick_t_cycle ^^ n) s) = rp_latch s"
  "external_optical_input ((ir_tick_t_cycle ^^ n) s) = external_optical_input s"
  by (induction n) simp_all

lemma infrared_limits:
  "IR_MAX_T_CYCLES = 51668" "IR_WARMUP_T_CYCLES + IR_THRESHOLD_T_CYCLES = 19900"
  "IR_WARMUP_T_CYCLES + IR_THRESHOLD_T_CYCLES + IR_DECAY_T_CYCLES = 51400"
  by (simp_all add: infrared_constants)

lemma lit_tick:
  assumes "ir_read_enabled s" and "optical_input_active s" and "unat (sensor_counter s) \<le> 51668"
  shows "unat (sensor_counter (ir_tick_t_cycle s)) = min (Suc (unat (sensor_counter s))) 51668
    \<and> (effective_signal_detected (ir_tick_t_cycle s)
        \<longleftrightarrow> 19900 \<le> unat (sensor_counter (ir_tick_t_cycle s)) \<and> unat (sensor_counter (ir_tick_t_cycle s)) \<le> 51400)"
proof -
  let ?c = "min (u32_saturating_add (sensor_counter s) 1) 51668"
  have up: "unat (sensor_counter s + 1) = Suc (unat (sensor_counter s))"
    using assms(3) by (simp add: unat_word_ariths)
  then have "u32_saturating_add (sensor_counter s) 1 = sensor_counter s + 1"
    by (simp add: u32_saturating_add_def word_less_nat_alt)
  then have "unat ?c = min (Suc (unat (sensor_counter s))) 51668"
    using up by (simp add: min_def word_le_nat_alt)
  then show ?thesis
    using assms(1,2) by (simp add: ir_tick_t_cycle_def infrared_limits IR_DECAY_T_CYCLES_def word_le_nat_alt)
qed

lemma lit_sensor:
  assumes "ir_read_enabled s" and "optical_input_active s" and "sensor_counter s = 0"
  shows "unat (sensor_counter ((ir_tick_t_cycle ^^ n) s)) = min n 51668
    \<and> (0 < n \<longrightarrow> (effective_signal_detected ((ir_tick_t_cycle ^^ n) s) \<longleftrightarrow> 19900 \<le> n \<and> n \<le> 51400))"
proof (induction n)
  case 0
  with assms(3) show ?case by simp
next
  case (Suc n)
  have "ir_read_enabled ((ir_tick_t_cycle ^^ n) s)" "optical_input_active ((ir_tick_t_cycle ^^ n) s)"
    using assms by (simp_all add: ir_read_enabled_def optical_input_active_def emitter_on_def)
  with Suc.IH lit_tick [of "(ir_tick_t_cycle ^^ n) s"] show ?case by auto
qed

lemma ir_read_rp_signal:
  assumes "rp_latch s AND 0xC1 = rp_latch s"
  shows "(ir_read_rp s AND 0x02 = 0) \<longleftrightarrow> signal_visible_to_rp s"
proof -
  have "rp_latch s AND 0x02 = (rp_latch s AND 0xC1) AND 0x02" using assms by simp
  also have "\<dots> = 0" by (simp only: and.assoc) simp
  finally show ?thesis
    by (simp add: ir_read_rp_def Let_def infrared_constants bit.conj_disj_distrib2 or_eq_0_iff)
qed

subsection \<open>Save states\<close>

lemma restore_prefix_take:
  assumes "length bytes = n" and "length other = n" and "drop k bytes = replicate (n - k) 0"
  shows "restore_prefix (take k bytes) other = bytes"
proof -
  have "restore_prefix (take k bytes) other = take k bytes @ drop k bytes"
    using assms by (simp add: restore_prefix_def Let_def min_def)
  then show ?thesis by simp
qed

lemma wram_restored:
  assumes "wram_wf w" and "wram_wf w'"
  shows "wram_restore_save_state (wram_capture_save_state w) w' = w"
  using assms restore_prefix_take [of "wram_bytes w" CGB_WRAM_LEN "wram_bytes w'" "wram_debug_len w"]
  by (simp add: wram_restore_save_state_def wram_capture_save_state_def wram_wf_def wram_debug_bytes_def)

lemma vram_restored:
  assumes "vram_wf d" and "vram_wf d'"
  shows "vram_restore_save_state (vram_capture_save_state d) d' = d"
  using assms restore_prefix_take [of "vram_bytes d" CGB_VRAM_LEN "vram_bytes d'" "vram_debug_len d"]
  by (simp add: vram_restore_save_state_def vram_capture_save_state_def vram_wf_def vram_debug_bytes_def)

subsection \<open>A bus out of the factory\<close>

lemma new_bus_wf: "supports_revision m r \<Longrightarrow> bus_wf (bus_new_with_revision_and_operating_mode m r mode)"
  by (simp add: bus_new_with_revision_and_operating_mode_def bus_wf_def wram_wf_def vram_wf_def oam_wf_def
      wram_new_for_model_def vram_new_for_model_def oam_new_def iohram_new_def wram_debug_len_def
      vram_debug_len_def)

end
