(* ===== verification/Bus_Properties.thy ===== *)
theory Bus_Properties
  imports Bus_Laws
begin

text \<open>
  The contract of the bus towards the machine: total and safe accesses, transparent fast paths,
  the memory the CPU sees, who takes it away from the CPU and when, what the console decides,
  the infrared sensor, and the save state.
\<close>

subsection \<open>Accesses\<close>

text \<open>C21. Every access of every master returns: no state of DMA, PPU or boot ROM makes a read or a
  write through the bus panic, and the memories, the bank registers and the cartridge keep their
  invariants.\<close>

theorem bus_accesses_never_panic:
  assumes "bus_wf b" and "slot_ok cart"
  shows "(\<exists>x cart'. read_with_t_cycle_context svc a requester st t cart ior b = Inr (x, cart') \<and> slot_ok cart')
    \<and> (\<exists>b' cart' iow'. write_with_t_cycle_context svc a v requester st t cart iow b = Inr (b', cart', iow')
         \<and> bus_wf b' \<and> slot_ok cart')"
  unfolding read_is_resolution write_is_resolution
  using resolution_read_total [OF assms, of svc a requester st t ior]
    resolution_write_total [OF assms, of svc a v requester st t iow] by blast

text \<open>C22. The fast paths of the timed entry points only save the resolution: a timed read or write gives
  what the general resolution of the same access gives, whatever the state of the arbitration.\<close>

theorem timed_fast_paths_are_transparent:
  "read_with_t_cycle_context svc a requester st t cart ior b = read_by_resolution svc a requester st t cart ior b
   \<and> write_with_t_cycle_context svc a v requester st t cart iow b
       = write_by_resolution svc a v requester st t cart iow b"
  by (simp only: read_is_resolution write_is_resolution)

subsection \<open>The memory the CPU sees\<close>


subsection \<open>Who takes the bus from the CPU\<close>

text \<open>What a transfer holds under each access policy, by address, and where it pulls the CPU along.\<close>

fun dma_holds :: "dma_cpu_access_policy \<Rightarrow> u16 \<Rightarrow> bool" where
  "dma_holds DmaUnrestricted a = False"
| "dma_holds ExternalBusBlocked a = (\<not> (0xFF80 \<le> a \<and> a \<le> 0xFFFE) \<and> a \<noteq> 0xFF46)"
| "dma_holds ExternalBusOnlyBlocked a =
     (a \<le> 0x7FFF \<or> 0xA000 \<le> a \<and> a \<le> 0xBFFF \<or> 0xFE00 \<le> a \<and> a \<le> 0xFE9F)"
| "dma_holds VideoBusBlocked a = (0x8000 \<le> a \<and> a \<le> 0x9FFF \<or> 0xFE00 \<le> a \<and> a \<le> 0xFEFF)"
| "dma_holds WramBusBlocked a = (0xC000 \<le> a \<and> a \<le> 0xFDFF \<or> 0xFE00 \<le> a \<and> a \<le> 0xFE9F)"

fun dma_redirects :: "dma_cpu_access_policy \<Rightarrow> u16 \<Rightarrow> bool" where
  "dma_redirects ExternalBusBlocked a = (a \<le> 0x7FFF \<or> 0xA000 \<le> a \<and> a \<le> 0xFDFF)"
| "dma_redirects ExternalBusOnlyBlocked a = (a \<le> 0x7FFF \<or> 0xA000 \<le> a \<and> a \<le> 0xBFFF)"
| "dma_redirects WramBusBlocked a = (0xC000 \<le> a \<and> a \<le> 0xFDFF)"
| "dma_redirects _ a = False"

lemma conflict_source_is_redirect:
  assumes "resolve_nominal_target kind a st = decode_address a"
  shows "cpu_dma_conflict_source_address ReqCpu a (resolve_nominal_target kind a st) st
    = (if dma_redirects (cpu_access_policy (arb_dma st)) a then cpu_conflict_source_address (arb_dma st) else None)"
  unfolding assms
  by (cases "cpu_access_policy (arb_dma st)")
    (auto simp: cpu_dma_conflict_source_address_def address_uses_hot_cpu_timed_fast_path_def
      address_uses_hot_cpu_external_bus_def address_uses_hot_cpu_wram_bus_def decode_address_def
      bus_address_info_new_def word_le_nat_alt)

lemma held_regions:
  "dma_holds ExternalBusBlocked a \<longleftrightarrow> info_region (decode_address a) \<noteq> RegionHram \<and> a \<noteq> 0xFF46"
  "dma_holds ExternalBusOnlyBlocked a \<longleftrightarrow> info_region (decode_address a) \<in> {RegionCartridgeRomBank0,
     RegionCartridgeRomBankN, RegionCartridgeExternal, RegionOam}"
  "dma_holds VideoBusBlocked a \<longleftrightarrow> info_region (decode_address a) \<in> {RegionVram, RegionOam, RegionUnusable}"
  "dma_holds WramBusBlocked a \<longleftrightarrow> info_region (decode_address a) \<in> {RegionWramBank0, RegionWramBankN,
     RegionEchoRam, RegionOam}"
  by (auto simp: decode_address_def bus_address_info_new_def word_le_nat_alt)

lemma decoded_address_kept: "info_address (decode_address a) = a"
  by (simp add: decode_address_def bus_address_info_new_def)

lemma unusable_writes_ignored:
  "map_or True runtime_fallback_writes_ignored (bus_describe_unusable_area x b)"
  by (simp add: map_or_def bus_describe_unusable_area_def describe_unusable_area_def)

lemma held_accesses_are_blocked:
  assumes "dma_holds (cpu_access_policy (arb_dma st)) a"
  shows "\<exists>reason. evaluate_access_policy b ReqCpu AccessRead (decode_address a) st = BlockedRead 0xFF reason"
    and "\<exists>reason. evaluate_access_policy b ReqCpu AccessWrite (decode_address a) st = IgnoredWrite reason"
  using assms unusable_writes_ignored
  by (cases "cpu_access_policy (arb_dma st)";
      auto simp: evaluate_access_policy_def evaluate_global_dma_policy_def evaluate_domain_policy_def
        evaluate_unusable_policy_def decoded_address_kept BLOCKED_READ_VALUE_def held_regions
        simp del: dma_holds.simps(2,3,4,5))+

lemma free_accesses_ignore_dma:
  assumes "\<not> dma_holds (cpu_access_policy (arb_dma st)) a"
  shows "evaluate_access_policy b ReqCpu kind (decode_address a) st
    = evaluate_access_policy b ReqCpu kind (decode_address a) (st\<lparr>arb_dma := dma_bus_unrestricted\<rparr>)"
  using assms
  by (cases "cpu_access_policy (arb_dma st)"; cases "info_region (decode_address a)")
    (auto simp: evaluate_access_policy_def evaluate_global_dma_policy_def evaluate_domain_policy_def
        evaluate_unusable_policy_def decoded_address_kept held_regions
        vram_evaluate_access_def oam_evaluate_access_def dma_bus_unrestricted_def
        simp del: dma_holds.simps(2,3,4,5) split: ppu_access_mode.split)

text \<open>A CPU access that no transfer redirects is decided by the policies at its own address.\<close>

lemma undirected_cpu_access:
  assumes "resolve_nominal_target AccessRead a st = decode_address a"
    and "cpu_dma_conflict_source_address ReqCpu a (decode_address a) st = None"
  shows "read_with_t_cycle_context svc a ReqCpu st t cart ior b
      = (case evaluate_access_policy b ReqCpu AccessRead (decode_address a) st of
           AccessAllowed \<Rightarrow> perform_allowed_read_timed svc (decode_address a) t cart ior b
         | BlockedRead v _ \<Rightarrow> Inr (v, cart)
         | IgnoredWrite _ \<Rightarrow> Inl ExplicitPanic)"
    and "write_with_t_cycle_context svc a v ReqCpu st t cart iow b
      = (case evaluate_access_policy b ReqCpu AccessWrite (decode_address a) st of
           AccessAllowed \<Rightarrow> perform_allowed_write_timed svc (decode_address a) v t cart iow b
         | IgnoredWrite _ \<Rightarrow> Inr (b, cart, iow)
         | BlockedRead _ _ \<Rightarrow> Inl ExplicitPanic)"
  using assms
  by (simp_all add: read_is_resolution write_is_resolution read_by_resolution_def write_by_resolution_def
      Let_def resolve_requester_access_def resolve_nominal_target_def [of AccessWrite]
      split: bus_access_disposition.split)

text \<open>A write by the DMA unit and a redirected write by the CPU reach the same target; in the
  unusable area neither changes anything.\<close>

lemma dma_write_resolution:
  "write_by_resolution svc src v ReqDma st t cart io b
     = perform_allowed_write_timed svc (decode_address src) v t cart io b"
  by (auto simp: write_by_resolution_def Let_def resolve_requester_access_def
      cpu_dma_conflict_source_address_def evaluate_access_policy_def evaluate_global_dma_policy_def
      evaluate_domain_policy_def vram_evaluate_access_def oam_evaluate_access_def
      evaluate_unusable_policy_def resolve_nominal_target_def perform_allowed_write_timed_def)

text \<open>C24. What an OAM or VRAM transfer does to an access of the CPU, under every access policy the
  arbitration can have and at every address outside a mapped boot ROM. On the bus the transfer
  drives (\<open>dma_redirects\<close>), while it publishes the address it is reading, a CPU read gives what
  the DMA unit reads there, and a CPU write goes to that address instead of its own. Anywhere else
  it holds (\<open>dma_holds\<close>), and on its bus while it publishes nothing, the CPU reads FF and its
  writes are lost. An address it does not hold reads and writes as if there were no transfer.\<close>

theorem dma_takes_the_bus_from_the_cpu:
  assumes "\<not> overlays_read a (arb_boot_rom st)" and "policy = cpu_access_policy (arb_dma st)"
    and "source = (if dma_redirects policy a then cpu_conflict_source_address (arb_dma st) else None)"
  shows "(\<forall>src. source = Some src \<longrightarrow>
       read_with_t_cycle_context svc a ReqCpu st t cart ior b
         = read_with_t_cycle_context svc src ReqDma st t cart ior b
       \<and> write_with_t_cycle_context svc a v ReqCpu st t cart iow b
         = write_with_t_cycle_context svc src v ReqDma st t cart iow b)
    \<and> (source = None \<and> dma_holds policy a \<longrightarrow>
       read_with_t_cycle_context svc a ReqCpu st t cart ior b = Inr (0xFF, cart)
       \<and> write_with_t_cycle_context svc a v ReqCpu st t cart iow b = Inr (b, cart, iow))
    \<and> (\<not> dma_holds policy a \<longrightarrow>
       read_with_t_cycle_context svc a ReqCpu st t cart ior b
         = read_with_t_cycle_context svc a ReqCpu (st\<lparr>arb_dma := dma_bus_unrestricted\<rparr>) t cart ior b
       \<and> write_with_t_cycle_context svc a v ReqCpu st t cart iow b
         = write_with_t_cycle_context svc a v ReqCpu (st\<lparr>arb_dma := dma_bus_unrestricted\<rparr>) t cart iow b)"
proof (intro conjI)
  have nominal: "resolve_nominal_target kind a st = decode_address a"
    "resolve_nominal_target kind a (st\<lparr>arb_dma := dma_bus_unrestricted\<rparr>) = decode_address a" for kind
    using assms(1) by (simp_all add: resolve_nominal_target_def)
  have conflict: "cpu_dma_conflict_source_address ReqCpu a (decode_address a) st = source"
    using conflict_source_is_redirect [OF nominal(1)] assms(2,3) by (simp add: nominal)
  have free: "cpu_dma_conflict_source_address ReqCpu a (decode_address a) (st\<lparr>arb_dma := dma_bus_unrestricted\<rparr>) = None"
    by (simp add: cpu_dma_conflict_source_address_def dma_bus_unrestricted_def)
  have redirects_hold: "dma_redirects policy a \<Longrightarrow> dma_holds policy a"
    by (cases policy) (auto simp: word_le_nat_alt)
  show "\<forall>src. source = Some src \<longrightarrow>
       read_with_t_cycle_context svc a ReqCpu st t cart ior b
         = read_with_t_cycle_context svc src ReqDma st t cart ior b
       \<and> write_with_t_cycle_context svc a v ReqCpu st t cart iow b
         = write_with_t_cycle_context svc src v ReqDma st t cart iow b"
  proof (intro allI impI conjI)
    fix src assume "source = Some src"
    then show "read_with_t_cycle_context svc a ReqCpu st t cart ior b
        = read_with_t_cycle_context svc src ReqDma st t cart ior b"
      using dma_read_resolution [of b src st cart]
      by (simp add: read_is_resolution read_by_resolution_def Let_def
          resolve_requester_access_def [of b ReqCpu] nominal conflict)
    show "write_with_t_cycle_context svc a v ReqCpu st t cart iow b
        = write_with_t_cycle_context svc src v ReqDma st t cart iow b"
      using \<open>source = Some src\<close>
      by (simp add: write_is_resolution dma_write_resolution)
        (simp add: write_by_resolution_def Let_def resolve_requester_access_def nominal conflict
          resolve_nominal_target_def)
  qed
  show "source = None \<and> dma_holds policy a \<longrightarrow>
       read_with_t_cycle_context svc a ReqCpu st t cart ior b = Inr (0xFF, cart)
       \<and> write_with_t_cycle_context svc a v ReqCpu st t cart iow b = Inr (b, cart, iow)"
    using held_accesses_are_blocked [of st a b] assms(2) conflict
    by (auto simp: undirected_cpu_access [OF nominal(1)])
  show "\<not> dma_holds policy a \<longrightarrow>
       read_with_t_cycle_context svc a ReqCpu st t cart ior b
         = read_with_t_cycle_context svc a ReqCpu (st\<lparr>arb_dma := dma_bus_unrestricted\<rparr>) t cart ior b
       \<and> write_with_t_cycle_context svc a v ReqCpu st t cart iow b
         = write_with_t_cycle_context svc a v ReqCpu (st\<lparr>arb_dma := dma_bus_unrestricted\<rparr>) t cart iow b"
  proof (intro impI)
    assume f: "\<not> dma_holds policy a"
    then have "source = None" using redirects_hold assms(3) by auto
    then show "read_with_t_cycle_context svc a ReqCpu st t cart ior b
         = read_with_t_cycle_context svc a ReqCpu (st\<lparr>arb_dma := dma_bus_unrestricted\<rparr>) t cart ior b
       \<and> write_with_t_cycle_context svc a v ReqCpu st t cart iow b
         = write_with_t_cycle_context svc a v ReqCpu (st\<lparr>arb_dma := dma_bus_unrestricted\<rparr>) t cart iow b"
      using free_accesses_ignore_dma [of st a b] f assms(2) conflict
      by (simp add: undirected_cpu_access [OF nominal(1)] undirected_cpu_access [OF nominal(2) free])
  qed
qed

text \<open>C25. The CPU cannot see the video memory that the PPU or a transfer is using: VRAM reads FF and
  loses writes in mode 3 with the display on, and while a transfer holds the whole external bus
  or the video bus; OAM does so in modes 2 and 3 with the display on, and under every policy of a
  transfer. At all other times (display off, HBlank, VBlank, no such transfer) a read gives the
  byte that is stored.\<close>

theorem ppu_hides_what_it_uses:
  assumes "bus_wf b"
    and "drawing = (ppu_lcd_enabled (arb_ppu st) \<and> ppu_mode (arb_ppu st) = AccessDrawing)"
    and "scanning = (ppu_lcd_enabled (arb_ppu st) \<and> ppu_mode (arb_ppu st) = AccessOamScan)"
    and "policy = cpu_access_policy (arb_dma st)"
    and "0x8000 \<le> a \<and> a \<le> 0x9FFF \<and> busy = (drawing \<or> policy \<in> {ExternalBusBlocked, VideoBusBlocked})
           \<and> stored = vram_read (unat (a - 0x8000)) (bus_vram b)
         \<or> 0xFE00 \<le> a \<and> a \<le> 0xFE9F \<and> busy = (drawing \<or> scanning \<or> policy \<noteq> DmaUnrestricted)
           \<and> stored = oam_read (unat (a - 0xFE00)) (bus_oam b)"
  shows "\<exists>byte. stored = Inr byte
    \<and> read_with_t_cycle_context svc a ReqCpu st t cart ior b = Inr (if busy then 0xFF else byte, cart)
    \<and> (busy \<longrightarrow> write_with_t_cycle_context svc a v ReqCpu st t cart iow b = Inr (b, cart, iow))"
proof -
  have nominal: "resolve_nominal_target kind a st = decode_address a" for kind
    using assms(5) by (auto simp: resolve_nominal_target_def overlays_read_def word_le_nat_alt)
  have "\<not> dma_redirects policy a" using assms(5) by (cases policy) (auto simp: word_le_nat_alt)
  then have conflict: "cpu_dma_conflict_source_address ReqCpu a (decode_address a) st = None"
    using conflict_source_is_redirect [OF nominal, of AccessRead] assms(4) by (simp add: nominal)
  note resolution = undirected_cpu_access [OF nominal conflict] evaluate_access_policy_def
    evaluate_global_dma_policy_def evaluate_domain_policy_def vram_evaluate_access_def oam_evaluate_access_def
    evaluate_unusable_policy_def perform_allowed_read_timed_def bus_address_info_new_def BLOCKED_READ_VALUE_def
  from assms(5) show ?thesis
  proof
    assume h: "0x8000 \<le> a \<and> a \<le> 0x9FFF \<and> busy = (drawing \<or> policy \<in> {ExternalBusBlocked, VideoBusBlocked})
        \<and> stored = vram_read (unat (a - 0x8000)) (bus_vram b)"
    then have d: "decode_address a = bus_address_info_new a RegionVram (a - 0x8000)" and ff46: "a \<noteq> 0xFF46"
      by (auto simp: decode_address_def word_le_nat_alt)
    have "unat (a - 0x8000) < DMG_VRAM_LEN"
      using decoded_offset(1) [of a] by (simp add: d bus_address_info_new_def)
    with vram.read_total [of "bus_vram b"] assms(1) obtain byte where "vram_read (unat (a - 0x8000)) (bus_vram b) = Inr byte"
      by (auto simp: bus_wf_def)
    with h assms(2,4) ff46 show ?thesis
      by (cases policy) (auto simp: resolution d)
  next
    assume h: "0xFE00 \<le> a \<and> a \<le> 0xFE9F \<and> busy = (drawing \<or> scanning \<or> policy \<noteq> DmaUnrestricted)
        \<and> stored = oam_read (unat (a - 0xFE00)) (bus_oam b)"
    then have d: "decode_address a = bus_address_info_new a RegionOam (a - 0xFE00)" and ff46: "a \<noteq> 0xFF46"
      by (auto simp: decode_address_def word_le_nat_alt)
    have "unat (a - 0xFE00) < OAM_LEN"
      using decoded_offset(2) [of a] by (simp add: d bus_address_info_new_def)
    with oam.read_total [of "bus_oam b"] assms(1) obtain byte where "oam_read (unat (a - 0xFE00)) (bus_oam b) = Inr byte"
      by (auto simp: bus_wf_def)
    with h assms(2,3,4) ff46 show ?thesis
      by (cases policy; cases "ppu_mode (arb_ppu st)") (auto simp: resolution d)
  qed
qed

subsection \<open>What the console decides\<close>

text \<open>On a DMG console no register of the CGB exists: it reads FF, a write to it changes nothing; and
  on every console the infrared register is routed exactly when the console has the port and the
  operating mode enables it.\<close>

theorem cgb_registers_follow_the_console:
  assumes "describe_io_register a = Some info" and "io_availability info = AvailCgbOnly"
  shows "(is_dmg_family (bus_console_model b) \<longrightarrow>
       read_iohram_target svc (decode_address a) ior b = Inr 0xFF
       \<and> write_iohram_target svc (decode_address a) v iow b = Inr (b, iow))
    \<and> (io_kind info = RegRp \<longrightarrow>
         bus_operating_mode b \<noteq> ModeDmg \<longrightarrow> io_register_info_is_live info b = cgb_infrared_register_enabled b)"
proof -
  have region: "info_region (decode_address a) = RegionMmio \<or> info_region (decode_address a) = RegionInterruptEnable"
    using described_region [OF assms(1)] .
  have dead: "\<not> io_register_kind_is_available (io_kind info) AvailCgbOnly (bus_console_model b) mode"
    if "is_dmg_family (bus_console_model b)" for mode
    using that by (simp add: io_register_kind_is_available_def cgb_io_register_is_available_def
        is_dmg_family_def is_cgb_family_def)
  have "read_iohram_target svc (decode_address a) ior b = Inr 0xFF
      \<and> write_iohram_target svc (decode_address a) v iow b = Inr (b, iow)"
    if "is_dmg_family (bus_console_model b)"
    using region dead [OF that] assms
    by (auto simp: read_iohram_target_def write_iohram_target_def iohram_read_def iohram_write_def
        read_io_target_def write_io_target_def io_register_is_routed_def BLOCKED_READ_VALUE_def
        read_cgb_bus_owned_io_def write_cgb_bus_owned_io_def io_register_info_is_live_def)
  moreover have "io_register_info_is_live info b = cgb_infrared_register_enabled b"
    if "io_kind info = RegRp" "bus_operating_mode b \<noteq> ModeDmg"
    using that assms(2)
    by (cases "bus_operating_mode b"; cases "bus_console_model b")
      (simp_all add: io_register_info_is_live_def io_register_kind_is_available_def cgb_io_register_is_available_def
        cgb_infrared_register_enabled_def has_cgb_infrared_port_def is_cgb_family_def enables_cgb_extensions_def
        enables_cgb_infrared_register_def)
  ultimately show ?thesis by blast
qed

text \<open>C26. The documentation of the bus keeps the CPU on VRAM bank 0 in the compatibility mode of a CGB; in
  the code a write to FF4F selects bank 1 there all the same.\<close>

theorem compatibility_mode_selects_vram_bank_1:
  assumes "is_cgb_family (bus_console_model b)" and "bus_operating_mode b = ModeGbCompatible"
    and "vram_console_model (bus_vram b) = bus_console_model b"
  shows "\<exists>b'. write_iohram_target svc (decode_address 0xFF4F) 0x01 iow b = Inr (b', iow)
    \<and> vram_storage_index offset (bus_vram b') = DMG_VRAM_LEN + offset"
proof -
  have "describe_io_register 0xFF4F = Some \<lparr>io_address = 0xFF4F, io_owner = io_register_owner.OwnerPpu,
      io_availability = AvailCgbOnly, io_implementation = IoImplemented, io_access = IoMixed, io_kind = RegVbk\<rparr>"
    by code_simp
  moreover have "info_region (decode_address 0xFF4F) = RegionMmio"
    by (simp add: decode_address_def bus_address_info_new_def)
  ultimately show ?thesis using assms
    by (simp add: write_iohram_target_def write_cgb_bus_owned_io_def bus_owned_io_kinds_def
        io_register_info_is_live_def io_register_kind_is_available_def cgb_io_register_is_available_def
        enables_cgb_extensions_def write_vbk_def vram_storage_index_def vram_storage_index_for_bank_def)
qed

subsection \<open>Address events\<close>

text \<open>Classifying an address event of the CPU never panics, and only an access to the page FE00 to FEFF
  while the PPU scans OAM with the display on, or an increment or decrement of an address on that
  page by a DMG console, is an event that corrupts OAM.\<close>

theorem oam_corruption_needs_its_page:
  "\<exists>r. classify_oam_corruption_event event st b = Inr r
     \<and> (\<forall>kind. r = Some kind \<longrightarrow>
          (\<exists>x. ev_access_address event = Some x \<and> x AND 0xFF00 = 0xFE00
             \<and> ppu_lcd_enabled (arb_ppu st) \<and> ppu_mode (arb_ppu st) = AccessOamScan)
          \<or> (\<exists>x. idu_glitched_address event = Some x \<and> x AND 0xFF00 = 0xFE00
             \<and> is_dmg_family (bus_console_model b)))"
  using access_hit_needs_scan [of b _ _ st]
  by (cases "ev_kind event"; cases "ev_access_address event"; cases "idu_glitched_address event")
    (fastforce simp: classify_oam_corruption_event_def address_may_hit_oam_corruption_def
      idu_event_reaches_oam_def Let_def map_or_def split: if_splits)+

subsection \<open>Infrared\<close>

text \<open>C27. A sensor that starts cold, with reading enabled and light on it for n T-cycles, reports the light
  exactly from 19900 to 51400 T-cycles: never while it warms up, and never after it has faded.\<close>

theorem infrared_signal_window:
  assumes "sensor_counter s = 0" and "latch AND 0xC0 = 0xC0"
    and "external_optical_input s \<or> latch AND 0x01 \<noteq> 0" and "0 < n"
  shows "(ir_read_rp ((ir_tick_t_cycle ^^ n) (ir_write_rp latch s)) AND 0x02 = 0) \<longleftrightarrow> 19900 \<le> n \<and> n \<le> 51400"
proof -
  let ?s = "ir_write_rp latch s"
  have "(latch AND 0xC1) AND 0xC0 = latch AND (0xC0::u8)" "(latch AND 0xC1) AND 0x01 = latch AND (0x01::u8)"
    "(latch AND 0xC1) AND 0xC1 = latch AND (0xC1::u8)"
    by (simp_all only: and.assoc) simp_all
  then have "ir_read_enabled ?s" "optical_input_active ?s" "sensor_counter ?s = 0" "rp_latch ?s AND 0xC1 = rp_latch ?s"
    using assms by (simp_all add: ir_write_rp_def ir_read_enabled_def optical_input_active_def emitter_on_def
        infrared_constants)
  with lit_sensor [of ?s n] assms(4) ir_read_rp_signal [of "(ir_tick_t_cycle ^^ n) ?s"] show ?thesis
    by (simp add: signal_visible_to_rp_def ir_read_enabled_def)
qed

subsection \<open>Save states\<close>

text \<open>C28. Restoring what was captured brings a bus back exactly: every memory, bank, latch and mode, on
  any bus that satisfies the invariant.\<close>

theorem bus_save_state_round_trip:
  assumes "bus_wf b" and "bus_wf b'"
  shows "bus_restore_save_state (bus_capture_save_state b) b' = b"
  using assms wram_restored [of "bus_wram b" "bus_wram b'"] vram_restored [of "bus_vram b" "bus_vram b'"]
  by (simp add: bus_restore_save_state_def bus_capture_save_state_def bus_wf_def)

subsection \<open>Instances\<close>

definition silent_services :: "(unit, unit) io_services" where
  "silent_services =
     \<lparr>svc_ppu_read_register_with_source = \<lambda>_ _ _. 0xFF, svc_ppu_read_register = \<lambda>_ _. 0xFF,
      svc_ppu_write_register = \<lambda>_ _ p. p, svc_apu_read_register = \<lambda>_ _. 0xFF,
      svc_apu_read_pcm12 = \<lambda>_. 0, svc_apu_read_pcm34 = \<lambda>_. 0, svc_apu_on_div_apu_edge = \<lambda>a. a,
      svc_apu_write_register = \<lambda>_ _ _ _ a. a\<rparr>"

definition sample_bus :: bus where
  "sample_bus = bus_new_with_revision_and_operating_mode GameBoyColor CpuCgbE ModeCgb"

lemma sample_bus_wf: "bus_wf sample_bus"
  by (simp add: sample_bus_def new_bus_wf)

lemma no_cartridge_ok: "slot_ok None"
  by (simp add: slot_ok_def)

lemma bus_accesses_never_panic_witness:
  "\<exists>x cart'. read_with_t_cycle_context silent_services 0xFF40 ReqCpu arbitration_default 0 None
     read_view_default sample_bus = Inr (x, cart')"
  using bus_accesses_never_panic [OF sample_bus_wf no_cartridge_ok, of silent_services "0xFF40" ReqCpu
      arbitration_default 0 read_view_default 0 write_view_default] by blast




lemma dma_takes_the_bus_from_the_cpu_witness:
  "read_with_t_cycle_context silent_services 0xC000 ReqCpu
     (arbitration_default\<lparr>arb_dma := dma_bus_external_blocked None\<rparr>) 0 None read_view_default sample_bus
     = Inr (0xFF, None)
   \<and> write_with_t_cycle_context silent_services 0xC000 7 ReqCpu
       (arbitration_default\<lparr>arb_dma := with_cpu_conflict_source_address (Some 0xD123) (dma_bus_external_blocked None)\<rparr>)
       0 None write_view_default sample_bus
     = write_with_t_cycle_context silent_services 0xD123 7 ReqDma
       (arbitration_default\<lparr>arb_dma := with_cpu_conflict_source_address (Some 0xD123) (dma_bus_external_blocked None)\<rparr>)
       0 None write_view_default sample_bus"
  using dma_takes_the_bus_from_the_cpu [of "0xC000" "arbitration_default\<lparr>arb_dma := dma_bus_external_blocked None\<rparr>"
      ExternalBusBlocked None silent_services 0 None read_view_default sample_bus 7 write_view_default]
    dma_takes_the_bus_from_the_cpu [of "0xC000" "arbitration_default\<lparr>arb_dma :=
        with_cpu_conflict_source_address (Some 0xD123) (dma_bus_external_blocked None)\<rparr>"
      ExternalBusBlocked "Some 0xD123" silent_services 0 None read_view_default sample_bus 7 write_view_default]
  by (simp add: dma_bus_external_blocked_def with_cpu_conflict_source_address_def arbitration_default_def
      boot_windows_unmapped_def overlays_read_def)

lemma ppu_hides_what_it_uses_witness:
  "read_with_t_cycle_context silent_services 0xFE10 ReqCpu
     (arbitration_default\<lparr>arb_ppu := ppu_bus_lcd_enabled AccessOamScan\<rparr>) 0 None read_view_default sample_bus
     = Inr (0xFF, None)"
  using ppu_hides_what_it_uses [OF sample_bus_wf refl refl refl,
      of "0xFE10" True "arbitration_default\<lparr>arb_ppu := ppu_bus_lcd_enabled AccessOamScan\<rparr>"
         "oam_read 0x10 (bus_oam sample_bus)" silent_services 0 None read_view_default 0 write_view_default]
  by (auto simp: arbitration_default_def dma_bus_unrestricted_def ppu_bus_lcd_enabled_def)

lemma cgb_registers_follow_the_console_witness:
  "read_iohram_target silent_services (decode_address 0xFF56) read_view_default (bus_new GameBoy) = Inr 0xFF"
proof -
  have "describe_io_register 0xFF56 = Some \<lparr>io_address = 0xFF56, io_owner = OwnerInfrared,
      io_availability = AvailCgbOnly, io_implementation = IoImplemented, io_access = IoMixed, io_kind = RegRp\<rparr>"
    by code_simp
  from cgb_registers_follow_the_console [OF this, of "bus_new GameBoy" silent_services read_view_default]
  show ?thesis by (simp add: bus_new_def bus_new_with_revision_and_operating_mode_def is_dmg_family_def)
qed

lemma compatibility_mode_selects_vram_bank_1_witness:
  "\<exists>b'. write_iohram_target silent_services (decode_address 0xFF4F) 0x01 write_view_default
       (bus_new_with_operating_mode GameBoyColor ModeGbCompatible) = Inr (b', write_view_default)
     \<and> vram_storage_index 0 (bus_vram b') = DMG_VRAM_LEN + 0"
  by (rule compatibility_mode_selects_vram_bank_1)
    (simp_all add: bus_new_with_operating_mode_def bus_new_with_revision_and_operating_mode_def
      is_cgb_family_def vram_new_for_model_def)

lemma oam_corruption_needs_its_page_witness:
  "\<exists>r. classify_oam_corruption_event (read_event 0xC000) arbitration_default sample_bus = Inr r \<and> r = None"
  using oam_corruption_needs_its_page [of "read_event 0xC000" arbitration_default sample_bus]
  by (auto simp: read_event_def idu_glitched_address_def)

lemma infrared_signal_window_witness:
  "ir_read_rp ((ir_tick_t_cycle ^^ 20000) (ir_write_rp 0xC1 infrared_new)) AND 0x02 = 0"
  using infrared_signal_window [of infrared_new "0xC1" 20000] by (simp add: infrared_new_def)

lemma bus_save_state_round_trip_witness:
  "bus_restore_save_state (bus_capture_save_state (bus_new GameBoy)) sample_bus = bus_new GameBoy"
proof (rule bus_save_state_round_trip)
  show "bus_wf (bus_new GameBoy)" by (simp add: bus_new_def new_bus_wf)
qed (rule sample_bus_wf)

end
