(* ===== verification/Apu_Common.thy ===== *)
theory Apu_Common
  imports Gb_Speed
begin

text \<open>
  What the four sound channels share: \<open>apu/common.rs\<close> (the register fields, the length
  counter, the volume envelope, the write plan of the NRx4 registers, the DAC/active pair)
  and \<open>apu/frame_sequencer.rs\<close> (the 512 Hz sequencer that clocks lengths, sweep and
  envelopes). A function that takes a Rust field by \<open>&mut\<close> returns its new value.
\<close>

named_theorems apu_defs \<open>definitions of small APU helpers\<close>

subsection \<open>Constants\<close>

definition PULSE_LENGTH_COUNTER_RELOAD :: u8 where [apu_defs]: "PULSE_LENGTH_COUNTER_RELOAD = 64"
definition WAVE_LENGTH_COUNTER_RELOAD :: u16 where [apu_defs]: "WAVE_LENGTH_COUNTER_RELOAD = 256"
definition PULSE_PERIOD_MAX :: u16 where [apu_defs]: "PULSE_PERIOD_MAX = 0x07FF"
definition MAX_ENVELOPE_VOLUME :: u8 where [apu_defs]: "MAX_ENVELOPE_VOLUME = 0x0F"
definition CHANNEL_TRIGGER_BIT :: u8 where [apu_defs]: "CHANNEL_TRIGGER_BIT = 0x80"
definition LENGTH_ENABLE_BIT :: u8 where [apu_defs]: "LENGTH_ENABLE_BIT = 0x40"
definition NRX4_WRITABLE_MASK :: u8 where [apu_defs]: "NRX4_WRITABLE_MASK = 0x47"
definition NR44_WRITABLE_MASK :: u8 where [apu_defs]: "NR44_WRITABLE_MASK = 0x40"
definition PERIOD_HIGH_MASK :: u8 where [apu_defs]: "PERIOD_HIGH_MASK = 0x07"
definition DAC_ENABLE_REGISTER_MASK :: u8 where [apu_defs]: "DAC_ENABLE_REGISTER_MASK = 0xF8"
definition ENVELOPE_DIRECTION_BIT :: u8 where [apu_defs]: "ENVELOPE_DIRECTION_BIT = 0x08"
definition ENVELOPE_PACE_MASK :: u8 where [apu_defs]: "ENVELOPE_PACE_MASK = 0x07"
definition ENVELOPE_INITIAL_VOLUME_MASK :: u8 where
  [apu_defs]: "ENVELOPE_INITIAL_VOLUME_MASK = 0xF0"
definition APU_UNMAPPED_READ_VALUE :: u8 where [apu_defs]: "APU_UNMAPPED_READ_VALUE = 0xFF"

definition PULSE_DUTY_PATTERNS :: "bool list list" where
  "PULSE_DUTY_PATTERNS =
     [[False, False, False, False, False, False, False, True],
      [True, False, False, False, False, False, False, True],
      [True, False, False, False, False, True, True, True],
      [False, True, True, True, True, True, True, False]]"

definition cgb_ch1_sweep_restart_hold_t_cycles :: "hardware_revision \<Rightarrow> u16" where
  "cgb_ch1_sweep_restart_hold_t_cycles r =
     (case r of CpuCgbE \<Rightarrow> 9 | CpuCgbC \<Rightarrow> 9 | CpuCgbD \<Rightarrow> 9 | _ \<Rightarrow> 9)"

definition u8_saturating_sub :: "u8 \<Rightarrow> u8 \<Rightarrow> u8" where
  "u8_saturating_sub a b = (if a < b then 0 else a - b)"

definition u16_saturating_sub :: "u16 \<Rightarrow> u16 \<Rightarrow> u16" where
  "u16_saturating_sub a b = (if a < b then 0 else a - b)"

subsection \<open>The frame sequencer\<close>

record frame_sequencer_state =
  fs_step :: u8
  fs_length_clock_count :: u64
  fs_sweep_clock_count :: u64
  fs_envelope_clock_count :: u64

record frame_sequencer_clocks_set =
  clocks_length :: bool
  clocks_sweep :: bool
  clocks_envelope :: bool

definition frame_sequencer_default :: frame_sequencer_state where
  "frame_sequencer_default =
     \<lparr>fs_step = 0, fs_length_clock_count = 0, fs_sweep_clock_count = 0,
      fs_envelope_clock_count = 0\<rparr>"

definition frame_sequencer_step_clocks_length :: "u8 \<Rightarrow> bool" where
  "frame_sequencer_step_clocks_length step = (step AND 0x07 \<in> {0, 2, 4, 6})"

definition frame_sequencer_step_clocks_sweep :: "u8 \<Rightarrow> bool" where
  "frame_sequencer_step_clocks_sweep step = (step AND 0x07 \<in> {2, 6})"

definition frame_sequencer_step_clocks_envelope :: "u8 \<Rightarrow> bool" where
  "frame_sequencer_step_clocks_envelope step = (step AND 0x07 = 7)"

definition frame_sequencer_clocks :: "u8 \<Rightarrow> frame_sequencer_clocks_set" where
  "frame_sequencer_clocks step =
     \<lparr>clocks_length = frame_sequencer_step_clocks_length step,
      clocks_sweep = frame_sequencer_step_clocks_sweep step,
      clocks_envelope = frame_sequencer_step_clocks_envelope step\<rparr>"

definition fs_apply_startup_phase :: "u8 \<Rightarrow> frame_sequencer_state \<Rightarrow> frame_sequencer_state" where
  "fs_apply_startup_phase div_apu s =
     s\<lparr>fs_step := div_apu AND 0x07, fs_length_clock_count := 0, fs_sweep_clock_count := 0,
       fs_envelope_clock_count := 0\<rparr>"

definition fs_advance ::
    "frame_sequencer_state \<Rightarrow> frame_sequencer_clocks_set \<times> frame_sequencer_state" where
  "fs_advance s =
     (let clocks = frame_sequencer_clocks (fs_step s);
          s = (if clocks_length clocks
               then s\<lparr>fs_length_clock_count := fs_length_clock_count s + 1\<rparr> else s);
          s = (if clocks_sweep clocks
               then s\<lparr>fs_sweep_clock_count := fs_sweep_clock_count s + 1\<rparr> else s);
          s = (if clocks_envelope clocks
               then s\<lparr>fs_envelope_clock_count := fs_envelope_clock_count s + 1\<rparr> else s)
      in (clocks, s\<lparr>fs_step := (fs_step s + 1) AND 0x07\<rparr>))"

subsection \<open>Policies, register fields and reload values\<close>

datatype wave_ram_mmio_policy_kind =
    DmgCurrentByteDuringFetchOnly
  | CgbCurrentByteWhileActive
  | AgbInaccessibleWhileActive

datatype extra_length_clocking_policy_kind =
    CurrentDmgBaseline
  | DeferredCgbRevisionBehavior

definition wave_ram_mmio_policy :: "console_model \<Rightarrow> wave_ram_mmio_policy_kind" where
  "wave_ram_mmio_policy m =
     (if is_dmg_family m then DmgCurrentByteDuringFetchOnly
      else if m = GameBoyAdvance then AgbInaccessibleWhileActive
      else CgbCurrentByteWhileActive)"

definition extra_length_clocking_policy :: "console_model \<Rightarrow> extra_length_clocking_policy_kind" where
  "extra_length_clocking_policy m =
     (if is_cgb_family m then DeferredCgbRevisionBehavior else CurrentDmgBaseline)"

definition pulse_period_from_registers :: "u8 \<Rightarrow> u8 \<Rightarrow> u16" where
  "pulse_period_from_registers period_low period_high =
     ((push_bit 8 (ucast (period_high AND PERIOD_HIGH_MASK))) OR ucast period_low)
       AND PULSE_PERIOD_MAX"

definition pulse_length_counter_from_load :: "u8 \<Rightarrow> u8" where
  "pulse_length_counter_from_load v = PULSE_LENGTH_COUNTER_RELOAD - (v AND 0x3F)"

definition pulse_timer_reload :: "u16 \<Rightarrow> u16" where
  "pulse_timer_reload period_value = (2048 - (period_value AND PULSE_PERIOD_MAX)) * 4"

definition pulse_timer_reload_preserving_trigger_phase :: "u16 \<Rightarrow> u16 \<Rightarrow> u16" where
  "pulse_timer_reload_preserving_trigger_phase period_value current_period_timer =
     (let reload = pulse_timer_reload period_value;
          preserved_phase = (4 - (current_period_timer AND 0x03)) AND 0x03
      in reload - preserved_phase)"

definition cgb_pulse_trigger_delay_t_cycles ::
    "console_model \<Rightarrow> cgb_speed_mode \<Rightarrow> bool \<Rightarrow> u8 \<Rightarrow> u16" where
  "cgb_pulse_trigger_delay_t_cycles m speed_mode was_active power_on_phase =
     (if \<not> is_cgb_family m then 0
      else case speed_mode of
        NormalSpeed \<Rightarrow> if was_active then 4 else 8
      | DoubleSpeed \<Rightarrow>
          if was_active then 4 * 2 else 8 * 2 + ucast (power_on_phase AND 0x07))"

definition wave_length_counter_from_load :: "u8 \<Rightarrow> u16" where
  "wave_length_counter_from_load v = WAVE_LENGTH_COUNTER_RELOAD - ucast v"

definition wave_timer_reload :: "u16 \<Rightarrow> u16" where
  "wave_timer_reload period_value = (2048 - (period_value AND PULSE_PERIOD_MAX)) * 2"

definition noise_divisor_base :: "u8 \<Rightarrow> u32" where
  "noise_divisor_base clock_divider_code =
     (let code = clock_divider_code AND 0x07 in
      if code = 0 then 8 else if code = 1 then 16 else if code = 2 then 32
      else if code = 3 then 48 else if code = 4 then 64 else if code = 5 then 80
      else if code = 6 then 96 else 112)"

definition noise_timer_reload :: "u8 \<Rightarrow> u8 \<Rightarrow> u32" where
  "noise_timer_reload clock_shift clock_divider_code =
     push_bit (unat (clock_shift AND 0x0F)) (noise_divisor_base clock_divider_code)"

definition noise_counter_timer_reload :: "u8 \<Rightarrow> u32" where
  "noise_counter_timer_reload clock_divider_code =
     (let divisor = push_bit 2 (ucast (clock_divider_code AND 0x07))
      in if divisor = 0 then 2 else divisor)"

definition noise_clocking_suppressed :: "u8 \<Rightarrow> bool" where
  "noise_clocking_suppressed clock_shift = (clock_shift \<ge> 14)"

definition noise_counter_bit :: "u16 \<Rightarrow> u8 \<Rightarrow> bool" where
  "noise_counter_bit counter clock_shift =
     (if noise_clocking_suppressed clock_shift then False
      else counter AND push_bit (unat (clock_shift AND 0x0F)) 1 \<noteq> 0)"

subsection \<open>The write plan of the NRx4 registers\<close>

record nrx4_write_context_state =
  wc_trigger :: bool
  wc_length_enabled :: bool
  wc_next_step_clocks_length :: bool
  wc_next_step_clocks_envelope :: bool

record nrx4_write_plan =
  wp_context :: nrx4_write_context_state
  wp_was_length_enabled :: bool
  wp_trigger_reloaded_zero_length :: bool

record extra_length_clocking_context =
  xl_console_model :: console_model
  xl_length_enabled :: bool
  xl_was_length_enabled :: bool
  xl_next_step_clocks_length :: bool
  xl_trigger :: bool
  xl_trigger_reloaded_zero_length :: bool

definition nrx4_write_context :: "u8 \<Rightarrow> u8 \<Rightarrow> nrx4_write_context_state" where
  "nrx4_write_context v next_frame_sequencer_step =
     \<lparr>wc_trigger = (v AND CHANNEL_TRIGGER_BIT \<noteq> 0),
      wc_length_enabled = (v AND LENGTH_ENABLE_BIT \<noteq> 0),
      wc_next_step_clocks_length = frame_sequencer_step_clocks_length next_frame_sequencer_step,
      wc_next_step_clocks_envelope = frame_sequencer_step_clocks_envelope next_frame_sequencer_step\<rparr>"

definition begin_nrx4_write :: "u8 \<Rightarrow> u8 \<Rightarrow> u8 \<Rightarrow> bool \<Rightarrow> u8 \<times> nrx4_write_plan" where
  "begin_nrx4_write v writable_mask next_frame_sequencer_step was_length_enabled =
     (v AND writable_mask,
      \<lparr>wp_context = nrx4_write_context v next_frame_sequencer_step,
       wp_was_length_enabled = was_length_enabled,
       wp_trigger_reloaded_zero_length = False\<rparr>)"

definition observe_trigger_reloaded_zero_length :: "bool \<Rightarrow> nrx4_write_plan \<Rightarrow> nrx4_write_plan" where
  "observe_trigger_reloaded_zero_length b p = p\<lparr>wp_trigger_reloaded_zero_length := b\<rparr>"

definition observe_length_enabled_after_trigger :: "bool \<Rightarrow> nrx4_write_plan \<Rightarrow> nrx4_write_plan" where
  "observe_length_enabled_after_trigger b p = p\<lparr>wp_was_length_enabled := b\<rparr>"

subsection \<open>Length counters\<close>

definition should_apply_extra_length_clocking_on_enable ::
    "console_model \<Rightarrow> bool \<Rightarrow> bool \<Rightarrow> bool \<Rightarrow> bool \<Rightarrow> bool \<Rightarrow> bool" where
  "should_apply_extra_length_clocking_on_enable m length_enabled length_counter_is_zero
     was_length_enabled next_step_clocks_length trigger_reloaded_zero_length =
     (if next_step_clocks_length \<or> \<not> length_enabled \<or> length_counter_is_zero then False
      else let enabling_length = (\<not> was_length_enabled) in
        case extra_length_clocking_policy m of
          CurrentDmgBaseline \<Rightarrow> enabling_length \<or> trigger_reloaded_zero_length
        | DeferredCgbRevisionBehavior \<Rightarrow> enabling_length \<or> trigger_reloaded_zero_length)"

text \<open>The source has the next two functions once for \<open>u8\<close> and once for \<open>u16\<close> counters,
  with the same text.\<close>

definition extra_length_clocking ::
    "extra_length_clocking_context \<Rightarrow> 'w::len word \<Rightarrow> 'w word \<Rightarrow> bool \<Rightarrow> 'w word \<times> bool" where
  "extra_length_clocking ctx length_counter reload_value active =
     (if \<not> should_apply_extra_length_clocking_on_enable (xl_console_model ctx)
           (xl_length_enabled ctx) (length_counter = 0) (xl_was_length_enabled ctx)
           (xl_next_step_clocks_length ctx) (xl_trigger_reloaded_zero_length ctx)
      then (length_counter, active)
      else let length_counter = length_counter - 1 in
        if length_counter = 0
        then (if xl_trigger ctx then (reload_value - 1, active) else (length_counter, False))
        else (length_counter, active))"

definition clock_length_counter :: "bool \<Rightarrow> 'w::len word \<Rightarrow> bool \<Rightarrow> 'w word \<times> bool" where
  "clock_length_counter length_enabled length_counter active =
     (if \<not> length_enabled \<or> length_counter = 0 then (length_counter, active)
      else let length_counter = length_counter - 1
           in (length_counter, if length_counter = 0 then False else active))"

definition apply_extra_length_clocking_u8 ::
    "extra_length_clocking_context \<Rightarrow> u8 \<Rightarrow> u8 \<Rightarrow> bool \<Rightarrow> u8 \<times> bool" where
  [apu_defs]: "apply_extra_length_clocking_u8 = extra_length_clocking"

definition apply_extra_length_clocking_u16 ::
    "extra_length_clocking_context \<Rightarrow> u16 \<Rightarrow> u16 \<Rightarrow> bool \<Rightarrow> u16 \<times> bool" where
  [apu_defs]: "apply_extra_length_clocking_u16 = extra_length_clocking"

definition clock_length_counter_u8 :: "bool \<Rightarrow> u8 \<Rightarrow> bool \<Rightarrow> u8 \<times> bool" where
  [apu_defs]: "clock_length_counter_u8 = clock_length_counter"

definition clock_length_counter_u16 :: "bool \<Rightarrow> u16 \<Rightarrow> bool \<Rightarrow> u16 \<times> bool" where
  [apu_defs]: "clock_length_counter_u16 = clock_length_counter"

definition pulse_waveform_high :: "u8 \<Rightarrow> u8 \<Rightarrow> bool" where
  "pulse_waveform_high duty duty_step =
     PULSE_DUTY_PATTERNS ! unat (duty AND 0x03) ! unat (duty_step AND 0x07)"

definition sweep_pace_from_nr10 :: "u8 \<Rightarrow> u8" where
  "sweep_pace_from_nr10 nr10 = drop_bit 4 (nr10 AND 0x70)"

definition sweep_shift_from_nr10 :: "u8 \<Rightarrow> u8" where
  "sweep_shift_from_nr10 nr10 = nr10 AND 0x07"

definition sweep_decreases_from_nr10 :: "u8 \<Rightarrow> bool" where
  "sweep_decreases_from_nr10 nr10 = (nr10 AND 0x08 \<noteq> 0)"

subsection \<open>The volume envelope\<close>

record envelope_state =
  env_initial_volume :: u8
  env_increase :: bool
  env_pace :: u8
  env_automatic_updates_enabled :: bool
  env_timer :: u8
  env_current_volume :: u8
  env_cgb_live_write_short_reload :: bool
  env_cgb_live_write_pending_even_tick :: bool

definition envelope_default :: envelope_state where
  "envelope_default =
     \<lparr>env_initial_volume = 0, env_increase = False, env_pace = 0,
      env_automatic_updates_enabled = False, env_timer = 0, env_current_volume = 0,
      env_cgb_live_write_short_reload = False, env_cgb_live_write_pending_even_tick = False\<rparr>"

definition envelope_timer_reload :: "u8 \<Rightarrow> u8" where
  "envelope_timer_reload envelope_pace = (if envelope_pace = 0 then 8 else envelope_pace)"

definition decode_envelope_register :: "u8 \<Rightarrow> u8 \<times> bool \<times> u8" where
  "decode_envelope_register v =
     (drop_bit 4 (v AND ENVELOPE_INITIAL_VOLUME_MASK), v AND ENVELOPE_DIRECTION_BIT \<noteq> 0,
      v AND ENVELOPE_PACE_MASK)"

definition encode_envelope_register :: "u8 \<Rightarrow> bool \<Rightarrow> u8 \<Rightarrow> u8" where
  "encode_envelope_register initial_volume envelope_increase envelope_pace =
     push_bit 4 (initial_volume AND MAX_ENVELOPE_VOLUME)
       OR (if envelope_increase then ENVELOPE_DIRECTION_BIT else 0)
       OR (envelope_pace AND ENVELOPE_PACE_MASK)"

definition envelope_write_uses_consistent_zombie_increment :: "u8 \<Rightarrow> bool" where
  "envelope_write_uses_consistent_zombie_increment v =
     (v AND (ENVELOPE_DIRECTION_BIT OR ENVELOPE_PACE_MASK) = ENVELOPE_DIRECTION_BIT)"

definition apply_consistent_zombie_mode_increment :: "u8 \<Rightarrow> u8 \<Rightarrow> u8" where
  "apply_consistent_zombie_mode_increment current_volume v =
     (if \<not> envelope_write_uses_consistent_zombie_increment v then current_volume
      else (current_volume + 1) AND MAX_ENVELOPE_VOLUME)"

definition apply_cgb_zombie_mode_write :: "u8 \<Rightarrow> u8 \<Rightarrow> u8 \<Rightarrow> bool \<Rightarrow> u8" where
  "apply_cgb_zombie_mode_write current_volume new_value old_value volume_updates_locked =
     (let should_tick =
            (new_value AND ENVELOPE_PACE_MASK \<noteq> 0 \<and> old_value AND ENVELOPE_PACE_MASK = 0
             \<and> \<not> volume_updates_locked);
          should_invert = ((new_value XOR old_value) AND ENVELOPE_DIRECTION_BIT \<noteq> 0);
          should_tick =
            (if new_value AND (ENVELOPE_DIRECTION_BIT OR ENVELOPE_PACE_MASK) = ENVELOPE_DIRECTION_BIT
                \<and> old_value AND (ENVELOPE_DIRECTION_BIT OR ENVELOPE_PACE_MASK) = ENVELOPE_DIRECTION_BIT
                \<and> \<not> volume_updates_locked
             then True else should_tick);
          (current_volume, should_tick) =
            (if should_invert
             then if new_value AND ENVELOPE_DIRECTION_BIT \<noteq> 0
                  then (if old_value AND ENVELOPE_PACE_MASK = 0 \<and> \<not> volume_updates_locked
                        then current_volume XOR MAX_ENVELOPE_VOLUME
                        else (0x0E - current_volume) AND MAX_ENVELOPE_VOLUME, False)
                  else ((0x10 - current_volume) AND MAX_ENVELOPE_VOLUME, should_tick)
             else (current_volume, should_tick))
      in if should_tick
         then if new_value AND ENVELOPE_DIRECTION_BIT \<noteq> 0
              then (current_volume + 1) AND MAX_ENVELOPE_VOLUME
              else (current_volume - 1) AND MAX_ENVELOPE_VOLUME
         else current_volume)"

definition clock_envelope_unit ::
    "u8 \<Rightarrow> bool \<Rightarrow> u8 \<times> u8 \<times> bool \<times> bool \<Rightarrow> u8 \<times> u8 \<times> bool \<times> bool" where
  "clock_envelope_unit envelope_pace envelope_increase =
     (\<lambda>(envelope_timer, current_volume, automatic_updates_enabled, short_reload).
       if envelope_pace = 0 \<or> \<not> automatic_updates_enabled
       then (envelope_timer, current_volume, automatic_updates_enabled, short_reload)
       else
         let envelope_timer = (if envelope_timer > 0 then envelope_timer - 1 else envelope_timer) in
         if envelope_timer \<noteq> 0
         then (envelope_timer, current_volume, automatic_updates_enabled, short_reload)
         else
           let envelope_timer =
                 (if short_reload then u8_saturating_sub (envelope_timer_reload envelope_pace) 1
                  else envelope_timer_reload envelope_pace);
               (current_volume, automatic_updates_enabled) =
                 (if envelope_increase
                  then if current_volume < MAX_ENVELOPE_VOLUME
                       then (current_volume + 1, automatic_updates_enabled)
                       else (current_volume, False)
                  else if current_volume > 0
                       then (current_volume - 1, automatic_updates_enabled)
                       else (current_volume, False))
           in (envelope_timer, current_volume, automatic_updates_enabled, False))"

definition env_apply_write :: "u8 \<Rightarrow> envelope_state \<Rightarrow> envelope_state" where
  "env_apply_write v e =
     (case decode_envelope_register v of (initial_volume, increase, pace) \<Rightarrow>
        e\<lparr>env_initial_volume := initial_volume, env_increase := increase, env_pace := pace\<rparr>)"

definition env_apply_live_write_effect ::
    "console_model \<Rightarrow> bool \<Rightarrow> u8 \<Rightarrow> envelope_state \<Rightarrow> envelope_state" where
  "env_apply_live_write_effect m active v e =
     (if \<not> active then e
      else if is_cgb_family m then
        let old_value = encode_envelope_register (env_initial_volume e) (env_increase e) (env_pace e);
            old_pace = env_pace e;
            old_increase = env_increase e;
            volume_updates_locked = (env_pace e \<noteq> 0 \<and> \<not> env_automatic_updates_enabled e);
            e = e\<lparr>env_current_volume :=
                    apply_cgb_zombie_mode_write (env_current_volume e) v old_value
                      volume_updates_locked\<rparr>;
            e = env_apply_write v e;
            e = e\<lparr>env_cgb_live_write_short_reload := False,
                  env_cgb_live_write_pending_even_tick := False,
                  env_automatic_updates_enabled := (env_pace e \<noteq> 0 \<and> \<not> volume_updates_locked)\<rparr>
        in if old_pace = 0 \<and> env_pace e \<noteq> 0 \<and> \<not> volume_updates_locked
           then e\<lparr>env_timer := (if old_increase = env_increase e then env_pace e else 1),
                  env_cgb_live_write_short_reload := True,
                  env_cgb_live_write_pending_even_tick := True\<rparr>
           else e
      else e\<lparr>env_current_volume :=
               apply_consistent_zombie_mode_increment (env_current_volume e) v\<rparr>)"

definition env_reload :: "bool \<Rightarrow> envelope_state \<Rightarrow> envelope_state" where
  "env_reload next_step_clocks_envelope e =
     e\<lparr>env_automatic_updates_enabled := (env_pace e \<noteq> 0),
       env_timer := envelope_timer_reload (env_pace e) + u8_of_bool next_step_clocks_envelope,
       env_current_volume := env_initial_volume e,
       env_cgb_live_write_short_reload := False,
       env_cgb_live_write_pending_even_tick := False\<rparr>"

definition env_clock :: "envelope_state \<Rightarrow> envelope_state" where
  "env_clock e =
     (case clock_envelope_unit (env_pace e) (env_increase e)
             (env_timer e, env_current_volume e, env_automatic_updates_enabled e,
              env_cgb_live_write_short_reload e) of
        (timer, volume, automatic, short_reload) \<Rightarrow>
          e\<lparr>env_timer := timer, env_current_volume := volume,
            env_automatic_updates_enabled := automatic,
            env_cgb_live_write_short_reload := short_reload\<rparr>)"

definition env_clock_cgb_live_write_pending_even_tick :: "envelope_state \<Rightarrow> envelope_state" where
  "env_clock_cgb_live_write_pending_even_tick e =
     (if \<not> env_cgb_live_write_pending_even_tick e then e
      else env_clock (e\<lparr>env_cgb_live_write_pending_even_tick := False\<rparr>))"

subsection \<open>The DAC and the active flag\<close>

record channel_runtime =
  rt_dac_enabled :: bool
  rt_active :: bool

definition runtime_default :: channel_runtime where
  "runtime_default = \<lparr>rt_dac_enabled = False, rt_active = False\<rparr>"

definition rt_clear :: "channel_runtime \<Rightarrow> channel_runtime" where
  "rt_clear r = runtime_default"

definition rt_set_dac_enabled :: "bool \<Rightarrow> channel_runtime \<Rightarrow> channel_runtime" where
  "rt_set_dac_enabled b r =
     (let r = r\<lparr>rt_dac_enabled := b\<rparr> in if \<not> b then r\<lparr>rt_active := False\<rparr> else r)"

definition rt_set_active_from_startup :: "bool \<Rightarrow> channel_runtime \<Rightarrow> channel_runtime" where
  "rt_set_active_from_startup active r = r\<lparr>rt_active := (rt_dac_enabled r \<and> active)\<rparr>"

definition rt_trigger :: "channel_runtime \<Rightarrow> channel_runtime" where
  "rt_trigger r = (if rt_dac_enabled r then r\<lparr>rt_active := True\<rparr> else r)"

subsection \<open>Well-formed envelopes and runtimes\<close>

definition rt_wf :: "channel_runtime \<Rightarrow> bool" where
  "rt_wf r \<longleftrightarrow> (rt_active r \<longrightarrow> rt_dac_enabled r)"

definition env_wf :: "envelope_state \<Rightarrow> bool" where
  "env_wf e \<longleftrightarrow> env_initial_volume e \<le> 15 \<and> env_current_volume e \<le> 15 \<and> env_pace e \<le> 7
     \<and> env_timer e \<le> 9"

lemma and_15_le [simp]: "(x::u8) AND 15 \<le> 15"
  by (rule word_and_le1)

lemma and_7_le [simp]: "(x::u8) AND 7 \<le> 7"
  by (rule word_and_le1)

lemma high_nibble_le [simp]: "drop_bit 4 (x AND 0xF0) \<le> (15::u8)"
proof -
  have "\<forall>x::u8. drop_bit 4 (x AND 0xF0) \<le> (15::u8)"
    by (subst u8_exhaust) (simp add: upt_rec)
  then show ?thesis by blast
qed

lemma env_wf_default [simp, intro]: "env_wf envelope_default"
  by (simp add: env_wf_def envelope_default_def)

lemma env_wf_apply_write [simp, intro]: "env_wf e \<Longrightarrow> env_wf (env_apply_write v e)"
  by (simp add: env_wf_def env_apply_write_def decode_envelope_register_def apu_defs)

lemma zombie_increment_le:
  "v \<le> 15 \<Longrightarrow> apply_consistent_zombie_mode_increment v w \<le> 15"
  by (simp add: apply_consistent_zombie_mode_increment_def apu_defs)

lemma xor_15_le: "(v::u8) \<le> 15 \<Longrightarrow> v XOR 15 \<le> 15"
proof -
  have "\<forall>v::u8. v \<le> 15 \<longrightarrow> v XOR 15 \<le> 15"
    by (subst u8_exhaust) (simp add: upt_rec)
  then show "v \<le> 15 \<Longrightarrow> v XOR 15 \<le> 15" by blast
qed

lemma cgb_zombie_write_le:
  "v \<le> 15 \<Longrightarrow> apply_cgb_zombie_mode_write v new old locked \<le> 15"
  by (simp add: apply_cgb_zombie_mode_write_def apu_defs Let_def xor_15_le split: prod.splits)

lemma env_timer_reload_le: "p \<le> 7 \<Longrightarrow> envelope_timer_reload p \<le> 8"
  by (simp add: envelope_timer_reload_def word_le_nat_alt)

lemma env_wf_reload [simp, intro]: "env_wf e \<Longrightarrow> env_wf (env_reload b e)"
  by (auto simp: env_wf_def env_reload_def envelope_timer_reload_def u8_of_bool_def
      word_le_nat_alt unat_word_ariths)

lemma env_wf_live_write [simp, intro]:
  assumes "env_wf e"
  shows "env_wf (env_apply_live_write_effect m active v e)"
proof -
  have "v AND 7 \<le> (9::u8)" by (rule order_trans[OF and_7_le]) simp
  then show ?thesis
    using assms
    by (simp add: env_wf_def env_apply_live_write_effect_def env_apply_write_def Let_def
        decode_envelope_register_def cgb_zombie_write_le zombie_increment_le apu_defs)
qed

lemma clock_envelope_unit_bounds:
  assumes "p \<le> 7" "t \<le> 9" "v \<le> 15"
  shows "case clock_envelope_unit p inc (t, v, auto, short) of
    (t', v', _, _) \<Rightarrow> t' \<le> 9 \<and> v' \<le> 15"
proof -
  have step: "v < 15 \<Longrightarrow> v + 1 \<le> 15" "0 < v \<Longrightarrow> v - 1 \<le> 15" "0 < t \<Longrightarrow> t - 1 \<le> 9"
    "u8_saturating_sub (envelope_timer_reload p) 1 \<le> 9" "envelope_timer_reload p \<le> 9"
    using assms
    by (auto simp: word_le_nat_alt word_less_nat_alt unat_word_ariths u8_saturating_sub_def
        unat_sub_if' envelope_timer_reload_def split: if_splits)
  show ?thesis
    using assms step by (auto simp: clock_envelope_unit_def Let_def apu_defs)
qed

lemma env_wf_clock [simp, intro]:
  assumes "env_wf e"
  shows "env_wf (env_clock e)"
  using clock_envelope_unit_bounds[of "env_pace e" "env_timer e" "env_current_volume e"
      "env_increase e" "env_automatic_updates_enabled e" "env_cgb_live_write_short_reload e"] assms
  by (auto simp: env_wf_def env_clock_def split: prod.splits)

lemma env_wf_pending_tick [simp, intro]:
  "env_wf e \<Longrightarrow> env_wf (env_clock_cgb_live_write_pending_even_tick e)"
  by (auto simp: env_clock_cgb_live_write_pending_even_tick_def env_wf_def intro!: env_wf_clock[unfolded env_wf_def])

lemma rt_wf_intros [simp, intro]:
  "rt_wf runtime_default"
  "rt_wf (rt_clear r)"
  "rt_wf (rt_set_active_from_startup a r)"
  "rt_wf r \<Longrightarrow> rt_wf (rt_set_dac_enabled b r)"
  "rt_wf r \<Longrightarrow> rt_wf (rt_trigger r)"
  "rt_wf r \<Longrightarrow> rt_wf (r\<lparr>rt_active := False\<rparr>)"
  by (auto simp: rt_wf_def runtime_default_def rt_clear_def rt_set_dac_enabled_def Let_def
      rt_set_active_from_startup_def rt_trigger_def)

end
