(* ===== verification/Apu_Pulse.thy ===== *)
theory Apu_Pulse
  imports Apu_Common
begin

text \<open>
  The pulse generator of \<open>apu/channels/pulse.rs\<close>, used by channels 1 and 2, and channel 2
  (\<open>apu/channels/ch2.rs\<close>): registers NR21 to NR24 over one generator.
\<close>

record pulse_channel =
  pul_runtime :: channel_runtime
  pul_duty :: u8
  pul_pending_duty :: "u8 option"
  pul_duty_step :: u8
  pul_first_trigger_after_power_on_pending :: bool
  pul_power_on_phase :: u8
  pul_suppress_initial_trigger_output :: bool
  pul_trigger_delay_t_cycles :: u16
  pul_just_sampled :: bool
  pul_just_sampled_reload_clocks_remaining :: u8
  pul_timer_stopped_by_dac_disable :: bool
  pul_period_timer :: u16
  pul_length_counter :: u8
  pul_length_enabled :: bool
  pul_envelope :: envelope_state

record pulse_startup_state =
  pst_length_duty_value :: u8
  pst_envelope_value :: u8
  pst_nrx4 :: u8
  pst_period_value :: u16
  pst_runtime :: channel_runtime
  pst_first_trigger_after_power_on_pending :: bool

definition pulse_default :: pulse_channel where
  "pulse_default =
     \<lparr>pul_runtime = runtime_default, pul_duty = 0, pul_pending_duty = None, pul_duty_step = 0,
      pul_first_trigger_after_power_on_pending = False, pul_power_on_phase = 0,
      pul_suppress_initial_trigger_output = False, pul_trigger_delay_t_cycles = 0,
      pul_just_sampled = False, pul_just_sampled_reload_clocks_remaining = 0,
      pul_timer_stopped_by_dac_disable = False, pul_period_timer = 0, pul_length_counter = 0,
      pul_length_enabled = False, pul_envelope = envelope_default\<rparr>"

subsection \<open>Operations of the generator\<close>

definition pulse_clear :: "pulse_channel \<Rightarrow> pulse_channel" where
  "pulse_clear p = pulse_default"

definition pulse_clear_preserving_length :: "pulse_channel \<Rightarrow> pulse_channel" where
  "pulse_clear_preserving_length p = (pulse_clear p)\<lparr>pul_length_counter := pul_length_counter p\<rparr>"

definition pulse_mark_powered_on :: "pulse_channel \<Rightarrow> pulse_channel" where
  "pulse_mark_powered_on p =
     p\<lparr>pul_first_trigger_after_power_on_pending := True, pul_power_on_phase := 0,
       pul_suppress_initial_trigger_output := False, pul_trigger_delay_t_cycles := 0,
       pul_just_sampled := False, pul_just_sampled_reload_clocks_remaining := 0,
       pul_timer_stopped_by_dac_disable := (\<not> rt_dac_enabled (pul_runtime p))\<rparr>"

definition pulse_apply_length_duty_write :: "u8 \<Rightarrow> pulse_channel \<Rightarrow> pulse_channel" where
  "pulse_apply_length_duty_write v p =
     (let duty = drop_bit 6 (v AND 0xC0);
          p = (if rt_active (pul_runtime p) then p\<lparr>pul_pending_duty := Some duty\<rparr>
               else p\<lparr>pul_duty := duty, pul_pending_duty := None\<rparr>)
      in p\<lparr>pul_length_counter := pulse_length_counter_from_load v\<rparr>)"

definition pulse_write_length_counter_while_powered_off :: "u8 \<Rightarrow> pulse_channel \<Rightarrow> pulse_channel" where
  "pulse_write_length_counter_while_powered_off v p =
     p\<lparr>pul_length_counter := pulse_length_counter_from_load v\<rparr>"

definition pulse_apply_envelope_write :: "u8 \<Rightarrow> pulse_channel \<Rightarrow> pulse_channel" where
  "pulse_apply_envelope_write v p = p\<lparr>pul_envelope := env_apply_write v (pul_envelope p)\<rparr>"

definition pulse_apply_live_envelope_write_effect ::
    "console_model \<Rightarrow> u8 \<Rightarrow> pulse_channel \<Rightarrow> pulse_channel" where
  "pulse_apply_live_envelope_write_effect m v p =
     p\<lparr>pul_envelope :=
         env_apply_live_write_effect m (rt_active (pul_runtime p)) v (pul_envelope p)\<rparr>"

definition pulse_apply_dac_enabled :: "bool \<Rightarrow> pulse_channel \<Rightarrow> pulse_channel" where
  "pulse_apply_dac_enabled dac_enabled p =
     (let p = (if \<not> dac_enabled
               then p\<lparr>pul_timer_stopped_by_dac_disable := True, pul_trigger_delay_t_cycles := 0,
                      pul_just_sampled := False, pul_just_sampled_reload_clocks_remaining := 0\<rparr>
               else p)
      in p\<lparr>pul_runtime := rt_set_dac_enabled dac_enabled (pul_runtime p)\<rparr>)"

definition pulse_apply_length_enable :: "u8 \<Rightarrow> pulse_channel \<Rightarrow> pulse_channel" where
  "pulse_apply_length_enable v p = p\<lparr>pul_length_enabled := (v AND LENGTH_ENABLE_BIT \<noteq> 0)\<rparr>"

definition pulse_apply_extra_length_clocking_on_enable ::
    "console_model \<Rightarrow> nrx4_write_plan \<Rightarrow> pulse_channel \<Rightarrow> pulse_channel" where
  "pulse_apply_extra_length_clocking_on_enable m plan p =
     (case apply_extra_length_clocking_u8
             \<lparr>xl_console_model = m, xl_length_enabled = pul_length_enabled p,
              xl_was_length_enabled = wp_was_length_enabled plan,
              xl_next_step_clocks_length = wc_next_step_clocks_length (wp_context plan),
              xl_trigger = wc_trigger (wp_context plan),
              xl_trigger_reloaded_zero_length = wp_trigger_reloaded_zero_length plan\<rparr>
             (pul_length_counter p) PULSE_LENGTH_COUNTER_RELOAD (rt_active (pul_runtime p)) of
        (length_counter, active) \<Rightarrow>
          p\<lparr>pul_length_counter := length_counter,
            pul_runtime := (pul_runtime p)\<lparr>rt_active := active\<rparr>\<rparr>)"

definition pulse_apply_powered_startup :: "pulse_startup_state \<Rightarrow> pulse_channel \<Rightarrow> pulse_channel" where
  "pulse_apply_powered_startup startup p =
     (let p = pulse_clear p;
          p = pulse_apply_length_duty_write (pst_length_duty_value startup) p;
          p = pulse_apply_envelope_write (pst_envelope_value startup) p;
          p = pulse_apply_length_enable (pst_nrx4 startup) p;
          p = p\<lparr>pul_first_trigger_after_power_on_pending :=
                  pst_first_trigger_after_power_on_pending startup,
                pul_period_timer := pulse_timer_reload (pst_period_value startup),
                pul_envelope := env_reload False (pul_envelope p),
                pul_runtime := pst_runtime startup\<rparr>;
          p = p\<lparr>pul_timer_stopped_by_dac_disable := (\<not> rt_dac_enabled (pul_runtime p))\<rparr>;
          p = (if \<not> pul_first_trigger_after_power_on_pending p
               then p\<lparr>pul_power_on_phase := 0\<rparr> else p)
      in p\<lparr>pul_just_sampled := False, pul_just_sampled_reload_clocks_remaining := 0\<rparr>)"

definition pulse_apply_channel_startup ::
    "u8 \<Rightarrow> u8 \<Rightarrow> u8 \<Rightarrow> u16 \<Rightarrow> bool \<Rightarrow> bool \<Rightarrow> pulse_channel \<Rightarrow> pulse_channel" where
  "pulse_apply_channel_startup length_duty_value envelope_value nrx4 period_value dac_enabled active =
     (let runtime = rt_set_dac_enabled dac_enabled runtime_default;
          runtime = rt_set_active_from_startup active runtime
      in pulse_apply_powered_startup
           \<lparr>pst_length_duty_value = length_duty_value, pst_envelope_value = envelope_value,
            pst_nrx4 = nrx4, pst_period_value = period_value, pst_runtime = runtime,
            pst_first_trigger_after_power_on_pending = (\<not> active)\<rparr>)"

definition pulse_power_off :: "console_model \<Rightarrow> pulse_channel \<Rightarrow> pulse_channel" where
  "pulse_power_off m p =
     (if is_dmg_family m then pulse_clear_preserving_length p else pulse_clear p)"

definition pulse_trigger ::
    "console_model \<Rightarrow> cgb_speed_mode \<Rightarrow> u16 \<Rightarrow> u8 \<Rightarrow> bool \<Rightarrow> pulse_channel
     \<Rightarrow> bool \<times> pulse_channel" where
  "pulse_trigger m speed_mode period_value envelope_value next_step_clocks_envelope p =
     (let was_active = rt_active (pul_runtime p);
          reloaded_zero_length = (pul_length_counter p = 0);
          p = (if pul_length_counter p = 0
               then p\<lparr>pul_length_counter := PULSE_LENGTH_COUNTER_RELOAD,
                      pul_length_enabled := False\<rparr>
               else p);
          p = pulse_apply_envelope_write envelope_value p;
          p = p\<lparr>pul_period_timer :=
                  pulse_timer_reload_preserving_trigger_phase period_value (pul_period_timer p),
                pul_trigger_delay_t_cycles :=
                  cgb_pulse_trigger_delay_t_cycles m speed_mode was_active (pul_power_on_phase p),
                pul_envelope := env_reload next_step_clocks_envelope (pul_envelope p),
                pul_runtime := rt_trigger (pul_runtime p)\<rparr>;
          p = (if rt_active (pul_runtime p) \<and> \<not> was_active
               then p\<lparr>pul_suppress_initial_trigger_output := True\<rparr> else p);
          p = (if rt_active (pul_runtime p)
               then p\<lparr>pul_timer_stopped_by_dac_disable := False\<rparr> else p);
          p = (if pul_first_trigger_after_power_on_pending p
               then p\<lparr>pul_first_trigger_after_power_on_pending := False\<rparr> else p)
      in (reloaded_zero_length, p))"

definition pulse_reload_period_after_write_if_just_sampled ::
    "u16 \<Rightarrow> pulse_channel \<Rightarrow> pulse_channel" where
  "pulse_reload_period_after_write_if_just_sampled period_value p =
     (if pul_just_sampled p then p\<lparr>pul_period_timer := pulse_timer_reload period_value\<rparr> else p)"

text \<open>The tick of \<open>tick_fast_timer_with_clock_gate\<close>: first the ageing of the just-sampled
  window, then the early returns, then the period timer with its reload.\<close>

definition pulse_age_just_sampled :: "bool \<Rightarrow> pulse_channel \<Rightarrow> pulse_channel" where
  "pulse_age_just_sampled clock_period_timer p =
     (if clock_period_timer \<and> pul_just_sampled p
      then let remaining = u8_saturating_sub (pul_just_sampled_reload_clocks_remaining p) 1;
               p = p\<lparr>pul_just_sampled_reload_clocks_remaining := remaining\<rparr>
           in if remaining = 0 then p\<lparr>pul_just_sampled := False\<rparr> else p
      else p)"

definition pulse_clock_period_timer :: "u16 \<Rightarrow> pulse_channel \<Rightarrow> pulse_channel" where
  "pulse_clock_period_timer period_value p =
     (let p = (if pul_period_timer p > 0
               then p\<lparr>pul_period_timer := pul_period_timer p - 1\<rparr> else p)
      in if pul_period_timer p = 0
         then
           let p = p\<lparr>pul_period_timer := pulse_timer_reload period_value,
                     pul_duty_step := (pul_duty_step p + 1) AND 0x07\<rparr>;
               p = (case pul_pending_duty p of
                      None \<Rightarrow> p
                    | Some pending_duty \<Rightarrow> p\<lparr>pul_pending_duty := None, pul_duty := pending_duty\<rparr>)
           in p\<lparr>pul_suppress_initial_trigger_output := False, pul_just_sampled := True,
                pul_just_sampled_reload_clocks_remaining := 3\<rparr>
         else p)"

definition pulse_tick_fast_timer_with_clock_gate ::
    "u16 \<Rightarrow> bool \<Rightarrow> pulse_channel \<Rightarrow> pulse_channel" where
  "pulse_tick_fast_timer_with_clock_gate period_value clock_period_timer p =
     (let p = pulse_age_just_sampled clock_period_timer p
      in if pul_first_trigger_after_power_on_pending p
         then p\<lparr>pul_power_on_phase := (pul_power_on_phase p + 1) AND 0x07\<rparr>
         else if pul_trigger_delay_t_cycles p > 0
         then p\<lparr>pul_trigger_delay_t_cycles := pul_trigger_delay_t_cycles p - 1\<rparr>
         else if \<not> clock_period_timer then p
         else if pul_timer_stopped_by_dac_disable p then p
         else pulse_clock_period_timer period_value p)"

definition pulse_clock_length :: "pulse_channel \<Rightarrow> pulse_channel" where
  "pulse_clock_length p =
     (case clock_length_counter_u8 (pul_length_enabled p) (pul_length_counter p)
             (rt_active (pul_runtime p)) of
        (length_counter, active) \<Rightarrow>
          p\<lparr>pul_length_counter := length_counter,
            pul_runtime := (pul_runtime p)\<lparr>rt_active := active\<rparr>\<rparr>)"

definition pulse_clock_envelope :: "pulse_channel \<Rightarrow> pulse_channel" where
  "pulse_clock_envelope p = p\<lparr>pul_envelope := env_clock (pul_envelope p)\<rparr>"

definition pulse_clock_cgb_live_write_pending_even_envelope_tick ::
    "pulse_channel \<Rightarrow> pulse_channel" where
  "pulse_clock_cgb_live_write_pending_even_envelope_tick p =
     p\<lparr>pul_envelope := env_clock_cgb_live_write_pending_even_tick (pul_envelope p)\<rparr>"

definition pulse_current_digital_output :: "pulse_channel \<Rightarrow> u8" where
  "pulse_current_digital_output p =
     (if \<not> rt_active (pul_runtime p) then 0
      else if pul_suppress_initial_trigger_output p then 0
      else if pulse_waveform_high (pul_duty p) (pul_duty_step p)
      then env_current_volume (pul_envelope p) else 0)"

subsection \<open>Channel 2\<close>

datatype channel2_register = Nr21 | Nr22 | Nr23 | Nr24

record channel2_state =
  ch2_nr21 :: u8
  ch2_nr22 :: u8
  ch2_nr23 :: u8
  ch2_nr24 :: u8
  ch2_pulse :: pulse_channel

definition channel2_default :: channel2_state where
  "channel2_default =
     \<lparr>ch2_nr21 = 0, ch2_nr22 = 0, ch2_nr23 = 0, ch2_nr24 = 0, ch2_pulse = pulse_default\<rparr>"

definition ch2_map_pulse :: "(pulse_channel \<Rightarrow> pulse_channel) \<Rightarrow> channel2_state \<Rightarrow> channel2_state" where
  "ch2_map_pulse f c = c\<lparr>ch2_pulse := f (ch2_pulse c)\<rparr>"

definition ch2_derived_dac_enabled :: "channel2_state \<Rightarrow> bool" where
  "ch2_derived_dac_enabled c = (ch2_nr22 c AND DAC_ENABLE_REGISTER_MASK \<noteq> 0)"

definition ch2_period_value :: "channel2_state \<Rightarrow> u16" where
  "ch2_period_value c = pulse_period_from_registers (ch2_nr23 c) (ch2_nr24 c)"

definition ch2_read_nr21 :: "channel2_state \<Rightarrow> u8" where
  "ch2_read_nr21 c = (ch2_nr21 c AND 0xC0) OR 0x3F"

definition ch2_read_nr24 :: "channel2_state \<Rightarrow> u8" where
  "ch2_read_nr24 c = (ch2_nr24 c AND 0x40) OR 0xBF"

definition ch2_read_register :: "channel2_register \<Rightarrow> channel2_state \<Rightarrow> u8" where
  "ch2_read_register r c =
     (case r of
        Nr21 \<Rightarrow> ch2_read_nr21 c
      | Nr22 \<Rightarrow> ch2_nr22 c
      | Nr23 \<Rightarrow> 0xFF
      | Nr24 \<Rightarrow> ch2_read_nr24 c)"

definition ch2_write_nr21 :: "u8 \<Rightarrow> channel2_state \<Rightarrow> channel2_state" where
  "ch2_write_nr21 v c = ch2_map_pulse (pulse_apply_length_duty_write v) (c\<lparr>ch2_nr21 := v\<rparr>)"

definition ch2_write_nr22 :: "u8 \<Rightarrow> console_model \<Rightarrow> channel2_state \<Rightarrow> channel2_state" where
  "ch2_write_nr22 v m c =
     (let c = ch2_map_pulse (pulse_apply_live_envelope_write_effect m v) c;
          c = c\<lparr>ch2_nr22 := v\<rparr>
      in ch2_map_pulse (pulse_apply_dac_enabled (ch2_derived_dac_enabled c)) c)"

definition ch2_write_nr23 :: "u8 \<Rightarrow> console_model \<Rightarrow> channel2_state \<Rightarrow> channel2_state" where
  "ch2_write_nr23 v m c =
     (let c = c\<lparr>ch2_nr23 := v\<rparr>
      in if is_cgb_family m
         then ch2_map_pulse (pulse_reload_period_after_write_if_just_sampled (ch2_period_value c)) c
         else c)"

definition ch2_trigger ::
    "console_model \<Rightarrow> cgb_speed_mode \<Rightarrow> bool \<Rightarrow> channel2_state \<Rightarrow> bool \<times> channel2_state" where
  "ch2_trigger m speed_mode next_step_clocks_envelope c =
     (case pulse_trigger m speed_mode (ch2_period_value c) (ch2_nr22 c) next_step_clocks_envelope
             (ch2_pulse c) of
        (reloaded, p) \<Rightarrow> (reloaded, c\<lparr>ch2_pulse := p\<rparr>))"

definition ch2_write_nr24 ::
    "u8 \<Rightarrow> console_model \<Rightarrow> cgb_speed_mode \<Rightarrow> u8 \<Rightarrow> channel2_state \<Rightarrow> channel2_state" where
  "ch2_write_nr24 v m speed_mode next_frame_sequencer_step c =
     (case begin_nrx4_write v NRX4_WRITABLE_MASK next_frame_sequencer_step
             (pul_length_enabled (ch2_pulse c)) of
        (nr24, plan) \<Rightarrow>
          let c = c\<lparr>ch2_nr24 := nr24\<rparr>;
              (plan, c) =
                (if wc_trigger (wp_context plan)
                 then case ch2_trigger m speed_mode (wc_next_step_clocks_envelope (wp_context plan)) c of
                        (reloaded, c) \<Rightarrow>
                          (observe_length_enabled_after_trigger (pul_length_enabled (ch2_pulse c))
                             (observe_trigger_reloaded_zero_length reloaded plan), c)
                 else if is_cgb_family m
                 then (plan, ch2_map_pulse
                               (pulse_reload_period_after_write_if_just_sampled (ch2_period_value c)) c)
                 else (plan, c));
              c = ch2_map_pulse (\<lambda>p. p\<lparr>pul_length_enabled := wc_length_enabled (wp_context plan)\<rparr>) c
          in ch2_map_pulse (pulse_apply_extra_length_clocking_on_enable m plan) c)"

definition ch2_write_register ::
    "channel2_register \<Rightarrow> u8 \<Rightarrow> console_model \<Rightarrow> cgb_speed_mode \<Rightarrow> u8 \<Rightarrow> channel2_state
     \<Rightarrow> channel2_state" where
  "ch2_write_register r v m speed_mode next_frame_sequencer_step c =
     (case r of
        Nr21 \<Rightarrow> ch2_write_nr21 v c
      | Nr22 \<Rightarrow> ch2_write_nr22 v m c
      | Nr23 \<Rightarrow> ch2_write_nr23 v m c
      | Nr24 \<Rightarrow> ch2_write_nr24 v m speed_mode next_frame_sequencer_step c)"

definition ch2_write_length_while_powered_off :: "u8 \<Rightarrow> channel2_state \<Rightarrow> channel2_state" where
  "ch2_write_length_while_powered_off v =
     ch2_map_pulse (pulse_write_length_counter_while_powered_off v)"

definition ch2_write_powered_off_register ::
    "channel2_register \<Rightarrow> u8 \<Rightarrow> console_model \<Rightarrow> channel2_state \<Rightarrow> channel2_state" where
  "ch2_write_powered_off_register r v m c =
     (if \<not> is_dmg_family m then c
      else if r = Nr21 then ch2_write_length_while_powered_off v c else c)"

definition ch2_apply_powered_startup ::
    "u8 \<Rightarrow> u8 \<Rightarrow> u8 \<Rightarrow> u8 \<Rightarrow> bool \<Rightarrow> channel2_state \<Rightarrow> channel2_state" where
  "ch2_apply_powered_startup nr21 nr22 nr23 nr24 active c =
     (let c = c\<lparr>ch2_nr21 := nr21, ch2_nr22 := nr22, ch2_nr23 := nr23,
                ch2_nr24 := nr24 AND NRX4_WRITABLE_MASK\<rparr>
      in ch2_map_pulse
           (pulse_apply_channel_startup (ch2_nr21 c) (ch2_nr22 c) (ch2_nr24 c) (ch2_period_value c)
              (ch2_derived_dac_enabled c) active) c)"

definition ch2_power_off_registers :: "console_model \<Rightarrow> channel2_state \<Rightarrow> channel2_state" where
  "ch2_power_off_registers m c =
     ch2_map_pulse (pulse_power_off m)
       (c\<lparr>ch2_nr21 := 0, ch2_nr22 := 0, ch2_nr23 := 0, ch2_nr24 := 0\<rparr>)"

definition ch2_mark_powered_on :: "channel2_state \<Rightarrow> channel2_state" where
  "ch2_mark_powered_on = ch2_map_pulse pulse_mark_powered_on"

definition ch2_tick_fast_timer_with_clock_gate :: "bool \<Rightarrow> channel2_state \<Rightarrow> channel2_state" where
  "ch2_tick_fast_timer_with_clock_gate clock_period_timer c =
     ch2_map_pulse (pulse_tick_fast_timer_with_clock_gate (ch2_period_value c) clock_period_timer) c"

definition ch2_clock_length :: "channel2_state \<Rightarrow> channel2_state" where
  "ch2_clock_length = ch2_map_pulse pulse_clock_length"

definition ch2_clock_envelope :: "channel2_state \<Rightarrow> channel2_state" where
  "ch2_clock_envelope = ch2_map_pulse pulse_clock_envelope"

definition ch2_clock_cgb_live_write_pending_even_envelope_tick ::
    "channel2_state \<Rightarrow> channel2_state" where
  "ch2_clock_cgb_live_write_pending_even_envelope_tick =
     ch2_map_pulse pulse_clock_cgb_live_write_pending_even_envelope_tick"

subsection \<open>Invariant of the generator\<close>

definition pulse_wf :: "pulse_channel \<Rightarrow> bool" where
  "pulse_wf p \<longleftrightarrow> rt_wf (pul_runtime p) \<and> env_wf (pul_envelope p)
     \<and> pul_duty p \<le> 3 \<and> (\<forall>d. pul_pending_duty p = Some d \<longrightarrow> d \<le> 3)
     \<and> pul_duty_step p \<le> 7 \<and> pul_power_on_phase p \<le> 7
     \<and> pul_period_timer p \<le> 8192 \<and> pul_length_counter p \<le> 64
     \<and> pul_trigger_delay_t_cycles p \<le> 23"

named_theorems pulse_wf_intros \<open>the pulse operations keep the invariant\<close>

lemma and_le_0x3f: "(v::u8) AND 0x3F \<le> 0x3F" by (rule word_and_le1)

lemma and_3_le [simp]: "(x::u8) AND 3 \<le> 3"
  by (rule word_and_le1)

lemma word_pred_le: "(t::'a::len word) \<le> k \<Longrightarrow> t \<noteq> 0 \<Longrightarrow> t - 1 \<le> k"
  using unat_minus_one[of t] by (simp add: word_le_nat_alt)

lemma duty_field_le: "drop_bit 6 (v AND 0xC0) \<le> (3::u8)"
proof -
  have "\<forall>x::u8. drop_bit 6 (x AND 0xC0) \<le> (3::u8)"
    by (subst u8_exhaust) (simp add: upt_rec)
  then show ?thesis by blast
qed

lemma unat_length_load: "unat (pulse_length_counter_from_load v) = 64 - unat (v AND 0x3F)"
  using and_le_0x3f[of v]
  by (simp add: pulse_length_counter_from_load_def apu_defs word_le_nat_alt unat_sub)

lemma length_load_le: "pulse_length_counter_from_load v \<le> 64"
  by (simp add: word_le_nat_alt unat_length_load)

lemma period_and_le: "(v::u16) AND 0x7FF \<le> 0x7FF" by (rule word_and_le1)

lemma unat_pulse_timer_reload:
  "unat (pulse_timer_reload p) = (2048 - unat (p AND 0x7FF)) * 4"
proof -
  have le: "unat (p AND 0x7FF) \<le> 0x7FF" using period_and_le[of p] by (simp add: word_le_nat_alt)
  have sub: "unat (2048 - (p AND 0x7FF)) = 2048 - unat (p AND 0x7FF)"
    using le by (simp add: unat_sub word_le_nat_alt)
  have "unat ((2048 - (p AND 0x7FF)) * 4) = unat (2048 - (p AND 0x7FF)) * unat (4::u16)"
    by (rule unat_mult_lem[THEN iffD1], unfold sub) (use le in simp)
  then show ?thesis
    unfolding pulse_timer_reload_def PULSE_PERIOD_MAX_def sub by simp
qed

lemma pulse_timer_reload_bounds: "4 \<le> pulse_timer_reload p" "pulse_timer_reload p \<le> 8192"
  using period_and_le[of p] by (simp_all add: word_le_nat_alt unat_pulse_timer_reload)

lemma trigger_phase_reload_le: "pulse_timer_reload_preserving_trigger_phase p t \<le> 8192"
proof -
  have m: "(x::u16) AND 3 \<le> 3" for x by (rule word_and_le1)
  have "(4 - (t AND 0x03)) AND 0x03 \<le> pulse_timer_reload p"
    using m[of "4 - (t AND 3)"] pulse_timer_reload_bounds(1)[of p] by (simp add: word_le_nat_alt)
  then have "unat (pulse_timer_reload_preserving_trigger_phase p t)
      = unat (pulse_timer_reload p) - unat ((4 - (t AND 0x03)) AND 0x03)"
    by (simp add: pulse_timer_reload_preserving_trigger_phase_def Let_def unat_sub)
  then show ?thesis
    using pulse_timer_reload_bounds(2)[of p] by (simp add: word_le_nat_alt)
qed

lemma trigger_delay_le: "cgb_pulse_trigger_delay_t_cycles m s a ph \<le> 23"
proof -
  have "unat (ph AND 7) \<le> 7" using and_7_le[of ph] by (simp add: word_le_nat_alt)
  then have "unat (16 + ucast (ph AND 7) :: u16) \<le> 23"
    by (simp add: unat_word_ariths unsigned_ucast_eq take_bit_nat_eq_self)
  then show ?thesis
    by (simp add: cgb_pulse_trigger_delay_t_cycles_def word_le_nat_alt split: cgb_speed_mode.split)
qed

lemma extra_length_clocking_u8_le:
  "l \<le> 64 \<Longrightarrow> fst (apply_extra_length_clocking_u8 ctx l 64 a) \<le> 64"
  by (auto simp: apu_defs extra_length_clocking_def Let_def word_pred_le
      should_apply_extra_length_clocking_on_enable_def)

lemma extra_length_clocking_active:
  "snd (extra_length_clocking ctx l rl a) \<Longrightarrow> a"
  by (auto simp: extra_length_clocking_def Let_def split: if_splits)

lemma clock_length_counter_u8_le:
  "l \<le> 64 \<Longrightarrow> fst (clock_length_counter_u8 en l a) \<le> 64"
  by (auto simp: apu_defs clock_length_counter_def Let_def word_pred_le)

lemma clock_length_counter_active:
  "snd (clock_length_counter en l a) \<Longrightarrow> a"
  by (auto simp: clock_length_counter_def Let_def split: if_splits)

lemma pulse_wf_default [simp, intro]: "pulse_wf pulse_default"
  by (simp add: pulse_wf_def pulse_default_def)

lemma pulse_wf_power_off [pulse_wf_intros]: "pulse_wf p \<Longrightarrow> pulse_wf (pulse_power_off m p)"
  by (simp add: pulse_power_off_def pulse_clear_preserving_length_def pulse_clear_def
      pulse_wf_def pulse_default_def)

lemma pulse_wf_powered_on [pulse_wf_intros]: "pulse_wf p \<Longrightarrow> pulse_wf (pulse_mark_powered_on p)"
  by (simp add: pulse_mark_powered_on_def pulse_wf_def)

lemma pulse_wf_length_duty [pulse_wf_intros]:
  "pulse_wf p \<Longrightarrow> pulse_wf (pulse_apply_length_duty_write v p)"
  by (simp add: pulse_apply_length_duty_write_def pulse_wf_def Let_def length_load_le duty_field_le)

lemma pulse_wf_off_length [pulse_wf_intros]:
  "pulse_wf p \<Longrightarrow> pulse_wf (pulse_write_length_counter_while_powered_off v p)"
  by (simp add: pulse_write_length_counter_while_powered_off_def pulse_wf_def length_load_le)

lemma pulse_wf_envelope_writes [pulse_wf_intros]:
  "pulse_wf p \<Longrightarrow> pulse_wf (pulse_apply_envelope_write v p)"
  "pulse_wf p \<Longrightarrow> pulse_wf (pulse_apply_live_envelope_write_effect m v p)"
  by (auto simp: pulse_apply_envelope_write_def pulse_apply_live_envelope_write_effect_def pulse_wf_def)

lemma pulse_wf_dac [pulse_wf_intros]: "pulse_wf p \<Longrightarrow> pulse_wf (pulse_apply_dac_enabled b p)"
  by (auto simp: pulse_apply_dac_enabled_def pulse_wf_def Let_def)

lemma pulse_wf_length_enable [pulse_wf_intros]:
  "pulse_wf p \<Longrightarrow> pulse_wf (pulse_apply_length_enable v p)"
  "pulse_wf p \<Longrightarrow> pulse_wf (p\<lparr>pul_length_enabled := b\<rparr>)"
  by (simp_all add: pulse_apply_length_enable_def pulse_wf_def)

lemma pulse_wf_extra_length [pulse_wf_intros]:
  assumes "pulse_wf p"
  shows "pulse_wf (pulse_apply_extra_length_clocking_on_enable m plan p)"
proof -
  let ?ctx = "\<lparr>xl_console_model = m, xl_length_enabled = pul_length_enabled p,
     xl_was_length_enabled = wp_was_length_enabled plan,
     xl_next_step_clocks_length = wc_next_step_clocks_length (wp_context plan),
     xl_trigger = wc_trigger (wp_context plan),
     xl_trigger_reloaded_zero_length = wp_trigger_reloaded_zero_length plan\<rparr>"
  obtain l a where
    res: "apply_extra_length_clocking_u8 ?ctx (pul_length_counter p) 64 (rt_active (pul_runtime p))
           = (l, a)"
    by fastforce
  then have eq: "pulse_apply_extra_length_clocking_on_enable m plan p =
           p\<lparr>pul_length_counter := l, pul_runtime := (pul_runtime p)\<lparr>rt_active := a\<rparr>\<rparr>"
    by (simp add: pulse_apply_extra_length_clocking_on_enable_def PULSE_LENGTH_COUNTER_RELOAD_def)
  have "l \<le> 64"
    using extra_length_clocking_u8_le[of "pul_length_counter p" ?ctx "rt_active (pul_runtime p)"] assms
    by (simp add: pulse_wf_def res)
  moreover have "a \<Longrightarrow> rt_active (pul_runtime p)"
    using extra_length_clocking_active[of ?ctx "pul_length_counter p" 64 "rt_active (pul_runtime p)"]
      res by (simp add: apply_extra_length_clocking_u8_def)
  ultimately show ?thesis
    using assms by (simp add: eq pulse_wf_def rt_wf_def)
qed

lemma pulse_wf_clock_length [pulse_wf_intros]: "pulse_wf p \<Longrightarrow> pulse_wf (pulse_clock_length p)"
  using clock_length_counter_u8_le[of "pul_length_counter p" "pul_length_enabled p"
      "rt_active (pul_runtime p)"]
    clock_length_counter_active[of "pul_length_enabled p" "pul_length_counter p"
      "rt_active (pul_runtime p)"]
  by (auto simp: pulse_clock_length_def pulse_wf_def rt_wf_def apu_defs split: prod.splits)

lemma pulse_wf_startup [pulse_wf_intros]:
  "pulse_wf (pulse_apply_channel_startup v e x pv dac a p)"
  by (auto simp: pulse_apply_channel_startup_def pulse_apply_powered_startup_def Let_def
      pulse_clear_def pulse_default_def pulse_apply_length_duty_write_def
      pulse_apply_envelope_write_def pulse_apply_length_enable_def pulse_wf_def
      runtime_default_def length_load_le duty_field_le pulse_timer_reload_bounds
      simp flip: runtime_default_def)

lemma pulse_wf_trigger [pulse_wf_intros]:
  "pulse_wf p \<Longrightarrow> pulse_wf (snd (pulse_trigger m s pv v b p))"
  by (auto simp: pulse_trigger_def Let_def pulse_apply_envelope_write_def pulse_wf_def apu_defs
      trigger_phase_reload_le trigger_delay_le)

lemma pulse_wf_reload_period [pulse_wf_intros]:
  "pulse_wf p \<Longrightarrow> pulse_wf (pulse_reload_period_after_write_if_just_sampled pv p)"
  by (simp add: pulse_reload_period_after_write_if_just_sampled_def pulse_wf_def
      pulse_timer_reload_bounds)

lemma pulse_wf_envelope_clocks [pulse_wf_intros]:
  "pulse_wf p \<Longrightarrow> pulse_wf (pulse_clock_envelope p)"
  "pulse_wf p \<Longrightarrow> pulse_wf (pulse_clock_cgb_live_write_pending_even_envelope_tick p)"
  by (auto simp: pulse_clock_envelope_def pulse_wf_def
      pulse_clock_cgb_live_write_pending_even_envelope_tick_def)

lemma pulse_wf_age [pulse_wf_intros]: "pulse_wf p \<Longrightarrow> pulse_wf (pulse_age_just_sampled b p)"
  by (simp add: pulse_age_just_sampled_def pulse_wf_def Let_def)

lemma u16_pred_le: "(t::u16) \<le> k \<Longrightarrow> 0 < t \<Longrightarrow> t - 1 \<le> k"
  by (simp add: word_le_nat_alt word_less_nat_alt unat_sub_if')

lemma pulse_wf_clock_period [pulse_wf_intros]:
  "pulse_wf p \<Longrightarrow> pulse_wf (pulse_clock_period_timer pv p)"
  by (auto simp: pulse_clock_period_timer_def pulse_wf_def Let_def pulse_timer_reload_bounds
      u16_pred_le split: option.splits)

lemma pulse_wf_tick [pulse_wf_intros]:
  assumes "pulse_wf p"
  shows "pulse_wf (pulse_tick_fast_timer_with_clock_gate pv b p)"
proof -
  let ?q = "pulse_age_just_sampled b p"
  have q: "pulse_wf ?q" by (rule pulse_wf_age[OF assms])
  then have "pulse_wf (?q\<lparr>pul_power_on_phase := (pul_power_on_phase ?q + 1) AND 0x07\<rparr>)"
    "0 < pul_trigger_delay_t_cycles ?q \<Longrightarrow>
       pulse_wf (?q\<lparr>pul_trigger_delay_t_cycles := pul_trigger_delay_t_cycles ?q - 1\<rparr>)"
    by (auto simp: pulse_wf_def u16_pred_le)
  then show ?thesis
    using q pulse_wf_clock_period[OF q]
    by (auto simp: pulse_tick_fast_timer_with_clock_gate_def Let_def)
qed

lemma pulse_output_le: "pulse_wf p \<Longrightarrow> pulse_current_digital_output p \<le> 15"
  by (simp add: pulse_current_digital_output_def pulse_wf_def env_wf_def)

subsection \<open>Invariant of channel 2\<close>

lemmas ch2_defs =
  ch2_write_nr21_def ch2_write_nr22_def ch2_write_nr23_def ch2_write_nr24_def ch2_trigger_def
  ch2_map_pulse_def ch2_write_powered_off_register_def ch2_write_length_while_powered_off_def
  ch2_apply_powered_startup_def ch2_power_off_registers_def ch2_mark_powered_on_def
  ch2_tick_fast_timer_with_clock_gate_def ch2_clock_length_def ch2_clock_envelope_def
  ch2_clock_cgb_live_write_pending_even_envelope_tick_def begin_nrx4_write_def

lemma ch2_wf_write_nr24:
  assumes "pulse_wf (ch2_pulse c)"
  shows "pulse_wf (ch2_pulse (ch2_write_nr24 v m s st c))"
proof -
  have "pulse_wf p' " if "pulse_trigger m s pv nr b (ch2_pulse c) = (r, p')" for pv nr b r p'
    using pulse_wf_trigger[OF assms, of m s pv nr b] that by simp
  then show ?thesis
    using assms by (auto simp: ch2_defs Let_def intro!: pulse_wf_intros split: prod.splits)
qed

lemma ch2_wf_write:
  "pulse_wf (ch2_pulse c) \<Longrightarrow> pulse_wf (ch2_pulse (ch2_write_register r v m s st c))"
  by (cases r) (auto simp: ch2_write_register_def ch2_wf_write_nr24, 
      auto simp: ch2_defs Let_def intro!: pulse_wf_intros)

lemma ch2_wf_others [pulse_wf_intros]:
  "pulse_wf (ch2_pulse c) \<Longrightarrow> pulse_wf (ch2_pulse (ch2_write_powered_off_register r v m c))"
  "pulse_wf (ch2_pulse (ch2_apply_powered_startup a1 a2 a3 a4 act c))"
  "pulse_wf (ch2_pulse c) \<Longrightarrow> pulse_wf (ch2_pulse (ch2_power_off_registers m c))"
  "pulse_wf (ch2_pulse c) \<Longrightarrow> pulse_wf (ch2_pulse (ch2_mark_powered_on c))"
  "pulse_wf (ch2_pulse c) \<Longrightarrow> pulse_wf (ch2_pulse (ch2_tick_fast_timer_with_clock_gate g c))"
  "pulse_wf (ch2_pulse c) \<Longrightarrow> pulse_wf (ch2_pulse (ch2_clock_length c))"
  "pulse_wf (ch2_pulse c) \<Longrightarrow> pulse_wf (ch2_pulse (ch2_clock_envelope c))"
  "pulse_wf (ch2_pulse c) \<Longrightarrow>
     pulse_wf (ch2_pulse (ch2_clock_cgb_live_write_pending_even_envelope_tick c))"
  by (auto simp: ch2_defs Let_def intro!: pulse_wf_intros)

end
