(* ===== verification/Apu_Sweep.thy ===== *)
theory Apu_Sweep
  imports Apu_Pulse
begin

text \<open>
  Channel 1 (\<open>apu/channels/ch1.rs\<close>): a pulse generator with a frequency sweep. The sweep has a
  CGB path, which delays its overflow check by a count of T-cycles, and a DMG path, a small
  pipeline of countdowns clocked on the odd phase of the APU. The methods that take NR13, NR14
  and the runtime by \<open>&mut\<close> return them, in a \<open>sweep_regs\<close>.
\<close>

record sweep_calculation =
  sc_candidate_sum :: u16
  sc_addend :: u16
  sc_decreases :: bool

record ch1_sweep_recalculation =
  rc_countdown :: u16
  rc_target_trigger_counter :: u8
  rc_trigger_counter :: u8
  rc_instant :: bool
  rc_increment :: u16
  rc_from_trigger :: bool
  rc_reload_countdown :: u8
  rc_reload_period_reloaded :: bool
  rc_reload_period_pending :: bool

record channel1_sweep_state =
  sw_timer :: u8
  sw_phase :: u8
  sw_enabled :: bool
  sw_shadow_period :: u16
  sw_completed_addend :: u16
  sw_negate_calculated_since_trigger :: bool
  sw_delayed_calculation_t_cycles :: u16
  sw_delayed_calculation_shadow_period :: u16
  sw_delayed_calculation_addend :: u16
  sw_delayed_calculation_decreases :: bool
  sw_restart_hold_t_cycles :: u16
  sw_recalculation :: ch1_sweep_recalculation
  sw_restart_countdown_t_cycles :: u16
  sw_period_increment :: u16

record sweep_regs =
  sr_nr13 :: u8
  sr_nr14 :: u8
  sr_runtime :: channel_runtime

type_synonym sweep_and_regs = "channel1_sweep_state \<times> sweep_regs"

definition recalculation_default :: ch1_sweep_recalculation where
  "recalculation_default =
     \<lparr>rc_countdown = 0, rc_target_trigger_counter = 0, rc_trigger_counter = 0, rc_instant = False,
      rc_increment = 0, rc_from_trigger = False, rc_reload_countdown = 0,
      rc_reload_period_reloaded = False, rc_reload_period_pending = False\<rparr>"

definition sweep_default :: channel1_sweep_state where
  "sweep_default =
     \<lparr>sw_timer = 0, sw_phase = 0, sw_enabled = False, sw_shadow_period = 0,
      sw_completed_addend = 0, sw_negate_calculated_since_trigger = False,
      sw_delayed_calculation_t_cycles = 0, sw_delayed_calculation_shadow_period = 0,
      sw_delayed_calculation_addend = 0, sw_delayed_calculation_decreases = False,
      sw_restart_hold_t_cycles = 0, sw_recalculation = recalculation_default,
      sw_restart_countdown_t_cycles = 0, sw_period_increment = 0\<rparr>"

definition sw_map_recalculation ::
    "(ch1_sweep_recalculation \<Rightarrow> ch1_sweep_recalculation) \<Rightarrow> channel1_sweep_state
     \<Rightarrow> channel1_sweep_state" where
  "sw_map_recalculation f s = s\<lparr>sw_recalculation := f (sw_recalculation s)\<rparr>"

definition sr_deactivate :: "sweep_regs \<Rightarrow> sweep_regs" where
  "sr_deactivate r = r\<lparr>sr_runtime := (sr_runtime r)\<lparr>rt_active := False\<rparr>\<rparr>"

definition sr_live_period :: "sweep_regs \<Rightarrow> u16" where
  "sr_live_period r =
     push_bit 8 (ucast (sr_nr14 r) AND ucast PERIOD_HIGH_MASK) OR ucast (sr_nr13 r)"

definition sr_write_period :: "u16 \<Rightarrow> sweep_regs \<Rightarrow> sweep_regs" where
  "sr_write_period candidate r =
     r\<lparr>sr_nr13 := ucast candidate,
       sr_nr14 := (sr_nr14 r AND NOT PERIOD_HIGH_MASK)
         OR (ucast (drop_bit 8 candidate) AND PERIOD_HIGH_MASK)\<rparr>"

subsection \<open>Phase, calculation and the delayed check\<close>

definition phase_from_pace :: "u8 \<Rightarrow> u8" where
  "phase_from_pace pace = pace XOR 0x07"

definition timer_from_phase :: "u8 \<Rightarrow> u8" where
  "timer_from_phase phase = (if phase = 7 then 8 else 7 - (phase AND 0x07))"

definition sw_set_phase :: "u8 \<Rightarrow> channel1_sweep_state \<Rightarrow> channel1_sweep_state" where
  "sw_set_phase phase s = s\<lparr>sw_phase := phase, sw_timer := timer_from_phase phase\<rparr>"

definition calculate_candidate_sum :: "u8 \<Rightarrow> u16 \<Rightarrow> bool \<Rightarrow> sweep_calculation option" where
  "calculate_candidate_sum nr10 shadow_period allow_shift_zero =
     (let shift = sweep_shift_from_nr10 nr10
      in if shift = 0 \<and> \<not> allow_shift_zero then None
         else
           let delta = drop_bit (unat shift) shadow_period;
               decreases = sweep_decreases_from_nr10 nr10;
               addend = (if decreases then (NOT delta) AND PULSE_PERIOD_MAX else delta)
           in Some \<lparr>sc_candidate_sum = shadow_period + addend + of_bool decreases,
                    sc_addend = addend, sc_decreases = decreases\<rparr>)"

definition observe_calculation ::
    "sweep_calculation \<Rightarrow> channel1_sweep_state \<Rightarrow> channel1_sweep_state" where
  "observe_calculation calculation s =
     s\<lparr>sw_completed_addend := sc_addend calculation,
       sw_negate_calculated_since_trigger :=
         (sw_negate_calculated_since_trigger s \<or> sc_decreases calculation)\<rparr>"

definition clear_delayed_calculation :: "channel1_sweep_state \<Rightarrow> channel1_sweep_state" where
  "clear_delayed_calculation s =
     s\<lparr>sw_delayed_calculation_t_cycles := 0, sw_delayed_calculation_shadow_period := 0,
       sw_delayed_calculation_addend := 0, sw_delayed_calculation_decreases := False\<rparr>"

definition schedule_delayed_calculation ::
    "u8 \<Rightarrow> u16 \<Rightarrow> sweep_calculation \<Rightarrow> u16 \<Rightarrow> channel1_sweep_state \<Rightarrow> channel1_sweep_state" where
  "schedule_delayed_calculation nr10 shadow_period calculation extra_t_cycles s =
     (let shift = sweep_shift_from_nr10 nr10;
          shift_delay = (if shift = 0 then 4 else max (ucast (shift + 1) * 4) 8)
      in s\<lparr>sw_delayed_calculation_t_cycles := shift_delay + extra_t_cycles,
           sw_delayed_calculation_shadow_period := shadow_period,
           sw_delayed_calculation_addend := sc_addend calculation,
           sw_delayed_calculation_decreases := sc_decreases calculation\<rparr>)"

definition tick_delayed_calculation :: "bool \<Rightarrow> sweep_and_regs \<Rightarrow> sweep_and_regs" where
  "tick_delayed_calculation clock_generation_timer = (\<lambda>(s, r).
     if \<not> clock_generation_timer then (s, r)
     else
       let s = s\<lparr>sw_restart_hold_t_cycles := u16_saturating_sub (sw_restart_hold_t_cycles s) 1\<rparr>
       in if sw_delayed_calculation_t_cycles s = 0 then (s, r)
          else
            let s = s\<lparr>sw_delayed_calculation_t_cycles := sw_delayed_calculation_t_cycles s - 1\<rparr>
            in if sw_delayed_calculation_t_cycles s \<noteq> 0 then (s, r)
               else
                 let r = (if \<not> sw_delayed_calculation_decreases s
                             \<and> sw_delayed_calculation_shadow_period s
                                 + sw_delayed_calculation_addend s > PULSE_PERIOD_MAX
                          then sr_deactivate r else r)
                 in (clear_delayed_calculation
                       (s\<lparr>sw_completed_addend := sw_delayed_calculation_addend s\<rparr>), r))"

subsection \<open>The DMG recalculation pipeline\<close>

definition dmg_apply_trigger_recalculation ::
    "u8 \<Rightarrow> channel1_sweep_state \<Rightarrow> channel1_sweep_state" where
  "dmg_apply_trigger_recalculation nr10 s =
     (let step = sweep_shift_from_nr10 nr10;
          prev_target = rc_target_trigger_counter (sw_recalculation s);
          prev_trigger_counter = rc_trigger_counter (sw_recalculation s);
          prev_countdown_m = rc_countdown (sw_recalculation s);
          s = sw_map_recalculation
                (\<lambda>rc. rc\<lparr>rc_from_trigger := True, rc_increment := 0, rc_instant := False\<rparr>) s;
          s = s\<lparr>sw_period_increment := 0\<rparr>;
          s = (if prev_target = 0 \<or> prev_trigger_counter = prev_target
               then s\<lparr>sw_restart_countdown_t_cycles := 5\<rparr> else s)
      in if step \<noteq> 0
         then
           let s = s\<lparr>sw_period_increment := drop_bit (unat step) (sw_shadow_period s)\<rparr>;
               s = (if \<not> (prev_target > 0 \<and> prev_trigger_counter < 2)
                    then
                      let new_target = 2;
                          new_target = (if prev_countdown_m < 2
                                        then u8_saturating_add new_target 1 else new_target);
                          new_target = (if prev_trigger_counter = 2 \<and> prev_countdown_m = ucast step
                                        then u8_saturating_add new_target 1 else new_target)
                      in sw_map_recalculation
                           (\<lambda>rc. rc\<lparr>rc_target_trigger_counter := new_target,
                                    rc_trigger_counter := 0\<rparr>) s
                    else s)
           in sw_map_recalculation (\<lambda>rc. rc\<lparr>rc_countdown := ucast step\<rparr>) s
         else s)"

definition period_sweep_recalculation_done :: "u8 \<Rightarrow> sweep_and_regs \<Rightarrow> sweep_and_regs" where
  "period_sweep_recalculation_done nr10 = (\<lambda>(s, r).
     let decreases = sweep_decreases_from_nr10 nr10;
         live_period = sr_live_period r;
         s = s\<lparr>sw_shadow_period := live_period\<rparr>;
         raw_increment = sw_period_increment s;
         signed_increment =
           (if decreases then (NOT raw_increment) AND PULSE_PERIOD_MAX else raw_increment);
         s = sw_map_recalculation (\<lambda>rc. rc\<lparr>rc_increment := signed_increment\<rparr>) s;
         r = (if \<not> decreases
              then
                let complement_bit = (if rc_from_trigger (sw_recalculation s) then 0 else 1);
                    candidate = live_period + signed_increment + complement_bit
                in if candidate > PULSE_PERIOD_MAX then sr_deactivate r else r
              else r);
         s = (if decreases then s\<lparr>sw_negate_calculated_since_trigger := True\<rparr> else s)
     in (sw_map_recalculation (\<lambda>rc. rc\<lparr>rc_from_trigger := False\<rparr>) s, r))"

definition period_sweep_reload_done ::
    "u8 \<Rightarrow> channel1_sweep_state \<Rightarrow> sweep_regs \<Rightarrow> channel1_sweep_state" where
  "period_sweep_reload_done nr10 s r =
     (let step = sweep_shift_from_nr10 nr10;
          decreases = sweep_decreases_from_nr10 nr10;
          live_period = sr_live_period r;
          raw_increment = drop_bit (unat step) live_period;
          s = s\<lparr>sw_period_increment := raw_increment\<rparr>;
          s = sw_map_recalculation
                (\<lambda>rc. rc\<lparr>rc_increment :=
                   (if decreases then (NOT raw_increment) AND PULSE_PERIOD_MAX
                    else raw_increment)\<rparr>) s;
          s = (if sw_restart_countdown_t_cycles s = 0
               then if step = 0
                    then sw_map_recalculation (\<lambda>rc. rc\<lparr>rc_instant := True, rc_countdown := 0\<rparr>) s
                    else sw_map_recalculation (\<lambda>rc. rc\<lparr>rc_countdown := ucast step\<rparr>) s
               else s)
      in sw_map_recalculation
           (\<lambda>rc. rc\<lparr>rc_reload_period_reloaded := False, rc_reload_period_pending := False\<rparr>) s)"

definition tick_period_sweep_recalculation :: "u8 \<Rightarrow> u8 \<Rightarrow> sweep_and_regs \<Rightarrow> sweep_and_regs" where
  "tick_period_sweep_recalculation nr10 apu_clock = (\<lambda>(s, r).
     if rc_instant (sw_recalculation s)
     then period_sweep_recalculation_done nr10
            (sw_map_recalculation (\<lambda>rc. rc\<lparr>rc_instant := False\<rparr>) s, r)
     else if apu_clock AND 0x01 = 0 then (s, r)
     else if rc_trigger_counter (sw_recalculation s) < rc_target_trigger_counter (sw_recalculation s)
     then (sw_map_recalculation (\<lambda>rc. rc\<lparr>rc_trigger_counter := rc_trigger_counter rc + 1\<rparr>) s, r)
     else if rc_countdown (sw_recalculation s) = 0 then (s, r)
     else if sweep_shift_from_nr10 nr10 = 0 then (s, r)
     else
       let s = sw_map_recalculation (\<lambda>rc. rc\<lparr>rc_countdown := rc_countdown rc - 1\<rparr>) s
       in if rc_countdown (sw_recalculation s) = 0
          then period_sweep_recalculation_done nr10 (s, r) else (s, r))"

definition tick_period_sweep_reload ::
    "u8 \<Rightarrow> channel1_sweep_state \<Rightarrow> sweep_regs \<Rightarrow> channel1_sweep_state" where
  "tick_period_sweep_reload nr10 s r =
     (let s = (if sw_restart_countdown_t_cycles s > 0
               then s\<lparr>sw_restart_countdown_t_cycles := sw_restart_countdown_t_cycles s - 1\<rparr> else s)
      in if rc_reload_countdown (sw_recalculation s) > 0
         then
           let s = sw_map_recalculation (\<lambda>rc. rc\<lparr>rc_reload_countdown := rc_reload_countdown rc - 1\<rparr>) s
           in if rc_reload_countdown (sw_recalculation s) = 0
              then period_sweep_reload_done nr10 s r else s
         else s)"

definition tick_recalculation :: "u8 \<Rightarrow> u8 \<Rightarrow> u8 \<Rightarrow> sweep_and_regs \<Rightarrow> sweep_and_regs" where
  "tick_recalculation nr10 apu_clock t_cycle_phase x =
     (let is_tick_odd = (t_cycle_phase AND 0x01 = 1)
      in if \<not> is_tick_odd then x
         else case tick_period_sweep_recalculation nr10 apu_clock x of
           (s, r) \<Rightarrow> (tick_period_sweep_reload nr10 s r, r))"

definition dmg_schedule_recalculation_post_writeback ::
    "u8 \<Rightarrow> channel1_sweep_state \<Rightarrow> channel1_sweep_state" where
  "dmg_schedule_recalculation_post_writeback nr10 s =
     (let s = (if rc_countdown (sw_recalculation s) > 0
               then (sw_map_recalculation (\<lambda>rc. rc\<lparr>rc_increment := 0\<rparr>) s)\<lparr>sw_period_increment := 0\<rparr>
               else s);
          step = sweep_shift_from_nr10 nr10
      in sw_map_recalculation
           (\<lambda>rc. rc\<lparr>rc_reload_countdown := 2, rc_reload_period_reloaded := (step \<noteq> 0),
                    rc_reload_period_pending := True\<rparr>) s)"

subsection \<open>The sweep boundary\<close>

definition cgb_fire_sweep ::
    "u8 \<Rightarrow> sweep_calculation \<Rightarrow> sweep_and_regs \<Rightarrow> sweep_and_regs" where
  "cgb_fire_sweep nr10 calculation = (\<lambda>(s, r).
     let s = observe_calculation calculation s
     in if \<not> sc_decreases calculation \<and> sc_candidate_sum calculation > PULSE_PERIOD_MAX
        then (schedule_delayed_calculation nr10 (sw_shadow_period s) calculation 0 s, r)
        else if sweep_shift_from_nr10 nr10 = 0
        then (schedule_delayed_calculation nr10 (sw_shadow_period s) calculation 0 s, r)
        else
          let candidate = sc_candidate_sum calculation AND PULSE_PERIOD_MAX;
              s = s\<lparr>sw_shadow_period := candidate\<rparr>;
              r = sr_write_period candidate r
          in case calculate_candidate_sum nr10 (sw_shadow_period s) True of
               None \<Rightarrow> (s, r)
             | Some next_calculation \<Rightarrow>
                 (schedule_delayed_calculation nr10 (sw_shadow_period s) next_calculation 0
                    (observe_calculation next_calculation s), r))"

definition dmg_fire_sweep :: "u8 \<Rightarrow> sweep_and_regs \<Rightarrow> sweep_and_regs" where
  "dmg_fire_sweep nr10 = (\<lambda>(s, r).
     let decreases = sweep_decreases_from_nr10 nr10;
         dmg_addend = (if decreases then (NOT (sw_period_increment s)) AND PULSE_PERIOD_MAX
                       else sw_period_increment s);
         dmg_candidate_sum = sw_shadow_period s + dmg_addend + of_bool decreases;
         s = observe_calculation
               \<lparr>sc_candidate_sum = dmg_candidate_sum, sc_addend = dmg_addend,
                sc_decreases = decreases\<rparr> s
     in if sweep_shift_from_nr10 nr10 = 0
        then (sw_map_recalculation
                (\<lambda>rc. rc\<lparr>rc_reload_countdown := 2, rc_reload_period_reloaded := False,
                         rc_reload_period_pending := True\<rparr>) s, r)
        else
          let candidate = dmg_candidate_sum AND PULSE_PERIOD_MAX;
              s = s\<lparr>sw_shadow_period := candidate\<rparr>
          in (dmg_schedule_recalculation_post_writeback nr10 s, sr_write_period candidate r))"

definition maybe_fire_sweep_boundary ::
    "console_model \<Rightarrow> u8 \<Rightarrow> sweep_and_regs \<Rightarrow> sweep_and_regs" where
  "maybe_fire_sweep_boundary m nr10 = (\<lambda>(s, r).
     let pace = sweep_pace_from_nr10 nr10
     in if sw_phase s \<noteq> 7 \<or> pace = 0 \<or> \<not> sw_enabled s then (s, r)
        else
          let s = sw_set_phase (phase_from_pace pace) s;
              shift = sweep_shift_from_nr10 nr10
          in if shift = 0 \<and> is_cgb_family m \<and> sw_restart_hold_t_cycles s > 0 then (s, r)
             else case calculate_candidate_sum nr10 (sw_shadow_period s) True of
               None \<Rightarrow> (s, r)
             | Some calculation \<Rightarrow>
                 if is_cgb_family m then cgb_fire_sweep nr10 calculation (s, r)
                 else dmg_fire_sweep nr10 (s, r))"

definition sweep_clock :: "console_model \<Rightarrow> u8 \<Rightarrow> sweep_and_regs \<Rightarrow> sweep_and_regs" where
  "sweep_clock m nr10 = (\<lambda>(s, r).
     let s = sw_set_phase ((sw_phase s + 1) AND 0x07) s
     in if sw_phase s \<noteq> 7 then (s, r)
        else if \<not> sw_enabled s then (s, r)
        else maybe_fire_sweep_boundary m nr10 (s, r))"

subsection \<open>Writes and triggers\<close>

text \<open>The two parts of \<open>apply_dmg_nr10_glitches\<close>: the overflow check against the increment
  in flight, and the countdown the write disturbs.\<close>

definition dmg_nr10_overflow_glitch :: "u8 \<Rightarrow> sweep_and_regs \<Rightarrow> sweep_regs" where
  "dmg_nr10_overflow_glitch new_nr10 = (\<lambda>(s, r).
     let new_decreases = sweep_decreases_from_nr10 new_nr10
     in if \<not> new_decreases
        then
          let complement_bit = (if rc_from_trigger (sw_recalculation s) then 0 else 1);
              candidate = sw_shadow_period s + rc_increment (sw_recalculation s);
              candidate = candidate + complement_bit
          in if candidate > PULSE_PERIOD_MAX then sr_deactivate r else r
        else r)"

definition dmg_nr10_countdown_glitch :: "u8 \<Rightarrow> u8 \<Rightarrow> sweep_and_regs \<Rightarrow> sweep_and_regs" where
  "dmg_nr10_countdown_glitch old_nr10 new_nr10 = (\<lambda>(s, r).
     let prev_step = sweep_shift_from_nr10 old_nr10;
         new_step = sweep_shift_from_nr10 new_nr10
     in if rc_target_trigger_counter (sw_recalculation s) > 0
           \<and> rc_trigger_counter (sw_recalculation s) < 2
        then
          let s = sw_map_recalculation (\<lambda>rc. rc\<lparr>rc_countdown := ucast new_step\<rparr>) s
          in (if new_step = 0
              then sw_map_recalculation
                     (\<lambda>rc. rc\<lparr>rc_trigger_counter := 0, rc_target_trigger_counter := 0,
                              rc_countdown := 0\<rparr>) s
              else s, r)
        else if rc_countdown (sw_recalculation s) > 0 \<and> prev_step = 0 \<and> new_step \<noteq> 0
        then
          let s = sw_map_recalculation (\<lambda>rc. rc\<lparr>rc_countdown := rc_countdown rc - 1\<rparr>) s
          in if rc_countdown (sw_recalculation s) = 0
             then period_sweep_recalculation_done new_nr10 (s, r) else (s, r)
        else (s, r))"

definition apply_dmg_nr10_glitches :: "u8 \<Rightarrow> u8 \<Rightarrow> sweep_and_regs \<Rightarrow> sweep_and_regs" where
  "apply_dmg_nr10_glitches old_nr10 new_nr10 = (\<lambda>(s, r).
     let r = dmg_nr10_overflow_glitch new_nr10 (s, r)
     in if \<not> rt_active (sr_runtime r) then (s, r)
        else
          let (s, r) = dmg_nr10_countdown_glitch old_nr10 new_nr10 (s, r)
          in if sw_enabled s \<and> sw_phase s = 7
             then maybe_fire_sweep_boundary GameBoy new_nr10 (s, r) else (s, r))"

definition sweep_write_nr10 ::
    "console_model \<Rightarrow> u8 \<Rightarrow> u8 \<Rightarrow> sweep_and_regs \<Rightarrow> sweep_and_regs" where
  "sweep_write_nr10 m old_nr10 new_nr10 = (\<lambda>(s, r).
     let s = (if is_cgb_family m \<and> sweep_pace_from_nr10 new_nr10 = 0
                 \<and> sweep_shift_from_nr10 new_nr10 = 0
              then clear_delayed_calculation s else s);
         r = (if sweep_decreases_from_nr10 old_nr10 \<and> \<not> sweep_decreases_from_nr10 new_nr10
                 \<and> sw_negate_calculated_since_trigger s
              then sr_deactivate r else r);
         (s, r) =
           (if is_dmg_family m \<and> rt_active (sr_runtime r)
            then apply_dmg_nr10_glitches old_nr10 new_nr10
                   (s\<lparr>sw_enabled := (sweep_pace_from_nr10 new_nr10 \<noteq> 0
                                     \<or> sweep_shift_from_nr10 new_nr10 \<noteq> 0)\<rparr>, r)
            else (s, r))
     in maybe_fire_sweep_boundary m new_nr10 (s, r))"

definition sweep_trigger ::
    "console_model \<Rightarrow> hardware_revision \<Rightarrow> u8 \<Rightarrow> u16 \<Rightarrow> channel1_sweep_state
     \<Rightarrow> channel1_sweep_state" where
  "sweep_trigger m revision nr10 period_value s =
     (let pace = sweep_pace_from_nr10 nr10;
          s = s\<lparr>sw_shadow_period := period_value\<rparr>;
          s = sw_set_phase (phase_from_pace pace) s;
          s = s\<lparr>sw_enabled := (pace \<noteq> 0 \<or> sweep_shift_from_nr10 nr10 \<noteq> 0),
                sw_completed_addend := 0,
                sw_negate_calculated_since_trigger := False,
                sw_restart_hold_t_cycles :=
                  (if is_cgb_family m then cgb_ch1_sweep_restart_hold_t_cycles revision else 0)\<rparr>;
          s = clear_delayed_calculation s;
          s = (if is_dmg_family m
               then (dmg_apply_trigger_recalculation nr10 s)\<lparr>sw_shadow_period := 0\<rparr> else s)
      in if is_cgb_family m
         then case calculate_candidate_sum nr10 (sw_shadow_period s) False of
             None \<Rightarrow> s
           | Some calculation \<Rightarrow>
               let s = observe_calculation calculation s
               in schedule_delayed_calculation nr10 (sw_shadow_period s) calculation 4 s
         else s)"

definition sweep_apply_powered_startup ::
    "u8 \<Rightarrow> u16 \<Rightarrow> bool \<Rightarrow> channel1_sweep_state \<Rightarrow> channel1_sweep_state" where
  "sweep_apply_powered_startup nr10 period_value active s =
     (let pace = sweep_pace_from_nr10 nr10;
          s = sweep_default\<lparr>sw_shadow_period := period_value\<rparr>;
          s = sw_set_phase (phase_from_pace pace) s
      in s\<lparr>sw_enabled := (active \<and> (pace \<noteq> 0 \<or> sweep_shift_from_nr10 nr10 \<noteq> 0))\<rparr>)"

subsection \<open>Channel 1\<close>

datatype channel1_register = Nr10 | Nr11 | Nr12 | Nr13 | Nr14

record channel1_state =
  ch1_nr10 :: u8
  ch1_nr11 :: u8
  ch1_nr12 :: u8
  ch1_nr13 :: u8
  ch1_nr14 :: u8
  ch1_pulse :: pulse_channel
  ch1_sweep :: channel1_sweep_state

definition channel1_default :: channel1_state where
  "channel1_default =
     \<lparr>ch1_nr10 = 0, ch1_nr11 = 0, ch1_nr12 = 0, ch1_nr13 = 0, ch1_nr14 = 0,
      ch1_pulse = pulse_default, ch1_sweep = sweep_default\<rparr>"

definition ch1_map_pulse :: "(pulse_channel \<Rightarrow> pulse_channel) \<Rightarrow> channel1_state \<Rightarrow> channel1_state" where
  "ch1_map_pulse f c = c\<lparr>ch1_pulse := f (ch1_pulse c)\<rparr>"

text \<open>A sweep method called with \<open>&mut self.nr13\<close>, \<open>&mut self.nr14\<close> and
  \<open>&mut self.pulse.runtime\<close>.\<close>

definition ch1_run_sweep ::
    "(sweep_and_regs \<Rightarrow> sweep_and_regs) \<Rightarrow> channel1_state \<Rightarrow> channel1_state" where
  "ch1_run_sweep f c =
     (case f (ch1_sweep c, \<lparr>sr_nr13 = ch1_nr13 c, sr_nr14 = ch1_nr14 c,
                            sr_runtime = pul_runtime (ch1_pulse c)\<rparr>) of
        (s, r) \<Rightarrow>
          c\<lparr>ch1_sweep := s, ch1_nr13 := sr_nr13 r, ch1_nr14 := sr_nr14 r,
            ch1_pulse := (ch1_pulse c)\<lparr>pul_runtime := sr_runtime r\<rparr>\<rparr>)"

definition ch1_map_recalculation ::
    "(ch1_sweep_recalculation \<Rightarrow> ch1_sweep_recalculation) \<Rightarrow> channel1_state \<Rightarrow> channel1_state" where
  "ch1_map_recalculation f c = c\<lparr>ch1_sweep := sw_map_recalculation f (ch1_sweep c)\<rparr>"

definition ch1_derived_dac_enabled :: "channel1_state \<Rightarrow> bool" where
  "ch1_derived_dac_enabled c = (ch1_nr12 c AND DAC_ENABLE_REGISTER_MASK \<noteq> 0)"

definition ch1_period_value :: "channel1_state \<Rightarrow> u16" where
  "ch1_period_value c = pulse_period_from_registers (ch1_nr13 c) (ch1_nr14 c)"

definition ch1_read_register :: "channel1_register \<Rightarrow> channel1_state \<Rightarrow> u8" where
  "ch1_read_register r c =
     (case r of
        Nr10 \<Rightarrow> ch1_nr10 c OR 0x80
      | Nr11 \<Rightarrow> (ch1_nr11 c AND 0xC0) OR 0x3F
      | Nr12 \<Rightarrow> ch1_nr12 c
      | Nr13 \<Rightarrow> 0xFF
      | Nr14 \<Rightarrow> (ch1_nr14 c AND 0x40) OR 0xBF)"

definition ch1_write_nr10 :: "u8 \<Rightarrow> console_model \<Rightarrow> channel1_state \<Rightarrow> channel1_state" where
  "ch1_write_nr10 v m c =
     (let old_nr10 = ch1_nr10 c;
          c = c\<lparr>ch1_nr10 := v AND NOT 0x80\<rparr>
      in ch1_run_sweep (sweep_write_nr10 m old_nr10 (ch1_nr10 c)) c)"

definition ch1_write_nr11 :: "u8 \<Rightarrow> channel1_state \<Rightarrow> channel1_state" where
  "ch1_write_nr11 v c = ch1_map_pulse (pulse_apply_length_duty_write v) (c\<lparr>ch1_nr11 := v\<rparr>)"

definition ch1_write_nr12 :: "u8 \<Rightarrow> console_model \<Rightarrow> channel1_state \<Rightarrow> channel1_state" where
  "ch1_write_nr12 v m c =
     (let c = ch1_map_pulse (pulse_apply_live_envelope_write_effect m v) c;
          c = c\<lparr>ch1_nr12 := v\<rparr>
      in ch1_map_pulse (pulse_apply_dac_enabled (ch1_derived_dac_enabled c)) c)"

definition ch1_write_nr13 :: "u8 \<Rightarrow> console_model \<Rightarrow> channel1_state \<Rightarrow> channel1_state" where
  "ch1_write_nr13 v m c =
     (if rc_reload_countdown (sw_recalculation (ch1_sweep c)) = 2
         \<and> rc_reload_period_reloaded (sw_recalculation (ch1_sweep c))
      then ch1_map_recalculation (\<lambda>rc. rc\<lparr>rc_reload_period_pending := False\<rparr>) c
      else
        let c = c\<lparr>ch1_nr13 := v\<rparr>;
            c = ch1_map_recalculation (\<lambda>rc. rc\<lparr>rc_reload_period_pending := False\<rparr>) c
        in if is_cgb_family m
           then ch1_map_pulse (pulse_reload_period_after_write_if_just_sampled (ch1_period_value c)) c
           else c)"

definition ch1_trigger ::
    "console_model \<Rightarrow> hardware_revision \<Rightarrow> cgb_speed_mode \<Rightarrow> bool \<Rightarrow> channel1_state
     \<Rightarrow> bool \<times> channel1_state" where
  "ch1_trigger m revision speed_mode next_step_clocks_envelope c =
     (let period_value = ch1_period_value c
      in case pulse_trigger m speed_mode period_value (ch1_nr12 c) next_step_clocks_envelope
                (ch1_pulse c) of
           (reloaded, p) \<Rightarrow>
             (reloaded,
              c\<lparr>ch1_pulse := p,
                ch1_sweep := sweep_trigger m revision (ch1_nr10 c) period_value (ch1_sweep c)\<rparr>))"

definition ch1_write_nr14_without_trigger :: "console_model \<Rightarrow> channel1_state \<Rightarrow> channel1_state" where
  "ch1_write_nr14_without_trigger m c =
     (let c = (if is_dmg_family m \<and> rc_reload_countdown (sw_recalculation (ch1_sweep c)) > 0
                  \<and> rc_reload_period_reloaded (sw_recalculation (ch1_sweep c))
               then
                 let step = sweep_shift_from_nr10 (ch1_nr10 c);
                     live_period = ch1_period_value c;
                     raw_increment = (if step = 0 then 0 else drop_bit (unat step) live_period);
                     decreases = sweep_decreases_from_nr10 (ch1_nr10 c)
                 in ch1_map_recalculation
                      (\<lambda>rc. rc\<lparr>rc_increment :=
                         (if decreases then (NOT raw_increment) AND PULSE_PERIOD_MAX
                          else raw_increment)\<rparr>) c
               else c)
      in if is_cgb_family m
         then ch1_map_pulse (pulse_reload_period_after_write_if_just_sampled (ch1_period_value c)) c
         else c)"

definition ch1_write_nr14 ::
    "u8 \<Rightarrow> console_model \<Rightarrow> hardware_revision \<Rightarrow> cgb_speed_mode \<Rightarrow> u8 \<Rightarrow> channel1_state
     \<Rightarrow> channel1_state" where
  "ch1_write_nr14 v m revision speed_mode next_frame_sequencer_step c =
     (let effective_value =
            (if rc_reload_countdown (sw_recalculation (ch1_sweep c)) = 2
                \<and> rc_reload_period_reloaded (sw_recalculation (ch1_sweep c))
             then (v AND NOT PERIOD_HIGH_MASK) OR (ch1_nr14 c AND PERIOD_HIGH_MASK) else v)
      in case begin_nrx4_write effective_value NRX4_WRITABLE_MASK next_frame_sequencer_step
                (pul_length_enabled (ch1_pulse c)) of
           (nr14, plan) \<Rightarrow>
             let c = c\<lparr>ch1_nr14 := nr14\<rparr>;
                 (plan, c) =
                   (if wc_trigger (wp_context plan)
                    then case ch1_trigger m revision speed_mode
                                (wc_next_step_clocks_envelope (wp_context plan)) c of
                           (reloaded, c) \<Rightarrow>
                             (observe_length_enabled_after_trigger (pul_length_enabled (ch1_pulse c))
                                (observe_trigger_reloaded_zero_length reloaded plan), c)
                    else (plan, ch1_write_nr14_without_trigger m c));
                 c = ch1_map_recalculation (\<lambda>rc. rc\<lparr>rc_reload_period_pending := False\<rparr>) c;
                 c = ch1_map_pulse (\<lambda>p. p\<lparr>pul_length_enabled := wc_length_enabled (wp_context plan)\<rparr>) c
             in ch1_map_pulse (pulse_apply_extra_length_clocking_on_enable m plan) c)"

definition ch1_write_register ::
    "channel1_register \<Rightarrow> u8 \<Rightarrow> console_model \<Rightarrow> hardware_revision \<Rightarrow> cgb_speed_mode \<Rightarrow> u8
     \<Rightarrow> channel1_state \<Rightarrow> channel1_state" where
  "ch1_write_register r v m revision speed_mode next_frame_sequencer_step c =
     (case r of
        Nr10 \<Rightarrow> ch1_write_nr10 v m c
      | Nr11 \<Rightarrow> ch1_write_nr11 v c
      | Nr12 \<Rightarrow> ch1_write_nr12 v m c
      | Nr13 \<Rightarrow> ch1_write_nr13 v m c
      | Nr14 \<Rightarrow> ch1_write_nr14 v m revision speed_mode next_frame_sequencer_step c)"

definition ch1_write_length_while_powered_off :: "u8 \<Rightarrow> channel1_state \<Rightarrow> channel1_state" where
  "ch1_write_length_while_powered_off v =
     ch1_map_pulse (pulse_write_length_counter_while_powered_off v)"

definition ch1_write_powered_off_register ::
    "channel1_register \<Rightarrow> u8 \<Rightarrow> console_model \<Rightarrow> channel1_state \<Rightarrow> channel1_state" where
  "ch1_write_powered_off_register r v m c =
     (if \<not> is_dmg_family m then c
      else if r = Nr11 then ch1_write_length_while_powered_off v c else c)"

definition ch1_apply_powered_startup ::
    "u8 \<Rightarrow> u8 \<Rightarrow> u8 \<Rightarrow> u8 \<Rightarrow> u8 \<Rightarrow> bool \<Rightarrow> channel1_state \<Rightarrow> channel1_state" where
  "ch1_apply_powered_startup nr10 nr11 nr12 nr13 nr14 active c =
     (let c = c\<lparr>ch1_nr10 := nr10 AND NOT 0x80, ch1_nr11 := nr11, ch1_nr12 := nr12,
                ch1_nr13 := nr13, ch1_nr14 := nr14 AND NRX4_WRITABLE_MASK\<rparr>;
          c = ch1_map_pulse
                (pulse_apply_channel_startup (ch1_nr11 c) (ch1_nr12 c) (ch1_nr14 c)
                   (ch1_period_value c) (ch1_derived_dac_enabled c) active) c
      in c\<lparr>ch1_sweep := sweep_apply_powered_startup (ch1_nr10 c) (ch1_period_value c)
              (rt_active (pul_runtime (ch1_pulse c))) (ch1_sweep c)\<rparr>)"

definition ch1_power_off_registers :: "console_model \<Rightarrow> channel1_state \<Rightarrow> channel1_state" where
  "ch1_power_off_registers m c =
     (ch1_map_pulse (pulse_power_off m)
        (c\<lparr>ch1_nr10 := 0, ch1_nr11 := 0, ch1_nr12 := 0, ch1_nr13 := 0, ch1_nr14 := 0\<rparr>))
       \<lparr>ch1_sweep := sweep_default\<rparr>"

definition ch1_mark_powered_on :: "channel1_state \<Rightarrow> channel1_state" where
  "ch1_mark_powered_on = ch1_map_pulse pulse_mark_powered_on"

definition ch1_tick_fast_timer_with_clock_gate ::
    "console_model \<Rightarrow> bool \<Rightarrow> u8 \<Rightarrow> u8 \<Rightarrow> channel1_state \<Rightarrow> channel1_state" where
  "ch1_tick_fast_timer_with_clock_gate m clock_period_timer apu_clock t_cycle_phase c =
     (let c = ch1_run_sweep (tick_delayed_calculation clock_period_timer) c;
          c = (if clock_period_timer \<and> is_dmg_family m
               then ch1_run_sweep (tick_recalculation (ch1_nr10 c) apu_clock t_cycle_phase) c else c)
      in ch1_map_pulse (pulse_tick_fast_timer_with_clock_gate (ch1_period_value c) clock_period_timer) c)"

definition ch1_clock_length :: "channel1_state \<Rightarrow> channel1_state" where
  "ch1_clock_length = ch1_map_pulse pulse_clock_length"

definition ch1_clock_envelope :: "channel1_state \<Rightarrow> channel1_state" where
  "ch1_clock_envelope = ch1_map_pulse pulse_clock_envelope"

definition ch1_clock_cgb_live_write_pending_even_envelope_tick ::
    "channel1_state \<Rightarrow> channel1_state" where
  "ch1_clock_cgb_live_write_pending_even_envelope_tick =
     ch1_map_pulse pulse_clock_cgb_live_write_pending_even_envelope_tick"

definition ch1_clock_sweep :: "console_model \<Rightarrow> channel1_state \<Rightarrow> channel1_state" where
  "ch1_clock_sweep m c = ch1_run_sweep (sweep_clock m (ch1_nr10 c)) c"

subsection \<open>Invariant: eleven-bit periods, and a sweep that only switches the channel off\<close>

definition sweep_wf :: "channel1_sweep_state \<Rightarrow> bool" where
  "sweep_wf s \<longleftrightarrow> sw_phase s \<le> 7 \<and> sw_shadow_period s \<le> 0x7FF \<and> sw_period_increment s \<le> 0x7FF
     \<and> sw_delayed_calculation_shadow_period s \<le> 0x7FF \<and> sw_delayed_calculation_addend s \<le> 0x7FF
     \<and> rc_increment (sw_recalculation s) \<le> 0x7FF"

definition sweep_keeps :: "sweep_and_regs \<Rightarrow> sweep_and_regs \<Rightarrow> bool" where
  "sweep_keeps x y \<longleftrightarrow> (sweep_wf (fst x) \<longrightarrow> sweep_wf (fst y))
     \<and> (sr_runtime (snd y) = sr_runtime (snd x)
        \<or> sr_runtime (snd y) = (sr_runtime (snd x))\<lparr>rt_active := False\<rparr>)"

lemma sweep_keeps_refl [simp]: "sweep_keeps x x"
  by (simp add: sweep_keeps_def)

lemma sweep_keeps_trans: "sweep_keeps x y \<Longrightarrow> sweep_keeps y z \<Longrightarrow> sweep_keeps x z"
  by (auto simp: sweep_keeps_def)

lemma drop_bit_le_period: "(x::u16) \<le> k \<Longrightarrow> drop_bit n x \<le> k"
proof -
  assume "x \<le> k"
  moreover have "unat (drop_bit n x) \<le> unat x"
    by (simp add: drop_bit_eq_div unat_div div_le_dividend)
  ultimately show ?thesis by (simp add: word_le_nat_alt)
qed

lemma live_period_is_period:
  "sr_live_period r = pulse_period_from_registers (sr_nr13 r) (sr_nr14 r)"
proof -
  have m7: "(7::u8) = Bit_Operations.mask 3" "(0x7FF::u16) = Bit_Operations.mask 11"
    "(7::u16) = Bit_Operations.mask 3"
    by (simp_all add: mask_eq_exp_minus_1)
  have "n < 8" if "bit (sr_nr13 r) n" for n
    using that bit_imp_le_length[of "sr_nr13 r" n] by simp
  then show ?thesis
    unfolding sr_live_period_def pulse_period_from_registers_def PERIOD_HIGH_MASK_def
      PULSE_PERIOD_MAX_def unsigned_numeral
    by - (rule bit_word_eqI, fastforce simp: m7 bit_simps)
qed

lemma period_from_registers_le: "pulse_period_from_registers lo hi \<le> 0x7FF"
  by (simp add: pulse_period_from_registers_def PULSE_PERIOD_MAX_def period_and_le)

lemma live_period_le: "sr_live_period r \<le> 0x7FF"
  by (simp add: live_period_is_period period_from_registers_le)

lemma phase_from_pace_le: "phase_from_pace (sweep_pace_from_nr10 x) \<le> 7"
proof -
  have "\<forall>x::u8. drop_bit 4 (x AND 0x70) XOR 7 \<le> 7"
    by (subst u8_exhaust) (simp add: upt_rec)
  then show ?thesis by (auto simp: phase_from_pace_def sweep_pace_from_nr10_def)
qed

lemmas sweep_state_defs =
  sw_map_recalculation_def sw_set_phase_def sr_deactivate_def sr_write_period_def
  observe_calculation_def clear_delayed_calculation_def schedule_delayed_calculation_def

lemma candidate_parts_le:
  "calculate_candidate_sum nr10 sp z = Some c \<Longrightarrow> sp \<le> 0x7FF \<Longrightarrow> sc_addend c \<le> 0x7FF"
  by (auto simp: calculate_candidate_sum_def Let_def PULSE_PERIOD_MAX_def period_and_le
      drop_bit_le_period split: if_splits)

lemma keeps_delayed: "sweep_keeps (s, r) (tick_delayed_calculation g (s, r))"
  by (auto simp: sweep_keeps_def tick_delayed_calculation_def Let_def sweep_wf_def
      sweep_state_defs)

lemma keeps_recalculation_done: "sweep_keeps (s, r) (period_sweep_recalculation_done nr10 (s, r))"
  by (auto simp: sweep_keeps_def period_sweep_recalculation_done_def Let_def sweep_wf_def
      sweep_state_defs live_period_le PULSE_PERIOD_MAX_def period_and_le)

lemma wf_reload_done: "sweep_wf s \<Longrightarrow> sweep_wf (period_sweep_reload_done nr10 s r)"
  by (auto simp: period_sweep_reload_done_def Let_def sweep_wf_def sweep_state_defs
      live_period_le PULSE_PERIOD_MAX_def period_and_le drop_bit_le_period)

lemma wf_map_recalculation:
  "\<forall>rc. rc_increment (f rc) = rc_increment rc \<Longrightarrow>
   sweep_wf (sw_map_recalculation f s) = sweep_wf s"
  by (simp add: sweep_wf_def sw_map_recalculation_def)

lemma keeps_map_recalculation:
  assumes "\<forall>rc. rc_increment (f rc) = rc_increment rc"
  shows "sweep_keeps (s, r) (sw_map_recalculation f s, r)"
    and "sweep_keeps (s, r) (period_sweep_recalculation_done nr10 (sw_map_recalculation f s, r))"
proof -
  show keep: "sweep_keeps (s, r) (sw_map_recalculation f s, r)"
    using assms by (simp add: sweep_keeps_def wf_map_recalculation)
  show "sweep_keeps (s, r) (period_sweep_recalculation_done nr10 (sw_map_recalculation f s, r))"
    by (rule sweep_keeps_trans[OF keep keeps_recalculation_done])
qed

lemma keeps_tick_period_recalculation:
  "sweep_keeps (s, r) (tick_period_sweep_recalculation nr10 ck (s, r))"
  by (auto simp: tick_period_sweep_recalculation_def Let_def intro!: keeps_map_recalculation)

lemma wf_tick_reload: "sweep_wf s \<Longrightarrow> sweep_wf (tick_period_sweep_reload nr10 s r)"
  by (auto simp: tick_period_sweep_reload_def Let_def wf_map_recalculation intro!: wf_reload_done)
    (auto simp: sweep_wf_def)

lemma keeps_tick_recalculation: "sweep_keeps (s, r) (tick_recalculation nr10 ck ph (s, r))"
  using keeps_tick_period_recalculation[of s r nr10 ck] wf_tick_reload
  by (auto simp: tick_recalculation_def Let_def sweep_keeps_def split: prod.splits)

lemma wf_set_phase: "sweep_wf s \<Longrightarrow> p \<le> 7 \<Longrightarrow> sweep_wf (sw_set_phase p s)"
  by (simp add: sweep_wf_def sw_set_phase_def)

lemma keeps_cgb_fire:
  assumes "sc_addend c \<le> 0x7FF"
  shows "sweep_keeps (s, r) (cgb_fire_sweep nr10 c (s, r))"
proof -
  have "sc_addend d \<le> 0x7FF"
    if "calculate_candidate_sum nr10 (x AND 0x7FF) True = Some d" for x d
    using candidate_parts_le[OF that period_and_le] .
  then show ?thesis
    using assms
    by (auto simp: sweep_keeps_def cgb_fire_sweep_def Let_def sweep_wf_def sweep_state_defs
        PULSE_PERIOD_MAX_def period_and_le split: option.splits)
qed

lemma keeps_dmg_fire: "sweep_keeps (s, r) (dmg_fire_sweep nr10 (s, r))"
  by (auto simp: sweep_keeps_def dmg_fire_sweep_def Let_def sweep_wf_def sweep_state_defs
      dmg_schedule_recalculation_post_writeback_def PULSE_PERIOD_MAX_def period_and_le)

lemma keeps_boundary: "sweep_keeps (s, r) (maybe_fire_sweep_boundary m nr10 (s, r))"
proof (cases "sw_phase s \<noteq> 7 \<or> sweep_pace_from_nr10 nr10 = 0 \<or> \<not> sw_enabled s")
  case True
  then show ?thesis by (auto simp: maybe_fire_sweep_boundary_def Let_def)
next
  case False
  define t where "t = sw_set_phase (phase_from_pace (sweep_pace_from_nr10 nr10)) s"
  have t: "sweep_keeps (s, r) (t, r)"
    by (simp add: sweep_keeps_def t_def wf_set_phase phase_from_pace_le)
  have sp: "sw_shadow_period t = sw_shadow_period s" by (simp add: t_def sw_set_phase_def)
  have fire: "sweep_keeps (s, r) (cgb_fire_sweep nr10 c (t, r))"
    if "calculate_candidate_sum nr10 (sw_shadow_period t) True = Some c" for c
  proof (cases "sweep_wf s")
    case True
    then have "sc_addend c \<le> 0x7FF"
      using candidate_parts_le[OF that] sp by (simp add: sweep_wf_def)
    then show ?thesis using sweep_keeps_trans[OF t keeps_cgb_fire] by blast
  next
    case False
    have "sweep_keeps (t, r) (cgb_fire_sweep nr10 (c\<lparr>sc_addend := 0\<rparr>) (t, r))"
      by (rule keeps_cgb_fire) simp
    then show ?thesis
      using False t
      by (auto simp: sweep_keeps_def cgb_fire_sweep_def Let_def sweep_state_defs split: option.splits)
  qed
  show ?thesis
    using False t fire sweep_keeps_trans[OF t keeps_dmg_fire]
    by (auto simp: maybe_fire_sweep_boundary_def Let_def t_def[symmetric] split: option.splits)
qed

lemma keeps_sweep_clock: "sweep_keeps (s, r) (sweep_clock m nr10 (s, r))"
proof -
  define t where "t = sw_set_phase ((sw_phase s + 1) AND 0x07) s"
  have t: "sweep_keeps (s, r) (t, r)"
    by (simp add: sweep_keeps_def t_def wf_set_phase)
  then show ?thesis
    using sweep_keeps_trans[OF t keeps_boundary]
    by (simp add: sweep_clock_def Let_def t_def[symmetric])
qed

lemma keeps_deactivate: "sweep_keeps (s, r) (s, sr_deactivate r)"
  by (simp add: sweep_keeps_def sr_deactivate_def)

lemma keeps_overflow_glitch: "sweep_keeps (s, r) (s, dmg_nr10_overflow_glitch new (s, r))"
  by (simp add: dmg_nr10_overflow_glitch_def Let_def keeps_deactivate)

lemma keeps_countdown_glitch: "sweep_keeps (s, r) (dmg_nr10_countdown_glitch old new (s, r))"
proof -
  have "sweep_keeps (s, r) (sw_map_recalculation g (sw_map_recalculation f s), r)"
    if "\<forall>rc. rc_increment (f rc) = rc_increment rc" "\<forall>rc. rc_increment (g rc) = rc_increment rc" for f g
    using that by (simp add: sweep_keeps_def wf_map_recalculation)
  then show ?thesis
    by (auto simp: dmg_nr10_countdown_glitch_def Let_def intro!: keeps_map_recalculation)
qed

lemma keeps_glitches: "sweep_keeps (s, r) (apply_dmg_nr10_glitches old new (s, r))"
proof -
  let ?r = "dmg_nr10_overflow_glitch new (s, r)"
  obtain s' r' where eq: "dmg_nr10_countdown_glitch old new (s, ?r) = (s', r')" by fastforce
  then have "sweep_keeps (s, r) (s', r')"
    using sweep_keeps_trans[OF keeps_overflow_glitch[of s r new]
        keeps_countdown_glitch[of s ?r old new]] by simp
  then show ?thesis
    using keeps_overflow_glitch[of s r new] sweep_keeps_trans[OF _ keeps_boundary]
    by (auto simp: apply_dmg_nr10_glitches_def Let_def eq)
qed

lemma keeps_write_nr10: "sweep_keeps (s, r) (sweep_write_nr10 m old new (s, r))"
proof -
  have fire: "sweep_keeps (s, r) (maybe_fire_sweep_boundary m new (t, q))"
    if "sweep_keeps (s, r) (t, q)" for t q
    by (rule sweep_keeps_trans[OF that keeps_boundary])
  have glitch: "sweep_keeps (s, r) (maybe_fire_sweep_boundary m new
      (apply_dmg_nr10_glitches old new (t, q)))"
    if "sweep_keeps (s, r) (t, q)" for t q
    using fire sweep_keeps_trans[OF that keeps_glitches, of old new]
    by (cases "apply_dmg_nr10_glitches old new (t, q)") simp
  show ?thesis
    by (auto simp: sweep_write_nr10_def Let_def intro!: fire glitch)
      (auto simp: sweep_keeps_def sweep_wf_def sweep_state_defs)
qed

lemma wf_sweep_default [simp]: "sweep_wf sweep_default"
  by (simp add: sweep_wf_def sweep_default_def recalculation_default_def)

lemma wf_sweep_startup: "pv \<le> 0x7FF \<Longrightarrow> sweep_wf (sweep_apply_powered_startup nr10 pv a s)"
  using phase_from_pace_le[of nr10]
  by (simp add: sweep_apply_powered_startup_def Let_def sw_set_phase_def sweep_wf_def
      sweep_default_def recalculation_default_def)

lemma wf_dmg_trigger:
  "sweep_wf s \<Longrightarrow> sweep_wf ((dmg_apply_trigger_recalculation nr10 s)\<lparr>sw_shadow_period := 0\<rparr>)"
  by (simp add: dmg_apply_trigger_recalculation_def Let_def sweep_wf_def sw_map_recalculation_def
      drop_bit_le_period)

lemma wf_schedule:
  assumes "calculate_candidate_sum nr10 (sw_shadow_period s) z = Some c" "sweep_wf s"
  shows "sweep_wf (schedule_delayed_calculation nr10 (sw_shadow_period s) c x
                     (observe_calculation c s))"
  using candidate_parts_le[OF assms(1)] assms(2) by (simp add: sweep_wf_def sweep_state_defs Let_def)

lemma wf_sweep_trigger:
  assumes "sweep_wf s" "pv \<le> 0x7FF"
  shows "sweep_wf (sweep_trigger m rvn nr10 pv s)"
proof -
  define t where "t = clear_delayed_calculation
    ((sw_set_phase (phase_from_pace (sweep_pace_from_nr10 nr10)) (s\<lparr>sw_shadow_period := pv\<rparr>))
       \<lparr>sw_enabled := (sweep_pace_from_nr10 nr10 \<noteq> 0 \<or> sweep_shift_from_nr10 nr10 \<noteq> 0),
        sw_completed_addend := 0, sw_negate_calculated_since_trigger := False,
        sw_restart_hold_t_cycles :=
          (if is_cgb_family m then cgb_ch1_sweep_restart_hold_t_cycles rvn else 0)\<rparr>)"
  define u where "u = (if is_dmg_family m
    then (dmg_apply_trigger_recalculation nr10 t)\<lparr>sw_shadow_period := 0\<rparr> else t)"
  have "sweep_wf t"
    using assms phase_from_pace_le[of nr10] by (simp add: t_def sweep_wf_def sweep_state_defs)
  then have u: "sweep_wf u" by (simp add: u_def wf_dmg_trigger)
  have observed: "sw_shadow_period (observe_calculation c u) = sw_shadow_period u" for c
    by (simp add: observe_calculation_def)
  show ?thesis
    unfolding sweep_trigger_def Let_def t_def[symmetric] u_def[symmetric]
    using u by (auto simp: observed intro!: wf_schedule split: option.split)
qed

subsection \<open>Invariant of channel 1\<close>

definition ch1_wf :: "channel1_state \<Rightarrow> bool" where
  "ch1_wf c \<longleftrightarrow> pulse_wf (ch1_pulse c) \<and> sweep_wf (ch1_sweep c)"

lemma ch1_wf_default [simp]: "ch1_wf channel1_default"
  by (simp add: ch1_wf_def channel1_default_def)

lemma pulse_wf_with_runtime:
  "pulse_wf p \<Longrightarrow> q = pul_runtime p \<or> q = (pul_runtime p)\<lparr>rt_active := False\<rparr> \<Longrightarrow>
   pulse_wf (p\<lparr>pul_runtime := q\<rparr>)"
  by (auto simp: pulse_wf_def)

lemma ch1_wf_run_sweep:
  assumes "ch1_wf c" "\<And>s r. sweep_keeps (s, r) (f (s, r))"
  shows "ch1_wf (ch1_run_sweep f c)"
proof -
  let ?x = "(ch1_sweep c, \<lparr>sr_nr13 = ch1_nr13 c, sr_nr14 = ch1_nr14 c,
    sr_runtime = pul_runtime (ch1_pulse c)\<rparr>)"
  obtain s r where fx: "f ?x = (s, r)" by fastforce
  have "sweep_keeps ?x (s, r)" using assms(2) fx by metis
  then show ?thesis
    using assms(1) fx
    by (auto simp: ch1_run_sweep_def ch1_wf_def sweep_keeps_def intro!: pulse_wf_with_runtime)
qed

lemma ch1_wf_map_pulse:
  "ch1_wf c \<Longrightarrow> (pulse_wf (ch1_pulse c) \<Longrightarrow> pulse_wf (f (ch1_pulse c))) \<Longrightarrow> ch1_wf (ch1_map_pulse f c)"
  by (simp add: ch1_wf_def ch1_map_pulse_def)

lemma ch1_wf_updates [simp]:
  "ch1_wf (c\<lparr>ch1_nr10 := v\<rparr>) = ch1_wf c" "ch1_wf (c\<lparr>ch1_nr11 := v\<rparr>) = ch1_wf c"
  "ch1_wf (c\<lparr>ch1_nr12 := v\<rparr>) = ch1_wf c" "ch1_wf (c\<lparr>ch1_nr13 := v\<rparr>) = ch1_wf c"
  "ch1_wf (c\<lparr>ch1_nr14 := v\<rparr>) = ch1_wf c"
  by (simp_all add: ch1_wf_def)

lemma ch1_wf_map_recalculation:
  "\<forall>rc. rc_increment (f rc) = rc_increment rc \<Longrightarrow> ch1_wf (ch1_map_recalculation f c) = ch1_wf c"
  by (simp add: ch1_map_recalculation_def ch1_wf_def wf_map_recalculation)

lemma ch1_period_le: "ch1_period_value c \<le> 0x7FF"
  by (simp add: ch1_period_value_def period_from_registers_le)

lemma ch1_wf_trigger:
  "ch1_wf c \<Longrightarrow> ch1_wf (snd (ch1_trigger m rvn s b c))"
  using pulse_wf_trigger[of "ch1_pulse c" m s "ch1_period_value c" "ch1_nr12 c" b]
  by (auto simp: ch1_trigger_def Let_def ch1_wf_def wf_sweep_trigger ch1_period_le split: prod.splits)

lemma ch1_wf_nr14_without_trigger:
  "ch1_wf c \<Longrightarrow> ch1_wf (ch1_write_nr14_without_trigger m c)"
  by (auto simp: ch1_write_nr14_without_trigger_def Let_def ch1_wf_def ch1_map_pulse_def
      ch1_map_recalculation_def sw_map_recalculation_def sweep_wf_def PULSE_PERIOD_MAX_def
      period_and_le drop_bit_le_period ch1_period_le intro!: pulse_wf_intros)

lemma ch1_wf_write_nr14: 
  assumes "ch1_wf c"
  shows "ch1_wf (ch1_write_nr14 v m rvn s st c)"
proof -
  have trig: "ch1_wf c'" if "ch1_trigger m rvn s b (c\<lparr>ch1_nr14 := x\<rparr>) = (z, c')" for b x z c'
    using ch1_wf_trigger[of "c\<lparr>ch1_nr14 := x\<rparr>" m rvn s b] assms that by simp
  then show ?thesis
    using assms
    by (auto simp: ch1_write_nr14_def Let_def begin_nrx4_write_def ch1_wf_map_recalculation
        intro!: ch1_wf_map_pulse pulse_wf_intros ch1_wf_nr14_without_trigger split: prod.splits)
qed

lemma ch1_wf_write:
  "ch1_wf c \<Longrightarrow> ch1_wf (ch1_write_register rg v m rvn s st c)"
  by (cases rg)
    (auto simp: ch1_write_register_def ch1_wf_write_nr14 ch1_write_nr10_def ch1_write_nr11_def
      ch1_write_nr12_def ch1_write_nr13_def Let_def ch1_wf_map_recalculation
      intro!: ch1_wf_run_sweep keeps_write_nr10 ch1_wf_map_pulse pulse_wf_intros)

lemma ch1_wf_powered_startup:
  "ch1_wf (ch1_apply_powered_startup a0 a1 a2 a3 a4 act c)"
  by (simp add: ch1_apply_powered_startup_def Let_def ch1_wf_def ch1_map_pulse_def
      wf_sweep_startup ch1_period_le pulse_wf_startup)

lemma ch1_wf_others:
  "ch1_wf c \<Longrightarrow> ch1_wf (ch1_write_powered_off_register rg v m c)"
  "ch1_wf c \<Longrightarrow> ch1_wf (ch1_power_off_registers m c)"
  "ch1_wf c \<Longrightarrow> ch1_wf (ch1_mark_powered_on c)"
  "ch1_wf c \<Longrightarrow> ch1_wf (ch1_tick_fast_timer_with_clock_gate m g ck ph c)"
  "ch1_wf c \<Longrightarrow> ch1_wf (ch1_clock_length c)"
  "ch1_wf c \<Longrightarrow> ch1_wf (ch1_clock_envelope c)"
  "ch1_wf c \<Longrightarrow> ch1_wf (ch1_clock_cgb_live_write_pending_even_envelope_tick c)"
  "ch1_wf c \<Longrightarrow> ch1_wf (ch1_clock_sweep m c)"
proof -
  show "ch1_wf c \<Longrightarrow> ch1_wf (ch1_power_off_registers m c)"
    by (auto simp: ch1_power_off_registers_def ch1_wf_def ch1_map_pulse_def intro!: pulse_wf_intros)
qed (auto simp: ch1_write_powered_off_register_def ch1_write_length_while_powered_off_def
    ch1_mark_powered_on_def ch1_tick_fast_timer_with_clock_gate_def ch1_clock_length_def
    ch1_clock_envelope_def ch1_clock_cgb_live_write_pending_even_envelope_tick_def
    ch1_clock_sweep_def Let_def
    intro!: ch1_wf_run_sweep keeps_delayed keeps_tick_recalculation keeps_sweep_clock
      ch1_wf_map_pulse pulse_wf_intros)

end
