(* ===== verification/Apu_Wave.thy ===== *)
theory Apu_Wave
  imports Apu_Pulse
begin

text \<open>
  Channel 3 (\<open>apu/channels/ch3.rs\<close>): the wave channel, its 16 bytes of wave RAM and the rules
  by which the CPU reaches them while the channel plays. A wave RAM index comes from the MMIO
  decoder (0 to 15) or is reduced modulo 16, and the invariant keeps the RAM 16 bytes long, so
  \<open>!\<close> is never applied out of range.
\<close>

datatype channel3_register = Nr30 | Nr31 | Nr32 | Nr33 | Nr34

record channel3_state =
  ch3_nr30 :: u8
  ch3_nr31 :: u8
  ch3_nr32 :: u8
  ch3_nr33 :: u8
  ch3_nr34 :: u8
  ch3_wave_ram :: "u8 list"
  ch3_runtime :: channel_runtime
  ch3_sample_index :: u8
  ch3_sample_buffer :: u8
  ch3_period_timer :: u16
  ch3_length_counter :: u16
  ch3_length_enabled :: bool
  ch3_wave_ram_access_window_byte_index :: "u8 option"

definition channel3_default :: channel3_state where
  "channel3_default =
     \<lparr>ch3_nr30 = 0, ch3_nr31 = 0, ch3_nr32 = 0, ch3_nr33 = 0, ch3_nr34 = 0,
      ch3_wave_ram = replicate 16 0, ch3_runtime = runtime_default, ch3_sample_index = 0,
      ch3_sample_buffer = 0, ch3_period_timer = 0, ch3_length_counter = 0,
      ch3_length_enabled = False, ch3_wave_ram_access_window_byte_index = None\<rparr>"

definition ch3_derived_dac_enabled :: "channel3_state \<Rightarrow> bool" where
  "ch3_derived_dac_enabled c = (ch3_nr30 c AND 0x80 \<noteq> 0)"

definition ch3_period_value :: "channel3_state \<Rightarrow> u16" where
  "ch3_period_value c = pulse_period_from_registers (ch3_nr33 c) (ch3_nr34 c)"

definition ch3_read_register :: "channel3_register \<Rightarrow> channel3_state \<Rightarrow> u8" where
  "ch3_read_register r c =
     (case r of
        Nr30 \<Rightarrow> (ch3_nr30 c AND 0x80) OR 0x7F
      | Nr31 \<Rightarrow> 0xFF
      | Nr32 \<Rightarrow> (ch3_nr32 c AND 0x60) OR 0x9F
      | Nr33 \<Rightarrow> 0xFF
      | Nr34 \<Rightarrow> (ch3_nr34 c AND 0x40) OR 0xBF)"

subsection \<open>The sample position\<close>

definition current_wave_ram_byte_index :: "channel3_state \<Rightarrow> nat" where
  "current_wave_ram_byte_index c = unat (drop_bit 1 (ch3_sample_index c)) mod 16"

definition wave_sample :: "u8 \<Rightarrow> channel3_state \<Rightarrow> u8" where
  "wave_sample sample_index c =
     (let byte = ch3_wave_ram c ! (unat (drop_bit 1 sample_index) mod 16)
      in if sample_index AND 0x01 = 0 then drop_bit 4 byte else byte AND 0x0F)"

definition advance_sample :: "channel3_state \<Rightarrow> channel3_state" where
  "advance_sample c =
     (let c = c\<lparr>ch3_sample_index := (ch3_sample_index c + 1) mod 32\<rparr>;
          c = c\<lparr>ch3_wave_ram_access_window_byte_index :=
                  Some (of_nat (current_wave_ram_byte_index c))\<rparr>
      in c\<lparr>ch3_sample_buffer := wave_sample (ch3_sample_index c) c\<rparr>)"

definition ch3_begin_t_cycle :: "channel3_state \<Rightarrow> channel3_state" where
  "ch3_begin_t_cycle c = c\<lparr>ch3_wave_ram_access_window_byte_index := None\<rparr>"

definition ch3_tick_fast_timer :: "channel3_state \<Rightarrow> channel3_state" where
  "ch3_tick_fast_timer c =
     (if \<not> rt_active (ch3_runtime c) then c
      else
        let c = (if ch3_period_timer c > 0
                 then c\<lparr>ch3_period_timer := ch3_period_timer c - 1\<rparr> else c)
        in if ch3_period_timer c = 0
           then advance_sample (c\<lparr>ch3_period_timer := wave_timer_reload (ch3_period_value c)\<rparr>)
           else c)"

definition ch3_current_digital_output :: "channel3_state \<Rightarrow> u8" where
  "ch3_current_digital_output c =
     (if \<not> rt_active (ch3_runtime c) then 0
      else let level = drop_bit 5 (ch3_nr32 c AND 0x60) in
        if level = 0 then 0
        else if level = 1 then ch3_sample_buffer c
        else if level = 2 then drop_bit 1 (ch3_sample_buffer c)
        else drop_bit 2 (ch3_sample_buffer c))"

subsection \<open>Wave RAM as the CPU sees it\<close>

definition active_wave_ram_access_byte_index :: "console_model \<Rightarrow> channel3_state \<Rightarrow> nat option" where
  "active_wave_ram_access_byte_index m c =
     (if rt_active (ch3_runtime c) \<and> is_dmg_family m
      then map_option unat (ch3_wave_ram_access_window_byte_index c) else None)"

definition read_wave_ram :: "console_model \<Rightarrow> nat \<Rightarrow> channel3_state \<Rightarrow> u8" where
  "read_wave_ram m index c =
     (case active_wave_ram_access_byte_index m c of
        Some active_index \<Rightarrow> ch3_wave_ram c ! active_index
      | None \<Rightarrow>
          if rt_active (ch3_runtime c)
          then case wave_ram_mmio_policy m of
              DmgCurrentByteDuringFetchOnly \<Rightarrow> 0xFF
            | CgbCurrentByteWhileActive \<Rightarrow> ch3_wave_ram c ! current_wave_ram_byte_index c
            | AgbInaccessibleWhileActive \<Rightarrow> 0xFF
          else ch3_wave_ram c ! index)"

definition ch3_store :: "nat \<Rightarrow> u8 \<Rightarrow> channel3_state \<Rightarrow> channel3_state" where
  "ch3_store i v c = c\<lparr>ch3_wave_ram := (ch3_wave_ram c)[i := v]\<rparr>"

definition write_wave_ram :: "console_model \<Rightarrow> nat \<Rightarrow> u8 \<Rightarrow> channel3_state \<Rightarrow> channel3_state" where
  "write_wave_ram m index v c =
     (case active_wave_ram_access_byte_index m c of
        Some active_index \<Rightarrow> ch3_store active_index v c
      | None \<Rightarrow>
          if rt_active (ch3_runtime c)
          then case wave_ram_mmio_policy m of
              DmgCurrentByteDuringFetchOnly \<Rightarrow> c
            | CgbCurrentByteWhileActive \<Rightarrow> ch3_store (current_wave_ram_byte_index c) v c
            | AgbInaccessibleWhileActive \<Rightarrow> c
          else ch3_store index v c)"

definition ch3_initialize_wave_ram :: "u8 list \<Rightarrow> channel3_state \<Rightarrow> channel3_state" where
  "ch3_initialize_wave_ram bytes c = c\<lparr>ch3_wave_ram := bytes\<rparr>"

subsection \<open>Triggers and register writes\<close>

definition apply_dmg_retrigger_wave_ram_corruption ::
    "console_model \<Rightarrow> channel3_state \<Rightarrow> channel3_state" where
  "apply_dmg_retrigger_wave_ram_corruption m c =
     (if \<not> is_dmg_family m \<or> \<not> rt_active (ch3_runtime c) \<or> ch3_period_timer c \<noteq> 2 then c
      else
        let current_byte_index = drop_bit 1 (unat (ch3_sample_index c) + 1) mod 16
        in if current_byte_index < 4
           then ch3_store 0 (ch3_wave_ram c ! current_byte_index) c
           else
             let block_start = current_byte_index div 4 * 4;
                 aligned_block = [ch3_wave_ram c ! block_start, ch3_wave_ram c ! (block_start + 1),
                                  ch3_wave_ram c ! (block_start + 2), ch3_wave_ram c ! (block_start + 3)]
             in c\<lparr>ch3_wave_ram := aligned_block @ drop 4 (ch3_wave_ram c)\<rparr>)"

definition ch3_trigger :: "console_model \<Rightarrow> channel3_state \<Rightarrow> bool \<times> channel3_state" where
  "ch3_trigger m c =
     (let c = apply_dmg_retrigger_wave_ram_corruption m c;
          reloaded_zero_length = (ch3_length_counter c = 0);
          c = (if ch3_length_counter c = 0
               then c\<lparr>ch3_length_counter := WAVE_LENGTH_COUNTER_RELOAD, ch3_length_enabled := False\<rparr>
               else c);
          c = c\<lparr>ch3_period_timer := wave_timer_reload (ch3_period_value c) + 6,
                ch3_sample_index := 0,
                ch3_runtime := rt_trigger (ch3_runtime c)\<rparr>
      in (reloaded_zero_length, c))"

definition ch3_apply_extra_length_clocking_on_enable ::
    "console_model \<Rightarrow> nrx4_write_plan \<Rightarrow> channel3_state \<Rightarrow> channel3_state" where
  "ch3_apply_extra_length_clocking_on_enable m plan c =
     (case apply_extra_length_clocking_u16
             \<lparr>xl_console_model = m, xl_length_enabled = ch3_length_enabled c,
              xl_was_length_enabled = wp_was_length_enabled plan,
              xl_next_step_clocks_length = wc_next_step_clocks_length (wp_context plan),
              xl_trigger = wc_trigger (wp_context plan),
              xl_trigger_reloaded_zero_length = wp_trigger_reloaded_zero_length plan\<rparr>
             (ch3_length_counter c) WAVE_LENGTH_COUNTER_RELOAD (rt_active (ch3_runtime c)) of
        (length_counter, active) \<Rightarrow>
          c\<lparr>ch3_length_counter := length_counter,
            ch3_runtime := (ch3_runtime c)\<lparr>rt_active := active\<rparr>\<rparr>)"

definition ch3_write_nr30 :: "u8 \<Rightarrow> channel3_state \<Rightarrow> channel3_state" where
  "ch3_write_nr30 v c =
     (let c = c\<lparr>ch3_nr30 := v AND 0x80\<rparr>
      in c\<lparr>ch3_runtime := rt_set_dac_enabled (ch3_derived_dac_enabled c) (ch3_runtime c)\<rparr>)"

definition ch3_write_nr31 :: "u8 \<Rightarrow> channel3_state \<Rightarrow> channel3_state" where
  "ch3_write_nr31 v c =
     c\<lparr>ch3_nr31 := v, ch3_length_counter := wave_length_counter_from_load v\<rparr>"

definition ch3_write_nr32 :: "u8 \<Rightarrow> channel3_state \<Rightarrow> channel3_state" where
  "ch3_write_nr32 v c = c\<lparr>ch3_nr32 := v AND 0x60\<rparr>"

definition ch3_write_nr33 :: "u8 \<Rightarrow> channel3_state \<Rightarrow> channel3_state" where
  "ch3_write_nr33 v c = c\<lparr>ch3_nr33 := v\<rparr>"

definition ch3_write_nr34 :: "u8 \<Rightarrow> console_model \<Rightarrow> u8 \<Rightarrow> channel3_state \<Rightarrow> channel3_state" where
  "ch3_write_nr34 v m next_frame_sequencer_step c =
     (case begin_nrx4_write v NRX4_WRITABLE_MASK next_frame_sequencer_step (ch3_length_enabled c) of
        (nr34, plan) \<Rightarrow>
          let c = c\<lparr>ch3_nr34 := nr34\<rparr>;
              (plan, c) =
                (if wc_trigger (wp_context plan)
                 then case ch3_trigger m c of
                        (reloaded, c) \<Rightarrow> (observe_trigger_reloaded_zero_length reloaded plan, c)
                 else (plan, c));
              c = c\<lparr>ch3_length_enabled := wc_length_enabled (wp_context plan)\<rparr>
          in ch3_apply_extra_length_clocking_on_enable m plan c)"

definition ch3_write_register ::
    "channel3_register \<Rightarrow> u8 \<Rightarrow> console_model \<Rightarrow> u8 \<Rightarrow> channel3_state \<Rightarrow> channel3_state" where
  "ch3_write_register r v m next_frame_sequencer_step c =
     (case r of
        Nr30 \<Rightarrow> ch3_write_nr30 v c
      | Nr31 \<Rightarrow> ch3_write_nr31 v c
      | Nr32 \<Rightarrow> ch3_write_nr32 v c
      | Nr33 \<Rightarrow> ch3_write_nr33 v c
      | Nr34 \<Rightarrow> ch3_write_nr34 v m next_frame_sequencer_step c)"

definition ch3_write_length_while_powered_off :: "u8 \<Rightarrow> channel3_state \<Rightarrow> channel3_state" where
  "ch3_write_length_while_powered_off v c =
     c\<lparr>ch3_length_counter := wave_length_counter_from_load v\<rparr>"

definition ch3_write_powered_off_register ::
    "channel3_register \<Rightarrow> u8 \<Rightarrow> console_model \<Rightarrow> channel3_state \<Rightarrow> channel3_state" where
  "ch3_write_powered_off_register r v m c =
     (if \<not> is_dmg_family m then c
      else if r = Nr31 then ch3_write_length_while_powered_off v c else c)"

definition ch3_apply_powered_startup ::
    "u8 \<Rightarrow> u8 \<Rightarrow> u8 \<Rightarrow> u8 \<Rightarrow> u8 \<Rightarrow> bool \<Rightarrow> channel3_state \<Rightarrow> channel3_state" where
  "ch3_apply_powered_startup nr30 nr31 nr32 nr33 nr34 active c =
     (let c = c\<lparr>ch3_nr30 := nr30 AND 0x80, ch3_nr31 := nr31, ch3_nr32 := nr32 AND 0x60,
                ch3_nr33 := nr33, ch3_nr34 := nr34 AND NRX4_WRITABLE_MASK,
                ch3_sample_index := 0, ch3_sample_buffer := 0\<rparr>;
          c = c\<lparr>ch3_period_timer := wave_timer_reload (ch3_period_value c),
                ch3_length_counter := wave_length_counter_from_load (ch3_nr31 c),
                ch3_length_enabled := (ch3_nr34 c AND LENGTH_ENABLE_BIT \<noteq> 0),
                ch3_wave_ram_access_window_byte_index := None\<rparr>
      in c\<lparr>ch3_runtime :=
             rt_set_active_from_startup active
               (rt_set_dac_enabled (ch3_derived_dac_enabled c) (rt_clear (ch3_runtime c)))\<rparr>)"

definition ch3_clear_registers :: "channel3_state \<Rightarrow> channel3_state" where
  "ch3_clear_registers c =
     c\<lparr>ch3_nr30 := 0, ch3_nr31 := 0, ch3_nr32 := 0, ch3_nr33 := 0, ch3_nr34 := 0,
       ch3_sample_index := 0, ch3_sample_buffer := 0, ch3_period_timer := 0,
       ch3_length_counter := 0, ch3_length_enabled := False,
       ch3_wave_ram_access_window_byte_index := None,
       ch3_runtime := rt_clear (ch3_runtime c)\<rparr>"

definition ch3_power_off_registers :: "console_model \<Rightarrow> channel3_state \<Rightarrow> channel3_state" where
  "ch3_power_off_registers m c =
     (let preserved_length = (if is_dmg_family m then ch3_length_counter c else 0)
      in (ch3_clear_registers c)\<lparr>ch3_length_counter := preserved_length\<rparr>)"

definition ch3_clock_length :: "channel3_state \<Rightarrow> channel3_state" where
  "ch3_clock_length c =
     (case clock_length_counter_u16 (ch3_length_enabled c) (ch3_length_counter c)
             (rt_active (ch3_runtime c)) of
        (length_counter, active) \<Rightarrow>
          c\<lparr>ch3_length_counter := length_counter,
            ch3_runtime := (ch3_runtime c)\<lparr>rt_active := active\<rparr>\<rparr>)"

subsection \<open>Invariant\<close>

definition ch3_wf :: "channel3_state \<Rightarrow> bool" where
  "ch3_wf c \<longleftrightarrow> length (ch3_wave_ram c) = 16 \<and> rt_wf (ch3_runtime c)
     \<and> ch3_sample_index c < 32 \<and> ch3_sample_buffer c \<le> 15
     \<and> ch3_period_timer c \<le> 4102 \<and> ch3_length_counter c \<le> 256
     \<and> (\<forall>i. ch3_wave_ram_access_window_byte_index c = Some i \<longrightarrow> i < 16)"

lemma u8_drop_nibble_le: "drop_bit 4 (v::u8) \<le> 15"
proof -
  have "\<forall>v::u8. drop_bit 4 v \<le> 15" by (subst u8_exhaust) (simp add: upt_rec)
  then show ?thesis by blast
qed

lemma u8_drop_le: "(v::u8) \<le> 15 \<Longrightarrow> drop_bit n v \<le> 15"
proof -
  assume "v \<le> 15"
  moreover have "unat (drop_bit n v) \<le> unat v"
    by (simp add: drop_bit_eq_div unat_div div_le_dividend)
  ultimately show ?thesis by (simp add: word_le_nat_alt)
qed

lemma wave_sample_le: "wave_sample i c \<le> 15"
  by (simp add: wave_sample_def Let_def u8_drop_nibble_le)

lemma byte_index_lt: "current_wave_ram_byte_index c < 16"
  by (simp add: current_wave_ram_byte_index_def)

lemma unat_wave_timer_reload: "unat (wave_timer_reload p) = (2048 - unat (p AND 0x7FF)) * 2"
proof -
  have le: "unat (p AND 0x7FF) \<le> 0x7FF" using period_and_le[of p] by (simp add: word_le_nat_alt)
  have sub: "unat (2048 - (p AND 0x7FF)) = 2048 - unat (p AND 0x7FF)"
    using le by (simp add: unat_sub word_le_nat_alt)
  have "unat ((2048 - (p AND 0x7FF)) * 2) = unat (2048 - (p AND 0x7FF)) * unat (2::u16)"
    by (rule unat_mult_lem[THEN iffD1], unfold sub) (use le in simp)
  then show ?thesis unfolding wave_timer_reload_def PULSE_PERIOD_MAX_def sub by simp
qed

lemma wave_timer_le: "wave_timer_reload p \<le> 4102" "wave_timer_reload p + 6 \<le> 4102"
  using unat_wave_timer_reload[of p] by (simp_all add: word_le_nat_alt unat_word_ariths)

lemma unat_wave_length_load: "unat (wave_length_counter_from_load v) = 256 - unat v"
  using unsigned_less[of v, where ?'a = nat]
  by (simp add: wave_length_counter_from_load_def WAVE_LENGTH_COUNTER_RELOAD_def unat_sub_if'
      unsigned_ucast_eq take_bit_nat_eq_self)

lemma wave_length_load_le: "wave_length_counter_from_load v \<le> 256"
  by (simp add: word_le_nat_alt unat_wave_length_load)

lemma extra_length_clocking_u16_le:
  "l \<le> 256 \<Longrightarrow> fst (apply_extra_length_clocking_u16 ctx l 256 a) \<le> 256"
  by (auto simp: apu_defs extra_length_clocking_def Let_def word_pred_le
      should_apply_extra_length_clocking_on_enable_def)

lemma clock_length_counter_u16_le:
  "l \<le> 256 \<Longrightarrow> fst (clock_length_counter_u16 en l a) \<le> 256"
  by (auto simp: apu_defs clock_length_counter_def Let_def word_pred_le)

lemma ch3_wf_default [simp]: "ch3_wf channel3_default"
  by (simp add: ch3_wf_def channel3_default_def)

lemma sample_index_mod: "(i + 1) mod 32 < (32::u8)"
  by (simp add: word_less_nat_alt unat_mod)

lemma ch3_wf_advance: "ch3_wf c \<Longrightarrow> ch3_wf (advance_sample c)"
  using sample_index_mod[of "ch3_sample_index c"]
    byte_index_lt[of "c\<lparr>ch3_sample_index := (ch3_sample_index c + 1) mod 32\<rparr>"]
  by (simp add: advance_sample_def Let_def ch3_wf_def wave_sample_le word_less_nat_alt
      unat_of_nat)

lemma ch3_wf_tick: "ch3_wf c \<Longrightarrow> ch3_wf (ch3_tick_fast_timer c)"
proof -
  assume c: "ch3_wf c"
  have "ch3_wf (c\<lparr>ch3_period_timer := t\<rparr>)" if "t \<le> 4102" for t
    using c that by (simp add: ch3_wf_def)
  then show ?thesis
    using c u16_pred_le[of "ch3_period_timer c" 4102]
    by (auto simp: ch3_tick_fast_timer_def Let_def wave_timer_le ch3_wf_def[of c] 
        intro!: ch3_wf_advance)
qed

lemma ch3_wf_store: "ch3_wf c \<Longrightarrow> ch3_wf (ch3_store i v c)"
  by (simp add: ch3_wf_def ch3_store_def)

lemma ch3_wf_write_wave_ram: "ch3_wf c \<Longrightarrow> ch3_wf (write_wave_ram m i v c)"
  by (auto simp: write_wave_ram_def ch3_wf_store split: option.splits wave_ram_mmio_policy_kind.splits)

lemma ch3_wf_corruption: "ch3_wf c \<Longrightarrow> ch3_wf (apply_dmg_retrigger_wave_ram_corruption m c)"
  by (auto simp: apply_dmg_retrigger_wave_ram_corruption_def Let_def ch3_wf_store)
    (auto simp: ch3_wf_def)

lemma ch3_wf_trigger:
  assumes "ch3_wf c"
  shows "ch3_wf (snd (ch3_trigger m c))"
proof -
  have "ch3_wf (apply_dmg_retrigger_wave_ram_corruption m c)"
    by (rule ch3_wf_corruption[OF assms])
  then show ?thesis
    by (auto simp: ch3_trigger_def Let_def ch3_wf_def wave_timer_le apu_defs)
qed

lemma ch3_wf_extra_length:
  assumes "ch3_wf c"
  shows "ch3_wf (ch3_apply_extra_length_clocking_on_enable m plan c)"
proof -
  let ?ctx = "\<lparr>xl_console_model = m, xl_length_enabled = ch3_length_enabled c,
     xl_was_length_enabled = wp_was_length_enabled plan,
     xl_next_step_clocks_length = wc_next_step_clocks_length (wp_context plan),
     xl_trigger = wc_trigger (wp_context plan),
     xl_trigger_reloaded_zero_length = wp_trigger_reloaded_zero_length plan\<rparr>"
  obtain l a where
    res: "apply_extra_length_clocking_u16 ?ctx (ch3_length_counter c) 256 (rt_active (ch3_runtime c))
           = (l, a)"
    by fastforce
  then have eq: "ch3_apply_extra_length_clocking_on_enable m plan c =
           c\<lparr>ch3_length_counter := l, ch3_runtime := (ch3_runtime c)\<lparr>rt_active := a\<rparr>\<rparr>"
    by (simp add: ch3_apply_extra_length_clocking_on_enable_def WAVE_LENGTH_COUNTER_RELOAD_def)
  have "l \<le> 256"
    using extra_length_clocking_u16_le[of "ch3_length_counter c" ?ctx "rt_active (ch3_runtime c)"]
      assms by (simp add: ch3_wf_def res)
  moreover have "a \<Longrightarrow> rt_active (ch3_runtime c)"
    using extra_length_clocking_active[of ?ctx "ch3_length_counter c" 256 "rt_active (ch3_runtime c)"]
      res by (simp add: apply_extra_length_clocking_u16_def)
  ultimately show ?thesis
    using assms by (simp add: eq ch3_wf_def rt_wf_def)
qed

lemma ch3_wf_write_nr34:
  assumes "ch3_wf c"
  shows "ch3_wf (ch3_write_nr34 v m st c)"
proof -
  have upd: "ch3_wf (d\<lparr>ch3_nr34 := x\<rparr>)" "ch3_wf (d\<lparr>ch3_length_enabled := b\<rparr>)"
    if "ch3_wf d" for d x b using that by (simp_all add: ch3_wf_def)
  have "ch3_wf d" if "ch3_trigger m (c\<lparr>ch3_nr34 := x\<rparr>) = (z, d)" for x z d
    using ch3_wf_trigger[OF upd(1)[OF assms], of m x] that by simp
  then show ?thesis
    using assms
    by (auto simp: ch3_write_nr34_def begin_nrx4_write_def Let_def
        intro!: ch3_wf_extra_length upd split: prod.splits)
qed

lemma ch3_wf_write: "ch3_wf c \<Longrightarrow> ch3_wf (ch3_write_register r v m st c)"
proof (cases r)
  case Nr30
  then show "ch3_wf c \<Longrightarrow> ?thesis"
    by (auto simp: ch3_write_register_def ch3_write_nr30_def Let_def ch3_wf_def)
qed (simp_all add: ch3_write_register_def ch3_wf_write_nr34, simp_all add: ch3_write_nr31_def
    ch3_write_nr32_def ch3_write_nr33_def ch3_wf_def wave_length_load_le)

lemma ch3_wf_clock_length: "ch3_wf c \<Longrightarrow> ch3_wf (ch3_clock_length c)"
  using clock_length_counter_u16_le[of "ch3_length_counter c" "ch3_length_enabled c"
      "rt_active (ch3_runtime c)"]
    clock_length_counter_active[of "ch3_length_enabled c" "ch3_length_counter c"
      "rt_active (ch3_runtime c)"]
  by (auto simp: ch3_clock_length_def ch3_wf_def rt_wf_def apu_defs split: prod.splits)

lemma ch3_wf_others:
  "ch3_wf c \<Longrightarrow> ch3_wf (ch3_write_powered_off_register r v m c)"
  "ch3_wf c \<Longrightarrow> ch3_wf (ch3_power_off_registers m c)"
  "ch3_wf c \<Longrightarrow> ch3_wf (ch3_apply_powered_startup a0 a1 a2 a3 a4 act c)"
  "ch3_wf c \<Longrightarrow> ch3_wf (ch3_begin_t_cycle c)"
  "ch3_wf c \<Longrightarrow> length bytes = 16 \<Longrightarrow> ch3_wf (ch3_initialize_wave_ram bytes c)"
  by (auto simp: ch3_write_powered_off_register_def ch3_write_length_while_powered_off_def
      ch3_power_off_registers_def ch3_clear_registers_def ch3_apply_powered_startup_def Let_def
      ch3_begin_t_cycle_def ch3_initialize_wave_ram_def ch3_wf_def wave_length_load_le wave_timer_le)

lemma ch3_output_le: "ch3_wf c \<Longrightarrow> ch3_current_digital_output c \<le> 15"
  by (auto simp: ch3_current_digital_output_def Let_def ch3_wf_def u8_drop_le)

end
