(* ===== verification/Apu_Noise_Live.thy ===== *)
theory Apu_Noise_Live
  imports Apu_Common
begin

text \<open>
  The noise generator's shift register and what a write to NR43 does to it while the channel
  plays (\<open>apu/channels/ch4_live_write.rs\<close>, with the trace types of \<open>apu.rs\<close>): the register
  passes through intermediate values, and each pass may step or corrupt the LFSR. The
  resolver's \<open>&mut noise\<close> is threaded through the passes.
\<close>

datatype nr43_live_write_category =
    CategoryNone
  | Category1
  | Category2
  | RisingEdgeForcedShort
  | LowShiftFollowup

datatype nr43_lfsr_action =
    ActionNone
  | PlainStep
  | ForcedShortStep
  | ForcedShortStepThenLowShiftCorruption
  | StepThenAndPrevious
  | StepThenSetFeedbackBits
  | SetFeedbackBits

datatype nr43_pass_kind =
    PassReloadSeam
  | PassOldToFf
  | PassFfToGlitch1
  | PassGlitch1ToGlitch2
  | PassGlitchToNew
  | PassLowShiftFollowup

record nr43_pass_trace =
  pt_kind :: nr43_pass_kind
  pt_value_from :: u8
  pt_value_to :: u8
  pt_shift_from :: u8
  pt_shift_to :: u8
  pt_bit_from :: bool
  pt_bit_to :: bool
  pt_category :: nr43_live_write_category
  pt_action :: nr43_lfsr_action
  pt_lfsr_before :: u16
  pt_lfsr_after :: u16

record nr43_live_write_trace =
  lt_runtime_active :: bool
  lt_same_shift_group :: bool
  lt_old_nr43 :: u8
  lt_ff_value :: u8
  lt_glitch_1_value :: u8
  lt_glitch_2_value :: "u8 option"
  lt_old_shift :: u8
  lt_ff_shift :: u8
  lt_glitch_1_shift :: u8
  lt_glitch_2_shift :: "u8 option"
  lt_new_shift :: u8
  lt_new_nr43 :: u8
  lt_effective_counter :: u16
  lt_countdown_reloaded :: bool
  lt_old_bit :: bool
  lt_ff_bit :: bool
  lt_glitch_1_bit :: bool
  lt_glitch_2_bit :: "bool option"
  lt_new_bit :: bool
  lt_decision_category :: nr43_live_write_category
  lt_lfsr_action :: nr43_lfsr_action
  lt_reload_seam :: "nr43_pass_trace option"
  lt_old_to_ff :: "nr43_pass_trace option"
  lt_ff_to_glitch_1 :: "nr43_pass_trace option"
  lt_glitch_1_to_glitch_2 :: "nr43_pass_trace option"
  lt_glitch_to_new :: "nr43_pass_trace option"
  lt_low_shift_followup :: "nr43_pass_trace option"
  lt_lfsr_before :: u16
  lt_lfsr_after :: u16

record noise_signal =
  ns_clock_shift :: u8
  ns_short_width_mode :: bool
  ns_clock_divider_code :: u8
  ns_period_timer :: u32
  ns_lfsr_state :: u16

record nr43_live_write_state =
  lw_alignment :: u8
  lw_alignment_subphase :: bool
  lw_counter_timer :: u32
  lw_noise_counter :: u16
  lw_countdown_reloaded :: bool
  lw_did_step_counter :: bool
  lw_counter_active :: bool
  lw_background_counting :: bool
  lw_started_with_dac_disabled :: bool
  lw_last_trace :: "nr43_live_write_trace option"

datatype nr43_live_write_profile = DmgPreCgbD | CgbDirect

record channel4_stage =
  stage_value :: u8
  stage_shift :: u8
  stage_bit :: bool
  stage_short_width_mode :: bool

record actual_write_resolution =
  res_category :: nr43_live_write_category
  res_action :: nr43_lfsr_action
  res_low_shift_followup :: bool

definition noise_signal_default :: noise_signal where
  "noise_signal_default =
     \<lparr>ns_clock_shift = 0, ns_short_width_mode = False, ns_clock_divider_code = 0,
      ns_period_timer = 0, ns_lfsr_state = 0\<rparr>"

definition nr43_live_write_default :: nr43_live_write_state where
  "nr43_live_write_default =
     \<lparr>lw_alignment = 0, lw_alignment_subphase = False, lw_counter_timer = 0,
      lw_noise_counter = 0, lw_countdown_reloaded = False, lw_did_step_counter = False,
      lw_counter_active = False, lw_background_counting = False,
      lw_started_with_dac_disabled = False, lw_last_trace = None\<rparr>"

subsection \<open>The shift register\<close>

definition NOISE_COUNTER_MASK :: u16 where "NOISE_COUNTER_MASK = 0x3FFF"

definition step_channel4_lfsr :: "noise_signal \<Rightarrow> noise_signal" where
  "step_channel4_lfsr n =
     (let feedback_bit = of_bool (ns_lfsr_state n AND 1 = drop_bit 1 (ns_lfsr_state n) AND 1);
          n = n\<lparr>ns_lfsr_state := drop_bit 1 (ns_lfsr_state n)\<rparr>;
          n = n\<lparr>ns_lfsr_state :=
                  (ns_lfsr_state n AND NOT (push_bit 14 1)) OR push_bit 14 feedback_bit\<rparr>
      in if ns_short_width_mode n
         then n\<lparr>ns_lfsr_state :=
                  (ns_lfsr_state n AND NOT (push_bit 6 1)) OR push_bit 6 feedback_bit\<rparr>
         else n)"

definition step_channel4_lfsr_with_forced_short_width :: "noise_signal \<Rightarrow> noise_signal" where
  "step_channel4_lfsr_with_forced_short_width n =
     (step_channel4_lfsr (n\<lparr>ns_short_width_mode := True\<rparr>))
       \<lparr>ns_short_width_mode := ns_short_width_mode n\<rparr>"

definition apply_channel4_feedback_bit_corruption :: "noise_signal \<Rightarrow> noise_signal" where
  "apply_channel4_feedback_bit_corruption n =
     (let feedback_mask = (if ns_short_width_mode n then 0x4040 else 0x4000);
          previous_feedback_mask = (if ns_short_width_mode n then 0x2020 else 0x2000);
          n = n\<lparr>ns_lfsr_state := ns_lfsr_state n AND NOT feedback_mask\<rparr>
      in n\<lparr>ns_lfsr_state :=
             ns_lfsr_state n OR push_bit 1 (ns_lfsr_state n AND previous_feedback_mask)\<rparr>)"

definition set_channel4_feedback_bits :: "noise_signal \<Rightarrow> noise_signal" where
  "set_channel4_feedback_bits n =
     n\<lparr>ns_lfsr_state :=
         ns_lfsr_state n OR (if ns_short_width_mode n then 0x4040 else 0x4000)\<rparr>"

definition apply_lfsr_action :: "nr43_lfsr_action \<Rightarrow> noise_signal \<Rightarrow> noise_signal" where
  "apply_lfsr_action action n =
     (case action of
        ActionNone \<Rightarrow> n
      | PlainStep \<Rightarrow> step_channel4_lfsr n
      | ForcedShortStep \<Rightarrow> step_channel4_lfsr_with_forced_short_width n
      | ForcedShortStepThenLowShiftCorruption \<Rightarrow>
          apply_channel4_feedback_bit_corruption
            (step_channel4_lfsr (step_channel4_lfsr_with_forced_short_width n))
      | StepThenAndPrevious \<Rightarrow>
          (let previous_lfsr = ns_lfsr_state n;
               n = step_channel4_lfsr n
           in n\<lparr>ns_lfsr_state := ns_lfsr_state n AND (previous_lfsr OR 1)\<rparr>)
      | StepThenSetFeedbackBits \<Rightarrow> set_channel4_feedback_bits (step_channel4_lfsr n)
      | SetFeedbackBits \<Rightarrow> set_channel4_feedback_bits n)"

subsection \<open>NR43 values, their stages and transitions\<close>

definition decode_nr43_clock_shift :: "u8 \<Rightarrow> u8" where
  "decode_nr43_clock_shift v = drop_bit 4 v AND 0x0F"

definition decode_nr43_noise_counter_reload :: "u8 \<Rightarrow> u32" where
  "decode_nr43_noise_counter_reload v =
     (let divisor = push_bit 2 (ucast (v AND 0x07)) in if divisor = 0 then 2 else divisor)"

definition first_glitch_value :: "u8 \<Rightarrow> u8 \<Rightarrow> u8" where
  "first_glitch_value old_nr43 new_nr43 = (old_nr43 AND 0x7F) OR (new_nr43 AND 0x80)"

definition second_glitch_value :: "u8 \<Rightarrow> u8 \<Rightarrow> u8 option" where
  "second_glitch_value old_nr43 new_nr43 =
     (if old_nr43 AND 0x80 \<noteq> new_nr43 AND 0x80 then None
      else Some ((old_nr43 AND 0xCF) OR (new_nr43 AND 0x30)))"

definition stage_from_nr43 :: "u8 \<Rightarrow> u16 \<Rightarrow> channel4_stage" where
  "stage_from_nr43 v effective_counter =
     (let shift = decode_nr43_clock_shift v
      in \<lparr>stage_value = v, stage_shift = shift,
          stage_bit = noise_counter_bit effective_counter shift,
          stage_short_width_mode = (v AND 0x08 \<noteq> 0)\<rparr>)"

definition stage_synthetic_ff :: "u16 \<Rightarrow> channel4_stage" where
  "stage_synthetic_ff effective_counter =
     \<lparr>stage_value = 0xFF, stage_shift = 15, stage_bit = noise_counter_bit effective_counter 15,
      stage_short_width_mode = True\<rparr>"

definition classify_adjacent_pass ::
    "channel4_stage \<Rightarrow> channel4_stage \<Rightarrow> nr43_live_write_category" where
  "classify_adjacent_pass from_stage to_stage =
     (if stage_bit from_stage \<and> \<not> stage_bit to_stage
      then if stage_value to_stage AND 0x80 \<noteq> 0 then Category1 else Category2
      else if \<not> stage_bit from_stage \<and> stage_bit to_stage then RisingEdgeForcedShort
      else CategoryNone)"

definition resolve_basic_live_write_transition ::
    "channel4_stage \<Rightarrow> channel4_stage \<Rightarrow> u16 \<Rightarrow> actual_write_resolution" where
  "resolve_basic_live_write_transition old_stage new_stage effective_counter =
     (let glitch_stage =
            stage_from_nr43 (first_glitch_value (stage_value old_stage) (stage_value new_stage))
              effective_counter
      in if stage_bit old_stage = stage_bit new_stage
            \<and> stage_bit new_stage \<noteq> stage_bit glitch_stage
         then if stage_bit new_stage
              then \<lparr>res_category = Category1, res_action = ActionNone,
                    res_low_shift_followup = False\<rparr>
              else \<lparr>res_category = Category2, res_action = PlainStep,
                    res_low_shift_followup = False\<rparr>
         else if \<not> stage_bit old_stage \<and> stage_bit new_stage
         then \<lparr>res_category = RisingEdgeForcedShort,
               res_action =
                 (if stage_shift new_stage \<le> 2 \<and> stage_bit glitch_stage
                     \<and> effective_counter AND 0x08 = 0
                  then ForcedShortStepThenLowShiftCorruption else ForcedShortStep),
               res_low_shift_followup = False\<rparr>
         else \<lparr>res_category = CategoryNone, res_action = ActionNone,
               res_low_shift_followup =
                 (stage_shift new_stage \<le> 2 \<and> \<not> stage_bit glitch_stage
                  \<and> \<not> stage_bit new_stage \<and> \<not> stage_bit old_stage
                  \<and> effective_counter AND 0x08 \<noteq> 0)\<rparr>)"

definition effective_noise_counter :: "nr43_live_write_state \<Rightarrow> u16" where
  "effective_noise_counter lw =
     (if lw_countdown_reloaded lw
      then lw_noise_counter lw OR ((lw_noise_counter lw - 1) AND NOISE_COUNTER_MASK)
      else lw_noise_counter lw)"

subsection \<open>Passes\<close>

definition materialize_actionable_pass_trace ::
    "nr43_pass_kind \<Rightarrow> channel4_stage \<Rightarrow> channel4_stage \<Rightarrow> actual_write_resolution \<Rightarrow> bool
     \<Rightarrow> noise_signal \<Rightarrow> nr43_pass_trace \<times> noise_signal" where
  "materialize_actionable_pass_trace kind from_stage to_stage resolution action_short_width_mode n =
     (let lfsr_before = ns_lfsr_state n;
          n = n\<lparr>ns_short_width_mode := action_short_width_mode\<rparr>;
          n = apply_lfsr_action (res_action resolution) n
      in (\<lparr>pt_kind = kind, pt_value_from = stage_value from_stage,
           pt_value_to = stage_value to_stage, pt_shift_from = stage_shift from_stage,
           pt_shift_to = stage_shift to_stage, pt_bit_from = stage_bit from_stage,
           pt_bit_to = stage_bit to_stage, pt_category = res_category resolution,
           pt_action = res_action resolution, pt_lfsr_before = lfsr_before,
           pt_lfsr_after = ns_lfsr_state n\<rparr>, n))"

definition materialize_descriptive_pass_trace ::
    "nr43_pass_kind \<Rightarrow> channel4_stage \<Rightarrow> channel4_stage \<Rightarrow> noise_signal \<Rightarrow> nr43_pass_trace" where
  "materialize_descriptive_pass_trace kind from_stage to_stage n =
     \<lparr>pt_kind = kind, pt_value_from = stage_value from_stage, pt_value_to = stage_value to_stage,
      pt_shift_from = stage_shift from_stage, pt_shift_to = stage_shift to_stage,
      pt_bit_from = stage_bit from_stage, pt_bit_to = stage_bit to_stage,
      pt_category = classify_adjacent_pass from_stage to_stage, pt_action = ActionNone,
      pt_lfsr_before = ns_lfsr_state n, pt_lfsr_after = ns_lfsr_state n\<rparr>"

definition apply_reload_seam_pass ::
    "u8 \<Rightarrow> u8 \<Rightarrow> channel4_stage \<Rightarrow> nr43_live_write_state \<Rightarrow> noise_signal
     \<Rightarrow> nr43_pass_trace \<times> noise_signal" where
  "apply_reload_seam_pass old_nr43 new_nr43 old_stage lw n =
     (let current_counter = lw_noise_counter lw;
          previous_counter = (current_counter - 1) AND NOISE_COUNTER_MASK;
          current_glitch_bit = noise_counter_bit current_counter 7;
          new_shift = decode_nr43_clock_shift new_nr43;
          lfsr_before = ns_lfsr_state n;
          should_step =
            (\<not> noise_counter_bit current_counter (stage_shift old_stage)
             \<and> noise_counter_bit current_counter new_shift
             \<and> current_glitch_bit
             \<and> noise_counter_bit previous_counter (stage_shift old_stage)
             \<and> \<not> noise_counter_bit previous_counter new_shift
             \<and> noise_counter_bit previous_counter 7);
          (action, n) = (if should_step then (PlainStep, step_channel4_lfsr n) else (ActionNone, n))
      in (\<lparr>pt_kind = PassReloadSeam, pt_value_from = old_nr43, pt_value_to = old_nr43,
           pt_shift_from = stage_shift old_stage, pt_shift_to = stage_shift old_stage,
           pt_bit_from = stage_bit old_stage, pt_bit_to = stage_bit old_stage,
           pt_category = CategoryNone, pt_action = action, pt_lfsr_before = lfsr_before,
           pt_lfsr_after = ns_lfsr_state n\<rparr>, n))"

definition execute_low_shift_followup_pass ::
    "channel4_stage \<Rightarrow> noise_signal \<Rightarrow> nr43_pass_trace \<times> noise_signal" where
  "execute_low_shift_followup_pass new_stage =
     materialize_actionable_pass_trace PassLowShiftFollowup new_stage new_stage
       \<lparr>res_category = LowShiftFollowup, res_action = PlainStep, res_low_shift_followup = True\<rparr>
       (stage_short_width_mode new_stage)"

definition derive_compatibility_aliases ::
    "nr43_live_write_trace \<Rightarrow> nr43_live_write_category \<times> nr43_lfsr_action" where
  "derive_compatibility_aliases trace =
     (case filter (\<lambda>pass. pt_action pass \<noteq> ActionNone)
             (List.map_filter id
                [lt_low_shift_followup trace, lt_ff_to_glitch_1 trace, lt_old_to_ff trace,
                 lt_glitch_to_new trace, lt_glitch_1_to_glitch_2 trace, lt_reload_seam trace]) of
        [] \<Rightarrow> (CategoryNone, ActionNone)
      | pass # _ \<Rightarrow> (pt_category pass, pt_action pass))"

definition initial_trace ::
    "bool \<Rightarrow> u8 \<Rightarrow> u8 \<Rightarrow> u16 \<Rightarrow> channel4_stage \<Rightarrow> channel4_stage \<Rightarrow> channel4_stage
     \<Rightarrow> channel4_stage option \<Rightarrow> channel4_stage \<Rightarrow> bool \<Rightarrow> u16 \<Rightarrow> nr43_live_write_trace" where
  "initial_trace runtime_active old_nr43 new_nr43 effective_counter old_stage ff_stage
     glitch_1_stage glitch_2_stage new_stage countdown_reloaded lfsr_before =
     \<lparr>lt_runtime_active = runtime_active,
      lt_same_shift_group = (old_nr43 AND 0xF0 = new_nr43 AND 0xF0),
      lt_old_nr43 = old_nr43, lt_ff_value = stage_value ff_stage,
      lt_glitch_1_value = stage_value glitch_1_stage,
      lt_glitch_2_value = map_option stage_value glitch_2_stage,
      lt_old_shift = stage_shift old_stage, lt_ff_shift = stage_shift ff_stage,
      lt_glitch_1_shift = stage_shift glitch_1_stage,
      lt_glitch_2_shift = map_option stage_shift glitch_2_stage,
      lt_new_shift = stage_shift new_stage, lt_new_nr43 = new_nr43,
      lt_effective_counter = effective_counter, lt_countdown_reloaded = countdown_reloaded,
      lt_old_bit = stage_bit old_stage, lt_ff_bit = stage_bit ff_stage,
      lt_glitch_1_bit = stage_bit glitch_1_stage,
      lt_glitch_2_bit = map_option stage_bit glitch_2_stage, lt_new_bit = stage_bit new_stage,
      lt_decision_category = CategoryNone, lt_lfsr_action = ActionNone,
      lt_reload_seam = None, lt_old_to_ff = None, lt_ff_to_glitch_1 = None,
      lt_glitch_1_to_glitch_2 = None, lt_glitch_to_new = None, lt_low_shift_followup = None,
      lt_lfsr_before = lfsr_before, lt_lfsr_after = lfsr_before\<rparr>"

text \<open>The last lines of both resolvers.\<close>

definition finish_trace ::
    "channel4_stage \<Rightarrow> nr43_live_write_trace \<Rightarrow> noise_signal
     \<Rightarrow> nr43_live_write_trace \<times> noise_signal" where
  "finish_trace new_stage trace n =
     (let n = n\<lparr>ns_short_width_mode := stage_short_width_mode new_stage\<rparr>;
          trace = trace\<lparr>lt_lfsr_after := ns_lfsr_state n\<rparr>;
          (decision_category, lfsr_action) = derive_compatibility_aliases trace
      in (trace\<lparr>lt_decision_category := decision_category, lt_lfsr_action := lfsr_action\<rparr>, n))"

definition resolve_dmg_pre_cgb_d ::
    "bool \<Rightarrow> u8 \<Rightarrow> u8 \<Rightarrow> nr43_live_write_state \<Rightarrow> noise_signal
     \<Rightarrow> nr43_live_write_trace \<times> noise_signal" where
  "resolve_dmg_pre_cgb_d runtime_active old_nr43 new_nr43 lw n =
     (let effective_counter = effective_noise_counter lw;
          old_stage = stage_from_nr43 old_nr43 effective_counter;
          ff_stage = stage_synthetic_ff effective_counter;
          glitch_1_stage =
            stage_from_nr43 (first_glitch_value (stage_value ff_stage) new_nr43) effective_counter;
          glitch_2_stage =
            map_option (\<lambda>v. stage_from_nr43 v effective_counter)
              (second_glitch_value (stage_value ff_stage) new_nr43);
          new_stage = stage_from_nr43 new_nr43 effective_counter;
          trace = initial_trace runtime_active old_nr43 new_nr43 effective_counter old_stage ff_stage
                    glitch_1_stage glitch_2_stage new_stage (lw_countdown_reloaded lw)
                    (ns_lfsr_state n)
      in if \<not> runtime_active \<or> lt_same_shift_group trace then (trace, n)
         else
           let (trace, n) =
                 (if lw_countdown_reloaded lw
                  then case apply_reload_seam_pass old_nr43 new_nr43 old_stage lw n of
                         (pass, n) \<Rightarrow> (trace\<lparr>lt_reload_seam := Some pass\<rparr>, n)
                  else (trace, n));
               old_to_ff_action =
                 resolve_basic_live_write_transition old_stage ff_stage effective_counter;
               ff_to_new_action =
                 resolve_basic_live_write_transition ff_stage new_stage effective_counter;
               (pass, n) = materialize_actionable_pass_trace PassOldToFf old_stage ff_stage
                             old_to_ff_action (stage_short_width_mode ff_stage) n;
               trace = trace\<lparr>lt_old_to_ff := Some pass\<rparr>;
               (pass, n) = materialize_actionable_pass_trace PassFfToGlitch1 ff_stage glitch_1_stage
                             ff_to_new_action (stage_short_width_mode new_stage) n;
               trace = trace\<lparr>lt_ff_to_glitch_1 := Some pass\<rparr>;
               trace = trace\<lparr>lt_glitch_1_to_glitch_2 :=
                 map_option
                   (\<lambda>stage. materialize_descriptive_pass_trace PassGlitch1ToGlitch2 glitch_1_stage stage n)
                   glitch_2_stage\<rparr>;
               pre_new_stage = (case glitch_2_stage of None \<Rightarrow> glitch_1_stage | Some s \<Rightarrow> s);
               trace = trace\<lparr>lt_glitch_to_new :=
                 Some (materialize_descriptive_pass_trace PassGlitchToNew pre_new_stage new_stage n)\<rparr>;
               (trace, n) =
                 (if res_low_shift_followup ff_to_new_action
                  then case execute_low_shift_followup_pass new_stage n of
                         (pass, n) \<Rightarrow> (trace\<lparr>lt_low_shift_followup := Some pass\<rparr>, n)
                  else (trace, n))
           in finish_trace new_stage trace n)"

definition resolve_cgb_direct ::
    "bool \<Rightarrow> u8 \<Rightarrow> u8 \<Rightarrow> nr43_live_write_state \<Rightarrow> noise_signal
     \<Rightarrow> nr43_live_write_trace \<times> noise_signal" where
  "resolve_cgb_direct runtime_active old_nr43 new_nr43 lw n =
     (let effective_counter = lw_noise_counter lw;
          old_stage = stage_from_nr43 old_nr43 effective_counter;
          ff_stage = stage_synthetic_ff effective_counter;
          glitch_stage = stage_from_nr43 (first_glitch_value old_nr43 new_nr43) effective_counter;
          new_stage = stage_from_nr43 new_nr43 effective_counter;
          trace = initial_trace runtime_active old_nr43 new_nr43 effective_counter old_stage ff_stage
                    glitch_stage None new_stage (lw_countdown_reloaded lw) (ns_lfsr_state n)
      in if \<not> runtime_active \<or> lt_same_shift_group trace
         then (trace, n\<lparr>ns_short_width_mode := stage_short_width_mode new_stage\<rparr>)
         else
           let direct_action =
                 resolve_basic_live_write_transition old_stage new_stage effective_counter;
               (pass, n) = materialize_actionable_pass_trace PassGlitchToNew old_stage new_stage
                             direct_action (stage_short_width_mode new_stage) n;
               trace = trace\<lparr>lt_glitch_to_new := Some pass\<rparr>
           in finish_trace new_stage trace n)"

definition trace_channel4_live_nr43_write ::
    "nr43_live_write_profile \<Rightarrow> bool \<Rightarrow> u8 \<Rightarrow> u8 \<Rightarrow> nr43_live_write_state \<Rightarrow> noise_signal
     \<Rightarrow> nr43_live_write_trace \<times> noise_signal" where
  "trace_channel4_live_nr43_write profile runtime_active old_nr43 new_nr43 lw n =
     (case profile of
        DmgPreCgbD \<Rightarrow> resolve_dmg_pre_cgb_d runtime_active old_nr43 new_nr43 lw n
      | CgbDirect \<Rightarrow> resolve_cgb_direct runtime_active old_nr43 new_nr43 lw n)"

definition resolve_channel4_noise_counter_timer_after_live_write ::
    "nr43_live_write_profile \<Rightarrow> u8 \<Rightarrow> nr43_live_write_state \<Rightarrow> u32" where
  "resolve_channel4_noise_counter_timer_after_live_write profile new_nr43 lw =
     (if \<not> lw_countdown_reloaded lw \<and> lw_counter_timer lw \<noteq> 0 then lw_counter_timer lw
      else
        let divisor = decode_nr43_noise_counter_reload new_nr43
        in if divisor = 2 then divisor
           else
             let alignment_offsets = (case profile of
                   DmgPreCgbD \<Rightarrow> [2, 1, 4, 3] | CgbDirect \<Rightarrow> [2, 1, 0, 3])
             in divisor + alignment_offsets ! unat (lw_alignment lw AND 0x03))"

subsection \<open>The shift register stays fifteen bits wide\<close>

definition lfsr_wf :: "noise_signal \<Rightarrow> bool" where
  "lfsr_wf n \<longleftrightarrow> \<not> bit (ns_lfsr_state n) 15"

lemma u16_bit_out [simp]: "\<not> bit (x::u16) 16"
  using bit_imp_le_length[of x 16] by auto

lemma u16_bit_table:
  "(\<forall>k\<in>set [0..<16]. bit (c::u16) k = P k) \<Longrightarrow> (\<And>k. P k \<Longrightarrow> k < 16) \<Longrightarrow> bit c k = P k"
  using bit_imp_le_length[of c k] by fastforce

lemma feedback_bits:
  "bit (0x4040::u16) k = (k = 6 \<or> k = 14)" "bit (0x4000::u16) k = (k = 14)"
  "bit (0x40::u16) k = (k = 6)"
  by (rule u16_bit_table; force simp: upt_rec)+

lemma clear_feedback_bits:
  "(x::u16) AND NOT (push_bit 14 1) = unset_bit 14 x" "x AND NOT (push_bit 6 1) = unset_bit 6 x"
  by (simp_all only: unset_bit_eq_and_not)

lemma lowest_bits_agree:
  "((x::u16) AND 1 = drop_bit (Suc 0) x AND 1) = (bit x 0 = bit x (Suc 0))"
  by (simp add: and_one_eq bit_0 bit_iff_odd_drop_bit mod_2_eq_odd)

lemma bit_lfsr_step:
  assumes "k < 15"
  shows "bit (ns_lfsr_state (step_channel4_lfsr n)) k =
    (if k = 14 \<or> k = 6 \<and> ns_short_width_mode n
     then bit (ns_lfsr_state n) 0 = bit (ns_lfsr_state n) (Suc 0)
     else bit (ns_lfsr_state n) (Suc k))"
  using assms
  unfolding step_channel4_lfsr_def clear_feedback_bits
  by (auto simp: Let_def lowest_bits_agree bit_simps)

lemma lfsr_wf_step: "lfsr_wf n \<Longrightarrow> lfsr_wf (step_channel4_lfsr n)"
  unfolding step_channel4_lfsr_def clear_feedback_bits
  by (auto simp: lfsr_wf_def Let_def bit_simps)

lemma lfsr_wf_forced: "lfsr_wf n \<Longrightarrow> lfsr_wf (step_channel4_lfsr_with_forced_short_width n)"
  using lfsr_wf_step[of "n\<lparr>ns_short_width_mode := True\<rparr>"]
  by (simp add: lfsr_wf_def step_channel4_lfsr_with_forced_short_width_def)

lemma lfsr_wf_mode [simp]: "lfsr_wf (n\<lparr>ns_short_width_mode := b\<rparr>) = lfsr_wf n"
  by (simp add: lfsr_wf_def)

lemma lfsr_wf_corruption: "lfsr_wf n \<Longrightarrow> lfsr_wf (apply_channel4_feedback_bit_corruption n)"
  by (simp add: lfsr_wf_def apply_channel4_feedback_bit_corruption_def Let_def bit_simps feedback_bits)

lemma lfsr_wf_feedback: "lfsr_wf n \<Longrightarrow> lfsr_wf (set_channel4_feedback_bits n)"
  by (simp add: lfsr_wf_def set_channel4_feedback_bits_def bit_simps feedback_bits)

lemma lfsr_wf_action:
  assumes "lfsr_wf n"
  shows "lfsr_wf (apply_lfsr_action a n)"
proof -
  have "lfsr_wf ((step_channel4_lfsr n)\<lparr>ns_lfsr_state :=
      ns_lfsr_state (step_channel4_lfsr n) AND x\<rparr>)" for x
    using lfsr_wf_step[OF assms] by (simp add: lfsr_wf_def bit_simps)
  then show ?thesis
    using assms
    by (cases a) (simp_all add: apply_lfsr_action_def Let_def lfsr_wf_step lfsr_wf_forced
        lfsr_wf_corruption lfsr_wf_feedback)
qed

lemma lfsr_wf_pass:
  "lfsr_wf n \<Longrightarrow> lfsr_wf (snd (materialize_actionable_pass_trace k f t r b n))"
  by (simp add: materialize_actionable_pass_trace_def Let_def lfsr_wf_action)

lemma lfsr_wf_seam: "lfsr_wf n \<Longrightarrow> lfsr_wf (snd (apply_reload_seam_pass a b s lw n))"
  by (simp add: apply_reload_seam_pass_def Let_def lfsr_wf_step)

lemma lfsr_wf_finish: "lfsr_wf (snd (finish_trace s t n)) = lfsr_wf n"
  by (simp add: finish_trace_def Let_def split: prod.split)

lemma lfsr_wf_pass_eq:
  "materialize_actionable_pass_trace k f t r b n = (p, n') \<Longrightarrow> lfsr_wf n \<Longrightarrow> lfsr_wf n'"
  using lfsr_wf_pass[of n k f t r b] by simp

lemma lfsr_wf_seam_eq: "apply_reload_seam_pass a b s lw n = (p, n') \<Longrightarrow> lfsr_wf n \<Longrightarrow> lfsr_wf n'"
  using lfsr_wf_seam[of n a b s lw] by simp

lemma lfsr_wf_live_write:
  assumes "lfsr_wf n"
  shows "lfsr_wf (snd (trace_channel4_live_nr43_write profile act old new lw n))"
proof (cases profile)
  case DmgPreCgbD
  then show ?thesis
    using assms
    by (auto simp: trace_channel4_live_nr43_write_def resolve_dmg_pre_cgb_d_def Let_def
        execute_low_shift_followup_pass_def lfsr_wf_finish split: prod.splits if_splits
        dest!: lfsr_wf_pass_eq lfsr_wf_seam_eq)
next
  case CgbDirect
  then show ?thesis
    using assms
    by (auto simp: trace_channel4_live_nr43_write_def resolve_cgb_direct_def Let_def
        lfsr_wf_finish split: prod.splits dest!: lfsr_wf_pass_eq)
qed

end
