(* ===== verification/Apu_Noise.thy ===== *)
theory Apu_Noise
  imports Apu_Noise_Live Apu_Pulse
begin

text \<open>
  Channel 4 (\<open>apu/channels/ch4.rs\<close>): the noise channel, its hidden counter clocked every second
  T-cycle, the start sequence of that counter, and the delayed triggers of the DMG. The
  test-only \<open>write_nr43\<close> is left out.
\<close>

datatype channel4_register = Nr41 | Nr42 | Nr43 | Nr44

record channel4_state =
  ch4_nr41 :: u8
  ch4_nr42 :: u8
  ch4_nr43 :: u8
  ch4_nr44 :: u8
  ch4_dmg_delayed_start :: u8
  ch4_pending_trigger_envelope_reload :: bool
  ch4_runtime :: channel_runtime
  ch4_length_counter :: u8
  ch4_length_enabled :: bool
  ch4_envelope :: envelope_state
  ch4_noise :: noise_signal
  ch4_live :: nr43_live_write_state

definition channel4_default :: channel4_state where
  "channel4_default =
     \<lparr>ch4_nr41 = 0, ch4_nr42 = 0, ch4_nr43 = 0, ch4_nr44 = 0, ch4_dmg_delayed_start = 0,
      ch4_pending_trigger_envelope_reload = False, ch4_runtime = runtime_default,
      ch4_length_counter = 0, ch4_length_enabled = False, ch4_envelope = envelope_default,
      ch4_noise = noise_signal_default, ch4_live = nr43_live_write_default\<rparr>"

definition ch4_map_live ::
    "(nr43_live_write_state \<Rightarrow> nr43_live_write_state) \<Rightarrow> channel4_state \<Rightarrow> channel4_state" where
  "ch4_map_live f c = c\<lparr>ch4_live := f (ch4_live c)\<rparr>"

definition ch4_map_noise :: "(noise_signal \<Rightarrow> noise_signal) \<Rightarrow> channel4_state \<Rightarrow> channel4_state" where
  "ch4_map_noise f c = c\<lparr>ch4_noise := f (ch4_noise c)\<rparr>"

definition ch4_derived_dac_enabled :: "channel4_state \<Rightarrow> bool" where
  "ch4_derived_dac_enabled c = (ch4_nr42 c AND DAC_ENABLE_REGISTER_MASK \<noteq> 0)"

definition ch4_apply_envelope_write :: "u8 \<Rightarrow> channel4_state \<Rightarrow> channel4_state" where
  "ch4_apply_envelope_write v c = c\<lparr>ch4_envelope := env_apply_write v (ch4_envelope c)\<rparr>"

definition ch4_apply_live_envelope_write_effect ::
    "u8 \<Rightarrow> console_model \<Rightarrow> channel4_state \<Rightarrow> channel4_state" where
  "ch4_apply_live_envelope_write_effect v m c =
     c\<lparr>ch4_envelope :=
         env_apply_live_write_effect m (rt_active (ch4_runtime c)) v (ch4_envelope c)\<rparr>"

definition ch4_decode_nr43 :: "u8 \<Rightarrow> channel4_state \<Rightarrow> channel4_state" where
  "ch4_decode_nr43 v =
     ch4_map_noise (\<lambda>n. n\<lparr>ns_clock_shift := drop_bit 4 v AND 0x0F,
                          ns_short_width_mode := (v AND 0x08 \<noteq> 0),
                          ns_clock_divider_code := v AND 0x07\<rparr>)"

definition ch4_noise_timer_reload :: "channel4_state \<Rightarrow> u32" where
  "ch4_noise_timer_reload c =
     noise_timer_reload (ns_clock_shift (ch4_noise c)) (ns_clock_divider_code (ch4_noise c))"

definition ch4_noise_counter_timer_reload :: "channel4_state \<Rightarrow> u32" where
  "ch4_noise_counter_timer_reload c = noise_counter_timer_reload (ns_clock_divider_code (ch4_noise c))"

definition ch4_reload_period_timer :: "channel4_state \<Rightarrow> channel4_state" where
  "ch4_reload_period_timer c = ch4_map_noise (\<lambda>n. n\<lparr>ns_period_timer := ch4_noise_timer_reload c\<rparr>) c"

definition ch4_read_register :: "channel4_register \<Rightarrow> channel4_state \<Rightarrow> u8" where
  "ch4_read_register r c =
     (case r of
        Nr41 \<Rightarrow> 0xFF
      | Nr42 \<Rightarrow> ch4_nr42 c
      | Nr43 \<Rightarrow> ch4_nr43 c
      | Nr44 \<Rightarrow> (ch4_nr44 c AND 0x40) OR 0xBF)"

subsection \<open>The hidden counter\<close>

definition hidden_counter_running :: "channel4_state \<Rightarrow> bool" where
  "hidden_counter_running c =
     (lw_counter_active (ch4_live c) \<or> lw_background_counting (ch4_live c))"

definition hidden_counter_divisor_code :: "channel4_state \<Rightarrow> u32" where
  "hidden_counter_divisor_code c = ucast (ns_clock_divider_code (ch4_noise c) AND 0x07)"

definition lw_increment :: "u16 \<Rightarrow> nr43_live_write_state \<Rightarrow> nr43_live_write_state" where
  "lw_increment k lw =
     lw\<lparr>lw_noise_counter := (lw_noise_counter lw + k) AND NOISE_COUNTER_MASK\<rparr>"

definition increment_hidden_counter :: "channel4_state \<Rightarrow> channel4_state" where
  "increment_hidden_counter = ch4_map_live (lw_increment 1)"

definition ch4_counter_bit :: "channel4_state \<Rightarrow> bool" where
  "ch4_counter_bit c =
     noise_counter_bit (lw_noise_counter (ch4_live c)) (ns_clock_shift (ch4_noise c))"

text \<open>The first half of \<open>prepare_hidden_counter_start\<close>: the flags and the bootstrap of a
  counter that never ran.\<close>

definition hidden_counter_flags :: "channel4_state \<Rightarrow> channel4_state" where
  "hidden_counter_flags c =
     (let counter_active = ch4_derived_dac_enabled c;
          was_background_counting = lw_background_counting (ch4_live c);
          c = ch4_map_live (\<lambda>lw. lw\<lparr>lw_counter_active := counter_active,
                                    lw_started_with_dac_disabled := (\<not> counter_active),
                                    lw_background_counting := True\<rparr>) c;
          first_bootstrap_start =
            (\<not> was_background_counting \<and> \<not> lw_counter_active (ch4_live c)
             \<and> \<not> rt_active (ch4_runtime c) \<and> lw_noise_counter (ch4_live c) = 0
             \<and> \<not> lw_did_step_counter (ch4_live c))
      in if first_bootstrap_start then ch4_map_live (lw_increment 8) c else c)"

text \<open>The counter steps a trigger causes at once: the new state, the divisor used from here on,
  and the flags \<open>instant_step\<close> and \<open>div_1_glitch\<close>.\<close>

definition hidden_counter_start_glitch ::
    "channel4_state \<Rightarrow> channel4_state \<times> u32 \<times> bool \<times> bool" where
  "hidden_counter_start_glitch c =
     (let divisor = hidden_counter_divisor_code c;
          alignment = lw_alignment (ch4_live c) AND 0x03
      in if divisor > 1 \<and> lw_counter_timer (ch4_live c) = 1
         then (increment_hidden_counter c, divisor, False, False)
         else if lw_counter_timer (ch4_live c) = 2 \<and> alignment = 0 \<and> rt_active (ch4_runtime c)
         then if divisor = 0 then (c, 8, False, False)
              else if divisor = 1
              then
                let div_1_glitch = (\<not> lw_did_step_counter (ch4_live c));
                    old_bit = ch4_counter_bit c;
                    c = increment_hidden_counter c;
                    new_bit = ch4_counter_bit c
                in (c, divisor, new_bit \<and> \<not> old_bit, div_1_glitch)
              else (c, divisor, False, False)
         else (c, divisor, False, False))"

definition hidden_counter_start_timer ::
    "channel4_state \<Rightarrow> u32 \<Rightarrow> bool \<Rightarrow> bool \<Rightarrow> bool \<Rightarrow> int" where
  "hidden_counter_start_timer c divisor was_background_counting was_started_with_dac_disabled
     div_1_glitch =
     (let alignment = lw_alignment (ch4_live c) AND 0x03;
          active = rt_active (ch4_runtime c);
          counter_timer = (if divisor = 0 then 6 else uint divisor * 4 + 6);
          counter_timer =
            (if alignment AND 1 \<noteq> 0
             then if divisor = 0 then counter_timer + 1
                  else if alignment AND 2 \<noteq> 0
                  then if divisor = 1 \<and> \<not> active then counter_timer + 1 else counter_timer - 3
                  else let counter_timer = counter_timer - 1
                       in if divisor = 1 \<and> active then counter_timer - 4 else counter_timer
             else if divisor \<noteq> 0
             then if alignment AND 2 \<noteq> 0 then counter_timer - 2
                  else if divisor > 1 \<or> (divisor = 1 \<and> active \<and> ch4_nr43 c AND 0xF0 = 0)
                  then counter_timer - 4 else counter_timer
             else counter_timer);
          counter_timer =
            (if divisor > 1
             then if \<not> lw_counter_active (ch4_live c) \<and> alignment = 0
                  then counter_timer + 4 else counter_timer
             else if was_background_counting \<and> \<not> active \<and> alignment = 0
             then if divisor = 0
                  then if was_started_with_dac_disabled then counter_timer + 28 else counter_timer
                  else counter_timer - 4
             else counter_timer)
      in if div_1_glitch then counter_timer - 4 else counter_timer)"

definition prepare_hidden_counter_start :: "channel4_state \<Rightarrow> channel4_state" where
  "prepare_hidden_counter_start c =
     (let was_started_with_dac_disabled = lw_started_with_dac_disabled (ch4_live c);
          was_background_counting = lw_background_counting (ch4_live c);
          (c, divisor, instant_step, div_1_glitch) =
            hidden_counter_start_glitch (hidden_counter_flags c);
          alignment = lw_alignment (ch4_live c) AND 0x03;
          counter_timer =
            hidden_counter_start_timer c divisor was_background_counting
              was_started_with_dac_disabled div_1_glitch;
          lfsr = (if divisor = 0 \<and> rt_active (ch4_runtime c) \<and> alignment = 3 then 0x0055 else 0);
          c = ch4_map_noise (\<lambda>n. n\<lparr>ns_lfsr_state := lfsr\<rparr>) c;
          c = ch4_map_live
                (\<lambda>lw. lw\<lparr>lw_counter_timer := of_int (max counter_timer 0),
                         lw_countdown_reloaded := False,
                         lw_did_step_counter := (alignment = 2)\<rparr>) c
      in if instant_step then ch4_map_noise step_channel4_lfsr c else c)"

definition handle_hidden_counter_dac_disable :: "channel4_state \<Rightarrow> channel4_state" where
  "handle_hidden_counter_dac_disable c =
     (let c = (if rt_active (ch4_runtime c) \<and> ns_clock_divider_code (ch4_noise c) \<noteq> 0
               then
                 let c = (if lw_counter_timer (ch4_live c) > 0 \<and> lw_counter_timer (ch4_live c) \<le> 2
                          then increment_hidden_counter c else c)
                 in ch4_map_live (\<lambda>lw. lw\<lparr>lw_background_counting := False\<rparr>) c
               else c)
      in ch4_map_live (\<lambda>lw. lw\<lparr>lw_counter_active := False\<rparr>) c)"

definition tick_noise_counter_phase :: "channel4_state \<Rightarrow> channel4_state" where
  "tick_noise_counter_phase c =
     (if \<not> hidden_counter_running c
      then ch4_map_live (\<lambda>lw. lw\<lparr>lw_countdown_reloaded := False\<rparr>) c
      else
        let divisor = ch4_noise_counter_timer_reload c;
            c = (if lw_counter_timer (ch4_live c) = 0
                 then ch4_map_live (\<lambda>lw. lw\<lparr>lw_counter_timer := divisor\<rparr>) c else c)
        in if lw_counter_timer (ch4_live c) > 1
           then ch4_map_live (\<lambda>lw. lw\<lparr>lw_counter_timer := lw_counter_timer lw - 1,
                                      lw_countdown_reloaded := False\<rparr>) c
           else
             let old_bit = ch4_counter_bit c;
                 c = ch4_map_live (\<lambda>lw. (lw_increment 1 (lw\<lparr>lw_counter_timer := divisor\<rparr>))
                                          \<lparr>lw_did_step_counter := True\<rparr>) c;
                 new_bit = ch4_counter_bit c;
                 c = (if new_bit \<and> \<not> old_bit \<and> rt_active (ch4_runtime c)
                      then ch4_map_noise step_channel4_lfsr c else c)
             in ch4_map_live (\<lambda>lw. lw\<lparr>lw_countdown_reloaded := True\<rparr>) c)"

definition tick_alignment_phase_only :: "channel4_state \<Rightarrow> bool \<times> channel4_state" where
  "tick_alignment_phase_only c =
     (let apu_2mhz_step = (\<not> lw_alignment_subphase (ch4_live c));
          c = ch4_map_live (\<lambda>lw. lw\<lparr>lw_alignment_subphase := apu_2mhz_step\<rparr>) c
      in (apu_2mhz_step,
          if apu_2mhz_step
          then ch4_map_live (\<lambda>lw. lw\<lparr>lw_alignment := (lw_alignment lw + 1) AND 0x03\<rparr>) c else c))"

subsection \<open>Trigger, tick and writes\<close>

definition ch4_trigger :: "bool \<Rightarrow> channel4_state \<Rightarrow> bool \<times> channel4_state" where
  "ch4_trigger next_step_clocks_envelope c =
     (let reloaded_zero_length = (ch4_length_counter c = 0);
          c = (if ch4_length_counter c = 0
               then c\<lparr>ch4_length_counter := PULSE_LENGTH_COUNTER_RELOAD, ch4_length_enabled := False\<rparr>
               else c);
          c = ch4_apply_envelope_write (ch4_nr42 c) c;
          c = prepare_hidden_counter_start c;
          c = ch4_reload_period_timer c;
          c = c\<lparr>ch4_envelope := env_reload next_step_clocks_envelope (ch4_envelope c),
                ch4_runtime := rt_trigger (ch4_runtime c)\<rparr>
      in (reloaded_zero_length, c))"

definition ch4_clock_period_timer :: "channel4_state \<Rightarrow> channel4_state" where
  "ch4_clock_period_timer c =
     (if noise_clocking_suppressed (ns_clock_shift (ch4_noise c)) then c
      else
        let c = (if ns_period_timer (ch4_noise c) > 0
                 then ch4_map_noise (\<lambda>n. n\<lparr>ns_period_timer := ns_period_timer n - 1\<rparr>) c else c)
        in if ns_period_timer (ch4_noise c) = 0 then ch4_reload_period_timer c else c)"

definition ch4_tick_fast_timer :: "channel4_state \<Rightarrow> channel4_state" where
  "ch4_tick_fast_timer c =
     (case tick_alignment_phase_only c of
        (apu_2mhz_step, c) \<Rightarrow>
          let (start_after_tick, c) =
                (if apu_2mhz_step \<and> ch4_dmg_delayed_start c \<noteq> 0
                 then let c = c\<lparr>ch4_dmg_delayed_start := ch4_dmg_delayed_start c - 1\<rparr>
                      in (ch4_dmg_delayed_start c = 0, c)
                 else (False, c));
              c = (if apu_2mhz_step then tick_noise_counter_phase c else c);
              c = (if start_after_tick
                   then
                     let next_step_clocks_envelope = ch4_pending_trigger_envelope_reload c;
                         c = c\<lparr>ch4_pending_trigger_envelope_reload := False\<rparr>
                     in snd (ch4_trigger next_step_clocks_envelope c)
                   else c)
          in ch4_clock_period_timer c)"

definition channel4_nr43_live_write_profile :: "console_model \<Rightarrow> nr43_live_write_profile" where
  "channel4_nr43_live_write_profile m = (if is_cgb_family m then CgbDirect else DmgPreCgbD)"

definition ch4_write_nr41 :: "u8 \<Rightarrow> channel4_state \<Rightarrow> channel4_state" where
  "ch4_write_nr41 v c =
     c\<lparr>ch4_nr41 := v, ch4_length_counter := pulse_length_counter_from_load v\<rparr>"

definition ch4_write_nr42 :: "u8 \<Rightarrow> console_model \<Rightarrow> channel4_state \<Rightarrow> channel4_state" where
  "ch4_write_nr42 v m c =
     (let dac_disabling = (rt_dac_enabled (ch4_runtime c) \<and> v AND DAC_ENABLE_REGISTER_MASK = 0);
          c = (if dac_disabling then handle_hidden_counter_dac_disable c else c);
          c = ch4_apply_live_envelope_write_effect v m c;
          c = c\<lparr>ch4_nr42 := v\<rparr>
      in c\<lparr>ch4_runtime := rt_set_dac_enabled (ch4_derived_dac_enabled c) (ch4_runtime c)\<rparr>)"

definition ch4_write_nr43_for_model :: "u8 \<Rightarrow> console_model \<Rightarrow> channel4_state \<Rightarrow> channel4_state" where
  "ch4_write_nr43_for_model v m c =
     (let old_nr43 = ch4_nr43 c;
          profile = channel4_nr43_live_write_profile m
      in case trace_channel4_live_nr43_write profile (rt_active (ch4_runtime c)) old_nr43 v
                (ch4_live c) (ch4_noise c) of
           (trace, n) \<Rightarrow>
             let c = c\<lparr>ch4_noise := n\<rparr>;
                 c = ch4_map_live (\<lambda>lw. lw\<lparr>lw_last_trace := Some trace\<rparr>) c;
                 c = c\<lparr>ch4_nr43 := v\<rparr>;
                 c = ch4_decode_nr43 v c;
                 c = ch4_map_live
                       (\<lambda>lw. lw\<lparr>lw_counter_timer :=
                          resolve_channel4_noise_counter_timer_after_live_write profile v lw\<rparr>) c;
                 c = ch4_map_live (\<lambda>lw. lw\<lparr>lw_countdown_reloaded := False\<rparr>) c
             in ch4_reload_period_timer c)"

definition ch4_apply_extra_length_clocking_on_enable ::
    "console_model \<Rightarrow> nrx4_write_plan \<Rightarrow> channel4_state \<Rightarrow> channel4_state" where
  "ch4_apply_extra_length_clocking_on_enable m plan c =
     (case apply_extra_length_clocking_u8
             \<lparr>xl_console_model = m, xl_length_enabled = ch4_length_enabled c,
              xl_was_length_enabled = wp_was_length_enabled plan,
              xl_next_step_clocks_length = wc_next_step_clocks_length (wp_context plan),
              xl_trigger = wc_trigger (wp_context plan),
              xl_trigger_reloaded_zero_length = wp_trigger_reloaded_zero_length plan\<rparr>
             (ch4_length_counter c) PULSE_LENGTH_COUNTER_RELOAD (rt_active (ch4_runtime c)) of
        (length_counter, active) \<Rightarrow>
          c\<lparr>ch4_length_counter := length_counter,
            ch4_runtime := (ch4_runtime c)\<lparr>rt_active := active\<rparr>\<rparr>)"

definition ch4_trigger_for_write ::
    "console_model \<Rightarrow> nrx4_write_plan \<Rightarrow> channel4_state \<Rightarrow> nrx4_write_plan \<times> channel4_state" where
  "ch4_trigger_for_write m plan c =
     (let delayed_dmg_trigger = (is_dmg_family m \<and> lw_alignment (ch4_live c) AND 0x03 \<noteq> 0)
      in if delayed_dmg_trigger
         then
           let trigger_reloaded_zero_length = (ch4_length_counter c = 0);
               c = (if trigger_reloaded_zero_length
                    then c\<lparr>ch4_length_counter := PULSE_LENGTH_COUNTER_RELOAD,
                           ch4_length_enabled := False\<rparr>
                    else c);
               plan = observe_trigger_reloaded_zero_length trigger_reloaded_zero_length plan;
               plan = observe_length_enabled_after_trigger (ch4_length_enabled c) plan
           in (plan, c\<lparr>ch4_dmg_delayed_start := 6,
                       ch4_pending_trigger_envelope_reload :=
                         wc_next_step_clocks_envelope (wp_context plan)\<rparr>)
         else
           case ch4_trigger (wc_next_step_clocks_envelope (wp_context plan)) c of
             (reloaded, c) \<Rightarrow>
               (observe_length_enabled_after_trigger (ch4_length_enabled c)
                  (observe_trigger_reloaded_zero_length reloaded plan), c))"

definition ch4_write_nr44 :: "u8 \<Rightarrow> console_model \<Rightarrow> u8 \<Rightarrow> channel4_state \<Rightarrow> channel4_state" where
  "ch4_write_nr44 v m next_frame_sequencer_step c =
     (case begin_nrx4_write v NR44_WRITABLE_MASK next_frame_sequencer_step (ch4_length_enabled c) of
        (nr44, plan) \<Rightarrow>
          let c = c\<lparr>ch4_nr44 := nr44\<rparr>;
              (plan, c) =
                (if wc_trigger (wp_context plan) then ch4_trigger_for_write m plan c else (plan, c));
              c = c\<lparr>ch4_length_enabled := wc_length_enabled (wp_context plan)\<rparr>
          in ch4_apply_extra_length_clocking_on_enable m plan c)"

definition ch4_write_register ::
    "channel4_register \<Rightarrow> u8 \<Rightarrow> console_model \<Rightarrow> u8 \<Rightarrow> channel4_state \<Rightarrow> channel4_state" where
  "ch4_write_register r v m next_frame_sequencer_step c =
     (case r of
        Nr41 \<Rightarrow> ch4_write_nr41 v c
      | Nr42 \<Rightarrow> ch4_write_nr42 v m c
      | Nr43 \<Rightarrow> ch4_write_nr43_for_model v m c
      | Nr44 \<Rightarrow> ch4_write_nr44 v m next_frame_sequencer_step c)"

definition ch4_write_length_while_powered_off :: "u8 \<Rightarrow> channel4_state \<Rightarrow> channel4_state" where
  "ch4_write_length_while_powered_off v c =
     c\<lparr>ch4_length_counter := pulse_length_counter_from_load v\<rparr>"

definition ch4_write_powered_off_register ::
    "channel4_register \<Rightarrow> u8 \<Rightarrow> console_model \<Rightarrow> channel4_state \<Rightarrow> channel4_state" where
  "ch4_write_powered_off_register r v m c =
     (if \<not> is_dmg_family m then c
      else if r = Nr41 then ch4_write_length_while_powered_off v c else c)"

definition ch4_apply_powered_startup ::
    "u8 \<Rightarrow> u8 \<Rightarrow> u8 \<Rightarrow> u8 \<Rightarrow> bool \<Rightarrow> channel4_state \<Rightarrow> channel4_state" where
  "ch4_apply_powered_startup nr41 nr42 nr43 nr44 active c =
     (let c = c\<lparr>ch4_nr41 := nr41, ch4_nr42 := nr42, ch4_nr43 := nr43,
                ch4_nr44 := nr44 AND NR44_WRITABLE_MASK, ch4_dmg_delayed_start := 0,
                ch4_pending_trigger_envelope_reload := False\<rparr>;
          c = c\<lparr>ch4_length_counter := pulse_length_counter_from_load (ch4_nr41 c),
                ch4_length_enabled := (ch4_nr44 c AND LENGTH_ENABLE_BIT \<noteq> 0)\<rparr>;
          c = ch4_apply_envelope_write (ch4_nr42 c) c;
          c = ch4_decode_nr43 (ch4_nr43 c) c;
          c = c\<lparr>ch4_envelope := env_reload False (ch4_envelope c)\<rparr>;
          c = c\<lparr>ch4_live :=
                  \<lparr>lw_alignment = 0, lw_alignment_subphase = False, lw_counter_timer = 0,
                   lw_noise_counter = 0, lw_countdown_reloaded = False,
                   lw_did_step_counter = False,
                   lw_counter_active = (active \<and> ch4_derived_dac_enabled c),
                   lw_background_counting = active, lw_started_with_dac_disabled = False,
                   lw_last_trace = None\<rparr>\<rparr>;
          c = ch4_reload_period_timer c;
          c = ch4_map_noise (\<lambda>n. n\<lparr>ns_lfsr_state := 0\<rparr>) c
      in c\<lparr>ch4_runtime :=
             rt_set_active_from_startup active
               (rt_set_dac_enabled (ch4_derived_dac_enabled c) (rt_clear (ch4_runtime c)))\<rparr>)"

definition ch4_clear_registers :: "channel4_state \<Rightarrow> channel4_state" where
  "ch4_clear_registers c =
     \<lparr>ch4_nr41 = 0, ch4_nr42 = 0, ch4_nr43 = 0, ch4_nr44 = 0, ch4_dmg_delayed_start = 0,
      ch4_pending_trigger_envelope_reload = False, ch4_runtime = rt_clear (ch4_runtime c),
      ch4_length_counter = 0, ch4_length_enabled = False, ch4_envelope = envelope_default,
      ch4_noise = noise_signal_default, ch4_live = nr43_live_write_default\<rparr>"

definition ch4_power_off_registers :: "console_model \<Rightarrow> channel4_state \<Rightarrow> channel4_state" where
  "ch4_power_off_registers m c =
     (let preserved_length = (if is_dmg_family m then ch4_length_counter c else 0)
      in (ch4_clear_registers c)\<lparr>ch4_length_counter := preserved_length\<rparr>)"

definition ch4_mark_powered_on :: "channel4_state \<Rightarrow> channel4_state" where
  "ch4_mark_powered_on c =
     (ch4_map_live (\<lambda>lw. lw\<lparr>lw_alignment := 0, lw_alignment_subphase := False\<rparr>) c)
       \<lparr>ch4_dmg_delayed_start := 0, ch4_pending_trigger_envelope_reload := False\<rparr>"

definition ch4_clock_length :: "channel4_state \<Rightarrow> channel4_state" where
  "ch4_clock_length c =
     (case clock_length_counter_u8 (ch4_length_enabled c) (ch4_length_counter c)
             (rt_active (ch4_runtime c)) of
        (length_counter, active) \<Rightarrow>
          c\<lparr>ch4_length_counter := length_counter,
            ch4_runtime := (ch4_runtime c)\<lparr>rt_active := active\<rparr>\<rparr>)"

definition ch4_clock_envelope :: "channel4_state \<Rightarrow> channel4_state" where
  "ch4_clock_envelope c = c\<lparr>ch4_envelope := env_clock (ch4_envelope c)\<rparr>"

definition ch4_clock_cgb_live_write_pending_even_envelope_tick ::
    "channel4_state \<Rightarrow> channel4_state" where
  "ch4_clock_cgb_live_write_pending_even_envelope_tick c =
     c\<lparr>ch4_envelope := env_clock_cgb_live_write_pending_even_tick (ch4_envelope c)\<rparr>"

definition ch4_current_digital_output :: "channel4_state \<Rightarrow> u8" where
  "ch4_current_digital_output c =
     (if \<not> rt_active (ch4_runtime c) then 0
      else if ns_lfsr_state (ch4_noise c) AND 1 \<noteq> 0 then env_current_volume (ch4_envelope c)
      else 0)"

subsection \<open>Invariant\<close>

definition ch4_wf :: "channel4_state \<Rightarrow> bool" where
  "ch4_wf c \<longleftrightarrow> rt_wf (ch4_runtime c) \<and> env_wf (ch4_envelope c) \<and> lfsr_wf (ch4_noise c)
     \<and> ch4_length_counter c \<le> 64 \<and> lw_alignment (ch4_live c) \<le> 3
     \<and> lw_noise_counter (ch4_live c) \<le> 0x3FFF"

lemmas ch4_map_defs = ch4_map_live_def ch4_map_noise_def

lemma counter_and_le: "(x::u16) AND 0x3FFF \<le> 0x3FFF"
  by (rule word_and_le1)

lemma ch4_wf_default [simp]: "ch4_wf channel4_default"
  by (simp add: ch4_wf_def channel4_default_def lfsr_wf_def noise_signal_default_def
      nr43_live_write_default_def)

lemma ch4_wf_map_live:
  "ch4_wf c \<Longrightarrow> (\<And>lw. lw_alignment lw \<le> 3 \<Longrightarrow> lw_noise_counter lw \<le> 0x3FFF \<Longrightarrow>
      lw_alignment (f lw) \<le> 3 \<and> lw_noise_counter (f lw) \<le> 0x3FFF) \<Longrightarrow> ch4_wf (ch4_map_live f c)"
  by (simp add: ch4_wf_def ch4_map_live_def)

lemma ch4_wf_map_noise:
  "ch4_wf c \<Longrightarrow> (\<And>n. lfsr_wf n \<Longrightarrow> lfsr_wf (f n)) \<Longrightarrow> ch4_wf (ch4_map_noise f c)"
  by (simp add: ch4_wf_def ch4_map_noise_def)

lemma lw_increment_le:
  "lw_noise_counter (lw_increment k lw) \<le> 0x3FFF" "lw_alignment (lw_increment k lw) = lw_alignment lw"
  by (simp_all add: lw_increment_def NOISE_COUNTER_MASK_def counter_and_le)

lemma ch4_wf_increment: "ch4_wf c \<Longrightarrow> ch4_wf (increment_hidden_counter c)"
  by (simp add: increment_hidden_counter_def lw_increment_le ch4_wf_map_live)

lemma ch4_wf_reload: "ch4_wf c \<Longrightarrow> ch4_wf (ch4_reload_period_timer c)"
  by (simp add: ch4_reload_period_timer_def ch4_wf_def ch4_map_noise_def lfsr_wf_def)

lemma ch4_wf_period: "ch4_wf c \<Longrightarrow> ch4_wf (ch4_clock_period_timer c)"
proof -
  assume c: "ch4_wf c"
  then have "ch4_wf (ch4_map_noise (\<lambda>n. n\<lparr>ns_period_timer := ns_period_timer n - 1\<rparr>) c)"
    by (simp add: ch4_wf_def ch4_map_noise_def lfsr_wf_def)
  then show ?thesis
    using c by (auto simp: ch4_clock_period_timer_def Let_def ch4_wf_reload)
qed

lemma ch4_wf_flags: "ch4_wf c \<Longrightarrow> ch4_wf (hidden_counter_flags c)"
  by (auto simp: hidden_counter_flags_def Let_def lw_increment_le intro!: ch4_wf_map_live)

lemma ch4_wf_glitch: "ch4_wf c \<Longrightarrow> ch4_wf (fst (hidden_counter_start_glitch c))"
  by (simp add: hidden_counter_start_glitch_def Let_def ch4_wf_increment)

lemma lfsr_wf_seeds: "lfsr_wf (n\<lparr>ns_lfsr_state := 0x0055\<rparr>)" "lfsr_wf (n\<lparr>ns_lfsr_state := 0\<rparr>)"
proof -
  have "\<not> bit (0x55::u16) 15" by simp
  then show "lfsr_wf (n\<lparr>ns_lfsr_state := 0x0055\<rparr>)" "lfsr_wf (n\<lparr>ns_lfsr_state := 0\<rparr>)"
    by (simp_all add: lfsr_wf_def)
qed

lemma ch4_wf_prepare:
  assumes "ch4_wf c"
  shows "ch4_wf (prepare_hidden_counter_start c)"
proof -
  obtain d divisor i g where eq: "hidden_counter_start_glitch (hidden_counter_flags c) = (d, divisor, i, g)"
    by (metis prod_cases4)
  then have d: "ch4_wf d"
    using ch4_wf_glitch[OF ch4_wf_flags[OF assms]] by simp
  show ?thesis
    using d by (auto simp: prepare_hidden_counter_start_def Let_def eq lfsr_wf_seeds
        intro!: ch4_wf_map_live ch4_wf_map_noise lfsr_wf_step)
qed

lemma ch4_wf_envelope_write: "ch4_wf c \<Longrightarrow> ch4_wf (ch4_apply_envelope_write v c)"
  by (auto simp: ch4_apply_envelope_write_def ch4_wf_def)

lemma ch4_wf_trigger: "ch4_wf c \<Longrightarrow> ch4_wf (snd (ch4_trigger b c))"
proof -
  assume c: "ch4_wf c"
  define d where "d = (if ch4_length_counter c = 0
    then c\<lparr>ch4_length_counter := PULSE_LENGTH_COUNTER_RELOAD, ch4_length_enabled := False\<rparr> else c)"
  have "ch4_wf d" using c by (simp add: d_def ch4_wf_def PULSE_LENGTH_COUNTER_RELOAD_def)
  then have "ch4_wf (ch4_reload_period_timer
      (prepare_hidden_counter_start (ch4_apply_envelope_write (ch4_nr42 d) d)))"
    by (intro ch4_wf_reload ch4_wf_prepare ch4_wf_envelope_write)
  then show ?thesis
    unfolding ch4_trigger_def Let_def d_def[symmetric] by (simp add: ch4_wf_def)
qed

lemma ch4_wf_counter_phase: "ch4_wf c \<Longrightarrow> ch4_wf (tick_noise_counter_phase c)"
  unfolding tick_noise_counter_phase_def Let_def
  by (auto simp: lw_increment_le intro!: ch4_wf_map_live ch4_wf_map_noise lfsr_wf_step)

lemma and_3_8 [simp]: "(x::u8) AND 3 \<le> 3" by (rule word_and_le1)

lemma ch4_wf_alignment: "ch4_wf c \<Longrightarrow> ch4_wf (snd (tick_alignment_phase_only c))"
  by (auto simp: tick_alignment_phase_only_def Let_def intro!: ch4_wf_map_live)

lemma ch4_wf_fields:
  "ch4_wf c \<Longrightarrow> ch4_wf (c\<lparr>ch4_dmg_delayed_start := x\<rparr>)"
  "ch4_wf c \<Longrightarrow> ch4_wf (c\<lparr>ch4_pending_trigger_envelope_reload := b\<rparr>)"
  "ch4_wf c \<Longrightarrow> ch4_wf (c\<lparr>ch4_nr44 := v\<rparr>)"
  "ch4_wf c \<Longrightarrow> ch4_wf (c\<lparr>ch4_length_enabled := b\<rparr>)"
  by (simp_all add: ch4_wf_def)

lemma ch4_wf_tick:
  assumes "ch4_wf c"
  shows "ch4_wf (ch4_tick_fast_timer c)"
proof -
  obtain st d where eq: "tick_alignment_phase_only c = (st, d)" by fastforce
  then have "ch4_wf d" using ch4_wf_alignment[OF assms] by simp
  then show ?thesis
    by (auto simp: ch4_tick_fast_timer_def eq Let_def
        intro!: ch4_wf_period ch4_wf_trigger ch4_wf_counter_phase ch4_wf_fields)
qed

lemma ch4_wf_dac_disable: "ch4_wf c \<Longrightarrow> ch4_wf (handle_hidden_counter_dac_disable c)"
  by (auto simp: handle_hidden_counter_dac_disable_def Let_def
      intro!: ch4_wf_map_live ch4_wf_increment)

lemma ch4_wf_write_nr42: "ch4_wf c \<Longrightarrow> ch4_wf (ch4_write_nr42 v m c)"
  using ch4_wf_dac_disable[of c]
  by (auto simp: ch4_write_nr42_def Let_def ch4_apply_live_envelope_write_effect_def ch4_wf_def)

lemma ch4_wf_write_nr43:
  assumes "ch4_wf c"
  shows "ch4_wf (ch4_write_nr43_for_model v m c)"
proof -
  obtain t n where eq: "trace_channel4_live_nr43_write (channel4_nr43_live_write_profile m)
      (rt_active (ch4_runtime c)) (ch4_nr43 c) v (ch4_live c) (ch4_noise c) = (t, n)"
    by fastforce
  have "lfsr_wf (ch4_noise c)" using assms by (simp add: ch4_wf_def)
  then have "lfsr_wf n"
    using lfsr_wf_live_write[of "ch4_noise c" "channel4_nr43_live_write_profile m"
        "rt_active (ch4_runtime c)" "ch4_nr43 c" v "ch4_live c"] eq by simp
  then show ?thesis
    using assms
    by (auto simp: ch4_write_nr43_for_model_def Let_def eq ch4_map_defs ch4_decode_nr43_def
        ch4_reload_period_timer_def ch4_wf_def lfsr_wf_def)
qed

lemma ch4_wf_extra_length:
  assumes "ch4_wf c"
  shows "ch4_wf (ch4_apply_extra_length_clocking_on_enable m plan c)"
proof -
  let ?ctx = "\<lparr>xl_console_model = m, xl_length_enabled = ch4_length_enabled c,
     xl_was_length_enabled = wp_was_length_enabled plan,
     xl_next_step_clocks_length = wc_next_step_clocks_length (wp_context plan),
     xl_trigger = wc_trigger (wp_context plan),
     xl_trigger_reloaded_zero_length = wp_trigger_reloaded_zero_length plan\<rparr>"
  obtain l a where
    res: "apply_extra_length_clocking_u8 ?ctx (ch4_length_counter c) 64 (rt_active (ch4_runtime c))
           = (l, a)"
    by fastforce
  then have eq: "ch4_apply_extra_length_clocking_on_enable m plan c =
           c\<lparr>ch4_length_counter := l, ch4_runtime := (ch4_runtime c)\<lparr>rt_active := a\<rparr>\<rparr>"
    by (simp add: ch4_apply_extra_length_clocking_on_enable_def PULSE_LENGTH_COUNTER_RELOAD_def)
  have "l \<le> 64"
    using extra_length_clocking_u8_le[of "ch4_length_counter c" ?ctx "rt_active (ch4_runtime c)"]
      assms by (simp add: ch4_wf_def res)
  moreover have "a \<Longrightarrow> rt_active (ch4_runtime c)"
    using extra_length_clocking_active[of ?ctx "ch4_length_counter c" 64 "rt_active (ch4_runtime c)"]
      res by (simp add: apply_extra_length_clocking_u8_def)
  ultimately show ?thesis
    using assms by (simp add: eq ch4_wf_def rt_wf_def)
qed

lemma ch4_wf_trigger_for_write:
  assumes "ch4_wf c"
  shows "ch4_wf (snd (ch4_trigger_for_write m plan c))"
  using ch4_wf_trigger[OF assms, of "wc_next_step_clocks_envelope (wp_context plan)"] assms
  by (auto simp: ch4_trigger_for_write_def Let_def ch4_wf_def PULSE_LENGTH_COUNTER_RELOAD_def
      split: prod.splits)

lemma ch4_wf_write_nr44:
  assumes "ch4_wf c"
  shows "ch4_wf (ch4_write_nr44 v m st c)"
proof -
  have "ch4_wf d" if "ch4_trigger_for_write m plan (c\<lparr>ch4_nr44 := x\<rparr>) = (p, d)" for plan x p d
    using ch4_wf_trigger_for_write[OF ch4_wf_fields(3)[OF assms], of m plan x] that by simp
  then show ?thesis
    using assms
    by (auto simp: ch4_write_nr44_def begin_nrx4_write_def Let_def
        intro!: ch4_wf_extra_length ch4_wf_fields split: prod.splits)
qed

lemma ch4_wf_write: "ch4_wf c \<Longrightarrow> ch4_wf (ch4_write_register r v m st c)"
  by (cases r) (simp_all add: ch4_write_register_def ch4_wf_write_nr42 ch4_wf_write_nr43
      ch4_wf_write_nr44, simp add: ch4_write_nr41_def ch4_wf_def length_load_le)

lemma ch4_wf_clock_length: "ch4_wf c \<Longrightarrow> ch4_wf (ch4_clock_length c)"
  using clock_length_counter_u8_le[of "ch4_length_counter c" "ch4_length_enabled c"
      "rt_active (ch4_runtime c)"]
    clock_length_counter_active[of "ch4_length_enabled c" "ch4_length_counter c"
      "rt_active (ch4_runtime c)"]
  by (auto simp: ch4_clock_length_def ch4_wf_def rt_wf_def apu_defs split: prod.splits)

lemma ch4_wf_powered_startup: "ch4_wf (ch4_apply_powered_startup a1 a2 a3 a4 act c)"
  if "ch4_wf c"
  using that
  by (auto simp: ch4_apply_powered_startup_def Let_def ch4_map_defs ch4_wf_def
      ch4_apply_envelope_write_def ch4_decode_nr43_def ch4_reload_period_timer_def length_load_le
      lfsr_wf_def)

lemma ch4_wf_others:
  "ch4_wf c \<Longrightarrow> ch4_wf (ch4_write_powered_off_register r v m c)"
  "ch4_wf c \<Longrightarrow> ch4_wf (ch4_power_off_registers m c)"
  "ch4_wf c \<Longrightarrow> ch4_wf (ch4_mark_powered_on c)"
  "ch4_wf c \<Longrightarrow> ch4_wf (ch4_clock_envelope c)"
  "ch4_wf c \<Longrightarrow> ch4_wf (ch4_clock_cgb_live_write_pending_even_envelope_tick c)"
  by (auto simp: ch4_write_powered_off_register_def ch4_write_length_while_powered_off_def
      ch4_power_off_registers_def ch4_clear_registers_def Let_def ch4_mark_powered_on_def
      ch4_clock_envelope_def ch4_clock_cgb_live_write_pending_even_envelope_tick_def ch4_wf_def
      ch4_map_defs length_load_le lfsr_wf_def noise_signal_default_def nr43_live_write_default_def)

lemma ch4_output_le: "ch4_wf c \<Longrightarrow> ch4_current_digital_output c \<le> 15"
  by (auto simp: ch4_current_digital_output_def ch4_wf_def env_wf_def)

end
