(* ===== verification/Apu_Output.thy ===== *)
theory Apu_Output
  imports Apu_Common "HOL-Library.Signed_Division"
begin

text \<open>
  The analog output path (\<open>apu/output.rs\<close>): the four DACs and their fade-out, the NR51 mixer,
  the NR50 volumes and the high-pass filter. \<open>i32\<close> and \<open>i64\<close> quantities are integers; \<open>as i32\<close>
  is \<open>as_i32\<close>, Rust's truncating division is \<open>sdiv\<close>, and \<open>output_path_wf\<close> bounds every
  intermediate value, so the plain arithmetic never leaves its type. The floating-point
  \<open>ApuHostDcBlocker\<close> is left out.
\<close>

definition as_i32 :: "int \<Rightarrow> int" where
  "as_i32 x = signed_take_bit 31 x"

definition CHANNEL_COUNT :: nat where "CHANNEL_COUNT = 4"
definition CHANNEL_MASKS :: "u8 list" where "CHANNEL_MASKS = [0x01, 0x02, 0x04, 0x08]"
definition NR51_LEFT_ROUTE_BITS :: "u8 list" where
  "NR51_LEFT_ROUTE_BITS = [0x10, 0x20, 0x40, 0x80]"
definition NR51_RIGHT_ROUTE_BITS :: "u8 list" where
  "NR51_RIGHT_ROUTE_BITS = [0x01, 0x02, 0x04, 0x08]"
definition ANALOG_ONE :: int where "ANALOG_ONE = 15000000"
definition DAC_ANALOG_STEP :: int where "DAC_ANALOG_STEP = 2000000"
definition DAC_FADE_FACTOR_ONE :: int where "DAC_FADE_FACTOR_ONE = 65536"
definition DAC_OFF_FADE_T_CYCLES :: u16 where "DAC_OFF_FADE_T_CYCLES = 210"
definition HPF_CHARGE_FACTOR_DENOMINATOR :: int where "HPF_CHARGE_FACTOR_DENOMINATOR = 1000000"
definition APU_INTERNAL_MAX_ABS_OUTPUT_SAMPLE :: int where
  "APU_INTERNAL_MAX_ABS_OUTPUT_SAMPLE = ANALOG_ONE * 4 * 8"

lemmas output_consts =
  ANALOG_ONE_def DAC_ANALOG_STEP_def DAC_FADE_FACTOR_ONE_def DAC_OFF_FADE_T_CYCLES_def
  HPF_CHARGE_FACTOR_DENOMINATOR_def APU_INTERNAL_MAX_ABS_OUTPUT_SAMPLE_def

record stereo =
  left :: int
  right :: int

datatype hpf_charge_model = Dmg0Dmg | MgbCgb

record dac_channel_state =
  dac_current_output :: int
  dac_discharge_source_output :: int
  dac_discharge_remaining_t_cycles :: u16

record master_control_state =
  master_powered :: bool
  master_nr50 :: u8
  master_nr51 :: u8
  master_vin_input :: stereo

record channel_output_state =
  co_active_mask :: u8
  co_dac_mask :: u8
  co_digital_outputs :: "u8 list"

record output_path_state =
  op_hpf_charge_model :: hpf_charge_model
  op_fade_duration_t_cycles :: u16
  op_channel_dac_states :: "dac_channel_state list"
  op_channel_dac_outputs :: "int list"
  op_vin_analog_output :: stereo
  op_mixer_output :: stereo
  op_master_output :: stereo
  op_hpf_capacitor :: stereo
  op_current_output :: stereo

record output_snapshot =
  os_channel_digital_outputs :: "u8 list"
  os_channel_dac_outputs :: "int list"
  os_vin_analog_output :: stereo
  os_mixer_output :: stereo
  os_master_output :: stereo
  os_hpf_output :: stereo
  os_hpf_capacitor :: stereo

definition stereo_zero :: stereo where "stereo_zero = \<lparr>left = 0, right = 0\<rparr>"

definition dac_channel_default :: dac_channel_state where
  "dac_channel_default =
     \<lparr>dac_current_output = 0, dac_discharge_source_output = 0,
      dac_discharge_remaining_t_cycles = 0\<rparr>"

definition master_control_default :: master_control_state where
  "master_control_default =
     \<lparr>master_powered = False, master_nr50 = 0, master_nr51 = 0, master_vin_input = stereo_zero\<rparr>"

fun hpf_for_console_model :: "console_model \<Rightarrow> hpf_charge_model" where
  "hpf_for_console_model GameBoy = Dmg0Dmg"
| "hpf_for_console_model _ = MgbCgb"

fun hpf_numerator :: "hpf_charge_model \<Rightarrow> int" where
  "hpf_numerator Dmg0Dmg = 999958"
| "hpf_numerator MgbCgb = 998943"

definition output_path_new :: "console_model \<Rightarrow> output_path_state" where
  "output_path_new m =
     \<lparr>op_hpf_charge_model = hpf_for_console_model m,
      op_fade_duration_t_cycles = DAC_OFF_FADE_T_CYCLES,
      op_channel_dac_states = replicate 4 dac_channel_default,
      op_channel_dac_outputs = replicate 4 0, op_vin_analog_output = stereo_zero,
      op_mixer_output = stereo_zero, op_master_output = stereo_zero,
      op_hpf_capacitor = stereo_zero, op_current_output = stereo_zero\<rparr>"

definition output_path_snapshot :: "u8 list \<Rightarrow> output_path_state \<Rightarrow> output_snapshot" where
  "output_path_snapshot channel_digital_outputs p =
     \<lparr>os_channel_digital_outputs = channel_digital_outputs,
      os_channel_dac_outputs = op_channel_dac_outputs p,
      os_vin_analog_output = op_vin_analog_output p, os_mixer_output = op_mixer_output p,
      os_master_output = op_master_output p, os_hpf_output = op_current_output p,
      os_hpf_capacitor = op_hpf_capacitor p\<rparr>"

subsection \<open>The DACs\<close>

definition dac_analog_output :: "u8 \<Rightarrow> int" where
  "dac_analog_output digital_output = ANALOG_ONE - uint (digital_output AND 0x0F) * DAC_ANALOG_STEP"

definition smooth_factor_q16 :: "u16 \<Rightarrow> u16 \<Rightarrow> int" where
  "smooth_factor_q16 remaining_t_cycles total_t_cycles =
     (if remaining_t_cycles = 0 then 0
      else if remaining_t_cycles \<ge> total_t_cycles then DAC_FADE_FACTOR_ONE
      else
        let x = push_bit 16 (uint remaining_t_cycles) sdiv uint total_t_cycles;
            x2 = (x * x) sdiv DAC_FADE_FACTOR_ONE;
            x3 = (x2 * x) sdiv DAC_FADE_FACTOR_ONE
        in as_i32 (3 * x2 - 2 * x3))"

definition divide_and_round_i64 :: "int \<Rightarrow> int \<Rightarrow> int" where
  "divide_and_round_i64 v divisor =
     (if v \<ge> 0 then as_i32 ((v + divisor sdiv 2) sdiv divisor)
      else as_i32 ((v - divisor sdiv 2) sdiv divisor))"

definition scale_by_q16 :: "int \<Rightarrow> int \<Rightarrow> int" where
  "scale_by_q16 v factor_q16 = divide_and_round_i64 (v * factor_q16) DAC_FADE_FACTOR_ONE"

definition dac_set_enabled_output :: "u8 \<Rightarrow> u16 \<Rightarrow> dac_channel_state \<Rightarrow> int \<times> dac_channel_state" where
  "dac_set_enabled_output digital_output duration d =
     (let analog_output = dac_analog_output digital_output
      in (analog_output,
          d\<lparr>dac_current_output := analog_output, dac_discharge_source_output := analog_output,
            dac_discharge_remaining_t_cycles := duration\<rparr>))"

definition dac_preview ::
    "bool \<Rightarrow> u8 \<Rightarrow> u16 \<Rightarrow> dac_channel_state \<Rightarrow> int \<times> dac_channel_state" where
  "dac_preview dac_enabled digital_output duration d =
     (if dac_enabled then dac_set_enabled_output digital_output duration d
      else (dac_current_output d, d))"

definition dac_tick ::
    "bool \<Rightarrow> u8 \<Rightarrow> u16 \<Rightarrow> dac_channel_state \<Rightarrow> int \<times> dac_channel_state" where
  "dac_tick dac_enabled digital_output duration d =
     (if dac_enabled then dac_set_enabled_output digital_output duration d
      else if dac_current_output d = 0 \<or> dac_discharge_remaining_t_cycles d = 0
      then (0, d\<lparr>dac_current_output := 0, dac_discharge_source_output := 0,
                 dac_discharge_remaining_t_cycles := 0\<rparr>)
      else
        let d = d\<lparr>dac_discharge_remaining_t_cycles := dac_discharge_remaining_t_cycles d - 1\<rparr>
        in if dac_discharge_remaining_t_cycles d = 0
           then (0, d\<lparr>dac_current_output := 0, dac_discharge_source_output := 0\<rparr>)
           else
             let current_output =
                   scale_by_q16 (dac_discharge_source_output d)
                     (smooth_factor_q16 (dac_discharge_remaining_t_cycles d) duration)
             in (current_output, d\<lparr>dac_current_output := current_output\<rparr>))"

subsection \<open>The mixer\<close>

definition nr50_left_volume_factor :: "u8 \<Rightarrow> int" where
  "nr50_left_volume_factor nr50 = uint (drop_bit 4 nr50 AND 0x07) + 1"

definition nr50_right_volume_factor :: "u8 \<Rightarrow> int" where
  "nr50_right_volume_factor nr50 = uint (nr50 AND 0x07) + 1"

definition vin_analog_output :: "master_control_state \<Rightarrow> stereo" where
  "vin_analog_output master =
     \<lparr>left = (if master_nr50 master AND 0x80 \<noteq> 0 then left (master_vin_input master) else 0),
      right = (if master_nr50 master AND 0x08 \<noteq> 0 then right (master_vin_input master) else 0)\<rparr>"

definition routed_channel_sum :: "u8 \<Rightarrow> u8 list \<Rightarrow> int list \<Rightarrow> int" where
  "routed_channel_sum nr51 route_bits channel_dac_outputs =
     foldl (\<lambda>sum index. if nr51 AND (route_bits ! index) \<noteq> 0
                         then sum + channel_dac_outputs ! index else sum) 0 [0..<4]"

definition mixer_output :: "u8 \<Rightarrow> stereo \<Rightarrow> int list \<Rightarrow> stereo" where
  "mixer_output nr51 vin channel_dac_outputs =
     \<lparr>left = left vin + routed_channel_sum nr51 NR51_LEFT_ROUTE_BITS channel_dac_outputs,
      right = right vin + routed_channel_sum nr51 NR51_RIGHT_ROUTE_BITS channel_dac_outputs\<rparr>"

definition master_output :: "u8 \<Rightarrow> stereo \<Rightarrow> bool \<Rightarrow> stereo" where
  "master_output nr50 mixer any_channel_output_connected =
     (if \<not> any_channel_output_connected then stereo_zero
      else \<lparr>left = left mixer * nr50_left_volume_factor nr50,
            right = right mixer * nr50_right_volume_factor nr50\<rparr>)"

subsection \<open>The whole path\<close>

definition reset_analog_path :: "output_path_state \<Rightarrow> output_path_state" where
  "reset_analog_path p =
     p\<lparr>op_channel_dac_states := replicate 4 dac_channel_default,
       op_channel_dac_outputs := replicate 4 0, op_vin_analog_output := stereo_zero,
       op_mixer_output := stereo_zero, op_master_output := stereo_zero\<rparr>"

definition step_dacs :: "channel_output_state \<Rightarrow> bool \<Rightarrow> output_path_state
    \<Rightarrow> (int \<times> dac_channel_state) list" where
  "step_dacs co advance_fade p =
     map (\<lambda>index.
        let dac_enabled = (co_dac_mask co AND (CHANNEL_MASKS ! index) \<noteq> 0);
            digital_output = co_digital_outputs co ! index
        in if advance_fade
           then dac_tick dac_enabled digital_output (op_fade_duration_t_cycles p)
                  (op_channel_dac_states p ! index)
           else dac_preview dac_enabled digital_output (op_fade_duration_t_cycles p)
                  (op_channel_dac_states p ! index)) [0..<4]"

definition resolve_mix_state ::
    "master_control_state \<Rightarrow> channel_output_state \<Rightarrow> bool \<Rightarrow> output_path_state
     \<Rightarrow> bool \<times> output_path_state" where
  "resolve_mix_state master co advance_fade p =
     (if \<not> master_powered master then (False, reset_analog_path p)
      else
        let stepped = step_dacs co advance_fade p;
            p = p\<lparr>op_channel_dac_states := map snd stepped,
                  op_channel_dac_outputs := map fst stepped\<rparr>;
            any_channel_output_connected = list_ex (\<lambda>v. v \<noteq> 0) (op_channel_dac_outputs p);
            p = p\<lparr>op_vin_analog_output := vin_analog_output master\<rparr>;
            p = p\<lparr>op_mixer_output :=
                    mixer_output (master_nr51 master) (op_vin_analog_output p)
                      (op_channel_dac_outputs p)\<rparr>;
            p = p\<lparr>op_master_output :=
                    master_output (master_nr50 master) (op_mixer_output p)
                      any_channel_output_connected\<rparr>
        in (any_channel_output_connected, p))"

definition output_path_preview ::
    "master_control_state \<Rightarrow> channel_output_state \<Rightarrow> output_path_state \<Rightarrow> output_path_state" where
  "output_path_preview master co p =
     (case resolve_mix_state master co False p of
        (any_channel_output_connected, p) \<Rightarrow>
          if \<not> any_channel_output_connected then p\<lparr>op_current_output := stereo_zero\<rparr>
          else p\<lparr>op_current_output :=
                   \<lparr>left = as_i32 (left (op_master_output p) - left (op_hpf_capacitor p)),
                    right = as_i32 (right (op_master_output p) - right (op_hpf_capacitor p))\<rparr>\<rparr>)"

definition hpf_charge :: "int \<Rightarrow> int \<Rightarrow> int \<Rightarrow> int" where
  "hpf_charge numerator sample output =
     sample - (output * numerator) sdiv HPF_CHARGE_FACTOR_DENOMINATOR"

definition output_path_tick ::
    "master_control_state \<Rightarrow> channel_output_state \<Rightarrow> output_path_state \<Rightarrow> output_path_state" where
  "output_path_tick master co p =
     (case resolve_mix_state master co True p of
        (any_channel_output_connected, p) \<Rightarrow>
          if \<not> any_channel_output_connected then p\<lparr>op_current_output := stereo_zero\<rparr>
          else
            let left_output = left (op_master_output p) - left (op_hpf_capacitor p);
                right_output = right (op_master_output p) - right (op_hpf_capacitor p);
                numerator = hpf_numerator (op_hpf_charge_model p);
                p = p\<lparr>op_current_output := \<lparr>left = as_i32 left_output, right = as_i32 right_output\<rparr>\<rparr>
            in p\<lparr>op_hpf_capacitor :=
                   \<lparr>left = hpf_charge numerator (left (op_master_output p)) left_output,
                    right = hpf_charge numerator (right (op_master_output p)) right_output\<rparr>\<rparr>)"

subsection \<open>The filter the host applies\<close>

record host_hpf =
  hpf_model :: hpf_charge_model
  hpf_cap :: stereo

definition host_hpf_new :: "console_model \<Rightarrow> host_hpf" where
  "host_hpf_new m = \<lparr>hpf_model = hpf_for_console_model m, hpf_cap = stereo_zero\<rparr>"

definition host_hpf_filter_t_cycle :: "stereo \<Rightarrow> bool \<Rightarrow> host_hpf \<Rightarrow> stereo \<times> host_hpf" where
  "host_hpf_filter_t_cycle sample any_output_connected h =
     (if \<not> any_output_connected then (stereo_zero, h)
      else
        let left_output = left sample - left (hpf_cap h);
            right_output = right sample - right (hpf_cap h);
            numerator = hpf_numerator (hpf_model h);
            h = h\<lparr>hpf_cap := \<lparr>left = hpf_charge numerator (left sample) left_output,
                              right = hpf_charge numerator (right sample) right_output\<rparr>\<rparr>
        in (\<lparr>left = as_i32 left_output, right = as_i32 right_output\<rparr>, h))"

definition host_hpf_reset :: "host_hpf \<Rightarrow> host_hpf" where
  "host_hpf_reset h = h\<lparr>hpf_cap := stereo_zero\<rparr>"

subsection \<open>Bounds\<close>

definition stereo_bound :: "int \<Rightarrow> stereo \<Rightarrow> bool" where
  "stereo_bound k s \<longleftrightarrow> \<bar>left s\<bar> \<le> k \<and> \<bar>right s\<bar> \<le> k"

definition dac_wf :: "dac_channel_state \<Rightarrow> bool" where
  "dac_wf d \<longleftrightarrow> \<bar>dac_current_output d\<bar> \<le> ANALOG_ONE \<and> \<bar>dac_discharge_source_output d\<bar> \<le> ANALOG_ONE
     \<and> dac_discharge_remaining_t_cycles d \<le> DAC_OFF_FADE_T_CYCLES"

definition output_path_wf :: "output_path_state \<Rightarrow> bool" where
  "output_path_wf p \<longleftrightarrow> op_fade_duration_t_cycles p = DAC_OFF_FADE_T_CYCLES
     \<and> length (op_channel_dac_states p) = 4 \<and> (\<forall>d\<in>set (op_channel_dac_states p). dac_wf d)
     \<and> stereo_bound APU_INTERNAL_MAX_ABS_OUTPUT_SAMPLE (op_master_output p)
     \<and> stereo_bound APU_INTERNAL_MAX_ABS_OUTPUT_SAMPLE (op_hpf_capacitor p)
     \<and> stereo_bound (2 * APU_INTERNAL_MAX_ABS_OUTPUT_SAMPLE) (op_current_output p)"

lemma as_i32_id: "\<bar>x\<bar> < 2 ^ 31 \<Longrightarrow> as_i32 x = x"
  by (simp add: as_i32_def signed_take_bit_int_eq_self abs_less_iff)

lemma sdiv_pos: "0 \<le> a \<Longrightarrow> 0 < b \<Longrightarrow> (a::int) sdiv b = a div b"
  by (cases "a = 0") (auto simp: signed_divide_int_def sgn_mult)

lemma sdiv_neg: "a \<le> 0 \<Longrightarrow> 0 < b \<Longrightarrow> (a::int) sdiv b = - (- a div b)"
  by (cases "a = 0") (auto simp: signed_divide_int_def sgn_mult)

lemma scaled_between:
  assumes "0 \<le> n" "n \<le> d" "0 < (d::int)"
  shows "0 \<le> x \<Longrightarrow> 0 \<le> x * n sdiv d \<and> x * n sdiv d \<le> x"
    and "x \<le> 0 \<Longrightarrow> x \<le> x * n sdiv d \<and> x * n sdiv d \<le> 0"
proof -
  have up: "0 \<le> y * n div d \<and> y * n div d \<le> y" if "0 \<le> y" for y
  proof -
    have "y * n \<le> y * d" using that assms by (simp add: mult_left_mono)
    then have "y * n div d \<le> y * d div d" using assms by (intro zdiv_mono1) auto
    then show ?thesis using that assms by (simp add: pos_imp_zdiv_nonneg_iff)
  qed
  show "0 \<le> x \<Longrightarrow> 0 \<le> x * n sdiv d \<and> x * n sdiv d \<le> x"
    using up[of x] assms by (simp add: sdiv_pos)
  show "x \<le> 0 \<Longrightarrow> x \<le> x * n sdiv d \<and> x * n sdiv d \<le> 0"
    using up[of "- x"] assms by (simp add: sdiv_neg mult_nonpos_nonneg)
qed

lemma hpf_numerator_bounds: "0 \<le> hpf_numerator m" "hpf_numerator m \<le> HPF_CHARGE_FACTOR_DENOMINATOR"
  by (cases m; simp add: output_consts)+

text \<open>The capacitor moves from its old level towards the sample, and never past it.\<close>

lemma hpf_charge_between:
  "cap \<le> x \<Longrightarrow> cap \<le> hpf_charge (hpf_numerator m) x (x - cap)
     \<and> hpf_charge (hpf_numerator m) x (x - cap) \<le> x"
  "x \<le> cap \<Longrightarrow> x \<le> hpf_charge (hpf_numerator m) x (x - cap)
     \<and> hpf_charge (hpf_numerator m) x (x - cap) \<le> cap"
  using scaled_between[OF hpf_numerator_bounds[of m], of "x - cap"]
  by (auto simp: hpf_charge_def HPF_CHARGE_FACTOR_DENOMINATOR_def)

lemma hpf_charge_bound:
  assumes "\<bar>cap\<bar> \<le> k" "\<bar>x\<bar> \<le> k"
  shows "\<bar>hpf_charge (hpf_numerator m) x (x - cap)\<bar> \<le> k"
proof (cases "cap \<le> x")
  case True
  show ?thesis using hpf_charge_between(1)[OF True, of m] assms by linarith
next
  case False
  then have "x \<le> cap" by simp
  show ?thesis using hpf_charge_between(2)[OF \<open>x \<le> cap\<close>, of m] assms by linarith
qed

lemma dac_analog_bound: "\<bar>dac_analog_output v\<bar> \<le> ANALOG_ONE"
proof -
  have "uint (v AND 0x0F) \<le> 15"
    using and_15_le[of v] by (simp add: word_le_def)
  moreover have "0 \<le> uint (v AND 0x0F)" by simp
  ultimately show ?thesis
    by (simp add: dac_analog_output_def output_consts abs_le_iff del: uint_and unsigned_and_eq)
qed

lemma dac_analog_nonzero: "dac_analog_output v \<noteq> 0"
  by (simp add: dac_analog_output_def output_consts) presburger

text \<open>The fade curve over the number of T-cycles left, computed once for all of them.\<close>

definition fade_curve :: "nat \<Rightarrow> int" where
  "fade_curve k =
     (let x = (int k * 65536) div 210; x2 = x * x div 65536; x3 = x2 * x div 65536
      in 3 * x2 - 2 * x3)"

lemma fade_curve_table: "\<forall>k\<in>set [1..<210]. 0 \<le> fade_curve k \<and> fade_curve k \<le> 65536"
  by code_simp

lemma smooth_factor_value:
  assumes "r \<noteq> 0" "r < 210"
  shows "smooth_factor_q16 r 210 = fade_curve (unat r)"
proof -
  let ?x = "(int (unat r) * 65536) div 210"
  have k: "unat r \<in> set [1..<210]"
    using assms by (auto simp: word_less_nat_alt unat_gt_0 Suc_le_eq)
  have x: "push_bit 16 (uint r) sdiv uint (210::u16) = ?x" "0 \<le> ?x"
    by (simp_all add: sdiv_pos push_bit_eq_mult pos_imp_zdiv_nonneg_iff)
  have "0 \<le> fade_curve (unat r)" "fade_curve (unat r) \<le> 65536"
    using fade_curve_table k by blast+
  then have "as_i32 (fade_curve (unat r)) = fade_curve (unat r)"
    by (intro as_i32_id) simp
  moreover have "0 \<le> ?x * ?x div 65536" using x(2) by (simp add: pos_imp_zdiv_nonneg_iff)
  moreover have "\<not> 210 \<le> r" using assms by simp
  ultimately show ?thesis
    using assms(1) x(2)
    unfolding smooth_factor_q16_def DAC_FADE_FACTOR_ONE_def x(1) Let_def
    by (simp add: sdiv_pos fade_curve_def Let_def)
qed

lemma smooth_factor_bounds:
  assumes "r \<le> 210"
  shows "0 \<le> smooth_factor_q16 r 210 \<and> smooth_factor_q16 r 210 \<le> 65536"
proof (cases "r = 0 \<or> r = 210")
  case True
  then show ?thesis by (auto simp: smooth_factor_q16_def output_consts)
next
  case False
  then have r: "r \<noteq> 0" "r < 210" using assms by auto
  then have "unat r \<in> set [1..<210]"
    by (auto simp: word_less_nat_alt unat_gt_0 Suc_le_eq)
  then show ?thesis using fade_curve_table smooth_factor_value[OF r] by simp
qed

lemma rounded_between:
  assumes "0 \<le> f" "f \<le> 65536" "\<bar>v\<bar> \<le> ANALOG_ONE"
  shows "\<bar>scale_by_q16 v f\<bar> \<le> \<bar>v\<bar>"
proof -
  have up: "0 \<le> (y * f + 32768) div 65536 \<and> (y * f + 32768) div 65536 \<le> y" if "0 \<le> y" for y
  proof -
    have "y * f \<le> y * 65536" using that assms by (simp add: mult_left_mono)
    then have "(y * f + 32768) div 65536 \<le> (y * 65536 + 32768) div 65536"
      by (intro zdiv_mono1) auto
    moreover have "(y * 65536 + 32768) div 65536 = y" by simp
    ultimately show ?thesis using that assms by (simp add: pos_imp_zdiv_nonneg_iff)
  qed
  have half: "(65536::int) sdiv 2 = 32768" by (simp add: sdiv_pos)
  show ?thesis
  proof (cases "0 \<le> v * f")
    case True
    then have "0 \<le> v \<or> f = 0" using assms by (auto simp: zero_le_mult_iff)
    then show ?thesis
    proof
      assume v: "0 \<le> v"
      have "as_i32 ((v * f + 32768) div 65536) = (v * f + 32768) div 65536"
        using up[OF v] assms by (intro as_i32_id) (auto simp: output_consts)
      then show ?thesis
        using up[OF v] v True
        by (simp add: scale_by_q16_def divide_and_round_i64_def output_consts half sdiv_pos)
    qed (simp add: scale_by_q16_def divide_and_round_i64_def output_consts half sdiv_pos as_i32_id)
  next
    case False
    then have v: "v < 0" using assms by (auto simp: zero_le_mult_iff)
    have sd: "(v * f - 32768) sdiv 65536 = - ((- v * f + 32768) div 65536)"
      using False by (simp add: sdiv_neg)
    have "as_i32 (- ((- v * f + 32768) div 65536)) = - ((- v * f + 32768) div 65536)"
      using up[of "- v"] v assms by (intro as_i32_id) (auto simp: output_consts)
    then show ?thesis
      using up[of "- v"] v False
      by (simp add: scale_by_q16_def divide_and_round_i64_def output_consts half sd)
  qed
qed

lemma dac_wf_default: "dac_wf dac_channel_default"
  by (simp add: dac_wf_def dac_channel_default_def output_consts)

lemma dac_wf_enabled:
  "dac_wf (snd (dac_set_enabled_output v 210 d)) \<and>
   \<bar>fst (dac_set_enabled_output v 210 d)\<bar> \<le> ANALOG_ONE"
  using dac_analog_bound[of v]
  by (simp add: dac_set_enabled_output_def Let_def dac_wf_def DAC_OFF_FADE_T_CYCLES_def)

lemma dac_wf_preview:
  "dac_wf d \<Longrightarrow> dac_wf (snd (dac_preview e v 210 d)) \<and> \<bar>fst (dac_preview e v 210 d)\<bar> \<le> ANALOG_ONE"
  using dac_wf_enabled[of v d] by (simp add: dac_preview_def dac_wf_def)

lemma dac_wf_tick:
  assumes "dac_wf d"
  shows "dac_wf (snd (dac_tick e v 210 d)) \<and> \<bar>fst (dac_tick e v 210 d)\<bar> \<le> ANALOG_ONE"
proof -
  let ?r = "dac_discharge_remaining_t_cycles d - 1"
  have r: "?r \<le> 210" if "dac_discharge_remaining_t_cycles d \<noteq> 0"
    using assms that by (auto simp: dac_wf_def output_consts word_le_nat_alt unat_minus_one)
  have "\<bar>scale_by_q16 (dac_discharge_source_output d) (smooth_factor_q16 ?r 210)\<bar> \<le> ANALOG_ONE"
    if "dac_discharge_remaining_t_cycles d \<noteq> 0"
    using rounded_between[of "smooth_factor_q16 ?r 210" "dac_discharge_source_output d"]
      smooth_factor_bounds[OF r[OF that]] assms by (auto simp: dac_wf_def)
  then show ?thesis
    using dac_wf_enabled[of v d] assms r
    by (simp add: dac_tick_def Let_def dac_wf_def output_consts)
qed

lemma step_dacs_wf:
  assumes "output_path_wf p"
  shows "length (step_dacs co f p) = 4"
    "\<forall>x\<in>set (step_dacs co f p). dac_wf (snd x) \<and> \<bar>fst x\<bar> \<le> ANALOG_ONE"
proof -
  have "dac_wf (op_channel_dac_states p ! i)" if "i < 4" for i
    using assms that by (auto simp: output_path_wf_def)
  then show "length (step_dacs co f p) = 4"
    "\<forall>x\<in>set (step_dacs co f p). dac_wf (snd x) \<and> \<bar>fst x\<bar> \<le> ANALOG_ONE"
    using assms dac_wf_tick dac_wf_preview
    by (auto simp: step_dacs_def output_path_wf_def Let_def DAC_OFF_FADE_T_CYCLES_def)
qed

lemma foldl_select_bound:
  fixes outs :: "int list"
  assumes "\<forall>i\<in>set ixs. \<bar>outs ! i\<bar> \<le> k" "0 \<le> k"
  shows "\<bar>foldl (\<lambda>acc i. if P i then acc + outs ! i else acc) s ixs\<bar> \<le> \<bar>s\<bar> + k * int (length ixs)"
  using assms
proof (induction ixs arbitrary: s)
  case (Cons i ixs)
  let ?s = "if P i then s + outs ! i else s"
  have "\<bar>foldl (\<lambda>acc i. if P i then acc + outs ! i else acc) ?s ixs\<bar> \<le> \<bar>?s\<bar> + k * int (length ixs)"
    by (rule Cons.IH) (use Cons.prems in auto)
  moreover have "\<bar>?s\<bar> \<le> \<bar>s\<bar> + k" using Cons.prems by auto
  ultimately show ?case by (simp add: algebra_simps)
qed simp

lemma routed_sum_bound:
  assumes "length outs = 4" "\<forall>x\<in>set outs. \<bar>x\<bar> \<le> ANALOG_ONE"
  shows "\<bar>routed_channel_sum nr51 bits outs\<bar> \<le> ANALOG_ONE * 4"
  using foldl_select_bound[of "[0..<4]" outs ANALOG_ONE "\<lambda>i. nr51 AND (bits ! i) \<noteq> 0" 0] assms
  by (simp add: routed_channel_sum_def ANALOG_ONE_def)

lemma volume_factor_bounds:
  "1 \<le> nr50_left_volume_factor v" "nr50_left_volume_factor v \<le> 8"
  "1 \<le> nr50_right_volume_factor v" "nr50_right_volume_factor v \<le> 8"
  using and_7_le[of v] and_7_le[of "drop_bit 4 v"]
  by (simp_all add: nr50_left_volume_factor_def nr50_right_volume_factor_def word_le_def
      del: uint_and unsigned_and_eq)

lemma times_volume_bound:
  "\<bar>x\<bar> \<le> ANALOG_ONE * 4 \<Longrightarrow> 1 \<le> k \<Longrightarrow> k \<le> 8 \<Longrightarrow> \<bar>x * k\<bar> \<le> APU_INTERNAL_MAX_ABS_OUTPUT_SAMPLE"
  using mult_mono[of "\<bar>x\<bar>" "ANALOG_ONE * 4" k 8]
  by (simp add: abs_mult output_consts)

lemma resolve_mix_wf:
  assumes "output_path_wf p" "master_vin_input master = stereo_zero"
  shows "output_path_wf (snd (resolve_mix_state master co f p))"
proof (cases "master_powered master")
  case False
  then show ?thesis
    using assms(1) by (simp add: resolve_mix_state_def reset_analog_path_def output_path_wf_def
        dac_wf_default stereo_bound_def stereo_zero_def output_consts)
next
  case True
  let ?outs = "map fst (step_dacs co f p)"
  have outs: "length ?outs = 4" "\<forall>x\<in>set ?outs. \<bar>x\<bar> \<le> ANALOG_ONE"
    using step_dacs_wf[OF assms(1), of co f] by auto
  have vin: "vin_analog_output master = stereo_zero"
    using assms(2) by (simp add: vin_analog_output_def stereo_zero_def)
  have "stereo_bound APU_INTERNAL_MAX_ABS_OUTPUT_SAMPLE
      (master_output (master_nr50 master) (mixer_output (master_nr51 master) stereo_zero ?outs) b)" for b
    using routed_sum_bound[OF outs] volume_factor_bounds
    by (simp add: master_output_def mixer_output_def stereo_bound_def stereo_zero_def
        times_volume_bound) (simp add: output_consts)
  then show ?thesis
    using assms(1) True step_dacs_wf[OF assms(1), of co f]
    by (simp add: resolve_mix_state_def Let_def output_path_wf_def vin)
qed

lemma difference_bound:
  "\<bar>a\<bar> \<le> k \<Longrightarrow> \<bar>b\<bar> \<le> k \<Longrightarrow> k = APU_INTERNAL_MAX_ABS_OUTPUT_SAMPLE \<Longrightarrow>
   as_i32 (a - b) = a - b \<and> \<bar>a - b\<bar> \<le> 2 * k"
  by (auto simp: output_consts intro!: as_i32_id)

lemma output_path_preview_wf:
  assumes "output_path_wf p" "master_vin_input master = stereo_zero"
  shows "output_path_wf (output_path_preview master co p)"
proof -
  obtain b q where eq: "resolve_mix_state master co False p = (b, q)" by fastforce
  have q: "output_path_wf q" using resolve_mix_wf[OF assms, of co False] eq by simp
  show ?thesis
    using q difference_bound[of "left (op_master_output q)" _ "left (op_hpf_capacitor q)"]
      difference_bound[of "right (op_master_output q)" _ "right (op_hpf_capacitor q)"]
    by (simp add: output_path_preview_def eq output_path_wf_def stereo_bound_def stereo_zero_def)
      (simp add: output_consts)
qed

lemma output_path_tick_wf:
  assumes "output_path_wf p" "master_vin_input master = stereo_zero"
  shows "output_path_wf (output_path_tick master co p)"
proof -
  obtain b q where eq: "resolve_mix_state master co True p = (b, q)" by fastforce
  have q: "output_path_wf q" using resolve_mix_wf[OF assms, of co True] eq by simp
  show ?thesis
    using q difference_bound[of "left (op_master_output q)" _ "left (op_hpf_capacitor q)"]
      difference_bound[of "right (op_master_output q)" _ "right (op_hpf_capacitor q)"]
      hpf_charge_bound[of "left (op_hpf_capacitor q)" _ "left (op_master_output q)"]
      hpf_charge_bound[of "right (op_hpf_capacitor q)" _ "right (op_master_output q)"]
    by (simp add: output_path_tick_def Let_def eq output_path_wf_def stereo_bound_def stereo_zero_def)
      (simp add: output_consts)
qed

lemma output_path_wf_new: "output_path_wf (output_path_new m)"
  by (simp add: output_path_wf_def output_path_new_def dac_wf_default stereo_bound_def
      stereo_zero_def output_consts)

end
