(* ===== verification/Apu_Core.thy ===== *)
theory Apu_Core
  imports Apu_Sweep Apu_Wave Apu_Noise Apu_Output Boot_Startup Gb_Scheduler
begin

text \<open>
  The sound unit as a whole: the address decoder (\<open>apu/registers.rs\<close>), the four channels
  (\<open>apu/channels.rs\<close>), register reads and writes (\<open>apu/mmio.rs\<close>), power and startup
  (\<open>apu/control.rs\<close>) and the tick of \<open>apu.rs\<close>. The trace text of \<open>scheduler_trace_message\<close> is
  left out.
\<close>

subsection \<open>The register file\<close>

datatype apu_register =
    Nr10 | Nr11 | Nr12 | Nr13 | Nr14 | UnusedNr15
  | Nr21 | Nr22 | Nr23 | Nr24
  | Nr30 | Nr31 | Nr32 | Nr33 | Nr34 | UnusedNr1f
  | Nr41 | Nr42 | Nr43 | Nr44
  | Nr50 | Nr51 | Nr52

datatype master_register = MasterNr50 | MasterNr51 | MasterNr52

datatype apu_owner =
    OwnerChannel1 channel1_register
  | OwnerChannel2 channel2_register
  | OwnerChannel3 channel3_register
  | OwnerChannel4 channel4_register
  | OwnerMaster master_register
  | OwnerUnused

datatype apu_mmio_register = ApuRegister apu_register | WaveRam nat | ApuUnmapped

definition apu_register_owner :: "apu_register \<Rightarrow> apu_owner" where
  "apu_register_owner r =
     (case r of
        Nr10 \<Rightarrow> OwnerChannel1 channel1_register.Nr10
      | Nr11 \<Rightarrow> OwnerChannel1 channel1_register.Nr11
      | Nr12 \<Rightarrow> OwnerChannel1 channel1_register.Nr12
      | Nr13 \<Rightarrow> OwnerChannel1 channel1_register.Nr13
      | Nr14 \<Rightarrow> OwnerChannel1 channel1_register.Nr14
      | UnusedNr15 \<Rightarrow> OwnerUnused
      | Nr21 \<Rightarrow> OwnerChannel2 channel2_register.Nr21
      | Nr22 \<Rightarrow> OwnerChannel2 channel2_register.Nr22
      | Nr23 \<Rightarrow> OwnerChannel2 channel2_register.Nr23
      | Nr24 \<Rightarrow> OwnerChannel2 channel2_register.Nr24
      | Nr30 \<Rightarrow> OwnerChannel3 channel3_register.Nr30
      | Nr31 \<Rightarrow> OwnerChannel3 channel3_register.Nr31
      | Nr32 \<Rightarrow> OwnerChannel3 channel3_register.Nr32
      | Nr33 \<Rightarrow> OwnerChannel3 channel3_register.Nr33
      | Nr34 \<Rightarrow> OwnerChannel3 channel3_register.Nr34
      | UnusedNr1f \<Rightarrow> OwnerUnused
      | Nr41 \<Rightarrow> OwnerChannel4 channel4_register.Nr41
      | Nr42 \<Rightarrow> OwnerChannel4 channel4_register.Nr42
      | Nr43 \<Rightarrow> OwnerChannel4 channel4_register.Nr43
      | Nr44 \<Rightarrow> OwnerChannel4 channel4_register.Nr44
      | Nr50 \<Rightarrow> OwnerMaster MasterNr50
      | Nr51 \<Rightarrow> OwnerMaster MasterNr51
      | Nr52 \<Rightarrow> OwnerMaster MasterNr52)"

definition apu_register_addresses :: "(u16 \<times> apu_register) list" where
  "apu_register_addresses =
     [(0xFF10, Nr10), (0xFF11, Nr11), (0xFF12, Nr12), (0xFF13, Nr13), (0xFF14, Nr14),
      (0xFF15, UnusedNr15), (0xFF16, Nr21), (0xFF17, Nr22), (0xFF18, Nr23), (0xFF19, Nr24),
      (0xFF1A, Nr30), (0xFF1B, Nr31), (0xFF1C, Nr32), (0xFF1D, Nr33), (0xFF1E, Nr34),
      (0xFF1F, UnusedNr1f), (0xFF20, Nr41), (0xFF21, Nr42), (0xFF22, Nr43), (0xFF23, Nr44),
      (0xFF24, Nr50), (0xFF25, Nr51), (0xFF26, Nr52)]"

definition apu_mmio_decode :: "u16 \<Rightarrow> apu_mmio_register" where
  "apu_mmio_decode address =
     (case map_of apu_register_addresses address of
        Some r \<Rightarrow> ApuRegister r
      | None \<Rightarrow>
          if 0xFF30 \<le> address \<and> address \<le> 0xFF3F then WaveRam (unat (address - 0xFF30))
          else ApuUnmapped)"

definition should_observe_register_write :: "apu_mmio_register \<Rightarrow> bool" where
  "should_observe_register_write r = (case r of ApuRegister _ \<Rightarrow> True | _ \<Rightarrow> False)"

subsection \<open>The four channels\<close>

record apu_channels =
  channel_1 :: channel1_state
  channel_2 :: channel2_state
  channel_3 :: channel3_state
  channel_4 :: channel4_state

record channel_resolved_output =
  cro_runtime :: channel_runtime
  cro_digital_output :: u8

definition channels_default :: apu_channels where
  "channels_default =
     \<lparr>channel_1 = channel1_default, channel_2 = channel2_default,
      channel_3 = channel3_default, channel_4 = channel4_default\<rparr>"

definition channels_begin_t_cycle :: "apu_channels \<Rightarrow> apu_channels" where
  "channels_begin_t_cycle cs = cs\<lparr>channel_3 := ch3_begin_t_cycle (channel_3 cs)\<rparr>"

definition tick_fast_timers ::
    "console_model \<Rightarrow> bool \<Rightarrow> u8 \<Rightarrow> u8 \<Rightarrow> apu_channels \<Rightarrow> apu_channels" where
  "tick_fast_timers m clock_generation_timers apu_clock t_cycle_phase cs =
     (let cs = cs\<lparr>channel_1 := ch1_tick_fast_timer_with_clock_gate m clock_generation_timers
                                 apu_clock t_cycle_phase (channel_1 cs),
                  channel_2 := ch2_tick_fast_timer_with_clock_gate clock_generation_timers
                                 (channel_2 cs)\<rparr>
      in if clock_generation_timers
         then cs\<lparr>channel_3 := ch3_tick_fast_timer (channel_3 cs),
                 channel_4 := ch4_tick_fast_timer (channel_4 cs)\<rparr>
         else cs)"

definition tick_powered_off_timebase :: "apu_channels \<Rightarrow> apu_channels" where
  "tick_powered_off_timebase cs =
     cs\<lparr>channel_4 := snd (tick_alignment_phase_only (channel_4 cs))\<rparr>"

definition clock_length_all :: "apu_channels \<Rightarrow> apu_channels" where
  "clock_length_all cs =
     cs\<lparr>channel_1 := ch1_clock_length (channel_1 cs), channel_2 := ch2_clock_length (channel_2 cs),
        channel_3 := ch3_clock_length (channel_3 cs), channel_4 := ch4_clock_length (channel_4 cs)\<rparr>"

definition clock_envelope_all :: "apu_channels \<Rightarrow> apu_channels" where
  "clock_envelope_all cs =
     cs\<lparr>channel_1 := ch1_clock_envelope (channel_1 cs),
        channel_2 := ch2_clock_envelope (channel_2 cs),
        channel_4 := ch4_clock_envelope (channel_4 cs)\<rparr>"

definition clock_cgb_live_write_pending_even_envelope_all :: "apu_channels \<Rightarrow> apu_channels" where
  "clock_cgb_live_write_pending_even_envelope_all cs =
     cs\<lparr>channel_1 := ch1_clock_cgb_live_write_pending_even_envelope_tick (channel_1 cs),
        channel_2 := ch2_clock_cgb_live_write_pending_even_envelope_tick (channel_2 cs),
        channel_4 := ch4_clock_cgb_live_write_pending_even_envelope_tick (channel_4 cs)\<rparr>"

definition clock_sweep_ch1 :: "console_model \<Rightarrow> apu_channels \<Rightarrow> apu_channels" where
  "clock_sweep_ch1 m cs = cs\<lparr>channel_1 := ch1_clock_sweep m (channel_1 cs)\<rparr>"

definition channels_power_off_registers :: "console_model \<Rightarrow> apu_channels \<Rightarrow> apu_channels" where
  "channels_power_off_registers m cs =
     cs\<lparr>channel_1 := ch1_power_off_registers m (channel_1 cs),
        channel_2 := ch2_power_off_registers m (channel_2 cs),
        channel_3 := ch3_power_off_registers m (channel_3 cs),
        channel_4 := ch4_power_off_registers m (channel_4 cs)\<rparr>"

definition channels_mark_powered_on :: "apu_channels \<Rightarrow> apu_channels" where
  "channels_mark_powered_on cs =
     cs\<lparr>channel_1 := ch1_mark_powered_on (channel_1 cs),
        channel_2 := ch2_mark_powered_on (channel_2 cs),
        channel_4 := ch4_mark_powered_on (channel_4 cs)\<rparr>"

fun wave_ram_initial_bytes :: "wave_ram_startup_policy \<Rightarrow> u8 list" where
  "wave_ram_initial_bytes DeterministicZeroed = replicate 16 0"
| "wave_ram_initial_bytes CgbRealBootAlternating =
     [0x00, 0xFF, 0x00, 0xFF, 0x00, 0xFF, 0x00, 0xFF, 0x00, 0xFF, 0x00, 0xFF, 0x00, 0xFF,
      0x00, 0xFF]"

definition channels_apply_startup ::
    "console_model \<Rightarrow> apu_startup_state \<Rightarrow> apu_channels \<Rightarrow> apu_channels" where
  "channels_apply_startup m st cs =
     (let cs = cs\<lparr>channel_3 := ch3_initialize_wave_ram
                    (wave_ram_initial_bytes (apus_wave_ram_startup_policy st)) (channel_3 cs)\<rparr>
      in if \<not> apus_powered st then channels_power_off_registers m cs
         else
           cs\<lparr>channel_1 := ch1_apply_powered_startup (apus_nr10 st) (apus_nr11 st) (apus_nr12 st)
                (apus_nr13 st) (apus_nr14 st) (apus_channel_active_mask st AND 0x01 \<noteq> 0) (channel_1 cs),
              channel_2 := ch2_apply_powered_startup (apus_nr21 st) (apus_nr22 st) (apus_nr23 st)
                (apus_nr24 st) (apus_channel_active_mask st AND 0x02 \<noteq> 0) (channel_2 cs),
              channel_3 := ch3_apply_powered_startup (apus_nr30 st) (apus_nr31 st) (apus_nr32 st)
                (apus_nr33 st) (apus_nr34 st) (apus_channel_active_mask st AND 0x04 \<noteq> 0) (channel_3 cs),
              channel_4 := ch4_apply_powered_startup (apus_nr41 st) (apus_nr42 st) (apus_nr43 st)
                (apus_nr44 st) (apus_channel_active_mask st AND 0x08 \<noteq> 0) (channel_4 cs)\<rparr>)"

definition channels_resolved :: "apu_channels \<Rightarrow> channel_resolved_output list" where
  "channels_resolved cs =
     [\<lparr>cro_runtime = pul_runtime (ch1_pulse (channel_1 cs)),
       cro_digital_output = pulse_current_digital_output (ch1_pulse (channel_1 cs))\<rparr>,
      \<lparr>cro_runtime = pul_runtime (ch2_pulse (channel_2 cs)),
       cro_digital_output = pulse_current_digital_output (ch2_pulse (channel_2 cs))\<rparr>,
      \<lparr>cro_runtime = ch3_runtime (channel_3 cs),
       cro_digital_output = ch3_current_digital_output (channel_3 cs)\<rparr>,
      \<lparr>cro_runtime = ch4_runtime (channel_4 cs),
       cro_digital_output = ch4_current_digital_output (channel_4 cs)\<rparr>]"

definition channels_output_state :: "apu_channels \<Rightarrow> channel_output_state" where
  "channels_output_state cs =
     (let resolved = zip CHANNEL_MASKS (channels_resolved cs);
          active_mask = foldl (\<lambda>acc (mask, r). if rt_active (cro_runtime r) then acc OR mask else acc)
                          0 resolved;
          dac_mask = foldl (\<lambda>acc (mask, r). if rt_dac_enabled (cro_runtime r) then acc OR mask else acc)
                       0 resolved
      in \<lparr>co_active_mask = active_mask AND 0x0F, co_dac_mask = dac_mask AND 0x0F,
          co_digital_outputs = map (cro_digital_output \<circ> snd) resolved\<rparr>)"

subsection \<open>The APU\<close>

datatype apu_status = ApuReady

record apu_register_write_state =
  rws_powered :: bool
  rws_nr50 :: u8
  rws_nr51 :: u8
  rws_nr52 :: u8
  rws_channel_active_mask :: u8
  rws_channel_dac_mask :: u8
  rws_output :: output_snapshot

record apu_register_write_observation =
  rwo_address :: u16
  rwo_value :: u8
  rwo_before :: apu_register_write_state
  rwo_after :: apu_register_write_state

record apu =
  apu_console_model :: console_model
  apu_revision :: hardware_revision
  apu_status :: apu_status
  apu_master :: master_control_state
  apu_frame_sequencer :: frame_sequencer_state
  apu_output_path :: output_path_state
  apu_channels :: apu_channels
  apu_last_register_write :: "apu_register_write_observation option"
  apu_wave_ram_startup_policy :: wave_ram_startup_policy
  apu_startup_silent_channel_mask :: u8
  apu_clock :: u8
  apu_t_cycle_phase :: u8
  apu_skip_next_frame_sequencer_edge :: bool

definition apu_new_with_revision :: "console_model \<Rightarrow> hardware_revision \<Rightarrow> apu" where
  "apu_new_with_revision m revision =
     \<lparr>apu_console_model = m, apu_revision = revision, apu_status = ApuReady,
      apu_master = master_control_default, apu_frame_sequencer = frame_sequencer_default,
      apu_output_path = output_path_new m, apu_channels = channels_default,
      apu_last_register_write = None, apu_wave_ram_startup_policy = DeterministicZeroed,
      apu_startup_silent_channel_mask = 0, apu_clock = 0, apu_t_cycle_phase = 0,
      apu_skip_next_frame_sequencer_edge = False\<rparr>"

definition apu_new :: "console_model \<Rightarrow> apu" where
  "apu_new m = apu_new_with_revision m (default_revision m)"

definition apu_map_channels :: "(apu_channels \<Rightarrow> apu_channels) \<Rightarrow> apu \<Rightarrow> apu" where
  "apu_map_channels f a = a\<lparr>apu_channels := f (apu_channels a)\<rparr>"

definition silence_channel ::
    "u8 \<Rightarrow> channel_output_state \<Rightarrow> nat \<times> u8 \<Rightarrow> channel_output_state" where
  "silence_channel silent output = (\<lambda>(index, channel_mask).
     if silent AND channel_mask \<noteq> 0
     then output\<lparr>co_digital_outputs := (co_digital_outputs output)[index := 0],
                 co_dac_mask := co_dac_mask output AND NOT channel_mask\<rparr>
     else output)"

definition apu_channel_output_state :: "apu \<Rightarrow> channel_output_state" where
  "apu_channel_output_state a =
     (let output = channels_output_state (apu_channels a);
          silent = apu_startup_silent_channel_mask a AND 0x0F
      in if silent \<noteq> 0
         then foldl (silence_channel silent) output (List.enumerate 0 CHANNEL_MASKS)
         else output)"

definition apu_preview_output_path :: "apu \<Rightarrow> apu" where
  "apu_preview_output_path a =
     a\<lparr>apu_output_path :=
         output_path_preview (apu_master a) (apu_channel_output_state a) (apu_output_path a)\<rparr>"

definition apu_tick_output_path :: "apu \<Rightarrow> apu" where
  "apu_tick_output_path a =
     a\<lparr>apu_output_path :=
         output_path_tick (apu_master a) (apu_channel_output_state a) (apu_output_path a)\<rparr>"

definition read_pcm12 :: "apu \<Rightarrow> u8" where
  "read_pcm12 a =
     (let outputs = co_digital_outputs (apu_channel_output_state a)
      in push_bit 4 (outputs ! 1) OR (outputs ! 0))"

definition read_pcm34 :: "apu \<Rightarrow> u8" where
  "read_pcm34 a =
     (let outputs = co_digital_outputs (apu_channel_output_state a)
      in push_bit 4 (outputs ! 3) OR (outputs ! 2))"

definition read_nr52_from_channel_output :: "channel_output_state \<Rightarrow> apu \<Rightarrow> u8" where
  "read_nr52_from_channel_output co a =
     0x70 OR (if master_powered (apu_master a) then 0x80 else 0) OR co_active_mask co"

definition read_nr52 :: "apu \<Rightarrow> u8" where
  "read_nr52 a = read_nr52_from_channel_output (apu_channel_output_state a) a"

definition register_write_state :: "apu \<Rightarrow> apu_register_write_state" where
  "register_write_state a =
     (let co = apu_channel_output_state a
      in \<lparr>rws_powered = master_powered (apu_master a), rws_nr50 = master_nr50 (apu_master a),
          rws_nr51 = master_nr51 (apu_master a), rws_nr52 = read_nr52_from_channel_output co a,
          rws_channel_active_mask = co_active_mask co, rws_channel_dac_mask = co_dac_mask co,
          rws_output = output_path_snapshot (co_digital_outputs co) (apu_output_path a)\<rparr>)"

definition record_register_write_observation ::
    "u16 \<Rightarrow> u8 \<Rightarrow> apu_register_write_state option \<Rightarrow> apu \<Rightarrow> apu" where
  "record_register_write_observation address v before a =
     (case before of
        None \<Rightarrow> a
      | Some before_state \<Rightarrow>
          a\<lparr>apu_last_register_write :=
              Some \<lparr>rwo_address = address, rwo_value = v, rwo_before = before_state,
                    rwo_after = register_write_state a\<rparr>\<rparr>)"

definition clear_startup_silent_channel_mask :: "u8 \<Rightarrow> apu \<Rightarrow> apu" where
  "clear_startup_silent_channel_mask channel_mask a =
     a\<lparr>apu_startup_silent_channel_mask :=
         apu_startup_silent_channel_mask a AND NOT channel_mask\<rparr>"

definition apu_set_powered :: "bool \<Rightarrow> apu \<Rightarrow> apu" where
  "apu_set_powered b a = a\<lparr>apu_master := (apu_master a)\<lparr>master_powered := b\<rparr>\<rparr>"

definition apu_power_off :: "apu \<Rightarrow> apu" where
  "apu_power_off a =
     (let a = a\<lparr>apu_startup_silent_channel_mask := 0,
                apu_master := (apu_master a)\<lparr>master_powered := False, master_nr50 := 0,
                                             master_nr51 := 0\<rparr>\<rparr>
      in apu_map_channels (channels_power_off_registers (apu_console_model a)) a)"

definition write_nr52 :: "u8 \<Rightarrow> bool \<Rightarrow> apu \<Rightarrow> apu" where
  "write_nr52 v div_apu_signal_high a =
     (let next_powered = (v AND 0x80 \<noteq> 0);
          powered = master_powered (apu_master a)
      in if powered \<and> \<not> next_powered then apu_power_off a
         else if \<not> powered \<and> next_powered
         then
           let a = a\<lparr>apu_startup_silent_channel_mask := 0\<rparr>;
               a = apu_set_powered True a;
               starts_on_high_half =
                 (div_apu_signal_high \<and> is_cgb_family (apu_console_model a));
               a = a\<lparr>apu_frame_sequencer :=
                       fs_apply_startup_phase (if starts_on_high_half then 7 else 0)
                         (apu_frame_sequencer a),
                     apu_skip_next_frame_sequencer_edge :=
                       (div_apu_signal_high \<and> \<not> is_cgb_family (apu_console_model a))\<rparr>;
               a = apu_map_channels channels_mark_powered_on a
           in a\<lparr>apu_clock := 0, apu_t_cycle_phase := 0\<rparr>
         else a)"

definition apu_apply_startup_state :: "apu_startup_state \<Rightarrow> apu \<Rightarrow> apu" where
  "apu_apply_startup_state st a =
     (let a = a\<lparr>apu_last_register_write := None,
                apu_wave_ram_startup_policy := apus_wave_ram_startup_policy st,
                apu_startup_silent_channel_mask :=
                  (if apus_powered st then apus_startup_silent_channel_mask st AND 0x0F else 0),
                apu_output_path := output_path_new (apu_console_model a)\<rparr>;
          a = (if apus_powered st
               then a\<lparr>apu_master := (apu_master a)\<lparr>master_powered := True, master_nr50 := apus_nr50 st,
                                                   master_nr51 := apus_nr51 st\<rparr>\<rparr>
               else a\<lparr>apu_master := (apu_master a)\<lparr>master_powered := False, master_nr50 := 0,
                                                   master_nr51 := 0\<rparr>\<rparr>);
          a = apu_map_channels (channels_apply_startup (apu_console_model a) st) a;
          a = a\<lparr>apu_frame_sequencer := fs_apply_startup_phase (apus_div_apu st) (apu_frame_sequencer a),
                apu_clock := 0, apu_t_cycle_phase := 0,
                apu_skip_next_frame_sequencer_edge := False\<rparr>
      in apu_preview_output_path a)"

definition apply_div_apu_startup_phase_from_system_counter :: "u16 \<Rightarrow> apu \<Rightarrow> apu" where
  "apply_div_apu_startup_phase_from_system_counter counter a =
     apu_preview_output_path
       (a\<lparr>apu_frame_sequencer :=
            fs_apply_startup_phase (div_apu_phase_from_system_counter counter)
              (apu_frame_sequencer a)\<rparr>)"

subsection \<open>Register reads and writes\<close>

definition effective_frame_sequencer_step :: "apu \<Rightarrow> u8" where
  "effective_frame_sequencer_step a =
     (if apu_skip_next_frame_sequencer_edge a then 1 else fs_step (apu_frame_sequencer a))"

definition read_master_register :: "master_register \<Rightarrow> apu \<Rightarrow> u8" where
  "read_master_register r a =
     (case r of
        MasterNr50 \<Rightarrow> master_nr50 (apu_master a)
      | MasterNr51 \<Rightarrow> master_nr51 (apu_master a)
      | MasterNr52 \<Rightarrow> read_nr52 a)"

definition read_apu_register :: "apu_register \<Rightarrow> apu \<Rightarrow> u8" where
  "read_apu_register r a =
     (case apu_register_owner r of
        OwnerChannel1 r \<Rightarrow> ch1_read_register r (channel_1 (apu_channels a))
      | OwnerChannel2 r \<Rightarrow> ch2_read_register r (channel_2 (apu_channels a))
      | OwnerChannel3 r \<Rightarrow> ch3_read_register r (channel_3 (apu_channels a))
      | OwnerChannel4 r \<Rightarrow> ch4_read_register r (channel_4 (apu_channels a))
      | OwnerMaster r \<Rightarrow> read_master_register r a
      | OwnerUnused \<Rightarrow> APU_UNMAPPED_READ_VALUE)"

definition apu_read_register :: "u16 \<Rightarrow> apu \<Rightarrow> u8" where
  "apu_read_register address a =
     (case apu_mmio_decode address of
        ApuRegister r \<Rightarrow> read_apu_register r a
      | WaveRam index \<Rightarrow>
          read_wave_ram (apu_console_model a) index (channel_3 (apu_channels a))
      | ApuUnmapped \<Rightarrow> APU_UNMAPPED_READ_VALUE)"

definition write_channel_1_register ::
    "channel1_register \<Rightarrow> u8 \<Rightarrow> cgb_speed_mode \<Rightarrow> apu \<Rightarrow> apu" where
  "write_channel_1_register r v speed_mode a =
     apu_map_channels
       (\<lambda>cs. cs\<lparr>channel_1 :=
          (if master_powered (apu_master a)
           then ch1_write_register r v (apu_console_model a) (apu_revision a) speed_mode
                  (effective_frame_sequencer_step a) (channel_1 cs)
           else ch1_write_powered_off_register r v (apu_console_model a) (channel_1 cs))\<rparr>) a"

definition write_channel_2_register ::
    "channel2_register \<Rightarrow> u8 \<Rightarrow> cgb_speed_mode \<Rightarrow> apu \<Rightarrow> apu" where
  "write_channel_2_register r v speed_mode a =
     apu_map_channels
       (\<lambda>cs. cs\<lparr>channel_2 :=
          (if master_powered (apu_master a)
           then ch2_write_register r v (apu_console_model a) speed_mode
                  (effective_frame_sequencer_step a) (channel_2 cs)
           else ch2_write_powered_off_register r v (apu_console_model a) (channel_2 cs))\<rparr>) a"

definition write_channel_3_register :: "channel3_register \<Rightarrow> u8 \<Rightarrow> apu \<Rightarrow> apu" where
  "write_channel_3_register r v a =
     apu_map_channels
       (\<lambda>cs. cs\<lparr>channel_3 :=
          (if master_powered (apu_master a)
           then ch3_write_register r v (apu_console_model a) (effective_frame_sequencer_step a)
                  (channel_3 cs)
           else ch3_write_powered_off_register r v (apu_console_model a) (channel_3 cs))\<rparr>) a"

definition write_channel_4_register :: "channel4_register \<Rightarrow> u8 \<Rightarrow> apu \<Rightarrow> apu" where
  "write_channel_4_register r v a =
     apu_map_channels
       (\<lambda>cs. cs\<lparr>channel_4 :=
          (if master_powered (apu_master a)
           then ch4_write_register r v (apu_console_model a) (effective_frame_sequencer_step a)
                  (channel_4 cs)
           else ch4_write_powered_off_register r v (apu_console_model a) (channel_4 cs))\<rparr>) a"

definition write_master_register :: "master_register \<Rightarrow> u8 \<Rightarrow> bool \<Rightarrow> apu \<Rightarrow> apu" where
  "write_master_register r v div_apu_signal_high a =
     (case r of
        MasterNr50 \<Rightarrow>
          if master_powered (apu_master a)
          then a\<lparr>apu_master := (apu_master a)\<lparr>master_nr50 := v\<rparr>\<rparr> else a
      | MasterNr51 \<Rightarrow>
          if master_powered (apu_master a)
          then a\<lparr>apu_master := (apu_master a)\<lparr>master_nr51 := v\<rparr>\<rparr> else a
      | MasterNr52 \<Rightarrow> write_nr52 v div_apu_signal_high a)"

definition write_apu_register ::
    "apu_register \<Rightarrow> u8 \<Rightarrow> cgb_speed_mode \<Rightarrow> bool \<Rightarrow> apu \<Rightarrow> apu" where
  "write_apu_register r v speed_mode div_apu_signal_high a =
     (case apu_register_owner r of
        OwnerChannel1 r \<Rightarrow>
          let a = write_channel_1_register r v speed_mode a
          in if r = channel1_register.Nr14 \<and> v AND CHANNEL_TRIGGER_BIT \<noteq> 0
             then clear_startup_silent_channel_mask 0x01 a else a
      | OwnerChannel2 r \<Rightarrow>
          let a = write_channel_2_register r v speed_mode a
          in if r = channel2_register.Nr24 \<and> v AND CHANNEL_TRIGGER_BIT \<noteq> 0
             then clear_startup_silent_channel_mask 0x02 a else a
      | OwnerChannel3 r \<Rightarrow>
          let a = write_channel_3_register r v a
          in if r = channel3_register.Nr34 \<and> v AND CHANNEL_TRIGGER_BIT \<noteq> 0
             then clear_startup_silent_channel_mask 0x04 a else a
      | OwnerChannel4 r \<Rightarrow>
          let a = write_channel_4_register r v a
          in if r = channel4_register.Nr44 \<and> v AND CHANNEL_TRIGGER_BIT \<noteq> 0
             then clear_startup_silent_channel_mask 0x08 a else a
      | OwnerMaster r \<Rightarrow> write_master_register r v div_apu_signal_high a
      | OwnerUnused \<Rightarrow> a)"

definition write_register_for_speed_with_div_apu_signal ::
    "u16 \<Rightarrow> u8 \<Rightarrow> cgb_speed_mode \<Rightarrow> bool \<Rightarrow> apu \<Rightarrow> apu" where
  "write_register_for_speed_with_div_apu_signal address v speed_mode div_apu_signal_high a =
     (let a = a\<lparr>apu_last_register_write := None\<rparr>;
          decoded_register = apu_mmio_decode address
      in case decoded_register of
           WaveRam index \<Rightarrow>
             apu_preview_output_path
               (apu_map_channels
                  (\<lambda>cs. cs\<lparr>channel_3 :=
                             write_wave_ram (apu_console_model a) index v (channel_3 cs)\<rparr>) a)
         | ApuRegister r \<Rightarrow>
             let before_register_write =
                   (if should_observe_register_write decoded_register
                    then Some (register_write_state a) else None);
                 a = write_apu_register r v speed_mode div_apu_signal_high a;
                 a = apu_preview_output_path a
             in record_register_write_observation address v before_register_write a
         | ApuUnmapped \<Rightarrow> apu_preview_output_path a)"

definition write_register_for_speed :: "u16 \<Rightarrow> u8 \<Rightarrow> cgb_speed_mode \<Rightarrow> apu \<Rightarrow> apu" where
  "write_register_for_speed address v speed_mode =
     write_register_for_speed_with_div_apu_signal address v speed_mode False"

definition apu_write_register :: "u16 \<Rightarrow> u8 \<Rightarrow> apu \<Rightarrow> apu" where
  "apu_write_register address v = write_register_for_speed address v NormalSpeed"

subsection \<open>Time\<close>

definition advance_frame_sequencer :: "apu \<Rightarrow> apu" where
  "advance_frame_sequencer a =
     (if apu_skip_next_frame_sequencer_edge a
      then apu_preview_output_path (a\<lparr>apu_skip_next_frame_sequencer_edge := False\<rparr>)
      else case fs_advance (apu_frame_sequencer a) of
        (clocks, fs) \<Rightarrow>
          let a = a\<lparr>apu_frame_sequencer := fs\<rparr>
          in if \<not> master_powered (apu_master a) then apu_preview_output_path a
             else
               let a = (if clocks_length clocks then apu_map_channels clock_length_all a else a);
                   a = (if clocks_sweep clocks
                        then apu_map_channels (clock_sweep_ch1 (apu_console_model a)) a else a);
                   a = (if \<not> clocks_length clocks \<and> is_cgb_family (apu_console_model a)
                        then apu_map_channels clock_cgb_live_write_pending_even_envelope_all a else a);
                   a = (if clocks_envelope clocks then apu_map_channels clock_envelope_all a else a)
               in apu_preview_output_path a)"

definition apu_tick_t_cycle_for_speed :: "cycle_context \<Rightarrow> cgb_speed_mode \<Rightarrow> apu \<Rightarrow> apu" where
  "apu_tick_t_cycle_for_speed ctx speed_mode a =
     (let a = a\<lparr>apu_last_register_write := None\<rparr>;
          a = apu_map_channels channels_begin_t_cycle a;
          clock_generation_timers = apu_tick_due_at_scheduler_t_cycle (ctx_t_cycle ctx) speed_mode;
          t_cycle_phase = apu_t_cycle_phase a;
          is_tick_even_phase = (t_cycle_phase AND 0x01 = 0);
          a = (if master_powered (apu_master a)
               then
                 let a = (if is_tick_even_phase \<and> clock_generation_timers
                          then a\<lparr>apu_clock := (apu_clock a + 1) AND 0x03\<rparr> else a)
                 in apu_map_channels
                      (tick_fast_timers (apu_console_model a) clock_generation_timers (apu_clock a)
                         t_cycle_phase) a
               else if clock_generation_timers then apu_map_channels tick_powered_off_timebase a
               else a);
          a = (if clock_generation_timers
               then a\<lparr>apu_t_cycle_phase := (t_cycle_phase + 1) AND 0x03\<rparr> else a);
          a = foldl (\<lambda>a edge. if edge = ApuFrameSequencerEdge then advance_frame_sequencer a else a)
                a (derived_edges ctx)
      in apu_tick_output_path a)"

definition on_div_apu_edge :: "apu \<Rightarrow> apu" where
  "on_div_apu_edge a = advance_frame_sequencer a"

subsection \<open>Save states and snapshots\<close>

record apu_save_state =
  asave_console_model :: console_model
  asave_revision :: hardware_revision
  asave_status :: apu_status
  asave_master :: master_control_state
  asave_frame_sequencer :: frame_sequencer_state
  asave_output_path :: output_path_state
  asave_channels :: apu_channels
  asave_last_register_write :: "apu_register_write_observation option"
  asave_wave_ram_startup_policy :: wave_ram_startup_policy
  asave_startup_silent_channel_mask :: u8
  asave_apu_clock :: u8
  asave_t_cycle_phase :: u8
  asave_skip_next_frame_sequencer_edge :: bool

definition apu_capture_save_state :: "apu \<Rightarrow> apu_save_state" where
  "apu_capture_save_state a =
     \<lparr>asave_console_model = apu_console_model a, asave_revision = apu_revision a,
      asave_status = apu_status a, asave_master = apu_master a,
      asave_frame_sequencer = apu_frame_sequencer a, asave_output_path = apu_output_path a,
      asave_channels = apu_channels a, asave_last_register_write = apu_last_register_write a,
      asave_wave_ram_startup_policy = apu_wave_ram_startup_policy a,
      asave_startup_silent_channel_mask = apu_startup_silent_channel_mask a,
      asave_apu_clock = apu_clock a, asave_t_cycle_phase = apu_t_cycle_phase a,
      asave_skip_next_frame_sequencer_edge = apu_skip_next_frame_sequencer_edge a\<rparr>"

definition apu_restore_save_state :: "apu_save_state \<Rightarrow> apu \<Rightarrow> apu" where
  "apu_restore_save_state s a =
     a\<lparr>apu_console_model := asave_console_model s, apu_revision := asave_revision s,
       apu_status := asave_status s, apu_master := asave_master s,
       apu_frame_sequencer := asave_frame_sequencer s, apu_output_path := asave_output_path s,
       apu_channels := asave_channels s, apu_last_register_write := asave_last_register_write s,
       apu_wave_ram_startup_policy := asave_wave_ram_startup_policy s,
       apu_startup_silent_channel_mask := asave_startup_silent_channel_mask s,
       apu_clock := asave_apu_clock s, apu_t_cycle_phase := asave_t_cycle_phase s,
       apu_skip_next_frame_sequencer_edge := asave_skip_next_frame_sequencer_edge s\<rparr>"

record apu_snapshot =
  asnap_console_model :: console_model
  asnap_revision :: hardware_revision
  asnap_status :: apu_status
  asnap_powered :: bool
  asnap_nr50 :: u8
  asnap_nr51 :: u8
  asnap_channel_active_mask :: u8
  asnap_channel_dac_mask :: u8
  asnap_div_apu :: u8
  asnap_wave_ram :: "u8 list"
  asnap_wave_ram_startup_policy :: wave_ram_startup_policy
  asnap_output :: output_snapshot
  asnap_last_register_write :: "apu_register_write_observation option"

definition apu_take_snapshot :: "apu \<Rightarrow> apu_snapshot" where
  "apu_take_snapshot a =
     (let co = apu_channel_output_state a
      in \<lparr>asnap_console_model = apu_console_model a, asnap_revision = apu_revision a,
          asnap_status = apu_status a, asnap_powered = master_powered (apu_master a),
          asnap_nr50 = master_nr50 (apu_master a), asnap_nr51 = master_nr51 (apu_master a),
          asnap_channel_active_mask = co_active_mask co, asnap_channel_dac_mask = co_dac_mask co,
          asnap_div_apu = fs_step (apu_frame_sequencer a),
          asnap_wave_ram = ch3_wave_ram (channel_3 (apu_channels a)),
          asnap_wave_ram_startup_policy = apu_wave_ram_startup_policy a,
          asnap_output = output_path_snapshot (co_digital_outputs co) (apu_output_path a),
          asnap_last_register_write = apu_last_register_write a\<rparr>)"

definition host_output_sample :: "apu \<Rightarrow> stereo" where
  "host_output_sample a = op_current_output (apu_output_path a)"

subsection \<open>Recorded channels\<close>

datatype apu_recorded_channel = RecCh1 | RecCh2 | RecCh3 | RecCh4

fun recorded_channel_index :: "apu_recorded_channel \<Rightarrow> nat" where
  "recorded_channel_index RecCh1 = 0"
| "recorded_channel_index RecCh2 = 1"
| "recorded_channel_index RecCh3 = 2"
| "recorded_channel_index RecCh4 = 3"

definition recorded_channels_all :: "apu_recorded_channel list" where
  "recorded_channels_all = [RecCh1, RecCh2, RecCh3, RecCh4]"

definition channel_mask_bit :: "apu_recorded_channel \<Rightarrow> u8" where
  "channel_mask_bit c = push_bit (recorded_channel_index c) 1"

definition mask_contains :: "u8 \<Rightarrow> apu_recorded_channel \<Rightarrow> bool" where
  "mask_contains bits c = (bits AND channel_mask_bit c \<noteq> 0)"

definition mask_with_channel :: "u8 \<Rightarrow> apu_recorded_channel \<Rightarrow> bool \<Rightarrow> u8" where
  "mask_with_channel bits c enabled =
     (if enabled then bits OR channel_mask_bit c else bits AND NOT (channel_mask_bit c))"

definition mask_toggled :: "u8 \<Rightarrow> apu_recorded_channel \<Rightarrow> u8" where
  "mask_toggled bits c = bits XOR channel_mask_bit c"

definition routed_recorded_channel_output :: "u8 \<Rightarrow> u8 \<Rightarrow> int \<Rightarrow> int \<Rightarrow> int" where
  "routed_recorded_channel_output nr51 route_bit channel_dac_output nr50_volume_factor =
     (if channel_dac_output = 0 \<or> nr51 AND route_bit = 0 then 0
      else channel_dac_output * nr50_volume_factor)"

definition recorded_channel_sample_pre_hpf :: "apu_recorded_channel \<Rightarrow> apu \<Rightarrow> stereo" where
  "recorded_channel_sample_pre_hpf c a =
     (let index = recorded_channel_index c;
          out = op_channel_dac_outputs (apu_output_path a) ! index
      in \<lparr>left = routed_recorded_channel_output (master_nr51 (apu_master a))
                  (NR51_LEFT_ROUTE_BITS ! index) out
                  (nr50_left_volume_factor (master_nr50 (apu_master a))),
          right = routed_recorded_channel_output (master_nr51 (apu_master a))
                  (NR51_RIGHT_ROUTE_BITS ! index) out
                  (nr50_right_volume_factor (master_nr50 (apu_master a)))\<rparr>)"

definition recorded_channel_tap_pre_hpf :: "apu_recorded_channel \<Rightarrow> apu \<Rightarrow> stereo \<times> bool" where
  "recorded_channel_tap_pre_hpf c a =
     (let sample = recorded_channel_sample_pre_hpf c a
      in (sample, left sample \<noteq> 0 \<or> right sample \<noteq> 0))"

definition recorded_channel_mix_tap_pre_hpf :: "u8 \<Rightarrow> apu \<Rightarrow> stereo \<times> bool" where
  "recorded_channel_mix_tap_pre_hpf bits a =
     (if bits = 0 then (stereo_zero, False)
      else if bits = 0x0F
      then (op_master_output (apu_output_path a),
            list_ex (\<lambda>v. v \<noteq> 0) (op_channel_dac_outputs (apu_output_path a)))
      else
        foldl (\<lambda>(mixed, any_output_connected) c.
                 if \<not> mask_contains bits c then (mixed, any_output_connected)
                 else let sample = recorded_channel_sample_pre_hpf c a
                      in (\<lparr>left = left mixed + left sample, right = right mixed + right sample\<rparr>,
                          any_output_connected \<or> left sample \<noteq> 0 \<or> right sample \<noteq> 0))
          (stereo_zero, False) recorded_channels_all)"

definition recorded_channel_mix_pre_hpf :: "u8 \<Rightarrow> apu \<Rightarrow> stereo" where
  "recorded_channel_mix_pre_hpf bits a = fst (recorded_channel_mix_tap_pre_hpf bits a)"

end
