(* ===== verification/Apu_Laws.thy ===== *)
theory Apu_Laws
  imports Apu_Core
begin

text \<open>
  Laws of the sound unit: the invariant every operation keeps, from the channels through the
  output path to the whole APU; the length counters and the pulse timer over many clocks; the
  fade of a switched-off DAC; the cycle of the short noise register.
\<close>

subsection \<open>The invariant of the APU\<close>

definition channels_wf :: "apu_channels \<Rightarrow> bool" where
  "channels_wf cs \<longleftrightarrow> ch1_wf (channel_1 cs) \<and> pulse_wf (ch2_pulse (channel_2 cs))
     \<and> ch3_wf (channel_3 cs) \<and> ch4_wf (channel_4 cs)"

definition apu_wf :: "apu \<Rightarrow> bool" where
  "apu_wf a \<longleftrightarrow> channels_wf (apu_channels a) \<and> output_path_wf (apu_output_path a)
     \<and> master_vin_input (apu_master a) = stereo_zero \<and> fs_step (apu_frame_sequencer a) \<le> 7"

lemma channels_wf_ops:
  assumes "channels_wf cs"
  shows "channels_wf (channels_begin_t_cycle cs)"
    and "channels_wf (tick_fast_timers m g ck ph cs)"
    and "channels_wf (tick_powered_off_timebase cs)"
    and "channels_wf (clock_length_all cs)"
    and "channels_wf (clock_envelope_all cs)"
    and "channels_wf (clock_cgb_live_write_pending_even_envelope_all cs)"
    and "channels_wf (clock_sweep_ch1 m cs)"
    and "channels_wf (channels_power_off_registers m cs)"
    and "channels_wf (channels_mark_powered_on cs)"
  using assms
  by (simp_all add: channels_wf_def channels_begin_t_cycle_def tick_fast_timers_def Let_def
      tick_powered_off_timebase_def clock_length_all_def clock_envelope_all_def
      clock_cgb_live_write_pending_even_envelope_all_def clock_sweep_ch1_def
      channels_power_off_registers_def channels_mark_powered_on_def
      ch1_wf_others ch2_wf_others ch3_wf_others ch3_wf_tick ch3_wf_clock_length
      ch4_wf_others ch4_wf_tick ch4_wf_alignment ch4_wf_clock_length)

lemma initial_bytes_length [simp]: "length (wave_ram_initial_bytes p) = 16"
  by (cases p) simp_all

lemma channels_wf_startup: "channels_wf cs \<Longrightarrow> channels_wf (channels_apply_startup m st cs)"
  by (auto simp: channels_apply_startup_def Let_def intro!: channels_wf_ops)
    (auto simp: channels_wf_def ch1_wf_powered_startup ch2_wf_others ch4_wf_powered_startup
      intro!: ch3_wf_others)

lemma channels_wf_default: "channels_wf channels_default"
  by (simp add: channels_wf_def channels_default_def channel2_default_def)

lemma apu_wf_new: "apu_wf (apu_new m)"
  by (simp add: apu_wf_def apu_new_def apu_new_with_revision_def channels_wf_default
      output_path_wf_new master_control_default_def frame_sequencer_default_def)

lemma apu_wf_preview: "apu_wf a \<Longrightarrow> apu_wf (apu_preview_output_path a)"
  by (simp add: apu_wf_def apu_preview_output_path_def output_path_preview_wf)

lemma apu_wf_tick_output: "apu_wf a \<Longrightarrow> apu_wf (apu_tick_output_path a)"
  by (simp add: apu_wf_def apu_tick_output_path_def output_path_tick_wf)

lemma apu_wf_map_channels:
  "apu_wf a \<Longrightarrow> (\<And>cs. channels_wf cs \<Longrightarrow> channels_wf (f cs)) \<Longrightarrow> apu_wf (apu_map_channels f a)"
  by (simp add: apu_wf_def apu_map_channels_def)

lemma apu_wf_fields [simp]:
  "apu_wf (a\<lparr>apu_last_register_write := x\<rparr>) = apu_wf a"
  "apu_wf (a\<lparr>apu_startup_silent_channel_mask := v\<rparr>) = apu_wf a"
  "apu_wf (a\<lparr>apu_clock := v\<rparr>) = apu_wf a"
  "apu_wf (a\<lparr>apu_t_cycle_phase := v\<rparr>) = apu_wf a"
  "apu_wf (a\<lparr>apu_skip_next_frame_sequencer_edge := b\<rparr>) = apu_wf a"
  "apu_wf (a\<lparr>apu_master := (apu_master a)\<lparr>master_nr50 := v\<rparr>\<rparr>) = apu_wf a"
  "apu_wf (a\<lparr>apu_master := (apu_master a)\<lparr>master_nr51 := v\<rparr>\<rparr>) = apu_wf a"
  by (simp_all add: apu_wf_def)

lemma channels_wf_updates:
  "channels_wf cs \<Longrightarrow> ch1_wf c1 \<Longrightarrow> channels_wf (cs\<lparr>channel_1 := c1\<rparr>)"
  "channels_wf cs \<Longrightarrow> pulse_wf (ch2_pulse c2) \<Longrightarrow> channels_wf (cs\<lparr>channel_2 := c2\<rparr>)"
  "channels_wf cs \<Longrightarrow> ch3_wf c3 \<Longrightarrow> channels_wf (cs\<lparr>channel_3 := c3\<rparr>)"
  "channels_wf cs \<Longrightarrow> ch4_wf c4 \<Longrightarrow> channels_wf (cs\<lparr>channel_4 := c4\<rparr>)"
  by (simp_all add: channels_wf_def)

lemma channels_wf_parts:
  "channels_wf cs \<Longrightarrow> ch1_wf (channel_1 cs)"
  "channels_wf cs \<Longrightarrow> pulse_wf (ch2_pulse (channel_2 cs))"
  "channels_wf cs \<Longrightarrow> ch3_wf (channel_3 cs)"
  "channels_wf cs \<Longrightarrow> ch4_wf (channel_4 cs)"
  by (simp_all add: channels_wf_def)

lemma apu_wf_channel_writes:
  "apu_wf a \<Longrightarrow> apu_wf (write_channel_1_register r1 v s a)"
  "apu_wf a \<Longrightarrow> apu_wf (write_channel_2_register r2 v s a)"
  "apu_wf a \<Longrightarrow> apu_wf (write_channel_3_register r3 v a)"
  "apu_wf a \<Longrightarrow> apu_wf (write_channel_4_register r4 v a)"
  by (auto simp: write_channel_1_register_def write_channel_2_register_def
      write_channel_3_register_def write_channel_4_register_def
      intro!: apu_wf_map_channels channels_wf_updates ch1_wf_write ch1_wf_others ch2_wf_write
        ch2_wf_others ch3_wf_write ch3_wf_others ch4_wf_write ch4_wf_others
      dest: channels_wf_parts)

lemma and_7_u8: "(x::u8) AND 7 \<le> 7" by (rule word_and_le1)

lemma fs_startup_le: "fs_step (fs_apply_startup_phase d s) \<le> 7"
  by (simp add: fs_apply_startup_phase_def)

lemma fs_advance_le: "fs_step (snd (fs_advance s)) \<le> 7"
  by (simp add: fs_advance_def Let_def)

lemma apu_wf_power_off: "apu_wf a \<Longrightarrow> apu_wf (apu_power_off a)"
  by (auto simp: apu_power_off_def Let_def intro!: apu_wf_map_channels channels_wf_ops)
    (simp add: apu_wf_def)

lemma apu_wf_write_nr52: "apu_wf a \<Longrightarrow> apu_wf (write_nr52 v hi a)"
  by (auto simp: write_nr52_def Let_def apu_set_powered_def
      intro!: apu_wf_power_off apu_wf_map_channels channels_wf_ops)
    (auto simp: apu_wf_def fs_startup_le)

lemma apu_wf_write_apu_register: "apu_wf a \<Longrightarrow> apu_wf (write_apu_register r v s hi a)"
  by (auto simp: write_apu_register_def write_master_register_def Let_def
      clear_startup_silent_channel_mask_def
      intro: apu_wf_channel_writes apu_wf_write_nr52
      split: apu_owner.split master_register.split)

lemma apu_wf_write:
  assumes "apu_wf a"
  shows "apu_wf (write_register_for_speed_with_div_apu_signal ad v s hi a)"
proof -
  have obs: "apu_wf (record_register_write_observation ad v b x) = apu_wf x" for b x
    by (simp add: record_register_write_observation_def split: option.split)
  show ?thesis
    using assms
    by (auto simp: write_register_for_speed_with_div_apu_signal_def Let_def obs
        intro!: apu_wf_preview apu_wf_write_apu_register apu_wf_map_channels channels_wf_updates
          ch3_wf_write_wave_ram dest: channels_wf_parts split: apu_mmio_register.split)
qed

lemma apu_wf_advance:
  assumes "apu_wf a"
  shows "apu_wf (advance_frame_sequencer a)"
proof -
  obtain cl fs where eq: "fs_advance (apu_frame_sequencer a) = (cl, fs)" by fastforce
  then have "fs_step fs \<le> 7" using fs_advance_le[of "apu_frame_sequencer a"] by simp
  then have b: "apu_wf (a\<lparr>apu_frame_sequencer := fs\<rparr>)" using assms by (simp add: apu_wf_def)
  show ?thesis
    using assms b
    by (auto simp: advance_frame_sequencer_def eq Let_def
        intro!: apu_wf_preview apu_wf_map_channels channels_wf_ops)
qed

lemma apu_wf_edges:
  "apu_wf a \<Longrightarrow> apu_wf (foldl (\<lambda>a edge. if edge = ApuFrameSequencerEdge
     then advance_frame_sequencer a else a) a es)"
  by (induction es arbitrary: a) (simp_all add: apu_wf_advance)

lemma apu_wf_tick:
  assumes "apu_wf a"
  shows "apu_wf (apu_tick_t_cycle_for_speed ctx s a)"
  using assms unfolding apu_tick_t_cycle_for_speed_def Let_def
  by (auto intro!: apu_wf_tick_output apu_wf_edges apu_wf_map_channels channels_wf_ops)

lemma apu_wf_startup:
  assumes "apu_wf a"
  shows "apu_wf (apu_apply_startup_state st a)"
proof -
  have upd: "apu_wf (b\<lparr>apu_frame_sequencer := fs_apply_startup_phase d f\<rparr>)" if "apu_wf b" for b d f
    using that fs_startup_le[of d f] by (simp add: apu_wf_def)
  have start: "apu_wf (a\<lparr>apu_last_register_write := None, apu_wave_ram_startup_policy := p,
      apu_startup_silent_channel_mask := v, apu_output_path := output_path_new m,
      apu_master := (apu_master a)\<lparr>master_powered := b, master_nr50 := x, master_nr51 := y\<rparr>\<rparr>)"
    for p v m b x y
    using assms by (simp add: apu_wf_def output_path_wf_new)
  show ?thesis
    unfolding apu_apply_startup_state_def Let_def
    by (auto intro!: apu_wf_preview upd apu_wf_map_channels channels_wf_startup start)
qed

lemma apu_wf_div_startup:
  "apu_wf a \<Longrightarrow> apu_wf (apply_div_apu_startup_phase_from_system_counter n a)"
  using fs_startup_le
  by (auto simp: apply_div_apu_startup_phase_from_system_counter_def apu_wf_def
      intro!: apu_wf_preview[unfolded apu_wf_def])

subsection \<open>Histories of the APU\<close>

datatype apu_op =
    OpWrite u16 u8 cgb_speed_mode bool
  | OpTick cycle_context cgb_speed_mode
  | OpDivEdge
  | OpStartup apu_startup_state
  | OpDivStartup u16

fun apu_step :: "apu_op \<Rightarrow> apu \<Rightarrow> apu" where
  "apu_step (OpWrite ad v s hi) a = write_register_for_speed_with_div_apu_signal ad v s hi a"
| "apu_step (OpTick ctx s) a = apu_tick_t_cycle_for_speed ctx s a"
| "apu_step OpDivEdge a = on_div_apu_edge a"
| "apu_step (OpStartup st) a = apu_apply_startup_state st a"
| "apu_step (OpDivStartup n) a = apply_div_apu_startup_phase_from_system_counter n a"

lemma apu_wf_step: "apu_wf a \<Longrightarrow> apu_wf (apu_step op a)"
  by (cases op) (simp_all add: apu_wf_write apu_wf_tick on_div_apu_edge_def apu_wf_advance
      apu_wf_startup apu_wf_div_startup)

lemma apu_wf_history: "apu_wf a \<Longrightarrow> apu_wf (fold apu_step ops a)"
  by (induction ops arbitrary: a) (simp_all add: apu_wf_step)

lemma resolved_output_le:
  assumes "channels_wf cs"
  shows "list_all (\<lambda>v. v \<le> 15) (co_digital_outputs (channels_output_state cs))"
    and "length (co_digital_outputs (channels_output_state cs)) = 4"
  using assms pulse_output_le ch3_output_le ch4_output_le
  by (auto simp: channels_output_state_def channels_resolved_def CHANNEL_MASKS_def Let_def
      channels_wf_def ch1_wf_def)

lemma silenced_outputs_le:
  "list_all (\<lambda>v. v \<le> 15) (co_digital_outputs co) \<and> length (co_digital_outputs co) = 4 \<Longrightarrow>
   list_all (\<lambda>v. v \<le> 15) (co_digital_outputs (foldl (silence_channel silent) co ims))
   \<and> length (co_digital_outputs (foldl (silence_channel silent) co ims)) = 4"
proof (induction ims arbitrary: co)
  case (Cons im ims)
  have "list_all (\<lambda>v. v \<le> 15) (co_digital_outputs (silence_channel silent co im))
      \<and> length (co_digital_outputs (silence_channel silent co im)) = 4"
    using Cons.prems
    by (auto simp: silence_channel_def list_all_iff split: prod.splits
        dest!: subsetD[OF set_update_subset_insert])
  then show ?case using Cons.IH by simp
qed simp

lemma apu_outputs_le:
  assumes "apu_wf a"
  shows "list_all (\<lambda>v. v \<le> 15) (co_digital_outputs (apu_channel_output_state a))"
    and "length (co_digital_outputs (apu_channel_output_state a)) = 4"
proof -
  have "channels_wf (apu_channels a)" using assms by (simp add: apu_wf_def)
  note r = resolved_output_le[OF this]
  show "list_all (\<lambda>v. v \<le> 15) (co_digital_outputs (apu_channel_output_state a))"
    "length (co_digital_outputs (apu_channel_output_state a)) = 4"
    using r silenced_outputs_le[OF conjI[OF r]] by (simp_all add: apu_channel_output_state_def Let_def)
qed

lemma active_has_dac:
  assumes "channels_wf cs" "r \<in> set (channels_resolved cs)" "rt_active (cro_runtime r)"
  shows "rt_dac_enabled (cro_runtime r)"
  using assms
  by (auto simp: channels_resolved_def channels_wf_def ch1_wf_def pulse_wf_def ch3_wf_def
      ch4_wf_def rt_wf_def)

subsection \<open>Length counters\<close>

lemma clock_length_counter_stopped:
  "((\<lambda>(l, act). clock_length_counter True l act) ^^ k) (0::'w::len word, act) = (0, act)"
  by (induction k) (simp_all add: clock_length_counter_def)

lemma clock_length_counter_run:
  assumes "(l::'w::len word) \<noteq> 0"
  shows "((\<lambda>(l, act). clock_length_counter True l act) ^^ k) (l, act)
     = (if k < unat l then l - of_nat k else 0, act \<and> k < unat l)"
  using assms
proof (induction k arbitrary: l act)
  case 0
  then show ?case by (simp add: unat_gt_0)
next
  case (Suc k)
  have step: "clock_length_counter True l act = (l - 1, if l = 1 then False else act)"
    using Suc.prems by (simp add: clock_length_counter_def Let_def)
  have pred: "unat (l - 1) = unat l - 1" using Suc.prems by (rule unat_minus_one)
  show ?case
  proof (cases "l = 1")
    case True
    then show ?thesis
      using step by (simp add: funpow_Suc_right clock_length_counter_stopped del: funpow.simps)
  next
    case False
    have "((\<lambda>(l, act). clock_length_counter True l act) ^^ k) (l - 1, act)
        = (if k < unat (l - 1) then l - 1 - of_nat k else 0, act \<and> k < unat (l - 1))"
      using False by (intro Suc.IH) simp
    moreover have "k < unat (l - 1) \<longleftrightarrow> Suc k < unat l" using pred by auto
    ultimately show ?thesis
      using False by (simp add: funpow_Suc_right step del: funpow.simps)
  qed
qed

text \<open>Each channel clocks its counter by the same rule.\<close>

definition ch_length_view :: "'w::len word \<Rightarrow> bool \<Rightarrow> 'w word \<times> bool" where
  "ch_length_view l act = (l, act)"

lemma pulse_clock_length_run:
  assumes "pul_length_enabled p" "pul_length_counter p \<noteq> 0"
  shows "rt_active (pul_runtime ((pulse_clock_length ^^ k) p))
     = (rt_active (pul_runtime p) \<and> k < unat (pul_length_counter p))"
proof -
  have "pul_length_enabled ((pulse_clock_length ^^ k) p)
      \<and> (pul_length_counter ((pulse_clock_length ^^ k) p),
         rt_active (pul_runtime ((pulse_clock_length ^^ k) p)))
        = ((\<lambda>(l, act). clock_length_counter True l act) ^^ k)
            (pul_length_counter p, rt_active (pul_runtime p))" for k
    using assms(1)
    by (induction k) (auto simp: pulse_clock_length_def clock_length_counter_u8_def
        split: prod.splits simp flip: prod.inject)
  then show ?thesis
    using clock_length_counter_run[OF assms(2), of k "rt_active (pul_runtime p)"]
    by (metis snd_conv)
qed

lemma ch3_clock_length_run:
  assumes "ch3_length_enabled c" "ch3_length_counter c \<noteq> 0"
  shows "rt_active (ch3_runtime ((ch3_clock_length ^^ k) c))
     = (rt_active (ch3_runtime c) \<and> k < unat (ch3_length_counter c))"
proof -
  have "ch3_length_enabled ((ch3_clock_length ^^ k) c)
      \<and> (ch3_length_counter ((ch3_clock_length ^^ k) c),
         rt_active (ch3_runtime ((ch3_clock_length ^^ k) c)))
        = ((\<lambda>(l, act). clock_length_counter True l act) ^^ k)
            (ch3_length_counter c, rt_active (ch3_runtime c))" for k
    using assms(1)
    by (induction k) (auto simp: ch3_clock_length_def clock_length_counter_u16_def
        split: prod.splits simp flip: prod.inject)
  then show ?thesis
    using clock_length_counter_run[OF assms(2), of k "rt_active (ch3_runtime c)"]
    by (metis snd_conv)
qed

lemma ch4_clock_length_run:
  assumes "ch4_length_enabled c" "ch4_length_counter c \<noteq> 0"
  shows "rt_active (ch4_runtime ((ch4_clock_length ^^ k) c))
     = (rt_active (ch4_runtime c) \<and> k < unat (ch4_length_counter c))"
proof -
  have "ch4_length_enabled ((ch4_clock_length ^^ k) c)
      \<and> (ch4_length_counter ((ch4_clock_length ^^ k) c),
         rt_active (ch4_runtime ((ch4_clock_length ^^ k) c)))
        = ((\<lambda>(l, act). clock_length_counter True l act) ^^ k)
            (ch4_length_counter c, rt_active (ch4_runtime c))" for k
    using assms(1)
    by (induction k) (auto simp: ch4_clock_length_def clock_length_counter_u8_def
        split: prod.splits simp flip: prod.inject)
  then show ?thesis
    using clock_length_counter_run[OF assms(2), of k "rt_active (ch4_runtime c)"]
    by (metis snd_conv)
qed

lemma clock_length_all_parts:
  "ch1_pulse (channel_1 ((clock_length_all ^^ k) cs))
     = (pulse_clock_length ^^ k) (ch1_pulse (channel_1 cs))"
  "ch2_pulse (channel_2 ((clock_length_all ^^ k) cs))
     = (pulse_clock_length ^^ k) (ch2_pulse (channel_2 cs))"
  "channel_3 ((clock_length_all ^^ k) cs) = (ch3_clock_length ^^ k) (channel_3 cs)"
  "channel_4 ((clock_length_all ^^ k) cs) = (ch4_clock_length ^^ k) (channel_4 cs)"
  by (induction k) (simp_all add: clock_length_all_def ch1_clock_length_def ch1_map_pulse_def
      ch2_clock_length_def ch2_map_pulse_def)

subsection \<open>The pulse timer\<close>

definition pulse_free_running :: "pulse_channel \<Rightarrow> bool" where
  "pulse_free_running p \<longleftrightarrow> \<not> pul_first_trigger_after_power_on_pending p
     \<and> pul_trigger_delay_t_cycles p = 0 \<and> \<not> pul_timer_stopped_by_dac_disable p
     \<and> pul_pending_duty p = None"

lemma age_keeps:
  "pul_first_trigger_after_power_on_pending (pulse_age_just_sampled b p)
     = pul_first_trigger_after_power_on_pending p"
  "pul_trigger_delay_t_cycles (pulse_age_just_sampled b p) = pul_trigger_delay_t_cycles p"
  "pul_timer_stopped_by_dac_disable (pulse_age_just_sampled b p) = pul_timer_stopped_by_dac_disable p"
  "pul_pending_duty (pulse_age_just_sampled b p) = pul_pending_duty p"
  "pul_period_timer (pulse_age_just_sampled b p) = pul_period_timer p"
  "pul_duty_step (pulse_age_just_sampled b p) = pul_duty_step p"
  "pul_duty (pulse_age_just_sampled b p) = pul_duty p"
  by (simp_all add: pulse_age_just_sampled_def Let_def)

lemma pulse_tick_free_running:
  assumes "pulse_free_running p"
  shows "pulse_free_running (pulse_tick_fast_timer_with_clock_gate pv True p)"
    and "pul_duty (pulse_tick_fast_timer_with_clock_gate pv True p) = pul_duty p"
    and "1 < pul_period_timer p \<Longrightarrow>
      pul_period_timer (pulse_tick_fast_timer_with_clock_gate pv True p) = pul_period_timer p - 1
      \<and> pul_duty_step (pulse_tick_fast_timer_with_clock_gate pv True p) = pul_duty_step p"
    and "pul_period_timer p = 1 \<Longrightarrow>
      pul_period_timer (pulse_tick_fast_timer_with_clock_gate pv True p) = pulse_timer_reload pv
      \<and> pul_duty_step (pulse_tick_fast_timer_with_clock_gate pv True p)
        = (pul_duty_step p + 1) AND 0x07"
  using assms
  by (auto simp: pulse_free_running_def pulse_tick_fast_timer_with_clock_gate_def Let_def age_keeps
      pulse_clock_period_timer_def word_gt_0)

lemma pulse_ticks_within_period:
  assumes "pulse_free_running p" "k < unat (pul_period_timer p)"
  shows "let q = (pulse_tick_fast_timer_with_clock_gate pv True ^^ k) p
     in pulse_free_running q \<and> pul_duty q = pul_duty p \<and> pul_duty_step q = pul_duty_step p
        \<and> unat (pul_period_timer q) = unat (pul_period_timer p) - k"
  using assms(2)
proof (induction k)
  case 0
  then show ?case using assms(1) by simp
next
  case (Suc k)
  let ?q = "(pulse_tick_fast_timer_with_clock_gate pv True ^^ k) p"
  have q: "pulse_free_running ?q" "pul_duty ?q = pul_duty p" "pul_duty_step ?q = pul_duty_step p"
    "unat (pul_period_timer ?q) = unat (pul_period_timer p) - k"
    using Suc by (auto simp: Let_def)
  then have "1 < pul_period_timer ?q" using Suc.prems by (simp add: word_less_nat_alt)
  moreover from this have "pul_period_timer ?q \<noteq> 0" by auto
  ultimately show ?case
    using pulse_tick_free_running[OF q(1), of pv] q Suc.prems
    by (simp add: Let_def unat_minus_one)
qed

lemma pulse_full_period:
  assumes "pulse_free_running p" "pul_period_timer p \<noteq> 0"
  shows "let q = (pulse_tick_fast_timer_with_clock_gate pv True ^^ unat (pul_period_timer p)) p
     in pulse_free_running q \<and> pul_duty q = pul_duty p
        \<and> pul_duty_step q = (pul_duty_step p + 1) AND 0x07
        \<and> pul_period_timer q = pulse_timer_reload pv"
proof -
  obtain k where k: "unat (pul_period_timer p) = Suc k"
    using assms(2) by (cases "unat (pul_period_timer p)") (auto simp: unat_eq_0)
  let ?q = "(pulse_tick_fast_timer_with_clock_gate pv True ^^ k) p"
  have q: "pulse_free_running ?q" "pul_duty ?q = pul_duty p" "pul_duty_step ?q = pul_duty_step p"
    "unat (pul_period_timer ?q) = 1"
    using pulse_ticks_within_period[OF assms(1), of k pv] k by (auto simp: Let_def)
  then have "pul_period_timer ?q = 1" by (simp add: word_unat_eq_iff)
  then show ?thesis
    using pulse_tick_free_running[OF q(1), of pv] q by (simp add: k Let_def)
qed

lemma pulse_reload_not_zero: "pulse_timer_reload pv \<noteq> 0"
  using pulse_timer_reload_bounds(1)[of pv] by auto

lemma pulse_many_periods:
  assumes "pulse_free_running p" "pul_period_timer p = pulse_timer_reload pv"
  shows "let q = (pulse_tick_fast_timer_with_clock_gate pv True
                    ^^ (n * unat (pulse_timer_reload pv))) p
     in pulse_free_running q \<and> pul_duty q = pul_duty p
        \<and> pul_duty_step q = ((\<lambda>s. (s + 1) AND 0x07) ^^ n) (pul_duty_step p)
        \<and> pul_period_timer q = pulse_timer_reload pv"
proof (induction n)
  case 0
  then show ?case using assms by simp
next
  case (Suc n)
  let ?q = "(pulse_tick_fast_timer_with_clock_gate pv True ^^ (n * unat (pulse_timer_reload pv))) p"
  have q: "pulse_free_running ?q" "pul_duty ?q = pul_duty p"
    "pul_duty_step ?q = ((\<lambda>s. (s + 1) AND 0x07) ^^ n) (pul_duty_step p)"
    "pul_period_timer ?q = pulse_timer_reload pv"
    using Suc by (auto simp: Let_def)
  have split: "(pulse_tick_fast_timer_with_clock_gate pv True
        ^^ (Suc n * unat (pulse_timer_reload pv))) p
      = (pulse_tick_fast_timer_with_clock_gate pv True ^^ unat (pul_period_timer ?q)) ?q"
    by (simp add: q funpow_add)
  show ?case
    unfolding split using pulse_full_period[OF q(1), of pv] q pulse_reload_not_zero
    by (simp add: Let_def)
qed

lemma eight_duty_steps: "s \<le> 7 \<Longrightarrow> ((\<lambda>s. (s + 1) AND 0x07) ^^ 8) (s::u8) = s"
proof -
  have "\<forall>s\<in>set [0..<8]. ((\<lambda>s. (s + 1) AND 0x07) ^^ 8) (word_of_nat s :: u8) = word_of_nat s"
    by code_simp
  moreover assume "s \<le> 7"
  then have "unat s \<in> set [0..<8]" by (simp add: word_le_nat_alt)
  ultimately have "((\<lambda>s. (s + 1) AND 0x07) ^^ 8) (word_of_nat (unat s) :: u8) = word_of_nat (unat s)"
    by blast
  then show ?thesis by simp
qed

subsection \<open>A full turn of the frame sequencer\<close>

lemma fs_advance_fields:
  "fs_step (snd (fs_advance s)) = (fs_step s + 1) AND 0x07"
  "fs_length_clock_count (snd (fs_advance s)) = fs_length_clock_count s
     + (if frame_sequencer_step_clocks_length (fs_step s) then 1 else 0)"
  "fs_sweep_clock_count (snd (fs_advance s)) = fs_sweep_clock_count s
     + (if frame_sequencer_step_clocks_sweep (fs_step s) then 1 else 0)"
  "fs_envelope_clock_count (snd (fs_advance s)) = fs_envelope_clock_count s
     + (if frame_sequencer_step_clocks_envelope (fs_step s) then 1 else 0)"
  by (simp_all add: fs_advance_def Let_def frame_sequencer_clocks_def)

lemma funpow_8: "(f ^^ 8) x = f (f (f (f (f (f (f (f x)))))))"
  by (simp add: numeral_eq_Suc)

lemma fs_eight:
  assumes "fs_step s \<le> 7"
  shows "let t = ((\<lambda>s. snd (fs_advance s)) ^^ 8) s
     in fs_step t = fs_step s
        \<and> fs_length_clock_count t = fs_length_clock_count s + 4
        \<and> fs_sweep_clock_count t = fs_sweep_clock_count s + 2
        \<and> fs_envelope_clock_count t = fs_envelope_clock_count s + 1"
proof -
  have "unat (fs_step s) \<in> {0, 1, 2, 3, 4, 5, 6, 7}"
    using assms by (auto simp: word_le_nat_alt)
  then have "fs_step s \<in> {0, 1, 2, 3, 4, 5, 6, 7}"
    by (auto simp: word_unat_eq_iff)
  then show ?thesis
    by (elim insertE emptyE; simp add: fs_advance_fields funpow_8
        frame_sequencer_step_clocks_length_def frame_sequencer_step_clocks_sweep_def
        frame_sequencer_step_clocks_envelope_def)
qed

subsection \<open>Fade-out of a switched-off DAC\<close>

lemma fade_curve_monotone:
  "\<forall>k\<in>set [1..<209]. fade_curve k \<le> fade_curve (k + 1)"
  by code_simp

end
