(* ===== verification/Apu_Properties.thy ===== *)
theory Apu_Properties
  imports Apu_Laws Bus_Properties
begin

text \<open>
  The sound unit behind the bus and over time: its registers read back through the I/O page, the
  signal stays in its range along every history, and the length counters switch the channels off
  at the exact clock.
\<close>

subsection \<open>The APU behind the bus\<close>

definition apu_services :: "('x, 'ppu) io_services \<Rightarrow> (apu, 'ppu) io_services" where
  "apu_services svc =
     \<lparr>svc_ppu_read_register_with_source = svc_ppu_read_register_with_source svc,
      svc_ppu_read_register = svc_ppu_read_register svc,
      svc_ppu_write_register = svc_ppu_write_register svc,
      svc_apu_read_register = apu_read_register,
      svc_apu_read_pcm12 = read_pcm12,
      svc_apu_read_pcm34 = read_pcm34,
      svc_apu_on_div_apu_edge = on_div_apu_edge,
      svc_apu_write_register = write_register_for_speed_with_div_apu_signal\<rparr>"

definition sound_read_masks :: "(u16 \<times> u8) list" where
  "sound_read_masks =
     [(0xFF10, 0x80), (0xFF11, 0x3F), (0xFF12, 0x00), (0xFF13, 0xFF), (0xFF14, 0xBF),
      (0xFF15, 0xFF), (0xFF16, 0x3F), (0xFF17, 0x00), (0xFF18, 0xFF), (0xFF19, 0xBF),
      (0xFF1A, 0x7F), (0xFF1B, 0xFF), (0xFF1C, 0x9F), (0xFF1D, 0xFF), (0xFF1E, 0xBF),
      (0xFF1F, 0xFF), (0xFF20, 0xFF), (0xFF21, 0x00), (0xFF22, 0x00), (0xFF23, 0xBF),
      (0xFF24, 0x00), (0xFF25, 0x00)]"

subsection \<open>What a register shows after a write\<close>

lemma or_absorbs_mask: "m OR k = - 1 \<Longrightarrow> ((v::u8) AND m) OR k = v OR k"
  by (simp add: bit.disj_conj_distrib2)

lemma mask_read_bits:
  "((v::u8) AND 0x7F) OR 0x80 = v OR 0x80" "(v AND 0xC0) OR 0x3F = v OR 0x3F"
  "(v AND 0x40) OR 0xBF = v OR 0xBF" "(v AND 0x80) OR 0x7F = v OR 0x7F"
  "(v AND 0x60) OR 0x9F = v OR 0x9F" "v OR 0xFF = 0xFF"
proof -
  have "(0xFF::u8) = - 1" by simp
  then show "v OR 0xFF = 0xFF" by (metis or.left_commute bit.disj_one_right)
qed (rule or_absorbs_mask, simp)+

lemma mask_read_bits_normal:
  "((v::u8) AND 71) OR 191 = v OR 191" "(v AND - 129) OR 128 = v OR 128"
  by (rule or_absorbs_mask, simp)+

fun ch1_mask :: "channel1_register \<Rightarrow> u8" where
  "ch1_mask channel1_register.Nr10 = 0x80" | "ch1_mask channel1_register.Nr11 = 0x3F"
| "ch1_mask channel1_register.Nr12 = 0x00" | "ch1_mask channel1_register.Nr13 = 0xFF"
| "ch1_mask channel1_register.Nr14 = 0xBF"

fun ch2_mask :: "channel2_register \<Rightarrow> u8" where
  "ch2_mask channel2_register.Nr21 = 0x3F" | "ch2_mask channel2_register.Nr22 = 0x00"
| "ch2_mask channel2_register.Nr23 = 0xFF" | "ch2_mask channel2_register.Nr24 = 0xBF"

fun ch3_mask :: "channel3_register \<Rightarrow> u8" where
  "ch3_mask channel3_register.Nr30 = 0x7F" | "ch3_mask channel3_register.Nr31 = 0xFF"
| "ch3_mask channel3_register.Nr32 = 0x9F" | "ch3_mask channel3_register.Nr33 = 0xFF"
| "ch3_mask channel3_register.Nr34 = 0xBF"

fun ch4_mask :: "channel4_register \<Rightarrow> u8" where
  "ch4_mask channel4_register.Nr41 = 0xFF" | "ch4_mask channel4_register.Nr42 = 0x00"
| "ch4_mask channel4_register.Nr43 = 0x00" | "ch4_mask channel4_register.Nr44 = 0xBF"

lemma ch1_run_sweep_registers:
  "ch1_nr10 (ch1_run_sweep f c) = ch1_nr10 c" "ch1_nr11 (ch1_run_sweep f c) = ch1_nr11 c"
  "ch1_nr12 (ch1_run_sweep f c) = ch1_nr12 c"
  by (simp_all add: ch1_run_sweep_def split: prod.split)

lemma ch1_trigger_nr14: "ch1_trigger m rvn s b c = (z, d) \<Longrightarrow> ch1_nr14 d = ch1_nr14 c"
  by (auto simp: ch1_trigger_def Let_def split: prod.splits)

lemma ch1_without_trigger_nr14: "ch1_nr14 (ch1_write_nr14_without_trigger m c) = ch1_nr14 c"
  by (simp add: ch1_write_nr14_without_trigger_def Let_def ch1_map_pulse_def
      ch1_map_recalculation_def)

lemma ch1_nr14_after_write:
  "\<exists>x. ch1_nr14 (ch1_write_nr14 v m rvn s st c) = v AND 0x47
     \<or> ch1_nr14 (ch1_write_nr14 v m rvn s st c) = ((v AND NOT 7) OR (x AND 7)) AND 0x47"
  by (auto simp: ch1_write_nr14_def Let_def begin_nrx4_write_def NRX4_WRITABLE_MASK_def
      PERIOD_HIGH_MASK_def ch1_map_pulse_def ch1_map_recalculation_def ch1_without_trigger_nr14
      dest!: ch1_trigger_nr14 split: prod.split)

lemma ch1_effective_bit:
  "(((w AND NOT 7) OR (x AND 7)) AND 0x47) AND 0x40 = (w::u8) AND 0x40"
  "(w AND 0x47) AND 0x40 = w AND 0x40"
  by (simp_all add: bit.conj_disj_distrib2 and.assoc)

lemma ch1_reads_back: "ch1_read_register r (ch1_write_register r v m rvn s st c) = v OR ch1_mask r"
proof (cases r)
  case Nr14
  have "ch1_nr14 (ch1_write_nr14 v m rvn s st c) AND 0x40 = v AND 0x40"
    using ch1_nr14_after_write[of v m rvn s st c] ch1_effective_bit by metis
  then show ?thesis
    using Nr14 by (simp add: ch1_read_register_def ch1_write_register_def mask_read_bits mask_read_bits_normal)
qed (simp_all add: ch1_read_register_def ch1_write_register_def ch1_write_nr10_def
    ch1_write_nr11_def ch1_write_nr12_def ch1_map_pulse_def Let_def ch1_run_sweep_registers
    mask_read_bits mask_read_bits_normal)

lemma ch2_reads_back: "ch2_read_register r (ch2_write_register r v m s st c) = v OR ch2_mask r"
proof (cases r)
  case Nr24
  have "ch2_nr24 (ch2_write_nr24 v m s st c) = v AND 0x47"
    by (auto simp: ch2_defs Let_def apu_defs split: prod.splits)
  then have "ch2_nr24 (ch2_write_nr24 v m s st c) AND 0x40 = v AND 0x40"
    by (simp add: ch1_effective_bit(2))
  then show ?thesis
    using Nr24
    by (simp add: mask_read_bits mask_read_bits_normal ch2_read_register_def ch2_write_register_def
        ch2_read_nr24_def)
qed (simp_all add: ch2_read_register_def ch2_write_register_def ch2_defs Let_def
    ch2_read_nr21_def mask_read_bits mask_read_bits_normal)

lemma ch3_trigger_nr34: "ch3_trigger m c = (z, d) \<Longrightarrow> ch3_nr34 d = ch3_nr34 c"
  by (auto simp: ch3_trigger_def Let_def apply_dmg_retrigger_wave_ram_corruption_def ch3_store_def)

lemma ch3_reads_back: "ch3_read_register r (ch3_write_register r v m st c) = v OR ch3_mask r"
proof (cases r)
  case Nr34
  have "ch3_nr34 (ch3_write_nr34 v m st c) = v AND 0x47"
    by (auto simp: ch3_write_nr34_def Let_def begin_nrx4_write_def NRX4_WRITABLE_MASK_def
        ch3_apply_extra_length_clocking_on_enable_def dest!: ch3_trigger_nr34 split: prod.split)
  then have "ch3_nr34 (ch3_write_nr34 v m st c) AND 0x40 = v AND 0x40"
    by (simp add: ch1_effective_bit(2))
  then show ?thesis
    using Nr34 by (simp add: ch3_read_register_def ch3_write_register_def mask_read_bits mask_read_bits_normal)
qed (simp_all add: ch3_read_register_def ch3_write_register_def ch3_write_nr30_def
    ch3_write_nr32_def Let_def mask_read_bits mask_read_bits_normal)

lemma ch4_live_only:
  "ch4_nr44 (ch4_map_live f c) = ch4_nr44 c" "ch4_nr44 (ch4_map_noise g c) = ch4_nr44 c"
  by (simp_all add: ch4_map_defs)

lemma glitch_nr44: "hidden_counter_start_glitch c = (d, x) \<Longrightarrow> ch4_nr44 d = ch4_nr44 c"
  by (auto simp: hidden_counter_start_glitch_def Let_def increment_hidden_counter_def ch4_live_only
      split: if_splits)

lemma prepare_nr44: "ch4_nr44 (prepare_hidden_counter_start c) = ch4_nr44 c"
proof -
  obtain d divisor i g where eq: "hidden_counter_start_glitch (hidden_counter_flags c) = (d, divisor, i, g)"
    by (metis prod_cases4)
  have "ch4_nr44 d = ch4_nr44 c"
    using glitch_nr44[OF eq] by (simp add: hidden_counter_flags_def Let_def ch4_live_only)
  then show ?thesis
    by (simp add: prepare_hidden_counter_start_def Let_def eq ch4_live_only)
qed

lemma ch4_trigger_nr44: "ch4_trigger b c = (z, d) \<Longrightarrow> ch4_nr44 d = ch4_nr44 c"
  by (auto simp: ch4_trigger_def Let_def ch4_apply_envelope_write_def ch4_reload_period_timer_def
      ch4_live_only prepare_nr44)

lemma ch4_trigger_for_write_nr44: "ch4_trigger_for_write m p c = (q, d) \<Longrightarrow> ch4_nr44 d = ch4_nr44 c"
  by (auto simp: ch4_trigger_for_write_def Let_def dest!: ch4_trigger_nr44 split: if_splits prod.splits)

lemma ch4_reads_back: "ch4_read_register r (ch4_write_register r v m st c) = v OR ch4_mask r"
proof (cases r)
  case Nr44
  have "ch4_nr44 (ch4_write_nr44 v m st c) = v AND 0x40"
    by (auto simp: ch4_write_nr44_def Let_def begin_nrx4_write_def NR44_WRITABLE_MASK_def
        ch4_apply_extra_length_clocking_on_enable_def dest!: ch4_trigger_for_write_nr44
        split: prod.split)
  then show ?thesis
    using Nr44 by (simp add: ch4_read_register_def ch4_write_register_def mask_read_bits mask_read_bits_normal)
next
  case Nr43
  then show ?thesis
    by (simp add: ch4_read_register_def ch4_write_register_def ch4_write_nr43_for_model_def Let_def
        ch4_reload_period_timer_def ch4_map_defs ch4_decode_nr43_def split: prod.split)
qed (simp_all add: ch4_read_register_def ch4_write_register_def ch4_write_nr42_def Let_def
    ch4_apply_live_envelope_write_effect_def mask_read_bits mask_read_bits_normal)

lemma apu_frame_simps [simp]:
  "apu_channels (apu_preview_output_path a) = apu_channels a"
  "apu_master (apu_preview_output_path a) = apu_master a"
  "apu_console_model (apu_preview_output_path a) = apu_console_model a"
  "apu_startup_silent_channel_mask (apu_preview_output_path a) = apu_startup_silent_channel_mask a"
  "apu_channels (record_register_write_observation ad v b a) = apu_channels a"
  "apu_master (record_register_write_observation ad v b a) = apu_master a"
  "apu_console_model (record_register_write_observation ad v b a) = apu_console_model a"
  "apu_channels (clear_startup_silent_channel_mask k a) = apu_channels a"
  "apu_master (clear_startup_silent_channel_mask k a) = apu_master a"
  by (simp_all add: apu_preview_output_path_def record_register_write_observation_def
      clear_startup_silent_channel_mask_def split: option.split)

fun owner_mask :: "apu_owner \<Rightarrow> u8" where
  "owner_mask (OwnerChannel1 r) = ch1_mask r"
| "owner_mask (OwnerChannel2 r) = ch2_mask r"
| "owner_mask (OwnerChannel3 r) = ch3_mask r"
| "owner_mask (OwnerChannel4 r) = ch4_mask r"
| "owner_mask (OwnerMaster r) = 0"
| "owner_mask OwnerUnused = 0xFF"

lemma register_reads_back:
  assumes "master_powered (apu_master a)" "r \<noteq> Nr52"
  shows "read_apu_register r (write_apu_register r v s hi a) = v OR owner_mask (apu_register_owner r)"
proof -
  have "apu_register_owner r \<noteq> OwnerMaster MasterNr52"
    using assms(2) by (cases r) (simp_all add: apu_register_owner_def)
  then show ?thesis
    using assms(1)
    by (cases "apu_register_owner r")
      (auto simp: read_apu_register_def write_apu_register_def Let_def write_channel_1_register_def
        write_channel_2_register_def write_channel_3_register_def write_channel_4_register_def
        apu_map_channels_def ch1_reads_back ch2_reads_back ch3_reads_back ch4_reads_back
        read_master_register_def write_master_register_def APU_UNMAPPED_READ_VALUE_def
        mask_read_bits split: master_register.split)
qed

lemma sound_mask_is_owner_mask:
  "map_of sound_read_masks ad = Some k \<Longrightarrow>
   \<exists>r. apu_mmio_decode ad = ApuRegister r \<and> r \<noteq> Nr52 \<and> owner_mask (apu_register_owner r) = k"
  by (auto simp: sound_read_masks_def apu_mmio_decode_def apu_register_addresses_def
      apu_register_owner_def split: if_splits)

lemma apu_register_read_back:
  assumes "map_of sound_read_masks ad = Some k" "master_powered (apu_master a)"
  shows "apu_read_register ad (write_register_for_speed_with_div_apu_signal ad v s hi a) = v OR k"
proof -
  obtain r where r: "apu_mmio_decode ad = ApuRegister r" "r \<noteq> Nr52"
    "owner_mask (apu_register_owner r) = k"
    using sound_mask_is_owner_mask[OF assms(1)] by blast
  have same: "read_apu_register r (record_register_write_observation ad v b (apu_preview_output_path x))
      = read_apu_register r x" if "r \<noteq> Nr52" for b x
    using that by (cases r) (simp_all add: read_apu_register_def apu_register_owner_def
        read_master_register_def)
  show ?thesis
    using r register_reads_back[of "a\<lparr>apu_last_register_write := None\<rparr>" r v s hi] assms(2)
    by (simp add: apu_read_register_def write_register_for_speed_with_div_apu_signal_def Let_def same)
qed


definition sound_kinds :: "io_register_kind list" where
  "sound_kinds =
     [RegNr10, RegNr11, RegNr12, RegNr13, RegNr14, RegNr21, RegNr22, RegNr23, RegNr24, RegNr30,
      RegNr31, RegNr32, RegNr33, RegNr34, RegNr41, RegNr42, RegNr43, RegNr44, RegNr50, RegNr51]"

definition routes_to_the_apu :: "u16 \<Rightarrow> u8 \<Rightarrow> bool" where
  "routes_to_the_apu ad k =
     (case describe_io_register ad of
        None \<Rightarrow> False
      | Some info \<Rightarrow>
          if io_implementation info = IoUnavailable then k = 0xFF
          else io_implementation info = IoImplemented \<and> io_availability info = AvailShared
            \<and> io_owner info = io_register_owner.OwnerApu \<and> io_kind info \<in> set sound_kinds)"

lemma sound_addresses_route: "list_all (\<lambda>(ad, k). routes_to_the_apu ad k) sound_read_masks"
  by code_simp

lemma sound_register_is_described:
  assumes "map_of sound_read_masks ad = Some k"
  shows "(\<exists>info. describe_io_register ad = Some info \<and> io_implementation info = IoUnavailable
            \<and> k = 0xFF)
     \<or> (\<exists>info. describe_io_register ad = Some info \<and> io_implementation info = IoImplemented
            \<and> io_availability info = AvailShared \<and> io_owner info = io_register_owner.OwnerApu
            \<and> io_kind info \<in> set sound_kinds)"
proof -
  have "routes_to_the_apu ad k"
    using sound_addresses_route map_of_SomeD [OF assms] by (auto simp: list_all_iff)
  then show ?thesis by (auto simp: routes_to_the_apu_def split: option.splits if_splits)
qed

text \<open>C36. Sound registers through the I/O page of the bus: writing any value to one of the addresses FF10 to
  FF25 while the sound unit is powered and reading the address back gives that value with the
  write-only bits of the register set, whatever the channels are doing (retriggers, sweep
  updates and envelope glitches included); the two reserved addresses read FF.\<close>

theorem sound_registers_read_back:
  fixes svc :: "('x, 'ppu) io_services"
  assumes "map_of sound_read_masks ad = Some k" "wv_apu io = Some a"
    and "master_powered (apu_master a)"
  shows "\<exists>io' b. write_io_target (apu_services svc) m mode ad v io d = Inr (d, io')
     \<and> wv_apu io' = Some b
     \<and> read_io_target (apu_services svc) m mode ad (rio\<lparr>rv_apu := Some b\<rparr>) d = Inr (v OR k)"
  using sound_register_is_described[OF assms(1)]
proof (elim disjE exE conjE)
  fix info assume "describe_io_register ad = Some info" "io_implementation info = IoUnavailable"
    "k = 0xFF"
  then show ?thesis
    using assms(2) by (simp add: write_io_target_def read_io_target_def io_register_is_routed_def
        BLOCKED_READ_VALUE_def mask_read_bits)
next
  fix info assume i: "describe_io_register ad = Some info" "io_implementation info = IoImplemented"
    "io_availability info = AvailShared" "io_owner info = io_register_owner.OwnerApu"
    "io_kind info \<in> set sound_kinds"
  let ?hi = "map_or False (current_div_apu_signal_for_speed (view_speed_mode io)) (wv_timer io)"
  let ?b = "write_register_for_speed_with_div_apu_signal ad v (view_speed_mode io) ?hi a"
  have routed: "io_register_is_routed info m mode"
    using i by (simp add: io_register_is_routed_def io_register_kind_is_available_def)
  have w: "write_io_component (apu_services svc) info ad v io = Inr (io\<lparr>wv_apu := Some ?b\<rparr>)"
    using i(4,5) assms(2)
    by (auto simp: write_io_component_def write_io_by_owner_def write_apu_through_def Let_def
        sound_kinds_def apu_services_def)
  have r: "read_io_kind (apu_services svc) info ad (rio\<lparr>rv_apu := Some ?b\<rparr>) d
      = Inr (apu_read_register ad ?b)"
    using i(4,5)
    by (auto simp: read_io_kind_def read_io_by_owner_def sound_kinds_def apu_services_def
        map_or_def)
  have "io_kind info \<noteq> RegRp" using i(5) by (auto simp: sound_kinds_def)
  then show ?thesis
    using i(1) routed w r apu_register_read_back[OF assms(1,3)]
    by (simp add: write_io_target_def read_io_target_def)
qed

definition powered_apu :: apu where
  "powered_apu =
     (let a = apu_new GameBoy in a\<lparr>apu_master := (apu_master a)\<lparr>master_powered := True\<rparr>\<rparr>)"

lemma powered_apu_is_powered: "master_powered (apu_master powered_apu)"
  by (simp add: powered_apu_def Let_def)

lemma sound_registers_read_back_witness:
  "\<exists>io' b. write_io_target (apu_services silent_services) GameBoy ModeDmg
       0xFF11 0xC5 (write_view_default\<lparr>wv_apu := Some powered_apu\<rparr>) iohram_new = Inr (iohram_new, io')
     \<and> wv_apu io' = Some b
     \<and> read_io_target (apu_services silent_services) GameBoy ModeDmg 0xFF11
         (read_view_default\<lparr>rv_apu := Some b\<rparr>) iohram_new = Inr (0xC5 OR 0x3F)"
  by (rule sound_registers_read_back [where a = powered_apu]) (simp_all add: sound_read_masks_def powered_apu_is_powered)

subsection \<open>The signal stays in its range\<close>

text \<open>C34. The sound unit keeps its promises along every history: whatever sequence of register
  writes, T-cycles, divider edges and startup states follows power-on (a restored save state is
  not part of such a history), the four digital outputs
  are 4-bit values, a channel that plays has its converter on, the frame sequencer is at one of
  its eight steps, and both sides of the host sample stay within twice the largest mixed signal,
  so that the narrowing of the filtered sample to 32 bits never changes it.\<close>

theorem apu_signal_stays_in_range:
  "let a = fold apu_step ops (apu_new m)
   in list_all (\<lambda>v. v \<le> 15) (co_digital_outputs (apu_channel_output_state a))
      \<and> length (co_digital_outputs (apu_channel_output_state a)) = 4
      \<and> filter (\<lambda>r. rt_active (cro_runtime r) \<and> \<not> rt_dac_enabled (cro_runtime r))
          (channels_resolved (apu_channels a)) = []
      \<and> fs_step (apu_frame_sequencer a) \<le> 7
      \<and> \<bar>left (host_output_sample a)\<bar> \<le> 960000000
      \<and> \<bar>right (host_output_sample a)\<bar> \<le> 960000000"
proof -
  have wf: "apu_wf (fold apu_step ops (apu_new m))" by (rule apu_wf_history[OF apu_wf_new])
  then show ?thesis
    using apu_outputs_le[OF wf] active_has_dac
    by (auto simp: Let_def apu_wf_def output_path_wf_def stereo_bound_def output_consts
        host_output_sample_def filter_empty_conv)
qed

subsection \<open>Length counters\<close>

lemma loaded_lengths:
  "unat (pulse_length_counter_from_load v) = 64 - unat v mod 64"
  "unat (wave_length_counter_from_load v) = 256 - unat v"
  "pulse_length_counter_from_load v \<noteq> 0" "wave_length_counter_from_load v \<noteq> 0"
proof -
  have m: "unat (v AND 0x3F) = unat v mod 64"
    using unat_and_low_bits [of v 6] by (simp add: mask_eq_exp_minus_1)
  show p: "unat (pulse_length_counter_from_load v) = 64 - unat v mod 64"
    using m by (simp add: pulse_length_counter_from_load_def PULSE_LENGTH_COUNTER_RELOAD_def
        unat_sub_if')
  have u: "unat (ucast v :: u16) = unat v"
    using unsigned_less [of v, where ?'a = nat] by (simp add: unsigned_ucast_eq take_bit_nat_eq_self_iff)
  have "unat v < 256" using unsigned_less[of v] by simp
  then show w: "unat (wave_length_counter_from_load v) = 256 - unat v"
    by (simp add: wave_length_counter_from_load_def WAVE_LENGTH_COUNTER_RELOAD_def unat_sub_if' u)
  show "pulse_length_counter_from_load v \<noteq> 0"
    using p by (auto simp: unat_eq_0[symmetric] simp del: unat_eq_0)
  show "wave_length_counter_from_load v \<noteq> 0"
    using w \<open>unat v < 256\<close> by (auto simp: unat_eq_0[symmetric] simp del: unat_eq_0)
qed

text \<open>Length counters: after the length registers of the four channels were loaded with
  any four values and the counters enabled, a channel that plays keeps playing through exactly
  the first 64 minus the low six bits (256 minus the value for the wave channel) clocks of the
  frame sequencer but one, is switched off by the last one, and is never switched on by one.\<close>

theorem length_counters_stop_the_channels:
  assumes "pul_length_enabled (ch1_pulse (channel_1 cs))"
    and "pul_length_counter (ch1_pulse (channel_1 cs)) = pulse_length_counter_from_load v1"
    and "pul_length_enabled (ch2_pulse (channel_2 cs))"
    and "pul_length_counter (ch2_pulse (channel_2 cs)) = pulse_length_counter_from_load v2"
    and "ch3_length_enabled (channel_3 cs)"
    and "ch3_length_counter (channel_3 cs) = wave_length_counter_from_load v3"
    and "ch4_length_enabled (channel_4 cs)"
    and "ch4_length_counter (channel_4 cs) = pulse_length_counter_from_load v4"
  shows "map (\<lambda>r. rt_active (cro_runtime r)) (channels_resolved ((clock_length_all ^^ k) cs))
     = [rt_active (pul_runtime (ch1_pulse (channel_1 cs))) \<and> k < 64 - unat v1 mod 64,
        rt_active (pul_runtime (ch2_pulse (channel_2 cs))) \<and> k < 64 - unat v2 mod 64,
        rt_active (ch3_runtime (channel_3 cs)) \<and> k < 256 - unat v3,
        rt_active (ch4_runtime (channel_4 cs)) \<and> k < 64 - unat v4 mod 64]"
  using assms pulse_clock_length_run[of "ch1_pulse (channel_1 cs)" k]
    pulse_clock_length_run[of "ch2_pulse (channel_2 cs)" k] ch3_clock_length_run[of "channel_3 cs" k]
    ch4_clock_length_run[of "channel_4 cs" k]
  by (simp add: channels_resolved_def clock_length_all_parts loaded_lengths)

definition all_channels_playing :: apu_channels where
  "all_channels_playing =
     (let run = \<lparr>rt_dac_enabled = True, rt_active = True\<rparr>;
          p = pulse_default\<lparr>pul_runtime := run, pul_length_enabled := True,
                pul_length_counter := 5\<rparr>;
          cs = channels_default
      in cs\<lparr>channel_1 := (channel_1 cs)\<lparr>ch1_pulse := p\<rparr>,
            channel_2 := (channel_2 cs)\<lparr>ch2_pulse := p\<rparr>,
            channel_3 := (channel_3 cs)\<lparr>ch3_runtime := run, ch3_length_enabled := True,
                            ch3_length_counter := 6\<rparr>,
            channel_4 := (channel_4 cs)\<lparr>ch4_runtime := run, ch4_length_enabled := True,
                            ch4_length_counter := 5\<rparr>\<rparr>)"

lemma length_counters_stop_the_channels_witness:
  "map (\<lambda>r. rt_active (cro_runtime r))
     (channels_resolved ((clock_length_all ^^ 5) all_channels_playing)) = [False, False, True, False]"
  using length_counters_stop_the_channels[of all_channels_playing 59 59 250 59 5]
  by (simp add: all_channels_playing_def Let_def pulse_length_counter_from_load_def
      wave_length_counter_from_load_def PULSE_LENGTH_COUNTER_RELOAD_def
      WAVE_LENGTH_COUNTER_RELOAD_def)

end
