(* ===== verification/Apu_Signals.thy ===== *)
theory Apu_Signals
  imports Apu_Laws
begin

text \<open>
  What the sound unit plays: the waveform of a free-running pulse channel at every T-cycle, the
  cycle of the short noise register, the fade-out of a converter that was switched off, and what
  the period registers of channel 1 do to a pending sweep calculation.
\<close>

subsection \<open>The pulse waveform\<close>

lemma duty_steps:
  "s \<le> 7 \<Longrightarrow> unat (((\<lambda>s. (s + 1) AND 0x07) ^^ n) (s::u8)) = (unat s + n) mod 8"
proof (induction n)
  case 0
  then show ?case by (simp add: word_le_nat_alt)
next
  case (Suc n)
  have step: "unat ((x + 1) AND (0x07::u8)) = (unat x + 1) mod 8" if "unat x < 8" for x :: u8
    using that unat_and_low_bits [of "x + 1" 3] by (simp add: mask_eq_exp_minus_1 unat_word_ariths)
  show ?case
    using Suc step[of "((\<lambda>s. (s + 1) AND 0x07) ^^ n) s"] by (simp add: mod_Suc_eq)
qed

lemma pulse_reload_value: "unat (pulse_timer_reload pv) = 4 * (2048 - unat pv mod 2048)"
proof -
  have m: "unat (pv AND PULSE_PERIOD_MAX) = unat pv mod 2048"
    using unat_and_low_bits [of pv 11] by (simp add: PULSE_PERIOD_MAX_def mask_eq_exp_minus_1)
  then have "unat (2048 - (pv AND PULSE_PERIOD_MAX)) = 2048 - unat pv mod 2048"
    by (simp add: unat_sub_if')
  moreover have "unat (x * 4) = 4 * unat x" if "unat x \<le> 2048" for x :: u16
    using that by (simp add: unat_word_ariths)
  ultimately have "unat ((2048 - (pv AND PULSE_PERIOD_MAX)) * 4) = 4 * (2048 - unat pv mod 2048)"
    by (metis diff_le_self)
  then show ?thesis
    by (simp add: pulse_timer_reload_def mult.commute)
qed

definition duty_is_high :: "nat \<Rightarrow> nat \<Rightarrow> bool" where
  "duty_is_high duty k =
     (if duty = 0 then k = 7
      else if duty = 1 then k = 7 \<or> k = 0
      else if duty = 2 then k = 5 \<or> k = 6 \<or> k = 7 \<or> k = 0
      else k \<noteq> 7 \<and> k \<noteq> 0)"

lemma duty_table:
  "\<forall>d\<in>set [0..<4]. \<forall>k\<in>set [0..<8]. PULSE_DUTY_PATTERNS ! d ! k = duty_is_high d k"
  by code_simp

lemma waveform_high_by_duty:
  "pulse_waveform_high duty s = duty_is_high (unat (duty AND 3)) (unat s mod 8)"
proof -
  have "unat (duty AND 0x03) = unat duty mod 4" "unat (s AND 0x07) = unat s mod 8"
    using unat_and_low_bits [of duty 2] unat_and_low_bits [of s 3] by (simp_all add: mask_eq_exp_minus_1)
  then show ?thesis using duty_table by (simp add: pulse_waveform_high_def)
qed

lemma tick_keeps_level:
  "pul_runtime (pulse_tick_fast_timer_with_clock_gate pv g p) = pul_runtime p"
  "pul_envelope (pulse_tick_fast_timer_with_clock_gate pv g p) = pul_envelope p"
  "\<not> pul_suppress_initial_trigger_output p \<Longrightarrow>
     \<not> pul_suppress_initial_trigger_output (pulse_tick_fast_timer_with_clock_gate pv g p)"
  by (simp_all add: pulse_tick_fast_timer_with_clock_gate_def pulse_age_just_sampled_def
      pulse_clock_period_timer_def Let_def split: option.split)

lemma ticks_keep_level:
  assumes "\<not> pul_suppress_initial_trigger_output p"
  shows "pul_runtime ((pulse_tick_fast_timer_with_clock_gate pv g ^^ t) p) = pul_runtime p
    \<and> pul_envelope ((pulse_tick_fast_timer_with_clock_gate pv g ^^ t) p) = pul_envelope p
    \<and> \<not> pul_suppress_initial_trigger_output ((pulse_tick_fast_timer_with_clock_gate pv g ^^ t) p)"
  using assms by (induction t) (simp_all add: tick_keeps_level)

text \<open>C35. The waveform of a pulse channel. Take a channel that plays, with no start-up phase pending
  (first trigger after power-on, trigger delay, stopped timer, duty change or muted first step)
  and its timer freshly reloaded for the period value in its registers. After any number t of
  T-cycles of its clock it is at the duty step advanced by t div (4 * (2048 - period)) modulo
  eight, its timer holds the T-cycles that are left of this step, and its digital output is the
  volume in the steps the duty cycle is high in (7; 7 and 0; 5 to 0; 1 to 6) and zero in the
  others: a wave of 32 * (2048 - period) T-cycles with 1, 2, 4 or 6 of its eight steps high.\<close>

theorem pulse_wave_has_its_period:
  assumes "pulse_free_running p" "pul_period_timer p = pulse_timer_reload pv" "pul_duty_step p \<le> 7"
    and "rt_active (pul_runtime p)" "\<not> pul_suppress_initial_trigger_output p"
  shows "let q = (pulse_tick_fast_timer_with_clock_gate pv True ^^ t) p;
         step_length = 4 * (2048 - unat pv mod 2048);
         step = (unat (pul_duty_step p) + t div step_length) mod 8
     in unat (pul_duty_step q) = step
        \<and> unat (pul_period_timer q) = step_length - t mod step_length
        \<and> pulse_current_digital_output q
            = (if duty_is_high (unat (pul_duty p AND 3)) step then env_current_volume (pul_envelope p) else 0)"
proof -
  let ?P = "4 * (2048 - unat pv mod 2048)"
  have P: "unat (pulse_timer_reload pv) = ?P" by (rule pulse_reload_value)
  let ?q = "(pulse_tick_fast_timer_with_clock_gate pv True ^^ ((t div ?P) * ?P)) p"
  have q: "pulse_free_running ?q" "pul_duty ?q = pul_duty p"
    "pul_duty_step ?q = ((\<lambda>s. (s + 1) AND 0x07) ^^ (t div ?P)) (pul_duty_step p)"
    "unat (pul_period_timer ?q) = ?P"
    using pulse_many_periods[OF assms(1,2), of "t div ?P"] P by (auto simp: Let_def)
  have "t mod ?P < ?P" by simp
  then have r: "t mod ?P < unat (pul_period_timer ?q)" using q(4) by simp
  have "t mod ?P + t div ?P * ?P = t" by (rule mod_div_mult_eq)
  then have "(pulse_tick_fast_timer_with_clock_gate pv True ^^ t) p
      = (pulse_tick_fast_timer_with_clock_gate pv True ^^ (t mod ?P)) ?q"
    by (metis comp_apply funpow_add)
  note t = this
  have inside: "pul_duty ((pulse_tick_fast_timer_with_clock_gate pv True ^^ t) p) = pul_duty p"
    "pul_duty_step ((pulse_tick_fast_timer_with_clock_gate pv True ^^ t) p) = pul_duty_step ?q"
    "unat (pul_period_timer ((pulse_tick_fast_timer_with_clock_gate pv True ^^ t) p)) = ?P - t mod ?P"
    using pulse_ticks_within_period[OF q(1) r, of pv] unfolding t q(2,4) Let_def by blast+
  have "unat (pul_duty_step ?q) = (unat (pul_duty_step p) + t div ?P) mod 8"
    unfolding q(3) by (rule duty_steps[OF assms(3)])
  then have step: "unat (pul_duty_step ((pulse_tick_fast_timer_with_clock_gate pv True ^^ t) p))
      = (unat (pul_duty_step p) + t div ?P) mod 8"
    unfolding inside(2) .
  let ?r = "(pulse_tick_fast_timer_with_clock_gate pv True ^^ t) p"
  have "pulse_current_digital_output ?r
      = (if pulse_waveform_high (pul_duty ?r) (pul_duty_step ?r) then env_current_volume (pul_envelope p) else 0)"
    using ticks_keep_level[OF assms(5), of t pv True] assms(4) by (simp add: pulse_current_digital_output_def)
  then have "pulse_current_digital_output ?r
      = (if duty_is_high (unat (pul_duty p AND 3)) ((unat (pul_duty_step p) + t div ?P) mod 8)
         then env_current_volume (pul_envelope p) else 0)"
    unfolding waveform_high_by_duty inside(1) step mod_mod_trivial .
  then show ?thesis unfolding Let_def using step inside(3) by blast
qed

definition playing_pulse :: pulse_channel where
  "playing_pulse =
     pulse_default\<lparr>pul_period_timer := 4, pul_duty_step := 6, pul_duty := 1,
       pul_runtime := \<lparr>rt_dac_enabled = True, rt_active = True\<rparr>\<rparr>"

lemma pulse_wave_has_its_period_witness:
  "unat (pul_duty_step ((pulse_tick_fast_timer_with_clock_gate 0x07FF True ^^ 13) playing_pulse)) = 1"
proof -
  have "pulse_free_running playing_pulse" "pul_period_timer playing_pulse = pulse_timer_reload 0x07FF"
    "pul_duty_step playing_pulse \<le> 7" "rt_active (pul_runtime playing_pulse)"
    "\<not> pul_suppress_initial_trigger_output playing_pulse"
    by (simp_all add: playing_pulse_def pulse_free_running_def pulse_default_def pulse_timer_reload_def
        PULSE_PERIOD_MAX_def)
  from pulse_wave_has_its_period [OF this, of 13] show ?thesis
    by (simp add: Let_def playing_pulse_def)
qed

subsection \<open>The short noise register\<close>

definition lfsr7_step :: "int \<Rightarrow> int" where
  "lfsr7_step x = x div 2 + (if x mod 2 = (x div 2) mod 2 then 64 else 0)"

primrec lfsr7_orbit :: "nat \<Rightarrow> int \<Rightarrow> int list" where
  "lfsr7_orbit 0 x = []"
| "lfsr7_orbit (Suc n) x = x # lfsr7_orbit n (lfsr7_step x)"

lemma lfsr7_orbit_nth: "i < n \<Longrightarrow> lfsr7_orbit n x ! i = (lfsr7_step ^^ i) x"
  by (induction n arbitrary: i x) (auto simp: nth_Cons funpow_swap1 split: nat.split)

lemma lfsr7_orbit_length [simp]: "length (lfsr7_orbit n x) = n"
  by (induction n arbitrary: x) simp_all

lemma lfsr7_orbit_distinct: "distinct (lfsr7_orbit 127 0)"
  by code_simp

lemma lfsr7_orbit_covers: "\<forall>x\<in>set [0..126]. x \<in> set (lfsr7_orbit 127 0)"
  by code_simp

lemma lfsr7_orbit_closes: "lfsr7_step (last (lfsr7_orbit 127 0)) = 0"
  by code_simp

lemma lfsr7_returns: "(lfsr7_step ^^ 127) 0 = 0"
proof -
  have "last (lfsr7_orbit 127 0) = (lfsr7_step ^^ 126) 0"
    using lfsr7_orbit_nth[of 126 127 0] by (simp add: last_conv_nth flip: length_0_conv)
  then show ?thesis
    using lfsr7_orbit_closes by (metis funpow.simps(2) comp_apply numeral_eq_Suc pred_numeral_simps(3)
        pred_numeral_simps(2) eval_nat_numeral(3) BitM.simps(1) semiring_norm(26))
qed

lemma funpow_mod_returns: "(f ^^ N) x = x \<Longrightarrow> (f ^^ k) x = (f ^^ (k mod N)) x"
  by (metis funpow_mod_eq)

lemma cycle_period:
  assumes returns: "(f ^^ N) x = x" and N: "0 < N"
    and inj: "\<And>i j. i < N \<Longrightarrow> j < N \<Longrightarrow> (f ^^ i) x = (f ^^ j) x \<Longrightarrow> i = j"
  shows "(f ^^ k) ((f ^^ j) x) = (f ^^ j) x \<longleftrightarrow> N dvd k"
proof -
  have "(f ^^ k) ((f ^^ j) x) = (f ^^ ((k + j) mod N)) x"
    using funpow_mod_returns[OF returns, of "k + j"] by (simp add: funpow_add)
  moreover have "(f ^^ j) x = (f ^^ (j mod N)) x" by (rule funpow_mod_returns[OF returns])
  ultimately have "(f ^^ k) ((f ^^ j) x) = (f ^^ j) x \<longleftrightarrow> (k + j) mod N = j mod N"
    using inj[of "(k + j) mod N" "j mod N"] N by auto
  also have "\<dots> \<longleftrightarrow> N dvd k"
    by (simp add: mod_eq_dvd_iff_nat)
  finally show ?thesis .
qed

lemma lfsr7_period:
  assumes "0 \<le> x" "x \<le> 126"
  shows "(lfsr7_step ^^ k) x = x \<longleftrightarrow> 127 dvd k"
proof -
  have "x \<in> set (lfsr7_orbit 127 0)" using lfsr7_orbit_covers assms by auto
  then obtain j where j: "j < 127" "x = (lfsr7_step ^^ j) 0"
    by (metis in_set_conv_nth lfsr7_orbit_length lfsr7_orbit_nth)
  have inj: "i = i'" if "i < 127" "i' < 127" "(lfsr7_step ^^ i) 0 = (lfsr7_step ^^ i') 0" for i i'
    using that lfsr7_orbit_distinct by (metis distinct_conv_nth lfsr7_orbit_length lfsr7_orbit_nth)
  show ?thesis
    unfolding j(2) by (rule cycle_period[OF lfsr7_returns]) (use inj in auto)
qed

definition low7 :: "noise_signal \<Rightarrow> int" where
  "low7 n = uint (take_bit 7 (ns_lfsr_state n))"

lemma low7_table:
  "\<forall>x\<in>set [0..127]. uint (drop_bit 1 (word_of_int x :: u16)
      OR (if bit (word_of_int x :: u16) 0 = bit (word_of_int x :: u16) (Suc 0) then 64 else 0))
    = lfsr7_step x"
  by code_simp

lemma bit_64: "bit (64::u16) k \<longleftrightarrow> k = 6"
proof -
  have "(64::u16) = push_bit 6 1" by simp
  then show ?thesis by (simp only: bit_simps) auto
qed

lemma low7_bounds: "0 \<le> low7 n" "low7 n \<le> 127"
proof -
  have "take_bit 7 (uint (ns_lfsr_state n)) < 2 ^ 7" by (rule take_bit_int_less_exp)
  then show "low7 n \<le> 127" by (simp add: low7_def unsigned_take_bit_eq)
qed (simp add: low7_def)

lemma low7_step:
  assumes "ns_short_width_mode n"
  shows "low7 (step_channel4_lfsr n) = lfsr7_step (low7 n)"
proof -
  let ?w = "take_bit 7 (ns_lfsr_state n)"
  have "take_bit 7 (ns_lfsr_state (step_channel4_lfsr n))
      = drop_bit 1 ?w OR (if bit ?w 0 = bit ?w (Suc 0) then 64 else 0)"
  proof (rule bit_word_eqI)
    fix k assume "k < LENGTH(16)"
    show "bit (take_bit 7 (ns_lfsr_state (step_channel4_lfsr n))) k
        = bit (drop_bit 1 ?w OR (if bit ?w 0 = bit ?w (Suc 0) then 64 else 0)) k"
    proof (cases "k < 7")
      case True
      then show ?thesis
        using bit_lfsr_step [of k n] assms
          bit_64 [of k]
        by (cases "k = 6") (auto simp: bit_take_bit_iff bit_or_iff bit_drop_bit_eq)
    next
      case False
      then show ?thesis
        using bit_64 [of k] by (auto simp: bit_take_bit_iff bit_or_iff bit_drop_bit_eq)
    qed
  qed
  moreover have "?w = word_of_int (low7 n)" by (simp add: low7_def)
  moreover have "low7 n \<in> set [0..127]" using low7_bounds[of n] by simp
  ultimately show ?thesis
    using low7_table unfolding low7_def by metis
qed

lemma short_width_kept: "ns_short_width_mode (step_channel4_lfsr n) = ns_short_width_mode n"
  by (simp add: step_channel4_lfsr_def Let_def)

lemma low7_steps:
  assumes "ns_short_width_mode n"
  shows "ns_short_width_mode ((step_channel4_lfsr ^^ k) n)
    \<and> low7 ((step_channel4_lfsr ^^ k) n) = (lfsr7_step ^^ k) (low7 n)"
  using assms by (induction k) (simp_all add: short_width_kept low7_step)

lemma lfsr7_stuck: "(lfsr7_step ^^ k) 127 = 127"
  by (induction k) (simp_all add: lfsr7_step_def)

text \<open>The short noise has period 127: in the 7-bit mode the low seven bits of the shift
  register, from any value but all ones, come back to that value after exactly the multiples of
  127 steps, so every one of the 127 values is visited; all ones is the only value that locks.\<close>

theorem short_noise_has_period_127:
  assumes "ns_short_width_mode n"
  shows "(take_bit 7 (ns_lfsr_state ((step_channel4_lfsr ^^ k) n)) = take_bit 7 (ns_lfsr_state n))
    = (127 dvd k \<or> take_bit 7 (ns_lfsr_state n) = 127)"
proof -
  have eq: "(take_bit 7 (ns_lfsr_state ((step_channel4_lfsr ^^ k) n)) = take_bit 7 (ns_lfsr_state n))
      = ((lfsr7_step ^^ k) (low7 n) = low7 n)"
    using low7_steps[OF assms, of k] by (simp add: low7_def word_uint_eq_iff)
  have stuck: "take_bit 7 (ns_lfsr_state n) = 127 \<longleftrightarrow> low7 n = 127"
    by (simp add: low7_def word_uint_eq_iff)
  show ?thesis
  proof (cases "low7 n = 127")
    case True
    then show ?thesis using eq stuck lfsr7_stuck by simp
  next
    case False
    then have "0 \<le> low7 n" "low7 n \<le> 126" using low7_bounds[of n] by auto
    then show ?thesis using eq stuck False lfsr7_period by simp
  qed
qed

lemma short_noise_has_period_127_witness:
  "take_bit 7 (ns_lfsr_state ((step_channel4_lfsr ^^ 127)
     (noise_signal_default\<lparr>ns_short_width_mode := True\<rparr>))) = 0"
  using short_noise_has_period_127[of "noise_signal_default\<lparr>ns_short_width_mode := True\<rparr>" 127]
  by (simp add: noise_signal_default_def)

subsection \<open>The fade-out of a converter\<close>

lemma scale_monotone:
  assumes "0 \<le> f" "f \<le> g" "g \<le> 65536" "\<bar>v\<bar> \<le> ANALOG_ONE"
  shows "\<bar>scale_by_q16 v f\<bar> \<le> \<bar>scale_by_q16 v g\<bar>"
proof -
  have half: "(65536::int) sdiv 2 = 32768" by (simp add: sdiv_pos)
  have small: "(y * h + 32768) div 65536 \<le> y" if "0 \<le> y" "0 \<le> h" "h \<le> 65536" for y h :: int
  proof -
    have "y * h \<le> y * 65536" using that by (simp add: mult_left_mono)
    then have "(y * h + 32768) div 65536 \<le> (y * 65536 + 32768) div 65536"
      by (intro zdiv_mono1) auto
    then show ?thesis by simp
  qed
  have closed: "\<bar>scale_by_q16 v h\<bar> = (\<bar>v\<bar> * h + 32768) div 65536" if "0 \<le> h" "h \<le> 65536" for h
  proof (cases "0 \<le> v")
    case True
    then have "0 \<le> v * h" "0 \<le> (v * h + 32768) div 65536"
      using that by (simp_all add: pos_imp_zdiv_nonneg_iff)
    moreover have "(v * h + 32768) div 65536 \<le> v" by (rule small[OF True that])
    ultimately show ?thesis
      using True assms(4)
      by (simp add: scale_by_q16_def divide_and_round_i64_def DAC_FADE_FACTOR_ONE_def half sdiv_pos
          as_i32_id output_consts)
  next
    case False
    show ?thesis
    proof (cases "h = 0")
      case True
      then show ?thesis
        by (simp add: scale_by_q16_def divide_and_round_i64_def DAC_FADE_FACTOR_ONE_def half sdiv_pos
            as_i32_id)
    next
      case h: False
      then have neg: "v * h < 0" using False that by (simp add: mult_less_0_iff)
      have sd: "(v * h - 32768) sdiv 65536 = - ((- v * h + 32768) div 65536)"
        using neg by (simp add: sdiv_neg)
      have "0 \<le> (- v * h + 32768) div 65536"
        using neg by (simp add: pos_imp_zdiv_nonneg_iff)
      moreover have "(- v * h + 32768) div 65536 \<le> - v"
        using small[of "- v" h] False that by simp
      ultimately show ?thesis
        using neg False assms(4)
        by (simp add: scale_by_q16_def divide_and_round_i64_def DAC_FADE_FACTOR_ONE_def half sd
            as_i32_id output_consts)
    qed
  qed
  have "\<bar>v\<bar> * f \<le> \<bar>v\<bar> * g" using assms by (simp add: mult_left_mono)
  then have "(\<bar>v\<bar> * f + 32768) div 65536 \<le> (\<bar>v\<bar> * g + 32768) div 65536"
    by (intro zdiv_mono1) auto
  moreover have "\<bar>scale_by_q16 v f\<bar> = (\<bar>v\<bar> * f + 32768) div 65536"
    using assms(1-3) by (intro closed) auto
  moreover have "\<bar>scale_by_q16 v g\<bar> = (\<bar>v\<bar> * g + 32768) div 65536"
    using assms(1-3) by (intro closed) auto
  ultimately show ?thesis by (simp only:)
qed

lemma scale_one: "\<bar>v\<bar> \<le> ANALOG_ONE \<Longrightarrow> \<bar>scale_by_q16 v 65536\<bar> \<le> \<bar>v\<bar>"
  by (rule rounded_between) simp_all

definition fade_factor :: "u16 \<Rightarrow> int" where
  "fade_factor r = smooth_factor_q16 r 210"

lemma fade_factor_step:
  assumes "r \<le> 210" "r \<noteq> 0"
  shows "0 \<le> fade_factor (r - 1) \<and> fade_factor (r - 1) \<le> fade_factor r \<and> fade_factor r \<le> 65536"
proof (cases "r = 1 \<or> r = 210")
  case True
  have "r - 1 \<le> 210" using assms by (auto simp: word_le_nat_alt unat_minus_one)
  then show ?thesis
    using True smooth_factor_bounds[of "r - 1"] smooth_factor_bounds[of r] assms
    by (auto simp: fade_factor_def smooth_factor_q16_def output_consts)
next
  case False
  have pred: "unat (r - 1) = unat r - 1" using assms(2) by (rule unat_minus_one)
  have n: "1 < unat r" "unat r < 210"
    using False assms by (auto simp: word_le_nat_alt word_unat_eq_iff intro: Suc_lessI le_neq_trans)
  then have "r < 210" "r - 1 \<noteq> 0" "r - 1 < 210"
    using pred by (auto simp: word_less_nat_alt word_unat_eq_iff)
  then have eq: "fade_factor r = fade_curve (unat (r - 1) + 1)"
    "fade_factor (r - 1) = fade_curve (unat (r - 1))"
    using smooth_factor_value[OF assms(2)] smooth_factor_value[of "r - 1"] pred n
    by (simp_all add: fade_factor_def)
  have "unat (r - 1) \<in> set [1..<209]" using pred n by auto
  then have "fade_factor (r - 1) \<le> fade_factor r" using fade_curve_monotone eq by metis
  moreover have "unat (r - 1) \<in> set [1..<210]" "unat (r - 1) + 1 \<in> set [1..<210]"
    using pred n by auto
  then have "0 \<le> fade_factor (r - 1)" "fade_factor r \<le> 65536"
    using fade_curve_table unfolding eq by blast+
  ultimately show ?thesis by simp
qed

definition fading :: "dac_channel_state \<Rightarrow> bool" where
  "fading d \<longleftrightarrow> \<bar>dac_discharge_source_output d\<bar> \<le> ANALOG_ONE
     \<and> dac_discharge_remaining_t_cycles d \<le> 210
     \<and> (dac_current_output d = 0
        \<or> dac_discharge_remaining_t_cycles d \<noteq> 0
          \<and> \<bar>scale_by_q16 (dac_discharge_source_output d)
               (fade_factor (dac_discharge_remaining_t_cycles d))\<bar> \<le> \<bar>dac_current_output d\<bar>)"

lemma fading_start: "fading (snd (dac_set_enabled_output v 210 d))"
  using dac_analog_bound[of v] scale_one[of "dac_analog_output v"]
  by (simp add: fading_def dac_set_enabled_output_def Let_def fade_factor_def smooth_factor_q16_def
      DAC_FADE_FACTOR_ONE_def)

lemma fading_tick:
  assumes "fading d"
  shows "fading (snd (dac_tick False v 210 d))
    \<and> \<bar>dac_current_output (snd (dac_tick False v 210 d))\<bar> \<le> \<bar>dac_current_output d\<bar>
    \<and> unat (dac_discharge_remaining_t_cycles (snd (dac_tick False v 210 d)))
        = unat (dac_discharge_remaining_t_cycles d) - 1
      \<or> dac_current_output (snd (dac_tick False v 210 d)) = 0
        \<and> dac_discharge_remaining_t_cycles (snd (dac_tick False v 210 d)) = 0
        \<and> fading (snd (dac_tick False v 210 d))"
proof (cases "dac_current_output d = 0 \<or> dac_discharge_remaining_t_cycles d = 0")
  case True
  then show ?thesis by (simp add: dac_tick_def fading_def output_consts)
next
  case False
  let ?r = "dac_discharge_remaining_t_cycles d"
  have r: "?r \<noteq> 0" "?r \<le> 210" using False assms by (auto simp: fading_def)
  have pred: "unat (?r - 1) = unat ?r - 1" using r(1) by (rule unat_minus_one)
  then have le: "?r - 1 \<le> 210" using r by (simp add: word_le_nat_alt)
  show ?thesis
  proof (cases "?r - 1 = 0")
    case True
    then show ?thesis using False assms by (simp add: dac_tick_def fading_def output_consts)
  next
    case later: False
    let ?s = "dac_discharge_source_output d"
    have "\<bar>scale_by_q16 ?s (fade_factor (?r - 1))\<bar> \<le> \<bar>scale_by_q16 ?s (fade_factor ?r)\<bar>"
      using fade_factor_step[OF r(2,1)] assms by (intro scale_monotone) (auto simp: fading_def)
    also have "\<dots> \<le> \<bar>dac_current_output d\<bar>" using assms False by (simp add: fading_def)
    finally show ?thesis
      using False later assms le pred
      by (simp add: dac_tick_def fading_def Let_def fade_factor_def)
  qed
qed

lemma fading_run:
  assumes "fading d"
  shows "fading (((\<lambda>d. snd (dac_tick False v 210 d)) ^^ k) d)
    \<and> (dac_current_output (((\<lambda>d. snd (dac_tick False v 210 d)) ^^ k) d) = 0
       \<or> unat (dac_discharge_remaining_t_cycles (((\<lambda>d. snd (dac_tick False v 210 d)) ^^ k) d))
           = unat (dac_discharge_remaining_t_cycles d) - k)"
proof (induction k)
  case 0
  then show ?case using assms by simp
next
  case (Suc k)
  let ?d = "((\<lambda>d. snd (dac_tick False v 210 d)) ^^ k) d"
  have "fading ?d" using Suc by simp
  from fading_tick[OF this, of v] Suc show ?case by auto
qed

text \<open>A converter that is switched off fades out: from the level it had, whatever its
  digital input, its output never grows in magnitude from one T-cycle to the next, and it is
  exactly zero from the 210th T-cycle on.\<close>

theorem switched_off_dac_fades_out:
  "let level = (\<lambda>k. dac_current_output (((\<lambda>d. snd (dac_tick False w DAC_OFF_FADE_T_CYCLES d)) ^^ k)
                 (snd (dac_set_enabled_output v DAC_OFF_FADE_T_CYCLES d))))
   in level 0 = dac_analog_output v \<and> \<bar>level (Suc k)\<bar> \<le> \<bar>level k\<bar> \<and> level (210 + k) = 0"
proof -
  let ?t = "\<lambda>d. snd (dac_tick False w 210 d)"
  let ?d = "snd (dac_set_enabled_output v 210 d)"
  have run: "fading ((?t ^^ j) ?d) \<and> (dac_current_output ((?t ^^ j) ?d) = 0
      \<or> unat (dac_discharge_remaining_t_cycles ((?t ^^ j) ?d)) = 210 - j)" for j
    using fading_run[OF fading_start[of v d], of j w] by (simp add: dac_set_enabled_output_def Let_def)
  have "dac_current_output ((?t ^^ (210 + k)) ?d) = 0"
    using run[of "210 + k"] by (auto simp: fading_def unat_eq_0)
  moreover have "\<bar>dac_current_output ((?t ^^ Suc k) ?d)\<bar> \<le> \<bar>dac_current_output ((?t ^^ k) ?d)\<bar>"
    using fading_tick[of "(?t ^^ k) ?d" w] run[of k] by auto
  moreover have "dac_current_output ?d = dac_analog_output v"
    by (simp add: dac_set_enabled_output_def Let_def)
  ultimately show ?thesis by (simp add: DAC_OFF_FADE_T_CYCLES_def Let_def)
qed

subsection \<open>Period writes while a sweep reload is pending\<close>

text \<open>In the second half of the reload window of a DMG sweep a write to NR14 without a
  trigger derives the increment of the pending calculation from the new period, and a write to
  NR13 changes the period but leaves the increment as it was, although the comment in
  \<open>dmg_schedule_recalculation_post_writeback\<close> says that both re-derive it.\<close>

theorem nr13_write_keeps_the_sweep_increment:
  assumes "is_dmg_family m" "rc_reload_countdown (sw_recalculation (ch1_sweep c)) = 1"
    and "rc_reload_period_reloaded (sw_recalculation (ch1_sweep c))"
    and "v AND 0x80 = 0" "sweep_shift_from_nr10 (ch1_nr10 c) \<noteq> 0"
    and "\<not> sweep_decreases_from_nr10 (ch1_nr10 c)"
  shows "let increment = (\<lambda>c. rc_increment (sw_recalculation (ch1_sweep c)));
         by_nr13 = ch1_write_nr13 v m c; by_nr14 = ch1_write_nr14 v m revision s step c
     in ch1_nr13 by_nr13 = v \<and> increment by_nr13 = increment c
        \<and> increment by_nr14
          = drop_bit (unat (sweep_shift_from_nr10 (ch1_nr10 c))) (ch1_period_value by_nr14)"
  using assms
  by (auto simp: ch1_write_nr13_def ch1_write_nr14_def Let_def ch1_map_recalculation_def
      ch1_map_pulse_def sw_map_recalculation_def begin_nrx4_write_def nrx4_write_context_def
      ch1_write_nr14_without_trigger_def ch1_period_value_def CHANNEL_TRIGGER_BIT_def
      split: prod.splits)

definition pending_recalculation :: channel1_state where
  "pending_recalculation =
     channel1_default\<lparr>ch1_nr10 := 0x01,
       ch1_sweep := sweep_default\<lparr>sw_recalculation :=
         recalculation_default\<lparr>rc_reload_countdown := 1, rc_reload_period_reloaded := True\<rparr>\<rparr>\<rparr>"

lemma nr13_write_keeps_the_sweep_increment_witness:
  "rc_increment (sw_recalculation (ch1_sweep (ch1_write_nr13 0x55 GameBoy pending_recalculation)))
     = rc_increment (sw_recalculation (ch1_sweep pending_recalculation))"
proof -
  have "is_dmg_family GameBoy" "rc_reload_countdown (sw_recalculation (ch1_sweep pending_recalculation)) = 1"
    "rc_reload_period_reloaded (sw_recalculation (ch1_sweep pending_recalculation))"
    "(0x55::u8) AND 0x80 = 0" "sweep_shift_from_nr10 (ch1_nr10 pending_recalculation) \<noteq> 0"
    "\<not> sweep_decreases_from_nr10 (ch1_nr10 pending_recalculation)"
    by (simp_all add: pending_recalculation_def is_dmg_family_def sweep_shift_from_nr10_def
        sweep_decreases_from_nr10_def)
  from nr13_write_keeps_the_sweep_increment [OF this] show ?thesis by (simp add: Let_def)
qed

end
