(* ===== verification/Spec2Isabelle.thy ===== *)
theory Spec2Isabelle
  imports Cpu_Timing Cpu_Arith Cpu_Decode Machine_Step Gb_Serial Gb_Scheduler Gb_Joypad Gb_Timer
    Gb_Interrupts Gb_Speed Gb_Model Cart_Clocks Cart_Load Dma_Blocks Boot_Laws
    Bus_Properties Apu_Properties Apu_Signals
begin

text \<open>
  A verification library for the core of the gb-cycle emulator, the crate
  \<open>src/crates/gb-core\<close>: a cycle-accurate Game Boy and Game Boy Color. The program advances a
  machine one T-cycle at a time; in each T-cycle the scheduler runs the components in fixed
  phases, and they exchange the events of that T-cycle in bounded buffers of the cycle context.
  File names below are relative to \<open>src/crates/gb-core/src\<close>.

  \<^bold>\<open>Conventions\<close>

  \<^item> A Rust integer is a word of its width (\<open>u8\<close>, \<open>u16\<close>, \<open>u32\<close>, \<open>u64\<close>), so that \<open>+\<close> wraps as
    \<open>wrapping_add\<close> does; where the Rust operator would panic on overflow the invariants show
    that it does not overflow. Signed arithmetic of the audio path and the clocks is on
    integers, with the narrowing casts (\<open>as_i32\<close>) written out. An index is a natural number.
  \<^item> A struct is a record, an enum a datatype, an operation on \<open>&mut self\<close> a function that takes
    the record last and returns the updated one (with the results in front of it).
  \<^item> What can panic (\<open>unreachable!\<close>, \<open>expect\<close>, an index out of range) or fail returns
    \<open>'a res\<close>, that is a sum whose left side is the error; it composes with \<open>res_bind\<close>.
  \<^item> What a component calls in a component that is not modelled is a record of functions, an
    argument of the definitions: \<open>services\<close> of the machine step (bus answers, PPU requests),
    \<open>io_services\<close> of the bus (PPU registers; the sound registers are supplied by
    \<open>apu_services\<close>), and the byte of the serial peer. The theorems hold for all of them.

  \<^bold>\<open>The theories\<close>

  \<^item> \<open>Gb_Prelude\<close>: words, the result type, lists as fixed arrays, and their lemmas.
  \<^item> \<open>Gb_Model\<close> (\<open>model.rs\<close>), \<open>Gb_Scheduler\<close> (\<open>scheduler.rs\<close>), \<open>Gb_Speed\<close> (\<open>speed.rs\<close>),
    \<open>Gb_Interrupts\<close> (\<open>interrupts.rs\<close>), \<open>Gb_Timer\<close> (\<open>timer.rs\<close>), \<open>Gb_Joypad\<close> (\<open>joypad.rs\<close>),
    \<open>Gb_Serial\<close> (\<open>serial.rs\<close>): one small component each, with all of its operations. The
    record buffers of the cycle context are a bounded queue (locale \<open>cycle_queue\<close>).
  \<^item> \<open>Cpu_Types\<close>, \<open>Cpu_Alu\<close>, \<open>Cpu_Decode\<close>, \<open>Cpu_Bus\<close>, \<open>Cpu_Control\<close>, \<open>Cpu_Execute\<close>,
    \<open>Cpu_Cycle\<close> (\<open>cpu.rs\<close> and \<open>cpu/\<close>): the SM83 core as a machine that does the work of one
    T-cycle at a time. \<open>Cpu_Invariant\<close> and \<open>Cpu_Progress\<close> keep its invariant for every port
    that answers (locale \<open>cpu_port\<close>, interpreted in \<open>Machine_Step\<close>); \<open>Cpu_Arith\<close> compares the
    arithmetic with integer and decimal arithmetic, \<open>Cpu_Timing\<close> the durations with a table.
  \<^item> \<open>Machine_Step\<close> (\<open>machine/step.rs\<close>): the derived-edge, CPU, interrupt aggregation and wake
    evaluation phases over the core, the speed controller, timer, serial port and joypad.
  \<^item> \<open>Cart_Header\<close>, \<open>Cart_Types\<close>, \<open>Cart_Parse\<close>, \<open>Cart_Classify\<close>, \<open>Cart_Validate\<close> (\<open>cartridge.rs\<close>,
    \<open>cartridge/header.rs\<close>, \<open>classify.rs\<close>, \<open>validate.rs\<close>): from the bytes of a file to a header,
    a mapper and a checked image. \<open>Cart_Plain\<close>, \<open>Cart_Mbc1\<close>, \<open>Cart_Mbc2\<close>, \<open>Cart_Mbc3\<close>,
    \<open>Cart_Mbc5\<close>, \<open>Cart_Mbc6\<close>, \<open>Cart_Mbc7\<close>, \<open>Cart_Mmm01\<close>, \<open>Cart_Huc1\<close>, \<open>Cart_Huc3\<close>,
    \<open>Cart_Camera\<close>: the mappers, each against the locales of \<open>Cart_Mapper\<close> (a ROM whose windows
    agree with its reads, RAM that keeps what was written, saves that load back).
    \<open>Cart_Device\<close> dispatches over them, \<open>Cart_Laws\<close> holds what is true of every mapper,
    \<open>Cart_Save\<close> and \<open>Cart_Rewind\<close> the run-time save states, \<open>Cart_Slot\<close> and \<open>Cart_Load\<close> the
    slot and loading, \<open>Cart_Clocks\<close> the real-time clock, \<open>Cart_Samples\<close> concrete cartridges.
  \<^item> \<open>Bus_Map\<close>, \<open>Bus_Memory\<close>, \<open>Bus_Io\<close>, \<open>Bus_Dispatch\<close>, \<open>Bus_Access\<close> (\<open>bus.rs\<close>, \<open>bus/\<close>): the
    address map, the memories (locale \<open>cell_memory\<close>), the I/O page, who may access what, and
    the timed accesses with their fast paths; \<open>Bus_Laws\<close> and \<open>Bus_Properties\<close> what they keep.
  \<^item> \<open>Dma\<close> (\<open>dma.rs\<close>) with \<open>Dma_Laws\<close>, \<open>Dma_Safety\<close>, \<open>Dma_Blocks\<close>: OAM, general-purpose and
    HBlank DMA, which bytes they move when, and what they can reach.
  \<^item> \<open>Boot_Rom\<close>, \<open>Boot_Startup\<close>, \<open>Boot_Laws\<close> (\<open>boot.rs\<close>): boot ROM images, the boot
    controller, and the state every console starts in when the boot ROM is skipped.
  \<^item> \<open>Apu_Common\<close>, \<open>Apu_Pulse\<close>, \<open>Apu_Sweep\<close>, \<open>Apu_Wave\<close>, \<open>Apu_Noise_Live\<close>, \<open>Apu_Noise\<close>,
    \<open>Apu_Output\<close>, \<open>Apu_Core\<close> (\<open>apu.rs\<close>, \<open>apu/\<close>): the four sound channels, the frame sequencer,
    the converters, mixer and high-pass filter, and the registers. \<open>Apu_Laws\<close> has the
    invariant and the counters, \<open>Apu_Signals\<close> what is played, \<open>Apu_Properties\<close> the registers
    seen through the bus.

  \<^bold>\<open>What is shown\<close>

  \<^item> Invariants and absence of panics: the core under any port, the timer, every cartridge,
    every bus access by every master, the DMA controller, the sound unit along every history.
  \<^item> Function: the arithmetic and the decoder against independent definitions; the timer, the
    serial port, the MBC3 clock, OAM and VRAM DMA, the length counters, pulse and noise
    generators to the exact T-cycle or clock; registers read back through the bus.
  \<^item> Refinement: buffers are bounded queues, work RAM with its echo and banks and the EEPROM of
    the MBC7 are memories, an accepted save state is restored exactly, the fast paths of the bus
    give what the general resolution gives.
  \<^item> Where the code and its comments disagree, or a corner does not do what it is for, a theorem
    states what the code does: the ROM window of a permissively loaded MBC5 image, the block an
    FF46 write makes HBlank DMA repeat, VRAM bank 1 in the compatibility mode, and the sweep
    increment an NR13 write leaves alone.

  \<^bold>\<open>Bounds\<close>

  There is no fuel: every loop of the modelled code is over a fixed array or a given list. The
  bounds in the statements are the code's own: at most 24 T-cycles (six machine cycles) until the
  core rests, 16 entries per buffer of the cycle context, 65540 T-cycles for the pause of a speed
  switch, 160 bytes of OAM DMA in 648 T-cycles, 210 T-cycles for the fade-out of a converter, and
  960000000 for the magnitude of an audio sample.

  \<^bold>\<open>Not modelled\<close>

  \<^item> The pixel pipeline (\<open>ppu.rs\<close>, \<open>ppu/\<close>): a large set of revision-specific dot-level policies
    and their rendering. The bus and the machine step take its registers and requests as services.
  \<^item> The Super Game Boy (\<open>sgb.rs\<close>, \<open>sgb/\<close>), link sessions (\<open>link/\<close>) and the devices on the
    serial port other than the peer byte (\<open>external_port.rs\<close>, the printer).
  \<^item> The composition of the whole machine (\<open>machine.rs\<close>, \<open>machine/access.rs\<close>), its serialisation
    and rewind buffer (\<open>save_state.rs\<close>, \<open>rewind.rs\<close>); the save states of the modelled components
    are with them.
  \<^item> In the sound unit the floating-point DC blocker and the band-limited sample capture; in the
    cartridge parser the lossy UTF-8 decoding of the title; everywhere texts, traces and debugger
    views, which observe and do not change the state.
  \<^item> The other crates: command line and desktop frontends, file persistence, test runner and
    benchmark, which are I/O around the core.
\<close>

end
